(* ===== verification/Prelude.thy ===== *)
theory Prelude
  imports Main "HOL-Library.Sublist" "HOL-Library.List_Lexorder" "HOL-Library.Char_ord"
    "HOL-Library.Code_Target_Numeral"
begin

text \<open>
  Prelude: what every component of the builder shares.

  A Go string or \<open>[]byte\<close> is a list of bytes, the type \<^typ>\<open>string\<close> here (a \<^typ>\<open>char\<close> is
  one byte).  A Go \<open>error\<close> is a value of \<open>go_error\<close> below; a function that returns
  \<open>(T, error)\<close> returns \<open>go_error + T\<close> (\<^const>\<open>Inl\<close> for a non-nil error), and one that
  returns only \<open>error\<close> returns \<open>go_error option\<close> with \<^const>\<open>None\<close> for nil.

  The theory holds the byte-level part of Go's package strings, decimal conversion, the
  character classes of the source's regular expressions, and the lemmas on them that the
  component proofs use.
\<close>

section \<open>Lemma collections\<close>

named_theorems go_split \<open>case splits on results and optional errors\<close>
named_theorems str_iff \<open>declarative characterisations of the string operations\<close>
named_theorems ids \<open>values of the constants that name diagnostics\<close>

section \<open>Errors and results\<close>

text \<open>Which Go error type carries a diagnostic ID.\<close>

datatype err_kind =
    KIdentity       \<comment> \<open>identity.ValidationError\<close>
  | KPolicy         \<comment> \<open>policy.ValidationError\<close>
  | KProvenance     \<comment> \<open>provenance.ValidationError\<close>
  | KAttestation    \<comment> \<open>attestation.VerificationError\<close>
  | KContract       \<comment> \<open>diagnostic.ContractError\<close>
  | KDrift          \<comment> \<open>toolchainpins.DriftError\<close>
  | KHandoff        \<comment> \<open>handoff.VerificationError\<close>
  | KNpm            \<comment> \<open>npmprofile.npmProvenanceValidationError\<close>
  | KDigestMismatch \<comment> \<open>npmprofile.packageManagerDigestMismatchError\<close>
  | KPublish        \<comment> \<open>npmprofile.PublishError\<close>

text \<open>
  \<open>ErrText\<close> is errors.New or fmt.Errorf without a wrapped error (the format and the rendered
  arguments), \<open>ErrWrap\<close> is fmt.Errorf with \<open>%w\<close> or errors.Join, \<open>ErrDuplicateMember\<close> is
  canonicaljson.DuplicateMemberError, and \<open>ErrDiag\<close> an error type with an ID, a field, a
  message, policy sources and the errors it unwraps to.
\<close>

datatype go_error =
    ErrText string "string list"
  | ErrWrap string "string list" "go_error list"
  | ErrDuplicateMember string nat
  | ErrDiag err_kind string string string "string list" "go_error list"

type_synonym 'a result = "go_error + 'a"

abbreviation is_ok :: "'a result \<Rightarrow> bool" where
  "is_ok r \<equiv> \<not> isl r"

lemma is_ok_iff: "is_ok r \<longleftrightarrow> (\<exists>x. r = Inr x)"
  by (cases r) auto

fun map_result :: "('a \<Rightarrow> 'b) \<Rightarrow> 'a result \<Rightarrow> 'b result" where
  "map_result f (Inl e) = Inl e"
| "map_result f (Inr x) = Inr (f x)"

fun bind_result :: "'a result \<Rightarrow> ('a \<Rightarrow> 'b result) \<Rightarrow> 'b result" where
  "bind_result (Inl e) f = Inl e"
| "bind_result (Inr x) f = f x"

text \<open>\<open>if err := check; err != nil { return err }\<close> in front of a continuation.\<close>

fun guarded :: "go_error option \<Rightarrow> 'a result \<Rightarrow> 'a result" where
  "guarded None r = r"
| "guarded (Some e) r = Inl e"

text \<open>The same between two functions that return only an error.\<close>

fun and_then :: "go_error option \<Rightarrow> go_error option \<Rightarrow> go_error option" where
  "and_then None r = r"
| "and_then (Some e) r = Some e"

lemma bind_result_Inr [simp]: "bind_result r f = Inr y \<longleftrightarrow> (\<exists>x. r = Inr x \<and> f x = Inr y)"
  by (cases r) auto

lemma guarded_Inr [simp]: "guarded e r = Inr y \<longleftrightarrow> e = None \<and> r = Inr y"
  by (cases e) auto

lemma and_then_None [simp]: "and_then e r = None \<longleftrightarrow> e = None \<and> r = None"
  by (cases e) auto

lemma map_result_Inr [simp]: "map_result f r = Inr y \<longleftrightarrow> (\<exists>x. r = Inr x \<and> y = f x)"
  by (cases r) auto

lemmas [go_split] = sum.splits option.splits if_splits prod.splits

section \<open>Bytes\<close>

definition byte :: "char \<Rightarrow> nat" where
  "byte c = of_char c"

lemma byte_less [simp]: "byte c < 256"
  unfolding byte_def by (cases c) (simp add: of_char_def)

lemma byte_inject [simp]: "byte c = byte d \<longleftrightarrow> c = d"
  by (simp add: byte_def)

lemma char_of_byte [simp]: "char_of (byte c) = c"
  by (simp add: byte_def)

definition is_digit :: "char \<Rightarrow> bool" where
  "is_digit c \<longleftrightarrow> 48 \<le> byte c \<and> byte c \<le> 57"

definition is_lower :: "char \<Rightarrow> bool" where
  "is_lower c \<longleftrightarrow> 97 \<le> byte c \<and> byte c \<le> 122"

definition is_upper :: "char \<Rightarrow> bool" where
  "is_upper c \<longleftrightarrow> 65 \<le> byte c \<and> byte c \<le> 90"

definition is_lower_hex :: "char \<Rightarrow> bool" where
  "is_lower_hex c \<longleftrightarrow> is_digit c \<or> (97 \<le> byte c \<and> byte c \<le> 102)"

definition is_alnum :: "char \<Rightarrow> bool" where
  "is_alnum c \<longleftrightarrow> is_digit c \<or> is_lower c \<or> is_upper c"

text \<open>ASCII case mapping, which is what strings.ToLower does to a byte below 128.\<close>

definition lower_char :: "char \<Rightarrow> char" where
  "lower_char c = (if is_upper c then char_of (byte c + 32) else c)"

definition upper_char :: "char \<Rightarrow> char" where
  "upper_char c = (if is_lower c then char_of (byte c - 32) else c)"

lemma byte_char_of: "n < 256 \<Longrightarrow> byte (char_of (n :: nat)) = n"
  by (simp add: byte_def)

lemma byte_lower_char: "byte (lower_char c) = (if is_upper c then byte c + 32 else byte c)"
  unfolding lower_char_def by (simp add: byte_char_of is_upper_def)

lemma lower_char_idem [simp]: "lower_char (lower_char c) = lower_char c"
  by (simp only: byte_inject [symmetric] byte_lower_char) (simp add: is_upper_def byte_lower_char)

end
