(* ===== verification/Strings.thy ===== *)
theory Strings
  imports Prelude
begin

text \<open>
  The part of Go's packages strings, strconv and regexp that the builder uses, on byte lists:
  prefixes and suffixes, \<open>Cut\<close>, \<open>Split\<close>, \<open>Contains\<close>, decimal numbers, and the anchored
  character-class patterns of the source (\<open>^[0-9a-f]{40}$\<close> and its kin).
\<close>

section \<open>Prefixes and suffixes\<close>

fun HasPrefix :: "string \<Rightarrow> string \<Rightarrow> bool" where
  "HasPrefix s [] = True"
| "HasPrefix [] (p # ps) = False"
| "HasPrefix (c # cs) (p # ps) = (c = p \<and> HasPrefix cs ps)"

definition HasSuffix :: "string \<Rightarrow> string \<Rightarrow> bool" where
  "HasSuffix s p = HasPrefix (rev s) (rev p)"

definition CutPrefix :: "string \<Rightarrow> string \<Rightarrow> string option" where
  "CutPrefix s p = (if HasPrefix s p then Some (drop (length p) s) else None)"

definition CutSuffix :: "string \<Rightarrow> string \<Rightarrow> string option" where
  "CutSuffix s p = (if HasSuffix s p then Some (take (length s - length p) s) else None)"

definition TrimPrefix :: "string \<Rightarrow> string \<Rightarrow> string" where
  "TrimPrefix s p = (case CutPrefix s p of None \<Rightarrow> s | Some r \<Rightarrow> r)"

definition TrimSuffix :: "string \<Rightarrow> string \<Rightarrow> string" where
  "TrimSuffix s p = (case CutSuffix s p of None \<Rightarrow> s | Some r \<Rightarrow> r)"

lemma HasPrefix_iff [str_iff]: "HasPrefix s p \<longleftrightarrow> (\<exists>r. s = p @ r)"
  by (induction s p rule: HasPrefix.induct) auto

lemma HasPrefix_append [simp]: "HasPrefix (p @ r) p"
  by (auto simp: HasPrefix_iff)

lemma HasSuffix_iff [str_iff]: "HasSuffix s p \<longleftrightarrow> (\<exists>r. s = r @ p)"
proof -
  have "HasSuffix s p \<longleftrightarrow> (\<exists>r. rev s = rev p @ r)"
    by (simp add: HasSuffix_def HasPrefix_iff)
  also have "\<dots> \<longleftrightarrow> (\<exists>r. s = r @ p)"
    by (metis rev_append rev_rev_ident)
  finally show ?thesis .
qed

lemma HasSuffix_append [simp]: "HasSuffix (r @ p) p"
  by (auto simp: HasSuffix_iff)

lemma CutPrefix_Some [str_iff]: "CutPrefix s p = Some r \<longleftrightarrow> s = p @ r"
  by (auto simp: CutPrefix_def HasPrefix_iff)

lemma CutPrefix_append [simp]: "CutPrefix (p @ r) p = Some r"
  by (simp add: CutPrefix_Some)

lemma CutPrefix_None: "CutPrefix s p = None \<longleftrightarrow> \<not> HasPrefix s p"
  by (simp add: CutPrefix_def)

lemma CutSuffix_Some [str_iff]: "CutSuffix s p = Some r \<longleftrightarrow> s = r @ p"
  by (auto simp: CutSuffix_def HasSuffix_iff)

lemma CutSuffix_append [simp]: "CutSuffix (r @ p) p = Some r"
  by (simp add: CutSuffix_Some)

lemma TrimPrefix_append [simp]: "TrimPrefix (p @ r) p = r"
  by (simp add: TrimPrefix_def)

lemma TrimSuffix_append [simp]: "TrimSuffix (r @ p) p = r"
  by (simp add: TrimSuffix_def)

lemma TrimPrefix_no_prefix: "\<not> HasPrefix s p \<Longrightarrow> TrimPrefix s p = s"
  by (simp add: TrimPrefix_def CutPrefix_def)

section \<open>Containment\<close>

fun Contains :: "string \<Rightarrow> string \<Rightarrow> bool" where
  "Contains [] sub = (sub = [])"
| "Contains (c # cs) sub = (HasPrefix (c # cs) sub \<or> Contains cs sub)"

lemma Contains_iff [str_iff]: "Contains s sub \<longleftrightarrow> (\<exists>a b. s = a @ sub @ b)"
proof (induction s)
  case Nil
  show ?case by auto
next
  case (Cons c cs)
  have "(\<exists>a b. c # cs = a @ sub @ b) \<longleftrightarrow>
    (\<exists>b. c # cs = sub @ b) \<or> (\<exists>a b. cs = a @ sub @ b)"
    by (metis append_Cons append_Nil list.inject neq_Nil_conv)
  with Cons show ?case by (simp add: HasPrefix_iff)
qed

lemma Contains_char [simp]: "Contains s [c] \<longleftrightarrow> c \<in> set s"
  by (induction s) (auto split: list.splits, (metis HasPrefix.simps(1))?)

definition ContainsAny :: "string \<Rightarrow> string \<Rightarrow> bool" where
  "ContainsAny s chars = list_ex (\<lambda>c. c \<in> set chars) s"

lemma ContainsAny_iff [str_iff]: "ContainsAny s chars \<longleftrightarrow> set s \<inter> set chars \<noteq> {}"
  by (auto simp: ContainsAny_def list_ex_iff)

lemma Contains_append_left: "Contains a sub \<Longrightarrow> Contains (a @ b) sub"
  by (metis Contains_iff append.assoc)

lemma Contains_append_right: "Contains b sub \<Longrightarrow> Contains (a @ b) sub"
  by (metis Contains_iff append.assoc)

section \<open>Cut and Split\<close>

text \<open>\<open>before, after, found := strings.Cut(s, sep)\<close>: \<^const>\<open>None\<close> when not found.\<close>

fun Cut :: "string \<Rightarrow> string \<Rightarrow> (string \<times> string) option" where
  "Cut [] sep = (if sep = [] then Some ([], []) else None)"
| "Cut (c # cs) sep =
     (if HasPrefix (c # cs) sep then Some ([], drop (length sep) (c # cs))
      else map_option (\<lambda>(b, a). (c # b, a)) (Cut cs sep))"

lemma Cut_Some: "Cut s sep = Some (b, a) \<Longrightarrow> s = b @ sep @ a"
proof (induction s arbitrary: b)
  case Nil
  then show ?case by (simp split: if_splits)
next
  case (Cons c cs)
  show ?case
  proof (cases "HasPrefix (c # cs) sep")
    case True
    with Cons.prems have "b = []" and "a = drop (length sep) (c # cs)" by auto
    moreover obtain r where "c # cs = sep @ r" using True HasPrefix_iff by blast
    ultimately show ?thesis by simp
  next
    case False
    with Cons show ?thesis by auto
  qed
qed

lemma Cut_None: "Cut s sep = None \<longleftrightarrow> \<not> Contains s sep"
  by (induction s) auto

lemma Cut_absent [simp]: "c \<notin> set s \<Longrightarrow> Cut s [c] = None"
  by (simp add: Cut_None)

lemma Cut_char_Some: "Cut s [c] = Some (b, a) \<longleftrightarrow> s = b @ c # a \<and> c \<notin> set b"
proof (induction s arbitrary: b)
  case Nil
  show ?case by simp
next
  case (Cons d ds)
  show ?case
  proof (cases "d = c")
    case True
    then show ?thesis by (cases b) auto
  next
    case False
    then show ?thesis using Cons.IH by (cases b) auto
  qed
qed

lemma Cut_char_append [simp]: "c \<notin> set b \<Longrightarrow> Cut (b @ c # a) [c] = Some (b, a)"
  by (simp add: Cut_char_Some)

text \<open>Splitting at one byte, the common case of strings.Split.\<close>

fun split_on :: "char \<Rightarrow> string \<Rightarrow> string list" where
  "split_on sep [] = [[]]"
| "split_on sep (c # cs) =
     (if c = sep then [] # split_on sep cs
      else (case split_on sep cs of [] \<Rightarrow> [[c]] | w # ws \<Rightarrow> (c # w) # ws))"

fun join_with :: "string \<Rightarrow> string list \<Rightarrow> string" where
  "join_with sep [] = []"
| "join_with sep [w] = w"
| "join_with sep (w # v # ws) = w @ sep @ join_with sep (v # ws)"

lemma split_on_nonempty [simp]: "split_on sep s \<noteq> []"
  by (induction s) (auto split: list.splits)

lemma join_split_on [simp]: "join_with [sep] (split_on sep s) = s"
proof (induction s)
  case Nil
  show ?case by simp
next
  case (Cons c cs)
  show ?case
  proof (cases "split_on sep cs")
    case Nil
    then show ?thesis by simp
  next
    case (Cons w ws)
    with Cons.IH show ?thesis by (cases ws) auto
  qed
qed

lemma split_on_no_sep: "w \<in> set (split_on sep s) \<Longrightarrow> sep \<notin> set w"
proof (induction s arbitrary: w)
  case Nil
  then show ?case by simp
next
  case (Cons c cs)
  then show ?case
    by (cases "split_on sep cs") (auto split: if_splits)
qed

lemma split_on_id [simp]: "sep \<notin> set s \<Longrightarrow> split_on sep s = [s]"
  by (induction s) auto

lemma split_on_append: "sep \<notin> set w \<Longrightarrow> split_on sep (w @ sep # s) = w # split_on sep s"
  by (induction w) auto

lemma split_on_set: "w \<in> set (split_on sep s) \<Longrightarrow> set w \<subseteq> set s"
proof (induction s arbitrary: w)
  case Nil
  then show ?case by simp
next
  case (Cons c cs)
  then show ?case
    by (cases "split_on sep cs") (fastforce split: if_splits)+
qed

lemma split_on_pair [str_iff]:
  "split_on sep s = [a, b] \<longleftrightarrow> s = a @ sep # b \<and> sep \<notin> set a \<and> sep \<notin> set b"
proof
  assume eq: "split_on sep s = [a, b]"
  then have "s = a @ sep # b" using join_split_on [of sep s] by simp
  moreover have "sep \<notin> set a" "sep \<notin> set b" using split_on_no_sep [of _ sep s] eq by auto
  ultimately show "s = a @ sep # b \<and> sep \<notin> set a \<and> sep \<notin> set b" by simp
next
  assume "s = a @ sep # b \<and> sep \<notin> set a \<and> sep \<notin> set b"
  then show "split_on sep s = [a, b]" by (simp add: split_on_append)
qed

lemma split_on_length2: "length (split_on sep s) = 2 \<longleftrightarrow> (\<exists>a b. split_on sep s = [a, b])"
  by (auto simp: numeral_2_eq_2 length_Suc_conv)

text \<open>strings.Split at a non-empty separator of any length (never called with an empty one).\<close>

function Split :: "string \<Rightarrow> string \<Rightarrow> string list" where
  "Split s sep =
     (if sep = [] then [s]
      else (case Cut s sep of None \<Rightarrow> [s] | Some (b, a) \<Rightarrow> b # Split a sep))"
  by pat_completeness auto
termination
proof (relation "measure (\<lambda>(s, sep). length s)")
  show "wf (measure (\<lambda>(s :: string, sep :: string). length s))" by simp
next
  fix s sep :: string and x b a
  assume "sep \<noteq> []" and "Cut s sep = Some x" and "(b, a) = x"
  then have "s = b @ sep @ a" using Cut_Some by metis
  with \<open>sep \<noteq> []\<close> show "((a, sep), (s, sep)) \<in> measure (\<lambda>(s, sep). length s)"
    by (cases sep) auto
qed

declare Split.simps [simp del]

section \<open>Anchored patterns\<close>

text \<open>\<open>^[class]+$\<close> and \<open>^[class]{n}$\<close>.\<close>

definition re_plus :: "(char \<Rightarrow> bool) \<Rightarrow> string \<Rightarrow> bool" where
  "re_plus cls s \<longleftrightarrow> s \<noteq> [] \<and> list_all cls s"

definition re_exactly :: "nat \<Rightarrow> (char \<Rightarrow> bool) \<Rightarrow> string \<Rightarrow> bool" where
  "re_exactly n cls s \<longleftrightarrow> length s = n \<and> list_all cls s"

text \<open>\<open>^[1-9][0-9]*$\<close>, the canonical positive decimal of several packages.\<close>

fun re_positive_decimal :: "string \<Rightarrow> bool" where
  "re_positive_decimal [] = False"
| "re_positive_decimal (c # cs) = (is_digit c \<and> c \<noteq> CHR ''0'' \<and> list_all is_digit cs)"

text \<open>\<open>^(0|[1-9][0-9]*)$\<close>, one numeric SemVer identifier.\<close>

definition re_numeric :: "string \<Rightarrow> bool" where
  "re_numeric s \<longleftrightarrow> s = ''0'' \<or> re_positive_decimal s"

text \<open>\<open>^(0|[1-9][0-9]*)\.(0|[1-9][0-9]*)\.(0|[1-9][0-9]*)$\<close>\<close>

definition re_three_part :: "string \<Rightarrow> bool" where
  "re_three_part s = (case split_on (CHR ''.'') s of
     [a, b, c] \<Rightarrow> re_numeric a \<and> re_numeric b \<and> re_numeric c | _ \<Rightarrow> False)"

lemma re_positive_decimal_digits: "re_positive_decimal s \<Longrightarrow> list_all is_digit s"
  by (cases s) auto

lemma re_positive_decimal_nonempty: "re_positive_decimal s \<Longrightarrow> s \<noteq> []"
  by auto

section \<open>Decimal numbers\<close>

definition digit_val :: "char \<Rightarrow> nat" where
  "digit_val c = byte c - 48"

definition digit_char :: "nat \<Rightarrow> char" where
  "digit_char n = char_of (48 + n)"

definition dec_val :: "string \<Rightarrow> nat" where
  "dec_val s = foldl (\<lambda>acc c. 10 * acc + digit_val c) 0 s"

text \<open>strconv.FormatUint(n, 10).\<close>

fun show_nat :: "nat \<Rightarrow> string" where
  "show_nat n = (if n < 10 then [digit_char n] else show_nat (n div 10) @ [digit_char (n mod 10)])"

declare show_nat.simps [simp del]

text \<open>strconv.ParseUint(s, 10, 64): \<^const>\<open>None\<close> for a syntax or a range error.\<close>

definition ParseUint64 :: "string \<Rightarrow> nat option" where
  "ParseUint64 s =
     (if s = [] \<or> \<not> list_all is_digit s then None
      else if dec_val s < 2 ^ 64 then Some (dec_val s) else None)"

lemma is_digit_digit_char [simp]: "n < 10 \<Longrightarrow> is_digit (digit_char n)"
  by (simp add: is_digit_def digit_char_def byte_char_of)

lemma digit_val_digit_char [simp]: "n < 10 \<Longrightarrow> digit_val (digit_char n) = n"
  by (simp add: digit_val_def digit_char_def byte_char_of)

lemma digit_char_digit_val [simp]: "is_digit c \<Longrightarrow> digit_char (digit_val c) = c"
  by (simp add: is_digit_def digit_char_def digit_val_def byte_def)

lemma digit_val_less [simp]: "is_digit c \<Longrightarrow> digit_val c < 10"
  by (auto simp: is_digit_def digit_val_def)

lemma dec_val_Nil [simp]: "dec_val [] = 0"
  by (simp add: dec_val_def)

lemma dec_val_snoc [simp]: "dec_val (s @ [c]) = 10 * dec_val s + digit_val c"
  by (simp add: dec_val_def)

lemma show_nat_digits [simp]: "list_all is_digit (show_nat n)"
proof (induction n rule: show_nat.induct)
  case (1 n)
  then show ?case by (subst show_nat.simps) auto
qed

lemma show_nat_nonempty [simp]: "show_nat n \<noteq> []"
  by (subst show_nat.simps) simp

lemma dec_val_show_nat [simp]: "dec_val (show_nat n) = n"
proof (induction n rule: show_nat.induct)
  case (1 n)
  show ?case
  proof (cases "n < 10")
    case True
    then show ?thesis by (subst show_nat.simps) (simp add: dec_val_def)
  next
    case False
    with 1 show ?thesis by (subst show_nat.simps) simp
  qed
qed

lemma digit_val_pos: "is_digit c \<Longrightarrow> c \<noteq> CHR ''0'' \<Longrightarrow> 0 < digit_val c"
proof -
  assume d: "is_digit c" and n: "c \<noteq> CHR ''0''"
  have "byte (CHR ''0'') = 48" by (simp add: byte_def)
  with n have "byte c \<noteq> 48" using byte_inject [of c "CHR ''0''"] by simp
  with d show ?thesis by (simp add: is_digit_def digit_val_def)
qed

lemma digit_char_eq_0: "n < 10 \<Longrightarrow> digit_char n = CHR ''0'' \<longleftrightarrow> n = 0"
proof -
  assume n: "n < 10"
  have "byte (CHR ''0'') = 48" by (simp add: byte_def)
  moreover have "byte (digit_char n) = 48 + n" using n by (simp add: digit_char_def byte_char_of)
  ultimately show ?thesis using byte_inject [of "digit_char n" "CHR ''0''"] by auto
qed

lemma re_positive_decimal_snoc:
  "s \<noteq> [] \<Longrightarrow> re_positive_decimal (s @ [c]) \<longleftrightarrow> re_positive_decimal s \<and> is_digit c"
  by (cases s) auto

lemma dec_val_positive: "re_positive_decimal s \<Longrightarrow> 0 < dec_val s"
proof (induction s rule: rev_induct)
  case Nil
  then show ?case by simp
next
  case (snoc c s)
  show ?case
  proof (cases "s = []")
    case True
    with snoc.prems show ?thesis by (simp add: dec_val_def digit_val_pos)
  next
    case False
    with snoc show ?thesis by (simp add: re_positive_decimal_snoc)
  qed
qed

lemma show_nat_dec_val: "re_positive_decimal s \<Longrightarrow> show_nat (dec_val s) = s"
proof (induction s rule: rev_induct)
  case Nil
  then show ?case by simp
next
  case (snoc c s)
  show ?case
  proof (cases "s = []")
    case True
    with snoc.prems show ?thesis by (subst show_nat.simps) (simp add: dec_val_def)
  next
    case False
    with snoc.prems have ds: "re_positive_decimal s" "is_digit c"
      by (simp_all add: re_positive_decimal_snoc)
    with snoc.IH have "show_nat (dec_val s) = s" by blast
    with ds dec_val_positive [of s] show ?thesis by (subst show_nat.simps) simp
  qed
qed

lemma show_nat_positive: "0 < n \<Longrightarrow> re_positive_decimal (show_nat n)"
proof (induction n rule: show_nat.induct)
  case (1 n)
  show ?case
  proof (cases "n < 10")
    case True
    with "1.prems" show ?thesis
      by (subst show_nat.simps) (simp add: digit_char_eq_0)
  next
    case False
    with 1 have "re_positive_decimal (show_nat (n div 10))" by simp
    with False show ?thesis
      by (subst show_nat.simps) (simp add: re_positive_decimal_snoc)
  qed
qed

lemma ParseUint64_Some [str_iff]:
  "ParseUint64 s = Some n \<longleftrightarrow> s \<noteq> [] \<and> list_all is_digit s \<and> n = dec_val s \<and> n < 2 ^ 64"
  by (auto simp: ParseUint64_def)

lemma ParseUint64_show_nat [simp]: "n < 2 ^ 64 \<Longrightarrow> ParseUint64 (show_nat n) = Some n"
  by (simp add: ParseUint64_Some)

end
