(* ===== verification/Sha2.thy ===== *)
theory Sha2
  imports Prelude "HOL-Library.Word"
begin

text \<open>
  Go's crypto/sha256 and crypto/sha512 (FIPS 180-4) on byte lists: Sum256, Sum384 and Sum512.
  The two word sizes share one definition, with the rotation amounts, the round constants and
  the initial state as arguments.  What the builder relies on is at the end: every sum has its
  fixed length.
\<close>

unbundle bit_operations_syntax

record 'a sha_params =
  big0 :: "nat \<times> nat \<times> nat"     \<comment> \<open>\<Sigma>0, \<Sigma>1: three rotations\<close>
  big1 :: "nat \<times> nat \<times> nat"
  small0 :: "nat \<times> nat \<times> nat"   \<comment> \<open>\<sigma>0, \<sigma>1: two rotations and a shift\<close>
  small1 :: "nat \<times> nat \<times> nat"
  round_constants :: "'a list"

fun rot3 :: "nat \<times> nat \<times> nat \<Rightarrow> 'a::len word \<Rightarrow> 'a word" where
  "rot3 (a, b, c) w = word_rotr a w XOR word_rotr b w XOR word_rotr c w"

fun rot2 :: "nat \<times> nat \<times> nat \<Rightarrow> 'a::len word \<Rightarrow> 'a word" where
  "rot2 (a, b, c) w = word_rotr a w XOR word_rotr b w XOR drop_bit c w"

fun sha_schedule :: "'a::len word sha_params \<Rightarrow> nat \<Rightarrow> 'a word list \<Rightarrow> 'a word list" where
  "sha_schedule p 0 ws = ws"
| "sha_schedule p (Suc n) ws =
     (let t = length ws in
      sha_schedule p n
        (ws @ [rot2 (small1 p) (ws ! (t - 2)) + ws ! (t - 7) + rot2 (small0 p) (ws ! (t - 15))
               + ws ! (t - 16)]))"

type_synonym 'a sha_state = "'a \<times> 'a \<times> 'a \<times> 'a \<times> 'a \<times> 'a \<times> 'a \<times> 'a"

fun sha_rounds :: "'a::len word sha_params \<Rightarrow> ('a word \<times> 'a word) list \<Rightarrow> 'a word sha_state
    \<Rightarrow> 'a word sha_state" where
  "sha_rounds p [] s = s"
| "sha_rounds p ((k, w) # kws) (a, b, c, d, e, f, g, h) =
     (let t1 = h + rot3 (big1 p) e + ((e AND f) XOR (NOT e AND g)) + k + w;
          t2 = rot3 (big0 p) a + ((a AND b) XOR (a AND c) XOR (b AND c))
      in sha_rounds p kws (t1 + t2, a, b, c, d + t1, e, f, g))"

fun sha_add :: "'a::len word sha_state \<Rightarrow> 'a word sha_state \<Rightarrow> 'a word sha_state" where
  "sha_add (a, b, c, d, e, f, g, h) (a', b', c', d', e', f', g', h') =
     (a + a', b + b', c + c', d + d', e + e', f + f', g + g', h + h')"

definition sha_block :: "'a::len word sha_params \<Rightarrow> 'a word sha_state \<Rightarrow> 'a word list
    \<Rightarrow> 'a word sha_state" where
  "sha_block p s ws =
     sha_add s (sha_rounds p
       (zip (round_constants p) (sha_schedule p (length (round_constants p) - 16) ws)) s)"

text \<open>Bytes to big-endian words of \<open>n\<close> bytes, and back.\<close>

function chunks :: "nat \<Rightarrow> 'b list \<Rightarrow> 'b list list" where
  "chunks n xs = (if n = 0 \<or> xs = [] then [] else take n xs # chunks n (drop n xs))"
  by pat_completeness auto
termination
  by (relation "measure (\<lambda>(n, xs). length xs)") auto

declare chunks.simps [simp del]

definition be_word :: "string \<Rightarrow> 'a::len word" where
  "be_word bs = foldl (\<lambda>acc b. 256 * acc + of_nat (byte b)) 0 bs"

fun be_bytes :: "nat \<Rightarrow> nat \<Rightarrow> string" where
  "be_bytes 0 v = []"
| "be_bytes (Suc n) v = char_of (v div 256 ^ n mod 256) # be_bytes n v"

fun state_bytes :: "nat \<Rightarrow> 'a::len word sha_state \<Rightarrow> string" where
  "state_bytes n (a, b, c, d, e, f, g, h) =
     concat (map (\<lambda>w. be_bytes n (unat w)) [a, b, c, d, e, f, g, h])"

text \<open>Padding to a multiple of \<open>block\<close> bytes, the bit length in the last \<open>len\<close> bytes.\<close>

definition sha_pad :: "nat \<Rightarrow> nat \<Rightarrow> string \<Rightarrow> string" where
  "sha_pad block len msg =
     (let l = length msg;
          zeros = (block - (l + 1 + len) mod block) mod block
      in msg @ [char_of (128 :: nat)] @ replicate zeros (char_of (0 :: nat)) @ be_bytes len (8 * l))"

definition sha_run :: "'a::len word sha_params \<Rightarrow> nat \<Rightarrow> 'a word sha_state \<Rightarrow> string
    \<Rightarrow> 'a word sha_state" where
  "sha_run p n s msg =
     foldl (\<lambda>st blk. sha_block p st (map be_word (chunks n blk))) s
       (chunks (16 * n) (sha_pad (16 * n) (2 * n) msg))"

section \<open>SHA-256\<close>

text \<open>The constants of FIPS 180-4, in decimal.\<close>

definition sha256_params :: "32 word sha_params" where
  "sha256_params =
     \<lparr>big0 = (2, 13, 22), big1 = (6, 11, 25), small0 = (7, 18, 3), small1 = (17, 19, 10),
      round_constants =
       [1116352408, 1899447441, 3049323471, 3921009573, 961987163, 1508970993, 2453635748,
        2870763221, 3624381080, 310598401, 607225278, 1426881987, 1925078388, 2162078206,
        2614888103, 3248222580, 3835390401, 4022224774, 264347078, 604807628, 770255983,
        1249150122, 1555081692, 1996064986, 2554220882, 2821834349, 2952996808, 3210313671,
        3336571891, 3584528711, 113926993, 338241895, 666307205, 773529912, 1294757372,
        1396182291, 1695183700, 1986661051, 2177026350, 2456956037, 2730485921, 2820302411,
        3259730800, 3345764771, 3516065817, 3600352804, 4094571909, 275423344, 430227734,
        506948616, 659060556, 883997877, 958139571, 1322822218, 1537002063, 1747873779,
        1955562222, 2024104815, 2227730452, 2361852424, 2428436474, 2756734187, 3204031479,
    3329325298]\<rparr>"

definition sha256_init :: "32 word sha_state" where
  "sha256_init =
        (1779033703, 3144134277, 1013904242, 2773480762, 1359893119, 2600822924, 528734635,
    1541459225)"

definition sha256_sum :: "string \<Rightarrow> string" where
  "sha256_sum msg = state_bytes 4 (sha_run sha256_params 4 sha256_init msg)"

section \<open>SHA-512 and SHA-384\<close>

definition sha512_params :: "64 word sha_params" where
  "sha512_params =
     \<lparr>big0 = (28, 34, 39), big1 = (14, 18, 41), small0 = (1, 8, 7), small1 = (19, 61, 6),
      round_constants =
       [4794697086780616226, 8158064640168781261, 13096744586834688815, 16840607885511220156,
        4131703408338449720, 6480981068601479193, 10538285296894168987, 12329834152419229976,
        15566598209576043074, 1334009975649890238, 2608012711638119052, 6128411473006802146,
        8268148722764581231, 9286055187155687089, 11230858885718282805, 13951009754708518548,
        16472876342353939154, 17275323862435702243, 1135362057144423861, 2597628984639134821,
        3308224258029322869, 5365058923640841347, 6679025012923562964, 8573033837759648693,
        10970295158949994411, 12119686244451234320, 12683024718118986047, 13788192230050041572,
        14330467153632333762, 15395433587784984357, 489312712824947311, 1452737877330783856,
        2861767655752347644, 3322285676063803686, 5560940570517711597, 5996557281743188959,
        7280758554555802590, 8532644243296465576, 9350256976987008742, 10552545826968843579,
        11727347734174303076, 12113106623233404929, 14000437183269869457, 14369950271660146224,
        15101387698204529176, 15463397548674623760, 17586052441742319658, 1182934255886127544,
        1847814050463011016, 2177327727835720531, 2830643537854262169, 3796741975233480872,
        4115178125766777443, 5681478168544905931, 6601373596472566643, 7507060721942968483,
        8399075790359081724, 8693463985226723168, 9568029438360202098, 10144078919501101548,
        10430055236837252648, 11840083180663258601, 13761210420658862357, 14299343276471374635,
        14566680578165727644, 15097957966210449927, 16922976911328602910, 17689382322260857208,
        500013540394364858, 748580250866718886, 1242879168328830382, 1977374033974150939,
        2944078676154940804, 3659926193048069267, 4368137639120453308, 4836135668995329356,
        5532061633213252278, 6448918945643986474, 6902733635092675308,
    7801388544844847127]\<rparr>"

definition sha512_init :: "64 word sha_state" where
  "sha512_init =
        (7640891576956012808, 13503953896175478587, 4354685564936845355, 11912009170470909681,
        5840696475078001361, 11170449401992604703, 2270897969802886507, 6620516959819538809)"

definition sha384_init :: "64 word sha_state" where
  "sha384_init =
        (14680500436340154072, 7105036623409894663, 10473403895298186519, 1526699215303891257,
        7436329637833083697, 10282925794625328401, 15784041429090275239, 5167115440072839076)"

definition sha512_sum :: "string \<Rightarrow> string" where
  "sha512_sum msg = state_bytes 8 (sha_run sha512_params 8 sha512_init msg)"

definition sha384_sum :: "string \<Rightarrow> string" where
  "sha384_sum msg = take 48 (state_bytes 8 (sha_run sha512_params 8 sha384_init msg))"

section \<open>Lengths\<close>

lemma length_be_bytes [simp]: "length (be_bytes n v) = n"
  by (induction n) auto

lemma length_state_bytes [simp]: "length (state_bytes n s) = 8 * n"
  by (cases "(n, s)" rule: state_bytes.cases) simp

lemma length_sha256_sum [simp]: "length (sha256_sum msg) = 32"
  by (simp add: sha256_sum_def)

lemma length_sha512_sum [simp]: "length (sha512_sum msg) = 64"
  by (simp add: sha512_sum_def)

lemma length_sha384_sum [simp]: "length (sha384_sum msg) = 48"
  by (simp add: sha384_sum_def)

end
