(* ===== verification/Digest.thy ===== *)
theory Digest
  imports Strings Sha2
begin

text \<open>
  internal/digest/digest.go: fixed-size SHA-256 and SHA-512 values and their lowercase
  hexadecimal text.  A value is the byte list of the Go array; \<open>wf256\<close> and \<open>wf512\<close> say that it
  has the array's length.  The locale \<open>digest_codec\<close> is the interface the other components use
  (parse, print and sum with their laws); it is interpreted for both sizes.
\<close>

datatype SHA256 = SHA256 (bytes256: string)
datatype SHA512 = SHA512 (bytes512: string)

definition wf256 :: "SHA256 \<Rightarrow> bool" where
  "wf256 d \<longleftrightarrow> length (bytes256 d) = 32"

definition wf512 :: "SHA512 \<Rightarrow> bool" where
  "wf512 d \<longleftrightarrow> length (bytes512 d) = 64"

section \<open>Hexadecimal\<close>

definition hex_char :: "nat \<Rightarrow> char" where
  "hex_char n = char_of (if n < 10 then 48 + n else 87 + n)"

definition lower_hex_val :: "char \<Rightarrow> nat" where
  "lower_hex_val c = (if is_digit c then byte c - 48 else byte c - 87)"

text \<open>hex.EncodeToString, and hex.Decode on lowercase digits.\<close>

definition hex_encode :: "string \<Rightarrow> string" where
  "hex_encode bs = concat (map (\<lambda>b. [hex_char (byte b div 16), hex_char (byte b mod 16)]) bs)"

fun hex_decode :: "string \<Rightarrow> string option" where
  "hex_decode [] = Some []"
| "hex_decode [c] = None"
| "hex_decode (a # b # cs) =
     (if is_lower_hex a \<and> is_lower_hex b
      then map_option ((#) (char_of (16 * lower_hex_val a + lower_hex_val b))) (hex_decode cs)
      else None)"

lemma hex_char_val [simp]: "is_lower_hex c \<Longrightarrow> hex_char (lower_hex_val c) = c"
  by (auto simp: hex_char_def lower_hex_val_def is_lower_hex_def is_digit_def byte_def)

lemma is_lower_hex_hex_char [simp]: "n < 16 \<Longrightarrow> is_lower_hex (hex_char n)"
  by (auto simp: hex_char_def is_lower_hex_def is_digit_def byte_char_of)

lemma lower_hex_val_hex_char [simp]: "n < 16 \<Longrightarrow> lower_hex_val (hex_char n) = n"
  by (auto simp: hex_char_def lower_hex_val_def is_digit_def byte_char_of)

lemma lower_hex_val_less [simp]: "is_lower_hex c \<Longrightarrow> lower_hex_val c < 16"
  by (auto simp: lower_hex_val_def is_lower_hex_def is_digit_def)

lemma length_hex_encode [simp]: "length (hex_encode bs) = 2 * length bs"
  by (induction bs) (auto simp: hex_encode_def)

lemma byte_div_16 [simp]: "byte c div 16 < 16"
  using byte_less [of c] by linarith

lemma char_of_byte_hex [simp]: "char_of (16 * (byte c div 16) + byte c mod 16) = c"
  by (simp add: byte_def)

lemma hex_encode_lower [simp]: "list_all is_lower_hex (hex_encode bs)"
  by (induction bs) (auto simp: hex_encode_def)

lemma hex_decode_encode [simp]: "hex_decode (hex_encode bs) = Some bs"
  by (induction bs) (simp_all add: hex_encode_def)

lemma hex_encode_decode: "hex_decode s = Some bs \<Longrightarrow> hex_encode bs = s"
proof (induction s arbitrary: bs rule: hex_decode.induct)
  case (3 a b cs)
  then obtain bs' where ab: "is_lower_hex a" "is_lower_hex b" and cs: "hex_decode cs = Some bs'"
    and bs: "bs = char_of (16 * lower_hex_val a + lower_hex_val b) # bs'"
    by (auto split: if_splits)
  from ab have lt: "lower_hex_val a < 16" "lower_hex_val b < 16" by simp_all
  then have "byte (char_of (16 * lower_hex_val a + lower_hex_val b)) =
      16 * lower_hex_val a + lower_hex_val b"
    by (simp add: byte_char_of)
  with 3 ab cs lt show ?case by (simp add: bs hex_encode_def)
qed (auto simp: hex_encode_def)

lemma hex_decode_total: "list_all is_lower_hex s \<Longrightarrow> even (length s) \<Longrightarrow> hex_decode s \<noteq> None"
  by (induction s rule: hex_decode.induct) auto

section \<open>Parsing\<close>

definition ErrInvalidEncoding :: go_error where
  "ErrInvalidEncoding = ErrText ''invalid digest encoding'' []"

text \<open>decodeLowerHex for a destination of \<open>n\<close> bytes.\<close>

definition decodeLowerHex :: "nat \<Rightarrow> string \<Rightarrow> string result" where
  "decodeLowerHex n encoded =
     (if length encoded \<noteq> 2 * n then
        Inl (ErrWrap ''%w: got %d characters, want %d''
          [show_nat (length encoded), show_nat (2 * n)] [ErrInvalidEncoding])
      else if \<not> list_all is_lower_hex encoded then
        Inl (ErrWrap ''%w: expected lowercase hexadecimal'' [] [ErrInvalidEncoding])
      else (case hex_decode encoded of
              None \<Rightarrow> Inl (ErrWrap ''%w: %v'' [] [ErrInvalidEncoding])
            | Some bs \<Rightarrow> Inr bs))"

lemma decodeLowerHex_iff:
  "decodeLowerHex n s = Inr bs \<longleftrightarrow> length bs = n \<and> hex_encode bs = s"
proof
  assume "decodeLowerHex n s = Inr bs"
  then have "length s = 2 * n" "hex_decode s = Some bs"
    by (auto simp: decodeLowerHex_def split: if_splits option.splits)
  then show "length bs = n \<and> hex_encode bs = s"
    using hex_encode_decode [of s bs] length_hex_encode [of bs] by auto
next
  assume "length bs = n \<and> hex_encode bs = s"
  then show "decodeLowerHex n s = Inr bs"
    by (auto simp: decodeLowerHex_def)
qed

definition ParseSHA256 :: "string \<Rightarrow> SHA256 result" where
  "ParseSHA256 encoded =
     (case decodeLowerHex 32 encoded of
        Inl err \<Rightarrow> Inl (ErrWrap ''parse SHA-256: %w'' [] [err])
      | Inr value \<Rightarrow> Inr (SHA256 value))"

definition SumSHA256 :: "string \<Rightarrow> SHA256" where
  "SumSHA256 data = SHA256 (sha256_sum data)"

text \<open>The reader is what io.Copy gets out of it: all its bytes, or the read error.\<close>

definition SumSHA256Reader :: "string result \<Rightarrow> SHA256 result" where
  "SumSHA256Reader reader =
     (case reader of
        Inl err \<Rightarrow> Inl (ErrWrap ''compute SHA-256: %w'' [] [err])
      | Inr data \<Rightarrow> Inr (SHA256 (sha256_sum data)))"

definition SHA256_String :: "SHA256 \<Rightarrow> string" where
  "SHA256_String value = hex_encode (bytes256 value)"

text \<open>subtle.ConstantTimeCompare returns 1 exactly when the slices are equal.\<close>

definition SHA256_Equal :: "SHA256 \<Rightarrow> SHA256 \<Rightarrow> bool" where
  "SHA256_Equal value other = (bytes256 value = bytes256 other)"

definition SHA256_MarshalText :: "SHA256 \<Rightarrow> string result" where
  "SHA256_MarshalText value = Inr (SHA256_String value)"

text \<open>UnmarshalText assigns through its receiver: the old value goes in, the new one comes out.\<close>

definition SHA256_UnmarshalText :: "SHA256 \<Rightarrow> string \<Rightarrow> go_error option \<times> SHA256" where
  "SHA256_UnmarshalText old text =
     (case ParseSHA256 text of Inl err \<Rightarrow> (Some err, old) | Inr parsed \<Rightarrow> (None, parsed))"

definition ParseSHA512 :: "string \<Rightarrow> SHA512 result" where
  "ParseSHA512 encoded =
     (case decodeLowerHex 64 encoded of
        Inl err \<Rightarrow> Inl (ErrWrap ''parse SHA-512: %w'' [] [err])
      | Inr value \<Rightarrow> Inr (SHA512 value))"

definition SumSHA512 :: "string \<Rightarrow> SHA512" where
  "SumSHA512 data = SHA512 (sha512_sum data)"

definition SumSHA512Reader :: "string result \<Rightarrow> SHA512 result" where
  "SumSHA512Reader reader =
     (case reader of
        Inl err \<Rightarrow> Inl (ErrWrap ''compute SHA-512: %w'' [] [err])
      | Inr data \<Rightarrow> Inr (SHA512 (sha512_sum data)))"

definition SHA512_String :: "SHA512 \<Rightarrow> string" where
  "SHA512_String value = hex_encode (bytes512 value)"

definition SHA512_Equal :: "SHA512 \<Rightarrow> SHA512 \<Rightarrow> bool" where
  "SHA512_Equal value other = (bytes512 value = bytes512 other)"

definition SHA512_MarshalText :: "SHA512 \<Rightarrow> string result" where
  "SHA512_MarshalText value = Inr (SHA512_String value)"

definition SHA512_UnmarshalText :: "SHA512 \<Rightarrow> string \<Rightarrow> go_error option \<times> SHA512" where
  "SHA512_UnmarshalText old text =
     (case ParseSHA512 text of Inl err \<Rightarrow> (Some err, old) | Inr parsed \<Rightarrow> (None, parsed))"

section \<open>The interface\<close>

text \<open>
  What the clients of the package rely on: printing and parsing are inverse on well-formed
  values, nothing else parses, equality is the identity, and every sum is well formed.
\<close>

locale digest_codec =
  fixes parse :: "string \<Rightarrow> 'd result"
    and print :: "'d \<Rightarrow> string"
    and wf :: "'d \<Rightarrow> bool"
    and sum_of :: "string \<Rightarrow> 'd"
    and equal_to :: "'d \<Rightarrow> 'd \<Rightarrow> bool"
  assumes parse_iff: "parse s = Inr d \<longleftrightarrow> wf d \<and> print d = s"
    and wf_sum: "wf (sum_of data)"
    and equal_iff: "equal_to d e \<longleftrightarrow> d = e"
begin

lemma parse_print: "wf d \<Longrightarrow> parse (print d) = Inr d"
  by (simp add: parse_iff)

lemma print_inj: "wf d \<Longrightarrow> wf e \<Longrightarrow> print d = print e \<longleftrightarrow> d = e"
  by (metis parse_print sum.inject(2))

lemma parse_sum: "parse (print (sum_of data)) = Inr (sum_of data)"
  by (simp add: parse_print wf_sum)

lemma matches_text:
  "parse s = Inr d \<Longrightarrow> equal_to (sum_of data) d \<longleftrightarrow> print (sum_of data) = s"
  by (auto simp: parse_iff equal_iff print_inj wf_sum)

end

interpretation sha256: digest_codec ParseSHA256 SHA256_String wf256 SumSHA256 SHA256_Equal
proof
  show "ParseSHA256 s = Inr d \<longleftrightarrow> wf256 d \<and> SHA256_String d = s" for s d
  proof (cases d)
    case (SHA256 bs)
    then show ?thesis
      by (cases "decodeLowerHex 32 s")
        (auto simp: ParseSHA256_def wf256_def SHA256_String_def dest: decodeLowerHex_iff [THEN iffD1]
          intro: decodeLowerHex_iff [THEN iffD2] simp flip: decodeLowerHex_iff)
  qed
  show "wf256 (SumSHA256 data)" for data
    by (simp add: wf256_def SumSHA256_def)
  show "SHA256_Equal d e \<longleftrightarrow> d = e" for d e
    by (cases d; cases e) (simp add: SHA256_Equal_def)
qed

interpretation sha512: digest_codec ParseSHA512 SHA512_String wf512 SumSHA512 SHA512_Equal
proof
  show "ParseSHA512 s = Inr d \<longleftrightarrow> wf512 d \<and> SHA512_String d = s" for s d
  proof (cases d)
    case (SHA512 bs)
    then show ?thesis
      by (cases "decodeLowerHex 64 s")
        (auto simp: ParseSHA512_def wf512_def SHA512_String_def simp flip: decodeLowerHex_iff)
  qed
  show "wf512 (SumSHA512 data)" for data
    by (simp add: wf512_def SumSHA512_def)
  show "SHA512_Equal d e \<longleftrightarrow> d = e" for d e
    by (cases d; cases e) (simp add: SHA512_Equal_def)
qed

section \<open>Properties\<close>

text \<open>The text form of a SHA-256 value is exact: ParseSHA256 succeeds on precisely the
  strings String prints for a 32-byte value and returns that value, UnmarshalText stores it, and an
  invalid text leaves the receiver of UnmarshalText unchanged.\<close>

theorem sha256_text_exact:
  "(ParseSHA256 s = Inr d \<longleftrightarrow> wf256 d \<and> SHA256_String d = s) \<and>
   (case SHA256_UnmarshalText old s of
      (None, v) \<Rightarrow> wf256 v \<and> SHA256_String v = s
    | (Some _, v) \<Rightarrow> v = old \<and> \<not> (\<exists>w. wf256 w \<and> SHA256_String w = s))"
proof (cases "ParseSHA256 s")
  case (Inl e)
  then have "\<not> (wf256 w \<and> SHA256_String w = s)" for w
    by (metis Inl_Inr_False sha256.parse_iff)
  with Inl show ?thesis by (auto simp: SHA256_UnmarshalText_def)
next
  case (Inr v)
  then show ?thesis by (simp add: SHA256_UnmarshalText_def flip: sha256.parse_iff)
qed

text \<open>A digest computed over data agrees with a textual digest that parses exactly when the
  printed digest is that text, for both algorithms; so a comparison of digests and a comparison of
  their texts never disagree.\<close>

theorem digest_match_is_text_match:
  "(ParseSHA256 s = Inr d \<longrightarrow> (SHA256_Equal (SumSHA256 data) d \<longleftrightarrow> SHA256_String (SumSHA256 data) = s)) \<and>
   (ParseSHA512 t = Inr e \<longrightarrow> (SHA512_Equal (SumSHA512 data) e \<longleftrightarrow> SHA512_String (SumSHA512 data) = t))"
  by (simp add: sha256.matches_text sha512.matches_text)

lemma digest_match_is_text_match_witness:
  "(SHA256_Equal (SumSHA256 ''abc'') (SHA256 (replicate 32 (CHR 0x00))) \<longleftrightarrow>
      SHA256_String (SumSHA256 ''abc'') = replicate 64 (CHR ''0'')) \<and>
   (SHA512_Equal (SumSHA512 ''abc'') (SHA512 (replicate 64 (CHR 0x00))) \<longleftrightarrow>
      SHA512_String (SumSHA512 ''abc'') = replicate 128 (CHR ''0''))"
proof -
  have "ParseSHA256 (replicate 64 (CHR ''0'')) = Inr (SHA256 (replicate 32 (CHR 0x00)))"
    by code_simp
  moreover have "ParseSHA512 (replicate 128 (CHR ''0'')) = Inr (SHA512 (replicate 64 (CHR 0x00)))"
    by code_simp
  ultimately show ?thesis using digest_match_is_text_match by blast
qed

end
