(* ===== verification/Unicode.thy ===== *)
theory Unicode
  imports Strings
begin

text \<open>
  UTF-8 as Go reads it: the decomposition of a byte list into runes that a \<open>for range\<close> loop,
  utf8.Valid and the Unicode-aware functions of package strings use, with an invalid byte
  decoded as U+FFFD of width one; the rune classes unicode.IsSpace and unicode.IsControl; and
  TrimSpace, Fields, ToLower, ToUpper and EqualFold on top of them.
\<close>

section \<open>Decoding\<close>

definition is_cont :: "nat \<Rightarrow> bool" where
  "is_cont b \<longleftrightarrow> 128 \<le> b \<and> b \<le> 191"

text \<open>utf8.DecodeRune on the bytes: rune, width and whether the encoding was valid.\<close>

definition decode_rune :: "nat list \<Rightarrow> nat \<times> nat \<times> bool" where
  "decode_rune bs =
     (case bs of
        [] \<Rightarrow> (65533, 0, False)
      | b0 # rest \<Rightarrow>
          if b0 < 128 then (b0, 1, True)
          else if 194 \<le> b0 \<and> b0 \<le> 223 then
            (case rest of
               b1 # _ \<Rightarrow> if is_cont b1 then ((b0 - 192) * 64 + (b1 - 128), 2, True)
                         else (65533, 1, False)
             | [] \<Rightarrow> (65533, 1, False))
          else if 224 \<le> b0 \<and> b0 \<le> 239 then
            (case rest of
               b1 # b2 # _ \<Rightarrow>
                 if (if b0 = 224 then 160 else 128) \<le> b1 \<and> b1 \<le> (if b0 = 237 then 159 else 191)
                    \<and> is_cont b2
                 then ((b0 - 224) * 4096 + (b1 - 128) * 64 + (b2 - 128), 3, True)
                 else (65533, 1, False)
             | _ \<Rightarrow> (65533, 1, False))
          else if 240 \<le> b0 \<and> b0 \<le> 244 then
            (case rest of
               b1 # b2 # b3 # _ \<Rightarrow>
                 if (if b0 = 240 then 144 else 128) \<le> b1 \<and> b1 \<le> (if b0 = 244 then 143 else 191)
                    \<and> is_cont b2 \<and> is_cont b3
                 then ((b0 - 240) * 262144 + (b1 - 128) * 4096 + (b2 - 128) * 64 + (b3 - 128), 4, True)
                 else (65533, 1, False)
             | _ \<Rightarrow> (65533, 1, False))
          else (65533, 1, False))"

text \<open>The runes of a string, each with the bytes it was decoded from and its validity.\<close>

type_synonym rune = "nat \<times> string \<times> bool"

function runes :: "string \<Rightarrow> rune list" where
  "runes [] = []"
| "runes (c # cs) =
     (let (r, w, ok) = decode_rune (map byte (take 4 (c # cs)))
      in (r, take (max 1 w) (c # cs), ok) # runes (drop (max 1 w) (c # cs)))"
  by pat_completeness auto
termination
  by (relation "measure length") auto

declare runes.simps(2) [simp del]

definition rune_bytes :: "rune list \<Rightarrow> string" where
  "rune_bytes rs = concat (map (\<lambda>(r, bs, ok). bs) rs)"

text \<open>utf8.Valid.\<close>

definition utf8_valid :: "string \<Rightarrow> bool" where
  "utf8_valid s = list_all (\<lambda>(r, bs, ok). ok) (runes s)"

lemma rune_bytes_runes [simp]: "rune_bytes (runes s) = s"
proof (induction s rule: runes.induct)
  case 1
  show ?case by (simp add: rune_bytes_def)
next
  case (2 c cs)
  then show ?case
    by (auto simp: runes.simps(2) [of c cs] rune_bytes_def Let_def split: prod.splits)
qed

definition is_ascii :: "char \<Rightarrow> bool" where
  "is_ascii c \<longleftrightarrow> byte c < 128"

lemma runes_ascii_Cons: "is_ascii c \<Longrightarrow> runes (c # cs) = (byte c, [c], True) # runes cs"
  by (simp add: runes.simps(2) decode_rune_def is_ascii_def)

lemma runes_ascii: "list_all is_ascii s \<Longrightarrow> runes s = map (\<lambda>c. (byte c, [c], True)) s"
  by (induction s) (simp_all add: runes_ascii_Cons)

lemma utf8_valid_ascii: "list_all is_ascii s \<Longrightarrow> utf8_valid s"
  by (simp add: utf8_valid_def runes_ascii list_all_iff)

text \<open>utf8.EncodeRune of a rune in range.\<close>

definition encode_rune :: "nat \<Rightarrow> string" where
  "encode_rune r =
     (if r < 128 then [char_of r]
      else if r < 2048 then [char_of (192 + r div 64), char_of (128 + r mod 64)]
      else if r < 65536 then
        [char_of (224 + r div 4096), char_of (128 + r div 64 mod 64), char_of (128 + r mod 64)]
      else
        [char_of (240 + r div 262144), char_of (128 + r div 4096 mod 64),
         char_of (128 + r div 64 mod 64), char_of (128 + r mod 64)])"

section \<open>Rune classes\<close>

text \<open>unicode.IsSpace (the White_Space property) and unicode.IsControl (category Cc).\<close>

definition IsSpace :: "nat \<Rightarrow> bool" where
  "IsSpace r \<longleftrightarrow> (9 \<le> r \<and> r \<le> 13) \<or> r = 32 \<or> r = 133 \<or> r = 160 \<or> r = 5760
     \<or> (8192 \<le> r \<and> r \<le> 8202) \<or> r = 8232 \<or> r = 8233 \<or> r = 8239 \<or> r = 8287 \<or> r = 12288"

definition IsControl :: "nat \<Rightarrow> bool" where
  "IsControl r \<longleftrightarrow> r < 32 \<or> (127 \<le> r \<and> r < 160)"

text \<open>
  unicode.IsDigit: exactly \<open>0\<close>..\<open>9\<close> up to U+00FF, and above that the category Nd of the
  Unicode version the Go release ships, a parameter here.
\<close>

definition IsDigit :: "(nat \<Rightarrow> bool) \<Rightarrow> nat \<Rightarrow> bool" where
  "IsDigit nd r = (if r \<le> 255 then 48 \<le> r \<and> r \<le> 57 else nd r)"

section \<open>Unicode-aware string functions\<close>

definition TrimSpace :: "string \<Rightarrow> string" where
  "TrimSpace s =
     rune_bytes (rev (dropWhile (\<lambda>(r, _). IsSpace r)
       (rev (dropWhile (\<lambda>(r, _). IsSpace r) (runes s)))))"

text \<open>strings.Fields: the maximal runs of non-space runes.\<close>

fun fields_acc :: "string \<Rightarrow> rune list \<Rightarrow> string list" where
  "fields_acc cur [] = (if cur = [] then [] else [cur])"
| "fields_acc cur ((r, bs, ok) # rs) =
     (if IsSpace r then (if cur = [] then [] else [cur]) @ fields_acc [] rs
      else fields_acc (cur @ bs) rs)"

definition Fields :: "string \<Rightarrow> string list" where
  "Fields s = fields_acc [] (runes s)"

text \<open>
  strings.ToLower and strings.ToUpper as far as the source can observe them: it compares the
  results with ASCII constants only, and the non-ASCII runes whose case maps to ASCII are
  U+0130 and U+212A (lower) and U+0131 and U+017F (upper).  Every other non-ASCII rune is left
  alone, and an invalid byte becomes U+FFFD as in strings.Map.
\<close>

definition rune_lower :: "nat \<Rightarrow> nat" where
  "rune_lower r =
     (if 65 \<le> r \<and> r \<le> 90 then r + 32 else if r = 304 then 105 else if r = 8490 then 107 else r)"

definition rune_upper :: "nat \<Rightarrow> nat" where
  "rune_upper r =
     (if 97 \<le> r \<and> r \<le> 122 then r - 32 else if r = 305 then 73 else if r = 383 then 83 else r)"

definition ToLower :: "string \<Rightarrow> string" where
  "ToLower s = concat (map (\<lambda>(r, bs, ok). encode_rune (rune_lower r)) (runes s))"

definition ToUpper :: "string \<Rightarrow> string" where
  "ToUpper s = concat (map (\<lambda>(r, bs, ok). encode_rune (rune_upper r)) (runes s))"

text \<open>
  strings.EqualFold against a constant without the letters \<open>k\<close> and \<open>s\<close> (the only ASCII letters
  that fold to a non-ASCII rune) is ASCII case-insensitive equality.
\<close>

definition EqualFold :: "string \<Rightarrow> string \<Rightarrow> bool" where
  "EqualFold s t \<longleftrightarrow> map lower_char s = map lower_char t"

lemma ToLower_ascii: "list_all is_ascii s \<Longrightarrow> ToLower s = map lower_char s"
proof -
  assume "list_all is_ascii s"
  moreover have "is_ascii c \<Longrightarrow> encode_rune (rune_lower (byte c)) = [lower_char c]" for c
    by (auto simp: is_ascii_def encode_rune_def rune_lower_def lower_char_def is_upper_def byte_def)
  ultimately show ?thesis
    by (induction s) (simp_all add: ToLower_def runes_ascii_Cons)
qed

section \<open>Trimming\<close>

text \<open>No space rune of ASCII: the characters that survive TrimSpace untouched.\<close>

definition plain_char :: "char \<Rightarrow> bool" where
  "plain_char c \<longleftrightarrow> 32 < byte c \<and> byte c < 127"

lemma plain_ascii: "plain_char c \<Longrightarrow> is_ascii c"
  by (simp add: plain_char_def is_ascii_def)

lemma plain_not_space: "plain_char c \<Longrightarrow> \<not> IsSpace (byte c)"
  by (auto simp: plain_char_def IsSpace_def)

lemma TrimSpace_plain: "list_all plain_char s \<Longrightarrow> TrimSpace s = s"
proof -
  assume s: "list_all plain_char s"
  then have rs: "runes s = map (\<lambda>c. (byte c, [c], True)) s"
    by (auto intro!: runes_ascii simp: list_all_iff plain_ascii)
  have ns: "\<forall>x \<in> set (runes s). \<not> (\<lambda>(r, _). IsSpace r) x"
    using s unfolding rs by (auto simp: list_all_iff plain_not_space)
  have id: "dropWhile P xs = xs" if "\<forall>x \<in> set xs. \<not> P x" for P and xs :: "rune list"
    using that by (cases xs) auto
  show ?thesis
    unfolding TrimSpace_def using ns by (subst id, simp, subst id) simp_all
qed

lemma TrimSpace_Nil [simp]: "TrimSpace [] = []"
  by (simp add: TrimSpace_def rune_bytes_def)

end
