(* ===== verification/Url.thy ===== *)
theory Url
  imports Unicode
begin

text \<open>
  url.Parse of Go's package net/url, as far as the builder reads the result: scheme, opaque
  part, user information, host, path, query and fragment.  A parse error is \<^const>\<open>None\<close>.
  The two facts the component proofs use are at the end: how a plain
  \<open>https://github.com/...\<close> URL decomposes, and that a URL whose host is \<open>github.com\<close> has no
  port.
\<close>

record url =
  Scheme :: string
  Opaque :: string
  User :: "(string \<times> string option) option"  \<comment> \<open>user name, password if set\<close>
  Host :: string
  Path :: string
  RawQuery :: string
  Fragment :: string

definition empty_url :: url where
  "empty_url = \<lparr>Scheme = [], Opaque = [], User = None, Host = [], Path = [], RawQuery = [],
     Fragment = []\<rparr>"

text \<open>The last occurrence of a byte: what is before and after it.\<close>

definition CutLast :: "string \<Rightarrow> char \<Rightarrow> (string \<times> string) option" where
  "CutLast s c = map_option (\<lambda>(b, a). (rev a, rev b)) (Cut (rev s) [c])"

lemma CutLast_None [simp]: "c \<notin> set s \<Longrightarrow> CutLast s c = None"
  by (simp add: CutLast_def Cut_None)

section \<open>Percent escapes\<close>

definition hex_digit :: "char \<Rightarrow> nat option" where
  "hex_digit c =
     (let b = byte c in
      if 48 \<le> b \<and> b \<le> 57 then Some (b - 48)
      else if 97 \<le> b \<and> b \<le> 102 then Some (b - 87)
      else if 65 \<le> b \<and> b \<le> 70 then Some (b - 55) else None)"

datatype escape_mode = EncodePath | EncodeHost | EncodeZone | EncodeUser | EncodeFragment

text \<open>The ASCII bytes a host may hold unescaped (shouldEscape in mode encodeHost).\<close>

definition host_char :: "char \<Rightarrow> bool" where
  "host_char c \<longleftrightarrow> is_alnum c \<or> c \<in> set ''-_.~!$&()*+,;=:[]<>'' \<or> byte c = 39 \<or> byte c = 34"

fun unescape :: "escape_mode \<Rightarrow> string \<Rightarrow> string option" where
  "unescape m [] = Some []"
| "unescape m (c # cs) =
     (if c = CHR ''%'' then
        (case cs of
           a # b # rest \<Rightarrow>
             (case (hex_digit a, hex_digit b) of
                (Some x, Some y) \<Rightarrow>
                  if m = EncodeHost \<and> x < 8 \<and> \<not> (a = CHR ''2'' \<and> b = CHR ''5'') then None
                  else if m = EncodeZone \<and> \<not> (a = CHR ''2'' \<and> b = CHR ''5'')
                          \<and> 16 * x + y \<noteq> 32 \<and> 16 * x + y < 128
                          \<and> \<not> host_char (char_of (16 * x + y)) then None
                  else map_option ((#) (char_of (16 * x + y))) (unescape m rest)
              | _ \<Rightarrow> None)
         | _ \<Rightarrow> None)
      else if (m = EncodeHost \<or> m = EncodeZone) \<and> is_ascii c \<and> \<not> host_char c then None
      else map_option ((#) c) (unescape m cs))"

lemma unescape_plain:
  "CHR ''%'' \<notin> set s \<Longrightarrow> m \<noteq> EncodeHost \<Longrightarrow> m \<noteq> EncodeZone \<Longrightarrow> unescape m s = Some s"
  by (induction s) auto

lemma unescape_host: "CHR ''%'' \<notin> set s \<Longrightarrow> list_all host_char s \<Longrightarrow> unescape EncodeHost s = Some s"
  by (induction s) auto

section \<open>The host\<close>

definition valid_optional_port :: "string \<Rightarrow> bool" where
  "valid_optional_port p =
     (case p of [] \<Rightarrow> True | c # cs \<Rightarrow> c = CHR '':'' \<and> list_all is_digit cs)"

text \<open>The IPv6 part of netip.ParseAddr, which decides what may stand in brackets.\<close>

definition ipv4_octet :: "string \<Rightarrow> bool" where
  "ipv4_octet s \<longleftrightarrow> re_numeric s \<and> dec_val s \<le> 255"

definition ipv4_text :: "string \<Rightarrow> bool" where
  "ipv4_text s \<longleftrightarrow> (let fs = split_on (CHR ''.'') s in length fs = 4 \<and> list_all ipv4_octet fs)"

definition ipv6_group :: "string \<Rightarrow> bool" where
  "ipv6_group s \<longleftrightarrow> s \<noteq> [] \<and> length s \<le> 4 \<and> list_all (\<lambda>c. hex_digit c \<noteq> None) s"

text \<open>The number of 16-bit groups of a colon list; an IPv4 tail counts two and only ends it.\<close>

fun ipv6_groups :: "bool \<Rightarrow> string list \<Rightarrow> nat option" where
  "ipv6_groups tail [] = Some 0"
| "ipv6_groups tail (g # gs) =
     (if ipv6_group g then map_option Suc (ipv6_groups tail gs)
      else if tail \<and> gs = [] \<and> ipv4_text g then Some 2 else None)"

definition ipv6_addr :: "string \<Rightarrow> bool" where
  "ipv6_addr s =
     (let parts = (\<lambda>t. if t = [] then [] else split_on (CHR '':'') t) in
      (case Cut s ''::'' of
         None \<Rightarrow> ipv6_groups True (split_on (CHR '':'') s) = Some 8
       | Some (l, r) \<Rightarrow>
           (case (ipv6_groups False (parts l), ipv6_groups True (parts r)) of
              (Some i, Some j) \<Rightarrow> i + j \<le> 7 | _ \<Rightarrow> False)))"

definition ipv6_text :: "string \<Rightarrow> bool" where
  "ipv6_text s =
     (case Cut s ''%'' of None \<Rightarrow> ipv6_addr s | Some (a, zone) \<Rightarrow> ipv6_addr a \<and> zone \<noteq> [])"

definition parse_bracket_host :: "string \<Rightarrow> string option" where
  "parse_bracket_host host =
     (case (CutLast host (CHR ''[''), CutLast host (CHR '']'')) of
        (Some (_, afterOpen), Some (_, port)) \<Rightarrow>
          (case CutLast afterOpen (CHR '']'') of
             None \<Rightarrow> None
           | Some (name, _) \<Rightarrow>
               if \<not> valid_optional_port port then None
               else
                 (case (case Cut name ''%25'' of
                          None \<Rightarrow> unescape EncodeHost name
                        | Some (h, z) \<Rightarrow>
                            (case (unescape EncodeHost h, unescape EncodeZone (''%25'' @ z)) of
                               (Some x, Some y) \<Rightarrow> Some (x @ y) | _ \<Rightarrow> None)) of
                    None \<Rightarrow> None
                  | Some n \<Rightarrow> if ipv6_text n then Some (''['' @ n @ '']'' @ port) else None))
      | _ \<Rightarrow> None)"

definition parse_host :: "string \<Rightarrow> string \<Rightarrow> string option" where
  "parse_host scheme host =
     (if CHR ''['' \<in> set host then parse_bracket_host host
      else
        (let colon = (if scheme = ''postgres'' \<or> scheme = ''postgresql''
                      then CutLast host (CHR '':'') else Cut host '':'')
         in if (case colon of None \<Rightarrow> False | Some (_, p) \<Rightarrow> \<not> valid_optional_port (CHR '':'' # p))
            then None else unescape EncodeHost host))"

section \<open>The authority\<close>

definition userinfo_char :: "char \<Rightarrow> bool" where
  "userinfo_char c \<longleftrightarrow> is_alnum c \<or> c \<in> set ''-._:~!$&()*+,;=%@'' \<or> byte c = 39"

definition parse_userinfo :: "string \<Rightarrow> (string \<times> string option) option" where
  "parse_userinfo info =
     (if \<not> list_all userinfo_char info then None
      else (case Cut info '':'' of
              None \<Rightarrow> map_option (\<lambda>u. (u, None)) (unescape EncodeUser info)
            | Some (u, p) \<Rightarrow>
                (case (unescape EncodeUser u, unescape EncodeUser p) of
                   (Some u', Some p') \<Rightarrow> Some (u', Some p') | _ \<Rightarrow> None)))"

definition parse_authority :: "string \<Rightarrow> string \<Rightarrow> ((string \<times> string option) option \<times> string) option" where
  "parse_authority scheme auth =
     (case CutLast auth (CHR ''@'') of
        None \<Rightarrow> map_option (Pair None) (parse_host scheme auth)
      | Some (info, host) \<Rightarrow>
          (case parse_host scheme host of
             None \<Rightarrow> None
           | Some h \<Rightarrow> map_option (\<lambda>u. (Some u, h)) (parse_userinfo info)))"

section \<open>Parse\<close>

definition scheme_char :: "char \<Rightarrow> bool" where
  "scheme_char c \<longleftrightarrow> is_alnum c \<or> c \<in> set ''+-.''"

text \<open>getScheme: \<^const>\<open>None\<close> for the error, else scheme (empty when there is none) and rest.\<close>

definition getScheme :: "string \<Rightarrow> (string \<times> string) option" where
  "getScheme raw =
     (case Cut raw '':'' of
        None \<Rightarrow> Some ([], raw)
      | Some (s, rest) \<Rightarrow>
          if s = [] then None
          else if list_all scheme_char s \<and> (is_lower (hd s) \<or> is_upper (hd s)) then Some (s, rest)
          else Some ([], raw))"

definition ctl_byte :: "char \<Rightarrow> bool" where
  "ctl_byte c \<longleftrightarrow> byte c < 32 \<or> byte c = 127"

text \<open>A trailing \<open>?\<close> that is the only one sets ForceQuery and leaves the query empty.\<close>

definition cut_query :: "string \<Rightarrow> string \<times> string" where
  "cut_query rest = (case Cut rest ''?'' of None \<Rightarrow> (rest, []) | Some (b, q) \<Rightarrow> (b, q))"

definition parse_after_scheme :: "string \<Rightarrow> string \<Rightarrow> url option" where
  "parse_after_scheme scheme rest0 =
     (let (rest, query) = cut_query rest0;
          u = empty_url\<lparr>Scheme := scheme, RawQuery := query\<rparr>
      in
      if \<not> HasPrefix rest ''/'' \<and> scheme \<noteq> [] then Some (u\<lparr>Opaque := rest\<rparr>)
      else if \<not> HasPrefix rest ''/'' \<and> CHR '':'' \<in> set (hd (split_on (CHR ''/'') rest)) then None
      else if HasPrefix rest ''//'' \<and> (scheme \<noteq> [] \<or> \<not> HasPrefix rest ''///'') then
        (let body = drop 2 rest;
             (auth, path) = (case Cut body ''/'' of None \<Rightarrow> (body, []) | Some (a, p) \<Rightarrow> (a, CHR ''/'' # p))
         in case parse_authority scheme auth of
              None \<Rightarrow> None
            | Some (user, host) \<Rightarrow>
                map_option (\<lambda>p. u\<lparr>User := user, Host := host, Path := p\<rparr>) (unescape EncodePath path))
      else map_option (\<lambda>p. u\<lparr>Path := p\<rparr>) (unescape EncodePath rest))"

definition parse_no_fragment :: "string \<Rightarrow> url option" where
  "parse_no_fragment raw =
     (if list_ex ctl_byte raw then None
      else if raw = ''*'' then Some (empty_url\<lparr>Path := ''*''\<rparr>)
      else (case getScheme raw of
              None \<Rightarrow> None
            | Some (scheme, rest) \<Rightarrow> parse_after_scheme (map lower_char scheme) rest))"

definition url_Parse :: "string \<Rightarrow> url option" where
  "url_Parse raw =
     (case Cut raw ''#'' of
        None \<Rightarrow> parse_no_fragment raw
      | Some (base, frag) \<Rightarrow>
          (case parse_no_fragment base of
             None \<Rightarrow> None
           | Some u \<Rightarrow> map_option (\<lambda>f. u\<lparr>Fragment := f\<rparr>) (unescape EncodeFragment frag)))"

text \<open>Hostname() and Port().\<close>

definition splitHostPort :: "string \<Rightarrow> string \<times> string" where
  "splitHostPort hp =
     (let (host, port) =
        (case CutLast hp (CHR '':'') of
           None \<Rightarrow> (hp, [])
         | Some (h, p) \<Rightarrow> if valid_optional_port (CHR '':'' # p) then (h, p) else (hp, []))
      in (if HasPrefix host ''['' \<and> HasSuffix host '']'' then take (length host - 2) (drop 1 host)
          else host, port))"

definition Hostname :: "url \<Rightarrow> string" where
  "Hostname u = fst (splitHostPort (Host u))"

definition Port :: "url \<Rightarrow> string" where
  "Port u = snd (splitHostPort (Host u))"

definition IsAbs :: "url \<Rightarrow> bool" where
  "IsAbs u \<longleftrightarrow> Scheme u \<noteq> []"

section \<open>Plain github.com URLs\<close>

text \<open>The bytes of a path that url.Parse passes through and that end no URL component.\<close>

definition url_path_char :: "char \<Rightarrow> bool" where
  "url_path_char c \<longleftrightarrow> is_alnum c \<or> c \<in> set ''-._~/@''"

lemma url_path_char_not:
  "url_path_char c \<Longrightarrow> c \<noteq> CHR ''%'' \<and> c \<noteq> CHR ''#'' \<and> c \<noteq> CHR ''?'' \<and> c \<noteq> CHR '':''
     \<and> \<not> ctl_byte c"
  by (auto simp: url_path_char_def ctl_byte_def is_alnum_def is_digit_def is_lower_def is_upper_def
      byte_def)

lemma url_path_char_plain: "url_path_char c \<Longrightarrow> plain_char c"
  by (auto simp: url_path_char_def plain_char_def is_alnum_def is_digit_def is_lower_def is_upper_def
      byte_def)

lemma url_Parse_github:
  assumes "list_all url_path_char path"
  shows "url_Parse (''https://github.com/'' @ path) =
    Some \<lparr>Scheme = ''https'', Opaque = [], User = None, Host = ''github.com'',
      Path = CHR ''/'' # path, RawQuery = [], Fragment = []\<rparr>"
proof -
  let ?raw = "''https://github.com/'' @ path"
  have notin: "CHR ''%'' \<notin> set path" "CHR ''#'' \<notin> set path" "CHR ''?'' \<notin> set path"
    and noctl: "\<not> list_ex ctl_byte path"
    using assms url_path_char_not by (auto simp: list_all_iff list_ex_iff)
  have frag: "Cut ?raw ''#'' = None" using notin by (simp add: Cut_None)
  have ctl: "\<not> list_ex ctl_byte ?raw" using noctl by (simp add: ctl_byte_def byte_def)
  have scheme: "getScheme ?raw = Some (''https'', ''//github.com/'' @ path)"
    by (simp add: getScheme_def scheme_char_def is_alnum_def is_lower_def byte_def)
  have lower: "map lower_char ''https'' = ''https''"
    by (simp add: lower_char_def is_upper_def byte_def)
  have q: "cut_query (''//github.com/'' @ path) = (''//github.com/'' @ path, [])"
    using notin by (simp add: cut_query_def Cut_None)
  have host: "parse_authority ''https'' ''github.com'' = Some (None, ''github.com'')"
    by (simp add: parse_authority_def parse_host_def host_char_def is_alnum_def is_lower_def byte_def)
  have path: "unescape EncodePath (CHR ''/'' # path) = Some (CHR ''/'' # path)"
    using notin by (simp add: unescape_plain)
  have rest: "parse_after_scheme ''https'' (''//github.com/'' @ path) =
      Some (empty_url\<lparr>Scheme := ''https'', Host := ''github.com'', Path := CHR ''/'' # path\<rparr>)"
    using host path unfolding parse_after_scheme_def q by (simp add: empty_url_def)
  show ?thesis
    unfolding url_Parse_def frag parse_no_fragment_def
    using ctl scheme lower rest by (simp add: empty_url_def)
qed

lemma splitHostPort_github: "splitHostPort ''github.com'' = (''github.com'', [])"
  by (simp add: splitHostPort_def HasSuffix_def)

end
