(* ===== verification/Identity.thy ===== *)
theory Identity
  imports Url
begin

text \<open>
  internal/identity/identity.go: the immutable builder and source identities of GitHub Actions.
  One definition per function, in the file's order; a validator that returns only an error is
  a \<^typ>\<open>go_error option\<close>.  The lemmas characterise each validator declaratively and give the
  round trips between the constructors (NewBuilderID, NewBuildTypeURI, NewRunInvocationURI) and
  the validators.
\<close>

section \<open>Constants\<close>

definition githubHost :: string where "githubHost = ''github.com''"
definition canonicalGitHubBase :: string where "canonicalGitHubBase = ''https://github.com/''"
definition builderRepositoryURI :: string where
  "builderRepositoryURI = ''https://github.com/windlasstech/slsa-builder''"
definition buildTypeNamespace :: string where
  "buildTypeNamespace = ''https://buildtype.dev/windlass/slsa-builder/''"
definition trustedGitHubOIDCIssuer :: string where
  "trustedGitHubOIDCIssuer = ''https://token.actions.githubusercontent.com''"

definition IDBuildTypeNotCanonical :: string where
  "IDBuildTypeNotCanonical = ''windlass.verify.error.build-type-not-canonical''"
definition IDBuilderIDNotImmutable :: string where
  "IDBuilderIDNotImmutable = ''windlass.verify.error.builder-id-not-immutable''"
definition IDIssuerMismatch :: string where
  "IDIssuerMismatch = ''windlass.verify.error.issuer-mismatch''"
definition IDPackageRepositoryIdentityMismatch :: string where
  "IDPackageRepositoryIdentityMismatch =
     ''windlass.verify.error.package-repository-identity-mismatch''"
definition IDPolicySchemaInvalid :: string where
  "IDPolicySchemaInvalid = ''windlass.verify.error.policy-schema-invalid''"
definition IDRunInvocationURIInvalid :: string where
  "IDRunInvocationURIInvalid = ''windlass.verify.error.run-invocation-uri-invalid''"
definition IDSelfHostedRunner :: string where
  "IDSelfHostedRunner = ''windlass.verify.error.self-hosted-runner''"
definition IDSignerIdentityClaimMissing :: string where
  "IDSignerIdentityClaimMissing = ''windlass.verify.error.signer-identity-claim-missing''"
definition IDSignerWorkflowPathMismatch :: string where
  "IDSignerWorkflowPathMismatch = ''windlass.verify.error.signer-workflow-path-mismatch''"
definition IDSignerWorkflowSHAMismatch :: string where
  "IDSignerWorkflowSHAMismatch = ''windlass.verify.error.signer-workflow-sha-mismatch''"
definition IDSourceDigestMismatch :: string where
  "IDSourceDigestMismatch = ''windlass.verify.error.source-digest-mismatch''"
definition IDSourceIdentityMismatch :: string where
  "IDSourceIdentityMismatch = ''windlass.verify.error.source-identity-mismatch''"
definition IDSourceNumericIDMismatch :: string where
  "IDSourceNumericIDMismatch = ''windlass.verify.error.source-numeric-id-mismatch''"
definition IDSourceRefMismatch :: string where
  "IDSourceRefMismatch = ''windlass.verify.error.source-ref-mismatch''"

definition validationError :: "string \<Rightarrow> string \<Rightarrow> string \<Rightarrow> go_error" where
  "validationError ident field message = ErrDiag KIdentity ident field message [] []"

text \<open>The character classes \<open>[A-Za-z0-9._-]\<close> and \<open>[A-Za-z0-9._~-]\<close>.\<close>

definition repository_char :: "char \<Rightarrow> bool" where
  "repository_char c \<longleftrightarrow> is_alnum c \<or> c \<in> set ''._-''"

definition profile_char :: "char \<Rightarrow> bool" where
  "profile_char c \<longleftrightarrow> is_alnum c \<or> c \<in> set ''._~-''"

section \<open>Repository locators\<close>

definition validRepositorySegment :: "string \<Rightarrow> bool" where
  "validRepositorySegment segment \<longleftrightarrow>
     segment \<noteq> ''.'' \<and> segment \<noteq> ''..'' \<and> re_plus repository_char segment"

definition splitRepositoryPath :: "string \<Rightarrow> bool \<Rightarrow> bool \<Rightarrow> bool \<Rightarrow> (string \<times> string) option" where
  "splitRepositoryPath path0 allowTrailingSlash allowGitSuffix requireGitSuffix =
     (let path1 = (if allowTrailingSlash \<and> HasSuffix path0 ''/'' then TrimSuffix path0 ''/''
                   else path0);
          hasGitSuffix = HasSuffix (ToLower path1) ''.git''
      in if requireGitSuffix \<and> \<not> hasGitSuffix \<or> \<not> allowGitSuffix \<and> hasGitSuffix then None
         else
           (let path2 = (if allowGitSuffix \<and> hasGitSuffix then take (length path1 - 4) path1
                         else path1)
            in case split_on (CHR ''/'') path2 of
                 [owner, repository] \<Rightarrow>
                   if validRepositorySegment owner \<and> validRepositorySegment repository
                   then Some (owner, repository) else None
               | _ \<Rightarrow> None))"

definition repositoryCoordinates :: "string \<Rightarrow> (string \<times> string) option" where
  "repositoryCoordinates raw =
     (if raw = [] \<or> TrimSpace raw \<noteq> raw \<or> ContainsAny raw [CHR 0x5C, CHR 0x00]
         \<or> Contains raw ''%'' then None
      else case CutPrefix raw ''github:'' of
        Some remainder \<Rightarrow> splitRepositoryPath remainder False False False
      | None \<Rightarrow>
      (case CutPrefix raw ''git@github.com:'' of
        Some remainder \<Rightarrow> splitRepositoryPath remainder False True True
      | None \<Rightarrow>
      (if \<not> Contains raw '':'' then splitRepositoryPath raw False False False
       else case url_Parse raw of
         None \<Rightarrow> None
       | Some parsed \<Rightarrow>
           if Host parsed = [] \<or> \<not> EqualFold (Hostname parsed) githubHost \<or> Port parsed \<noteq> []
              \<or> RawQuery parsed \<noteq> [] \<or> Fragment parsed \<noteq> [] \<or> Opaque parsed \<noteq> [] then None
           else if (if Scheme parsed \<in> {''https'', ''git+https'', ''git''} then User parsed = None
                    else if Scheme parsed = ''ssh'' then
                      (case User parsed of
                         None \<Rightarrow> False
                       | Some (name, password) \<Rightarrow> name = ''git'' \<and> password = None)
                    else False)
           then splitRepositoryPath (TrimPrefix (Path parsed) ''/'') True True
                  (Scheme parsed = ''ssh'')
           else None)))"

definition CanonicalRepository :: "string \<Rightarrow> string result" where
  "CanonicalRepository raw =
     (case repositoryCoordinates raw of
        None \<Rightarrow> Inl (validationError IDPackageRepositoryIdentityMismatch ''repository''
          ''repository locator is not a supported uncredentialed GitHub form'')
      | Some (owner, repository) \<Rightarrow>
          Inr (canonicalGitHubBase @ ToLower owner @ ''/'' @ ToLower repository))"

definition ValidateCanonicalRepositoryURI :: "string \<Rightarrow> go_error option" where
  "ValidateCanonicalRepositoryURI repositoryURI =
     (case CanonicalRepository repositoryURI of
        Inr canonical \<Rightarrow>
          if canonical \<noteq> repositoryURI \<or> \<not> HasPrefix repositoryURI canonicalGitHubBase
          then Some (validationError IDSourceIdentityMismatch ''source.repository_uri''
            ''repository URI must use the exact canonical lowercase GitHub form'')
          else None
      | Inl _ \<Rightarrow> Some (validationError IDSourceIdentityMismatch ''source.repository_uri''
            ''repository URI must use the exact canonical lowercase GitHub form''))"

section \<open>Revisions and references\<close>

definition validFullSHA :: "string \<Rightarrow> bool" where
  "validFullSHA sha = re_exactly 40 is_lower_hex sha"

definition ValidateFullSHA :: "string \<Rightarrow> go_error option" where
  "ValidateFullSHA sha =
     (if \<not> validFullSHA sha then Some (validationError IDBuilderIDNotImmutable ''workflow_sha''
        ''workflow revision must be exactly 40 lowercase hexadecimal characters'') else None)"

text \<open>The runes of \<open>~^:?*[\<close> and the backslash, which no tag component may hold.\<close>

definition forbidden_ref_rune :: "nat \<Rightarrow> bool" where
  "forbidden_ref_rune r \<longleftrightarrow> r \<in> set (map byte (''~^:?*['' @ [CHR 0x5C]))"

definition validReleaseRef :: "string \<Rightarrow> bool" where
  "validReleaseRef ref =
     (case CutPrefix ref ''refs/tags/'' of
        None \<Rightarrow> False
      | Some tag \<Rightarrow>
          if tag = [] \<or> tag = ''@'' \<or> HasPrefix tag ''/'' \<or> HasSuffix tag ''/''
             \<or> Contains tag ''//'' \<or> Contains tag ''..'' \<or> Contains tag (CHR ''@'' # ''{'')
             \<or> HasSuffix tag ''.'' then False
          else if list_ex (\<lambda>component. component = [] \<or> HasPrefix component ''.''
                             \<or> HasSuffix component ''.lock'') (split_on (CHR ''/'') tag) then False
          else \<not> list_ex (\<lambda>(r, _). IsControl r \<or> IsSpace r \<or> forbidden_ref_rune r) (runes tag))"

definition ValidateReleaseRef :: "string \<Rightarrow> go_error option" where
  "ValidateReleaseRef ref =
     (if \<not> validReleaseRef ref then Some (validationError IDSourceRefMismatch ''source.ref''
        ''source ref must be a valid full refs/tags reference'') else None)"

definition validPositiveDecimal :: "string \<Rightarrow> bool" where
  "validPositiveDecimal s = re_positive_decimal s"

definition validWorkflowPath :: "string \<Rightarrow> bool" where
  "validWorkflowPath path =
     (case CutPrefix path ''.github/workflows/'' of
        None \<Rightarrow> False
      | Some filename \<Rightarrow>
          if Contains path ''%'' \<or> Contains path [CHR 0x5C] then False
          else if filename = [] \<or> Contains filename ''/'' \<or> HasPrefix filename ''.'' then False
          else
            (let cut = (case CutSuffix filename ''.yaml'' of
                          Some stem \<Rightarrow> Some stem | None \<Rightarrow> CutSuffix filename ''.yml'')
             in case cut of None \<Rightarrow> False | Some stem \<Rightarrow> re_plus repository_char stem))"

section \<open>Builder IDs\<close>

definition NewBuilderID :: "string \<Rightarrow> string \<Rightarrow> string result" where
  "NewBuilderID workflowPath workflowSHA =
     (if \<not> validWorkflowPath workflowPath then
        Inl (validationError IDBuilderIDNotImmutable ''builder.id''
          ''workflow path must identify one file directly under .github/workflows'')
      else guarded (ValidateFullSHA workflowSHA)
        (Inr (builderRepositoryURI @ ''/'' @ workflowPath @ ''@'' @ workflowSHA)))"

definition ValidateBuilderID :: "string \<Rightarrow> go_error option" where
  "ValidateBuilderID builderID =
     (if Contains builderID ''%'' \<or> TrimSpace builderID \<noteq> builderID then
        Some (validationError IDBuilderIDNotImmutable ''builder.id'' ''builder ID is not canonical'')
      else case CutPrefix builderID (builderRepositoryURI @ ''/'') of
        None \<Rightarrow> Some (validationError IDBuilderIDNotImmutable ''builder.id''
                  ''builder ID uses an untrusted repository'')
      | Some remainder \<Rightarrow>
          (let bad = Some (validationError IDBuilderIDNotImmutable ''builder.id''
                 ''builder ID must contain one trusted workflow path and a full lowercase SHA'')
           in case Cut remainder ''@'' of
                None \<Rightarrow> bad
              | Some (workflowPath, workflowSHA) \<Rightarrow>
                  if Contains workflowSHA ''@'' \<or> \<not> validWorkflowPath workflowPath
                     \<or> \<not> validFullSHA workflowSHA then bad
                  else if NewBuilderID workflowPath workflowSHA \<noteq> Inr builderID then
                    Some (validationError IDBuilderIDNotImmutable ''builder.id''
                      ''builder ID is not canonical'')
                  else None))"

section \<open>Build types\<close>

text \<open>\<open>major\<close> is a uint64: a number below \<open>2 ^ 64\<close>.\<close>

definition NewBuildTypeURI :: "string \<Rightarrow> nat \<Rightarrow> string result" where
  "NewBuildTypeURI profile major =
     (if \<not> re_plus profile_char profile \<or> major = 0 then
        Inl (validationError IDBuildTypeNotCanonical ''build_type''
          ''profile must be one URI-safe segment and major version must be positive'')
      else Inr (buildTypeNamespace @ profile @ ''/v'' @ show_nat major))"

definition ValidateBuildTypeURI :: "string \<Rightarrow> go_error option" where
  "ValidateBuildTypeURI buildType =
     (if Contains buildType ''%'' \<or> TrimSpace buildType \<noteq> buildType then
        Some (validationError IDBuildTypeNotCanonical ''build_type''
          ''build type URI is not canonical'')
      else case CutPrefix buildType buildTypeNamespace of
        None \<Rightarrow> Some (validationError IDBuildTypeNotCanonical ''build_type''
                  ''build type URI uses another namespace'')
      | Some remainder \<Rightarrow>
          (let bad = Some (validationError IDBuildTypeNotCanonical ''build_type''
                 ''build type URI has a non-canonical profile or version'')
           in case Cut remainder ''/v'' of
                None \<Rightarrow> bad
              | Some (profile, majorText) \<Rightarrow>
                  if Contains majorText ''/'' \<or> \<not> re_plus profile_char profile
                     \<or> \<not> validPositiveDecimal majorText then bad
                  else case ParseUint64 majorText of
                    None \<Rightarrow> Some (validationError IDBuildTypeNotCanonical ''build_type''
                              ''build type major version is out of range'')
                  | Some major \<Rightarrow>
                      if NewBuildTypeURI profile major \<noteq> Inr buildType then
                        Some (validationError IDBuildTypeNotCanonical ''build_type''
                          ''build type URI is not canonical'')
                      else None))"

section \<open>Run invocations\<close>

record RunInvocation =
  inv_URI :: string
  inv_RepositoryURI :: string
  inv_RunID :: string
  inv_Attempt :: string

definition NewRunInvocationURI :: "string \<Rightarrow> string \<Rightarrow> string \<Rightarrow> string result" where
  "NewRunInvocationURI repositoryURI runID attempt =
     (if ValidateCanonicalRepositoryURI repositoryURI \<noteq> None then
        Inl (validationError IDRunInvocationURIInvalid ''run_invocation''
          ''source repository is not canonical'')
      else if \<not> validPositiveDecimal runID \<or> \<not> validPositiveDecimal attempt then
        Inl (validationError IDRunInvocationURIInvalid ''run_invocation''
          ''run ID and attempt must be positive canonical decimal integers'')
      else Inr (repositoryURI @ ''/actions/runs/'' @ runID @ ''/attempts/'' @ attempt))"

definition ParseRunInvocationURI :: "string \<Rightarrow> string \<Rightarrow> RunInvocation result" where
  "ParseRunInvocationURI invocationURI expectedRepositoryURI =
     (let err = (\<lambda>message. Inl (validationError IDRunInvocationURIInvalid ''run_invocation'' message))
      in
      if ValidateCanonicalRepositoryURI expectedRepositoryURI \<noteq> None then
        err ''expected source repository is not canonical''
      else if Contains invocationURI ''%'' \<or> TrimSpace invocationURI \<noteq> invocationURI then
        err ''invocation URI is not canonical''
      else if (case url_Parse invocationURI of
                 None \<Rightarrow> True
               | Some parsed \<Rightarrow> Scheme parsed \<noteq> ''https'' \<or> Host parsed \<noteq> githubHost
                   \<or> User parsed \<noteq> None \<or> RawQuery parsed \<noteq> [] \<or> Fragment parsed \<noteq> []
                   \<or> Opaque parsed \<noteq> []) then
        err ''invocation URI has forbidden URI components''
      else case CutPrefix invocationURI (expectedRepositoryURI @ ''/actions/runs/'') of
        None \<Rightarrow> err ''invocation URI identifies another repository''
      | Some remainder \<Rightarrow>
          (let bad = err ''invocation URI has an invalid run ID or attempt''
           in case split_on (CHR ''/'') remainder of
                [runID, attempts, attempt] \<Rightarrow>
                  if attempts \<noteq> ''attempts'' \<or> \<not> validPositiveDecimal runID
                     \<or> \<not> validPositiveDecimal attempt then bad
                  else if NewRunInvocationURI expectedRepositoryURI runID attempt
                            \<noteq> Inr invocationURI then
                    err ''invocation URI is not canonical''
                  else Inr \<lparr>inv_URI = invocationURI, inv_RepositoryURI = expectedRepositoryURI,
                         inv_RunID = runID, inv_Attempt = attempt\<rparr>
              | _ \<Rightarrow> bad))"



section \<open>Canonical repository URIs\<close>

text \<open>A lowercase owner or repository segment.\<close>

definition canonical_segment :: "string \<Rightarrow> bool" where
  "canonical_segment s \<longleftrightarrow> validRepositorySegment s \<and> map lower_char s = s"

lemma repository_char_plain: "repository_char c \<Longrightarrow> url_path_char c \<and> is_ascii c \<and> c \<noteq> CHR ''/''"
  by (auto simp: repository_char_def url_path_char_def is_ascii_def is_alnum_def is_digit_def
      is_lower_def is_upper_def byte_def)

lemma repository_char_lower [simp]: "repository_char c \<Longrightarrow> repository_char (lower_char c)"
proof -
  assume "repository_char c"
  moreover have "is_lower (lower_char c)" if "is_upper c"
    using that by (auto simp: is_lower_def byte_lower_char is_upper_def)
  moreover have "lower_char c = c" if "\<not> is_upper c"
    using that by (simp add: lower_char_def)
  ultimately show ?thesis by (cases "is_upper c") (auto simp: repository_char_def is_alnum_def)
qed

lemma lower_char_dot [simp]: "lower_char c = CHR ''.'' \<longleftrightarrow> c = CHR ''.''"
proof -
  have "byte (CHR ''.'') = 46" by (simp add: byte_def)
  then show ?thesis
    using byte_inject [of "lower_char c" "CHR ''.''"] byte_inject [of c "CHR ''.''"]
    by (auto simp: byte_lower_char is_upper_def split: if_splits)
qed

lemma segment_chars: "validRepositorySegment s \<Longrightarrow> c \<in> set s \<Longrightarrow> repository_char c"
  by (auto simp: validRepositorySegment_def re_plus_def list_all_iff)

lemma segment_no_slash: "validRepositorySegment s \<Longrightarrow> CHR ''/'' \<notin> set s"
  using segment_chars repository_char_plain by blast

lemma segment_path_chars: "validRepositorySegment s \<Longrightarrow> list_all url_path_char s"
  using segment_chars repository_char_plain by (auto simp: list_all_iff)

lemma segment_ascii: "validRepositorySegment s \<Longrightarrow> list_all is_ascii s"
  using segment_chars repository_char_plain by (auto simp: list_all_iff)

lemma segment_lower:
  assumes "validRepositorySegment s"
  shows "canonical_segment (map lower_char s)"
proof -
  have "map lower_char s \<noteq> ''.''" "map lower_char s \<noteq> ''..''"
    using assms by (auto simp: validRepositorySegment_def map_eq_Cons_conv)
  with assms show ?thesis
    by (auto simp: canonical_segment_def validRepositorySegment_def re_plus_def list_all_iff)
qed

lemma canonical_segment_valid: "canonical_segment s \<Longrightarrow> validRepositorySegment s"
  by (simp add: canonical_segment_def)

lemma splitRepositoryPath_Some:
  "splitRepositoryPath p a b c = Some (ow, r) \<Longrightarrow>
     validRepositorySegment ow \<and> validRepositorySegment r"
  by (auto simp: splitRepositoryPath_def Let_def split: if_splits list.splits)

lemma repositoryCoordinates_Some:
  "repositoryCoordinates raw = Some (ow, r) \<Longrightarrow>
     validRepositorySegment ow \<and> validRepositorySegment r"
  unfolding repositoryCoordinates_def
  by (auto split: if_splits option.splits intro: splitRepositoryPath_Some dest: splitRepositoryPath_Some)

lemma CanonicalRepository_shape:
  assumes "CanonicalRepository raw = Inr u"
  shows "\<exists>ow r. u = canonicalGitHubBase @ ow @ CHR ''/'' # r \<and> canonical_segment ow \<and> canonical_segment r"
proof -
  from assms obtain ow r where c: "repositoryCoordinates raw = Some (ow, r)"
    and u: "u = canonicalGitHubBase @ ToLower ow @ ''/'' @ ToLower r"
    by (auto simp: CanonicalRepository_def split: option.splits)
  from repositoryCoordinates_Some [OF c]
  have v: "validRepositorySegment ow" "validRepositorySegment r" by simp_all
  then have "ToLower ow = map lower_char ow" "ToLower r = map lower_char r"
    by (simp_all add: ToLower_ascii segment_ascii)
  with u v show ?thesis using segment_lower by (metis append_Cons append_Nil)
qed
lemma segment_last: "validRepositorySegment r \<Longrightarrow> \<not> HasSuffix (a @ CHR ''/'' # r) ''/''"
  using segment_no_slash [of r]
  by (cases r rule: rev_cases) (auto simp: HasSuffix_iff validRepositorySegment_def re_plus_def)

lemma git_suffix_repository:
  assumes "CHR ''/'' \<notin> set r"
  shows "HasSuffix (a @ CHR ''/'' # r) ''.git'' \<longleftrightarrow> HasSuffix r ''.git''"
proof
  assume "HasSuffix (a @ CHR ''/'' # r) ''.git''"
  then obtain x where x: "a @ CHR ''/'' # r = x @ ''.git''" by (auto simp: HasSuffix_iff)
  then obtain us where "a @ [CHR ''/''] = x @ us \<and> us @ r = ''.git'' \<or>
      a @ [CHR ''/''] @ us = x \<and> r = us @ ''.git''"
    using append_eq_append_conv2 [of "a @ [CHR ''/'']" r x "''.git''"] by auto
  then show "HasSuffix r ''.git''"
  proof
    assume us: "a @ [CHR ''/''] = x @ us \<and> us @ r = ''.git''"
    show ?thesis
    proof (cases us rule: rev_cases)
      case Nil
      with us show ?thesis by (auto simp: HasSuffix_iff)
    next
      case (snoc ys y)
      with us have "y = CHR ''/''" by auto
      with us snoc have "CHR ''/'' \<in> set (''.git'' :: string)" by (metis UnCI list.set_intros(1) set_append)
      then show ?thesis by simp
    qed
  qed (auto simp: HasSuffix_iff)
next
  assume "HasSuffix r ''.git''"
  then show "HasSuffix (a @ CHR ''/'' # r) ''.git''" by (auto simp: HasSuffix_iff)
qed

lemma ToLower_canonical: "canonical_segment s \<Longrightarrow> ToLower s = s"
  using canonical_segment_valid segment_ascii ToLower_ascii by (metis canonical_segment_def)

lemma ToLower_coordinates:
  assumes "canonical_segment ow" and "canonical_segment r"
  shows "ToLower (ow @ CHR ''/'' # r) = ow @ CHR ''/'' # r"
proof -
  have "list_all is_ascii (ow @ CHR ''/'' # r)"
    using assms segment_ascii canonical_segment_valid
    by (simp add: is_ascii_def byte_def)
  moreover have "map lower_char (ow @ CHR ''/'' # r) = ow @ CHR ''/'' # r"
    using assms by (simp add: canonical_segment_def lower_char_def is_upper_def byte_def)
  ultimately show ?thesis by (metis ToLower_ascii)
qed

lemma splitRepositoryPath_canonical:
  assumes ow: "canonical_segment ow" and r: "canonical_segment r"
  shows "splitRepositoryPath (ow @ CHR ''/'' # r) True True False =
    (case CutSuffix r ''.git'' of
       None \<Rightarrow> Some (ow, r)
     | Some r' \<Rightarrow> if validRepositorySegment r' then Some (ow, r') else None)"
proof -
  note v = canonical_segment_valid [OF ow] canonical_segment_valid [OF r]
  note ns = segment_no_slash [OF v(1)] segment_no_slash [OF v(2)]
  show ?thesis
  proof (cases "CutSuffix r ''.git''")
    case None
    then have "\<not> HasSuffix r ''.git''" by (simp add: CutSuffix_def split: if_splits)
    then show ?thesis
      using None v ns segment_last [OF v(2)]
      by (simp add: splitRepositoryPath_def ToLower_coordinates [OF ow r] git_suffix_repository
          split_on_append)
  next
    case (Some r')
    then have r': "r = r' @ ''.git''" by (simp add: CutSuffix_Some)
    have hs: "HasSuffix (ow @ CHR ''/'' # r) ''.git''"
      unfolding git_suffix_repository [OF ns(2)] by (simp only: r' HasSuffix_append)
    have ns': "CHR ''/'' \<notin> set r'" using ns r' by auto
    have tk: "take (length (ow @ CHR ''/'' # r) - 4) (ow @ CHR ''/'' # r) = ow @ CHR ''/'' # r'"
      using r' by simp
    have sp: "split_on (CHR ''/'') (ow @ CHR ''/'' # r') = [ow, r']"
      using ns ns' by (simp add: split_on_append)
    have lw: "ToLower (ow @ CHR ''/'' # r) = ow @ CHR ''/'' # r" by (rule ToLower_coordinates [OF ow r])
    show ?thesis
      unfolding splitRepositoryPath_def Let_def
      by (simp only: lw hs segment_last [OF v(2)] tk sp Some if_False if_True simp_thms option.case
          list.case v(1))
  qed
qed

lemma repositoryCoordinates_canonical:
  assumes ow: "canonical_segment ow" and r: "canonical_segment r"
  shows "repositoryCoordinates (canonicalGitHubBase @ ow @ CHR ''/'' # r) =
    (case CutSuffix r ''.git'' of
       None \<Rightarrow> Some (ow, r)
     | Some r' \<Rightarrow> if validRepositorySegment r' then Some (ow, r') else None)"
proof -
  let ?raw = "canonicalGitHubBase @ ow @ CHR ''/'' # r"
  note v = canonical_segment_valid [OF ow] canonical_segment_valid [OF r]
  have chars: "list_all url_path_char (ow @ CHR ''/'' # r)"
    using segment_path_chars [OF v(1)] segment_path_chars [OF v(2)]
    by (simp add: url_path_char_def)
  then have pc: "list_all plain_char (ow @ CHR ''/'' # r)"
    using url_path_char_plain by (auto simp: list_all_iff)
  then have plain: "list_all plain_char ?raw"
    by (simp add: canonicalGitHubBase_def plain_char_def byte_def)
  have no_pct: "CHR ''%'' \<notin> set ?raw"
    using chars url_path_char_not by (auto simp: canonicalGitHubBase_def list_all_iff)
  have no_bs: "\<not> ContainsAny ?raw [CHR 0x5C, CHR 0x00]"
  proof -
    have "c \<noteq> CHR 0x5C \<and> c \<noteq> CHR 0x00" if "url_path_char c" for c
      using that by (auto simp: url_path_char_def is_alnum_def is_digit_def is_lower_def is_upper_def
          byte_def)
    with chars show ?thesis
      by (auto simp: ContainsAny_def list_ex_iff list_all_iff canonicalGitHubBase_def)
  qed
  have parse: "url_Parse ?raw = Some \<lparr>Scheme = ''https'', Opaque = [], User = None,
      Host = ''github.com'', Path = CHR ''/'' # ow @ CHR ''/'' # r, RawQuery = [], Fragment = []\<rparr>"
    using url_Parse_github [OF chars] by (simp add: canonicalGitHubBase_def)
  have trim: "TrimPrefix (CHR ''/'' # p) ''/'' = p" for p
    using TrimPrefix_append [of "''/''" p] by simp
  have fold: "EqualFold ''github.com'' ''github.com''" by (simp add: EqualFold_def)
  have pre: "CutPrefix ?raw ''github:'' = None" "CutPrefix ?raw ''git@github.com:'' = None"
    "Contains ?raw '':''" "?raw \<noteq> []" "\<not> Contains ?raw ''%''"
    using no_pct by (auto simp: canonicalGitHubBase_def CutPrefix_def)
  show ?thesis
    unfolding repositoryCoordinates_def
    by (simp only: TrimSpace_plain [OF plain] pre no_bs parse) (simp add: Hostname_def Port_def
        splitHostPort_github githubHost_def fold trim splitRepositoryPath_canonical [OF ow r])
qed

text \<open>The declarative form of what the validator accepts.\<close>

definition canonical_uri :: "string \<Rightarrow> bool" where
  "canonical_uri u \<longleftrightarrow> (\<exists>ow r. u = canonicalGitHubBase @ ow @ CHR ''/'' # r \<and>
     canonical_segment ow \<and> canonical_segment r \<and> \<not> HasSuffix r ''.git'')"

lemma CanonicalRepository_canonical:
  assumes "canonical_segment ow" and "canonical_segment r" and "\<not> HasSuffix r ''.git''"
  shows "CanonicalRepository (canonicalGitHubBase @ ow @ CHR ''/'' # r) =
    Inr (canonicalGitHubBase @ ow @ CHR ''/'' # r)"
  using assms
  by (simp add: CanonicalRepository_def repositoryCoordinates_canonical CutSuffix_def
      ToLower_canonical)

lemma CanonicalRepository_git_suffix:
  assumes "canonical_segment ow" and "canonical_segment r" and "HasSuffix r ''.git''"
  shows "CanonicalRepository (canonicalGitHubBase @ ow @ CHR ''/'' # r) \<noteq>
    Inr (canonicalGitHubBase @ ow @ CHR ''/'' # r)"
proof
  assume eq: "CanonicalRepository (canonicalGitHubBase @ ow @ CHR ''/'' # r) =
    Inr (canonicalGitHubBase @ ow @ CHR ''/'' # r)"
  from assms(3) obtain r' where r': "r = r' @ ''.git''" "CutSuffix r ''.git'' = Some r'"
    by (auto simp: HasSuffix_iff)
  with eq assms have "validRepositorySegment r'" "ToLower r' = r"
    by (auto simp: CanonicalRepository_def repositoryCoordinates_canonical ToLower_canonical
        split: if_splits)
  then have "length r' = length r" by (metis ToLower_ascii length_map segment_ascii)
  with r' show False by simp
qed

lemma ValidateCanonicalRepositoryURI_None:
  "ValidateCanonicalRepositoryURI u = None \<longleftrightarrow> canonical_uri u"
proof
  assume "ValidateCanonicalRepositoryURI u = None"
  then have c: "CanonicalRepository u = Inr u"
    by (auto simp: ValidateCanonicalRepositoryURI_def split: sum.splits if_splits)
  then obtain ow r where s: "u = canonicalGitHubBase @ ow @ CHR ''/'' # r"
    "canonical_segment ow" "canonical_segment r"
    using CanonicalRepository_shape by blast
  then have "\<not> HasSuffix r ''.git''" using c CanonicalRepository_git_suffix by blast
  with s show "canonical_uri u" unfolding canonical_uri_def by blast
next
  assume "canonical_uri u"
  then obtain ow r where s: "u = canonicalGitHubBase @ ow @ CHR ''/'' # r"
    and "canonical_segment ow" "canonical_segment r" "\<not> HasSuffix r ''.git''"
    unfolding canonical_uri_def by blast
  then have "CanonicalRepository u = Inr u" using CanonicalRepository_canonical by blast
  then show "ValidateCanonicalRepositoryURI u = None"
    by (simp add: ValidateCanonicalRepositoryURI_def s)
qed

text \<open>CanonicalRepository is meant to return a fixed point of itself: for every locator it accepts, its output is returned unchanged by CanonicalRepository and accepted by ValidateCanonicalRepositoryURI exactly when the output does not end in .git.\<close>

theorem canonical_repository_fixed_point:
  assumes "CanonicalRepository raw = Inr u"
  shows "(CanonicalRepository u = Inr u \<and> ValidateCanonicalRepositoryURI u = None) \<longleftrightarrow>
    \<not> HasSuffix u ''.git''"
proof -
  obtain ow r where s: "u = canonicalGitHubBase @ ow @ CHR ''/'' # r"
    and seg: "canonical_segment ow" "canonical_segment r"
    using CanonicalRepository_shape [OF assms] by blast
  have "CHR ''/'' \<notin> set r" using seg canonical_segment_valid segment_no_slash by blast
  then have suf: "HasSuffix u ''.git'' \<longleftrightarrow> HasSuffix r ''.git''"
    using git_suffix_repository [of r "canonicalGitHubBase @ ow"] by (simp add: s)
  show ?thesis
    using suf seg CanonicalRepository_canonical CanonicalRepository_git_suffix
    by (metis s canonical_uri_def ValidateCanonicalRepositoryURI_None)
qed

lemma canonical_repository_fixed_point_witness:
  "CanonicalRepository ''git@github.com:Windlass/Ex.git'' = Inr ''https://github.com/windlass/ex''
   \<and> CanonicalRepository ''https://github.com/windlass/ex'' = Inr ''https://github.com/windlass/ex''"
proof -
  have h: "CanonicalRepository ''git@github.com:Windlass/Ex.git'' = Inr ''https://github.com/windlass/ex''"
    by code_simp
  have "\<not> HasSuffix ''https://github.com/windlass/ex'' ''.git''" by code_simp
  then show ?thesis using h canonical_repository_fixed_point [OF h] by blast
qed

text \<open>The exception is real: a locator whose repository ends in .git.git canonicalises to a URI that ValidateCanonicalRepositoryURI rejects and that CanonicalRepository maps to a different repository.\<close>

theorem canonical_repository_double_suffix:
  "CanonicalRepository ''https://github.com/o/r.git.git'' = Inr ''https://github.com/o/r.git''
   \<and> ValidateCanonicalRepositoryURI ''https://github.com/o/r.git'' \<noteq> None
   \<and> CanonicalRepository ''https://github.com/o/r.git'' = Inr ''https://github.com/o/r''"
  by (intro conjI; code_simp)


section \<open>Builder IDs\<close>

lemma lower_hex_path: "is_lower_hex c \<Longrightarrow> url_path_char c \<and> c \<noteq> CHR ''@''"
  by (auto simp: is_lower_hex_def url_path_char_def is_alnum_def is_digit_def is_lower_def byte_def)

lemma digit_path: "is_digit c \<Longrightarrow> url_path_char c \<and> c \<noteq> CHR ''/''"
  by (auto simp: url_path_char_def is_alnum_def is_digit_def byte_def)

lemma workflow_path_chars:
  assumes "validWorkflowPath p"
  shows "list_all url_path_char p \<and> CHR ''@'' \<notin> set p"
proof -
  from assms obtain f stem where p: "p = ''.github/workflows/'' @ f"
    and f: "f = stem @ ''.yaml'' \<or> f = stem @ ''.yml''" and st: "re_plus repository_char stem"
    by (auto simp: validWorkflowPath_def CutPrefix_Some CutSuffix_Some Let_def
        split: option.splits if_splits)
  have rc: "url_path_char c \<and> c \<noteq> CHR ''@''" if "repository_char c" for c
    using repository_char_plain [OF that] that
    by (auto simp: repository_char_def is_alnum_def is_digit_def is_lower_def is_upper_def byte_def)
  have pre: "list_all url_path_char ''.github/workflows/''" "list_all url_path_char ''.yaml''"
    "list_all url_path_char ''.yml''"
    by code_simp+
  have "list_all url_path_char stem \<and> CHR ''@'' \<notin> set stem"
    using st rc by (auto simp: re_plus_def list_all_iff)
  with p f pre show ?thesis by (elim disjE) (simp_all only: list_all_append set_append, simp_all)
qed

lemma NewBuilderID_iff:
  "NewBuilderID p sha = Inr b \<longleftrightarrow>
     validWorkflowPath p \<and> validFullSHA sha \<and> b = builderRepositoryURI @ ''/'' @ p @ ''@'' @ sha"
  by (auto simp: NewBuilderID_def ValidateFullSHA_def)

text \<open>What a string of URL path characters satisfies in the canonicity guards.\<close>

lemma canonical_guard:
  assumes "list_all url_path_char path"
  shows "TrimSpace (''https://github.com/'' @ path) = ''https://github.com/'' @ path"
    and "\<not> Contains (''https://github.com/'' @ path) ''%''"
proof -
  have "list_all plain_char path"
    using assms url_path_char_plain by (auto simp: list_all_iff)
  then have "list_all plain_char (''https://github.com/'' @ path)"
    by (simp add: plain_char_def byte_def)
  then show "TrimSpace (''https://github.com/'' @ path) = ''https://github.com/'' @ path"
    by (rule TrimSpace_plain)
  show "\<not> Contains (''https://github.com/'' @ path) ''%''"
    using assms url_path_char_not by (auto simp: list_all_iff)
qed

lemma builder_id_accepts:
  "ValidateBuilderID b = None \<longleftrightarrow> (\<exists>p sha. NewBuilderID p sha = Inr b)"
proof
  assume "ValidateBuilderID b = None"
  then show "\<exists>p sha. NewBuilderID p sha = Inr b"
    unfolding ValidateBuilderID_def Let_def
    by (simp split: if_splits option.splits prod.splits) blast
next
  assume "\<exists>p sha. NewBuilderID p sha = Inr b"
  then obtain p sha where ok: "NewBuilderID p sha = Inr b" by blast
  then have v: "validWorkflowPath p" "validFullSHA sha"
    and b: "b = builderRepositoryURI @ ''/'' @ p @ ''@'' @ sha"
    by (simp_all add: NewBuilderID_iff)
  have sha: "list_all url_path_char sha" "CHR ''@'' \<notin> set sha"
    using v(2) lower_hex_path by (auto simp: validFullSHA_def re_exactly_def list_all_iff)
  have at: "CHR ''@'' \<notin> set p" using workflow_path_chars [OF v(1)] by simp
  have path: "list_all url_path_char (''windlasstech/slsa-builder/'' @ p @ ''@'' @ sha)"
    using workflow_path_chars [OF v(1)] sha(1)
    by (simp add: url_path_char_def is_alnum_def is_lower_def byte_def)
  have b': "b = ''https://github.com/'' @ ''windlasstech/slsa-builder/'' @ p @ ''@'' @ sha"
    by (simp add: b builderRepositoryURI_def)
  have guards: "TrimSpace b = b" "\<not> Contains b ''%''"
    unfolding b' using canonical_guard [OF path] by simp_all
  have cut: "CutPrefix b (builderRepositoryURI @ ''/'') = Some (p @ CHR ''@'' # sha)"
    by (simp add: b CutPrefix_Some)
  have cut': "Cut (p @ CHR ''@'' # sha) ''@'' = Some (p, sha)" using at by simp
  show "ValidateBuilderID b = None"
    unfolding ValidateBuilderID_def Let_def cut option.case cut' prod.case
    using guards v sha(2) ok by simp
qed

text \<open>ValidateBuilderID accepts exactly the strings NewBuilderID can produce: a trusted repository, one workflow path and a full lowercase SHA, with no other spelling accepted.\<close>

theorem builder_id_validator_exact:
  "ValidateBuilderID b = None \<longleftrightarrow> (\<exists>p sha. NewBuilderID p sha = Inr b)"
  by (rule builder_id_accepts)

section \<open>Build types\<close>

lemma profile_char_path: "profile_char c \<Longrightarrow> url_path_char c \<and> c \<noteq> CHR ''/''"
  by (auto simp: profile_char_def url_path_char_def is_alnum_def is_digit_def is_lower_def
      is_upper_def byte_def)

lemma Cut_at_v: "CHR ''/'' \<notin> set p \<Longrightarrow> Cut (p @ ''/v'' @ m) ''/v'' = Some (p, m)"
  by (induction p) auto

text \<open>ValidateBuildTypeURI accepts exactly the URIs NewBuildTypeURI produces for a uint64 major version.\<close>

theorem build_type_validator_exact:
  "ValidateBuildTypeURI b = None \<longleftrightarrow> (\<exists>profile major. major < 2 ^ 64 \<and> NewBuildTypeURI profile major = Inr b)"
proof
  assume "ValidateBuildTypeURI b = None"
  then show "\<exists>profile major. major < 2 ^ 64 \<and> NewBuildTypeURI profile major = Inr b"
    unfolding ValidateBuildTypeURI_def Let_def
    by (simp add: ParseUint64_Some split: if_splits option.splits prod.splits) blast
next
  assume "\<exists>profile major. major < 2 ^ 64 \<and> NewBuildTypeURI profile major = Inr b"
  then obtain p m where m: "m < 2 ^ 64" and ok: "NewBuildTypeURI p m = Inr b" by blast
  then have p: "re_plus profile_char p" and pos: "0 < m"
    and b: "b = buildTypeNamespace @ p @ ''/v'' @ show_nat m"
    by (auto simp: NewBuildTypeURI_def split: if_splits)
  have pc: "list_all url_path_char p" "CHR ''/'' \<notin> set p"
    using p profile_char_path by (auto simp: re_plus_def list_all_iff)
  have digits: "list_all url_path_char (show_nat m)" "CHR ''/'' \<notin> set (show_nat m)"
    using show_nat_digits [of m] digit_path by (auto simp: list_all_iff)
  have "list_all plain_char (p @ ''/v'' @ show_nat m)"
    using pc digits url_path_char_plain by (auto simp: list_all_iff plain_char_def byte_def)
  then have "list_all plain_char b" by (simp add: b buildTypeNamespace_def plain_char_def byte_def)
  then have trim: "TrimSpace b = b" by (rule TrimSpace_plain)
  have "CHR ''%'' \<notin> set (p @ ''/v'' @ show_nat m)"
    using pc digits url_path_char_not by (auto simp: list_all_iff)
  then have pct: "\<not> Contains b ''%''" by (simp add: b buildTypeNamespace_def)
  have cut: "CutPrefix b buildTypeNamespace = Some (p @ ''/v'' @ show_nat m)"
    by (simp add: b)
  show "ValidateBuildTypeURI b = None"
    unfolding ValidateBuildTypeURI_def Let_def cut option.case Cut_at_v [OF pc(2)] prod.case
    using trim pct p digits(2) ok m show_nat_positive [OF pos] by (simp add: validPositiveDecimal_def)
qed

section \<open>Run invocations\<close>

lemma NewRunInvocationURI_iff:
  "NewRunInvocationURI repo runID att = Inr u \<longleftrightarrow>
     canonical_uri repo \<and> re_positive_decimal runID \<and> re_positive_decimal att \<and>
     u = repo @ ''/actions/runs/'' @ runID @ ''/attempts/'' @ att"
  by (auto simp: NewRunInvocationURI_def ValidateCanonicalRepositoryURI_None
      validPositiveDecimal_def)

lemma decimal_path: "re_positive_decimal s \<Longrightarrow> list_all url_path_char s \<and> CHR ''/'' \<notin> set s"
  using re_positive_decimal_digits [of s] digit_path by (auto simp: list_all_iff)

lemma canonical_uri_path:
  assumes "canonical_uri repo"
  obtains path where "repo = ''https://github.com/'' @ path" and "list_all url_path_char path"
proof -
  from assms obtain ow r where s: "repo = canonicalGitHubBase @ ow @ CHR ''/'' # r"
    and "canonical_segment ow" "canonical_segment r"
    unfolding canonical_uri_def by blast
  then have "list_all url_path_char (ow @ CHR ''/'' # r)"
    using canonical_segment_valid segment_path_chars by (simp add: url_path_char_def)
  with s show thesis using that by (simp add: canonicalGitHubBase_def)
qed

lemma run_invocation_parses:
  "ParseRunInvocationURI u repo = Inr ri \<longleftrightarrow>
     inv_URI ri = u \<and> inv_RepositoryURI ri = repo \<and>
     NewRunInvocationURI repo (inv_RunID ri) (inv_Attempt ri) = Inr u"
proof
  assume "ParseRunInvocationURI u repo = Inr ri"
  then show "inv_URI ri = u \<and> inv_RepositoryURI ri = repo \<and>
     NewRunInvocationURI repo (inv_RunID ri) (inv_Attempt ri) = Inr u"
    unfolding ParseRunInvocationURI_def Let_def
    by (auto split: if_splits option.splits list.splits)
next
  assume "inv_URI ri = u \<and> inv_RepositoryURI ri = repo \<and>
     NewRunInvocationURI repo (inv_RunID ri) (inv_Attempt ri) = Inr u"
  then obtain rid att where ri: "ri = \<lparr>inv_URI = u, inv_RepositoryURI = repo, inv_RunID = rid,
      inv_Attempt = att\<rparr>" and new: "NewRunInvocationURI repo rid att = Inr u"
    by (cases ri) auto
  from new have repo: "canonical_uri repo" and rid: "re_positive_decimal rid"
    and att: "re_positive_decimal att"
    and u: "u = repo @ ''/actions/runs/'' @ rid @ ''/attempts/'' @ att"
    by (simp_all add: NewRunInvocationURI_iff)
  obtain path where path: "repo = ''https://github.com/'' @ path" "list_all url_path_char path"
    using canonical_uri_path [OF repo] by blast
  let ?p = "path @ ''/actions/runs/'' @ rid @ ''/attempts/'' @ att"
  have up: "u = ''https://github.com/'' @ ?p" by (simp add: u path(1))
  have chars: "list_all url_path_char ?p"
    using path(2) decimal_path [OF rid] decimal_path [OF att]
    by (simp add: url_path_char_def is_alnum_def is_lower_def byte_def)
  have guards: "TrimSpace u = u" "\<not> Contains u ''%''"
    unfolding up using canonical_guard [OF chars] by simp_all
  have cut: "CutPrefix u (repo @ ''/actions/runs/'') = Some (rid @ CHR ''/'' # ''attempts'' @ CHR ''/'' # att)"
    by (simp add: u CutPrefix_Some)
  have sp: "split_on (CHR ''/'') (rid @ CHR ''/'' # ''attempts'' @ CHR ''/'' # att) = [rid, ''attempts'', att]"
    using decimal_path [OF rid] decimal_path [OF att] by (simp add: split_on_append)
  have parse: "url_Parse u = Some \<lparr>Scheme = ''https'', Opaque = [], User = None,
      Host = ''github.com'', Path = CHR ''/'' # ?p, RawQuery = [], Fragment = []\<rparr>"
    unfolding up by (rule url_Parse_github [OF chars])
  show "ParseRunInvocationURI u repo = Inr ri"
    unfolding ParseRunInvocationURI_def Let_def cut parse option.case sp list.case
    using guards repo rid att new
    by (simp add: ValidateCanonicalRepositoryURI_None validPositiveDecimal_def githubHost_def ri)
qed

text \<open>ParseRunInvocationURI is the exact inverse of NewRunInvocationURI: it returns a run ID and attempt for a URI and an expected repository precisely when NewRunInvocationURI builds that URI from them.\<close>

theorem run_invocation_parse_exact:
  "ParseRunInvocationURI u repo = Inr ri \<longleftrightarrow>
     inv_URI ri = u \<and> inv_RepositoryURI ri = repo \<and>
     NewRunInvocationURI repo (inv_RunID ri) (inv_Attempt ri) = Inr u"
  by (rule run_invocation_parses)

end
