(* ===== verification/Oidc.thy ===== *)
theory Oidc
  imports Identity
begin

text \<open>
  internal/identity/oidc.go: binding of the GitHub-issued OIDC claims of a reusable workflow to
  a policy.  Token acquisition and signature verification are outside the file and outside the
  model; the claims are the record the code receives.
\<close>

definition PlatformGitHubDotCom :: string where "PlatformGitHubDotCom = githubHost"

record OIDCClaims =
  cl_Issuer :: string
  cl_JobWorkflowRef :: string
  cl_JobWorkflowSHA :: string
  cl_Repository :: string
  cl_RepositoryID :: string
  cl_RepositoryOwnerID :: string
  cl_SHA :: string
  cl_Ref :: string
  cl_RunID :: string
  cl_RunAttempt :: string
  cl_RunnerEnvironment :: string

record BindingPolicy =
  bp_Platform :: string
  bp_WorkflowPath :: string
  bp_WorkflowSHA :: string
  bp_SourceRepositoryURI :: string
  bp_SourceRepositoryID :: string
  bp_SourceRepositoryOwnerID :: string
  bp_SourceDigest :: string
  bp_SourceRef :: string

record RuntimeIdentity =
  ri_BuilderID :: string
  ri_WorkflowSHA :: string
  ri_SourceRepositoryURI :: string
  ri_SourceDigest :: string
  ri_SourceRef :: string
  ri_RunInvocationURI :: string

definition missingIdentityClaim :: "string \<Rightarrow> go_error" where
  "missingIdentityClaim field = validationError IDSignerIdentityClaimMissing field
     ''required signer identity claim is absent''"

definition invalidBindingPolicy :: "string \<Rightarrow> string \<Rightarrow> go_error" where
  "invalidBindingPolicy field message = validationError IDPolicySchemaInvalid field message"

definition ValidateHostedRunner :: "string \<Rightarrow> string \<Rightarrow> go_error option" where
  "ValidateHostedRunner platform runnerEnvironment =
     (if platform \<noteq> PlatformGitHubDotCom then
        Some (validationError IDSignerIdentityClaimMissing ''platform''
          ''job.workflow_* identity acquisition is supported only on github.com, not GHES'')
      else if runnerEnvironment \<noteq> ''github-hosted'' then
        Some (validationError IDSelfHostedRunner ''runner_environment''
          ''runner environment must be the platform-signed github-hosted value'')
      else None)"

definition validateBindingPolicy :: "BindingPolicy \<Rightarrow> go_error option" where
  "validateBindingPolicy policy =
     (if bp_Platform policy = [] then
        Some (invalidBindingPolicy ''platform'' ''policy platform is required'')
      else if bp_Platform policy \<noteq> PlatformGitHubDotCom then
        ValidateHostedRunner (bp_Platform policy) []
      else if \<not> validWorkflowPath (bp_WorkflowPath policy) then
        Some (invalidBindingPolicy ''workflow_path'' ''policy workflow path is not canonical'')
      else if \<not> validFullSHA (bp_WorkflowSHA policy) then
        Some (invalidBindingPolicy ''workflow_sha''
          ''policy workflow SHA is not a full lowercase SHA'')
      else if ValidateCanonicalRepositoryURI (bp_SourceRepositoryURI policy) \<noteq> None then
        Some (invalidBindingPolicy ''source.repository_uri''
          ''policy repository URI is not canonical'')
      else if \<not> validPositiveDecimal (bp_SourceRepositoryID policy) then
        Some (invalidBindingPolicy ''source.repository_id''
          ''policy numeric IDs must be positive decimal strings'')
      else if \<not> validPositiveDecimal (bp_SourceRepositoryOwnerID policy) then
        Some (invalidBindingPolicy ''source.repository_owner_id''
          ''policy numeric IDs must be positive decimal strings'')
      else if \<not> validFullSHA (bp_SourceDigest policy) then
        Some (invalidBindingPolicy ''source.digest''
          ''policy source digest is not a full lowercase SHA'')
      else if \<not> validReleaseRef (bp_SourceRef policy) then
        Some (invalidBindingPolicy ''source.ref''
          ''policy source ref is not a full release tag ref'')
      else None)"

definition ValidateMaximalOIDCBinding ::
  "OIDCClaims \<Rightarrow> BindingPolicy \<Rightarrow> RuntimeIdentity result" where
  "ValidateMaximalOIDCBinding claims policy =
     guarded (validateBindingPolicy policy)
     (if cl_Issuer claims = [] then Inl (missingIdentityClaim ''iss'')
      else if cl_JobWorkflowRef claims = [] then Inl (missingIdentityClaim ''job_workflow_ref'')
      else if cl_JobWorkflowSHA claims = [] then Inl (missingIdentityClaim ''job_workflow_sha'')
      else if cl_Issuer claims \<noteq> trustedGitHubOIDCIssuer then
        Inl (validationError IDIssuerMismatch ''iss''
          ''issuer must exactly match the GitHub Actions issuer'')
      else case CutPrefix (cl_JobWorkflowRef claims)
                  (''windlasstech/slsa-builder/'' @ bp_WorkflowPath policy @ ''@'') of
        None \<Rightarrow> Inl (validationError IDSignerWorkflowPathMismatch ''job_workflow_ref''
                  ''called workflow repository and path do not match policy'')
      | Some workflowRefSHA \<Rightarrow>
        if \<not> validFullSHA workflowRefSHA \<or> \<not> validFullSHA (cl_JobWorkflowSHA claims)
           \<or> workflowRefSHA \<noteq> cl_JobWorkflowSHA claims
           \<or> cl_JobWorkflowSHA claims \<noteq> bp_WorkflowSHA policy then
          Inl (validationError IDSignerWorkflowSHAMismatch ''job_workflow_sha''
            ''resolved called-workflow SHA, ref suffix, and policy SHA must match'')
        else (case NewBuilderID (bp_WorkflowPath policy) (cl_JobWorkflowSHA claims) of
          Inl _ \<Rightarrow> Inl (validationError IDSignerWorkflowSHAMismatch ''job_workflow_sha''
                     ''cannot construct immutable builder identity'')
        | Inr builderID \<Rightarrow>
          (case CanonicalRepository (cl_Repository claims) of
            Inl _ \<Rightarrow> Inl (validationError IDSourceIdentityMismatch ''repository''
                       ''source repository does not match the canonical policy URI'')
          | Inr repositoryURI \<Rightarrow>
            if repositoryURI \<noteq> bp_SourceRepositoryURI policy then
              Inl (validationError IDSourceIdentityMismatch ''repository''
                ''source repository does not match the canonical policy URI'')
            else if \<not> validPositiveDecimal (cl_RepositoryID claims)
                    \<or> \<not> validPositiveDecimal (cl_RepositoryOwnerID claims)
                    \<or> cl_RepositoryID claims \<noteq> bp_SourceRepositoryID policy
                    \<or> cl_RepositoryOwnerID claims \<noteq> bp_SourceRepositoryOwnerID policy then
              Inl (validationError IDSourceNumericIDMismatch ''repository_id''
                ''repository and owner numeric IDs must match policy; names are not authoritative'')
            else if \<not> validFullSHA (cl_SHA claims) \<or> cl_SHA claims \<noteq> bp_SourceDigest policy then
              Inl (validationError IDSourceDigestMismatch ''sha''
                ''source digest does not match policy'')
            else if \<not> validReleaseRef (cl_Ref claims) \<or> cl_Ref claims \<noteq> bp_SourceRef policy then
              Inl (validationError IDSourceRefMismatch ''ref''
                ''source release ref does not match policy'')
            else (case NewRunInvocationURI repositoryURI (cl_RunID claims) (cl_RunAttempt claims) of
                Inl e \<Rightarrow> Inl e
              | Inr runInvocationURI \<Rightarrow>
                guarded (ValidateHostedRunner (bp_Platform policy) (cl_RunnerEnvironment claims))
                (Inr \<lparr>ri_BuilderID = builderID,
                      ri_WorkflowSHA = cl_JobWorkflowSHA claims,
                      ri_SourceRepositoryURI = repositoryURI,
                      ri_SourceDigest = cl_SHA claims,
                      ri_SourceRef = cl_Ref claims,
                      ri_RunInvocationURI = runInvocationURI\<rparr>)))))"

section \<open>What an accepted binding means\<close>

lemma validateBindingPolicy_None:
  "validateBindingPolicy p = None \<longleftrightarrow>
     bp_Platform p = PlatformGitHubDotCom \<and> validWorkflowPath (bp_WorkflowPath p) \<and>
     validFullSHA (bp_WorkflowSHA p) \<and> canonical_uri (bp_SourceRepositoryURI p) \<and>
     validPositiveDecimal (bp_SourceRepositoryID p) \<and>
     validPositiveDecimal (bp_SourceRepositoryOwnerID p) \<and>
     validFullSHA (bp_SourceDigest p) \<and> validReleaseRef (bp_SourceRef p)"
  by (auto simp: validateBindingPolicy_def ValidateHostedRunner_def PlatformGitHubDotCom_def
      githubHost_def ValidateCanonicalRepositoryURI_None [symmetric] simp del: not_None_eq)

text \<open>The six bindings, with no reference to the order of the checks.\<close>

definition claims_bound :: "OIDCClaims \<Rightarrow> BindingPolicy \<Rightarrow> bool" where
  "claims_bound c p \<longleftrightarrow>
     cl_Issuer c = trustedGitHubOIDCIssuer \<and>
     cl_JobWorkflowRef c = ''windlasstech/slsa-builder/'' @ bp_WorkflowPath p @ ''@'' @ bp_WorkflowSHA p \<and>
     cl_JobWorkflowSHA c = bp_WorkflowSHA p \<and>
     CanonicalRepository (cl_Repository c) = Inr (bp_SourceRepositoryURI p) \<and>
     cl_RepositoryID c = bp_SourceRepositoryID p \<and>
     cl_RepositoryOwnerID c = bp_SourceRepositoryOwnerID p \<and>
     cl_SHA c = bp_SourceDigest p \<and> cl_Ref c = bp_SourceRef p \<and>
     re_positive_decimal (cl_RunID c) \<and> re_positive_decimal (cl_RunAttempt c) \<and>
     cl_RunnerEnvironment c = ''github-hosted''"

definition bound_identity :: "OIDCClaims \<Rightarrow> BindingPolicy \<Rightarrow> RuntimeIdentity" where
  "bound_identity c p =
     \<lparr>ri_BuilderID = builderRepositoryURI @ ''/'' @ bp_WorkflowPath p @ ''@'' @ bp_WorkflowSHA p,
      ri_WorkflowSHA = bp_WorkflowSHA p,
      ri_SourceRepositoryURI = bp_SourceRepositoryURI p,
      ri_SourceDigest = bp_SourceDigest p,
      ri_SourceRef = bp_SourceRef p,
      ri_RunInvocationURI = bp_SourceRepositoryURI p @ ''/actions/runs/'' @ cl_RunID c @
        ''/attempts/'' @ cl_RunAttempt c\<rparr>"

lemma validFullSHA_nonempty: "validFullSHA s \<Longrightarrow> s \<noteq> []"
  by (auto simp: validFullSHA_def re_exactly_def)

lemma trustedIssuer_nonempty [simp]: "trustedGitHubOIDCIssuer \<noteq> []"
  by (simp add: trustedGitHubOIDCIssuer_def)

lemma binding_accept:
  assumes "validateBindingPolicy p = None" and "claims_bound c p"
  shows "ValidateMaximalOIDCBinding c p = Inr (bound_identity c p)"
proof -
  have cut: "CutPrefix (cl_JobWorkflowRef c) (''windlasstech/slsa-builder/'' @ bp_WorkflowPath p @ ''@'')
      = Some (bp_WorkflowSHA p)"
    using assms(2) by (simp add: claims_bound_def CutPrefix_Some)
  have run: "NewRunInvocationURI (bp_SourceRepositoryURI p) (cl_RunID c) (cl_RunAttempt c) =
      Inr (ri_RunInvocationURI (bound_identity c p))"
    using assms
    by (simp only: NewRunInvocationURI_iff validateBindingPolicy_None claims_bound_def bound_identity_def)
      simp
  have bid: "NewBuilderID (bp_WorkflowPath p) (bp_WorkflowSHA p) = Inr (ri_BuilderID (bound_identity c p))"
    using assms
    by (simp only: NewBuilderID_iff validateBindingPolicy_None bound_identity_def) simp
  show ?thesis
    unfolding ValidateMaximalOIDCBinding_def cut option.case
    using assms run bid validFullSHA_nonempty [of "bp_WorkflowSHA p"]
    by (simp add: claims_bound_def validateBindingPolicy_None ValidateHostedRunner_def 
        bound_identity_def)
qed

lemma binding_rejects_unbound:
  assumes "ValidateMaximalOIDCBinding c p = Inr r"
  shows "validateBindingPolicy p = None \<and> claims_bound c p"
  using assms unfolding ValidateMaximalOIDCBinding_def
  by (auto simp: claims_bound_def CutPrefix_Some NewRunInvocationURI_iff
      ValidateHostedRunner_def
      split: option.splits if_splits sum.splits)

text \<open>ValidateMaximalOIDCBinding accepts a set of claims exactly when the policy is well
  formed and all six bindings hold (issuer, workflow path and SHA, source repository, numeric
  IDs, digest and ref, hosted runner), and the identity it returns is then determined by the policy
  and the run: no claim reaches the output unless it equals the policy's value.\<close>

theorem oidc_binding_exact:
  "ValidateMaximalOIDCBinding c p = Inr r \<longleftrightarrow>
     validateBindingPolicy p = None \<and> claims_bound c p \<and> r = bound_identity c p"
  using binding_accept [of p c] binding_rejects_unbound [of c p r] by auto

text \<open>The identity an accepted binding yields is usable downstream: its builder ID passes
  ValidateBuilderID, its repository URI is a canonical one, its source ref passes
  ValidateReleaseRef, and its run invocation URI parses back under that repository to the run ID
  and attempt of the claims.\<close>

theorem oidc_identity_validates:
  assumes "ValidateMaximalOIDCBinding c p = Inr r"
  shows "ValidateBuilderID (ri_BuilderID r) = None \<and>
     ValidateCanonicalRepositoryURI (ri_SourceRepositoryURI r) = None \<and>
     ValidateReleaseRef (ri_SourceRef r) = None \<and>
     ParseRunInvocationURI (ri_RunInvocationURI r) (ri_SourceRepositoryURI r) =
       Inr \<lparr>inv_URI = ri_RunInvocationURI r, inv_RepositoryURI = ri_SourceRepositoryURI r,
            inv_RunID = cl_RunID c, inv_Attempt = cl_RunAttempt c\<rparr>"
proof -
  from binding_rejects_unbound [OF assms]
  have pol: "validateBindingPolicy p = None" and b: "claims_bound c p" by simp_all
  have r: "r = bound_identity c p" using binding_accept [OF pol b] assms by simp
  note pol' = pol [unfolded validateBindingPolicy_None]
  have "NewBuilderID (bp_WorkflowPath p) (bp_WorkflowSHA p) = Inr (ri_BuilderID r)"
    unfolding r NewBuilderID_iff using pol' by (simp add: bound_identity_def)
  moreover have "NewRunInvocationURI (ri_SourceRepositoryURI r) (cl_RunID c) (cl_RunAttempt c) =
      Inr (ri_RunInvocationURI r)"
    unfolding r NewRunInvocationURI_iff using pol' b by (simp add: bound_identity_def claims_bound_def)
  ultimately show ?thesis
    using pol' by (auto simp: builder_id_accepts run_invocation_parses
        ValidateCanonicalRepositoryURI_None ValidateReleaseRef_def r bound_identity_def)
qed

definition example_claims :: OIDCClaims where
  "example_claims = \<lparr>cl_Issuer = trustedGitHubOIDCIssuer,
     cl_JobWorkflowRef = ''windlasstech/slsa-builder/.github/workflows/b.yml@'' @ replicate 40 (CHR ''a''),
     cl_JobWorkflowSHA = replicate 40 (CHR ''a''), cl_Repository = ''Octo/Pkg'',
     cl_RepositoryID = ''12'', cl_RepositoryOwnerID = ''34'', cl_SHA = replicate 40 (CHR ''b''),
     cl_Ref = ''refs/tags/v1.0.0'', cl_RunID = ''77'', cl_RunAttempt = ''2'',
     cl_RunnerEnvironment = ''github-hosted''\<rparr>"

definition example_policy :: BindingPolicy where
  "example_policy = \<lparr>bp_Platform = ''github.com'', bp_WorkflowPath = ''.github/workflows/b.yml'',
     bp_WorkflowSHA = replicate 40 (CHR ''a''),
     bp_SourceRepositoryURI = ''https://github.com/octo/pkg'', bp_SourceRepositoryID = ''12'',
     bp_SourceRepositoryOwnerID = ''34'', bp_SourceDigest = replicate 40 (CHR ''b''),
     bp_SourceRef = ''refs/tags/v1.0.0''\<rparr>"

lemma oidc_identity_validates_witness:
  "ValidateMaximalOIDCBinding example_claims example_policy = Inr (bound_identity example_claims example_policy)
   \<and> ValidateBuilderID (ri_BuilderID (bound_identity example_claims example_policy)) = None"
proof -
  have h: "ValidateMaximalOIDCBinding example_claims example_policy =
      Inr (bound_identity example_claims example_policy)"
    by code_simp
  then show ?thesis using oidc_identity_validates [OF h] by blast
qed

end
