(* ===== verification/Json.thy ===== *)
theory Json
  imports Unicode
begin

text \<open>
  The part of Go's encoding/json the source uses: the dynamic values an \<open>any\<close> holds, Marshal,
  the token stream of Decoder (Token, More, InputOffset) and the conversion of a number to an
  IEEE 754 double.  The messages of encoding/json's own errors are not modelled.
\<close>

section \<open>Values\<close>

text \<open>
  A value of type \<open>any\<close> built from the types the source puts into one.  A number (an integer, a
  float64 or a json.Number) is the text Marshal gives it, \<^const>\<open>None\<close> where Marshal refuses it
  (NaN, an infinity, a malformed json.Number).  Slices and maps are not nil; a map is a list of its entries with distinct keys.
\<close>

datatype goval =
    GNil
  | GBool bool
  | GNumber "string option"
  | GString string
  | GStrings "string list"               \<comment> \<open>[]string\<close>
  | GArr "goval list"                    \<comment> \<open>[]any\<close>
  | GMap "(string \<times> goval) list"         \<comment> \<open>map[string]any\<close>

section \<open>Marshal\<close>

definition low_hex :: "nat \<Rightarrow> char" where
  "low_hex n = char_of (if n < 10 then 48 + n else 87 + n)"

definition backslash :: char where "backslash = CHR 0x5C"

definition uescape :: "nat \<Rightarrow> string" where
  "uescape r = [backslash, CHR ''u'', low_hex (r div 4096 mod 16), low_hex (r div 256 mod 16),
     low_hex (r div 16 mod 16), low_hex (r mod 16)]"

text \<open>One rune of a string value: HTML-relevant and control characters are escaped.\<close>

definition quote_rune :: "rune \<Rightarrow> string" where
  "quote_rune x =
     (case x of (r, bs, ok) \<Rightarrow>
        if \<not> ok then uescape 65533
        else if r = 34 \<or> r = 92 then backslash # bs
        else if r = 8 then [backslash, CHR ''b'']
        else if r = 12 then [backslash, CHR ''f'']
        else if r = 10 then [backslash, CHR ''n'']
        else if r = 13 then [backslash, CHR ''r'']
        else if r = 9 then [backslash, CHR ''t'']
        else if r < 32 \<or> r = 60 \<or> r = 62 \<or> r = 38 \<or> r = 8232 \<or> r = 8233 then uescape r
        else bs)"

definition quote :: "string \<Rightarrow> string" where
  "quote s = [CHR 0x22] @ concat (map quote_rune (runes s)) @ [CHR 0x22]"

fun all_some :: "'a option list \<Rightarrow> 'a list option" where
  "all_some [] = Some []"
| "all_some (None # xs) = None"
| "all_some (Some x # xs) = map_option ((#) x) (all_some xs)"

definition json_array :: "string list \<Rightarrow> string" where
  "json_array items = ''['' @ join_with '','' items @ '']''"

definition json_object :: "(string \<times> string) list \<Rightarrow> string" where
  "json_object members =
     ''{'' @ join_with '','' (map (\<lambda>(k, v). quote k @ '':'' @ v) members) @ ''}''"

text \<open>json.Marshal; the entries of a map are written in the byte order of their keys.\<close>

function Marshal :: "goval \<Rightarrow> string option" where
  "Marshal GNil = Some ''null''"
| "Marshal (GBool b) = Some (if b then ''true'' else ''false'')"
| "Marshal (GNumber t) = t"
| "Marshal (GString s) = Some (quote s)"
| "Marshal (GStrings ss) = Some (json_array (map quote ss))"
| "Marshal (GArr vs) = map_option json_array (all_some (map Marshal vs))"
| "Marshal (GMap kvs) =
     map_option json_object
       (all_some (map (\<lambda>(k, v). map_option (Pair k) (Marshal v)) (sort_key fst kvs)))"
  by pat_completeness auto
termination
proof (relation "measure size")
  fix kvs :: "(string \<times> goval) list" and z x y
  assume "z \<in> set (sort_key fst kvs)" "(x, y) = z"
  then have "(x, y) \<in> set kvs" by simp
  then have "size y < size_list (size_prod (\<lambda>_. 0) size) kvs + 1"
    by (induction kvs) auto
  then show "(y, GMap kvs) \<in> measure size" by simp
next
  fix vs :: "goval list" and v
  assume "v \<in> set vs"
  then have "size v < Suc (size_list size vs)" by (induction vs) auto
  then show "(v, GArr vs) \<in> measure size" by simp
qed simp

section \<open>IEEE 754 doubles\<close>

text \<open>
  A finite double: sign, mantissa below \<open>2 ^ 53\<close> and exponent of two.  The exponent is at least
  \<open>-1074\<close>, and the mantissa at least \<open>2 ^ 52\<close> above it; zero has mantissa 0.
\<close>

datatype float64 = Float64 (f_neg: bool) (f_mant: nat) (f_expo: int)

text \<open>Go's \<open>==\<close> on finite doubles: the two zeros are equal.\<close>

definition float_eq :: "float64 \<Rightarrow> float64 \<Rightarrow> bool" where
  "float_eq a b \<longleftrightarrow> a = b \<or> (f_mant a = 0 \<and> f_mant b = 0)"

fun bit_length :: "nat \<Rightarrow> nat" where
  "bit_length n = (if n = 0 then 0 else Suc (bit_length (n div 2)))"

declare bit_length.simps [simp del]

definition scale :: "nat \<Rightarrow> nat \<Rightarrow> int \<Rightarrow> nat \<times> nat" where
  "scale num den e = (if e \<ge> 0 then (num, den * 2 ^ nat e) else (num * 2 ^ nat (- e), den))"

definition round_half_even :: "nat \<Rightarrow> nat \<Rightarrow> nat" where
  "round_half_even num den =
     (let q = num div den; r = num mod den
      in if 2 * r < den \<or> (2 * r = den \<and> even q) then q else q + 1)"

text \<open>The double nearest to \<open>num / den\<close>, \<^const>\<open>None\<close> when it overflows.\<close>

definition round_double :: "bool \<Rightarrow> nat \<Rightarrow> nat \<Rightarrow> float64 option" where
  "round_double neg num den =
     (if num = 0 then Some (Float64 neg 0 (- 1074))
      else
        (let e0 = int (bit_length num) - int (bit_length den) - 53;
             (n0, d0) = scale num den e0;
             e1 = (if n0 div d0 \<ge> 2 ^ 53 then e0 + 1 else e0);
             e = max (- 1074) e1;
             (n, d) = scale num den e;
             q = round_half_even n d;
             (m, x) = (if q = 2 ^ 53 then (2 ^ 52, e + 1) else (q, e))
         in if x > 971 then None else Some (Float64 neg m x)))"

text \<open>The parts of a number literal: sign, integer digits, fraction digits, exponent.\<close>

definition span_digits :: "string \<Rightarrow> string \<times> string" where
  "span_digits s = (takeWhile is_digit s, dropWhile is_digit s)"

definition exponent_val :: "string \<Rightarrow> int" where
  "exponent_val s =
     (case s of
        c # cs \<Rightarrow> if c = CHR ''-'' then - int (dec_val cs)
                  else if c = CHR ''+'' then int (dec_val cs) else int (dec_val s)
      | [] \<Rightarrow> 0)"

text \<open>json.Number.Float64 on a literal of the JSON grammar.\<close>

definition Float64Of :: "string \<Rightarrow> float64 option" where
  "Float64Of text =
     (let neg = HasPrefix text ''-'';
          t = (if neg then tl text else text);
          (ip, r1) = span_digits t;
          (fp, r2) = (if HasPrefix r1 ''.'' then span_digits (tl r1) else ([], r1));
          ex = (if r2 = [] then 0 else exponent_val (tl r2));
          e = ex - int (length fp);
          m = dec_val (ip @ fp)
      in if e \<ge> 0 then round_double neg (m * 10 ^ nat e) 1
         else round_double neg m (10 ^ nat (- e)))"

section \<open>Scanning one scalar\<close>

definition json_space :: "char \<Rightarrow> bool" where
  "json_space c \<longleftrightarrow> byte c \<in> {32, 9, 13, 10}"

definition hex_value :: "char \<Rightarrow> nat option" where
  "hex_value c =
     (let b = byte c in
      if 48 \<le> b \<and> b \<le> 57 then Some (b - 48)
      else if 97 \<le> b \<and> b \<le> 102 then Some (b - 87)
      else if 65 \<le> b \<and> b \<le> 70 then Some (b - 55) else None)"

definition hex4 :: "char \<Rightarrow> char \<Rightarrow> char \<Rightarrow> char \<Rightarrow> nat option" where
  "hex4 a b c d =
     (case (hex_value a, hex_value b, hex_value c, hex_value d) of
        (Some x, Some y, Some z, Some w) \<Rightarrow> Some (((x * 16 + y) * 16 + z) * 16 + w)
      | _ \<Rightarrow> None)"

definition simple_escape :: "char \<Rightarrow> char option" where
  "simple_escape c =
     (if c = CHR 0x22 \<or> c = CHR ''/'' \<or> c = backslash then Some c
      else if c = CHR ''b'' then Some (CHR 0x08) else if c = CHR ''f'' then Some (CHR 0x0C)
      else if c = CHR ''n'' then Some (CHR 0x0A) else if c = CHR ''r'' then Some (CHR 0x0D)
      else if c = CHR ''t'' then Some (CHR 0x09) else None)"

text \<open>
  The body of a string literal after its opening quote: the code units it denotes (a raw byte
  or a \<open>\\u\<close> escape) and the rest after the closing quote.
\<close>

datatype str_unit = Raw char | Unit nat

fun scan_string :: "string \<Rightarrow> (str_unit list \<times> string) option" where
  "scan_string [] = None"
| "scan_string (c # cs) =
     (if c = CHR 0x22 then Some ([], cs)
      else if byte c < 32 then None
      else if c = backslash then
        (case cs of
           [] \<Rightarrow> None
         | x # ds \<Rightarrow>
             if x = CHR ''u'' then
               (case ds of
                  h1 # h2 # h3 # h4 # r \<Rightarrow>
                    (case hex4 h1 h2 h3 h4 of
                       None \<Rightarrow> None
                     | Some u \<Rightarrow> map_option (\<lambda>(us, rest). (Unit u # us, rest)) (scan_string r))
                | _ \<Rightarrow> None)
             else (case simple_escape x of
                     None \<Rightarrow> None
                   | Some y \<Rightarrow> map_option (\<lambda>(us, rest). (Raw y # us, rest)) (scan_string ds)))
      else map_option (\<lambda>(us, rest). (Raw c # us, rest)) (scan_string cs))"

text \<open>unquote: surrogate pairs combine, a lone surrogate is U+FFFD.\<close>

fun units_text :: "str_unit list \<Rightarrow> string" where
  "units_text [] = []"
| "units_text (Raw c # us) = c # units_text us"
| "units_text (Unit u # us) =
     (if 55296 \<le> u \<and> u < 56320 then
        (case us of
           Unit v # vs \<Rightarrow>
             if 56320 \<le> v \<and> v < 57344
             then encode_rune ((u - 55296) * 1024 + (v - 56320) + 65536) @ units_text vs
             else encode_rune 65533 @ units_text us
         | _ \<Rightarrow> encode_rune 65533 @ units_text us)
      else if 56320 \<le> u \<and> u < 57344 then encode_rune 65533 @ units_text us
      else encode_rune u @ units_text us)"

text \<open>A number literal at the head of the input, by maximal munch, and the rest.\<close>

definition scan_exponent :: "string \<Rightarrow> (string \<times> string) option" where
  "scan_exponent s =
     (case s of
        c # cs \<Rightarrow>
          if c = CHR ''e'' \<or> c = CHR ''E'' then
            (let sign = (case cs of d # _ \<Rightarrow> if d = CHR ''+'' \<or> d = CHR ''-'' then [d] else [] | [] \<Rightarrow> []);
                 (ds, r) = span_digits (drop (length sign) cs)
             in if ds = [] then None else Some (c # sign @ ds, r))
          else Some ([], s)
      | [] \<Rightarrow> Some ([], s))"

definition scan_fraction :: "string \<Rightarrow> (string \<times> string) option" where
  "scan_fraction s =
     (case s of
        c # cs \<Rightarrow>
          if c = CHR ''.'' then
            (let (ds, r) = span_digits cs in if ds = [] then None else Some (c # ds, r))
          else Some ([], s)
      | [] \<Rightarrow> Some ([], s))"

definition scan_unsigned :: "string \<Rightarrow> (string \<times> string) option" where
  "scan_unsigned body =
     (case body of
        [] \<Rightarrow> None
      | c # cs \<Rightarrow>
          if \<not> is_digit c then None
          else
            (let (ip, r1) = (if c = CHR ''0'' then ([c], cs) else span_digits body)
             in case scan_fraction r1 of
                  None \<Rightarrow> None
                | Some (fp, r2) \<Rightarrow>
                    map_option (\<lambda>(ep, r3). (ip @ fp @ ep, r3)) (scan_exponent r2)))"

definition scan_number :: "string \<Rightarrow> (string \<times> string) option" where
  "scan_number s =
     (if HasPrefix s ''-'' then map_option (\<lambda>(t, r). (CHR ''-'' # t, r)) (scan_unsigned (tl s))
      else scan_unsigned s)"

section \<open>The token stream\<close>

datatype token_state =
    TopValue | ArrayStart | ArrayValue | ArrayComma
  | ObjectStart | ObjectKey | ObjectColon | ObjectValue | ObjectComma

datatype token =
    TDelim char | TNumber string | TString string | TBool bool | TNull

record decoder =
  d_state :: token_state
  d_stack :: "token_state list"
  d_rest :: string

definition NewDecoder :: "string \<Rightarrow> decoder" where
  "NewDecoder data = \<lparr>d_state = TopValue, d_stack = [], d_rest = data\<rparr>"

text \<open>What a call reports: the end of the input, a syntax error, or a token.\<close>

datatype 'a stream = EOF | SyntaxError | Got 'a

definition skip_space :: "string \<Rightarrow> string" where
  "skip_space s = dropWhile json_space s"

fun value_allowed :: "token_state \<Rightarrow> bool" where
  "value_allowed TopValue = True"
| "value_allowed ArrayStart = True"
| "value_allowed ArrayValue = True"
| "value_allowed ObjectValue = True"
| "value_allowed _ = False"

fun value_end :: "token_state \<Rightarrow> token_state" where
  "value_end ArrayStart = ArrayComma"
| "value_end ArrayValue = ArrayComma"
| "value_end ObjectValue = ObjectComma"
| "value_end st = st"

definition literal :: "string \<Rightarrow> token \<Rightarrow> string \<Rightarrow> (token \<times> string) option" where
  "literal word tok s = map_option (Pair tok) (CutPrefix s word)"

text \<open>Decode of a scalar (the input is not empty and starts with no space).\<close>

definition scan_scalar :: "string \<Rightarrow> (token \<times> string) option" where
  "scan_scalar s =
     (case s of
        [] \<Rightarrow> None
      | c # cs \<Rightarrow>
          if c = CHR 0x22 then
            map_option (\<lambda>(us, r). (TString (units_text us), r)) (scan_string cs)
          else if c = CHR ''t'' then literal ''true'' (TBool True) s
          else if c = CHR ''f'' then literal ''false'' (TBool False) s
          else if c = CHR ''n'' then literal ''null'' TNull s
          else map_option (\<lambda>(t, r). (TNumber t, r)) (scan_number s))"

text \<open>A closing delimiter returns to the state under the top of the stack.\<close>

definition close_delim :: "char \<Rightarrow> decoder \<Rightarrow> string \<Rightarrow> (token \<times> decoder) stream" where
  "close_delim c d cs =
     (case d_stack d of
        [] \<Rightarrow> SyntaxError
      | st # sts \<Rightarrow> Got (TDelim c, \<lparr>d_state = value_end st, d_stack = sts, d_rest = cs\<rparr>))"

text \<open>Decoder.Token at a byte that is neither space, comma nor colon.\<close>

definition token_at :: "decoder \<Rightarrow> char \<Rightarrow> string \<Rightarrow> (token \<times> decoder) stream" where
  "token_at d c cs =
     (if c = CHR ''['' then
        (if value_allowed (d_state d)
         then Got (TDelim c, \<lparr>d_state = ArrayStart, d_stack = d_state d # d_stack d, d_rest = cs\<rparr>)
         else SyntaxError)
      else if c = CHR '']'' then
        (if d_state d = ArrayStart \<or> d_state d = ArrayComma then close_delim c d cs else SyntaxError)
      else if c = CHR ''{'' then
        (if value_allowed (d_state d)
         then Got (TDelim c, \<lparr>d_state = ObjectStart, d_stack = d_state d # d_stack d, d_rest = cs\<rparr>)
         else SyntaxError)
      else if c = CHR ''}'' then
        (if d_state d = ObjectStart \<or> d_state d = ObjectComma then close_delim c d cs else SyntaxError)
      else if c = CHR 0x22 \<and> (d_state d = ObjectStart \<or> d_state d = ObjectKey) then
        (case scan_scalar (c # cs) of
           Some (t, r) \<Rightarrow> Got (t, d\<lparr>d_state := ObjectColon, d_rest := r\<rparr>)
         | None \<Rightarrow> SyntaxError)
      else if value_allowed (d_state d) then
        (case scan_scalar (c # cs) of
           Some (t, r) \<Rightarrow> Got (t, d\<lparr>d_state := value_end (d_state d), d_rest := r\<rparr>)
         | None \<Rightarrow> SyntaxError)
      else SyntaxError)"

text \<open>
  Decoder.Token.  A comma or colon changes the state and the loop goes on; after one of them the
  state accepts no second one, so the loop makes at most two rounds.
\<close>

definition Token :: "decoder \<Rightarrow> (token \<times> decoder) stream" where
  "Token d =
     (case skip_space (d_rest d) of
        [] \<Rightarrow> EOF
      | c # cs \<Rightarrow>
          (let again = (\<lambda>st. case skip_space cs of
                                [] \<Rightarrow> EOF
                              | c' # cs' \<Rightarrow>
                                  if c' = CHR '','' \<or> c' = CHR '':'' then SyntaxError
                                  else token_at (d\<lparr>d_state := st\<rparr>) c' cs')
           in if c = CHR '':'' then
                (if d_state d = ObjectColon then again ObjectValue else SyntaxError)
              else if c = CHR '','' then
                (if d_state d = ArrayComma then again ArrayValue
                 else if d_state d = ObjectComma then again ObjectKey else SyntaxError)
              else token_at d c cs))"

text \<open>Decoder.More.\<close>

definition More :: "decoder \<Rightarrow> bool" where
  "More d = (case skip_space (d_rest d) of
     [] \<Rightarrow> False | c # _ \<Rightarrow> c \<noteq> CHR '']'' \<and> c \<noteq> CHR ''}'')"

section \<open>Progress\<close>

lemma skip_space_length: "length (skip_space s) \<le> length s"
  by (simp add: skip_space_def length_dropWhile_le)

lemma scan_string_length:
  "scan_string s = Some (us, r) \<Longrightarrow> length r < length s"
  by (induction s arbitrary: us rule: scan_string.induct)
    (force split: if_splits option.splits list.splits prod.splits)+

lemma span_digits_length: "span_digits s = (a, b) \<Longrightarrow> length b \<le> length s"
  by (auto simp: span_digits_def length_dropWhile_le)

lemma scan_exponent_length: "scan_exponent s = Some (a, b) \<Longrightarrow> length b \<le> length s"
proof (cases s)
  case (Cons c cs)
  assume h: "scan_exponent s = Some (a, b)"
  show ?thesis
  proof (cases "c = CHR ''e'' \<or> c = CHR ''E''")
    case True
    with h Cons obtain k where "b = dropWhile is_digit (drop k cs)"
      by (auto simp: scan_exponent_def Let_def span_digits_def split: if_splits prod.splits)
    then have "length b \<le> length cs"
      using length_dropWhile_le [of is_digit "drop k cs"] by simp
    with Cons show ?thesis by simp
  next
    case False
    with h Cons show ?thesis by (simp add: scan_exponent_def)
  qed
qed (simp add: scan_exponent_def)

lemma scan_fraction_length: "scan_fraction s = Some (a, b) \<Longrightarrow> length b \<le> length s"
  by (cases s) (auto simp: scan_fraction_def span_digits_def Let_def
      intro: le_trans [OF length_dropWhile_le] split: if_splits prod.splits)

lemma scan_unsigned_length: "scan_unsigned s = Some (t, r) \<Longrightarrow> length r < length s"
proof (cases s)
  case (Cons c cs)
  assume h: "scan_unsigned s = Some (t, r)"
  have c: "is_digit c" using h Cons by (simp add: scan_unsigned_def split: if_splits)
  obtain ip r1 fp r2 ep where r1: "(if c = CHR ''0'' then ([c], cs) else span_digits s) = (ip, r1)"
    and f: "scan_fraction r1 = Some (fp, r2)" and e: "scan_exponent r2 = Some (ep, r)"
    using h Cons by (auto simp: scan_unsigned_def split: if_splits option.splits prod.splits)
  have "length r1 \<le> length cs"
    using r1 c Cons length_dropWhile_le [of is_digit cs] by (auto simp: span_digits_def split: if_splits)
  with scan_fraction_length [OF f] scan_exponent_length [OF e] Cons show ?thesis by simp
qed (simp add: scan_unsigned_def)

lemma scan_number_length: "scan_number s = Some (t, r) \<Longrightarrow> length r < length s"
  by (cases s) (auto simp: scan_number_def split: if_splits dest: scan_unsigned_length)

lemma literal_length: "literal w t s = Some (x, r) \<Longrightarrow> w \<noteq> [] \<Longrightarrow> length r < length s"
  by (auto simp: literal_def CutPrefix_Some)

lemma scan_scalar_length: "scan_scalar s = Some (t, r) \<Longrightarrow> length r < length s"
  unfolding scan_scalar_def
  by (auto split: list.splits if_splits prod.splits dest: scan_string_length scan_number_length literal_length)

lemma token_at_length:
  "token_at d c cs = Got (t, d') \<Longrightarrow> length (d_rest d') \<le> length cs"
  unfolding token_at_def close_delim_def
  by (auto split: if_splits option.splits list.splits prod.splits dest: scan_scalar_length)

lemma Token_length: "Token d = Got (t, d') \<Longrightarrow> length (d_rest d') < length (d_rest d)"
proof -
  assume h: "Token d = Got (t, d')"
  obtain c cs where s: "skip_space (d_rest d) = c # cs"
    using h by (auto simp: Token_def split: list.splits)
  have cs: "length cs < length (d_rest d)" using skip_space_length [of "d_rest d"] s by simp
  obtain e c' cs' where t: "token_at e c' cs' = Got (t, d')" and "length cs' \<le> length cs"
    using h s skip_space_length [of cs]
    by (auto simp: Token_def Let_def split: list.splits if_splits)
  with token_at_length [OF t] cs show ?thesis by simp
qed

end
