(* ===== verification/CanonicalJson.thy ===== *)
theory CanonicalJson
  imports Json
begin

text \<open>
  internal/canonicaljson: strict parsing of one JSON document (strict.go), comparison and RFC 8785
  canonicalization (canonical.go).  The canonicalizer itself, jsoncanonicalizer.Transform, is a
  third-party function and a parameter of \<open>Canonicalize\<close>.  A parsed object keeps its members in
  document order; since a repeated name is refused this is the Go map.
\<close>

section \<open>Parsed values\<close>

datatype jval =
    JNull
  | JBool bool
  | JFloat float64
  | JString string
  | JArr "jval list"
  | JObj "(string \<times> jval) list"

definition maxNestingDepth :: nat where "maxNestingDepth = 10000"

definition json_error :: "string \<Rightarrow> go_error" where
  "json_error message = ErrText message []"

definition io_EOF :: go_error where "io_EOF = json_error ''EOF''"
definition json_syntax :: go_error where "json_syntax = json_error ''encoding/json: syntax error''"

section \<open>Unicode escapes\<close>

definition decodeCodeUnit :: "string \<Rightarrow> nat \<Rightarrow> nat result" where
  "decodeCodeUnit rest start =
     (case rest of
        a # b # c # d # _ \<Rightarrow>
          (case hex4 a b c d of
             None \<Rightarrow> Inl (ErrText ''invalid Unicode escape at byte offset %d'' [show_nat (start - 2)])
           | Some u \<Rightarrow> Inr u)
      | _ \<Rightarrow> Inl (ErrText ''incomplete Unicode escape at byte offset %d'' [show_nat (start - 2)]))"

definition unpaired :: "string \<Rightarrow> nat \<Rightarrow> go_error option" where
  "unpaired which offset = Some (ErrText (''unpaired '' @ which @ '' surrogate at byte offset %d'') [show_nat offset])"

text \<open>The loop of validateUnicodeEscapes: whether inside a string, the offset, and the bytes from it on.\<close>

function escapes_from :: "bool \<Rightarrow> nat \<Rightarrow> string \<Rightarrow> go_error option" where
  "escapes_from inString offset [] = None"
| "escapes_from inString offset (c # cs) =
     (if c = CHR 0x22 then escapes_from (\<not> inString) (offset + 1) cs
      else if c = backslash \<and> inString then
        (case cs of
           [] \<Rightarrow> Some (ErrText ''unterminated JSON escape at byte offset %d'' [show_nat offset])
         | x # ds \<Rightarrow>
             if x \<noteq> CHR ''u'' then escapes_from inString (offset + 2) ds
             else
               (case decodeCodeUnit ds (offset + 2) of
                  Inl err \<Rightarrow> Some err
                | Inr unit1 \<Rightarrow>
                    (let rest = drop 4 ds in
                     if 55296 \<le> unit1 \<and> unit1 \<le> 56319 then
                       (if length rest < 6 \<or> hd rest \<noteq> backslash \<or> hd (tl rest) \<noteq> CHR ''u''
                        then unpaired ''high'' offset
                        else
                          (case decodeCodeUnit (drop 2 rest) (offset + 8) of
                             Inl err \<Rightarrow> Some err
                           | Inr unit2 \<Rightarrow>
                               if unit2 < 56320 \<or> unit2 > 57343 then unpaired ''high'' offset
                               else escapes_from inString (offset + 12) (drop 6 rest)))
                     else if 56320 \<le> unit1 \<and> unit1 \<le> 57343 then unpaired ''low'' offset
                     else escapes_from inString (offset + 6) rest)))
      else escapes_from inString (offset + 1) cs)"
  by pat_completeness auto
termination
  by (relation "measure (\<lambda>(_, _, s). length s)") auto

definition validateUnicodeEscapes :: "string \<Rightarrow> go_error option" where
  "validateUnicodeEscapes data = escapes_from False 0 data"

section \<open>Strict parsing\<close>

definition consumeClosingDelimiter :: "decoder \<Rightarrow> char \<Rightarrow> decoder result" where
  "consumeClosingDelimiter d want =
     (case Token d of
        EOF \<Rightarrow> Inl io_EOF
      | SyntaxError \<Rightarrow> Inl json_syntax
      | Got (t, d') \<Rightarrow>
          if t = TDelim want then Inr d' else Inl (json_error ''unexpected closing token %v, want %q''))"

text \<open>
  parseValue, parseObject and parseArray.  The first argument bounds the number of nested calls
  and loop rounds; \<^const>\<open>None\<close> is running out of it, which \<open>parse_total\<close> excludes for the
  bound \<open>parseStrict\<close> uses.  \<open>len\<close> is the length of the document, so that \<open>len\<close> minus the
  unread bytes is Decoder.InputOffset.  The collected members are at once the maps
  \<open>object\<close> and \<open>seen\<close>.
\<close>

fun parseValue :: "nat \<Rightarrow> nat \<Rightarrow> decoder \<Rightarrow> nat \<Rightarrow> (jval \<times> decoder) result option"
and parseObject :: "nat \<Rightarrow> nat \<Rightarrow> decoder \<Rightarrow> nat \<Rightarrow> (string \<times> jval) list \<Rightarrow> (jval \<times> decoder) result option"
and parseArray :: "nat \<Rightarrow> nat \<Rightarrow> decoder \<Rightarrow> nat \<Rightarrow> jval list \<Rightarrow> (jval \<times> decoder) result option"
where
  "parseValue 0 len d depth = None"
| "parseValue (Suc f) len d depth =
     (case Token d of
        EOF \<Rightarrow> Some (Inl io_EOF)
      | SyntaxError \<Rightarrow> Some (Inl json_syntax)
      | Got (t, d') \<Rightarrow>
          (case t of
             TDelim c \<Rightarrow>
               if depth \<ge> maxNestingDepth then
                 Some (Inl (ErrText ''JSON nesting depth exceeds %d'' [show_nat maxNestingDepth]))
               else if c = CHR ''{'' then parseObject f len d' (depth + 1) []
               else if c = CHR ''['' then parseArray f len d' (depth + 1) []
               else Some (Inl (ErrText ''unexpected delimiter %q'' [[c]]))
           | TNumber text \<Rightarrow>
               (case Float64Of text of
                  None \<Rightarrow> Some (Inl (ErrWrap ''number %q is not an IEEE 754 double: %w'' [text] []))
                | Some x \<Rightarrow> Some (Inr (JFloat x, d')))
           | TString s \<Rightarrow> Some (Inr (JString s, d'))
           | TBool b \<Rightarrow> Some (Inr (JBool b, d'))
           | TNull \<Rightarrow> Some (Inr (JNull, d'))))"
| "parseObject 0 len d depth members = None"
| "parseObject (Suc f) len d depth members =
     (if More d then
        (case Token d of
           EOF \<Rightarrow> Some (Inl io_EOF)
         | SyntaxError \<Rightarrow> Some (Inl json_syntax)
         | Got (t, d1) \<Rightarrow>
             (case t of
                TString member \<Rightarrow>
                  if member \<in> set (map fst members) then
                    Some (Inl (ErrDuplicateMember member (len - length (d_rest d1))))
                  else
                    (case parseValue f len d1 depth of
                       None \<Rightarrow> None
                     | Some (Inl err) \<Rightarrow> Some (Inl err)
                     | Some (Inr (v, d2)) \<Rightarrow> parseObject f len d2 depth (members @ [(member, v)]))
              | _ \<Rightarrow> Some (Inl (json_error ''object member name has type %T''))))
      else Some (map_result (Pair (JObj members)) (consumeClosingDelimiter d (CHR ''}''))))"
| "parseArray 0 len d depth items = None"
| "parseArray (Suc f) len d depth items =
     (if More d then
        (case parseValue f len d depth of
           None \<Rightarrow> None
         | Some (Inl err) \<Rightarrow> Some (Inl err)
         | Some (Inr (v, d2)) \<Rightarrow> parseArray f len d2 depth (items @ [v]))
      else Some (map_result (Pair (JArr items)) (consumeClosingDelimiter d (CHR '']''))))"

definition wrap_parse :: "go_error \<Rightarrow> go_error" where
  "wrap_parse err = ErrWrap ''parse JSON value: %w'' [] [err]"

definition parseStrict :: "string \<Rightarrow> jval result" where
  "parseStrict data =
     (if \<not> utf8_valid data then Inl (json_error ''JSON input is not valid UTF-8'')
      else guarded (validateUnicodeEscapes data)
        (case parseValue (Suc (2 * length data)) (length data) (NewDecoder data) 0 of
           None \<Rightarrow> Inl (json_error ''unreachable'')
         | Some (Inl err) \<Rightarrow> Inl (wrap_parse err)
         | Some (Inr (v, d)) \<Rightarrow>
             (case Token d of
                EOF \<Rightarrow> Inr v
              | SyntaxError \<Rightarrow> Inl (ErrWrap ''parse trailing JSON data: %w'' [] [json_syntax])
              | Got _ \<Rightarrow> Inl (json_error ''parse JSON value: unexpected trailing token %v''))))"

definition Validate :: "string \<Rightarrow> go_error option" where
  "Validate data = (case parseStrict data of Inl err \<Rightarrow> Some err | Inr _ \<Rightarrow> None)"

section \<open>Comparison and canonicalization\<close>

fun equalValues :: "jval \<Rightarrow> jval \<Rightarrow> bool" where
  "equalValues JNull r = (r = JNull)"
| "equalValues (JBool a) r = (r = JBool a)"
| "equalValues (JFloat a) r = (case r of JFloat b \<Rightarrow> float_eq a b | _ \<Rightarrow> False)"
| "equalValues (JString a) r = (r = JString a)"
| "equalValues (JArr xs) r =
     (case r of JArr ys \<Rightarrow> length xs = length ys \<and> list_all2 equalValues xs ys | _ \<Rightarrow> False)"
| "equalValues (JObj ms) r =
     (case r of
        JObj ns \<Rightarrow> length ms = length ns \<and>
          list_all (\<lambda>(member, v). case map_of ns member of None \<Rightarrow> False | Some w \<Rightarrow> equalValues v w) ms
      | _ \<Rightarrow> False)"

definition Equal :: "string \<Rightarrow> string \<Rightarrow> bool result" where
  "Equal left right =
     (case parseStrict left of
        Inl err \<Rightarrow> Inl (ErrWrap ''parse left JSON value: %w'' [] [err])
      | Inr leftValue \<Rightarrow>
          (case parseStrict right of
             Inl err \<Rightarrow> Inl (ErrWrap ''parse right JSON value: %w'' [] [err])
           | Inr rightValue \<Rightarrow> Inr (equalValues leftValue rightValue)))"

definition Canonicalize :: "(string \<Rightarrow> string result) \<Rightarrow> string \<Rightarrow> string result" where
  "Canonicalize transform data =
     guarded (Validate data)
       (case transform (''['' @ data @ '']'') of
          Inl err \<Rightarrow> Inl (ErrWrap ''canonicalize JSON with RFC 8785 JCS: %w'' [] [err])
        | Inr canonical \<Rightarrow>
            if length canonical < 2 \<or> hd canonical \<noteq> CHR ''['' \<or> last canonical \<noteq> CHR '']''
            then Inl (ErrText ''RFC 8785 transformer returned invalid wrapped output %q'' [canonical])
            else Inr (butlast (tl canonical)))"


section \<open>Enough fuel\<close>

lemma consumeClosing_length:
  "consumeClosingDelimiter d c = Inr d' \<Longrightarrow> length (d_rest d') < length (d_rest d)"
  by (auto simp: consumeClosingDelimiter_def dest: Token_length split: stream.splits if_splits)

lemma parse_progress:
  "parseValue f n d k = Some (Inr (v, d')) \<Longrightarrow> length (d_rest d') < length (d_rest d)"
  "parseObject f n d k ms = Some (Inr (v, d')) \<Longrightarrow> length (d_rest d') < length (d_rest d)"
  "parseArray f n d k xs = Some (Inr (v, d')) \<Longrightarrow> length (d_rest d') < length (d_rest d)"
proof (induction f n d k and f n d k ms and f n d k xs arbitrary: v d' and v d' and v d'
    rule: parseValue_parseObject_parseArray.induct)
  case (2 f n d k)
  then show ?case
    by (fastforce dest: Token_length split: stream.splits token.splits option.splits if_splits)
next
  case (4 f n d k ms)
  then show ?case
    by (fastforce dest: Token_length consumeClosing_length
        split: stream.splits token.splits option.splits if_splits sum.splits)
next
  case (6 f n d k xs)
  then show ?case
    by (fastforce dest: Token_length consumeClosing_length
        split: stream.splits token.splits option.splits if_splits sum.splits)
qed simp_all

lemma parse_total:
  "2 * length (d_rest d) < f \<Longrightarrow> parseValue f n d k \<noteq> None"
  "2 * length (d_rest d) + 1 < f \<Longrightarrow> parseObject f n d k ms \<noteq> None"
  "2 * length (d_rest d) + 1 < f \<Longrightarrow> parseArray f n d k xs \<noteq> None"
proof (induction f n d k and f n d k ms and f n d k xs rule: parseValue_parseObject_parseArray.induct)
  case (2 f n d k)
  have "2 * length (d_rest d') + 1 < f" if "Token d = Got (t, d')" for t d'
    using Token_length [OF that] 2(3) by simp
  then show ?case
    using 2(1,2) by (auto simp del: not_None_eq split: stream.splits token.splits option.splits)
next
  case (4 f n d k ms)
  show ?case
  proof (cases "\<exists>m d1. More d \<and> Token d = Got (TString m, d1) \<and> m \<notin> set (map fst ms)")
    case True
    then obtain m d1 where t: "More d" "Token d = Got (TString m, d1)" "m \<notin> set (map fst ms)"
      by blast
    have l1: "2 * length (d_rest d1) < f" using Token_length [OF t(2)] 4(3) by simp
    then obtain r where r: "parseValue f n d1 k = Some r" using 4(1) t by fastforce
    show ?thesis
    proof (cases r)
      case (Inr y)
      obtain v d2 where y: "y = (v, d2)" by (cases y)
      have "2 * length (d_rest d2) + 1 < f" using parse_progress(1) r Inr y l1 by fastforce
      then have "parseObject f n d2 k (ms @ [(m, v)]) \<noteq> None"
        using 4(2) [OF t(1,2) refl refl t(3) _ _ ] r Inr y by blast
      then show ?thesis using t r Inr y by simp
    qed (use t r in simp)
  qed (auto split: stream.splits token.splits)
next
  case (6 f n d k xs)
  show ?case
  proof (cases "More d")
    case True
    show ?thesis
    proof (cases "parseValue f n d k")
      case None
      with 6 True show ?thesis by simp
    next
      case (Some r)
      show ?thesis
      proof (cases r)
        case (Inr y)
        obtain v d2 where y: "y = (v, d2)" by (cases y)
        have "2 * length (d_rest d2) + 1 < f" using parse_progress(1) Some Inr y 6(3) by fastforce
        then show ?thesis using 6(2) True Some Inr y by simp
      qed (use True Some in simp)
    qed
  qed simp
qed simp_all
section \<open>What strictness adds\<close>

text \<open>The same parser without the \<open>seen\<close> set: the specification strict parsing is compared with.\<close>

fun lenientValue :: "nat \<Rightarrow> decoder \<Rightarrow> nat \<Rightarrow> (jval \<times> decoder) option"
and lenientObject :: "nat \<Rightarrow> decoder \<Rightarrow> nat \<Rightarrow> (string \<times> jval) list \<Rightarrow> (jval \<times> decoder) option"
and lenientArray :: "nat \<Rightarrow> decoder \<Rightarrow> nat \<Rightarrow> jval list \<Rightarrow> (jval \<times> decoder) option"
where
  "lenientValue 0 d depth = None"
| "lenientValue (Suc f) d depth =
     (case Token d of
        Got (TDelim c, d') \<Rightarrow>
          if depth \<ge> maxNestingDepth then None
          else if c = CHR ''{'' then lenientObject f d' (depth + 1) []
          else if c = CHR ''['' then lenientArray f d' (depth + 1) []
          else None
      | Got (TNumber text, d') \<Rightarrow> map_option (\<lambda>x. (JFloat x, d')) (Float64Of text)
      | Got (TString s, d') \<Rightarrow> Some (JString s, d')
      | Got (TBool b, d') \<Rightarrow> Some (JBool b, d')
      | Got (TNull, d') \<Rightarrow> Some (JNull, d')
      | _ \<Rightarrow> None)"
| "lenientObject 0 d depth members = None"
| "lenientObject (Suc f) d depth members =
     (if More d then
        (case Token d of
           Got (TString member, d1) \<Rightarrow>
             (case lenientValue f d1 depth of
                None \<Rightarrow> None
              | Some (v, d2) \<Rightarrow> lenientObject f d2 depth (members @ [(member, v)]))
         | _ \<Rightarrow> None)
      else (case consumeClosingDelimiter d (CHR ''}'') of
              Inr d' \<Rightarrow> Some (JObj members, d') | Inl _ \<Rightarrow> None))"
| "lenientArray 0 d depth items = None"
| "lenientArray (Suc f) d depth items =
     (if More d then
        (case lenientValue f d depth of
           None \<Rightarrow> None
         | Some (v, d2) \<Rightarrow> lenientArray f d2 depth (items @ [v]))
      else (case consumeClosingDelimiter d (CHR '']'') of
              Inr d' \<Rightarrow> Some (JArr items, d') | Inl _ \<Rightarrow> None))"

fun distinct_members :: "jval \<Rightarrow> bool" where
  "distinct_members (JArr xs) = list_all distinct_members xs"
| "distinct_members (JObj ms) = (distinct (map fst ms) \<and> list_all (\<lambda>(k, v). distinct_members v) ms)"
| "distinct_members _ = True"

lemma lenient_prefix:
  "lenientValue f d k = Some (v, d') \<Longrightarrow> True"
  "lenientObject f d k ms = Some (v, d') \<Longrightarrow> \<exists>rest. v = JObj (ms @ rest)"
  "lenientArray f d k xs = Some (v, d') \<Longrightarrow> \<exists>rest. v = JArr (xs @ rest)"
proof (induction f d k and f d k ms and f d k xs arbitrary: v d' and v d' and v d'
    rule: lenientValue_lenientObject_lenientArray.induct)
  case (4 f d k ms)
  then show ?case
    by (fastforce split: stream.splits token.splits option.splits if_splits sum.splits prod.splits)
next
  case (6 f d k xs)
  then show ?case
    by (fastforce split: stream.splits token.splits option.splits if_splits sum.splits prod.splits)
qed simp_all

definition duplicate_error :: "(jval \<times> decoder) result option \<Rightarrow> bool" where
  "duplicate_error r \<longleftrightarrow> (\<exists>m off. r = Some (Inl (ErrDuplicateMember m off)))"

definition strict_of :: "jval \<Rightarrow> decoder \<Rightarrow> (jval \<times> decoder) result option \<Rightarrow> bool" where
  "strict_of v d' r \<longleftrightarrow> (if distinct_members v then r = Some (Inr (v, d')) else duplicate_error r)"

lemma lenient_strict:
  "lenientValue f d k = Some (v, d') \<Longrightarrow> strict_of v d' (parseValue f n d k)"
  "lenientObject f d k ms = Some (v, d') \<Longrightarrow> distinct_members (JObj ms) \<Longrightarrow>
     strict_of v d' (parseObject f n d k ms)"
  "lenientArray f d k xs = Some (v, d') \<Longrightarrow> distinct_members (JArr xs) \<Longrightarrow>
     strict_of v d' (parseArray f n d k xs)"
proof (induction f d k and f d k ms and f d k xs arbitrary: v d' and v d' and v d'
    rule: lenientValue_lenientObject_lenientArray.induct)
  case (2 f d k)
  then show ?case
    by (auto simp: strict_of_def split: stream.splits token.splits if_splits)
next
  case (4 f d k ms)
  show ?case
  proof (cases "More d")
    case True
    then obtain m d1 w d2 where t: "Token d = Got (TString m, d1)"
      and w: "lenientValue f d1 k = Some (w, d2)"
      and r: "lenientObject f d2 k (ms @ [(m, w)]) = Some (v, d')"
      using 4(3) by (auto split: stream.splits token.splits option.splits)
    obtain rest where v: "v = JObj (ms @ (m, w) # rest)" using lenient_prefix(2) [OF r] by auto
    note sw = 4(1) [OF True t refl refl w]
    show ?thesis
    proof (cases "m \<in> set (map fst ms) \<or> \<not> distinct_members w")
      case bad: True
      then have "\<not> distinct_members v" using v by auto
      with True t sw bad show ?thesis by (auto simp: strict_of_def duplicate_error_def)
    next
      case False
      then have "distinct_members (JObj (ms @ [(m, w)]))" using 4(4) by auto
      from 4(2) [OF True t refl refl w refl r this] sw False t True show ?thesis
        by (simp add: strict_of_def)
    qed
  next
    case False
    with 4 show ?thesis by (auto simp: strict_of_def split: sum.splits)
  qed
next
  case (6 f d k xs)
  show ?case
  proof (cases "More d")
    case True
    then obtain w d2 where w: "lenientValue f d k = Some (w, d2)"
      and r: "lenientArray f d2 k (xs @ [w]) = Some (v, d')"
      using 6(3) by (auto split: option.splits)
    obtain rest where v: "v = JArr (xs @ w # rest)" using lenient_prefix(3) [OF r] by auto
    note sw = 6(1) [OF True w]
    show ?thesis
    proof (cases "distinct_members w")
      case good: True
      then have "distinct_members (JArr (xs @ [w]))" using 6(4) by auto
      from 6(2) [OF True w refl r this] sw good True show ?thesis by (simp add: strict_of_def)
    next
      case False
      then have "\<not> distinct_members v" using v by auto
      with True sw False show ?thesis by (auto simp: strict_of_def duplicate_error_def)
    qed
  next
    case False
    with 6 show ?thesis by (auto simp: strict_of_def split: sum.splits)
  qed
qed simp_all

lemma strict_lenient:
  "parseValue f n d k = Some (Inr (v, d')) \<Longrightarrow> lenientValue f d k = Some (v, d')"
  "parseObject f n d k ms = Some (Inr (v, d')) \<Longrightarrow> lenientObject f d k ms = Some (v, d')"
  "parseArray f n d k xs = Some (Inr (v, d')) \<Longrightarrow> lenientArray f d k xs = Some (v, d')"
proof (induction f n d k and f n d k ms and f n d k xs arbitrary: v d' and v d' and v d'
    rule: parseValue_parseObject_parseArray.induct)
  case (2 f n d k)
  then show ?case by (auto split: stream.splits token.splits option.splits if_splits)
next
  case (4 f n d k ms)
  then show ?case
    by (fastforce split: stream.splits token.splits option.splits if_splits sum.splits)
next
  case (6 f n d k xs)
  then show ?case
    by (fastforce split: option.splits if_splits sum.splits)
qed simp_all

definition lenientDocument :: "string \<Rightarrow> jval option" where
  "lenientDocument data =
     (if utf8_valid data \<and> validateUnicodeEscapes data = None then
        (case lenientValue (Suc (2 * length data)) (NewDecoder data) 0 of
           Some (v, d) \<Rightarrow> if Token d = EOF then Some v else None
         | None \<Rightarrow> None)
      else None)"

lemma lenientDocument_strict:
  assumes "lenientDocument data = Some v"
  shows "if distinct_members v then parseStrict data = Inr v
    else \<exists>m off. parseStrict data = Inl (wrap_parse (ErrDuplicateMember m off))"
proof -
  from assms obtain d where ok: "utf8_valid data" "validateUnicodeEscapes data = None"
    and l: "lenientValue (Suc (2 * length data)) (NewDecoder data) 0 = Some (v, d)"
    and e: "Token d = EOF"
    by (auto simp: lenientDocument_def split: if_splits option.splits)
  show ?thesis
    using lenient_strict(1) [OF l, of "length data"] ok e
    by (auto simp: parseStrict_def strict_of_def duplicate_error_def simp del: parseValue.simps) blast
qed

lemma parseStrict_lenient:
  assumes "parseStrict data = Inr v"
  shows "lenientDocument data = Some v \<and> distinct_members v"
proof -
  from assms obtain d where ok: "utf8_valid data" "validateUnicodeEscapes data = None"
    and p: "parseValue (Suc (2 * length data)) (length data) (NewDecoder data) 0 = Some (Inr (v, d))"
    and e: "Token d = EOF"
    by (auto simp: parseStrict_def simp del: parseValue.simps
        split: if_splits option.splits sum.splits stream.splits)
  have "lenientDocument data = Some v"
    using strict_lenient(1) [OF p] ok e by (simp add: lenientDocument_def del: lenientValue.simps)
  with lenientDocument_strict [OF this] assms show ?thesis by (auto split: if_splits)
qed

text \<open>The fuel bound is never the reason for a refusal.\<close>

lemma parseStrict_fuel:
  "parseValue (Suc (2 * length data)) (length data) (NewDecoder data) 0 \<noteq> None"
  by (rule parse_total) (simp add: NewDecoder_def)

section \<open>Comparison\<close>

lemma float_eq_equiv:
  "float_eq a a" "float_eq a b \<Longrightarrow> float_eq b a" "float_eq a b \<Longrightarrow> float_eq b c \<Longrightarrow> float_eq a c"
  by (auto simp: float_eq_def)

lemma equalValues_refl: "distinct_members v \<Longrightarrow> equalValues v v"
proof (induction v)
  case (JFloat a)
  show ?case by (simp add: float_eq_equiv(1))
next
  case (JArr xs)
  then show ?case by (auto simp: list_all2_same list_all_iff)
next
  case (JObj ms)
  then show ?case by (fastforce simp: list_all_iff)
qed simp_all

text \<open>What equality of two objects says of their members, independent of their order.\<close>

lemma equalValues_objects:
  assumes "distinct (map fst ms)" and "distinct (map fst ns)"
  shows "equalValues (JObj ms) (JObj ns) \<longleftrightarrow> dom (map_of ms) = dom (map_of ns) \<and>
    (\<forall>k v w. map_of ms k = Some v \<and> map_of ns k = Some w \<longrightarrow> equalValues v w)"
proof -
  have c: "card (dom (map_of ms)) = length ms" "card (dom (map_of ns)) = length ns"
    using assms by (simp_all add: dom_map_of_conv_image_fst card_image distinct_map distinct_card)
  have f: "finite (dom (map_of ms))" "finite (dom (map_of ns))" by (simp_all add: finite_dom_map_of)
  show ?thesis
  proof
    assume e: "equalValues (JObj ms) (JObj ns)"
    then have l: "length ms = length ns"
      and a: "list_all (\<lambda>(member, v). case map_of ns member of None \<Rightarrow> False | Some w \<Rightarrow> equalValues v w) ms"
      by simp_all
    have p: "\<exists>w. map_of ns k = Some w \<and> equalValues v w" if "map_of ms k = Some v" for k v
    proof -
      have "case map_of ns k of None \<Rightarrow> False | Some w \<Rightarrow> equalValues v w"
        using a map_of_SomeD [OF that] unfolding list_all_iff by blast
      then show ?thesis by (simp split: option.splits)
    qed
    have "dom (map_of ms) \<subseteq> dom (map_of ns)" using p by blast
    then have "dom (map_of ms) = dom (map_of ns)" using card_subset_eq f c l by metis
    with p show "dom (map_of ms) = dom (map_of ns) \<and>
      (\<forall>k v w. map_of ms k = Some v \<and> map_of ns k = Some w \<longrightarrow> equalValues v w)" by fastforce
  next
    assume r: "dom (map_of ms) = dom (map_of ns) \<and>
      (\<forall>k v w. map_of ms k = Some v \<and> map_of ns k = Some w \<longrightarrow> equalValues v w)"
    then have "length ms = length ns" using c by metis
    moreover have "\<exists>w. map_of ns k = Some w \<and> equalValues v w" if "(k, v) \<in> set ms" for k v
      using r that assms(1) by (metis domI domIff map_of_is_SomeI not_None_eq)
    ultimately show "equalValues (JObj ms) (JObj ns)"
      by (fastforce simp: list_all_iff)
  qed
qed

lemma member_value: "map_of ms k = Some v \<Longrightarrow> (k, v) \<in> set ms"
  by (rule map_of_SomeD)

lemma equalValues_sym:
  "distinct_members v \<Longrightarrow> distinct_members w \<Longrightarrow> equalValues v w \<Longrightarrow> equalValues w v"
proof (induction v arbitrary: w)
  case (JFloat a)
  from JFloat(3) show ?case by (cases w) (simp_all add: float_eq_equiv(2))
next
  case (JArr xs)
  from JArr(4) obtain ys where w: "w = JArr ys" by (cases w) simp_all
  have l: "list_all distinct_members xs" "list_all distinct_members ys" "list_all2 equalValues xs ys"
    using JArr(2,3,4) w by simp_all
  have "list_all2 equalValues ys xs"
    using l JArr(1) by (auto simp: list_all2_conv_all_nth list_all_length)
  then show ?case unfolding w using list_all2_lengthD by fastforce
next
  case (JObj ms)
  from JObj(4) obtain ns where w: "w = JObj ns" by (cases w) simp_all
  have d: "distinct (map fst ms)" "distinct (map fst ns)" using JObj(2,3) w by simp_all
  have sub: "distinct_members x" if "map_of ms k = Some x \<or> map_of ns k = Some x" for k x
    using that JObj(2,3) w by (auto simp: list_all_iff dest!: member_value)
  have step: "equalValues y x" if "map_of ms k = Some x" "map_of ns k = Some y" "equalValues x y" for k x y
    using JObj(1) [OF member_value [OF that(1)], of x y] sub [of k x] sub [of k y] that by (simp add: snds.intros)
  have e: "dom (map_of ms) = dom (map_of ns)"
    "\<And>k x y. map_of ms k = Some x \<Longrightarrow> map_of ns k = Some y \<Longrightarrow> equalValues x y"
    using JObj(4) unfolding w equalValues_objects [OF d] by blast+
  show ?case
    unfolding w equalValues_objects [OF d(2,1)]
    using e(1) by (intro conjI allI impI) (auto intro: step e(2))
qed simp_all

lemma equalValues_trans:
  "distinct_members u \<Longrightarrow> distinct_members v \<Longrightarrow> distinct_members w \<Longrightarrow>
     equalValues u v \<Longrightarrow> equalValues v w \<Longrightarrow> equalValues u w"
proof (induction u arbitrary: v w)
  case (JFloat a)
  from JFloat(4,5) show ?case by (cases v; cases w) (auto intro: float_eq_equiv(3))
next
  case (JArr xs)
  from JArr(5) obtain ys where v: "v = JArr ys" by (cases v) simp_all
  from JArr(6) v obtain zs where w: "w = JArr zs" by (cases w) simp_all
  have l: "list_all distinct_members xs" "list_all distinct_members ys" "list_all distinct_members zs"
    "list_all2 equalValues xs ys" "list_all2 equalValues ys zs"
    using JArr(2-6) v w by simp_all
  have "equalValues (xs ! i) (zs ! i)" if "i < length xs" for i
    using JArr(1) [of "xs ! i" "ys ! i" "zs ! i"] l that
    by (simp add: list_all2_conv_all_nth list_all_length)
  then have "list_all2 equalValues xs zs" using l by (simp add: list_all2_conv_all_nth)
  then show ?case unfolding w using list_all2_lengthD by fastforce
next
  case (JObj ms)
  from JObj(5) obtain ns where v: "v = JObj ns" by (cases v) simp_all
  from JObj(6) v obtain os where w: "w = JObj os" by (cases w) simp_all
  have d: "distinct (map fst ms)" "distinct (map fst ns)" "distinct (map fst os)"
    using JObj(2,3,4) v w by simp_all
  have sub: "distinct_members x" if "map_of ms k = Some x \<or> map_of ns k = Some x \<or> map_of os k = Some x" for k x
    using that JObj(2-4) v w by (auto simp: list_all_iff dest!: member_value)
  have step: "equalValues x z" if "map_of ms k = Some x" "map_of ns k = Some y" "map_of os k = Some z"
      "equalValues x y" "equalValues y z" for k x y z
    using JObj(1) [OF member_value [OF that(1)], of x y z] sub [of k x] sub [of k y] sub [of k z] that by (simp add: snds.intros)
  have e1: "dom (map_of ms) = dom (map_of ns)" "dom (map_of ns) = dom (map_of os)"
    and e2: "\<And>k x y. map_of ms k = Some x \<Longrightarrow> map_of ns k = Some y \<Longrightarrow> equalValues x y"
    and e3: "\<And>k x y. map_of ns k = Some x \<Longrightarrow> map_of os k = Some y \<Longrightarrow> equalValues x y"
    using JObj(5,6) unfolding v w equalValues_objects [OF d(1,2)] equalValues_objects [OF d(2,3)]
    by blast+
  have "equalValues x z" if x: "map_of ms k = Some x" and z: "map_of os k = Some z" for k x z
  proof -
    obtain y where y: "map_of ns k = Some y" using x e1(1) by blast
    show ?thesis using step [OF x y z e2 [OF x y] e3 [OF y z]] .
  qed
  then show ?case
    unfolding w equalValues_objects [OF d(1,3)] using e1 by blast
qed simp_all
section \<open>Properties\<close>

text \<open>C33: Strict parsing is the ordinary parser plus member uniqueness: a document parses strictly, to
  a given value, exactly when the parser without the duplicate check yields that value and no
  object in it, at any depth, repeats a decoded member name.\<close>

theorem strict_parse_exact:
  "parseStrict data = Inr v \<longleftrightarrow> lenientDocument data = Some v \<and> distinct_members v"
proof
  assume "lenientDocument data = Some v \<and> distinct_members v"
  then show "parseStrict data = Inr v" using lenientDocument_strict [of data v] by simp
qed (rule parseStrict_lenient)

text \<open>A document a permissive parser would accept but in which some object repeats a member is
  always refused by Validate, and refused with the DuplicateMemberError of the duplicate-json-member
  diagnostic rather than with a syntax error.\<close>

theorem duplicate_members_refused:
  assumes "lenientDocument data = Some v" and "\<not> distinct_members v"
  shows "\<exists>m off. Validate data = Some (wrap_parse (ErrDuplicateMember m off))"
proof -
  obtain m off where "parseStrict data = Inl (wrap_parse (ErrDuplicateMember m off))"
    using lenientDocument_strict [OF assms(1)] assms(2) by auto
  then have "Validate data = Some (wrap_parse (ErrDuplicateMember m off))" by (simp add: Validate_def)
  then show ?thesis by blast
qed

text \<open>The document with the member a twice, once escaped.\<close>

definition duplicate_example :: string where
  "duplicate_example = ''{'' @ quote ''a'' @ '':1,'' @ [CHR 0x22, backslash] @ ''u0061'' @ [CHR 0x22] @ '':[]}''"

lemma duplicate_members_refused_witness:
  "\<exists>m off. Validate duplicate_example = Some (wrap_parse (ErrDuplicateMember m off))"
proof -
  have "lenientDocument duplicate_example =
      Some (JObj [(''a'', JFloat (Float64 False (2 ^ 52) (- 52))), (''a'', JArr [])])"
    by code_simp
  then show ?thesis by (rule duplicate_members_refused) simp
qed

text \<open>Equal is an equivalence on the documents it can compare: reflexive on every accepted
  document, symmetric and transitive, so the order of members and the spelling of strings and
  numbers never decide the answer.\<close>

theorem json_equal_equivalence:
  "(parseStrict a = Inr v \<longrightarrow> Equal a a = Inr True) \<and>
   (Equal a b = Inr r \<longrightarrow> Equal b a = Inr r) \<and>
   (Equal a b = Inr True \<and> Equal b c = Inr True \<longrightarrow> Equal a c = Inr True)"
proof (intro conjI impI)
  show "Equal a a = Inr True" if "parseStrict a = Inr v"
    using that parseStrict_lenient equalValues_refl by (simp add: Equal_def)
  show "Equal b a = Inr r" if "Equal a b = Inr r"
  proof -
    from that obtain x y where p: "parseStrict a = Inr x" "parseStrict b = Inr y" "r = equalValues x y"
      by (auto simp: Equal_def split: sum.splits)
    then have "equalValues y x = equalValues x y"
      using equalValues_sym parseStrict_lenient by blast
    with p show ?thesis by (simp add: Equal_def)
  qed
  show "Equal a c = Inr True" if "Equal a b = Inr True \<and> Equal b c = Inr True"
  proof -
    from that obtain x y z where p: "parseStrict a = Inr x" "parseStrict b = Inr y" "parseStrict c = Inr z"
      "equalValues x y" "equalValues y z"
      by (auto simp: Equal_def split: sum.splits)
    then have "equalValues x z" using equalValues_trans parseStrict_lenient by blast
    with p show ?thesis by (simp add: Equal_def)
  qed
qed

definition equal_left :: string where
  "equal_left = ''{'' @ quote ''a'' @ '':1,'' @ quote ''b'' @ '':null}''"

definition equal_right :: string where
  "equal_right = ''{ '' @ quote ''b'' @ '' : null, '' @ quote ''a'' @ '':10e-1}''"

lemma json_equal_equivalence_witness:
  "Equal equal_left equal_right = Inr True \<and> Equal equal_right equal_left = Inr True
   \<and> Equal equal_left equal_left = Inr True"
proof -
  have h: "Equal equal_left equal_right = Inr True" by code_simp
  then have s: "Equal equal_right equal_left = Inr True" using json_equal_equivalence by blast
  with h have "Equal equal_left equal_left = Inr True" using json_equal_equivalence by blast
  with h s show ?thesis by blast
qed

end
