(* ===== verification/Registry.thy ===== *)
theory Registry
  imports Unicode
begin

text \<open>
  internal/diagnostic/registry.go and the registry part of diagnostic.go: the closed table of
  diagnostics.  The Go map is a function to options; a call that would panic is \<^const>\<open>None\<close>.
  The table is built by the code's sequence of register, set and setPrecedence calls; the lemmas
  give each entry in closed form (the last override of its category wins).
\<close>

definition ExitCodePass :: nat where "ExitCodePass = 0"
definition ExitCodePolicyFailure :: nat where "ExitCodePolicyFailure = 1"
definition ExitCodeInvocationFailure :: nat where "ExitCodeInvocationFailure = 2"

definition SeverityError :: string where "SeverityError = ''error''"
definition SeverityWarning :: string where "SeverityWarning = ''warning''"

definition PhaseInvocation :: string where "PhaseInvocation = ''invocation''"
definition PhasePolicy :: string where "PhasePolicy = ''policy''"
definition PhaseVerification :: string where "PhaseVerification = ''verification''"
definition PhasePreMutation :: string where "PhasePreMutation = ''pre-mutation''"
definition PhaseMutation :: string where "PhaseMutation = ''mutation''"

record Definition =
  def_ID :: string
  def_Severity :: string
  def_Category :: string
  def_Phase :: string
  def_ExitCode :: nat
  def_MutationPossible :: bool
  def_precedence :: nat

type_synonym registry_map = "string \<Rightarrow> Definition option"

definition error_id :: "string \<Rightarrow> string" where
  "error_id category = ''windlass.verify.error.'' @ category"

definition warning_id :: "string \<Rightarrow> string" where
  "warning_id category = ''windlass.verify.warning.'' @ category"

section \<open>Categories\<close>

definition warningCategories :: "string list" where
  "warningCategories =
    [''custom-registry-preflight-inconclusive'', ''native-provenance-locator-missing'',
     ''npm-version-mismatch'', ''project-corepack-env-ignored'',
     ''publish-committed-after-rejection'', ''stale-non-selected-lockfile'',
     ''timestamp-clock-skew'']"

definition errorCategories :: "string list" where
  "errorCategories =
    [''actions-attest-adapter-contract'', ''already-published-version'',
     ''build-type-not-canonical'', ''builder-dependencies-signing-adapter-mismatch'',
     ''builder-id-not-immutable'', ''builder-version-mismatch'', ''bundle-byte-format-mismatch'',
     ''composition-handoff-substitution'', ''custom-registry-access-option-rejected'',
     ''custom-registry-digest-semantics-mismatch'', ''custom-registry-linkage-metadata-absent'',
     ''custom-registry-provenance-submission-rejected'', ''custom-registry-provenance-weakened'',
     ''custom-registry-token-required'', ''custom-registry-tokenless-auth-failed'',
     ''diagnostics-contract-invalid'', ''digest-encoding-invalid'', ''digest-mismatch'',
     ''duplicate-json-member'', ''duplicate-release-asset'', ''duplicate-sidecar-asset'',
     ''empty-publish-input-fallback'', ''excessive-publish-permission'',
     ''external-parameters-incomplete'', ''external-parameters-unexpected'',
     ''handoff-schema-mismatch'', ''input-unavailable'', ''invalid-publish-input'',
     ''issuer-mismatch'', ''legacy-trust-root-override'', ''linked-artifact-locator-mismatch'',
     ''linked-artifact-settings-mismatch'', ''manifest-caller-override'',
     ''manifest-digest-mismatch'', ''manifest-entry-order-mismatch'',
     ''manifest-entrypoint-mismatch'', ''manifest-generated-at-invalid'',
     ''manifest-handoff-basename-mismatch'', ''manifest-indeterminate-json-upload'',
     ''manifest-partial-json-uploaded'', ''manifest-predicate-mismatch'',
     ''manifest-remote-digest-unproven'', ''manifest-signing-input-mismatch'',
     ''manifest-tag-peel-mismatch'', ''manifest-trigger-mismatch'',
     ''manifest-workflow-sha-mismatch'', ''missing-producer-provenance'',
     ''missing-rekor-entry'', ''missing-sct'', ''missing-subject-sha256'',
     ''missing-subject-sha512'', ''mutation-permission-denied'', ''mutation-queue-overflow'',
     ''native-locator-digest-mismatch'', ''native-locator-malformed'',
     ''node-runtime-provision-archive-unsafe'', ''node-runtime-provision-digest-mismatch'',
     ''node-runtime-provision-download'', ''node-runtime-provision-layout-violation'',
     ''node-runtime-provision-version-mismatch'', ''npm-oidc-exchange-indeterminate'',
     ''npm-provision-archive-unsafe'', ''npm-provision-digest-mismatch'',
     ''npm-provision-download'', ''npm-provision-version-mismatch'',
     ''npm-purl-subject-mismatch'', ''npm-version-too-old'', ''oidc-capability-unavailable'',
     ''package-directory-mismatch'', ''package-identity-mismatch'', ''package-manager-conflict'',
     ''package-manager-digest-malformed'', ''package-manager-digest-mismatch'',
     ''package-manager-manifest-shape-error'', ''package-manager-selection-path-mismatch'',
     ''package-manager-version-required'', ''package-manifest-invalid'',
     ''package-metadata-required'', ''package-pack-failed'', ''package-private'',
     ''package-repository-identity-mismatch'', ''package-resolution-invalid'',
     ''package-url-mismatch'', ''package-version-mismatch'', ''packed-corepack-env-prohibited'',
     ''packed-package-metadata-mismatch'', ''pnpm-version-unsupported'',
     ''policy-schema-invalid'', ''predicate-type-invalid'',
     ''prepublish-registry-metadata-required'', ''private-package'', ''publish-intent-conflict'',
     ''publish-npm-pin-mismatch'', ''publish-rejected-unprocessable'',
     ''publisher-handoff-field-error'', ''publisher-indeterminate-primary-upload'',
     ''publisher-permission-boundary-violation'', ''publisher-remote-digest-unproven'',
     ''publisher-workflow-schema-error'', ''raw-artifact-bypass'', ''registry-linkage-mismatch'',
     ''release-asset-binding-mismatch'', ''release-asset-mode-disabled-conflict'',
     ''release-asset-mode-permission-error'', ''release-asset-mode-schema-error'',
     ''release-asset-target-error'', ''release-manifest-mismatch'', ''release-ref-mismatch'',
     ''release-target-immutable'', ''release-version-semver-mismatch'',
     ''required-lockfile-missing'', ''resolved-dependencies-lockfile'',
     ''resolved-dependencies-node-runtime'',
     ''resolved-dependencies-package-manager-distribution'',
     ''resolved-dependencies-runner-image'', ''resolved-dependencies-unexpected-entry'',
     ''run-invocation-uri-invalid'', ''runtime-policy-mismatch'', ''self-hosted-runner'',
     ''sidecar-digest-mismatch'', ''sidecar-mismatch'', ''sidecar-upload-partial-failure'',
     ''signature-invalid'', ''signature-mismatch'', ''signature-time-violation'',
     ''signer-identity-claim-missing'', ''signer-identity-untrusted'', ''signer-mismatch'',
     ''signer-workflow-path-mismatch'', ''signer-workflow-sha-mismatch'',
     ''source-digest-mismatch'', ''source-identity-mismatch'', ''source-numeric-id-mismatch'',
     ''source-ref-invalid'', ''source-ref-mismatch'',
     ''source-repository-canonicalization-error'', ''stale-pinned-trust-root'',
     ''statement-assembly-mismatch'', ''statement-type-invalid'', ''subject-cardinality-error'',
     ''subject-cardinality-invalid'', ''subject-digest-scope-invalid'',
     ''subject-name-mismatch'', ''subject-sha256-missing'',
     ''tarball-filename-subject-rejected'', ''timestamp-format-invalid'',
     ''timestamp-ordering-invalid'', ''toolchain-pair-mismatch'', ''toolchain-pin-drift'',
     ''trusted-core-boundary-violation'', ''trusted-producer-policy-conflict'',
     ''trusted-publisher-mismatch'', ''unexpected-external-parameters'',
     ''unexpected-internal-parameters'', ''ungoverned-trust-root'',
     ''unregistered-producer-build-type'', ''unsupported-initial-publication'',
     ''unsupported-yarn-version'', ''verification-mode-invalid'', ''verification-network-call'',
     ''verifier-execution-failure'', ''workspace-command-mismatch'',
     ''workspace-pattern-base-mismatch'', ''workspace-resolution-mismatch'',
     ''wrong-build-type'', ''wrong-builder-id'', ''wrong-manifest-predicate-type'',
     ''wrong-predicate-type'', ''wrong-producer-signer'', ''yarn-selection-invalid'',
     ''yarn-version-unsupported'']"

section \<open>Building the table\<close>

definition register :: "registry_map \<Rightarrow> Definition \<Rightarrow> registry_map option" where
  "register definitions d =
     (if definitions (def_ID d) \<noteq> None then None else Some (definitions(def_ID d \<mapsto> d)))"

text \<open>The two functions that override entries of registered error categories.\<close>

fun set_categories :: "(Definition \<Rightarrow> Definition) \<Rightarrow> registry_map \<Rightarrow> string list \<Rightarrow> registry_map option" where
  "set_categories upd definitions [] = Some definitions"
| "set_categories upd definitions (category # categories) =
     (case definitions (error_id category) of
        None \<Rightarrow> None
      | Some d \<Rightarrow> set_categories upd (definitions(error_id category \<mapsto> upd d)) categories)"

definition set_overrides ::
  "registry_map \<Rightarrow> string \<Rightarrow> nat \<Rightarrow> bool \<Rightarrow> nat \<Rightarrow> string list \<Rightarrow> registry_map option" where
  "set_overrides definitions phase exitCode mutationPossible precedence categories =
     set_categories (\<lambda>d. d\<lparr>def_Phase := phase, def_ExitCode := exitCode,
       def_MutationPossible := mutationPossible, def_precedence := precedence\<rparr>)
       definitions categories"

definition setPrecedence :: "registry_map \<Rightarrow> nat \<Rightarrow> string list \<Rightarrow> registry_map option" where
  "setPrecedence definitions precedence categories =
     set_categories (\<lambda>d. d\<lparr>def_precedence := precedence\<rparr>) definitions categories"

definition base_error :: "string \<Rightarrow> Definition" where
  "base_error category =
     \<lparr>def_ID = error_id category, def_Severity = SeverityError, def_Category = category,
      def_Phase = PhaseVerification, def_ExitCode = ExitCodePolicyFailure,
      def_MutationPossible = False, def_precedence = 7\<rparr>"

definition base_warning :: "string \<Rightarrow> Definition" where
  "base_warning category =
     \<lparr>def_ID = warning_id category, def_Severity = SeverityWarning, def_Category = category,
      def_Phase = PhaseVerification, def_ExitCode = ExitCodePass,
      def_MutationPossible = False, def_precedence = 8\<rparr>"

fun register_all :: "registry_map \<Rightarrow> Definition list \<Rightarrow> registry_map option" where
  "register_all definitions [] = Some definitions"
| "register_all definitions (d # ds) =
     (case register definitions d of None \<Rightarrow> None | Some m \<Rightarrow> register_all m ds)"

text \<open>The override calls of buildRegistry, in order.\<close>

datatype override =
    Set string nat bool nat "string list"
  | SetPrecedence nat "string list"

fun apply_override :: "override \<Rightarrow> registry_map \<Rightarrow> registry_map option" where
  "apply_override (Set phase exitCode mutationPossible precedence categories) definitions =
     set_overrides definitions phase exitCode mutationPossible precedence categories"
| "apply_override (SetPrecedence precedence categories) definitions =
     setPrecedence definitions precedence categories"

fun apply_overrides :: "override list \<Rightarrow> registry_map \<Rightarrow> registry_map option" where
  "apply_overrides [] definitions = Some definitions"
| "apply_overrides (ov # ovs) definitions =
     (case apply_override ov definitions of None \<Rightarrow> None | Some m \<Rightarrow> apply_overrides ovs m)"

definition registry_overrides :: "override list" where
  "registry_overrides =
    [Set PhaseInvocation ExitCodeInvocationFailure False 1
      [''verification-mode-invalid'', ''input-unavailable'', ''verifier-execution-failure''],
     Set PhasePolicy ExitCodePolicyFailure False 1
      [''policy-schema-invalid'', ''duplicate-json-member'', ''legacy-trust-root-override'',
       ''package-manifest-invalid'', ''package-metadata-required'', ''package-private'',
       ''package-resolution-invalid'', ''package-manager-conflict'',
       ''package-manager-version-required'', ''package-manager-digest-malformed'',
       ''package-manager-digest-mismatch'', ''yarn-selection-invalid'',
       ''required-lockfile-missing'', ''package-repository-identity-mismatch'',
       ''pnpm-version-unsupported'', ''yarn-version-unsupported''],
     SetPrecedence 1
      [''diagnostics-contract-invalid'', ''digest-encoding-invalid'', ''digest-mismatch'',
       ''handoff-schema-mismatch'', ''resolved-dependencies-lockfile'',
       ''subject-sha256-missing'', ''missing-subject-sha256'', ''missing-subject-sha512''],
     SetPrecedence 2
      [''ungoverned-trust-root'', ''stale-pinned-trust-root'', ''verification-network-call''],
     SetPrecedence 3
      [''signature-invalid'', ''signature-mismatch'', ''missing-sct'', ''missing-rekor-entry'',
       ''signature-time-violation''],
     SetPrecedence 4
      [''issuer-mismatch'', ''signer-mismatch'', ''signer-identity-claim-missing'',
       ''signer-identity-untrusted'', ''signer-workflow-path-mismatch'',
       ''signer-workflow-sha-mismatch'', ''source-identity-mismatch'',
       ''source-numeric-id-mismatch'', ''source-digest-mismatch'', ''source-ref-mismatch'',
       ''source-repository-canonicalization-error'', ''run-invocation-uri-invalid'',
       ''self-hosted-runner'', ''wrong-producer-signer''],
     SetPrecedence 5
      [''trusted-producer-policy-conflict''],
     SetPrecedence 6
      [''statement-type-invalid'', ''predicate-type-invalid'', ''wrong-predicate-type'',
       ''wrong-manifest-predicate-type'', ''builder-id-not-immutable'', ''wrong-builder-id'',
       ''build-type-not-canonical'', ''wrong-build-type'', ''external-parameters-incomplete'',
       ''external-parameters-unexpected'', ''unexpected-external-parameters'',
       ''unexpected-internal-parameters'', ''subject-cardinality-error'',
       ''subject-cardinality-invalid'', ''subject-name-mismatch'',
       ''subject-digest-scope-invalid'', ''statement-assembly-mismatch''],
     Set PhasePreMutation ExitCodePolicyFailure False 7
      [''release-target-immutable'', ''handoff-schema-mismatch'',
       ''publisher-remote-digest-unproven'', ''npm-oidc-exchange-indeterminate'',
       ''oidc-capability-unavailable'', ''source-ref-invalid'', ''npm-provision-download'',
       ''npm-provision-digest-mismatch'', ''npm-provision-archive-unsafe'',
       ''npm-provision-version-mismatch'', ''node-runtime-provision-download'',
       ''node-runtime-provision-digest-mismatch'', ''node-runtime-provision-archive-unsafe'',
       ''node-runtime-provision-layout-violation'', ''node-runtime-provision-version-mismatch'',
       ''publish-npm-pin-mismatch'', ''toolchain-pair-mismatch'', ''toolchain-pin-drift''],
     Set PhaseMutation ExitCodePolicyFailure False 7
      [''mutation-permission-denied''],
     Set PhaseMutation ExitCodePolicyFailure True 7
      [''publisher-indeterminate-primary-upload'', ''mutation-queue-overflow'',
       ''manifest-partial-json-uploaded'', ''manifest-indeterminate-json-upload'',
       ''manifest-remote-digest-unproven'', ''sidecar-upload-partial-failure'',
       ''duplicate-release-asset'', ''duplicate-sidecar-asset'', ''registry-linkage-mismatch'',
       ''publish-rejected-unprocessable'', ''custom-registry-tokenless-auth-failed'',
       ''custom-registry-provenance-submission-rejected'',
       ''custom-registry-linkage-metadata-absent'',
       ''custom-registry-digest-semantics-mismatch'']]"

definition buildRegistry :: "registry_map option" where
  "buildRegistry =
     (case register_all Map.empty (map base_error errorCategories) of
        None \<Rightarrow> None
      | Some m \<Rightarrow>
          (case register_all m (map base_warning warningCategories) of
             None \<Rightarrow> None
           | Some m' \<Rightarrow> apply_overrides registry_overrides m'))"

definition registry :: registry_map where
  "registry = (case buildRegistry of Some m \<Rightarrow> m | None \<Rightarrow> Map.empty)"

definition Lookup :: "string \<Rightarrow> Definition option" where
  "Lookup ident = registry ident"

text \<open>RegisteredIDs sorts the keys; the keys are those of the registered categories.\<close>

definition RegisteredIDs :: "string list" where
  "RegisteredIDs = sort (map error_id errorCategories @ map warning_id warningCategories)"

section \<open>The table in closed form\<close>

lemma error_id_inject [simp]: "error_id c = error_id c' \<longleftrightarrow> c = c'"
  by (simp add: error_id_def)

lemma error_id_image [simp]: "error_id c \<in> error_id ` S \<longleftrightarrow> c \<in> S"
  by auto

lemma warning_id_inject [simp]: "warning_id c = warning_id c' \<longleftrightarrow> c = c'"
  by (simp add: warning_id_def)

lemma error_warning_id [simp]: "error_id c \<noteq> warning_id c'" "warning_id c' \<noteq> error_id c"
  by (simp_all add: error_id_def warning_id_def)

text \<open>Strictly ascending lists: how the source keeps its two category lists.\<close>

fun ascending :: "string list \<Rightarrow> bool" where
  "ascending (a # b # rest) = (a < b \<and> ascending (b # rest))"
| "ascending _ = True"

lemma ascending_less: "ascending (a # rest) \<Longrightarrow> x \<in> set rest \<Longrightarrow> a < x"
  by (induction rest arbitrary: a) (auto intro: less_trans)

lemma ascending_distinct: "ascending xs \<Longrightarrow> distinct xs"
proof (induction xs)
  case (Cons a xs)
  then have "ascending xs" by (cases xs) auto
  with Cons ascending_less [of a xs] show ?case by auto
qed simp

lemma errorCategories_distinct: "distinct errorCategories"
proof -
  have "ascending errorCategories" by code_simp
  then show ?thesis by (rule ascending_distinct)
qed

lemma warningCategories_distinct: "distinct warningCategories"
proof -
  have "ascending warningCategories" by code_simp
  then show ?thesis by (rule ascending_distinct)
qed

lemma register_all_fresh:
  assumes "distinct (map def_ID ds)" and "\<forall>d \<in> set ds. m (def_ID d) = None"
  shows "register_all m ds = Some (\<lambda>k. case map_of (map (\<lambda>d. (def_ID d, d)) ds) k of
    Some d \<Rightarrow> Some d | None \<Rightarrow> m k)"
  using assms
proof (induction ds arbitrary: m)
  case (Cons d ds)
  have fresh: "\<forall>d' \<in> set ds. def_ID d' \<noteq> def_ID d"
  proof
    fix d' assume "d' \<in> set ds"
    then have "def_ID d' \<in> set (map def_ID ds)" by simp
    then show "def_ID d' \<noteq> def_ID d" using Cons.prems(1) by auto
  qed
  have "register_all m (d # ds) = register_all (m(def_ID d \<mapsto> d)) ds"
    using Cons.prems by (simp add: register_def)
  also have "\<dots> = Some (\<lambda>k. case map_of (map (\<lambda>d. (def_ID d, d)) ds) k of
      Some d' \<Rightarrow> Some d' | None \<Rightarrow> (m(def_ID d \<mapsto> d)) k)"
    using Cons.prems fresh by (intro Cons.IH) simp_all
  also have "\<dots> = Some (\<lambda>k. case map_of (map (\<lambda>d. (def_ID d, d)) (d # ds)) k of
      Some d' \<Rightarrow> Some d' | None \<Rightarrow> m k)"
  proof -
    have "map_of (map (\<lambda>d. (def_ID d, d)) ds) (def_ID d) = None"
      using Cons.prems(1) by (auto simp: map_of_eq_None_iff)
    then show ?thesis by (auto simp: fun_eq_iff split: option.splits)
  qed
  finally show ?case .
qed simp

text \<open>What one override does to the entry of a category.\<close>

fun override_categories :: "override \<Rightarrow> string list" where
  "override_categories (Set _ _ _ _ cs) = cs"
| "override_categories (SetPrecedence _ cs) = cs"

fun override_entry :: "override \<Rightarrow> Definition \<Rightarrow> Definition" where
  "override_entry (Set phase exitCode mutationPossible precedence _) d =
     d\<lparr>def_Phase := phase, def_ExitCode := exitCode, def_MutationPossible := mutationPossible,
       def_precedence := precedence\<rparr>"
| "override_entry (SetPrecedence precedence _) d = d\<lparr>def_precedence := precedence\<rparr>"

fun override_at :: "string \<Rightarrow> override \<Rightarrow> Definition \<Rightarrow> Definition" where
  "override_at c ov d = (if c \<in> set (override_categories ov) then override_entry ov d else d)"

definition error_entry :: "string \<Rightarrow> Definition" where
  "error_entry c = fold (override_at c) registry_overrides (base_error c)"

lemma set_categories_distinct:
  assumes "distinct cs" and "\<forall>c \<in> set cs. m (error_id c) \<noteq> None"
  shows "set_categories upd m cs =
    Some (\<lambda>k. if k \<in> error_id ` set cs then map_option upd (m k) else m k)"
  using assms
proof (induction cs arbitrary: m)
  case (Cons c cs)
  then obtain d where d: "m (error_id c) = Some d" by auto
  have "set_categories upd m (c # cs) = set_categories upd (m(error_id c \<mapsto> upd d)) cs"
    using d by simp
  also have "\<dots> = Some (\<lambda>k. if k \<in> error_id ` set cs
      then map_option upd ((m(error_id c \<mapsto> upd d)) k) else (m(error_id c \<mapsto> upd d)) k)"
    using Cons.prems by (intro Cons.IH) auto
  also have "\<dots> = Some (\<lambda>k. if k \<in> error_id ` set (c # cs) then map_option upd (m k) else m k)"
    using Cons.prems(1) d by (auto simp: fun_eq_iff)
  finally show ?case .
qed simp

lemma apply_override_distinct:
  assumes "distinct (override_categories ov)"
    and "\<forall>c \<in> set (override_categories ov). m (error_id c) \<noteq> None"
  shows "apply_override ov m = Some (\<lambda>k. if k \<in> error_id ` set (override_categories ov)
    then map_option (override_entry ov) (m k) else m k)"
proof -
  have e: "override_entry (Set p e mt pr cs) = (\<lambda>d. d\<lparr>def_Phase := p, def_ExitCode := e,
      def_MutationPossible := mt, def_precedence := pr\<rparr>)"
    "override_entry (SetPrecedence pr cs) = (\<lambda>d. d\<lparr>def_precedence := pr\<rparr>)" for p e mt pr cs
    by (simp_all add: fun_eq_iff)
  show ?thesis
    using assms by (cases ov) (auto simp: set_overrides_def setPrecedence_def
        set_categories_distinct e simp del: override_entry.simps cong: if_cong)
qed

lemma apply_overrides_closed:
  assumes "\<forall>ov \<in> set ovs. distinct (override_categories ov) \<and>
    (\<forall>c \<in> set (override_categories ov). m (error_id c) \<noteq> None)"
  shows "\<exists>m'. apply_overrides ovs m = Some m' \<and>
    (\<forall>c. m' (error_id c) = map_option (fold (override_at c) ovs) (m (error_id c))) \<and>
    (\<forall>k. k \<notin> range error_id \<longrightarrow> m' k = m k)"
  using assms
proof (induction ovs arbitrary: m)
  case Nil
  then show ?case by (simp add: option.map_ident)
next
  case (Cons ov ovs)
  define m1 where "m1 = (\<lambda>k. if k \<in> error_id ` set (override_categories ov)
    then map_option (override_entry ov) (m k) else m k)"
  have a: "apply_override ov m = Some m1"
    unfolding m1_def using Cons.prems by (intro apply_override_distinct) auto
  have at: "m1 (error_id c) = map_option (override_at c ov) (m (error_id c))" for c
    by (cases "m (error_id c)") (simp_all add: m1_def)
  have "\<exists>m'. apply_overrides ovs m1 = Some m' \<and>
    (\<forall>c. m' (error_id c) = map_option (fold (override_at c) ovs) (m1 (error_id c))) \<and>
    (\<forall>k. k \<notin> range error_id \<longrightarrow> m' k = m1 k)"
    using Cons.prems by (intro Cons.IH) (auto simp: at)
  then obtain m' where m': "apply_overrides ovs m1 = Some m'"
    "\<And>c. m' (error_id c) = map_option (fold (override_at c) ovs) (m1 (error_id c))"
    "\<And>k. k \<notin> range error_id \<Longrightarrow> m' k = m1 k"
    by blast
  show ?case
  proof (intro exI [of _ m'] conjI allI impI)
    show "apply_overrides (ov # ovs) m = Some m'" by (simp add: a m'(1))
    show "m' (error_id c) = map_option (fold (override_at c) (ov # ovs)) (m (error_id c))" for c
      by (simp add: m'(2) at option.map_comp comp_def del: override_at.simps)
    show "m' k = m k" if "k \<notin> range error_id" for k
      using that by (auto simp: m'(3) m1_def)
  qed
qed

lemma registry_overrides_members:
  "list_all (\<lambda>ov. list_all (\<lambda>c. c \<in> set errorCategories) (override_categories ov)) registry_overrides"
  unfolding registry_overrides_def list.pred_inject override_categories.simps
  by ((rule conjI TrueI list.pred_inject(1)
        | (unfold errorCategories_def, intro list.set_intros)[1])+)

lemma registry_overrides_registered:
  "\<forall>ov \<in> set registry_overrides. distinct (override_categories ov) \<and>
     set (override_categories ov) \<subseteq> set errorCategories"
proof -
  have "list_all (\<lambda>ov. distinct (override_categories ov)) registry_overrides" by code_simp
  with registry_overrides_members show ?thesis by (auto simp: list_all_iff)
qed

text \<open>The call sequence never panics, and every entry is the closed form.\<close>

lemma buildRegistry_closed:
  "\<exists>m. buildRegistry = Some m \<and>
    (\<forall>c. m (error_id c) = (if c \<in> set errorCategories then Some (error_entry c) else None)) \<and>
    (\<forall>c. m (warning_id c) = (if c \<in> set warningCategories then Some (base_warning c) else None)) \<and>
    (\<forall>k. k \<notin> range error_id \<and> k \<notin> range warning_id \<longrightarrow> m k = None)"
proof -
  have mo: "map_of (map (\<lambda>d. (def_ID d, d)) (map f cs)) (g c) = (if c \<in> set cs then Some (f c) else None)"
    if "\<And>c. def_ID (f c) = g c" "\<And>a b. g a = g b \<Longrightarrow> a = b" for f :: "string \<Rightarrow> Definition" and g cs c
    using that by (induction cs) auto
  have mn: "map_of (map (\<lambda>d. (def_ID d, d)) (map f cs)) k = None"
    if "\<And>c. def_ID (f c) = g c" "k \<notin> range g" for f :: "string \<Rightarrow> Definition" and g cs k
    using that by (induction cs) auto
  have be: "def_ID (base_error c) = error_id c" and bw: "def_ID (base_warning c) = warning_id c" for c
    by (simp_all add: base_error_def base_warning_def)
  have de: "distinct (map def_ID (map base_error errorCategories))"
    using errorCategories_distinct by (simp add: distinct_map be inj_on_def)
  have dw: "distinct (map def_ID (map base_warning warningCategories))"
    using warningCategories_distinct by (simp add: distinct_map bw inj_on_def)
  define m1 where "m1 = (\<lambda>k. case map_of (map (\<lambda>d. (def_ID d, d)) (map base_error errorCategories)) k of
    Some d \<Rightarrow> Some d | None \<Rightarrow> Map.empty k)"
  have r1: "register_all Map.empty (map base_error errorCategories) = Some m1"
    unfolding m1_def using de by (intro register_all_fresh) auto
  have m1e: "m1 (error_id c) = (if c \<in> set errorCategories then Some (base_error c) else None)" for c
    unfolding m1_def by (subst mo [of base_error error_id]) (auto simp: be)
  have m1n: "m1 k = None" if "k \<notin> range error_id" for k
    unfolding m1_def using mn [of base_error error_id, OF be that] by simp
  define m2 where "m2 = (\<lambda>k. case map_of (map (\<lambda>d. (def_ID d, d)) (map base_warning warningCategories)) k of
    Some d \<Rightarrow> Some d | None \<Rightarrow> m1 k)"
  have r2: "register_all m1 (map base_warning warningCategories) = Some m2"
    unfolding m2_def using dw by (intro register_all_fresh) (auto simp: bw intro!: m1n)
  have m2w: "m2 (warning_id c) = (if c \<in> set warningCategories then Some (base_warning c) else None)" for c
    unfolding m2_def by (subst mo [of base_warning warning_id]) (auto simp: bw intro!: m1n)
  have m2o: "m2 k = m1 k" if "k \<notin> range warning_id" for k
    unfolding m2_def using mn [of base_warning warning_id, OF bw that] by simp
  have m2e: "m2 (error_id c) = (if c \<in> set errorCategories then Some (base_error c) else None)" for c
    by (subst m2o) (auto simp: m1e)
  have "\<exists>m'. apply_overrides registry_overrides m2 = Some m' \<and>
    (\<forall>c. m' (error_id c) = map_option (fold (override_at c) registry_overrides) (m2 (error_id c))) \<and>
    (\<forall>k. k \<notin> range error_id \<longrightarrow> m' k = m2 k)"
    using registry_overrides_registered by (intro apply_overrides_closed) (auto simp: m2e)
  then obtain m where m: "apply_overrides registry_overrides m2 = Some m"
    "\<And>c. m (error_id c) = map_option (fold (override_at c) registry_overrides) (m2 (error_id c))"
    "\<And>k. k \<notin> range error_id \<Longrightarrow> m k = m2 k"
    by blast
  show ?thesis
  proof (intro exI [of _ m] conjI allI impI)
    show "buildRegistry = Some m" using r1 r2 m(1) by (simp add: buildRegistry_def)
    show "m (error_id c) = (if c \<in> set errorCategories then Some (error_entry c) else None)" for c
      by (simp add: m(2) m2e error_entry_def)
    show "m (warning_id c) = (if c \<in> set warningCategories then Some (base_warning c) else None)" for c
      by (subst m(3)) (auto simp: m2w)
    show "m k = None" if "k \<notin> range error_id \<and> k \<notin> range warning_id" for k
      using that by (simp add: m(3) m2o m1n)
  qed
qed

lemma Lookup_closed:
  "Lookup ident = Some d \<longleftrightarrow>
     (\<exists>c \<in> set errorCategories. ident = error_id c \<and> d = error_entry c) \<or>
     (\<exists>c \<in> set warningCategories. ident = warning_id c \<and> d = base_warning c)"
proof -
  obtain m where m: "buildRegistry = Some m"
    "\<And>c. m (error_id c) = (if c \<in> set errorCategories then Some (error_entry c) else None)"
    "\<And>c. m (warning_id c) = (if c \<in> set warningCategories then Some (base_warning c) else None)"
    "\<And>k. k \<notin> range error_id \<Longrightarrow> k \<notin> range warning_id \<Longrightarrow> m k = None"
    using buildRegistry_closed by blast
  have L: "Lookup k = m k" for k by (simp add: Lookup_def registry_def m(1))
  consider c where "ident = error_id c" | c where "ident = warning_id c"
    | "ident \<notin> range error_id" "ident \<notin> range warning_id" by blast
  then show ?thesis
    by cases (auto simp: L m)
qed
text \<open>What holds of every error entry, whatever overrides apply.\<close>

definition sound_error :: "Definition \<Rightarrow> bool" where
  "sound_error d \<longleftrightarrow> def_Severity d = SeverityError \<and>
     def_ExitCode d = (if def_Phase d = PhaseInvocation then ExitCodeInvocationFailure
                       else ExitCodePolicyFailure) \<and>
     1 \<le> def_precedence d \<and> def_precedence d \<le> 7 \<and>
     (def_MutationPossible d \<longrightarrow> def_Phase d = PhaseMutation)"

fun sound_override :: "override \<Rightarrow> bool" where
  "sound_override (Set phase exitCode mutationPossible precedence _) \<longleftrightarrow>
     exitCode = (if phase = PhaseInvocation then ExitCodeInvocationFailure else ExitCodePolicyFailure) \<and>
     1 \<le> precedence \<and> precedence \<le> 7 \<and> (mutationPossible \<longrightarrow> phase = PhaseMutation)"
| "sound_override (SetPrecedence precedence _) \<longleftrightarrow> 1 \<le> precedence \<and> precedence \<le> 7"

lemma override_entry_fixed [simp]:
  "def_ID (override_at c ov d) = def_ID d" "def_Severity (override_at c ov d) = def_Severity d"
  "def_Category (override_at c ov d) = def_Category d"
  by (cases ov; simp)+

lemma sound_override_at: "sound_override ov \<Longrightarrow> sound_error d \<Longrightarrow> sound_error (override_at c ov d)"
  by (cases ov) (auto simp: sound_error_def)

lemma registry_overrides_sound: "list_all sound_override registry_overrides"
  by code_simp

lemma error_entry_fixed:
  "def_ID (error_entry c) = error_id c \<and> def_Category (error_entry c) = c \<and> sound_error (error_entry c)"
proof -
  have "def_ID (fold (override_at c) ovs d) = def_ID d \<and>
      def_Category (fold (override_at c) ovs d) = def_Category d \<and>
      (list_all sound_override ovs \<longrightarrow> sound_error d \<longrightarrow> sound_error (fold (override_at c) ovs d))" for ovs d
    by (induction ovs arbitrary: d) (auto simp: sound_override_at simp del: override_at.simps)
  moreover have "sound_error (base_error c)"
    by (simp add: base_error_def sound_error_def PhaseVerification_def PhaseInvocation_def)
  ultimately show ?thesis
    using registry_overrides_sound by (simp add: error_entry_def base_error_def)
qed

lemma Lookup_Some:
  assumes "Lookup ident = Some d"
  shows "def_ID d = ident \<and>
    (def_Severity d = SeverityError \<and> sound_error d \<and> ident = error_id (def_Category d) \<or>
     def_Severity d = SeverityWarning \<and> def_ExitCode d = ExitCodePass \<and> def_precedence d = 8 \<and>
       \<not> def_MutationPossible d \<and> ident = warning_id (def_Category d))"
  using assms error_entry_fixed
  by (auto simp: Lookup_closed base_warning_def sound_error_def)

lemma RegisteredIDs_dom: "set RegisteredIDs = dom Lookup"
  by (auto simp: RegisteredIDs_def dom_def Lookup_closed)

text \<open>The registry is well formed: building it never panics; a registered ID is the severity
  prefix followed by its category; every error ends the run with exit code 2 exactly in the
  invocation phase and 1 otherwise, ranks in precedence 1 to 7 before every warning, and can only be
  marked mutation-possible in the mutation phase; a warning has exit code 0 and rank 8.\<close>

theorem registry_well_formed:
  "buildRegistry \<noteq> None \<and> set RegisteredIDs = dom Lookup \<and> sorted RegisteredIDs \<and>
   (Lookup ident = Some d \<longrightarrow> def_ID d = ident \<and>
      (def_Severity d = SeverityError \<and> sound_error d \<and> ident = error_id (def_Category d) \<or>
       def_Severity d = SeverityWarning \<and> def_ExitCode d = ExitCodePass \<and> def_precedence d = 8 \<and>
         \<not> def_MutationPossible d \<and> ident = warning_id (def_Category d)))"
  using buildRegistry_closed Lookup_Some RegisteredIDs_dom by (auto simp: RegisteredIDs_def)

lemma registry_well_formed_witness:
  "def_precedence (base_warning ''timestamp-clock-skew'') = 8 \<and>
   def_ID (base_warning ''timestamp-clock-skew'') = warning_id ''timestamp-clock-skew''"
proof -
  have "''timestamp-clock-skew'' \<in> set warningCategories" by (simp add: warningCategories_def)
  then have "Lookup (warning_id ''timestamp-clock-skew'') = Some (base_warning ''timestamp-clock-skew'')"
    by (auto simp: Lookup_closed)
  from registry_well_formed [THEN conjunct2, THEN conjunct2, THEN conjunct2, rule_format, OF this]
  show ?thesis by (simp add: sound_error_def base_warning_def)
qed

text \<open>Every error entry is the default one (verification phase, exit code 1, precedence 7, no
  mutation) changed by the overrides of the build sequence in order, the last one that names its
  category deciding; every other ID is unknown or a default warning.\<close>

theorem registry_entry_exact:
  "Lookup ident = Some d \<longleftrightarrow>
     (\<exists>c \<in> set errorCategories. ident = error_id c \<and>
        d = fold (override_at c) registry_overrides (base_error c)) \<or>
     (\<exists>c \<in> set warningCategories. ident = warning_id c \<and> d = base_warning c)"
  unfolding Lookup_closed error_entry_def by (rule refl)

end
