(* ===== verification/Diagnostic.thy ===== *)
theory Diagnostic
  imports Registry Json Url "HOL-Library.Product_Lexorder" "HOL-Library.Multiset"
begin

text \<open>
  internal/diagnostic/diagnostic.go: diagnostics and the report that is built from them.

  Parameters: \<open>transform\<close> is the third-party jsoncanonicalizer.Transform, and \<open>sorter\<close> is sort.Slice,
  which orders by a given less function but not stably; its contract is the locale \<open>slice_sort\<close>.
  A Go map is the list of its entries in the order an iteration visits them.
\<close>

section \<open>Data\<close>

record Diagnostic =
  dg_ID :: string
  dg_Severity :: string
  dg_Category :: string
  dg_Check :: string
  dg_Message :: string
  dg_Field :: string
  dg_Expected :: "goval option"
  dg_Actual :: "goval option"
  dg_PolicySources :: "string list"
  dg_Evidence :: "(string \<times> goval) list"

record PackageManifest =
  pm_Repository :: goval
  pm_License :: goval
  pm_Description :: string
  pm_Keywords :: "string list"
  pm_Author :: goval
  pm_Homepage :: string

record DiagnosticMetadata =
  md_PackageManifest :: "PackageManifest option"
  md_PublishNPMVersion :: "string option"

record Report =
  rp_SchemaVersion :: string
  rp_Result :: string
  rp_ExitCode :: nat
  rp_PrimaryID :: "string option"
  rp_RunInvocation :: "string option"
  rp_Diagnostics :: "Diagnostic list option"  \<comment> \<open>None: the nil slice\<close>
  rp_DiagnosticMetadata :: "DiagnosticMetadata option"

definition ResultPass :: string where "ResultPass = ''pass''"
definition ResultFail :: string where "ResultFail = ''fail''"

definition IDDiagnosticsContractInvalid :: string where
  "IDDiagnosticsContractInvalid = ''windlass.verify.error.diagnostics-contract-invalid''"

text \<open>contractErrorf; the format and its rendered arguments.\<close>

definition contractErrorf :: "string \<Rightarrow> string list \<Rightarrow> go_error" where
  "contractErrorf format args = ErrDiag KContract IDDiagnosticsContractInvalid [] format args []"

section \<open>Secrets\<close>

definition urlHasCredentials :: "string \<Rightarrow> bool" where
  "urlHasCredentials value =
     (case url_Parse value of None \<Rightarrow> False | Some parsed \<Rightarrow> IsAbs parsed \<and> User parsed \<noteq> None)"

definition secret_markers :: "string list" where
  "secret_markers = [''authorization'', ''credential'', ''password'', ''private-key'', ''secret'',
     ''token'', ''api-key'']"

definition isSecretKey :: "string \<Rightarrow> bool" where
  "isSecretKey key =
     (let normalized = ToLower (map (\<lambda>c. if c = CHR ''_'' then CHR ''-'' else c) key)
      in list_ex (Contains normalized) secret_markers)"

definition secret_prefixes :: "string list" where
  "secret_prefixes = [''bearer '', ''basic '', ''ghp_'', ''github_pat_'', ''npm_'']"

definition secret_string :: "string \<Rightarrow> bool" where
  "secret_string typed =
     (let lower = ToLower (TrimSpace typed)
      in list_ex (HasPrefix lower) secret_prefixes \<or> Contains lower ''-----begin private key-----''
         \<or> urlHasCredentials typed)"

fun containsSecret :: "goval \<Rightarrow> bool" where
  "containsSecret (GString s) = secret_string s"
| "containsSecret (GMap kvs) = list_ex (\<lambda>(k, v). isSecretKey k \<or> containsSecret v) kvs"
| "containsSecret (GArr vs) = list_ex containsSecret vs"
| "containsSecret (GStrings ss) = list_ex secret_string ss"
| "containsSecret _ = False"

fun isScalar :: "goval \<Rightarrow> bool" where
  "isScalar (GStrings _) = False"
| "isScalar (GArr _) = False"
| "isScalar (GMap _) = False"
| "isScalar _ = True"

section \<open>JSON forms\<close>

definition canonicalJSONValue :: "(string \<Rightarrow> string result) \<Rightarrow> goval \<Rightarrow> string result" where
  "canonicalJSONValue transform value =
     (case Marshal value of
        None \<Rightarrow> Inl (ErrText ''json: unsupported value'' [])
      | Some text \<Rightarrow>
          (case transform (json_object [(''value'', text)]) of
             Inl err \<Rightarrow> Inl err
           | Inr canonical \<Rightarrow>
               (let prefix = ''{'' @ quote ''value'' @ '':'' in
                if length canonical \<le> length prefix \<or> take (length prefix) canonical \<noteq> prefix
                   \<or> last canonical \<noteq> CHR ''}''
                then Inl (ErrText ''unexpected canonical wrapper'' [])
                else Inr (butlast (drop (length prefix) canonical)))))"

definition canonicalOptional :: "(string \<Rightarrow> string result) \<Rightarrow> goval option \<Rightarrow> string" where
  "canonicalOptional transform value =
     (case value of
        None \<Rightarrow> []
      | Some v \<Rightarrow> (case canonicalJSONValue transform v of Inl _ \<Rightarrow> [] | Inr canonical \<Rightarrow> canonical))"

definition member_if :: "bool \<Rightarrow> string \<Rightarrow> string option \<Rightarrow> (string \<times> string) option list" where
  "member_if present name text = (if present then [map_option (Pair name) text] else [])"

text \<open>json.Marshal of a Diagnostic: the struct's fields in order, the omitempty ones left out.\<close>

definition marshal_diagnostic :: "Diagnostic \<Rightarrow> string option" where
  "marshal_diagnostic d =
     map_option json_object (all_some
       ([Some (''id'', quote (dg_ID d)), Some (''severity'', quote (dg_Severity d)),
         Some (''category'', quote (dg_Category d)), Some (''check'', quote (dg_Check d)),
         Some (''message'', quote (dg_Message d))]
        @ member_if (dg_Field d \<noteq> []) ''field'' (Some (quote (dg_Field d)))
        @ (case dg_Expected d of None \<Rightarrow> [] | Some v \<Rightarrow> member_if True ''expected'' (Marshal v))
        @ (case dg_Actual d of None \<Rightarrow> [] | Some v \<Rightarrow> member_if True ''actual'' (Marshal v))
        @ member_if (dg_PolicySources d \<noteq> []) ''policy_sources'' (Marshal (GStrings (dg_PolicySources d)))
        @ member_if (dg_Evidence d \<noteq> []) ''evidence'' (Marshal (GMap (dg_Evidence d)))))"

definition canonicalDiagnostic :: "(string \<Rightarrow> string result) \<Rightarrow> Diagnostic \<Rightarrow> string" where
  "canonicalDiagnostic transform d =
     (case marshal_diagnostic d of
        None \<Rightarrow> []
      | Some encoded \<Rightarrow>
          (case transform encoded of Inl _ \<Rightarrow> [] | Inr canonical \<Rightarrow> canonical))"

text \<open>
  json.Unmarshal into an \<open>any\<close> of what Marshal wrote: invalid UTF-8 has become U+FFFD, a slice of
  strings an array, and of keys that became equal the last one in key order wins.  Decoding fails
  for a number outside float64 and beyond 10000 levels of nesting.
\<close>

definition sanitize :: "string \<Rightarrow> string" where
  "sanitize s = concat (map (\<lambda>(r, bs, ok). if ok then bs else encode_rune 65533) (runes s))"

fun keep_last :: "(string \<times> 'v) list \<Rightarrow> (string \<times> 'v) list" where
  "keep_last [] = []"
| "keep_last ((k, v) # kvs) =
     (if k \<in> set (map fst kvs) then keep_last kvs else (k, v) # keep_last kvs)"

function normalize :: "goval \<Rightarrow> goval" where
  "normalize GNil = GNil"
| "normalize (GBool b) = GBool b"
| "normalize (GNumber t) = GNumber t"
| "normalize (GString s) = GString (sanitize s)"
| "normalize (GStrings ss) = GArr (map (GString \<circ> sanitize) ss)"
| "normalize (GArr vs) = GArr (map normalize vs)"
| "normalize (GMap kvs) =
     GMap (keep_last (map (\<lambda>(k, v). (sanitize k, normalize v)) (sort_key fst kvs)))"
  by pat_completeness auto
termination
proof (relation "measure size")
  fix kvs :: "(string \<times> goval) list" and z x y
  assume "z \<in> set (sort_key fst kvs)" "(x, y) = z"
  then have "(x, y) \<in> set kvs" by simp
  then have "size y < size_list (size_prod (\<lambda>_. 0) size) kvs + 1"
    by (induction kvs) auto
  then show "(y, GMap kvs) \<in> measure size" by simp
next
  fix vs :: "goval list" and v
  assume "v \<in> set vs"
  then have "size v < Suc (size_list size vs)" by (induction vs) auto
  then show "(v, GArr vs) \<in> measure size" by simp
qed simp

fun nesting :: "goval \<Rightarrow> nat" where
  "nesting (GStrings _) = 1"
| "nesting (GArr vs) = Suc (fold max (map nesting vs) 0)"
| "nesting (GMap kvs) = Suc (fold max (map (\<lambda>(k, v). nesting v) kvs) 0)"
| "nesting _ = 0"

fun numbers_in_range :: "goval \<Rightarrow> bool" where
  "numbers_in_range (GNumber t) = (case t of None \<Rightarrow> False | Some s \<Rightarrow> Float64Of s \<noteq> None)"
| "numbers_in_range (GArr vs) = list_all numbers_in_range vs"
| "numbers_in_range (GMap kvs) = list_all (\<lambda>(k, v). numbers_in_range v) kvs"
| "numbers_in_range _ = True"

definition reparse :: "goval \<Rightarrow> goval option" where
  "reparse v = (if nesting v \<le> 10000 \<and> numbers_in_range v then Some (normalize v) else None)"

section \<open>Validation\<close>

definition policy_source_values :: "string list" where
  "policy_source_values = [''explicit-policy'', ''release-manifest'', ''producer-expected-value'',
     ''digest-verified-handoff'']"

definition validPolicySource :: "string \<Rightarrow> bool" where
  "validPolicySource source = (source \<in> set policy_source_values)"

definition validateOptionalJSON ::
  "(string \<Rightarrow> string result) \<Rightarrow> string \<Rightarrow> goval option \<Rightarrow> go_error option" where
  "validateOptionalJSON transform name value =
     (case value of
        None \<Rightarrow> None
      | Some v \<Rightarrow>
          (case canonicalJSONValue transform v of
             Inl err \<Rightarrow> Some (contractErrorf ''%s is not an RFC 8785 JSON value: %v'' [name])
           | Inr _ \<Rightarrow>
               (case reparse v of
                  None \<Rightarrow> Some (contractErrorf ''%s is not a JSON value: %v'' [name])
                | Some normalized \<Rightarrow>
                    if containsSecret normalized
                    then Some (contractErrorf ''%s contains a secret-like value'' [name]) else None)))"

fun validate_sources :: "string \<Rightarrow> string list \<Rightarrow> string list \<Rightarrow> go_error option" where
  "validate_sources ident seen [] = None"
| "validate_sources ident seen (source # sources) =
     (if \<not> validPolicySource source then
        Some (contractErrorf ''diagnostic %q has unknown policy source %q'' [ident, source])
      else if source \<in> set seen then
        Some (contractErrorf ''diagnostic %q has duplicate policy source %q'' [ident, source])
      else validate_sources ident (source # seen) sources)"

fun validate_evidence ::
  "(string \<Rightarrow> string result) \<Rightarrow> string \<Rightarrow> (string \<times> goval) list \<Rightarrow> go_error option" where
  "validate_evidence transform ident [] = None"
| "validate_evidence transform ident ((key, value) # entries) =
     (if key = [] \<or> isSecretKey key then
        Some (contractErrorf ''diagnostic %q evidence contains a secret-like key'' [ident])
      else if \<not> isScalar value \<or> containsSecret value then
        Some (contractErrorf ''diagnostic %q evidence %q is not a secret-safe scalar'' [ident, key])
      else case canonicalJSONValue transform value of
        Inl _ \<Rightarrow> Some (contractErrorf ''diagnostic %q evidence %q is not an RFC 8785 JSON value'' [ident, key])
      | Inr _ \<Rightarrow> validate_evidence transform ident entries)"

definition validateDiagnostic :: "(string \<Rightarrow> string result) \<Rightarrow> Diagnostic \<Rightarrow> go_error option" where
  "validateDiagnostic transform d =
     (case Lookup (dg_ID d) of
        None \<Rightarrow> Some (contractErrorf ''unknown diagnostic ID %q'' [dg_ID d])
      | Some definition \<Rightarrow>
          if dg_Severity d \<noteq> def_Severity definition \<or> dg_Category d \<noteq> def_Category definition then
            Some (contractErrorf ''diagnostic %q severity or category disagrees with the registry'' [dg_ID d])
          else if dg_Check d = [] \<or> dg_Message d = [] \<or> \<not> utf8_valid (dg_Check d)
                  \<or> \<not> utf8_valid (dg_Message d) then
            Some (contractErrorf ''diagnostic %q requires non-empty UTF-8 check and message'' [dg_ID d])
          else if dg_Field d \<noteq> [] \<and> \<not> utf8_valid (dg_Field d) then
            Some (contractErrorf ''diagnostic %q field is not valid UTF-8'' [dg_ID d])
          else
            and_then (validateOptionalJSON transform ''expected'' (dg_Expected d))
            (and_then (validateOptionalJSON transform ''actual'' (dg_Actual d))
            (and_then (validate_sources (dg_ID d) [] (dg_PolicySources d))
            (validate_evidence transform (dg_ID d) (dg_Evidence d)))))"

definition validateSafeMetadataString :: "string \<Rightarrow> string \<Rightarrow> go_error option" where
  "validateSafeMetadataString name value =
     (if value = [] \<or> secret_string value \<or> urlHasCredentials value then
        Some (contractErrorf ''package_manifest.%s is empty or secret-like'' [name]) else None)"

fun require_members :: "string \<Rightarrow> (string \<times> goval) list \<Rightarrow> string list \<Rightarrow> go_error option" where
  "require_members name object [] = None"
| "require_members name object (key # keys) =
     (case map_of object key of
        Some (GString value) \<Rightarrow>
          if value = [] then
            Some (contractErrorf ''package_manifest.%s requires non-empty string member %q'' [name, key])
          else require_members name object keys
      | _ \<Rightarrow> Some (contractErrorf ''package_manifest.%s requires non-empty string member %q'' [name, key]))"

fun validate_members :: "string \<Rightarrow> string list \<Rightarrow> (string \<times> goval) list \<Rightarrow> go_error option" where
  "validate_members name allowed [] = None"
| "validate_members name allowed ((key, raw) # members) =
     (if key \<notin> set allowed then
        Some (contractErrorf ''package_manifest.%s has unknown member %q'' [name, key])
      else
        (case raw of
           GString value \<Rightarrow>
             if value = [] \<or> secret_string value then
               Some (contractErrorf ''package_manifest.%s member %q is invalid or secret-like'' [name, key])
             else if (key = ''url'' \<or> key = ''repository'') \<and> urlHasCredentials value then
               Some (contractErrorf ''package_manifest.%s contains a credential-bearing URL'' [name])
             else validate_members name allowed members
         | _ \<Rightarrow> Some (contractErrorf ''package_manifest.%s member %q is invalid or secret-like'' [name, key])))"

definition validateClosedStringObject ::
  "string \<Rightarrow> (string \<times> goval) list \<Rightarrow> string list \<Rightarrow> string list \<Rightarrow> go_error option" where
  "validateClosedStringObject name object required optional =
     and_then (require_members name object required)
       (validate_members name (required @ optional) object)"

definition validate_metadata_value ::
  "string \<Rightarrow> string list \<Rightarrow> string list \<Rightarrow> string \<Rightarrow> goval \<Rightarrow> go_error option" where
  "validate_metadata_value name required optional invalid value =
     (case value of
        GNil \<Rightarrow> None
      | GString typed \<Rightarrow> validateSafeMetadataString name typed
      | GMap typed \<Rightarrow> validateClosedStringObject name typed required optional
      | _ \<Rightarrow> Some (contractErrorf invalid []))"

definition validateRepository :: "goval \<Rightarrow> go_error option" where
  "validateRepository = validate_metadata_value ''repository'' [''type'', ''url''] [''directory'']
     ''package_manifest.repository has an invalid JSON form''"

definition validateLicense :: "goval \<Rightarrow> go_error option" where
  "validateLicense = validate_metadata_value ''license'' [''type''] [''url'']
     ''package_manifest.license has an invalid JSON form''"

definition validateAuthor :: "goval \<Rightarrow> go_error option" where
  "validateAuthor = validate_metadata_value ''author'' [''name''] [''email'', ''url'']
     ''package_manifest.author has an invalid JSON form''"

definition validateMetadata :: "DiagnosticMetadata option \<Rightarrow> go_error option" where
  "validateMetadata metadata =
     (case metadata of
        None \<Rightarrow> None
      | Some md \<Rightarrow>
          if md_PackageManifest md = None \<and> md_PublishNPMVersion md = None then
            Some (contractErrorf ''diagnostic_metadata must contain package_manifest'' [])
          else if (case md_PublishNPMVersion md of None \<Rightarrow> False | Some v \<Rightarrow> \<not> re_three_part v) then
            Some (contractErrorf ''publish_npm_version must be an exact three-part SemVer version'' [])
          else (case md_PackageManifest md of
            None \<Rightarrow> None
          | Some manifest \<Rightarrow>
              and_then (validateRepository (pm_Repository manifest))
              (and_then (validateLicense (pm_License manifest))
              (and_then (validateAuthor (pm_Author manifest))
              (if list_ex (\<lambda>value. value \<noteq> [] \<and> secret_string value)
                    ([pm_Description manifest, pm_Homepage manifest] @ pm_Keywords manifest)
               then Some (contractErrorf ''package_manifest contains secret-like metadata'' [])
               else None)))))"

text \<open>New.\<close>

definition New :: "(string \<Rightarrow> string result) \<Rightarrow> string \<Rightarrow> string \<Rightarrow> string \<Rightarrow> Diagnostic result" where
  "New transform ident check message =
     (case Lookup ident of
        None \<Rightarrow> Inl (contractErrorf ''unknown diagnostic ID %q'' [ident])
      | Some definition \<Rightarrow>
          (let d = \<lparr>dg_ID = def_ID definition, dg_Severity = def_Severity definition,
                    dg_Category = def_Category definition, dg_Check = check, dg_Message = message,
                    dg_Field = [], dg_Expected = None, dg_Actual = None, dg_PolicySources = [],
                    dg_Evidence = []\<rparr>
           in guarded (validateDiagnostic transform d) (Inr d)))"

section \<open>Order\<close>

text \<open>\<open>registry[id]\<close> yields the zero Definition for an unknown ID.\<close>

definition zero_definition :: Definition where
  "zero_definition = \<lparr>def_ID = [], def_Severity = [], def_Category = [], def_Phase = [],
     def_ExitCode = 0, def_MutationPossible = False, def_precedence = 0\<rparr>"

definition registry_at :: "string \<Rightarrow> Definition" where
  "registry_at ident = (case Lookup ident of None \<Rightarrow> zero_definition | Some d \<Rightarrow> d)"

definition diagnosticLess :: "(string \<Rightarrow> string result) \<Rightarrow> Diagnostic \<Rightarrow> Diagnostic \<Rightarrow> bool" where
  "diagnosticLess transform left right =
     (let lp = def_precedence (registry_at (dg_ID left));
          rp = def_precedence (registry_at (dg_ID right));
          la = canonicalOptional transform (dg_Actual left);
          ra = canonicalOptional transform (dg_Actual right)
      in if lp \<noteq> rp then lp < rp
         else if dg_ID left \<noteq> dg_ID right then dg_ID left < dg_ID right
         else if dg_Field left \<noteq> dg_Field right then dg_Field left < dg_Field right
         else if la \<noteq> ra then la < ra
         else canonicalDiagnostic transform left < canonicalDiagnostic transform right)"

section \<open>Reports\<close>

text \<open>The loop that looks for the first error: result, exit code and primary ID.\<close>

fun derive :: "Diagnostic list \<Rightarrow> string \<times> nat \<times> string option" where
  "derive [] = (ResultPass, ExitCodePass, None)"
| "derive (d # ds) =
     (if def_Severity (registry_at (dg_ID d)) = SeverityError
      then (ResultFail, def_ExitCode (registry_at (dg_ID d)), Some (dg_ID d))
      else derive ds)"

fun validate_ordered ::
  "(string \<Rightarrow> string result) \<Rightarrow> nat \<Rightarrow> Diagnostic option \<Rightarrow> Diagnostic list \<Rightarrow> go_error option" where
  "validate_ordered transform i prev [] = None"
| "validate_ordered transform i prev (d # ds) =
     (case validateDiagnostic transform d of
        Some err \<Rightarrow> Some (ErrWrap ''diagnostics[%d]: %w'' [show_nat i] [err])
      | None \<Rightarrow>
          if (case prev of None \<Rightarrow> False | Some p \<Rightarrow> diagnosticLess transform d p)
          then Some (contractErrorf ''diagnostics are not in deterministic precedence order'' [])
          else validate_ordered transform (i + 1) (Some d) ds)"

definition Report_Validate :: "(string \<Rightarrow> string result) \<Rightarrow> Report \<Rightarrow> go_error option" where
  "Report_Validate transform r =
     (if rp_SchemaVersion r \<noteq> ''1'' then
        Some (contractErrorf ''schema_version must equal %q'' [''1''])
      else case rp_Diagnostics r of
        None \<Rightarrow> Some (contractErrorf ''diagnostics must be a non-null array'' [])
      | Some ds \<Rightarrow>
          if rp_RunInvocation r = Some [] then
            Some (contractErrorf ''run_invocation must be non-empty when present'' [])
          else
            and_then (validate_ordered transform 0 None ds)
            (and_then (validateMetadata (rp_DiagnosticMetadata r))
            (if (rp_Result r, rp_ExitCode r, rp_PrimaryID r) \<noteq> derive ds
             then Some (contractErrorf ''result, exit_code, and primary_id do not match the first ordered error'' [])
             else None)))"

fun validate_all :: "(string \<Rightarrow> string result) \<Rightarrow> Diagnostic list \<Rightarrow> go_error option" where
  "validate_all transform [] = None"
| "validate_all transform (d # ds) = and_then (validateDiagnostic transform d) (validate_all transform ds)"

definition Build ::
  "(string \<Rightarrow> string result) \<Rightarrow> ((Diagnostic \<Rightarrow> Diagnostic \<Rightarrow> bool) \<Rightarrow> Diagnostic list \<Rightarrow> Diagnostic list)
   \<Rightarrow> string option \<Rightarrow> Diagnostic list \<Rightarrow> DiagnosticMetadata option \<Rightarrow> Report result" where
  "Build transform sorter runInvocation diagnostics metadata =
     guarded (validate_all transform diagnostics)
     (guarded (validateMetadata metadata)
     (if runInvocation = Some [] then
        Inl (contractErrorf ''run_invocation must be non-empty when present'' [])
      else
        (let ordered = sorter (diagnosticLess transform) diagnostics;
             (outcome, exitCode, primary) = derive ordered;
             report = \<lparr>rp_SchemaVersion = ''1'', rp_Result = outcome, rp_ExitCode = exitCode,
                       rp_PrimaryID = primary, rp_RunInvocation = runInvocation,
                       rp_Diagnostics = Some ordered, rp_DiagnosticMetadata = metadata\<rparr>
         in guarded (Report_Validate transform report) (Inr report))))"

text \<open>json.Marshal of a report, and CanonicalJSON.\<close>

definition optional_text :: "string option \<Rightarrow> string" where
  "optional_text t = (case t of None \<Rightarrow> ''null'' | Some s \<Rightarrow> quote s)"

definition present :: "goval \<Rightarrow> bool" where
  "present v \<longleftrightarrow> v \<noteq> GNil"

definition marshal_manifest :: "PackageManifest \<Rightarrow> string option" where
  "marshal_manifest m =
     map_option json_object (all_some
       (member_if (present (pm_Repository m)) ''repository'' (Marshal (pm_Repository m))
        @ member_if (present (pm_License m)) ''license'' (Marshal (pm_License m))
        @ member_if (pm_Description m \<noteq> []) ''description'' (Some (quote (pm_Description m)))
        @ member_if (pm_Keywords m \<noteq> []) ''keywords'' (Marshal (GStrings (pm_Keywords m)))
        @ member_if (present (pm_Author m)) ''author'' (Marshal (pm_Author m))
        @ member_if (pm_Homepage m \<noteq> []) ''homepage'' (Some (quote (pm_Homepage m)))))"

definition marshal_metadata :: "DiagnosticMetadata \<Rightarrow> string option" where
  "marshal_metadata md =
     map_option json_object (all_some
       ((case md_PackageManifest md of None \<Rightarrow> []
         | Some m \<Rightarrow> member_if True ''package_manifest'' (marshal_manifest m))
        @ (case md_PublishNPMVersion md of None \<Rightarrow> []
           | Some v \<Rightarrow> member_if True ''publish_npm_version'' (Some (quote v)))))"

definition marshal_report :: "Report \<Rightarrow> string option" where
  "marshal_report r =
     map_option json_object (all_some
       ([Some (''schema_version'', quote (rp_SchemaVersion r)), Some (''result'', quote (rp_Result r)),
         Some (''exit_code'', show_nat (rp_ExitCode r)),
         Some (''primary_id'', optional_text (rp_PrimaryID r)),
         Some (''run_invocation'', optional_text (rp_RunInvocation r)),
         map_option (Pair ''diagnostics'')
           (case rp_Diagnostics r of None \<Rightarrow> Some ''null''
            | Some ds \<Rightarrow> map_option json_array (all_some (map marshal_diagnostic ds)))]
        @ (case rp_DiagnosticMetadata r of None \<Rightarrow> []
           | Some md \<Rightarrow> member_if True ''diagnostic_metadata'' (marshal_metadata md))))"

definition CanonicalJSON :: "(string \<Rightarrow> string result) \<Rightarrow> Report \<Rightarrow> string result" where
  "CanonicalJSON transform r =
     guarded (Report_Validate transform r)
       (case marshal_report r of
          None \<Rightarrow> Inl (contractErrorf ''report is not valid JSON: %v'' [])
        | Some encoded \<Rightarrow>
            (case transform encoded of
               Inl err \<Rightarrow> Inl (contractErrorf ''report cannot be JCS canonicalized: %v'' [])
             | Inr canonical \<Rightarrow> Inr canonical))"

text \<open>jsonValueHasNull of metadata_json.go.\<close>

fun jsonValueHasNull :: "goval \<Rightarrow> bool" where
  "jsonValueHasNull GNil = True"
| "jsonValueHasNull (GMap kvs) = list_ex (\<lambda>(k, v). jsonValueHasNull v) kvs"
| "jsonValueHasNull (GArr vs) = list_ex jsonValueHasNull vs"
| "jsonValueHasNull _ = False"

section \<open>The sorting interface\<close>

text \<open>A strict weak order on a set: what sort.Slice needs of its less function.\<close>

definition strict_weak_on :: "'a set \<Rightarrow> ('a \<Rightarrow> 'a \<Rightarrow> bool) \<Rightarrow> bool" where
  "strict_weak_on S lt \<longleftrightarrow>
     (\<forall>x \<in> S. \<not> lt x x) \<and>
     (\<forall>x \<in> S. \<forall>y \<in> S. \<forall>z \<in> S. lt x y \<and> lt y z \<longrightarrow> lt x z) \<and>
     (\<forall>x \<in> S. \<forall>y \<in> S. \<forall>z \<in> S. \<not> lt x y \<and> \<not> lt y z \<longrightarrow> \<not> lt x z)"

locale slice_sort =
  fixes sorter :: "('a \<Rightarrow> 'a \<Rightarrow> bool) \<Rightarrow> 'a list \<Rightarrow> 'a list"
  assumes permutes: "mset (sorter lt xs) = mset xs"
    and orders: "strict_weak_on (set xs) lt \<Longrightarrow> sorted_wrt (\<lambda>x y. \<not> lt y x) (sorter lt xs)"
begin

lemma set_sorter [simp]: "set (sorter lt xs) = set xs"
  by (metis permutes set_mset_mset)

text \<open>Sorting by a key: the keys of the result are the sorted keys.\<close>

lemma keys_sorted:
  fixes key :: "'a \<Rightarrow> 'k::linorder"
  shows "map key (sorter (\<lambda>x y. key x < key y) xs) = sort (map key xs)"
proof -
  have "strict_weak_on (set xs) (\<lambda>x y. key x < key y)"
    by (auto simp: strict_weak_on_def)
  from orders [OF this] have "sorted (map key (sorter (\<lambda>x y. key x < key y) xs))"
    by (simp add: sorted_map not_less)
  moreover have "mset (map key (sorter (\<lambda>x y. key x < key y) xs)) = mset (map key xs)"
    by (simp add: permutes)
  ultimately show ?thesis by (metis properties_for_sort)
qed

end

text \<open>Insertion of one element before the first that it is less than.\<close>

fun insert_by :: "('a \<Rightarrow> 'a \<Rightarrow> bool) \<Rightarrow> 'a \<Rightarrow> 'a list \<Rightarrow> 'a list" where
  "insert_by lt x [] = [x]"
| "insert_by lt x (y # ys) = (if lt y x then y # insert_by lt x ys else x # y # ys)"

definition insertion_sort :: "('a \<Rightarrow> 'a \<Rightarrow> bool) \<Rightarrow> 'a list \<Rightarrow> 'a list" where
  "insertion_sort lt xs = foldr (insert_by lt) xs []"

lemma mset_insert_by [simp]: "mset (insert_by lt x xs) = add_mset x (mset xs)"
  by (induction xs) auto

lemma mset_insertion_sort: "mset (insertion_sort lt xs) = mset xs"
  by (induction xs) (simp_all add: insertion_sort_def)

lemma sorted_insert_by:
  assumes "strict_weak_on S lt" and "insert x (set ys) \<subseteq> S"
    and "sorted_wrt (\<lambda>a b. \<not> lt b a) ys"
  shows "sorted_wrt (\<lambda>a b. \<not> lt b a) (insert_by lt x ys)"
  using assms(2,3)
proof (induction ys)
  case (Cons y ys)
  have set: "set (insert_by lt x zs) = insert x (set zs)" for zs
    by (induction zs) auto
  have mem: "x \<in> S" "y \<in> S" "set ys \<subseteq> S" using Cons.prems by auto
  show ?case
  proof (cases "lt y x")
    case True
    then have "\<not> lt x y"
      using assms(1) mem unfolding strict_weak_on_def by blast
    with True Cons show ?thesis by (simp add: set)
  next
    case False
    have "\<not> lt z x" if "z \<in> set ys" for z
      using assms(1) mem False that Cons.prems(2) unfolding strict_weak_on_def
      by (metis subsetD sorted_wrt.simps(2))
    with False Cons.prems show ?thesis by simp
  qed
qed simp

lemma sorted_insertion_sort:
  "strict_weak_on (set xs) lt \<Longrightarrow> sorted_wrt (\<lambda>a b. \<not> lt b a) (insertion_sort lt xs)"
proof -
  assume w: "strict_weak_on (set xs) lt"
  have "sorted_wrt (\<lambda>a b. \<not> lt b a) (foldr (insert_by lt) ys [])" if "set ys \<subseteq> set xs" for ys
    using that
  proof (induction ys)
    case (Cons y ys)
    have "set (foldr (insert_by lt) ys []) = set ys"
      using mset_insertion_sort [of lt ys] unfolding insertion_sort_def by (metis set_mset_mset)
    with Cons w show ?case by (auto intro!: sorted_insert_by)
  qed simp
  then show ?thesis by (simp add: insertion_sort_def)
qed

interpretation insertion: slice_sort insertion_sort
  by unfold_locales (auto simp: mset_insertion_sort sorted_insertion_sort)

section \<open>The order of a report\<close>

definition sort_key_of :: "(string \<Rightarrow> string result) \<Rightarrow> Diagnostic \<Rightarrow>
    nat \<times> string \<times> string \<times> string \<times> string" where
  "sort_key_of transform d =
     (def_precedence (registry_at (dg_ID d)), dg_ID d, dg_Field d,
      canonicalOptional transform (dg_Actual d), canonicalDiagnostic transform d)"

lemma diagnosticLess_key:
  "diagnosticLess transform = (\<lambda>a b. sort_key_of transform a < sort_key_of transform b)"
  by (auto simp: fun_eq_iff diagnosticLess_def sort_key_of_def Let_def less_prod_def')

lemma validate_all_None: "validate_all transform ds = None \<longleftrightarrow> (\<forall>d \<in> set ds. validateDiagnostic transform d = None)"
  by (induction ds) auto

lemma validate_ordered_None:
  assumes "\<forall>d \<in> set ds. validateDiagnostic transform d = None"
    and "sorted (map (sort_key_of transform) ds)"
    and "\<forall>p d. prev = Some p \<and> d \<in> set ds \<longrightarrow> sort_key_of transform p \<le> sort_key_of transform d"
  shows "validate_ordered transform i prev ds = None"
  using assms
  by (induction ds arbitrary: i prev)
    (auto simp: diagnosticLess_key not_less split: option.splits)

text \<open>The error diagnostics, and what \<open>derive\<close> reads off a list.\<close>

definition is_error :: "Diagnostic \<Rightarrow> bool" where
  "is_error d \<longleftrightarrow> def_Severity (registry_at (dg_ID d)) = SeverityError"

lemma derive_find:
  "derive ds = (case find is_error ds of
     None \<Rightarrow> (ResultPass, ExitCodePass, None)
   | Some d \<Rightarrow> (ResultFail, def_ExitCode (registry_at (dg_ID d)), Some (dg_ID d)))"
  by (induction ds) (auto simp: is_error_def)

lemma derive_ids: "map dg_ID ds = map dg_ID es \<Longrightarrow> derive ds = derive es"
proof (induction ds arbitrary: es)
  case (Cons d ds)
  then obtain e es' where "es = e # es'" "dg_ID d = dg_ID e" "map dg_ID ds = map dg_ID es'"
    by (cases es) auto
  with Cons.IH [of es'] show ?case by simp
qed simp

lemma sort_key_ids: "map (sort_key_of transform) ds = map (sort_key_of transform) es \<Longrightarrow>
    map dg_ID ds = map dg_ID es"
proof -
  assume "map (sort_key_of transform) ds = map (sort_key_of transform) es"
  then have "map (fst \<circ> snd) (map (sort_key_of transform) ds) =
      map (fst \<circ> snd) (map (sort_key_of transform) es)" by simp
  then show ?thesis by (simp add: sort_key_of_def comp_def)
qed

lemma registered_error_exit:
  assumes "Lookup (dg_ID d) \<noteq> None" and "is_error d"
  shows "def_ExitCode (registry_at (dg_ID d)) \<in> {ExitCodePolicyFailure, ExitCodeInvocationFailure}"
proof -
  from assms(1) obtain e where e: "Lookup (dg_ID d) = Some e" by auto
  then have at: "registry_at (dg_ID d) = e" by (simp add: registry_at_def)
  show ?thesis
    using Lookup_Some [OF e] assms(2) unfolding is_error_def at
    by (auto simp: sound_error_def SeverityError_def SeverityWarning_def)
qed

lemma validateDiagnostic_registered: "validateDiagnostic transform d = None \<Longrightarrow> Lookup (dg_ID d) \<noteq> None"
  by (auto simp: validateDiagnostic_def split: option.splits)

text \<open>The report Build returns, given valid inputs.\<close>

definition built :: "(string \<Rightarrow> string result) \<Rightarrow> string option \<Rightarrow> Diagnostic list \<Rightarrow>
    DiagnosticMetadata option \<Rightarrow> Report" where
  "built transform runInvocation ordered metadata =
     (let (outcome, exitCode, primary) = derive ordered in
      \<lparr>rp_SchemaVersion = ''1'', rp_Result = outcome, rp_ExitCode = exitCode,
       rp_PrimaryID = primary, rp_RunInvocation = runInvocation,
       rp_Diagnostics = Some ordered, rp_DiagnosticMetadata = metadata\<rparr>)"

lemma built_fields [simp]:
  "rp_Result (built T ri ds md) = fst (derive ds)" "rp_ExitCode (built T ri ds md) = fst (snd (derive ds))"
  "rp_PrimaryID (built T ri ds md) = snd (snd (derive ds))"
  "rp_SchemaVersion (built T ri ds md) = ''1''" "rp_RunInvocation (built T ri ds md) = ri"
  "rp_Diagnostics (built T ri ds md) = Some ds" "rp_DiagnosticMetadata (built T ri ds md) = md"
  by (auto simp: built_def split: prod.splits)

definition ordered_by :: "(string \<Rightarrow> string result) \<Rightarrow> ((Diagnostic \<Rightarrow> Diagnostic \<Rightarrow> bool) \<Rightarrow> Diagnostic list \<Rightarrow> Diagnostic list)
    \<Rightarrow> Diagnostic list \<Rightarrow> Diagnostic list" where
  "ordered_by transform sorter ds = sorter (diagnosticLess transform) ds"

lemma ordered_keys:
  assumes "slice_sort sorter"
  shows "map (sort_key_of T) (ordered_by T sorter ds) = sort (map (sort_key_of T) ds)"
  unfolding ordered_by_def diagnosticLess_key by (rule slice_sort.keys_sorted [OF assms])

lemma ordered_set: "slice_sort sorter \<Longrightarrow> set (ordered_by T sorter ds) = set ds"
  unfolding ordered_by_def by (rule slice_sort.set_sorter)

lemma Build_valid:
  assumes "slice_sort sorter" and "validate_all T ds = None" and "validateMetadata md = None"
    and "ri \<noteq> Some []"
  shows "Build T sorter ri ds md = Inr (built T ri (ordered_by T sorter ds) md) \<and>
    Report_Validate T (built T ri (ordered_by T sorter ds) md) = None"
proof -
  let ?o = "ordered_by T sorter ds"
  have "validate_ordered T 0 None ?o = None"
    using assms(2) ordered_set [OF assms(1)] ordered_keys [OF assms(1)]
    by (intro validate_ordered_None) (auto simp: validate_all_None)
  then have rv: "Report_Validate T (built T ri ?o md) = None"
    using assms by (simp add: Report_Validate_def)
  moreover have "Build T sorter ri ds md = Inr (built T ri ?o md)"
    using assms rv by (simp add: Build_def built_def ordered_by_def Let_def split: prod.splits)
  ultimately show ?thesis by simp
qed

lemma Build_Inr:
  assumes "Build T sorter ri ds md = Inr r"
  shows "validate_all T ds = None \<and> validateMetadata md = None \<and> ri \<noteq> Some [] \<and>
    r = built T ri (ordered_by T sorter ds) md"
  using assms by (auto simp: Build_def built_def ordered_by_def Let_def split: if_splits prod.splits)

text \<open>In a list ordered by key the first error has the least key of the errors, and errors precede
  warnings.\<close>

lemma find_error_least:
  assumes "sorted (map (sort_key_of T) ds)" and "find is_error ds = Some d"
  shows "d \<in> set ds \<and> is_error d \<and>
    (\<forall>e \<in> set ds. is_error e \<longrightarrow> sort_key_of T d \<le> sort_key_of T e)"
  using assms by (induction ds) (auto split: if_splits)

text \<open>C34: For valid diagnostics and metadata Build always returns a report, one that passes its own
  Validate; its diagnostics are the given ones, reordered; it fails exactly when some diagnostic is an
  error, with a non-zero exit code, and its primary ID is that of the error with the least precedence
  rank and, within the rank, the least ID.\<close>

theorem build_report_correct:
  assumes "slice_sort sorter" and "validate_all T ds = None" and "validateMetadata md = None"
    and "ri \<noteq> Some []"
  shows "\<exists>r ordered. Build T sorter ri ds md = Inr r \<and> Report_Validate T r = None \<and>
    rp_Diagnostics r = Some ordered \<and> mset ordered = mset ds \<and>
    (if \<exists>d \<in> set ds. is_error d
     then rp_Result r = ResultFail \<and> rp_ExitCode r \<in> {1, 2} \<and>
       (\<exists>p \<in> set ds. is_error p \<and> rp_PrimaryID r = Some (dg_ID p) \<and>
          rp_ExitCode r = def_ExitCode (registry_at (dg_ID p)) \<and>
          (\<forall>d \<in> set ds. is_error d \<longrightarrow>
             (def_precedence (registry_at (dg_ID p)), dg_ID p) \<le>
             (def_precedence (registry_at (dg_ID d)), dg_ID d)))
     else rp_Result r = ResultPass \<and> rp_ExitCode r = 0 \<and> rp_PrimaryID r = None)"
proof -
  let ?o = "ordered_by T sorter ds"
  let ?r = "built T ri ?o md"
  have b: "Build T sorter ri ds md = Inr ?r" "Report_Validate T ?r = None"
    using Build_valid [OF assms] by simp_all
  have set: "set ?o = set ds" and m: "mset ?o = mset ds"
    using ordered_set [OF assms(1)] slice_sort.permutes [OF assms(1)] by (simp_all add: ordered_by_def)
  have srt: "sorted (map (sort_key_of T) ?o)" by (simp add: ordered_keys [OF assms(1)])
  have outcome: "if \<exists>d \<in> set ds. is_error d
     then rp_Result ?r = ResultFail \<and> rp_ExitCode ?r \<in> {1, 2} \<and>
       (\<exists>p \<in> set ds. is_error p \<and> rp_PrimaryID ?r = Some (dg_ID p) \<and>
          rp_ExitCode ?r = def_ExitCode (registry_at (dg_ID p)) \<and>
          (\<forall>d \<in> set ds. is_error d \<longrightarrow>
             (def_precedence (registry_at (dg_ID p)), dg_ID p) \<le>
             (def_precedence (registry_at (dg_ID d)), dg_ID d)))
     else rp_Result ?r = ResultPass \<and> rp_ExitCode ?r = 0 \<and> rp_PrimaryID ?r = None"
  proof (cases "find is_error ?o")
    case None
    then have "\<not> (\<exists>d \<in> set ds. is_error d)" using set by (auto simp: find_None_iff)
    with None show ?thesis by (simp add: derive_find ExitCodePass_def)
  next
    case (Some p)
    from find_error_least [OF srt Some]
    have p: "p \<in> set ds" "is_error p"
      and least: "\<And>e. e \<in> set ds \<Longrightarrow> is_error e \<Longrightarrow> sort_key_of T p \<le> sort_key_of T e"
      using set by auto
    have rk: "(def_precedence (registry_at (dg_ID p)), dg_ID p) \<le>
        (def_precedence (registry_at (dg_ID e)), dg_ID e)" if "e \<in> set ds" "is_error e" for e
      using least [OF that] by (auto simp: sort_key_of_def less_eq_prod_def split: if_splits)
    have "Lookup (dg_ID p) \<noteq> None"
      using assms(2) p validateDiagnostic_registered unfolding validate_all_None by blast
    then have "def_ExitCode (registry_at (dg_ID p)) \<in> {1, 2}"
      using registered_error_exit p by (auto simp: ExitCodePolicyFailure_def ExitCodeInvocationFailure_def)
    with Some p rk show ?thesis by (auto simp: derive_find)
  qed
  show ?thesis
    by (rule exI [of _ ?r], rule exI [of _ ?o]) (use b m outcome in simp)
qed

text \<open>The verdict does not depend on the order in which diagnostics are reported nor on how the
  unstable sort breaks ties: two permutations of the same diagnostics give the same result, exit code
  and primary ID, and the same sequence of IDs.\<close>

theorem build_order_independent:
  assumes "slice_sort s1" and "slice_sort s2" and "mset ds1 = mset ds2"
    and "Build T s1 ri ds1 md = Inr r1" and "Build T s2 ri ds2 md = Inr r2"
  shows "rp_Result r1 = rp_Result r2 \<and> rp_ExitCode r1 = rp_ExitCode r2 \<and>
    rp_PrimaryID r1 = rp_PrimaryID r2 \<and>
    map_option (map dg_ID) (rp_Diagnostics r1) = map_option (map dg_ID) (rp_Diagnostics r2)"
proof -
  have r: "r1 = built T ri (ordered_by T s1 ds1) md" "r2 = built T ri (ordered_by T s2 ds2) md"
    using Build_Inr assms(4,5) by blast+
  have "mset (map (sort_key_of T) ds1) = mset (map (sort_key_of T) ds2)" using assms(3) by simp
  then have "sort (map (sort_key_of T) ds1) = sort (map (sort_key_of T) ds2)"
    by (metis properties_for_sort mset_sort sorted_sort)
  then have "map (sort_key_of T) (ordered_by T s1 ds1) = map (sort_key_of T) (ordered_by T s2 ds2)"
    by (simp add: ordered_keys assms)
  then have ids: "map dg_ID (ordered_by T s1 ds1) = map dg_ID (ordered_by T s2 ds2)"
    by (rule sort_key_ids)
  have "derive (ordered_by T s1 ds1) = derive (ordered_by T s2 ds2)" by (rule derive_ids [OF ids])
  then show ?thesis
    using ids unfolding r by simp
qed

section \<open>A report with a warning and an error\<close>

definition example_diagnostic :: "string \<Rightarrow> string \<Rightarrow> string \<Rightarrow> Diagnostic" where
  "example_diagnostic ident severity category =
     \<lparr>dg_ID = ident, dg_Severity = severity, dg_Category = category, dg_Check = ''c'', dg_Message = ''m'',
      dg_Field = [], dg_Expected = None, dg_Actual = None, dg_PolicySources = [], dg_Evidence = []\<rparr>"

definition example_error :: Diagnostic where
  "example_error = example_diagnostic (error_id ''digest-mismatch'') SeverityError ''digest-mismatch''"

definition example_warning :: Diagnostic where
  "example_warning =
     example_diagnostic (warning_id ''timestamp-clock-skew'') SeverityWarning ''timestamp-clock-skew''"

lemma example_lookup:
  "Lookup (error_id ''digest-mismatch'') = Some (error_entry ''digest-mismatch'')"
  "Lookup (warning_id ''timestamp-clock-skew'') = Some (base_warning ''timestamp-clock-skew'')"
proof -
  have "''digest-mismatch'' \<in> set errorCategories"
    unfolding errorCategories_def by (intro list.set_intros)
  moreover have "''timestamp-clock-skew'' \<in> set warningCategories"
    unfolding warningCategories_def by (intro list.set_intros)
  ultimately show "Lookup (error_id ''digest-mismatch'') = Some (error_entry ''digest-mismatch'')"
    "Lookup (warning_id ''timestamp-clock-skew'') = Some (base_warning ''timestamp-clock-skew'')"
    by (auto simp: Lookup_closed)
qed

lemma example_valid: "validate_all Inr [example_warning, example_error] = None"
proof -
  have u: "utf8_valid ''c''" "utf8_valid ''m''" by code_simp+
  show ?thesis
    using error_entry_fixed [of "''digest-mismatch''"] u
    by (simp add: example_error_def example_warning_def example_diagnostic_def validateDiagnostic_def
        example_lookup base_warning_def sound_error_def validateOptionalJSON_def)
qed

lemma example_severities: "is_error example_error" "\<not> is_error example_warning"
  using error_entry_fixed [of "''digest-mismatch''"]
  by (simp_all add: is_error_def example_error_def example_warning_def example_diagnostic_def
      registry_at_def example_lookup sound_error_def base_warning_def SeverityError_def SeverityWarning_def)

lemma build_report_correct_witness:
  "\<exists>r. Build Inr insertion_sort None [example_warning, example_error] None = Inr r \<and>
     rp_PrimaryID r = Some (dg_ID example_error) \<and> rp_ExitCode r \<in> {1, 2}"
proof -
  have md: "validateMetadata None = None" by (simp add: validateMetadata_def)
  obtain r ordered where r: "Build Inr insertion_sort None [example_warning, example_error] None = Inr r"
    and o: "if \<exists>d \<in> set [example_warning, example_error]. is_error d
     then rp_Result r = ResultFail \<and> rp_ExitCode r \<in> {1, 2} \<and>
       (\<exists>p \<in> set [example_warning, example_error]. is_error p \<and> rp_PrimaryID r = Some (dg_ID p) \<and>
          rp_ExitCode r = def_ExitCode (registry_at (dg_ID p)) \<and>
          (\<forall>d \<in> set [example_warning, example_error]. is_error d \<longrightarrow>
             (def_precedence (registry_at (dg_ID p)), dg_ID p) \<le>
             (def_precedence (registry_at (dg_ID d)), dg_ID d)))
     else rp_Result r = ResultPass \<and> rp_ExitCode r = 0 \<and> rp_PrimaryID r = None"
    using build_report_correct [OF insertion.slice_sort_axioms example_valid md, of None] by blast
  with example_severities show ?thesis by auto
qed

lemma build_order_independent_witness:
  "\<exists>r1 r2. Build Inr insertion_sort None [example_warning, example_error] None = Inr r1 \<and>
     Build Inr insertion_sort None [example_error, example_warning] None = Inr r2 \<and>
     rp_PrimaryID r1 = rp_PrimaryID r2"
proof -
  have md: "validateMetadata None = None" by (simp add: validateMetadata_def)
  have swapped: "validate_all Inr [example_error, example_warning] = None"
    using example_valid by (simp add: validate_all_None)
  obtain r1 where r1: "Build Inr insertion_sort None [example_warning, example_error] None = Inr r1"
    using Build_valid [OF insertion.slice_sort_axioms example_valid md, of None] by blast
  obtain r2 where r2: "Build Inr insertion_sort None [example_error, example_warning] None = Inr r2"
    using Build_valid [OF insertion.slice_sort_axioms swapped md, of None] by blast
  have "mset [example_warning, example_error] = mset [example_error, example_warning]" by simp
  from build_order_independent [OF insertion.slice_sort_axioms insertion.slice_sort_axioms this r1 r2]
  show ?thesis using r1 r2 by blast
qed

end
