(* ===== verification/Decode.thy ===== *)
theory Decode
  imports CanonicalJson
begin

text \<open>
  encoding/json's decoding of a parsed document into a struct, as the packages with closed schemas
  use it (Decoder with DisallowUnknownFields): members are matched to fields by name, exactly or, where no
  field has the exact name, up to case; null leaves a field alone; a member of another type or of
  no field makes the whole decoding fail.  And the fixed UTC timestamp layout.
\<close>

section \<open>Member names\<close>

text \<open>foldName, as far as it can reach the ASCII names of fields.\<close>

definition fold_rune :: "nat \<Rightarrow> nat" where
  "fold_rune r =
     (if 97 \<le> r \<and> r \<le> 122 then r - 32 else if r = 8490 then 75 else if r = 383 then 83 else r)"

definition foldName :: "string \<Rightarrow> string" where
  "foldName name = concat (map (\<lambda>(r, bs, ok). encode_rune (fold_rune r)) (runes name))"

text \<open>A field of a struct: its JSON name and how a value is stored into it.\<close>

type_synonym 'r field = "string \<times> ('r \<Rightarrow> jval \<Rightarrow> 'r option)"

definition find_field :: "'r field list \<Rightarrow> string \<Rightarrow> ('r \<Rightarrow> jval \<Rightarrow> 'r option) option" where
  "find_field fs member =
     (case map_of fs member of
        Some store \<Rightarrow> Some store
      | None \<Rightarrow> map_option snd (find (\<lambda>(name, _). foldName name = foldName member) fs))"

fun decode_members :: "'r field list \<Rightarrow> 'r \<Rightarrow> (string \<times> jval) list \<Rightarrow> 'r option" where
  "decode_members fs r [] = Some r"
| "decode_members fs r ((member, v) # members) =
     (case find_field fs member of
        None \<Rightarrow> None
      | Some store \<Rightarrow>
          (case store r v of None \<Rightarrow> None | Some r' \<Rightarrow> decode_members fs r' members))"

definition decode_struct :: "'r field list \<Rightarrow> 'r \<Rightarrow> jval \<Rightarrow> 'r option" where
  "decode_struct fs r v =
     (case v of JObj members \<Rightarrow> decode_members fs r members | JNull \<Rightarrow> Some r | _ \<Rightarrow> None)"

text \<open>Stores for a string, a pointer to a string and a nested struct.\<close>

definition store_string :: "(string \<Rightarrow> 'r \<Rightarrow> 'r) \<Rightarrow> 'r \<Rightarrow> jval \<Rightarrow> 'r option" where
  "store_string put r v = (case v of JString s \<Rightarrow> Some (put s r) | JNull \<Rightarrow> Some r | _ \<Rightarrow> None)"

definition store_pointer :: "(string option \<Rightarrow> 'r \<Rightarrow> 'r) \<Rightarrow> 'r \<Rightarrow> jval \<Rightarrow> 'r option" where
  "store_pointer put r v =
     (case v of JString s \<Rightarrow> Some (put (Some s) r) | JNull \<Rightarrow> Some (put None r) | _ \<Rightarrow> None)"

definition store_struct ::
  "('r \<Rightarrow> 's) \<Rightarrow> ('s \<Rightarrow> 'r \<Rightarrow> 'r) \<Rightarrow> 's field list \<Rightarrow> 'r \<Rightarrow> jval \<Rightarrow> 'r option" where
  "store_struct get put fs r v = map_option (\<lambda>s. put s r) (decode_struct fs (get r) v)"

section \<open>Errors that are duplicate members\<close>

text \<open>errors.As with a DuplicateMemberError target.\<close>

fun is_duplicate_error :: "go_error \<Rightarrow> bool" where
  "is_duplicate_error (ErrDuplicateMember _ _) = True"
| "is_duplicate_error (ErrWrap _ _ causes) = list_ex is_duplicate_error causes"
| "is_duplicate_error (ErrDiag _ _ _ _ _ causes) = list_ex is_duplicate_error causes"
| "is_duplicate_error (ErrText _ _) = False"

section \<open>Timestamps\<close>

text \<open>
  time.Parse with the layout 2006-01-02T15:04:05Z, on text of that shape: the seconds since the
  civil epoch 0000-03-01, or \<^const>\<open>None\<close> for a component out of range.
\<close>

definition leap_year :: "nat \<Rightarrow> bool" where
  "leap_year y \<longleftrightarrow> (y mod 4 = 0 \<and> y mod 100 \<noteq> 0) \<or> y mod 400 = 0"

definition days_in :: "nat \<Rightarrow> nat \<Rightarrow> nat" where
  "days_in y m = (if m = 2 then (if leap_year y then 29 else 28)
     else if m = 4 \<or> m = 6 \<or> m = 9 \<or> m = 11 then 30 else 31)"

definition civil_days :: "nat \<Rightarrow> nat \<Rightarrow> nat \<Rightarrow> int" where
  "civil_days y m d =
     (let y' = int y - (if m \<le> 2 then 1 else 0);
          mp = (int m + 9) mod 12
      in 365 * y' + y' div 4 - y' div 100 + y' div 400 + (153 * mp + 2) div 5 + int d - 1)"

definition date_valid :: "nat \<Rightarrow> nat \<Rightarrow> nat \<Rightarrow> bool" where
  "date_valid y m d \<longleftrightarrow> 1 \<le> m \<and> m \<le> 12 \<and> 1 \<le> d \<and> d \<le> days_in y m"

definition part :: "nat \<Rightarrow> nat \<Rightarrow> string \<Rightarrow> nat" where
  "part from len s = dec_val (take len (drop from s))"

text \<open>The regular expression of the layout: twenty bytes, digits but for the separators.\<close>

definition utc_shape :: "string \<Rightarrow> bool" where
  "utc_shape s \<longleftrightarrow> length s = 20 \<and>
     list_all2 (\<lambda>p c. if p = CHR ''0'' then is_digit c else c = p) ''0000-00-00T00:00:00Z'' s"

definition parse_utc :: "string \<Rightarrow> int option" where
  "parse_utc s =
     (let y = part 0 4 s; mo = part 5 2 s; d = part 8 2 s;
          h = part 11 2 s; mi = part 14 2 s; se = part 17 2 s
      in if \<not> utc_shape s \<or> \<not> date_valid y mo d \<or> h > 23 \<or> mi > 59 \<or> se > 59 then None
         else Some (86400 * civil_days y mo d + int (3600 * h + 60 * mi + se)))"

end
