(* ===== verification/Policy.thy ===== *)
theory Policy
  imports Decode Diagnostic Oidc Digest
begin

text \<open>
  internal/policy: the explicit verifier policy and the release manifest expectation (model.go,
  decode.go), and the intersection of authenticated policy sources (intersection.go).

  A Go map of constraints is the list of its entries in the order an iteration visits them; what an
  intersection yields is shown not to depend on that order.
\<close>

section \<open>Errors\<close>

definition idTrustedProducerPolicyConflict :: string where
  "idTrustedProducerPolicyConflict = ''windlass.verify.error.trusted-producer-policy-conflict''"

text \<open>
  newValidationError: diagnostic.New checks the ID and the texts; it never reaches the canonicalizer
  for a diagnostic without values, so the identity stands for it.
\<close>

definition newValidationError :: "string \<Rightarrow> string \<Rightarrow> string list \<Rightarrow> string \<Rightarrow> go_error" where
  "newValidationError ident field sources message =
     (case New Inr ident field message of
        Inl err \<Rightarrow> ErrWrap ''construct policy diagnostic %q: %w'' [ident] [err]
      | Inr entry \<Rightarrow> ErrDiag KPolicy (dg_ID entry) field (dg_Message entry) sources [])"

definition policySchemaError :: "string \<Rightarrow> string \<Rightarrow> go_error" where
  "policySchemaError field message = newValidationError IDPolicySchemaInvalid field [] message"

section \<open>The policy documents\<close>

record SourcePolicy =
  sp_RepositoryURI :: string
  sp_RepositoryID :: string
  sp_RepositoryOwnerID :: string
  sp_Digest :: string
  sp_Ref :: string

record ProducerPolicy =
  pp_WorkflowPath :: string
  pp_WorkflowSHA :: string
  pp_RunnerEnvironment :: string

record TrustRoot =
  tr_Mode :: string
  tr_Instance :: string
  tr_Path :: "string option"
  tr_SHA256 :: "string option"
  tr_TUFRepository :: "string option"
  tr_RevalidatedAt :: "string option"
  tr_RefreshBefore :: "string option"

record ExplicitPolicy =
  ep_SchemaVersion :: string
  ep_Source :: SourcePolicy
  ep_Producer :: ProducerPolicy
  ep_TrustRoot :: TrustRoot

record ReleaseManifestIdentity =
  rm_SourceRepositoryURI :: string
  rm_SourceRepositoryID :: string
  rm_SourceRepositoryOwnerID :: string
  rm_WorkflowPath :: string
  rm_WorkflowSHA :: string

record ProducerProfile =
  pf_Profile :: string
  pf_WorkflowPath :: string
  pf_WorkflowSHA :: string

record ReleaseManifestExpectation =
  re_SchemaVersion :: string
  re_ReleaseManifest :: ReleaseManifestIdentity
  re_ProducerProfile :: ProducerProfile

definition zero_policy :: ExplicitPolicy where
  "zero_policy = \<lparr>ep_SchemaVersion = [],
     ep_Source = \<lparr>sp_RepositoryURI = [], sp_RepositoryID = [], sp_RepositoryOwnerID = [],
                  sp_Digest = [], sp_Ref = []\<rparr>,
     ep_Producer = \<lparr>pp_WorkflowPath = [], pp_WorkflowSHA = [], pp_RunnerEnvironment = []\<rparr>,
     ep_TrustRoot = \<lparr>tr_Mode = [], tr_Instance = [], tr_Path = None, tr_SHA256 = None,
                     tr_TUFRepository = None, tr_RevalidatedAt = None, tr_RefreshBefore = None\<rparr>\<rparr>"

definition zero_expectation :: ReleaseManifestExpectation where
  "zero_expectation = \<lparr>re_SchemaVersion = [],
     re_ReleaseManifest = \<lparr>rm_SourceRepositoryURI = [], rm_SourceRepositoryID = [],
       rm_SourceRepositoryOwnerID = [], rm_WorkflowPath = [], rm_WorkflowSHA = []\<rparr>,
     re_ProducerProfile = \<lparr>pf_Profile = [], pf_WorkflowPath = [], pf_WorkflowSHA = []\<rparr>\<rparr>"

text \<open>The JSON names of the fields.\<close>

definition source_fields :: "SourcePolicy field list" where
  "source_fields =
     [(''repository_uri'', store_string (\<lambda>s. sp_RepositoryURI_update (\<lambda>_. s))),
      (''repository_id'', store_string (\<lambda>s. sp_RepositoryID_update (\<lambda>_. s))),
      (''repository_owner_id'', store_string (\<lambda>s. sp_RepositoryOwnerID_update (\<lambda>_. s))),
      (''digest'', store_string (\<lambda>s. sp_Digest_update (\<lambda>_. s))),
      (''ref'', store_string (\<lambda>s. sp_Ref_update (\<lambda>_. s)))]"

definition producer_fields :: "ProducerPolicy field list" where
  "producer_fields =
     [(''workflow_path'', store_string (\<lambda>s. pp_WorkflowPath_update (\<lambda>_. s))),
      (''workflow_sha'', store_string (\<lambda>s. pp_WorkflowSHA_update (\<lambda>_. s))),
      (''runner_environment'', store_string (\<lambda>s. pp_RunnerEnvironment_update (\<lambda>_. s)))]"

definition trust_root_fields :: "TrustRoot field list" where
  "trust_root_fields =
     [(''mode'', store_string (\<lambda>s. tr_Mode_update (\<lambda>_. s))),
      (''instance'', store_string (\<lambda>s. tr_Instance_update (\<lambda>_. s))),
      (''path'', store_pointer (\<lambda>s. tr_Path_update (\<lambda>_. s))),
      (''sha256'', store_pointer (\<lambda>s. tr_SHA256_update (\<lambda>_. s))),
      (''tuf_repository'', store_pointer (\<lambda>s. tr_TUFRepository_update (\<lambda>_. s))),
      (''revalidated_at'', store_pointer (\<lambda>s. tr_RevalidatedAt_update (\<lambda>_. s))),
      (''refresh_before'', store_pointer (\<lambda>s. tr_RefreshBefore_update (\<lambda>_. s)))]"

definition policy_fields :: "ExplicitPolicy field list" where
  "policy_fields =
     [(''schema_version'', store_string (\<lambda>s. ep_SchemaVersion_update (\<lambda>_. s))),
      (''source'', store_struct ep_Source (\<lambda>s. ep_Source_update (\<lambda>_. s)) source_fields),
      (''producer'', store_struct ep_Producer (\<lambda>s. ep_Producer_update (\<lambda>_. s)) producer_fields),
      (''trust_root'', store_struct ep_TrustRoot (\<lambda>s. ep_TrustRoot_update (\<lambda>_. s)) trust_root_fields)]"

definition manifest_fields :: "ReleaseManifestIdentity field list" where
  "manifest_fields =
     [(''source_repository_uri'', store_string (\<lambda>s. rm_SourceRepositoryURI_update (\<lambda>_. s))),
      (''source_repository_id'', store_string (\<lambda>s. rm_SourceRepositoryID_update (\<lambda>_. s))),
      (''source_repository_owner_id'', store_string (\<lambda>s. rm_SourceRepositoryOwnerID_update (\<lambda>_. s))),
      (''workflow_path'', store_string (\<lambda>s. rm_WorkflowPath_update (\<lambda>_. s))),
      (''workflow_sha'', store_string (\<lambda>s. rm_WorkflowSHA_update (\<lambda>_. s)))]"

definition profile_fields :: "ProducerProfile field list" where
  "profile_fields =
     [(''profile'', store_string (\<lambda>s. pf_Profile_update (\<lambda>_. s))),
      (''workflow_path'', store_string (\<lambda>s. pf_WorkflowPath_update (\<lambda>_. s))),
      (''workflow_sha'', store_string (\<lambda>s. pf_WorkflowSHA_update (\<lambda>_. s)))]"

definition expectation_fields :: "ReleaseManifestExpectation field list" where
  "expectation_fields =
     [(''schema_version'', store_string (\<lambda>s. re_SchemaVersion_update (\<lambda>_. s))),
      (''release_manifest'', store_struct re_ReleaseManifest (\<lambda>s. re_ReleaseManifest_update (\<lambda>_. s)) manifest_fields),
      (''producer_profile'', store_struct re_ProducerProfile (\<lambda>s. re_ProducerProfile_update (\<lambda>_. s)) profile_fields)]"

section \<open>Decoding\<close>

definition decodeClosed :: "'r field list \<Rightarrow> 'r \<Rightarrow> string \<Rightarrow> 'r result" where
  "decodeClosed fs zero data =
     (case parseStrict data of
        Inl err \<Rightarrow>
          if is_duplicate_error err then Inl err
          else Inl (policySchemaError ''policy'' ''decode closed policy schema: %v'')
      | Inr v \<Rightarrow>
          (case decode_struct fs zero v of
             None \<Rightarrow> Inl (policySchemaError ''policy'' ''decode closed policy schema: %v'')
           | Some target \<Rightarrow> Inr target))"

definition trust_root_members :: "string list" where
  "trust_root_members = [''mode'', ''instance'', ''path'', ''sha256'', ''tuf_repository'',
     ''revalidated_at'', ''refresh_before'']"

definition rejectNullTrustRootMembers :: "string \<Rightarrow> go_error option" where
  "rejectNullTrustRootMembers data =
     (case parseStrict data of
        Inr (JObj document) \<Rightarrow>
          (case map_of document ''trust_root'' of
             Some (JObj members) \<Rightarrow>
               (case find (\<lambda>name. map_of members name = Some JNull) trust_root_members of
                  None \<Rightarrow> None
                | Some name \<Rightarrow> Some (policySchemaError (''trust_root.'' @ name)
                                ''trust root members must not be null''))
           | _ \<Rightarrow> None)
      | Inr JNull \<Rightarrow> None
      | _ \<Rightarrow> Some (policySchemaError ''trust_root'' ''decode trust root member presence: %v''))"

definition validateSourcePolicy :: "SourcePolicy \<Rightarrow> go_error option" where
  "validateSourcePolicy source =
     (if ValidateCanonicalRepositoryURI (sp_RepositoryURI source) \<noteq> None then
        Some (policySchemaError ''source.repository_uri'' ''repository URI is not canonical'')
      else if \<not> re_positive_decimal (sp_RepositoryID source) then
        Some (policySchemaError ''source.repository_id'' ''repository ID must be a positive decimal string'')
      else if \<not> re_positive_decimal (sp_RepositoryOwnerID source) then
        Some (policySchemaError ''source.repository_owner_id''
          ''repository owner ID must be a positive decimal string'')
      else if ValidateFullSHA (sp_Digest source) \<noteq> None then
        Some (policySchemaError ''source.digest'' ''source digest must be a full lowercase SHA'')
      else if ValidateReleaseRef (sp_Ref source) \<noteq> None then
        Some (policySchemaError ''source.ref'' ''source ref must be a full release tag ref'')
      else None)"

definition validateWorkflow :: "string \<Rightarrow> string \<Rightarrow> string \<Rightarrow> go_error option" where
  "validateWorkflow path sha fieldPrefix =
     (case NewBuilderID path sha of
        Inl _ \<Rightarrow> Some (policySchemaError fieldPrefix ''workflow path or SHA is not canonical'')
      | Inr _ \<Rightarrow> None)"

definition sigstorePublicGoodInstance :: string where
  "sigstorePublicGoodInstance = ''sigstore-public-good''"

definition sigstoreTUFRepository :: string where
  "sigstoreTUFRepository = ''https://tuf-repo-cdn.sigstore.dev''"

definition parsePolicyTimestamp :: "string \<Rightarrow> int option" where
  "parsePolicyTimestamp text = parse_utc text"

definition validatePinnedTrustRoot :: "TrustRoot \<Rightarrow> go_error option" where
  "validatePinnedTrustRoot root =
     (if tr_Path root = None \<or> tr_Path root = Some [] then
        Some (policySchemaError ''trust_root.path'' ''pinned trust root path is required'')
      else case tr_SHA256 root of
        None \<Rightarrow> Some (policySchemaError ''trust_root.sha256'' ''pinned trust root SHA-256 is required'')
      | Some sha \<Rightarrow>
        (case ParseSHA256 sha of
          Inl _ \<Rightarrow> Some (policySchemaError ''trust_root.sha256'' ''pinned trust root SHA-256 is invalid'')
        | Inr _ \<Rightarrow>
          if tr_TUFRepository root \<noteq> Some sigstoreTUFRepository then
            Some (policySchemaError ''trust_root.tuf_repository''
              ''pinned trust root TUF repository is not governed'')
          else (case tr_RevalidatedAt root of
            None \<Rightarrow> Some (policySchemaError ''trust_root.revalidated_at'' ''revalidated_at is required'')
          | Some revalidatedAt \<Rightarrow>
            (case parsePolicyTimestamp revalidatedAt of
              None \<Rightarrow> Some (policySchemaError ''trust_root.revalidated_at''
                        ''revalidated_at must use whole-second UTC RFC 3339'')
            | Some revalidated \<Rightarrow>
              (case tr_RefreshBefore root of
                None \<Rightarrow> Some (policySchemaError ''trust_root.refresh_before'' ''refresh_before is required'')
              | Some refreshAt \<Rightarrow>
                (case parsePolicyTimestamp refreshAt of
                  None \<Rightarrow> Some (policySchemaError ''trust_root.refresh_before''
                            ''refresh_before must use whole-second UTC RFC 3339'')
                | Some refreshBefore \<Rightarrow>
                  if \<not> refreshBefore > revalidated then
                    Some (policySchemaError ''trust_root.refresh_before''
                      ''refresh_before must be later than revalidated_at'')
                  else None))))))"

definition validateTrustRoot :: "TrustRoot \<Rightarrow> go_error option" where
  "validateTrustRoot root =
     (if tr_Instance root \<noteq> sigstorePublicGoodInstance then
        Some (policySchemaError ''trust_root.instance'' ''trust root instance must equal %q'')
      else if tr_Mode root = ''tuf'' then
        (if tr_Path root \<noteq> None \<or> tr_SHA256 root \<noteq> None \<or> tr_TUFRepository root \<noteq> None
            \<or> tr_RevalidatedAt root \<noteq> None \<or> tr_RefreshBefore root \<noteq> None then
           Some (policySchemaError ''trust_root'' ''TUF trust root contains pinned-root members'')
         else None)
      else if tr_Mode root = ''pinned'' then validatePinnedTrustRoot root
      else Some (policySchemaError ''trust_root.mode'' ''trust root mode must equal %q or %q''))"

definition validateExplicitPolicy :: "ExplicitPolicy \<Rightarrow> go_error option" where
  "validateExplicitPolicy policy =
     (if ep_SchemaVersion policy \<noteq> ''1'' then
        Some (policySchemaError ''schema_version'' ''schema_version must equal %q'')
      else
        and_then (validateSourcePolicy (ep_Source policy))
        (and_then (validateWorkflow (pp_WorkflowPath (ep_Producer policy))
                     (pp_WorkflowSHA (ep_Producer policy)) ''producer'')
        (if pp_RunnerEnvironment (ep_Producer policy) \<noteq> ''github-hosted'' then
           Some (policySchemaError ''producer.runner_environment'' ''runner_environment must equal %q'')
         else validateTrustRoot (ep_TrustRoot policy))))"

definition DecodeExplicitPolicy :: "string \<Rightarrow> ExplicitPolicy result" where
  "DecodeExplicitPolicy data =
     (case decodeClosed policy_fields zero_policy data of
        Inl err \<Rightarrow> Inl err
      | Inr policy \<Rightarrow>
          guarded (rejectNullTrustRootMembers data)
          (guarded (validateExplicitPolicy policy) (Inr policy)))"

text \<open>The registry of producer profiles is an interface: its one method, if it is not nil.\<close>

definition validateReleaseManifestExpectation ::
  "ReleaseManifestExpectation \<Rightarrow> (string \<Rightarrow> bool) option \<Rightarrow> go_error option" where
  "validateReleaseManifestExpectation expectation profiles =
     (let manifest = re_ReleaseManifest expectation; profile = re_ProducerProfile expectation in
      if re_SchemaVersion expectation \<noteq> ''1'' then
        Some (policySchemaError ''schema_version'' ''schema_version must equal %q'')
      else if ValidateCanonicalRepositoryURI (rm_SourceRepositoryURI manifest) \<noteq> None then
        Some (policySchemaError ''release_manifest.source_repository_uri''
          ''source repository URI is not canonical'')
      else if \<not> re_positive_decimal (rm_SourceRepositoryID manifest) then
        Some (policySchemaError ''release_manifest.source_repository_id''
          ''source repository ID must be a positive decimal string'')
      else if \<not> re_positive_decimal (rm_SourceRepositoryOwnerID manifest) then
        Some (policySchemaError ''release_manifest.source_repository_owner_id''
          ''source owner ID must be a positive decimal string'')
      else
        and_then (validateWorkflow (rm_WorkflowPath manifest) (rm_WorkflowSHA manifest) ''release_manifest'')
        (if (case profiles of None \<Rightarrow> True
             | Some registered \<Rightarrow> pf_Profile profile = [] \<or> \<not> registered (pf_Profile profile)) then
           Some (policySchemaError ''producer_profile.profile'' ''producer profile is not registered'')
         else validateWorkflow (pf_WorkflowPath profile) (pf_WorkflowSHA profile) ''producer_profile''))"

definition DecodeReleaseManifestExpectation ::
  "string \<Rightarrow> (string \<Rightarrow> bool) option \<Rightarrow> ReleaseManifestExpectation result" where
  "DecodeReleaseManifestExpectation data profiles =
     (case decodeClosed expectation_fields zero_expectation data of
        Inl err \<Rightarrow> Inl err
      | Inr expectation \<Rightarrow>
          guarded (validateReleaseManifestExpectation expectation profiles) (Inr expectation))"

end
