(* ===== verification/Intersection.thy ===== *)
theory Intersection
  imports Policy
begin

text \<open>
  internal/policy/intersection.go: finite constraint sets and their monotone intersection.
  A map of constraints is an association list with distinct fields in iteration order; the
  effective constraints are functions from fields, as nothing iterates over them.
\<close>

section \<open>Constraint sets\<close>

definition FieldProducerProfile :: string where "FieldProducerProfile = ''producer.profile''"
definition FieldProducerWorkflowPath :: string where "FieldProducerWorkflowPath = ''producer.workflow_path''"
definition FieldProducerWorkflowSHA :: string where "FieldProducerWorkflowSHA = ''producer.workflow_sha''"
definition FieldProducerRunnerEnvironment :: string where
  "FieldProducerRunnerEnvironment = ''producer.runner_environment''"
definition FieldSourceRepositoryURI :: string where "FieldSourceRepositoryURI = ''source.repository_uri''"
definition FieldSourceRepositoryID :: string where "FieldSourceRepositoryID = ''source.repository_id''"
definition FieldSourceRepositoryOwnerID :: string where
  "FieldSourceRepositoryOwnerID = ''source.repository_owner_id''"
definition FieldSourceDigest :: string where "FieldSourceDigest = ''source.digest''"
definition FieldSourceRef :: string where "FieldSourceRef = ''source.ref''"

record FieldConstraint =
  fc_Field :: string
  fc_Allowed :: "string list"

text \<open>\<^const>\<open>None\<close> is the nil map of the zero ConstraintSet.\<close>

record ConstraintSet =
  cs_source :: string
  cs_values :: "(string \<times> string list) list option"

record EffectiveConstraints =
  ef_values :: "string \<Rightarrow> string list option"
  ef_sources :: "string \<Rightarrow> string list option"

definition isSubset :: "string list \<Rightarrow> string list \<Rightarrow> bool" where
  "isSubset candidate current = list_all (\<lambda>v. v \<in> set current) candidate"

definition intersectValues :: "string list \<Rightarrow> string list \<Rightarrow> string list" where
  "intersectValues left right = filter (\<lambda>v. v \<in> set right) left"

fun adjacent_duplicate :: "string list \<Rightarrow> bool" where
  "adjacent_duplicate (a # b # rest) = (a = b \<or> adjacent_duplicate (b # rest))"
| "adjacent_duplicate _ = False"

definition normalizeAllowed :: "string list \<Rightarrow> string list result" where
  "normalizeAllowed allowed =
     (if allowed = [] then Inl (ErrText ''constraint must allow at least one value'' [])
      else if [] \<in> set allowed then Inl (ErrText ''constraint allowed values must be non-empty'' [])
      else
        (let normalized = sort allowed in
         if adjacent_duplicate normalized
         then Inl (ErrText ''constraint allowed values must be unique'' []) else Inr normalized))"

fun add_constraints ::
  "(string \<times> string list) list \<Rightarrow> FieldConstraint list \<Rightarrow> (string \<times> string list) list result" where
  "add_constraints vals [] = Inr vals"
| "add_constraints vals (c # cs) =
     (if fc_Field c = [] \<or> TrimSpace (fc_Field c) \<noteq> fc_Field c then
        Inl (policySchemaError ''policy.constraints.field''
          ''constraint field must be non-empty and canonical'')
      else if fc_Field c \<in> set (map fst vals) then
        Inl (policySchemaError (fc_Field c) ''constraint field is duplicated'')
      else (case normalizeAllowed (fc_Allowed c) of
              Inl err \<Rightarrow> Inl (policySchemaError (fc_Field c) ''%v'')
            | Inr normalized \<Rightarrow> add_constraints (vals @ [(fc_Field c, normalized)]) cs))"

definition NewConstraintSet :: "string \<Rightarrow> FieldConstraint list \<Rightarrow> ConstraintSet result" where
  "NewConstraintSet source constraints =
     (if \<not> validPolicySource source then
        Inl (policySchemaError ''policy.source'' ''policy source %q is not registered'')
      else map_result (\<lambda>vals. \<lparr>cs_source = source, cs_values = Some vals\<rparr>)
             (add_constraints [] constraints))"

definition trustedConstraintSet :: "string \<Rightarrow> FieldConstraint list \<Rightarrow> ConstraintSet" where
  "trustedConstraintSet source constraints =
     (case NewConstraintSet source constraints of
        Inl _ \<Rightarrow> \<lparr>cs_source = [], cs_values = None\<rparr> | Inr s \<Rightarrow> s)"

definition single :: "string \<Rightarrow> string \<Rightarrow> FieldConstraint" where
  "single fld v = \<lparr>fc_Field = fld, fc_Allowed = [v]\<rparr>"

definition policy_ProducerConstraints :: "ExplicitPolicy \<Rightarrow> ConstraintSet" where
  "policy_ProducerConstraints policy =
     trustedConstraintSet ''explicit-policy''
       [single FieldProducerWorkflowPath (pp_WorkflowPath (ep_Producer policy)),
        single FieldProducerWorkflowSHA (pp_WorkflowSHA (ep_Producer policy)),
        single FieldProducerRunnerEnvironment (pp_RunnerEnvironment (ep_Producer policy)),
        single FieldSourceRepositoryURI (sp_RepositoryURI (ep_Source policy)),
        single FieldSourceRepositoryID (sp_RepositoryID (ep_Source policy)),
        single FieldSourceRepositoryOwnerID (sp_RepositoryOwnerID (ep_Source policy)),
        single FieldSourceDigest (sp_Digest (ep_Source policy)),
        single FieldSourceRef (sp_Ref (ep_Source policy))]"

definition expectation_ProducerConstraints :: "ReleaseManifestExpectation \<Rightarrow> ConstraintSet" where
  "expectation_ProducerConstraints expectation =
     (let profile = re_ProducerProfile expectation in
      trustedConstraintSet ''release-manifest''
        [single FieldProducerProfile (pf_Profile profile),
         single FieldProducerWorkflowPath (pf_WorkflowPath profile),
         single FieldProducerWorkflowSHA (pf_WorkflowSHA profile)])"

section \<open>Intersection\<close>

fun narrow_fields ::
  "string \<Rightarrow> (string \<times> string list) list \<Rightarrow> EffectiveConstraints \<Rightarrow> EffectiveConstraints result" where
  "narrow_fields source [] effective = Inr effective"
| "narrow_fields source ((fld, candidateAllowed) # rest) effective =
     (case ef_values effective fld of
        None \<Rightarrow>
          narrow_fields source rest
            \<lparr>ef_values = (ef_values effective)(fld \<mapsto> candidateAllowed),
             ef_sources = (ef_sources effective)(fld \<mapsto> [source])\<rparr>
      | Some currentAllowed \<Rightarrow>
          (let sources = (case ef_sources effective fld of None \<Rightarrow> [] | Some ss \<Rightarrow> ss) @ [source] in
           if \<not> isSubset candidateAllowed currentAllowed then
             Inl (newValidationError idTrustedProducerPolicyConflict fld sources
               ''policy source %q attempts to widen or conflicts with existing constraints'')
           else
             (let intersection = intersectValues currentAllowed candidateAllowed in
              if intersection = [] then
                Inl (newValidationError idTrustedProducerPolicyConflict fld sources
                  ''policy intersection is empty'')
              else narrow_fields source rest
                \<lparr>ef_values = (ef_values effective)(fld \<mapsto> intersection),
                 ef_sources = (ef_sources effective)(fld \<mapsto> sources)\<rparr>)))"

fun narrow_all :: "ConstraintSet list \<Rightarrow> EffectiveConstraints \<Rightarrow> EffectiveConstraints result" where
  "narrow_all [] effective = Inr effective"
| "narrow_all (candidate # candidates) effective =
     (case cs_values candidate of
        None \<Rightarrow> Inl (policySchemaError ''policy.narrowing'' ''narrowing constraint set is not initialized'')
      | Some vals \<Rightarrow>
          if \<not> validPolicySource (cs_source candidate) then
            Inl (policySchemaError ''policy.narrowing'' ''narrowing constraint set is not initialized'')
          else (case narrow_fields (cs_source candidate) vals effective of
                  Inl err \<Rightarrow> Inl err
                | Inr effective' \<Rightarrow> narrow_all candidates effective'))"

definition Intersect :: "ConstraintSet \<Rightarrow> ConstraintSet list \<Rightarrow> EffectiveConstraints result" where
  "Intersect baseline narrower =
     (case cs_values baseline of
        None \<Rightarrow> Inl (policySchemaError ''policy.baseline'' ''baseline constraint set is not initialized'')
      | Some vals \<Rightarrow>
          if \<not> validPolicySource (cs_source baseline) then
            Inl (policySchemaError ''policy.baseline'' ''baseline constraint set is not initialized'')
          else narrow_all narrower
            \<lparr>ef_values = map_of vals,
             ef_sources = (\<lambda>fld. if map_of vals fld = None then None else Some [cs_source baseline])\<rparr>)"

definition Allowed :: "EffectiveConstraints \<Rightarrow> string \<Rightarrow> string list" where
  "Allowed constraints fld = (case ef_values constraints fld of None \<Rightarrow> [] | Some vs \<Rightarrow> vs)"

definition Allows :: "EffectiveConstraints \<Rightarrow> string \<Rightarrow> string \<Rightarrow> bool" where
  "Allows constraints fld v = (v \<in> set (Allowed constraints fld))"

section \<open>Normal constraint sets\<close>

text \<open>What NewConstraintSet establishes: distinct fields, each with ascending non-empty values.\<close>

definition normal_values :: "string list \<Rightarrow> bool" where
  "normal_values vs \<longleftrightarrow> vs \<noteq> [] \<and> sorted vs \<and> distinct vs \<and> [] \<notin> set vs"

definition normal_set :: "ConstraintSet \<Rightarrow> bool" where
  "normal_set c \<longleftrightarrow> validPolicySource (cs_source c) \<and>
     (\<exists>vals. cs_values c = Some vals \<and> distinct (map fst vals) \<and>
        list_all (\<lambda>(fld, vs). normal_values vs) vals)"

lemma adjacent_duplicate_sorted: "sorted xs \<Longrightarrow> \<not> adjacent_duplicate xs \<Longrightarrow> distinct xs"
proof (induction xs rule: adjacent_duplicate.induct)
  case (1 a b rest)
  then show ?case by auto
qed auto

lemma normalizeAllowed_Inr:
  "normalizeAllowed vs = Inr ns \<Longrightarrow> normal_values ns \<and> set ns = set vs"
proof -
  assume h: "normalizeAllowed vs = Inr ns"
  then have ns: "ns = sort vs" "vs \<noteq> []" "[] \<notin> set vs" "\<not> adjacent_duplicate (sort vs)"
    by (auto simp: normalizeAllowed_def Let_def split: if_splits)
  then have "distinct ns" using adjacent_duplicate_sorted [of "sort vs"] by simp
  moreover have "ns \<noteq> []" using ns by (metis set_empty set_sort)
  ultimately show ?thesis using ns by (simp add: normal_values_def)
qed

lemma add_constraints_normal:
  assumes "add_constraints vals cs = Inr out" and "distinct (map fst vals)"
    and "list_all (\<lambda>(fld, vs). normal_values vs) vals"
  shows "distinct (map fst out) \<and> list_all (\<lambda>(fld, vs). normal_values vs) out"
  using assms
proof (induction cs arbitrary: vals)
  case (Cons c cs)
  then obtain ns where n: "normalizeAllowed (fc_Allowed c) = Inr ns"
    and r: "add_constraints (vals @ [(fc_Field c, ns)]) cs = Inr out"
    and f: "fc_Field c \<notin> set (map fst vals)"
    by (auto split: if_splits sum.splits)
  from Cons.IH [OF r] f Cons.prems normalizeAllowed_Inr [OF n] show ?case by simp
qed simp

lemma NewConstraintSet_normal: "NewConstraintSet source cs = Inr c \<Longrightarrow> normal_set c"
  by (auto simp: NewConstraintSet_def normal_set_def dest!: add_constraints_normal split: if_splits)

section \<open>The intersection in closed form\<close>

text \<open>The values a set allows for a field, and those of a sequence of sets in order.\<close>

definition allowed_in :: "ConstraintSet \<Rightarrow> string \<Rightarrow> string list option" where
  "allowed_in c fld = (case cs_values c of None \<Rightarrow> None | Some vals \<Rightarrow> map_of vals fld)"

definition chain :: "string \<Rightarrow> ConstraintSet list \<Rightarrow> string list list" where
  "chain fld cs = map the (filter (\<lambda>v. v \<noteq> None) (map (\<lambda>c. allowed_in c fld) cs))"

text \<open>Every set only narrows what the sets before it allow.\<close>

fun narrowing_chain :: "string list list \<Rightarrow> bool" where
  "narrowing_chain (a # b # rest) = (set b \<subseteq> set a \<and> narrowing_chain (b # rest))"
| "narrowing_chain _ = True"

lemma intersect_normal:
  assumes "normal_values cur" and "normal_values cand" and "set cand \<subseteq> set cur"
  shows "intersectValues cur cand = cand"
proof (rule sorted_distinct_set_unique)
  show "sorted (intersectValues cur cand)" "distinct (intersectValues cur cand)"
    using assms(1) by (simp_all add: intersectValues_def normal_values_def sorted_wrt_filter)
  show "sorted cand" "distinct cand" using assms(2) by (simp_all add: normal_values_def)
  show "set (intersectValues cur cand) = set cand" using assms(3) by (auto simp: intersectValues_def)
qed

lemma chain_append [simp]: "chain fld (cs @ ds) = chain fld cs @ chain fld ds"
  by (simp add: chain_def)

lemma chain_single:
  "chain fld [c] = (case allowed_in c fld of None \<Rightarrow> [] | Some vs \<Rightarrow> [vs])"
  by (simp add: chain_def split: option.splits)

lemma narrowing_chain_snoc:
  "narrowing_chain (as @ [b]) \<longleftrightarrow> narrowing_chain as \<and> (as = [] \<or> set b \<subseteq> set (last as))"
proof (induction as rule: narrowing_chain.induct)
  case (1 a b rest)
  then show ?case by (cases rest) auto
qed auto

lemma narrowing_chain_prefix: "narrowing_chain (as @ bs) \<Longrightarrow> narrowing_chain as"
proof (induction bs arbitrary: as)
  case (Cons b bs)
  from Cons.IH [of "as @ [b]"] Cons.prems show ?case by (simp add: narrowing_chain_snoc)
qed simp

lemma narrowing_chain_last:
  "narrowing_chain as \<Longrightarrow> as \<noteq> [] \<Longrightarrow> set (last as) = (\<Inter>a \<in> set as. set a)"
proof (induction as rule: narrowing_chain.induct)
  case (1 a b rest)
  then show ?case by auto
qed auto

lemma normal_set_allowed: "normal_set c \<Longrightarrow> allowed_in c fld = Some vs \<Longrightarrow> normal_values vs"
  by (auto simp: normal_set_def allowed_in_def list_all_iff dest!: map_of_SomeD)

lemma chain_normal: "list_all normal_set cs \<Longrightarrow> vs \<in> set (chain fld cs) \<Longrightarrow> normal_values vs"
  by (auto simp: chain_def list_all_iff normal_set_allowed)

text \<open>The effective constraints of a sequence of sets.\<close>

definition effective_of :: "ConstraintSet list \<Rightarrow> EffectiveConstraints" where
  "effective_of cs =
     \<lparr>ef_values = (\<lambda>fld. if chain fld cs = [] then None else Some (last (chain fld cs))),
      ef_sources = (\<lambda>fld. if chain fld cs = [] then None
        else Some (map cs_source (filter (\<lambda>c. allowed_in c fld \<noteq> None) cs)))\<rparr>"

lemma chain_Nil: "chain fld cs = [] \<longleftrightarrow> filter (\<lambda>c. allowed_in c fld \<noteq> None) cs = []"
  by (auto simp: chain_def filter_map comp_def filter_empty_conv)

text \<open>One source: every field it constrains must narrow what is there.\<close>

definition fields_narrow :: "(string \<times> string list) list \<Rightarrow> EffectiveConstraints \<Rightarrow> bool" where
  "fields_narrow fs e \<longleftrightarrow>
     (\<forall>fld vs cur. map_of fs fld = Some vs \<and> ef_values e fld = Some cur \<longrightarrow> set vs \<subseteq> set cur)"

definition narrowed :: "string \<Rightarrow> (string \<times> string list) list \<Rightarrow> EffectiveConstraints \<Rightarrow> EffectiveConstraints" where
  "narrowed source fs e =
     \<lparr>ef_values = (\<lambda>fld. case map_of fs fld of None \<Rightarrow> ef_values e fld | Some vs \<Rightarrow> Some vs),
      ef_sources = (\<lambda>fld. case map_of fs fld of None \<Rightarrow> ef_sources e fld
        | Some _ \<Rightarrow> (case ef_values e fld of None \<Rightarrow> Some [source]
            | Some _ \<Rightarrow> Some ((case ef_sources e fld of None \<Rightarrow> [] | Some ss \<Rightarrow> ss) @ [source])))\<rparr>"

lemma narrow_fields_closed:
  assumes "distinct (map fst fs)" and "list_all (\<lambda>(fld, vs). normal_values vs) fs"
    and "\<And>fld cur. ef_values e fld = Some cur \<Longrightarrow> normal_values cur"
  shows "narrow_fields source fs e = Inr e' \<longleftrightarrow> fields_narrow fs e \<and> e' = narrowed source fs e"
  using assms
proof (induction fs arbitrary: e)
  case Nil
  then show ?case by (auto simp: fields_narrow_def narrowed_def)
next
  case (Cons f fs)
  obtain fld vs where f: "f = (fld, vs)" by (cases f)
  have vs: "normal_values vs" "vs \<noteq> []" using Cons.prems(2) f by (auto simp: normal_values_def)
  have fresh: "map_of fs fld = None" using Cons.prems(1) f by (simp add: map_of_eq_None_iff)
  define ss where "ss = (case ef_values e fld of None \<Rightarrow> [source]
    | Some _ \<Rightarrow> (case ef_sources e fld of None \<Rightarrow> [] | Some ss \<Rightarrow> ss) @ [source])"
  define e1 where "e1 = \<lparr>ef_values = (ef_values e)(fld \<mapsto> vs), ef_sources = (ef_sources e)(fld \<mapsto> ss)\<rparr>"
  have step: "narrow_fields source (f # fs) e = Inr e' \<longleftrightarrow>
      (\<forall>cur. ef_values e fld = Some cur \<longrightarrow> set vs \<subseteq> set cur) \<and> narrow_fields source fs e1 = Inr e'"
    using Cons.prems(3) vs
    by (auto simp: f e1_def ss_def Let_def isSubset_def list_all_iff intersect_normal subset_iff
        split: option.splits)
  have IH: "narrow_fields source fs e1 = Inr e' \<longleftrightarrow> fields_narrow fs e1 \<and> e' = narrowed source fs e1"
    using Cons.prems vs by (intro Cons.IH) (auto simp: e1_def split: if_splits)
  have "fields_narrow (f # fs) e \<longleftrightarrow>
      (\<forall>cur. ef_values e fld = Some cur \<longrightarrow> set vs \<subseteq> set cur) \<and> fields_narrow fs e1"
    unfolding fields_narrow_def f e1_def using fresh by (simp split: if_splits) blast
  moreover have "narrowed source fs e1 = narrowed source (f # fs) e"
    using fresh by (auto simp: narrowed_def f e1_def ss_def fun_eq_iff split: option.splits)
  ultimately show ?case using step IH by simp
qed

lemma narrow_fields_effective:
  assumes "list_all normal_set cs" and "normal_set c" and "cs_values c = Some vals"
    and "\<And>fld. narrowing_chain (chain fld cs)"
  shows "narrow_fields (cs_source c) vals (effective_of cs) = Inr e' \<longleftrightarrow>
    (\<forall>fld. narrowing_chain (chain fld (cs @ [c]))) \<and> e' = effective_of (cs @ [c])"
proof -
  have a: "allowed_in c fld = map_of vals fld" for fld by (simp add: allowed_in_def assms(3))
  have n: "distinct (map fst vals)" "list_all (\<lambda>(fld, vs). normal_values vs) vals"
    using assms(2,3) by (auto simp: normal_set_def)
  have cur: "normal_values v" if "ef_values (effective_of cs) fld = Some v" for fld v
    using that chain_normal [OF assms(1), of v fld] by (auto simp: effective_of_def split: if_splits)
  have "fields_narrow vals (effective_of cs) \<longleftrightarrow> (\<forall>fld. narrowing_chain (chain fld (cs @ [c])))"
    using assms(4)
    by (auto simp: fields_narrow_def effective_of_def chain_single a narrowing_chain_snoc
        split: option.splits if_splits)
  moreover have "narrowed (cs_source c) vals (effective_of cs) = effective_of (cs @ [c])"
    by (auto simp: narrowed_def effective_of_def chain_single a fun_eq_iff chain_Nil split: option.splits)
  ultimately show ?thesis using narrow_fields_closed [OF n cur] by simp
qed

lemma narrow_all_effective:
  assumes "list_all normal_set (cs @ ns)" and "\<And>fld. narrowing_chain (chain fld cs)"
  shows "narrow_all ns (effective_of cs) = Inr e' \<longleftrightarrow>
    (\<forall>fld. narrowing_chain (chain fld (cs @ ns))) \<and> e' = effective_of (cs @ ns)"
  using assms
proof (induction ns arbitrary: cs)
  case (Cons c ns)
  from Cons.prems(1) obtain vals where c: "normal_set c" "cs_values c = Some vals" "validPolicySource (cs_source c)"
    by (auto simp: normal_set_def)
  note nf = narrow_fields_effective [OF _ c(1,2) Cons.prems(2)]
  show ?case
  proof (cases "\<forall>fld. narrowing_chain (chain fld (cs @ [c]))")
    case True
    then have "narrow_fields (cs_source c) vals (effective_of cs) = Inr (effective_of (cs @ [c]))"
      using nf Cons.prems(1) by simp
    moreover have "narrow_all ns (effective_of (cs @ [c])) = Inr e' \<longleftrightarrow>
        (\<forall>fld. narrowing_chain (chain fld ((cs @ [c]) @ ns))) \<and> e' = effective_of ((cs @ [c]) @ ns)"
      using True Cons.prems(1) by (intro Cons.IH) auto
    ultimately show ?thesis using c by simp
  next
    case False
    then have "\<nexists>e. narrow_fields (cs_source c) vals (effective_of cs) = Inr e"
      using nf Cons.prems(1) by simp
    then obtain err where "narrow_fields (cs_source c) vals (effective_of cs) = Inl err"
      by (cases "narrow_fields (cs_source c) vals (effective_of cs)") auto
    moreover have "\<not> (\<forall>fld. narrowing_chain (chain fld (cs @ c # ns)))"
      using False narrowing_chain_prefix by (metis append.assoc append_Cons append_Nil chain_append)
    ultimately show ?thesis using c by auto
  qed
qed auto
lemma Intersect_effective:
  assumes "list_all normal_set (b # ns)"
  shows "Intersect b ns = Inr e \<longleftrightarrow>
    (\<forall>fld. narrowing_chain (chain fld (b # ns))) \<and> e = effective_of (b # ns)"
proof -
  from assms obtain vals where b: "cs_values b = Some vals" "validPolicySource (cs_source b)"
    by (auto simp: normal_set_def)
  have "\<lparr>ef_values = map_of vals,
      ef_sources = (\<lambda>fld. if map_of vals fld = None then None else Some [cs_source b])\<rparr> = effective_of [b]"
    using b(1) by (auto simp: effective_of_def chain_single allowed_in_def fun_eq_iff split: option.splits)
  then have "Intersect b ns = narrow_all ns (effective_of [b])"
    using b by (simp add: Intersect_def)
  moreover have "narrowing_chain (chain fld [b])" for fld
    by (simp add: chain_single split: option.splits)
  ultimately show ?thesis using narrow_all_effective [of "[b]" ns e] assms by simp
qed

text \<open>C35: For sets made by NewConstraintSet the intersection succeeds exactly when, for every field,
  each source that constrains it allows only values all earlier sources allow; the effective values
  are then those of the last such source and the recorded sources are all of them in order.  So
  neither success nor the result depends on the order in which Go iterates over the maps.\<close>

theorem intersect_exact:
  assumes "list_all normal_set (b # ns)"
  shows "Intersect b ns = Inr e \<longleftrightarrow>
    (\<forall>fld. narrowing_chain (chain fld (b # ns))) \<and>
    (\<forall>fld. ef_values e fld = (if chain fld (b # ns) = [] then None else Some (last (chain fld (b # ns))))) \<and>
    (\<forall>fld. ef_sources e fld = (if chain fld (b # ns) = [] then None
       else Some (map cs_source (filter (\<lambda>c. allowed_in c fld \<noteq> None) (b # ns)))))"
  using Intersect_effective [OF assms] by (cases e) (auto simp: effective_of_def fun_eq_iff)

text \<open>The intersection is monotone: once it succeeds, a constrained field allows a value exactly
  when every source that constrains the field allows it, and some value stays allowed; no source can
  widen what another one authenticated.\<close>

theorem intersect_monotone:
  assumes "list_all normal_set (b # ns)" and "Intersect b ns = Inr e"
  shows "(\<exists>c \<in> set (b # ns). allowed_in c fld \<noteq> None) \<longrightarrow>
      (Allows e fld v \<longleftrightarrow> (\<forall>c \<in> set (b # ns). \<forall>vs. allowed_in c fld = Some vs \<longrightarrow> v \<in> set vs)) \<and>
      Allowed e fld \<noteq> []"
proof
  assume "\<exists>c \<in> set (b # ns). allowed_in c fld \<noteq> None"
  then have ne: "chain fld (b # ns) \<noteq> []" unfolding chain_Nil filter_empty_conv by blast
  from Intersect_effective [OF assms(1)] assms(2)
  have nc: "narrowing_chain (chain fld (b # ns))" and e: "e = effective_of (b # ns)" by auto
  have al: "Allowed e fld = last (chain fld (b # ns))" using ne by (simp add: Allowed_def e effective_of_def)
  have "Allows e fld v \<longleftrightarrow> (\<forall>vs \<in> set (chain fld (b # ns)). v \<in> set vs)"
    using narrowing_chain_last [OF nc ne] by (auto simp: Allows_def al)
  also have "\<dots> \<longleftrightarrow> (\<forall>c \<in> set (b # ns). \<forall>vs. allowed_in c fld = Some vs \<longrightarrow> v \<in> set vs)"
    by (auto simp: chain_def)
  finally show "(Allows e fld v \<longleftrightarrow>
      (\<forall>c \<in> set (b # ns). \<forall>vs. allowed_in c fld = Some vs \<longrightarrow> v \<in> set vs)) \<and> Allowed e fld \<noteq> []"
    using chain_normal [OF assms(1) last_in_set [OF ne]] by (simp add: al normal_values_def)
qed

definition example_baseline :: ConstraintSet where
  "example_baseline = \<lparr>cs_source = ''explicit-policy'', cs_values = Some [(''source.ref'', [''a'', ''b''])]\<rparr>"

definition example_narrower :: ConstraintSet where
  "example_narrower = \<lparr>cs_source = ''release-manifest'',
     cs_values = Some [(''producer.profile'', [''npm'']), (''source.ref'', [''b''])]\<rparr>"

lemma example_sets_normal: "list_all normal_set [example_baseline, example_narrower]"
  by (simp add: normal_set_def example_baseline_def example_narrower_def normal_values_def
      validPolicySource_def policy_source_values_def)

lemma example_intersect: "\<exists>e. Intersect example_baseline [example_narrower] = Inr e \<and> Allowed e ''source.ref'' = [''b'']"
  by (simp add: Intersect_def example_baseline_def example_narrower_def validPolicySource_def
      policy_source_values_def isSubset_def intersectValues_def Allowed_def Let_def)

lemma intersect_exact_witness:
  "\<exists>e :: EffectiveConstraints. ef_values e ''source.ref'' = Some [''b''] \<and> ef_values e ''producer.profile'' = Some [''npm''] \<and>
     ef_sources e ''source.ref'' = Some [''explicit-policy'', ''release-manifest'']"
proof -
  obtain e where e: "Intersect example_baseline [example_narrower] = Inr e" using example_intersect by blast
  have "ef_values e ''source.ref'' = Some [''b''] \<and> ef_values e ''producer.profile'' = Some [''npm''] \<and>
     ef_sources e ''source.ref'' = Some [''explicit-policy'', ''release-manifest'']"
    using intersect_exact [OF example_sets_normal, of e] e
    by (simp add: chain_def allowed_in_def example_baseline_def example_narrower_def)
  then show ?thesis by blast
qed

lemma intersect_monotone_witness:
  "\<exists>e. Intersect example_baseline [example_narrower] = Inr e \<and> Allows e ''source.ref'' ''b'' \<and>
     \<not> Allows e ''source.ref'' ''a''"
proof -
  obtain e where e: "Intersect example_baseline [example_narrower] = Inr e" using example_intersect by blast
  show ?thesis
    using intersect_monotone [OF example_sets_normal e, of "''source.ref''" "''a''"]
      intersect_monotone [OF example_sets_normal e, of "''source.ref''" "''b''"] e
    by (simp add: allowed_in_def example_baseline_def example_narrower_def)
qed

section \<open>Constraint sets of validated documents\<close>

lemma single_value [simp]: "v \<noteq> [] \<Longrightarrow> normalizeAllowed [v] = Inr [v]"
  by (simp add: normalizeAllowed_def)

lemmas field_defs = FieldProducerProfile_def FieldProducerWorkflowPath_def FieldProducerWorkflowSHA_def
  FieldProducerRunnerEnvironment_def FieldSourceRepositoryURI_def FieldSourceRepositoryID_def
  FieldSourceRepositoryOwnerID_def FieldSourceDigest_def FieldSourceRef_def

definition canonical_field :: "string \<Rightarrow> bool" where
  "canonical_field fld \<longleftrightarrow> fld \<noteq> [] \<and> TrimSpace fld = fld"

lemma canonical_fields:
  "list_all canonical_field [FieldProducerProfile, FieldProducerWorkflowPath, FieldProducerWorkflowSHA,
     FieldProducerRunnerEnvironment, FieldSourceRepositoryURI, FieldSourceRepositoryID,
     FieldSourceRepositoryOwnerID, FieldSourceDigest, FieldSourceRef]"
  by code_simp

text \<open>Single-valued constraints on distinct canonical fields always form a set.\<close>

lemma add_singles:
  assumes "list_all (\<lambda>(fld, v). canonical_field fld \<and> v \<noteq> []) kvs" and "distinct (map fst vals @ map fst kvs)"
  shows "add_constraints vals (map (\<lambda>(fld, v). single fld v) kvs) = Inr (vals @ map (\<lambda>(fld, v). (fld, [v])) kvs)"
  using assms
proof (induction kvs arbitrary: vals)
  case (Cons kv kvs)
  obtain fld v where kv: "kv = (fld, v)" by (cases kv)
  have "add_constraints (vals @ [(fld, [v])]) (map (\<lambda>(fld, v). single fld v) kvs) =
      Inr ((vals @ [(fld, [v])]) @ map (\<lambda>(fld, v). (fld, [v])) kvs)"
    using Cons.prems kv by (intro Cons.IH) auto
  then show ?case using Cons.prems kv by (simp add: single_def canonical_field_def)
qed simp

lemma trusted_singles:
  assumes "validPolicySource src" and "list_all (\<lambda>(fld, v). canonical_field fld \<and> v \<noteq> []) kvs"
    and "distinct (map fst kvs)"
  shows "trustedConstraintSet src (map (\<lambda>(fld, v). single fld v) kvs) =
    \<lparr>cs_source = src, cs_values = Some (map (\<lambda>(fld, v). (fld, [v])) kvs)\<rparr>"
  using assms add_singles [of kvs "[]"] by (simp add: trustedConstraintSet_def NewConstraintSet_def)

definition policy_pairs :: "ExplicitPolicy \<Rightarrow> (string \<times> string) list" where
  "policy_pairs policy =
     [(FieldProducerWorkflowPath, pp_WorkflowPath (ep_Producer policy)),
      (FieldProducerWorkflowSHA, pp_WorkflowSHA (ep_Producer policy)),
      (FieldProducerRunnerEnvironment, pp_RunnerEnvironment (ep_Producer policy)),
      (FieldSourceRepositoryURI, sp_RepositoryURI (ep_Source policy)),
      (FieldSourceRepositoryID, sp_RepositoryID (ep_Source policy)),
      (FieldSourceRepositoryOwnerID, sp_RepositoryOwnerID (ep_Source policy)),
      (FieldSourceDigest, sp_Digest (ep_Source policy)),
      (FieldSourceRef, sp_Ref (ep_Source policy))]"

lemma workflow_nonempty: "validateWorkflow path sha f = None \<Longrightarrow> path \<noteq> [] \<and> sha \<noteq> []"
  by (auto simp: validateWorkflow_def NewBuilderID_iff validWorkflowPath_def validFullSHA_nonempty
      CutPrefix_Some split: sum.splits option.splits)

lemma source_nonempty:
  "validateSourcePolicy s = None \<Longrightarrow> sp_RepositoryURI s \<noteq> [] \<and> sp_RepositoryID s \<noteq> [] \<and>
     sp_RepositoryOwnerID s \<noteq> [] \<and> sp_Digest s \<noteq> [] \<and> sp_Ref s \<noteq> []"
  by (auto simp: validateSourcePolicy_def ValidateCanonicalRepositoryURI_None canonical_uri_def
      canonicalGitHubBase_def ValidateFullSHA_def validFullSHA_def re_exactly_def ValidateReleaseRef_def
      validReleaseRef_def CutPrefix_Some simp del: not_None_eq split: if_splits option.splits)

lemma explicit_policy_pairs:
  assumes "validateExplicitPolicy policy = None"
  shows "list_all (\<lambda>(fld, v). canonical_field fld \<and> v \<noteq> []) (policy_pairs policy)"
  using assms canonical_fields source_nonempty [of "ep_Source policy"]
    workflow_nonempty [of "pp_WorkflowPath (ep_Producer policy)" "pp_WorkflowSHA (ep_Producer policy)" "''producer''"]
  by (auto simp: policy_pairs_def validateExplicitPolicy_def split: if_splits)

lemma policy_pairs_distinct: "distinct (map fst (policy_pairs policy))"
  by (simp add: policy_pairs_def field_defs)

lemma valid_sources [simp]: "validPolicySource ''explicit-policy''" "validPolicySource ''release-manifest''"
  by (simp_all add: validPolicySource_def policy_source_values_def)

lemma policy_constraints:
  assumes "validateExplicitPolicy policy = None"
  shows "policy_ProducerConstraints policy =
    \<lparr>cs_source = ''explicit-policy'', cs_values = Some (map (\<lambda>(fld, v). (fld, [v])) (policy_pairs policy))\<rparr>"
  using trusted_singles [OF _ explicit_policy_pairs [OF assms] policy_pairs_distinct, of "''explicit-policy''"]
  by (simp add: policy_ProducerConstraints_def policy_pairs_def)

definition expectation_pairs :: "ReleaseManifestExpectation \<Rightarrow> (string \<times> string) list" where
  "expectation_pairs e =
     [(FieldProducerProfile, pf_Profile (re_ProducerProfile e)),
      (FieldProducerWorkflowPath, pf_WorkflowPath (re_ProducerProfile e)),
      (FieldProducerWorkflowSHA, pf_WorkflowSHA (re_ProducerProfile e))]"

lemma expectation_pairs_ok:
  assumes "validateReleaseManifestExpectation e profiles = None"
  shows "list_all (\<lambda>(fld, v). canonical_field fld \<and> v \<noteq> []) (expectation_pairs e) \<and>
    distinct (map fst (expectation_pairs e))"
proof -
  have "pf_Profile (re_ProducerProfile e) \<noteq> []"
    "validateWorkflow (pf_WorkflowPath (re_ProducerProfile e)) (pf_WorkflowSHA (re_ProducerProfile e)) ''producer_profile'' = None"
    using assms by (auto simp: validateReleaseManifestExpectation_def Let_def split: if_splits option.splits)
  then have "list_all (\<lambda>(fld, v). canonical_field fld \<and> v \<noteq> []) (expectation_pairs e)"
    using canonical_fields workflow_nonempty by (auto simp: expectation_pairs_def)
  moreover have "distinct (map fst (expectation_pairs e))" by (simp add: expectation_pairs_def field_defs)
  ultimately show ?thesis by blast
qed

lemma expectation_constraints:
  assumes "validateReleaseManifestExpectation e profiles = None"
  shows "expectation_ProducerConstraints e =
    \<lparr>cs_source = ''release-manifest'', cs_values = Some (map (\<lambda>(fld, v). (fld, [v])) (expectation_pairs e))\<rparr>"
  using trusted_singles [of "''release-manifest''" "expectation_pairs e"] expectation_pairs_ok [OF assms]
  by (simp add: expectation_ProducerConstraints_def expectation_pairs_def Let_def)

lemma singles_normal:
  assumes "validPolicySource src" and "list_all (\<lambda>(fld, v). canonical_field fld \<and> v \<noteq> []) kvs"
    and "distinct (map fst kvs)"
  shows "normal_set \<lparr>cs_source = src, cs_values = Some (map (\<lambda>(fld, v). (fld, [v])) kvs)\<rparr>"
  using assms by (auto simp: normal_set_def normal_values_def list_all_iff comp_def case_prod_beta)

lemma expectation_normal:
  assumes "validateReleaseManifestExpectation e profiles = None"
  shows "normal_set (expectation_ProducerConstraints e)"
  using singles_normal [OF valid_sources(2)] expectation_pairs_ok [OF assms]
  by (simp add: expectation_constraints [OF assms])

text \<open>The constraints of a validated policy are never lost: although a failure to build them is
  silently turned into the empty constraint set, that cannot happen for a policy the validator
  accepted, and the set pins all eight producer and source fields to the policy's own values.\<close>

theorem policy_constraints_complete:
  assumes "validateExplicitPolicy policy = None"
  shows "normal_set (policy_ProducerConstraints policy) \<and>
    cs_values (policy_ProducerConstraints policy) = Some (map (\<lambda>(fld, v). (fld, [v])) (policy_pairs policy))"
  using singles_normal [OF valid_sources(1) explicit_policy_pairs [OF assms] policy_pairs_distinct]
  by (simp add: policy_constraints [OF assms])

definition example_policy_document :: ExplicitPolicy where
  "example_policy_document = \<lparr>ep_SchemaVersion = ''1'',
     ep_Source = \<lparr>sp_RepositoryURI = ''https://github.com/o/r'', sp_RepositoryID = ''1'',
       sp_RepositoryOwnerID = ''2'', sp_Digest = replicate 40 (CHR ''a''), sp_Ref = ''refs/tags/v1''\<rparr>,
     ep_Producer = \<lparr>pp_WorkflowPath = ''.github/workflows/b.yml'', pp_WorkflowSHA = replicate 40 (CHR ''b''),
       pp_RunnerEnvironment = ''github-hosted''\<rparr>,
     ep_TrustRoot = \<lparr>tr_Mode = ''tuf'', tr_Instance = ''sigstore-public-good'', tr_Path = None,
       tr_SHA256 = None, tr_TUFRepository = None, tr_RevalidatedAt = None, tr_RefreshBefore = None\<rparr>\<rparr>"

definition example_expectation :: ReleaseManifestExpectation where
  "example_expectation = \<lparr>re_SchemaVersion = ''1'',
     re_ReleaseManifest = \<lparr>rm_SourceRepositoryURI = ''https://github.com/o/r'', rm_SourceRepositoryID = ''1'',
       rm_SourceRepositoryOwnerID = ''2'', rm_WorkflowPath = ''.github/workflows/m.yml'',
       rm_WorkflowSHA = replicate 40 (CHR ''c'')\<rparr>,
     re_ProducerProfile = \<lparr>pf_Profile = ''npm'', pf_WorkflowPath = ''.github/workflows/b.yml'',
       pf_WorkflowSHA = replicate 40 (CHR ''b'')\<rparr>\<rparr>"

lemma example_documents_valid:
  "validateExplicitPolicy example_policy_document = None"
  "validateReleaseManifestExpectation example_expectation (Some (\<lambda>p. p = ''npm'')) = None"
  by code_simp+

lemma policy_constraints_complete_witness:
  "normal_set (policy_ProducerConstraints example_policy_document)"
  using policy_constraints_complete [OF example_documents_valid(1)] by blast

lemma pair_lookups:
  "map_of (policy_pairs policy) FieldProducerWorkflowPath = Some (pp_WorkflowPath (ep_Producer policy))"
  "map_of (policy_pairs policy) FieldProducerWorkflowSHA = Some (pp_WorkflowSHA (ep_Producer policy))"
  "map_of (policy_pairs policy) FieldProducerProfile = None"
  "map_of (policy_pairs policy) FieldSourceRef = Some (sp_Ref (ep_Source policy))"
  "map_of (expectation_pairs e) FieldProducerWorkflowPath = Some (pf_WorkflowPath (re_ProducerProfile e))"
  "map_of (expectation_pairs e) FieldProducerWorkflowSHA = Some (pf_WorkflowSHA (re_ProducerProfile e))"
  "map_of (expectation_pairs e) FieldProducerProfile = Some (pf_Profile (re_ProducerProfile e))"
  "map_of (expectation_pairs e) FieldSourceRef = None"
  by (simp_all add: policy_pairs_def expectation_pairs_def field_defs)

text \<open>A validated policy and a validated manifest expectation intersect exactly when they name the
  same producer workflow path and revision; the expectation's profile is then the only value left for
  the profile field.\<close>

theorem policy_expectation_intersect:
  assumes "validateExplicitPolicy policy = None" and "validateReleaseManifestExpectation e profiles = None"
  shows "((\<exists>eff. Intersect (policy_ProducerConstraints policy) [expectation_ProducerConstraints e] = Inr eff) \<longleftrightarrow>
      pp_WorkflowPath (ep_Producer policy) = pf_WorkflowPath (re_ProducerProfile e) \<and>
      pp_WorkflowSHA (ep_Producer policy) = pf_WorkflowSHA (re_ProducerProfile e)) \<and>
    (\<forall>eff. Intersect (policy_ProducerConstraints policy) [expectation_ProducerConstraints e] = Inr eff \<longrightarrow>
      Allowed eff FieldProducerProfile = [pf_Profile (re_ProducerProfile e)] \<and>
      Allowed eff FieldSourceRef = [sp_Ref (ep_Source policy)])"
proof -
  let ?p = "policy_ProducerConstraints policy" and ?e = "expectation_ProducerConstraints e"
  have n: "list_all normal_set [?p, ?e]"
    using singles_normal [OF valid_sources(1) explicit_policy_pairs [OF assms(1)] policy_pairs_distinct]
      expectation_normal [OF assms(2)]
    by (simp add: policy_constraints [OF assms(1)])
  have ap: "allowed_in ?p fld = map_option (\<lambda>v. [v]) (map_of (policy_pairs policy) fld)" for fld
    by (simp add: allowed_in_def policy_constraints [OF assms(1)] map_of_map case_prod_beta)
  have ae: "allowed_in ?e fld = map_option (\<lambda>v. [v]) (map_of (expectation_pairs e) fld)" for fld
    by (simp add: allowed_in_def expectation_constraints [OF assms(2)] map_of_map case_prod_beta)
  have nc: "(\<forall>fld. narrowing_chain (chain fld [?p, ?e])) \<longleftrightarrow>
      (\<forall>fld a b. map_of (policy_pairs policy) fld = Some a \<and> map_of (expectation_pairs e) fld = Some b \<longrightarrow> a = b)"
    by (auto simp: chain_def ap ae split: option.splits) metis
  also have "\<dots> \<longleftrightarrow> pp_WorkflowPath (ep_Producer policy) = pf_WorkflowPath (re_ProducerProfile e) \<and>
      pp_WorkflowSHA (ep_Producer policy) = pf_WorkflowSHA (re_ProducerProfile e)" (is "?l \<longleftrightarrow> ?r")
  proof
    assume ?l
    then show ?r using pair_lookups by blast
  next
    assume r: ?r
    show ?l
    proof (intro allI impI)
      fix fld a b
      assume h: "map_of (policy_pairs policy) fld = Some a \<and> map_of (expectation_pairs e) fld = Some b"
      then have "(fld, b) \<in> set (expectation_pairs e)" by (auto dest: map_of_SomeD)
      then have "fld = FieldProducerProfile \<or> fld = FieldProducerWorkflowPath \<or> fld = FieldProducerWorkflowSHA"
        by (auto simp: expectation_pairs_def)
      then show "a = b" using h r pair_lookups by auto
    qed
  qed
  finally have "(\<exists>eff. Intersect ?p [?e] = Inr eff) \<longleftrightarrow>
      pp_WorkflowPath (ep_Producer policy) = pf_WorkflowPath (re_ProducerProfile e) \<and>
      pp_WorkflowSHA (ep_Producer policy) = pf_WorkflowSHA (re_ProducerProfile e)"
    using Intersect_effective [OF n] by auto
  moreover have "Allowed (effective_of [?p, ?e]) FieldProducerProfile = [pf_Profile (re_ProducerProfile e)]"
    "Allowed (effective_of [?p, ?e]) FieldSourceRef = [sp_Ref (ep_Source policy)]"
    by (simp_all add: Allowed_def effective_of_def chain_def ap ae pair_lookups)
  moreover have "eff = effective_of [?p, ?e]" if "Intersect ?p [?e] = Inr eff" for eff
    using Intersect_effective [OF n, of eff] that by simp
  ultimately show ?thesis by metis
qed

lemma policy_expectation_intersect_witness:
  "\<exists>eff. Intersect (policy_ProducerConstraints example_policy_document)
     [expectation_ProducerConstraints example_expectation] = Inr eff"
  using policy_expectation_intersect [OF example_documents_valid]
  by (simp add: example_policy_document_def example_expectation_def)

section \<open>How closed the decoding is\<close>

lemma find_field_folded:
  assumes "m \<notin> fst ` set fs" and "m' \<notin> fst ` set fs" and "foldName m = foldName m'"
  shows "find_field fs m = find_field fs m'"
  using assms by (simp add: find_field_def map_of_eq_None_iff [THEN iffD2])

definition zero_source :: SourcePolicy where
  "zero_source = ep_Source zero_policy"

definition variant_document :: string where
  "variant_document = ''{'' @ quote ''ref'' @ '':'' @ quote ''a'' @ '','' @ quote ''Ref'' @ '':'' @ quote ''b'' @ ''}''"

text \<open>Decoding a closed policy schema is open to case variants of a member name: a document in
  which ref and Ref both occur passes the duplicate check, is accepted, and the later one decides the
  field, since encoding/json matches names up to case.\<close>

theorem closed_decoding_case_variants:
  "Validate variant_document = None \<and>
   decodeClosed source_fields zero_source variant_document = Inr (zero_source\<lparr>sp_Ref := ''b''\<rparr>)"
  by (rule conjI; code_simp)

end
