(* ===== verification/Provenance.thy ===== *)
theory Provenance
  imports Decode Diagnostic Identity Digest
begin

text \<open>
  internal/provenance: the common part of a SLSA provenance v1 statement (model.go) and its
  structural validation (validate.go).  The profile's semantic checks are an interface of the code
  and a record of functions here; the JCS transformer is a parameter.  A json.RawMessage is its
  text.  Decoding a statement from JSON is in StatementJson.
\<close>

section \<open>Statements\<close>

definition StatementType :: string where "StatementType = ''https://in-toto.io/Statement/v1''"
definition PredicateType :: string where "PredicateType = ''https://slsa.dev/provenance/v1''"

record Subject =
  sj_Name :: string
  sj_Digest :: "(string \<times> string) list"

record ResourceDescriptor =
  rd_Name :: string
  rd_URI :: string
  rd_Digest :: "(string \<times> string) list"
  rd_Annotations :: "(string \<times> string) list"
  rd_hasUnexpectedFields :: bool

record BuildDefinition =
  bd_BuildType :: string
  bd_ExternalParameters :: string
  bd_InternalParameters :: string
  bd_ResolvedDependencies :: "ResourceDescriptor list"

record BuilderDependency =
  dep_URI :: string
  dep_Digest :: "(string \<times> string) list"
  dep_Annotations :: "(string \<times> string) list"

record Builder =
  b_ID :: string
  b_Version :: "(string \<times> string) list"
  b_Dependencies :: "BuilderDependency list"

record Metadata =
  m_InvocationID :: string
  m_StartedOn :: string
  m_FinishedOn :: string

record Statement =
  st_Type :: string
  st_Subject :: "Subject list"
  st_PredicateType :: string
  st_BuildDefinition :: BuildDefinition
  st_Builder :: Builder
  st_Metadata :: Metadata

definition Subject_SHA256 :: "Subject \<Rightarrow> SHA256 option result" where
  "Subject_SHA256 subject =
     (case map_of (sj_Digest subject) ''sha256'' of
        None \<Rightarrow> Inr None
      | Some encoded \<Rightarrow>
          (case ParseSHA256 encoded of
             Inl err \<Rightarrow> Inl (ErrWrap ''subject sha256: %w'' [] [err])
           | Inr parsed \<Rightarrow> Inr (Some parsed)))"

definition Subject_SHA512 :: "Subject \<Rightarrow> SHA512 option result" where
  "Subject_SHA512 subject =
     (case map_of (sj_Digest subject) ''sha512'' of
        None \<Rightarrow> Inr None
      | Some encoded \<Rightarrow>
          (case ParseSHA512 encoded of
             Inl err \<Rightarrow> Inl (ErrWrap ''subject sha512: %w'' [] [err])
           | Inr parsed \<Rightarrow> Inr (Some parsed)))"

section \<open>Expectations and errors\<close>

record BuilderExpectations =
  be_NodeJSVersion :: string
  be_CorepackVersion :: "string option"

record Expectations =
  ex_SourceRepositoryURI :: string
  ex_Builder :: BuilderExpectations

record ProfileValidator =
  ValidateSubject :: "Subject \<Rightarrow> go_error option"
  ValidateExternalParameters :: "string \<Rightarrow> go_error option"
  ValidateResolvedDependencies :: "ResourceDescriptor list \<Rightarrow> go_error option"

definition idStatementTypeInvalid :: string where
  "idStatementTypeInvalid = ''windlass.verify.error.statement-type-invalid''"
definition idPredicateTypeInvalid :: string where
  "idPredicateTypeInvalid = ''windlass.verify.error.predicate-type-invalid''"
definition idUnexpectedInternalParameters :: string where
  "idUnexpectedInternalParameters = ''windlass.verify.error.unexpected-internal-parameters''"
definition idSubjectCardinalityInvalid :: string where
  "idSubjectCardinalityInvalid = ''windlass.verify.error.subject-cardinality-invalid''"
definition idTimestampFormatInvalid :: string where
  "idTimestampFormatInvalid = ''windlass.verify.error.timestamp-format-invalid''"
definition idTimestampOrderingInvalid :: string where
  "idTimestampOrderingInvalid = ''windlass.verify.error.timestamp-ordering-invalid''"
definition idBuilderVersionMismatch :: string where
  "idBuilderVersionMismatch = ''windlass.verify.error.builder-version-mismatch''"
definition idBuilderDependenciesMismatch :: string where
  "idBuilderDependenciesMismatch = ''windlass.verify.error.builder-dependencies-signing-adapter-mismatch''"
definition IDTimestampClockSkew :: string where
  "IDTimestampClockSkew = ''windlass.verify.warning.timestamp-clock-skew''"

definition signingAdapterURI :: string where
  "signingAdapterURI = ''pkg:golang/github.com/sigstore/sigstore-go@v1.3.0''"
definition signingAdapterDigest :: string where
  "signingAdapterDigest = ''hnIMHREyCNTYFtOE1o7ae3Axa9B5W5EjUSBJICP2NBE=''"

definition provenanceError :: "string \<Rightarrow> string \<Rightarrow> string \<Rightarrow> go_error" where
  "provenanceError ident field message =
     (case New Inr ident field message of
        Inl err \<Rightarrow> ErrWrap ''construct provenance diagnostic %q: %w'' [ident] [err]
      | Inr entry \<Rightarrow> ErrDiag KProvenance (dg_ID entry) field (dg_Message entry) [] [])"

section \<open>Component versions\<close>

text \<open>The dot-separated identifiers of a pre-release or build suffix.\<close>

definition identifier_char :: "char \<Rightarrow> bool" where
  "identifier_char c \<longleftrightarrow> is_alnum c \<or> c = CHR ''-''"

definition dotted_identifiers :: "string \<Rightarrow> bool" where
  "dotted_identifiers s = list_all (re_plus identifier_char) (split_on (CHR ''.'') s)"

text \<open>componentVersionPattern and nodeVersionPattern.\<close>

definition component_version :: "string \<Rightarrow> bool" where
  "component_version s =
     (let (main, build) = (case Cut s ''+'' of None \<Rightarrow> (s, None) | Some (m, b) \<Rightarrow> (m, Some b));
          (core, pre) = (case Cut main ''-'' of None \<Rightarrow> (main, None) | Some (c, p) \<Rightarrow> (c, Some p))
      in re_three_part core \<and> (case pre of None \<Rightarrow> True | Some p \<Rightarrow> dotted_identifiers p)
         \<and> (case build of None \<Rightarrow> True | Some b \<Rightarrow> dotted_identifiers b))"

definition node_version :: "string \<Rightarrow> bool" where
  "node_version s = (case s of c # cs \<Rightarrow> c = CHR ''v'' \<and> component_version cs | [] \<Rightarrow> False)"

section \<open>Checks\<close>

definition validateInternalParameters :: "(string \<Rightarrow> string result) \<Rightarrow> string \<Rightarrow> go_error option" where
  "validateInternalParameters transform parameters =
     (if parameters = [] then None
      else
        (let bad = Some (provenanceError idUnexpectedInternalParameters
               ''predicate.buildDefinition.internalParameters''
               ''internalParameters must be absent, null, or the empty object'')
         in case Canonicalize transform parameters of
              Inl _ \<Rightarrow> bad
            | Inr canonical \<Rightarrow> if canonical \<noteq> ''{}'' \<and> canonical \<noteq> ''null'' then bad else None))"

definition validateBuilderVersion :: "(string \<times> string) list \<Rightarrow> BuilderExpectations \<Rightarrow> go_error option" where
  "validateBuilderVersion version expected =
     (let wantKeys = (if be_CorepackVersion expected \<noteq> None then 2 else 1);
          nodeVersion = map_of version ''nodejs'';
          corepackVersion = map_of version ''corepack''
      in if length version \<noteq> wantKeys \<or> nodeVersion = None \<or> \<not> node_version (the nodeVersion)
            \<or> \<not> node_version (be_NodeJSVersion expected) \<or> the nodeVersion \<noteq> be_NodeJSVersion expected then
           Some (provenanceError idBuilderVersionMismatch ''predicate.runDetails.builder.version''
             ''builder.version must contain the exact observed nodejs and conditional corepack versions'')
         else case be_CorepackVersion expected of
           None \<Rightarrow>
             if corepackVersion \<noteq> None then
               Some (provenanceError idBuilderVersionMismatch ''predicate.runDetails.builder.version.corepack''
                 ''corepack must be absent when it did not supply the package manager'')
             else None
         | Some want \<Rightarrow>
             if corepackVersion = None \<or> \<not> component_version (the corepackVersion)
                \<or> \<not> component_version want \<or> the corepackVersion \<noteq> want then
               Some (provenanceError idBuilderVersionMismatch ''predicate.runDetails.builder.version.corepack''
                 ''corepack must equal the exact observed version'')
             else None)"

text \<open>\<open>m[key]\<close> on a map of strings is the empty string for an absent key.\<close>

definition string_at :: "(string \<times> string) list \<Rightarrow> string \<Rightarrow> string" where
  "string_at m key = (case map_of m key of None \<Rightarrow> [] | Some v \<Rightarrow> v)"

definition validateBuilderDependencies :: "BuilderDependency list \<Rightarrow> go_error option" where
  "validateBuilderDependencies dependencies =
     (case dependencies of
        [dependency] \<Rightarrow>
          if dep_URI dependency \<noteq> signingAdapterURI \<or> length (dep_Digest dependency) \<noteq> 1
             \<or> string_at (dep_Digest dependency) ''h1'' \<noteq> signingAdapterDigest
             \<or> length (dep_Annotations dependency) \<noteq> 1
             \<or> string_at (dep_Annotations dependency) ''role'' \<noteq> ''signing-adapter'' then
            Some (provenanceError idBuilderDependenciesMismatch
              ''predicate.runDetails.builder.builderDependencies[0]''
              ''sigstore-go signing adapter URI, module digest, and role must match'')
          else None
      | _ \<Rightarrow> Some (provenanceError idBuilderDependenciesMismatch
               ''predicate.runDetails.builder.builderDependencies''
               ''builderDependencies must contain exactly one signing adapter''))"

definition validateBuilder :: "Builder \<Rightarrow> BuilderExpectations \<Rightarrow> go_error option" where
  "validateBuilder builder expected =
     and_then (validateBuilderVersion (b_Version builder) expected)
       (validateBuilderDependencies (b_Dependencies builder))"

definition parseCanonicalTimestamp :: "string \<Rightarrow> int option" where
  "parseCanonicalTimestamp text = parse_utc text"

definition maximumAcceptedNegativeClockSkew :: int where
  "maximumAcceptedNegativeClockSkew = 5"

text \<open>Times are whole seconds, so the duration is their difference (Go saturates it beyond 292
  years, on the same side of both bounds).\<close>

definition validateTimestamps :: "Metadata \<Rightarrow> Diagnostic list result" where
  "validateTimestamps metadata =
     (case parseCanonicalTimestamp (m_StartedOn metadata) of
        None \<Rightarrow> Inl (provenanceError idTimestampFormatInvalid ''predicate.runDetails.metadata.startedOn''
                  ''startedOn must use whole-second UTC RFC 3339'')
      | Some started \<Rightarrow>
          (case parseCanonicalTimestamp (m_FinishedOn metadata) of
             None \<Rightarrow> Inl (provenanceError idTimestampFormatInvalid
                       ''predicate.runDetails.metadata.finishedOn''
                       ''finishedOn must use whole-second UTC RFC 3339'')
           | Some finished \<Rightarrow>
               (let duration = finished - started in
                if duration < - maximumAcceptedNegativeClockSkew then
                  Inl (provenanceError idTimestampOrderingInvalid
                    ''predicate.runDetails.metadata.finishedOn''
                    ''finishedOn precedes startedOn beyond the five-second tolerance'')
                else if duration < 0 then
                  (case New Inr IDTimestampClockSkew ''predicate.runDetails.metadata''
                          ''A bounded timestamp clock skew was observed.'' of
                     Inl err \<Rightarrow> Inl (ErrWrap ''construct timestamp warning: %w'' [] [err])
                   | Inr warning \<Rightarrow>
                       Inr [warning\<lparr>dg_Field := ''predicate.runDetails.metadata.finishedOn''\<rparr>])
                else Inr [])))"

text \<open>Statement.Validate; the clones it hands to the profile are equal to the originals.\<close>

definition run_profile :: "ProfileValidator option \<Rightarrow> Statement \<Rightarrow> go_error option" where
  "run_profile profile statement =
     (case profile of
        None \<Rightarrow> None
      | Some p \<Rightarrow>
          and_then (ValidateSubject p (hd (st_Subject statement)))
          (and_then (ValidateExternalParameters p (bd_ExternalParameters (st_BuildDefinition statement)))
          (ValidateResolvedDependencies p (bd_ResolvedDependencies (st_BuildDefinition statement)))))"

definition Statement_Validate ::
  "(string \<Rightarrow> string result) \<Rightarrow> Statement \<Rightarrow> Expectations \<Rightarrow> ProfileValidator option
   \<Rightarrow> Diagnostic list result" where
  "Statement_Validate transform statement expectations profile =
     (if st_Type statement \<noteq> StatementType then
        Inl (provenanceError idStatementTypeInvalid ''_type'' ''Statement type must be in-toto Statement v1'')
      else if st_PredicateType statement \<noteq> PredicateType then
        Inl (provenanceError idPredicateTypeInvalid ''predicateType''
          ''predicate type must be SLSA provenance v1'')
      else if length (st_Subject statement) \<noteq> 1 then
        Inl (provenanceError idSubjectCardinalityInvalid ''subject''
          ''Statement must contain exactly one subject'')
      else
        guarded (validateInternalParameters transform (bd_InternalParameters (st_BuildDefinition statement)))
        (guarded (validateBuilder (st_Builder statement) (ex_Builder expectations))
        (case ParseRunInvocationURI (m_InvocationID (st_Metadata statement))
                (ex_SourceRepositoryURI expectations) of
           Inl err \<Rightarrow> Inl err
         | Inr _ \<Rightarrow>
             (case validateTimestamps (st_Metadata statement) of
                Inl err \<Rightarrow> Inl err
              | Inr diagnostics \<Rightarrow>
                  guarded (run_profile profile statement) (Inr diagnostics)))))"

section \<open>Timestamps\<close>

lemma clock_skew_id: "IDTimestampClockSkew = warning_id ''timestamp-clock-skew''"
  by (simp add: IDTimestampClockSkew_def warning_id_def)

definition clock_skew_warning :: Diagnostic where
  "clock_skew_warning =
     \<lparr>dg_ID = IDTimestampClockSkew, dg_Severity = SeverityWarning, dg_Category = ''timestamp-clock-skew'',
      dg_Check = ''predicate.runDetails.metadata'',
      dg_Message = ''A bounded timestamp clock skew was observed.'',
      dg_Field = ''predicate.runDetails.metadata.finishedOn'', dg_Expected = None, dg_Actual = None,
      dg_PolicySources = [], dg_Evidence = []\<rparr>"

lemma clock_skew_new:
  "map_result (\<lambda>w. w\<lparr>dg_Field := ''predicate.runDetails.metadata.finishedOn''\<rparr>)
     (New Inr IDTimestampClockSkew ''predicate.runDetails.metadata''
       ''A bounded timestamp clock skew was observed.'') = Inr clock_skew_warning"
proof -
  have u: "utf8_valid ''predicate.runDetails.metadata''"
    "utf8_valid ''A bounded timestamp clock skew was observed.''"
    by code_simp+
  show ?thesis
    by (simp add: New_def clock_skew_id example_lookup(2) base_warning_def validateDiagnostic_def u
        validateOptionalJSON_def clock_skew_warning_def Let_def)
qed

text \<open>The timestamps of a statement are accepted exactly when both are canonical whole-second UTC
  times and finishedOn does not precede startedOn by more than five seconds; a finish one to five
  seconds early yields exactly the clock-skew warning, any other accepted pair yields none.\<close>

theorem timestamps_exact:
  "validateTimestamps md = Inr ds \<longleftrightarrow>
     (\<exists>s f. parse_utc (m_StartedOn md) = Some s \<and> parse_utc (m_FinishedOn md) = Some f \<and>
        s \<le> f + 5 \<and> ds = (if f < s then [clock_skew_warning] else []))"
proof (cases "parse_utc (m_StartedOn md)"; cases "parse_utc (m_FinishedOn md)")
  fix s f
  assume p: "parse_utc (m_StartedOn md) = Some s" "parse_utc (m_FinishedOn md) = Some f"
  show ?thesis
    using clock_skew_new
    by (auto simp: validateTimestamps_def parseCanonicalTimestamp_def p Let_def
        maximumAcceptedNegativeClockSkew_def split: sum.splits)
qed (auto simp: validateTimestamps_def parseCanonicalTimestamp_def)

text \<open>The builder's versions are those observed: Node.js, with Corepack where it supplied the package manager, and nothing else.\<close>

definition versions_observed :: "(string \<times> string) list \<Rightarrow> BuilderExpectations \<Rightarrow> bool" where
  "versions_observed version expected \<longleftrightarrow>
     (\<exists>number. be_NodeJSVersion expected = ''v'' @ number \<and> component_version number) \<and>
     (case be_CorepackVersion expected of
        None \<Rightarrow> version = [(''nodejs'', be_NodeJSVersion expected)]
      | Some corepack \<Rightarrow> component_version corepack \<and>
          (version = [(''nodejs'', be_NodeJSVersion expected), (''corepack'', corepack)] \<or>
           version = [(''corepack'', corepack), (''nodejs'', be_NodeJSVersion expected)]))"

lemma two_entries:
  assumes "a \<noteq> b"
  shows "length m = 2 \<and> map_of m a = Some x \<and> map_of m b = Some y \<longleftrightarrow> m = [(a, x), (b, y)] \<or> m = [(b, y), (a, x)]"
proof
  assume m: "length m = 2 \<and> map_of m a = Some x \<and> map_of m b = Some y"
  then obtain p q where "m = [p, q]" by (auto simp: numeral_2_eq_2 length_Suc_conv)
  with m assms show "m = [(a, x), (b, y)] \<or> m = [(b, y), (a, x)]" by (cases p; cases q) (auto split: if_splits)
qed (use assms in auto)

lemma one_entry: "length m = Suc 0 \<and> map_of m a = Some x \<longleftrightarrow> m = [(a, x)]"
  by (cases m) (auto split: if_splits)

lemma node_version_iff: "node_version s \<longleftrightarrow> (\<exists>number. s = ''v'' @ number \<and> component_version number)"
  by (cases s) (auto simp: node_version_def)

lemma validateBuilderVersion_None: "validateBuilderVersion version expected = None \<longleftrightarrow> versions_observed version expected"
proof (cases "be_CorepackVersion expected")
  case None
  have "validateBuilderVersion version expected = None \<longleftrightarrow>
      (length version = Suc 0 \<and> map_of version ''nodejs'' = Some (be_NodeJSVersion expected)) \<and>
      node_version (be_NodeJSVersion expected) \<and> map_of version ''corepack'' = None"
    using None by (auto simp: validateBuilderVersion_def Let_def)
  then show ?thesis using None by (auto simp: versions_observed_def one_entry node_version_iff)
next
  case (Some corepack)
  have "validateBuilderVersion version expected = None \<longleftrightarrow>
      (length version = 2 \<and> map_of version ''nodejs'' = Some (be_NodeJSVersion expected) \<and> map_of version ''corepack'' = Some corepack) \<and>
      node_version (be_NodeJSVersion expected) \<and> component_version corepack"
    using Some by (auto simp: validateBuilderVersion_def Let_def)
  then show ?thesis using Some by (simp add: versions_observed_def two_entries node_version_iff) blast
qed

lemma validateInternalParameters_None:
  "validateInternalParameters transform parameters = None \<longleftrightarrow>
     parameters = [] \<or> Canonicalize transform parameters = Inr ''{}'' \<or> Canonicalize transform parameters = Inr ''null''"
  by (auto simp: validateInternalParameters_def Let_def split: sum.splits)

text \<open>C36: Statement validation accepts exactly the statements of the common contract: the two type URIs; one subject;
  internal parameters that are absent, the empty object or null; exactly the observed builder versions, well formed; the
  single pinned signing adapter; a run invocation of the expected repository; timestamps that are whole-second UTC times,
  the end at most five seconds before the start; and where there is a profile, its checks of the subject, of the
  external parameters and of the resolved dependencies all pass.  The only diagnostic it returns is the warning of an end
  before the start.\<close>

theorem statement_validate_exact:
  "Statement_Validate transform st ex profile = Inr ds \<longleftrightarrow>
     st_Type st = ''https://in-toto.io/Statement/v1'' \<and> st_PredicateType st = ''https://slsa.dev/provenance/v1'' \<and>
     (\<exists>subject. st_Subject st = [subject] \<and>
        (case profile of
           None \<Rightarrow> True
         | Some p \<Rightarrow> ValidateSubject p subject = None \<and>
             ValidateExternalParameters p (bd_ExternalParameters (st_BuildDefinition st)) = None \<and>
             ValidateResolvedDependencies p (bd_ResolvedDependencies (st_BuildDefinition st)) = None)) \<and>
     (bd_InternalParameters (st_BuildDefinition st) = [] \<or>
      Canonicalize transform (bd_InternalParameters (st_BuildDefinition st)) = Inr ''{}'' \<or>
      Canonicalize transform (bd_InternalParameters (st_BuildDefinition st)) = Inr ''null'') \<and>
     versions_observed (b_Version (st_Builder st)) (ex_Builder ex) \<and>
     (\<exists>dep. b_Dependencies (st_Builder st) = [dep] \<and>
        dep_URI dep = ''pkg:golang/github.com/sigstore/sigstore-go@v1.3.0'' \<and>
        dep_Digest dep = [(''h1'', ''hnIMHREyCNTYFtOE1o7ae3Axa9B5W5EjUSBJICP2NBE='')] \<and>
        dep_Annotations dep = [(''role'', ''signing-adapter'')]) \<and>
     (\<exists>runID attempt. NewRunInvocationURI (ex_SourceRepositoryURI ex) runID attempt =
        Inr (m_InvocationID (st_Metadata st))) \<and>
     (\<exists>started finished. parse_utc (m_StartedOn (st_Metadata st)) = Some started \<and>
        parse_utc (m_FinishedOn (st_Metadata st)) = Some finished \<and> started \<le> finished + 5 \<and>
        ds = (if finished < started then [clock_skew_warning] else []))"
proof -
  have one: "length m = 1 \<and> string_at m k = v \<longleftrightarrow> m = [(k, v)]" if "v \<noteq> []" for m k v
    using that by (cases m) (auto simp: string_at_def split: if_splits)
  have v: "signingAdapterDigest \<noteq> []" "(''signing-adapter'' :: string) \<noteq> []"
    by (simp_all add: signingAdapterDigest_def)
  have deps: "validateBuilderDependencies ds' = None \<longleftrightarrow>
      (\<exists>dep. ds' = [dep] \<and> dep_URI dep = signingAdapterURI \<and>
        dep_Digest dep = [(''h1'', signingAdapterDigest)] \<and>
        dep_Annotations dep = [(''role'', ''signing-adapter'')])" for ds'
    by (auto simp: validateBuilderDependencies_def one [OF v(1), symmetric] one [OF v(2), symmetric]
        split: list.splits)
  have inv: "(\<exists>r. ParseRunInvocationURI u repo = Inr r) \<longleftrightarrow>
      (\<exists>runID attempt. NewRunInvocationURI repo runID attempt = Inr u)" for u repo
  proof
    assume "\<exists>runID attempt. NewRunInvocationURI repo runID attempt = Inr u"
    then obtain runID attempt where "NewRunInvocationURI repo runID attempt = Inr u" by blast
    then have "ParseRunInvocationURI u repo = Inr \<lparr>inv_URI = u, inv_RepositoryURI = repo,
        inv_RunID = runID, inv_Attempt = attempt\<rparr>"
      by (simp add: run_invocation_parses)
    then show "\<exists>r. ParseRunInvocationURI u repo = Inr r" by blast
  qed (auto simp: run_invocation_parses)
  have subj: "length (st_Subject st) = 1 \<longleftrightarrow> (\<exists>subject. st_Subject st = [subject])"
    by (cases "st_Subject st") auto
  have profile: "(\<exists>subject. st_Subject st = [subject]) \<and> run_profile profile st = None \<longleftrightarrow>
      (\<exists>subject. st_Subject st = [subject] \<and>
        (case profile of
           None \<Rightarrow> True
         | Some p \<Rightarrow> ValidateSubject p subject = None \<and>
             ValidateExternalParameters p (bd_ExternalParameters (st_BuildDefinition st)) = None \<and>
             ValidateResolvedDependencies p (bd_ResolvedDependencies (st_BuildDefinition st)) = None))"
    by (cases profile) (auto simp: run_profile_def)
  have "Statement_Validate transform st ex profile = Inr ds \<longleftrightarrow>
      st_Type st = StatementType \<and> st_PredicateType st = PredicateType \<and>
      ((\<exists>subject. st_Subject st = [subject]) \<and> run_profile profile st = None) \<and>
      validateInternalParameters transform (bd_InternalParameters (st_BuildDefinition st)) = None \<and>
      validateBuilderVersion (b_Version (st_Builder st)) (ex_Builder ex) = None \<and>
      validateBuilderDependencies (b_Dependencies (st_Builder st)) = None \<and>
      (\<exists>r. ParseRunInvocationURI (m_InvocationID (st_Metadata st)) (ex_SourceRepositoryURI ex) = Inr r) \<and>
      validateTimestamps (st_Metadata st) = Inr ds"
    unfolding Statement_Validate_def validateBuilder_def
    by (auto simp: subj [unfolded One_nat_def] split: if_splits sum.splits)
  then show ?thesis
    unfolding profile deps inv validateBuilderVersion_None validateInternalParameters_None timestamps_exact
      StatementType_def PredicateType_def signingAdapterURI_def signingAdapterDigest_def .
qed

end
