(* ===== verification/Paths.thy ===== *)
theory Paths
  imports Strings
begin

text \<open>
  Go's package path (and path/filepath on Unix) on slash-separated byte strings: Clean, IsAbs and
  Join, and what they do to a name without a separator.
\<close>

text \<open>One element of a path: empty and dot elements vanish, a dot-dot removes its predecessor if there
  is one that is not itself dot-dot, and vanishes at the root.\<close>

definition clean_step :: "bool \<Rightarrow> string list \<Rightarrow> string \<Rightarrow> string list" where
  "clean_step rooted out elem =
     (if elem = [] \<or> elem = ''.'' then out
      else if elem = ''..'' then
        (if out \<noteq> [] \<and> last out \<noteq> ''..'' then butlast out
         else if rooted then out else out @ [''..''])
      else out @ [elem])"

definition clean_elements :: "string \<Rightarrow> string list" where
  "clean_elements p = foldl (clean_step (HasPrefix p ''/'')) [] (split_on (CHR ''/'') p)"

definition Clean :: "string \<Rightarrow> string" where
  "Clean p =
     (if p = [] then ''.''
      else
        (let body = join_with ''/'' (clean_elements p) in
         if HasPrefix p ''/'' then CHR ''/'' # body
         else if clean_elements p = [] then ''.'' else body))"

definition PathIsAbs :: "string \<Rightarrow> bool" where
  "PathIsAbs p = HasPrefix p ''/''"

text \<open>Join of non-empty elements.\<close>

definition Join :: "string list \<Rightarrow> string" where
  "Join elems =
     (let es = dropWhile (\<lambda>e. e = []) elems in if es = [] then [] else Clean (join_with ''/'' es))"

text \<open>A name that is one ordinary element.\<close>

definition plain_name :: "string \<Rightarrow> bool" where
  "plain_name n \<longleftrightarrow> n \<noteq> [] \<and> n \<noteq> ''.'' \<and> n \<noteq> ''..'' \<and> CHR ''/'' \<notin> set n"

lemma Clean_plain: "plain_name n \<Longrightarrow> Clean n = n"
  by (cases n) (auto simp: plain_name_def Clean_def clean_elements_def clean_step_def split_on_id)

lemma split_on_last:
  assumes "sep \<notin> set n"
  shows "split_on sep (d @ sep # n) = split_on sep d @ [n]"
proof (induction d)
  case (Cons c d)
  then show ?case
    by (cases "split_on sep d") (use assms in \<open>auto split: list.splits\<close>)
qed (simp add: assms)

text \<open>Below a directory, such a name stays a direct child: the elements of the directory, then it.\<close>

lemma clean_elements_child:
  assumes "plain_name n" and "dir \<noteq> []"
  shows "clean_elements (dir @ ''/'' @ n) = clean_elements dir @ [n]"
proof -
  have "HasPrefix (dir @ ''/'' @ n) ''/'' = HasPrefix dir ''/''"
    using assms(2) by (cases dir) auto
  moreover have "split_on (CHR ''/'') (dir @ CHR ''/'' # n) = split_on (CHR ''/'') dir @ [n]"
    using assms(1) by (simp add: split_on_last plain_name_def)
  ultimately show ?thesis
    using assms(1) by (simp add: clean_elements_def clean_step_def plain_name_def)
qed

end
