(* ===== verification/Handoff.thy ===== *)
theory Handoff
  imports Paths Decode Digest
begin

text \<open>
  internal/handoff/handoff.go: the contract of a same-run artifact handoff and the verification of a
  one-file artifact directory.  The file system is what each call of the code answers, a record.
\<close>

section \<open>The contract\<close>

definition TransportGitHubActionsArtifact :: string where
  "TransportGitHubActionsArtifact = ''github-actions-artifact''"
definition AlgorithmSHA256 :: string where "AlgorithmSHA256 = ''sha256''"
definition DigestMismatchID :: string where
  "DigestMismatchID = ''windlass.verify.error.digest-mismatch''"
definition HandoffSchemaMismatchID :: string where
  "HandoffSchemaMismatchID = ''windlass.verify.error.handoff-schema-mismatch''"

record HandoffDigest =
  hd_Algorithm :: string
  hd_Value :: SHA256

record Handoff =
  ho_Transport :: string
  ho_ArtifactName :: string
  ho_PayloadFileName :: string
  ho_PayloadKind :: string
  ho_Digest :: HandoffDigest

definition ErrDigestMismatch :: go_error where
  "ErrDigestMismatch = ErrText ''handoff digest mismatch'' []"

definition handoffError :: "string \<Rightarrow> go_error \<Rightarrow> go_error" where
  "handoffError primary err = ErrDiag KHandoff primary [] [] [] [err]"

definition schemaMismatchError :: "go_error \<Rightarrow> go_error" where
  "schemaMismatchError err =
     handoffError HandoffSchemaMismatchID (ErrWrap ''handoff schema mismatch: %w'' [] [err])"

text \<open>ErrorIDOf: the ID of the first handoff error in the chain of wrapped errors, depth first.\<close>

fun first_handoff_id :: "go_error \<Rightarrow> string option"
and first_handoff_id_list :: "go_error list \<Rightarrow> string option" where
  "first_handoff_id (ErrText _ _) = None"
| "first_handoff_id (ErrDuplicateMember _ _) = None"
| "first_handoff_id (ErrWrap _ _ causes) = first_handoff_id_list causes"
| "first_handoff_id (ErrDiag kind ident _ _ _ causes) =
     (if kind = KHandoff then Some ident else first_handoff_id_list causes)"
| "first_handoff_id_list [] = None"
| "first_handoff_id_list (e # es) =
     (case first_handoff_id e of Some i \<Rightarrow> Some i | None \<Rightarrow> first_handoff_id_list es)"

definition ErrorIDOf :: "go_error \<Rightarrow> string" where
  "ErrorIDOf err = (case first_handoff_id err of None \<Rightarrow> [] | Some i \<Rightarrow> i)"

section \<open>Names\<close>

definition hasWindowsDrivePrefix :: "string \<Rightarrow> bool" where
  "hasWindowsDrivePrefix name =
     (case name of a # b # _ \<Rightarrow> (is_lower a \<or> is_upper a) \<and> b = CHR '':'' | _ \<Rightarrow> False)"

definition ValidateSafeBasename :: "string \<Rightarrow> go_error option" where
  "ValidateSafeBasename name =
     (if name = [] then Some (ErrText ''payload file name is empty'' [])
      else if CHR 0x00 \<in> set name then Some (ErrText ''payload file name contains NUL'' [])
      else if name = ''.'' \<or> name = ''..'' then
        Some (ErrText ''payload file name %q is not a file basename'' [name])
      else if ContainsAny name [CHR ''/'', CHR 0x5C] then
        Some (ErrText ''payload file name %q contains a path separator'' [name])
      else if PathIsAbs name \<or> Clean name \<noteq> name \<or> hasWindowsDrivePrefix name then
        Some (ErrText ''payload file name %q is not canonical'' [name])
      else None)"

text \<open>\<open>nd\<close> is the Unicode category of decimal digits above U+00FF.\<close>

definition validateArtifactName :: "(nat \<Rightarrow> bool) \<Rightarrow> string \<Rightarrow> go_error option" where
  "validateArtifactName nd name =
     (case ValidateSafeBasename name of
        Some err \<Rightarrow> Some (ErrWrap ''invalid artifact name: %w'' [] [err])
      | None \<Rightarrow>
          if CHR '':'' \<in> set name then
            Some (ErrText ''artifact name %q resembles a URL or volume path'' [name])
          else if list_all (\<lambda>(r, _). IsDigit nd r) (runes name) then
            Some (ErrText ''artifact name %q is an ID-only handle'' [name])
          else None)"

definition Handoff_Validate :: "(nat \<Rightarrow> bool) \<Rightarrow> Handoff \<Rightarrow> go_error option" where
  "Handoff_Validate nd contract =
     (if ho_Transport contract \<noteq> TransportGitHubActionsArtifact then
        Some (ErrText ''handoff transport %q is not allowed'' [ho_Transport contract])
      else
        and_then (validateArtifactName nd (ho_ArtifactName contract))
        (and_then (ValidateSafeBasename (ho_PayloadFileName contract))
        (if ho_PayloadKind contract = [] then Some (ErrText ''payload kind is empty'' [])
         else if hd_Algorithm (ho_Digest contract) \<noteq> AlgorithmSHA256 then
           Some (ErrText ''handoff digest algorithm %q is not allowed'' [hd_Algorithm (ho_Digest contract)])
         else None)))"

section \<open>Decoding\<close>

record digestJSON =
  dj_Algorithm :: "string option"
  dj_Value :: "SHA256 option"

record handoffJSON =
  hj_Transport :: "string option"
  hj_ArtifactName :: "string option"
  hj_PayloadFileName :: "string option"
  hj_PayloadKind :: "string option"
  hj_Digest :: "digestJSON option"

text \<open>A value with UnmarshalText is decoded from a JSON string, a null resets the pointer.\<close>

definition store_sha256 :: "digestJSON \<Rightarrow> jval \<Rightarrow> digestJSON option" where
  "store_sha256 r v =
     (case v of
        JNull \<Rightarrow> Some (r\<lparr>dj_Value := None\<rparr>)
      | JString s \<Rightarrow> (case ParseSHA256 s of Inl _ \<Rightarrow> None | Inr d \<Rightarrow> Some (r\<lparr>dj_Value := Some d\<rparr>))
      | _ \<Rightarrow> None)"

definition digest_fields :: "digestJSON field list" where
  "digest_fields =
     [(''algorithm'', store_pointer (\<lambda>s. dj_Algorithm_update (\<lambda>_. s))), (''value'', store_sha256)]"

definition zero_digestJSON :: digestJSON where
  "zero_digestJSON = \<lparr>dj_Algorithm = None, dj_Value = None\<rparr>"

definition store_digest :: "handoffJSON \<Rightarrow> jval \<Rightarrow> handoffJSON option" where
  "store_digest r v =
     (case v of
        JNull \<Rightarrow> Some (r\<lparr>hj_Digest := None\<rparr>)
      | _ \<Rightarrow> map_option (\<lambda>d. r\<lparr>hj_Digest := Some d\<rparr>)
               (decode_struct digest_fields
                  (case hj_Digest r of None \<Rightarrow> zero_digestJSON | Some d \<Rightarrow> d) v))"

definition handoff_fields :: "handoffJSON field list" where
  "handoff_fields =
     [(''transport'', store_pointer (\<lambda>s. hj_Transport_update (\<lambda>_. s))),
      (''artifact_name'', store_pointer (\<lambda>s. hj_ArtifactName_update (\<lambda>_. s))),
      (''payload_file_name'', store_pointer (\<lambda>s. hj_PayloadFileName_update (\<lambda>_. s))),
      (''payload_kind'', store_pointer (\<lambda>s. hj_PayloadKind_update (\<lambda>_. s))),
      (''digest'', store_digest)]"

definition zero_handoffJSON :: handoffJSON where
  "zero_handoffJSON = \<lparr>hj_Transport = None, hj_ArtifactName = None, hj_PayloadFileName = None,
     hj_PayloadKind = None, hj_Digest = None\<rparr>"

text \<open>Handoff.UnmarshalJSON on a parsed JSON value: the error and the receiver afterwards.\<close>

definition Handoff_UnmarshalJSON ::
  "(nat \<Rightarrow> bool) \<Rightarrow> Handoff \<Rightarrow> jval \<Rightarrow> go_error option \<times> Handoff" where
  "Handoff_UnmarshalJSON nd old v =
     (case decode_struct handoff_fields zero_handoffJSON v of
        None \<Rightarrow> (Some (schemaMismatchError (ErrWrap ''decode handoff JSON: %w'' [] [json_syntax])), old)
      | Some d \<Rightarrow>
          (let missing = (Some (schemaMismatchError
                 (ErrText ''handoff JSON is missing a required core field'' [])), old);
               dj = (case hj_Digest d of None \<Rightarrow> zero_digestJSON | Some x \<Rightarrow> x)
           in case (hj_Transport d, hj_ArtifactName d, hj_PayloadFileName d, hj_PayloadKind d,
                    dj_Algorithm dj, dj_Value dj) of
                (Some transport, Some artifact, Some payload, Some kind, Some algorithm, Some digest) \<Rightarrow>
                  (let decoded = \<lparr>ho_Transport = transport, ho_ArtifactName = artifact,
                         ho_PayloadFileName = payload, ho_PayloadKind = kind,
                         ho_Digest = \<lparr>hd_Algorithm = algorithm, hd_Value = digest\<rparr>\<rparr>
                   in case Handoff_Validate nd decoded of
                        Some err \<Rightarrow>
                          (Some (schemaMismatchError (ErrWrap ''validate handoff JSON: %w'' [] [err])), old)
                      | None \<Rightarrow> (None, decoded))
              | _ \<Rightarrow> missing))"

section \<open>Verification\<close>

text \<open>The answers of the file system: every call may fail on its own.\<close>

record artifact_fs =
  fs_OpenRoot :: "go_error option"
  fs_ReadDir :: "string list result"
  fs_IsRegular :: "string \<Rightarrow> bool result"        \<comment> \<open>Lstat and the mode it reports\<close>
  fs_Open :: "string \<Rightarrow> go_error option"
  fs_CloseRoot :: "go_error option"
  fs_ReadAll :: "string \<Rightarrow> string result"
  fs_ClosePayload :: "go_error option"

definition closeRoot :: "artifact_fs \<Rightarrow> go_error option \<Rightarrow> go_error option" where
  "closeRoot world err =
     (case fs_CloseRoot world of
        None \<Rightarrow> err
      | Some closeErr \<Rightarrow>
          Some (ErrWrap ''Join'' []
            ((case err of None \<Rightarrow> [] | Some e \<Rightarrow> [e]) @ [ErrWrap ''close artifact directory: %w'' [] [closeErr]])))"

definition failRoot :: "artifact_fs \<Rightarrow> go_error \<Rightarrow> 'a result" where
  "failRoot world err = (case closeRoot world (Some err) of None \<Rightarrow> Inl err | Some e \<Rightarrow> Inl e)"

definition wrapCloseError :: "go_error option \<Rightarrow> string \<Rightarrow> go_error list" where
  "wrapCloseError err operation =
     (case err of None \<Rightarrow> [] | Some e \<Rightarrow> [ErrWrap ''%s: %w'' [operation] [e]])"

definition VerifyOneFile :: "(nat \<Rightarrow> bool) \<Rightarrow> artifact_fs \<Rightarrow> Handoff \<Rightarrow> string result" where
  "VerifyOneFile nd world contract =
     (case Handoff_Validate nd contract of
        Some err \<Rightarrow> Inl (schemaMismatchError (ErrWrap ''validate handoff: %w'' [] [err]))
      | None \<Rightarrow>
     (case fs_OpenRoot world of
        Some err \<Rightarrow> Inl (ErrWrap ''open artifact directory: %w'' [] [err])
      | None \<Rightarrow>
     (case fs_ReadDir world of
        Inl err \<Rightarrow> failRoot world (ErrWrap ''read artifact directory: %w'' [] [err])
      | Inr entries \<Rightarrow>
     (case entries of
        [entry] \<Rightarrow>
          if entry \<noteq> ho_PayloadFileName contract then
            failRoot world (ErrText ''artifact payload file is %q, want %q'' [entry, ho_PayloadFileName contract])
          else (case fs_IsRegular world entry of
            Inl err \<Rightarrow> failRoot world (ErrWrap ''inspect artifact payload: %w'' [] [err])
          | Inr regular \<Rightarrow>
            if \<not> regular then
              failRoot world (ErrText ''artifact payload %q is not a regular file'' [entry])
            else (case fs_Open world entry of
              Some err \<Rightarrow> failRoot world (ErrWrap ''open artifact payload: %w'' [] [err])
            | None \<Rightarrow>
              (case closeRoot world None of
                Some closeErr \<Rightarrow>
                  (case fs_ClosePayload world of
                     Some payloadCloseErr \<Rightarrow> Inl (ErrWrap ''Join'' []
                       [closeErr, ErrWrap ''close artifact payload: %w'' [] [payloadCloseErr]])
                   | None \<Rightarrow> Inl closeErr)
              | None \<Rightarrow>
                (case fs_ReadAll world entry of
                  Inl readErr \<Rightarrow> Inl (ErrWrap ''Join'' []
                    (ErrWrap ''read artifact payload: %w'' [] [readErr]
                     # wrapCloseError (fs_ClosePayload world) ''close artifact payload''))
                | Inr payloadBytes \<Rightarrow>
                  (case fs_ClosePayload world of
                    Some payloadCloseErr \<Rightarrow> Inl (ErrWrap ''close artifact payload: %w'' [] [payloadCloseErr])
                  | None \<Rightarrow>
                    if \<not> SHA256_Equal (SumSHA256 payloadBytes) (hd_Value (ho_Digest contract)) then
                      Inl (handoffError DigestMismatchID
                        (ErrWrap ''%w: payload %q computed %s, expected %s''
                          [entry, SHA256_String (SumSHA256 payloadBytes),
                           SHA256_String (hd_Value (ho_Digest contract))]
                          [ErrDigestMismatch]))
                    else Inr payloadBytes)))))
      | _ \<Rightarrow> failRoot world (ErrText ''artifact directory contains %d entries, want exactly 1''
               [show_nat (length entries)])))))"

section \<open>Properties\<close>

lemma ValidateSafeBasename_None:
  "ValidateSafeBasename name = None \<longleftrightarrow>
     plain_name name \<and> CHR 0x00 \<notin> set name \<and> CHR 0x5C \<notin> set name \<and> \<not> hasWindowsDrivePrefix name"
proof -
  have "\<not> PathIsAbs name" if "CHR ''/'' \<notin> set name"
    using that by (cases name) (auto simp: PathIsAbs_def)
  then show ?thesis
    by (auto simp: ValidateSafeBasename_def ContainsAny_iff plain_name_def Clean_plain)
qed

text \<open>A safe basename is exactly a single ordinary path element: not empty, not a dot or dot-dot, without
  slash, backslash or NUL and without a drive prefix; joined below any directory it names a direct
  child of it, so a verified handoff cannot reach outside the artifact directory.\<close>

theorem safe_basename_exact:
  "(ValidateSafeBasename name = None \<longleftrightarrow>
      name \<noteq> [] \<and> name \<noteq> ''.'' \<and> name \<noteq> ''..'' \<and>
      (\<forall>c \<in> set name. c \<notin> {CHR ''/'', CHR 0x5C, CHR 0x00}) \<and> \<not> hasWindowsDrivePrefix name) \<and>
   (ValidateSafeBasename name = None \<and> dir \<noteq> [] \<longrightarrow>
      clean_elements (dir @ ''/'' @ name) = clean_elements dir @ [name])"
  using clean_elements_child [of name dir]
  by (auto simp: ValidateSafeBasename_None plain_name_def)

lemma safe_basename_exact_witness:
  "clean_elements (''/tmp/../a'' @ ''/'' @ ''pkg.tgz'') = clean_elements ''/tmp/../a'' @ [''pkg.tgz'']"
proof -
  have "ValidateSafeBasename ''pkg.tgz'' = None" by code_simp
  then show ?thesis using safe_basename_exact [of "''pkg.tgz''" "''/tmp/../a''"] by blast
qed

lemma failRoot_Inr [simp]: "failRoot world err \<noteq> Inr x"
  by (auto simp: failRoot_def closeRoot_def split: option.splits)

text \<open>C37: VerifyOneFile returns bytes exactly when the contract is valid, the directory opens, holds
  exactly one entry, that entry is the payload file of the contract and a regular file, every call
  succeeds, and the bytes read hash to the contract's digest; it returns those very bytes.\<close>

theorem verify_one_file_exact:
  "VerifyOneFile nd world contract = Inr payload \<longleftrightarrow>
     Handoff_Validate nd contract = None \<and> fs_OpenRoot world = None \<and>
     fs_ReadDir world = Inr [ho_PayloadFileName contract] \<and>
     fs_IsRegular world (ho_PayloadFileName contract) = Inr True \<and>
     fs_Open world (ho_PayloadFileName contract) = None \<and>
     fs_CloseRoot world = None \<and> fs_ClosePayload world = None \<and>
     fs_ReadAll world (ho_PayloadFileName contract) = Inr payload \<and>
     SumSHA256 payload = hd_Value (ho_Digest contract)"
  unfolding VerifyOneFile_def
  by (auto simp: closeRoot_def sha256.equal_iff split: option.splits sum.splits list.splits if_splits)

text \<open>A contract that Validate refuses always fails with the handoff-schema-mismatch ID, whatever the
  file system holds; and a single regular payload of the right name whose bytes hash to anything but
  the contract's digest fails with the digest-mismatch ID.\<close>

theorem verify_one_file_errors:
  "(Handoff_Validate nd contract \<noteq> None \<longrightarrow>
      (\<exists>e. VerifyOneFile nd world contract = Inl e \<and> ErrorIDOf e = HandoffSchemaMismatchID)) \<and>
   (Handoff_Validate nd contract = None \<and> fs_OpenRoot world = None \<and>
    fs_ReadDir world = Inr [ho_PayloadFileName contract] \<and>
    fs_IsRegular world (ho_PayloadFileName contract) = Inr True \<and>
    fs_Open world (ho_PayloadFileName contract) = None \<and> fs_CloseRoot world = None \<and>
    fs_ClosePayload world = None \<and> fs_ReadAll world (ho_PayloadFileName contract) = Inr payload \<and>
    SumSHA256 payload \<noteq> hd_Value (ho_Digest contract) \<longrightarrow>
      (\<exists>e. VerifyOneFile nd world contract = Inl e \<and> ErrorIDOf e = DigestMismatchID))"
  by (auto simp: VerifyOneFile_def closeRoot_def sha256.equal_iff ErrorIDOf_def schemaMismatchError_def
      handoffError_def)

definition example_handoff :: Handoff where
  "example_handoff = \<lparr>ho_Transport = ''github-actions-artifact'', ho_ArtifactName = ''pkg'',
     ho_PayloadFileName = ''pkg.tgz'', ho_PayloadKind = ''npm-tarball'',
     ho_Digest = \<lparr>hd_Algorithm = ''sha256'', hd_Value = SHA256 (replicate 31 (CHR 0x00))\<rparr>\<rparr>"

definition example_fs :: artifact_fs where
  "example_fs = \<lparr>fs_OpenRoot = None, fs_ReadDir = Inr [''pkg.tgz''], fs_IsRegular = (\<lambda>_. Inr True),
     fs_Open = (\<lambda>_. None), fs_CloseRoot = None, fs_ReadAll = (\<lambda>_. Inr ''x''), fs_ClosePayload = None\<rparr>"

lemma verify_one_file_errors_witness:
  "\<exists>e. VerifyOneFile (\<lambda>_. False) example_fs example_handoff = Inl e \<and> ErrorIDOf e = DigestMismatchID"
proof -
  have "Handoff_Validate (\<lambda>_. False) example_handoff = None" by code_simp
  moreover have "SumSHA256 ''x'' \<noteq> SHA256 (replicate 31 (CHR 0x00))"
  proof
    assume "SumSHA256 ''x'' = SHA256 (replicate 31 (CHR 0x00))"
    then have "bytes256 (SumSHA256 ''x'') = replicate 31 (CHR 0x00)" by simp
    moreover have "length (bytes256 (SumSHA256 ''x'')) = 32"
      using sha256.wf_sum [of "''x''"] by (simp add: wf256_def)
    ultimately show False by simp
  qed
  ultimately show ?thesis
    using verify_one_file_errors [of "\<lambda>_. False" example_handoff example_fs "''x''"]
    by (simp add: example_fs_def example_handoff_def)
qed

end
