(* ===== verification/Base64.thy ===== *)
theory Base64
  imports Strings
begin

text \<open>
  encoding/base64's StdEncoding: EncodeToString, and DecodeString in strict mode (padding bits zero).
  Decoding skips carriage returns and line feeds, as the package does.
\<close>

definition b64_char :: "nat \<Rightarrow> char" where
  "b64_char n = (if n < 26 then char_of (65 + n) else if n < 52 then char_of (71 + n)
     else if n < 62 then char_of (n - 4) else if n = 62 then CHR ''+'' else CHR ''/'')"

definition b64_val :: "char \<Rightarrow> nat option" where
  "b64_val c =
     (let b = byte c in
      if 65 \<le> b \<and> b \<le> 90 then Some (b - 65) else if 97 \<le> b \<and> b \<le> 122 then Some (b - 71)
      else if 48 \<le> b \<and> b \<le> 57 then Some (b + 4)
      else if c = CHR ''+'' then Some 62 else if c = CHR ''/'' then Some 63 else None)"

fun b64_encode :: "string \<Rightarrow> string" where
  "b64_encode [] = []"
| "b64_encode [a] = [b64_char (byte a div 4), b64_char (byte a mod 4 * 16), CHR ''='', CHR ''='']"
| "b64_encode [a, b] =
     [b64_char (byte a div 4), b64_char (byte a mod 4 * 16 + byte b div 16),
      b64_char (byte b mod 16 * 4), CHR ''='']"
| "b64_encode (a # b # c # rest) =
     b64_char (byte a div 4) # b64_char (byte a mod 4 * 16 + byte b div 16)
     # b64_char (byte b mod 16 * 4 + byte c div 64) # b64_char (byte c mod 64) # b64_encode rest"

fun b64_quads :: "string \<Rightarrow> string option" where
  "b64_quads [] = Some []"
| "b64_quads (p # q # r # s # rest) =
     (case (b64_val p, b64_val q) of
        (Some x, Some y) \<Rightarrow>
          if r = CHR ''='' then
            (if s = CHR ''='' \<and> rest = [] \<and> y mod 16 = 0 then Some [char_of (x * 4 + y div 16)] else None)
          else
            (case b64_val r of
               None \<Rightarrow> None
             | Some z \<Rightarrow>
                 if s = CHR ''='' then
                   (if rest = [] \<and> z mod 4 = 0
                    then Some [char_of (x * 4 + y div 16), char_of (y mod 16 * 16 + z div 4)] else None)
                 else
                   (case b64_val s of
                      None \<Rightarrow> None
                    | Some w \<Rightarrow>
                        map_option (\<lambda>out. char_of (x * 4 + y div 16) # char_of (y mod 16 * 16 + z div 4)
                          # char_of (z mod 4 * 64 + w) # out) (b64_quads rest)))
      | _ \<Rightarrow> None)"
| "b64_quads _ = None"

definition b64_decode_strict :: "string \<Rightarrow> string option" where
  "b64_decode_strict s = b64_quads (filter (\<lambda>c. c \<noteq> CHR 0x0A \<and> c \<noteq> CHR 0x0D) s)"

lemma b64_val_char: "n < 64 \<Longrightarrow> b64_val (b64_char n) = Some n"
proof -
  assume n: "n < 64"
  have "list_all (\<lambda>n. b64_val (b64_char n) = Some n) [0..<64]" by code_simp
  with n show ?thesis by (simp add: list_all_iff)
qed

lemma b64_char_plain: "n < 64 \<Longrightarrow> b64_char n \<noteq> CHR ''='' \<and> b64_char n \<noteq> CHR 0x0A \<and> b64_char n \<noteq> CHR 0x0D"
proof -
  assume n: "n < 64"
  have "list_all (\<lambda>n. b64_char n \<noteq> CHR ''='' \<and> b64_char n \<noteq> CHR 0x0A \<and> b64_char n \<noteq> CHR 0x0D) [0..<64]"
    by code_simp
  with n show ?thesis by (simp add: list_all_iff)
qed

lemma b64_bounds [simp]:
  "byte a div 4 < 64" "byte a mod 4 * 16 < 64" "byte a mod 4 * 16 + byte b div 16 < 64"
  "byte b mod 16 * 4 < 64" "byte b mod 16 * 4 + byte c div 64 < 64" "byte c mod 64 < 64"
  using byte_less [of a] byte_less [of b] byte_less [of c] by linarith+

lemma unpack:
  fixes h k m :: nat
  assumes "m < k"
  shows "(h * k + m) div k = h" and "(h * k + m) mod k = m"
  using assms by simp_all

lemma byte_high: "byte b div 16 < 16" "byte c div 64 < 4"
  using byte_less [of b] byte_less [of c] by linarith+

lemmas unpack_bytes = unpack [OF byte_high(1)] unpack [OF byte_high(2)]

lemma low_nibble: "byte a mod 4 * 16 div 16 = byte a mod 4" "byte b mod 16 * 4 div 4 = byte b mod 16"
  "byte a mod 4 * 16 mod 16 = 0" "byte b mod 16 * 4 mod 4 = 0"
  by simp_all

lemma high_mod: "byte b div 16 mod 16 = byte b div 16" "byte c div 64 mod 4 = byte c div 64"
  using byte_high by simp_all

lemma div_mod_whole: "byte a div k * k + byte a mod k = byte a"
  by (rule div_mult_mod_eq)

lemma b64_quads_encode: "b64_quads (b64_encode s) = Some s"
proof (induction s rule: b64_encode.induct)
  case (2 a)
  show ?case by (simp add: b64_val_char b64_char_plain low_nibble div_mod_whole)
next
  case (3 a b)
  show ?case
    by (simp add: b64_val_char b64_char_plain unpack_bytes low_nibble high_mod div_mod_whole)
next
  case (4 a b c rest)
  then show ?case
    by (simp add: b64_val_char b64_char_plain unpack_bytes low_nibble high_mod div_mod_whole)
qed simp

lemma b64_encode_plain: "c \<in> set (b64_encode s) \<Longrightarrow> c \<noteq> CHR 0x0A \<and> c \<noteq> CHR 0x0D"
  by (induction s rule: b64_encode.induct) (auto simp: b64_char_plain)

lemma b64_decode_encode: "b64_decode_strict (b64_encode s) = Some s"
proof -
  have "filter (\<lambda>c. c \<noteq> CHR 0x0A \<and> c \<noteq> CHR 0x0D) (b64_encode s) = b64_encode s"
    using b64_encode_plain by (auto simp: filter_id_conv)
  then show ?thesis by (simp add: b64_decode_strict_def b64_quads_encode)
qed

end
