(* ===== verification/Pins.thy ===== *)
theory Pins
  imports Decode Url Base64
begin

text \<open>
  internal/toolchainpins: the pin records (toolchainpins.go) and the check that the tables of the
  specifications state the same pins (drift.go).  Files are what a read of a path answers.
\<close>

section \<open>Records\<close>

record PublishNPM =
  pn_Version :: string
  pn_TarballURL :: string
  pn_Integrity :: string

record NodeArtifact =
  na_URL :: string
  na_SHA256 :: string

record NodeRuntime =
  nr_NodeVersion :: string
  nr_NPMVersion :: string
  nr_Artifacts :: "(string \<times> NodeArtifact) list"

definition nodeRuntimePlatform :: string where "nodeRuntimePlatform = ''linux-x64''"

definition pin_fields :: "PublishNPM field list" where
  "pin_fields =
     [(''version'', store_string (\<lambda>s. pn_Version_update (\<lambda>_. s))),
      (''tarball_url'', store_string (\<lambda>s. pn_TarballURL_update (\<lambda>_. s))),
      (''integrity'', store_string (\<lambda>s. pn_Integrity_update (\<lambda>_. s)))]"

definition artifact_fields :: "NodeArtifact field list" where
  "artifact_fields =
     [(''url'', store_string (\<lambda>s. na_URL_update (\<lambda>_. s))),
      (''sha256'', store_string (\<lambda>s. na_SHA256_update (\<lambda>_. s)))]"

fun decode_artifacts :: "(string \<times> jval) list \<Rightarrow> (string \<times> NodeArtifact) list option" where
  "decode_artifacts [] = Some []"
| "decode_artifacts ((k, v) # ms) =
     (case decode_struct artifact_fields \<lparr>na_URL = [], na_SHA256 = []\<rparr> v of
        None \<Rightarrow> None
      | Some a \<Rightarrow> map_option ((#) (k, a)) (decode_artifacts ms))"

definition store_artifacts :: "NodeRuntime \<Rightarrow> jval \<Rightarrow> NodeRuntime option" where
  "store_artifacts r v =
     (case v of
        JNull \<Rightarrow> Some (r\<lparr>nr_Artifacts := []\<rparr>)
      | JObj ms \<Rightarrow> map_option (\<lambda>as. r\<lparr>nr_Artifacts := as\<rparr>) (decode_artifacts ms)
      | _ \<Rightarrow> None)"

definition runtime_fields :: "NodeRuntime field list" where
  "runtime_fields =
     [(''node_version'', store_string (\<lambda>s. nr_NodeVersion_update (\<lambda>_. s))),
      (''npm_version'', store_string (\<lambda>s. nr_NPMVersion_update (\<lambda>_. s))),
      (''artifacts'', store_artifacts)]"

definition pins_decodeClosed :: "'r field list \<Rightarrow> 'r \<Rightarrow> string \<Rightarrow> 'r result" where
  "pins_decodeClosed fs zero data =
     (case parseStrict data of
        Inl err \<Rightarrow> Inl (ErrWrap ''validate JSON: %w'' [] [err])
      | Inr v \<Rightarrow>
          (case decode_struct fs zero v of
             None \<Rightarrow> Inl (ErrWrap ''decode closed JSON schema: %w'' [] [json_syntax])
           | Some r \<Rightarrow> Inr r))"

text \<open>An uncredentialed HTTPS URL.\<close>

definition plain_https :: "url option \<Rightarrow> bool" where
  "plain_https parsed =
     (case parsed of None \<Rightarrow> False
      | Some u \<Rightarrow> Scheme u = ''https'' \<and> Hostname u \<noteq> [] \<and> User u = None)"

definition validate_publish_pin :: "PublishNPM \<Rightarrow> PublishNPM result" where
  "validate_publish_pin pin =
     (if \<not> re_three_part (pn_Version pin) then
        Inl (ErrText ''version must be an exact three-part SemVer version'' [])
      else if \<not> plain_https (url_Parse (pn_TarballURL pin)) then
        Inl (ErrText ''tarball_url must be an uncredentialed HTTPS URL'' [])
      else case CutPrefix (pn_Integrity pin) ''sha512-'' of
        None \<Rightarrow> Inl (ErrText ''integrity must start with sha512-'' [])
      | Some encoded \<Rightarrow>
          (case b64_decode_strict encoded of
             None \<Rightarrow> Inl (ErrText ''integrity must contain a base64-encoded 64-byte SHA-512 digest'' [])
           | Some digest \<Rightarrow>
               if length digest \<noteq> 64
               then Inl (ErrText ''integrity must contain a base64-encoded 64-byte SHA-512 digest'' [])
               else Inr pin))"

definition decodePublishPin :: "string \<Rightarrow> PublishNPM result" where
  "decodePublishPin data =
     (case pins_decodeClosed pin_fields \<lparr>pn_Version = [], pn_TarballURL = [], pn_Integrity = []\<rparr> data of
        Inl err \<Rightarrow> Inl (ErrWrap ''decode publish npm pin: %w'' [] [err])
      | Inr pin \<Rightarrow> validate_publish_pin pin)"

definition platform_char :: "char \<Rightarrow> bool" where
  "platform_char c \<longleftrightarrow> is_lower c \<or> is_digit c"

definition platform_pattern :: "string \<Rightarrow> bool" where
  "platform_pattern s = (case split_on (CHR ''-'') s of
     [a, b] \<Rightarrow> re_plus platform_char a \<and> re_plus platform_char b | _ \<Rightarrow> False)"

fun validate_artifacts :: "(string \<times> NodeArtifact) list \<Rightarrow> go_error option" where
  "validate_artifacts [] = None"
| "validate_artifacts ((platform, artifact) # rest) =
     (if \<not> platform_pattern platform then
        Some (ErrText ''artifacts platform key %q must be a lowercase <os>-<arch> pair'' [platform])
      else if platform \<noteq> nodeRuntimePlatform then
        Some (ErrText ''artifacts platform %q is not the supported platform %q'' [platform, nodeRuntimePlatform])
      else if \<not> plain_https (url_Parse (na_URL artifact))
              \<or> (case url_Parse (na_URL artifact) of None \<Rightarrow> True | Some u \<Rightarrow> Path u = []) then
        Some (ErrText ''artifact url must be an uncredentialed HTTPS URL with a non-empty path'' [])
      else if \<not> re_exactly 64 is_lower_hex (na_SHA256 artifact) then
        Some (ErrText ''artifact sha256 must be exactly 64 lowercase hexadecimal characters'' [])
      else validate_artifacts rest)"

definition validate_runtime :: "NodeRuntime \<Rightarrow> NodeRuntime result" where
  "validate_runtime pair =
     (if \<not> re_three_part (nr_NodeVersion pair) then
        Inl (ErrText ''node_version must be an exact three-part SemVer version'' [])
      else if \<not> re_three_part (nr_NPMVersion pair) then
        Inl (ErrText ''npm_version must be an exact three-part SemVer version'' [])
      else if length (nr_Artifacts pair) \<noteq> 1 then
        Inl (ErrText ''artifacts must pin exactly one platform'' [])
      else guarded (validate_artifacts (nr_Artifacts pair)) (Inr pair))"

definition decodeNodeRuntimePair :: "string \<Rightarrow> NodeRuntime result" where
  "decodeNodeRuntimePair data =
     (case pins_decodeClosed runtime_fields
             \<lparr>nr_NodeVersion = [], nr_NPMVersion = [], nr_Artifacts = []\<rparr> data of
        Inl err \<Rightarrow> Inl (ErrWrap ''decode Node.js runtime pair: %w'' [] [err])
      | Inr pair \<Rightarrow> validate_runtime pair)"

section \<open>Tables of a specification\<close>

definition driftError :: "string \<Rightarrow> go_error" where
  "driftError message = ErrDiag KDrift ''windlass.verify.error.toolchain-pin-drift'' [] message [] []"

fun pin_section_lines ::
  "string \<Rightarrow> bool \<Rightarrow> bool \<Rightarrow> string list \<Rightarrow> string list \<Rightarrow> string list result" where
  "pin_section_lines heading found active section [] =
     (if \<not> found then Inl (driftError (''missing specification section '' @ heading)) else Inr section)"
| "pin_section_lines heading found active section (raw # rest) =
     (let line = TrimSpace raw in
      if line = heading then
        (if found then Inl (driftError ''duplicate specification section'')
         else pin_section_lines heading True True section rest)
      else
        (let active' = (if HasPrefix line ''## '' \<or> HasPrefix line ''# '' then False else active) in
         pin_section_lines heading found active' (if active' then section @ [line] else section) rest))"

definition pinSection :: "string \<Rightarrow> string \<Rightarrow> string list result" where
  "pinSection markdown heading =
     pin_section_lines heading False False [] (split_on (CHR 0x0A) markdown)"

definition pin_cell :: "string \<Rightarrow> string" where
  "pin_cell raw =
     (let cell = TrimSpace raw in
      if length cell \<ge> 2 \<and> HasPrefix cell ''`'' \<and> HasSuffix cell ''`''
      then take (length cell - 2) (drop 1 cell) else cell)"

definition pinTableRow :: "string \<Rightarrow> string list" where
  "pinTableRow raw =
     (let line = TrimSpace raw in
      if length line < 2 \<or> \<not> HasPrefix line ''|'' \<or> \<not> HasSuffix line ''|'' then []
      else map pin_cell (split_on (CHR ''|'') (take (length line - 2) (drop 1 line))))"

definition separator_cell :: "string \<Rightarrow> bool" where
  "separator_cell raw =
     (let cell = TrimSuffix (TrimPrefix raw '':'') '':'' in
      length cell \<ge> 3 \<and> list_all (\<lambda>c. c = CHR ''-'') cell)"

definition pinTableSeparator :: "string list \<Rightarrow> nat \<Rightarrow> bool" where
  "pinTableSeparator cells columns \<longleftrightarrow> length cells = columns \<and> list_all separator_cell cells"

text \<open>The rows of a table: how many there are and the lines from its end on.\<close>

fun pin_rows :: "nat \<Rightarrow> string list \<Rightarrow> nat \<Rightarrow> string list \<Rightarrow> (nat \<times> string list) result" where
  "pin_rows columns vals rows [] = Inr (rows, [])"
| "pin_rows columns vals rows (line # rest) =
     (if \<not> HasPrefix line ''|'' then Inr (rows, line # rest)
      else if length (pinTableRow line) \<noteq> columns then Inl (driftError ''unparsable pin table row'')
      else if pinTableRow line \<noteq> vals then Inl (driftError ''pin table values differ from disk record'')
      else pin_rows columns vals (rows + 1) rest)"

lemma pin_rows_length: "pin_rows columns vals rows ls = Inr (n, rest) \<Longrightarrow> length rest \<le> length ls"
  by (induction ls arbitrary: rows) (auto split: if_splits intro: le_SucI)

text \<open>The outer loop; the line that ends a table is skipped by the loop's increment.\<close>

function check_tables :: "string list \<Rightarrow> string list \<Rightarrow> nat \<Rightarrow> string list \<Rightarrow> go_error option" where
  "check_tables headers vals tables [] =
     (if tables \<noteq> 1 then Some (driftError ''specification must contain exactly one pin table'') else None)"
| "check_tables headers vals tables (line # rest) =
     (if pinTableRow line \<noteq> headers then check_tables headers vals tables rest
      else case rest of
        [] \<Rightarrow> Some (driftError ''invalid pin table separator'')
      | sep # body \<Rightarrow>
          if \<not> pinTableSeparator (pinTableRow sep) (length headers) then
            Some (driftError ''invalid pin table separator'')
          else (case pin_rows (length headers) vals 0 body of
            Inl err \<Rightarrow> Some err
          | Inr (rows, after) \<Rightarrow>
              if rows \<noteq> 1 then Some (driftError ''pin table must contain exactly one data row'')
              else check_tables headers vals (tables + 1) (drop 1 after)))"
  by pat_completeness auto
termination
  by (relation "measure (\<lambda>(_, _, _, ls). length ls)") (auto dest!: pin_rows_length)

definition checkPinTable :: "string list \<Rightarrow> string list \<Rightarrow> string list \<Rightarrow> go_error option" where
  "checkPinTable lines headers vals = check_tables headers vals 0 lines"

section \<open>The drift check\<close>

record DriftInputs =
  di_PublishPin :: string
  di_PairRecord :: string
  di_PublishSpec :: string
  di_BuildSpec :: string

definition publish_heading :: string where "publish_heading = ''## Publish-stage npm CLI allowlist''"
definition build_heading :: string where "build_heading = ''## Node.js and npm toolchain pair''"

fun run_checks ::
  "(string \<Rightarrow> string option) \<Rightarrow> (string \<times> string \<times> string list \<times> string list) list \<Rightarrow> go_error option" where
  "run_checks read [] = None"
| "run_checks read ((path, heading, headers, vals) # checks) =
     (case read path of
        None \<Rightarrow> Some (driftError (''cannot read specification for '' @ heading))
      | Some data \<Rightarrow>
          (case pinSection data heading of
             Inl err \<Rightarrow> Some err
           | Inr section \<Rightarrow>
               (case checkPinTable section headers vals of
                  Some err \<Rightarrow> Some (ErrWrap ''%s: %w'' [heading] [err])
                | None \<Rightarrow> run_checks read checks)))"

definition drift_checks :: "DriftInputs \<Rightarrow> PublishNPM \<Rightarrow> NodeRuntime \<Rightarrow>
    (string \<times> string \<times> string list \<times> string list) list" where
  "drift_checks inputs pin pair =
     (let (platform, artifact) = hd (nr_Artifacts pair) in
      [(di_PublishSpec inputs, publish_heading, [''Version'', ''Tarball URL'', ''SHA-512 (SRI)''],
          [pn_Version pin, pn_TarballURL pin, pn_Integrity pin]),
       (di_BuildSpec inputs, build_heading, [''Node.js version'', ''Bundled npm version''],
          [nr_NodeVersion pair, nr_NPMVersion pair]),
       (di_BuildSpec inputs, build_heading, [''Platform'', ''Tarball URL'', ''SHA-256 (hex)''],
          [platform, na_URL artifact, na_SHA256 artifact])])"

definition CheckDrift :: "(string \<Rightarrow> string option) \<Rightarrow> DriftInputs \<Rightarrow> go_error option" where
  "CheckDrift read inputs =
     (case read (di_PublishPin inputs) of
        None \<Rightarrow> Some (driftError ''cannot read publish pin record'')
      | Some publishData \<Rightarrow>
     (case decodePublishPin publishData of
        Inl _ \<Rightarrow> Some (driftError ''invalid publish pin record'')
      | Inr pin \<Rightarrow>
     (case read (di_PairRecord inputs) of
        None \<Rightarrow> Some (driftError ''cannot read runtime pair record'')
      | Some pairData \<Rightarrow>
     (case decodeNodeRuntimePair pairData of
        Inl _ \<Rightarrow> Some (driftError ''invalid runtime pair record'')
      | Inr pair \<Rightarrow> run_checks read (drift_checks inputs pin pair)))))"

section \<open>What the check establishes\<close>

text \<open>A section with one table of the given headers, whose only row holds the given values.\<close>

definition one_pin_table :: "string list \<Rightarrow> string list \<Rightarrow> string list \<Rightarrow> bool" where
  "one_pin_table headers vals lines \<longleftrightarrow>
     (\<exists>pre head sep row post.
        lines = pre @ head # sep # row # post \<and> pinTableRow head = headers \<and>
        pinTableSeparator (pinTableRow sep) (length headers) \<and>
        HasPrefix row ''|'' \<and> pinTableRow row = vals \<and> length vals = length headers \<and>
        (post = [] \<or> \<not> HasPrefix (hd post) ''|'') \<and>
        (\<forall>l \<in> set pre \<union> set (drop 1 post). pinTableRow l \<noteq> headers))"

lemma pin_rows_grow: "pin_rows columns vals n ls = Inr (k, r) \<Longrightarrow> n \<le> k"
  by (induction ls arbitrary: n) (force split: if_splits)+

lemma pin_rows_same:
  "pin_rows columns vals n ls = Inr (n, r) \<longleftrightarrow> r = ls \<and> (ls = [] \<or> \<not> HasPrefix (hd ls) ''|'')"
  using pin_rows_grow [of columns vals "Suc n" "tl ls" n r] by (cases ls) auto

lemma pin_rows_one:
  "pin_rows columns vals 0 body = Inr (Suc 0, after) \<longleftrightarrow>
     (\<exists>row. body = row # after \<and> HasPrefix row ''|'' \<and> pinTableRow row = vals \<and>
        length vals = columns \<and> (after = [] \<or> \<not> HasPrefix (hd after) ''|''))"
  by (cases body) (auto simp: pin_rows_same [of _ _ "Suc 0"])

lemma check_tables_many: "check_tables headers vals n ls = None \<Longrightarrow> n \<le> 1"
  by (induction headers vals n ls rule: check_tables.induct)
    (auto split: if_splits list.splits sum.splits, force)

lemma check_tables_after:
  "check_tables headers vals (Suc 0) ls = None \<longleftrightarrow> (\<forall>l \<in> set ls. pinTableRow l \<noteq> headers)"
proof (induction ls)
  case (Cons l ls)
  show ?case
  proof (cases "pinTableRow l = headers")
    case True
    have "check_tables headers vals (Suc 0) (l # ls) \<noteq> None"
      using True check_tables_many [of headers vals "Suc (Suc 0)"]
      by (auto split: list.splits sum.splits)
    with True show ?thesis by auto
  qed (use Cons in simp)
qed simp

text \<open>A table that starts at the first line.\<close>

definition table_here :: "string list \<Rightarrow> string list \<Rightarrow> string list \<Rightarrow> bool" where
  "table_here headers vals ls \<longleftrightarrow>
     (\<exists>sep row post. ls = sep # row # post \<and> pinTableSeparator (pinTableRow sep) (length headers) \<and>
        HasPrefix row ''|'' \<and> pinTableRow row = vals \<and> length vals = length headers \<and>
        (post = [] \<or> \<not> HasPrefix (hd post) ''|'') \<and> (\<forall>l \<in> set (drop 1 post). pinTableRow l \<noteq> headers))"

lemma check_tables_here:
  assumes "pinTableRow l = headers"
  shows "check_tables headers vals 0 (l # ls) = None \<longleftrightarrow> table_here headers vals ls"
proof (cases ls)
  case (Cons sep body)
  show ?thesis
  proof (cases "\<exists>after. pin_rows (length headers) vals 0 body = Inr (Suc 0, after)")
    case True
    then obtain after where p: "pin_rows (length headers) vals 0 body = Inr (Suc 0, after)" ..
    then obtain row where "body = row # after" "HasPrefix row ''|''" "pinTableRow row = vals"
      "length vals = length headers" "after = [] \<or> \<not> HasPrefix (hd after) ''|''"
      unfolding pin_rows_one by blast
    with p Cons assms show ?thesis by (auto simp: table_here_def check_tables_after)
  next
    case False
    then have "\<not> table_here headers vals ls"
      using Cons unfolding pin_rows_one table_here_def by auto
    moreover have "check_tables headers vals 0 (l # ls) \<noteq> None"
      using False Cons assms by (auto split: sum.splits)
    ultimately show ?thesis by blast
  qed
qed (use assms in \<open>simp add: table_here_def\<close>)

lemma one_pin_table_Cons:
  "one_pin_table headers vals (l # ls) \<longleftrightarrow>
     (if pinTableRow l = headers then table_here headers vals ls else one_pin_table headers vals ls)"
proof (cases "pinTableRow l = headers")
  case True
  show ?thesis
    using True unfolding one_pin_table_def table_here_def by (fastforce simp: Cons_eq_append_conv)
next
  case False
  have "one_pin_table headers vals (l # ls)" if one: "one_pin_table headers vals ls"
  proof -
    from one obtain pre head sep row post where *:
      "ls = pre @ head # sep # row # post" "pinTableRow head = headers"
      "pinTableSeparator (pinTableRow sep) (length headers)"
      "HasPrefix row ''|''" "pinTableRow row = vals" "length vals = length headers"
      "post = [] \<or> \<not> HasPrefix (hd post) ''|''"
      "\<forall>l \<in> set pre \<union> set (drop 1 post). pinTableRow l \<noteq> headers"
      unfolding one_pin_table_def by blast
    then have "l # ls = (l # pre) @ head # sep # row # post"
      "\<forall>k \<in> set (l # pre) \<union> set (drop 1 post). pinTableRow k \<noteq> headers"
      using False by auto
    with * show ?thesis unfolding one_pin_table_def by blast
  qed
  moreover have "one_pin_table headers vals ls" if "one_pin_table headers vals (l # ls)"
    using that False unfolding one_pin_table_def by (fastforce simp: Cons_eq_append_conv)
  ultimately show ?thesis using False by auto
qed

text \<open>The table check passes exactly when the section holds one table with the given headers, followed
  by a separator and a single data row that equals the pinned values cell by cell; a second table, a
  second row or any differing cell is drift.\<close>

theorem pin_table_exact:
  "checkPinTable lines headers vals = None \<longleftrightarrow> one_pin_table headers vals lines"
  unfolding checkPinTable_def
proof (induction lines)
  case Nil
  then show ?case by (simp add: one_pin_table_def)
next
  case (Cons l ls)
  then show ?case
    by (cases "pinTableRow l = headers")
      (simp_all add: check_tables_here one_pin_table_Cons del: check_tables.simps(2),
        simp add: check_tables.simps(2))
qed

end
