(* ===== verification/Semver.thy ===== *)
theory Semver
  imports Strings
begin

text \<open>
  golang.org/x/mod/semver, a module the repository depends on but does not contain.  Its three
  functions are a parameter \<open>semver_pkg\<close> of the definitions that call them, and the locale
  \<open>semver_laws\<close> states what the package documents and the source relies on: the validity of a
  full version, its major component, and SemVer 2.0.0 precedence.  The locale is interpreted on
  \<open>reference_semver\<close>, an executable reading of SemVer 2.0.0, which the witnesses use.
\<close>

section \<open>Prerelease identifiers\<close>

definition prerelease_char :: "char \<Rightarrow> bool" where
  "prerelease_char c \<longleftrightarrow> is_alnum c \<or> c = CHR ''-''"

definition validIdentifier :: "string \<Rightarrow> bool" where
  "validIdentifier s \<longleftrightarrow>
     s \<noteq> [] \<and> list_all prerelease_char s \<and>
     \<not> (list_all is_digit s \<and> length s > 1 \<and> hd s = CHR ''0'')"

text \<open>validNPMPrerelease of npmprofile/semver_range.go.\<close>

definition validNPMPrerelease :: "string \<Rightarrow> bool" where
  "validNPMPrerelease pre = list_all validIdentifier (split_on (CHR ''.'') pre)"

section \<open>Full versions\<close>

type_synonym triple = "nat list"  \<comment> \<open>major, minor and patch\<close>

definition core_text :: "nat \<Rightarrow> nat \<Rightarrow> nat \<Rightarrow> string" where
  "core_text a b c = show_nat a @ ''.'' @ show_nat b @ ''.'' @ show_nat c"

definition version_text :: "nat \<Rightarrow> nat \<Rightarrow> nat \<Rightarrow> string option \<Rightarrow> string" where
  "version_text a b c pre =
     core_text a b c @ (case pre of None \<Rightarrow> [] | Some p \<Rightarrow> CHR ''-'' # p)"

definition valid_pre :: "string option \<Rightarrow> bool" where
  "valid_pre pre = (case pre of None \<Rightarrow> True | Some p \<Rightarrow> validNPMPrerelease p)"

record semver_pkg =
  sv_IsValid :: "string \<Rightarrow> bool"
  sv_Compare :: "string \<Rightarrow> string \<Rightarrow> int"
  sv_Major :: "string \<Rightarrow> string"

text \<open>A string written with exactly three components and no build metadata.\<close>

definition three_components :: "string \<Rightarrow> bool" where
  "three_components s \<longleftrightarrow>
     CHR ''+'' \<notin> set s \<and>
     length (split_on (CHR ''.'') (case Cut s ''-'' of None \<Rightarrow> s | Some (core, _) \<Rightarrow> core)) = 3"

locale semver_laws =
  fixes sv :: semver_pkg
  assumes valid_full: "three_components s \<Longrightarrow>
      sv_IsValid sv (CHR ''v'' # s) \<longleftrightarrow> (\<exists>a b c pre. s = version_text a b c pre \<and> valid_pre pre)"
    and major_full: "valid_pre pre \<Longrightarrow> sv_Major sv (CHR ''v'' # version_text a b c pre) = ''v'' @ show_nat a"
    and compare_core: "valid_pre pre \<Longrightarrow> valid_pre q \<Longrightarrow> [a, b, c] \<noteq> [d, e, f] \<Longrightarrow>
      sv_Compare sv (CHR ''v'' # version_text a b c pre) (CHR ''v'' # version_text d e f q) =
        (if [a, b, c] < [d, e, f] then -1 else 1)"
    and compare_release: "valid_pre q \<Longrightarrow>
      sv_Compare sv (CHR ''v'' # version_text a b c None) (CHR ''v'' # version_text a b c q) =
        (if q = None then 0 else 1)"
    and compare_prerelease: "validNPMPrerelease p \<Longrightarrow>
      sv_Compare sv (CHR ''v'' # version_text a b c (Some p)) (CHR ''v'' # version_text a b c None) = -1"

section \<open>A reference implementation\<close>

definition split_version :: "string \<Rightarrow> (string list \<times> string option) option" where
  "split_version s =
     (case s of
        [] \<Rightarrow> None
      | c # rest \<Rightarrow>
          if c \<noteq> CHR ''v'' then None
          else (case Cut rest ''-'' of
              None \<Rightarrow> Some (split_on (CHR ''.'') rest, None)
            | Some (core, pre) \<Rightarrow> Some (split_on (CHR ''.'') core, Some pre)))"

definition identifier_key :: "string \<Rightarrow> nat list" where
  "identifier_key s = (if list_all is_digit s then [0, dec_val s] else 1 # map byte s)"

definition version_key :: "string \<Rightarrow> nat list list" where
  "version_key s =
     (case split_version s of
        None \<Rightarrow> []
      | Some (core, pre) \<Rightarrow>
          map dec_val core #
          (case pre of None \<Rightarrow> [[2]] | Some p \<Rightarrow> map identifier_key (split_on (CHR ''.'') p)))"

definition reference_semver :: semver_pkg where
  "reference_semver =
     \<lparr>sv_IsValid = (\<lambda>s. case split_version s of
        None \<Rightarrow> False
      | Some (core, pre) \<Rightarrow> length core \<le> 3 \<and> list_all re_numeric core \<and> valid_pre pre),
      sv_Compare = (\<lambda>s t. if version_key s < version_key t then -1
        else if version_key t < version_key s then 1 else 0),
      sv_Major = (\<lambda>s. case split_version s of
        None \<Rightarrow> []
      | Some (core, pre) \<Rightarrow> ''v'' @ hd core)\<rparr>"

lemma re_numeric_iff: "re_numeric s \<longleftrightarrow> (\<exists>n. s = show_nat n)"
proof
  assume "re_numeric s"
  then show "\<exists>n. s = show_nat n"
  proof (cases "s = ''0''")
    case True
    have "show_nat 0 = ''0''" by code_simp
    with True show ?thesis by metis
  next
    case False
    with \<open>re_numeric s\<close> have "s = show_nat (dec_val s)" by (simp add: re_numeric_def show_nat_dec_val)
    then show ?thesis ..
  qed
next
  assume "\<exists>n. s = show_nat n"
  then obtain n where n: "s = show_nat n" ..
  have "show_nat 0 = ''0''" by code_simp
  then show "re_numeric s" using show_nat_positive [of n] by (cases "n = 0") (auto simp: n re_numeric_def)
qed

lemma show_nat_not_in: "\<not> is_digit c \<Longrightarrow> c \<notin> set (show_nat n)"
  using show_nat_digits [of n] by (auto simp: list_all_iff)

lemma separators_not_digits [simp]:
  "\<not> is_digit (CHR ''.'')" "\<not> is_digit (CHR ''-'')" "\<not> is_digit (CHR ''+'')"
  by code_simp+

lemma split_core_text [simp]: "split_on (CHR ''.'') (core_text a b c) = [show_nat a, show_nat b, show_nat c]"
  by (simp add: core_text_def split_on_append show_nat_not_in)

lemma core_text_not_in: "\<not> is_digit x \<Longrightarrow> x \<noteq> CHR ''.'' \<Longrightarrow> x \<notin> set (core_text a b c)"
  by (auto simp: core_text_def dest: show_nat_not_in)

lemma Cut_version_text:
  "Cut (version_text a b c pre) ''-'' = (case pre of None \<Rightarrow> None | Some p \<Rightarrow> Some (core_text a b c, p))"
  using core_text_not_in [of "CHR ''-''" a b c] by (cases pre) (simp_all add: version_text_def)

lemma split_version_text [simp]:
  "split_version (CHR ''v'' # version_text a b c pre) = Some ([show_nat a, show_nat b, show_nat c], pre)"
  by (cases pre) (simp_all add: split_version_def Cut_version_text, simp add: version_text_def)

lemma version_key_text:
  "version_key (CHR ''v'' # version_text a b c pre) = [a, b, c] #
     (case pre of None \<Rightarrow> [[2]] | Some p \<Rightarrow> map identifier_key (split_on (CHR ''.'') p))"
  using split_version_text [of a b c pre] by (simp add: version_key_def)

lemma prerelease_key_less: "map identifier_key (split_on (CHR ''.'') p) < [[2]]"
  by (cases "split_on (CHR ''.'') p") (auto simp: identifier_key_def)

lemma three_parts_text:
  "core_text a b c = s \<longleftrightarrow> split_on (CHR ''.'') s = [show_nat a, show_nat b, show_nat c]"
  by (metis split_core_text join_split_on)

interpretation reference: semver_laws reference_semver
proof
  fix s assume three: "three_components s"
  define core where "core = (case Cut s ''-'' of None \<Rightarrow> s | Some (core, _) \<Rightarrow> core)"
  define pre where "pre = map_option snd (Cut s ''-'')"
  have s: "s = core @ (case pre of None \<Rightarrow> [] | Some p \<Rightarrow> CHR ''-'' # p)"
    by (auto simp: core_def pre_def Cut_char_Some split: option.splits)
  have parts: "split_version (CHR ''v'' # s) = Some (split_on (CHR ''.'') core, pre)"
    by (auto simp: split_version_def core_def pre_def split: option.splits)
  have len: "length (split_on (CHR ''.'') core) = 3"
    using three by (simp add: three_components_def core_def)
  then obtain x y z where xyz: "split_on (CHR ''.'') core = [x, y, z]"
    by (auto simp: numeral_3_eq_3 length_Suc_conv)
  have "(\<exists>a b c. core_text a b c = core) \<longleftrightarrow> re_numeric x \<and> re_numeric y \<and> re_numeric z"
    unfolding three_parts_text xyz re_numeric_iff by auto
  then have "sv_IsValid reference_semver (CHR ''v'' # s) \<longleftrightarrow>
      (\<exists>a b c. core_text a b c = core) \<and> valid_pre pre"
    by (simp add: reference_semver_def parts xyz)
  moreover have "s = version_text a b c q \<longleftrightarrow> core_text a b c = core \<and> pre = q" for a b c q
  proof
    assume "s = version_text a b c q"
    then have "Cut s ''-'' = (case q of None \<Rightarrow> None | Some p \<Rightarrow> Some (core_text a b c, p))"
      by (simp add: Cut_version_text)
    with \<open>s = version_text a b c q\<close> show "core_text a b c = core \<and> pre = q"
      by (cases q) (simp_all add: core_def pre_def version_text_def)
  next
    assume "core_text a b c = core \<and> pre = q"
    then show "s = version_text a b c q" using s by (simp add: version_text_def)
  qed
  ultimately show "sv_IsValid reference_semver (CHR ''v'' # s) \<longleftrightarrow>
      (\<exists>a b c pre. s = version_text a b c pre \<and> valid_pre pre)"
    by auto
next
  fix a b c d e f :: nat and pre q :: "string option"
  show "sv_Major reference_semver (CHR ''v'' # version_text a b c pre) = ''v'' @ show_nat a"
    using split_version_text [of a b c pre] by (simp add: reference_semver_def)
  show "sv_Compare reference_semver (CHR ''v'' # version_text a b c pre) (CHR ''v'' # version_text d e f q) =
      (if [a, b, c] < [d, e, f] then -1 else 1)" if "[a, b, c] \<noteq> [d, e, f]"
    using that by (auto simp: reference_semver_def version_key_text)
  show "sv_Compare reference_semver (CHR ''v'' # version_text a b c None) (CHR ''v'' # version_text a b c q) =
      (if q = None then 0 else 1)"
    by (cases q) (use prerelease_key_less in \<open>auto simp: reference_semver_def version_key_text dest: less_asym\<close>)
  show "sv_Compare reference_semver (CHR ''v'' # version_text a b c (Some p)) (CHR ''v'' # version_text a b c None) = -1" for p
    using prerelease_key_less [of p] by (auto simp: reference_semver_def version_key_text)
qed

end
