(* ===== verification/NpmRange.thy ===== *)
theory NpmRange
  imports Semver Unicode "HOL-Library.Word"
begin

text \<open>
  internal/npmprofile/semver_range.go: does a declared npm version, an exact version or a range,
  include the version the toolchain's npm reports?  Version components are 64-bit words as in the
  source; the comparison of two versions goes through golang.org/x/mod/semver, the parameter \<open>sv\<close>.
\<close>

section \<open>Versions and partial versions\<close>

record npmSemver =
  vr_major :: "64 word"
  vr_minor :: "64 word"
  vr_patch :: "64 word"
  vr_pre :: string
  vr_hasPre :: bool

definition zero_semver :: npmSemver where
  "zero_semver = \<lparr>vr_major = 0, vr_minor = 0, vr_patch = 0, vr_pre = [], vr_hasPre = False\<rparr>"

definition release :: "64 word list \<Rightarrow> npmSemver" where
  "release nums = zero_semver\<lparr>vr_major := nums ! 0, vr_minor := nums ! 1, vr_patch := nums ! 2\<rparr>"

definition canonical :: "npmSemver \<Rightarrow> string" where
  "canonical v =
     (let version = ''v'' @ show_nat (unat (vr_major v)) @ ''.'' @ show_nat (unat (vr_minor v))
        @ ''.'' @ show_nat (unat (vr_patch v)) in
      if vr_hasPre v then version @ ''-'' @ vr_pre v else version)"

definition compare_semver :: "semver_pkg \<Rightarrow> npmSemver \<Rightarrow> npmSemver \<Rightarrow> int" where
  "compare_semver sv v other = sv_Compare sv (canonical v) (canonical other)"

text \<open>The two arrays of length three are lists of that length.\<close>

record npmPartial =
  pt_nums :: "64 word list"
  pt_specified :: "bool list"
  pt_pre :: string
  pt_hasPre :: bool

definition zero_partial :: npmPartial where
  "zero_partial = \<lparr>pt_nums = [0, 0, 0], pt_specified = [False, False, False], pt_pre = [], pt_hasPre = False\<rparr>"

definition full :: "npmPartial \<Rightarrow> bool" where
  "full p \<longleftrightarrow> pt_specified p ! 0 \<and> pt_specified p ! 1 \<and> pt_specified p ! 2"

definition wildcard :: "npmPartial \<Rightarrow> bool" where
  "wildcard p \<longleftrightarrow> \<not> pt_specified p ! 0"

definition zeroFilled :: "npmPartial \<Rightarrow> npmSemver" where
  "zeroFilled p =
     (let version = release (pt_nums p) in
      if full p \<and> pt_hasPre p then version\<lparr>vr_pre := pt_pre p, vr_hasPre := True\<rparr> else version)"

definition incrementLastSpecified :: "npmPartial \<Rightarrow> npmSemver" where
  "incrementLastSpecified p =
     (let nums = pt_nums p in
      release
        (if pt_specified p ! 2 then nums[2 := nums ! 2 + 1]
         else if pt_specified p ! 1 then nums[1 := nums ! 1 + 1, 2 := 0]
         else nums[0 := nums ! 0 + 1, 1 := 0, 2 := 0]))"

section \<open>Parsing\<close>

definition maxNPMSafeComponent :: nat where "maxNPMSafeComponent = 9007199254740991"

definition parseNPMVersionNumber :: "string \<Rightarrow> 64 word option" where
  "parseNPMVersionNumber text =
     (if text = [] then None
      else if \<not> list_all is_digit text then None
      else if length text > 1 \<and> hd text = CHR ''0'' then None
      else case ParseUint64 text of
        None \<Rightarrow> None
      | Some number \<Rightarrow> if number > maxNPMSafeComponent then None else Some (of_nat number))"

definition isNPMWildcard :: "string \<Rightarrow> bool" where
  "isNPMWildcard part \<longleftrightarrow> part = ''x'' \<or> part = ''X'' \<or> part = ''*''"

fun parse_parts :: "nat \<Rightarrow> bool \<Rightarrow> npmPartial \<Rightarrow> string list \<Rightarrow> npmPartial option" where
  "parse_parts i wildcardSeen partial [] = Some partial"
| "parse_parts i wildcardSeen partial (part # parts) =
     (if isNPMWildcard part then parse_parts (Suc i) True partial parts
      else case parseNPMVersionNumber part of
        None \<Rightarrow> None
      | Some number \<Rightarrow>
          if wildcardSeen then None
          else parse_parts (Suc i) wildcardSeen
            (partial\<lparr>pt_nums := (pt_nums partial)[i := number],
                     pt_specified := (pt_specified partial)[i := True]\<rparr>) parts)"

definition parseNPMPartial :: "string \<Rightarrow> npmPartial option" where
  "parseNPMPartial text0 =
     (if text0 = [] then None
      else (let text = TrimPrefix text0 ''v'' in
        if text = [] \<or> CHR ''+'' \<in> set text then None
        else (let cut = Cut text ''-'';
                  core = (case cut of None \<Rightarrow> text | Some (core, _) \<Rightarrow> core);
                  pre = map_option snd cut in
          if pre \<noteq> None \<and> \<not> validNPMPrerelease (the pre) then None
          else (let parts = split_on (CHR ''.'') core in
            if length parts > 3 then None
            else case parse_parts 0 False zero_partial parts of
              None \<Rightarrow> None
            | Some partial \<Rightarrow>
                (case pre of
                   None \<Rightarrow> Some partial
                 | Some p \<Rightarrow>
                     if full partial then Some (partial\<lparr>pt_pre := p, pt_hasPre := True\<rparr>)
                     else if length parts \<noteq> 3 \<or> \<not> isNPMWildcard (parts ! 2) then None
                     else Some partial)))))"

definition parseNPMRangeActual :: "string \<Rightarrow> npmSemver option" where
  "parseNPMRangeActual actual =
     (case parseNPMPartial actual of
        None \<Rightarrow> None
      | Some partial \<Rightarrow>
          if \<not> full partial \<or> pt_hasPre partial then None else Some (zeroFilled partial))"

section \<open>Intervals\<close>

record npmVersionBounds =
  lower :: npmSemver
  hasLower :: bool
  lowerInclusive :: bool
  upper :: npmSemver
  hasUpper :: bool
  upperInclusive :: bool
  never :: bool

definition zero_bounds :: npmVersionBounds where
  "zero_bounds = \<lparr>lower = zero_semver, hasLower = False, lowerInclusive = False, upper = zero_semver,
     hasUpper = False, upperInclusive = False, never = False\<rparr>"

definition contains :: "semver_pkg \<Rightarrow> npmVersionBounds \<Rightarrow> npmSemver \<Rightarrow> bool" where
  "contains sv b actual =
     (if never b then False
      else if hasLower b \<and>
        (compare_semver sv actual (lower b) < 0 \<or>
         compare_semver sv actual (lower b) = 0 \<and> \<not> lowerInclusive b) then False
      else if hasUpper b \<and>
        (compare_semver sv actual (upper b) > 0 \<or>
         compare_semver sv actual (upper b) = 0 \<and> \<not> upperInclusive b) then False
      else True)"

definition npmOperatorBounds :: "string \<Rightarrow> npmPartial \<Rightarrow> npmVersionBounds" where
  "npmOperatorBounds op partial =
     (if wildcard partial then
        (if op = ''='' \<or> op = ''>='' \<or> op = ''<='' then zero_bounds else zero_bounds\<lparr>never := True\<rparr>)
      else (let zero = zeroFilled partial in
        if op = ''='' then
          (if full partial then
             zero_bounds\<lparr>lower := zero, hasLower := True, lowerInclusive := True,
               upper := zero, hasUpper := True, upperInclusive := True\<rparr>
           else zero_bounds\<lparr>lower := zero, hasLower := True, lowerInclusive := True,
               upper := incrementLastSpecified partial, hasUpper := True\<rparr>)
        else if op = ''>='' then zero_bounds\<lparr>lower := zero, hasLower := True, lowerInclusive := True\<rparr>
        else if op = ''>'' then
          (if full partial then zero_bounds\<lparr>lower := zero, hasLower := True\<rparr>
           else zero_bounds\<lparr>lower := incrementLastSpecified partial, hasLower := True, lowerInclusive := True\<rparr>)
        else if op = ''<'' then zero_bounds\<lparr>upper := zero, hasUpper := True\<rparr>
        else if op = ''<='' then
          (if full partial then zero_bounds\<lparr>upper := zero, hasUpper := True, upperInclusive := True\<rparr>
           else zero_bounds\<lparr>upper := incrementLastSpecified partial, hasUpper := True\<rparr>)
        else zero_bounds\<lparr>never := True\<rparr>))"

definition npmTildeBounds :: "npmPartial \<Rightarrow> npmVersionBounds" where
  "npmTildeBounds partial =
     (if wildcard partial then zero_bounds
      else (let nums = pt_nums partial in
        zero_bounds\<lparr>lower := zeroFilled partial, hasLower := True, lowerInclusive := True, hasUpper := True,
          upper := release
            (if pt_specified partial ! 1 then nums[1 := nums ! 1 + 1, 2 := 0]
             else nums[0 := nums ! 0 + 1, 1 := 0, 2 := 0])\<rparr>))"

definition npmCaretBounds :: "npmPartial \<Rightarrow> npmVersionBounds" where
  "npmCaretBounds partial =
     (if wildcard partial then zero_bounds
      else (let nums = pt_nums partial; specified = pt_specified partial in
        zero_bounds\<lparr>lower := zeroFilled partial, hasLower := True, lowerInclusive := True,
          upper := release
            (if nums ! 0 > 0 then [nums ! 0 + 1, 0, 0]
             else if specified ! 1 \<and> nums ! 1 > 0 then [nums ! 0, nums ! 1 + 1, 0]
             else if specified ! 2 \<and> nums ! 2 > 0 then [nums ! 0, nums ! 1, nums ! 2 + 1]
             else if specified ! 2 then [nums ! 0, nums ! 1, 1]
             else if specified ! 1 then [nums ! 0, 1, 0]
             else [1, 0, 0]),
          hasUpper := True\<rparr>))"

definition npmHyphenBounds :: "string \<Rightarrow> string \<Rightarrow> npmVersionBounds option" where
  "npmHyphenBounds left right =
     (case parseNPMPartial left of
        None \<Rightarrow> None
      | Some lo \<Rightarrow>
     (case parseNPMPartial right of
        None \<Rightarrow> None
      | Some hi \<Rightarrow>
          if wildcard lo \<or> wildcard hi then None
          else (let bounds = zero_bounds\<lparr>lower := zeroFilled lo, hasLower := True,
                      lowerInclusive := True, hasUpper := True\<rparr> in
            Some (if full hi then bounds\<lparr>upper := zeroFilled hi, upperInclusive := True\<rparr>
                  else bounds\<lparr>upper := incrementLastSpecified hi\<rparr>))))"

section \<open>Comparators and arms\<close>

definition isNPMRangeLoneOperator :: "string \<Rightarrow> bool" where
  "isNPMRangeLoneOperator field \<longleftrightarrow>
     field \<in> set [''<'', ''<='', ''>'', ''>='', ''='', ''~'', ''^'']"

definition isNPMRangeOperatorByte :: "char \<Rightarrow> bool" where
  "isNPMRangeOperatorByte c \<longleftrightarrow> c \<in> set ''<>=~^''"

text \<open>The operator a token opens with (the first of the list in the source) and the rest of it.\<close>

definition cut_operator :: "string \<Rightarrow> string \<times> string" where
  "cut_operator token =
     (case find (HasPrefix token) [''>='', ''<='', ''>'', ''<'', ''=''] of
        None \<Rightarrow> (''='', token)
      | Some opener \<Rightarrow> (opener, drop (length opener) token))"

definition npmComparatorBounds :: "string \<Rightarrow> npmVersionBounds option" where
  "npmComparatorBounds token =
     (if token = ''*'' \<or> token = ''x'' \<or> token = ''X'' then Some zero_bounds
      else if HasPrefix token ''~'' then map_option npmTildeBounds (parseNPMPartial (drop 1 token))
      else if HasPrefix token ''^'' then map_option npmCaretBounds (parseNPMPartial (drop 1 token))
      else (let (op, rest) = cut_operator token in
        if rest = [] \<or> isNPMRangeOperatorByte (hd rest) then None
        else map_option (npmOperatorBounds op) (parseNPMPartial rest)))"

text \<open>A lone operator binds to the field that follows it.\<close>

fun join_operators :: "string list \<Rightarrow> string list option" where
  "join_operators [] = Some []"
| "join_operators (field # ws) =
     (if \<not> isNPMRangeLoneOperator field then map_option ((#) field) (join_operators ws)
      else case ws of
        [] \<Rightarrow> None
      | next # rest \<Rightarrow>
          if isNPMRangeOperatorByte (hd next) then None
          else map_option ((#) (field @ next)) (join_operators rest))"

fun all_comparators :: "semver_pkg \<Rightarrow> npmSemver \<Rightarrow> string list \<Rightarrow> bool option" where
  "all_comparators sv actual [] = Some True"
| "all_comparators sv actual (token # tokens) =
     (case npmComparatorBounds token of
        None \<Rightarrow> None
      | Some bounds \<Rightarrow>
          if contains sv bounds actual then all_comparators sv actual tokens else Some False)"

text \<open>\<^const>\<open>None\<close> is the unparseable arm.\<close>

definition npmRangeArmMatches :: "semver_pkg \<Rightarrow> string \<Rightarrow> npmSemver \<Rightarrow> bool option" where
  "npmRangeArmMatches sv arm actual =
     (let words = Fields arm in
      if words = [] then None
      else if length (filter (\<lambda>f. f = ''-'') words) > 1 then None
      else if ''-'' \<in> set words then
        (if length words \<noteq> 3 \<or> words ! 1 \<noteq> ''-'' then None
         else map_option (\<lambda>bounds. contains sv bounds actual)
                (npmHyphenBounds (words ! 0) (words ! 2)))
      else case join_operators words of
        None \<Rightarrow> None
      | Some tokens \<Rightarrow> all_comparators sv actual tokens)"

fun any_arm :: "semver_pkg \<Rightarrow> npmSemver \<Rightarrow> bool \<Rightarrow> string list \<Rightarrow> bool" where
  "any_arm sv actual matched [] = matched"
| "any_arm sv actual matched (arm # arms) =
     (case npmRangeArmMatches sv arm actual of
        None \<Rightarrow> False
      | Some armMatched \<Rightarrow> any_arm sv actual (matched \<or> armMatched) arms)"

definition npmDeclaredMatchesActual :: "semver_pkg \<Rightarrow> string \<Rightarrow> string \<Rightarrow> bool" where
  "npmDeclaredMatchesActual sv declared actual =
     (case parseNPMRangeActual actual of
        None \<Rightarrow> False
      | Some actualVersion \<Rightarrow>
          (let trimmed = TrimSpace declared in
           if trimmed = [] then False
           else any_arm sv actualVersion False (Split trimmed ''||'')))"

section \<open>Well-formed partial versions\<close>

definition partial_of :: "64 word list \<Rightarrow> npmPartial \<Rightarrow> bool" where
  "partial_of ns p \<longleftrightarrow>
     length ns \<le> 3 \<and> (\<forall>n \<in> set ns. unat n \<le> maxNPMSafeComponent) \<and>
     pt_nums p = ns @ replicate (3 - length ns) 0 \<and>
     pt_specified p = replicate (length ns) True @ replicate (3 - length ns) False \<and>
     (pt_hasPre p \<longrightarrow> length ns = 3 \<and> validNPMPrerelease (pt_pre p))"

definition wf_partial :: "npmPartial \<Rightarrow> bool" where
  "wf_partial p \<longleftrightarrow> (\<exists>ns. partial_of ns p)"

text \<open>The components a partial version gives, and as many of a full version.\<close>

definition given :: "npmPartial \<Rightarrow> nat list" where
  "given p = map (unat \<circ> fst) (filter snd (zip (pt_nums p) (pt_specified p)))"

definition triple :: "npmSemver \<Rightarrow> nat list" where
  "triple v = [unat (vr_major v), unat (vr_minor v), unat (vr_patch v)]"

definition observed :: "npmPartial \<Rightarrow> npmSemver \<Rightarrow> nat list" where
  "observed p v = take (length (given p)) (triple v)"

lemma parse_number_safe: "parseNPMVersionNumber s = Some n \<Longrightarrow> unat n \<le> maxNPMSafeComponent"
  by (auto simp: parseNPMVersionNumber_def maxNPMSafeComponent_def unat_of_nat
      split: if_splits option.splits)

lemma parse_parts_shape:
  assumes "partial_of ns partial" and "\<not> pt_hasPre partial" and "length ns \<le> i"
    and "wildcardSeen \<or> length ns = i" and "i + length parts \<le> 3"
    and "parse_parts i wildcardSeen partial parts = Some p"
  shows "\<exists>ms. partial_of ms p \<and> \<not> pt_hasPre p"
  using assms
proof (induction parts arbitrary: i wildcardSeen partial ns)
  case Nil
  then show ?case by auto
next
  case (Cons part parts)
  show ?case
  proof (cases "isNPMWildcard part")
    case True
    with Cons.prems show ?thesis by (intro Cons.IH [of ns partial "Suc i" True]) auto
  next
    case False
    with Cons.prems obtain n where n: "parseNPMVersionNumber part = Some n" and w: "\<not> wildcardSeen"
      and rest: "parse_parts (Suc i) False (partial\<lparr>pt_nums := (pt_nums partial)[i := n],
          pt_specified := (pt_specified partial)[i := True]\<rparr>) parts = Some p"
      by (auto split: option.splits if_splits)
    from w Cons.prems have i: "i = length ns" "length ns < 3" by auto
    from i(2) consider "ns = []" | x where "ns = [x]" | x y where "ns = [x, y]"
      by (cases ns; cases "tl ns"; force)
    then have "partial_of (ns @ [n]) (partial\<lparr>pt_nums := (pt_nums partial)[i := n],
          pt_specified := (pt_specified partial)[i := True]\<rparr>)"
      using Cons.prems(1,2) i parse_number_safe [OF n]
      by cases (auto simp: partial_of_def numeral_3_eq_3 numeral_2_eq_2)
    from Cons.IH [OF this _ _ _ _ rest] Cons.prems i show ?thesis by auto
  qed
qed

lemma partial_of_zero: "partial_of [] zero_partial" "\<not> pt_hasPre zero_partial"
  by (simp_all add: partial_of_def zero_partial_def numeral_3_eq_3)

lemma full_partial_of: "partial_of ms q \<Longrightarrow> full q \<Longrightarrow> length ms = 3"
proof -
  assume ms: "partial_of ms q" and "full q"
  then have "length ms \<le> 3" by (simp add: partial_of_def)
  moreover have "pt_specified q ! 2 = (length ms > 2)"
    using ms \<open>length ms \<le> 3\<close> by (auto simp: partial_of_def nth_append)
  ultimately show ?thesis using \<open>full q\<close> by (simp add: full_def)
qed

lemma parse_partial_wf:
  assumes "parseNPMPartial s = Some p"
  shows "wf_partial p"
proof (cases "Cut (TrimPrefix s ''v'') ''-''")
  case None
  let ?parts = "split_on (CHR ''.'') (TrimPrefix s ''v'')"
  have "parse_parts 0 False zero_partial ?parts = Some p" "length ?parts \<le> 3"
    using assms None by (auto simp: parseNPMPartial_def Let_def split: if_splits option.splits)
  with parse_parts_shape [OF partial_of_zero, of 0 False ?parts p] show ?thesis
    by (auto simp: wf_partial_def)
next
  case (Some cut)
  obtain core pre where cut: "cut = (core, pre)" by (cases cut)
  let ?parts = "split_on (CHR ''.'') core"
  have "parse_parts 0 False zero_partial ?parts \<noteq> None"
    using assms Some cut
    by (cases "parse_parts 0 False zero_partial ?parts") (simp_all add: parseNPMPartial_def Let_def split: if_splits)
  then obtain q where q: "parse_parts 0 False zero_partial ?parts = Some q" by blast
  have len: "length ?parts \<le> 3" and pre: "validNPMPrerelease pre"
    using assms Some cut by (auto simp: parseNPMPartial_def Let_def split: if_splits)
  have p: "p = (if full q then q\<lparr>pt_pre := pre, pt_hasPre := True\<rparr> else q)"
    using assms Some cut q by (auto simp: parseNPMPartial_def Let_def split: if_splits)
  from parse_parts_shape [OF partial_of_zero _ _ _ q] len
  obtain ms where ms: "partial_of ms q" by auto
  then have "partial_of ms p"
    using full_partial_of [OF ms] pre unfolding p by (auto simp: partial_of_def)
  then show ?thesis unfolding wf_partial_def ..
qed

text \<open>The four shapes of a well-formed partial version.\<close>

lemma wf_partial_cases:
  assumes "wf_partial p"
  obtains
    (none) "pt_nums p = [0, 0, 0]" "pt_specified p = [False, False, False]" "\<not> pt_hasPre p"
  | (major) a where "pt_nums p = [a, 0, 0]" "pt_specified p = [True, False, False]" "\<not> pt_hasPre p"
      "unat a \<le> maxNPMSafeComponent"
  | (minor) a b where "pt_nums p = [a, b, 0]" "pt_specified p = [True, True, False]" "\<not> pt_hasPre p"
      "unat a \<le> maxNPMSafeComponent" "unat b \<le> maxNPMSafeComponent"
  | (patch) a b c where "pt_nums p = [a, b, c]" "pt_specified p = [True, True, True]"
      "pt_hasPre p \<longrightarrow> validNPMPrerelease (pt_pre p)" "unat a \<le> maxNPMSafeComponent"
      "unat b \<le> maxNPMSafeComponent" "unat c \<le> maxNPMSafeComponent"
proof -
  from assms obtain ns where ns: "partial_of ns p" unfolding wf_partial_def ..
  then have "length ns \<le> 3" by (simp add: partial_of_def)
  then consider "ns = []" | a where "ns = [a]" | a b where "ns = [a, b]" | a b c where "ns = [a, b, c]"
    by (cases ns; cases "tl ns"; cases "tl (tl ns)"; force)
  then show thesis
    by cases (use ns that in \<open>auto simp: partial_of_def numeral_3_eq_3 numeral_2_eq_2\<close>)
qed

section \<open>Comparison of a release with a bound\<close>

lemma unat_succ: "unat n \<le> maxNPMSafeComponent \<Longrightarrow> unat (n + 1 :: 64 word) = unat n + 1"
  by (rule unat_plus_simple [THEN iffD1, THEN trans])
    (simp_all add: no_olen_add_nat maxNPMSafeComponent_def)

lemma canonical_text:
  "canonical v = CHR ''v'' # version_text (unat (vr_major v)) (unat (vr_minor v)) (unat (vr_patch v))
     (if vr_hasPre v then Some (vr_pre v) else None)"
  by (simp add: canonical_def version_text_def core_text_def Let_def)

lemma compare_release_with:
  assumes "semver_laws sv" and "\<not> vr_hasPre v" and "vr_hasPre w \<longrightarrow> validNPMPrerelease (vr_pre w)"
  shows "compare_semver sv v w < 0 \<longleftrightarrow> triple v < triple w"
    and "compare_semver sv v w = 0 \<longleftrightarrow> triple v = triple w \<and> \<not> vr_hasPre w"
    and "compare_semver sv v w > 0 \<longleftrightarrow> triple w < triple v \<or> triple v = triple w \<and> vr_hasPre w"
proof -
  let ?q = "if vr_hasPre w then Some (vr_pre w) else None"
  have q: "valid_pre ?q" "valid_pre None" using assms(3) by (auto simp: valid_pre_def)
  have c: "compare_semver sv v w =
      (if triple v < triple w then -1 else if triple v \<noteq> triple w then 1
       else if vr_hasPre w then 1 else 0)"
  proof (cases "triple v = triple w")
    case True
    then show ?thesis
      using semver_laws.compare_release [OF assms(1) q(1)] assms(2)
      by (simp add: compare_semver_def canonical_text triple_def)
  next
    case False
    then show ?thesis
      using semver_laws.compare_core [OF assms(1) q(2) q(1)] assms(2)
      by (simp add: compare_semver_def canonical_text triple_def)
  qed
  show "compare_semver sv v w < 0 \<longleftrightarrow> triple v < triple w"
    "compare_semver sv v w = 0 \<longleftrightarrow> triple v = triple w \<and> \<not> vr_hasPre w"
    "compare_semver sv v w > 0 \<longleftrightarrow> triple w < triple v \<or> triple v = triple w \<and> vr_hasPre w"
    unfolding c by auto
qed


text \<open>The interval on component triples that bounds describe.\<close>

definition interval :: "npmVersionBounds \<Rightarrow> nat list \<Rightarrow> bool" where
  "interval b t \<longleftrightarrow> \<not> never b \<and>
    (hasLower b \<longrightarrow> (if vr_hasPre (lower b) \<or> lowerInclusive b then triple (lower b) \<le> t
       else triple (lower b) < t)) \<and>
    (hasUpper b \<longrightarrow> (if upperInclusive b \<and> \<not> vr_hasPre (upper b) then t \<le> triple (upper b)
       else t < triple (upper b)))"

lemma contains_interval:
  assumes "semver_laws sv" and "\<not> vr_hasPre v"
    and "vr_hasPre (lower b) \<longrightarrow> validNPMPrerelease (vr_pre (lower b))"
    and "vr_hasPre (upper b) \<longrightarrow> validNPMPrerelease (vr_pre (upper b))"
  shows "contains sv b v \<longleftrightarrow> interval b (triple v)"
proof -
  note lo = compare_release_with [OF assms(1,2,3)] and up = compare_release_with [OF assms(1,2,4)]
  have "\<not> (compare_semver sv v (lower b) < 0 \<or> compare_semver sv v (lower b) = 0 \<and> \<not> lowerInclusive b)
      \<longleftrightarrow> (if vr_hasPre (lower b) \<or> lowerInclusive b then triple (lower b) \<le> triple v
           else triple (lower b) < triple v)"
    unfolding lo by (cases rule: linorder_cases [of "triple v" "triple (lower b)"]) auto
  moreover have "\<not> (compare_semver sv v (upper b) > 0 \<or> compare_semver sv v (upper b) = 0 \<and> \<not> upperInclusive b)
      \<longleftrightarrow> (if upperInclusive b \<and> \<not> vr_hasPre (upper b) then triple v \<le> triple (upper b)
           else triple v < triple (upper b))"
    unfolding up by (cases rule: linorder_cases [of "triple v" "triple (upper b)"]) auto
  ultimately show ?thesis unfolding contains_def interval_def by argo
qed

text \<open>Completing a partial version with zeros, or with the next version, is comparing its components.\<close>

lemma complete_major:
  "[a, 0, 0] \<le> [x, y, z :: nat] \<longleftrightarrow> a \<le> x" "[x, y, z] < [Suc a, 0, 0] \<longleftrightarrow> x \<le> a"
  "[x, y, z] < [a, 0, 0] \<longleftrightarrow> x < a" "[Suc a, 0, 0] \<le> [x, y, z] \<longleftrightarrow> a < x"
  by auto

lemma complete_minor:
  "[a, b, 0] \<le> [x, y, z :: nat] \<longleftrightarrow> [a, b] \<le> [x, y]" "[x, y, z] < [a, Suc b, 0] \<longleftrightarrow> [x, y] \<le> [a, b]"
  "[x, y, z] < [a, b, 0] \<longleftrightarrow> [x, y] < [a, b]" "[a, Suc b, 0] \<le> [x, y, z] \<longleftrightarrow> [a, b] < [x, y]"
  by auto

section \<open>What a comparator means\<close>

text \<open>
  The declarative reading: an operator compares only the components that are written.
  A caret range fixes the components up to the first non-zero one written, a tilde range up to the
  minor one.
\<close>

definition op_holds :: "string \<Rightarrow> npmPartial \<Rightarrow> npmSemver \<Rightarrow> bool" where
  "op_holds op p v =
     (if op = ''='' then observed p v = given p \<and> \<not> pt_hasPre p
      else if op = ''>='' then given p \<le> observed p v
      else if op = ''<'' then observed p v < given p
      else if op = ''>'' then given p < observed p v \<or> given p = observed p v \<and> pt_hasPre p
      else if op = ''<='' then observed p v < given p \<or> observed p v = given p \<and> \<not> pt_hasPre p
      else False)"

definition agree :: "nat \<Rightarrow> npmPartial \<Rightarrow> npmSemver \<Rightarrow> bool" where
  "agree k p v \<longleftrightarrow> take k (observed p v) = take k (given p)"

definition tilde_holds :: "npmPartial \<Rightarrow> npmSemver \<Rightarrow> bool" where
  "tilde_holds p v \<longleftrightarrow> agree 2 p v \<and> given p \<le> observed p v"

definition caret_holds :: "npmPartial \<Rightarrow> npmSemver \<Rightarrow> bool" where
  "caret_holds p v \<longleftrightarrow>
     agree (Suc (length (takeWhile (\<lambda>n. n = 0) (given p)))) p v \<and> given p \<le> observed p v"

lemma triple_simps [simp]:
  "triple (release [a, b, c]) = [unat a, unat b, unat c]"
  "triple (release [a, b, c]\<lparr>vr_pre := q, vr_hasPre := h\<rparr>) = [unat a, unat b, unat c]"
  "vr_hasPre (release ns) = False" "triple zero_semver = [0, 0, 0]" "vr_hasPre zero_semver = False"
  by (simp_all add: triple_def release_def zero_semver_def)

lemmas list_less_simps = Cons_less_Cons Cons_le_Cons

lemma patch_zeroFilled:
  assumes "pt_nums p = [a, b, c]" and "pt_specified p = [True, True, True]"
  shows "triple (zeroFilled p) = [unat a, unat b, unat c]" "vr_hasPre (zeroFilled p) \<longleftrightarrow> pt_hasPre p"
    "given p = [unat a, unat b, unat c]" "length (triple v) = 3 \<Longrightarrow> observed p v = triple v"
  using assms by (simp_all add: given_def observed_def zeroFilled_def full_def Let_def)

lemmas interval_simps = interval_def zero_bounds_def wildcard_def full_def given_def observed_def agree_def
  zeroFilled_def incrementLastSpecified_def Let_def

lemma operator_interval:
  assumes "wf_partial p" and "op \<in> set [''='', ''>='', ''<='', ''>'', ''<'']"
    and t: "triple v = [x, y, z]"
  shows "interval (npmOperatorBounds op p) (triple v) \<longleftrightarrow> op_holds op p v"
  using assms(1)
proof (cases rule: wf_partial_cases)
  case none
  then show ?thesis using assms(2)
    by (auto simp: npmOperatorBounds_def op_holds_def interval_simps)
next
  case (major a)
  note major' = major(1-3) complete_major unat_succ [OF major(4)]
  from assms(2) show ?thesis
    by (simp del: list_less_simps, elim disjE;
        simp add: npmOperatorBounds_def op_holds_def interval_simps t major' del: list_less_simps;
        simp; linarith?)
next
  case (minor a b)
  note minor' = minor(1-3) complete_minor unat_succ [OF minor(5)]
  from assms(2) show ?thesis
    by (simp del: list_less_simps, elim disjE;
        simp add: npmOperatorBounds_def op_holds_def interval_simps t minor' del: list_less_simps;
        auto)
next
  case (patch a b c)
  have z: "triple (zeroFilled p) = given p" "vr_hasPre (zeroFilled p) \<longleftrightarrow> pt_hasPre p"
    "observed p v = triple v"
    using patch_zeroFilled [OF patch(1,2)] by (simp_all add: t)
  from assms(2) show ?thesis
    by (simp, elim disjE;
        simp add: npmOperatorBounds_def op_holds_def interval_def zero_bounds_def wildcard_def full_def
        Let_def z patch(2); auto)
qed

lemma tilde_interval:
  assumes "wf_partial p" and t: "triple v = [x, y, z]"
  shows "interval (npmTildeBounds p) (triple v) \<longleftrightarrow> tilde_holds p v"
  using assms(1)
proof (cases rule: wf_partial_cases)
  case none
  then show ?thesis
    by (auto simp: npmTildeBounds_def tilde_holds_def interval_simps)
next
  case (major a)
  note major' = major(1-3) complete_major unat_succ [OF major(4)]
  show ?thesis
    by (simp add: npmTildeBounds_def tilde_holds_def interval_simps t major' del: list_less_simps; auto)
next
  case (minor a b)
  note minor' = minor(1-3) complete_minor unat_succ [OF minor(5)]
  show ?thesis
    by (simp add: npmTildeBounds_def tilde_holds_def interval_simps t minor' del: list_less_simps; auto)
next
  case (patch a b c)
  show ?thesis
    by (simp add: npmTildeBounds_def tilde_holds_def interval_def zero_bounds_def wildcard_def agree_def Let_def
        patch_zeroFilled [OF patch(1,2)] t patch(1,2) complete_minor unat_succ [OF patch(5)]
        del: list_less_simps; auto)
qed

lemma complete_patch: "[x, y, z :: nat] < [a, b, Suc c] \<longleftrightarrow> [x, y, z] \<le> [a, b, c]"
  by auto

lemma pos_word: "(0 :: 64 word) < a \<longleftrightarrow> unat a \<noteq> 0"
  by (simp add: word_neq_0_conv [symmetric] unat_eq_0)

lemma caret_interval:
  assumes "wf_partial p" and t: "triple v = [x, y, z]"
  shows "interval (npmCaretBounds p) (triple v) \<longleftrightarrow> caret_holds p v"
  using assms(1)
proof (cases rule: wf_partial_cases)
  case none
  then show ?thesis
    by (auto simp: npmCaretBounds_def caret_holds_def interval_simps)
next
  case (major a)
  have one: "unat (1 :: 64 word) = Suc 0" by simp
  show ?thesis
    by (simp add: npmCaretBounds_def caret_holds_def interval_simps t major(1-3) complete_major
        complete_major(2) [of _ _ _ 0] unat_succ [OF major(4)] pos_word one del: list_less_simps; auto)
next
  case (minor a b)
  show ?thesis
    by (simp add: npmCaretBounds_def caret_holds_def interval_simps t minor(1-3) complete_minor
        complete_major unat_succ [OF minor(4)] unat_succ [OF minor(5)] pos_word del: list_less_simps; auto)
next
  case (patch a b c)
  show ?thesis
    by (simp add: npmCaretBounds_def caret_holds_def interval_def zero_bounds_def wildcard_def agree_def Let_def
        patch_zeroFilled [OF patch(1,2)] t patch(1,2) complete_minor complete_major complete_patch
        unat_succ [OF patch(4)] unat_succ [OF patch(5)] unat_succ [OF patch(6)] pos_word
        del: list_less_simps; auto)
qed


text \<open>Bounds made from well-formed partial versions carry well-formed prereleases only.\<close>

definition wf_bounds :: "npmVersionBounds \<Rightarrow> bool" where
  "wf_bounds b \<longleftrightarrow>
     (vr_hasPre (lower b) \<longrightarrow> validNPMPrerelease (vr_pre (lower b))) \<and>
     (vr_hasPre (upper b) \<longrightarrow> validNPMPrerelease (vr_pre (upper b)))"

lemma zeroFilled_pre: "wf_partial p \<Longrightarrow> vr_hasPre (zeroFilled p) \<longrightarrow> validNPMPrerelease (vr_pre (zeroFilled p))"
  by (erule wf_partial_cases) (auto simp: zeroFilled_def full_def Let_def)

lemma increment_pre [simp]: "vr_hasPre (incrementLastSpecified p) = False"
  by (simp add: incrementLastSpecified_def Let_def)

lemma wf_bounds_made:
  assumes "wf_partial p"
  shows "wf_bounds (npmOperatorBounds op p)" "wf_bounds (npmTildeBounds p)" "wf_bounds (npmCaretBounds p)"
  using zeroFilled_pre [OF assms]
  by (auto simp: wf_bounds_def npmOperatorBounds_def npmTildeBounds_def npmCaretBounds_def
      zero_bounds_def Let_def)

lemma wf_bounds_zero [simp]: "wf_bounds zero_bounds" "interval zero_bounds t"
  by (simp_all add: wf_bounds_def zero_bounds_def interval_def)

lemma contains_wf:
  "semver_laws sv \<Longrightarrow> \<not> vr_hasPre v \<Longrightarrow> wf_bounds b \<Longrightarrow> contains sv b v \<longleftrightarrow> interval b (triple v)"
  by (rule contains_interval) (simp_all add: wf_bounds_def)

text \<open>The reading of a comparator token and of a hyphen range, as a predicate on versions.\<close>

definition read_comparator :: "string \<Rightarrow> (npmSemver \<Rightarrow> bool) option" where
  "read_comparator token =
     (if isNPMWildcard token then Some (\<lambda>_. True)
      else if HasPrefix token ''~'' then map_option tilde_holds (parseNPMPartial (drop 1 token))
      else if HasPrefix token ''^'' then map_option caret_holds (parseNPMPartial (drop 1 token))
      else (let (op, rest) = cut_operator token in
        if rest = [] \<or> isNPMRangeOperatorByte (hd rest) then None
        else map_option (op_holds op) (parseNPMPartial rest)))"

definition read_hyphen :: "string \<Rightarrow> string \<Rightarrow> (npmSemver \<Rightarrow> bool) option" where
  "read_hyphen left right =
     (case (parseNPMPartial left, parseNPMPartial right) of
        (Some lo, Some hi) \<Rightarrow>
          if wildcard lo \<or> wildcard hi then None
          else Some (\<lambda>v. op_holds ''>='' lo v \<and> op_holds ''<='' hi v)
      | _ \<Rightarrow> None)"

lemma cut_operator_known: "fst (cut_operator token) \<in> set [''='', ''>='', ''<='', ''>'', ''<'']"
proof (cases "find (HasPrefix token) [''>='', ''<='', ''>'', ''<'', ''='']")
  case (Some opener)
  then have "opener \<in> set [''>='', ''<='', ''>'', ''<'', ''='']"
    unfolding find_Some_iff by (metis nth_mem)
  then show ?thesis by (auto simp: cut_operator_def Some)
qed (simp add: cut_operator_def)

lemma comparator_reading:
  assumes "semver_laws sv" and "\<not> vr_hasPre v"
  shows "map_option (\<lambda>b. contains sv b v) (npmComparatorBounds token) =
    map_option (\<lambda>reading. reading v) (read_comparator token)"
proof -
  have t: "triple v = [unat (vr_major v), unat (vr_minor v), unat (vr_patch v)]" by (simp add: triple_def)
  obtain op rest where cut: "cut_operator token = (op, rest)" by (cases "cut_operator token")
  then have known: "op \<in> set [''='', ''>='', ''<='', ''>'', ''<'']"
    using cut_operator_known [of token] by (metis fst_conv)
  have op: "contains sv (npmOperatorBounds op p) v \<longleftrightarrow> op_holds op p v"
    if "parseNPMPartial s = Some p" for s p
    using parse_partial_wf [OF that] operator_interval [OF _ known t, of p]
    by (simp only: contains_wf [OF assms] wf_bounds_made)
  have tilde: "contains sv (npmTildeBounds p) v \<longleftrightarrow> tilde_holds p v"
    if "parseNPMPartial s = Some p" for s p
    using parse_partial_wf [OF that] tilde_interval [OF _ t, of p]
    by (simp add: contains_wf assms wf_bounds_made)
  have caret: "contains sv (npmCaretBounds p) v \<longleftrightarrow> caret_holds p v"
    if "parseNPMPartial s = Some p" for s p
    using parse_partial_wf [OF that] caret_interval [OF _ t, of p]
    by (simp add: contains_wf assms wf_bounds_made)
  have any: "contains sv zero_bounds v" by (simp add: contains_wf assms)
  have over: "map_option (\<lambda>b. contains sv b v) (map_option f x) = map_option (\<lambda>reading. reading v) (map_option g x)"
    if "\<And>p. x = Some p \<Longrightarrow> contains sv (f p) v = g p v" for f g and x :: "npmPartial option"
    using that by (cases x) simp_all
  show ?thesis
    unfolding npmComparatorBounds_def read_comparator_def isNPMWildcard_def cut Let_def prod.case
    by (simp add: any over [of _ npmTildeBounds tilde_holds, OF tilde]
        over [of _ npmCaretBounds caret_holds, OF caret] over [of _ "npmOperatorBounds op" "op_holds op", OF op])
qed

lemma hyphen_reading:
  assumes "semver_laws sv" and "\<not> vr_hasPre v"
  shows "map_option (\<lambda>b. contains sv b v) (npmHyphenBounds left right) =
    map_option (\<lambda>reading. reading v) (read_hyphen left right)"
proof (cases "parseNPMPartial left"; cases "parseNPMPartial right")
  fix lo hi assume lo: "parseNPMPartial left = Some lo" and hi: "parseNPMPartial right = Some hi"
  note wf = parse_partial_wf [OF lo] parse_partial_wf [OF hi]
  have t: "triple v = [unat (vr_major v), unat (vr_minor v), unat (vr_patch v)]" by (simp add: triple_def)
  show ?thesis
  proof (cases "wildcard lo \<or> wildcard hi")
    case True
    then show ?thesis by (simp add: npmHyphenBounds_def read_hyphen_def lo hi)
  next
    case False
    let ?b = "(if full hi then zero_bounds\<lparr>lower := zeroFilled lo, hasLower := True, lowerInclusive := True,
        hasUpper := True, upper := zeroFilled hi, upperInclusive := True\<rparr>
      else zero_bounds\<lparr>lower := zeroFilled lo, hasLower := True, lowerInclusive := True,
        hasUpper := True, upper := incrementLastSpecified hi\<rparr>)"
    have b: "npmHyphenBounds left right = Some ?b"
      using False by (simp add: npmHyphenBounds_def Let_def lo hi)
    have "wf_bounds ?b"
      using zeroFilled_pre [OF wf(1)] zeroFilled_pre [OF wf(2)] by (simp add: wf_bounds_def)
    moreover have "interval ?b (triple v) \<longleftrightarrow> interval (npmOperatorBounds ''>='' lo) (triple v) \<and>
        interval (npmOperatorBounds ''<='' hi) (triple v)"
      using False by (simp add: npmOperatorBounds_def interval_def zero_bounds_def Let_def)
    ultimately show ?thesis
      using operator_interval [OF wf(1) _ t, of "''>=''"] operator_interval [OF wf(2) _ t, of "''<=''"] False
      by (simp add: b read_hyphen_def lo hi contains_wf assms)
  qed
qed (simp_all add: npmHyphenBounds_def read_hyphen_def)


section \<open>Ranges\<close>

text \<open>Every comparator and hyphen range is exactly what its notation says: an operator compares only
  the components that are written (at most 1.2 means 1.2 or earlier, whatever the patch), a tilde range
  keeps major and minor, a caret range everything up to the first non-zero component, and a
  prerelease bound excludes its own release from below.  Unparseable text stays unparseable.\<close>

theorem comparator_exact:
  assumes "semver_laws sv" and "\<not> vr_hasPre v"
  shows "map_option (\<lambda>b. contains sv b v) (npmComparatorBounds token) =
      map_option (\<lambda>reading. reading v) (read_comparator token) \<and>
    map_option (\<lambda>b. contains sv b v) (npmHyphenBounds left right) =
      map_option (\<lambda>reading. reading v) (read_hyphen left right)"
  using comparator_reading [OF assms] hyphen_reading [OF assms] by blast

lemma comparator_exact_witness:
  "map_option (\<lambda>b. contains reference_semver b (release [11, 5, 1])) (npmComparatorBounds ''^11.2'') = Some True \<and>
   map_option (\<lambda>b. contains reference_semver b (release [11, 5, 1])) (npmHyphenBounds ''10'' ''11.5'') = Some True"
proof -
  have "\<not> vr_hasPre (release [11, 5, 1])" by simp
  note comparator_exact [OF reference.semver_laws_axioms this, of "''^11.2''" "''10''" "''11.5''"]
  moreover have "map_option (\<lambda>reading. reading (release [11, 5, 1])) (read_comparator ''^11.2'') = Some True"
    "map_option (\<lambda>reading. reading (release [11, 5, 1])) (read_hyphen ''10'' ''11.5'') = Some True"
    by code_simp+
  ultimately show ?thesis by simp
qed

lemma release_components:
  "length ns = 3 \<Longrightarrow> set (triple (release ns)) = unat ` set ns"
  by (auto simp: triple_def release_def numeral_3_eq_3 length_Suc_conv)

definition safe_version :: "npmSemver \<Rightarrow> bool" where
  "safe_version v \<longleftrightarrow> (\<forall>n \<in> set (triple v). n \<le> Suc maxNPMSafeComponent)"

lemma safe_triples [simp]:
  "safe_version (release [a, b, c]) \<longleftrightarrow> unat a \<le> Suc maxNPMSafeComponent \<and>
     unat b \<le> Suc maxNPMSafeComponent \<and> unat c \<le> Suc maxNPMSafeComponent"
  "safe_version (release [a, b, c]\<lparr>vr_pre := q, vr_hasPre := h\<rparr>) \<longleftrightarrow> unat a \<le> Suc maxNPMSafeComponent \<and>
     unat b \<le> Suc maxNPMSafeComponent \<and> unat c \<le> Suc maxNPMSafeComponent"
  "safe_version zero_semver"
  by (simp_all add: safe_version_def)

definition ordered_bounds :: "npmVersionBounds \<Rightarrow> bool" where
  "ordered_bounds b \<longleftrightarrow> safe_version (lower b) \<and> safe_version (upper b) \<and>
     (hasLower b \<and> hasUpper b \<longrightarrow> triple (lower b) \<le> triple (upper b))"

lemma safe_zeroFilled: "wf_partial p \<Longrightarrow> safe_version (zeroFilled p)"
  by (erule wf_partial_cases) (auto simp: zeroFilled_def full_def Let_def le_Suc_eq)

lemma safe_increment: "wf_partial p \<Longrightarrow> safe_version (incrementLastSpecified p)"
  by (erule wf_partial_cases) (auto simp: incrementLastSpecified_def Let_def le_Suc_eq unat_succ maxNPMSafeComponent_def)

lemma ordered_bounds_made:
  assumes "wf_partial p"
  shows "ordered_bounds (npmOperatorBounds op p)" "ordered_bounds (npmTildeBounds p)"
    "ordered_bounds (npmCaretBounds p)"
proof -
  have m: "unat (1 :: 64 word) = 1" by simp
  have le: "triple (zeroFilled p) \<le> triple (incrementLastSpecified p)" if "\<not> full p" "\<not> wildcard p"
    using assms that by (cases rule: wf_partial_cases)
      (auto simp: zeroFilled_def incrementLastSpecified_def full_def wildcard_def Let_def unat_succ)
  then show "ordered_bounds (npmOperatorBounds op p)"
    using safe_zeroFilled [OF assms] safe_increment [OF assms]
    by (auto simp: npmOperatorBounds_def ordered_bounds_def zero_bounds_def Let_def)
  show "ordered_bounds (npmTildeBounds p)"
    using assms safe_zeroFilled [OF assms]
    by (cases rule: wf_partial_cases)
      (auto simp: npmTildeBounds_def ordered_bounds_def zero_bounds_def wildcard_def zeroFilled_def full_def
        Let_def unat_succ)
  show "ordered_bounds (npmCaretBounds p)"
    using assms safe_zeroFilled [OF assms]
    by (cases rule: wf_partial_cases)
      (auto simp: npmCaretBounds_def ordered_bounds_def zero_bounds_def wildcard_def zeroFilled_def full_def
        Let_def unat_succ pos_word m maxNPMSafeComponent_def)
qed

text \<open>A bound as arithmetic on natural numbers has it: nothing, the parsed version filled up with zeros, or this with one
  component raised by one and zeros after it; and always far below 2^64.\<close>

definition filled :: "npmPartial \<Rightarrow> nat list" where
  "filled p = given p @ replicate (3 - length (given p)) 0"

definition counted :: "npmPartial \<Rightarrow> npmSemver \<Rightarrow> bool" where
  "counted p v \<longleftrightarrow>
     (triple v = [0, 0, 0] \<or> triple v = filled p \<or>
      (\<exists>i < 3. triple v = take i (filled p) @ [filled p ! i + 1] @ replicate (2 - i) 0)) \<and>
     (\<forall>n \<in> set (triple v). n \<le> 2 ^ 53)"

lemma filled_simps [simp]:
  "pt_specified p = [False, False, False] \<Longrightarrow> length (pt_nums p) = 3 \<Longrightarrow> filled p = [0, 0, 0]"
  "pt_nums p = [a, b, c] \<Longrightarrow> pt_specified p = [True, False, False] \<Longrightarrow> filled p = [unat a, 0, 0]"
  "pt_nums p = [a, b, c] \<Longrightarrow> pt_specified p = [True, True, False] \<Longrightarrow> filled p = [unat a, unat b, 0]"
  "pt_nums p = [a, b, c] \<Longrightarrow> pt_specified p = [True, True, True] \<Longrightarrow> filled p = [unat a, unat b, unat c]"
  by (auto simp: filled_def given_def numeral_3_eq_3 numeral_2_eq_2 length_Suc_conv)

lemma counted_raised:
  assumes "filled p = [x, y, z]" "x \<le> maxNPMSafeComponent" "y \<le> maxNPMSafeComponent" "z \<le> maxNPMSafeComponent"
  shows "triple v = [0, 0, 0] \<Longrightarrow> counted p v" "triple v = [x, y, z] \<Longrightarrow> counted p v"
    "triple v = [x + 1, 0, 0] \<Longrightarrow> counted p v" "triple v = [x, y + 1, 0] \<Longrightarrow> counted p v"
    "triple v = [x, y, z + 1] \<Longrightarrow> counted p v"
proof -
  have raised: "counted p v" if "i < 3" "triple v = take i [x, y, z] @ [[x, y, z] ! i + 1] @ replicate (2 - i) 0"
    "\<forall>n \<in> set (triple v). n \<le> 2 ^ 53" for i
    unfolding counted_def assms(1) using that by blast
  have two: "replicate 2 (0 :: nat) = [0, 0]" by (simp add: numeral_2_eq_2)
  show "triple v = [x + 1, 0, 0] \<Longrightarrow> counted p v"
    by (rule raised [of 0]) (use assms in \<open>auto simp: maxNPMSafeComponent_def two\<close>)
  show "triple v = [x, y + 1, 0] \<Longrightarrow> counted p v"
    by (rule raised [of 1]) (use assms in \<open>auto simp: maxNPMSafeComponent_def\<close>)
  show "triple v = [x, y, z + 1] \<Longrightarrow> counted p v"
    by (rule raised [of 2]) (use assms in \<open>auto simp: maxNPMSafeComponent_def two\<close>)
qed (use assms in \<open>auto simp: counted_def maxNPMSafeComponent_def\<close>)

lemma counted_made:
  assumes "wf_partial p" "\<not> wildcard p"
  shows "counted p (zeroFilled p)" "counted p (incrementLastSpecified p)"
    "counted p (upper (npmTildeBounds p))" "counted p (upper (npmCaretBounds p))"
proof -
  have zero: "(0 :: nat) \<le> maxNPMSafeComponent" by (simp add: maxNPMSafeComponent_def)
  have one: "unat (1 :: 64 word) = 1" by simp
  note eval = zeroFilled_def incrementLastSpecified_def npmTildeBounds_def npmCaretBounds_def full_def wildcard_def Let_def
    unat_succ one triple_def release_def zero_semver_def zero_bounds_def
  from assms(1) have "counted p (zeroFilled p) \<and> counted p (incrementLastSpecified p) \<and>
    counted p (upper (npmTildeBounds p)) \<and> counted p (upper (npmCaretBounds p))"
  proof (cases rule: wf_partial_cases)
    case none
    with assms(2) show ?thesis by (simp add: wildcard_def)
  next
    case (major a)
    from major have "filled p = [unat a, 0, 0]" by simp
    note c = counted_raised [OF this major(4) zero zero]
    show ?thesis
      by (intro conjI) (cases "a = 0"; rule c(2) c(3); use major in \<open>simp add: eval word_gt_0\<close>)+
  next
    case (minor a b)
    from minor have "filled p = [unat a, unat b, 0]" by simp
    note c = counted_raised [OF this minor(4,5) zero]
    show ?thesis
      by (intro conjI) (cases "a = 0"; rule c(2) c(3) c(4); use minor in \<open>simp add: eval word_gt_0\<close>)+
  next
    case (patch a b d)
    from patch have "filled p = [unat a, unat b, unat d]" by simp
    note c = counted_raised [OF this patch(4-6)]
    show ?thesis
      by (intro conjI) (cases "a = 0"; cases "b = 0"; rule c(2) c(3) c(4) c(5); use patch in \<open>simp add: eval word_gt_0\<close>)+
  qed
  then show "counted p (zeroFilled p)" "counted p (incrementLastSpecified p)"
    "counted p (upper (npmTildeBounds p))" "counted p (upper (npmCaretBounds p))" by blast+
qed

lemma counted_zero: "counted p zero_semver"
  by (simp add: counted_def triple_def zero_semver_def)

lemma counted_bounds:
  assumes "wf_partial p"
  shows "counted p (lower (npmOperatorBounds op p)) \<and> counted p (upper (npmOperatorBounds op p))"
    "counted p (lower (npmTildeBounds p)) \<and> counted p (upper (npmTildeBounds p))"
    "counted p (lower (npmCaretBounds p)) \<and> counted p (upper (npmCaretBounds p))"
proof -
  have zero: "counted p zero_semver" "lower zero_bounds = zero_semver" "upper zero_bounds = zero_semver"
    by (simp_all add: counted_zero zero_bounds_def)
  show "counted p (lower (npmOperatorBounds op p)) \<and> counted p (upper (npmOperatorBounds op p))"
    by (cases "wildcard p") (use counted_made [OF assms] zero in \<open>simp_all add: npmOperatorBounds_def Let_def\<close>)
  show "counted p (lower (npmTildeBounds p)) \<and> counted p (upper (npmTildeBounds p))"
    by (cases "wildcard p") (use counted_made [OF assms] zero in \<open>simp_all add: npmTildeBounds_def Let_def\<close>)
  show "counted p (lower (npmCaretBounds p)) \<and> counted p (upper (npmCaretBounds p))"
    by (cases "wildcard p") (use counted_made [OF assms] zero in \<open>simp_all add: npmCaretBounds_def Let_def\<close>)
qed

lemma cut_operator_append: "cut_operator token = (op, rest) \<Longrightarrow> \<exists>opener. token = opener @ rest"
  by (auto simp: cut_operator_def find_Some_iff HasPrefix_iff split: option.splits)
    (metis append_take_drop_id)

lemma comparator_counted:
  assumes "npmComparatorBounds token = Some b"
  shows "\<exists>opener rest. token = opener @ rest \<and>
    (case parseNPMPartial rest of
       None \<Rightarrow> lower b = zero_semver \<and> upper b = zero_semver
     | Some p \<Rightarrow> counted p (lower b) \<and> counted p (upper b))"
proof -
  obtain op rest where cut: "cut_operator token = (op, rest)" by (cases "cut_operator token")
  have any: ?thesis if "token = ''*'' \<or> token = ''x'' \<or> token = ''X''"
    by (rule exI [of _ token], rule exI [of _ "[]"]) (use that assms in \<open>auto simp: npmComparatorBounds_def zero_bounds_def parseNPMPartial_def\<close>)
  have made: ?thesis if "token = opener @ rest'" "map_option f (parseNPMPartial rest') = Some b"
    "\<And>p. wf_partial p \<Longrightarrow> counted p (lower (f p)) \<and> counted p (upper (f p))" for opener rest' f
    using that parse_partial_wf [of rest'] by (intro exI [of _ opener] exI [of _ rest']) auto
  consider "token = ''*'' \<or> token = ''x'' \<or> token = ''X''" | "HasPrefix token ''~''" | "HasPrefix token ''^''"
    | "\<not> (token = ''*'' \<or> token = ''x'' \<or> token = ''X'')" "\<not> HasPrefix token ''~''" "\<not> HasPrefix token ''^''" by blast
  then show ?thesis
  proof cases
    case 2
    then obtain t where t: "token = ''~'' @ t" by (auto simp: HasPrefix_iff)
    show ?thesis by (rule made [OF t _ counted_bounds(2)]) (use assms t in \<open>simp_all add: npmComparatorBounds_def\<close>)
  next
    case 3
    then obtain t where t: "token = ''^'' @ t" by (auto simp: HasPrefix_iff)
    show ?thesis
      by (rule made [OF t _ counted_bounds(3)]) (use assms t in \<open>simp_all add: npmComparatorBounds_def HasPrefix_iff\<close>)
  next
    case 4
    from cut_operator_append [OF cut] obtain opener where t: "token = opener @ rest" by blast
    have "map_option (npmOperatorBounds op) (parseNPMPartial rest) = Some b"
      using assms 4 cut by (simp add: npmComparatorBounds_def split: if_splits)
    from made [OF t this counted_bounds(1)] show ?thesis .
  qed (rule any)
qed

lemma hyphen_counted:
  assumes "npmHyphenBounds left right = Some b"
  shows "\<exists>lo hi. parseNPMPartial left = Some lo \<and> parseNPMPartial right = Some hi \<and> counted lo (lower b) \<and> counted hi (upper b)"
proof -
  from assms obtain lo hi where parsed: "parseNPMPartial left = Some lo" "parseNPMPartial right = Some hi"
    "\<not> wildcard lo" "\<not> wildcard hi"
    by (auto simp: npmHyphenBounds_def split: option.splits if_splits)
  with assms counted_made [OF parse_partial_wf [OF parsed(1)]] counted_made [OF parse_partial_wf [OF parsed(2)]]
  show ?thesis by (auto simp: npmHyphenBounds_def Let_def split: if_splits)
qed

lemma comparator_ordered:
  assumes "npmComparatorBounds token = Some b"
  shows "hasLower b \<and> hasUpper b \<longrightarrow> triple (lower b) \<le> triple (upper b)"
proof -
  have "ordered_bounds b"
    using assms unfolding npmComparatorBounds_def Let_def
    by (auto split: if_splits prod.splits intro!: ordered_bounds_made parse_partial_wf)
      (simp_all add: ordered_bounds_def zero_bounds_def)
  then show ?thesis by (simp add: ordered_bounds_def)
qed

text \<open>C38: The 64-bit arithmetic of the bounds never wraps, although components are incremented without a check.  Every
  bound of a comparator and of a hyphen range is, read as natural numbers, zero, or the version that was parsed filled up
  with zeros, or this with one component raised by one and zeros after it, and no component exceeds 2^53.  For a
  comparator the lower end never exceeds the upper end; a hyphen range gives its ends separately, so that it can be
  empty, as that from 3 to 1 is.\<close>

theorem range_bounds_no_wrap:
  "(case npmComparatorBounds token of
      None \<Rightarrow> True
    | Some b \<Rightarrow>
        (\<exists>opener rest. token = opener @ rest \<and>
           (case parseNPMPartial rest of
              None \<Rightarrow> lower b = zero_semver \<and> upper b = zero_semver
            | Some p \<Rightarrow> counted p (lower b) \<and> counted p (upper b))) \<and>
        (if hasLower b \<and> hasUpper b then triple (lower b) \<le> triple (upper b) else True)) \<and>
   (case npmHyphenBounds left right of
      None \<Rightarrow> True
    | Some b \<Rightarrow>
        (\<exists>lo hi. parseNPMPartial left = Some lo \<and> parseNPMPartial right = Some hi \<and>
           counted lo (lower b) \<and> counted hi (upper b))) \<and>
   (case npmHyphenBounds ''3'' ''1'' of
      None \<Rightarrow> False
    | Some b \<Rightarrow> triple (lower b) = [3, 0, 0] \<and> triple (upper b) = [2, 0, 0])"
proof (intro conjI)
  show "case npmComparatorBounds token of
      None \<Rightarrow> True
    | Some b \<Rightarrow>
        (\<exists>opener rest. token = opener @ rest \<and>
           (case parseNPMPartial rest of
              None \<Rightarrow> lower b = zero_semver \<and> upper b = zero_semver
            | Some p \<Rightarrow> counted p (lower b) \<and> counted p (upper b))) \<and>
        (if hasLower b \<and> hasUpper b then triple (lower b) \<le> triple (upper b) else True)"
    using comparator_counted [of token] comparator_ordered [of token] by (cases "npmComparatorBounds token") simp_all
  show "case npmHyphenBounds left right of
      None \<Rightarrow> True
    | Some b \<Rightarrow>
        (\<exists>lo hi. parseNPMPartial left = Some lo \<and> parseNPMPartial right = Some hi \<and>
           counted lo (lower b) \<and> counted hi (upper b))"
    using hyphen_counted [of left right] by (cases "npmHyphenBounds left right") simp_all
qed code_simp

section \<open>Exact versions\<close>

lemma parse_number_show:
  assumes "n \<le> maxNPMSafeComponent"
  shows "parseNPMVersionNumber (show_nat n) = Some (of_nat n)"
proof -
  have "n < 2 ^ 64" using assms by (simp add: maxNPMSafeComponent_def)
  moreover have "\<not> (length (show_nat n) > 1 \<and> hd (show_nat n) = CHR ''0'')"
  proof (cases "n = 0")
    case True
    moreover have "show_nat 0 = ''0''" by code_simp
    ultimately show ?thesis by simp
  next
    case False
    then have "re_positive_decimal (show_nat n)" by (simp add: show_nat_positive)
    then show ?thesis by (cases "show_nat n") auto
  qed
  ultimately show ?thesis
    using assms show_nat_digits [of n] by (simp add: parseNPMVersionNumber_def)
qed

lemma show_nat_not_wildcard [simp]: "\<not> isNPMWildcard (show_nat n)"
proof -
  have "\<not> is_digit (CHR ''x'')" "\<not> is_digit (CHR ''X'')" "\<not> is_digit (CHR ''*'')" by code_simp+
  then show ?thesis by (metis isNPMWildcard_def list.pred_inject(2) show_nat_digits)
qed

definition exact_partial :: "nat \<Rightarrow> nat \<Rightarrow> nat \<Rightarrow> npmPartial" where
  "exact_partial a b c = \<lparr>pt_nums = [of_nat a, of_nat b, of_nat c], pt_specified = [True, True, True],
     pt_pre = [], pt_hasPre = False\<rparr>"

lemma core_text_Cons: "\<exists>d cs. core_text a b c = d # cs \<and> is_digit d"
  using show_nat_nonempty [of a] show_nat_digits [of a]
  by (cases "show_nat a") (auto simp: core_text_def)

lemma core_text_chars: "x \<in> set (core_text a b c) \<Longrightarrow> is_digit x \<or> x = CHR ''.''"
  using core_text_not_in by blast

lemma parse_core_text:
  assumes "a \<le> maxNPMSafeComponent" "b \<le> maxNPMSafeComponent" "c \<le> maxNPMSafeComponent"
  shows "parseNPMPartial (core_text a b c) = Some (exact_partial a b c)"
proof -
  obtain d cs where d: "core_text a b c = d # cs" "is_digit d" using core_text_Cons by blast
  have "\<not> is_digit (CHR ''v'')" by code_simp
  then have trim: "TrimPrefix (core_text a b c) ''v'' = core_text a b c"
    using d by (auto intro!: TrimPrefix_no_prefix)
  have ne: "core_text a b c \<noteq> []" using d by simp
  have absent: "CHR ''+'' \<notin> set (core_text a b c)" "Cut (core_text a b c) ''-'' = None"
    using core_text_not_in by auto
  show ?thesis
    unfolding parseNPMPartial_def trim Let_def absent(2)
    using ne absent(1) parse_number_show [OF assms(1)] parse_number_show [OF assms(2)]
      parse_number_show [OF assms(3)]
    by (simp add: zero_partial_def exact_partial_def)
qed

lemma plain_core_text: "list_all plain_char (core_text a b c)"
  unfolding list_all_iff
proof
  fix x assume "x \<in> set (core_text a b c)"
  then consider "is_digit x" | "x = CHR ''.''" using core_text_chars by blast
  then show "plain_char x"
  proof cases
    case 2
    then show ?thesis by simp code_simp
  qed (simp add: plain_char_def is_digit_def)
qed

lemma Fields_plain:
  assumes "list_all plain_char s" and "s \<noteq> []"
  shows "Fields s = [s]"
proof -
  have "fields_acc cur (map (\<lambda>c. (byte c, [c], True)) s) = (if cur @ s = [] then [] else [cur @ s])"
    if "list_all plain_char s" for cur s
    using that by (induction s arbitrary: cur) (simp_all add: plain_not_space)
  moreover have "runes s = map (\<lambda>c. (byte c, [c], True)) s"
    using assms(1) by (auto intro!: runes_ascii simp: list_all_iff plain_ascii)
  ultimately show ?thesis using assms by (simp add: Fields_def)
qed

lemma digit_not_operator:
  assumes "is_digit d"
  shows "d \<notin> set ''<>=~^*xX-''"
proof
  assume "d \<in> set ''<>=~^*xX-''"
  then have "\<not> is_digit d" by (simp, elim disjE) (simp_all add: is_digit_def byte_def)
  with assms show False by simp
qed

lemma comparator_core_text:
  assumes "a \<le> maxNPMSafeComponent" "b \<le> maxNPMSafeComponent" "c \<le> maxNPMSafeComponent"
  shows "read_comparator (core_text a b c) = Some (op_holds ''='' (exact_partial a b c))"
proof -
  obtain d cs where d: "core_text a b c = d # cs" "is_digit d" using core_text_Cons by blast
  have "d \<notin> set ''<>=~^*xX-''" by (rule digit_not_operator [OF d(2)])
  then show ?thesis
    using parse_core_text [OF assms] d(1)
    by (simp add: read_comparator_def isNPMWildcard_def cut_operator_def isNPMRangeOperatorByte_def)
qed

lemma exact_arm:
  assumes "semver_laws sv" and "\<not> vr_hasPre v"
    and "a \<le> maxNPMSafeComponent" "b \<le> maxNPMSafeComponent" "c \<le> maxNPMSafeComponent"
  shows "npmRangeArmMatches sv (core_text a b c) v = Some (op_holds ''='' (exact_partial a b c) v)"
proof -
  let ?s = "core_text a b c"
  obtain d cs where d: "?s = d # cs" "is_digit d" using core_text_Cons by blast
  have no: "d \<notin> set ''<>=~^*xX-''" by (rule digit_not_operator [OF d(2)])
  have words: "Fields ?s = [?s]" by (rule Fields_plain [OF plain_core_text]) (simp add: d(1))
  have "?s \<noteq> ''-''" "\<not> isNPMRangeLoneOperator ?s"
    using no d(1) by (auto simp: isNPMRangeLoneOperator_def)
  then have "npmRangeArmMatches sv ?s v = all_comparators sv v [?s]"
    by (simp add: npmRangeArmMatches_def words Let_def)
  also have "\<dots> = map_option (\<lambda>b. contains sv b v) (npmComparatorBounds ?s)"
    by (auto split: option.splits)
  finally show ?thesis
    using comparator_reading [OF assms(1,2), of ?s] comparator_core_text [OF assms(3-5)] by simp
qed

lemma core_text_inject: "core_text a b c = core_text d e f \<longleftrightarrow> a = d \<and> b = e \<and> c = f"
proof
  assume "core_text a b c = core_text d e f"
  then have "split_on (CHR ''.'') (core_text a b c) = split_on (CHR ''.'') (core_text d e f)" by simp
  then show "a = d \<and> b = e \<and> c = f" unfolding split_core_text by (metis dec_val_show_nat list.inject)
qed simp

text \<open>A declared exact version matches the toolchain's version only when the two are the same
  string; an exact version is never read as a range.\<close>

theorem exact_version_matches:
  assumes "semver_laws sv" and "\<forall>n \<in> {a, b, c, d, e, f}. n \<le> maxNPMSafeComponent"
  shows "npmDeclaredMatchesActual sv (core_text a b c) (core_text d e f) \<longleftrightarrow>
    core_text a b c = core_text d e f"
proof -
  let ?v = "zeroFilled (exact_partial d e f)"
  have safe: "a \<le> maxNPMSafeComponent" "b \<le> maxNPMSafeComponent" "c \<le> maxNPMSafeComponent"
    "d \<le> maxNPMSafeComponent" "e \<le> maxNPMSafeComponent" "f \<le> maxNPMSafeComponent"
    using assms(2) by auto
  have actual: "parseNPMRangeActual (core_text d e f) = Some ?v"
    by (simp add: parseNPMRangeActual_def parse_core_text safe exact_partial_def full_def)
  have v: "\<not> vr_hasPre ?v" "triple ?v = [d, e, f]"
    using safe by (simp_all add: zeroFilled_def exact_partial_def full_def unat_of_nat maxNPMSafeComponent_def)
  have trim: "TrimSpace (core_text a b c) = core_text a b c" using TrimSpace_plain plain_core_text by blast
  have "\<not> is_digit (CHR ''|'')" by code_simp
  then have "CHR ''|'' \<notin> set (core_text a b c)" using core_text_not_in by blast
  then have "\<not> Contains (core_text a b c) ''||''" by (auto simp: Contains_iff)
  then have split: "Split (core_text a b c) ''||'' = [core_text a b c]"
    by (simp add: Split.simps Cut_None [symmetric])
  have "core_text a b c \<noteq> []" using core_text_Cons [of a b c] by auto
  then have "npmDeclaredMatchesActual sv (core_text a b c) (core_text d e f) \<longleftrightarrow>
      op_holds ''='' (exact_partial a b c) ?v"
    using exact_arm [OF assms(1) v(1) safe(1-3)]
    by (simp add: npmDeclaredMatchesActual_def actual trim Let_def split)
  also have "\<dots> \<longleftrightarrow> [d, e, f] = [a, b, c]"
  proof -
    have "given (exact_partial a b c) = [a, b, c]" "\<not> pt_hasPre (exact_partial a b c)"
      using safe by (simp_all add: given_def exact_partial_def unat_of_nat maxNPMSafeComponent_def)
    then show ?thesis by (simp add: op_holds_def observed_def v(2))
  qed
  finally show ?thesis by (auto simp: core_text_inject)
qed

lemma exact_version_matches_witness:
  "npmDeclaredMatchesActual reference_semver (core_text 11 5 1) (core_text 11 5 1) \<and>
   \<not> npmDeclaredMatchesActual reference_semver (core_text 11 5 1) (core_text 11 6 0)"
  using exact_version_matches [OF reference.semver_laws_axioms, of 11 5 1 11 5 1]
    exact_version_matches [OF reference.semver_laws_axioms, of 11 5 1 11 6 0]
  by (simp add: core_text_inject maxNPMSafeComponent_def)

text \<open>An arm is not always parsed to its end: once a comparator of it excludes the version, the rest
  is not looked at, so a declaration with an unparseable token can match through another arm,
  whereas the same token first makes the whole declaration unmatchable.\<close>

theorem unparseable_arm_order:
  "read_comparator ''garbage'' = None \<and>
   npmDeclaredMatchesActual reference_semver ''<1 garbage || >=1'' ''11.5.1'' \<and>
   \<not> npmDeclaredMatchesActual reference_semver ''garbage <1 || >=1'' ''11.5.1''"
  by (intro conjI; code_simp)

end
