(* ===== verification/Descriptor.thy ===== *)
theory Descriptor
  imports Semver Digest
begin

text \<open>
  Package-manager descriptors: the types of internal/npmprofile/types.go that a selection is made of,
  descriptor.go (version plus optional declared digest), the version rules of selection.go, and
  declared_digest.go (the acquired distribution against the declared digest).
\<close>

section \<open>Types\<close>

type_synonym Manager = string

definition ManagerNPM :: Manager where "ManagerNPM = ''npm''"
definition ManagerPNPM :: Manager where "ManagerPNPM = ''pnpm''"
definition ManagerYarn :: Manager where "ManagerYarn = ''yarn''"

lemmas manager_defs = ManagerNPM_def ManagerPNPM_def ManagerYarn_def

type_synonym SelectionSource = string

definition SelectionPackageManager :: SelectionSource where "SelectionPackageManager = ''packageManager''"
definition SelectionDevEngines :: SelectionSource where "SelectionDevEngines = ''devEngines.packageManager''"
definition SelectionLockfile :: SelectionSource where "SelectionLockfile = ''lockfile''"

definition npm_error_id :: "string \<Rightarrow> string" where
  "npm_error_id category = ''windlass.verify.error.'' @ category"

definition IDPackageManagerConflict :: string where
  "IDPackageManagerConflict = npm_error_id ''package-manager-conflict''"
definition IDPackageManagerVersionRequired :: string where
  "IDPackageManagerVersionRequired = npm_error_id ''package-manager-version-required''"
definition IDPackageManagerDigestMalformed :: string where
  "IDPackageManagerDigestMalformed = npm_error_id ''package-manager-digest-malformed''"
definition IDPackageManagerDigestMismatch :: string where
  "IDPackageManagerDigestMismatch = npm_error_id ''package-manager-digest-mismatch''"
definition IDYarnSelectionInvalid :: string where
  "IDYarnSelectionInvalid = npm_error_id ''yarn-selection-invalid''"
definition IDPnpmVersionUnsupported :: string where
  "IDPnpmVersionUnsupported = npm_error_id ''pnpm-version-unsupported''"
definition IDYarnVersionUnsupported :: string where
  "IDYarnVersionUnsupported = npm_error_id ''yarn-version-unsupported''"

record DeclaredDigest =
  dd_Algorithm :: string
  dd_Hex :: string

record ManagerSelection =
  ms_Name :: Manager
  ms_Version :: string
  ms_Digest :: "DeclaredDigest option"
  ms_DeclaredVersion :: string
  ms_DeclaredVersionSet :: bool
  ms_Source :: SelectionSource
  ms_SelectionManifestPath :: string
  ms_SelectionLockfilePath :: string
  ms_SelectedLockfilePath :: string
  ms_IgnoredLockfilePaths :: "string list"

definition selection_Descriptor :: "ManagerSelection \<Rightarrow> string" where
  "selection_Descriptor s =
     (case ms_Digest s of
        None \<Rightarrow> ms_Version s
      | Some d \<Rightarrow> ms_Version s @ ''+'' @ dd_Algorithm d @ ''.'' @ dd_Hex d)"

section \<open>Descriptor versions\<close>

definition digestHexLengths :: "(string \<times> nat) list" where
  "digestHexLengths = [(''sha256'', 64), (''sha384'', 96), (''sha512'', 128)]"

definition isLowerHex :: "string \<Rightarrow> bool" where
  "isLowerHex hex = list_all is_lower_hex hex"

text \<open>\<^const>\<open>Inl\<close> is the failure ID, \<^const>\<open>Inr\<close> the plain version and the declared digest.\<close>

definition parseDescriptorVersion :: "Manager \<Rightarrow> string \<Rightarrow> string + (string \<times> DeclaredDigest option)" where
  "parseDescriptorVersion manager version =
     (case Cut version ''+'' of
        None \<Rightarrow> Inr (version, None)
      | Some (core, tail) \<Rightarrow>
          if manager = ManagerNPM then Inl IDPackageManagerDigestMalformed
          else if Contains tail ''+'' then Inl IDPackageManagerDigestMalformed
          else (let identifiers = split_on (CHR ''.'') tail in
            if length identifiers \<noteq> 2 then Inl IDPackageManagerDigestMalformed
            else case map_of digestHexLengths (identifiers ! 0) of
              None \<Rightarrow> Inl IDPackageManagerDigestMalformed
            | Some wantLength \<Rightarrow>
                if length (identifiers ! 1) \<noteq> wantLength \<or> \<not> isLowerHex (identifiers ! 1)
                then Inl IDPackageManagerDigestMalformed
                else Inr (core, Some \<lparr>dd_Algorithm = identifiers ! 0, dd_Hex = identifiers ! 1\<rparr>)))"

definition exactSemver :: "semver_pkg \<Rightarrow> string \<Rightarrow> bool" where
  "exactSemver sv version =
     (if version = [] \<or> Contains version ''+'' \<or> \<not> sv_IsValid sv (''v'' @ version) then False
      else (let core = (case Cut version ''-'' of None \<Rightarrow> version | Some (core, _) \<Rightarrow> core) in
        length (filter (\<lambda>c. c = CHR ''.'') core) = 2))"

definition pnpmVersionUnsupported :: "semver_pkg \<Rightarrow> string \<Rightarrow> bool" where
  "pnpmVersionUnsupported sv version =
     (if sv_Compare sv (''v'' @ version) ''v10.0.0'' < 0 then True
      else (let major = sv_Major sv (''v'' @ version) in major \<noteq> ''v10'' \<and> major \<noteq> ''v11''))"

definition yarnVersionUnsupported :: "semver_pkg \<Rightarrow> string \<Rightarrow> bool" where
  "yarnVersionUnsupported sv version =
     (let major = sv_Major sv (''v'' @ version) in major \<noteq> ''v4'' \<and> major \<noteq> ''v5'')"

definition declaredDigestsEqual :: "DeclaredDigest option \<Rightarrow> DeclaredDigest option \<Rightarrow> bool" where
  "declaredDigestsEqual a b = (if a = None \<or> b = None then a = None \<and> b = None else the a = the b)"

definition classifyDescriptorVersion ::
  "semver_pkg \<Rightarrow> Manager \<Rightarrow> string \<Rightarrow> string + (string \<times> DeclaredDigest option)" where
  "classifyDescriptorVersion sv manager version =
     (if manager \<notin> {ManagerNPM, ManagerPNPM, ManagerYarn} then Inl IDPackageManagerConflict
      else case parseDescriptorVersion manager version of
        Inl failureID \<Rightarrow> Inl failureID
      | Inr (plain, digest) \<Rightarrow>
          if manager = ManagerNPM then Inr (plain, None)
          else if manager = ManagerPNPM then
            (if \<not> exactSemver sv plain then Inl IDPackageManagerVersionRequired
             else if pnpmVersionUnsupported sv plain then Inl IDPnpmVersionUnsupported
             else Inr (plain, digest))
          else
            (if \<not> exactSemver sv plain \<or> sv_Compare sv (''v'' @ plain) ''v4.0.0'' < 0
             then Inl IDYarnSelectionInvalid
             else if yarnVersionUnsupported sv plain then Inl IDYarnVersionUnsupported
             else Inr (plain, digest)))"

section \<open>Declared digests\<close>

definition computeDeclaredDigest :: "string \<Rightarrow> string \<Rightarrow> string" where
  "computeDeclaredDigest algorithm data =
     (if algorithm = ''sha256'' then SHA256_String (SumSHA256 data)
      else if algorithm = ''sha384'' then hex_encode (sha384_sum data)
      else if algorithm = ''sha512'' then SHA512_String (SumSHA512 data)
      else [])"

definition digestMismatch :: "Manager \<Rightarrow> string \<Rightarrow> string \<Rightarrow> go_error" where
  "digestMismatch manager algorithm detail =
     ErrDiag KDigestMismatch IDPackageManagerDigestMismatch []
       (manager @ '' distribution '' @ algorithm @ '' digest '' @ detail) [] []"

definition maxPNPMDistribution :: nat where "maxPNPMDistribution = 64 * 2 ^ 20"

text \<open>The fetcher is handed the URL, the size limit and the media type.\<close>

definition reconcileDeclaredDigest ::
  "ManagerSelection \<Rightarrow> string \<Rightarrow> string \<Rightarrow> string \<Rightarrow> (string \<Rightarrow> nat \<Rightarrow> string \<Rightarrow> string result) \<Rightarrow> go_error option" where
  "reconcileDeclaredDigest selection distributionURL authoritativeHash bundle fetcher =
     (case ms_Digest selection of
        None \<Rightarrow> None
      | Some declared \<Rightarrow>
          if ms_Name selection = ManagerPNPM \<and> dd_Algorithm declared = ''sha512'' then
            (if dd_Hex declared \<noteq> authoritativeHash then
               Some (digestMismatch (ms_Name selection) (dd_Algorithm declared)
                 ''disagrees with the declared descriptor digest'')
             else None)
          else
            (case (if ms_Name selection = ManagerPNPM then
                (case fetcher distributionURL maxPNPMDistribution ''application/octet-stream'' of
                   Inl err \<Rightarrow> Inl (ErrWrap
                     ''download pnpm distribution for declared digest reconciliation: %w'' [] [err])
                 | Inr downloaded \<Rightarrow>
                     if SHA512_String (SumSHA512 downloaded) \<noteq> authoritativeHash then
                       Inl (digestMismatch (ms_Name selection) ''sha512''
                         ''computed over the downloaded bytes disagrees with the acquisition evidence'')
                     else Inr downloaded)
              else Inr bundle) of
               Inl err \<Rightarrow> Some err
             | Inr data \<Rightarrow>
                 if computeDeclaredDigest (dd_Algorithm declared) data \<noteq> dd_Hex declared then
                   Some (digestMismatch (ms_Name selection) (dd_Algorithm declared)
                     ''disagrees with the declared descriptor digest'')
                 else None))"

section \<open>Descriptors as text\<close>

definition wf_digest :: "DeclaredDigest \<Rightarrow> bool" where
  "wf_digest d \<longleftrightarrow> map_of digestHexLengths (dd_Algorithm d) = Some (length (dd_Hex d)) \<and> isLowerHex (dd_Hex d)"

definition descriptor_text :: "string \<Rightarrow> DeclaredDigest option \<Rightarrow> string" where
  "descriptor_text plain digest =
     (case digest of None \<Rightarrow> plain
      | Some d \<Rightarrow> plain @ CHR ''+'' # dd_Algorithm d @ CHR ''.'' # dd_Hex d)"

lemma hex_chars: "isLowerHex h \<Longrightarrow> CHR ''+'' \<notin> set h \<and> CHR ''.'' \<notin> set h"
proof -
  have "\<not> is_lower_hex (CHR ''+'')" "\<not> is_lower_hex (CHR ''.'')" by code_simp+
  then show "isLowerHex h \<Longrightarrow> CHR ''+'' \<notin> set h \<and> CHR ''.'' \<notin> set h"
    by (auto simp: isLowerHex_def list_all_iff)
qed

lemma algorithm_chars: "map_of digestHexLengths a = Some n \<Longrightarrow> CHR ''+'' \<notin> set a \<and> CHR ''.'' \<notin> set a"
  by (auto simp: digestHexLengths_def split: if_splits)

lemma descriptor_parse:
  "parseDescriptorVersion manager version = Inr (plain, digest) \<longleftrightarrow>
     version = descriptor_text plain digest \<and> CHR ''+'' \<notin> set plain \<and>
     (\<forall>d. digest = Some d \<longrightarrow> manager \<noteq> ManagerNPM \<and> wf_digest d)"
proof (cases "Cut version ''+''")
  case None
  then have "CHR ''+'' \<notin> set version" by (simp add: Cut_None)
  then show ?thesis
    using None by (auto simp: parseDescriptorVersion_def descriptor_text_def split: option.splits)
next
  case (Some cut)
  obtain core tail where cut: "cut = (core, tail)" by (cases cut)
  with Some have version: "version = core @ CHR ''+'' # tail" "CHR ''+'' \<notin> set core"
    by (simp_all add: Cut_char_Some)
  show ?thesis
  proof
    assume parsed: "parseDescriptorVersion manager version = Inr (plain, digest)"
    then have npm: "manager \<noteq> ManagerNPM" and len: "length (split_on (CHR ''.'') tail) = 2"
      using Some cut by (auto simp: parseDescriptorVersion_def Let_def split: if_splits)
    then obtain a h where ah: "split_on (CHR ''.'') tail = [a, h]" by (auto simp: split_on_length2)
    from parsed Some cut npm ah have "map_of digestHexLengths a = Some (length h)" "isLowerHex h"
      "plain = core" "digest = Some \<lparr>dd_Algorithm = a, dd_Hex = h\<rparr>"
      by (auto simp: parseDescriptorVersion_def Let_def split: if_splits option.splits)
    moreover have "tail = a @ CHR ''.'' # h" using ah by (simp add: split_on_pair)
    ultimately show "version = descriptor_text plain digest \<and> CHR ''+'' \<notin> set plain \<and>
        (\<forall>d. digest = Some d \<longrightarrow> manager \<noteq> ManagerNPM \<and> wf_digest d)"
      using version npm by (simp add: descriptor_text_def wf_digest_def)
  next
    assume eq: "version = descriptor_text plain digest \<and> CHR ''+'' \<notin> set plain \<and>
        (\<forall>d. digest = Some d \<longrightarrow> manager \<noteq> ManagerNPM \<and> wf_digest d)"
    with version obtain d where d: "digest = Some d" by (cases digest) (auto simp: descriptor_text_def)
    with eq have npm: "manager \<noteq> ManagerNPM" and wf: "wf_digest d" by auto
    have "Cut version ''+'' = Some (plain, dd_Algorithm d @ CHR ''.'' # dd_Hex d)"
      using eq d by (simp add: descriptor_text_def)
    moreover have "CHR ''+'' \<notin> set (dd_Algorithm d)" "CHR ''.'' \<notin> set (dd_Algorithm d)"
      "CHR ''+'' \<notin> set (dd_Hex d)" "CHR ''.'' \<notin> set (dd_Hex d)"
      using wf hex_chars algorithm_chars unfolding wf_digest_def by blast+
    ultimately show "parseDescriptorVersion manager version = Inr (plain, digest)"
      using npm wf d by (simp add: parseDescriptorVersion_def split_on_append wf_digest_def)
  qed
qed

text \<open>Splitting a descriptor version is the exact inverse of printing one: it yields a plain version
  and a digest precisely when the text is that plain version, without a plus sign, followed by the
  digest in the closed grammar, and npm never carries one.  So what ManagerSelection.Descriptor prints
  for a selection parses back to its version and digest, and every other text is malformed.\<close>

theorem descriptor_roundtrip:
  "(parseDescriptorVersion manager version = Inr (plain, digest) \<longleftrightarrow>
     version = selection_Descriptor (s\<lparr>ms_Version := plain, ms_Digest := digest\<rparr>) \<and> CHR ''+'' \<notin> set plain \<and>
     (digest = None \<or> manager \<noteq> ManagerNPM \<and> wf_digest (the digest))) \<and>
   (isl (parseDescriptorVersion manager version) \<longleftrightarrow>
     parseDescriptorVersion manager version = Inl IDPackageManagerDigestMalformed)"
proof
  show "parseDescriptorVersion manager version = Inr (plain, digest) \<longleftrightarrow>
     version = selection_Descriptor (s\<lparr>ms_Version := plain, ms_Digest := digest\<rparr>) \<and> CHR ''+'' \<notin> set plain \<and>
     (digest = None \<or> manager \<noteq> ManagerNPM \<and> wf_digest (the digest))"
    unfolding descriptor_parse by (cases digest) (auto simp: selection_Descriptor_def descriptor_text_def)
  show "isl (parseDescriptorVersion manager version) \<longleftrightarrow>
     parseDescriptorVersion manager version = Inl IDPackageManagerDigestMalformed"
    by (auto simp: parseDescriptorVersion_def Let_def split: option.splits)
qed

section \<open>Supported versions\<close>

lemma length_split_on: "length (split_on sep s) = Suc (length (filter (\<lambda>c. c = sep) s))"
  by (induction s) (auto split: list.splits)

lemma count_dots: "length (filter (\<lambda>c. c = sep) s) = length (split_on sep s) - 1"
  by (simp add: length_split_on)

lemma exact_semver_text:
  assumes "semver_laws sv"
  shows "exactSemver sv s \<longleftrightarrow> CHR ''+'' \<notin> set s \<and> (\<exists>a b c pre. s = version_text a b c pre \<and> valid_pre pre)"
proof (cases "three_components s")
  case True
  then have "s \<noteq> []" by (auto simp: three_components_def)
  moreover have "length (filter (\<lambda>c. c = CHR ''.'') (case Cut s ''-'' of None \<Rightarrow> s | Some (core, _) \<Rightarrow> core)) = 2"
    using True by (simp add: three_components_def count_dots)
  ultimately show ?thesis
    using semver_laws.valid_full [OF assms True] by (simp add: exactSemver_def)
next
  case False
  have "three_components s" if "CHR ''+'' \<notin> set s" "s = version_text a b c pre" for a b c pre
    using that Cut_version_text [of a b c pre] by (cases pre) (simp_all add: three_components_def version_text_def)
  with False show ?thesis
    by (auto simp: exactSemver_def three_components_def count_dots)
qed

lemma version_text_inject:
  "version_text a b c pre = version_text d e f q \<longleftrightarrow> a = d \<and> b = e \<and> c = f \<and> pre = q"
proof
  assume "version_text a b c pre = version_text d e f q"
  then have "split_version (''v'' @ version_text a b c pre) = split_version (''v'' @ version_text d e f q)" by simp
  then show "a = d \<and> b = e \<and> c = f \<and> pre = q"
    unfolding split_version_text by (auto dest: arg_cong [of _ _ dec_val])
qed simp

text \<open>The versions a manager accepts: for pnpm the lines 10 and 11 without the prereleases of 10.0.0, for
  Yarn the lines 4 and 5 without those of 4.0.0.\<close>

fun supported_version :: "Manager \<Rightarrow> nat \<Rightarrow> nat \<Rightarrow> nat \<Rightarrow> string option \<Rightarrow> bool" where
  "supported_version manager a b c pre =
     (if manager = ManagerPNPM then a \<in> {10, 11} \<and> ([a, b, c] = [10, 0, 0] \<longrightarrow> pre = None)
      else manager = ManagerYarn \<and> a \<in> {4, 5} \<and> ([a, b, c] = [4, 0, 0] \<longrightarrow> pre = None))"

lemma show_nat_inject: "show_nat m = show_nat n \<longleftrightarrow> m = n"
  by (metis dec_val_show_nat)

lemma compare_with_release:
  assumes "semver_laws sv" and "valid_pre pre"
  shows "sv_Compare sv (CHR ''v'' # version_text a b c pre) (CHR ''v'' # version_text d e f None) < 0 \<longleftrightarrow>
    [a, b, c] < [d, e, f] \<or> [a, b, c] = [d, e, f] \<and> pre \<noteq> None"
proof (cases "[a, b, c] = [d, e, f]")
  case True
  then show ?thesis
    using semver_laws.compare_release [OF assms(1), of None] semver_laws.compare_prerelease [OF assms(1)] assms(2)
    by (cases pre) (simp_all add: valid_pre_def)
next
  case False
  have "valid_pre None" by (simp add: valid_pre_def)
  then have "sv_Compare sv (CHR ''v'' # version_text a b c pre) (CHR ''v'' # version_text d e f None) =
      (if [a, b, c] < [d, e, f] then -1 else 1)"
    by (rule semver_laws.compare_core [OF assms(1) assms(2) _ False])
  moreover have "\<not> ([a, b, c] = [d, e, f] \<and> pre \<noteq> None)" using False by blast
  moreover have "((if L then -1 else 1 :: int) < 0) = L" for L by simp
  ultimately show ?thesis by (simp only: simp_thms)
qed

lemma line_texts:
  "''v10.0.0'' = CHR ''v'' # version_text 10 0 0 None" "''v4.0.0'' = CHR ''v'' # version_text 4 0 0 None"
  "''v10'' = CHR ''v'' # show_nat 10" "''v11'' = CHR ''v'' # show_nat 11"
  "''v4'' = CHR ''v'' # show_nat 4" "''v5'' = CHR ''v'' # show_nat 5"
  by code_simp+

lemma supported_lines:
  assumes "semver_laws sv" and "valid_pre pre"
  shows "\<not> pnpmVersionUnsupported sv (version_text a b c pre) \<longleftrightarrow> supported_version ManagerPNPM a b c pre"
    and "\<not> sv_Compare sv (''v'' @ version_text a b c pre) ''v4.0.0'' < 0 \<and>
      \<not> yarnVersionUnsupported sv (version_text a b c pre) \<longleftrightarrow> supported_version ManagerYarn a b c pre"
  using compare_with_release [OF assms] semver_laws.major_full [OF assms]
  by (auto simp: pnpmVersionUnsupported_def yarnVersionUnsupported_def line_texts show_nat_inject manager_defs
      Let_def)

text \<open>A pnpm or Yarn descriptor is accepted exactly when it is a plain full version in a supported line,
  with at most a well-formed declared digest after it: pnpm 10 and 11 without the prereleases of
  10.0.0, Yarn 4 and 5 without those of 4.0.0; shortened versions and ranges never pass.\<close>

theorem classify_descriptor_exact:
  assumes "semver_laws sv" and "manager = ManagerPNPM \<or> manager = ManagerYarn"
  shows "classifyDescriptorVersion sv manager version = Inr (plain, digest) \<longleftrightarrow>
    version = descriptor_text plain digest \<and> (\<forall>d. digest = Some d \<longrightarrow> wf_digest d) \<and>
    (\<exists>a b c pre. plain = version_text a b c pre \<and> valid_pre pre \<and> supported_version manager a b c pre) \<and>
    CHR ''+'' \<notin> set plain"
proof -
  have m: "manager \<noteq> ManagerNPM" "manager \<in> {ManagerNPM, ManagerPNPM, ManagerYarn}"
    using assms(2) by (auto simp: manager_defs)
  have rules: "(exactSemver sv plain \<and> (if manager = ManagerPNPM then \<not> pnpmVersionUnsupported sv plain
      else \<not> sv_Compare sv (''v'' @ plain) ''v4.0.0'' < 0 \<and> \<not> yarnVersionUnsupported sv plain)) \<longleftrightarrow>
    CHR ''+'' \<notin> set plain \<and>
      (\<exists>a b c pre. plain = version_text a b c pre \<and> valid_pre pre \<and> supported_version manager a b c pre)"
  proof -
    have line: "(if manager = ManagerPNPM then \<not> pnpmVersionUnsupported sv (version_text a b c pre)
        else \<not> sv_Compare sv (''v'' @ version_text a b c pre) ''v4.0.0'' < 0 \<and>
          \<not> yarnVersionUnsupported sv (version_text a b c pre)) \<longleftrightarrow> supported_version manager a b c pre"
      if "valid_pre pre" for a b c pre
      using assms(2)
    proof
      assume "manager = ManagerPNPM"
      with supported_lines(1) [OF assms(1) that] show ?thesis by simp
    next
      assume y: "manager = ManagerYarn"
      then have "manager \<noteq> ManagerPNPM" by (simp add: manager_defs)
      with supported_lines(2) [OF assms(1) that] y show ?thesis by (simp only: if_False)
    qed
    show ?thesis
      unfolding exact_semver_text [OF assms(1)] using line by blast
  qed
  have "classifyDescriptorVersion sv manager version = Inr (plain, digest) \<longleftrightarrow>
      parseDescriptorVersion manager version = Inr (plain, digest) \<and>
      (exactSemver sv plain \<and> (if manager = ManagerPNPM then \<not> pnpmVersionUnsupported sv plain
      else \<not> sv_Compare sv (''v'' @ plain) ''v4.0.0'' < 0 \<and> \<not> yarnVersionUnsupported sv plain))"
    using m by (auto simp: classifyDescriptorVersion_def split: sum.splits if_splits)
  then show ?thesis
    unfolding rules descriptor_parse using m(1) by blast
qed

lemma classify_descriptor_exact_witness:
  "classifyDescriptorVersion reference_semver ManagerPNPM ''10.4.1'' = Inr (''10.4.1'', None)"
proof -
  have "''10.4.1'' = version_text 10 4 1 None" "CHR ''+'' \<notin> set (version_text 10 4 1 None)" by code_simp+
  then show ?thesis
    by (subst classify_descriptor_exact [OF reference.semver_laws_axioms])
      (simp_all add: descriptor_text_def version_text_inject valid_pre_def manager_defs del: One_nat_def)
qed

section \<open>Reconciliation\<close>

text \<open>C39: When reconciliation accepts, the declared digest is the digest of the very bytes acquired: for
  a pnpm SHA-512 it is the registry's authoritative hash itself, for another pnpm digest it is that of
  a download whose SHA-512 is the authoritative hash, and for Yarn that of the captured bundle.\<close>

theorem reconcile_sound:
  assumes "reconcileDeclaredDigest selection url authoritative bundle fetcher = None"
    and "ms_Digest selection = Some d" and "ms_Name selection = ManagerPNPM \<or> ms_Name selection = ManagerYarn"
  shows "if ms_Name selection = ManagerYarn then computeDeclaredDigest (dd_Algorithm d) bundle = dd_Hex d
    else if dd_Algorithm d = ''sha512'' then dd_Hex d = authoritative
    else \<exists>data. fetcher url maxPNPMDistribution ''application/octet-stream'' = Inr data \<and>
      SHA512_String (SumSHA512 data) = authoritative \<and>
      computeDeclaredDigest (dd_Algorithm d) data = dd_Hex d"
  using assms by (auto simp: reconcileDeclaredDigest_def manager_defs split: if_splits sum.splits)

definition example_selection :: ManagerSelection where
  "example_selection = \<lparr>ms_Name = ManagerPNPM, ms_Version = ''10.4.1'',
     ms_Digest = Some \<lparr>dd_Algorithm = ''sha512'', dd_Hex = replicate 128 (CHR ''a'')\<rparr>, ms_DeclaredVersion = [],
     ms_DeclaredVersionSet = False, ms_Source = SelectionPackageManager, ms_SelectionManifestPath = [],
     ms_SelectionLockfilePath = [], ms_SelectedLockfilePath = [], ms_IgnoredLockfilePaths = []\<rparr>"

lemma reconcile_sound_witness:
  "reconcileDeclaredDigest example_selection [] (replicate 128 (CHR ''a'')) [] (\<lambda>_ _ _. Inr []) = None \<and>
   dd_Hex (the (ms_Digest example_selection)) = replicate 128 (CHR ''a'')"
proof -
  have r: "reconcileDeclaredDigest example_selection [] (replicate 128 (CHR ''a'')) [] (\<lambda>_ _ _. Inr []) = None"
    by (simp add: reconcileDeclaredDigest_def example_selection_def)
  have "ms_Name example_selection = ManagerPNPM \<or> ms_Name example_selection = ManagerYarn"
    by (simp add: example_selection_def)
  from reconcile_sound [OF r _ this] r show ?thesis by (simp add: example_selection_def manager_defs)
qed

end
