(* ===== verification/Purl.thy ===== *)
theory Purl
  imports Descriptor Diagnostic
begin

text \<open>
  Names of packages and registries: npmValidationError, NPMPackagePURL and its helpers
  (internal/npmprofile/provenance_input.go and provenance_validate.go), the normal form of a registry
  URL and the registry's package names (registry_client.go).
\<close>

section \<open>Validation errors\<close>

definition npmValidationError :: "string \<Rightarrow> string \<Rightarrow> string \<Rightarrow> go_error" where
  "npmValidationError ident field message =
     (case New Inr ident field message of
        Inl err \<Rightarrow> ErrWrap ''construct npm provenance diagnostic %q: %w'' [ident] [err]
      | Inr entry \<Rightarrow> ErrDiag KNpm (dg_ID entry) field (dg_Message entry) [] [])"

definition IDNPMSubjectMismatch :: string where
  "IDNPMSubjectMismatch = npm_error_id ''npm-purl-subject-mismatch''"

section \<open>Percent encoding\<close>

definition upper_hex :: "nat \<Rightarrow> char" where
  "upper_hex n = char_of (if n < 10 then 48 + n else 55 + n)"

definition unreserved :: "char \<Rightarrow> bool" where
  "unreserved c \<longleftrightarrow> is_alnum c \<or> c \<in> set ''-._~''"

definition percentEncode :: "string \<Rightarrow> string" where
  "percentEncode value =
     concat (map (\<lambda>c. if unreserved c then [c]
       else [CHR ''%'', upper_hex (byte c div 16), upper_hex (byte c mod 16)]) value)"

section \<open>Package URLs\<close>

text \<open>A range over a string yields runes; an invalid byte is U+FFFD, which none of the tests hits.\<close>

definition invalidPURLText :: "string \<Rightarrow> bool" where
  "invalidPURLText value =
     (value = [] \<or> list_ex (\<lambda>(r, _). r < 32 \<or> r = 127 \<or> r = 92) (runes value))"

definition NPMPackagePURL :: "string \<Rightarrow> string \<Rightarrow> string result" where
  "NPMPackagePURL name version =
     (if invalidPURLText version then
        Inl (npmValidationError IDNPMSubjectMismatch ''subject[0].name''
          ''package version cannot form an npm PURL'')
      else if HasPrefix name ''@'' then
        (let remainder = TrimPrefix name ''@'' in
         if length (filter (\<lambda>c. c = CHR ''/'') remainder) \<noteq> 1 then
           Inl (npmValidationError IDNPMSubjectMismatch ''subject[0].name''
             ''scoped npm package name must contain one scope separator'')
         else case Cut remainder ''/'' of
           None \<Rightarrow> Inl (npmValidationError IDNPMSubjectMismatch ''subject[0].name''
             ''scoped npm package name cannot form a PURL'')
         | Some (scope, packageName) \<Rightarrow>
             if invalidPURLText scope \<or> invalidPURLText packageName then
               Inl (npmValidationError IDNPMSubjectMismatch ''subject[0].name''
                 ''scoped npm package name cannot form a PURL'')
             else Inr (''pkg:npm/%40'' @ percentEncode scope @ ''/'' @ percentEncode packageName
               @ ''@'' @ percentEncode version))
      else if CHR ''/'' \<in> set name \<or> invalidPURLText name then
        Inl (npmValidationError IDNPMSubjectMismatch ''subject[0].name''
          ''unscoped npm package name cannot form a PURL'')
      else Inr (''pkg:npm/'' @ percentEncode name @ ''@'' @ percentEncode version))"

section \<open>Registry URLs\<close>

text \<open>strings.ToLower; the case mapping of non-ASCII runes is that of the Unicode version of the Go
  release, the parameter \<open>lc\<close>.\<close>

definition lower_with :: "(nat \<Rightarrow> nat) \<Rightarrow> string \<Rightarrow> string" where
  "lower_with lc s =
     concat (map (\<lambda>(r, bs, ok). encode_rune (if r < 128 then rune_lower r else lc r)) (runes s))"

text \<open>What of a normalised URL its String method shows: the host, and whether the URL ended in a bare
  question mark (ForceQuery).\<close>

record registry_url =
  ru_Host :: string
  ru_ForceQuery :: bool

definition force_query :: "string \<Rightarrow> bool" where
  "force_query raw =
     (let base = (case Cut raw ''#'' of None \<Rightarrow> raw | Some (b, _) \<Rightarrow> b) in
      HasSuffix base ''?'' \<and> length (filter (\<lambda>c. c = CHR ''?'') base) = 1)"

definition normalizeRegistryURL :: "(nat \<Rightarrow> nat) \<Rightarrow> string \<Rightarrow> registry_url result" where
  "normalizeRegistryURL lc rawURL =
     (case url_Parse rawURL of
        None \<Rightarrow> Inl (ErrText ''registry URL must be an absolute credential-free HTTPS root URL'' [])
      | Some u \<Rightarrow>
          if Scheme u \<noteq> ''https'' \<or> Host u = [] \<or> User u \<noteq> None \<or> RawQuery u \<noteq> [] \<or> Fragment u \<noteq> []
             \<or> (Path u \<noteq> [] \<and> Path u \<noteq> ''/'')
          then Inl (ErrText ''registry URL must be an absolute credential-free HTTPS root URL'' [])
          else (let lowered = u\<lparr>Host := lower_with lc (Host u)\<rparr> in
            Inr \<lparr>ru_Host = (if Port lowered = ''443'' then Hostname lowered else Host lowered),
                 ru_ForceQuery = force_query rawURL\<rparr>))"

definition escape_host :: "string \<Rightarrow> string" where
  "escape_host host =
     concat (map (\<lambda>c. if host_char c then [c]
       else [CHR ''%'', upper_hex (byte c div 16), upper_hex (byte c mod 16)]) host)"

definition registry_String :: "registry_url \<Rightarrow> string" where
  "registry_String u =
     ''https://'' @ escape_host (ru_Host u) @ ''/'' @ (if ru_ForceQuery u then ''?'' else [])"

definition npmRegistryPackageURL :: "(nat \<Rightarrow> nat) \<Rightarrow> string \<Rightarrow> string \<Rightarrow> string \<Rightarrow> string result" where
  "npmRegistryPackageURL lc root name version =
     (case normalizeRegistryURL lc root of
        Inl _ \<Rightarrow> Inl (ErrText ''unsupported registry package URL input'' [])
      | Inr normalized \<Rightarrow>
          if registry_String normalized \<noteq> root \<or> invalidPURLText name \<or> invalidPURLText version
          then Inl (ErrText ''unsupported registry package URL input'' [])
          else Inr (root @ percentEncode name @ ''/'' @ percentEncode version))"

definition validRegistryPackageNamePart :: "string \<Rightarrow> bool" where
  "validRegistryPackageNamePart part \<longleftrightarrow>
     \<not> (part = [] \<or> Contains part ''@'') \<and> \<not> list_ex (\<lambda>(r, _). IsSpace r) (runes part)"

definition validRegistryPackageName :: "string \<Rightarrow> bool" where
  "validRegistryPackageName name =
     (if invalidPURLText name \<or> length name > 214 \<or> ContainsAny name ''?#%'' then False
      else if HasPrefix name ''@'' then
        (case Cut (TrimPrefix name ''@'') ''/'' of
           None \<Rightarrow> False
         | Some (scope, packageName) \<Rightarrow>
             validRegistryPackageNamePart scope \<and> validRegistryPackageNamePart packageName
             \<and> \<not> Contains packageName ''/'')
      else validRegistryPackageNamePart name \<and> \<not> Contains name ''/'')"

section \<open>Encoding is injective\<close>

definition hex_val :: "char \<Rightarrow> nat" where
  "hex_val c = (if byte c < 58 then byte c - 48 else byte c - 55)"

fun percentDecode :: "string \<Rightarrow> string" where
  "percentDecode (p # a # b # rest) =
     (if p = CHR ''%'' then char_of (16 * hex_val a + hex_val b) # percentDecode rest
      else p # percentDecode (a # b # rest))"
| "percentDecode s = s"

lemma hex_val_upper [simp]: "n < 16 \<Longrightarrow> hex_val (upper_hex n) = n"
  by (auto simp: hex_val_def upper_hex_def byte_char_of)

lemma percentEncode_simps [simp]:
  "percentEncode [] = []"
  "percentEncode (c # cs) = (if unreserved c then c # percentEncode cs
     else CHR ''%'' # upper_hex (byte c div 16) # upper_hex (byte c mod 16) # percentEncode cs)"
  by (simp_all add: percentEncode_def)

lemma percent_reserved: "\<not> unreserved (CHR ''%'')"
  by code_simp

lemma percentDecode_Cons: "c \<noteq> CHR ''%'' \<Longrightarrow> percentDecode (c # s) = c # percentDecode s"
  by (cases s; cases "tl s") auto

lemma percentDecode_encode [simp]: "percentDecode (percentEncode s) = s"
proof (induction s)
  case (Cons c s)
  have "byte c div 16 < 16" using byte_less [of c] by (simp add: less_mult_imp_div_less)
  with Cons percent_reserved show ?case
    by (cases "unreserved c", cases "c = CHR ''%''") (auto simp: percentDecode_Cons)
qed simp

lemma unreserved_or_hex:
  assumes "x \<in> set (percentEncode s)"
  shows "unreserved x \<or> x = CHR ''%''"
proof -
  have "unreserved (upper_hex n)" if "n < 16" for n
  proof -
    from that have "n \<in> set [0..<16]" by simp
    moreover have "list_all (\<lambda>n. unreserved (upper_hex n)) [0..<16]" by code_simp
    ultimately show ?thesis by (auto simp: list_all_iff)
  qed
  moreover have "byte c div 16 < 16" for c using byte_less [of c] by (simp add: less_mult_imp_div_less)
  ultimately show ?thesis using assms
    by (induction s) (auto split: if_splits)
qed

lemma encode_separators:
  "CHR ''@'' \<notin> set (percentEncode s)" "CHR ''/'' \<notin> set (percentEncode s)"
proof -
  have "\<not> unreserved (CHR ''@'')" "\<not> unreserved (CHR ''/'')" by code_simp+
  then show "CHR ''@'' \<notin> set (percentEncode s)" "CHR ''/'' \<notin> set (percentEncode s)"
    using unreserved_or_hex by blast+
qed

text \<open>Reading a package URL back: the part after the last separator is the version, and a scope is marked
  by its encoded at sign.\<close>

definition purl_decode :: "string \<Rightarrow> string \<times> string" where
  "purl_decode purl =
     (let rest = drop 8 purl in
      case Cut rest ''@'' of
        None \<Rightarrow> (rest, [])
      | Some (name, version) \<Rightarrow> (percentDecode name, percentDecode version))"

lemma percentDecode_append:
  "percentDecode (percentEncode s @ CHR ''/'' # t) = s @ CHR ''/'' # percentDecode t"
proof (induction s)
  case Nil
  show ?case by (simp add: percentDecode_Cons)
next
  case (Cons c s)
  have "byte c div 16 < 16" using byte_less [of c] by (simp add: less_mult_imp_div_less)
  with Cons percent_reserved show ?case
    by (cases "unreserved c", cases "c = CHR ''%''") (auto simp: percentDecode_Cons)
qed

text \<open>C40: A package URL determines the package: NPMPackagePURL can be decoded back to the very name, scope
  included, and version it was made from, so two different packages or versions never share a subject
  name whatever characters they contain.\<close>

theorem purl_roundtrip:
  assumes "NPMPackagePURL name version = Inr purl"
  shows "purl_decode purl = (name, version)"
proof (cases "HasPrefix name ''@''")
  case True
  then obtain rest where name: "name = CHR ''@'' # rest" by (auto simp: HasPrefix_iff)
  then have trim: "TrimPrefix name ''@'' = rest" using TrimPrefix_append [of "''@''" rest] by simp
  from assms True obtain scope pkg where cut: "Cut rest ''/'' = Some (scope, pkg)"
    and purl: "purl = ''pkg:npm/%40'' @ percentEncode scope @ ''/'' @ percentEncode pkg @ ''@''
      @ percentEncode version"
    by (auto simp: NPMPackagePURL_def trim Let_def split: if_splits option.splits)
  have rest: "rest = scope @ CHR ''/'' # pkg" using cut by (simp add: Cut_char_Some)
  let ?n = "''%40'' @ percentEncode scope @ ''/'' @ percentEncode pkg"
  have "CHR ''@'' \<notin> set ?n" using encode_separators by auto
  then have "Cut (?n @ CHR ''@'' # percentEncode version) ''@'' = Some (?n, percentEncode version)"
    by (rule Cut_char_append)
  moreover have "percentDecode ?n = name"
  proof -
    have "char_of (16 * hex_val (CHR ''4'') + hex_val (CHR ''0'')) = CHR ''@''" by code_simp
    then show ?thesis using percentDecode_append [of scope "percentEncode pkg"] by (simp add: name rest)
  qed
  ultimately show ?thesis by (simp add: purl purl_decode_def)
next
  case False
  with assms have purl: "purl = ''pkg:npm/'' @ percentEncode name @ ''@'' @ percentEncode version"
    by (auto simp: NPMPackagePURL_def split: if_splits)
  have "Cut (percentEncode name @ CHR ''@'' # percentEncode version) ''@'' =
      Some (percentEncode name, percentEncode version)"
    by (rule Cut_char_append) (rule encode_separators)
  then show ?thesis by (simp add: purl purl_decode_def)
qed

lemma purl_roundtrip_witness: "purl_decode ''pkg:npm/%40a/b@1.0.0'' = (''@a/b'', ''1.0.0'')"
proof -
  have "NPMPackagePURL ''@a/b'' ''1.0.0'' = Inr ''pkg:npm/%40a/b@1.0.0''" by code_simp
  then show ?thesis by (rule purl_roundtrip)
qed

text \<open>The normal form of a registry URL has two flaws: a bare trailing question mark survives it, so the
  package URL built on it puts the package into the query, and dropping port 443 also drops the
  brackets of an IPv6 literal, which leaves a URL that no longer parses.\<close>

theorem registry_normal_form_flaws:
  "map_result registry_String (normalizeRegistryURL lc ''https://registry.npmjs.org/?'') =
     Inr ''https://registry.npmjs.org/?'' \<and>
   npmRegistryPackageURL lc ''https://registry.npmjs.org/?'' ''left-pad'' ''1.0.0'' =
     Inr ''https://registry.npmjs.org/?left-pad/1.0.0'' \<and>
   map_option Path (url_Parse ''https://registry.npmjs.org/?left-pad/1.0.0'') = Some ''/'' \<and>
   map_result registry_String (normalizeRegistryURL lc ''https://[::1]:443/'') = Inr ''https://::1/'' \<and>
   url_Parse ''https://::1/'' = None"
  by (intro conjI; code_simp)

end
