(* ===== verification/SourceRef.thy ===== *)
theory SourceRef
  imports Purl Identity
begin

text \<open>
  internal/npmprofile/source_ref.go: the caller-selected tag a build starts from, its resolution to a
  commit through git, and the bounded capture of a command's output.  Running git is a parameter.
\<close>

section \<open>Validation\<close>

definition IDSourceRefInvalid :: string where
  "IDSourceRefInvalid = npm_error_id ''source-ref-invalid''"

definition tagRefPrefix :: string where "tagRefPrefix = ''refs/tags/''"

definition sourceRefError :: "string \<Rightarrow> go_error" where
  "sourceRefError message = npmValidationError IDSourceRefInvalid ''source-ref'' message"

definition NormalizeSourceRefInput :: "string \<Rightarrow> string" where
  "NormalizeSourceRefInput sourceRef = sourceRef"

definition forbidden_tag_rune :: "nat \<Rightarrow> bool" where
  "forbidden_tag_rune r \<longleftrightarrow> r < 32 \<or> r = 127 \<or> r \<in> set (map byte '' ~^:?*['') \<or> r = 92"

definition validTagName :: "string \<Rightarrow> bool" where
  "validTagName name =
     (if name = [] \<or> name = ''@'' \<or> HasPrefix name ''/'' \<or> HasSuffix name ''/''
         \<or> HasSuffix name ''.'' \<or> Contains name ''//'' \<or> Contains name ''..''
         \<or> Contains name [CHR ''@'', CHR ''{''] \<or> HasSuffix name ''.lock'' then False
      else if list_ex (\<lambda>component. HasPrefix component ''.'') (split_on (CHR ''/'') name) then False
      else \<not> list_ex (\<lambda>(r, _). forbidden_tag_rune r) (runes name))"

text \<open>strings.Trim with an ASCII cutset.\<close>

definition TrimSet :: "(char \<Rightarrow> bool) \<Rightarrow> string \<Rightarrow> string" where
  "TrimSet cutset s = rev (dropWhile cutset (rev (dropWhile cutset s)))"

definition blank_char :: "char \<Rightarrow> bool" where
  "blank_char c \<longleftrightarrow> byte c = 32 \<or> (9 \<le> byte c \<and> byte c \<le> 13)"

definition ValidateSourceRefInput :: "string \<Rightarrow> string \<Rightarrow> string \<Rightarrow> go_error option" where
  "ValidateSourceRefInput sourceRef invocationRef packageVersion =
     (if sourceRef = [] then None
      else if sourceRef \<noteq> TrimSet blank_char sourceRef then
        Some (sourceRefError ''source-ref must use its exact canonical spelling without surrounding whitespace'')
      else if \<not> HasPrefix sourceRef tagRefPrefix \<or> \<not> validTagName (TrimPrefix sourceRef tagRefPrefix) then
        Some (sourceRefError ''source-ref must be a full, well-formed tag ref'')
      else if HasPrefix invocationRef tagRefPrefix \<and> sourceRef \<noteq> invocationRef then
        Some (sourceRefError ''source-ref conflicts with the tag invocation ref'')
      else if packageVersion \<noteq> [] \<and> sourceRef \<noteq> tagRefPrefix @ ''v'' @ packageVersion then
        Some (sourceRefError ''source-ref does not match the package version tag'')
      else None)"

section \<open>Resolution\<close>

text \<open>
  What the resolver's environment answers: whether the context and the temporary directory can be
  had, and each git command, given the commands run before it.
\<close>

record git_env =
  ge_context :: bool
  ge_MkdirTemp :: bool
  ge_git :: "string list list \<Rightarrow> string list \<Rightarrow> string result"

definition git_init :: "string list" where "git_init = [''init'', ''--bare'', ''.'']"
definition git_fetch :: "string \<Rightarrow> string \<Rightarrow> string list" where
  "git_fetch remote sourceRef = [''fetch'', ''--no-tags'', ''--depth=1'', remote, sourceRef]"
definition git_peel :: "string list" where
  "git_peel = [''rev-parse'', ''--verify'', ''FETCH_HEAD^{commit}'']"
definition git_type :: "string \<Rightarrow> string list" where "git_type commit = [''cat-file'', ''-t'', commit]"

text \<open>The commands run, in order, with the outcome.\<close>

definition ResolveSourceRefTag ::
  "git_env \<Rightarrow> string \<Rightarrow> string \<Rightarrow> string \<Rightarrow> string list list \<times> string result" where
  "ResolveSourceRefTag env sourceRef invocationRef remote =
     (case ValidateSourceRefInput sourceRef invocationRef [] of
        Some err \<Rightarrow> ([], Inl err)
      | None \<Rightarrow>
     (if sourceRef = [] \<or> remote = [] then
        ([], Inl (sourceRefError ''source-ref and remote are required for resolution''))
      else if \<not> ge_context env then
        ([], Inl (sourceRefError ''source-ref resolution context is required''))
      else if \<not> ge_MkdirTemp env then
        ([], Inl (sourceRefError ''create isolated source-ref resolver''))
      else
        (let c1 = git_init; c2 = git_fetch remote sourceRef; c3 = git_peel in
         case ge_git env [] c1 of
           Inl _ \<Rightarrow> ([c1], Inl (sourceRefError ''initialize isolated source-ref resolver''))
         | Inr _ \<Rightarrow>
        (case ge_git env [c1] c2 of
           Inl _ \<Rightarrow> ([c1, c2], Inl (sourceRefError ''source-ref tag is missing or unreachable''))
         | Inr _ \<Rightarrow>
        (case ge_git env [c1, c2] c3 of
           Inl _ \<Rightarrow> ([c1, c2, c3], Inl (sourceRefError ''source-ref does not peel to a commit''))
         | Inr output \<Rightarrow>
             (let commit = TrimSpace output; c4 = git_type commit in
              case ge_git env [c1, c2, c3] c4 of
                Inl _ \<Rightarrow> ([c1, c2, c3, c4],
                  Inl (sourceRefError ''source-ref resolved object is not a commit''))
              | Inr objectType \<Rightarrow>
                  ([c1, c2, c3, c4],
                   if TrimSpace objectType \<noteq> ''commit'' then
                     Inl (sourceRefError ''source-ref resolved object is not a commit'')
                   else if length commit \<noteq> 40 \<or> TrimSet is_lower_hex commit \<noteq> [] then
                     Inl (sourceRefError ''source-ref resolved commit is malformed'')
                   else Inr commit)))))))"

section \<open>Bounded output\<close>

record boundedOutput =
  bo_buffer :: string
  bo_remaining :: nat

definition newBoundedOutput :: "nat \<Rightarrow> boundedOutput" where
  "newBoundedOutput limit = \<lparr>bo_buffer = [], bo_remaining = limit\<rparr>"

definition bounded_Write :: "string \<Rightarrow> boundedOutput \<Rightarrow> nat \<times> boundedOutput" where
  "bounded_Write data output =
     (let written = length data in
      if bo_remaining output > 0 then
        (let kept = min (length data) (bo_remaining output) in
         (written, output\<lparr>bo_buffer := bo_buffer output @ take kept data,
                          bo_remaining := bo_remaining output - kept\<rparr>))
      else (written, output))"

definition bounded_String :: "boundedOutput \<Rightarrow> string" where
  "bounded_String output = bo_buffer output"

definition bounded_Writes :: "string list \<Rightarrow> boundedOutput \<Rightarrow> boundedOutput" where
  "bounded_Writes parts output = foldl (\<lambda>out data. snd (bounded_Write data out)) output parts"

section \<open>What is established\<close>

lemma dropWhile_all: "dropWhile P s = [] \<longleftrightarrow> list_all P s"
  by (simp add: list_all_iff)

lemma TrimSet_empty: "TrimSet P s = [] \<longleftrightarrow> list_all P s"
proof -
  have "TrimSet P s = [] \<longleftrightarrow> list_all P (dropWhile P s)"
    by (simp add: TrimSet_def dropWhile_all list_all_iff del: dropWhile_eq_Nil_conv)
  also have "\<dots> \<longleftrightarrow> list_all P s"
    by (metis dropWhile_all dropWhile_eq_self_iff hd_dropWhile list.pred_inject(1) list.set_sel(1) list_all_iff)
  finally show ?thesis .
qed

text \<open>C32: A commit is only ever returned after git has fetched exactly the selected ref from the given
  remote and named that very object a commit: it is a full lowercase SHA-1 name, the peeled value of
  the fetched tag, and the four commands ran in this order and no other.\<close>

theorem resolve_tag_sound:
  assumes "ResolveSourceRefTag env sourceRef invocationRef remote = (commands, Inr commit)"
  shows "commands = [git_init, git_fetch remote sourceRef, git_peel, git_type commit] \<and>
    ValidateFullSHA commit = None \<and> ValidateSourceRefInput sourceRef invocationRef [] = None \<and>
    sourceRef \<noteq> [] \<and> remote \<noteq> [] \<and>
    (\<exists>output objectType.
       ge_git env [git_init, git_fetch remote sourceRef] git_peel = Inr output \<and> TrimSpace output = commit \<and>
       ge_git env [git_init, git_fetch remote sourceRef, git_peel] (git_type commit) = Inr objectType \<and>
       TrimSpace objectType = ''commit'')"
proof -
  have "commands = [git_init, git_fetch remote sourceRef, git_peel, git_type commit] \<and>
    length commit = 40 \<and> TrimSet is_lower_hex commit = [] \<and>
    ValidateSourceRefInput sourceRef invocationRef [] = None \<and> sourceRef \<noteq> [] \<and> remote \<noteq> [] \<and>
    (\<exists>output objectType.
       ge_git env [git_init, git_fetch remote sourceRef] git_peel = Inr output \<and> TrimSpace output = commit \<and>
       ge_git env [git_init, git_fetch remote sourceRef, git_peel] (git_type commit) = Inr objectType \<and>
       TrimSpace objectType = ''commit'')"
    using assms unfolding ResolveSourceRefTag_def Let_def
    by (auto split: option.splits if_splits sum.splits)
  then show ?thesis
    by (simp add: TrimSet_empty ValidateFullSHA_def validFullSHA_def re_exactly_def)
qed

definition example_git :: git_env where
  "example_git = \<lparr>ge_context = True, ge_MkdirTemp = True, ge_git = (\<lambda>history command.
     if command = git_peel then Inr (replicate 40 (CHR ''a'') @ [CHR 0x0A])
     else if hd command = ''cat-file'' then Inr (''commit'' @ [CHR 0x0A]) else Inr [])\<rparr>"

lemma resolve_tag_sound_witness: "ValidateFullSHA (replicate 40 (CHR ''a'')) = None"
proof -
  have "ResolveSourceRefTag example_git ''refs/tags/v1.0.0'' ''refs/heads/main'' ''origin'' =
      (fst (ResolveSourceRefTag example_git ''refs/tags/v1.0.0'' ''refs/heads/main'' ''origin''),
       Inr (replicate 40 (CHR ''a'')))"
    by code_simp
  from resolve_tag_sound [OF this] show ?thesis by blast
qed

text \<open>The capture of a command's output is the first \<open>limit\<close> bytes of everything written, however the
  writes are cut, it never exceeds the limit, and every write reports its full length, so the command
  never sees a short write.\<close>

theorem bounded_output_exact:
  "bounded_String (bounded_Writes parts (newBoundedOutput limit)) = take limit (concat parts) \<and>
   length (bounded_String (bounded_Writes parts (newBoundedOutput limit))) \<le> limit \<and>
   fst (bounded_Write data output) = length data"
proof -
  have "bo_buffer (bounded_Writes parts out) = bo_buffer out @ take (bo_remaining out) (concat parts)" for out
  proof (induction parts arbitrary: out)
    case (Cons data parts)
    have "bo_buffer (snd (bounded_Write data out)) = bo_buffer out @ take (bo_remaining out) data"
      "bo_remaining (snd (bounded_Write data out)) = bo_remaining out - length data"
      by (simp_all add: bounded_Write_def Let_def min_def)
    with Cons show ?case by (simp add: bounded_Writes_def)
  qed (simp add: bounded_Writes_def)
  then show ?thesis by (simp add: newBoundedOutput_def bounded_String_def bounded_Write_def Let_def)
qed

text \<open>The two validators of a release tag disagree: source-ref accepts a tag with an inner component
  that ends in .lock and one with a non-ASCII space, which the identity package refuses as a release
  ref.\<close>

theorem tag_validators_disagree:
  "ValidateSourceRefInput ''refs/tags/a.lock/b'' [] [] = None \<and>
   ValidateReleaseRef ''refs/tags/a.lock/b'' \<noteq> None \<and>
   ValidateSourceRefInput (''refs/tags/a'' @ encode_rune 8195 @ ''b'') [] [] = None \<and>
   ValidateReleaseRef (''refs/tags/a'' @ encode_rune 8195 @ ''b'') \<noteq> None"
proof -
  have "\<not> validReleaseRef ''refs/tags/a.lock/b''"
    "\<not> validReleaseRef (''refs/tags/a'' @ encode_rune 8195 @ ''b'')"
    by code_simp+
  moreover have "ValidateSourceRefInput ''refs/tags/a.lock/b'' [] [] = None"
    "ValidateSourceRefInput (''refs/tags/a'' @ encode_rune 8195 @ ''b'') [] [] = None"
    by code_simp+
  ultimately show ?thesis by (simp add: ValidateReleaseRef_def)
qed

end
