(* ===== verification/Params.thy ===== *)
theory Params
  imports Provenance Pins SourceRef Paths
begin

text \<open>
  The external parameters of an npm build (internal/npmprofile/provenance_types.go): their records,
  their shape (validateExternalParameterShape) and their decoding (DecodeExternalParameters up to the
  semantic checks, which are in ParamsCheck).  A json.RawMessage is kept as the parsed value; a nil slice
  or map and an empty one are not told apart.
\<close>

section \<open>Records\<close>

record SourceParameters =
  sp_Repository :: string
  sp_Ref :: string
  sp_Revision :: string
  sp_EventName :: string
  sp_RefType :: string
  sp_InputRef :: "string option"
  sp_InvocationRef :: "string option"
  sp_InvocationRevision :: "string option"

record WorkflowParameters =
  wp_Path :: string
  wp_SHA :: string
  wp_BuilderID :: string

record RuntimeParameters =
  rt_Runner :: string
  rt_NodeVersion :: string
  rt_NPMVersion :: string

record PackageParameters =
  pk_Directory :: string
  pk_WorkspaceRoot :: "string option"
  pk_SourceManifest :: string
  pk_Name :: string
  pk_Version :: string
  pk_Private :: bool
  pk_Repository :: string
  pk_TarballName :: string
  pk_PackageURL :: string
  pk_PackedName :: string
  pk_PackedVersion :: string
  pk_PublishConfigRaw :: "(string \<times> jval) list"
  pk_PackedFiles :: "string list"
  pk_ConsumerSurface :: "(string \<times> jval) list"

record PackageManagerParameters =
  pm_Name :: string
  pm_Version :: string
  pm_SelectionSource :: string
  pm_SelectionManifest :: "string option"
  pm_SelectionManifestPath :: "string option"
  pm_SelectionLockfilePath :: "string option"
  pm_Root :: string
  pm_IgnoredLockfilePaths :: "string list"
  pm_YarnInstallMode :: string

record PublishConfigParameters =
  pc_Registry :: string
  pc_Access :: string
  pc_Tag :: string
  pc_Provenance :: "bool option"

record PublishParameters =
  pb_InputRegistryURL :: "string option"
  pb_InputDistTag :: "string option"
  pb_InputAccess :: "string option"
  pb_PublishConfig :: "PublishConfigParameters option"
  pb_ResolvedRegistryURL :: string
  pb_ResolvedDistTag :: string
  pb_PublishAccessOption :: "string option"
  pb_EffectiveAccess :: string
  pb_TrustedPublishing :: bool
  pb_ProvenanceFile :: bool
  pb_PackageIdentityPreexisting :: "bool option"
  pb_PackageVersionPreexisting :: "bool option"
  pb_CustomRegistrySupport :: string

record ReleaseParameters =
  rl_Ref :: string
  rl_VersionTag :: string

record DistributionParameters =
  dp_ReleaseAssetMode :: bool
  dp_ReleaseTagSupplied :: bool
  dp_ProvenanceSidecar :: "string option"
  dp_LinkedArtifactMetadata :: bool

record CallerParameters =
  cp_WorkflowFilename :: string

record BuildParameters =
  bp_ScriptPresent :: bool
  bp_ScriptResult :: string

record ExternalParameters =
  ep_Source :: SourceParameters
  ep_Workflow :: WorkflowParameters
  ep_Runtime :: RuntimeParameters
  ep_Package :: PackageParameters
  ep_PackageManager :: PackageManagerParameters
  ep_Publish :: PublishParameters
  ep_Release :: ReleaseParameters
  ep_Distribution :: DistributionParameters
  ep_Caller :: CallerParameters
  ep_Build :: BuildParameters

section \<open>Decoding\<close>

definition store_bool :: "(bool \<Rightarrow> 'r \<Rightarrow> 'r) \<Rightarrow> 'r \<Rightarrow> jval \<Rightarrow> 'r option" where
  "store_bool put r v = (case v of JBool b \<Rightarrow> Some (put b r) | JNull \<Rightarrow> Some r | _ \<Rightarrow> None)"

definition store_bool_pointer :: "(bool option \<Rightarrow> 'r \<Rightarrow> 'r) \<Rightarrow> 'r \<Rightarrow> jval \<Rightarrow> 'r option" where
  "store_bool_pointer put r v =
     (case v of JBool b \<Rightarrow> Some (put (Some b) r) | JNull \<Rightarrow> Some (put None r) | _ \<Rightarrow> None)"

text \<open>A null element of a slice of strings is the empty string.\<close>

fun string_items :: "jval list \<Rightarrow> string list option" where
  "string_items [] = Some []"
| "string_items (v # vs) =
     (case v of
        JString s \<Rightarrow> map_option ((#) s) (string_items vs)
      | JNull \<Rightarrow> map_option ((#) []) (string_items vs)
      | _ \<Rightarrow> None)"

definition store_strings :: "(string list \<Rightarrow> 'r \<Rightarrow> 'r) \<Rightarrow> 'r \<Rightarrow> jval \<Rightarrow> 'r option" where
  "store_strings put r v =
     (case v of
        JArr vs \<Rightarrow> map_option (\<lambda>ss. put ss r) (string_items vs)
      | JNull \<Rightarrow> Some (put [] r)
      | _ \<Rightarrow> None)"

definition store_raw_map :: "((string \<times> jval) list \<Rightarrow> 'r \<Rightarrow> 'r) \<Rightarrow> 'r \<Rightarrow> jval \<Rightarrow> 'r option" where
  "store_raw_map put r v =
     (case v of JObj members \<Rightarrow> Some (put members r) | JNull \<Rightarrow> Some (put [] r) | _ \<Rightarrow> None)"

definition zero_SourceParameters :: SourceParameters where
  "zero_SourceParameters = \<lparr>sp_Repository = [], sp_Ref = [], sp_Revision = [], sp_EventName = [],
     sp_RefType = [], sp_InputRef = None, sp_InvocationRef = None,
     sp_InvocationRevision = None\<rparr>"

definition SourceParameters_fields :: "SourceParameters field list" where
  "SourceParameters_fields =
     [(''repository'', store_string (\<lambda>x. sp_Repository_update (\<lambda>_. x))),
      (''ref'', store_string (\<lambda>x. sp_Ref_update (\<lambda>_. x))),
      (''revision'', store_string (\<lambda>x. sp_Revision_update (\<lambda>_. x))),
      (''event_name'', store_string (\<lambda>x. sp_EventName_update (\<lambda>_. x))),
      (''ref_type'', store_string (\<lambda>x. sp_RefType_update (\<lambda>_. x))),
      (''input_ref'', store_pointer (\<lambda>x. sp_InputRef_update (\<lambda>_. x))),
      (''invocation_ref'', store_pointer (\<lambda>x. sp_InvocationRef_update (\<lambda>_. x))),
      (''invocation_revision'', store_pointer (\<lambda>x. sp_InvocationRevision_update (\<lambda>_. x)))]"

definition zero_WorkflowParameters :: WorkflowParameters where
  "zero_WorkflowParameters = \<lparr>wp_Path = [], wp_SHA = [], wp_BuilderID = []\<rparr>"

definition WorkflowParameters_fields :: "WorkflowParameters field list" where
  "WorkflowParameters_fields =
     [(''path'', store_string (\<lambda>x. wp_Path_update (\<lambda>_. x))),
      (''sha'', store_string (\<lambda>x. wp_SHA_update (\<lambda>_. x))),
      (''builder_id'', store_string (\<lambda>x. wp_BuilderID_update (\<lambda>_. x)))]"

definition zero_RuntimeParameters :: RuntimeParameters where
  "zero_RuntimeParameters = \<lparr>rt_Runner = [], rt_NodeVersion = [], rt_NPMVersion = []\<rparr>"

definition RuntimeParameters_fields :: "RuntimeParameters field list" where
  "RuntimeParameters_fields =
     [(''runner'', store_string (\<lambda>x. rt_Runner_update (\<lambda>_. x))),
      (''node_version'', store_string (\<lambda>x. rt_NodeVersion_update (\<lambda>_. x))),
      (''npm_version'', store_string (\<lambda>x. rt_NPMVersion_update (\<lambda>_. x)))]"

definition zero_PackageParameters :: PackageParameters where
  "zero_PackageParameters = \<lparr>pk_Directory = [], pk_WorkspaceRoot = None, pk_SourceManifest = [], pk_Name = [],
     pk_Version = [], pk_Private = False, pk_Repository = [], pk_TarballName = [],
     pk_PackageURL = [], pk_PackedName = [], pk_PackedVersion = [],
     pk_PublishConfigRaw = [], pk_PackedFiles = [], pk_ConsumerSurface = []\<rparr>"

definition PackageParameters_fields :: "PackageParameters field list" where
  "PackageParameters_fields =
     [(''directory'', store_string (\<lambda>x. pk_Directory_update (\<lambda>_. x))),
      (''workspace_root'', store_pointer (\<lambda>x. pk_WorkspaceRoot_update (\<lambda>_. x))),
      (''source_manifest'', store_string (\<lambda>x. pk_SourceManifest_update (\<lambda>_. x))),
      (''name'', store_string (\<lambda>x. pk_Name_update (\<lambda>_. x))),
      (''version'', store_string (\<lambda>x. pk_Version_update (\<lambda>_. x))),
      (''private'', store_bool (\<lambda>x. pk_Private_update (\<lambda>_. x))),
      (''repository'', store_string (\<lambda>x. pk_Repository_update (\<lambda>_. x))),
      (''tarball_name'', store_string (\<lambda>x. pk_TarballName_update (\<lambda>_. x))),
      (''package_url'', store_string (\<lambda>x. pk_PackageURL_update (\<lambda>_. x))),
      (''packed_name'', store_string (\<lambda>x. pk_PackedName_update (\<lambda>_. x))),
      (''packed_version'', store_string (\<lambda>x. pk_PackedVersion_update (\<lambda>_. x))),
      (''publish_config_raw'', store_raw_map (\<lambda>x. pk_PublishConfigRaw_update (\<lambda>_. x))),
      (''packed_files'', store_strings (\<lambda>x. pk_PackedFiles_update (\<lambda>_. x))),
      (''consumer_surface'', store_raw_map (\<lambda>x. pk_ConsumerSurface_update (\<lambda>_. x)))]"

definition zero_PackageManagerParameters :: PackageManagerParameters where
  "zero_PackageManagerParameters = \<lparr>pm_Name = [], pm_Version = [], pm_SelectionSource = [],
     pm_SelectionManifest = None, pm_SelectionManifestPath = None,
     pm_SelectionLockfilePath = None, pm_Root = [], pm_IgnoredLockfilePaths = [],
     pm_YarnInstallMode = []\<rparr>"

definition PackageManagerParameters_fields :: "PackageManagerParameters field list" where
  "PackageManagerParameters_fields =
     [(''name'', store_string (\<lambda>x. pm_Name_update (\<lambda>_. x))),
      (''version'', store_string (\<lambda>x. pm_Version_update (\<lambda>_. x))),
      (''selection_source'', store_string (\<lambda>x. pm_SelectionSource_update (\<lambda>_. x))),
      (''selection_manifest'', store_pointer (\<lambda>x. pm_SelectionManifest_update (\<lambda>_. x))),
      (''selection_manifest_path'', store_pointer (\<lambda>x. pm_SelectionManifestPath_update (\<lambda>_. x))),
      (''selection_lockfile_path'', store_pointer (\<lambda>x. pm_SelectionLockfilePath_update (\<lambda>_. x))),
      (''root'', store_string (\<lambda>x. pm_Root_update (\<lambda>_. x))),
      (''ignored_lockfile_paths'', store_strings (\<lambda>x. pm_IgnoredLockfilePaths_update (\<lambda>_. x))),
      (''yarn_install_mode'', store_string (\<lambda>x. pm_YarnInstallMode_update (\<lambda>_. x)))]"

definition zero_PublishConfigParameters :: PublishConfigParameters where
  "zero_PublishConfigParameters = \<lparr>pc_Registry = [], pc_Access = [], pc_Tag = [], pc_Provenance = None\<rparr>"

definition PublishConfigParameters_fields :: "PublishConfigParameters field list" where
  "PublishConfigParameters_fields =
     [(''registry'', store_string (\<lambda>x. pc_Registry_update (\<lambda>_. x))),
      (''access'', store_string (\<lambda>x. pc_Access_update (\<lambda>_. x))),
      (''tag'', store_string (\<lambda>x. pc_Tag_update (\<lambda>_. x))),
      (''provenance'', store_bool_pointer (\<lambda>x. pc_Provenance_update (\<lambda>_. x)))]"

definition zero_PublishParameters :: PublishParameters where
  "zero_PublishParameters = \<lparr>pb_InputRegistryURL = None, pb_InputDistTag = None, pb_InputAccess = None,
     pb_PublishConfig = None, pb_ResolvedRegistryURL = [], pb_ResolvedDistTag = [],
     pb_PublishAccessOption = None, pb_EffectiveAccess = [],
     pb_TrustedPublishing = False, pb_ProvenanceFile = False,
     pb_PackageIdentityPreexisting = None, pb_PackageVersionPreexisting = None,
     pb_CustomRegistrySupport = []\<rparr>"

text \<open>A pointer to a struct: null resets it, an object is decoded into the struct it points to.\<close>

definition store_publish_config :: "PublishParameters \<Rightarrow> jval \<Rightarrow> PublishParameters option" where
  "store_publish_config r v =
     (case v of
        JNull \<Rightarrow> Some (r\<lparr>pb_PublishConfig := None\<rparr>)
      | _ \<Rightarrow> map_option (\<lambda>c. r\<lparr>pb_PublishConfig := Some c\<rparr>)
               (decode_struct PublishConfigParameters_fields
                  (case pb_PublishConfig r of None \<Rightarrow> zero_PublishConfigParameters | Some c \<Rightarrow> c) v))"

definition PublishParameters_fields :: "PublishParameters field list" where
  "PublishParameters_fields =
     [(''input_registry_url'', store_pointer (\<lambda>x. pb_InputRegistryURL_update (\<lambda>_. x))),
      (''input_dist_tag'', store_pointer (\<lambda>x. pb_InputDistTag_update (\<lambda>_. x))),
      (''input_access'', store_pointer (\<lambda>x. pb_InputAccess_update (\<lambda>_. x))),
      (''publish_config'', store_publish_config),
      (''resolved_registry_url'', store_string (\<lambda>x. pb_ResolvedRegistryURL_update (\<lambda>_. x))),
      (''resolved_dist_tag'', store_string (\<lambda>x. pb_ResolvedDistTag_update (\<lambda>_. x))),
      (''publish_access_option'', store_pointer (\<lambda>x. pb_PublishAccessOption_update (\<lambda>_. x))),
      (''effective_access'', store_string (\<lambda>x. pb_EffectiveAccess_update (\<lambda>_. x))),
      (''trusted_publishing'', store_bool (\<lambda>x. pb_TrustedPublishing_update (\<lambda>_. x))),
      (''provenance_file'', store_bool (\<lambda>x. pb_ProvenanceFile_update (\<lambda>_. x))),
      (''package_identity_preexisting'', store_bool_pointer (\<lambda>x. pb_PackageIdentityPreexisting_update (\<lambda>_. x))),
      (''package_version_preexisting'', store_bool_pointer (\<lambda>x. pb_PackageVersionPreexisting_update (\<lambda>_. x))),
      (''custom_registry_support'', store_string (\<lambda>x. pb_CustomRegistrySupport_update (\<lambda>_. x)))]"

definition zero_ReleaseParameters :: ReleaseParameters where
  "zero_ReleaseParameters = \<lparr>rl_Ref = [], rl_VersionTag = []\<rparr>"

definition ReleaseParameters_fields :: "ReleaseParameters field list" where
  "ReleaseParameters_fields =
     [(''ref'', store_string (\<lambda>x. rl_Ref_update (\<lambda>_. x))),
      (''version_tag'', store_string (\<lambda>x. rl_VersionTag_update (\<lambda>_. x)))]"

definition zero_DistributionParameters :: DistributionParameters where
  "zero_DistributionParameters = \<lparr>dp_ReleaseAssetMode = False, dp_ReleaseTagSupplied = False,
     dp_ProvenanceSidecar = None, dp_LinkedArtifactMetadata = False\<rparr>"

definition DistributionParameters_fields :: "DistributionParameters field list" where
  "DistributionParameters_fields =
     [(''release_asset_mode'', store_bool (\<lambda>x. dp_ReleaseAssetMode_update (\<lambda>_. x))),
      (''release_tag_supplied'', store_bool (\<lambda>x. dp_ReleaseTagSupplied_update (\<lambda>_. x))),
      (''provenance_sidecar'', store_pointer (\<lambda>x. dp_ProvenanceSidecar_update (\<lambda>_. x))),
      (''linked_artifact_metadata'', store_bool (\<lambda>x. dp_LinkedArtifactMetadata_update (\<lambda>_. x)))]"

definition zero_CallerParameters :: CallerParameters where
  "zero_CallerParameters = \<lparr>cp_WorkflowFilename = []\<rparr>"

definition CallerParameters_fields :: "CallerParameters field list" where
  "CallerParameters_fields =
     [(''workflow_filename'', store_string (\<lambda>x. cp_WorkflowFilename_update (\<lambda>_. x)))]"

definition zero_BuildParameters :: BuildParameters where
  "zero_BuildParameters = \<lparr>bp_ScriptPresent = False, bp_ScriptResult = []\<rparr>"

definition BuildParameters_fields :: "BuildParameters field list" where
  "BuildParameters_fields =
     [(''script_present'', store_bool (\<lambda>x. bp_ScriptPresent_update (\<lambda>_. x))),
      (''script_result'', store_string (\<lambda>x. bp_ScriptResult_update (\<lambda>_. x)))]"

definition zero_ExternalParameters :: ExternalParameters where
  "zero_ExternalParameters =
     \<lparr>ep_Source = zero_SourceParameters,
      ep_Workflow = zero_WorkflowParameters,
      ep_Runtime = zero_RuntimeParameters,
      ep_Package = zero_PackageParameters,
      ep_PackageManager = zero_PackageManagerParameters,
      ep_Publish = zero_PublishParameters,
      ep_Release = zero_ReleaseParameters,
      ep_Distribution = zero_DistributionParameters,
      ep_Caller = zero_CallerParameters,
      ep_Build = zero_BuildParameters\<rparr>"

definition ExternalParameters_fields :: "ExternalParameters field list" where
  "ExternalParameters_fields =
     [(''source'', store_struct ep_Source (\<lambda>x. ep_Source_update (\<lambda>_. x)) SourceParameters_fields),
      (''workflow'', store_struct ep_Workflow (\<lambda>x. ep_Workflow_update (\<lambda>_. x)) WorkflowParameters_fields),
      (''runtime'', store_struct ep_Runtime (\<lambda>x. ep_Runtime_update (\<lambda>_. x)) RuntimeParameters_fields),
      (''package'', store_struct ep_Package (\<lambda>x. ep_Package_update (\<lambda>_. x)) PackageParameters_fields),
      (''package_manager'', store_struct ep_PackageManager (\<lambda>x. ep_PackageManager_update (\<lambda>_. x)) PackageManagerParameters_fields),
      (''publish'', store_struct ep_Publish (\<lambda>x. ep_Publish_update (\<lambda>_. x)) PublishParameters_fields),
      (''release'', store_struct ep_Release (\<lambda>x. ep_Release_update (\<lambda>_. x)) ReleaseParameters_fields),
      (''distribution'', store_struct ep_Distribution (\<lambda>x. ep_Distribution_update (\<lambda>_. x)) DistributionParameters_fields),
      (''caller'', store_struct ep_Caller (\<lambda>x. ep_Caller_update (\<lambda>_. x)) CallerParameters_fields),
      (''build'', store_struct ep_Build (\<lambda>x. ep_Build_update (\<lambda>_. x)) BuildParameters_fields)]"

section \<open>Shape\<close>

definition IDUnexpectedExternalParameters :: string where
  "IDUnexpectedExternalParameters = npm_error_id ''unexpected-external-parameters''"

definition parametersError :: "string \<Rightarrow> string \<Rightarrow> go_error" where
  "parametersError field message = npmValidationError IDUnexpectedExternalParameters field message"

text \<open>An object decoded into a map of raw messages: null is the nil map, \<^const>\<open>None\<close> a type error.\<close>

definition raw_object :: "jval \<Rightarrow> (string \<times> jval) list option option" where
  "raw_object v = (case v of JObj members \<Rightarrow> Some (Some members) | JNull \<Rightarrow> Some None | _ \<Rightarrow> None)"

definition exactObjectKeys :: "(string \<times> jval) list option \<Rightarrow> string list \<Rightarrow> string list \<Rightarrow> bool" where
  "exactObjectKeys object required optional =
     (case object of
        None \<Rightarrow> False
      | Some members \<Rightarrow>
          (let keys = map fst members in
           if length keys < length required \<or> length keys > length required + length optional then False
           else if \<not> list_all (\<lambda>name. name \<in> set keys) required then False
           else list_all (\<lambda>name. name \<in> set required \<or> name \<in> set optional) keys))"

definition object_with_keys :: "jval option \<Rightarrow> string list \<Rightarrow> string list \<Rightarrow> bool" where
  "object_with_keys raw required optional =
     (case raw of None \<Rightarrow> False | Some v \<Rightarrow>
        (case raw_object v of None \<Rightarrow> False | Some object \<Rightarrow> exactObjectKeys object required optional))"

definition parameter_shapes :: "(string \<times> string list \<times> string list) list" where
  "parameter_shapes =
     [(''source'',
        [''repository'', ''ref'', ''revision'', ''event_name'', ''ref_type''],
        [''input_ref'', ''invocation_ref'', ''invocation_revision'']),
      (''workflow'',
        [''path'', ''sha'', ''builder_id''],
        []),
      (''runtime'',
        [''runner'', ''node_version'', ''npm_version''],
        []),
      (''package'',
        [''directory'', ''workspace_root'', ''source_manifest'', ''name'',
         ''version'', ''private'', ''repository'', ''tarball_name'',
         ''package_url'', ''packed_name'', ''packed_version''],
        [''publish_config_raw'', ''packed_files'', ''consumer_surface'']),
      (''package_manager'',
        [''name'', ''version'', ''selection_source'', ''selection_manifest'',
         ''selection_manifest_path'', ''selection_lockfile_path'', ''root''],
        [''ignored_lockfile_paths'', ''yarn_install_mode'']),
      (''publish'',
        [''input_registry_url'', ''input_dist_tag'', ''input_access'',
         ''publish_config'', ''resolved_registry_url'', ''resolved_dist_tag'',
         ''publish_access_option'', ''effective_access'',
         ''trusted_publishing'', ''provenance_file'',
         ''package_identity_preexisting'', ''package_version_preexisting''],
        [''custom_registry_support'']),
      (''release'',
        [''ref'', ''version_tag''],
        []),
      (''distribution'',
        [''release_asset_mode'', ''release_tag_supplied'',
         ''provenance_sidecar'', ''linked_artifact_metadata''],
        []),
      (''caller'',
        [''workflow_filename''],
        []),
      (''build'',
        [''script_present'', ''script_result''],
        [])]"

fun check_shapes :: "(string \<times> jval) list \<Rightarrow> (string \<times> string list \<times> string list) list \<Rightarrow> go_error option" where
  "check_shapes groups [] = None"
| "check_shapes groups ((name, required, optional) # shapes) =
     (if \<not> object_with_keys (map_of groups name) required optional then
        Some (parametersError (''externalParameters.'' @ name)
          ''nested external parameter members are missing or unexpected'')
      else check_shapes groups shapes)"

definition conditionalSourceMembers :: "string list" where
  "conditionalSourceMembers = [''input_ref'', ''invocation_ref'', ''invocation_revision'']"

fun null_source_member :: "(string \<times> jval) list \<Rightarrow> string list \<Rightarrow> go_error option" where
  "null_source_member source [] = None"
| "null_source_member source (name # names) =
     (if map_of source name = Some JNull then
        Some (parametersError (''externalParameters.source.'' @ name)
          ''conditional source members must not be null'')
      else null_source_member source names)"

definition consumer_fields :: "string list" where
  "consumer_fields = [''exports'', ''main'', ''type'', ''bin'', ''types'', ''typings'', ''typesVersions'', ''files'']"

definition members_at :: "(string \<times> jval) list \<Rightarrow> string \<Rightarrow> (string \<times> jval) list" where
  "members_at groups name = (case map_of groups name of Some (JObj members) \<Rightarrow> members | _ \<Rightarrow> [])"

definition validateExternalParameterShape :: "jval \<Rightarrow> go_error option" where
  "validateExternalParameterShape encoded =
     (case raw_object encoded of
        None \<Rightarrow> Some (parametersError ''externalParameters'' ''external parameters must be an object'')
      | Some object \<Rightarrow>
          if \<not> exactObjectKeys object (map fst parameter_shapes) [] then
            Some (parametersError ''externalParameters''
              ''external parameter groups are missing or unexpected'')
          else
            (let groups = (case object of None \<Rightarrow> [] | Some members \<Rightarrow> members);
                 source = members_at groups ''source'';
                 package = members_at groups ''package'';
                 publish = members_at groups ''publish'';
                 present = length (filter (\<lambda>name. map_of source name \<noteq> None) conditionalSourceMembers)
             in and_then (check_shapes groups parameter_shapes)
               (and_then (null_source_member source conditionalSourceMembers)
               (if present \<noteq> 0 \<and> present \<noteq> length conditionalSourceMembers then
                  Some (parametersError ''externalParameters.source''
                    ''conditional source members must be all present or all absent'')
                else if map_of package ''consumer_surface'' \<noteq> None
                        \<and> \<not> object_with_keys (map_of package ''consumer_surface'') [] consumer_fields then
                  Some (parametersError ''externalParameters.package.consumer_surface''
                    ''consumer surface contains an unknown member'')
                else if map_of publish ''publish_config'' \<noteq> Some JNull
                        \<and> \<not> object_with_keys (map_of publish ''publish_config'') []
                              [''registry'', ''access'', ''tag'', ''provenance''] then
                  Some (parametersError ''externalParameters.publish.publish_config''
                    ''publishConfig contains an unknown member'')
                else None))))"

text \<open>DecodeExternalParameters before its semantic checks; after a strict parse nothing can trail.\<close>

definition decode_parameters :: "string \<Rightarrow> ExternalParameters result" where
  "decode_parameters encoded =
     (case parseStrict encoded of
        Inl _ \<Rightarrow> Inl (parametersError ''externalParameters''
          ''external parameters must be duplicate-free JSON'')
      | Inr v \<Rightarrow>
          guarded (validateExternalParameterShape v)
            (case decode_struct ExternalParameters_fields zero_ExternalParameters v of
               None \<Rightarrow> Inl (parametersError ''externalParameters''
                 ''external parameters violate the closed schema'')
             | Some parameters \<Rightarrow> Inr parameters))"

end
