(* ===== verification/ParamsCheck.thy ===== *)
theory ParamsCheck
  imports Params
begin

text \<open>
  The semantic checks of the external parameters (internal/npmprofile/provenance_validate.go) and
  EncodeExternalParameters/DecodeExternalParameters (provenance_input.go).  The libraries and embedded
  files the checks rely on are the parameter \<open>libraries\<close>: golang.org/x/mod/semver, the case mapping of
  strings.ToLower beyond ASCII, the JCS transformer, and the two pin records embedded at build time.
\<close>

section \<open>Libraries\<close>

record libraries =
  lib_semver :: semver_pkg
  lib_lower :: "nat \<Rightarrow> nat"
  lib_transform :: "string \<Rightarrow> string result"
  lib_runtime_pin :: string
  lib_publish_pin :: string

text \<open>path.Base.\<close>

definition Base :: "string \<Rightarrow> string" where
  "Base p =
     (if p = [] then ''.''
      else (let trimmed = rev (dropWhile (\<lambda>c. c = CHR ''/'') (rev p)) in
        if trimmed = [] then ''/'' else last (split_on (CHR ''/'') trimmed)))"

text \<open>strconv.Atoi on 64-bit integers.\<close>

definition Atoi :: "string \<Rightarrow> int option" where
  "Atoi s =
     (let negative = HasPrefix s ''-'';
          digits = (if HasPrefix s ''-'' \<or> HasPrefix s ''+'' then tl s else s)
      in if \<not> re_plus is_digit digits then None
         else if dec_val digits \<ge> 2 ^ 63 + (if negative then 1 else 0) then None
         else Some (if negative then - int (dec_val digits) else int (dec_val digits)))"

section \<open>Versions and digests\<close>

definition minimumVersion :: "semver_pkg \<Rightarrow> string \<Rightarrow> nat \<Rightarrow> nat \<Rightarrow> nat \<Rightarrow> bool" where
  "minimumVersion sv value minimumMajor minimumMinor minimumPatch =
     (if \<not> exactSemver sv value then False
      else sv_Compare sv (''v'' @ value)
             (''v'' @ show_nat minimumMajor @ ''.'' @ show_nat minimumMinor @ ''.'' @ show_nat minimumPatch) \<ge> 0)"

definition majorVersionBelow :: "semver_pkg \<Rightarrow> string \<Rightarrow> nat \<Rightarrow> bool" where
  "majorVersionBelow sv value maximumMajor =
     (if \<not> exactSemver sv value then False
      else case Atoi (TrimPrefix (sv_Major sv (''v'' @ value)) ''v'') of
        None \<Rightarrow> False
      | Some major \<Rightarrow> major < int maximumMajor)"

definition digestEncodingInvalid :: "string \<Rightarrow> nat \<Rightarrow> bool" where
  "digestEncodingInvalid value len =
     (if length value \<noteq> len then True else \<not> list_all is_lower_hex value)"

definition boolCount :: "bool \<Rightarrow> nat" where "boolCount value = (if value then 1 else 0)"

section \<open>Source\<close>

definition validFullGitRef :: "string \<Rightarrow> bool" where
  "validFullGitRef ref =
     (if \<not> HasPrefix ref ''refs/'' \<or> HasSuffix ref ''/'' then False
      else (let components = split_on (CHR ''/'') ref in
        if length components < 3 then False
        else if list_ex (\<lambda>component. component = [] \<or> HasPrefix component ''.'' \<or> HasSuffix component ''.''
                  \<or> HasSuffix component ''.lock'') (tl components) then False
        else validTagName (TrimPrefix ref ''refs/'')))"

definition validateSourceParameters :: "SourceParameters \<Rightarrow> string \<Rightarrow> go_error option" where
  "validateSourceParameters source packageVersion =
     (let present = boolCount (sp_InputRef source \<noteq> None) + boolCount (sp_InvocationRef source \<noteq> None)
            + boolCount (sp_InvocationRevision source \<noteq> None)
      in if present = 0 then None
      else if present \<noteq> 3 then
        Some (parametersError ''externalParameters.source''
          ''conditional source members must be all present or all absent'')
      else if the (sp_InputRef source) \<noteq> sp_Ref source then
        Some (sourceRefError ''source input ref differs from the built source ref'')
      else
        and_then (ValidateSourceRefInput (the (sp_InputRef source)) (the (sp_InvocationRef source)) packageVersion)
          (if \<not> validFullGitRef (the (sp_InvocationRef source)) then
             Some (parametersError ''externalParameters.source.invocation_ref''
               ''invocation ref must be a well-formed full Git ref'')
           else if ValidateFullSHA (the (sp_InvocationRevision source)) \<noteq> None then
             Some (parametersError ''externalParameters.source.invocation_revision''
               ''invocation revision must be a full lowercase SHA'')
           else None))"

section \<open>Package and package manager\<close>

definition validatePackageParameters :: "libraries \<Rightarrow> ExternalParameters \<Rightarrow> go_error option" where
  "validatePackageParameters libs parameters =
     (let p = ep_Package parameters in
      if pk_Directory p = [] \<or> pk_SourceManifest p = [] \<or> pk_Name p = [] \<or> pk_Version p = [] \<or> pk_Private p
         \<or> pk_PackedName p \<noteq> pk_Name p \<or> pk_PackedVersion p \<noteq> pk_Version p then
        Some (parametersError ''externalParameters.package''
          ''package identity and packed identity must be complete and equal'')
      else if ContainsAny (pk_TarballName p) [CHR ''/'', backslash] \<or> \<not> HasSuffix (pk_TarballName p) ''.tgz'' then
        Some (npmValidationError IDNPMSubjectMismatch ''externalParameters.package.tarball_name''
          ''tarball name must be a safe tgz basename'')
      else if npmRegistryPackageURL (lib_lower libs) (pb_ResolvedRegistryURL (ep_Publish parameters))
                (pk_Name p) (pk_Version p) \<noteq> Inr (pk_PackageURL p) then
        Some (npmValidationError (npm_error_id ''package-url-mismatch'') ''externalParameters.package.package_url''
          ''registry package URL is not canonical'')
      else (case NPMPackagePURL (pk_Name p) (pk_Version p) of Inl err \<Rightarrow> Some err | Inr _ \<Rightarrow> None))"

text \<open>A relative path that does not leave the directory it is taken from.\<close>

definition repository_relative :: "string \<Rightarrow> bool" where
  "repository_relative p \<longleftrightarrow>
     \<not> (p = [] \<or> PathIsAbs p \<or> backslash \<in> set p \<or> HasPrefix (Clean p) ''..'')"

definition managerError :: "string \<Rightarrow> string \<Rightarrow> go_error" where
  "managerError suffix' message = parametersError (''externalParameters.package_manager'' @ suffix') message"

definition validateSelectionPaths :: "PackageManagerParameters \<Rightarrow> go_error option" where
  "validateSelectionPaths p =
     (if pm_SelectionSource p = SelectionLockfile then
        (if pm_SelectionManifest p \<noteq> None \<or> pm_SelectionManifestPath p \<noteq> None
            \<or> pm_SelectionLockfilePath p = None then
           Some (managerError [] ''lockfile selection paths have the wrong shape'')
         else None)
      else if (pm_SelectionSource p \<noteq> SelectionPackageManager \<and> pm_SelectionSource p \<noteq> SelectionDevEngines)
              \<or> pm_SelectionManifest p = None \<or> pm_SelectionManifestPath p = None
              \<or> pm_SelectionLockfilePath p \<noteq> None then
        Some (managerError [] ''manifest selection paths have the wrong shape'')
      else None)"

definition validateYarnSelection :: "semver_pkg \<Rightarrow> PackageManagerParameters \<Rightarrow> string \<Rightarrow> go_error option" where
  "validateYarnSelection sv p plain =
     (if pm_Name p = ManagerYarn then
        (let manifestSelected = (pm_SelectionSource p = SelectionPackageManager
               \<or> pm_SelectionSource p = SelectionDevEngines)
         in if \<not> manifestSelected \<or> \<not> minimumVersion sv plain 4 0 0 \<or> \<not> majorVersionBelow sv plain 6
               \<or> pm_YarnInstallMode p \<noteq> ''immutable'' then
              Some (managerError [] (''Yarn requires packageManager or devEngines selection, ''
                @ ''an exact v4 or v5 version, and immutable mode''))
            else None)
      else if pm_YarnInstallMode p \<noteq> [] then
        Some (managerError ''.yarn_install_mode'' ''Yarn install mode is forbidden for npm and pnpm'')
      else None)"

definition validatePackageManagerParameters ::
  "semver_pkg \<Rightarrow> PackageManagerParameters \<Rightarrow> go_error option" where
  "validatePackageManagerParameters sv p =
     (if pm_Name p \<noteq> ManagerNPM \<and> pm_Name p \<noteq> ManagerPNPM \<and> pm_Name p \<noteq> ManagerYarn then
        Some (managerError [] ''package manager name and exact version are invalid'')
      else case parseDescriptorVersion (pm_Name p) (pm_Version p) of
        Inl _ \<Rightarrow> Some (npmValidationError IDPackageManagerDigestMalformed
                  ''externalParameters.package_manager.version''
                  (''package manager version digest suffix violates the closed +<algorithm>.<hex> grammar''))
      | Inr (plain, _) \<Rightarrow>
          if \<not> minimumVersion sv plain 0 0 0 then
            Some (managerError [] ''package manager name and exact version are invalid'')
          else if \<not> repository_relative (pm_Root p) then
            Some (managerError ''.root'' ''package-manager root must be repository relative'')
          else and_then (validateSelectionPaths p) (validateYarnSelection sv p plain))"

section \<open>Publishing\<close>

definition npmjsRegistry :: string where "npmjsRegistry = ''https://registry.npmjs.org/''"

definition validatePublishParameters :: "libraries \<Rightarrow> PublishParameters \<Rightarrow> go_error option" where
  "validatePublishParameters libs p =
     (if map_result registry_String (normalizeRegistryURL (lib_lower libs) (pb_ResolvedRegistryURL p))
           \<noteq> Inr (pb_ResolvedRegistryURL p)
         \<or> pb_ResolvedDistTag p = [] \<or> \<not> pb_TrustedPublishing p \<or> \<not> pb_ProvenanceFile p
         \<or> pb_PackageIdentityPreexisting p \<noteq> Some True \<or> pb_PackageVersionPreexisting p \<noteq> Some False then
        Some (parametersError ''externalParameters.publish''
          ''npmjs publish intent must be tokenless, provenance-file enabled, and target an absent version'')
      else if pb_EffectiveAccess p \<noteq> ''existing-package-access'' \<and> pb_EffectiveAccess p \<noteq> ''public''
              \<and> pb_EffectiveAccess p \<noteq> ''restricted'' then
        Some (parametersError ''externalParameters.publish.effective_access''
          ''effective access is not enumerated'')
      else if pb_PublishAccessOption p \<noteq> None \<and> pb_PublishAccessOption p \<noteq> Some ''public''
              \<and> pb_PublishAccessOption p \<noteq> Some ''restricted'' then
        Some (parametersError ''externalParameters.publish.publish_access_option''
          ''publish access option is not enumerated'')
      else if pb_CustomRegistrySupport p \<noteq>
              (if pb_ResolvedRegistryURL p \<noteq> npmjsRegistry then ''unsupported-but-not-blocked'' else []) then
        Some (parametersError ''externalParameters.publish.custom_registry_support''
          ''custom registry marker is forbidden for npmjs'')
      else None)"

definition validateOptionalExternalFields :: "ExternalParameters \<Rightarrow> go_error option" where
  "validateOptionalExternalFields parameters =
     (if list_ex (\<lambda>(name, _). name \<notin> set consumer_fields) (pk_ConsumerSurface (ep_Package parameters)) then
        Some (parametersError ''externalParameters.package.consumer_surface''
          ''consumer surface contains an unknown field'')
      else if list_ex (\<lambda>file. \<not> repository_relative file) (pk_PackedFiles (ep_Package parameters)) then
        Some (parametersError ''externalParameters.package.packed_files'' ''packed file path is unsafe'')
      else None)"

section \<open>The whole object\<close>

definition NPMWorkflowPath :: string where
  "NPMWorkflowPath = ''.github/workflows/js-ts-npm-package-slsa3.yml''"

definition BuildScriptExecuted :: string where "BuildScriptExecuted = ''executed''"
definition BuildScriptSkippedAbsent :: string where "BuildScriptSkippedAbsent = ''skipped-absent''"

text \<open>The checks before and after the package, package-manager and publish groups.\<close>

definition validateIdentityGroups :: "semver_pkg \<Rightarrow> ExternalParameters \<Rightarrow> string \<Rightarrow> go_error option" where
  "validateIdentityGroups sv parameters expectedRepository =
     (let source = ep_Source parameters; workflow = ep_Workflow parameters; runtime = ep_Runtime parameters in
      if ValidateCanonicalRepositoryURI (sp_Repository source) \<noteq> None then
        Some (parametersError ''externalParameters.source.repository'' ''source repository must be canonical'')
      else if expectedRepository \<noteq> [] \<and> sp_Repository source \<noteq> expectedRepository then
        Some (parametersError ''externalParameters.source.repository''
          ''source repository differs from the expected repository'')
      else if pk_Repository (ep_Package parameters) \<noteq> sp_Repository source then
        Some (npmValidationError (npm_error_id ''package-repository-identity-mismatch'')
          ''externalParameters.package.repository'' ''package and source repositories must match'')
      else and_then (validateSourceParameters source (pk_Version (ep_Package parameters)))
       (if ValidateFullSHA (sp_Revision source) \<noteq> None \<or> ValidateFullSHA (wp_SHA workflow) \<noteq> None then
          Some (parametersError ''externalParameters.source.revision''
            ''source and workflow revisions must be full lowercase SHAs'')
        else if wp_Path workflow \<noteq> NPMWorkflowPath then
          Some (parametersError ''externalParameters.workflow.path''
            ''workflow path must equal the npm producer entrypoint'')
        else if NewBuilderID (wp_Path workflow) (wp_SHA workflow) \<noteq> Inr (wp_BuilderID workflow) then
          Some (npmValidationError (npm_error_id ''builder-id-not-immutable'')
            ''externalParameters.workflow.builder_id''
            ''builder identity must bind the workflow path and SHA'')
        else if sp_EventName source = [] \<or> sp_RefType source \<noteq> ''tag'' then
          Some (parametersError ''externalParameters.source'' ''release source event and tag type are required'')
        else if rt_Runner runtime \<noteq> ''ubuntu-24.04'' \<or> \<not> minimumVersion sv (rt_NodeVersion runtime) 24 0 0
                \<or> \<not> minimumVersion sv (rt_NPMVersion runtime) 11 5 1 then
          Some (parametersError ''externalParameters.runtime''
            ''runtime must use ubuntu-24.04, Node.js 24+, and npm 11.5.1+'')
        else None))"

definition validateReleaseGroups :: "ExternalParameters \<Rightarrow> go_error option" where
  "validateReleaseGroups parameters =
     (let release = ep_Release parameters; distribution = ep_Distribution parameters;
          filename = cp_WorkflowFilename (ep_Caller parameters);
          present = bp_ScriptPresent (ep_Build parameters);
          outcome = bp_ScriptResult (ep_Build parameters)
      in if rl_Ref release = [] \<or> rl_VersionTag release = [] then
        Some (parametersError ''externalParameters.release'' ''release ref and version tag are required'')
      else if dp_ReleaseAssetMode distribution \<and> dp_ProvenanceSidecar distribution \<noteq> Some ''required'' then
        Some (npmValidationError (npm_error_id ''release-asset-mode-schema-error'')
          ''externalParameters.distribution.provenance_sidecar''
          ''release mode requires the provenance sidecar'')
      else if \<not> dp_ReleaseAssetMode distribution \<and> dp_ProvenanceSidecar distribution \<noteq> None then
        Some (npmValidationError (npm_error_id ''release-asset-mode-schema-error'')
          ''externalParameters.distribution.provenance_sidecar''
          ''npm-only mode requires a null provenance sidecar'')
      else if filename = [] \<or> Base filename \<noteq> filename \<or> \<not> HasSuffix filename ''.yml'' then
        Some (npmValidationError (npm_error_id ''trusted-publisher-mismatch'')
          ''externalParameters.caller.workflow_filename''
          ''caller workflow filename must be an observed yml basename'')
      else if present \<noteq> (outcome = BuildScriptExecuted) \<and> outcome \<noteq> BuildScriptSkippedAbsent then
        Some (parametersError ''externalParameters.build'' ''build script presence and result disagree'')
      else if present \<and> outcome \<noteq> BuildScriptExecuted \<or> \<not> present \<and> outcome \<noteq> BuildScriptSkippedAbsent then
        Some (parametersError ''externalParameters.build'' ''build result must match script presence'')
      else validateOptionalExternalFields parameters)"

definition validateExternalParameters ::
  "libraries \<Rightarrow> ExternalParameters \<Rightarrow> string \<Rightarrow> go_error option" where
  "validateExternalParameters libs parameters expectedRepository =
     and_then (validateIdentityGroups (lib_semver libs) parameters expectedRepository)
       (and_then (validatePackageParameters libs parameters)
       (and_then (validatePackageManagerParameters (lib_semver libs) (ep_PackageManager parameters))
       (and_then (validatePublishParameters libs (ep_Publish parameters))
         (validateReleaseGroups parameters))))"

definition DecodeExternalParameters :: "libraries \<Rightarrow> string \<Rightarrow> ExternalParameters result" where
  "DecodeExternalParameters libs encoded =
     (case decode_parameters encoded of
        Inl err \<Rightarrow> Inl err
      | Inr parameters \<Rightarrow> guarded (validateExternalParameters libs parameters []) (Inr parameters))"

end
