(* ===== verification/Dependencies.thy ===== *)
theory Dependencies
  imports ParamsCheck
begin

text \<open>
  The resolved dependencies of an npm build and the npm profile of statement validation
  (internal/npmprofile/provenance_validate.go, lockfile_uri.go, nodeRuntimeDescriptor of
  workflow_metadata.go).  Annotations are raw JSON text.  Marshalling a descriptor is modelled up to
  the spaces and HTML escapes inside a raw message, which the comparisons made here do not see.
\<close>

section \<open>Raw JSON values\<close>

text \<open>json.Unmarshal into a string: null leaves the empty string, a type or syntax error is \<^const>\<open>None\<close>.\<close>

definition coerce_utf8 :: "string \<Rightarrow> string" where
  "coerce_utf8 s = concat (map (\<lambda>(r, bs, ok). if ok then bs else encode_rune 65533) (runes s))"

definition unmarshal_string :: "string \<Rightarrow> string option" where
  "unmarshal_string raw =
     (case Token (NewDecoder raw) of
        Got (t, d) \<Rightarrow>
          if Token d \<noteq> EOF then None
          else (case t of TString s \<Rightarrow> Some (coerce_utf8 s) | TNull \<Rightarrow> Some [] | _ \<Rightarrow> None)
      | _ \<Rightarrow> None)"

definition marshal_raw :: "string \<Rightarrow> string option" where
  "marshal_raw raw =
     (if raw = [] then Some ''null'' else case parseStrict raw of Inr _ \<Rightarrow> Some raw | Inl _ \<Rightarrow> None)"

definition marshal_string_map :: "(string \<times> string) list \<Rightarrow> string" where
  "marshal_string_map m = json_object (map (\<lambda>(k, v). (k, quote v)) (sort_key fst m))"

definition marshal_raw_map :: "(string \<times> string) list \<Rightarrow> string option" where
  "marshal_raw_map m =
     map_option json_object
       (all_some (map (\<lambda>(k, v). map_option (Pair k) (marshal_raw v)) (sort_key fst m)))"

definition marshal_descriptor :: "ResourceDescriptor \<Rightarrow> string option" where
  "marshal_descriptor d =
     (case marshal_raw_map (rd_Annotations d) of
        None \<Rightarrow> None
      | Some annotations \<Rightarrow>
          Some (json_object ([(''name'', quote (rd_Name d))]
            @ (if rd_URI d = [] then [] else [(''uri'', quote (rd_URI d))])
            @ (if rd_Digest d = [] then [] else [(''digest'', marshal_string_map (rd_Digest d))])
            @ (if rd_Annotations d = [] then [] else [(''annotations'', annotations)]))))"

definition equalJSONValues :: "ResourceDescriptor \<Rightarrow> ResourceDescriptor \<Rightarrow> bool result" where
  "equalJSONValues left right =
     (case marshal_descriptor left of
        None \<Rightarrow> Inl json_syntax
      | Some leftJSON \<Rightarrow>
          (case marshal_descriptor right of
             None \<Rightarrow> Inl json_syntax
           | Some rightJSON \<Rightarrow> Equal leftJSON rightJSON))"

definition annotationsEqual :: "(string \<times> string) list \<Rightarrow> (string \<times> goval) list \<Rightarrow> bool" where
  "annotationsEqual got want =
     (length got = length want \<and>
      list_all (\<lambda>(name, wantValue).
        case Marshal wantValue of
          None \<Rightarrow> False
        | Some encoded \<Rightarrow> Equal (string_at got name) encoded = Inr True) want)"

section \<open>Lockfile names\<close>

text \<open>url.PathEscape.\<close>

definition path_segment_char :: "char \<Rightarrow> bool" where
  "path_segment_char c \<longleftrightarrow> unreserved c \<or> c \<in> set ''$&+=:@''"

definition PathEscape :: "string \<Rightarrow> string" where
  "PathEscape s =
     concat (map (\<lambda>c. if path_segment_char c then [c]
       else [CHR ''%'', upper_hex (byte c div 16), upper_hex (byte c mod 16)]) s)"

definition escapeLockfileFragment :: "string \<Rightarrow> string" where
  "escapeLockfileFragment lockfilePath = join_with ''/'' (map PathEscape (split_on (CHR ''/'') lockfilePath))"

definition lockfileByManager :: "(Manager \<times> string) list" where
  "lockfileByManager =
     [(ManagerNPM, ''package-lock.json''), (ManagerPNPM, ''pnpm-lock.yaml''), (ManagerYarn, ''yarn.lock'')]"

definition selectedLockfilePath :: "PackageManagerParameters \<Rightarrow> string" where
  "selectedLockfilePath p =
     (case pm_SelectionLockfilePath p of
        Some path \<Rightarrow> path
      | None \<Rightarrow>
          (let name = string_at lockfileByManager (pm_Name p) in
           if pm_Root p = ''.'' then name else Join [pm_Root p, name]))"

section \<open>Descriptors\<close>

definition IDResolvedDependenciesLockfile :: string where
  "IDResolvedDependenciesLockfile = npm_error_id ''resolved-dependencies-lockfile''"
definition IDResolvedDependenciesNodeRuntime :: string where
  "IDResolvedDependenciesNodeRuntime = npm_error_id ''resolved-dependencies-node-runtime''"
definition IDResolvedDependenciesDistribution :: string where
  "IDResolvedDependenciesDistribution = npm_error_id ''resolved-dependencies-package-manager-distribution''"
definition IDResolvedDependenciesRunnerImage :: string where
  "IDResolvedDependenciesRunnerImage = npm_error_id ''resolved-dependencies-runner-image''"
definition IDResolvedDependenciesUnexpectedEntry :: string where
  "IDResolvedDependenciesUnexpectedEntry = npm_error_id ''resolved-dependencies-unexpected-entry''"

definition dependencyMismatch :: "string \<Rightarrow> go_error" where
  "dependencyMismatch name =
     (if name = ''lockfile'' then
        npmValidationError IDResolvedDependenciesLockfile ''resolvedDependencies.lockfile''
          ''lockfile differs from verified build metadata''
      else if name = ''node-runtime'' then
        npmValidationError IDResolvedDependenciesNodeRuntime ''resolvedDependencies.node-runtime''
          ''runtime differs from verified build metadata''
      else if name = ''package-manager-distribution'' then
        npmValidationError IDResolvedDependenciesDistribution
          ''resolvedDependencies.package-manager-distribution''
          ''distribution differs from verified build metadata''
      else if name = ''runner-image'' then
        npmValidationError IDResolvedDependenciesRunnerImage ''resolvedDependencies.runner-image''
          ''runner image differs from verified build metadata''
      else npmValidationError IDResolvedDependenciesUnexpectedEntry ''resolvedDependencies''
          ''dependency name is not enumerated'')"

definition lockfile_URI :: "ExternalParameters \<Rightarrow> string" where
  "lockfile_URI parameters =
     ''git+'' @ sp_Repository (ep_Source parameters) @ ''@'' @ sp_Revision (ep_Source parameters) @ ''#''
     @ escapeLockfileFragment (selectedLockfilePath (ep_PackageManager parameters))"

definition nullable_pointer :: "string option \<Rightarrow> goval" where
  "nullable_pointer p = (case p of None \<Rightarrow> GNil | Some s \<Rightarrow> GString s)"

definition lockfile_annotations :: "PackageManagerParameters \<Rightarrow> (string \<times> goval) list" where
  "lockfile_annotations p =
     [(''package_manager'', GString (pm_Name p)),
      (''package_manager_root'', GString (pm_Root p)),
      (''selection_source'', GString (pm_SelectionSource p)),
      (''selection_manifest_path'', nullable_pointer (pm_SelectionManifestPath p)),
      (''selection_lockfile_path'', GString (selectedLockfilePath p)),
      (''stale_non_selected_lockfiles'', GStrings (pm_IgnoredLockfilePaths p))]"

definition validateLockfileDescriptor :: "ResourceDescriptor \<Rightarrow> ExternalParameters \<Rightarrow> go_error option" where
  "validateLockfileDescriptor value parameters =
     (if rd_URI value \<noteq> lockfile_URI parameters \<or> length (rd_Digest value) \<noteq> 1
         \<or> digestEncodingInvalid (string_at (rd_Digest value) ''sha256'') 64
         \<or> length (rd_Annotations value) \<noteq> 6 then
        Some (npmValidationError IDResolvedDependenciesLockfile ''resolvedDependencies.lockfile''
          ''lockfile URI, digest, or annotation shape is invalid'')
      else if \<not> annotationsEqual (rd_Annotations value)
                 (lockfile_annotations (ep_PackageManager parameters)) then
        Some (npmValidationError IDResolvedDependenciesLockfile ''resolvedDependencies.lockfile.annotations''
          ''lockfile annotations differ from external parameters'')
      else None)"

definition nodeRuntimeDescriptor :: "libraries \<Rightarrow> ResourceDescriptor result" where
  "nodeRuntimeDescriptor libs =
     (case decodeNodeRuntimePair (lib_runtime_pin libs) of
        Inl _ \<Rightarrow> Inl (npmValidationError (npm_error_id ''input-unavailable'')
          ''resolvedDependencies.node-runtime'' ''embedded Node.js runtime pin is unavailable'')
      | Inr pair \<Rightarrow>
          (case map_of (nr_Artifacts pair) ''linux-x64'' of
             None \<Rightarrow> Inl (npmValidationError (npm_error_id ''input-unavailable'')
               ''resolvedDependencies.node-runtime'' ''embedded linux-x64 runtime artifact is unavailable'')
           | Some artifact \<Rightarrow>
               Inr \<lparr>rd_Name = ''node-runtime'', rd_URI = na_URL artifact,
                    rd_Digest = [(''sha256'', na_SHA256 artifact)],
                    rd_Annotations = [(''digest_authority'', quote ''builder-pinned-record''),
                                      (''platform'', quote ''linux-x64'')],
                    rd_hasUnexpectedFields = False\<rparr>))"

definition validateNodeRuntimeDescriptor :: "libraries \<Rightarrow> ResourceDescriptor \<Rightarrow> go_error option" where
  "validateNodeRuntimeDescriptor libs value =
     (if rd_hasUnexpectedFields value then
        Some (npmValidationError IDResolvedDependenciesNodeRuntime ''resolvedDependencies.node-runtime''
          ''runtime descriptor contains unrecognized members'')
      else case nodeRuntimeDescriptor libs of
        Inl err \<Rightarrow> Some err
      | Inr want \<Rightarrow>
          if equalJSONValues value want \<noteq> Inr True then
            Some (npmValidationError IDResolvedDependenciesNodeRuntime ''resolvedDependencies.node-runtime''
              ''runtime descriptor must match the embedded linux-x64 pin and closed annotations'')
          else None)"

definition distribution_annotations :: "PackageManagerParameters \<Rightarrow> (string \<times> goval) list" where
  "distribution_annotations p =
     [(''digest_authority'',
        GString (if pm_Name p = ManagerYarn then ''download-hash'' else ''registry-integrity'')),
      (''package_manager'', GString (pm_Name p)),
      (''package_manager_version'', GString (pm_Version p)),
      (''acquisition_source'', GString ''corepack'')]"

definition validateDistributionDescriptor :: "ResourceDescriptor \<Rightarrow> ExternalParameters \<Rightarrow> go_error option" where
  "validateDistributionDescriptor value parameters =
     (let p = ep_PackageManager parameters; digest = string_at (rd_Digest value) ''sha512'' in
      if rd_URI value = [] \<or> length (rd_Digest value) \<noteq> 1 \<or> digestEncodingInvalid digest 128
         \<or> length (rd_Annotations value) \<noteq> 4 \<or> \<not> HasPrefix (rd_URI value) ''https://'' then
        Some (npmValidationError IDResolvedDependenciesDistribution
          ''resolvedDependencies.package-manager-distribution''
          ''distribution URI, SHA-512, or annotation shape is invalid'')
      else if \<not> annotationsEqual (rd_Annotations value) (distribution_annotations p) then
        Some (npmValidationError IDResolvedDependenciesDistribution
          ''resolvedDependencies.package-manager-distribution.annotations''
          ''distribution annotations differ from the selected manager'')
      else
        (case parseDescriptorVersion (pm_Name p) (pm_Version p) of
           Inr (_, Some declared) \<Rightarrow>
             if dd_Algorithm declared = ''sha512'' \<and> dd_Hex declared \<noteq> digest then
               Some (npmValidationError IDResolvedDependenciesDistribution
                 ''resolvedDependencies.package-manager-distribution.digest''
                 ''declared sha512 digest disagrees with the recorded distribution digest'')
             else None
         | _ \<Rightarrow> None))"

definition runnerError :: "string \<Rightarrow> string \<Rightarrow> go_error" where
  "runnerError suffix' message =
     npmValidationError IDResolvedDependenciesRunnerImage (''resolvedDependencies.runner-image'' @ suffix') message"

fun validate_runner_texts :: "(string \<times> string) list \<Rightarrow> string \<Rightarrow> string list \<Rightarrow> go_error option" where
  "validate_runner_texts annotations nodeVersion [] = None"
| "validate_runner_texts annotations nodeVersion (name # names) =
     (case unmarshal_string (string_at annotations name) of
        None \<Rightarrow> Some (runnerError ''.annotations'' ''runner-image annotations must be non-empty strings'')
      | Some value \<Rightarrow>
          if value = [] then
            Some (runnerError ''.annotations'' ''runner-image annotations must be non-empty strings'')
          else if name = ''node_version'' \<and> value \<noteq> ''v'' @ nodeVersion then
            Some (runnerError ''.annotations.node_version''
              ''runner Node.js version differs from external parameters'')
          else validate_runner_texts annotations nodeVersion names)"

definition validateRunnerDescriptor :: "ResourceDescriptor \<Rightarrow> string \<Rightarrow> go_error option" where
  "validateRunnerDescriptor value nodeVersion =
     (if rd_URI value = [] \<or> rd_Digest value \<noteq> [] \<or> length (rd_Annotations value) \<noteq> 4 then
        Some (runnerError [] ''runner-image must have URI and annotations without a digest'')
      else if \<not> (case url_Parse (rd_URI value) of None \<Rightarrow> False
           | Some parsed \<Rightarrow> Scheme parsed = ''https'' \<and> Host parsed = ''github.com''
               \<and> HasPrefix (Path parsed) ''/actions/runner-images/'') then
        Some (runnerError ''.uri''
          ''runner-image URI must be the captured actions/runner-images software report'')
      else and_then
        (validate_runner_texts (rd_Annotations value) nodeVersion [''image_os'', ''image_version'', ''node_version''])
        (case map_of (rd_Annotations value) ''deployment_version'' of
           None \<Rightarrow> Some (runnerError ''.annotations''
             ''runner-image annotations must carry deployment_version'')
         | Some raw \<Rightarrow>
             if raw \<noteq> ''null'' \<and> (unmarshal_string raw = None \<or> unmarshal_string raw = Some []) then
               Some (runnerError ''.annotations''
                 ''runner-image deployment_version must be null or a non-empty string'')
             else None))"

section \<open>The whole list\<close>

definition dependency_names :: "string list" where
  "dependency_names = [''lockfile'', ''node-runtime'', ''package-manager-distribution'', ''runner-image'']"

fun check_dependency_names :: "ResourceDescriptor list \<Rightarrow> go_error option" where
  "check_dependency_names [] = None"
| "check_dependency_names (value # rest) =
     (if rd_Name value \<notin> set dependency_names then
        Some (npmValidationError IDResolvedDependenciesUnexpectedEntry ''resolvedDependencies''
          ''dependency name is not enumerated'')
      else if rd_hasUnexpectedFields value then Some (dependencyMismatch (rd_Name value))
      else check_dependency_names rest)"

definition by_name :: "ResourceDescriptor list \<Rightarrow> string \<Rightarrow> ResourceDescriptor list" where
  "by_name values name = filter (\<lambda>d. rd_Name d = name) values"

definition validateResolvedDependencies ::
  "libraries \<Rightarrow> ResourceDescriptor list \<Rightarrow> ExternalParameters \<Rightarrow> go_error option" where
  "validateResolvedDependencies libs values parameters =
     (let lockfiles = by_name values ''lockfile''; runners = by_name values ''runner-image'';
          distributions = by_name values ''package-manager-distribution'';
          runtimes = by_name values ''node-runtime'';
          wantDistribution = (pm_Name (ep_PackageManager parameters) \<noteq> ManagerNPM)
      in and_then (check_dependency_names values)
       (if length lockfiles \<noteq> 1 then
          Some (npmValidationError IDResolvedDependenciesLockfile ''resolvedDependencies.lockfile''
            ''exactly one lockfile descriptor is required'')
        else if length runners \<noteq> 1 then
          Some (runnerError [] ''exactly one runner-image descriptor is required'')
        else if length distributions \<noteq> boolCount wantDistribution then
          Some (npmValidationError IDResolvedDependenciesDistribution
            ''resolvedDependencies.package-manager-distribution''
            ''distribution descriptor cardinality must match the selected manager'')
        else if length runtimes \<noteq> 1 then
          Some (npmValidationError IDResolvedDependenciesNodeRuntime ''resolvedDependencies.node-runtime''
            ''exactly one node-runtime descriptor is required'')
        else and_then (validateLockfileDescriptor (hd lockfiles) parameters)
          (and_then (validateNodeRuntimeDescriptor libs (hd runtimes))
          (and_then (if wantDistribution then validateDistributionDescriptor (hd distributions) parameters
                     else None)
            (validateRunnerDescriptor (hd runners) (rt_NodeVersion (ep_Runtime parameters)))))))"

end
