(* ===== verification/Signing.thy ===== *)
theory Signing
  imports Dependencies
begin

text \<open>
  From a build's metadata to the statement that is signed: the npm profile validator, the release-ref
  and input bindings, ValidateNPMStatement and NewProvenanceSigningInput
  (internal/npmprofile/provenance_input.go, provenance_validate.go) and the canonical printing of
  statements (internal/provenance/model.go).  Maps and slices are not nil here; where a constructor of
  the code clones its input the clone is the input.
\<close>

section \<open>Metadata and inputs\<close>

record PrimaryArtifact =
  pa_ArtifactName :: string
  pa_PayloadFileName :: string
  pa_SHA256 :: string
  pa_SHA512 :: string

record BuildMetadata =
  bm_SchemaVersion :: string
  bm_StartedOn :: string
  bm_FinishedOn :: string
  bm_PrimaryArtifact :: PrimaryArtifact
  bm_ExternalParameters :: string
  bm_ResolvedDependencies :: "ResourceDescriptor list"

record NPMProvenanceInput =
  pi_BuildMetadata :: BuildMetadata
  pi_BuilderID :: string
  pi_NodeJSVersion :: string
  pi_CorepackVersion :: "string option"
  pi_InvocationID :: string
  pi_StartedOn :: string
  pi_FinishedOn :: string
  pi_RuntimeReleaseRef :: string
  pi_PeeledReleaseRevision :: string

record Predicate =
  pd_BuildDefinition :: BuildDefinition
  pd_Builder :: Builder
  pd_Metadata :: Metadata

record ProvenanceSigningInput =
  si_Subject :: Subject
  si_PredicateType :: string
  si_Predicate :: Predicate
  si_PredicateJSON :: string
  si_StatementJSON :: string
  si_StatementFileName :: string

definition signing_Statement :: "Subject \<Rightarrow> string \<Rightarrow> Predicate \<Rightarrow> Statement" where
  "signing_Statement subject predicateType predicate =
     \<lparr>st_Type = StatementType, st_Subject = [subject], st_PredicateType = predicateType,
      st_BuildDefinition = pd_BuildDefinition predicate, st_Builder = pd_Builder predicate,
      st_Metadata = pd_Metadata predicate\<rparr>"

definition NPMBuildType :: string where
  "NPMBuildType = ''https://buildtype.dev/windlass/slsa-builder/js-ts-npm-package/v1''"
definition NPMProvenanceStatementFile :: string where
  "NPMProvenanceStatementFile = ''slsa-provenance-statement.json''"
definition IDSubjectDigestScopeInvalid :: string where
  "IDSubjectDigestScopeInvalid = npm_error_id ''subject-digest-scope-invalid''"
definition IDMissingSubjectSHA256 :: string where
  "IDMissingSubjectSHA256 = npm_error_id ''missing-subject-sha256''"
definition IDMissingSubjectSHA512 :: string where
  "IDMissingSubjectSHA512 = npm_error_id ''missing-subject-sha512''"
definition IDReleaseRefMismatch :: string where
  "IDReleaseRefMismatch = npm_error_id ''release-ref-mismatch''"

section \<open>Canonical JSON\<close>

definition marshal_list :: "('a \<Rightarrow> string option) \<Rightarrow> 'a list \<Rightarrow> string option" where
  "marshal_list f xs = map_option json_array (all_some (map f xs))"

definition marshal_build_definition :: "BuildDefinition \<Rightarrow> string option" where
  "marshal_build_definition b =
     (case (marshal_raw (bd_ExternalParameters b), marshal_raw (bd_InternalParameters b),
            marshal_list marshal_descriptor (bd_ResolvedDependencies b)) of
        (Some external, Some internal, Some dependencies) \<Rightarrow>
          Some (json_object [(''buildType'', quote (bd_BuildType b)), (''externalParameters'', external),
            (''internalParameters'', internal), (''resolvedDependencies'', dependencies)])
      | _ \<Rightarrow> None)"

definition marshal_builder_dependency :: "BuilderDependency \<Rightarrow> string" where
  "marshal_builder_dependency d =
     json_object [(''uri'', quote (dep_URI d)), (''digest'', marshal_string_map (dep_Digest d)),
       (''annotations'', marshal_string_map (dep_Annotations d))]"

definition marshal_run_details :: "Builder \<Rightarrow> Metadata \<Rightarrow> string" where
  "marshal_run_details b m =
     json_object
       [(''builder'', json_object [(''id'', quote (b_ID b)), (''version'', marshal_string_map (b_Version b)),
          (''builderDependencies'', json_array (map marshal_builder_dependency (b_Dependencies b)))]),
        (''metadata'', json_object [(''invocationId'', quote (m_InvocationID m)),
          (''startedOn'', quote (m_StartedOn m)), (''finishedOn'', quote (m_FinishedOn m))])]"

definition marshal_predicate :: "Predicate \<Rightarrow> string option" where
  "marshal_predicate p =
     map_option (\<lambda>definition'. json_object [(''buildDefinition'', definition'),
         (''runDetails'', marshal_run_details (pd_Builder p) (pd_Metadata p))])
       (marshal_build_definition (pd_BuildDefinition p))"

definition marshal_subject :: "Subject \<Rightarrow> string" where
  "marshal_subject s =
     json_object [(''name'', quote (sj_Name s)), (''digest'', marshal_string_map (sj_Digest s))]"

definition marshal_statement :: "Statement \<Rightarrow> string option" where
  "marshal_statement s =
     map_option (\<lambda>predicate. json_object [(''_type'', quote (st_Type s)),
         (''subject'', json_array (map marshal_subject (st_Subject s))),
         (''predicateType'', quote (st_PredicateType s)), (''predicate'', predicate)])
       (marshal_predicate \<lparr>pd_BuildDefinition = st_BuildDefinition s, pd_Builder = st_Builder s,
          pd_Metadata = st_Metadata s\<rparr>)"

definition canonicalJSON :: "(string \<Rightarrow> string result) \<Rightarrow> string option \<Rightarrow> string result" where
  "canonicalJSON transform encoded =
     (case encoded of
        None \<Rightarrow> Inl (ErrWrap ''encode provenance JSON: %w'' [] [json_syntax])
      | Some data \<Rightarrow>
          (case Canonicalize transform data of
             Inl err \<Rightarrow> Inl (ErrWrap ''canonicalize provenance JSON: %w'' [] [err])
           | Inr canonical \<Rightarrow> Inr canonical))"

definition Predicate_CanonicalJSON :: "(string \<Rightarrow> string result) \<Rightarrow> Predicate \<Rightarrow> string result" where
  "Predicate_CanonicalJSON transform p = canonicalJSON transform (marshal_predicate p)"

definition Statement_CanonicalJSON :: "(string \<Rightarrow> string result) \<Rightarrow> Statement \<Rightarrow> string result" where
  "Statement_CanonicalJSON transform s = canonicalJSON transform (marshal_statement s)"

section \<open>The npm profile of statement validation\<close>

record npmProfileValidator =
  pv_parameters :: ExternalParameters
  pv_encodedParameters :: string
  pv_dependencies :: "ResourceDescriptor list"
  pv_sha256 :: string
  pv_sha512 :: string

definition npm_ValidateSubject :: "npmProfileValidator \<Rightarrow> Subject \<Rightarrow> go_error option" where
  "npm_ValidateSubject validator subject =
     (let package = ep_Package (pv_parameters validator);
          sha256Value = map_of (sj_Digest subject) ''sha256'';
          sha512Value = map_of (sj_Digest subject) ''sha512''
      in if NPMPackagePURL (pk_Name package) (pk_Version package) \<noteq> Inr (sj_Name subject) then
           Some (npmValidationError IDNPMSubjectMismatch ''subject[0].name''
             ''subject name must equal the npm package PURL'')
         else if length (sj_Digest subject) \<noteq> 2 then
           Some (npmValidationError IDSubjectDigestScopeInvalid ''subject[0].digest''
             ''subject digest must contain exactly sha256 and sha512'')
         else if sha256Value = None \<or> digestEncodingInvalid (the sha256Value) 64 then
           Some (npmValidationError IDMissingSubjectSHA256 ''subject[0].digest.sha256''
             ''subject SHA-256 is required as lowercase hexadecimal'')
         else if sha512Value = None \<or> digestEncodingInvalid (the sha512Value) 128 then
           Some (npmValidationError IDMissingSubjectSHA512 ''subject[0].digest.sha512''
             ''subject SHA-512 is required as lowercase hexadecimal'')
         else if pv_sha256 validator \<noteq> [] \<and> the sha256Value \<noteq> pv_sha256 validator
                 \<or> pv_sha512 validator \<noteq> [] \<and> the sha512Value \<noteq> pv_sha512 validator then
           Some (npmValidationError (npm_error_id ''digest-mismatch'') ''subject[0].digest''
             ''subject digests differ from the verified packed artifact'')
         else None)"

definition npm_ValidateExternalParameters :: "libraries \<Rightarrow> npmProfileValidator \<Rightarrow> string \<Rightarrow> go_error option" where
  "npm_ValidateExternalParameters libs validator encoded =
     (case DecodeExternalParameters libs encoded of
        Inl err \<Rightarrow> Some err
      | Inr parameters \<Rightarrow>
          and_then (validateExternalParameters libs parameters
                      (sp_Repository (ep_Source (pv_parameters validator))))
            (if Equal encoded (pv_encodedParameters validator) \<noteq> Inr True then
               Some (parametersError ''predicate.buildDefinition.externalParameters''
                 ''signed external parameters differ from the verified build metadata'')
             else None))"

text \<open>The wanted descriptor of a name is the last one of the metadata that has it.\<close>

definition wantByName :: "ResourceDescriptor list \<Rightarrow> string \<Rightarrow> ResourceDescriptor option" where
  "wantByName dependencies name = map_of (rev (map (\<lambda>d. (rd_Name d, d)) dependencies)) name"

fun compare_dependencies :: "ResourceDescriptor list \<Rightarrow> ResourceDescriptor list \<Rightarrow> go_error option" where
  "compare_dependencies wanted [] = None"
| "compare_dependencies wanted (dependency # rest) =
     (case wantByName wanted (rd_Name dependency) of
        None \<Rightarrow> Some (npmValidationError IDResolvedDependenciesUnexpectedEntry
                  ''predicate.buildDefinition.resolvedDependencies'' ''dependency name is not enumerated'')
      | Some want \<Rightarrow>
          if equalJSONValues dependency want \<noteq> Inr True then Some (dependencyMismatch (rd_Name dependency))
          else compare_dependencies wanted rest)"

definition npm_ValidateResolvedDependencies ::
  "libraries \<Rightarrow> npmProfileValidator \<Rightarrow> ResourceDescriptor list \<Rightarrow> go_error option" where
  "npm_ValidateResolvedDependencies libs validator values =
     and_then (validateResolvedDependencies libs values (pv_parameters validator))
       (compare_dependencies (pv_dependencies validator) values)"

definition npm_profile :: "libraries \<Rightarrow> npmProfileValidator \<Rightarrow> ProfileValidator" where
  "npm_profile libs validator =
     \<lparr>ValidateSubject = npm_ValidateSubject validator,
      ValidateExternalParameters = npm_ValidateExternalParameters libs validator,
      ValidateResolvedDependencies = npm_ValidateResolvedDependencies libs validator\<rparr>"

definition input_validator :: "NPMProvenanceInput \<Rightarrow> ExternalParameters \<Rightarrow> npmProfileValidator" where
  "input_validator input parameters =
     (let md = pi_BuildMetadata input in
      \<lparr>pv_parameters = parameters, pv_encodedParameters = bm_ExternalParameters md,
       pv_dependencies = bm_ResolvedDependencies md,
       pv_sha256 = pa_SHA256 (bm_PrimaryArtifact md), pv_sha512 = pa_SHA512 (bm_PrimaryArtifact md)\<rparr>)"

section \<open>Bindings\<close>

definition ValidateReleaseRefEquality ::
  "string \<Rightarrow> string \<Rightarrow> string \<Rightarrow> string \<Rightarrow> string \<Rightarrow> string \<Rightarrow> go_error option" where
  "ValidateReleaseRefEquality sourceRef releaseRef runtimeRef versionTag sourceRevision peeledRevision =
     (if list_ex (\<lambda>ref. ValidateReleaseRef ref \<noteq> None) [sourceRef, releaseRef, runtimeRef] then
        Some (npmValidationError IDReleaseRefMismatch ''externalParameters.release.ref''
          ''release identity must use a full Git tag ref'')
      else if sourceRef \<noteq> releaseRef \<or> sourceRef \<noteq> runtimeRef
              \<or> TrimPrefix sourceRef ''refs/tags/'' \<noteq> versionTag then
        Some (npmValidationError IDReleaseRefMismatch ''externalParameters.release''
          ''source, release, runtime, and version-tag identities must be equal'')
      else if ValidateFullSHA sourceRevision \<noteq> None \<or> ValidateFullSHA peeledRevision \<noteq> None
              \<or> sourceRevision \<noteq> peeledRevision then
        Some (npmValidationError IDReleaseRefMismatch ''externalParameters.source.revision''
          ''release tag must peel to the signed source revision'')
      else None)"

definition builder_version_mismatch :: string where
  "builder_version_mismatch = npm_error_id ''builder-version-mismatch''"

definition validateInputBindings ::
  "libraries \<Rightarrow> NPMProvenanceInput \<Rightarrow> ExternalParameters \<Rightarrow> go_error option" where
  "validateInputBindings libs input parameters =
     (let md = pi_BuildMetadata input; artifact = bm_PrimaryArtifact md; name = pa_PayloadFileName artifact;
          source = ep_Source parameters; release = ep_Release parameters
      in if bm_SchemaVersion md \<noteq> ''1'' then
           Some (parametersError ''buildMetadata.schema_version'' ''build metadata schema version must be 1'')
         else if pa_ArtifactName artifact = [] \<or> name = [] \<or> ContainsAny name [CHR ''/'', backslash]
                 \<or> \<not> HasSuffix name ''.tgz'' \<or> name \<noteq> pk_TarballName (ep_Package parameters) then
           Some (npmValidationError IDNPMSubjectMismatch ''buildMetadata.primary_artifact''
             ''build metadata must identify the external-parameter tarball basename'')
         else if pi_BuilderID input \<noteq> wp_BuilderID (ep_Workflow parameters) then
           Some (npmValidationError (npm_error_id ''builder-id-not-immutable'') ''builder.id''
             ''builder identity differs from the signed workflow identity'')
         else and_then (ValidateBuilderID (pi_BuilderID input))
          (and_then (ValidateReleaseRefEquality (sp_Ref source) (rl_Ref release) (pi_RuntimeReleaseRef input)
              (rl_VersionTag release) (sp_Revision source) (pi_PeeledReleaseRevision input))
          (if pi_NodeJSVersion input \<noteq> ''v'' @ rt_NodeVersion (ep_Runtime parameters) then
             Some (npmValidationError builder_version_mismatch ''builder.version.nodejs''
               ''observed Node.js version differs from external parameters'')
           else if (pm_Name (ep_PackageManager parameters) \<noteq> ManagerNPM) \<noteq> (pi_CorepackVersion input \<noteq> None) then
             Some (npmValidationError builder_version_mismatch ''builder.version.corepack''
               ''Corepack presence must match package-manager acquisition'')
           else npm_ValidateResolvedDependencies libs (input_validator input parameters)
                  (bm_ResolvedDependencies md))))"

definition ValidateNPMStatement :: "libraries \<Rightarrow> Statement \<Rightarrow> NPMProvenanceInput \<Rightarrow> go_error option" where
  "ValidateNPMStatement libs statement input =
     (case DecodeExternalParameters libs (bm_ExternalParameters (pi_BuildMetadata input)) of
        Inl err \<Rightarrow> Some err
      | Inr parameters \<Rightarrow>
          (let md = st_Metadata statement in
           if bd_BuildType (st_BuildDefinition statement) \<noteq> NPMBuildType then
             Some (npmValidationError (npm_error_id ''wrong-build-type'')
               ''predicate.buildDefinition.buildType''
               ''npm build type differs from the acquired-domain v1 identifier'')
           else if b_ID (st_Builder statement) \<noteq> pi_BuilderID input then
             Some (npmValidationError (npm_error_id ''wrong-builder-id'') ''predicate.runDetails.builder.id''
               ''builder ID differs from the signing input'')
           else if m_InvocationID md \<noteq> pi_InvocationID input \<or> m_StartedOn md \<noteq> pi_StartedOn input
                   \<or> m_FinishedOn md \<noteq> pi_FinishedOn input then
             Some (npmValidationError (npm_error_id ''statement-assembly-mismatch'')
               ''predicate.runDetails.metadata'' ''signed metadata differs from the pre-sign candidate'')
           else
             (case Statement_Validate (lib_transform libs) statement
                     \<lparr>ex_SourceRepositoryURI = sp_Repository (ep_Source parameters),
                      ex_Builder = \<lparr>be_NodeJSVersion = pi_NodeJSVersion input,
                                    be_CorepackVersion = pi_CorepackVersion input\<rparr>\<rparr>
                     (Some (npm_profile libs (input_validator input parameters))) of
                Inl err \<Rightarrow> Some err
              | Inr _ \<Rightarrow> None)))"

section \<open>The signing input\<close>

definition signing_predicate :: "NPMProvenanceInput \<Rightarrow> Predicate" where
  "signing_predicate input =
     \<lparr>pd_BuildDefinition =
        \<lparr>bd_BuildType = NPMBuildType, bd_ExternalParameters = bm_ExternalParameters (pi_BuildMetadata input),
         bd_InternalParameters = ''{}'', bd_ResolvedDependencies = bm_ResolvedDependencies (pi_BuildMetadata input)\<rparr>,
      pd_Builder =
        \<lparr>b_ID = pi_BuilderID input,
         b_Version = (''nodejs'', pi_NodeJSVersion input)
           # (case pi_CorepackVersion input of None \<Rightarrow> [] | Some v \<Rightarrow> [(''corepack'', v)]),
         b_Dependencies = [\<lparr>dep_URI = ''pkg:golang/github.com/sigstore/sigstore-go@v1.3.0'',
           dep_Digest = [(''h1'', ''hnIMHREyCNTYFtOE1o7ae3Axa9B5W5EjUSBJICP2NBE='')],
           dep_Annotations = [(''role'', ''signing-adapter'')]\<rparr>]\<rparr>,
      pd_Metadata = \<lparr>m_InvocationID = pi_InvocationID input, m_StartedOn = pi_StartedOn input,
        m_FinishedOn = pi_FinishedOn input\<rparr>\<rparr>"

definition NewProvenanceSigningInput :: "libraries \<Rightarrow> NPMProvenanceInput \<Rightarrow> ProvenanceSigningInput result" where
  "NewProvenanceSigningInput libs input =
     (let md = pi_BuildMetadata input in
      case DecodeExternalParameters libs (bm_ExternalParameters md) of
        Inl err \<Rightarrow> Inl err
      | Inr parameters \<Rightarrow>
     (case validateInputBindings libs input parameters of
        Some err \<Rightarrow> Inl err
      | None \<Rightarrow>
     (case ParseSHA256 (pa_SHA256 (bm_PrimaryArtifact md)) of
        Inl _ \<Rightarrow> Inl (npmValidationError IDMissingSubjectSHA256 ''buildMetadata.primary_artifact.sha256''
          ''tarball SHA-256 must be lowercase hexadecimal'')
      | Inr sha256Value \<Rightarrow>
     (case ParseSHA512 (pa_SHA512 (bm_PrimaryArtifact md)) of
        Inl _ \<Rightarrow> Inl (npmValidationError IDMissingSubjectSHA512 ''buildMetadata.primary_artifact.sha512''
          ''tarball SHA-512 must be lowercase hexadecimal'')
      | Inr sha512Value \<Rightarrow>
     (case NPMPackagePURL (pk_Name (ep_Package parameters)) (pk_Version (ep_Package parameters)) of
        Inl err \<Rightarrow> Inl err
      | Inr subjectName \<Rightarrow>
          (let subject = \<lparr>sj_Name = subjectName, sj_Digest =
                 [(''sha256'', SHA256_String sha256Value), (''sha512'', SHA512_String sha512Value)]\<rparr>;
               predicate = signing_predicate input;
               statement = signing_Statement subject PredicateType predicate
           in case ValidateNPMStatement libs statement input of
                Some err \<Rightarrow> Inl err
              | None \<Rightarrow>
             (case Predicate_CanonicalJSON (lib_transform libs) predicate of
                Inl err \<Rightarrow> Inl (ErrWrap ''canonicalize npm predicate: %w'' [] [err])
              | Inr predicateJSON \<Rightarrow>
             (case Statement_CanonicalJSON (lib_transform libs) statement of
                Inl err \<Rightarrow> Inl (ErrWrap ''canonicalize npm Statement: %w'' [] [err])
              | Inr statementJSON \<Rightarrow>
                  Inr \<lparr>si_Subject = subject, si_PredicateType = PredicateType, si_Predicate = predicate,
                       si_PredicateJSON = predicateJSON, si_StatementJSON = statementJSON,
                       si_StatementFileName = NPMProvenanceStatementFile\<rparr>))))))))"

end
