(* ===== verification/RegistryClient.thy ===== *)
theory RegistryClient
  imports Params
begin

text \<open>
  The registry side of publishing: bounded HTTP requests with retries (internal/npmprofile/http_client.go)
  and the client that reads packuments and attestations (registry_client.go).  The network is a parameter:
  what each attempt of a request meets.  Bundles are raw messages, kept as parsed values.
\<close>

section \<open>Bounded requests\<close>

record boundedResponse =
  br_status :: nat
  br_body :: string

definition remoteRequestRetries :: nat where "remoteRequestRetries = 3"

definition http_error :: "string \<Rightarrow> go_error" where "http_error message = ErrText message []"

text \<open>
  What one attempt meets: whether the request can be built, the proxy's user information, and the
  outcome of Do, where the body is what the server is willing to send and the flag whether reading
  and closing it succeeds.  After a failed attempt the delay ends or the context is done first.
\<close>

datatype http_outcome = RequestFailed | Responded nat string bool

datatype proxy = NoProxy | ProxyUnresolved | Proxy bool  \<comment> \<open>whether it carries credentials\<close>

record http_env =
  he_constructs :: "nat \<Rightarrow> bool"
  he_proxy :: "nat \<Rightarrow> proxy"
  he_Do :: "nat \<Rightarrow> http_outcome"
  he_delay_ends :: "nat \<Rightarrow> bool"

definition retryableHTTPStatus :: "nat \<Rightarrow> bool" where
  "retryableHTTPStatus status \<longleftrightarrow> status = 429 \<or> status \<ge> 500"

definition rejectCredentialBearingProxy :: "proxy \<Rightarrow> go_error option" where
  "rejectCredentialBearingProxy p =
     (case p of
        NoProxy \<Rightarrow> None
      | ProxyUnresolved \<Rightarrow> Some (http_error ''resolve HTTPS proxy'')
      | Proxy credentials \<Rightarrow>
          if credentials then Some (http_error ''credential-bearing HTTPS proxies are prohibited'') else None)"

text \<open>One attempt: an answer that ends the request, or the error to remember while retrying.\<close>

definition http_attempt :: "http_env \<Rightarrow> nat \<Rightarrow> nat \<Rightarrow> go_error + boundedResponse result" where
  "http_attempt env maximum attempt =
     (if \<not> he_constructs env attempt then Inr (Inl (http_error ''construct authenticated HTTP request''))
      else case rejectCredentialBearingProxy (he_proxy env attempt) of
        Some err \<Rightarrow> Inr (Inl err)
      | None \<Rightarrow>
          (case he_Do env attempt of
             RequestFailed \<Rightarrow> Inl (http_error ''authenticated HTTP request failed'')
           | Responded status sent readable \<Rightarrow>
               (let body = take (maximum + 1) sent in
                if \<not> readable then Inl (http_error ''authenticated HTTP response could not be read'')
                else if length body > maximum then
                  Inr (Inl (http_error ''authenticated HTTP response exceeds size limit''))
                else if \<not> retryableHTTPStatus status \<or> attempt = remoteRequestRetries - 1 then
                  Inr (Inr \<lparr>br_status = status, br_body = body\<rparr>)
                else Inl (ErrText ''authenticated endpoint returned HTTP %d'' [show_nat status]))))"

text \<open>The loop, from an attempt on; the number of attempts made comes with the result.\<close>

function request_from :: "http_env \<Rightarrow> nat \<Rightarrow> nat \<Rightarrow> go_error option \<Rightarrow> nat \<times> boundedResponse result" where
  "request_from env maximum attempt lastErr =
     (if attempt \<ge> remoteRequestRetries then
        (attempt, Inl (case lastErr of Some err \<Rightarrow> err | None \<Rightarrow> http_error []))
      else case http_attempt env maximum attempt of
        Inr outcome \<Rightarrow> (attempt + 1, outcome)
      | Inl err \<Rightarrow>
          if attempt = remoteRequestRetries - 1 then (attempt + 1, Inl err)
          else if \<not> he_delay_ends env attempt then
            (attempt + 1, Inl (http_error ''authenticated HTTP request timed out''))
          else request_from env maximum (attempt + 1) (Some err))"
  by pat_completeness auto
termination
  by (relation "measure (\<lambda>(env, maximum, attempt, lastErr). remoteRequestRetries - attempt)")
    (auto simp: remoteRequestRetries_def)

declare request_from.simps [simp del]

definition performBoundedRequest :: "http_env \<Rightarrow> nat \<Rightarrow> nat \<times> boundedResponse result" where
  "performBoundedRequest env maximum = request_from env maximum 0 None"

section \<open>Types\<close>

record RegistryVersion =
  rv_Name :: string
  rv_Version :: string
  rv_Integrity :: string
  rv_Tarball :: string

record RegistryPreflightState =
  rs_PackageExists :: bool
  rs_VersionExists :: bool
  rs_Version :: "RegistryVersion option"

record RegistryAttestation =
  ra_PredicateType :: string
  ra_Bundle :: jval

record RegistryAttestationState =
  as_Found :: bool
  as_Attestations :: "RegistryAttestation list"

definition absent_package :: RegistryPreflightState where
  "absent_package = \<lparr>rs_PackageExists = False, rs_VersionExists = False, rs_Version = None\<rparr>"

definition absent_attestations :: RegistryAttestationState where
  "absent_attestations = \<lparr>as_Found = False, as_Attestations = []\<rparr>"

section \<open>Open decoding\<close>

text \<open>encoding/json without DisallowUnknownFields: a member of no field is skipped.\<close>

fun decode_open_members :: "'r field list \<Rightarrow> 'r \<Rightarrow> (string \<times> jval) list \<Rightarrow> 'r option" where
  "decode_open_members fs r [] = Some r"
| "decode_open_members fs r ((member, v) # members) =
     (case find_field fs member of
        None \<Rightarrow> decode_open_members fs r members
      | Some store \<Rightarrow>
          (case store r v of None \<Rightarrow> None | Some r' \<Rightarrow> decode_open_members fs r' members))"

definition decode_open :: "'r field list \<Rightarrow> 'r \<Rightarrow> jval \<Rightarrow> 'r option" where
  "decode_open fs r v =
     (case v of JObj members \<Rightarrow> decode_open_members fs r members | JNull \<Rightarrow> Some r | _ \<Rightarrow> None)"

text \<open>A map that exists already (two names of one field) keeps its entries; the later ones override.\<close>

definition store_map :: "('r \<Rightarrow> (string \<times> jval) list option) \<Rightarrow> ((string \<times> jval) list option \<Rightarrow> 'r \<Rightarrow> 'r)
    \<Rightarrow> 'r \<Rightarrow> jval \<Rightarrow> 'r option" where
  "store_map get put r v =
     (case v of
        JObj members \<Rightarrow>
          Some (put (Some (rev members @ (case get r of None \<Rightarrow> [] | Some old \<Rightarrow> old))) r)
      | JNull \<Rightarrow> Some (put None r)
      | _ \<Rightarrow> None)"

section \<open>Packuments\<close>

record packument =
  pm_doc_Name :: string
  pm_doc_Versions :: "(string \<times> jval) list option"

record dist_doc =
  dist_Integrity :: string
  dist_Tarball :: string

record version_doc =
  vd_Name :: string
  vd_Version :: string
  vd_Dist :: dist_doc

definition packument_fields :: "packument field list" where
  "packument_fields =
     [(''name'', store_string (\<lambda>x. pm_doc_Name_update (\<lambda>_. x))),
      (''versions'', store_map pm_doc_Versions (\<lambda>x. pm_doc_Versions_update (\<lambda>_. x)))]"

definition dist_fields :: "dist_doc field list" where
  "dist_fields =
     [(''integrity'', store_string (\<lambda>x. dist_Integrity_update (\<lambda>_. x))),
      (''tarball'', store_string (\<lambda>x. dist_Tarball_update (\<lambda>_. x)))]"

definition version_fields :: "version_doc field list" where
  "version_fields =
     [(''name'', store_string (\<lambda>x. vd_Name_update (\<lambda>_. x))),
      (''version'', store_string (\<lambda>x. vd_Version_update (\<lambda>_. x))),
      (''dist'', \<lambda>r v. map_option (\<lambda>d. r\<lparr>vd_Dist := d\<rparr>) (decode_open dist_fields (vd_Dist r) v))]"

definition zero_version_doc :: version_doc where
  "zero_version_doc =
     \<lparr>vd_Name = [], vd_Version = [], vd_Dist = \<lparr>dist_Integrity = [], dist_Tarball = []\<rparr>\<rparr>"

definition decodeRegistryPackumentResponse :: "string \<Rightarrow> string \<Rightarrow> string \<Rightarrow> RegistryPreflightState result" where
  "decodeRegistryPackumentResponse body packageName version =
     (case parseStrict body of
        Inl _ \<Rightarrow> Inl (http_error ''registry packument is malformed'')
      | Inr v \<Rightarrow>
     (case decode_open packument_fields \<lparr>pm_doc_Name = [], pm_doc_Versions = None\<rparr> v of
        None \<Rightarrow> Inl (http_error ''registry packument identity is malformed'')
      | Some doc \<Rightarrow>
          if pm_doc_Name doc \<noteq> packageName \<or> pm_doc_Versions doc = None then
            Inl (http_error ''registry packument identity is malformed'')
          else
            (case map_of (the (pm_doc_Versions doc)) version of
               None \<Rightarrow> Inr (absent_package\<lparr>rs_PackageExists := True\<rparr>)
             | Some rawVersion \<Rightarrow>
                 (case decode_open version_fields zero_version_doc rawVersion of
                    None \<Rightarrow> Inl (http_error ''registry version metadata identity is malformed'')
                  | Some metadata \<Rightarrow>
                      if vd_Name metadata \<noteq> packageName \<or> vd_Version metadata \<noteq> version then
                        Inl (http_error ''registry version metadata identity is malformed'')
                      else Inr \<lparr>rs_PackageExists = True, rs_VersionExists = True,
                        rs_Version = Some \<lparr>rv_Name = vd_Name metadata, rv_Version = vd_Version metadata,
                          rv_Integrity = dist_Integrity (vd_Dist metadata),
                          rv_Tarball = dist_Tarball (vd_Dist metadata)\<rparr>\<rparr>))))"

section \<open>Attestations\<close>

text \<open>A raw message that is absent is \<^const>\<open>None\<close>.\<close>

record attestation_doc =
  ad_PredicateType :: string
  ad_Bundle :: "jval option"
  ad_SignedAccessSignatureURL :: "jval option"

definition attestation_fields :: "attestation_doc field list" where
  "attestation_fields =
     [(''predicateType'', store_string (\<lambda>x. ad_PredicateType_update (\<lambda>_. x))),
      (''bundle'', \<lambda>r v. Some (r\<lparr>ad_Bundle := Some v\<rparr>)),
      (''signedAccessSignatureUrl'', \<lambda>r v. Some (r\<lparr>ad_SignedAccessSignatureURL := Some v\<rparr>))]"

definition zero_attestation_doc :: attestation_doc where
  "zero_attestation_doc =
     \<lparr>ad_PredicateType = [], ad_Bundle = None, ad_SignedAccessSignatureURL = None\<rparr>"

text \<open>
  A slice being decoded: its backing array and its length.  An element is decoded into what the
  backing array already holds there, so a second name of the field merges with the first.
\<close>

type_synonym attestation_slice = "attestation_doc list \<times> nat"

fun decode_elements :: "attestation_doc list \<Rightarrow> jval list \<Rightarrow> attestation_doc list option" where
  "decode_elements backing [] = Some backing"
| "decode_elements backing (v # vs) =
     (case decode_struct attestation_fields (case backing of [] \<Rightarrow> zero_attestation_doc | b # _ \<Rightarrow> b) v of
        None \<Rightarrow> None
      | Some d \<Rightarrow> map_option ((#) d) (decode_elements (tl backing) vs))"

definition store_attestations ::
  "attestation_slice option \<Rightarrow> jval \<Rightarrow> attestation_slice option option" where
  "store_attestations old v =
     (case v of
        JNull \<Rightarrow> Some None
      | JArr [] \<Rightarrow> Some (Some ([], 0))
      | JArr vs \<Rightarrow>
          map_option (\<lambda>elements. Some (elements, length vs))
            (decode_elements (case old of None \<Rightarrow> [] | Some (backing, _) \<Rightarrow> backing) vs)
      | _ \<Rightarrow> None)"

fun attestation_entries :: "attestation_doc list \<Rightarrow> RegistryAttestation list result" where
  "attestation_entries [] = Inr []"
| "attestation_entries (candidate # rest) =
     (if ad_PredicateType candidate = [] \<or> ad_Bundle candidate = None \<or> ad_Bundle candidate = Some JNull then
        Inl (http_error ''registry attestation entry is malformed'')
      else map_result ((#) \<lparr>ra_PredicateType = ad_PredicateType candidate,
             ra_Bundle = the (ad_Bundle candidate)\<rparr>) (attestation_entries rest))"

text \<open>The strict parse leaves nothing behind the document, so no trailing data is ever met.\<close>

definition decodeRegistryAttestationResponse :: "string \<Rightarrow> RegistryAttestationState result" where
  "decodeRegistryAttestationResponse body =
     (case parseStrict body of
        Inl _ \<Rightarrow> Inl (http_error ''registry attestation response is malformed'')
      | Inr v \<Rightarrow>
          (case decode_struct [(''attestations'', store_attestations)] None v of
             Some (Some (backing, len)) \<Rightarrow>
               map_result (\<lambda>entries. \<lparr>as_Found = True, as_Attestations = entries\<rparr>)
                 (attestation_entries (take len backing))
           | _ \<Rightarrow> Inl (http_error ''registry attestation response has an invalid shape'')))"

section \<open>The client\<close>

definition maxPackumentResponse :: nat where "maxPackumentResponse = 8 * 2 ^ 20"
definition maxAttestationResponse :: nat where "maxAttestationResponse = 16 * 2 ^ 20"

definition valid_coordinates :: "string \<Rightarrow> string \<Rightarrow> bool" where
  "valid_coordinates packageName version \<longleftrightarrow>
     \<not> (\<not> validRegistryPackageName packageName \<or> invalidPURLText version \<or> Contains version ''/'')"

text \<open>\<open>fetch\<close> answers a GET of an escaped path below the registry root with a size limit.\<close>

definition Preflight ::
  "(string \<Rightarrow> nat \<Rightarrow> boundedResponse result) \<Rightarrow> string \<Rightarrow> string \<Rightarrow> RegistryPreflightState result" where
  "Preflight fetch packageName version =
     (if \<not> valid_coordinates packageName version then
        Inl (http_error ''package name or version is invalid'')
      else case fetch (''/'' @ percentEncode packageName) maxPackumentResponse of
        Inl _ \<Rightarrow> Inl (http_error ''registry packument request failed'')
      | Inr response \<Rightarrow>
          if br_status response = 404 then Inr absent_package
          else if br_status response \<noteq> 200 then
            Inl (ErrText ''registry packument returned HTTP %d'' [show_nat (br_status response)])
          else decodeRegistryPackumentResponse (br_body response) packageName version)"

definition Attestations ::
  "(string \<Rightarrow> nat \<Rightarrow> boundedResponse result) \<Rightarrow> string \<Rightarrow> string \<Rightarrow> RegistryAttestationState result" where
  "Attestations fetch packageName version =
     (if \<not> valid_coordinates packageName version then
        Inl (http_error ''package name or version is invalid'')
      else case fetch (''/-/npm/v1/attestations/'' @ percentEncode packageName @ ''@'' @ percentEncode version)
                  maxAttestationResponse of
        Inl _ \<Rightarrow> Inl (http_error ''registry attestation request failed'')
      | Inr response \<Rightarrow>
          if br_status response = 404 then Inr absent_attestations
          else if br_status response \<noteq> 200 then
            Inl (ErrText ''registry attestation endpoint returned HTTP %d'' [show_nat (br_status response)])
          else decodeRegistryAttestationResponse (br_body response))"

section \<open>What a bounded request can do\<close>

definition transient :: "http_env \<Rightarrow> nat \<Rightarrow> nat \<Rightarrow> bool" where
  "transient env maximum attempt \<longleftrightarrow> isl (http_attempt env maximum attempt) \<and> he_delay_ends env attempt"

lemma request_from_range:
  assumes "attempt < remoteRequestRetries"
  shows "attempt < fst (request_from env maximum attempt err) \<and>
    fst (request_from env maximum attempt err) \<le> remoteRequestRetries \<and>
    (\<forall>i \<in> {attempt..<fst (request_from env maximum attempt err) - 1}. transient env maximum i) \<and>
    (\<forall>response. snd (request_from env maximum attempt err) = Inr response \<longrightarrow>
       http_attempt env maximum (fst (request_from env maximum attempt err) - 1) = Inr (Inr response))"
  using assms
proof (induction env maximum attempt err rule: request_from.induct)
  case (1 env maximum attempt err)
  show ?case
  proof (cases "http_attempt env maximum attempt")
    case (Inl e)
    show ?thesis
    proof (cases "attempt \<noteq> remoteRequestRetries - 1 \<and> he_delay_ends env attempt")
      case True
      with 1(2) have "attempt + 1 < remoteRequestRetries" by linarith
      from 1(1) [OF _ Inl _ _ this] 1(2) True have ih:
        "attempt + 1 < fst (request_from env maximum (attempt + 1) (Some e))"
        "fst (request_from env maximum (attempt + 1) (Some e)) \<le> remoteRequestRetries"
        "\<forall>i \<in> {attempt + 1..<fst (request_from env maximum (attempt + 1) (Some e)) - 1}. transient env maximum i"
        "\<forall>response. snd (request_from env maximum (attempt + 1) (Some e)) = Inr response \<longrightarrow>
          http_attempt env maximum (fst (request_from env maximum (attempt + 1) (Some e)) - 1) = Inr (Inr response)"
        by auto
      have "request_from env maximum attempt err = request_from env maximum (attempt + 1) (Some e)"
        using 1(2) Inl True by (simp add: request_from.simps [of env maximum attempt err])
      moreover have "transient env maximum attempt" using Inl True by (simp add: transient_def)
      ultimately show ?thesis using ih by (auto simp: Suc_le_eq)
    next
      case False
      with 1(2) Inl show ?thesis by (auto simp: request_from.simps [of env maximum attempt err])
    qed
  next
    case (Inr outcome)
    with 1(2) show ?thesis by (auto simp: request_from.simps [of env maximum attempt err])
  qed
qed

lemma attempt_response:
  "http_attempt env maximum attempt = Inr (Inr response) \<Longrightarrow>
   \<exists>sent. he_Do env attempt = Responded (br_status response) sent True \<and> br_body response = sent \<and>
     length sent \<le> maximum \<and>
     (\<not> retryableHTTPStatus (br_status response) \<or> attempt = remoteRequestRetries - 1) \<and>
     rejectCredentialBearingProxy (he_proxy env attempt) = None"
  by (auto simp: http_attempt_def Let_def split: if_splits option.splits http_outcome.splits)

text \<open>A bounded request makes one to three attempts, goes on only after a transient failure and an undisturbed
  delay, and a response it returns is the complete body the server sent in the last attempt, within the
  limit, over a proxy without credentials, and with a retryable status only from the third attempt.\<close>

theorem bounded_request_exact:
  "(case performBoundedRequest env maximum of
      (attempts, outcome) \<Rightarrow>
        1 \<le> attempts \<and> attempts \<le> 3 \<and> list_all (transient env maximum) [0..<attempts - 1] \<and>
        (case outcome of
           Inl _ \<Rightarrow> True
         | Inr response \<Rightarrow>
             length (br_body response) \<le> maximum \<and>
             he_Do env (attempts - 1) = Responded (br_status response) (br_body response) True \<and>
             (if retryableHTTPStatus (br_status response) then attempts = 3 else True) \<and>
             rejectCredentialBearingProxy (he_proxy env (attempts - 1)) = None))"
proof -
  obtain n r where nr: "request_from env maximum 0 None = (n, r)" by (cases "request_from env maximum 0 None")
  have "(0 :: nat) < remoteRequestRetries" by (simp add: remoteRequestRetries_def)
  from request_from_range [OF this, of env maximum None] nr
  have range: "0 < n" "n \<le> 3" "\<forall>i \<in> {0..<n - 1}. transient env maximum i"
    "\<And>response. r = Inr response \<Longrightarrow> http_attempt env maximum (n - 1) = Inr (Inr response)"
    by (auto simp: remoteRequestRetries_def)
  show ?thesis
  proof (cases r)
    case (Inr response)
    from attempt_response [OF range(4) [OF Inr]] range(1) have
      "\<not> retryableHTTPStatus (br_status response) \<or> n = 3"
      by (auto simp: remoteRequestRetries_def)
    with attempt_response [OF range(4) [OF Inr]] range(1-3) Inr show ?thesis
      by (auto simp: performBoundedRequest_def nr list_all_iff)
  qed (use range in \<open>auto simp: performBoundedRequest_def nr list_all_iff\<close>)
qed

section \<open>What the registry client reports\<close>

lemma packument_state:
  "decodeRegistryPackumentResponse body name version = Inr state \<Longrightarrow>
   rs_PackageExists state \<and> (rs_VersionExists state \<longleftrightarrow> rs_Version state \<noteq> None) \<and>
   (\<forall>v. rs_Version state = Some v \<longrightarrow> rv_Name v = name \<and> rv_Version v = version)"
  by (auto simp: decodeRegistryPackumentResponse_def absent_package_def split: sum.splits option.splits if_splits)

lemma entries_wellformed:
  "attestation_entries docs = Inr entries \<Longrightarrow>
   list_all (\<lambda>a. ra_PredicateType a \<noteq> [] \<and> ra_Bundle a \<noteq> JNull) entries \<and> length entries = length docs"
  by (induction docs arbitrary: entries) (auto split: if_splits)

lemma attestation_state:
  "decodeRegistryAttestationResponse body = Inr state \<Longrightarrow>
   as_Found state \<and> list_all (\<lambda>a. ra_PredicateType a \<noteq> [] \<and> ra_Bundle a \<noteq> JNull) (as_Attestations state)"
  by (auto simp: decodeRegistryAttestationResponse_def dest!: entries_wellformed split: sum.splits option.splits)

definition wf_preflight :: "string \<Rightarrow> string \<Rightarrow> RegistryPreflightState \<Rightarrow> bool" where
  "wf_preflight name version state \<longleftrightarrow>
     (rs_VersionExists state \<longleftrightarrow> rs_Version state \<noteq> None) \<and>
     (rs_Version state = None \<or> rs_PackageExists state) \<and>
     (case rs_Version state of None \<Rightarrow> True | Some v \<Rightarrow> rv_Name v = name \<and> rv_Version v = version)"

definition wf_attestations :: "RegistryAttestationState \<Rightarrow> bool" where
  "wf_attestations state \<longleftrightarrow>
     (as_Found state \<or> as_Attestations state = []) \<and>
     list_all (\<lambda>a. ra_PredicateType a \<noteq> [] \<and> ra_Bundle a \<noteq> JNull) (as_Attestations state)"

text \<open>C31: Whatever a registry answers, the client hands on only well-formed states: a version is reported exactly
  with its metadata, never without its package and never under another name or version than asked for,
  and every attestation has a predicate type and a bundle.\<close>

theorem registry_states_well_formed:
  "(case Preflight fetch name version of Inl _ \<Rightarrow> True | Inr state \<Rightarrow> wf_preflight name version state) \<and>
   (case Attestations fetch name version of Inl _ \<Rightarrow> True | Inr state \<Rightarrow> wf_attestations state)"
proof
  show "case Preflight fetch name version of Inl _ \<Rightarrow> True | Inr state \<Rightarrow> wf_preflight name version state"
    using packument_state
    by (fastforce simp: Preflight_def wf_preflight_def absent_package_def split: sum.splits if_splits option.splits)
  show "case Attestations fetch name version of Inl _ \<Rightarrow> True | Inr state \<Rightarrow> wf_attestations state"
    using attestation_state
    by (fastforce simp: Attestations_def wf_attestations_def absent_attestations_def split: sum.splits if_splits)
qed

end
