(* ===== verification/Publish.thy ===== *)
theory Publish
  imports Signing RegistryClient Handoff Base64
begin

text \<open>
  internal/npmprofile/publish.go and publish_observation_log.go: one serialised npm publication.  Publish
  prepares and binds its inputs, polls the registry, runs npm at most once and reads the registry back.

  The outside world is the record \<open>publish_env\<close>: every call (the clock, a file read, a bundle
  verification, a registry request, npm, a sleep) is answered from the history of the calls made before
  it, so it may answer differently every time.  Instants and durations are nanoseconds.
\<close>

section \<open>Vocabulary\<close>

definition IDAlreadyPublishedVersion :: string where
  "IDAlreadyPublishedVersion = npm_error_id ''already-published-version''"
definition IDBundleByteFormatMismatch :: string where
  "IDBundleByteFormatMismatch = npm_error_id ''bundle-byte-format-mismatch''"
definition IDMutationPermissionDenied :: string where
  "IDMutationPermissionDenied = npm_error_id ''mutation-permission-denied''"
definition IDPrepublishRegistryMetadataRequired :: string where
  "IDPrepublishRegistryMetadataRequired = npm_error_id ''prepublish-registry-metadata-required''"
definition IDPublishCommittedAfterRejection :: string where
  "IDPublishCommittedAfterRejection = ''windlass.verify.warning.publish-committed-after-rejection''"
definition IDPublishRejectedUnprocessable :: string where
  "IDPublishRejectedUnprocessable = npm_error_id ''publish-rejected-unprocessable''"
definition IDRegistryLinkageMismatch :: string where
  "IDRegistryLinkageMismatch = npm_error_id ''registry-linkage-mismatch''"
definition IDUnsupportedInitialPublication :: string where
  "IDUnsupportedInitialPublication = npm_error_id ''unsupported-initial-publication''"
definition IDTrustedPublisherMismatch :: string where
  "IDTrustedPublisherMismatch = npm_error_id ''trusted-publisher-mismatch''"
definition publishPinMismatch :: string where
  "publishPinMismatch = npm_error_id ''publish-npm-pin-mismatch''"

definition npmSLSAPredicateType :: string where
  "npmSLSAPredicateType = ''https://slsa.dev/provenance/v1''"

definition second :: int where "second = 10 ^ 9"
definition publishPollInterval :: int where "publishPollInterval = 15 * second"
definition publishRejectedPollBudget :: int where "publishRejectedPollBudget = 60 * second"
definition publishPollBudget :: int where "publishPollBudget = 300 * second"
definition maxPublishBundleSize :: nat where "maxPublishBundleSize = 32 * 2 ^ 20"
definition maxTarballSize :: nat where "maxTarballSize = 512 * 2 ^ 20"

text \<open>The zero time.Time.\<close>

definition zero_time :: int where "zero_time = - 62135596800 * second"

datatype PublishState =
    PublishCommittedAsExpected | PublishAbsent | PublishForeignConflict | PublishIndeterminate

fun PublishState_text :: "PublishState \<Rightarrow> string" where
  "PublishState_text PublishCommittedAsExpected = ''committed-as-expected''"
| "PublishState_text PublishAbsent = ''absent''"
| "PublishState_text PublishForeignConflict = ''foreign-conflict''"
| "PublishState_text PublishIndeterminate = ''indeterminate''"

section \<open>Requests and the world\<close>

record VerifiedPublishBundle =
  vb_Statement :: Statement
  vb_RunInvocationURI :: string

record OIDCExchangeResult =
  oe_GitHubIdentityToken :: string
  oe_Token :: string
  oe_CreatedAt :: int
  oe_ExpiresAt :: int
  oe_WorkflowFilename :: string
  oe_PrimaryID :: "string option"  \<comment> \<open>of its report\<close>

text \<open>The URL of a nil registry client is empty; a nil verifier is \<^const>\<open>False\<close>.\<close>

record PublishRequest =
  pr_NPMExecutable :: string
  pr_TarballPath :: string
  pr_BundlePath :: string
  pr_TarballSHA256 :: SHA256
  pr_TarballSHA512 :: SHA512
  pr_BundleSHA256 :: SHA256
  pr_RegistryURL :: string
  pr_RunID :: string
  pr_RunAttempt :: string
  pr_SourceRepositoryURI :: string
  pr_OIDCExchange :: OIDCExchangeResult
  pr_Verifier :: bool

text \<open>Bundles come from a file or, as a raw message, from the registry.\<close>

datatype bundle_bytes = FileBytes string | RawBundle jval

datatype event =
    Clock
  | ReadFile string nat
  | VerifyBundle bundle_bytes
  | ReadPackument
  | ReadAttestations
  | Isolate
  | RunNPM "string list"
  | SleepFor int
  | DebugLine string

datatype isolation = Isolated string | NoDirectory | NoUserConfig | NoGlobalConfig

record publish_env =
  pe_context :: bool
  pe_now :: "event list \<Rightarrow> int"
  pe_read :: "event list \<Rightarrow> string \<Rightarrow> nat \<Rightarrow> string result"
  pe_verify :: "event list \<Rightarrow> bundle_bytes \<Rightarrow> VerifiedPublishBundle result"
  pe_fetch :: "event list \<Rightarrow> string \<Rightarrow> nat \<Rightarrow> boundedResponse result"
  pe_isolate :: "event list \<Rightarrow> isolation"
  pe_Environ :: "string list"
  pe_run :: "event list \<Rightarrow> string \<Rightarrow> string list \<Rightarrow> string list \<Rightarrow> string \<times> go_error option"
  pe_sleep :: "event list \<Rightarrow> int \<Rightarrow> go_error option"
  pe_text :: "go_error \<Rightarrow> string"  \<comment> \<open>its Error method\<close>
  pe_upper :: "nat \<Rightarrow> nat"  \<comment> \<open>upper case beyond ASCII\<close>
  pe_sort :: "(Diagnostic \<Rightarrow> Diagnostic \<Rightarrow> bool) \<Rightarrow> Diagnostic list \<Rightarrow> Diagnostic list"

record preparedPublish =
  pp_request :: PublishRequest
  pp_parameters :: ExternalParameters
  pp_statement :: Statement
  pp_runInvocation :: string
  pp_expectedSRI :: string
  pp_argv :: "string list"
  pp_metadata :: "DiagnosticMetadata option"

record registryObservation =
  ro_packageExists :: bool
  ro_version :: "RegistryVersion option"
  ro_attestations :: RegistryAttestationState
  ro_packumentErr :: "go_error option"
  ro_attestationErr :: "go_error option"

record observationDecision =
  od_state :: PublishState
  od_terminal :: bool
  od_packageAbsent :: bool
  od_committedAfterRejection :: bool

definition decided :: "PublishState \<Rightarrow> bool \<Rightarrow> observationDecision" where
  "decided state terminal = \<lparr>od_state = state, od_terminal = terminal, od_packageAbsent = False,
     od_committedAfterRejection = False\<rparr>"

record PublishResult =
  pu_State :: PublishState
  pu_MutationAttempted :: bool
  pu_Report :: Report

text \<open>
  What Publish returns: the zero result with an error of the diagnostics package, or a result and
  the PublishError that goes with a failure.
\<close>

datatype publish_outcome = Unreported go_error | Reported PublishResult "go_error option"

section \<open>Small functions\<close>

definition positiveDecimal :: "string \<Rightarrow> bool" where
  "positiveDecimal value = (if value = [] \<or> hd value = CHR ''0'' then False else list_all is_digit value)"

text \<open>errors.As with a DiagnosticID() string target: preorder over the tree of wrapped errors.\<close>

fun find_identified :: "go_error \<Rightarrow> string option"
  and find_identified_list :: "go_error list \<Rightarrow> string option" where
  "find_identified (ErrText _ _) = None"
| "find_identified (ErrDuplicateMember _ _) = Some (npm_error_id ''duplicate-json-member'')"
| "find_identified (ErrWrap _ _ causes) = find_identified_list causes"
| "find_identified (ErrDiag kind ident _ _ _ causes) =
     (if kind = KHandoff then find_identified_list causes else Some ident)"
| "find_identified_list [] = None"
| "find_identified_list (e # es) =
     (case find_identified e of Some ident \<Rightarrow> Some ident | None \<Rightarrow> find_identified_list es)"

definition diagnosticIDOr :: "go_error \<Rightarrow> string \<Rightarrow> string" where
  "diagnosticIDOr err fallback =
     (case find_identified err of
        Some ident \<Rightarrow> if Lookup ident \<noteq> None then ident else fallback
      | None \<Rightarrow> fallback)"

definition sha512SRI :: "SHA512 \<Rightarrow> string" where
  "sha512SRI value = ''sha512-'' @ b64_encode (bytes512 value)"

definition normalizeSHA512SRI :: "string \<Rightarrow> string option" where
  "normalizeSHA512SRI value =
     (case CutPrefix value ''sha512-'' of
        None \<Rightarrow> None
      | Some encoded \<Rightarrow>
          if encoded = [] \<or> TrimSpace value \<noteq> value then None
          else (case b64_decode_strict encoded of
              None \<Rightarrow> None
            | Some decoded \<Rightarrow>
                if length decoded \<noteq> 64 then None else Some (''sha512-'' @ b64_encode decoded)))"

definition registryTarballMatches :: "string \<Rightarrow> string \<Rightarrow> bool" where
  "registryTarballMatches rawURL expectedBasename =
     (case url_Parse rawURL of
        None \<Rightarrow> False
      | Some parsed \<Rightarrow> Scheme parsed = ''https'' \<and> Host parsed \<noteq> [] \<and> User parsed = None
          \<and> RawQuery parsed = [] \<and> Fragment parsed = [] \<and> Base (Path parsed) = expectedBasename)"

fun error_code_in :: "(nat \<Rightarrow> nat) \<Rightarrow> string list \<Rightarrow> string" where
  "error_code_in lc [] = []"
| "error_code_in lc (line # rest) =
     (case Fields (lower_with lc line) of
        [a, b, c, d] \<Rightarrow>
          if a = ''npm'' \<and> (b = ''error'' \<or> b = ''err!'') \<and> c = ''code'' then d else error_code_in lc rest
      | _ \<Rightarrow> error_code_in lc rest)"

definition npmErrorCode :: "(nat \<Rightarrow> nat) \<Rightarrow> string \<Rightarrow> string" where
  "npmErrorCode lc output = error_code_in lc (split_on (CHR 0x0A) output)"

definition definitivePublishError :: "(nat \<Rightarrow> nat) \<Rightarrow> string \<Rightarrow> string" where
  "definitivePublishError lc output =
     (let code = npmErrorCode lc output in
      if code = ''eneedauth'' \<or> code = ''e404'' then IDTrustedPublisherMismatch
      else if code = ''e401'' \<or> code = ''e403'' then IDMutationPermissionDenied
      else [])"

definition upper_with :: "(nat \<Rightarrow> nat) \<Rightarrow> string \<Rightarrow> string" where
  "upper_with uc s =
     concat (map (\<lambda>(r, bs, ok). encode_rune (if r < 128 then rune_upper r else uc r)) (runes s))"

definition dropped_variables :: "string list" where
  "dropped_variables = [''NPM_TOKEN'', ''NODE_AUTH_TOKEN'', ''NPM_AUTH_TOKEN'', ''NODE_OPTIONS'', ''HOME'',
     ''USERPROFILE'', ''XDG_CONFIG_HOME'']"

definition kept_variable :: "(nat \<Rightarrow> nat) \<Rightarrow> string \<Rightarrow> bool" where
  "kept_variable uc entry =
     (case Cut entry ''='' of
        None \<Rightarrow> False
      | Some (name, _) \<Rightarrow>
          (let upper = upper_with uc name in
           \<not> (upper \<in> set dropped_variables \<or> HasPrefix upper ''NPM_CONFIG_'')))"

definition publishEnvironment ::
  "(nat \<Rightarrow> nat) \<Rightarrow> string list \<Rightarrow> string \<Rightarrow> string \<Rightarrow> string \<Rightarrow> string list" where
  "publishEnvironment uc environment isolationDirectory userConfig globalConfig =
     filter (kept_variable uc) environment @
     [''HOME='' @ isolationDirectory, ''USERPROFILE='' @ isolationDirectory,
      ''XDG_CONFIG_HOME='' @ isolationDirectory, ''NPM_CONFIG_USERCONFIG='' @ userConfig,
      ''NPM_CONFIG_GLOBALCONFIG='' @ globalConfig]"

section \<open>Reports\<close>

definition failure ::
  "libraries \<Rightarrow> publish_env \<Rightarrow> string \<Rightarrow> DiagnosticMetadata option \<Rightarrow> PublishState \<Rightarrow> bool \<Rightarrow> string \<Rightarrow> string
   \<Rightarrow> go_error \<Rightarrow> Diagnostic list \<Rightarrow> publish_outcome" where
  "failure libs env runInvocation metadata state mutationAttempted ident check cause extra =
     (case New (lib_transform libs) ident check (pe_text env cause) of
        Inl err \<Rightarrow> Unreported err
      | Inr entry0 \<Rightarrow>
          (let entry = (case (if ident = publishPinMismatch then metadata else None) of
                 Some md \<Rightarrow>
                   (case md_PublishNPMVersion md of
                      Some v \<Rightarrow> entry0\<lparr>dg_Evidence := [(''publish_npm_version'', GString v)]\<rparr>
                    | None \<Rightarrow> entry0)
               | None \<Rightarrow> entry0);
               invocation = (if runInvocation \<noteq> [] then Some runInvocation else None)
           in case Build (lib_transform libs) (pe_sort env) invocation (entry # extra) metadata of
                Inl err \<Rightarrow> Unreported err
              | Inr report \<Rightarrow>
                  Reported \<lparr>pu_State = state, pu_MutationAttempted = mutationAttempted, pu_Report = report\<rparr>
                    (Some (ErrDiag KPublish (case rp_PrimaryID report of None \<Rightarrow> [] | Some p \<Rightarrow> p) [] [] [] [cause]))))"

definition prepared_failure ::
  "libraries \<Rightarrow> publish_env \<Rightarrow> preparedPublish \<Rightarrow> PublishState \<Rightarrow> bool \<Rightarrow> string \<Rightarrow> string \<Rightarrow> go_error
   \<Rightarrow> Diagnostic list \<Rightarrow> publish_outcome" where
  "prepared_failure libs env p = failure libs env (pp_runInvocation p) (pp_metadata p)"

definition success ::
  "libraries \<Rightarrow> publish_env \<Rightarrow> preparedPublish \<Rightarrow> bool \<Rightarrow> Diagnostic list \<Rightarrow> publish_outcome" where
  "success libs env p mutationAttempted extra =
     (case Build (lib_transform libs) (pe_sort env) (Some (pp_runInvocation p)) extra (pp_metadata p) of
        Inl err \<Rightarrow> Unreported err
      | Inr report \<Rightarrow>
          Reported \<lparr>pu_State = PublishCommittedAsExpected, pu_MutationAttempted = mutationAttempted,
                    pu_Report = report\<rparr> None)"

definition publishFailure ::
  "libraries \<Rightarrow> publish_env \<Rightarrow> PublishRequest \<Rightarrow> PublishState \<Rightarrow> bool \<Rightarrow> string \<Rightarrow> string \<Rightarrow> go_error
   \<Rightarrow> publish_outcome" where
  "publishFailure libs env request state mutationAttempted ident check cause =
     (let runInvocation =
            (if pr_SourceRepositoryURI request \<noteq> [] \<and> pr_RunID request \<noteq> [] \<and> pr_RunAttempt request \<noteq> [] then
               (case NewRunInvocationURI (pr_SourceRepositoryURI request) (pr_RunID request)
                       (pr_RunAttempt request) of Inr candidate \<Rightarrow> candidate | Inl _ \<Rightarrow> [])
             else [])
      in failure libs env runInvocation None state mutationAttempted ident check cause [])"

section \<open>Preparation\<close>

definition publish_error :: "string \<Rightarrow> go_error" where "publish_error message = ErrText message []"

definition verifiedPublishFile ::
  "publish_env \<Rightarrow> event list \<Rightarrow> string \<Rightarrow> string \<Rightarrow> nat \<Rightarrow> string result \<times> event list" where
  "verifiedPublishFile env h path ending maximum =
     (if path = [] \<or> \<not> PathIsAbs path \<or> Clean path \<noteq> path \<or> \<not> HasSuffix (Base path) ending then
        (Inl (publish_error ''artifact path must be absolute, canonical, and have the expected suffix''), h)
      else case ValidateSafeBasename (Base path) of
        Some err \<Rightarrow> (Inl err, h)
      | None \<Rightarrow> (pe_read env h path maximum, h @ [ReadFile path maximum]))"

definition tarball_matches :: "PublishRequest \<Rightarrow> string \<Rightarrow> bool" where
  "tarball_matches request bytes \<longleftrightarrow>
     SHA256_Equal (SumSHA256 bytes) (pr_TarballSHA256 request) \<and>
     SHA512_Equal (SumSHA512 bytes) (pr_TarballSHA512 request)"

definition bundle_matches :: "PublishRequest \<Rightarrow> string \<Rightarrow> bool" where
  "bundle_matches request bytes \<longleftrightarrow> SHA256_Equal (SumSHA256 bytes) (pr_BundleSHA256 request)"

definition statement_digests :: "PublishRequest \<Rightarrow> Subject \<Rightarrow> bool" where
  "statement_digests request subject \<longleftrightarrow>
     string_at (sj_Digest subject) ''sha256'' = SHA256_String (pr_TarballSHA256 request) \<and>
     string_at (sj_Digest subject) ''sha512'' = SHA512_String (pr_TarballSHA512 request) \<and>
     length (sj_Digest subject) = 2"

definition npm_statement :: "Statement \<Rightarrow> bool" where
  "npm_statement st \<longleftrightarrow> st_Type st = StatementType \<and> st_PredicateType st = PredicateType \<and>
     bd_BuildType (st_BuildDefinition st) = NPMBuildType \<and> length (st_Subject st) = 1"

text \<open>The attempt of the signed run is not after the current attempt.\<close>

definition run_identity_ok :: "PublishRequest \<Rightarrow> string \<Rightarrow> bool" where
  "run_identity_ok request uri =
     (case ParseRunInvocationURI uri (pr_SourceRepositoryURI request) of
        Inl _ \<Rightarrow> False
      | Inr invocation \<Rightarrow>
          inv_RunID invocation = pr_RunID request \<and>
          (case (ParseUint64 (inv_Attempt invocation), ParseUint64 (pr_RunAttempt request)) of
             (Some attempt, Some current) \<Rightarrow> attempt \<le> current
           | _ \<Rightarrow> False))"

definition exchange_ok :: "PublishRequest \<Rightarrow> ExternalParameters \<Rightarrow> bool" where
  "exchange_ok request parameters \<longleftrightarrow>
     \<not> (oe_PrimaryID (pr_OIDCExchange request) \<noteq> None \<or> oe_Token (pr_OIDCExchange request) = [] \<or>
        oe_WorkflowFilename (pr_OIDCExchange request) \<noteq> cp_WorkflowFilename (ep_Caller parameters))"

definition lifetime_ok :: "OIDCExchangeResult \<Rightarrow> int \<Rightarrow> bool" where
  "lifetime_ok exchange now \<longleftrightarrow>
     \<not> (oe_CreatedAt exchange = zero_time \<or> oe_ExpiresAt exchange = zero_time
        \<or> oe_CreatedAt exchange > now \<or> \<not> oe_ExpiresAt exchange > now)"

definition validatePreparedBindings ::
  "publish_env \<Rightarrow> event list \<Rightarrow> PublishRequest \<Rightarrow> VerifiedPublishBundle \<Rightarrow> ExternalParameters
   \<Rightarrow> string result \<times> event list" where
  "validatePreparedBindings env h request verified parameters =
     (let statement = vb_Statement verified; package = ep_Package parameters;
          subject = hd (st_Subject statement)
      in if \<not> npm_statement statement then
           (Inl (publish_error (''verified provenance Statement has an unexpected type, build type, ''
             @ ''or subject count'')), h)
         else if pb_ResolvedRegistryURL (ep_Publish parameters) \<noteq> pr_RegistryURL request then
           (Inl (publish_error ''registry client differs from signed publish intent''), h)
         else if Base (pr_TarballPath request) \<noteq> pk_TarballName package
                 \<or> Base (pr_BundlePath request) \<noteq> pk_TarballName package @ ''.intoto.jsonl'' then
           (Inl (publish_error ''artifact paths differ from signed package metadata''), h)
         else case NPMPackagePURL (pk_Name package) (pk_Version package) of
           Inl err \<Rightarrow> (Inl err, h)
         | Inr wantPURL \<Rightarrow>
             if sj_Name subject \<noteq> wantPURL \<or> \<not> statement_digests request subject then
               (Inl (publish_error ''verified provenance subject differs from the tarball handoff''), h)
             else if vb_RunInvocationURI verified = []
                     \<or> vb_RunInvocationURI verified \<noteq> m_InvocationID (st_Metadata statement) then
               (Inl (publish_error ''verified certificate and SLSA invocationId bindings differ''), h)
             else if \<not> run_identity_ok request (vb_RunInvocationURI verified) then
               (Inl (publish_error ''local P02 bundle run identity differs from the current attempt''), h)
             else if \<not> exchange_ok request parameters then
               (Inl (publish_error (''successful trusted-publisher preflight for the signed caller workflow ''
                 @ ''is required'')), h)
             else if \<not> lifetime_ok (pr_OIDCExchange request) (pe_now env h) then
               (Inl (publish_error ''trusted-publisher exchange token lifetime is unusable''), h @ [Clock])
             else (Inr (vb_RunInvocationURI verified), h @ [Clock]))"

definition publish_argv :: "PublishRequest \<Rightarrow> ExternalParameters \<Rightarrow> string list" where
  "publish_argv request parameters =
     [''publish'', pr_TarballPath request, ''--provenance-file='' @ pr_BundlePath request,
      ''--registry='' @ pb_ResolvedRegistryURL (ep_Publish parameters),
      ''--tag='' @ pb_ResolvedDistTag (ep_Publish parameters)]
     @ (case pb_PublishAccessOption (ep_Publish parameters) of
          None \<Rightarrow> [] | Some access \<Rightarrow> [''--access='' @ access])"

definition request_ok :: "publish_env \<Rightarrow> PublishRequest \<Rightarrow> go_error option" where
  "request_ok env request =
     (if \<not> pe_context env \<or> pr_RegistryURL request = [] \<or> \<not> pr_Verifier request then
        Some (publish_error ''publish context, registry, and verifier are required'')
      else if \<not> positiveDecimal (pr_RunID request) \<or> \<not> positiveDecimal (pr_RunAttempt request) then
        Some (publish_error ''run identity must use positive canonical decimal values'')
      else if pr_NPMExecutable request = [] then Some (publish_error ''npm executable is required'')
      else if \<not> PathIsAbs (pr_NPMExecutable request) \<or> Base (pr_NPMExecutable request) \<noteq> ''npm'' then
        Some (ErrText ''npm executable must be an absolute path to an npm binary: %q'' [pr_NPMExecutable request])
      else None)"

definition preparePublish ::
  "libraries \<Rightarrow> publish_env \<Rightarrow> event list \<Rightarrow> PublishRequest \<Rightarrow> preparedPublish result \<times> event list" where
  "preparePublish libs env h request =
     (case request_ok env request of
        Some err \<Rightarrow> (Inl err, h)
      | None \<Rightarrow>
     (case verifiedPublishFile env h (pr_TarballPath request) ''.tgz'' maxTarballSize of
        (Inl err, h1) \<Rightarrow> (Inl (ErrWrap ''verify tarball path: %w'' [] [err]), h1)
      | (Inr tarballBytes, h1) \<Rightarrow>
          if \<not> tarball_matches request tarballBytes then
            (Inl (publish_error ''verified tarball handoff digest mismatch''), h1)
          else
     (case verifiedPublishFile env h1 (pr_BundlePath request) ''.intoto.jsonl'' maxPublishBundleSize of
        (Inl err, h2) \<Rightarrow> (Inl (ErrWrap ''verify provenance bundle path: %w'' [] [err]), h2)
      | (Inr bundleBytes, h2) \<Rightarrow>
          if \<not> bundle_matches request bundleBytes then
            (Inl (publish_error ''verified provenance bundle handoff digest mismatch''), h2)
          else
            (let h3 = h2 @ [VerifyBundle (FileBytes bundleBytes)] in
             case pe_verify env h2 (FileBytes bundleBytes) of
               Inl err \<Rightarrow> (Inl (ErrWrap ''verify P02 provenance bundle: %w'' [] [err]), h3)
             | Inr verified \<Rightarrow>
                 (case DecodeExternalParameters libs
                         (bd_ExternalParameters (st_BuildDefinition (vb_Statement verified))) of
                    Inl err \<Rightarrow> (Inl err, h3)
                  | Inr parameters \<Rightarrow>
                      (case validatePreparedBindings env h3 request verified parameters of
                         (Inl err, h4) \<Rightarrow> (Inl err, h4)
                       | (Inr runInvocation, h4) \<Rightarrow>
                           (Inr \<lparr>pp_request = request, pp_parameters = parameters,
                                 pp_statement = vb_Statement verified, pp_runInvocation = runInvocation,
                                 pp_expectedSRI = sha512SRI (pr_TarballSHA512 request),
                                 pp_argv = publish_argv request parameters, pp_metadata = None\<rparr>, h4)))))))"

section \<open>Observation\<close>

definition observe :: "publish_env \<Rightarrow> preparedPublish \<Rightarrow> event list \<Rightarrow> registryObservation \<times> event list" where
  "observe env p h =
     (let package = ep_Package (pp_parameters p);
          packument = Preflight (pe_fetch env h) (pk_Name package) (pk_Version package);
          h1 = h @ [ReadPackument];
          attestations = Attestations (pe_fetch env h1) (pk_Name package) (pk_Version package);
          state = (case packument of Inl _ \<Rightarrow> absent_package | Inr s \<Rightarrow> s)
      in (\<lparr>ro_packageExists = rs_PackageExists state, ro_version = rs_Version state,
           ro_attestations = (case attestations of Inl _ \<Rightarrow> absent_attestations | Inr a \<Rightarrow> a),
           ro_packumentErr = (case packument of Inl err \<Rightarrow> Some err | Inr _ \<Rightarrow> None),
           ro_attestationErr = (case attestations of Inl err \<Rightarrow> Some err | Inr _ \<Rightarrow> None)\<rparr>,
          h1 @ [ReadAttestations]))"

definition matchesPublishedBundle :: "preparedPublish \<Rightarrow> VerifiedPublishBundle \<Rightarrow> bool" where
  "matchesPublishedBundle p verified =
     (let statement = vb_Statement verified; subject = hd (st_Subject statement) in
      if vb_RunInvocationURI verified = []
         \<or> vb_RunInvocationURI verified \<noteq> m_InvocationID (st_Metadata statement)
         \<or> \<not> npm_statement statement then False
      else case ParseRunInvocationURI (vb_RunInvocationURI verified) (pr_SourceRepositoryURI (pp_request p)) of
        Inl _ \<Rightarrow> False
      | Inr invocation \<Rightarrow>
          inv_RunID invocation = pr_RunID (pp_request p)
          \<and> sj_Name subject = sj_Name (hd (st_Subject (pp_statement p)))
          \<and> statement_digests (pp_request p) subject)"

text \<open>What the loop over the attestations has seen, and the committed decision it may end with.\<close>

record candidate_flags =
  cf_foundRequired :: bool
  cf_verifiedForeign :: bool
  cf_verificationFailed :: bool

definition may_commit :: "preparedPublish \<Rightarrow> bool \<Rightarrow> bool" where
  "may_commit p afterMutation =
     (case ParseUint64 (pr_RunAttempt (pp_request p)) of
        None \<Rightarrow> False
      | Some attempt \<Rightarrow> afterMutation \<or> attempt > 1)"

fun examine_candidates ::
  "publish_env \<Rightarrow> preparedPublish \<Rightarrow> bool \<Rightarrow> RegistryAttestation list \<Rightarrow> candidate_flags \<Rightarrow> event list
   \<Rightarrow> (candidate_flags option) \<times> event list" where
  "examine_candidates env p afterMutation [] flags h = (Some flags, h)"
| "examine_candidates env p afterMutation (candidate # rest) flags h =
     (if ra_PredicateType candidate \<noteq> npmSLSAPredicateType then
        examine_candidates env p afterMutation rest flags h
      else
        (let found = flags\<lparr>cf_foundRequired := True\<rparr>;
             h1 = h @ [VerifyBundle (RawBundle (ra_Bundle candidate))]
         in case pe_verify env h (RawBundle (ra_Bundle candidate)) of
              Inl _ \<Rightarrow> examine_candidates env p afterMutation rest (found\<lparr>cf_verificationFailed := True\<rparr>) h1
            | Inr verified \<Rightarrow>
                if matchesPublishedBundle p verified \<and> may_commit p afterMutation then (None, h1)
                else examine_candidates env p afterMutation rest (found\<lparr>cf_verifiedForeign := True\<rparr>) h1))"

definition decide_flags :: "candidate_flags \<Rightarrow> bool \<Rightarrow> bool \<Rightarrow> observationDecision" where
  "decide_flags flags attestationsFound exhausted =
     (if cf_verifiedForeign flags \<and> \<not> cf_verificationFailed flags then decided PublishForeignConflict True
      else if exhausted then
        (if \<not> cf_foundRequired flags \<and> attestationsFound then decided PublishForeignConflict True
         else if cf_foundRequired flags \<and> cf_verificationFailed flags then decided PublishIndeterminate True
         else decided PublishForeignConflict True)
      else decided PublishIndeterminate False)"

definition decide ::
  "publish_env \<Rightarrow> preparedPublish \<Rightarrow> registryObservation \<Rightarrow> bool \<Rightarrow> bool \<Rightarrow> event list
   \<Rightarrow> observationDecision \<times> event list" where
  "decide env p ob afterMutation exhausted h =
     (if ro_packumentErr ob \<noteq> None \<or> ro_attestationErr ob \<noteq> None then
        (decided PublishIndeterminate exhausted, h)
      else if \<not> ro_packageExists ob then
        (if afterMutation then (decided PublishIndeterminate exhausted, h)
         else ((decided PublishAbsent True)\<lparr>od_packageAbsent := True\<rparr>, h))
      else case ro_version ob of
        None \<Rightarrow>
          if afterMutation then (decided PublishIndeterminate exhausted, h) else (decided PublishAbsent True, h)
      | Some version \<Rightarrow>
          (case normalizeSHA512SRI (rv_Integrity version) of
             None \<Rightarrow> (decided PublishIndeterminate exhausted, h)
           | Some actualSRI \<Rightarrow>
               if actualSRI \<noteq> pp_expectedSRI p
                  \<or> \<not> registryTarballMatches (rv_Tarball version) (pk_TarballName (ep_Package (pp_parameters p))) then
                 (decided PublishForeignConflict True, h)
               else
                 (case examine_candidates env p afterMutation (as_Attestations (ro_attestations ob))
                         \<lparr>cf_foundRequired = False, cf_verifiedForeign = False, cf_verificationFailed = False\<rparr> h of
                    (None, h1) \<Rightarrow> (decided PublishCommittedAsExpected True, h1)
                  | (Some flags, h1) \<Rightarrow> (decide_flags flags (as_Found (ro_attestations ob)) exhausted, h1))))"

section \<open>The observation log\<close>

record publishObservationSummary =
  os_expectedSRI :: string
  os_first :: string
  os_latestChanged :: string
  os_final :: string
  os_observations :: nat
  os_changes :: nat

definition newPublishObservationSummary :: "string \<Rightarrow> publishObservationSummary" where
  "newPublishObservationSummary expectedSRI =
     \<lparr>os_expectedSRI = expectedSRI, os_first = [], os_latestChanged = [], os_final = [],
      os_observations = 0, os_changes = 0\<rparr>"

definition observation_line :: "string \<Rightarrow> registryObservation \<Rightarrow> string" where
  "observation_line expectedSRI ob =
     (let readable = (ro_packumentErr ob = None);
          packageState = (if \<not> readable then ''unknown''
            else if ro_packageExists ob then ''present'' else ''absent'');
          versionState = (if \<not> readable then ''unknown''
            else if ro_version ob \<noteq> None then ''present'' else ''absent'');
          integrityState = (if \<not> readable then ''unknown''
            else case ro_version ob of None \<Rightarrow> ''unknown''
            | Some version \<Rightarrow>
                (case normalizeSHA512SRI (rv_Integrity version) of
                   None \<Rightarrow> ''malformed''
                 | Some normalized \<Rightarrow> if normalized = expectedSRI then ''match'' else ''mismatch''));
          attestationState = (if ro_attestationErr ob \<noteq> None then ''unknown''
            else if as_Found (ro_attestations ob) then ''present'' else ''absent'');
          errorState = (if ro_packumentErr ob \<noteq> None \<and> ro_attestationErr ob \<noteq> None then ''both''
            else if ro_packumentErr ob \<noteq> None then ''packument''
            else if ro_attestationErr ob \<noteq> None then ''attestation'' else ''none'')
      in ''package='' @ packageState @ '' version='' @ versionState @ '' integrity='' @ integrityState
         @ '' attestations='' @ attestationState @ '' errors='' @ errorState)"

definition summary_record :: "publishObservationSummary \<Rightarrow> registryObservation \<Rightarrow> publishObservationSummary" where
  "summary_record summary ob =
     (let current = observation_line (os_expectedSRI summary) ob;
          counted = summary\<lparr>os_observations := os_observations summary + 1\<rparr>;
          changed = (if os_observations counted = 1 then counted\<lparr>os_first := current\<rparr>
            else if current \<noteq> os_first counted \<and> current \<noteq> os_latestChanged counted then
              counted\<lparr>os_changes := os_changes counted + 1, os_latestChanged := current\<rparr>
            else counted)
      in changed\<lparr>os_final := current\<rparr>)"

text \<open>%q of a line built from fixed words, which need no escape.\<close>

definition go_quoted :: "string \<Rightarrow> string" where "go_quoted s = [CHR 0x22] @ s @ [CHR 0x22]"

definition summary_format :: "publishObservationSummary \<Rightarrow> bool \<Rightarrow> PublishState \<Rightarrow> string" where
  "summary_format summary afterMutation decision =
     ''readback after_mutation='' @ (if afterMutation then ''true'' else ''false'')
     @ '' observations='' @ show_nat (os_observations summary)
     @ '' changes='' @ show_nat (os_changes summary) @ '' first='' @ go_quoted (os_first summary) @ '' ''
     @ (if os_latestChanged summary \<noteq> [] then ''latest_changed='' @ go_quoted (os_latestChanged summary) @ '' ''
        else [])
     @ ''final='' @ go_quoted (os_final summary) @ '' decision='' @ PublishState_text decision"

section \<open>Polling\<close>

text \<open>The local variables of classify that its loop changes.\<close>

record poll_state =
  ps_reduced :: bool
  ps_sawVersion :: bool
  ps_sawCleanAbsence :: bool
  ps_summary :: publishObservationSummary

type_synonym poll_result = "observationDecision \<times> go_error option"

text \<open>One pass of the loop: \<^const>\<open>Inl\<close> when it returns, \<^const>\<open>Inr\<close> when it goes round again.\<close>

definition after_wait ::
  "publish_env \<Rightarrow> poll_state \<Rightarrow> event list \<Rightarrow> (poll_result \<times> poll_state \<times> event list) + (poll_state \<times> event list)" where
  "after_wait env st h =
     (case pe_sleep env h publishPollInterval of
        Some err \<Rightarrow> Inl ((decided PublishIndeterminate True, Some err), st, h @ [SleepFor publishPollInterval])
      | None \<Rightarrow> Inr (st, h @ [SleepFor publishPollInterval]))"

definition at_deadline ::
  "publish_env \<Rightarrow> preparedPublish \<Rightarrow> bool \<Rightarrow> registryObservation \<Rightarrow> poll_state \<Rightarrow> event list
   \<Rightarrow> poll_result \<times> poll_state \<times> event list" where
  "at_deadline env p afterMutation ob st h =
     (let (final, h1) = decide env p ob afterMutation True h in
      (if od_state final = PublishIndeterminate then
         (final, Some (publish_error ''registry polling budget exhausted without authoritative evidence''))
       else (final, None), st, h1))"

definition poll_step ::
  "publish_env \<Rightarrow> preparedPublish \<Rightarrow> bool \<Rightarrow> int \<Rightarrow> int \<Rightarrow> poll_state \<Rightarrow> event list
   \<Rightarrow> (poll_result \<times> poll_state \<times> event list) + (poll_state \<times> event list)" where
  "poll_step env p afterMutation deadline reducedDeadline st h =
     (let observedAt = pe_now env h;
          (ob, h1) = observe env p (h @ [Clock]);
          st1 = st\<lparr>ps_sawVersion := ps_sawVersion st \<or> (ro_packumentErr ob = None \<and> ro_version ob \<noteq> None),
                   ps_sawCleanAbsence := ps_sawCleanAbsence st \<or>
                     (ro_packumentErr ob = None \<and> ro_version ob = None \<and> ps_reduced st
                      \<and> \<not> observedAt > reducedDeadline),
                   ps_summary := summary_record (ps_summary st) ob\<rparr>;
          (decision, h2) = decide env p ob afterMutation False h1
      in if od_terminal decision then Inl ((decision, None), st1, h2)
         else
           (let now = pe_now env h2; h3 = h2 @ [Clock];
                expired = (ps_reduced st1 \<and> \<not> now < reducedDeadline);
                st2 = (if expired then st1\<lparr>ps_reduced := False\<rparr> else st1)
            in if expired \<and> \<not> ps_sawVersion st1 \<and> ps_sawCleanAbsence st1 then
                 Inl ((decided PublishAbsent True, None), st2, h3)
               else if \<not> now < deadline then Inl (at_deadline env p afterMutation ob st2 h3)
               else after_wait env st2 h3))"

text \<open>A world in which the clock stands still keeps the loop going for ever: \<^const>\<open>None\<close>.\<close>

partial_function (option) poll_loop ::
  "publish_env \<Rightarrow> preparedPublish \<Rightarrow> bool \<Rightarrow> int \<Rightarrow> int \<Rightarrow> poll_state \<Rightarrow> event list
   \<Rightarrow> (poll_result \<times> poll_state \<times> event list) option" where
  "poll_loop env p afterMutation deadline reducedDeadline st h =
     (case poll_step env p afterMutation deadline reducedDeadline st h of
        Inl r \<Rightarrow> Some r
      | Inr (st', h') \<Rightarrow> poll_loop env p afterMutation deadline reducedDeadline st' h')"

declare poll_loop.simps [code]

definition classify ::
  "publish_env \<Rightarrow> preparedPublish \<Rightarrow> bool \<Rightarrow> bool \<Rightarrow> event list \<Rightarrow> (poll_result \<times> event list) option" where
  "classify env p afterMutation e422 h =
     (let start = pe_now env h;
          st0 = \<lparr>ps_reduced = (afterMutation \<and> e422), ps_sawVersion = False, ps_sawCleanAbsence = False,
                 ps_summary = newPublishObservationSummary (pp_expectedSRI p)\<rparr>
      in map_option (\<lambda>((decision, err), st, h').
           ((decision\<lparr>od_committedAfterRejection := (e422 \<and> ps_sawVersion st)\<rparr>, err),
            h' @ [DebugLine (summary_format (ps_summary st) afterMutation (od_state decision))]))
         (poll_loop env p afterMutation (start + publishPollBudget) (start + publishRejectedPollBudget)
            st0 (h @ [Clock])))"

section \<open>npm\<close>

definition runNPMCommand ::
  "publish_env \<Rightarrow> preparedPublish \<Rightarrow> event list \<Rightarrow> string list \<Rightarrow> (string \<times> go_error option) \<times> event list" where
  "runNPMCommand env p h arguments =
     (let h1 = h @ [Isolate] in
      case pe_isolate env h of
        NoDirectory \<Rightarrow> (([], Some (publish_error ''create isolated npm configuration directory'')), h1)
      | NoUserConfig \<Rightarrow> (([], Some (publish_error ''create isolated npm user configuration'')), h1)
      | NoGlobalConfig \<Rightarrow> (([], Some (publish_error ''create isolated npm global configuration'')), h1)
      | Isolated directory \<Rightarrow>
          (pe_run env h1 (pr_NPMExecutable (pp_request p))
             (publishEnvironment (pe_upper env) (pe_Environ env) directory
                (Join [directory, ''user.npmrc'']) (Join [directory, ''global.npmrc''])) arguments,
           h1 @ [RunNPM arguments]))"

definition runNPM ::
  "publish_env \<Rightarrow> preparedPublish \<Rightarrow> event list \<Rightarrow> (string \<times> go_error option) \<times> event list" where
  "runNPM env p h =
     (let request = pp_request p;
          (tarball, h1) = verifiedPublishFile env h (pr_TarballPath request) ''.tgz'' maxTarballSize
      in if \<not> (case tarball of Inl _ \<Rightarrow> False | Inr bytes \<Rightarrow> tarball_matches request bytes) then
           (([], Some (publish_error ''tarball handoff changed before npm invocation'')), h1)
         else if \<not> oe_ExpiresAt (pr_OIDCExchange request) > pe_now env h1 then
           (([], Some (publish_error ''trusted-publisher exchange expired before npm invocation'')), h1 @ [Clock])
         else
           (let (bundle, h2) = verifiedPublishFile env (h1 @ [Clock]) (pr_BundlePath request)
                  ''.intoto.jsonl'' maxPublishBundleSize
            in if \<not> (case bundle of Inl _ \<Rightarrow> False | Inr bytes \<Rightarrow> bundle_matches request bytes) then
                 (([], Some (publish_error ''bundle handoff changed before npm invocation'')), h2)
               else runNPMCommand env p h2 (pp_argv p)))"

text \<open>The error, and the prepared publication with the observed version recorded in it.\<close>

definition validateNPMVersion ::
  "libraries \<Rightarrow> publish_env \<Rightarrow> preparedPublish \<Rightarrow> event list
   \<Rightarrow> go_error option \<times> preparedPublish \<times> event list" where
  "validateNPMVersion libs env p h =
     (case runNPMCommand env p h [''--version''] of
        ((version, Some err), h1) \<Rightarrow> (Some (ErrWrap ''observe npm version before publish: %w'' [] [err]), p, h1)
      | ((version, None), h1) \<Rightarrow>
          if \<not> exactSemver (lib_semver libs) version \<or> Contains version ''-'' then
            (Some (publish_error (''observe npm version before publish: npm did not report an exact ''
               @ ''three-part version'')), p, h1)
          else
            (let p1 = p\<lparr>pp_metadata := Some \<lparr>md_PackageManifest = None, md_PublishNPMVersion = Some version\<rparr>\<rparr> in
             case decodePublishPin (lib_publish_pin libs) of
               Inl err \<Rightarrow> (Some (ErrWrap ''load publish npm pin: %w'' [] [err]), p1, h1)
             | Inr pin \<Rightarrow>
                 if version \<noteq> pn_Version pin then
                   (Some (npmValidationError publishPinMismatch ''npm.publish.toolchain''
                      (''npm version mismatch: publish pin is '' @ go_quoted (pn_Version pin)
                       @ '' but publish resolved '' @ go_quoted version)), p1, h1)
                 else (None, p1, h1)))"

section \<open>Publishing\<close>

definition readback_outcome ::
  "libraries \<Rightarrow> publish_env \<Rightarrow> preparedPublish \<Rightarrow> bool \<Rightarrow> poll_result \<Rightarrow> publish_outcome" where
  "readback_outcome libs env p e422Rejected result =
     (let (decision, readbackErr) = result; state = od_state decision;
          fail = (\<lambda>s ident message extra. prepared_failure libs env p s True ident ''npm.publish.readback''
            (publish_error message) extra)
      in if e422Rejected \<and> state = PublishAbsent then
           fail PublishAbsent IDPublishRejectedUnprocessable
             (''npm rejected the publication as unprocessable and no committed publication was observed'') []
         else
           (case (if od_committedAfterRejection decision then
                    map_result (\<lambda>w. [w]) (New (lib_transform libs) IDPublishCommittedAfterRejection
                      ''npm.publish.readback''
                      ''npm reported E422 but registry read-back observed a committed publication'')
                  else Inr []) of
              Inl err \<Rightarrow> Unreported err
            | Inr rejectionDiagnostics \<Rightarrow>
                if readbackErr \<noteq> None \<or> state = PublishIndeterminate then
                  fail PublishIndeterminate IDRegistryLinkageMismatch ''publication outcome is indeterminate''
                    rejectionDiagnostics
                else if state = PublishForeignConflict then
                  fail PublishForeignConflict IDRegistryLinkageMismatch
                    ''published registry evidence conflicts with the verified handoff'' rejectionDiagnostics
                else if state \<noteq> PublishCommittedAsExpected then
                  fail PublishIndeterminate IDRegistryLinkageMismatch ''publication did not converge''
                    rejectionDiagnostics
                else success libs env p True rejectionDiagnostics))"

text \<open>From the decision to mutate on.\<close>

definition mutate ::
  "libraries \<Rightarrow> publish_env \<Rightarrow> preparedPublish \<Rightarrow> event list \<Rightarrow> (publish_outcome \<times> event list) option" where
  "mutate libs env p h =
     (let ((output, mutationErr), h1) = runNPM env p h;
          rejectedID = (if mutationErr \<noteq> None then definitivePublishError (lib_lower libs) output else []);
          e422Rejected = (mutationErr \<noteq> None \<and> npmErrorCode (lib_lower libs) output = ''e422'')
      in if rejectedID \<noteq> [] then
           Some (prepared_failure libs env p PublishAbsent True rejectedID ''npm.publish.mutation''
             (publish_error ''npm rejected publication before commit'') [], h1)
         else map_option (\<lambda>(result, h2). (readback_outcome libs env p e422Rejected result, h2))
                (classify env p True e422Rejected h1))"

definition entry_failure ::
  "libraries \<Rightarrow> publish_env \<Rightarrow> preparedPublish \<Rightarrow> poll_result \<Rightarrow> publish_outcome option" where
  "entry_failure libs env p entry =
     (let (decision, err) = entry in
      case err of
        Some e \<Rightarrow> Some (prepared_failure libs env p PublishIndeterminate False
                    IDPrepublishRegistryMetadataRequired ''npm.publish.entry-revalidation'' e [])
      | None \<Rightarrow>
          if od_packageAbsent decision then
            Some (prepared_failure libs env p PublishAbsent False IDUnsupportedInitialPublication
              ''npm.publish.package-identity'' (publish_error ''npm package identity does not already exist'') [])
          else (case od_state decision of
              PublishForeignConflict \<Rightarrow>
                Some (prepared_failure libs env p PublishForeignConflict False IDAlreadyPublishedVersion
                  ''npm.publish.convergence'' (publish_error ''registry version is foreign to this run'') [])
            | PublishIndeterminate \<Rightarrow>
                Some (prepared_failure libs env p PublishIndeterminate False
                  IDPrepublishRegistryMetadataRequired ''npm.publish.entry-revalidation''
                  (publish_error ''registry entry state is indeterminate'') [])
            | _ \<Rightarrow> None))"

definition builderVersionMismatchID :: string where
  "builderVersionMismatchID = npm_error_id ''builder-version-mismatch''"

definition Publish ::
  "libraries \<Rightarrow> publish_env \<Rightarrow> PublishRequest \<Rightarrow> (publish_outcome \<times> event list) option" where
  "Publish libs env request =
     (case preparePublish libs env [] request of
        (Inl err, h) \<Rightarrow>
          Some (publishFailure libs env request PublishIndeterminate False
            (diagnosticIDOr err IDBundleByteFormatMismatch) ''npm.publish.entry'' err, h)
      | (Inr p, h) \<Rightarrow>
          (case classify env p False False h of
             None \<Rightarrow> None
           | Some (entry, h1) \<Rightarrow>
               (case entry_failure libs env p entry of
                  Some outcome \<Rightarrow> Some (outcome, h1)
                | None \<Rightarrow>
                    (let state = od_state (fst entry) in
                     case validateNPMVersion libs env p h1 of
                       (Some err, p1, h2) \<Rightarrow>
                         Some (prepared_failure libs env p1 state False
                           (diagnosticIDOr err builderVersionMismatchID) ''npm.publish.toolchain'' err [], h2)
                     | (None, p1, h2) \<Rightarrow>
                         if state = PublishCommittedAsExpected then Some (success libs env p1 False [], h2)
                         else mutate libs env p1 h2))))"

end
