(* ===== verification/SigningSpec.thy ===== *)
theory SigningSpec
  imports Signing
begin

text \<open>
  What holds of the signing input (Signing): the release identity, and that the profile never refuses the
  statement the code itself assembled from a bound input.
\<close>

section \<open>The checks of the code on its own statement\<close>

lemma parse_digest_text:
  "ParseSHA256 s = Inr d \<Longrightarrow> SHA256_String d = s \<and> \<not> digestEncodingInvalid s 64 \<and> s \<noteq> []"
  "ParseSHA512 s = Inr e \<Longrightarrow> SHA512_String e = s \<and> \<not> digestEncodingInvalid s 128 \<and> s \<noteq> []"
proof -
  assume "ParseSHA256 s = Inr d"
  then have w: "wf256 d" "SHA256_String d = s" by (simp_all add: sha256.parse_iff)
  then have "length s = 64" "list_all is_lower_hex s"
    by (auto simp: SHA256_String_def wf256_def)
  with w show "SHA256_String d = s \<and> \<not> digestEncodingInvalid s 64 \<and> s \<noteq> []"
    by (auto simp: digestEncodingInvalid_def)
next
  assume "ParseSHA512 s = Inr e"
  then have w: "wf512 e" "SHA512_String e = s" by (simp_all add: sha512.parse_iff)
  then have "length s = 128" "list_all is_lower_hex s"
    by (auto simp: SHA512_String_def wf512_def)
  with w show "SHA512_String e = s \<and> \<not> digestEncodingInvalid s 128 \<and> s \<noteq> []"
    by (auto simp: digestEncodingInvalid_def)
qed

lemma decode_parameters_strict:
  "DecodeExternalParameters libs encoded = Inr p \<Longrightarrow> Equal encoded encoded = Inr True"
proof -
  assume "DecodeExternalParameters libs encoded = Inr p"
  then obtain v where v: "parseStrict encoded = Inr v"
    by (auto simp: DecodeExternalParameters_def decode_parameters_def split: sum.splits)
  then have "equalValues v v" by (simp add: equalValues_refl parseStrict_lenient)
  with v show ?thesis by (simp add: Equal_def)
qed

lemma identity_groups_own_repository:
  "validateIdentityGroups sv p [] = None \<Longrightarrow> validateIdentityGroups sv p (sp_Repository (ep_Source p)) = None"
  by (simp add: validateIdentityGroups_def Let_def split: if_splits)

lemma decode_parameters_valid:
  assumes "DecodeExternalParameters libs encoded = Inr p"
  shows "validateExternalParameters libs p [] = None"
    and "validateExternalParameters libs p (sp_Repository (ep_Source p)) = None"
proof -
  show "validateExternalParameters libs p [] = None"
    using assms by (auto simp: DecodeExternalParameters_def split: sum.splits)
  then show "validateExternalParameters libs p (sp_Repository (ep_Source p)) = None"
    by (simp add: validateExternalParameters_def identity_groups_own_repository)
qed

lemma decoded_purl:
  assumes "DecodeExternalParameters libs encoded = Inr p"
  obtains purl where "NPMPackagePURL (pk_Name (ep_Package p)) (pk_Version (ep_Package p)) = Inr purl"
  using decode_parameters_valid(1) [OF assms]
  by (auto simp: validateExternalParameters_def validatePackageParameters_def Let_def split: if_splits sum.splits)

lemma release_ref_prefix:
  assumes "ValidateReleaseRef r = None" and "TrimPrefix r ''refs/tags/'' = t"
  shows "r = ''refs/tags/'' @ t"
proof -
  have "HasPrefix r ''refs/tags/''"
    using assms(1)
    by (auto simp: ValidateReleaseRef_def validReleaseRef_def CutPrefix_def split: if_splits option.splits)
  then obtain u where "r = ''refs/tags/'' @ u" by (auto simp: HasPrefix_iff)
  then show ?thesis using assms(2) TrimPrefix_append [of "''refs/tags/''" u] by simp
qed

text \<open>The release identity is accepted exactly when the three refs are one well-formed full tag ref, its
  name is the version tag, and the tag peels to the very source revision that is signed.\<close>

theorem release_ref_equality_exact:
  "ValidateReleaseRefEquality sourceRef releaseRef runtimeRef versionTag sourceRevision peeledRevision = None \<longleftrightarrow>
     releaseRef = sourceRef \<and> runtimeRef = sourceRef \<and> sourceRef = ''refs/tags/'' @ versionTag \<and>
     ValidateReleaseRef sourceRef = None \<and>
     peeledRevision = sourceRevision \<and> ValidateFullSHA sourceRevision = None"
proof -
  have "TrimPrefix (''refs/tags/'' @ versionTag) ''refs/tags/'' = versionTag"
    by (rule TrimPrefix_append)
  then show ?thesis
    using release_ref_prefix [of sourceRef versionTag]
    by (auto simp: ValidateReleaseRefEquality_def)
qed

definition own_version :: "NPMProvenanceInput \<Rightarrow> bool" where
  "own_version input \<longleftrightarrow> node_version (pi_NodeJSVersion input) \<and>
     (case pi_CorepackVersion input of None \<Rightarrow> True | Some v \<Rightarrow> component_version v)"

lemma own_builder:
  "validateBuilder (pd_Builder (signing_predicate input))
     \<lparr>be_NodeJSVersion = pi_NodeJSVersion input, be_CorepackVersion = pi_CorepackVersion input\<rparr> = None \<longleftrightarrow>
   own_version input"
  by (cases "pi_CorepackVersion input")
    (auto simp: validateBuilder_def signing_predicate_def validateBuilderVersion_def own_version_def Let_def
      validateBuilderDependencies_def signingAdapterURI_def signingAdapterDigest_def string_at_def)

lemma own_internal_parameters:
  "transform ''[{}]'' = Inr ''[{}]'' \<Longrightarrow> validateInternalParameters transform ''{}'' = None"
proof -
  assume t: "transform ''[{}]'' = Inr ''[{}]''"
  have "Validate ''{}'' = None" by code_simp
  with t show ?thesis by (simp add: validateInternalParameters_def Canonicalize_def Let_def)
qed

definition own_subject :: "NPMProvenanceInput \<Rightarrow> string \<Rightarrow> Subject" where
  "own_subject input purl =
     \<lparr>sj_Name = purl, sj_Digest =
        [(''sha256'', pa_SHA256 (bm_PrimaryArtifact (pi_BuildMetadata input))),
         (''sha512'', pa_SHA512 (bm_PrimaryArtifact (pi_BuildMetadata input)))]\<rparr>"

text \<open>The profile's own checks never refuse the statement the code assembled from a bound input.\<close>

lemma own_profile:
  assumes decoded: "DecodeExternalParameters libs (bm_ExternalParameters (pi_BuildMetadata input)) = Inr p"
    and bound: "validateInputBindings libs input p = None"
    and d256: "ParseSHA256 (pa_SHA256 (bm_PrimaryArtifact (pi_BuildMetadata input))) = Inr d"
    and d512: "ParseSHA512 (pa_SHA512 (bm_PrimaryArtifact (pi_BuildMetadata input))) = Inr e"
    and purl: "NPMPackagePURL (pk_Name (ep_Package p)) (pk_Version (ep_Package p)) = Inr purl"
  shows "run_profile (Some (npm_profile libs (input_validator input p)))
    (signing_Statement (own_subject input purl) PredicateType (signing_predicate input)) = None"
proof -
  have "npm_ValidateSubject (input_validator input p) (own_subject input purl) = None"
    using parse_digest_text(1) [OF d256] parse_digest_text(2) [OF d512] purl
    by (simp add: npm_ValidateSubject_def input_validator_def own_subject_def Let_def)
  moreover have "npm_ValidateExternalParameters libs (input_validator input p)
      (bm_ExternalParameters (pi_BuildMetadata input)) = None"
    using decoded decode_parameters_valid(2) [OF decoded] decode_parameters_strict [OF decoded]
    by (simp add: npm_ValidateExternalParameters_def input_validator_def Let_def)
  moreover have "npm_ValidateResolvedDependencies libs (input_validator input p)
      (bm_ResolvedDependencies (pi_BuildMetadata input)) = None"
    using bound by (simp add: validateInputBindings_def Let_def split: if_splits)
  ultimately show ?thesis
    by (simp add: run_profile_def npm_profile_def signing_Statement_def signing_predicate_def)
qed

definition signable :: "libraries \<Rightarrow> NPMProvenanceInput \<Rightarrow> ExternalParameters \<Rightarrow> bool" where
  "signable libs input p \<longleftrightarrow>
     own_version input \<and>
     (\<exists>r. ParseRunInvocationURI (pi_InvocationID input) (sp_Repository (ep_Source p)) = Inr r) \<and>
     (\<exists>ds. validateTimestamps (pd_Metadata (signing_predicate input)) = Inr ds)"

lemma own_statement_validates:
  assumes decoded: "DecodeExternalParameters libs (bm_ExternalParameters (pi_BuildMetadata input)) = Inr p"
    and bound: "validateInputBindings libs input p = None"
    and d256: "ParseSHA256 (pa_SHA256 (bm_PrimaryArtifact (pi_BuildMetadata input))) = Inr d"
    and d512: "ParseSHA512 (pa_SHA512 (bm_PrimaryArtifact (pi_BuildMetadata input))) = Inr e"
    and purl: "NPMPackagePURL (pk_Name (ep_Package p)) (pk_Version (ep_Package p)) = Inr purl"
    and transform: "lib_transform libs ''[{}]'' = Inr ''[{}]''"
  shows "ValidateNPMStatement libs
      (signing_Statement (own_subject input purl) PredicateType (signing_predicate input)) input = None \<longleftrightarrow>
    signable libs input p"
proof -
  note profile = own_profile [OF decoded bound d256 d512 purl]
  have parts: "bd_BuildType (pd_BuildDefinition (signing_predicate input)) = NPMBuildType"
    "bd_InternalParameters (pd_BuildDefinition (signing_predicate input)) = ''{}''"
    "b_ID (pd_Builder (signing_predicate input)) = pi_BuilderID input"
    "m_InvocationID (pd_Metadata (signing_predicate input)) = pi_InvocationID input"
    "m_StartedOn (pd_Metadata (signing_predicate input)) = pi_StartedOn input"
    "m_FinishedOn (pd_Metadata (signing_predicate input)) = pi_FinishedOn input"
    by (simp_all add: signing_predicate_def)
  let ?st = "signing_Statement (own_subject input purl) PredicateType (signing_predicate input)"
  have st: "st_Type ?st = StatementType" "st_PredicateType ?st = PredicateType" "length (st_Subject ?st) = 1"
    "st_BuildDefinition ?st = pd_BuildDefinition (signing_predicate input)"
    "st_Builder ?st = pd_Builder (signing_predicate input)"
    "st_Metadata ?st = pd_Metadata (signing_predicate input)"
    by (simp_all add: signing_Statement_def)
  have vb: "(validateBuilder (pd_Builder (signing_predicate input))
     \<lparr>be_NodeJSVersion = pi_NodeJSVersion input, be_CorepackVersion = pi_CorepackVersion input\<rparr> = None) =
    own_version input"
    by (rule own_builder)
  show ?thesis
  proof (cases "own_version input")
    case True
    with vb show ?thesis
      unfolding ValidateNPMStatement_def Statement_Validate_def signable_def
      by (auto simp: decoded parts st profile own_internal_parameters [where transform = "lib_transform libs", OF transform]
          Let_def split: sum.splits)
  next
    case False
    with vb obtain err where "validateBuilder (pd_Builder (signing_predicate input))
        \<lparr>be_NodeJSVersion = pi_NodeJSVersion input, be_CorepackVersion = pi_CorepackVersion input\<rparr> = Some err"
      by (cases "validateBuilder (pd_Builder (signing_predicate input))
        \<lparr>be_NodeJSVersion = pi_NodeJSVersion input, be_CorepackVersion = pi_CorepackVersion input\<rparr>") auto
    with False show ?thesis
      unfolding ValidateNPMStatement_def Statement_Validate_def signable_def
      by (simp add: decoded parts st own_internal_parameters [where transform = "lib_transform libs", OF transform] Let_def)
  qed
qed


text \<open>C7: A signing input is produced exactly when the parameters decode, the input is bound to them, both
  digests parse and the builder versions, the run invocation and the timestamps are well formed: the
  validation of the assembled statement by the npm profile adds no other refusal.  What is signed is
  determined: the package URL, the two digests of the packed tarball, the metadata's own parameters
  and dependencies byte for byte, and the observed builder.\<close>

theorem signing_input_exact:
  assumes "lib_transform libs ''[{}]'' = Inr ''[{}]''"
  shows "NewProvenanceSigningInput libs input = Inr si \<longleftrightarrow>
    (\<exists>p purl. DecodeExternalParameters libs (bm_ExternalParameters (pi_BuildMetadata input)) = Inr p \<and>
       validateInputBindings libs input p = None \<and>
       is_ok (ParseSHA256 (pa_SHA256 (bm_PrimaryArtifact (pi_BuildMetadata input)))) \<and>
       is_ok (ParseSHA512 (pa_SHA512 (bm_PrimaryArtifact (pi_BuildMetadata input)))) \<and>
       NPMPackagePURL (pk_Name (ep_Package p)) (pk_Version (ep_Package p)) = Inr purl \<and>
       signable libs input p \<and>
       si_Subject si = own_subject input purl \<and> si_PredicateType si = PredicateType \<and>
       si_Predicate si = signing_predicate input \<and>
       Predicate_CanonicalJSON (lib_transform libs) (signing_predicate input) = Inr (si_PredicateJSON si) \<and>
       Statement_CanonicalJSON (lib_transform libs)
         (signing_Statement (own_subject input purl) PredicateType (signing_predicate input)) =
         Inr (si_StatementJSON si) \<and>
       si_StatementFileName si = NPMProvenanceStatementFile)"
proof (cases "DecodeExternalParameters libs (bm_ExternalParameters (pi_BuildMetadata input))")
  case (Inr p)
  obtain purl where purl: "NPMPackagePURL (pk_Name (ep_Package p)) (pk_Version (ep_Package p)) = Inr purl"
    using decoded_purl [OF Inr] by blast
  show ?thesis
  proof (cases "validateInputBindings libs input p = None \<and>
      is_ok (ParseSHA256 (pa_SHA256 (bm_PrimaryArtifact (pi_BuildMetadata input)))) \<and>
      is_ok (ParseSHA512 (pa_SHA512 (bm_PrimaryArtifact (pi_BuildMetadata input))))")
    case True
    then obtain d e where d: "ParseSHA256 (pa_SHA256 (bm_PrimaryArtifact (pi_BuildMetadata input))) = Inr d"
      and e: "ParseSHA512 (pa_SHA512 (bm_PrimaryArtifact (pi_BuildMetadata input))) = Inr e"
      by (auto simp: is_ok_iff)
    have own: "\<lparr>sj_Name = purl, sj_Digest = [(''sha256'', SHA256_String d), (''sha512'', SHA512_String e)]\<rparr> =
        own_subject input purl"
      using parse_digest_text(1) [OF d] parse_digest_text(2) [OF e] by (simp add: own_subject_def)
    show ?thesis
      unfolding NewProvenanceSigningInput_def Let_def
      using own_statement_validates [OF Inr _ d e purl assms] True
      by (cases si) (auto simp: Inr d e purl own split: option.splits sum.splits)
  next
    case False
    then show ?thesis
      by (auto simp: NewProvenanceSigningInput_def Let_def Inr purl is_ok_iff split: option.splits sum.splits)
  qed
qed (simp add: NewProvenanceSigningInput_def Let_def)

definition reference_libraries :: libraries where
  "reference_libraries = \<lparr>lib_semver = reference_semver, lib_lower = id, lib_transform = Inr, lib_runtime_pin = [],
     lib_publish_pin = []\<rparr>"

definition empty_input :: NPMProvenanceInput where
  "empty_input =
     \<lparr>pi_BuildMetadata = \<lparr>bm_SchemaVersion = ''1'', bm_StartedOn = [], bm_FinishedOn = [],
        bm_PrimaryArtifact = \<lparr>pa_ArtifactName = ''a'', pa_PayloadFileName = ''p.tgz'', pa_SHA256 = [], pa_SHA512 = []\<rparr>,
        bm_ExternalParameters = ''{}'', bm_ResolvedDependencies = []\<rparr>,
      pi_BuilderID = [], pi_NodeJSVersion = [], pi_CorepackVersion = None, pi_InvocationID = [],
      pi_StartedOn = [], pi_FinishedOn = [], pi_RuntimeReleaseRef = [], pi_PeeledReleaseRevision = []\<rparr>"

lemma signing_input_exact_witness:
  "\<forall>si. NewProvenanceSigningInput reference_libraries empty_input \<noteq> Inr si"
proof -
  have "isl (DecodeExternalParameters reference_libraries ''{}'')"
  proof -
    have "parseStrict ''{}'' = Inr (JObj [])" by code_simp
    moreover have "validateExternalParameterShape (JObj []) \<noteq> None"
      by (simp add: validateExternalParameterShape_def raw_object_def exactObjectKeys_def parameter_shapes_def)
    ultimately show ?thesis
      by (auto simp: DecodeExternalParameters_def decode_parameters_def split: sum.splits)
  qed
  then have "\<not> (\<exists>p. DecodeExternalParameters reference_libraries
      (bm_ExternalParameters (pi_BuildMetadata empty_input)) = Inr p)"
    by (auto simp: empty_input_def)
  moreover have "lib_transform reference_libraries ''[{}]'' = Inr ''[{}]''"
    by (simp add: reference_libraries_def)
  ultimately show ?thesis using signing_input_exact [of reference_libraries empty_input] by blast
qed

end
