(* ===== verification/PublishSpec.thy ===== *)
theory PublishSpec
  imports Publish SigningSpec
begin

text \<open>
  What holds of publishing (Publish): the commands it runs and what guards them, the abstract transaction
  it implements, the evidence behind a success, and that it ends.
\<close>

section \<open>What a call adds to the history\<close>

definition npm_call :: "event \<Rightarrow> bool" where
  "npm_call e \<longleftrightarrow> (\<exists>args. e = RunNPM args)"

definition npm_calls :: "event list \<Rightarrow> event list" where
  "npm_calls h = filter npm_call h"

definition observations :: "event list \<Rightarrow> nat" where
  "observations h = length (filter (\<lambda>e. e = ReadPackument) h)"

lemma npm_call_simps [simp]:
  "npm_call (RunNPM args)" "\<not> npm_call Clock" "\<not> npm_call (ReadFile path n)" "\<not> npm_call (VerifyBundle b)"
  "\<not> npm_call ReadPackument" "\<not> npm_call ReadAttestations" "\<not> npm_call Isolate" "\<not> npm_call (SleepFor d)"
  "\<not> npm_call (DebugLine line)"
  by (simp_all add: npm_call_def)

lemma npm_calls_simps [simp]:
  "npm_calls [] = []" "npm_calls (h @ k) = npm_calls h @ npm_calls k"
  "npm_calls (e # h) = (if npm_call e then e # npm_calls h else npm_calls h)"
  by (simp_all add: npm_calls_def)

lemma observations_simps [simp]:
  "observations [] = 0" "observations (h @ k) = observations h + observations k"
  "observations (e # h) = (if e = ReadPackument then Suc (observations h) else observations h)"
  by (simp_all add: observations_def)

definition verifying :: "event list \<Rightarrow> bool" where
  "verifying es \<longleftrightarrow> (\<forall>e \<in> set es. \<exists>b. e = VerifyBundle b)"

lemma verifying_simps [simp]:
  "verifying []" "verifying (h @ k) \<longleftrightarrow> verifying h \<and> verifying k"
  "verifying (e # h) \<longleftrightarrow> (\<exists>b. e = VerifyBundle b) \<and> verifying h"
  by (auto simp: verifying_def)

lemma verifying_quiet: "verifying es \<Longrightarrow> npm_calls es = [] \<and> observations es = 0"
  by (induction es) auto

lemma examine_extends:
  "\<exists>es. snd (examine_candidates env p am cs flags h) = h @ es \<and> verifying es"
proof (induction cs arbitrary: flags h)
  case (Cons c cs)
  let ?h = "h @ [VerifyBundle (RawBundle (ra_Bundle c))]"
  have step: "\<exists>es. snd (examine_candidates env p am cs f ?h) = h @ es \<and> verifying es" for f
    using Cons [of f ?h] by (metis append.assoc append_Cons append_Nil verifying_simps(1,2,3))
  show ?case
    using Cons [of flags h] step by (auto simp: Let_def split: sum.splits)
qed simp

lemma decide_extends:
  "\<exists>es. snd (decide env p ob am ex h) = h @ es \<and> verifying es"
  using examine_extends [of env p am "as_Attestations (ro_attestations ob)"
      "\<lparr>cf_foundRequired = False, cf_verifiedForeign = False, cf_verificationFailed = False\<rparr>" h]
  by (auto simp: decide_def split: option.splits prod.splits)

lemma observe_history: "snd (observe env p h) = h @ [ReadPackument, ReadAttestations]"
  by (simp add: observe_def Let_def)

text \<open>A pass of the loop that goes round again read the clock before the deadline and slept.\<close>

lemma poll_step_again:
  assumes "poll_step env p am deadline reducedDeadline st h = Inr (st', h')"
  obtains es where "verifying es"
    and "h' = h @ [Clock, ReadPackument, ReadAttestations] @ es @ [Clock, SleepFor publishPollInterval]"
    and "pe_now env (h @ [Clock, ReadPackument, ReadAttestations] @ es) < deadline"
    and "pe_sleep env (h @ [Clock, ReadPackument, ReadAttestations] @ es @ [Clock]) publishPollInterval = None"
proof -
  obtain ob h1 where ob: "observe env p (h @ [Clock]) = (ob, h1)" by (cases "observe env p (h @ [Clock])")
  then have h1: "h1 = h @ [Clock, ReadPackument, ReadAttestations]"
    using observe_history [of env p "h @ [Clock]"] by simp
  obtain d h2 where d: "decide env p ob am False h1 = (d, h2)" by (cases "decide env p ob am False h1")
  then obtain es where es: "h2 = h1 @ es" "verifying es"
    using decide_extends [of env p ob am False h1] by auto
  show thesis
    using assms ob d that [of es] es
    by (auto simp: poll_step_def Let_def after_wait_def h1 split: if_splits option.splits)
qed

lemma poll_step_done:
  assumes "poll_step env p am deadline reducedDeadline st h = Inl (r, st', h')"
  shows "\<exists>es. h' = h @ es \<and> npm_calls es = [] \<and> observations es = 1"
proof -
  obtain ob h1 where ob: "observe env p (h @ [Clock]) = (ob, h1)" by (cases "observe env p (h @ [Clock])")
  then have h1: "h1 = h @ [Clock, ReadPackument, ReadAttestations]"
    using observe_history [of env p "h @ [Clock]"] by simp
  obtain d h2 where d: "decide env p ob am False h1 = (d, h2)" by (cases "decide env p ob am False h1")
  then obtain es where es: "h2 = h1 @ es" "verifying es"
    using decide_extends [of env p ob am False h1] by auto
  obtain f h4 where f: "decide env p ob am True (h2 @ [Clock]) = (f, h4)"
    by (cases "decide env p ob am True (h2 @ [Clock])")
  then obtain fs where fs: "h4 = h2 @ [Clock] @ fs" "verifying fs"
    using decide_extends [of env p ob am True "h2 @ [Clock]"] by auto
  show ?thesis
    using assms ob d f es fs verifying_quiet [OF es(2)] verifying_quiet [OF fs(2)]
    by (auto simp: poll_step_def Let_def after_wait_def at_deadline_def h1 split: if_splits option.splits)
qed

section \<open>Polling ends\<close>

text \<open>A clock that never goes back and that a sleep advances by its duration.\<close>

definition steady_clock :: "publish_env \<Rightarrow> bool" where
  "steady_clock env \<longleftrightarrow>
     (\<forall>h es. pe_now env h \<le> pe_now env (h @ es)) \<and>
     (\<forall>h d es. pe_sleep env h d = None \<longrightarrow> pe_now env h + d \<le> pe_now env (h @ SleepFor d # es))"

lemma steady_later: "steady_clock env \<Longrightarrow> pe_now env h \<le> pe_now env (h @ es)"
  by (simp add: steady_clock_def)

lemma steady_slept:
  "steady_clock env \<Longrightarrow> pe_sleep env h d = None \<Longrightarrow> pe_now env h + d \<le> pe_now env (h @ [SleepFor d])"
  by (simp add: steady_clock_def)

lemma poll_loop_ends:
  assumes "steady_clock env" and "deadline - pe_now env h \<le> int n * publishPollInterval"
  shows "\<exists>r st' es. poll_loop env p am deadline reducedDeadline st h = Some (r, st', h @ es) \<and>
    npm_calls es = [] \<and> observations es \<le> n + 1"
  using assms(2)
proof (induction n arbitrary: st h)
  case 0
  show ?case
  proof (cases "poll_step env p am deadline reducedDeadline st h")
    case (Inl x)
    obtain r st' h' where x: "x = (r, st', h')" by (cases x)
    from poll_step_done [OF Inl [unfolded x]] Inl x show ?thesis
      by (auto simp: poll_loop.simps [of env p am deadline reducedDeadline st h])
  next
    case (Inr y)
    obtain st' h' where y: "y = (st', h')" by (cases y)
    from poll_step_again [OF Inr [unfolded y]] obtain es where
      "pe_now env (h @ [Clock, ReadPackument, ReadAttestations] @ es) < deadline" by metis
    with 0 steady_later [OF assms(1), of h "[Clock, ReadPackument, ReadAttestations] @ es"] show ?thesis by simp
  qed
next
  case (Suc n)
  show ?case
  proof (cases "poll_step env p am deadline reducedDeadline st h")
    case (Inl x)
    obtain r st' h' where x: "x = (r, st', h')" by (cases x)
    from poll_step_done [OF Inl [unfolded x]] Inl x show ?thesis
      by (auto simp: poll_loop.simps [of env p am deadline reducedDeadline st h])
  next
    case (Inr y)
    obtain st' h' where y: "y = (st', h')" by (cases y)
    from poll_step_again [OF Inr [unfolded y]] obtain es where es: "verifying es"
      and h': "h' = h @ [Clock, ReadPackument, ReadAttestations] @ es @ [Clock, SleepFor publishPollInterval]"
      and slept: "pe_sleep env (h @ [Clock, ReadPackument, ReadAttestations] @ es @ [Clock]) publishPollInterval = None"
      by metis
    let ?g = "h @ [Clock, ReadPackument, ReadAttestations] @ es @ [Clock]"
    have "pe_now env h + publishPollInterval \<le> pe_now env h'"
      using steady_slept [OF assms(1) slept]
        steady_later [OF assms(1), of h "[Clock, ReadPackument, ReadAttestations] @ es @ [Clock]"]
      by (simp add: h')
    with Suc.prems have "deadline - pe_now env h' \<le> int n * publishPollInterval"
      by (simp add: algebra_simps)
    from Suc.IH [OF this, of st'] obtain r st'' fs where
      "poll_loop env p am deadline reducedDeadline st' h' = Some (r, st'', h' @ fs)"
      "npm_calls fs = []" "observations fs \<le> n + 1" by blast
    with Inr y h' verifying_quiet [OF es] show ?thesis
      by (auto simp: poll_loop.simps [of env p am deadline reducedDeadline st h])
  qed
qed

lemma classify_ends:
  assumes "steady_clock env"
  shows "\<exists>r es. classify env p am e422 h = Some (r, h @ es) \<and> npm_calls es = [] \<and> observations es \<le> 21"
proof -
  let ?start = "pe_now env h"
  have "(?start + publishPollBudget) - pe_now env (h @ [Clock]) \<le> int 20 * publishPollInterval"
    using steady_later [OF assms, of h "[Clock]"] by (simp add: publishPollBudget_def publishPollInterval_def)
  from poll_loop_ends [OF assms this, of p am "?start + publishRejectedPollBudget"
      "\<lparr>ps_reduced = (am \<and> e422), ps_sawVersion = False, ps_sawCleanAbsence = False,
        ps_summary = newPublishObservationSummary (pp_expectedSRI p)\<rparr>"]
  obtain r st' es where "poll_loop env p am (?start + publishPollBudget) (?start + publishRejectedPollBudget)
      \<lparr>ps_reduced = (am \<and> e422), ps_sawVersion = False, ps_sawCleanAbsence = False,
        ps_summary = newPublishObservationSummary (pp_expectedSRI p)\<rparr> (h @ [Clock]) =
      Some (r, st', (h @ [Clock]) @ es)" "npm_calls es = []" "observations es \<le> 21"
    by auto
  then show ?thesis by (cases r) (auto simp: classify_def Let_def)
qed

text \<open>Without any assumption on the clock: whatever polling returns, it ran no command.\<close>

lemma poll_loop_extends:
  "poll_loop env p am deadline reducedDeadline st h = Some x \<Longrightarrow>
   \<exists>es. snd (snd x) = h @ es \<and> npm_calls es = []"
proof (rule poll_loop.raw_induct
    [where P = "\<lambda>env p am deadline reducedDeadline st h x. \<exists>es. snd (snd x) = h @ es \<and> npm_calls es = []"])
  fix loop env p am deadline reducedDeadline st h x
  assume hyp: "\<And>env p am deadline reducedDeadline st h x.
      loop env p am deadline reducedDeadline st h = Some x \<Longrightarrow> \<exists>es. snd (snd x) = h @ es \<and> npm_calls es = []"
    and body: "(case poll_step env p am deadline reducedDeadline st h of
        Inl r \<Rightarrow> Some r | Inr (st', h') \<Rightarrow> loop env p am deadline reducedDeadline st' h') = Some x"
  show "\<exists>es. snd (snd x) = h @ es \<and> npm_calls es = []"
  proof (cases "poll_step env p am deadline reducedDeadline st h")
    case (Inl y)
    with body have "poll_step env p am deadline reducedDeadline st h = Inl (fst x, fst (snd x), snd (snd x))" by simp
    from poll_step_done [OF this] show ?thesis by blast
  next
    case (Inr y)
    obtain st'' h'' where y: "y = (st'', h'')" by (cases y)
    with body Inr have "loop env p am deadline reducedDeadline st'' h'' = Some x" by simp
    from hyp [OF this] obtain es where "snd (snd x) = h'' @ es" "npm_calls es = []" by blast
    moreover from poll_step_again [OF Inr [unfolded y]] obtain fs where
      "verifying fs" "h'' = h @ [Clock, ReadPackument, ReadAttestations] @ fs @ [Clock, SleepFor publishPollInterval]"
      by metis
    ultimately show ?thesis using verifying_quiet by auto
  qed
qed

lemma poll_loop_quiet:
  "poll_loop env p am deadline reducedDeadline st h = Some (r, st', h') \<Longrightarrow> \<exists>es. h' = h @ es \<and> npm_calls es = []"
  using poll_loop_extends [of env p am deadline reducedDeadline st h "(r, st', h')"] by simp

lemma classify_quiet:
  "classify env p am e422 h = Some (r, h') \<Longrightarrow> \<exists>es. h' = h @ es \<and> npm_calls es = []"
proof -
  assume "classify env p am e422 h = Some (r, h')"
  then obtain r' st' h'' where "poll_loop env p am (pe_now env h + publishPollBudget)
      (pe_now env h + publishRejectedPollBudget)
      \<lparr>ps_reduced = (am \<and> e422), ps_sawVersion = False, ps_sawCleanAbsence = False,
       ps_summary = newPublishObservationSummary (pp_expectedSRI p)\<rparr> (h @ [Clock]) = Some (r', st', h'')"
    and h': "\<exists>line. h' = h'' @ [DebugLine line]"
    by (auto simp: classify_def Let_def)
  from poll_loop_quiet [OF this(1)] h' show ?thesis by auto
qed

section \<open>What runs before npm\<close>

lemma file_history:
  "verifiedPublishFile env h path ending n = (r, h') \<Longrightarrow>
   (h' = h \<or> h' = h @ [ReadFile path n]) \<and> (is_ok r \<longrightarrow> h' = h @ [ReadFile path n] \<and> r = pe_read env h path n)"
  by (auto simp: verifiedPublishFile_def split: if_splits option.splits)

lemma file_quiet: "verifiedPublishFile env h path ending n = (r, h') \<Longrightarrow> \<exists>es. h' = h @ es \<and> npm_calls es = []"
  using file_history [of env h path ending n r h'] by auto

lemma bindings_quiet:
  "validatePreparedBindings env h request verified parameters = (r, h') \<Longrightarrow> \<exists>es. h' = h @ es \<and> npm_calls es = []"
  by (auto simp: validatePreparedBindings_def Let_def split: if_splits sum.splits)

lemma file_calls: "verifiedPublishFile env h path ending n = (r, h') \<Longrightarrow> npm_calls h' = npm_calls h"
  using file_quiet [of env h path ending n r h'] by auto

lemma bindings_calls:
  "validatePreparedBindings env h request verified parameters = (r, h') \<Longrightarrow> npm_calls h' = npm_calls h"
  using bindings_quiet [of env h request verified parameters r h'] by auto

lemma prepare_quiet: "preparePublish libs env h request = (r, h') \<Longrightarrow> npm_calls h' = npm_calls h"
  unfolding preparePublish_def Let_def
  by (simp split: option.splits sum.splits prod.splits if_splits)
    (auto dest!: file_calls bindings_calls)

lemma command_calls:
  "runNPMCommand env p h arguments = (r, h') \<Longrightarrow>
   h' = h @ [Isolate] \<and> snd r \<noteq> None \<or> h' = h @ [Isolate, RunNPM arguments]"
  by (auto simp: runNPMCommand_def Let_def split: isolation.splits)

text \<open>How a publication that runs npm looks: the last reads, the clock and the answers they had.\<close>

definition guarded_run :: "publish_env \<Rightarrow> preparedPublish \<Rightarrow> event list \<Rightarrow> bool" where
  "guarded_run env p h \<longleftrightarrow>
     (let request = pp_request p; h1 = h @ [ReadFile (pr_TarballPath request) maxTarballSize] in
      (\<exists>bytes. pe_read env h (pr_TarballPath request) maxTarballSize = Inr bytes \<and> tarball_matches request bytes) \<and>
      pe_now env h1 < oe_ExpiresAt (pr_OIDCExchange request) \<and>
      (\<exists>bytes. pe_read env (h1 @ [Clock]) (pr_BundlePath request) maxPublishBundleSize = Inr bytes \<and>
         bundle_matches request bytes))"

definition run_events :: "preparedPublish \<Rightarrow> event list" where
  "run_events p = [ReadFile (pr_TarballPath (pp_request p)) maxTarballSize, Clock,
     ReadFile (pr_BundlePath (pp_request p)) maxPublishBundleSize, Isolate, RunNPM (pp_argv p)]"

lemma runNPM_calls:
  assumes "runNPM env p h = (r, h')"
  shows "(\<exists>es. h' = h @ es \<and> npm_calls es = []) \<or> (h' = h @ run_events p \<and> guarded_run env p h)"
proof -
  obtain t h1 where t: "verifiedPublishFile env h (pr_TarballPath (pp_request p)) ''.tgz'' maxTarballSize = (t, h1)"
    by (cases "verifiedPublishFile env h (pr_TarballPath (pp_request p)) ''.tgz'' maxTarballSize")
  obtain b h2 where b: "verifiedPublishFile env (h1 @ [Clock]) (pr_BundlePath (pp_request p)) ''.intoto.jsonl''
      maxPublishBundleSize = (b, h2)"
    by (cases "verifiedPublishFile env (h1 @ [Clock]) (pr_BundlePath (pp_request p)) ''.intoto.jsonl''
      maxPublishBundleSize")
  note ht = file_history [OF t] file_quiet [OF t] and hb = file_history [OF b] file_quiet [OF b]
  show ?thesis
  proof (cases "(case t of Inl _ \<Rightarrow> False | Inr bytes \<Rightarrow> tarball_matches (pp_request p) bytes) \<and>
      oe_ExpiresAt (pr_OIDCExchange (pp_request p)) > pe_now env h1 \<and>
      (case b of Inl _ \<Rightarrow> False | Inr bytes \<Rightarrow> bundle_matches (pp_request p) bytes)")
    case True
    then have "runNPM env p h = runNPMCommand env p h2 (pp_argv p)"
      by (simp add: runNPM_def t b Let_def)
    with assms have "h' = h2 @ [Isolate] \<or> h' = h2 @ [Isolate, RunNPM (pp_argv p)]"
      using command_calls by metis
    moreover have "guarded_run env p h" "h2 = h @ [ReadFile (pr_TarballPath (pp_request p)) maxTarballSize, Clock,
        ReadFile (pr_BundlePath (pp_request p)) maxPublishBundleSize]"
      using True ht hb by (auto simp: guarded_run_def Let_def split: sum.splits; metis)+
    ultimately show ?thesis by (auto simp: run_events_def)
  next
    case False
    with assms have "h' = h1 \<or> h' = h1 @ [Clock] \<or> h' = h2"
      by (auto simp: runNPM_def t b Let_def split: if_splits)
    moreover obtain es fs where "h1 = h @ es" "npm_calls es = []" "h2 = (h1 @ [Clock]) @ fs" "npm_calls fs = []"
      using file_quiet [OF t] file_quiet [OF b] by metis
    ultimately show ?thesis by auto
  qed
qed

text \<open>The check of the npm version, and what it leaves alone.\<close>

definition pinned_version_seen :: "libraries \<Rightarrow> publish_env \<Rightarrow> preparedPublish \<Rightarrow> event list \<Rightarrow> bool" where
  "pinned_version_seen libs env p h \<longleftrightarrow>
     (\<exists>pin environment. decodePublishPin (lib_publish_pin libs) = Inr pin \<and>
        pe_run env (h @ [Isolate]) (pr_NPMExecutable (pp_request p)) environment [''--version''] =
          (pn_Version pin, None))"

lemma version_calls:
  assumes "validateNPMVersion libs env p h = (err, p1, h1)"
  shows "pp_request p1 = pp_request p \<and> pp_argv p1 = pp_argv p \<and> pp_runInvocation p1 = pp_runInvocation p \<and>
    (\<exists>es. h1 = h @ es \<and> npm_calls es \<in> {[], [RunNPM [''--version'']]}) \<and>
    (err = None \<longrightarrow> h1 = h @ [Isolate, RunNPM [''--version'']] \<and> pinned_version_seen libs env p h)"
proof -
  obtain v e h' where c: "runNPMCommand env p h [''--version''] = ((v, e), h')"
    by (metis surj_pair)
  from command_calls [OF c] have calls: "h' = h @ [Isolate] \<and> e \<noteq> None \<or> h' = h @ [Isolate, RunNPM [''--version'']]"
    by simp
  have "h1 = h'" "pp_request p1 = pp_request p" "pp_argv p1 = pp_argv p" "pp_runInvocation p1 = pp_runInvocation p"
    using assms c by (auto simp: validateNPMVersion_def Let_def split: option.splits if_splits sum.splits)
  moreover have "err = None \<Longrightarrow> e = None \<and> pinned_version_seen libs env p h"
  proof -
    assume "err = None"
    then obtain pin where pin: "decodePublishPin (lib_publish_pin libs) = Inr pin" "v = pn_Version pin" "e = None"
      using assms c by (auto simp: validateNPMVersion_def Let_def split: option.splits if_splits sum.splits)
    from c pin(3) obtain environment where
      "pe_run env (h @ [Isolate]) (pr_NPMExecutable (pp_request p)) environment [''--version''] = (v, None)"
      by (auto simp: runNPMCommand_def Let_def split: isolation.splits)
    with pin show ?thesis by (auto simp: pinned_version_seen_def)
  qed
  ultimately show ?thesis using calls by auto
qed


section \<open>The transaction\<close>

text \<open>
  The abstract contract: the phases of one publication, and the npm commands a transition runs.  Its
  last phase holds the final state, whether the mutation phase was entered, and success.
\<close>

datatype phase = Start | Entered PublishState | Checked | Mutating | ReadBack | Done PublishState bool bool

inductive txn :: "string list \<Rightarrow> phase \<Rightarrow> event list \<Rightarrow> phase \<Rightarrow> bool" for argv where
  refuse: "txn argv Start [] (Done PublishIndeterminate False False)"
| enter: "txn argv Start [] (Entered s)"
| refuse_entry: "s \<noteq> PublishCommittedAsExpected \<Longrightarrow> txn argv (Entered s) [] (Done s False False)"
| bad_toolchain: "s = PublishCommittedAsExpected \<or> s = PublishAbsent \<Longrightarrow> es = [] \<or> es = [RunNPM [''--version'']] \<Longrightarrow>
    txn argv (Entered s) es (Done s False False)"
| converged: "txn argv (Entered PublishCommittedAsExpected) [RunNPM [''--version'']]
    (Done PublishCommittedAsExpected False True)"
| checked: "txn argv (Entered PublishAbsent) [RunNPM [''--version'']] Checked"
| begin_mutation: "es = [] \<or> es = [RunNPM argv] \<Longrightarrow> txn argv Checked es Mutating"
| rejected: "txn argv Mutating [] (Done PublishAbsent True False)"
| read_back: "txn argv Mutating [] ReadBack"
| unresolved: "s \<noteq> PublishCommittedAsExpected \<Longrightarrow> txn argv ReadBack [] (Done s True False)"
| committed: "txn argv ReadBack [] (Done PublishCommittedAsExpected True True)"

inductive txn_path :: "string list \<Rightarrow> phase \<Rightarrow> event list \<Rightarrow> phase \<Rightarrow> bool" for argv where
  stay: "txn_path argv s [] s"
| step: "txn_path argv s es t \<Longrightarrow> txn argv t fs u \<Longrightarrow> txn_path argv s (es @ fs) u"

lemma txn_one: "txn argv s es t \<Longrightarrow> txn_path argv s es t"
  using txn_path.step [OF txn_path.stay, of argv s es t] by simp

lemma txn_path_append:
  "txn_path argv t fs u \<Longrightarrow> txn_path argv s es t \<Longrightarrow> txn_path argv s (es @ fs) u"
proof (induction arbitrary: s es rule: txn_path.induct)
  case (step s' es' t' fs' u')
  then show ?case using txn_path.step [of argv s "es @ es'" t' fs' u'] by simp
qed simp

text \<open>The concrete outcome as the last phase of the contract; a report that cannot be built has none.\<close>

definition outcome_phase :: "publish_outcome \<Rightarrow> phase option" where
  "outcome_phase outcome =
     (case outcome of
        Unreported _ \<Rightarrow> None
      | Reported r err \<Rightarrow> Some (Done (pu_State r) (pu_MutationAttempted r) (err = None)))"

lemma failure_phase:
  "outcome_phase (failure libs env uri md s attempted ident check cause extra) = Some ph \<Longrightarrow> ph = Done s attempted False"
  by (auto simp: failure_def outcome_phase_def Let_def split: sum.splits option.splits)

lemma prepared_failure_phase:
  "outcome_phase (prepared_failure libs env p s attempted ident check cause extra) = Some ph \<Longrightarrow>
   ph = Done s attempted False"
  unfolding prepared_failure_def by (rule failure_phase)

lemma success_phase:
  "outcome_phase (success libs env p attempted extra) = Some ph \<Longrightarrow>
   ph = Done PublishCommittedAsExpected attempted True"
  by (auto simp: success_def outcome_phase_def split: sum.splits)

lemma readback_phase:
  assumes "outcome_phase (readback_outcome libs env p e422 result) = Some ph"
  shows "txn argv ReadBack [] ph"
proof (cases ph)
  case (Done s attempted ok)
  with assms show ?thesis
    by (auto simp: readback_outcome_def Let_def outcome_phase_def [of "Unreported _"] split: prod.splits if_splits sum.splits
        dest!: prepared_failure_phase success_phase intro: txn.intros)
qed (use assms in \<open>auto simp: outcome_phase_def split: publish_outcome.splits\<close>)

lemma mutate_path:
  assumes "mutate libs env p h = Some (outcome, h')"
  shows "\<exists>es. h' = h @ es \<and>
    (npm_calls es = [] \<or> npm_calls es = [RunNPM (pp_argv p)] \<and> (\<exists>fs. es = run_events p @ fs) \<and> guarded_run env p h) \<and>
    (\<forall>ph. outcome_phase outcome = Some ph \<longrightarrow> txn_path (pp_argv p) Checked (npm_calls es) ph)"
proof -
  obtain r h1 where r: "runNPM env p h = (r, h1)" by (cases "runNPM env p h")
  obtain out err where rv: "r = (out, err)" by (cases r)
  from runNPM_calls [OF r] obtain es where es: "h1 = h @ es"
    and run: "npm_calls es = [] \<or> es = run_events p \<and> guarded_run env p h" by auto
  have calls: "npm_calls es = [] \<or> npm_calls es = [RunNPM (pp_argv p)] \<and> es = run_events p \<and> guarded_run env p h"
    using run by (auto simp: run_events_def)
  then have start: "txn_path (pp_argv p) Checked (npm_calls es) Mutating"
    by (auto intro: txn_one txn.begin_mutation)
  show ?thesis
  proof (cases "err \<noteq> None \<and> definitivePublishError (lib_lower libs) out \<noteq> []")
    case True
    with assms r rv have "outcome = prepared_failure libs env p PublishAbsent True
        (definitivePublishError (lib_lower libs) out) ''npm.publish.mutation''
        (publish_error ''npm rejected publication before commit'') []" "h' = h1"
      by (auto simp: mutate_def Let_def)
    then have "\<forall>ph. outcome_phase outcome = Some ph \<longrightarrow> txn_path (pp_argv p) Checked (npm_calls es) ph"
      using txn_path.step [OF start txn.rejected] by (auto dest!: prepared_failure_phase)
    with es \<open>h' = h1\<close> calls show ?thesis by auto
  next
    case False
    with assms r rv obtain e result where c: "classify env p True e h1 = Some (result, h')"
      and o: "outcome = readback_outcome libs env p e result"
      by (auto simp: mutate_def Let_def split: if_splits)
    from classify_quiet [OF c] obtain fs where fs: "h' = h1 @ fs" "npm_calls fs = []" by auto
    have "txn_path (pp_argv p) Checked (npm_calls es @ [] @ []) ph" if "outcome_phase outcome = Some ph" for ph
      using txn_path.step [OF txn_path.step [OF start txn.read_back] readback_phase] that o by simp
    with es fs calls show ?thesis by auto
  qed
qed

lemma version_path:
  assumes "validateNPMVersion libs env p h = (err, p1, h1)"
  shows "\<exists>es. h1 = h @ es \<and> (npm_calls es = [] \<or> npm_calls es = [RunNPM [''--version'']])"
  using version_calls [OF assms] by auto

lemma entry_failure_phase:
  assumes "entry_failure libs env p entry = Some outcome" and "outcome_phase outcome = Some ph"
  shows "txn_path argv Start [] ph"
proof -
  have enter: "txn_path argv Start [] (Entered s)" for s by (rule txn_one, rule txn.enter)
  from assms have "ph = Done PublishIndeterminate False False \<or> (\<exists>s. s \<noteq> PublishCommittedAsExpected \<and> ph = Done s False False)"
    by (auto simp: entry_failure_def split: prod.splits option.splits if_splits PublishState.splits
        dest!: prepared_failure_phase)
  then show ?thesis
    using txn_path.step [OF enter txn.refuse_entry, of _ ] by auto
qed

text \<open>The ways a publication can go, with the commands it ran.\<close>

lemma publish_trace:
  assumes "Publish libs env request = Some (outcome, h)"
  shows "(npm_calls h = [] \<or> npm_calls h = [RunNPM [''--version'']] \<or>
      (\<exists>p h0 d h1 rest. preparePublish libs env [] request = (Inr p, h0) \<and>
        classify env p False False h0 = Some ((d, None), h1) \<and> od_state d = PublishAbsent \<and>
        \<not> od_packageAbsent d \<and> pinned_version_seen libs env p h1 \<and>
        guarded_run env p (h1 @ [Isolate, RunNPM [''--version'']]) \<and>
        h = h1 @ [Isolate, RunNPM [''--version'']] @ run_events p @ rest \<and> npm_calls rest = [])) \<and>
    (\<forall>ph. outcome_phase outcome = Some ph \<longrightarrow> (\<exists>argv. txn_path argv Start (npm_calls h) ph))"
proof -
  obtain prep h0 where prep: "preparePublish libs env [] request = (prep, h0)"
    by (cases "preparePublish libs env [] request")
  have h0: "npm_calls h0 = []" using prepare_quiet [OF prep] by simp
  show ?thesis
  proof (cases prep)
    case (Inl err)
    with assms prep h0 show ?thesis
      by (auto simp: Publish_def publishFailure_def Let_def dest!: failure_phase intro: txn_one txn.refuse)
  next
    case (Inr p)
    with assms prep obtain entry h1 where c: "classify env p False False h0 = Some (entry, h1)"
      by (auto simp: Publish_def split: option.splits)
    have h1: "npm_calls h1 = []" using classify_quiet [OF c] h0 by auto
    obtain d e where entry: "entry = (d, e)" by (cases entry)
    show ?thesis
    proof (cases "entry_failure libs env p entry")
      case (Some o')
      with assms prep Inr c have "outcome = o'" "h = h1" by (auto simp: Publish_def)
      with h1 entry_failure_phase [OF Some] show ?thesis by auto
    next
      case None
      then have e: "e = None" and state: "od_state d = PublishCommittedAsExpected \<or> od_state d = PublishAbsent"
        and present: "\<not> od_packageAbsent d"
        using entry by (auto simp: entry_failure_def split: option.splits if_splits PublishState.splits)
      obtain verr p1 h2 where v: "validateNPMVersion libs env p h1 = (verr, p1, h2)"
        by (cases "validateNPMVersion libs env p h1")
      note vc = version_calls [OF v]
      have enter: "txn_path argv Start [] (Entered (od_state d))" for argv by (rule txn_one, rule txn.enter)
      show ?thesis
      proof (cases verr)
        case (Some x)
        with assms prep Inr c None v entry have "outcome = prepared_failure libs env p1 (od_state d) False
            (diagnosticIDOr x builderVersionMismatchID) ''npm.publish.toolchain'' x []" "h = h2"
          by (auto simp: Publish_def)
        moreover have "txn_path argv Start (npm_calls h2) (Done (od_state d) False False)" for argv
          using txn_path.step [OF enter txn.bad_toolchain [where es = "npm_calls h2"]] state vc h1 by auto
        ultimately show ?thesis using vc h1 by (auto dest!: prepared_failure_phase)
      next
        case verr: None
        with vc have h2: "h2 = h1 @ [Isolate, RunNPM [''--version'']]" and pin: "pinned_version_seen libs env p h1"
          by auto
        show ?thesis
        proof (cases "od_state d = PublishCommittedAsExpected")
          case True
          with assms prep Inr c None v entry verr have "outcome = success libs env p1 False []" "h = h2"
            by (auto simp: Publish_def)
          moreover have "txn_path argv Start [RunNPM [''--version'']] (Done PublishCommittedAsExpected False True)" for argv
            using txn_path.step [OF enter [unfolded True] txn.converged] by simp
          ultimately show ?thesis using h1 h2 by (auto dest!: success_phase)
        next
          case False
          with state have absent: "od_state d = PublishAbsent" by simp
          with assms prep Inr c None v entry verr have m: "mutate libs env p1 h2 = Some (outcome, h)"
            by (auto simp: Publish_def)
          have checked: "txn_path argv Start [RunNPM [''--version'']] Checked" for argv
            using txn_path.step [OF enter [unfolded absent] txn.checked] by simp
          have same: "pp_argv p1 = pp_argv p" "run_events p1 = run_events p" "guarded_run env p1 h' = guarded_run env p h'" for h'
            using vc by (simp_all add: run_events_def guarded_run_def Let_def)
          from mutate_path [OF m] obtain es where es: "h = h2 @ es"
            and calls: "npm_calls es = [] \<or> npm_calls es = [RunNPM (pp_argv p)] \<and> (\<exists>fs. es = run_events p @ fs) \<and>
              guarded_run env p h2"
            and path: "\<And>ph. outcome_phase outcome = Some ph \<Longrightarrow> txn_path (pp_argv p) Checked (npm_calls es) ph"
            unfolding same by auto
          have "txn_path (pp_argv p) Start (npm_calls h) ph" if "outcome_phase outcome = Some ph" for ph
            using txn_path_append [OF path [OF that] checked] es h1 h2 by simp
          moreover have "npm_calls fs = []" if "npm_calls es = [RunNPM (pp_argv p)]" "es = run_events p @ fs" for fs
            using that by (auto simp: run_events_def)
          moreover have "npm_calls h = [RunNPM [''--version'']] @ npm_calls es" using es h1 h2 by simp
          ultimately show ?thesis
            using calls es h1 h2 prep Inr c entry e absent present pin by auto
        qed
      qed
    qed
  qed
qed

text \<open>What the contract itself guarantees: success is a commit, and the mutation phase is always reported.\<close>

inductive_cases done_txn [elim]: "txn argv (Done s a ok) es t"

fun finished :: "phase \<Rightarrow> bool" where
  "finished (Done _ _ _) = True"
| "finished _ = False"

lemma txn_contract:
  "txn_path argv s es t \<Longrightarrow>
     (\<not> finished s \<and> t = Done st a True \<longrightarrow> st = PublishCommittedAsExpected) \<and>
     (s \<in> {Checked, Mutating, ReadBack} \<longrightarrow> t \<in> {Checked, Mutating, ReadBack} \<or> (\<exists>st ok. t = Done st True ok))"
proof (induction arbitrary: st a rule: txn_path.induct)
  case (step s es t fs u)
  from step.hyps(2) show ?case
    by (cases rule: txn.cases) (use step.IH in auto)
qed auto

section \<open>Evidence of a commit\<close>

definition published_evidence :: "publish_env \<Rightarrow> preparedPublish \<Rightarrow> bool" where
  "published_evidence env p \<longleftrightarrow>
     (\<exists>ho ob version candidate hv verified.
        ob = fst (observe env p ho) \<and> ro_packumentErr ob = None \<and> ro_attestationErr ob = None \<and>
        ro_version ob = Some version \<and>
        normalizeSHA512SRI (rv_Integrity version) = Some (pp_expectedSRI p) \<and>
        registryTarballMatches (rv_Tarball version) (pk_TarballName (ep_Package (pp_parameters p))) \<and>
        candidate \<in> set (as_Attestations (ro_attestations ob)) \<and>
        ra_PredicateType candidate = npmSLSAPredicateType \<and>
        pe_verify env hv (RawBundle (ra_Bundle candidate)) = Inr verified \<and>
        matchesPublishedBundle p verified)"

lemma examine_commit:
  "examine_candidates env p am cs flags h = (None, h') \<Longrightarrow>
   \<exists>candidate hv verified. candidate \<in> set cs \<and> ra_PredicateType candidate = npmSLSAPredicateType \<and>
     pe_verify env hv (RawBundle (ra_Bundle candidate)) = Inr verified \<and> matchesPublishedBundle p verified"
proof (induction cs arbitrary: flags h)
  case (Cons c cs)
  show ?case
  proof (cases "\<exists>flags' h''. examine_candidates env p am cs flags' h'' = (None, h')")
    case True
    with Cons.IH show ?thesis by (meson list.set_intros(2))
  next
    case False
    with Cons.prems have "ra_PredicateType c = npmSLSAPredicateType"
      "\<exists>verified. pe_verify env h (RawBundle (ra_Bundle c)) = Inr verified \<and> matchesPublishedBundle p verified"
      by (auto simp: Let_def split: if_splits sum.splits)
    then show ?thesis by (meson list.set_intros(1))
  qed
qed simp

lemma decide_commit:
  assumes "decide env p (fst (observe env p ho)) am ex h = (d, h')" and "od_state d = PublishCommittedAsExpected"
  shows "published_evidence env p"
proof -
  let ?ob = "fst (observe env p ho)"
  obtain r h1 where r: "examine_candidates env p am (as_Attestations (ro_attestations ?ob))
      \<lparr>cf_foundRequired = False, cf_verifiedForeign = False, cf_verificationFailed = False\<rparr> h = (r, h1)"
    by (metis surj_pair)
  note d = assms(1) [unfolded decide_def] assms(2)
  have ok: "ro_packumentErr ?ob = None" "ro_attestationErr ?ob = None"
    using d by (auto simp: decided_def split: if_splits)
  obtain version where version: "ro_version ?ob = Some version"
    using d by (cases "ro_version ?ob") (auto simp: decided_def split: if_splits)
  have sri: "normalizeSHA512SRI (rv_Integrity version) = Some (pp_expectedSRI p)"
    and tarball: "registryTarballMatches (rv_Tarball version) (pk_TarballName (ep_Package (pp_parameters p)))"
    using d version by (cases "normalizeSHA512SRI (rv_Integrity version)"; auto simp: decided_def split: if_splits)+
  have "r = None"
    using d version r sri tarball ok by (cases r) (auto simp: decided_def decide_flags_def split: if_splits)
  with examine_commit [of env p am _ _ h h1] r obtain candidate hv verified where
    "candidate \<in> set (as_Attestations (ro_attestations ?ob))" "ra_PredicateType candidate = npmSLSAPredicateType"
    "pe_verify env hv (RawBundle (ra_Bundle candidate)) = Inr verified" "matchesPublishedBundle p verified"
    by blast
  with ok version sri tarball show ?thesis
    unfolding published_evidence_def by blast
qed

lemma poll_step_commit:
  assumes "poll_step env p am deadline reducedDeadline st h = Inl ((d, e), st', h')"
    and "od_state d = PublishCommittedAsExpected"
  shows "published_evidence env p \<and> e = None"
proof -
  obtain ob h1 where o: "observe env p (h @ [Clock]) = (ob, h1)" by (metis surj_pair)
  then have ob: "ob = fst (observe env p (h @ [Clock]))" by simp
  obtain d1 h2 where d1: "decide env p ob am False h1 = (d1, h2)" by (metis surj_pair)
  obtain d2 h4 where d2: "decide env p ob am True (h2 @ [Clock]) = (d2, h4)" by (metis surj_pair)
  have "(d = d1 \<or> d = d2) \<and> e = None"
    using assms o d1 d2 by (auto simp: poll_step_def Let_def at_deadline_def after_wait_def decided_def
        split: if_splits option.splits)
  with assms(2) decide_commit [OF d1 [unfolded ob]] decide_commit [OF d2 [unfolded ob]] show ?thesis by auto
qed

lemma poll_loop_commit:
  "poll_loop env p am deadline reducedDeadline st h = Some x \<Longrightarrow>
   od_state (fst (fst x)) = PublishCommittedAsExpected \<longrightarrow> published_evidence env p"
proof (rule poll_loop.raw_induct
    [where P = "\<lambda>env p am deadline reducedDeadline st h x.
       od_state (fst (fst x)) = PublishCommittedAsExpected \<longrightarrow> published_evidence env p"])
  fix loop env p am deadline reducedDeadline st h x
  assume hyp: "\<And>env p am deadline reducedDeadline st h x.
      loop env p am deadline reducedDeadline st h = Some x \<Longrightarrow>
      od_state (fst (fst x)) = PublishCommittedAsExpected \<longrightarrow> published_evidence env p"
    and body: "(case poll_step env p am deadline reducedDeadline st h of
        Inl r \<Rightarrow> Some r | Inr (st', h') \<Rightarrow> loop env p am deadline reducedDeadline st' h') = Some x"
  show "od_state (fst (fst x)) = PublishCommittedAsExpected \<longrightarrow> published_evidence env p"
  proof (cases "poll_step env p am deadline reducedDeadline st h")
    case (Inl y)
    with body have "poll_step env p am deadline reducedDeadline st h =
      Inl ((fst (fst x), snd (fst x)), fst (snd x), snd (snd x))" by simp
    from poll_step_commit [OF this] show ?thesis by blast
  next
    case (Inr y)
    obtain st'' h'' where y: "y = (st'', h'')" by (cases y)
    with body Inr have "loop env p am deadline reducedDeadline st'' h'' = Some x" by simp
    from hyp [OF this] show ?thesis .
  qed
qed

lemma classify_commit:
  "classify env p am e422 h = Some ((d, e), h') \<Longrightarrow> od_state d = PublishCommittedAsExpected \<Longrightarrow> published_evidence env p"
  using poll_loop_commit [of env p am "pe_now env h + publishPollBudget" "pe_now env h + publishRejectedPollBudget"
      "\<lparr>ps_reduced = (am \<and> e422), ps_sawVersion = False, ps_sawCleanAbsence = False,
       ps_summary = newPublishObservationSummary (pp_expectedSRI p)\<rparr>" "h @ [Clock]"]
  by (auto simp: classify_def Let_def)

lemma evidence_request:
  assumes "pp_request p1 = pp_request p" and "pp_expectedSRI p1 = pp_expectedSRI p"
    and "pp_parameters p1 = pp_parameters p" and "pp_statement p1 = pp_statement p"
  shows "published_evidence env p1 = published_evidence env p"
proof -
  have "observe env p1 = observe env p" "matchesPublishedBundle p1 = matchesPublishedBundle p"
    unfolding observe_def matchesPublishedBundle_def assms by simp_all
  with assms show ?thesis by (simp add: published_evidence_def)
qed

lemma failure_not_success: "failure libs env uri md s attempted ident check cause extra \<noteq> Reported r None"
  by (auto simp: failure_def Let_def split: sum.splits option.splits)

lemma success_of_publish:
  assumes "Publish libs env request = Some (Reported r None, h)"
  shows "\<exists>p h0. preparePublish libs env [] request = (Inr p, h0) \<and> published_evidence env p \<and>
    pu_State r = PublishCommittedAsExpected"
proof -
  obtain prep h0 where prep: "preparePublish libs env [] request = (prep, h0)"
    by (cases "preparePublish libs env [] request")
  show ?thesis
  proof (cases prep)
    case (Inl err)
    with assms prep show ?thesis
      by (auto simp: Publish_def publishFailure_def Let_def failure_not_success dest: sym)
  next
    case (Inr p)
    with assms prep obtain d e h1 where c: "classify env p False False h0 = Some ((d, e), h1)"
      by (auto simp: Publish_def split: option.splits)
    have none: "entry_failure libs env p (d, e) = None"
      using assms prep Inr c failure_not_success
      by (auto simp: Publish_def entry_failure_def prepared_failure_def
          split: option.splits if_splits PublishState.splits)
    obtain verr p1 h2 where v: "validateNPMVersion libs env p h1 = (verr, p1, h2)"
      by (cases "validateNPMVersion libs env p h1")
    have same: "pp_request p1 = pp_request p" "pp_expectedSRI p1 = pp_expectedSRI p"
      "pp_parameters p1 = pp_parameters p" "pp_statement p1 = pp_statement p"
      using v by (auto simp: validateNPMVersion_def Let_def split: prod.splits option.splits if_splits sum.splits)
    have verr: "verr = None"
      using assms prep Inr c none v by (cases verr) (auto simp: Publish_def prepared_failure_def failure_not_success dest: sym)
    have committed: "pu_State r = PublishCommittedAsExpected"
      if "outcome_phase (Reported r None) = Some (Done s a True)" "s = PublishCommittedAsExpected" for s a
      using that by (simp add: outcome_phase_def)
    show ?thesis
    proof (cases "od_state d = PublishCommittedAsExpected")
      case True
      with assms prep Inr c none v verr have "success libs env p1 False [] = Reported r None"
        by (auto simp: Publish_def)
      then have "pu_State r = PublishCommittedAsExpected" by (auto simp: success_def split: sum.splits)
      with classify_commit [OF c True] prep Inr show ?thesis by blast
    next
      case False
      with assms prep Inr c none v verr have "mutate libs env p1 h2 = Some (Reported r None, h)"
        by (auto simp: Publish_def)
      then obtain e422 h3 d' e' where c': "classify env p1 True e422 h3 = Some ((d', e'), h)"
        and o: "readback_outcome libs env p1 e422 (d', e') = Reported r None"
        by (auto simp: mutate_def Let_def prepared_failure_def failure_not_success split: prod.splits if_splits
            dest: sym)
      have "od_state d' = PublishCommittedAsExpected \<and> pu_State r = PublishCommittedAsExpected"
        using o by (auto simp: readback_outcome_def Let_def prepared_failure_def failure_not_success success_def
            split: if_splits sum.splits)
      with classify_commit [OF c'] prep Inr evidence_request [OF same] show ?thesis by auto
    qed
  qed
qed

section \<open>Observations outside polling\<close>

lemma file_observations:
  "verifiedPublishFile env h path ending n = (r, h') \<Longrightarrow> observations h' = observations h"
  using file_history [of env h path ending n r h'] by auto

lemma bindings_observations:
  "validatePreparedBindings env h request verified parameters = (r, h') \<Longrightarrow> observations h' = observations h"
  by (auto simp: validatePreparedBindings_def Let_def split: if_splits sum.splits)

lemma prepare_observations:
  "preparePublish libs env h request = (r, h') \<Longrightarrow> observations h' = observations h"
  unfolding preparePublish_def Let_def
  by (simp split: option.splits sum.splits prod.splits if_splits)
    (auto dest!: file_observations bindings_observations)

lemma version_observations:
  assumes "validateNPMVersion libs env p h = (err, p1, h1)"
  shows "observations h1 = observations h"
proof -
  obtain v e h' where c: "runNPMCommand env p h [''--version''] = ((v, e), h')"
    by (metis surj_pair)
  have "h1 = h'" using assms c by (auto simp: validateNPMVersion_def Let_def split: option.splits if_splits sum.splits)
  with command_calls [OF c] show ?thesis by auto
qed

lemma runNPM_observations:
  assumes "runNPM env p h = (r, h')"
  shows "observations h' = observations h"
  using assms unfolding runNPM_def Let_def
  by (simp split: prod.splits if_splits)
    (auto dest!: file_observations command_calls)

section \<open>Properties\<close>

text \<open>C1: npm publish runs at most once, and only as the last command of a publication whose entry observation
  found the package without this version, whose npm reported exactly the pinned version, and which
  just before re-read a tarball and a bundle with the digests of the handoff while the exchanged token
  had not expired; no other npm command than the version query and that one publish is ever run.\<close>

theorem npm_run_guarded:
  "case Publish libs env request of
     None \<Rightarrow> True
   | Some (outcome, h) \<Rightarrow>
       npm_calls h = [] \<or> npm_calls h = [RunNPM [''--version'']] \<or>
       (\<exists>p h0 d h1 rest. preparePublish libs env [] request = (Inr p, h0) \<and>
          classify env p False False h0 = Some ((d, None), h1) \<and> od_state d = PublishAbsent \<and>
          \<not> od_packageAbsent d \<and> pinned_version_seen libs env p h1 \<and>
          guarded_run env p (h1 @ [Isolate, RunNPM [''--version'']]) \<and>
          h = h1 @ [Isolate, RunNPM [''--version'']] @ run_events p @ rest \<and> npm_calls rest = [])"
  using publish_trace [of libs env request] by (auto split: option.splits)

text \<open>C2: Publish implements the abstract transaction: the outcome it reports and the npm commands it ran are a
  run of the contract from its start, in which success means committed and every outcome after the
  mutation phase says that a mutation was attempted.\<close>

theorem publish_refines_transaction:
  "case Publish libs env request of
     None \<Rightarrow> True
   | Some (outcome, h) \<Rightarrow>
       (case outcome_phase outcome of
          None \<Rightarrow> True
        | Some ph \<Rightarrow> \<exists>argv. txn_path argv Start (npm_calls h) ph \<and>
            (case ph of
               Done s attempted True \<Rightarrow> s = PublishCommittedAsExpected
             | Done s attempted False \<Rightarrow> True
             | _ \<Rightarrow> False))"
proof (cases "Publish libs env request")
  case (Some x)
  obtain outcome h where x: "x = (outcome, h)" by (cases x)
  show ?thesis
  proof (cases "outcome_phase outcome")
    case ph: (Some ph)
    with publish_trace [OF Some [unfolded x]] obtain argv where path: "txn_path argv Start (npm_calls h) ph" by auto
    from ph obtain s a ok where final: "ph = Done s a ok"
      by (auto simp: outcome_phase_def split: publish_outcome.splits)
    have "case ph of Done s attempted True \<Rightarrow> s = PublishCommittedAsExpected
        | Done s attempted False \<Rightarrow> True | _ \<Rightarrow> False"
      using txn_contract [OF path, of s a] final by (cases ok) auto
    with Some x ph path show ?thesis by auto
  qed (simp add: Some x)
qed simp

text \<open>C3: Success is never claimed without evidence: when Publish returns without an error its state is committed,
  and the registry was observed, without error, to hold the version with the tarball's own SHA-512
  integrity and name and a SLSA attestation that the verifier accepted and that names the same run,
  subject and digests.\<close>

theorem publish_success_sound:
  "case Publish libs env request of
     Some (Reported r None, h) \<Rightarrow> pu_State r = PublishCommittedAsExpected \<and>
       (\<exists>p h0. preparePublish libs env [] request = (Inr p, h0) \<and> published_evidence env p)
   | _ \<Rightarrow> True"
  using success_of_publish [of libs env request]
  by (auto split: option.splits publish_outcome.splits)

lemma publish_returns:
  assumes "steady_clock env"
  shows "\<exists>outcome h. Publish libs env request = Some (outcome, h) \<and> observations h \<le> 42"
proof -
  obtain prep h0 where prep: "preparePublish libs env [] request = (prep, h0)"
    by (cases "preparePublish libs env [] request")
  then have h0: "observations h0 = 0" using prepare_observations by fastforce
  show ?thesis
  proof (cases prep)
    case (Inl err)
    with prep h0 show ?thesis by (auto simp: Publish_def)
  next
    case (Inr p)
    obtain entry es where c: "classify env p False False h0 = Some (entry, h0 @ es)" "observations es \<le> 21"
      using classify_ends [OF assms] by blast
    show ?thesis
    proof (cases "entry_failure libs env p entry")
      case (Some outcome)
      with prep Inr c h0 show ?thesis by (auto simp: Publish_def)
    next
      case None
      obtain verr p1 h2 where v: "validateNPMVersion libs env p (h0 @ es) = (verr, p1, h2)"
        by (cases "validateNPMVersion libs env p (h0 @ es)")
      have h2: "observations h2 \<le> 21" using version_observations [OF v] h0 c(2) by simp
      obtain r h3 where r: "runNPM env p1 h2 = (r, h3)" by (cases "runNPM env p1 h2")
      have h3: "observations h3 \<le> 21" using runNPM_observations [OF r] h2 by simp
      have "\<exists>outcome h. mutate libs env p1 h2 = Some (outcome, h) \<and> observations h \<le> 42"
      proof (cases "snd r \<noteq> None \<and> definitivePublishError (lib_lower libs) (fst r) \<noteq> []")
        case True
        with r h3 show ?thesis by (cases r) (auto simp: mutate_def Let_def)
      next
        case False
        from classify_ends [OF assms, of p1 True "snd r \<noteq> None \<and> npmErrorCode (lib_lower libs) (fst r) = ''e422''" h3]
        obtain result fs where "classify env p1 True (snd r \<noteq> None \<and> npmErrorCode (lib_lower libs) (fst r) = ''e422'') h3 =
            Some (result, h3 @ fs)" "observations fs \<le> 21" by blast
        with False r h3 show ?thesis by (cases r) (auto simp: mutate_def Let_def)
      qed
      with prep Inr c None v h2 show ?thesis
        by (cases verr; cases "od_state (fst entry) = PublishCommittedAsExpected") (auto simp: Publish_def)
    qed
  qed
qed

text \<open>C4: Where the clock never goes back and a sleep lasts as long as it was asked to, Publish always returns; it
  polls the registry at most 21 times before and 21 times after the mutation.\<close>

theorem publish_terminates:
  assumes "steady_clock env"
  shows "\<exists>outcome h. Publish libs env request = Some (outcome, h) \<and> observations h \<le> 42"
  by (rule publish_returns [OF assms])

text \<open>A simulated clock: it shows the time slept so far.\<close>

definition slept :: "event list \<Rightarrow> int" where
  "slept h = sum_list (map (\<lambda>e. case e of SleepFor d \<Rightarrow> max 0 d | _ \<Rightarrow> 0) h)"

definition offline_env :: publish_env where
  "offline_env =
     \<lparr>pe_context = True, pe_now = slept, pe_read = (\<lambda>_ _ _. Inl (publish_error ''offline'')),
      pe_verify = (\<lambda>_ _. Inl (publish_error ''offline'')), pe_fetch = (\<lambda>_ _ _. Inl (publish_error ''offline'')),
      pe_isolate = (\<lambda>_. NoDirectory), pe_Environ = [], pe_run = (\<lambda>_ _ _ _. ([], None)),
      pe_sleep = (\<lambda>_ _. None), pe_text = (\<lambda>_. ''offline''), pe_upper = id, pe_sort = (\<lambda>_ ds. ds)\<rparr>"

lemma slept_nonneg: "0 \<le> slept h"
  by (auto simp: slept_def intro!: sum_list_nonneg split: event.splits)

lemma offline_steady: "steady_clock offline_env"
proof -
  have "slept (h @ es) = slept h + slept es" "slept (SleepFor d # es) = max 0 d + slept es" for h es d
    by (simp_all add: slept_def)
  then show ?thesis
    using slept_nonneg by (auto simp: steady_clock_def offline_env_def intro: add_increasing2)
qed

definition example_request :: PublishRequest where
  "example_request =
     \<lparr>pr_NPMExecutable = ''/opt/npm'', pr_TarballPath = ''/w/p-1.0.0.tgz'',
      pr_BundlePath = ''/w/p-1.0.0.tgz.intoto.jsonl'', pr_TarballSHA256 = SumSHA256 ''t'',
      pr_TarballSHA512 = SumSHA512 ''t'', pr_BundleSHA256 = SumSHA256 ''b'',
      pr_RegistryURL = npmjsRegistry, pr_RunID = ''7'', pr_RunAttempt = ''1'',
      pr_SourceRepositoryURI = ''https://github.com/o/r'',
      pr_OIDCExchange = \<lparr>oe_GitHubIdentityToken = ''g'', oe_Token = ''t'', oe_CreatedAt = 0, oe_ExpiresAt = 900 * second,
        oe_WorkflowFilename = ''release.yml'', oe_PrimaryID = None\<rparr>,
      pr_Verifier = True\<rparr>"

lemma publish_terminates_witness:
  "\<exists>outcome h. Publish reference_libraries offline_env example_request = Some (outcome, h) \<and> observations h \<le> 42"
  by (rule publish_terminates [OF offline_steady])

text \<open>The flag MutationAttempted is set from the moment the mutation phase is entered, also when the checks in
  front of npm refused and npm was never started: on every outcome of that phase it is set, and a
  refused check leaves no npm command in the history.\<close>

theorem mutation_flag_exact:
  "case mutate libs env p h of
     None \<Rightarrow> True
   | Some (outcome, h') \<Rightarrow>
       (guarded_run env p h \<or> npm_calls h' = npm_calls h) \<and>
       (case outcome_phase outcome of None \<Rightarrow> True | Some ph \<Rightarrow> \<exists>s ok. ph = Done s True ok)"
proof (cases "mutate libs env p h")
  case (Some x)
  obtain outcome h' where x: "x = (outcome, h')" by (cases x)
  from mutate_path [OF Some [unfolded x]] obtain es where es: "h' = h @ es"
    and calls: "npm_calls es = [] \<or> guarded_run env p h"
    and path: "\<And>ph. outcome_phase outcome = Some ph \<Longrightarrow> txn_path (pp_argv p) Checked (npm_calls es) ph"
    by auto
  have "\<exists>s ok. ph = Done s True ok" if ph: "outcome_phase outcome = Some ph" for ph
  proof -
    from ph obtain s a ok where "ph = Done s a ok" by (auto simp: outcome_phase_def split: publish_outcome.splits)
    with txn_contract [OF path [OF ph]] show ?thesis by auto
  qed
  with Some x es calls show ?thesis by (auto split: option.splits)
qed simp

end
