(* ===== verification/Workspace.thy ===== *)
theory Workspace
  imports Paths RegistryClient
begin

text \<open>
  internal/npmprofile/workspace.go and the file reading of resolution.go: manifests, workspace patterns
  and the search for the workspace root.  The file system is a record of what its calls answer; the
  third-party YAML decoder is an argument.
\<close>

section \<open>Relative paths and parents\<close>

text \<open>filepath.Rel and filepath.Dir on Unix; the elements of a clean path are compared one by one.\<close>

fun strip_common :: "string list \<Rightarrow> string list \<Rightarrow> string list \<times> string list" where
  "strip_common (b # bs) (t # ts) = (if b = t then strip_common bs ts else (b # bs, t # ts))"
| "strip_common bs ts = (bs, ts)"

definition rel_error :: go_error where
  "rel_error = ErrText ''Rel: can't make target relative to base'' []"

definition Rel :: "string \<Rightarrow> string \<Rightarrow> string result" where
  "Rel base targ =
     (if Clean base = Clean targ then Inr ''.''
      else if PathIsAbs base \<noteq> PathIsAbs targ then Inl rel_error
      else
        (let (bs, ts) = strip_common (clean_elements base) (clean_elements targ) in
         if bs \<noteq> [] \<and> hd bs = ''..'' then Inl rel_error
         else Inr (join_with ''/'' (replicate (length bs) ''..'' @ ts))))"

definition Dir :: "string \<Rightarrow> string" where
  "Dir p = (let parts = split_on (CHR ''/'') p in
     Clean (if length parts = 1 then [] else join_with ''/'' (butlast parts @ [[]])))"

section \<open>The file system\<close>

datatype entry_kind = RegularFile | SymbolicLink | OtherEntry

text \<open>os.Lstat: nothing there, another failure, or an entry with its size.\<close>

datatype lstat = LstatMissing | LstatFails | LstatEntry entry_kind nat

text \<open>Opening a file and reading it: the file is gone, it cannot be opened, it is not the regular file that
  was seen before, or its bytes are read, with or without an error on the way.\<close>

datatype opened = OpenMissing | OpenFails | OpenedAnother | OpenedFile string bool

record file_tree =
  ft_Abs :: "string \<Rightarrow> string result"
  ft_EvalSymlinks :: "string \<Rightarrow> string result"
  ft_IsDir :: "string \<Rightarrow> bool"
  ft_ReadDir :: "string \<Rightarrow> string list result"
  ft_Lstat :: "string \<Rightarrow> lstat"
  ft_Open :: "string \<Rightarrow> opened"

text \<open>Errors of file access: os.IsNotExist tells the first from the others.\<close>

datatype file_error = FileMissing | FileError string

definition maxManifestSize :: nat where "maxManifestSize = 16 * 2 ^ 20"

definition readRegularNonSymlink :: "file_tree \<Rightarrow> string \<Rightarrow> file_error + string" where
  "readRegularNonSymlink ft filePath =
     (case ft_Lstat ft filePath of
        LstatMissing \<Rightarrow> Inl FileMissing
      | LstatFails \<Rightarrow> Inl (FileError ''lstat'')
      | LstatEntry kind len \<Rightarrow>
          if kind \<noteq> RegularFile \<or> len > maxManifestSize then
            Inl (FileError ''path must identify a bounded regular non-symlink file'')
          else
            (case ft_Open ft filePath of
               OpenMissing \<Rightarrow> Inl FileMissing
             | OpenFails \<Rightarrow> Inl (FileError ''open'')
             | OpenedAnother \<Rightarrow> Inl (FileError ''file changed while opening'')
             | OpenedFile bytes readable \<Rightarrow>
                 (let encoded = take (maxManifestSize + 1) bytes in
                  if \<not> readable then Inl (FileError ''read'')
                  else if length encoded > maxManifestSize then Inl (FileError ''file exceeds size limit'')
                  else Inr encoded)))"

section \<open>Manifests\<close>

text \<open>A raw member is \<^const>\<open>None\<close> where the manifest has none; a null is kept like any other value.\<close>

record manifest =
  mf_Name :: string
  mf_Version :: string
  mf_Private :: bool
  mf_PackageManager :: "jval option"
  mf_DevEngines :: "jval option"
  mf_PublishConfig :: "jval option"
  mf_Workspaces :: "jval option"
  mf_Repository :: "jval option"
  mf_License :: "jval option"
  mf_Description :: string
  mf_Keywords :: "string list"
  mf_Author :: "jval option"
  mf_Homepage :: string
  mf_Scripts :: "(string \<times> string) list"

definition zero_manifest :: manifest where
  "zero_manifest =
     \<lparr>mf_Name = [], mf_Version = [], mf_Private = False, mf_PackageManager = None, mf_DevEngines = None,
      mf_PublishConfig = None, mf_Workspaces = None, mf_Repository = None, mf_License = None,
      mf_Description = [], mf_Keywords = [], mf_Author = None, mf_Homepage = [], mf_Scripts = []\<rparr>"

definition store_raw :: "(jval option \<Rightarrow> 'r \<Rightarrow> 'r) \<Rightarrow> 'r \<Rightarrow> jval \<Rightarrow> 'r option" where
  "store_raw put r v = Some (put (Some v) r)"

fun string_members :: "(string \<times> jval) list \<Rightarrow> (string \<times> string) list option" where
  "string_members [] = Some []"
| "string_members ((name, v) # members) =
     (case v of
        JString s \<Rightarrow> map_option ((#) (name, s)) (string_members members)
      | JNull \<Rightarrow> map_option ((#) (name, [])) (string_members members)
      | _ \<Rightarrow> None)"

text \<open>A map that exists already keeps its entries under other keys.\<close>

definition other_keys :: "(string \<times> 'v) list \<Rightarrow> (string \<times> 'v) list \<Rightarrow> (string \<times> 'v) list" where
  "other_keys entries old = filter (\<lambda>(key, _). key \<notin> set (map fst entries)) old"

definition store_string_map :: "('r \<Rightarrow> (string \<times> string) list) \<Rightarrow> ((string \<times> string) list \<Rightarrow> 'r \<Rightarrow> 'r)
    \<Rightarrow> 'r \<Rightarrow> jval \<Rightarrow> 'r option" where
  "store_string_map get put r v =
     (case v of
        JObj members \<Rightarrow> map_option (\<lambda>entries. put (entries @ other_keys entries (get r)) r) (string_members members)
      | JNull \<Rightarrow> Some (put [] r)
      | _ \<Rightarrow> None)"

definition manifest_fields :: "manifest field list" where
  "manifest_fields =
     [(''name'', store_string (\<lambda>x. mf_Name_update (\<lambda>_. x))),
      (''version'', store_string (\<lambda>x. mf_Version_update (\<lambda>_. x))),
      (''private'', store_bool (\<lambda>x. mf_Private_update (\<lambda>_. x))),
      (''packageManager'', store_raw (\<lambda>x. mf_PackageManager_update (\<lambda>_. x))),
      (''devEngines'', store_raw (\<lambda>x. mf_DevEngines_update (\<lambda>_. x))),
      (''publishConfig'', store_raw (\<lambda>x. mf_PublishConfig_update (\<lambda>_. x))),
      (''workspaces'', store_raw (\<lambda>x. mf_Workspaces_update (\<lambda>_. x))),
      (''repository'', store_raw (\<lambda>x. mf_Repository_update (\<lambda>_. x))),
      (''license'', store_raw (\<lambda>x. mf_License_update (\<lambda>_. x))),
      (''description'', store_string (\<lambda>x. mf_Description_update (\<lambda>_. x))),
      (''keywords'', store_strings (\<lambda>x. mf_Keywords_update (\<lambda>_. x))),
      (''author'', store_raw (\<lambda>x. mf_Author_update (\<lambda>_. x))),
      (''homepage'', store_string (\<lambda>x. mf_Homepage_update (\<lambda>_. x))),
      (''scripts'', store_string_map mf_Scripts (\<lambda>x. mf_Scripts_update (\<lambda>_. x)))]"

definition readManifest :: "file_tree \<Rightarrow> string \<Rightarrow> file_error + manifest" where
  "readManifest ft manifestPath =
     (case readRegularNonSymlink ft manifestPath of
        Inl err \<Rightarrow> Inl err
      | Inr encoded \<Rightarrow>
          (case parseStrict encoded of
             Inl _ \<Rightarrow> Inl (FileError ''validate'')
           | Inr v \<Rightarrow>
               (case decode_open manifest_fields zero_manifest v of
                  None \<Rightarrow> Inl (FileError ''decode'')
                | Some decoded \<Rightarrow> Inr decoded)))"

section \<open>Patterns\<close>

definition parseJSONWorkspacePatterns :: "jval \<Rightarrow> string list option" where
  "parseJSONWorkspacePatterns raw =
     (case raw of
        JArr items \<Rightarrow> string_items items
      | JNull \<Rightarrow> Some []
      | JObj [(name, packages)] \<Rightarrow>
          if name \<noteq> ''packages'' then None
          else (case packages of JArr items \<Rightarrow> string_items items | JNull \<Rightarrow> Some [] | _ \<Rightarrow> None)
      | _ \<Rightarrow> None)"

text \<open>What the YAML decoder yields for an element it was asked to leave untyped.\<close>

datatype yaml_value = YString string | YList "yaml_value list" | YOther

type_synonym yaml_decoder = "string \<Rightarrow> (string \<times> yaml_value) list option"

fun yaml_strings :: "yaml_value list \<Rightarrow> string list option" where
  "yaml_strings [] = Some []"
| "yaml_strings (YString s # vs) = map_option ((#) s) (yaml_strings vs)"
| "yaml_strings (_ # vs) = None"

definition parsePNPMWorkspacePatterns :: "yaml_decoder \<Rightarrow> string \<Rightarrow> (string list \<times> bool) option" where
  "parsePNPMWorkspacePatterns yaml encoded =
     (case yaml encoded of
        None \<Rightarrow> None
      | Some object \<Rightarrow>
          (case map_of object ''packages'' of
             None \<Rightarrow> Some ([], True)
           | Some (YList vals) \<Rightarrow> map_option (\<lambda>patterns. (patterns, False)) (yaml_strings vals)
           | Some _ \<Rightarrow> None))"

definition validateWorkspacePattern :: "string \<Rightarrow> bool" where
  "validateWorkspacePattern pattern \<longleftrightarrow>
     \<not> (pattern = [] \<or> HasPrefix pattern ''/'' \<or> Contains pattern [backslash] \<or> ContainsAny pattern ''!{}[]()?'') \<and>
     list_all (\<lambda>segment. \<not> (segment = [] \<or> segment = ''.'' \<or> segment = ''..'' \<or>
       (Contains segment ''*'' \<and> segment \<noteq> ''*'' \<and> segment \<noteq> ''**''))) (split_on (CHR ''/'') pattern)"

fun match_segments :: "string list \<Rightarrow> string list \<Rightarrow> bool" where
  "match_segments [] relative = (relative = [])"
| "match_segments (segment # pattern) relative =
     (if segment = ''**'' then
        list_ex (\<lambda>next. match_segments pattern (drop next relative)) [0..<Suc (length relative)]
      else
        (case relative of
           [] \<Rightarrow> False
         | element # rest \<Rightarrow> (segment = ''*'' \<or> segment = element) \<and> match_segments pattern rest))"

definition matchWorkspacePattern :: "string \<Rightarrow> string \<Rightarrow> bool" where
  "matchWorkspacePattern pattern relative =
     match_segments (split_on (CHR ''/'') pattern) (if relative = ''.'' then [] else split_on (CHR ''/'') relative)"

text \<open>What one directory says about workspaces: its patterns, its manifest, whether it says anything at all, and
  whether a settings-only pnpm file restricts it to itself.\<close>

record workspace_info =
  wi_patterns :: "string list"
  wi_manifest :: "manifest option"
  wi_metadataPresent :: bool
  wi_pnpmRootOnly :: bool

definition manifest_patterns :: "file_tree \<Rightarrow> string \<Rightarrow> workspace_info option" where
  "manifest_patterns ft candidate =
     (let manifestPath = Join [candidate, ''package.json'']; nothing = \<lparr>wi_patterns = [], wi_manifest = None,
            wi_metadataPresent = False, wi_pnpmRootOnly = False\<rparr>
      in case ft_Lstat ft manifestPath of
           LstatMissing \<Rightarrow> Some nothing
         | LstatFails \<Rightarrow> None
         | LstatEntry _ _ \<Rightarrow>
             (case readManifest ft manifestPath of
                Inl _ \<Rightarrow> None
              | Inr decoded \<Rightarrow>
                  (case mf_Workspaces decoded of
                     None \<Rightarrow> Some (nothing\<lparr>wi_manifest := Some decoded\<rparr>)
                   | Some raw \<Rightarrow>
                       map_option (\<lambda>patterns. nothing\<lparr>wi_manifest := Some decoded, wi_metadataPresent := True,
                           wi_patterns := patterns\<rparr>)
                         (parseJSONWorkspacePatterns raw))))"

definition pnpm_patterns :: "yaml_decoder \<Rightarrow> file_tree \<Rightarrow> string \<Rightarrow> workspace_info \<Rightarrow> workspace_info option" where
  "pnpm_patterns yaml ft candidate info =
     (case readRegularNonSymlink ft (Join [candidate, ''pnpm-workspace.yaml'']) of
        Inl FileMissing \<Rightarrow> Some info
      | Inl (FileError _) \<Rightarrow> None
      | Inr encoded \<Rightarrow>
          map_option (\<lambda>(patterns, rootOnly). info\<lparr>wi_metadataPresent := True, wi_pnpmRootOnly := rootOnly,
              wi_patterns := wi_patterns info @ patterns\<rparr>)
            (parsePNPMWorkspacePatterns yaml encoded))"

definition workspacePatterns :: "yaml_decoder \<Rightarrow> file_tree \<Rightarrow> string \<Rightarrow> workspace_info option" where
  "workspacePatterns yaml ft candidate =
     (case manifest_patterns ft candidate of
        None \<Rightarrow> None
      | Some info \<Rightarrow>
          (case pnpm_patterns yaml ft candidate info of
             None \<Rightarrow> None
           | Some info' \<Rightarrow>
               if list_all validateWorkspacePattern (wi_patterns info') then Some info' else None))"

section \<open>The workspace root\<close>

definition canonicalRelative :: "string \<Rightarrow> string" where
  "canonicalRelative value = (if value = ''.'' \<or> value = [] then ''.'' else value)"

text \<open>One candidate: the search fails, it is the root, or the search goes on.\<close>

datatype root_claim = ClaimFails | Claims "manifest option" | NoClaim

definition candidate_claim :: "yaml_decoder \<Rightarrow> file_tree \<Rightarrow> string \<Rightarrow> string \<Rightarrow> root_claim" where
  "candidate_claim yaml ft selectedDirectory candidate =
     (case workspacePatterns yaml ft candidate of
        None \<Rightarrow> ClaimFails
      | Some info \<Rightarrow>
          if \<not> wi_metadataPresent info then NoClaim
          else
            (case Rel candidate selectedDirectory of
               Inl _ \<Rightarrow> ClaimFails
             | Inr relative \<Rightarrow>
                 if wi_pnpmRootOnly info then
                   (if relative = ''.'' then Claims (wi_manifest info) else ClaimFails)
                 else if list_ex (\<lambda>pattern. matchWorkspacePattern pattern (canonicalRelative relative)) (wi_patterns info)
                 then Claims (wi_manifest info)
                 else NoClaim))"

text \<open>The loop over the parents.  Its first argument bounds the rounds: running out of it is \<^const>\<open>None\<close>, which
  \<open>discover_enough\<close> excludes for the bound used, the length of the selected directory.\<close>

fun discover_from :: "nat \<Rightarrow> yaml_decoder \<Rightarrow> file_tree \<Rightarrow> string \<Rightarrow> string \<Rightarrow> string
    \<Rightarrow> (string \<times> manifest option) option option" where
  "discover_from 0 yaml ft repositoryRoot selectedDirectory candidate = None"
| "discover_from (Suc fuel) yaml ft repositoryRoot selectedDirectory candidate =
     (case candidate_claim yaml ft selectedDirectory candidate of
        ClaimFails \<Rightarrow> Some None
      | Claims m \<Rightarrow> Some (Some (candidate, m))
      | NoClaim \<Rightarrow>
          if candidate = repositoryRoot then Some (Some (selectedDirectory, None))
          else if Dir candidate = candidate then Some None
          else discover_from fuel yaml ft repositoryRoot selectedDirectory (Dir candidate))"

definition discoverWorkspaceRoot ::
  "yaml_decoder \<Rightarrow> file_tree \<Rightarrow> string \<Rightarrow> string \<Rightarrow> (string \<times> manifest option) option option" where
  "discoverWorkspaceRoot yaml ft repositoryRoot selectedDirectory =
     discover_from (Suc (length selectedDirectory)) yaml ft repositoryRoot selectedDirectory selectedDirectory"

section \<open>Lemmas on paths\<close>

lemma split_join:
  "ws \<noteq> [] \<Longrightarrow> list_all (\<lambda>w. CHR ''/'' \<notin> set w) ws \<Longrightarrow> split_on (CHR ''/'') (join_with ''/'' ws) = ws"
proof (induction "''/''" ws rule: join_with.induct)
  case (3 w v ws)
  then have "split_on (CHR ''/'') (join_with ''/'' (v # ws)) = v # ws" by simp
  with 3 show ?case by (simp add: split_on_append)
qed (auto simp: split_on_id)

definition clean_element :: "string \<Rightarrow> bool" where
  "clean_element w \<longleftrightarrow> w \<noteq> [] \<and> w \<noteq> ''.'' \<and> CHR ''/'' \<notin> set w"

lemma split_on_elements: "list_all (\<lambda>w. sep \<notin> set w) (split_on sep s)"
  by (induction s) (auto split: list.splits)

lemma clean_step_clean:
  assumes "Ball (set out) clean_element" and "CHR ''/'' \<notin> set w"
  shows "Ball (set (clean_step rooted out w)) clean_element"
  using assms by (auto simp: clean_step_def clean_element_def dest: in_set_butlastD)

lemma clean_elements_clean: "Ball (set (clean_elements p)) clean_element"
proof -
  have "Ball (set (foldl (clean_step rooted) out ws)) clean_element"
    if "Ball (set out) clean_element" "list_all (\<lambda>w. CHR ''/'' \<notin> set w) ws" for rooted out ws
    using that
  proof (induction ws arbitrary: out)
    case (Cons w ws)
    then have "Ball (set (clean_step rooted out w)) clean_element" by (intro clean_step_clean) simp_all
    with Cons show ?case by simp
  qed simp
  note all = this
  show ?thesis unfolding clean_elements_def by (rule all) (simp_all add: split_on_elements)
qed

text \<open>A clean path determines its elements.\<close>

lemma Clean_elements:
  assumes "Clean p = Clean q"
  shows "clean_elements p = clean_elements q"
proof -
  have parts: "split_on (CHR ''/'') (join_with ''/'' (clean_elements s)) =
      (if clean_elements s = [] then [[]] else clean_elements s)" for s
    using split_join [of "clean_elements s"] clean_elements_clean [of s]
    by (auto simp: clean_element_def list_all_iff)
  have nonempty: "[] \<notin> set (clean_elements s)" "''.'' \<notin> set (clean_elements s)" for s
    using clean_elements_clean [of s] by (auto simp: clean_element_def)
  let ?elems = "\<lambda>t. filter (\<lambda>w. w \<noteq> [] \<and> w \<noteq> ''.'') (split_on (CHR ''/'') t)"
  have "?elems (Clean s) = clean_elements s" for s
    using nonempty [of s] parts [of s]
    by (auto simp: Clean_def clean_elements_def Let_def clean_step_def intro!: filter_True)
  with assms show ?thesis by metis
qed

lemma strip_common_append: "strip_common bs ts = (bs', ts') \<Longrightarrow> \<exists>cs. bs = cs @ bs' \<and> ts = cs @ ts'"
proof (induction bs ts rule: strip_common.induct)
  case (1 b bs t ts)
  show ?case
  proof (cases "b = t")
    case True
    with 1 obtain cs where "bs = cs @ bs'" "ts = cs @ ts'" by auto
    with True show ?thesis by (intro exI [of _ "b # cs"]) simp
  qed (use 1 in auto)
qed auto

text \<open>A relative path that does not start upwards leads to a place below its base.\<close>

lemma Rel_below:
  assumes rel: "Rel base targ = Inr r" and up: "r \<noteq> ''..''" "\<not> HasPrefix r ''../''"
  shows "\<exists>ts. clean_elements targ = clean_elements base @ ts \<and> r = (if ts = [] then ''.'' else join_with ''/'' ts)"
proof (cases "Clean base = Clean targ")
  case True
  with rel Clean_elements [OF True] show ?thesis by (simp add: Rel_def)
next
  case False
  obtain bs ts where st: "strip_common (clean_elements base) (clean_elements targ) = (bs, ts)"
    by (cases "strip_common (clean_elements base) (clean_elements targ)")
  with rel False have abs: "PathIsAbs base = PathIsAbs targ" and r: "r = join_with ''/'' (replicate (length bs) ''..'' @ ts)"
    by (auto simp: Rel_def split: if_splits)
  have bs: "bs = []"
  proof (rule ccontr)
    assume "bs \<noteq> []"
    then obtain n where "length bs = Suc n" by (cases bs) auto
    with r have "r = join_with ''/'' (''..'' # (replicate n ''..'' @ ts))" by simp
    with up show False by (cases "replicate n ''..'' @ ts") auto
  qed
  from strip_common_append [OF st] bs have eq: "clean_elements targ = clean_elements base @ ts" by auto
  have "ts \<noteq> []"
  proof
    assume "ts = []"
    with eq abs have "Clean base = Clean targ"
      by (cases base; cases targ) (auto simp: Clean_def PathIsAbs_def Let_def clean_elements_def clean_step_def)
    with False show False by simp
  qed
  with eq r bs show ?thesis by auto
qed

section \<open>Patterns as a language\<close>

text \<open>A segment of a pattern covers a stretch of path elements; a pattern matches the paths that fall into such
  stretches.\<close>

definition covers :: "string \<Rightarrow> string list \<Rightarrow> bool" where
  "covers segment stretch \<longleftrightarrow>
     segment = ''**'' \<or> length stretch = 1 \<and> (segment = ''*'' \<or> stretch = [segment])"

lemma match_segments_covers:
  "match_segments pattern relative \<longleftrightarrow> (\<exists>stretches. list_all2 covers pattern stretches \<and> concat stretches = relative)"
proof (induction pattern arbitrary: relative)
  case (Cons segment pattern)
  show ?case
  proof (cases "segment = ''**''")
    case True
    have upto: "set [0..<Suc (length relative)] = {k. k \<le> length relative}"
      by (simp only: set_upt) (auto simp: less_Suc_eq_le)
    have "match_segments (segment # pattern) relative \<longleftrightarrow> (\<exists>k \<le> length relative. match_segments pattern (drop k relative))"
      using True by (simp only: match_segments.simps if_True list_ex_iff upto mem_Collect_eq Bex_def simp_thms)
    also have "\<dots> \<longleftrightarrow> (\<exists>stretch rest. relative = stretch @ rest \<and> match_segments pattern rest)"
    proof safe
      fix k assume "match_segments pattern (drop k relative)"
      then show "\<exists>stretch rest. relative = stretch @ rest \<and> match_segments pattern rest"
        by (intro exI [of _ "take k relative"] exI [of _ "drop k relative"]) simp
    next
      fix stretch rest assume "relative = stretch @ rest" "match_segments pattern rest"
      then show "\<exists>k \<le> length (stretch @ rest). match_segments pattern (drop k (stretch @ rest))"
        by (intro exI [of _ "length stretch"]) simp
    qed
    also have "\<dots> \<longleftrightarrow> (\<exists>stretch stretches. relative = stretch @ concat stretches \<and> list_all2 covers pattern stretches)"
      by (auto simp: Cons.IH)
    also have "\<dots> \<longleftrightarrow> (\<exists>stretches. list_all2 covers (segment # pattern) stretches \<and> concat stretches = relative)"
      using True by (auto simp: list_all2_Cons1 covers_def) (metis concat.simps(2), blast)
    finally show ?thesis .
  next
    case False
    have "match_segments (segment # pattern) relative \<longleftrightarrow>
        (\<exists>element rest. relative = element # rest \<and> (segment = ''*'' \<or> segment = element) \<and> match_segments pattern rest)"
      using False by (cases relative) auto
    also have "\<dots> \<longleftrightarrow> (\<exists>stretch stretches. covers segment stretch \<and> relative = stretch @ concat stretches
        \<and> list_all2 covers pattern stretches)"
    proof -
      have single: "covers segment stretch \<longleftrightarrow> (\<exists>e. stretch = [e] \<and> (segment = ''*'' \<or> segment = e))" for stretch
        using False by (auto simp: covers_def length_Suc_conv)
      show ?thesis unfolding Cons.IH single by fastforce
    qed
    also have "\<dots> \<longleftrightarrow> (\<exists>stretches. list_all2 covers (segment # pattern) stretches \<and> concat stretches = relative)"
      by (auto simp: list_all2_Cons1) (metis concat.simps(2), blast)
    finally show ?thesis .
  qed
qed auto

text \<open>
  A workspace pattern matches a relative path exactly when the path's elements fall into consecutive
  stretches, one for each segment of the pattern: any stretch for a double star, one element for a star, and
  the element itself for any other segment.
\<close>

theorem pattern_match_exact:
  "matchWorkspacePattern pattern relative \<longleftrightarrow>
     (\<exists>stretches. list_all2 covers (split_on (CHR ''/'') pattern) stretches \<and>
       concat stretches = (if relative = ''.'' then [] else split_on (CHR ''/'') relative))"
  unfolding matchWorkspacePattern_def by (rule match_segments_covers)

section \<open>The search for the workspace root\<close>

text \<open>Absolute clean paths, as filepath.EvalSymlinks returns them.\<close>

definition abs_path :: "string list \<Rightarrow> string" where
  "abs_path es = CHR ''/'' # join_with ''/'' es"

definition plain_element :: "string \<Rightarrow> bool" where
  "plain_element w \<longleftrightarrow> clean_element w \<and> w \<noteq> ''..''"

lemma clean_steps_plain:
  "list_all plain_element ws \<Longrightarrow> foldl (clean_step rooted) out ws = out @ ws"
  by (induction ws arbitrary: out) (auto simp: clean_step_def plain_element_def clean_element_def)

lemma split_abs_path:
  assumes "list_all plain_element es"
  shows "split_on (CHR ''/'') (abs_path es) = [] # (if es = [] then [[]] else es)"
  using assms split_join [of es] by (auto simp: abs_path_def plain_element_def clean_element_def list_all_iff)

lemma clean_elements_abs: "list_all plain_element es \<Longrightarrow> clean_elements (abs_path es) = es"
  by (auto simp: clean_elements_def split_abs_path clean_steps_plain [of es] PathIsAbs_def clean_step_def)

lemma Clean_abs: "list_all plain_element es \<Longrightarrow> Clean (abs_path es) = abs_path es"
  by (simp add: Clean_def clean_elements_abs) (simp add: abs_path_def PathIsAbs_def)

lemma abs_path_inject:
  "list_all plain_element es \<Longrightarrow> list_all plain_element fs \<Longrightarrow> abs_path es = abs_path fs \<longleftrightarrow> es = fs"
  by (metis clean_elements_abs)

lemma Dir_abs:
  assumes plain: "list_all plain_element es"
  shows "Dir (abs_path es) = abs_path (butlast es)"
proof (cases "es = []")
  case True
  then show ?thesis by (simp add: Dir_def abs_path_def Clean_def PathIsAbs_def clean_elements_def clean_step_def)
next
  case False
  let ?ws = "butlast es @ [[]]"
  have noslash: "list_all (\<lambda>w. CHR ''/'' \<notin> set w) ?ws"
    using plain by (auto simp: list_all_iff plain_element_def clean_element_def dest: in_set_butlastD)
  have start: "join_with ''/'' ([] # ?ws) = CHR ''/'' # join_with ''/'' ?ws"
    by (cases "?ws") simp_all
  have dir: "Dir (abs_path es) = Clean (CHR ''/'' # join_with ''/'' ?ws)"
    using False start by (simp add: Dir_def split_abs_path [OF plain])
  have steps: "foldl (clean_step r) out (butlast es) = out @ butlast es" for r out
    using plain by (intro clean_steps_plain) (auto simp: list_all_iff dest: in_set_butlastD)
  have "clean_elements (CHR ''/'' # join_with ''/'' ?ws) = butlast es"
    using split_join [OF _ noslash] by (simp add: clean_elements_def steps) (simp add: clean_step_def)
  with dir show ?thesis by (simp add: Clean_def abs_path_def)
qed

lemma length_abs_path: "list_all plain_element es \<Longrightarrow> length es \<le> length (abs_path es)"
proof -
  have "length es \<le> Suc (length (join_with ''/'' es))" if "list_all plain_element es"
    using that
  proof (induction "''/''" es rule: join_with.induct)
    case (3 w v ws)
    then show ?case by (cases w) (auto simp: plain_element_def clean_element_def)
  qed simp_all
  then show "list_all plain_element es \<Longrightarrow> ?thesis" by (simp add: abs_path_def)
qed

lemma plain_butlast: "list_all plain_element es \<Longrightarrow> list_all plain_element (butlast es)"
  by (auto simp: list_all_iff dest: in_set_butlastD)

lemma discover_enough:
  "list_all plain_element es \<Longrightarrow> length es < fuel \<Longrightarrow>
     discover_from fuel yaml ft repositoryRoot selectedDirectory (abs_path es) \<noteq> None"
proof (induction fuel arbitrary: es)
  case (Suc fuel)
  show ?case
  proof (cases "es = []")
    case True
    then have "Dir (abs_path es) = abs_path es" using Suc.prems by (simp add: Dir_abs)
    then show ?thesis by (simp split: root_claim.split)
  next
    case False
    then have "discover_from fuel yaml ft repositoryRoot selectedDirectory (abs_path (butlast es)) \<noteq> None"
      using Suc.prems by (intro Suc.IH plain_butlast) (cases es rule: rev_cases; simp)+
    then show ?thesis using Suc.prems by (simp add: Dir_abs split: root_claim.split)
  qed
qed simp

text \<open>The directories from the selected one up to the repository root, nearest first.\<close>

definition ancestors :: "string list \<Rightarrow> string list \<Rightarrow> string list" where
  "ancestors rs ts = map (\<lambda>k. abs_path (rs @ take k ts)) (rev [0..<Suc (length ts)])"

lemma ancestors_simps:
  "ancestors rs [] = [abs_path rs]"
  "ancestors rs (ts @ [t]) = abs_path (rs @ ts @ [t]) # ancestors rs ts"
  by (simp_all add: ancestors_def)

definition nearest_claim :: "(string \<Rightarrow> root_claim) \<Rightarrow> string list \<Rightarrow> string \<Rightarrow> (string \<times> manifest option) option" where
  "nearest_claim claim_of dirs selectedDirectory =
     (case dropWhile (\<lambda>c. claim_of c = NoClaim) dirs of
        [] \<Rightarrow> Some (selectedDirectory, None)
      | c # _ \<Rightarrow> (case claim_of c of Claims m \<Rightarrow> Some (c, m) | _ \<Rightarrow> None))"

lemma discover_nearest:
  "list_all plain_element (rs @ ts) \<Longrightarrow> length ts < fuel \<Longrightarrow>
     discover_from fuel yaml ft (abs_path rs) selectedDirectory (abs_path (rs @ ts)) =
       Some (nearest_claim (candidate_claim yaml ft selectedDirectory) (ancestors rs ts) selectedDirectory)"
proof (induction ts arbitrary: fuel rule: rev_induct)
  case Nil
  then obtain n where "fuel = Suc n" by (cases fuel) auto
  then show ?case by (simp add: ancestors_simps nearest_claim_def split: root_claim.split)
next
  case (snoc t ts)
  then obtain n where n: "fuel = Suc n" "length ts < n" by (cases fuel) auto
  have up: "Dir (abs_path (rs @ ts @ [t])) = abs_path (rs @ ts)"
    using Dir_abs [OF snoc.prems(1)] by (simp add: butlast_append)
  have apart: "abs_path (rs @ ts @ [t]) \<noteq> abs_path rs" "abs_path (rs @ ts) \<noteq> abs_path (rs @ ts @ [t])"
    using snoc.prems(1) by (simp_all add: abs_path_inject)
  show ?case
    using snoc n by (simp add: ancestors_simps up apart nearest_claim_def split: root_claim.split)
qed

text \<open>
  C28: The search for the workspace root ends, from every absolute clean directory and for every repository root:
  the parents run out before the bound on the rounds does.
\<close>

theorem workspace_search_ends:
  "list_all plain_element es \<Longrightarrow> discoverWorkspaceRoot yaml ft repositoryRoot (abs_path es) \<noteq> None"
  unfolding discoverWorkspaceRoot_def
  using length_abs_path [of es] by (intro discover_enough) simp_all

definition empty_tree :: file_tree where
  "empty_tree = \<lparr>ft_Abs = Inr, ft_EvalSymlinks = Inr, ft_IsDir = (\<lambda>_. True), ft_ReadDir = (\<lambda>_. Inr []),
     ft_Lstat = (\<lambda>_. LstatMissing), ft_Open = (\<lambda>_. OpenMissing)\<rparr>"

theorem workspace_search_ends_witness:
  "discoverWorkspaceRoot (\<lambda>_. None) empty_tree ''/r'' (abs_path [''r'', ''packages'', ''a'']) \<noteq> None"
  by (rule workspace_search_ends) (simp add: plain_element_def clean_element_def)

text \<open>
  For a selected directory at or below the repository root the workspace root is the nearest directory on the
  way up that claims the selected one, the repository root included; where none claims it the selected directory is
  its own root, and the first one whose metadata cannot be used fails the search.
\<close>

theorem workspace_root_nearest:
  "list_all plain_element (rs @ ts) \<Longrightarrow>
     discoverWorkspaceRoot yaml ft (abs_path rs) (abs_path (rs @ ts)) =
       Some (nearest_claim (candidate_claim yaml ft (abs_path (rs @ ts))) (ancestors rs ts) (abs_path (rs @ ts)))"
  unfolding discoverWorkspaceRoot_def
  using length_abs_path [of "rs @ ts"] by (intro discover_nearest) simp_all

theorem workspace_root_nearest_witness:
  "discoverWorkspaceRoot (\<lambda>_. None) empty_tree (abs_path [''r'']) (abs_path ([''r''] @ [''a''])) =
     Some (nearest_claim (candidate_claim (\<lambda>_. None) empty_tree (abs_path ([''r''] @ [''a''])))
       [abs_path [''r'', ''a''], abs_path [''r'']] (abs_path ([''r''] @ [''a''])))"
  using workspace_root_nearest [of "[''r'']" "[''a'']" "\<lambda>_. None" empty_tree]
  by (simp add: plain_element_def clean_element_def ancestors_def)

end
