(* ===== verification/Selection.thy ===== *)
theory Selection
  imports Workspace Descriptor Diagnostic
begin

text \<open>
  internal/npmprofile/selection.go, the rest of resolution.go and the types of types.go: which package
  directory, which package manager and which lockfile a release uses, and the report that says so.
\<close>

section \<open>Types\<close>

definition IDPackageManifestInvalid :: string where
  "IDPackageManifestInvalid = npm_error_id ''package-manifest-invalid''"
definition IDPackageMetadataRequired :: string where
  "IDPackageMetadataRequired = npm_error_id ''package-metadata-required''"
definition IDPackagePrivate :: string where
  "IDPackagePrivate = npm_error_id ''package-private''"
definition IDPackageResolutionInvalid :: string where
  "IDPackageResolutionInvalid = npm_error_id ''package-resolution-invalid''"
definition IDRequiredLockfileMissing :: string where
  "IDRequiredLockfileMissing = npm_error_id ''required-lockfile-missing''"
definition IDStaleNonSelectedLockfile :: string where
  "IDStaleNonSelectedLockfile = ''windlass.verify.warning.stale-non-selected-lockfile''"

record Config =
  cf_RepositoryRoot :: string
  cf_PackageDirectory :: string
  cf_ObservedRepository :: string

record Package =
  pg_Directory :: string
  pg_RealDirectory :: string
  pg_RealManagerRoot :: string
  pg_ManagerRoot :: string
  pg_ManagerRootRelativeDirectory :: string
  pg_Name :: string
  pg_Version :: string
  pg_Repository :: string

record Result =
  re_Package :: Package
  re_Manager :: ManagerSelection
  re_Report :: Report

record resolvedPackage =
  rp_repositoryRootReal :: string
  rp_directoryReal :: string
  rp_directory :: string
  rp_managerRootReal :: string
  rp_managerRoot :: string
  rp_manifest :: manifest
  rp_manifestPath :: string
  rp_rootManifest :: "manifest option"
  rp_rootManifestPath :: string

record managerCandidate =
  ca_name :: Manager
  ca_version :: string
  ca_versionDeclared :: bool
  ca_digest :: "DeclaredDigest option"
  ca_source :: SelectionSource
  ca_manifestPath :: string

section \<open>The selected directory\<close>

definition joinRelative :: "string \<Rightarrow> string \<Rightarrow> string" where
  "joinRelative base name = (if base = ''.'' then name else Join [base, name])"

fun exact_case_from :: "file_tree \<Rightarrow> string \<Rightarrow> string list \<Rightarrow> bool" where
  "exact_case_from ft current [] = True"
| "exact_case_from ft current (segment # segments) =
     (if segment = ''.'' \<or> segment = [] then exact_case_from ft current segments
      else
        (case ft_ReadDir ft current of
           Inl _ \<Rightarrow> False
         | Inr entries \<Rightarrow>
             segment \<in> set entries \<and> exact_case_from ft (Join [current, segment]) segments))"

definition verifyExactCase :: "file_tree \<Rightarrow> string \<Rightarrow> string \<Rightarrow> bool" where
  "verifyExactCase ft root cleaned \<longleftrightarrow>
     (if cleaned = ''.'' then True else exact_case_from ft root (split_on (CHR ''/'') cleaned))"

text \<open>The real repository root, the real directory and the path between them.\<close>

definition resolveSelectedDirectory :: "file_tree \<Rightarrow> string \<Rightarrow> string \<Rightarrow> (string \<times> string \<times> string) option" where
  "resolveSelectedDirectory ft repositoryRoot packageDirectory =
     (if repositoryRoot = [] \<or> packageDirectory = [] \<or> PathIsAbs packageDirectory
         \<or> Contains packageDirectory [backslash] then None
      else if ''..'' \<in> set (split_on (CHR ''/'') packageDirectory) then None
      else
        (let cleaned = Clean packageDirectory in
         if cleaned = [] \<or> cleaned = ''/'' \<or> HasPrefix cleaned ''../'' then None
         else
           (case ft_Abs ft repositoryRoot of
              Inl _ \<Rightarrow> None
            | Inr rootAbsolute \<Rightarrow>
           (case ft_EvalSymlinks ft rootAbsolute of
              Inl _ \<Rightarrow> None
            | Inr rootReal \<Rightarrow>
                if \<not> verifyExactCase ft rootReal cleaned then None
                else
           (case ft_EvalSymlinks ft (Join [rootReal, cleaned]) of
              Inl _ \<Rightarrow> None
            | Inr selectedReal \<Rightarrow>
                if \<not> ft_IsDir ft selectedReal then None
                else
           (case Rel rootReal selectedReal of
              Inl _ \<Rightarrow> None
            | Inr relative \<Rightarrow>
                if relative = ''..'' \<or> HasPrefix relative ''../'' \<or> PathIsAbs relative then None
                else Some (rootReal, selectedReal, canonicalRelative relative)))))))"

section \<open>The package\<close>

text \<open>json.Unmarshal of a raw message into a string; a missing message is an error, a null leaves the empty string.\<close>

definition raw_string :: "jval option \<Rightarrow> string option" where
  "raw_string raw = (case raw of Some (JString s) \<Rightarrow> Some s | Some JNull \<Rightarrow> Some [] | _ \<Rightarrow> None)"

text \<open>Into a map of raw messages.\<close>

definition raw_object :: "jval \<Rightarrow> (string \<times> jval) list option" where
  "raw_object raw = (case raw of JObj members \<Rightarrow> Some members | JNull \<Rightarrow> Some [] | _ \<Rightarrow> None)"

definition normalizeRepository :: "jval option \<Rightarrow> string result" where
  "normalizeRepository raw =
     (case raw of
        None \<Rightarrow> Inl (ErrText ''missing repository'' [])
      | Some v \<Rightarrow>
     (case raw_string (Some v) of
        Some stringValue \<Rightarrow> CanonicalRepository stringValue
      | None \<Rightarrow>
     (case raw_object v of
        None \<Rightarrow> Inl (ErrText ''json'' [])
      | Some object \<Rightarrow>
          if length object < 2 \<or> length object > 3 then Inl (ErrText ''unsupported repository object shape'' [])
          else if list_ex (\<lambda>(key, _). key \<noteq> ''type'' \<and> key \<noteq> ''url'' \<and> key \<noteq> ''directory'') object then
            Inl (ErrText ''unknown repository object member'' [])
          else if raw_string (map_of object ''type'') \<noteq> Some ''git'' then
            Inl (ErrText ''repository object type must be git'' [])
          else
            (case raw_string (map_of object ''url'') of
               None \<Rightarrow> Inl (ErrText ''repository object URL must be a string'' [])
             | Some repositoryURL \<Rightarrow>
                 if map_of object ''directory'' \<noteq> None \<and> raw_string (map_of object ''directory'') = None then
                   Inl (ErrText ''repository directory must be a string'' [])
                 else CanonicalRepository repositoryURL))))"

text \<open>\<^const>\<open>Inl\<close> is the failure ID with its reason, \<^const>\<open>Inr\<close> the package and its canonical repository.\<close>

definition resolvePackage ::
  "yaml_decoder \<Rightarrow> file_tree \<Rightarrow> Config \<Rightarrow> (string \<times> string) + (resolvedPackage \<times> string)" where
  "resolvePackage yaml ft config =
     (case resolveSelectedDirectory ft (cf_RepositoryRoot config) (cf_PackageDirectory config) of
        None \<Rightarrow> Inl (IDPackageResolutionInvalid,
          ''package-directory does not resolve to one directory inside the repository'')
      | Some (rootReal, selectedReal, selectedRelative) \<Rightarrow>
     (case readManifest ft (Join [selectedReal, ''package.json'']) of
        Inl _ \<Rightarrow> Inl (IDPackageManifestInvalid, ''selected package.json is missing or invalid'')
      | Inr selectedManifest \<Rightarrow>
          if mf_Name selectedManifest = [] \<or> mf_Version selectedManifest = [] then
            Inl (IDPackageMetadataRequired, ''selected package.json requires non-empty name and version'')
          else if mf_Private selectedManifest then Inl (IDPackagePrivate, ''selected package is private'')
          else
     (case normalizeRepository (mf_Repository selectedManifest) of
        Inl _ \<Rightarrow> Inl (IDPackageRepositoryIdentityMismatch,
          ''package repository identity is missing, malformed, or unsupported'')
      | Inr canonicalRepository \<Rightarrow>
          if CanonicalRepository (cf_ObservedRepository config) \<noteq> Inr canonicalRepository then
            Inl (IDPackageRepositoryIdentityMismatch,
              ''package repository identity does not match the observed caller repository'')
          else
     (case discoverWorkspaceRoot yaml ft rootReal selectedReal of
        Some (Some (managerRootReal, rootManifest)) \<Rightarrow>
          (case Rel rootReal managerRootReal of
             Inl _ \<Rightarrow> Inl (IDPackageResolutionInvalid, ''package manager root cannot be represented inside the repository'')
           | Inr managerRootRelative \<Rightarrow>
               (let managerRoot = canonicalRelative managerRootRelative;
                    ofRoot = rootManifest \<noteq> None \<and> managerRootReal \<noteq> selectedReal
                in Inr (\<lparr>rp_repositoryRootReal = rootReal, rp_directoryReal = selectedReal,
                    rp_directory = selectedRelative, rp_managerRootReal = managerRootReal,
                    rp_managerRoot = managerRoot, rp_manifest = selectedManifest,
                    rp_manifestPath = joinRelative selectedRelative ''package.json'',
                    rp_rootManifest = (if ofRoot then rootManifest else None),
                    rp_rootManifestPath = (if ofRoot then joinRelative managerRoot ''package.json'' else [])\<rparr>,
                  canonicalRepository)))
      | _ \<Rightarrow> Inl (IDPackageResolutionInvalid,
          ''workspace metadata cannot resolve the selected package unambiguously'')))))"

section \<open>Declared managers\<close>

definition parsePackageManager :: "semver_pkg \<Rightarrow> jval \<Rightarrow> string \<Rightarrow> string + managerCandidate" where
  "parsePackageManager sv raw manifestPath =
     (case raw_string (Some raw) of
        None \<Rightarrow> Inl IDPackageManagerConflict
      | Some descriptor \<Rightarrow>
          (let (name, version, found) =
                 (case Cut descriptor [CHR ''@''] of None \<Rightarrow> (descriptor, [], False) | Some (a, b) \<Rightarrow> (a, b, True))
           in if \<not> found \<or> name = [] \<or> version = [] then
                (if name = ManagerYarn then Inl IDYarnSelectionInvalid
                 else if name = ManagerPNPM then Inl IDPackageManagerVersionRequired
                 else Inl IDPackageManagerConflict)
              else
                (case classifyDescriptorVersion sv name version of
                   Inl failureID \<Rightarrow> Inl failureID
                 | Inr (plain, digest) \<Rightarrow>
                     Inr \<lparr>ca_name = name, ca_version = plain, ca_versionDeclared = True, ca_digest = digest,
                       ca_source = SelectionPackageManager, ca_manifestPath = manifestPath\<rparr>)))"

definition onFail_values :: "string list" where
  "onFail_values = [''ignore'', ''warn'', ''error'', ''download'']"

definition parseDevEngines :: "semver_pkg \<Rightarrow> jval option \<Rightarrow> string \<Rightarrow> string + managerCandidate option" where
  "parseDevEngines sv raw manifestPath =
     (case raw of
        None \<Rightarrow> Inr None
      | Some v \<Rightarrow>
     (case raw_object v of
        None \<Rightarrow> Inl IDPackageManagerConflict
      | Some devEngines \<Rightarrow>
     (case map_of devEngines ''packageManager'' of
        None \<Rightarrow> Inr None
      | Some packageManagerRaw \<Rightarrow>
     (case raw_object packageManagerRaw of
        None \<Rightarrow> Inl IDPackageManagerConflict
      | Some object \<Rightarrow>
          if list_ex (\<lambda>(key, _). key \<noteq> ''name'' \<and> key \<noteq> ''version'' \<and> key \<noteq> ''onFail'') object then
            Inl IDPackageManagerConflict
          else
     (case raw_string (map_of object ''name'') of
        None \<Rightarrow> Inl IDPackageManagerConflict
      | Some name \<Rightarrow>
          if name = [] then Inl IDPackageManagerConflict
          else
            (let versionDeclared = map_of object ''version'' \<noteq> None;
                 decoded = (if versionDeclared then raw_string (map_of object ''version'') else Some [])
             in case decoded of
                  None \<Rightarrow> Inl IDPackageManagerConflict
                | Some version \<Rightarrow>
                    if map_of object ''onFail'' \<noteq> None \<and>
                       (case raw_string (map_of object ''onFail'') of
                          None \<Rightarrow> True | Some onFail \<Rightarrow> onFail \<notin> set onFail_values)
                    then Inl IDPackageManagerConflict
                    else
                      (case classifyDescriptorVersion sv name version of
                         Inl failureID \<Rightarrow> Inl failureID
                       | Inr (plain, digest) \<Rightarrow>
                           Inr (Some \<lparr>ca_name = name, ca_version = plain, ca_versionDeclared = versionDeclared,
                             ca_digest = digest, ca_source = SelectionDevEngines,
                             ca_manifestPath = manifestPath\<rparr>))))))))"

text \<open>The candidates of one manifest, packageManager before devEngines.\<close>

definition source_candidates :: "semver_pkg \<Rightarrow> manifest \<Rightarrow> string \<Rightarrow> string + managerCandidate list" where
  "source_candidates sv m manifestPath =
     (case (case mf_PackageManager m of
              None \<Rightarrow> Inr []
            | Some raw \<Rightarrow>
                (case parsePackageManager sv raw manifestPath of Inl failureID \<Rightarrow> Inl failureID | Inr c \<Rightarrow> Inr [c])) of
        Inl failureID \<Rightarrow> Inl failureID
      | Inr declared \<Rightarrow>
          (case parseDevEngines sv (mf_DevEngines m) manifestPath of
             Inl failureID \<Rightarrow> Inl failureID
           | Inr None \<Rightarrow> Inr declared
           | Inr (Some c) \<Rightarrow> Inr (declared @ [c])))"

fun candidates_of :: "semver_pkg \<Rightarrow> (manifest \<times> string) list \<Rightarrow> string + managerCandidate list" where
  "candidates_of sv [] = Inr []"
| "candidates_of sv ((m, manifestPath) # sources) =
     (case source_candidates sv m manifestPath of
        Inl failureID \<Rightarrow> Inl failureID
      | Inr cs \<Rightarrow>
          (case candidates_of sv sources of Inl failureID \<Rightarrow> Inl failureID | Inr cs' \<Rightarrow> Inr (cs @ cs')))"

definition manifestCandidates :: "semver_pkg \<Rightarrow> resolvedPackage \<Rightarrow> string + managerCandidate list" where
  "manifestCandidates sv resolved =
     candidates_of sv ((rp_manifest resolved, rp_manifestPath resolved) #
       (case rp_rootManifest resolved of None \<Rightarrow> [] | Some m \<Rightarrow> [(m, rp_rootManifestPath resolved)]))"

section \<open>Lockfiles\<close>

definition lockfileByManager :: "(Manager \<times> string) list" where
  "lockfileByManager =
     [(ManagerNPM, ''package-lock.json''), (ManagerPNPM, ''pnpm-lock.yaml''), (ManagerYarn, ''yarn.lock'')]"

definition lockfile_of :: "Manager \<Rightarrow> string" where
  "lockfile_of manager = (case map_of lockfileByManager manager of None \<Rightarrow> [] | Some name \<Rightarrow> name)"

fun present_among :: "file_tree \<Rightarrow> string \<Rightarrow> string list \<Rightarrow> string list option" where
  "present_among ft root [] = Some []"
| "present_among ft root (name # names) =
     (case ft_Lstat ft (Join [root, name]) of
        LstatEntry kind _ \<Rightarrow>
          if kind \<noteq> RegularFile then None else map_option ((#) name) (present_among ft root names)
      | LstatMissing \<Rightarrow> present_among ft root names
      | LstatFails \<Rightarrow> None)"

definition presentLockfiles :: "file_tree \<Rightarrow> string \<Rightarrow> string list option" where
  "presentLockfiles ft root = present_among ft root (map lockfile_of [ManagerNPM, ManagerPNPM, ManagerYarn])"

definition managerForLockfile :: "string \<Rightarrow> Manager" where
  "managerForLockfile lockfile =
     (case filter (\<lambda>(_, name). name = lockfile) lockfileByManager of [] \<Rightarrow> [] | (manager, _) # _ \<Rightarrow> manager)"

definition no_selection :: ManagerSelection where
  "no_selection = \<lparr>ms_Name = [], ms_Version = [], ms_Digest = None, ms_DeclaredVersion = [],
     ms_DeclaredVersionSet = False, ms_Source = [], ms_SelectionManifestPath = [], ms_SelectionLockfilePath = [],
     ms_SelectedLockfilePath = [], ms_IgnoredLockfilePaths = []\<rparr>"

text \<open>The selection, the warnings, and the failure ID, empty for none.\<close>

type_synonym selection_outcome = "ManagerSelection \<times> Diagnostic list \<times> string"

definition inferFromLockfile :: "file_tree \<Rightarrow> resolvedPackage \<Rightarrow> selection_outcome" where
  "inferFromLockfile ft resolved =
     (case presentLockfiles ft (rp_managerRootReal resolved) of
        Some [lockfile] \<Rightarrow>
          (let manager = managerForLockfile lockfile;
               selection = no_selection\<lparr>ms_Name := manager, ms_Source := SelectionLockfile,
                 ms_SelectionLockfilePath := joinRelative (rp_managerRoot resolved) lockfile,
                 ms_SelectedLockfilePath := joinRelative (rp_managerRoot resolved) lockfile\<rparr>
           in if manager = ManagerNPM then (selection, [], [])
              else if manager = ManagerPNPM then (selection, [], IDPackageManagerVersionRequired)
              else if manager = ManagerYarn then (selection, [], IDYarnSelectionInvalid)
              else (no_selection, [], IDPackageManagerConflict))
      | _ \<Rightarrow> (no_selection, [], IDPackageManagerConflict))"

definition stale_warning :: "(string \<Rightarrow> string result) \<Rightarrow> string \<Rightarrow> Diagnostic option" where
  "stale_warning transform ignoredPath =
     (case New transform IDStaleNonSelectedLockfile ''package_manager.lockfiles''
             ''A non-selected supported lockfile is ignored as stale.'' of
        Inl _ \<Rightarrow> None
      | Inr warning \<Rightarrow>
          Some (warning\<lparr>dg_Field := ''externalParameters.package_manager.ignored_lockfile_paths'',
            dg_Actual := Some (GString ignoredPath)\<rparr>))"

text \<open>The loop over the other lockfiles: the paths so far, the warnings so far.\<close>

fun warn_stale ::
  "(string \<Rightarrow> string result) \<Rightarrow> resolvedPackage \<Rightarrow> string \<Rightarrow> ManagerSelection \<Rightarrow> Diagnostic list \<Rightarrow> string list
    \<Rightarrow> selection_outcome" where
  "warn_stale transform resolved required selection warnings [] =
     (selection\<lparr>ms_IgnoredLockfilePaths := sort (ms_IgnoredLockfilePaths selection)\<rparr>, warnings, [])"
| "warn_stale transform resolved required selection warnings (lockfile # lockfiles) =
     (if lockfile = required then warn_stale transform resolved required selection warnings lockfiles
      else
        (let ignoredPath = joinRelative (rp_managerRoot resolved) lockfile;
             selection' = selection\<lparr>ms_IgnoredLockfilePaths := ms_IgnoredLockfilePaths selection @ [ignoredPath]\<rparr>
         in case stale_warning transform ignoredPath of
              None \<Rightarrow> (selection', [], IDPackageManagerConflict)
            | Some warning \<Rightarrow>
                warn_stale transform resolved required selection' (warnings @ [warning]) lockfiles))"

definition validateLockfiles ::
  "(string \<Rightarrow> string result) \<Rightarrow> file_tree \<Rightarrow> resolvedPackage \<Rightarrow> ManagerSelection \<Rightarrow> bool \<Rightarrow> selection_outcome" where
  "validateLockfiles transform ft resolved selection manifestSelected =
     (case presentLockfiles ft (rp_managerRootReal resolved) of
        None \<Rightarrow> (selection, [], IDRequiredLockfileMissing)
      | Some lockfiles \<Rightarrow>
          (let required = lockfile_of (ms_Name selection) in
           if required \<notin> set lockfiles then (selection, [], IDRequiredLockfileMissing)
           else
             (let selection' = selection\<lparr>ms_SelectedLockfilePath := joinRelative (rp_managerRoot resolved) required\<rparr>
              in if \<not> manifestSelected then (selection', [], [])
                 else warn_stale transform resolved required selection' [] lockfiles)))"

section \<open>The manager\<close>

definition effectiveVersion :: "managerCandidate \<Rightarrow> string" where
  "effectiveVersion candidate = (if ca_name candidate = ManagerNPM then [] else ca_version candidate)"

definition conflicts :: "managerCandidate \<Rightarrow> managerCandidate \<Rightarrow> bool" where
  "conflicts selected candidate \<longleftrightarrow>
     ca_name candidate \<noteq> ca_name selected \<or>
     (ca_name selected \<noteq> ManagerNPM \<and>
      (ca_version candidate \<noteq> ca_version selected \<or> \<not> declaredDigestsEqual (ca_digest candidate) (ca_digest selected)))"

definition selection_of :: "managerCandidate \<Rightarrow> ManagerSelection" where
  "selection_of selected =
     (let selection = no_selection\<lparr>ms_Name := ca_name selected, ms_Version := effectiveVersion selected,
            ms_Digest := ca_digest selected, ms_Source := ca_source selected,
            ms_SelectionManifestPath := ca_manifestPath selected\<rparr>
      in if ca_name selected = ManagerNPM then
           selection\<lparr>ms_DeclaredVersion := ca_version selected, ms_DeclaredVersionSet := ca_versionDeclared selected\<rparr>
         else selection)"

definition selectManager ::
  "semver_pkg \<Rightarrow> (string \<Rightarrow> string result) \<Rightarrow> file_tree \<Rightarrow> resolvedPackage \<Rightarrow> selection_outcome" where
  "selectManager sv transform ft resolved =
     (case manifestCandidates sv resolved of
        Inl failureID \<Rightarrow> (no_selection, [], failureID)
      | Inr [] \<Rightarrow> inferFromLockfile ft resolved
      | Inr (selected # others) \<Rightarrow>
          if list_ex (conflicts selected) others then (no_selection, [], IDPackageManagerConflict)
          else validateLockfiles transform ft resolved (selection_of selected) True)"

section \<open>The report\<close>

definition rejection_messages :: "(string \<times> string) list" where
  "rejection_messages =
     [(IDPackageManifestInvalid, ''The selected package manifest is missing or invalid.''),
      (IDPackageMetadataRequired, ''The selected package manifest requires name and version metadata.''),
      (IDPackagePrivate, ''The selected package is private and cannot be published by this profile.''),
      (IDPackageResolutionInvalid, ''The package directory does not resolve to exactly one package inside the repository.''),
      (IDPackageManagerConflict, ''Package-manager selection is unsupported, ambiguous, or conflicting.''),
      (IDPackageManagerVersionRequired, ''An exact pnpm package-manager version is required from manifest metadata.''),
      (IDYarnSelectionInvalid,
        ''Yarn requires manifest package-manager metadata selecting an exact Yarn v4 or newer version.''),
      (IDPnpmVersionUnsupported, ''The selected pnpm version is outside the supported 10.x or 11.x lines while Corepack is the production provisioning path.''),
      (IDPackageManagerDigestMalformed, ''The declared package-manager integrity digest violates the closed +<algorithm>.<hex> grammar or appears on an npm descriptor.''),
      (IDYarnVersionUnsupported,
        ''Yarn 6 or newer is not supported while Corepack is the production provisioning path.''),
      (IDRequiredLockfileMissing, ''The selected package manager's required lockfile is missing.''),
      (IDPackageRepositoryIdentityMismatch,
        ''The package repository identity is missing, invalid, or does not match the caller repository.'')]"

definition rejectionMessage :: "string \<Rightarrow> string" where
  "rejectionMessage ident =
     (case map_of rejection_messages ident of
        None \<Rightarrow> ''The npm profile selection policy rejected the package.''
      | Some message \<Rightarrow> message)"

definition relativePackageDirectory :: "resolvedPackage \<Rightarrow> string" where
  "relativePackageDirectory resolved =
     (case Rel (rp_managerRootReal resolved) (rp_directoryReal resolved) of
        Inl _ \<Rightarrow> [] | Inr relative \<Rightarrow> canonicalRelative relative)"

definition zero_report :: Report where
  "zero_report = \<lparr>rp_SchemaVersion = [], rp_Result = [], rp_ExitCode = 0, rp_PrimaryID = None,
     rp_RunInvocation = None, rp_Diagnostics = None, rp_DiagnosticMetadata = None\<rparr>"

definition zero_package :: Package where
  "zero_package = \<lparr>pg_Directory = [], pg_RealDirectory = [], pg_RealManagerRoot = [], pg_ManagerRoot = [],
     pg_ManagerRootRelativeDirectory = [], pg_Name = [], pg_Version = [], pg_Repository = []\<rparr>"

definition zero_result :: Result where
  "zero_result = \<lparr>re_Package = zero_package, re_Manager = no_selection, re_Report = zero_report\<rparr>"

type_synonym report_sorter = "(Diagnostic \<Rightarrow> Diagnostic \<Rightarrow> bool) \<Rightarrow> Diagnostic list \<Rightarrow> Diagnostic list"

text \<open>A Go pair of a result and an error.\<close>

definition rejectedResult ::
  "(string \<Rightarrow> string result) \<Rightarrow> report_sorter \<Rightarrow> string \<Rightarrow> DiagnosticMetadata option \<Rightarrow> Result \<times> go_error option" where
  "rejectedResult transform sorter ident metadata =
     (case New transform ident ''npm_profile.selection'' (rejectionMessage ident) of
        Inl err \<Rightarrow> (zero_result, Some (ErrWrap ''construct npm profile diagnostic: %w'' [] [err]))
      | Inr entry \<Rightarrow>
          (case Build transform sorter None [entry] metadata of
             Inl err \<Rightarrow> (zero_result, Some (ErrWrap ''build npm profile rejection report: %w'' [] [err]))
           | Inr report \<Rightarrow> (zero_result\<lparr>re_Report := report\<rparr>, None)))"

definition resolved_Package :: "resolvedPackage \<Rightarrow> string \<Rightarrow> Package" where
  "resolved_Package resolved canonicalRepository =
     \<lparr>pg_Directory = rp_directory resolved, pg_RealDirectory = rp_directoryReal resolved,
      pg_RealManagerRoot = rp_managerRootReal resolved, pg_ManagerRoot = rp_managerRoot resolved,
      pg_ManagerRootRelativeDirectory = relativePackageDirectory resolved,
      pg_Name = mf_Name (rp_manifest resolved), pg_Version = mf_Version (rp_manifest resolved),
      pg_Repository = canonicalRepository\<rparr>"

definition Analyze ::
  "semver_pkg \<Rightarrow> (string \<Rightarrow> string result) \<Rightarrow> report_sorter \<Rightarrow> yaml_decoder \<Rightarrow> file_tree \<Rightarrow> Config
    \<Rightarrow> Result \<times> go_error option" where
  "Analyze sv transform sorter yaml ft config =
     (case resolvePackage yaml ft config of
        Inl (failureID, _) \<Rightarrow> rejectedResult transform sorter failureID None
      | Inr (resolved, canonicalRepository) \<Rightarrow>
          (let package = resolved_Package resolved canonicalRepository;
               (selection, diagnostics, failureID) = selectManager sv transform ft resolved
           in if failureID \<noteq> [] then
                (let (rejected, err) = rejectedResult transform sorter failureID None
                 in (rejected\<lparr>re_Package := package, re_Manager := selection\<rparr>, err))
              else
                (case Build transform sorter None diagnostics None of
                   Inl err \<Rightarrow> (zero_result, Some (ErrWrap ''build npm profile report: %w'' [] [err]))
                 | Inr report \<Rightarrow>
                     (\<lparr>re_Package = package, re_Manager = selection, re_Report = report\<rparr>, None))))"

section \<open>The directory lies in the repository\<close>

lemma exact_case_listed:
  "list_all (\<lambda>w. w \<noteq> [] \<and> w \<noteq> ''.'') ws \<Longrightarrow>
     exact_case_from ft current ws \<longleftrightarrow>
       list_all (\<lambda>k. case ft_ReadDir ft (foldl (\<lambda>c w. Join [c, w]) current (take k ws)) of
         Inl _ \<Rightarrow> False | Inr entries \<Rightarrow> ws ! k \<in> set entries) [0..<length ws]"
proof (induction ws arbitrary: current)
  case (Cons w ws)
  have shift: "list_all P [0..<Suc n] \<longleftrightarrow> P 0 \<and> list_all (\<lambda>k. P (Suc k)) [0..<n]" for P n
    by (simp only: list_all_iff set_upt) (auto simp: less_Suc_eq_0_disj)
  from Cons show ?case by (simp add: shift split: sum.split del: upt_Suc)
qed simp

lemma Clean_relative:
  "p \<noteq> [] \<Longrightarrow> \<not> PathIsAbs p \<Longrightarrow>
     Clean p = (if clean_elements p = [] then ''.'' else join_with ''/'' (clean_elements p))"
  by (simp add: Clean_def PathIsAbs_def Let_def)

lemma relative_parts:
  assumes "p \<noteq> []" "\<not> PathIsAbs p"
  shows "verifyExactCase ft root (Clean p) \<longleftrightarrow> exact_case_from ft root (clean_elements p)"
proof (cases "clean_elements p = []")
  case True
  then show ?thesis using assms by (simp add: Clean_relative verifyExactCase_def)
next
  case False
  have parts: "split_on (CHR ''/'') (Clean p) = clean_elements p"
    using False assms split_join [OF False] clean_elements_clean [of p]
    by (simp add: Clean_relative list_all_iff clean_element_def)
  moreover have "''.'' \<notin> set (clean_elements p)"
    using clean_elements_clean [of p] by (auto simp: clean_element_def)
  moreover have "split_on (CHR ''/'') ''.'' = [''.'']" by simp
  ultimately have "Clean p \<noteq> ''.''" by (metis list.set_intros(1))
  with parts show ?thesis by (simp add: verifyExactCase_def)
qed

lemma canonical_join:
  "Ball (set ts) clean_element \<Longrightarrow>
     canonicalRelative (if ts = [] then ''.'' else join_with ''/'' ts) = (if ts = [] then ''.'' else join_with ''/'' ts)"
  by (cases ts rule: list.exhaust; cases "tl ts"; auto simp: canonicalRelative_def clean_element_def)

text \<open>
  C25: A selected package directory never leaves the repository.  The real directory is one reached without
  parent steps from the real repository root, every step spelled exactly as the directory lists it; its elements
  extend those of the root, and the relative path reported is precisely that extension, whatever symbolic links
  the file system resolved on the way.
\<close>

theorem selected_directory_inside:
  "case resolveSelectedDirectory ft repositoryRoot packageDirectory of
     None \<Rightarrow> True
   | Some (rootReal, selectedReal, relative) \<Rightarrow>
       bind_result (ft_Abs ft repositoryRoot) (ft_EvalSymlinks ft) = Inr rootReal \<and>
       ft_EvalSymlinks ft (Join [rootReal, Clean packageDirectory]) = Inr selectedReal \<and>
       ft_IsDir ft selectedReal \<and>
       ''..'' \<notin> set (split_on (CHR ''/'') packageDirectory) \<and>
       list_all (\<lambda>k. case ft_ReadDir ft (foldl (\<lambda>c w. Join [c, w]) rootReal (take k (clean_elements packageDirectory))) of
           Inl _ \<Rightarrow> False | Inr entries \<Rightarrow> clean_elements packageDirectory ! k \<in> set entries)
         [0..<length (clean_elements packageDirectory)] \<and>
       (\<exists>ts. clean_elements selectedReal = clean_elements rootReal @ ts \<and>
         relative = (if ts = [] then ''.'' else join_with ''/'' ts))"
proof (cases "resolveSelectedDirectory ft repositoryRoot packageDirectory")
  case (Some r)
  obtain rootReal selectedReal relative where r: "r = (rootReal, selectedReal, relative)" by (cases r)
  from Some [unfolded resolveSelectedDirectory_def r] obtain absolute rel where
    form: "packageDirectory \<noteq> []" "\<not> PathIsAbs packageDirectory"
      "''..'' \<notin> set (split_on (CHR ''/'') packageDirectory)"
    and root: "ft_Abs ft repositoryRoot = Inr absolute" "ft_EvalSymlinks ft absolute = Inr rootReal"
    and exact: "verifyExactCase ft rootReal (Clean packageDirectory)"
    and sel: "ft_EvalSymlinks ft (Join [rootReal, Clean packageDirectory]) = Inr selectedReal"
      "ft_IsDir ft selectedReal"
    and rel: "Rel rootReal selectedReal = Inr rel" "rel \<noteq> ''..''" "\<not> HasPrefix rel ''../''"
      "relative = canonicalRelative rel"
    by (auto simp: Let_def split: if_splits sum.splits)
  from Rel_below [OF rel(1-3)] obtain ts where
    ts: "clean_elements selectedReal = clean_elements rootReal @ ts" "rel = (if ts = [] then ''.'' else join_with ''/'' ts)"
    by blast
  have "Ball (set ts) clean_element"
    using clean_elements_clean [of selectedReal] ts(1) by simp
  then have relative: "relative = (if ts = [] then ''.'' else join_with ''/'' ts)"
    using canonical_join rel(4) ts(2) by simp
  have "list_all (\<lambda>w. w \<noteq> [] \<and> w \<noteq> ''.'') (clean_elements packageDirectory)"
    using clean_elements_clean [of packageDirectory] by (auto simp: list_all_iff clean_element_def)
  from exact_case_listed [OF this] exact form
  have "list_all (\<lambda>k. case ft_ReadDir ft (foldl (\<lambda>c w. Join [c, w]) rootReal (take k (clean_elements packageDirectory))) of
           Inl _ \<Rightarrow> False | Inr entries \<Rightarrow> clean_elements packageDirectory ! k \<in> set entries)
         [0..<length (clean_elements packageDirectory)]"
    by (simp add: relative_parts)
  with Some r root sel form ts(1) relative show ?thesis by auto
qed simp

section \<open>Managers are named once\<close>

text \<open>An error ID of the npm profile.\<close>

definition npm_error :: "string \<Rightarrow> bool" where
  "npm_error ident \<longleftrightarrow> (\<exists>category. ident = npm_error_id category)"

lemma npm_error_id_error [simp]: "npm_error (npm_error_id c)" "npm_error_id c \<noteq> []" "\<not> npm_error []"
  by (auto simp: npm_error_def npm_error_id_def)

lemma mismatch_error [simp]: "npm_error IDPackageRepositoryIdentityMismatch"
  by (auto simp: npm_error_def npm_error_id_def IDPackageRepositoryIdentityMismatch_def
      intro: exI [of _ "''package-repository-identity-mismatch''"])

lemmas failure_ids = IDPackageManifestInvalid_def IDPackageMetadataRequired_def IDPackagePrivate_def
  IDPackageResolutionInvalid_def IDPackageManagerConflict_def IDPackageManagerVersionRequired_def
  IDPackageManagerDigestMalformed_def IDYarnSelectionInvalid_def IDPnpmVersionUnsupported_def
  IDYarnVersionUnsupported_def IDRequiredLockfileMissing_def

lemma classify_failure: "classifyDescriptorVersion sv manager version = Inl e \<Longrightarrow> npm_error e"
  by (auto simp: classifyDescriptorVersion_def parseDescriptorVersion_def Let_def failure_ids
      split: if_splits sum.splits option.splits)

lemma classify_known:
  "classifyDescriptorVersion sv manager version = Inr r \<Longrightarrow> manager \<in> {ManagerNPM, ManagerPNPM, ManagerYarn}"
  by (auto simp: classifyDescriptorVersion_def split: if_splits)

text \<open>A candidate comes from a descriptor that the version rules accept.\<close>

definition sound_candidate :: "semver_pkg \<Rightarrow> managerCandidate \<Rightarrow> bool" where
  "sound_candidate sv c \<longleftrightarrow>
     (\<exists>version. classifyDescriptorVersion sv (ca_name c) version = Inr (ca_version c, ca_digest c))"

lemma parsePackageManager_sound:
  "parsePackageManager sv raw path = Inr c \<Longrightarrow> sound_candidate sv c"
  "parsePackageManager sv raw path = Inl e \<Longrightarrow> npm_error e"
  using classify_failure
  by (auto simp: parsePackageManager_def sound_candidate_def failure_ids Let_def
      split: option.splits if_splits sum.splits prod.splits)

lemma parseDevEngines_sound:
  "parseDevEngines sv raw path = Inr (Some c) \<Longrightarrow> sound_candidate sv c"
  "parseDevEngines sv raw path = Inl e \<Longrightarrow> npm_error e"
  unfolding parseDevEngines_def Let_def using classify_failure
  by (auto simp: sound_candidate_def failure_ids
      split: option.splits if_splits sum.splits prod.splits)

lemma source_candidates_sound:
  "source_candidates sv m path = Inr cs \<Longrightarrow> Ball (set cs) (sound_candidate sv)"
  "source_candidates sv m path = Inl e \<Longrightarrow> npm_error e"
  using parsePackageManager_sound parseDevEngines_sound
  by (auto simp: source_candidates_def split: option.splits sum.splits)

lemma candidates_of_sound: "candidates_of sv sources = Inr cs \<Longrightarrow> Ball (set cs) (sound_candidate sv)"
proof (induction sources arbitrary: cs)
  case (Cons a sources)
  obtain m path where a: "a = (m, path)" by (cases a)
  with Cons.prems obtain cs1 cs2 where
    "source_candidates sv m path = Inr cs1" "candidates_of sv sources = Inr cs2" "cs = cs1 @ cs2"
    by (auto split: sum.splits)
  with Cons.IH source_candidates_sound(1) show ?case by (metis UnE set_append)
qed simp

lemma candidates_of_failure: "candidates_of sv sources = Inl e \<Longrightarrow> npm_error e"
  by (induction sources) (auto split: sum.splits dest: source_candidates_sound(2))

lemma manifestCandidates_sound:
  "manifestCandidates sv resolved = Inr cs \<Longrightarrow> Ball (set cs) (sound_candidate sv)"
  "manifestCandidates sv resolved = Inl e \<Longrightarrow> npm_error e"
  unfolding manifestCandidates_def using candidates_of_sound candidates_of_failure by blast+

section \<open>Lockfiles that are ignored\<close>

lemma stale_registered:
  "\<exists>d. Lookup IDStaleNonSelectedLockfile = Some d \<and> def_Severity d = SeverityWarning"
proof -
  have "''stale-non-selected-lockfile'' \<in> set warningCategories"
    unfolding warningCategories_def by (intro list.set_intros)
  moreover have "IDStaleNonSelectedLockfile = warning_id ''stale-non-selected-lockfile''"
    by (simp add: IDStaleNonSelectedLockfile_def warning_id_def)
  ultimately have "Lookup IDStaleNonSelectedLockfile = Some (base_warning ''stale-non-selected-lockfile'')"
    unfolding Lookup_closed by blast
  then show ?thesis by (simp add: base_warning_def)
qed

lemma stale_warning_Some:
  "\<exists>w. stale_warning transform path = Some w \<and> dg_Actual w = Some (GString path) \<and>
     dg_ID w = IDStaleNonSelectedLockfile"
proof -
  obtain d where d: "Lookup IDStaleNonSelectedLockfile = Some d" using stale_registered by blast
  then have "def_ID d = IDStaleNonSelectedLockfile"
    by (rule Lookup_Some [THEN conjunct1])
  moreover have "utf8_valid ''package_manager.lockfiles''"
    "utf8_valid ''A non-selected supported lockfile is ignored as stale.''"
    by (rule utf8_valid_ascii, code_simp)+
  ultimately show ?thesis
    using d by (simp add: stale_warning_def New_def validateDiagnostic_def validateOptionalJSON_def Let_def)
qed

lemma warn_stale_spec:
  "\<exists>selection' warnings'.
     warn_stale transform resolved required selection warnings lockfiles = (selection', warnings @ warnings', []) \<and>
     (let ignored = map (joinRelative (rp_managerRoot resolved)) (filter (\<lambda>l. l \<noteq> required) lockfiles) in
      selection' = selection\<lparr>ms_IgnoredLockfilePaths := sort (ms_IgnoredLockfilePaths selection @ ignored)\<rparr> \<and>
      map dg_Actual warnings' = map (\<lambda>p. Some (GString p)) ignored \<and>
      list_all (\<lambda>w. dg_ID w = IDStaleNonSelectedLockfile) warnings')"
proof (induction lockfiles arbitrary: selection warnings)
  case (Cons l lockfiles)
  show ?case
  proof (cases "l = required")
    case False
    let ?p = "joinRelative (rp_managerRoot resolved) l"
    obtain w where w: "stale_warning transform ?p = Some w" "dg_Actual w = Some (GString ?p)"
      "dg_ID w = IDStaleNonSelectedLockfile"
      using stale_warning_Some by blast
    let ?s = "selection\<lparr>ms_IgnoredLockfilePaths := ms_IgnoredLockfilePaths selection @ [?p]\<rparr>"
    obtain s ws where "warn_stale transform resolved required ?s (warnings @ [w]) lockfiles =
        (s, (warnings @ [w]) @ ws, [])"
      "let ignored = map (joinRelative (rp_managerRoot resolved)) (filter (\<lambda>l. l \<noteq> required) lockfiles) in
       s = ?s\<lparr>ms_IgnoredLockfilePaths := sort (ms_IgnoredLockfilePaths ?s @ ignored)\<rparr> \<and>
       map dg_Actual ws = map (\<lambda>p. Some (GString p)) ignored \<and>
       list_all (\<lambda>w. dg_ID w = IDStaleNonSelectedLockfile) ws"
      using Cons.IH [of ?s "warnings @ [w]"] by blast
    then show ?thesis
      using False w by (intro exI [of _ s] exI [of _ "w # ws"]) (simp add: Let_def)
  qed (use Cons.IH in \<open>simp add: Let_def\<close>)
qed simp

section \<open>What a selection guarantees\<close>

text \<open>A declared candidate agrees with a selection: the same manager and, unless it is npm, the same version
  and the same declared digest, which the version rules accept.\<close>

definition agrees :: "semver_pkg \<Rightarrow> ManagerSelection \<Rightarrow> managerCandidate \<Rightarrow> bool" where
  "agrees sv selection c \<longleftrightarrow>
     ca_name c = ms_Name selection \<and>
     (if ms_Name selection = ManagerNPM then ms_Version selection = []
      else ca_version c = ms_Version selection \<and> ca_digest c = ms_Digest selection) \<and>
     sound_candidate sv c"

lemma declaredDigestsEqual_iff [simp]: "declaredDigestsEqual a b \<longleftrightarrow> a = b"
  by (auto simp: declaredDigestsEqual_def)

lemma selection_of_simps [simp]:
  "ms_Name (selection_of c) = ca_name c" "ms_Version (selection_of c) = effectiveVersion c"
  "ms_Digest (selection_of c) = ca_digest c" "ms_IgnoredLockfilePaths (selection_of c) = []"
  by (simp_all add: selection_of_def no_selection_def Let_def)

lemma agrees_selected:
  assumes "Ball (set (c # cs)) (sound_candidate sv)" "\<not> list_ex (conflicts c) cs"
    and "ms_Name s = ca_name c" "ms_Version s = effectiveVersion c" "ms_Digest s = ca_digest c"
  shows "list_all (agrees sv s) (c # cs)"
  using assms by (auto simp: agrees_def conflicts_def list_ex_iff list_all_iff effectiveVersion_def)

lemma inferred_npm:
  assumes "inferFromLockfile ft resolved = (selection, warnings, [])"
  shows "presentLockfiles ft (rp_managerRootReal resolved) = Some [''package-lock.json''] \<and>
    selection = no_selection\<lparr>ms_Name := ManagerNPM, ms_Source := SelectionLockfile,
      ms_SelectionLockfilePath := joinRelative (rp_managerRoot resolved) ''package-lock.json'',
      ms_SelectedLockfilePath := joinRelative (rp_managerRoot resolved) ''package-lock.json''\<rparr> \<and> warnings = []"
  using assms
  by (auto simp: inferFromLockfile_def managerForLockfile_def lockfileByManager_def manager_defs failure_ids Let_def
      split: option.splits list.splits if_splits)

lemma validated_lockfiles:
  assumes "validateLockfiles transform ft resolved selection0 True = (selection, warnings, [])"
    and "ms_IgnoredLockfilePaths selection0 = []"
  shows "\<exists>lockfiles. presentLockfiles ft (rp_managerRootReal resolved) = Some lockfiles \<and>
    lockfile_of (ms_Name selection0) \<in> set lockfiles \<and>
    (let ignored = map (joinRelative (rp_managerRoot resolved))
           (filter (\<lambda>l. l \<noteq> lockfile_of (ms_Name selection0)) lockfiles) in
     selection = selection0\<lparr>ms_SelectedLockfilePath := joinRelative (rp_managerRoot resolved)
         (lockfile_of (ms_Name selection0)), ms_IgnoredLockfilePaths := sort ignored\<rparr> \<and>
     map dg_Actual warnings = map (\<lambda>p. Some (GString p)) ignored \<and>
     list_all (\<lambda>w. dg_ID w = IDStaleNonSelectedLockfile) warnings)"
proof (cases "presentLockfiles ft (rp_managerRootReal resolved)")
  case (Some lockfiles)
  let ?r = "lockfile_of (ms_Name selection0)"
  let ?s = "selection0\<lparr>ms_SelectedLockfilePath := joinRelative (rp_managerRoot resolved) ?r\<rparr>"
  have req: "?r \<in> set lockfiles"
    using assms(1) Some by (auto simp: validateLockfiles_def failure_ids Let_def split: if_splits)
  then have "warn_stale transform resolved ?r ?s [] lockfiles = (selection, warnings, [])"
    using assms(1) Some by (simp add: validateLockfiles_def Let_def)
  with warn_stale_spec [of transform resolved ?r ?s "[]" lockfiles] assms(2) req Some
  show ?thesis by (auto simp: Let_def)
qed (use assms in \<open>simp add: validateLockfiles_def failure_ids\<close>)

text \<open>
  C26: When a manager is selected without a failure, the lockfile it requires is a regular file in the manager root.
  Where the manifests declare managers, every declaration of the package and of the workspace root names the
  selected one and, for pnpm and Yarn, the selected version and digest, all accepted by the version rules; each
  other supported lockfile is ignored, listed in order and reported in one warning.  Without a declaration it is
  npm, and package-lock.json is the only lockfile there.
\<close>

theorem select_manager_sound:
  "case selectManager sv transform ft resolved of (selection, warnings, failureID) \<Rightarrow>
     if failureID = [] then
       (\<exists>lockfiles. presentLockfiles ft (rp_managerRootReal resolved) = Some lockfiles \<and>
          lockfile_of (ms_Name selection) \<in> set lockfiles \<and>
          ms_SelectedLockfilePath selection = joinRelative (rp_managerRoot resolved) (lockfile_of (ms_Name selection)) \<and>
          (case manifestCandidates sv resolved of
             Inl _ \<Rightarrow> False
           | Inr [] \<Rightarrow> ms_Name selection = ManagerNPM \<and> lockfiles = [''package-lock.json''] \<and> warnings = []
           | Inr cs \<Rightarrow>
               list_all (agrees sv selection) cs \<and>
               (let ignored = map (joinRelative (rp_managerRoot resolved))
                      (filter (\<lambda>l. l \<noteq> lockfile_of (ms_Name selection)) lockfiles)
                in ms_IgnoredLockfilePaths selection = sort ignored \<and>
                   map dg_Actual warnings = map (\<lambda>p. Some (GString p)) ignored)))
     else True"
proof -
  obtain selection warnings failureID where run: "selectManager sv transform ft resolved = (selection, warnings, failureID)"
    by (cases "selectManager sv transform ft resolved")
  show ?thesis
  proof (cases "failureID = []")
    case ok: True
    then obtain cs where cs: "manifestCandidates sv resolved = Inr cs"
      using run manifestCandidates_sound(2) [of sv resolved "[]"] by (auto simp: selectManager_def split: sum.splits)
    show ?thesis
    proof (cases cs)
      case Nil
      with run cs ok have "inferFromLockfile ft resolved = (selection, warnings, [])" by (simp add: selectManager_def)
      from inferred_npm [OF this] show ?thesis
        using run ok cs Nil by (simp add: lockfile_of_def lockfileByManager_def manager_defs)
    next
      case (Cons c others)
      with run cs ok have agree: "\<not> list_ex (conflicts c) others"
        and locks: "validateLockfiles transform ft resolved (selection_of c) True = (selection, warnings, [])"
        by (auto simp: selectManager_def failure_ids split: if_splits)
      from validated_lockfiles [OF locks] obtain lockfiles where
        ls: "presentLockfiles ft (rp_managerRootReal resolved) = Some lockfiles"
          "lockfile_of (ca_name c) \<in> set lockfiles"
        and sel: "let ignored = map (joinRelative (rp_managerRoot resolved)) (filter (\<lambda>l. l \<noteq> lockfile_of (ca_name c)) lockfiles)
          in selection = (selection_of c)\<lparr>ms_SelectedLockfilePath := joinRelative (rp_managerRoot resolved)
             (lockfile_of (ca_name c)), ms_IgnoredLockfilePaths := sort ignored\<rparr> \<and>
             map dg_Actual warnings = map (\<lambda>p. Some (GString p)) ignored"
        by (auto simp: Let_def)
      have "list_all (agrees sv selection) (c # others)"
        using sel by (intro agrees_selected agree) (auto simp: Let_def manifestCandidates_sound(1) [OF cs [unfolded Cons]])
      with run ok cs Cons ls sel show ?thesis by (auto simp: Let_def)
    qed
  qed (use run in simp)
qed

section \<open>What a report guarantees\<close>

lemma npm_error_severity: "Lookup ident = Some d \<Longrightarrow> npm_error ident \<Longrightarrow> def_Severity d = SeverityError"
  by (auto dest!: Lookup_Some simp: npm_error_def npm_error_id_def warning_id_def)

lemma sorted_singleton: "slice_sort sorter \<Longrightarrow> ordered_by T sorter [d] = [d]"
  using slice_sort.permutes [of sorter "diagnosticLess T" "[d]"] by (simp add: ordered_by_def)

text \<open>A rejection is a failing report whose primary ID is the given one.\<close>

lemma rejectedResult_fails:
  assumes "rejectedResult T sorter ident metadata = (r, None)" and "slice_sort sorter" and "npm_error ident"
  shows "rp_Result (re_Report r) = ResultFail \<and> rp_PrimaryID (re_Report r) = Some ident"
proof -
  obtain entry report where entry: "New T ident ''npm_profile.selection'' (rejectionMessage ident) = Inr entry"
    and report: "Build T sorter None [entry] metadata = Inr report" "re_Report r = report"
    using assms(1) by (auto simp: rejectedResult_def split: sum.splits)
  from entry obtain d where d: "Lookup ident = Some d" "dg_ID entry = def_ID d"
    by (auto simp: New_def Let_def split: option.splits)
  then have "dg_ID entry = ident" "def_Severity d = SeverityError"
    using Lookup_Some npm_error_severity assms(3) by auto
  with d report Build_Inr [OF report(1)] show ?thesis
    by (simp add: sorted_singleton assms(2) registry_at_def)
qed

lemma resolvePackage_failure: "resolvePackage yaml ft config = Inl (ident, reason) \<Longrightarrow> npm_error ident"
  by (auto simp: resolvePackage_def failure_ids Let_def split: option.splits prod.splits sum.splits if_splits)

lemma selectManager_failure:
  "selectManager sv T ft resolved = (selection, warnings, ident) \<Longrightarrow> ident = [] \<or> npm_error ident"
proof -
  have warn: "warn_stale T resolved required s ws ls = (s', ws', e) \<Longrightarrow> e = []" for required s ws ls s' ws' e
    using warn_stale_spec [of T resolved required s ws ls] by auto
  have locks: "validateLockfiles T ft resolved s True = (selection, warnings, ident) \<Longrightarrow> ident = [] \<or> npm_error ident" for s
    by (auto simp: validateLockfiles_def failure_ids Let_def split: option.splits if_splits dest: warn)
  have infer: "inferFromLockfile ft resolved = (selection, warnings, ident) \<Longrightarrow> ident = [] \<or> npm_error ident"
    by (auto simp: inferFromLockfile_def failure_ids Let_def split: option.splits list.splits if_splits)
  show "selectManager sv T ft resolved = (selection, warnings, ident) \<Longrightarrow> ident = [] \<or> npm_error ident"
    using locks infer manifestCandidates_sound(2)
    by (auto simp: selectManager_def IDPackageManagerConflict_def split: sum.splits list.splits if_splits)
qed

lemma selectManager_warnings:
  assumes "selectManager sv T ft resolved = (selection, warnings, [])"
  shows "list_all (\<lambda>w. dg_ID w = IDStaleNonSelectedLockfile) warnings"
  using assms manifestCandidates_sound(2) [of sv resolved "[]"]
  by (auto simp: selectManager_def failure_ids Let_def split: sum.splits list.splits if_splits
      dest!: inferred_npm validated_lockfiles)

lemma derive_warnings:
  "list_all (\<lambda>w. dg_ID w = IDStaleNonSelectedLockfile) ds \<Longrightarrow> derive ds = (ResultPass, ExitCodePass, None)"
  using stale_registered by (induction ds) (auto simp: registry_at_def SeverityError_def SeverityWarning_def)

lemma resolvePackage_facts:
  assumes "resolvePackage yaml ft config = Inr (resolved, repository)"
  shows "mf_Name (rp_manifest resolved) \<noteq> [] \<and> mf_Version (rp_manifest resolved) \<noteq> [] \<and>
    \<not> mf_Private (rp_manifest resolved) \<and>
    normalizeRepository (mf_Repository (rp_manifest resolved)) = Inr repository \<and>
    CanonicalRepository (cf_ObservedRepository config) = Inr repository \<and>
    resolveSelectedDirectory ft (cf_RepositoryRoot config) (cf_PackageDirectory config) =
      Some (rp_repositoryRootReal resolved, rp_directoryReal resolved, rp_directory resolved) \<and>
    readManifest ft (Join [rp_directoryReal resolved, ''package.json'']) = Inr (rp_manifest resolved)"
  using assms
  by (auto simp: resolvePackage_def Let_def split: option.splits prod.splits sum.splits if_splits)

text \<open>The failure a run ends with, empty for none: the package's, else the selection's.\<close>

definition analyze_failure ::
  "semver_pkg \<Rightarrow> (string \<Rightarrow> string result) \<Rightarrow> yaml_decoder \<Rightarrow> file_tree \<Rightarrow> Config \<Rightarrow> string" where
  "analyze_failure sv transform yaml ft config =
     (case resolvePackage yaml ft config of
        Inl (ident, _) \<Rightarrow> ident
      | Inr (resolved, _) \<Rightarrow> snd (snd (selectManager sv transform ft resolved)))"

lemma Analyze_failed:
  assumes "Analyze sv T sorter yaml ft config = (r, None)" and "analyze_failure sv T yaml ft config \<noteq> []"
  shows "\<exists>r'. rejectedResult T sorter (analyze_failure sv T yaml ft config) None = (r', None) \<and>
      re_Report r = re_Report r' \<and> npm_error (analyze_failure sv T yaml ft config)"
proof (cases "resolvePackage yaml ft config")
  case (Inl f)
  then show ?thesis using assms resolvePackage_failure
    by (cases f) (auto simp: Analyze_def analyze_failure_def)
next
  case (Inr p)
  obtain resolved repository where p: "p = (resolved, repository)" by (cases p)
  obtain selection warnings ident where
    run: "selectManager sv T ft resolved = (selection, warnings, ident)"
    by (cases "selectManager sv T ft resolved")
  with Inr p have ident: "analyze_failure sv T yaml ft config = ident" by (simp add: analyze_failure_def)
  with assms(2) selectManager_failure [OF run] have "npm_error ident" by simp
  moreover obtain r' err where "rejectedResult T sorter ident None = (r', err)"
    by (cases "rejectedResult T sorter ident None")
  ultimately show ?thesis
    using assms Inr p run ident by (auto simp: Analyze_def Let_def)
qed

lemma Analyze_passed:
  assumes "Analyze sv T sorter yaml ft config = (r, None)" and "analyze_failure sv T yaml ft config = []"
    and "slice_sort sorter"
  shows "\<exists>resolved warnings. resolvePackage yaml ft config = Inr (resolved, pg_Repository (re_Package r)) \<and>
    re_Package r = resolved_Package resolved (pg_Repository (re_Package r)) \<and>
    selectManager sv T ft resolved = (re_Manager r, warnings, []) \<and>
    rp_Result (re_Report r) = ResultPass \<and> rp_PrimaryID (re_Report r) = None"
proof (cases "resolvePackage yaml ft config")
  case (Inl f)
  then show ?thesis using assms(2) by (cases f) (auto simp: analyze_failure_def dest!: resolvePackage_failure)
next
  case (Inr p)
  obtain resolved repository where p: "p = (resolved, repository)" by (cases p)
  obtain selection warnings where run: "selectManager sv T ft resolved = (selection, warnings, [])"
    using assms(2) Inr p by (cases "selectManager sv T ft resolved") (simp add: analyze_failure_def)
  obtain report where report: "Build T sorter None warnings None = Inr report"
    and r: "r = \<lparr>re_Package = resolved_Package resolved repository, re_Manager = selection, re_Report = report\<rparr>"
    using assms(1) Inr p run by (auto simp: Analyze_def Let_def split: sum.splits)
  have "list_all (\<lambda>w. dg_ID w = IDStaleNonSelectedLockfile) (ordered_by T sorter warnings)"
    using selectManager_warnings [OF run] ordered_set [OF assms(3)] by (simp add: list_all_iff)
  then have "rp_Result report = ResultPass" "rp_PrimaryID report = None"
    using Build_Inr [OF report] by (simp_all add: derive_warnings)
  with Inr p run r show ?thesis by (simp add: resolved_Package_def)
qed

text \<open>
  C27: An analysis that returns a report passes exactly when nothing failed; otherwise the report fails with the
  first failure as its primary ID.  When it passes, the package is public, has a name and a version, declares
  the very repository that was observed, lies in the directory the caller selected, and its manager was selected
  without a failure.  The sort is any that permutes and orders.
\<close>

theorem analyze_report_sound:
  "case Analyze sv transform sorter yaml ft config of (result, err) \<Rightarrow>
     if err = None \<and> slice_sort sorter then
       (if analyze_failure sv transform yaml ft config = [] then
          rp_Result (re_Report result) = ResultPass \<and>
          (\<exists>resolved warnings.
             re_Package result = resolved_Package resolved (pg_Repository (re_Package result)) \<and>
             pg_Name (re_Package result) \<noteq> [] \<and> pg_Version (re_Package result) \<noteq> [] \<and>
             \<not> mf_Private (rp_manifest resolved) \<and>
             normalizeRepository (mf_Repository (rp_manifest resolved)) = Inr (pg_Repository (re_Package result)) \<and>
             CanonicalRepository (cf_ObservedRepository config) = Inr (pg_Repository (re_Package result)) \<and>
             readManifest ft (Join [pg_RealDirectory (re_Package result), ''package.json'']) = Inr (rp_manifest resolved) \<and>
             resolveSelectedDirectory ft (cf_RepositoryRoot config) (cf_PackageDirectory config) =
               Some (rp_repositoryRootReal resolved, pg_RealDirectory (re_Package result), pg_Directory (re_Package result)) \<and>
             selectManager sv transform ft resolved = (re_Manager result, warnings, []))
        else rp_Result (re_Report result) = ResultFail \<and>
          rp_PrimaryID (re_Report result) = Some (analyze_failure sv transform yaml ft config))
     else True"
proof -
  obtain result err where run: "Analyze sv transform sorter yaml ft config = (result, err)"
    by (cases "Analyze sv transform sorter yaml ft config")
  consider "err \<noteq> None \<or> \<not> slice_sort sorter"
    | "err = None" "slice_sort sorter" "analyze_failure sv transform yaml ft config = []"
    | "err = None" "slice_sort sorter" "analyze_failure sv transform yaml ft config \<noteq> []" by blast
  then show ?thesis
  proof cases
    case 2
    from Analyze_passed [OF run [unfolded 2(1)] 2(3,2)] obtain resolved warnings where
      "resolvePackage yaml ft config = Inr (resolved, pg_Repository (re_Package result))"
      "re_Package result = resolved_Package resolved (pg_Repository (re_Package result))"
      "selectManager sv transform ft resolved = (re_Manager result, warnings, [])"
      "rp_Result (re_Report result) = ResultPass" by blast
    moreover from this(2) have "pg_Name (re_Package result) = mf_Name (rp_manifest resolved)"
      "pg_Version (re_Package result) = mf_Version (rp_manifest resolved)"
      "pg_RealDirectory (re_Package result) = rp_directoryReal resolved"
      "pg_Directory (re_Package result) = rp_directory resolved"
      by (metis resolved_Package_def Package.select_convs)+
    ultimately show ?thesis
      using run 2 resolvePackage_facts by (simp, blast)
  next
    case 3
    from Analyze_failed [OF run [unfolded 3(1)] 3(3)] rejectedResult_fails 3(2)
    have "rp_Result (re_Report result) = ResultFail \<and>
        rp_PrimaryID (re_Report result) = Some (analyze_failure sv transform yaml ft config)" by metis
    with run 3 show ?thesis by simp
  qed (use run in auto)
qed

end
