(* ===== verification/WorkflowMeta.thy ===== *)
theory WorkflowMeta
  imports Signing Selection
begin

text \<open>
  internal/npmprofile/workflow_metadata.go: the metadata the build job uploads.  The publish intent is
  resolved from inputs and publishConfig, the source parameters from the run, and both are combined
  with what the build observed.  File reads (the manifest's publishConfig, the selected lockfile) are
  arguments, and so is \<open>encode\<close>, json.Marshal of the external parameters: the text of a raw message
  they hold is not kept by the model.
\<close>

section \<open>Types\<close>

record DistributionCapture =
  dc_URL :: string
  dc_SHA512 :: string
  dc_DigestAuthority :: string
  dc_PackageManager :: Manager
  dc_PackageManagerVer :: string
  dc_AcquisitionSource :: string

record RunnerCapture =
  rc_ImageLabel :: string
  rc_ImageOS :: string
  rc_ImageVersion :: string
  rc_DeploymentVersion :: string
  rc_IncludedSoftwareURL :: string
  rc_ImageReleaseURL :: string

record ToolchainCapture =
  tc_NodeVersion :: string
  tc_NPMVersion :: string
  tc_CorepackVersion :: string
  tc_PackageManagerVersion :: string
  tc_Distribution :: "DistributionCapture option"
  tc_Runner :: RunnerCapture

record PackedMetadata =
  pk_meta_Name :: string
  pk_meta_Version :: string
  pk_meta_Files :: "string list"
  pk_meta_ConsumerSurface :: "(string \<times> jval) list"

record BuildScriptCapture =
  bs_Present :: bool
  bs_Result :: string

record BuildPackResult =
  bp_res_Manager :: Manager
  bp_res_PackageName :: string
  bp_res_PackageVersion :: string
  bp_res_PackagePURL :: string
  bp_res_TarballPath :: string
  bp_res_MetadataPath :: string
  bp_res_SHA256 :: SHA256
  bp_res_SHA512 :: SHA512
  bp_res_Packed :: PackedMetadata
  bp_res_BuildScript :: BuildScriptCapture
  bp_res_Toolchain :: ToolchainCapture
  bp_res_Diagnostics :: "Diagnostic list"

record WorkflowBuildMetadataConfig =
  wc_StartedOn :: string
  wc_FinishedOn :: string
  wc_ArtifactName :: string
  wc_RegistryURLInput :: string
  wc_DistTagInput :: string
  wc_AccessInput :: string
  wc_ReleaseAssetMode :: bool
  wc_ReleaseTag :: string
  wc_ProvenanceSidecar :: string
  wc_LinkedArtifactMetadata :: bool
  wc_EventName :: string
  wc_RefType :: string
  wc_Ref :: string
  wc_Revision :: string
  wc_SourceRefInput :: string
  wc_InvocationRef :: string
  wc_InvocationRevision :: string
  wc_WorkflowSHA :: string
  wc_CallerWorkflowFilename :: string
  wc_RegistryState :: RegistryPreflightState

section \<open>Helpers\<close>

definition optionalString :: "string \<Rightarrow> string option" where
  "optionalString value = (if value = [] then None else Some value)"

definition nullableString :: "string \<Rightarrow> goval" where
  "nullableString value = (if value = [] then GNil else GString value)"

definition trimASCII :: "string \<Rightarrow> string" where
  "trimASCII value = TrimSet (\<lambda>c. c \<in> set [CHR '' '', CHR 0x09, CHR 0x0D, CHR 0x0A, CHR 0x0C, CHR 0x0B]) value"

definition resolveStringIntent :: "string \<Rightarrow> string \<Rightarrow> string \<Rightarrow> string \<Rightarrow> string result" where
  "resolveStringIntent input source fallback name =
     (if input \<noteq> [] \<and> source \<noteq> [] \<and> input \<noteq> source then
        Inl (ErrText ''%s conflicts with publishConfig'' [name])
      else if input \<noteq> [] then Inr input
      else if source \<noteq> [] then Inr source
      else Inr fallback)"

definition sourceValue :: "PublishConfigParameters option \<Rightarrow> string \<Rightarrow> string" where
  "sourceValue source field =
     (case source of
        None \<Rightarrow> []
      | Some config \<Rightarrow>
          if field = ''registry'' then pc_Registry config
          else if field = ''tag'' then pc_Tag config
          else if field = ''access'' then pc_Access config
          else [])"

definition validDistTag :: "string \<Rightarrow> bool" where
  "validDistTag value \<longleftrightarrow>
     value \<noteq> [] \<and>
     \<not> ContainsAny value [CHR '' '', CHR ''/'', backslash, CHR 0x00, CHR 0x09, CHR 0x0D, CHR 0x0A] \<and>
     value \<noteq> ''.'' \<and> value \<noteq> ''..''"

definition workspaceRoot :: "Package \<Rightarrow> string option" where
  "workspaceRoot pkg = (if pg_ManagerRoot pkg = pg_Directory pkg then None else optionalString (pg_ManagerRoot pkg))"

definition packageManifestPath :: "string \<Rightarrow> string" where
  "packageManifestPath directory =
     (if directory = ''.'' then ''package.json'' else TrimSuffix directory ''/'' @ ''/package.json'')"

section \<open>Publish intent\<close>

text \<open>decodePublishConfig on the manifest's member, absent or parsed; members in document order.\<close>

fun decode_config_members ::
  "(string \<times> jval) list \<Rightarrow> PublishConfigParameters \<Rightarrow> PublishConfigParameters result" where
  "decode_config_members [] config = Inr config"
| "decode_config_members ((name, encoded) # members) config =
     (if name = ''registry'' then
        (case store_string (\<lambda>x. pc_Registry_update (\<lambda>_. x)) config encoded of
           None \<Rightarrow> Inl (ErrText ''publishConfig.registry must be a string'' [])
         | Some config' \<Rightarrow> decode_config_members members config')
      else if name = ''tag'' then
        (case store_string (\<lambda>x. pc_Tag_update (\<lambda>_. x)) config encoded of
           None \<Rightarrow> Inl (ErrText ''publishConfig.tag must be a string'' [])
         | Some config' \<Rightarrow> decode_config_members members config')
      else if name = ''access'' then
        (case store_string (\<lambda>x. pc_Access_update (\<lambda>_. x)) config encoded of
           None \<Rightarrow> Inl (ErrText ''publishConfig.access must be a string'' [])
         | Some config' \<Rightarrow> decode_config_members members config')
      else if name = ''provenance'' then
        (case encoded of
           JBool value \<Rightarrow> decode_config_members members (config\<lparr>pc_Provenance := Some value\<rparr>)
         | JNull \<Rightarrow> decode_config_members members (config\<lparr>pc_Provenance := Some False\<rparr>)
         | _ \<Rightarrow> Inl (ErrText ''publishConfig.provenance must be boolean'' []))
      else decode_config_members members config)"

definition decodePublishConfig :: "jval option \<Rightarrow> PublishConfigParameters option result" where
  "decodePublishConfig raw =
     (case raw of
        None \<Rightarrow> Inr None
      | Some JNull \<Rightarrow> Inr None
      | Some (JObj object) \<Rightarrow>
          if map_of object ''directory'' \<noteq> None then
            Inl (ErrText ''publishConfig.directory is unsupported'' [])
          else map_result Some (decode_config_members object zero_PublishConfigParameters)
      | _ \<Rightarrow> Inl (ErrText ''publishConfig must be an object'' []))"

definition ResolvePublishIntent ::
  "(nat \<Rightarrow> nat) \<Rightarrow> string \<Rightarrow> string \<Rightarrow> string \<Rightarrow> PublishConfigParameters option \<Rightarrow> PublishParameters result" where
  "ResolvePublishIntent lc registryInput0 distTagInput0 accessInput0 source =
     (let registryInput = trimASCII registryInput0; distTagInput = trimASCII distTagInput0;
          accessInput = trimASCII accessInput0
      in if (case source of None \<Rightarrow> False | Some config \<Rightarrow> pc_Provenance config = Some False) then
           Inl (ErrText ''publishConfig.provenance must not disable provenance'' [])
         else
     (case resolveStringIntent registryInput (sourceValue source ''registry'') npmjsRegistry ''registry-url'' of
        Inl err \<Rightarrow> Inl err
      | Inr rawRegistry \<Rightarrow>
     (case normalizeRegistryURL lc rawRegistry of
        Inl err \<Rightarrow> Inl err
      | Inr normalizedRegistry \<Rightarrow>
     (case resolveStringIntent distTagInput (sourceValue source ''tag'') ''latest'' ''dist-tag'' of
        Inl _ \<Rightarrow> Inl (ErrText ''dist-tag is invalid or conflicts with publishConfig'' [])
      | Inr distTag \<Rightarrow>
          if \<not> validDistTag distTag then Inl (ErrText ''dist-tag is invalid or conflicts with publishConfig'' [])
          else
     (case resolveStringIntent accessInput (sourceValue source ''access'') [] ''access'' of
        Inl _ \<Rightarrow> Inl (ErrText ''access is invalid or conflicts with publishConfig'' [])
      | Inr access \<Rightarrow>
          if access \<noteq> [] \<and> access \<noteq> ''public'' \<and> access \<noteq> ''restricted'' then
            Inl (ErrText ''access is invalid or conflicts with publishConfig'' [])
          else
            (let resolved = registry_String normalizedRegistry in
             Inr \<lparr>pb_InputRegistryURL = optionalString registryInput, pb_InputDistTag = optionalString distTagInput,
                  pb_InputAccess = optionalString accessInput, pb_PublishConfig = source,
                  pb_ResolvedRegistryURL = resolved, pb_ResolvedDistTag = distTag,
                  pb_PublishAccessOption = optionalString access,
                  pb_EffectiveAccess = (if access = [] then ''existing-package-access'' else access),
                  pb_TrustedPublishing = True, pb_ProvenanceFile = True,
                  pb_PackageIdentityPreexisting = None, pb_PackageVersionPreexisting = None,
                  pb_CustomRegistrySupport =
                    (if resolved \<noteq> npmjsRegistry then ''unsupported-but-not-blocked'' else [])\<rparr>))))))"

definition ResolveWorkflowPublishIntent ::
  "(nat \<Rightarrow> nat) \<Rightarrow> jval option result \<Rightarrow> string \<Rightarrow> string \<Rightarrow> string \<Rightarrow> PublishParameters result" where
  "ResolveWorkflowPublishIntent lc manifest registryInput distTagInput accessInput =
     (case manifest of
        Inl err \<Rightarrow> Inl (ErrWrap ''read selected package publish intent: %w'' [] [err])
      | Inr raw \<Rightarrow>
          (case decodePublishConfig raw of
             Inl err \<Rightarrow> Inl err
           | Inr publishConfig \<Rightarrow> ResolvePublishIntent lc registryInput distTagInput accessInput publishConfig))"

section \<open>The source and the run\<close>

definition workflowSourceParameters :: "Package \<Rightarrow> WorkflowBuildMetadataConfig \<Rightarrow> SourceParameters result" where
  "workflowSourceParameters pkg config =
     (let input = NormalizeSourceRefInput (wc_SourceRefInput config);
          source = \<lparr>sp_Repository = pg_Repository pkg, sp_Ref = wc_Ref config, sp_Revision = wc_Revision config,
            sp_EventName = wc_EventName config, sp_RefType = wc_RefType config, sp_InputRef = None,
            sp_InvocationRef = None, sp_InvocationRevision = None\<rparr>
      in case ValidateSourceRefInput input (wc_InvocationRef config) (pg_Version pkg) of
           Some err \<Rightarrow> Inl err
         | None \<Rightarrow>
             if input = [] then Inr source
             else if wc_InvocationRef config = [] \<or> wc_InvocationRevision config = [] then
               Inl (parametersError ''source-ref''
                 ''source-ref requires the complete invocation ref and revision'')
             else if wc_Ref config \<noteq> input then
               Inl (sourceRefError ''resolved built ref differs from source-ref input'')
             else Inr (source\<lparr>sp_Ref := input, sp_RefType := ''tag'', sp_InputRef := optionalString input,
               sp_InvocationRef := optionalString (wc_InvocationRef config),
               sp_InvocationRevision := optionalString (wc_InvocationRevision config)\<rparr>))"

definition validateWorkflowRuntime ::
  "Package \<Rightarrow> BuildPackResult \<Rightarrow> WorkflowBuildMetadataConfig \<Rightarrow> SourceParameters \<Rightarrow> go_error option" where
  "validateWorkflowRuntime pkg build config source =
     (let filename = wc_CallerWorkflowFilename config; packed = bp_res_Packed build;
          toolchain = bp_res_Toolchain build
      in if wc_ReleaseAssetMode config \<or> trimASCII (wc_ReleaseTag config) \<noteq> []
            \<or> trimASCII (wc_ProvenanceSidecar config) \<noteq> [] \<or> wc_LinkedArtifactMetadata config then
           Some (ErrText ''release-asset-only inputs require the later release-asset mode implementation'' [])
         else if wc_EventName config \<noteq> ''push'' \<and> wc_EventName config \<noteq> ''workflow_dispatch'' then
           Some (ErrText ''release event is unsupported'' [])
         else if sp_RefType source \<noteq> ''tag'' \<or> sp_Ref source \<noteq> ''refs/tags/v'' @ pg_Version pkg then
           Some (ErrText ''release ref must be the package version tag'' [])
         else if ValidateFullSHA (sp_Revision source) \<noteq> None \<or> ValidateFullSHA (wc_WorkflowSHA config) \<noteq> None then
           Some (ErrText ''source and reusable workflow revisions must be immutable full SHAs'' [])
         else if filename = [] \<or> Base filename \<noteq> filename
                 \<or> \<not> HasSuffix filename ''.yml'' \<and> \<not> HasSuffix filename ''.yaml'' then
           Some (ErrText ''caller workflow filename is invalid'' [])
         else if wc_ArtifactName config = [] \<or> pg_Name pkg \<noteq> bp_res_PackageName build
                 \<or> pg_Version pkg \<noteq> bp_res_PackageVersion build
                 \<or> pk_meta_Name packed \<noteq> bp_res_PackageName build
                 \<or> pk_meta_Version packed \<noteq> bp_res_PackageVersion build
                 \<or> tc_NodeVersion toolchain = [] \<or> tc_NPMVersion toolchain = [] then
           Some (ErrText ''build result is incomplete or conflicts with selected package'' [])
         else None)"

section \<open>Package manager and dependencies\<close>

definition packageManagerParameters ::
  "ManagerSelection \<Rightarrow> Package \<Rightarrow> BuildPackResult \<Rightarrow> PackageManagerParameters" where
  "packageManagerParameters selection pkg build =
     \<lparr>pm_Name = ms_Name selection,
      pm_Version = (if ms_Digest selection \<noteq> None then selection_Descriptor selection
                    else tc_PackageManagerVersion (bp_res_Toolchain build)),
      pm_SelectionSource = ms_Source selection,
      pm_SelectionManifest = optionalString (Base (ms_SelectionManifestPath selection)),
      pm_SelectionManifestPath = optionalString (ms_SelectionManifestPath selection),
      pm_SelectionLockfilePath = optionalString (ms_SelectionLockfilePath selection),
      pm_Root = pg_ManagerRoot pkg,
      pm_IgnoredLockfilePaths = ms_IgnoredLockfilePaths selection,
      pm_YarnInstallMode = (if ms_Name selection = ManagerYarn then ''immutable'' else [])\<rparr>"

text \<open>Marshal of a string, a list of strings or nil never fails.\<close>

definition annotations :: "(string \<times> goval) list \<Rightarrow> (string \<times> string) list" where
  "annotations values = map (\<lambda>(name, value). (name, case Marshal value of None \<Rightarrow> [] | Some s \<Rightarrow> s)) values"

definition lockfile_descriptor ::
  "ManagerSelection \<Rightarrow> Package \<Rightarrow> ExternalParameters \<Rightarrow> string \<Rightarrow> ResourceDescriptor" where
  "lockfile_descriptor selection pkg parameters lockfileBytes =
     \<lparr>rd_Name = ''lockfile'',
      rd_URI = ''git+'' @ sp_Repository (ep_Source parameters) @ ''@'' @ sp_Revision (ep_Source parameters) @ ''#''
        @ escapeLockfileFragment (ms_SelectedLockfilePath selection),
      rd_Digest = [(''sha256'', SHA256_String (SumSHA256 lockfileBytes))],
      rd_Annotations = annotations
        [(''package_manager'', GString (ms_Name selection)),
         (''package_manager_root'', GString (pg_ManagerRoot pkg)),
         (''selection_source'', GString (ms_Source selection)),
         (''selection_manifest_path'', nullableString (ms_SelectionManifestPath selection)),
         (''selection_lockfile_path'', GString (ms_SelectedLockfilePath selection)),
         (''stale_non_selected_lockfiles'', GStrings (ms_IgnoredLockfilePaths selection))],
      rd_hasUnexpectedFields = False\<rparr>"

definition distribution_descriptor :: "DistributionCapture \<Rightarrow> ResourceDescriptor" where
  "distribution_descriptor d =
     \<lparr>rd_Name = ''package-manager-distribution'', rd_URI = dc_URL d, rd_Digest = [(''sha512'', dc_SHA512 d)],
      rd_Annotations = annotations
        [(''digest_authority'', GString (dc_DigestAuthority d)),
         (''package_manager'', GString (dc_PackageManager d)),
         (''package_manager_version'', GString (dc_PackageManagerVer d)),
         (''acquisition_source'', GString (dc_AcquisitionSource d))],
      rd_hasUnexpectedFields = False\<rparr>"

definition runner_descriptor :: "ToolchainCapture \<Rightarrow> ResourceDescriptor" where
  "runner_descriptor toolchain =
     (let runner = tc_Runner toolchain in
      \<lparr>rd_Name = ''runner-image'', rd_URI = rc_IncludedSoftwareURL runner, rd_Digest = [],
       rd_Annotations = annotations
         [(''deployment_version'', nullableString (rc_DeploymentVersion runner)),
          (''image_os'', GString (rc_ImageOS runner)), (''image_version'', GString (rc_ImageVersion runner)),
          (''node_version'', GString (tc_NodeVersion toolchain))],
       rd_hasUnexpectedFields = False\<rparr>)"

definition workflowResolvedDependencies ::
  "libraries \<Rightarrow> ManagerSelection \<Rightarrow> Package \<Rightarrow> BuildPackResult \<Rightarrow> ExternalParameters \<Rightarrow> string result
   \<Rightarrow> ResourceDescriptor list result" where
  "workflowResolvedDependencies libs selection pkg build parameters lockfile =
     (case lockfile of
        Inl err \<Rightarrow> Inl (ErrWrap ''read selected lockfile: %w'' [] [err])
      | Inr lockfileBytes \<Rightarrow>
     (case nodeRuntimeDescriptor libs of
        Inl err \<Rightarrow> Inl err
      | Inr runtime \<Rightarrow>
          (let toolchain = bp_res_Toolchain build;
               front = [lockfile_descriptor selection pkg parameters lockfileBytes, runtime];
               runner = runner_descriptor toolchain
           in if ms_Name selection \<noteq> ManagerNPM then
                (case tc_Distribution toolchain of
                   None \<Rightarrow> Inl (ErrText ''corepack package-manager distribution capture is required'' [])
                 | Some distribution \<Rightarrow> Inr (front @ [distribution_descriptor distribution, runner]))
              else Inr (front @ [runner]))))"

section \<open>The metadata\<close>

text \<open>EncodeExternalParameters; \<open>encoded\<close> is what json.Marshal makes of the parameters.\<close>

definition EncodeExternalParameters ::
  "libraries \<Rightarrow> string option \<Rightarrow> ExternalParameters \<Rightarrow> string result" where
  "EncodeExternalParameters libs encoded parameters =
     (case encoded of
        None \<Rightarrow> Inl (parametersError ''externalParameters'' ''encode external parameters'')
      | Some data \<Rightarrow>
          (case Canonicalize (lib_transform libs) data of
             Inl _ \<Rightarrow> Inl (parametersError ''externalParameters'' ''canonicalize external parameters'')
           | Inr canonical \<Rightarrow> guarded (validateExternalParameters libs parameters []) (Inr canonical)))"

definition workflow_parameters ::
  "ManagerSelection \<Rightarrow> Package \<Rightarrow> BuildPackResult \<Rightarrow> WorkflowBuildMetadataConfig \<Rightarrow> SourceParameters
   \<Rightarrow> PublishParameters \<Rightarrow> string \<Rightarrow> string \<Rightarrow> ExternalParameters" where
  "workflow_parameters selection pkg build config source publish packageURL builderID =
     (let packed = bp_res_Packed build; toolchain = bp_res_Toolchain build in
      \<lparr>ep_Source = source,
       ep_Workflow = \<lparr>wp_Path = NPMWorkflowPath, wp_SHA = wc_WorkflowSHA config, wp_BuilderID = builderID\<rparr>,
       ep_Runtime = \<lparr>rt_Runner = ''ubuntu-24.04'', rt_NodeVersion = TrimPrefix (tc_NodeVersion toolchain) ''v'',
         rt_NPMVersion = tc_NPMVersion toolchain\<rparr>,
       ep_Package = \<lparr>pk_Directory = pg_Directory pkg, pk_WorkspaceRoot = workspaceRoot pkg,
         pk_SourceManifest = packageManifestPath (pg_Directory pkg), pk_Name = pg_Name pkg,
         pk_Version = pg_Version pkg, pk_Private = False, pk_Repository = pg_Repository pkg,
         pk_TarballName = Base (bp_res_TarballPath build), pk_PackageURL = packageURL,
         pk_PackedName = pk_meta_Name packed, pk_PackedVersion = pk_meta_Version packed,
         pk_PublishConfigRaw = [], pk_PackedFiles = pk_meta_Files packed,
         pk_ConsumerSurface = pk_meta_ConsumerSurface packed\<rparr>,
       ep_PackageManager = packageManagerParameters selection pkg build,
       ep_Publish = publish,
       ep_Release = \<lparr>rl_Ref = sp_Ref source, rl_VersionTag = TrimPrefix (sp_Ref source) ''refs/tags/''\<rparr>,
       ep_Distribution = zero_DistributionParameters,
       ep_Caller = \<lparr>cp_WorkflowFilename = wc_CallerWorkflowFilename config\<rparr>,
       ep_Build = \<lparr>bp_ScriptPresent = bs_Present (bp_res_BuildScript build),
         bp_ScriptResult = bs_Result (bp_res_BuildScript build)\<rparr>\<rparr>)"

definition FinalizeWorkflowBuildMetadata ::
  "libraries \<Rightarrow> (ExternalParameters \<Rightarrow> string option) \<Rightarrow> jval option result \<Rightarrow> string result
   \<Rightarrow> ManagerSelection \<Rightarrow> Package \<Rightarrow> BuildPackResult \<Rightarrow> WorkflowBuildMetadataConfig \<Rightarrow> BuildMetadata result" where
  "FinalizeWorkflowBuildMetadata libs encode manifest lockfile selection pkg build config =
     (case workflowSourceParameters pkg config of
        Inl err \<Rightarrow> Inl err
      | Inr source \<Rightarrow>
      guarded (validateWorkflowRuntime pkg build config source)
     (case ResolveWorkflowPublishIntent (lib_lower libs) manifest (wc_RegistryURLInput config)
             (wc_DistTagInput config) (wc_AccessInput config) of
        Inl err \<Rightarrow> Inl err
      | Inr intent \<Rightarrow>
          (let publish = intent\<lparr>pb_PackageIdentityPreexisting := Some (rs_PackageExists (wc_RegistryState config)),
                 pb_PackageVersionPreexisting := Some (rs_VersionExists (wc_RegistryState config))\<rparr>
           in
     (case npmRegistryPackageURL (lib_lower libs) (pb_ResolvedRegistryURL publish) (pg_Name pkg) (pg_Version pkg) of
        Inl err \<Rightarrow> Inl err
      | Inr packageURL \<Rightarrow>
     (case NewBuilderID NPMWorkflowPath (wc_WorkflowSHA config) of
        Inl err \<Rightarrow> Inl err
      | Inr builderID \<Rightarrow>
          (let parameters = workflow_parameters selection pkg build config source publish packageURL builderID in
     (case EncodeExternalParameters libs (encode parameters) parameters of
        Inl err \<Rightarrow> Inl err
      | Inr encoded \<Rightarrow>
     (case workflowResolvedDependencies libs selection pkg build parameters lockfile of
        Inl err \<Rightarrow> Inl err
      | Inr dependencies \<Rightarrow>
          guarded (validateResolvedDependencies libs dependencies parameters)
            (Inr \<lparr>bm_SchemaVersion = ''1'', bm_StartedOn = wc_StartedOn config, bm_FinishedOn = wc_FinishedOn config,
                 bm_PrimaryArtifact = \<lparr>pa_ArtifactName = wc_ArtifactName config,
                   pa_PayloadFileName = Base (bp_res_TarballPath build),
                   pa_SHA256 = SHA256_String (bp_res_SHA256 build), pa_SHA512 = SHA512_String (bp_res_SHA512 build)\<rparr>,
                 bm_ExternalParameters = encoded, bm_ResolvedDependencies = dependencies\<rparr>)))))))))"

section \<open>What the metadata guarantees\<close>

lemma workflow_parameters_simps:
  "ep_Source (workflow_parameters selection pkg build config source publish url builder) = source"
  "ep_PackageManager (workflow_parameters selection pkg build config source publish url builder)
     = packageManagerParameters selection pkg build"
  "ep_Publish (workflow_parameters selection pkg build config source publish url builder) = publish"
  "cp_WorkflowFilename (ep_Caller (workflow_parameters selection pkg build config source publish url builder))
     = wc_CallerWorkflowFilename config"
  "rl_Ref (ep_Release (workflow_parameters selection pkg build config source publish url builder)) = sp_Ref source"
  "wp_SHA (ep_Workflow (workflow_parameters selection pkg build config source publish url builder))
     = wc_WorkflowSHA config"
  by (simp_all add: workflow_parameters_def Let_def)

text \<open>Every stage of a successful run, with its own result.\<close>

lemma finalize_stages:
  assumes "FinalizeWorkflowBuildMetadata libs encode manifest lockfile selection pkg build config = Inr m"
  obtains source intent publish url builder parameters encoded dependencies where
    "workflowSourceParameters pkg config = Inr source"
    "validateWorkflowRuntime pkg build config source = None"
    "ResolveWorkflowPublishIntent (lib_lower libs) manifest (wc_RegistryURLInput config)
       (wc_DistTagInput config) (wc_AccessInput config) = Inr intent"
    "publish = intent\<lparr>pb_PackageIdentityPreexisting := Some (rs_PackageExists (wc_RegistryState config)),
       pb_PackageVersionPreexisting := Some (rs_VersionExists (wc_RegistryState config))\<rparr>"
    "parameters = workflow_parameters selection pkg build config source publish url builder"
    "EncodeExternalParameters libs (encode parameters) parameters = Inr encoded"
    "workflowResolvedDependencies libs selection pkg build parameters lockfile = Inr dependencies"
    "validateResolvedDependencies libs dependencies parameters = None"
    "bm_ExternalParameters m = encoded" "bm_ResolvedDependencies m = dependencies"
    "pa_SHA256 (bm_PrimaryArtifact m) = SHA256_String (bp_res_SHA256 build)"
    "pa_SHA512 (bm_PrimaryArtifact m) = SHA512_String (bp_res_SHA512 build)"
  using assms
  unfolding FinalizeWorkflowBuildMetadata_def
  by (auto simp: Let_def split: sum.splits)

lemma encode_checked:
  assumes "EncodeExternalParameters libs data parameters = Inr encoded"
  shows "validateExternalParameters libs parameters [] = None"
    and "\<exists>src. data = Some src \<and> Canonicalize (lib_transform libs) src = Inr encoded"
  using assms unfolding EncodeExternalParameters_def by (auto split: option.splits sum.splits)

lemma valid_parameters_parts:
  assumes "validateExternalParameters libs parameters repository = None"
  shows "validatePackageManagerParameters (lib_semver libs) (ep_PackageManager parameters) = None"
    and "validatePublishParameters libs (ep_Publish parameters) = None"
    and "validateReleaseGroups parameters = None"
  using assms unfolding validateExternalParameters_def by auto

lemma valid_manager_selection:
  assumes "validatePackageManagerParameters sv p = None"
  shows "validateSelectionPaths p = None"
  using assms unfolding validatePackageManagerParameters_def
  by (auto simp: Let_def split: if_splits prod.splits sum.splits option.splits)

lemma release_filename_yml:
  assumes "validateReleaseGroups parameters = None"
  shows "HasSuffix (cp_WorkflowFilename (ep_Caller parameters)) ''.yml''"
  using assms unfolding validateReleaseGroups_def by (auto simp: Let_def split: if_splits)

lemma publish_preflight:
  assumes "validatePublishParameters libs p = None"
  shows "pb_PackageIdentityPreexisting p = Some True" "pb_PackageVersionPreexisting p = Some False"
  using assms unfolding validatePublishParameters_def by (auto simp: Let_def split: if_splits)

lemma lockfile_paths_rejected:
  assumes "ms_Source selection = SelectionLockfile"
  shows "validateSelectionPaths (packageManagerParameters selection pkg build) \<noteq> None"
  using assms
  by (cases "ms_SelectionManifestPath selection = []")
     (auto simp: validateSelectionPaths_def packageManagerParameters_def optionalString_def Base_def)

text \<open>C8: metadata the build job uploads describes a run that may be published.  Whenever
  FinalizeWorkflowBuildMetadata returns metadata, the source ref is the tag of the package's own
  version, the package exists in the registry and the version does not, the recorded external
  parameters are the canonical text of parameters that pass the closed validation, the listed
  dependencies pass the dependency validation against the same parameters, and the artifact's digests
  are those of the packed tarball.  A failing file read, a failing encoder or any failing check gives no
  metadata.\<close>

theorem finalize_sound:
  "case FinalizeWorkflowBuildMetadata libs encode manifest lockfile selection pkg build config of
     Inl _ \<Rightarrow> True
   | Inr m \<Rightarrow>
       (\<exists>parameters src.
          sp_Ref (ep_Source parameters) = ''refs/tags/v'' @ pg_Version pkg
        \<and> sp_RefType (ep_Source parameters) = ''tag''
        \<and> rl_Ref (ep_Release parameters) = ''refs/tags/v'' @ pg_Version pkg
        \<and> wp_SHA (ep_Workflow parameters) = wc_WorkflowSHA config
        \<and> encode parameters = Some src
        \<and> Canonicalize (lib_transform libs) src = Inr (bm_ExternalParameters m)
        \<and> validateExternalParameters libs parameters [] = None
        \<and> validateResolvedDependencies libs (bm_ResolvedDependencies m) parameters = None)
     \<and> rs_PackageExists (wc_RegistryState config) \<and> \<not> rs_VersionExists (wc_RegistryState config)
     \<and> bp_res_PackageName build = pg_Name pkg \<and> bp_res_PackageVersion build = pg_Version pkg
     \<and> pa_SHA256 (bm_PrimaryArtifact m) = SHA256_String (bp_res_SHA256 build)
     \<and> pa_SHA512 (bm_PrimaryArtifact m) = SHA512_String (bp_res_SHA512 build)"
proof (cases "FinalizeWorkflowBuildMetadata libs encode manifest lockfile selection pkg build config")
  case (Inr m)
  from finalize_stages [OF Inr] obtain source intent publish url builder parameters encoded dependencies where
    runtime: "validateWorkflowRuntime pkg build config source = None"
    and publish: "publish = intent\<lparr>pb_PackageIdentityPreexisting := Some (rs_PackageExists (wc_RegistryState config)),
       pb_PackageVersionPreexisting := Some (rs_VersionExists (wc_RegistryState config))\<rparr>"
    and parameters: "parameters = workflow_parameters selection pkg build config source publish url builder"
    and encoded: "EncodeExternalParameters libs (encode parameters) parameters = Inr encoded"
    and deps: "validateResolvedDependencies libs dependencies parameters = None"
    and parts: "bm_ExternalParameters m = encoded" "bm_ResolvedDependencies m = dependencies"
      "pa_SHA256 (bm_PrimaryArtifact m) = SHA256_String (bp_res_SHA256 build)"
      "pa_SHA512 (bm_PrimaryArtifact m) = SHA512_String (bp_res_SHA512 build)"
    by metis
  note valid = encode_checked(1) [OF encoded]
  have names: "bp_res_PackageName build = pg_Name pkg" "bp_res_PackageVersion build = pg_Version pkg"
    using runtime unfolding validateWorkflowRuntime_def by (auto simp: Let_def split: if_splits)
  from encode_checked(2) [OF encoded] obtain src where
    "encode parameters = Some src" "Canonicalize (lib_transform libs) src = Inr encoded" by blast
  moreover have "sp_Ref source = ''refs/tags/v'' @ pg_Version pkg" "sp_RefType source = ''tag''"
    using runtime unfolding validateWorkflowRuntime_def by (auto simp: Let_def split: if_splits)
  moreover have flags: "pb_PackageIdentityPreexisting publish = Some True" "pb_PackageVersionPreexisting publish = Some False"
    using publish_preflight [OF valid_parameters_parts(2) [OF valid]]
    by (simp_all add: parameters workflow_parameters_simps)
  ultimately have "\<exists>parameters src.
          sp_Ref (ep_Source parameters) = ''refs/tags/v'' @ pg_Version pkg
        \<and> sp_RefType (ep_Source parameters) = ''tag''
        \<and> rl_Ref (ep_Release parameters) = ''refs/tags/v'' @ pg_Version pkg
        \<and> wp_SHA (ep_Workflow parameters) = wc_WorkflowSHA config
        \<and> encode parameters = Some src
        \<and> Canonicalize (lib_transform libs) src = Inr (bm_ExternalParameters m)
        \<and> validateExternalParameters libs parameters [] = None
        \<and> validateResolvedDependencies libs (bm_ResolvedDependencies m) parameters = None"
    using valid deps parts
    by (intro exI [of _ parameters] exI [of _ src]) (simp add: parameters workflow_parameters_simps)
  then show ?thesis
    using Inr parts flags names by (simp add: publish)
qed simp

text \<open>A package whose manager was inferred from its lockfile can never be released.  The selection is
  recorded with Base of its empty manifest path, a dot instead of an absent basename
  (workflow_metadata.go, packageManagerParameters), and the validation of the very same run demands that a
  lockfile selection has no manifest basename; so whatever the inputs, the build and the registry say, the
  result is an error.\<close>

theorem lockfile_selection_never_finalizes:
  "\<exists>err. FinalizeWorkflowBuildMetadata libs encode manifest lockfile
      (selection\<lparr>ms_Source := SelectionLockfile\<rparr>) pkg build config = Inl err"
proof (cases "FinalizeWorkflowBuildMetadata libs encode manifest lockfile
    (selection\<lparr>ms_Source := SelectionLockfile\<rparr>) pkg build config")
  case (Inr m)
  from finalize_stages [OF this] obtain source publish url builder parameters encoded where
    "parameters = workflow_parameters (selection\<lparr>ms_Source := SelectionLockfile\<rparr>) pkg build config source publish url builder"
    and "EncodeExternalParameters libs (encode parameters) parameters = Inr encoded"
    by metis
  then have "validateSelectionPaths (packageManagerParameters (selection\<lparr>ms_Source := SelectionLockfile\<rparr>) pkg build) = None"
    using valid_manager_selection [OF valid_parameters_parts(1) [OF encode_checked(1)]]
    by (metis workflow_parameters_simps(2))
  then show ?thesis
    using lockfile_paths_rejected by simp
qed auto

text \<open>The runtime check lets a caller workflow named with the suffix .yaml pass, and the parameter
  validation of the same run refuses it.\<close>

lemma yaml_workflow_never_finalizes:
  "\<exists>err. FinalizeWorkflowBuildMetadata libs encode manifest lockfile selection pkg build
      (config\<lparr>wc_CallerWorkflowFilename := name @ ''.yaml''\<rparr>) = Inl err"
proof (cases "FinalizeWorkflowBuildMetadata libs encode manifest lockfile selection pkg build
    (config\<lparr>wc_CallerWorkflowFilename := name @ ''.yaml''\<rparr>)")
  case (Inr m)
  from finalize_stages [OF this] obtain source publish url builder parameters encoded where
    parameters: "parameters = workflow_parameters selection pkg build
      (config\<lparr>wc_CallerWorkflowFilename := name @ ''.yaml''\<rparr>) source publish url builder"
    and encoded: "EncodeExternalParameters libs (encode parameters) parameters = Inr encoded"
    by metis
  have "HasSuffix (name @ ''.yaml'') ''.yml''"
    using release_filename_yml [OF valid_parameters_parts(3) [OF encode_checked(1) [OF encoded]]]
    by (simp add: parameters workflow_parameters_simps)
  then have False by (simp add: HasSuffix_def HasPrefix.simps)
  then show ?thesis ..
qed auto

end
