(* ===== verification/NpmFailure.thy ===== *)
theory NpmFailure
  imports Unicode
begin

text \<open>
  internal/npmprofile/publish_diagnostics.go and publish_failure_family.go: the recogniser of npm's
  failure output.  It is an io.Writer that sees npm's whole output in arbitrary pieces and keeps only
  a bounded, allowlisted summary of it.
\<close>

section \<open>State\<close>

definition maxNPMFailureCodeLength :: nat where "maxNPMFailureCodeLength = 64"
definition maxNPMFailurePredicatePathLength :: nat where "maxNPMFailurePredicatePathLength = 256"
definition maxNPMFailureSummaryLength :: nat where "maxNPMFailureSummaryLength = 8192"
definition maxNPMFailureHTTPStatusLength :: nat where "maxNPMFailureHTTPStatusLength = 3"
definition maxNPMFailurePendingLineLength :: nat where "maxNPMFailurePendingLineLength = 2048"
definition maxNPMFailurePredicatePathsState :: nat where "maxNPMFailurePredicatePathsState = 3758"
definition maxNPMFailureRecognizerState :: nat where
  "maxNPMFailureRecognizerState = maxNPMFailurePendingLineLength + maxNPMFailurePredicatePathsState
     + maxNPMFailureCodeLength + maxNPMFailureHTTPStatusLength"

definition npmFailureOperationalSummaryPrefix :: string where
  "npmFailureOperationalSummaryPrefix = ''windlass operational: npm_failure''"

datatype npmFailureFamily =
  npmFailureFamilyNone | npmFailurePredicateMismatch | npmFailureRepositoryMismatch
| npmFailurePrivateSource | npmFailureUnsupportedRunner | npmFailureMissingClaim

datatype npmFailureFamilyStage =
  npmFailureStageNone | npmFailureStageBody | npmFailureStagePredicate | npmFailureStageRunnerConclusion

record npmFailureRecognizer =
  nf_pending :: string
  nf_predicatePaths :: "string list"
  nf_code :: string
  nf_httpStatus :: string
  nf_predicatePathsSize :: nat
  nf_discarding :: bool
  nf_family :: npmFailureFamily
  nf_familyStage :: npmFailureFamilyStage

definition newNPMFailureRecognizer :: npmFailureRecognizer where
  "newNPMFailureRecognizer =
     \<lparr>nf_pending = [], nf_predicatePaths = [], nf_code = [], nf_httpStatus = [], nf_predicatePathsSize = 0,
      nf_discarding = False, nf_family = npmFailureFamilyNone, nf_familyStage = npmFailureStageNone\<rparr>"

section \<open>Codes, statuses and paths\<close>

definition validNPMFailureCode :: "string \<Rightarrow> bool" where
  "validNPMFailureCode code \<longleftrightarrow>
     code \<noteq> [] \<and> length code \<le> maxNPMFailureCodeLength \<and> is_upper (hd code) \<and>
     list_all (\<lambda>c. is_upper c \<or> is_digit c \<or> c = CHR ''_'') (tl code)"

definition npmFailureDigits :: "string \<Rightarrow> bool" where
  "npmFailureDigits value = list_all is_digit value"

definition npmFailurePathFieldStart :: "char \<Rightarrow> bool" where
  "npmFailurePathFieldStart b \<longleftrightarrow> b = CHR ''_'' \<or> is_upper b \<or> is_lower b"

definition npmFailurePathFieldByte :: "char \<Rightarrow> bool" where
  "npmFailurePathFieldByte b \<longleftrightarrow> npmFailurePathFieldStart b \<or> is_digit b"

definition predicate_roots :: "string list" where
  "predicate_roots =
     [''predicate.buildDefinition.buildType'',
      ''predicate.buildDefinition.externalParameters'',
      ''predicate.buildDefinition.resolvedDependencies'',
      ''predicate.runDetails.builder'',
      ''predicate.runDetails.metadata'']"

text \<open>The rest of a path behind its root: fields behind a dot, decimal indices in brackets.\<close>

function path_tail :: "string \<Rightarrow> bool" where
  "path_tail [] = True"
| "path_tail (c # cs) =
     (if c = CHR ''.'' then
        cs \<noteq> [] \<and> npmFailurePathFieldStart (hd cs) \<and> path_tail (dropWhile npmFailurePathFieldByte cs)
      else if c = CHR ''['' then
        takeWhile is_digit cs \<noteq> [] \<and>
        (case dropWhile is_digit cs of
           [] \<Rightarrow> False
         | d # ds \<Rightarrow> d = CHR '']'' \<and> path_tail (tl (dropWhile is_digit cs)))
      else False)"
  by pat_completeness auto
termination
proof (relation "measure length", goal_cases)
  case (3 c cs d ds)
  have "length (tl (dropWhile is_digit cs)) \<le> length (dropWhile is_digit cs)" by simp
  also have "\<dots> \<le> length cs" by (rule length_dropWhile_le)
  finally show ?case by (simp add: less_Suc_eq_le)
qed (auto simp: less_Suc_eq_le length_dropWhile_le)

text \<open>The loop over the roots: the path is one, or it goes on behind the first that leads it.\<close>

fun path_below :: "string list \<Rightarrow> string \<Rightarrow> bool" where
  "path_below [] path = False"
| "path_below (root # roots) path =
     (if path = root then True
      else case CutPrefix path root of
          None \<Rightarrow> path_below roots path
        | Some rest \<Rightarrow>
            if rest \<noteq> [] \<and> (hd rest = CHR ''.'' \<or> hd rest = CHR ''['') then path_tail rest
            else path_below roots path)"

definition validNPMFailurePredicatePath :: "string \<Rightarrow> bool" where
  "validNPMFailurePredicatePath path \<longleftrightarrow>
     path \<noteq> [] \<and> length path \<le> maxNPMFailurePredicatePathLength \<and> path_below predicate_roots path"

definition addPredicatePath :: "string \<Rightarrow> npmFailureRecognizer \<Rightarrow> npmFailureRecognizer" where
  "addPredicatePath path r =
     (if \<not> validNPMFailurePredicatePath path then r
      else if path \<in> set (nf_predicatePaths r) then r
      else if nf_predicatePathsSize r + length path > maxNPMFailurePredicatePathsState then r
      else r\<lparr>nf_predicatePaths := nf_predicatePaths r @ [path],
             nf_predicatePathsSize := nf_predicatePathsSize r + length path\<rparr>)"

section \<open>Failure families\<close>

definition npmFailureBundleWrapper :: string where
  "npmFailureBundleWrapper = ''Error verifying sigstore provenance bundle:''"

definition npmFailurePredicateHeader :: string where
  "npmFailurePredicateHeader = ''Invalid GitHub Actions SLSA v1 provenance predicate:''"

definition npmFailureRunnerIntro :: string where
  "npmFailureRunnerIntro = ''Unsupported GitHub Actions runner environment: \"self-hosted\".''"

definition npmFailureRunnerConclusion :: string where
  "npmFailureRunnerConclusion =
     ''Only \"github-hosted\" runners are supported when publishing with provenance.''"

fun label :: "npmFailureFamily \<Rightarrow> string" where
  "label npmFailureFamilyNone = []"
| "label npmFailurePredicateMismatch = ''predicate-field-mismatch''"
| "label npmFailureRepositoryMismatch = ''repository-metadata-mismatch''"
| "label npmFailurePrivateSource = ''private-source-repository''"
| "label npmFailureUnsupportedRunner = ''unsupported-runner-environment''"
| "label npmFailureMissingClaim = ''missing-certificate-claim''"

definition predicate_bindings :: "(string \<times> string) list" where
  "predicate_bindings =
     [(''buildDefinition.buildType'', ''buildType''),
      (''buildDefinition.externalParameters.workflow.ref'', ''SourceRepositoryRef''),
      (''buildDefinition.externalParameters.workflow.repository'', ''SourceRepositoryURI''),
      (''buildDefinition.externalParameters.workflow.path'', ''BuildConfigURI''),
      (''buildDefinition.internalParameters.github.event_name'', ''BuildTrigger''),
      (''buildDefinition.internalParameters.github.repository_id'', ''SourceRepositoryIdentifier''),
      (''buildDefinition.internalParameters.github.repository_owner_id'', ''SourceRepositoryOwnerIdentifier''),
      (''buildDefinition.resolvedDependencies[0].uri'', ''SourceRepositoryURI''),
      (''buildDefinition.resolvedDependencies[0].digest.gitCommit'', ''SourceRepositoryDigest''),
      (''runDetails.builder.id'', ''builderId'')]"

text \<open>The loop over the bindings, from the first whose name leads the detail.\<close>

fun mismatch_of :: "(string \<times> string) list \<Rightarrow> string \<Rightarrow> bool" where
  "mismatch_of [] detail = False"
| "mismatch_of ((fld, claim) # bindings) detail =
     (case CutPrefix detail (fld @ '': '') of
        None \<Rightarrow> mismatch_of bindings detail
      | Some value \<Rightarrow>
          (case Cut value (''does not match expected value for '' @ claim @ '': '') of
             None \<Rightarrow> False
           | Some (observed, expected) \<Rightarrow>
               TrimSpace expected \<noteq> [] \<and>
               (observed = [] \<or> HasSuffix observed '' '' \<and> TrimSpace observed \<noteq> [])))"

definition completePredicateMismatch :: "string \<Rightarrow> bool" where
  "completePredicateMismatch detail = mismatch_of predicate_bindings detail"

text \<open>strings.SplitSeq for a non-empty separator.\<close>

lemma Cut_shorter: "Cut s sep = Some (b, a) \<Longrightarrow> sep \<noteq> [] \<Longrightarrow> length a < length s"
  by (auto dest!: Cut_Some simp: length_greater_0_conv [symmetric] simp del: length_greater_0_conv)

function split_sep :: "string \<Rightarrow> string \<Rightarrow> string list" where
  "split_sep sep s =
     (if sep = [] then [s]
      else case Cut s sep of None \<Rightarrow> [s] | Some (b, a) \<Rightarrow> b # split_sep sep a)"
  by pat_completeness auto
termination
  by (relation "measure (\<lambda>(sep, s). length s)") (auto dest!: Cut_shorter)

declare split_sep.simps [simp del]

definition observePredicateDetails :: "string \<Rightarrow> npmFailureRecognizer \<Rightarrow> bool \<times> npmFailureRecognizer" where
  "observePredicateDetails details r =
     (let (body, continued) = (case CutSuffix details '','' of None \<Rightarrow> (details, False) | Some s \<Rightarrow> (s, True))
      in if \<not> list_all completePredicateMismatch (split_sep '', '' body) then (False, r)
         else if continued then (True, r\<lparr>nf_familyStage := npmFailureStagePredicate\<rparr>)
         else (True, r\<lparr>nf_family := npmFailurePredicateMismatch\<rparr>))"

definition completeRepositoryMismatch :: "string \<Rightarrow> bool" where
  "completeRepositoryMismatch body =
     (case CutPrefix body ''Failed to validate repository information: package.json: \"repository.url\" is \"'' of
        None \<Rightarrow> False
      | Some vals \<Rightarrow>
     (case Cut vals [CHR 0x22] of
        None \<Rightarrow> False
      | Some (_, rest) \<Rightarrow>
     (case CutPrefix rest '', expected to match \"'' of
        None \<Rightarrow> False
      | Some expected \<Rightarrow>
     (case Cut expected [CHR 0x22] of
        None \<Rightarrow> False
      | Some (value, ending) \<Rightarrow> value \<noteq> [] \<and> ending = '' from provenance''))))"

definition privateSourceMessage :: string where
  "privateSourceMessage =
     ''Unsupported GitHub Actions source repository visibility: \"private\". '' @
     ''Only public source repositories are supported when publishing with provenance.''"

text \<open>The last switch of observeFamily, on the body of the message.\<close>

definition observe_body :: "string \<Rightarrow> npmFailureRecognizer \<Rightarrow> npmFailureRecognizer" where
  "observe_body body r =
     (if body = npmFailurePredicateHeader then r\<lparr>nf_familyStage := npmFailureStagePredicate\<rparr>
      else if HasPrefix body (npmFailurePredicateHeader @ '' '') then
        snd (observePredicateDetails (TrimPrefix body (npmFailurePredicateHeader @ '' '')) r)
      else if completeRepositoryMismatch body then r\<lparr>nf_family := npmFailureRepositoryMismatch\<rparr>
      else if body = privateSourceMessage then r\<lparr>nf_family := npmFailurePrivateSource\<rparr>
      else if body = npmFailureRunnerIntro then r\<lparr>nf_familyStage := npmFailureStageRunnerConclusion\<rparr>
      else if body = npmFailureRunnerIntro @ '' '' @ npmFailureRunnerConclusion then
        r\<lparr>nf_family := npmFailureUnsupportedRunner\<rparr>
      else if body = ''Missing SourceRepositoryRef in signing certificate'' then
        r\<lparr>nf_family := npmFailureMissingClaim\<rparr>
      else r)"

definition family_message :: "string \<Rightarrow> string" where
  "family_message rest =
     (let message = TrimPrefix rest ''422 '' in
      case CutPrefix message ''Unprocessable Entity - PUT https://registry.npmjs.org/'' of
        None \<Rightarrow> message
      | Some route \<Rightarrow> (case Cut route '' - '' of None \<Rightarrow> [] | Some (_, after) \<Rightarrow> after))"

definition observeFamily :: "string \<Rightarrow> bool \<Rightarrow> npmFailureRecognizer \<Rightarrow> npmFailureRecognizer" where
  "observeFamily rest complete r =
     (if nf_family r \<noteq> npmFailureFamilyNone then r
      else
        (let previousStage = nf_familyStage r; r0 = r\<lparr>nf_familyStage := npmFailureStageNone\<rparr>;
             message = family_message rest;
             (seen, r1) = (if previousStage = npmFailureStagePredicate then observePredicateDetails message r0
                           else (False, r0))
         in if \<not> complete then r0
            else if previousStage = npmFailureStageRunnerConclusion \<and> message = npmFailureRunnerConclusion then
              r0\<lparr>nf_family := npmFailureUnsupportedRunner\<rparr>
            else if seen then r1
            else if message = npmFailureBundleWrapper then r0\<lparr>nf_familyStage := npmFailureStageBody\<rparr>
            else (case CutPrefix message (npmFailureBundleWrapper @ '' '') of
                Some body \<Rightarrow> observe_body body r0
              | None \<Rightarrow> if previousStage \<noteq> npmFailureStageBody then r0 else observe_body message r0)))"

section \<open>Lines\<close>

definition observe_code :: "string \<Rightarrow> bool \<Rightarrow> npmFailureRecognizer \<Rightarrow> npmFailureRecognizer" where
  "observe_code code complete r =
     (if complete \<and> nf_code r = [] \<and> validNPMFailureCode code then r\<lparr>nf_code := code\<rparr> else r)"

text \<open>Behind the prefix: a three-digit HTTP status, alone or followed by a blank and a field.\<close>

definition observe_status :: "string \<Rightarrow> bool \<Rightarrow> npmFailureRecognizer \<Rightarrow> npmFailureRecognizer" where
  "observe_status rest complete r =
     (let status = take maxNPMFailureHTTPStatusLength rest; after = drop maxNPMFailureHTTPStatusLength rest
      in if length rest < maxNPMFailureHTTPStatusLength \<or> \<not> npmFailureDigits status then r
         else if status < ''400'' \<or> ''599'' < status then r
         else if after \<noteq> [] \<and> hd after \<noteq> CHR '' '' then r
         else
           (let r1 = (if nf_httpStatus r = [] then r\<lparr>nf_httpStatus := status\<rparr> else r) in
            if after = [] then r1
            else
              (let fld = tl after;
                   name = takeWhile (\<lambda>c. c \<notin> set [CHR '' '', CHR 0x09, CHR ''='']) fld;
                   delimited = (length name < length fld)
               in if delimited \<or> complete then addPredicatePath name r1 else r1)))"

definition observeLine :: "string \<Rightarrow> bool \<Rightarrow> npmFailureRecognizer \<Rightarrow> npmFailureRecognizer" where
  "observeLine line0 complete r =
     (let line = (if complete then TrimSuffix line0 [CHR 0x0D] else line0);
          found = (case CutPrefix line ''npm error '' of
                     Some rest \<Rightarrow> Some rest | None \<Rightarrow> CutPrefix line ''npm err! '')
      in case found of
           None \<Rightarrow> r\<lparr>nf_familyStage := npmFailureStageNone\<rparr>
         | Some rest \<Rightarrow>
             (let r1 = observeFamily rest complete r in
              case CutPrefix rest ''code '' of
                Some code \<Rightarrow> observe_code code complete r1
              | None \<Rightarrow> observe_status rest complete r1))"

section \<open>The stream\<close>

definition newline :: char where "newline = CHR 0x0A"

definition write_byte :: "npmFailureRecognizer \<Rightarrow> char \<Rightarrow> npmFailureRecognizer" where
  "write_byte r b =
     (if b = newline then (observeLine (nf_pending r) (\<not> nf_discarding r) r)\<lparr>nf_pending := [], nf_discarding := False\<rparr>
      else if nf_discarding r then r
      else if length (nf_pending r) = maxNPMFailurePendingLineLength then r\<lparr>nf_discarding := True\<rparr>
      else r\<lparr>nf_pending := nf_pending r @ [b]\<rparr>)"

definition failure_Write :: "string \<Rightarrow> npmFailureRecognizer \<Rightarrow> nat \<times> npmFailureRecognizer" where
  "failure_Write p r = (length p, foldl write_byte r p)"

definition summary_text :: "npmFailureRecognizer \<Rightarrow> string" where
  "summary_text r =
     (if nf_family r = npmFailureFamilyNone \<and> nf_code r = [] \<and> nf_httpStatus r = [] \<and> nf_predicatePaths r = [] then []
      else npmFailureOperationalSummaryPrefix
        @ (if nf_family r \<noteq> npmFailureFamilyNone then '' family='' @ label (nf_family r) else [])
        @ (if nf_code r \<noteq> [] then '' code='' @ nf_code r else [])
        @ (if nf_httpStatus r \<noteq> [] then '' http_status='' @ nf_httpStatus r else [])
        @ (if nf_predicatePaths r \<noteq> [] then '' predicate_paths='' @ join_with '','' (nf_predicatePaths r) else []))"

definition failure_Summary :: "npmFailureRecognizer \<Rightarrow> string" where
  "failure_Summary r =
     summary_text (observeLine (nf_pending r) (\<not> nf_discarding r) (r\<lparr>nf_pending := [], nf_discarding := False\<rparr>))"

definition failure_StateSize :: "npmFailureRecognizer \<Rightarrow> nat" where
  "failure_StateSize r =
     length (nf_pending r) + length (nf_code r) + length (nf_httpStatus r) + nf_predicatePathsSize r"

text \<open>Any sequence of writes.\<close>

definition failure_Writes :: "string list \<Rightarrow> npmFailureRecognizer \<Rightarrow> npmFailureRecognizer" where
  "failure_Writes = fold (\<lambda>p r. snd (failure_Write p r))"

section \<open>Streaming and whole lines\<close>

text \<open>What the recogniser makes of one line of the output, given whole: only its first bytes count, and a
  longer line is an incomplete one.\<close>

definition observe_whole_line :: "npmFailureRecognizer \<Rightarrow> string \<Rightarrow> npmFailureRecognizer" where
  "observe_whole_line r line =
     observeLine (take maxNPMFailurePendingLineLength line) (length line \<le> maxNPMFailurePendingLineLength) r"

abbreviation with_line :: "string \<Rightarrow> bool \<Rightarrow> npmFailureRecognizer \<Rightarrow> npmFailureRecognizer" where
  "with_line p d r \<equiv> r\<lparr>nf_pending := p, nf_discarding := d\<rparr>"

lemma line_last:
  "(with_line p d r)\<lparr>nf_httpStatus := st\<rparr> = with_line p d (r\<lparr>nf_httpStatus := st\<rparr>)"
  "(with_line p d r)\<lparr>nf_code := code\<rparr> = with_line p d (r\<lparr>nf_code := code\<rparr>)"
  "(with_line p d r)\<lparr>nf_family := f\<rparr> = with_line p d (r\<lparr>nf_family := f\<rparr>)"
  "(with_line p d r)\<lparr>nf_familyStage := sg\<rparr> = with_line p d (r\<lparr>nf_familyStage := sg\<rparr>)"
  "(with_line p d r)\<lparr>nf_predicatePaths := paths, nf_predicatePathsSize := n\<rparr> =
     with_line p d (r\<lparr>nf_predicatePaths := paths, nf_predicatePathsSize := n\<rparr>)"
  by simp_all

lemma observePredicateDetails_line:
  "observePredicateDetails details (with_line p d r) = map_prod id (with_line p d) (observePredicateDetails details r)"
  unfolding observePredicateDetails_def line_last by (simp split: option.splits)

lemma observe_body_line: "observe_body body (with_line p d r) = with_line p d (observe_body body r)"
  unfolding observe_body_def line_last observePredicateDetails_line by simp

lemma observeFamily_line:
  "observeFamily rest complete (with_line p d r) = with_line p d (observeFamily rest complete r)"
  unfolding observeFamily_def line_last observePredicateDetails_line observe_body_line Let_def
  by (auto simp: observe_body_line line_last split: prod.splits option.splits if_splits)

lemma addPredicatePath_line: "addPredicatePath path (with_line p d r) = with_line p d (addPredicatePath path r)"
  by (simp add: addPredicatePath_def)

lemma observe_status_line:
  "observe_status rest complete (with_line p d r) = with_line p d (observe_status rest complete r)"
  unfolding observe_status_def Let_def line_last addPredicatePath_line if_distrib [of "addPredicatePath _"] by simp

lemma observe_code_line: "observe_code code complete (with_line p d r) = with_line p d (observe_code code complete r)"
  by (simp add: observe_code_def)

lemma observeLine_line: "observeLine line complete (with_line p d r) = with_line p d (observeLine line complete r)"
  unfolding observeLine_def Let_def line_last observeFamily_line observe_code_line observe_status_line
  by (simp split: option.splits)

lemma split_on_snoc:
  "split_on sep (s @ [b]) =
     (if b = sep then split_on sep s @ [[]]
      else butlast (split_on sep s) @ [last (split_on sep s) @ [b]])"
  by (induction s) (auto split: list.splits)

text \<open>The state after any bytes is that after their finished lines, with the start of the unfinished one.\<close>

lemma write_bytes_lines:
  "foldl write_byte (with_line [] False r) s =
     with_line (take maxNPMFailurePendingLineLength (last (split_on newline s)))
       (\<not> length (last (split_on newline s)) \<le> maxNPMFailurePendingLineLength)
       (foldl observe_whole_line r (butlast (split_on newline s)))"
proof (induction s rule: rev_induct)
  case (snoc b s)
  let ?r = "foldl observe_whole_line r (butlast (split_on newline s))" and ?l = "last (split_on newline s)"
  have whole: "foldl observe_whole_line r (split_on newline s) = observe_whole_line ?r ?l"
    using append_butlast_last_id [OF split_on_nonempty, of newline s]
    by (metis foldl_Cons foldl_Nil foldl_append)
  have "write_byte (with_line (take maxNPMFailurePendingLineLength ?l)
        (\<not> length ?l \<le> maxNPMFailurePendingLineLength) ?r) newline = with_line [] False (observe_whole_line ?r ?l)"
    by (simp add: write_byte_def observe_whole_line_def observeLine_line)
  with snoc whole show ?case
    by (cases "b = newline") (auto simp: write_byte_def split_on_snoc butlast_append)
qed simp

lemma failure_Writes_concat: "failure_Writes ps r = foldl write_byte r (concat ps)"
  by (induction ps arbitrary: r) (auto simp: failure_Writes_def failure_Write_def)

section \<open>Bounded, allowlisted state\<close>

definition wf_recognizer :: "npmFailureRecognizer \<Rightarrow> bool" where
  "wf_recognizer r \<longleftrightarrow>
     length (nf_pending r) \<le> maxNPMFailurePendingLineLength \<and>
     (nf_code r = [] \<or> validNPMFailureCode (nf_code r)) \<and>
     (nf_httpStatus r = [] \<or> length (nf_httpStatus r) = 3 \<and> npmFailureDigits (nf_httpStatus r)) \<and>
     list_all validNPMFailurePredicatePath (nf_predicatePaths r) \<and> distinct (nf_predicatePaths r) \<and>
     nf_predicatePathsSize r = sum_list (map length (nf_predicatePaths r)) \<and>
     nf_predicatePathsSize r \<le> maxNPMFailurePredicatePathsState"

lemma wf_family [simp]:
  "wf_recognizer (r\<lparr>nf_family := f\<rparr>) = wf_recognizer r"
  "wf_recognizer (r\<lparr>nf_familyStage := st\<rparr>) = wf_recognizer r"
  "wf_recognizer (r\<lparr>nf_discarding := d\<rparr>) = wf_recognizer r"
  by (simp_all add: wf_recognizer_def)

lemma wf_details: "wf_recognizer (snd (observePredicateDetails details r)) = wf_recognizer r"
  by (simp add: observePredicateDetails_def split: prod.splits)

lemma wf_body: "wf_recognizer (observe_body body r) = wf_recognizer r"
  by (simp add: observe_body_def wf_details)

lemma wf_observeFamily: "wf_recognizer (observeFamily rest complete r) = wf_recognizer r"
proof -
  have "wf_recognizer r' = wf_recognizer r"
    if "observePredicateDetails message (r\<lparr>nf_familyStage := st\<rparr>) = (b, r')" for message st b r'
    using wf_details [of message "r\<lparr>nf_familyStage := st\<rparr>"] that by simp
  then show ?thesis
    by (auto simp: observeFamily_def Let_def wf_body split: prod.splits option.splits)
qed

lemma wf_addPredicatePath: "wf_recognizer r \<Longrightarrow> wf_recognizer (addPredicatePath path r)"
  by (auto simp: addPredicatePath_def wf_recognizer_def)

lemma wf_httpStatus:
  "wf_recognizer r \<Longrightarrow> length st = 3 \<Longrightarrow> npmFailureDigits st \<Longrightarrow> wf_recognizer (r\<lparr>nf_httpStatus := st\<rparr>)"
  by (auto simp: wf_recognizer_def)

lemma wf_observe_status: "wf_recognizer r \<Longrightarrow> wf_recognizer (observe_status rest complete r)"
  by (auto simp: observe_status_def Let_def maxNPMFailureHTTPStatusLength_def intro!: wf_addPredicatePath wf_httpStatus)

lemma wf_observe_code: "wf_recognizer r \<Longrightarrow> wf_recognizer (observe_code code complete r)"
  by (auto simp: observe_code_def wf_recognizer_def)

lemma wf_observeLine: "wf_recognizer r \<Longrightarrow> wf_recognizer (observeLine line complete r)"
  by (auto simp: observeLine_def Let_def wf_observeFamily intro!: wf_observe_status wf_observe_code split: option.splits)

lemma wf_pending: "wf_recognizer r \<Longrightarrow> length p \<le> maxNPMFailurePendingLineLength \<Longrightarrow> wf_recognizer (r\<lparr>nf_pending := p\<rparr>)"
  by (simp add: wf_recognizer_def)

lemma wf_unpending: "wf_recognizer r \<Longrightarrow> wf_recognizer (with_line [] d r)"
  by (simp add: wf_recognizer_def)

lemma wf_write_byte: "wf_recognizer r \<Longrightarrow> wf_recognizer (write_byte r b)"
  by (auto simp: write_byte_def intro!: wf_observeLine wf_unpending wf_pending) (simp add: wf_recognizer_def)

lemma wf_new: "wf_recognizer newNPMFailureRecognizer"
  by (simp add: wf_recognizer_def newNPMFailureRecognizer_def)

lemma wf_writes: "wf_recognizer (failure_Writes ps newNPMFailureRecognizer)"
proof -
  have "wf_recognizer (foldl write_byte r s)" if "wf_recognizer r" for r s
    using that by (induction s arbitrary: r) (auto intro: wf_write_byte)
  then show ?thesis by (simp add: failure_Writes_concat wf_new)
qed

lemma recognizer_state_bound: "wf_recognizer r \<Longrightarrow> failure_StateSize r \<le> maxNPMFailureRecognizerState"
  by (auto simp: failure_StateSize_def wf_recognizer_def maxNPMFailureRecognizerState_def validNPMFailureCode_def
        maxNPMFailureHTTPStatusLength_def maxNPMFailureCodeLength_def)

section \<open>The summary\<close>

definition printable :: "char \<Rightarrow> bool" where
  "printable c \<longleftrightarrow> 32 \<le> byte c \<and> byte c \<le> 126"

lemma printable_classes:
  "is_digit c \<Longrightarrow> printable c" "is_upper c \<Longrightarrow> printable c" "npmFailurePathFieldByte c \<Longrightarrow> printable c"
  by (auto simp: printable_def is_digit_def is_upper_def is_lower_def npmFailurePathFieldByte_def
        npmFailurePathFieldStart_def byte_def)

lemma all_take_drop: "list_all P s \<longleftrightarrow> list_all P (takeWhile Q s) \<and> list_all P (dropWhile Q s)"
  by (subst takeWhile_dropWhile_id [symmetric, of s Q]) (simp only: list_all_append)

lemma all_takeWhile: "(\<And>c. Q c \<Longrightarrow> P c) \<Longrightarrow> list_all P (takeWhile Q s)"
  by (auto simp: list_all_iff dest: set_takeWhileD)

lemma path_tail_printable: "path_tail cs \<Longrightarrow> list_all printable cs"
proof (induction cs rule: path_tail.induct)
  case (2 c cs)
  show ?case
  proof (cases "c = CHR ''.''")
    case True
    with 2 have "list_all printable (dropWhile npmFailurePathFieldByte cs)" by simp
    with True show ?thesis
      using all_take_drop [of printable cs npmFailurePathFieldByte]
      by (simp add: all_takeWhile printable_classes) (simp add: printable_def byte_def)
  next
    case False
    with 2(3) obtain ds where c: "c = CHR ''[''" and ds: "dropWhile is_digit cs = CHR '']'' # ds" "path_tail ds"
      by (auto split: if_splits list.splits)
    with 2 have "list_all printable ds" by simp
    with c ds(1) show ?thesis
      using all_take_drop [of printable cs is_digit]
      by (simp add: all_takeWhile printable_classes) (simp add: printable_def byte_def)
  qed
qed simp

lemma path_below_shape:
  "path_below roots path \<Longrightarrow> \<exists>root \<in> set roots. \<exists>rest. path = root @ rest \<and> path_tail rest"
proof (induction roots)
  case (Cons root roots)
  then show ?case
    by (cases "CutPrefix path root") (auto simp: CutPrefix_Some split: if_splits intro: exI [of _ "[]"])
qed simp

lemma valid_path_printable: "validNPMFailurePredicatePath path \<Longrightarrow> list_all printable path"
proof -
  assume "validNPMFailurePredicatePath path"
  then obtain root rest where "root \<in> set predicate_roots" "path = root @ rest" "path_tail rest"
    using path_below_shape unfolding validNPMFailurePredicatePath_def by blast
  moreover have "list_all (list_all printable) predicate_roots"
    by (simp add: predicate_roots_def printable_def byte_def)
  ultimately show ?thesis
    by (auto simp: list_all_iff dest!: path_tail_printable)
qed

lemma valid_code_printable: "validNPMFailureCode code \<Longrightarrow> list_all printable code"
proof -
  assume valid: "validNPMFailureCode code"
  have underscore: "printable (CHR ''_'')" by (simp add: printable_def byte_def)
  from valid show ?thesis
    by (cases code) (auto simp: validNPMFailureCode_def list_all_iff printable_classes underscore)
qed

lemma joined_printable: "list_all printable sep \<Longrightarrow> list_all (list_all printable) ws \<Longrightarrow> list_all printable (join_with sep ws)"
  by (induction sep ws rule: join_with.induct) auto

lemma label_printable: "list_all printable (label f)" "length (label f) \<le> 30"
  by (cases f; simp add: printable_def byte_def)+

lemma length_join_comma: "list_all (\<lambda>w. w \<noteq> []) ws \<Longrightarrow> length (join_with '','' ws) \<le> 2 * sum_list (map length ws)"
proof (induction "'',''" ws rule: join_with.induct)
  case (3 w v ws)
  from 3(2) have "Suc 0 \<le> length w" by (simp add: Suc_le_eq)
  with 3 show ?case by simp
qed simp_all

lemma summary_printable: "wf_recognizer r \<Longrightarrow> list_all printable (summary_text r)"
proof -
  assume wf: "wf_recognizer r"
  have "list_all printable (nf_code r)" "list_all printable (nf_httpStatus r)"
    using wf by (auto simp: wf_recognizer_def npmFailureDigits_def valid_code_printable intro: list.pred_mono_strong printable_classes(1))
  moreover have "list_all printable '',''" by (simp add: printable_def byte_def)
  then have "list_all printable (join_with '','' (nf_predicatePaths r))"
    by (rule joined_printable) (use wf in \<open>auto simp: wf_recognizer_def intro: list.pred_mono_strong valid_path_printable\<close>)
  ultimately show ?thesis
    by (simp add: summary_text_def label_printable npmFailureOperationalSummaryPrefix_def printable_def byte_def)
qed

lemma summary_length: "wf_recognizer r \<Longrightarrow> length (summary_text r) \<le> maxNPMFailureSummaryLength"
proof -
  assume wf: "wf_recognizer r"
  then have "list_all (\<lambda>w. w \<noteq> []) (nf_predicatePaths r)"
    by (auto simp: wf_recognizer_def validNPMFailurePredicatePath_def intro: list.pred_mono_strong)
  from length_join_comma [OF this] wf
  have "length (join_with '','' (nf_predicatePaths r)) \<le> 2 * maxNPMFailurePredicatePathsState"
    by (simp add: wf_recognizer_def)
  moreover have "length (nf_code r) \<le> 64" "length (nf_httpStatus r) \<le> 3"
    using wf by (auto simp: wf_recognizer_def validNPMFailureCode_def maxNPMFailureCodeLength_def)
  ultimately show ?thesis
    using label_printable(2) [of "nf_family r"]
    by (simp add: summary_text_def npmFailureOperationalSummaryPrefix_def maxNPMFailureSummaryLength_def
          maxNPMFailurePredicatePathsState_def)
qed

lemma observed_state:
  "failure_Summary (failure_Writes ps newNPMFailureRecognizer) =
     summary_text (foldl observe_whole_line newNPMFailureRecognizer (split_on newline (concat ps)))"
proof -
  have new: "with_line [] False newNPMFailureRecognizer = newNPMFailureRecognizer"
    by (simp add: newNPMFailureRecognizer_def)
  let ?ls = "split_on newline (concat ps)"
  have "foldl observe_whole_line newNPMFailureRecognizer ?ls =
      observe_whole_line (foldl observe_whole_line newNPMFailureRecognizer (butlast ?ls)) (last ?ls)"
    using append_butlast_last_id [OF split_on_nonempty, of newline "concat ps"]
    by (metis foldl_Cons foldl_Nil foldl_append)
  moreover have "summary_text (with_line p d r) = summary_text r" for p d r
    by (simp add: summary_text_def)
  ultimately show ?thesis
    using write_bytes_lines [of newNPMFailureRecognizer "concat ps"]
    by (simp add: new failure_Writes_concat failure_Summary_def observe_whole_line_def observeLine_line)
qed

section \<open>Properties\<close>

text \<open>C29: The summary of npm's output does not depend on how the output was cut into writes: it is that of its
  lines, seen whole one after the other, each by its first 2,048 bytes and, where it is longer, as an incomplete
  one; and every write reports all its bytes as consumed.\<close>

theorem recognizer_stream_exact:
  "failure_Summary (failure_Writes ps newNPMFailureRecognizer) =
     summary_text (foldl observe_whole_line newNPMFailureRecognizer (split_on newline (concat ps))) \<and>
   fst (failure_Write p (failure_Writes ps newNPMFailureRecognizer)) = length p"
  by (simp add: observed_state) (simp add: failure_Write_def)

text \<open>Whatever npm prints, the recogniser keeps at most the state it declares, and its summary is at most the
  declared 8,192 bytes of printable ASCII without a line break: an error code, a three-digit status and
  field paths of the allowlisted grammar are the only text of npm that can reach the log.\<close>

theorem recognizer_bounded:
  "(case failure_Writes ps newNPMFailureRecognizer of
      r \<Rightarrow> failure_StateSize r \<le> maxNPMFailureRecognizerState \<and> wf_recognizer r \<and>
           length (failure_Summary r) \<le> maxNPMFailureSummaryLength \<and> list_all printable (failure_Summary r))"
proof -
  let ?r = "failure_Writes ps newNPMFailureRecognizer"
  have wf: "wf_recognizer ?r" by (rule wf_writes)
  then have "wf_recognizer (observeLine (nf_pending ?r) (\<not> nf_discarding ?r) (with_line [] False ?r))"
    by (intro wf_observeLine wf_unpending)
  from summary_length [OF this] summary_printable [OF this] recognizer_state_bound [OF wf] wf show ?thesis
    by (simp add: failure_Summary_def)
qed

end
