(* ===== verification/StderrRelay.thy ===== *)
theory StderrRelay
  imports Unicode Paths
begin

text \<open>
  internal/npmprofile/exec_boundary_relay.go and operational_log.go: the relay of a child process's
  stderr into the operational log.  Secrets are replaced while the bytes come in, the result is decoded as
  UTF-8, stripped of control and bidirectional characters and bounded.  The lock around the writer
  is left out: the two copying goroutines take turns, so a run of the model is one order of their writes.
\<close>

section \<open>State\<close>

definition redactedSecret :: string where "redactedSecret = ''[REDACTED]''"
definition maxOperationalStderrBytes :: nat where "maxOperationalStderrBytes = 65536"
definition maxOperationalStderrLines :: nat where "maxOperationalStderrLines = 512"

record operationalStderrRelay =
  or_secrets :: "string list"
  or_pending :: string
  or_utf8Pending :: string
  or_payload :: string
  or_bytes :: nat
  or_lines :: nat
  or_inLine :: bool
  or_truncated :: bool

definition newOperationalStderrRelay :: "string list \<Rightarrow> operationalStderrRelay" where
  "newOperationalStderrRelay vals =
     \<lparr>or_secrets = filter (\<lambda>value. value \<noteq> [] \<and> \<not> ContainsAny value [CHR 0x0D, CHR 0x0A]) vals,
      or_pending = [], or_utf8Pending = [], or_payload = [], or_bytes = 0, or_lines = 0,
      or_inLine = False, or_truncated = False\<rparr>"

section \<open>Collecting runes\<close>

definition hidden_rune :: "nat \<Rightarrow> bool" where
  "hidden_rune value \<longleftrightarrow>
     value < 32 \<and> value \<noteq> 10 \<and> value \<noteq> 9 \<or> 127 \<le> value \<and> value \<le> 159 \<or>
     value = 1564 \<or> value = 8206 \<or> value = 8207 \<or>
     8234 \<le> value \<and> value \<le> 8238 \<or> 8294 \<le> value \<and> value \<le> 8297"

definition collect :: "nat \<Rightarrow> operationalStderrRelay \<Rightarrow> operationalStderrRelay" where
  "collect value r =
     (if or_truncated r \<or> hidden_rune value then r
      else if value = 91 \<and> HasSuffix (or_payload r) ''##'' then r
      else if value = 10 then
        (if or_inLine r then r\<lparr>or_payload := or_payload r @ [CHR 0x0A], or_inLine := False\<rparr> else r)
      else
        (let width = length (encode_rune value) in
         if or_bytes r + width > maxOperationalStderrBytes
            \<or> \<not> or_inLine r \<and> or_lines r = maxOperationalStderrLines then r\<lparr>or_truncated := True\<rparr>
         else
           r\<lparr>or_lines := (if or_inLine r then or_lines r else or_lines r + 1), or_inLine := True,
             or_payload := or_payload r @ encode_rune value, or_bytes := or_bytes r + width\<rparr>))"

section \<open>Decoding bytes\<close>

text \<open>utf8.FullRune: the bytes begin with a whole encoding, or with one that can no longer become valid.\<close>

definition rune_size :: "nat \<Rightarrow> nat" where
  "rune_size b0 =
     (if 194 \<le> b0 \<and> b0 \<le> 223 then 2 else if 224 \<le> b0 \<and> b0 \<le> 239 then 3
      else if 240 \<le> b0 \<and> b0 \<le> 244 then 4 else 1)"

definition accept_second :: "nat \<Rightarrow> nat \<Rightarrow> bool" where
  "accept_second b0 b1 \<longleftrightarrow>
     (if b0 = 224 then 160 else if b0 = 240 then 144 else 128) \<le> b1 \<and>
     b1 \<le> (if b0 = 237 then 159 else if b0 = 244 then 143 else 191)"

definition FullRune :: "nat list \<Rightarrow> bool" where
  "FullRune p =
     (case p of
        [] \<Rightarrow> False
      | b0 # rest \<Rightarrow>
          if length p \<ge> rune_size b0 then True
          else (case rest of
             [] \<Rightarrow> False
           | b1 # rest' \<Rightarrow>
               if \<not> accept_second b0 b1 then True
               else (case rest' of [] \<Rightarrow> False | b2 # _ \<Rightarrow> \<not> is_cont b2)))"

lemma collect_utf8Pending [simp]: "or_utf8Pending (collect value r) = or_utf8Pending r"
  by (simp add: collect_def Let_def)

function decode_pending :: "bool \<Rightarrow> operationalStderrRelay \<Rightarrow> operationalStderrRelay" where
  "decode_pending final r =
     (if or_utf8Pending r = [] \<or> \<not> (final \<or> FullRune (map byte (or_utf8Pending r))) then r
      else
        (let (value, w, _) = decode_rune (map byte (take 4 (or_utf8Pending r))) in
         decode_pending final (collect value (r\<lparr>or_utf8Pending := drop (max 1 w) (or_utf8Pending r)\<rparr>))))"
  by pat_completeness auto

termination
  by (relation "measure (\<lambda>(final, r). length (or_utf8Pending r))") auto

declare decode_pending.simps [simp del]

definition decode_byte :: "operationalStderrRelay \<Rightarrow> char \<Rightarrow> operationalStderrRelay" where
  "decode_byte r b = decode_pending False (r\<lparr>or_utf8Pending := or_utf8Pending r @ [b]\<rparr>)"

section \<open>Redaction\<close>

text \<open>The loop over the secrets: the longest that leads the pending bytes, and whether they could still
  become a longer one.\<close>

fun scan_secrets :: "string list \<Rightarrow> string \<Rightarrow> nat \<times> bool \<Rightarrow> nat \<times> bool" where
  "scan_secrets [] pending found = found"
| "scan_secrets (secret # secrets) pending (matched, partial) =
     scan_secrets secrets pending
       (if length pending < length secret then (matched, partial \<or> HasPrefix secret pending)
        else if HasPrefix pending secret then (max matched (length secret), partial)
        else (matched, partial))"

lemma collect_pending [simp]:
  "or_pending (collect value r) = or_pending r" "or_secrets (collect value r) = or_secrets r"
  by (simp_all add: collect_def Let_def)

lemma decode_pending_pending [simp]:
  "or_pending (decode_pending final r) = or_pending r" "or_secrets (decode_pending final r) = or_secrets r"
  by (induction final r rule: decode_pending.induct; subst decode_pending.simps; simp add: Let_def split: prod.splits)+

lemma decode_bytes_pending [simp]:
  "or_pending (foldl decode_byte r bs) = or_pending r" "or_secrets (foldl decode_byte r bs) = or_secrets r"
  by (induction bs arbitrary: r) (simp_all add: decode_byte_def)

function redact :: "bool \<Rightarrow> operationalStderrRelay \<Rightarrow> operationalStderrRelay" where
  "redact final r =
     (if or_pending r = [] \<or> or_truncated r then r
      else
        (let (matched, partial) = scan_secrets (or_secrets r) (or_pending r) (0, False) in
         if partial \<and> \<not> final then r
         else if matched > 0 then
           redact final ((foldl decode_byte r redactedSecret)\<lparr>or_pending := drop matched (or_pending r)\<rparr>)
         else redact final ((decode_byte r (hd (or_pending r)))\<lparr>or_pending := tl (or_pending r)\<rparr>)))"
  by pat_completeness auto
termination
  by (relation "measure (\<lambda>(final, r). length (or_pending r))") auto

declare redact.simps [simp del]

section \<open>The writer and the report\<close>

definition relay_byte :: "operationalStderrRelay \<Rightarrow> char \<Rightarrow> operationalStderrRelay" where
  "relay_byte r b =
     (if or_truncated r then r else redact False (r\<lparr>or_pending := or_pending r @ [b]\<rparr>))"

definition relay_Write :: "string \<Rightarrow> operationalStderrRelay \<Rightarrow> nat \<times> operationalStderrRelay" where
  "relay_Write p r = (length p, foldl relay_byte r p)"

definition relay_Writes :: "string list \<Rightarrow> operationalStderrRelay \<Rightarrow> operationalStderrRelay" where
  "relay_Writes = fold (\<lambda>p r. snd (relay_Write p r))"

definition operational_line :: "string \<Rightarrow> string" where
  "operational_line line = ''windlass operational: '' @ line @ [CHR 0x0A]"

text \<open>The lines written to the operational log when the child has ended.\<close>

definition relay_finish :: "operationalStderrRelay \<Rightarrow> operationalStderrRelay" where
  "relay_finish r = decode_pending True (redact True r)"

definition emit :: "string \<Rightarrow> operationalStderrRelay \<Rightarrow> string list" where
  "emit operation r =
     (let r' = relay_finish r in
      map (\<lambda>line. operational_line (''operation='' @ operation @ '' stderr: '' @ line))
        (filter (\<lambda>line. line \<noteq> []) (split_on (CHR 0x0A) (or_payload r')))
      @ (if or_truncated r' then [operational_line (''operation='' @ operation @ '' stderr_truncated=true'')] else []))"

section \<open>What a run amounts to\<close>

text \<open>The replacement done on the whole output at once: at every place the longest secret that starts there.\<close>

definition longest_secret :: "string list \<Rightarrow> string \<Rightarrow> nat" where
  "longest_secret secrets s = fst (scan_secrets secrets s (0, False))"

function replace_secrets :: "string list \<Rightarrow> string \<Rightarrow> string" where
  "replace_secrets secrets [] = []"
| "replace_secrets secrets (c # cs) =
     (if longest_secret secrets (c # cs) > 0
      then redactedSecret @ replace_secrets secrets (drop (longest_secret secrets (c # cs)) (c # cs))
      else c # replace_secrets secrets cs)"
  by pat_completeness auto
termination
  by (relation "measure (\<lambda>(secrets, s). length s)") auto

definition collects :: "operationalStderrRelay \<Rightarrow> string \<Rightarrow> operationalStderrRelay" where
  "collects r s = foldl (\<lambda>r (value, _). collect value r) r (runes s)"

text \<open>What of the state the report shows.\<close>

definition visible :: "operationalStderrRelay \<Rightarrow> string \<times> nat \<times> nat \<times> bool \<times> bool" where
  "visible r = (or_payload r, or_bytes r, or_lines r, or_inLine r, or_truncated r)"

lemma visible_updates [simp]:
  "visible (r\<lparr>or_pending := p\<rparr>) = visible r" "visible (r\<lparr>or_utf8Pending := p\<rparr>) = visible r"
  by (simp_all add: visible_def)

lemma collect_visible: "visible r = visible r' \<Longrightarrow> visible (collect value r) = visible (collect value r')"
  by (auto simp: collect_def visible_def Let_def)

lemma fold_visible:
  "visible r = visible r' \<Longrightarrow>
   visible (foldl (\<lambda>r (value, _). collect value r) r vs) = visible (foldl (\<lambda>r (value, _). collect value r) r' vs)"
proof (induction vs arbitrary: r r')
  case (Cons v vs)
  obtain u w where v: "v = (u, w)" by (cases v)
  from Cons.IH [OF collect_visible [OF Cons.prems]] show ?case by (simp add: v)
qed simp

lemma collects_visible: "visible r = visible r' \<Longrightarrow> visible (collects r s) = visible (collects r' s)"
  unfolding collects_def by (rule fold_visible)

lemma collects_truncated: "or_truncated r \<Longrightarrow> collects r s = r"
proof -
  have "foldl (\<lambda>r (value, _). collect value r) r vs = r" if "or_truncated r" for vs
    using that by (induction vs) (auto simp: collect_def)
  then show "or_truncated r \<Longrightarrow> collects r s = r" by (simp add: collects_def)
qed

subsection \<open>Decoding piecewise\<close>

text \<open>The four classes of a first byte decide the tests at the head of decode_rune and of FullRune.\<close>

lemma class_two:
  fixes b0 :: nat
  assumes "194 \<le> b0" "b0 \<le> 223"
  shows "(b0 < 128) = False" "(194 \<le> b0 \<and> b0 \<le> 223) = True"
  using assms by auto

lemma class_three:
  fixes b0 :: nat
  assumes "224 \<le> b0" "b0 \<le> 239"
  shows "(b0 < 128) = False" "(194 \<le> b0 \<and> b0 \<le> 223) = False" "(224 \<le> b0 \<and> b0 \<le> 239) = True"
    "accept_second b0 b1 \<longleftrightarrow> (if b0 = 224 then 160 else 128) \<le> b1 \<and> b1 \<le> (if b0 = 237 then 159 else 191)"
  using assms by (auto simp: accept_second_def)

lemma class_four:
  fixes b0 :: nat
  assumes "240 \<le> b0" "b0 \<le> 244"
  shows "(b0 < 128) = False" "(194 \<le> b0 \<and> b0 \<le> 223) = False" "(224 \<le> b0 \<and> b0 \<le> 239) = False"
    "(240 \<le> b0 \<and> b0 \<le> 244) = True"
    "accept_second b0 b1 \<longleftrightarrow> (if b0 = 240 then 144 else 128) \<le> b1 \<and> b1 \<le> (if b0 = 244 then 143 else 191)"
  using assms by (auto simp: accept_second_def)

lemma class_one:
  fixes b0 :: nat
  assumes "\<not> (194 \<le> b0 \<and> b0 \<le> 244)"
  shows "(194 \<le> b0 \<and> b0 \<le> 223) = False" "(224 \<le> b0 \<and> b0 \<le> 239) = False" "(240 \<le> b0 \<and> b0 \<le> 244) = False"
  using assms by auto

lemma FullRune_two:
  assumes "194 \<le> b0" "b0 \<le> 223"
  shows "FullRune (b0 # rest) \<longleftrightarrow> rest \<noteq> []"
    and "decode_rune (b0 # b1 # rest) = decode_rune [b0, b1]"
proof -
  note c = class_two [OF assms]
  have "rune_size b0 = 2" by (simp only: rune_size_def c if_True)
  then show "FullRune (b0 # rest) \<longleftrightarrow> rest \<noteq> []" by (cases rest) (simp_all add: FullRune_def)
  show "decode_rune (b0 # b1 # rest) = decode_rune [b0, b1]"
    by (simp only: decode_rune_def list.case c if_True if_False)
qed

lemma FullRune_three:
  assumes "224 \<le> b0" "b0 \<le> 239"
  shows "FullRune [b0, b1] \<longleftrightarrow> \<not> accept_second b0 b1" and "\<not> FullRune [b0]"
    and "decode_rune (b0 # b1 # b2 # rest) = decode_rune [b0, b1, b2]"
    and "\<not> accept_second b0 b1 \<Longrightarrow> decode_rune (b0 # b1 # rest) = (65533, 1, False)"
proof -
  note c = class_three [OF assms]
  have w: "rune_size b0 = 3" by (simp only: rune_size_def c if_True if_False)
  show "FullRune [b0, b1] \<longleftrightarrow> \<not> accept_second b0 b1" "\<not> FullRune [b0]" by (simp_all add: FullRune_def w)
  show "decode_rune (b0 # b1 # b2 # rest) = decode_rune [b0, b1, b2]"
    by (simp only: decode_rune_def list.case c if_True if_False)
  assume "\<not> accept_second b0 b1"
  then have no: "\<not> ((if b0 = 224 then 160 else 128) \<le> b1 \<and> b1 \<le> (if b0 = 237 then 159 else 191) \<and> is_cont b)" for b
    using c(4) by blast
  show "decode_rune (b0 # b1 # rest) = (65533, 1, False)"
    by (cases rest) (simp_all only: decode_rune_def list.case c if_True if_False no)
qed

lemma FullRune_four:
  assumes "240 \<le> b0" "b0 \<le> 244"
  shows "FullRune [b0, b1, b2] \<longleftrightarrow> \<not> accept_second b0 b1 \<or> \<not> is_cont b2"
    and "FullRune [b0, b1] \<longleftrightarrow> \<not> accept_second b0 b1" and "\<not> FullRune [b0]"
    and "decode_rune (b0 # b1 # b2 # b3 # rest) = decode_rune [b0, b1, b2, b3]"
    and "\<not> accept_second b0 b1 \<Longrightarrow> decode_rune (b0 # b1 # rest) = (65533, 1, False)"
    and "\<not> is_cont b2 \<Longrightarrow> decode_rune (b0 # b1 # b2 # rest) = (65533, 1, False)"
proof -
  note c = class_four [OF assms]
  have w: "rune_size b0 = 4" by (simp only: rune_size_def c if_True if_False)
  show "FullRune [b0, b1, b2] \<longleftrightarrow> \<not> accept_second b0 b1 \<or> \<not> is_cont b2"
    "FullRune [b0, b1] \<longleftrightarrow> \<not> accept_second b0 b1" "\<not> FullRune [b0]" by (auto simp add: FullRune_def w)
  show "decode_rune (b0 # b1 # b2 # b3 # rest) = decode_rune [b0, b1, b2, b3]"
    by (simp only: decode_rune_def list.case c if_True if_False)
  have no: "\<not> ((if b0 = 240 then 144 else 128) \<le> b1 \<and> b1 \<le> (if b0 = 244 then 143 else 191) \<and> is_cont b \<and> is_cont b')"
    if "\<not> accept_second b0 b1 \<or> \<not> is_cont b" for b b'
    using c(5) that by blast
  show "decode_rune (b0 # b1 # rest) = (65533, 1, False)" if "\<not> accept_second b0 b1"
  proof (cases rest)
    case (Cons b2 rest')
    then show ?thesis
      by (cases rest') (simp_all only: decode_rune_def list.case c(1-4) if_True if_False no [OF disjI1 [OF that]])
  qed (simp only: decode_rune_def list.case c(1-4) if_True if_False)
  show "decode_rune (b0 # b1 # b2 # rest) = (65533, 1, False)" if "\<not> is_cont b2"
    by (cases rest) (simp_all only: decode_rune_def list.case c(1-4) if_True if_False no [OF disjI2 [OF that]])
qed

lemma decode_rune_one:
  assumes "\<not> (194 \<le> b0 \<and> b0 \<le> 244)"
  shows "decode_rune (b0 # rest) = decode_rune [b0]"
  by (simp only: decode_rune_def list.case class_one [OF assms] if_False)

lemma FullRune_three_four_size: "FullRune (b0 # rest) \<Longrightarrow> 224 \<le> b0 \<Longrightarrow> b0 \<le> 244 \<Longrightarrow> rest \<noteq> []"
  using FullRune_three(2) [of b0] FullRune_four(3) [of b0] by (cases rest; cases "b0 \<le> 239") auto

lemma decode_rune_width: "fst (snd (decode_rune (b0 # rest))) \<le> Suc (length rest)"
proof -
  have width: "fst (snd (if P then (x, n, True) else (65533, 1, False))) \<le> m"
    if "n \<le> m" "1 \<le> m" for P and x n m :: nat using that by simp
  consider (one) "\<not> (194 \<le> b0 \<and> b0 \<le> 244)" | (two) "194 \<le> b0" "b0 \<le> 223"
    | (three) "224 \<le> b0" "b0 \<le> 239" | (four) "240 \<le> b0" "b0 \<le> 244" by linarith
  then show ?thesis
  proof cases
    case one
    then show ?thesis by (simp only: decode_rune_def list.case class_one [OF one] if_False) simp
  next
    case two
    note c = class_two [OF two]
    show ?thesis
      by (cases rest) (simp_all only: decode_rune_def list.case c if_True if_False, simp, rule width, simp_all)
  next
    case three
    note c = class_three(1-3) [OF three]
    show ?thesis
    proof (cases rest)
      case (Cons b1 rest')
      then show ?thesis
        by (cases rest') (simp_all only: decode_rune_def list.case c if_True if_False, simp, rule width, simp_all)
    qed (simp only: decode_rune_def list.case c if_True if_False, simp)
  next
    case four
    note c = class_four(1-4) [OF four]
    show ?thesis
    proof (cases rest)
      case r: (Cons b1 rest')
      then show ?thesis
      proof (cases rest')
        case (Cons b2 rest'')
        with r show ?thesis
          by (cases rest'') (simp_all only: decode_rune_def list.case c if_True if_False, simp, rule width, simp_all)
      qed (simp only: decode_rune_def list.case c if_True if_False, simp)
    qed (simp only: decode_rune_def list.case c if_True if_False, simp)
  qed
qed

lemma FullRune_decides:
  assumes full: "FullRune p"
  shows "decode_rune (take 4 (p @ x)) = decode_rune (take 4 p) \<and> fst (snd (decode_rune (take 4 p))) \<le> length p"
proof -
  from full obtain b0 rest where p: "p = b0 # rest" by (cases p) (auto simp: FullRune_def)
  have width: "fst (snd (decode_rune (take 4 p))) \<le> length p"
    using decode_rune_width [of b0 "take 3 rest"] by (simp add: p min_def split: if_splits)
  have t1: "take 4 (c0 # y) = c0 # take 3 y" for c0 :: nat and y by (simp add: numeral_eq_Suc)
  have t2: "take 4 (c0 # c1 # y) = c0 # c1 # take 2 y" for c0 c1 :: nat and y by (simp add: numeral_eq_Suc)
  have t3: "take 4 (c0 # c1 # c2 # y) = c0 # c1 # c2 # take 1 y" for c0 c1 c2 :: nat and y
    by (simp add: numeral_eq_Suc)
  have t4: "take 4 (c0 # c1 # c2 # c3 # y) = [c0, c1, c2, c3]" for c0 c1 c2 c3 :: nat and y
    by (simp add: numeral_eq_Suc)
  have "decode_rune (take 4 (p @ x)) = decode_rune (take 4 p)"
  proof -
    consider (one) "\<not> (194 \<le> b0 \<and> b0 \<le> 244)" | (two) "194 \<le> b0" "b0 \<le> 223"
      | (three) "224 \<le> b0" "b0 \<le> 239" | (four) "240 \<le> b0" "b0 \<le> 244" by linarith
    then show ?thesis
    proof cases
      case one
      show ?thesis
        using decode_rune_one [OF one, of "take 3 (rest @ x)"] decode_rune_one [OF one, of "take 3 rest"]
        by (simp only: p append_Cons t1)
    next
      case two
      with full obtain b1 rest' where r: "rest = b1 # rest'" by (cases rest) (auto simp: p FullRune_two)
      show ?thesis
        using FullRune_two(2) [OF two, of b1 "take 2 (rest' @ x)"] FullRune_two(2) [OF two, of b1 "take 2 rest'"]
        by (simp only: p r append_Cons t2)
    next
      case three
      with full obtain b1 rest' where r: "rest = b1 # rest'"
        by (cases rest) (auto simp: p dest: FullRune_three_four_size)
      show ?thesis
      proof (cases rest')
        case Nil
        with full r have "\<not> accept_second b0 b1" by (simp add: p FullRune_three(1) [OF three])
        from FullRune_three(4) [OF three this, of "take 2 x"] FullRune_three(4) [OF three this, of "take 2 []"]
        show ?thesis by (simp only: p r Nil append_Cons append_Nil t2)
      next
        case (Cons b2 rest'')
        show ?thesis
          using FullRune_three(3) [OF three, of b1 b2 "take 1 (rest'' @ x)"]
            FullRune_three(3) [OF three, of b1 b2 "take 1 rest''"]
          by (simp only: p r Cons append_Cons t3)
      qed
    next
      case four
      with full obtain b1 rest' where r: "rest = b1 # rest'"
        by (cases rest) (auto simp: p dest: FullRune_three_four_size)
      show ?thesis
      proof (cases rest')
        case Nil
        with full r have "\<not> accept_second b0 b1" by (simp add: p FullRune_four(2) [OF four])
        from FullRune_four(5) [OF four this, of "take 2 x"] FullRune_four(5) [OF four this, of "take 2 []"]
        show ?thesis by (simp only: p r Nil append_Cons append_Nil t2)
      next
        case r': (Cons b2 rest'')
        show ?thesis
        proof (cases rest'')
          case Nil
          have bad: "decode_rune (b0 # b1 # b2 # y) = (65533, 1, False)" for y
            using full FullRune_four(1) [OF four] FullRune_four(5,6) [OF four] by (auto simp: p r r' Nil)
          show ?thesis
            using bad [of "take 1 x"] bad [of "take 1 []"] by (simp only: p r r' Nil append_Cons append_Nil t3)
        next
          case (Cons b3 rest3)
          show ?thesis by (simp only: p r r' Cons append_Cons t4)
        qed
      qed
    qed
  qed
  with width show ?thesis by simp
qed

lemma runes_step:
  "p \<noteq> [] \<Longrightarrow> decode_rune (map byte (take 4 p)) = (v, w, ok) \<Longrightarrow>
   runes p = (v, take (max 1 w) p, ok) # runes (drop (max 1 w) p)"
  by (cases p) (simp_all only: runes.simps Let_def prod.case)

lemma runes_first:
  assumes "FullRune (map byte p)" and "decode_rune (map byte (take 4 p)) = (v, w, ok)"
  shows "\<exists>bs. runes (p @ x) = (v, bs, ok) # runes (drop (max 1 w) p @ x)"
proof -
  from assms(1) obtain c cs where p: "p = c # cs" by (cases p) (auto simp: FullRune_def)
  have "decode_rune (map byte (take 4 (p @ x))) = (v, w, ok)" and w: "w \<le> length p"
    using FullRune_decides [OF assms(1), of "map byte x"] assms(2) by (simp_all add: take_map)
  then have "runes (p @ x) = (v, take (max 1 w) (p @ x), ok) # runes (drop (max 1 w) (p @ x))"
    using p by (intro runes_step) simp_all
  moreover have "max 1 w - length p = 0" using w p by simp
  then have "drop (max 1 w) (p @ x) = drop (max 1 w) p @ x" by (simp only: drop_append drop_0)
  ultimately show ?thesis by auto
qed

lemma decode_pending_collects:
  "visible (collects (decode_pending False r) (or_utf8Pending (decode_pending False r) @ x)) =
   visible (collects r (or_utf8Pending r @ x))"
proof (induction False r rule: decode_pending.induct)
  case (1 r)
  show ?case
  proof (cases "or_utf8Pending r = [] \<or> \<not> FullRune (map byte (or_utf8Pending r))")
    case True
    then show ?thesis by (subst (1 2) decode_pending.simps) auto
  next
    case False
    obtain v w ok where d: "decode_rune (map byte (take 4 (or_utf8Pending r))) = (v, w, ok)"
      by (cases "decode_rune (map byte (take 4 (or_utf8Pending r)))")
    let ?r = "collect v (r\<lparr>or_utf8Pending := drop (max 1 w) (or_utf8Pending r)\<rparr>)"
    from False have step: "decode_pending False r = decode_pending False ?r"
      by (subst decode_pending.simps) (simp add: d)
    obtain bs where "runes (or_utf8Pending r @ x) = (v, bs, ok) # runes (drop (max 1 w) (or_utf8Pending r) @ x)"
      using runes_first [OF _ d] False by blast
    then have "collects r (or_utf8Pending r @ x) = collects (collect v r) (drop (max 1 w) (or_utf8Pending r) @ x)"
      by (simp add: collects_def)
    moreover have "visible (collects (collect v r) y) = visible (collects ?r y)" for y
      by (intro collects_visible collect_visible) simp
    ultimately show ?thesis
      using 1 [of "(v, w, ok)" v "(w, ok)" w ok] False d by (simp add: step)
  qed
qed

lemma decode_pending_all: "visible (decode_pending True r) = visible (collects r (or_utf8Pending r))"
proof (induction True r rule: decode_pending.induct)
  case (1 r)
  show ?case
  proof (cases "or_utf8Pending r")
    case Nil
    then show ?thesis by (subst decode_pending.simps) (simp add: collects_def)
  next
    case (Cons c cs)
    obtain v w ok where d: "decode_rune (map byte (take 4 (or_utf8Pending r))) = (v, w, ok)"
      by (cases "decode_rune (map byte (take 4 (or_utf8Pending r)))")
    let ?r = "collect v (r\<lparr>or_utf8Pending := drop (max 1 w) (or_utf8Pending r)\<rparr>)"
    have step: "decode_pending True r = decode_pending True ?r"
      by (subst decode_pending.simps) (simp add: d, simp add: Cons)
    have "collects r (or_utf8Pending r) = collects (collect v r) (drop (max 1 w) (or_utf8Pending r))"
      using runes_step [OF _ d] by (simp add: collects_def Cons)
    moreover have "visible (collects (collect v r) y) = visible (collects ?r y)" for y
      by (intro collects_visible collect_visible) simp
    ultimately show ?thesis
      using 1 [of "(v, w, ok)" v "(w, ok)" w ok] Cons d by (simp add: step)
  qed
qed

text \<open>Bytes handed to the decoder one by one, then more bytes.\<close>

lemma decode_byte_collects:
  "visible (collects (decode_byte r b) (or_utf8Pending (decode_byte r b) @ x)) =
   visible (collects r (or_utf8Pending r @ b # x))"
proof -
  have "visible (collects (r\<lparr>or_utf8Pending := or_utf8Pending r @ [b]\<rparr>) y) = visible (collects r y)" for y
    by (rule collects_visible) simp
  then show ?thesis
    unfolding decode_byte_def decode_pending_collects by simp
qed

lemma decode_bytes_collects:
  "visible (collects (foldl decode_byte r bs) (or_utf8Pending (foldl decode_byte r bs) @ x)) =
   visible (collects r (or_utf8Pending r @ bs @ x))"
  by (induction bs arbitrary: r) (simp_all add: decode_byte_collects)

subsection \<open>Redacting piecewise\<close>

lemma scan_partial_mono: "snd (scan_secrets ss p (m, True))"
  by (induction ss arbitrary: m) auto

lemma scan_matched_bound: "fst (scan_secrets ss p (m, b)) \<le> max m (length p)"
proof (induction ss arbitrary: m b)
  case (Cons s ss)
  show ?case
    using Cons [of m "b \<or> HasPrefix s p"] Cons [of "max m (length s)" b] Cons [of m b] by auto
qed simp

lemma scan_decided:
  "\<not> snd (scan_secrets ss p (m, b)) \<Longrightarrow> fst (scan_secrets ss (p @ x) (m, b')) = fst (scan_secrets ss p (m, b))"
proof (induction ss arbitrary: m b b')
  case (Cons s ss)
  show ?case
  proof (cases "length p < length s")
    case True
    with Cons.prems have no: "\<not> HasPrefix s p" and nb: "\<not> b"
      using scan_partial_mono [of ss p m] by auto
    from True no have "\<not> HasPrefix (p @ x) s"
      by (auto simp: HasPrefix_iff append_eq_append_conv2)
    with True no Cons show ?thesis by auto
  next
    case False
    then have "HasPrefix (p @ x) s \<longleftrightarrow> HasPrefix p s"
      by (auto simp: HasPrefix_iff append_eq_append_conv2)
    with False Cons show ?thesis by auto
  qed
qed simp

lemma replace_step:
  "s \<noteq> [] \<Longrightarrow> replace_secrets ss s =
     (if longest_secret ss s > 0 then redactedSecret @ replace_secrets ss (drop (longest_secret ss s) s)
      else hd s # replace_secrets ss (tl s))"
  by (cases s) (simp_all only: replace_secrets.simps list.sel)

text \<open>What the report will show once the bytes \<open>rest\<close> have come in too.\<close>

definition outcome :: "operationalStderrRelay \<Rightarrow> string \<Rightarrow> string \<times> nat \<times> nat \<times> bool \<times> bool" where
  "outcome r rest =
     visible (collects r (or_utf8Pending r @ replace_secrets (or_secrets r) (or_pending r @ rest)))"

lemma outcome_truncated: "or_truncated r \<Longrightarrow> outcome r rest = visible r"
  by (simp add: outcome_def collects_truncated)

lemma outcome_pending:
  "outcome (r\<lparr>or_pending := q\<rparr>) rest =
     visible (collects r (or_utf8Pending r @ replace_secrets (or_secrets r) (q @ rest)))"
  by (simp add: outcome_def) (rule collects_visible, simp)

text \<open>One round of the loop, on pending bytes that decide what starts at their head.\<close>

lemma redact_round:
  assumes p: "or_pending r \<noteq> []" and longest: "longest_secret (or_secrets r) (or_pending r @ rest) = m"
    and m: "m \<le> length (or_pending r)"
  shows "outcome (if m > 0 then (foldl decode_byte r redactedSecret)\<lparr>or_pending := drop m (or_pending r)\<rparr>
                  else (decode_byte r (hd (or_pending r)))\<lparr>or_pending := tl (or_pending r)\<rparr>) rest = outcome r rest"
proof (cases "m > 0")
  case True
  from p m have "drop m (or_pending r @ rest) = drop m (or_pending r) @ rest" by simp
  then have "replace_secrets (or_secrets r) (or_pending r @ rest) =
      redactedSecret @ replace_secrets (or_secrets r) (drop m (or_pending r) @ rest)"
    using p True by (simp add: replace_step [of "or_pending r @ rest"] longest)
  with True show ?thesis
    by (simp add: outcome_pending decode_bytes_collects) (simp add: outcome_def)
next
  case False
  then have "replace_secrets (or_secrets r) (or_pending r @ rest) =
      hd (or_pending r) # replace_secrets (or_secrets r) (tl (or_pending r) @ rest)"
    using p by (simp add: replace_step [of "or_pending r @ rest"] longest)
  moreover have "or_secrets (decode_byte r b) = or_secrets r" for b by (simp add: decode_byte_def)
  ultimately show ?thesis
    using False by (simp add: outcome_pending decode_byte_collects) (simp add: outcome_def)
qed

lemma redact_outcome: "final \<longrightarrow> rest = [] \<Longrightarrow> outcome (redact final r) rest = outcome r rest"
proof (induction final r rule: redact.induct)
  case (1 final r)
  obtain m partial where scan: "scan_secrets (or_secrets r) (or_pending r) (0, False) = (m, partial)"
    by (cases "scan_secrets (or_secrets r) (or_pending r) (0, False)")
  show ?case
  proof (cases "or_pending r = [] \<or> or_truncated r \<or> partial \<and> \<not> final")
    case True
    then show ?thesis by (subst redact.simps) (auto simp: scan)
  next
    case False
    have m: "m \<le> length (or_pending r)"
      using scan_matched_bound [of "or_secrets r" "or_pending r" 0 False] by (simp add: scan)
    have "longest_secret (or_secrets r) (or_pending r @ rest) = m"
    proof (cases final)
      case True
      with 1(3) show ?thesis by (simp add: longest_secret_def scan)
    next
      case final: False
      with False have "\<not> snd (scan_secrets (or_secrets r) (or_pending r) (0, False))" by (simp add: scan)
      from scan_decided [OF this, of rest False] show ?thesis by (simp add: longest_secret_def scan)
    qed
    from redact_round [OF _ this m] False
    have round: "outcome (if m > 0 then (foldl decode_byte r redactedSecret)\<lparr>or_pending := drop m (or_pending r)\<rparr>
        else (decode_byte r (hd (or_pending r)))\<lparr>or_pending := tl (or_pending r)\<rparr>) rest = outcome r rest" by simp
    from False have step: "redact final r =
        redact final (if m > 0 then (foldl decode_byte r redactedSecret)\<lparr>or_pending := drop m (or_pending r)\<rparr>
          else (decode_byte r (hd (or_pending r)))\<lparr>or_pending := tl (or_pending r)\<rparr>)"
      by (subst redact.simps) (auto simp: scan)
    show ?thesis
      using 1(1) [of "(m, partial)" m partial] 1(2) [of "(m, partial)" m partial] 1(3) False round
      unfolding step by (cases "m > 0") (simp_all add: scan)
  qed
qed

lemma redact_final_drained: "or_pending (redact True r) = [] \<or> or_truncated (redact True r)"
proof (induction True r rule: redact.induct)
  case (1 r)
  show ?case
  proof (cases "or_pending r = [] \<or> or_truncated r")
    case True
    then show ?thesis by (subst (1 2) redact.simps) auto
  next
    case False
    obtain m partial where scan: "scan_secrets (or_secrets r) (or_pending r) (0, False) = (m, partial)"
      by (cases "scan_secrets (or_secrets r) (or_pending r) (0, False)")
    from False 1(1) [OF _ scan [symmetric] refl] 1(2) [OF _ scan [symmetric] refl] show ?thesis
      by (subst (1 2) redact.simps) (auto simp: scan)
  qed
qed

lemma relay_byte_outcome: "outcome (relay_byte r b) rest = outcome r (b # rest)"
proof (cases "or_truncated r")
  case False
  then have "outcome (relay_byte r b) rest = outcome (r\<lparr>or_pending := or_pending r @ [b]\<rparr>) rest"
    by (simp add: relay_byte_def redact_outcome)
  then show ?thesis by (simp add: outcome_pending) (simp add: outcome_def)
qed (simp add: relay_byte_def outcome_truncated)

lemma relay_bytes_outcome: "outcome (foldl relay_byte r s) rest = outcome r (s @ rest)"
  by (induction s arbitrary: r) (simp_all add: relay_byte_outcome)

lemma relay_Writes_concat: "relay_Writes ps r = foldl relay_byte r (concat ps)"
  by (induction ps arbitrary: r) (auto simp: relay_Writes_def relay_Write_def)

lemma relay_finish_outcome: "visible (relay_finish r) = outcome r []"
proof -
  let ?r = "redact True r"
  have "visible (relay_finish r) = visible (collects ?r (or_utf8Pending ?r))"
    by (simp add: relay_finish_def decode_pending_all)
  also have "\<dots> = outcome ?r []"
    using redact_final_drained [of r] by (auto simp: outcome_def collects_truncated)
  also have "\<dots> = outcome r []" by (rule redact_outcome) simp
  finally show ?thesis .
qed

section \<open>What the report can hold\<close>

definition safe_byte :: "char \<Rightarrow> bool" where
  "safe_byte c \<longleftrightarrow> c = CHR 0x09 \<or> c = CHR 0x0A \<or> 32 \<le> byte c \<and> byte c \<noteq> 127"

definition wf_display :: "operationalStderrRelay \<Rightarrow> bool" where
  "wf_display r \<longleftrightarrow>
     or_bytes r \<le> maxOperationalStderrBytes \<and> or_lines r \<le> maxOperationalStderrLines \<and>
     length (or_payload r) + (if or_inLine r then 1 else 0) = or_bytes r + or_lines r \<and>
     count_list (or_payload r) (CHR 0x0A) + (if or_inLine r then 1 else 0) = or_lines r \<and>
     (or_inLine r \<or> or_payload r = [] \<or> last (or_payload r) = CHR 0x0A) \<and>
     list_all safe_byte (or_payload r) \<and> \<not> Contains (or_payload r) ''##[''"

lemma encode_rune_high:
  assumes "128 \<le> v" "v < 2097152"
  shows "list_all (\<lambda>c. 128 \<le> byte c) (encode_rune v)"
proof -
  have b: "128 \<le> byte (char_of (n :: nat))" if "128 \<le> n" "n < 256" for n using that by (simp add: byte_char_of)
  have "v div 64 < 64" if "v < 2048" using that by auto
  moreover have "v div 4096 < 16" if "v < 65536" using that by auto
  moreover have "v div 262144 < 8" using assms(2) by auto
  ultimately show ?thesis
    using assms by (auto simp: encode_rune_def intro!: b)
qed

lemma encode_rune_bytes:
  assumes "\<not> hidden_rune v" and "v \<noteq> 10" and "v < 2097152"
  shows "list_all safe_byte (encode_rune v)" and "count_list (encode_rune v) (CHR 0x0A) = 0"
    and "encode_rune v \<noteq> []" and "v \<noteq> 91 \<Longrightarrow> CHR ''['' \<notin> set (encode_rune v)"
    and "last (encode_rune v) \<noteq> CHR 0x0A"
proof -
  have safe: "list_all safe_byte (encode_rune v) \<and> CHR 0x0A \<notin> set (encode_rune v) \<and>
      encode_rune v \<noteq> [] \<and> (CHR ''['' \<in> set (encode_rune v) \<longrightarrow> v = 91)"
  proof (cases "128 \<le> v")
    case True
    from encode_rune_high [OF this assms(3)] have high: "128 \<le> byte c" if "c \<in> set (encode_rune v)" for c
      using that by (simp add: list_all_iff)
    have "byte (CHR 0x0A) < 128" "byte (CHR ''['') < 128" by (simp_all add: byte_def)
    with high have "CHR 0x0A \<notin> set (encode_rune v)" "CHR ''['' \<notin> set (encode_rune v)" by force+
    moreover have "safe_byte c" if "c \<in> set (encode_rune v)" for c
      using high [OF that] by (simp add: safe_byte_def)
    ultimately show ?thesis by (auto simp: list_all_iff) (simp add: encode_rune_def split: if_splits)
  next
    case False
    then have v: "encode_rune v = [char_of v]" "byte (char_of v :: char) = v" by (simp_all add: encode_rune_def byte_char_of)
    have nl: "byte (CHR 0x0A) = 10" and br: "byte (CHR ''['') = 91" and tb: "byte (CHR 0x09) = 9"
      by (simp_all add: byte_def)
    have tab: "char_of (9 :: nat) = CHR 0x09" using char_of_byte [of "CHR 0x09"] unfolding tb .
    from assms(1,2) False have "v = 9 \<or> 32 \<le> v \<and> v \<noteq> 127" by (auto simp: hidden_rune_def)
    with v assms(2) nl br tab show ?thesis by (auto simp: safe_byte_def)
  qed
  then show "list_all safe_byte (encode_rune v)" "count_list (encode_rune v) (CHR 0x0A) = 0" "encode_rune v \<noteq> []"
    "v \<noteq> 91 \<Longrightarrow> CHR ''['' \<notin> set (encode_rune v)" by (auto simp: count_list_0_iff)
  from safe show "last (encode_rune v) \<noteq> CHR 0x0A" by (metis last_in_set)
qed

lemma decode_rune_bound: "fst (decode_rune bs) < 2097152"
proof (cases bs)
  case Nil
  then show ?thesis by (simp add: decode_rune_def)
next
  case (Cons b0 rest)
  have bound: "fst (if P then (x, n, True) else (65533, 1, False)) < 2097152" if "P \<Longrightarrow> x < 2097152"
    for P and x n :: nat using that by simp
  have cont: "b - 128 < 64" if "is_cont b" for b using that by (auto simp: is_cont_def)
  consider (one) "\<not> (194 \<le> b0 \<and> b0 \<le> 244)" | (two) "194 \<le> b0" "b0 \<le> 223"
    | (three) "224 \<le> b0" "b0 \<le> 239" | (four) "240 \<le> b0" "b0 \<le> 244" by linarith
  then show ?thesis
  proof cases
    case one
    then show ?thesis by (simp only: Cons decode_rune_def list.case class_one [OF one] if_False) simp
  next
    case two
    note c = class_two [OF two]
    show ?thesis
    proof (cases rest)
      case r: (Cons b1 rest')
      have "(b0 - 192) * 64 + (b1 - 128) < 2097152" if "is_cont b1" using cont [OF that] two by simp
      then show ?thesis
        by (simp only: Cons r decode_rune_def list.case c if_True if_False) (rule bound)
    qed (simp only: Cons decode_rune_def list.case c if_True if_False, simp)
  next
    case three
    note c = class_three(1-3) [OF three]
    show ?thesis
    proof (cases rest)
      case r: (Cons b1 rest')
      show ?thesis
      proof (cases rest')
        case r': (Cons b2 rest'')
        have "(b0 - 224) * 4096 + (b1 - 128) * 64 + (b2 - 128) < 2097152"
          if "(if b0 = 224 then 160 else 128) \<le> b1 \<and> b1 \<le> (if b0 = 237 then 159 else 191) \<and> is_cont b2"
        proof -
          from that have "b1 - 128 < 64" by (auto split: if_splits)
          with cont [of b2] that three show ?thesis by linarith
        qed
        then show ?thesis
          by (simp only: Cons r r' decode_rune_def list.case c if_True if_False) (rule bound)
      qed (simp only: Cons r decode_rune_def list.case c if_True if_False, simp)
    qed (simp only: Cons decode_rune_def list.case c if_True if_False, simp)
  next
    case four
    note c = class_four(1-4) [OF four]
    show ?thesis
    proof (cases rest)
      case r: (Cons b1 rest')
      show ?thesis
      proof (cases rest')
        case r': (Cons b2 rest'')
        show ?thesis
        proof (cases rest'')
          case r'': (Cons b3 rest3)
          have "(b0 - 240) * 262144 + (b1 - 128) * 4096 + (b2 - 128) * 64 + (b3 - 128) < 2097152"
            if "(if b0 = 240 then 144 else 128) \<le> b1 \<and> b1 \<le> (if b0 = 244 then 143 else 191)
                \<and> is_cont b2 \<and> is_cont b3"
          proof -
            from that have "b1 - 128 < 64" by (auto split: if_splits)
            with cont [of b2] cont [of b3] that four show ?thesis by linarith
          qed
          then show ?thesis
            by (simp only: Cons r r' r'' decode_rune_def list.case c if_True if_False) (rule bound)
        qed (simp only: Cons r r' decode_rune_def list.case c if_True if_False, simp)
      qed (simp only: Cons r decode_rune_def list.case c if_True if_False, simp)
    qed (simp only: Cons decode_rune_def list.case c if_True if_False, simp)
  qed
qed

lemma runes_bound: "\<forall>(v, w) \<in> set (runes s). v < 2097152"
proof (induction s rule: runes.induct)
  case (2 c cs)
  obtain v w ok where d: "decode_rune (map byte (take 4 (c # cs))) = (v, w, ok)"
    by (cases "decode_rune (map byte (take 4 (c # cs)))")
  with decode_rune_bound [of "map byte (take 4 (c # cs))"] have "v < 2097152" by simp
  with 2 [OF d [symmetric] refl] d show ?case by (simp only: runes.simps Let_def prod.case) simp
qed simp

lemma Contains_append_without:
  assumes "\<not> Contains s ''##[''" "CHR ''['' \<notin> set t"
  shows "\<not> Contains (s @ t) ''##[''"
proof
  assume "Contains (s @ t) ''##[''"
  then obtain a b where eq: "s @ t = (a @ ''##['') @ b" by (auto simp: Contains_iff)
  then have "\<exists>us. s = (a @ ''##['') @ us \<and> us @ t = b \<or> s @ us = a @ ''##['' \<and> t = us @ b"
    by (simp only: append_eq_append_conv2)
  then obtain us where "s = (a @ ''##['') @ us \<or> s @ us = a @ ''##['' \<and> t = us @ b" by blast
  then show False
  proof
    assume "s = (a @ ''##['') @ us"
    with assms(1) show False by (auto simp: Contains_iff)
  next
    assume us: "s @ us = a @ ''##['' \<and> t = us @ b"
    show False
    proof (cases us rule: rev_cases)
      case Nil
      with us assms(1) show False by (auto simp: Contains_iff)
    next
      case (snoc us' c)
      from us have "last (s @ us) = CHR ''[''" by simp
      with snoc us assms(2) show False by simp
    qed
  qed
qed

lemma Contains_bracket: "\<not> Contains s ''##['' \<Longrightarrow> \<not> HasSuffix s ''##'' \<Longrightarrow> \<not> Contains (s @ ''['') ''##[''"
proof
  assume no: "\<not> Contains s ''##[''" "\<not> HasSuffix s ''##''" and "Contains (s @ ''['') ''##[''"
  then obtain a b where eq: "s @ ''['' = a @ ''##['' @ b" by (auto simp: Contains_iff)
  show False
  proof (cases b rule: rev_cases)
    case Nil
    with eq have "s = a @ ''##''" by simp
    with no(2) show False by simp
  next
    case (snoc b' c)
    with eq have "s = a @ ''##['' @ b'" by simp
    with no(1) show False by (auto simp: Contains_iff)
  qed
qed

lemma wf_collect:
  assumes wf: "wf_display r" and v: "v < 2097152"
  shows "wf_display (collect v r)"
proof -
  consider (same) "collect v r = r"
    | (line) "v = 10" "or_inLine r" "collect v r = r\<lparr>or_payload := or_payload r @ [CHR 0x0A], or_inLine := False\<rparr>"
    | (cut) "collect v r = r\<lparr>or_truncated := True\<rparr>"
    | (shown) "\<not> hidden_rune v" "v \<noteq> 10" "v = 91 \<longrightarrow> \<not> HasSuffix (or_payload r) ''##''"
        "or_bytes r + length (encode_rune v) \<le> maxOperationalStderrBytes"
        "or_inLine r \<or> or_lines r \<noteq> maxOperationalStderrLines"
        "collect v r = r\<lparr>or_lines := (if or_inLine r then or_lines r else or_lines r + 1), or_inLine := True,
             or_payload := or_payload r @ encode_rune v, or_bytes := or_bytes r + length (encode_rune v)\<rparr>"
  proof (cases "or_truncated r \<or> hidden_rune v \<or> v = 91 \<and> HasSuffix (or_payload r) ''##''")
    case True
    then have "collect v r = r" by (auto simp: collect_def)
    then show ?thesis by (rule that(1))
  next
    case False
    note open_rune = False
    show ?thesis
    proof (cases "v = 10")
      case True
      with open_rune show ?thesis using that(1,2) by (cases "or_inLine r") (auto simp: collect_def)
    next
      case False
      with open_rune that(3,4) show ?thesis
        by (cases "or_bytes r + length (encode_rune v) > maxOperationalStderrBytes
              \<or> \<not> or_inLine r \<and> or_lines r = maxOperationalStderrLines")
           (auto simp: collect_def Let_def)
    qed
  qed
  then show ?thesis
  proof cases
    case line
    have "\<not> Contains (or_payload r @ [CHR 0x0A]) ''##[''"
      using wf by (intro Contains_append_without) (auto simp: wf_display_def)
    with wf line show ?thesis by (simp add: wf_display_def safe_byte_def)
  next
    case shown
    note b = encode_rune_bytes [OF shown(1,2) v]
    have "\<not> Contains (or_payload r @ encode_rune v) ''##[''"
    proof (cases "v = 91")
      case True
      have "byte (CHR ''['') = 91" by (simp add: byte_def)
      then have "char_of (91 :: nat) = CHR ''[''" using char_of_byte [of "CHR ''[''"] by (simp only:)
      with True have "encode_rune v = ''[''" by (simp add: encode_rune_def)
      with True shown(3) wf Contains_bracket show ?thesis by (simp add: wf_display_def)
    next
      case False
      from wf have "\<not> Contains (or_payload r) ''##[''" by (simp add: wf_display_def)
      from Contains_append_without [OF this b(4) [OF False]] show ?thesis .
    qed
    with wf shown(4-6) b show ?thesis by (auto simp: wf_display_def)
  qed (use wf in \<open>simp_all add: wf_display_def\<close>)
qed

lemma wf_collects: "wf_display r \<Longrightarrow> wf_display (collects r s)"
proof -
  have "wf_display (foldl (\<lambda>r (value, _). collect value r) r vs)"
    if "wf_display r" "\<forall>(v, w) \<in> set vs. v < 2097152" for vs
    using that by (induction vs arbitrary: r) (auto intro: wf_collect)
  from this [OF _ runes_bound] show "wf_display r \<Longrightarrow> wf_display (collects r s)" unfolding collects_def .
qed

lemma wf_display_visible: "visible r = visible r' \<Longrightarrow> wf_display r = wf_display r'"
  by (simp add: visible_def wf_display_def)

lemma split_on_count: "length (split_on sep s) = Suc (count_list s sep)"
  by (induction s) (auto split: list.splits)

lemma split_on_end: "last (split_on sep (s @ [sep])) = []"
  using split_on_last [of sep "[]" s] by simp

lemma nonempty_lines:
  assumes "wf_display r"
  shows "length (filter (\<lambda>line. line \<noteq> []) (split_on (CHR 0x0A) (or_payload r))) \<le> or_lines r"
proof (cases "or_inLine r")
  case True
  with assms show ?thesis
    using length_filter_le [of "\<lambda>line. line \<noteq> []" "split_on (CHR 0x0A) (or_payload r)"]
    by (simp add: split_on_count wf_display_def)
next
  case False
  let ?ls = "split_on (CHR 0x0A) (or_payload r)"
  have "last ?ls = []"
  proof (cases "or_payload r" rule: rev_cases)
    case (snoc s c)
    with False assms have "c = CHR 0x0A" by (simp add: wf_display_def)
    with snoc show ?thesis by (simp add: split_on_end)
  qed simp
  then have "?ls = butlast ?ls @ [[]]"
    using append_butlast_last_id [OF split_on_nonempty, of "CHR 0x0A" "or_payload r"] by simp
  from arg_cong [OF this, of "filter (\<lambda>line. line \<noteq> [])"]
  have "filter (\<lambda>line. line \<noteq> []) ?ls = filter (\<lambda>line. line \<noteq> []) (butlast ?ls)"
    by (simp only: filter_append filter.simps append_Nil2) simp
  also have "length \<dots> \<le> length ?ls - 1"
    using length_filter_le [of "\<lambda>line. line \<noteq> []" "butlast ?ls"] by simp
  finally show ?thesis using False assms by (simp add: split_on_count wf_display_def)
qed

section \<open>Properties\<close>

text \<open>C30: The relay is exact however a child's output is cut into writes: what it reports is the whole output with,
  at every place from the left, the longest secret that starts there replaced by the marker, decoded
  as UTF-8 once and collected rune by rune; and every write reports all its bytes as consumed.\<close>

theorem relay_stream_exact:
  "visible (relay_finish (relay_Writes ps (newOperationalStderrRelay vals))) =
     visible (collects (newOperationalStderrRelay vals)
       (replace_secrets (or_secrets (newOperationalStderrRelay vals)) (concat ps))) \<and>
   fst (relay_Write p (relay_Writes ps (newOperationalStderrRelay vals))) = length p"
proof -
  have "or_utf8Pending (newOperationalStderrRelay vals) = []" "or_pending (newOperationalStderrRelay vals) = []"
    by (simp_all add: newOperationalStderrRelay_def)
  then show ?thesis
    using relay_bytes_outcome [of "newOperationalStderrRelay vals" "concat ps" "[]"]
    by (simp add: relay_finish_outcome relay_Writes_concat relay_Write_def) (simp add: outcome_def)
qed

text \<open>Whatever a child prints, its report is at most 512 lines and one that says it was cut, of at most
  65,536 bytes in all; no byte of it is a control character but tab and the line ends, and it holds no
  text that a GitHub runner would read as a workflow command.\<close>

theorem relay_bounded:
  "(case relay_finish (relay_Writes ps (newOperationalStderrRelay vals)) of
      r \<Rightarrow> or_bytes r \<le> 65536 \<and> length (or_payload r) \<le> 65536 + 512 \<and> list_all safe_byte (or_payload r) \<and>
           \<not> Contains (or_payload r) ''##['') \<and>
   length (emit operation (relay_Writes ps (newOperationalStderrRelay vals))) \<le> 512 + 1"
proof -
  let ?r = "relay_finish (relay_Writes ps (newOperationalStderrRelay vals))"
  have "wf_display (newOperationalStderrRelay vals)"
    by (simp add: wf_display_def newOperationalStderrRelay_def)
  then have wf: "wf_display ?r"
    using wf_display_visible [OF conjunct1 [OF relay_stream_exact]] wf_collects by blast
  with nonempty_lines [OF wf] show ?thesis
    by (auto simp: wf_display_def emit_def Let_def maxOperationalStderrBytes_def maxOperationalStderrLines_def
        split: if_splits)
qed

text \<open>Redaction comes before the control characters are dropped, so a secret in whose middle the child prints
  one is not recognised, and its text is whole again in the report.\<close>

theorem split_secret_survives:
  "emit ''npm'' (relay_Writes [''to'', [CHR 0x00], ''ken''] (newOperationalStderrRelay [''token''])) =
     [''windlass operational: operation=npm stderr: token'' @ [CHR 0x0A]]"
  by code_simp

end
