(* ===== verification/GoTime.thy ===== *)
theory GoTime
  imports Decode
begin

text \<open>
  time.Parse of Go's standard library for the two layouts the code uses without a regular expression in front:
  2006-01-02T15:04:05Z and RFC 3339.  An instant is the number of nanoseconds since 1970.  The parser is
  more liberal than the layouts: an hour may have one digit, and a fraction may follow the seconds.
\<close>

definition fixed_digits :: "nat \<Rightarrow> string \<Rightarrow> (nat \<times> string) option" where
  "fixed_digits n s =
     (if length s \<ge> n \<and> list_all is_digit (take n s) then Some (dec_val (take n s), drop n s) else None)"

definition skip_char :: "char \<Rightarrow> string \<Rightarrow> string option" where
  "skip_char c s = (case s of [] \<Rightarrow> None | x # rest \<Rightarrow> if x = c then Some rest else None)"

text \<open>getnum without the fixed flag: one digit or two.\<close>

definition hour_digits :: "string \<Rightarrow> (nat \<times> string) option" where
  "hour_digits s = (case fixed_digits 2 s of None \<Rightarrow> fixed_digits 1 s | Some r \<Rightarrow> Some r)"

text \<open>A point or comma and digits, of which nine count.\<close>

definition fraction :: "string \<Rightarrow> nat \<times> string" where
  "fraction s =
     (case s of
        c # d # _ \<Rightarrow>
          if (c = CHR ''.'' \<or> c = CHR '','') \<and> is_digit d then
            (let digits = take 9 (takeWhile is_digit (tl s))
             in (dec_val digits * 10 ^ (9 - length digits), dropWhile is_digit (tl s)))
          else (0, s)
      | _ \<Rightarrow> (0, s))"

definition instant :: "nat \<Rightarrow> nat \<Rightarrow> nat \<Rightarrow> nat \<Rightarrow> nat \<Rightarrow> nat \<Rightarrow> nat \<Rightarrow> int" where
  "instant y mo d h mi s ns =
     ((civil_days y mo d - civil_days 1970 1 1) * 86400 + int (3600 * h + 60 * mi + s)) * 10 ^ 9 + int ns"

text \<open>Date and time as if in UTC, and what follows them.\<close>

definition civil_time :: "string \<Rightarrow> (int \<times> string) option" where
  "civil_time s0 = Option.bind (fixed_digits 4 s0) (\<lambda>(y, s1).
     Option.bind (skip_char (CHR ''-'') s1) (\<lambda>s2.
     Option.bind (fixed_digits 2 s2) (\<lambda>(mo, s3).
     Option.bind (skip_char (CHR ''-'') s3) (\<lambda>s4.
     Option.bind (fixed_digits 2 s4) (\<lambda>(d, s5).
     Option.bind (skip_char (CHR ''T'') s5) (\<lambda>s6.
     Option.bind (hour_digits s6) (\<lambda>(h, s7).
     Option.bind (skip_char (CHR '':'') s7) (\<lambda>s8.
     Option.bind (fixed_digits 2 s8) (\<lambda>(mi, s9).
     Option.bind (skip_char (CHR '':'') s9) (\<lambda>s10.
     Option.bind (fixed_digits 2 s10) (\<lambda>(se, s11).
       (let (ns, s12) = fraction s11 in
        if date_valid y mo d \<and> h < 24 \<and> mi < 60 \<and> se < 60 then Some (instant y mo d h mi se ns, s12)
        else None))))))))))))"

definition parse_zulu :: "string \<Rightarrow> int option" where
  "parse_zulu s = (case civil_time s of Some (t, rest) \<Rightarrow> if rest = ''Z'' then Some t else None | None \<Rightarrow> None)"

definition zone_offset :: "string \<Rightarrow> int option" where
  "zone_offset s =
     (if s = ''Z'' then Some 0
      else if length s \<noteq> 6 \<or> s ! 3 \<noteq> CHR '':'' then None
      else
        (case (fixed_digits 2 (take 2 (tl s)), fixed_digits 2 (drop 4 s)) of
           (Some (h, _), Some (m, _)) \<Rightarrow>
             if h > 24 \<or> m > 60 then None
             else if hd s = CHR ''+'' then Some (int (60 * (60 * h + m)))
             else if hd s = CHR ''-'' then Some (- int (60 * (60 * h + m)))
             else None
         | _ \<Rightarrow> None))"

definition parse_rfc3339 :: "string \<Rightarrow> int option" where
  "parse_rfc3339 s =
     (case civil_time s of
        None \<Rightarrow> None
      | Some (t, rest) \<Rightarrow> map_option (\<lambda>offset. t - offset * 10 ^ 9) (zone_offset rest))"

section \<open>The strict layout\<close>

text \<open>On text of the exact shape the parser agrees with \<^const>\<open>parse_utc\<close>, whose days start elsewhere.\<close>

definition civil_epoch :: int where
  "civil_epoch = 86400 * civil_days 1970 1 1"

lemma utc_shape_text:
  assumes "utc_shape s"
  obtains a b c d e f g h i j k l m n where
    "s = [a, b, c, d, CHR ''-'', e, f, CHR ''-'', g, h, CHR ''T'', i, j, CHR '':'', k, l, CHR '':'', m, n, CHR ''Z'']"
    "list_all is_digit [a, b, c, d, e, f, g, h, i, j, k, l, m, n]"
  using assms unfolding utc_shape_def list_all2_Cons1
  by (auto split: if_splits)

lemma parse_zulu_utc:
  assumes "utc_shape s"
  shows "parse_zulu s = map_option (\<lambda>t. (t - civil_epoch) * 10 ^ 9) (parse_utc s)"
proof -
  from assms obtain a b c d e f g h i j k l m n where
    s: "s = [a, b, c, d, CHR ''-'', e, f, CHR ''-'', g, h, CHR ''T'', i, j, CHR '':'', k, l, CHR '':'', m, n, CHR ''Z'']"
    and digits: "list_all is_digit [a, b, c, d, e, f, g, h, i, j, k, l, m, n]"
    by (rule utc_shape_text)
  have "civil_time s =
      (if date_valid (dec_val [a, b, c, d]) (dec_val [e, f]) (dec_val [g, h]) \<and> dec_val [i, j] < 24
          \<and> dec_val [k, l] < 60 \<and> dec_val [m, n] < 60
       then Some (instant (dec_val [a, b, c, d]) (dec_val [e, f]) (dec_val [g, h]) (dec_val [i, j]) (dec_val [k, l])
         (dec_val [m, n]) 0, ''Z'') else None)"
    using digits unfolding s
    by (simp add: civil_time_def fixed_digits_def skip_char_def hour_digits_def fraction_def Let_def)
  moreover have "parse_utc s =
      (if date_valid (dec_val [a, b, c, d]) (dec_val [e, f]) (dec_val [g, h]) \<and> dec_val [i, j] < 24
          \<and> dec_val [k, l] < 60 \<and> dec_val [m, n] < 60
       then Some (86400 * civil_days (dec_val [a, b, c, d]) (dec_val [e, f]) (dec_val [g, h])
         + int (3600 * dec_val [i, j] + 60 * dec_val [k, l] + dec_val [m, n])) else None)"
    using assms unfolding parse_utc_def s part_def Let_def
    by (auto simp: numeral_eq_Suc not_less)
  ultimately show ?thesis
    by (simp add: parse_zulu_def instant_def civil_epoch_def algebra_simps)
qed

end
