(* ===== verification/StatementJson.thy ===== *)
theory StatementJson
  imports Provenance Workspace
begin

text \<open>
  Decoding a Statement (internal/provenance/model.go, DecodeStatement and ResourceDescriptor.UnmarshalJSON).
  A json.RawMessage keeps the bytes of its value, so the document is split into the texts of its members
  first: the decoder of the document knows where each value starts and ends.
\<close>

section \<open>The text of a value\<close>

text \<open>Where a value starts in what the decoder has not read yet: after the colon or comma before it.\<close>

definition value_start :: "string \<Rightarrow> string" where
  "value_start rest =
     (case skip_space rest of
        c # cs \<Rightarrow> if c = CHR '':'' \<or> c = CHR '','' then skip_space cs else c # cs
      | [] \<Rightarrow> [])"

definition raw_between :: "decoder \<Rightarrow> decoder \<Rightarrow> string" where
  "raw_between d d' = (let start = value_start (d_rest d) in take (length start - length (d_rest d')) start)"

definition next_value :: "decoder \<Rightarrow> (string \<times> decoder) option" where
  "next_value d =
     map_option (\<lambda>(_, d'). (raw_between d d', d')) (lenientValue (Suc (2 * length (d_rest d))) d 0)"

text \<open>The first argument bounds the members; each takes a byte at least.\<close>

fun raw_members_from :: "nat \<Rightarrow> decoder \<Rightarrow> (string \<times> string) list option" where
  "raw_members_from 0 d = None"
| "raw_members_from (Suc f) d =
     (if More d then
        (case Token d of
           Got (TString member, d1) \<Rightarrow>
             (case next_value d1 of
                None \<Rightarrow> None
              | Some (raw, d2) \<Rightarrow> map_option ((#) (member, raw)) (raw_members_from f d2))
         | _ \<Rightarrow> None)
      else Some [])"

fun raw_items_from :: "nat \<Rightarrow> decoder \<Rightarrow> string list option" where
  "raw_items_from 0 d = None"
| "raw_items_from (Suc f) d =
     (if More d then
        (case next_value d of
           None \<Rightarrow> None
         | Some (raw, d2) \<Rightarrow> map_option ((#) raw) (raw_items_from f d2))
      else Some [])"

text \<open>The members of an object, the items of an array; a null has none of either.\<close>

definition raw_members :: "string \<Rightarrow> (string \<times> string) list option" where
  "raw_members raw =
     (case Token (NewDecoder raw) of
        Got (TDelim c, d) \<Rightarrow> if c = CHR ''{'' then raw_members_from (Suc (length raw)) d else None
      | Got (TNull, _) \<Rightarrow> Some []
      | _ \<Rightarrow> None)"

definition raw_items :: "string \<Rightarrow> string list option" where
  "raw_items raw =
     (case Token (NewDecoder raw) of
        Got (TDelim c, d) \<Rightarrow> if c = CHR ''['' then raw_items_from (Suc (length raw)) d else None
      | Got (TNull, _) \<Rightarrow> Some []
      | _ \<Rightarrow> None)"

section \<open>Structs of raw members\<close>

type_synonym 'r raw_field = "string \<times> ('r \<Rightarrow> string \<Rightarrow> 'r option)"

definition find_raw_field :: "'r raw_field list \<Rightarrow> string \<Rightarrow> ('r \<Rightarrow> string \<Rightarrow> 'r option) option" where
  "find_raw_field fs member =
     (case map_of fs member of
        Some store \<Rightarrow> Some store
      | None \<Rightarrow> map_option snd (find (\<lambda>(name, _). foldName name = foldName member) fs))"

fun store_members :: "'r raw_field list \<Rightarrow> 'r \<Rightarrow> (string \<times> string) list \<Rightarrow> 'r option" where
  "store_members fs r [] = Some r"
| "store_members fs r ((member, raw) # members) =
     (case find_raw_field fs member of
        None \<Rightarrow> store_members fs r members
      | Some store \<Rightarrow> (case store r raw of None \<Rightarrow> None | Some r' \<Rightarrow> store_members fs r' members))"

definition raw_struct :: "'r raw_field list \<Rightarrow> 'r \<Rightarrow> string \<Rightarrow> 'r option" where
  "raw_struct fs r raw = Option.bind (raw_members raw) (store_members fs r)"

text \<open>Fields: a parsed value, the text itself, a struct, a slice.  A slice decoded again keeps its elements as
  the starting points of the new ones.\<close>

definition from_parsed :: "('r \<Rightarrow> jval \<Rightarrow> 'r option) \<Rightarrow> 'r \<Rightarrow> string \<Rightarrow> 'r option" where
  "from_parsed store r raw = Option.bind (lenientDocument raw) (store r)"

definition raw_text :: "(string \<Rightarrow> 'r \<Rightarrow> 'r) \<Rightarrow> 'r \<Rightarrow> string \<Rightarrow> 'r option" where
  "raw_text put r raw = Some (put raw r)"

definition raw_part :: "('r \<Rightarrow> 's) \<Rightarrow> ('s \<Rightarrow> 'r \<Rightarrow> 'r) \<Rightarrow> ('s \<Rightarrow> string \<Rightarrow> 's option) \<Rightarrow> 'r \<Rightarrow> string \<Rightarrow> 'r option" where
  "raw_part get put decode r raw = map_option (\<lambda>s. put s r) (decode (get r) raw)"

definition raw_slice :: "'s \<Rightarrow> ('s \<Rightarrow> string \<Rightarrow> 's option) \<Rightarrow> 's list \<Rightarrow> string \<Rightarrow> 's list option" where
  "raw_slice zero decode old raw =
     Option.bind (raw_items raw) (\<lambda>items.
       all_some (map (\<lambda>(i, item). decode (if i < length old then old ! i else zero) item) (enumerate 0 items)))"

definition raw_map :: "('r \<Rightarrow> (string \<times> string) list) \<Rightarrow> ((string \<times> string) list \<Rightarrow> 'r \<Rightarrow> 'r)
    \<Rightarrow> 'r \<Rightarrow> string \<Rightarrow> 'r option" where
  "raw_map get put r raw =
     map_option (\<lambda>members. put (if lenientDocument raw = Some JNull then [] else members @ other_keys members (get r)) r)
       (raw_members raw)"

definition text_field :: "(string \<Rightarrow> 'r \<Rightarrow> 'r) \<Rightarrow> 'r \<Rightarrow> string \<Rightarrow> 'r option" where
  "text_field put = from_parsed (store_string put)"

definition map_field :: "('r \<Rightarrow> (string \<times> string) list) \<Rightarrow> ((string \<times> string) list \<Rightarrow> 'r \<Rightarrow> 'r)
    \<Rightarrow> 'r \<Rightarrow> string \<Rightarrow> 'r option" where
  "map_field get put = from_parsed (store_string_map get put)"

section \<open>Statements\<close>

definition subject_decode :: "Subject \<Rightarrow> string \<Rightarrow> Subject option" where
  "subject_decode = raw_struct
     [(''name'', text_field (\<lambda>x. sj_Name_update (\<lambda>_. x))),
      (''digest'', map_field sj_Digest (\<lambda>x. sj_Digest_update (\<lambda>_. x)))]"

definition zero_descriptor :: ResourceDescriptor where
  "zero_descriptor = \<lparr>rd_Name = [], rd_URI = [], rd_Digest = [], rd_Annotations = [], rd_hasUnexpectedFields = False\<rparr>"

definition descriptor_raw_fields :: "ResourceDescriptor raw_field list" where
  "descriptor_raw_fields =
     [(''name'', text_field (\<lambda>x. rd_Name_update (\<lambda>_. x))),
      (''uri'', text_field (\<lambda>x. rd_URI_update (\<lambda>_. x))),
      (''digest'', map_field rd_Digest (\<lambda>x. rd_Digest_update (\<lambda>_. x))),
      (''annotations'', raw_map rd_Annotations (\<lambda>x. rd_Annotations_update (\<lambda>_. x)))]"

definition ResourceDescriptor_UnmarshalJSON :: "string \<Rightarrow> ResourceDescriptor option" where
  "ResourceDescriptor_UnmarshalJSON encoded =
     Option.bind (raw_struct descriptor_raw_fields zero_descriptor encoded) (\<lambda>decoded.
     Option.bind (raw_members encoded) (\<lambda>members.
       Some (decoded\<lparr>rd_hasUnexpectedFields :=
         list_ex (\<lambda>(name, _). name \<notin> {''name'', ''uri'', ''digest'', ''annotations''}) members\<rparr>)))"

definition build_definition_decode :: "BuildDefinition \<Rightarrow> string \<Rightarrow> BuildDefinition option" where
  "build_definition_decode = raw_struct
     [(''buildType'', text_field (\<lambda>x. bd_BuildType_update (\<lambda>_. x))),
      (''externalParameters'', raw_text (\<lambda>x. bd_ExternalParameters_update (\<lambda>_. x))),
      (''internalParameters'', raw_text (\<lambda>x. bd_InternalParameters_update (\<lambda>_. x))),
      (''resolvedDependencies'', raw_part bd_ResolvedDependencies (\<lambda>x. bd_ResolvedDependencies_update (\<lambda>_. x))
        (raw_slice zero_descriptor (\<lambda>_. ResourceDescriptor_UnmarshalJSON)))]"

definition builder_dependency_decode :: "BuilderDependency \<Rightarrow> string \<Rightarrow> BuilderDependency option" where
  "builder_dependency_decode = raw_struct
     [(''uri'', text_field (\<lambda>x. dep_URI_update (\<lambda>_. x))),
      (''digest'', map_field dep_Digest (\<lambda>x. dep_Digest_update (\<lambda>_. x))),
      (''annotations'', map_field dep_Annotations (\<lambda>x. dep_Annotations_update (\<lambda>_. x)))]"

definition builder_decode :: "Builder \<Rightarrow> string \<Rightarrow> Builder option" where
  "builder_decode = raw_struct
     [(''id'', text_field (\<lambda>x. b_ID_update (\<lambda>_. x))),
      (''version'', map_field b_Version (\<lambda>x. b_Version_update (\<lambda>_. x))),
      (''builderDependencies'', raw_part b_Dependencies (\<lambda>x. b_Dependencies_update (\<lambda>_. x))
        (raw_slice \<lparr>dep_URI = [], dep_Digest = [], dep_Annotations = []\<rparr> builder_dependency_decode))]"

definition metadata_decode :: "Metadata \<Rightarrow> string \<Rightarrow> Metadata option" where
  "metadata_decode = raw_struct
     [(''invocationId'', text_field (\<lambda>x. m_InvocationID_update (\<lambda>_. x))),
      (''startedOn'', text_field (\<lambda>x. m_StartedOn_update (\<lambda>_. x))),
      (''finishedOn'', text_field (\<lambda>x. m_FinishedOn_update (\<lambda>_. x)))]"

definition run_details_decode :: "Statement \<Rightarrow> string \<Rightarrow> Statement option" where
  "run_details_decode = raw_struct
     [(''builder'', raw_part st_Builder (\<lambda>x. st_Builder_update (\<lambda>_. x)) builder_decode),
      (''metadata'', raw_part st_Metadata (\<lambda>x. st_Metadata_update (\<lambda>_. x)) metadata_decode)]"

definition predicate_decode :: "Statement \<Rightarrow> string \<Rightarrow> Statement option" where
  "predicate_decode = raw_struct
     [(''buildDefinition'', raw_part st_BuildDefinition (\<lambda>x. st_BuildDefinition_update (\<lambda>_. x)) build_definition_decode),
      (''runDetails'', run_details_decode)]"

definition statement_decode :: "Statement \<Rightarrow> string \<Rightarrow> Statement option" where
  "statement_decode = raw_struct
     [(''_type'', text_field (\<lambda>x. st_Type_update (\<lambda>_. x))),
      (''subject'', raw_part st_Subject (\<lambda>x. st_Subject_update (\<lambda>_. x))
        (raw_slice \<lparr>sj_Name = [], sj_Digest = []\<rparr> subject_decode)),
      (''predicateType'', text_field (\<lambda>x. st_PredicateType_update (\<lambda>_. x))),
      (''predicate'', predicate_decode)]"

definition zero_statement :: Statement where
  "zero_statement =
     \<lparr>st_Type = [], st_Subject = [], st_PredicateType = [],
      st_BuildDefinition = \<lparr>bd_BuildType = [], bd_ExternalParameters = [], bd_InternalParameters = [],
        bd_ResolvedDependencies = []\<rparr>,
      st_Builder = \<lparr>b_ID = [], b_Version = [], b_Dependencies = []\<rparr>,
      st_Metadata = \<lparr>m_InvocationID = [], m_StartedOn = [], m_FinishedOn = []\<rparr>\<rparr>"

definition DecodeStatement :: "string \<Rightarrow> Statement result" where
  "DecodeStatement data =
     guarded (Validate data)
       (case statement_decode zero_statement data of
          None \<Rightarrow> Inl (ErrWrap ''decode SLSA Statement: %w'' [] [ErrText ''json'' []])
        | Some statement \<Rightarrow> Inr statement)"

end
