(* ===== verification/Attestation.thy ===== *)
theory Attestation
  imports GoTime StatementJson Policy Signing
begin

text \<open>
  internal/attestation: a preserved Sigstore bundle is parsed strictly, verified against governed trust
  material, its certificate compared with the expected workflow identity and its Statement with the expected
  one.  sigstore-go is the record \<open>sigstore\<close>: what each of its functions answers.  Bundles and
  trusted material are values of type variables.  Instants are nanoseconds since 1970.
\<close>

section \<open>Vocabulary\<close>

definition verify_id :: "string \<Rightarrow> string" where
  "verify_id category = ''windlass.verify.error.'' @ category"

definition ModeOnline :: string where "ModeOnline = ''online''"
definition ModeOffline :: string where "ModeOffline = ''offline''"

record IdentityExpectation =
  ie_Issuer :: string
  ie_SignerURI :: string
  ie_WorkflowSHA :: string
  ie_SourceRepositoryURI :: string
  ie_SourceRepositoryID :: string
  ie_SourceRepositoryOwnerID :: string
  ie_SourceDigest :: string
  ie_SourceRef :: string
  ie_RunnerEnvironment :: string
  ie_RunInvocationURI :: string

record Request =
  rq_Mode :: string
  rq_Bundle :: string
  rq_TrustRoot :: TrustRoot
  rq_PinnedRoot :: string
  rq_Identity :: IdentityExpectation
  rq_ExpectedStatement :: "Statement option"
  rq_ExpectedStatementJSON :: string

text \<open>The parts of an X.509 certificate the code reads; an extension is its OID and its DER value.\<close>

record certificate =
  ct_NotBefore :: int
  ct_NotAfter :: int
  ct_URIs :: "string list"
  ct_Extensions :: "(nat list \<times> string) list"

record 'b ParsedBundle =
  pb_raw :: string
  pb_statement :: string
  pb_sigstore :: 'b

record VerificationResult =
  vr_bundle :: string
  vr_statement :: string
  vr_Certificate :: certificate
  vr_SigningTime :: int

text \<open>sigstore-go: reading a bundle, its DSSE payload and payload type, the number of log entries, the
  verification (its error message, or the verified timestamps), the certificate, and the trusted roots.\<close>

record ('b, 'm) sigstore =
  sg_UnmarshalJSON :: "string \<Rightarrow> 'b option"
  sg_Envelope :: "'b \<Rightarrow> (string option \<times> string) option"
  sg_TlogEntries :: "'b \<Rightarrow> nat option"
  sg_NewIdentity :: "string \<Rightarrow> string \<Rightarrow> bool"
  sg_NewVerifier :: "'m \<Rightarrow> bool"
  sg_Verify :: "'m \<Rightarrow> 'b \<Rightarrow> string \<Rightarrow> string \<Rightarrow> string + (string \<times> int) list"
  sg_Certificate :: "'b \<Rightarrow> certificate option"
  sg_FetchTrustedRoot :: "'m option"
  sg_NewTrustedRootFromJSON :: "string \<Rightarrow> 'm option"

section \<open>Errors\<close>

text \<open>diagnosticID: the ID of the first error in the chain that has one.\<close>

fun diagnosticID :: "go_error \<Rightarrow> string"
and diagnosticID_list :: "go_error list \<Rightarrow> string" where
  "diagnosticID (ErrText _ _) = []"
| "diagnosticID (ErrDuplicateMember _ _) = verify_id ''duplicate-json-member''"
| "diagnosticID (ErrWrap _ _ causes) = diagnosticID_list causes"
| "diagnosticID (ErrDiag _ ident _ _ _ _) = ident"
| "diagnosticID_list [] = []"
| "diagnosticID_list (e # es) = (if diagnosticID e \<noteq> [] then diagnosticID e else diagnosticID_list es)"

definition newError :: "string \<Rightarrow> string \<Rightarrow> string \<Rightarrow> go_error list \<Rightarrow> go_error" where
  "newError category check message causes =
     (case New Inr (verify_id category) check message of
        Inl err \<Rightarrow> ErrWrap ''construct attestation diagnostic %q: %w'' [verify_id category] [err]
      | Inr entry \<Rightarrow> ErrDiag KAttestation (dg_ID entry) check (dg_Message entry) [] causes)"

definition parseError :: "string \<Rightarrow> go_error \<Rightarrow> go_error" where
  "parseError check err =
     (if diagnosticID err = verify_id ''duplicate-json-member'' then
        newError ''duplicate-json-member'' check ''JSON contains a duplicate object member'' [err]
      else newError ''signature-invalid'' check ''security-relevant JSON is malformed'' [err])"

section \<open>Bundles\<close>

definition IntotoMediaType :: string where "IntotoMediaType = ''application/vnd.in-toto+json''"

definition ParseBundle :: "('b, 'm) sigstore \<Rightarrow> string \<Rightarrow> 'b ParsedBundle result" where
  "ParseBundle sg raw =
     (if raw = [] then Inl (newError ''input-unavailable'' ''bundle'' ''bundle bytes are required'' [])
      else
     (case Validate raw of
        Some err \<Rightarrow> Inl (parseError ''bundle'' err)
      | None \<Rightarrow>
     (case sg_UnmarshalJSON sg raw of
        None \<Rightarrow> Inl (newError ''signature-invalid'' ''bundle'' ''Sigstore bundle is malformed'' [])
      | Some parsed \<Rightarrow>
     (case sg_Envelope sg parsed of
        None \<Rightarrow> Inl (newError ''signature-invalid'' ''bundle.dsseEnvelope''
          ''bundle does not contain a valid DSSE envelope'' [])
      | Some (payload, payloadType) \<Rightarrow>
     (case payload of
        None \<Rightarrow> Inl (newError ''signature-invalid'' ''bundle.dsseEnvelope.payload'' ''DSSE payload is not valid base64'' [])
      | Some statement \<Rightarrow>
     (case Validate statement of
        Some err \<Rightarrow> Inl (parseError ''bundle.dsseEnvelope.payload'' err)
      | None \<Rightarrow>
          if payloadType \<noteq> IntotoMediaType then
            Inl (newError ''signature-invalid'' ''bundle.dsseEnvelope.payloadType''
              ''DSSE payload type must be application/vnd.in-toto+json'' [])
          else Inr \<lparr>pb_raw = raw, pb_statement = statement, pb_sigstore = parsed\<rparr>))))))"

definition CompareStatement :: "(string \<Rightarrow> string result) \<Rightarrow> string \<Rightarrow> Statement \<Rightarrow> go_error option" where
  "CompareStatement transform actual expected =
     (case DecodeStatement actual of
        Inl err \<Rightarrow>
          if diagnosticID err = verify_id ''duplicate-json-member'' then
            Some (parseError ''bundle.dsseEnvelope.payload'' err)
          else Some (newError ''statement-assembly-mismatch'' ''statement''
            ''signed Statement does not satisfy the closed provenance model'' [err])
      | Inr _ \<Rightarrow>
     (case Statement_CanonicalJSON transform expected of
        Inl err \<Rightarrow> Some (newError ''verifier-execution-failure'' ''expected_statement''
          ''expected Statement cannot be serialized'' [err])
      | Inr expectedJSON \<Rightarrow>
     (case Equal actual expectedJSON of
        Inl err \<Rightarrow> Some (parseError ''statement'' err)
      | Inr equal \<Rightarrow>
          if \<not> equal then Some (newError ''statement-assembly-mismatch'' ''statement''
            ''emitted Statement differs from validated signing inputs'' [])
          else None)))"

section \<open>The trusted root\<close>

definition validateOnlineRoot :: "TrustRoot \<Rightarrow> go_error option" where
  "validateOnlineRoot trustRoot =
     (if tr_Mode trustRoot \<noteq> ''tuf'' \<or> tr_Instance trustRoot \<noteq> sigstorePublicGoodInstance \<or> tr_Path trustRoot \<noteq> None
         \<or> tr_SHA256 trustRoot \<noteq> None \<or> tr_TUFRepository trustRoot \<noteq> None
         \<or> tr_RevalidatedAt trustRoot \<noteq> None \<or> tr_RefreshBefore trustRoot \<noteq> None
      then Some (newError ''verification-mode-invalid'' ''trust_root''
        ''online mode requires only the Sigstore public-good TUF root'' [])
      else None)"

definition go_zero_time :: int where "go_zero_time = - 62135596800 * 10 ^ 9"

definition sha256Hex :: "string \<Rightarrow> string" where
  "sha256Hex data = SHA256_String (SumSHA256 data)"

definition acquirePinnedRoot :: "('b, 'm) sigstore \<Rightarrow> Request \<Rightarrow> int \<Rightarrow> 'm result" where
  "acquirePinnedRoot sg request verificationTime =
     (let metadata = rq_TrustRoot request;
          mode_invalid = (\<lambda>check message. Inl (newError ''verification-mode-invalid'' check message []))
      in case (tr_Path metadata, tr_SHA256 metadata, tr_TUFRepository metadata, tr_RevalidatedAt metadata,
               tr_RefreshBefore metadata) of
        (Some path, Some sha, Some repository, Some revalidated, Some refresh) \<Rightarrow>
          if tr_Mode metadata \<noteq> ''pinned'' \<or> tr_Instance metadata \<noteq> sigstorePublicGoodInstance \<or> path = [] then
            mode_invalid ''trust_root'' ''offline mode requires the complete pinned-root shape''
          else if rq_PinnedRoot request = [] then
            Inl (newError ''input-unavailable'' ''trust_root'' ''pinned trusted-root bytes are required'' [])
          else if repository \<noteq> sigstoreTUFRepository \<or> sha256Hex (rq_PinnedRoot request) \<noteq> sha then
            Inl (newError ''ungoverned-trust-root'' ''trust_root''
              ''pinned root digest or TUF repository identity is not governed'' [])
          else
            (case Validate (rq_PinnedRoot request) of
               Some err \<Rightarrow>
                 if diagnosticID err = verify_id ''duplicate-json-member'' then Inl (parseError ''trust_root'' err)
                 else Inl (newError ''ungoverned-trust-root'' ''trust_root'' ''pinned trusted-root JSON is malformed'' [err])
             | None \<Rightarrow>
            (case parse_zulu revalidated of
               None \<Rightarrow> mode_invalid ''trust_root.revalidated_at'' ''pinned-root timestamp is malformed''
             | Some revalidatedAt \<Rightarrow>
            (case parse_zulu refresh of
               None \<Rightarrow> mode_invalid ''trust_root.refresh_before'' ''pinned-root freshness inputs are malformed''
             | Some refreshBefore \<Rightarrow>
                 if \<not> refreshBefore > revalidatedAt \<or> verificationTime = go_zero_time then
                   mode_invalid ''trust_root.refresh_before'' ''pinned-root freshness inputs are malformed''
                 else if verificationTime > refreshBefore then
                   Inl (newError ''stale-pinned-trust-root'' ''trust_root.refresh_before''
                     ''pinned trusted root is stale at verification time'' [])
                 else
                   (case sg_NewTrustedRootFromJSON sg (rq_PinnedRoot request) of
                      None \<Rightarrow> Inl (newError ''ungoverned-trust-root'' ''trust_root'' ''pinned trusted root cannot be loaded'' [])
                    | Some material \<Rightarrow> Inr material))))
      | _ \<Rightarrow> mode_invalid ''trust_root'' ''offline mode requires the complete pinned-root shape'')"

definition acquireTrustedMaterial :: "('b, 'm) sigstore \<Rightarrow> Request \<Rightarrow> int \<Rightarrow> 'm result" where
  "acquireTrustedMaterial sg request verificationTime =
     (if rq_Mode request = ModeOnline then
        guarded (validateOnlineRoot (rq_TrustRoot request))
          (case sg_FetchTrustedRoot sg of
             None \<Rightarrow> Inl (newError ''ungoverned-trust-root'' ''trust_root'' ''Sigstore public-good TUF authentication failed'' [])
           | Some material \<Rightarrow> Inr material)
      else if rq_Mode request = ModeOffline then acquirePinnedRoot sg request verificationTime
      else Inl (newError ''verification-mode-invalid'' ''verification_mode''
        ''exactly one online or offline mode is required'' []))"

definition forbiddenTrustRootOverrides :: "string list" where
  "forbiddenTrustRootOverrides =
     [''SIGSTORE_ROOT_FILE'', ''SIGSTORE_REKOR_PUBLIC_KEY'', ''SIGSTORE_CT_LOG_PUBLIC_KEY_FILE'']"

text \<open>os.LookupEnv is a predicate on names.\<close>

definition rejectLegacyOverrides :: "(string \<Rightarrow> bool) \<Rightarrow> go_error option" where
  "rejectLegacyOverrides env_has =
     (case filter env_has forbiddenTrustRootOverrides of
        [] \<Rightarrow> None
      | name # _ \<Rightarrow> Some (newError ''legacy-trust-root-override'' (''environment.'' @ name)
          ''legacy Sigstore component override is forbidden'' []))"

section \<open>Certificate extensions\<close>

text \<open>encoding/asn1: tag and length of a value with a low tag number, and what follows them.\<close>

record asn1_header =
  as_class :: nat
  as_compound :: bool
  as_tag :: nat
  as_length :: nat

text \<open>The bytes of a long length; the length so far never starts with a zero and stays below 2^31.\<close>

fun long_length :: "nat \<Rightarrow> nat \<Rightarrow> string \<Rightarrow> (nat \<times> string) option" where
  "long_length 0 acc bytes = (if acc < 128 then None else Some (acc, bytes))"
| "long_length (Suc n) acc [] = None"
| "long_length (Suc n) acc (b # bytes) =
     (if acc \<ge> 2 ^ 23 then None
      else (let acc' = 256 * acc + byte b in if acc' = 0 then None else long_length n acc' bytes))"

definition parseTagAndLength :: "string \<Rightarrow> (asn1_header \<times> string) option" where
  "parseTagAndLength bytes =
     (case bytes of
        t # l # rest \<Rightarrow>
          (let tag = byte t mod 32;
               header = (\<lambda>len. \<lparr>as_class = byte t div 64, as_compound = odd (byte t div 32), as_tag = tag, as_length = len\<rparr>)
           in if tag = 31 then None
              else if byte l < 128 then Some (header (byte l), rest)
              else if byte l = 128 then None
              else map_option (\<lambda>(len, rest'). (header len, rest')) (long_length (byte l - 128) 0 rest))
      | _ \<Rightarrow> None)"

definition printable_char :: "char \<Rightarrow> bool" where
  "printable_char c \<longleftrightarrow> is_alnum c \<or> c \<in> set '' ()+,-./:=?*&'' \<or> c = CHR 0x27"

text \<open>UTF-16 units of a BMPString as UTF-8; a surrogate without its other half becomes U+FFFD.\<close>

fun utf16_text :: "nat list \<Rightarrow> string" where
  "utf16_text [] = []"
| "utf16_text [u] = encode_rune (if 0xD800 \<le> u \<and> u \<le> 0xDFFF then 0xFFFD else u)"
| "utf16_text (u # v # us) =
     (if 0xD800 \<le> u \<and> u < 0xDC00 \<and> 0xDC00 \<le> v \<and> v \<le> 0xDFFF
      then encode_rune ((u - 0xD800) * 1024 + (v - 0xDC00) + 0x10000) @ utf16_text us
      else encode_rune (if 0xD800 \<le> u \<and> u \<le> 0xDFFF then 0xFFFD else u) @ utf16_text (v # us))"

fun byte_pairs :: "string \<Rightarrow> nat list option" where
  "byte_pairs [] = Some []"
| "byte_pairs (h # l # rest) = map_option ((#) (256 * byte h + byte l)) (byte_pairs rest)"
| "byte_pairs _ = None"

definition parseBMPString :: "string \<Rightarrow> string option" where
  "parseBMPString bytes =
     map_option (\<lambda>units. utf16_text (if units \<noteq> [] \<and> last units = 0 then butlast units else units)) (byte_pairs bytes)"

text \<open>asn1.Unmarshal into a string: one primitive universal string, and the bytes after it.\<close>

definition asn1_string :: "string \<Rightarrow> (string \<times> string) option" where
  "asn1_string bytes =
     (case parseTagAndLength bytes of
        None \<Rightarrow> None
      | Some (h, rest) \<Rightarrow>
          if as_class h \<noteq> 0 \<or> as_compound h \<or> as_length h > length rest then None
          else
            (let content = take (as_length h) rest;
                 decoded =
                   (if as_tag h = 19 then (if list_all printable_char content then Some content else None)
                    else if as_tag h = 18 then
                      (if list_all (\<lambda>c. is_digit c \<or> c = CHR '' '') content then Some content else None)
                    else if as_tag h = 22 then (if list_all is_ascii content then Some content else None)
                    else if as_tag h = 20 \<or> as_tag h = 27 then Some content
                    else if as_tag h = 12 then (if utf8_valid content then Some content else None)
                    else if as_tag h = 30 then parseBMPString content
                    else None)
             in map_option (\<lambda>s. (s, drop (as_length h) rest)) decoded))"

definition fulcio_oid :: "nat \<Rightarrow> nat list" where
  "fulcio_oid n = [1, 3, 6, 1, 4, 1, 57264, 1, n]"

text \<open>\<^const>\<open>Inl\<close> for a malformed or duplicate extension, \<^const>\<open>Inr\<close> its value if present.\<close>

definition certificateExtension :: "certificate \<Rightarrow> nat list \<Rightarrow> string option result" where
  "certificateExtension cert oid =
     (case filter (\<lambda>(i, _). i = oid) (ct_Extensions cert) of
        [] \<Rightarrow> Inr None
      | [(_, matched)] \<Rightarrow>
          (case asn1_string matched of
             None \<Rightarrow> Inl (ErrText ''decode certificate extension %s: %w'' [])
           | Some (v, rest) \<Rightarrow>
               if rest \<noteq> [] \<or> v = [] then Inl (ErrText ''decode certificate extension %s: %w'' []) else Inr (Some v))
      | _ \<Rightarrow> Inl (ErrText ''certificate extension %s is duplicated'' []))"

section \<open>Identities\<close>

text \<open>The claims in the order of the code: OID, expected value, failure category, field.\<close>

definition identity_claims :: "IdentityExpectation \<Rightarrow> (nat list \<times> string \<times> string \<times> string) list" where
  "identity_claims e =
     [(fulcio_oid 8, ie_Issuer e, ''issuer-mismatch'', ''certificate.issuer''),
      (fulcio_oid 9, ie_SignerURI e, ''signer-workflow-path-mismatch'', ''certificate.build_signer_uri''),
      (fulcio_oid 10, ie_WorkflowSHA e, ''signer-workflow-sha-mismatch'', ''certificate.build_signer_digest''),
      (fulcio_oid 11, ie_RunnerEnvironment e, ''self-hosted-runner'', ''certificate.runner_environment''),
      (fulcio_oid 12, ie_SourceRepositoryURI e, ''source-identity-mismatch'', ''certificate.source_repository_uri''),
      (fulcio_oid 13, ie_SourceDigest e, ''source-digest-mismatch'', ''certificate.source_digest''),
      (fulcio_oid 14, ie_SourceRef e, ''source-ref-mismatch'', ''certificate.source_ref''),
      (fulcio_oid 15, ie_SourceRepositoryID e, ''source-numeric-id-mismatch'', ''certificate.source_repository_id''),
      (fulcio_oid 17, ie_SourceRepositoryOwnerID e, ''source-numeric-id-mismatch'', ''certificate.source_repository_owner_id''),
      (fulcio_oid 21, ie_RunInvocationURI e, ''run-invocation-uri-invalid'', ''certificate.run_invocation_uri'')]"

fun check_claims :: "certificate \<Rightarrow> (nat list \<times> string \<times> string \<times> string) list \<Rightarrow> go_error option" where
  "check_claims cert [] = None"
| "check_claims cert ((oid, wanted, category, field) # claims) =
     (case certificateExtension cert oid of
        Inl err \<Rightarrow> Some (newError ''signer-identity-claim-missing'' field
          ''required signer identity claim is absent or malformed'' [err])
      | Inr None \<Rightarrow> Some (newError ''signer-identity-claim-missing'' field
          ''required signer identity claim is absent or malformed'' [])
      | Inr (Some actual) \<Rightarrow>
          if actual \<noteq> wanted then
            Some (newError category field ''verified signer identity claim does not match policy'' [])
          else check_claims cert claims)"

definition caused :: "go_error option \<Rightarrow> (go_error list \<Rightarrow> go_error) \<Rightarrow> go_error option" where
  "caused err f = map_option (\<lambda>e. f [e]) err"

definition result_error :: "'a result \<Rightarrow> go_error option" where
  "result_error r = (case r of Inl err \<Rightarrow> Some err | Inr _ \<Rightarrow> None)"

definition verifyIdentity :: "certificate \<Rightarrow> IdentityExpectation \<Rightarrow> go_error option" where
  "verifyIdentity cert expected =
     (if ct_URIs cert \<noteq> [ie_SignerURI expected] then
        Some (newError ''signer-workflow-path-mismatch'' ''certificate.san''
          ''certificate URI SAN does not match the expected signer workflow'' [])
      else
        and_then (check_claims cert (identity_claims expected))
        (and_then (caused (ValidateCanonicalRepositoryURI (ie_SourceRepositoryURI expected))
           (newError ''verification-mode-invalid'' ''identity.source_repository_uri''
             ''expected source repository URI is not canonical''))
        (and_then (caused (ValidateFullSHA (ie_WorkflowSHA expected))
           (newError ''verification-mode-invalid'' ''identity.workflow_sha'' ''expected workflow SHA is not immutable''))
        (and_then (caused (ValidateFullSHA (ie_SourceDigest expected))
           (newError ''verification-mode-invalid'' ''identity.source_digest'' ''expected source digest is not immutable''))
        (caused (result_error (ParseRunInvocationURI (ie_RunInvocationURI expected) (ie_SourceRepositoryURI expected)))
           (newError ''run-invocation-uri-invalid'' ''identity.run_invocation_uri''
             ''expected Run Invocation URI is not canonical''))))))"

definition validateSignerURI :: "string \<Rightarrow> go_error option" where
  "validateSignerURI raw =
     (let forbidden = Some (ErrText ''signer URI has forbidden components'' []);
          unknown = Some (ErrText ''signer URI does not identify one GitHub workflow'' []);
          uncanonical = Some (ErrText ''signer URI workflow or ref is not canonical'' [])
      in case url_Parse raw of
           None \<Rightarrow> forbidden
         | Some u \<Rightarrow>
             if Scheme u \<noteq> ''https'' \<or> Host u \<noteq> ''github.com'' \<or> User u \<noteq> None \<or> RawQuery u \<noteq> []
                \<or> Fragment u \<noteq> [] \<or> Opaque u \<noteq> [] then forbidden
             else
               (let path = TrimPrefix (Path u) ''/'';
                    (workflowPath, ref, found) =
                      (case Cut path [CHR ''@''] of None \<Rightarrow> (path, [], False) | Some (a, b) \<Rightarrow> (a, b, True));
                    components = split_on (CHR ''/'') workflowPath
                in if length components \<noteq> 5 \<or> components ! 0 = [] \<or> components ! 1 = []
                      \<or> components ! 2 \<noteq> ''.github'' \<or> components ! 3 \<noteq> ''workflows'' then unknown
                   else
                     (let filename = components ! 4;
                          canonicalRef = HasPrefix ref ''refs/'' \<or> ValidateFullSHA ref = None
                      in if \<not> found \<or> Contains ref [CHR ''@''] \<or> (\<not> HasSuffix filename ''.yml'' \<and> \<not> HasSuffix filename ''.yaml'')
                            \<or> \<not> canonicalRef \<or> TrimSpace ref \<noteq> ref then uncanonical
                         else None)))"

definition validateIdentityExpectation :: "IdentityExpectation \<Rightarrow> go_error option" where
  "validateIdentityExpectation expected =
     (if ie_Issuer expected \<noteq> trustedGitHubOIDCIssuer then
        Some (newError ''policy-schema-invalid'' ''identity.issuer'' ''expected issuer must be GitHub Actions'' [])
      else
        and_then (caused (validateSignerURI (ie_SignerURI expected))
          (newError ''policy-schema-invalid'' ''identity.signer_uri'' ''expected signer URI is not canonical''))
        (and_then (caused (ValidateCanonicalRepositoryURI (ie_SourceRepositoryURI expected))
          (newError ''policy-schema-invalid'' ''identity.source_repository_uri''
            ''expected source repository URI is not canonical''))
        (and_then (caused (ValidateFullSHA (ie_WorkflowSHA expected))
          (newError ''policy-schema-invalid'' ''identity.workflow_sha'' ''expected workflow SHA is not immutable''))
        (and_then (caused (ValidateFullSHA (ie_SourceDigest expected))
          (newError ''policy-schema-invalid'' ''identity.source_digest'' ''expected source digest is not immutable''))
        (if \<not> re_positive_decimal (ie_SourceRepositoryID expected)
            \<or> \<not> re_positive_decimal (ie_SourceRepositoryOwnerID expected) then
           Some (newError ''policy-schema-invalid'' ''identity.source_numeric_ids''
             ''expected source numeric IDs must be positive decimal strings'' [])
         else if \<not> HasPrefix (ie_SourceRef expected) ''refs/'' \<or> TrimSpace (ie_SourceRef expected) \<noteq> ie_SourceRef expected then
           Some (newError ''policy-schema-invalid'' ''identity.source_ref'' ''expected source ref must be a full canonical ref'' [])
         else if ie_RunnerEnvironment expected \<noteq> ''github-hosted'' then
           Some (newError ''policy-schema-invalid'' ''identity.runner_environment''
             ''expected runner environment must be github-hosted'' [])
         else caused (result_error (ParseRunInvocationURI (ie_RunInvocationURI expected) (ie_SourceRepositoryURI expected)))
           (newError ''policy-schema-invalid'' ''identity.run_invocation_uri''
             ''expected Run Invocation URI is not canonical''))))))"

section \<open>Verification\<close>

definition classifyVerificationError :: "string \<Rightarrow> go_error" where
  "classifyVerificationError err =
     (let message = ToLower err in
      if Contains message ''signed certificate timestamp'' \<or> Contains message ''sct'' then
        newError ''missing-sct'' ''bundle.verificationMaterial.certificate.sct'' ''Fulcio SCT is missing or invalid'' [ErrText err []]
      else if Contains message ''integrated time outside certificate validity'' \<or> Contains message ''signature time outside'' then
        newError ''signature-time-violation'' ''bundle.verificationMaterial.tlogEntries.integratedTime''
          ''signature time is outside certificate validity'' [ErrText err []]
      else if Contains message ''log inclusion'' \<or> Contains message ''transparency log'' then
        newError ''missing-rekor-entry'' ''bundle.verificationMaterial.tlogEntries''
          ''Rekor inclusion or SET evidence is missing or invalid'' [ErrText err []]
      else if Contains message ''identity'' then
        newError ''signer-identity-untrusted'' ''bundle.verificationMaterial.certificate''
          ''signer identity is not trusted'' [ErrText err []]
      else newError ''signature-mismatch'' ''bundle'' ''bundle cryptographic verification failed'' [ErrText err []])"

definition validateSigningTime :: "certificate \<Rightarrow> int \<Rightarrow> go_error option" where
  "validateSigningTime cert signingTime =
     (if signingTime < ct_NotBefore cert \<or> signingTime > ct_NotAfter cert then
        Some (newError ''signature-time-violation'' ''bundle.verificationMaterial.tlogEntries.integratedTime''
          ''SET-covered signing time is outside the Fulcio certificate validity interval'' [])
      else None)"

definition verifiedSigningTime :: "(string \<times> int) list \<Rightarrow> certificate \<Rightarrow> int result" where
  "verifiedSigningTime timestamps cert =
     (case filter (\<lambda>(kind, _). kind = ''Tlog'') timestamps of
        [] \<Rightarrow> Inl (newError ''signature-time-violation'' ''bundle.verificationMaterial.tlogEntries.integratedTime''
          ''verified SET-covered integrated time is required'' [])
      | (_, time) # _ \<Rightarrow> guarded (validateSigningTime cert time) (Inr time))"

definition compare_expected :: "(string \<Rightarrow> string result) \<Rightarrow> Request \<Rightarrow> string \<Rightarrow> go_error option" where
  "compare_expected transform request statement =
     and_then
       (case rq_ExpectedStatement request of
          None \<Rightarrow> None | Some expected \<Rightarrow> CompareStatement transform statement expected)
       (if rq_ExpectedStatementJSON request = [] then None
        else
          (case Equal statement (rq_ExpectedStatementJSON request) of
             Inl err \<Rightarrow> Some (parseError ''expected_statement'' err)
           | Inr equal \<Rightarrow>
               if \<not> equal then Some (newError ''statement-assembly-mismatch'' ''statement''
                 ''emitted Statement differs from expected JSON'' [])
               else None))"

definition verifyParsedWithTrustedMaterial ::
  "('b, 'm) sigstore \<Rightarrow> (string \<Rightarrow> string result) \<Rightarrow> Request \<Rightarrow> 'b ParsedBundle \<Rightarrow> 'm \<Rightarrow> VerificationResult result" where
  "verifyParsedWithTrustedMaterial sg transform request parsed material =
     (let bundle = pb_sigstore parsed; ident = rq_Identity request in
      if sg_TlogEntries sg bundle = None \<or> sg_TlogEntries sg bundle = Some 0 then
        Inl (newError ''missing-rekor-entry'' ''bundle.verificationMaterial.tlogEntries''
          ''bundle-contained Rekor evidence is required'' [])
      else if \<not> sg_NewIdentity sg (ie_Issuer ident) (ie_SignerURI ident) then
        Inl (newError ''verification-mode-invalid'' ''identity'' ''signer identity expectation is invalid'' [])
      else if \<not> sg_NewVerifier sg material then
        Inl (newError ''ungoverned-trust-root'' ''trust_root'' ''governed trusted material cannot construct a verifier'' [])
      else
     (case sg_Verify sg material bundle (ie_Issuer ident) (ie_SignerURI ident) of
        Inl err \<Rightarrow> Inl (classifyVerificationError err)
      | Inr timestamps \<Rightarrow>
     (case sg_Certificate sg bundle of
        None \<Rightarrow> Inl (newError ''signature-mismatch'' ''bundle.verificationMaterial.certificate''
          ''verified Fulcio certificate is unavailable'' [])
      | Some cert \<Rightarrow>
          guarded (verifyIdentity cert ident)
     (case verifiedSigningTime timestamps cert of
        Inl err \<Rightarrow> Inl err
      | Inr signingTime \<Rightarrow>
          guarded (compare_expected transform request (pb_statement parsed))
            (Inr \<lparr>vr_bundle = pb_raw parsed, vr_statement = pb_statement parsed, vr_Certificate = cert,
               vr_SigningTime = signingTime\<rparr>)))))"

text \<open>The checks before any material: a usable context, exactly one expected Statement.\<close>

definition request_error :: "bool \<Rightarrow> Request \<Rightarrow> go_error option" where
  "request_error done_ctx request =
     (let hasModel = rq_ExpectedStatement request \<noteq> None; hasJSON = rq_ExpectedStatementJSON request \<noteq> [] in
      if done_ctx then Some (newError ''verifier-execution-failure'' ''context'' ''verification context is not usable'' [])
      else if \<not> hasModel \<and> \<not> hasJSON then
        Some (newError ''input-unavailable'' ''expected_statement'' ''an expected Statement is required'' [])
      else if hasModel \<and> hasJSON then
        Some (newError ''policy-schema-invalid'' ''expected_statement''
          ''exactly one expected Statement representation is allowed'' [])
      else None)"

definition verifyAt ::
  "('b, 'm) sigstore \<Rightarrow> (string \<Rightarrow> string result) \<Rightarrow> (string \<Rightarrow> bool) \<Rightarrow> bool \<Rightarrow> Request \<Rightarrow> int
    \<Rightarrow> VerificationResult result" where
  "verifyAt sg transform env_has done_ctx request verificationTime =
     guarded (request_error done_ctx request)
     (guarded (validateIdentityExpectation (rq_Identity request))
     (case ParseBundle sg (rq_Bundle request) of
        Inl err \<Rightarrow> Inl err
      | Inr parsed \<Rightarrow>
          guarded (rejectLegacyOverrides env_has)
     (case acquireTrustedMaterial sg request verificationTime of
        Inl err \<Rightarrow> Inl err
      | Inr material \<Rightarrow> verifyParsedWithTrustedMaterial sg transform request parsed material)))"

definition verifyWithTrustedMaterial ::
  "('b, 'm) sigstore \<Rightarrow> (string \<Rightarrow> string result) \<Rightarrow> (string \<Rightarrow> bool) \<Rightarrow> bool \<Rightarrow> Request \<Rightarrow> 'm option
    \<Rightarrow> VerificationResult result" where
  "verifyWithTrustedMaterial sg transform env_has done_ctx request material =
     guarded (request_error done_ctx request)
     (case material of
        None \<Rightarrow> Inl (newError ''ungoverned-trust-root'' ''trust_root'' ''authenticated trusted material is required'' [])
      | Some m \<Rightarrow>
          guarded (validateIdentityExpectation (rq_Identity request))
     (case ParseBundle sg (rq_Bundle request) of
        Inl err \<Rightarrow> Inl err
      | Inr parsed \<Rightarrow>
          guarded (rejectLegacyOverrides env_has) (verifyParsedWithTrustedMaterial sg transform request parsed m)))"

section \<open>What verification guarantees\<close>

lemma caused_None [simp]: "caused e f = None \<longleftrightarrow> e = None"
  by (simp add: caused_def)

lemma result_error_None [simp]: "result_error r = None \<longleftrightarrow> (\<exists>x. r = Inr x)"
  by (cases r) (simp_all add: result_error_def)

text \<open>A certificate carries a claim: one extension with the OID, holding exactly one DER string, the value.\<close>

definition carries :: "certificate \<Rightarrow> nat list \<Rightarrow> string \<Rightarrow> bool" where
  "carries cert oid v \<longleftrightarrow> v \<noteq> [] \<and>
     (\<exists>der. filter (\<lambda>(i, _). i = oid) (ct_Extensions cert) = [(oid, der)] \<and> asn1_string der = Some (v, []))"

lemma certificateExtension_carries: "certificateExtension cert oid = Inr (Some v) \<longleftrightarrow> carries cert oid v"
proof -
  let ?found = "filter (\<lambda>(i, _). i = oid) (ct_Extensions cert)"
  have own: "i = oid" if "(i, der) \<in> set ?found" for i der using that by auto
  show ?thesis
  proof (cases ?found)
    case Nil
    then show ?thesis by (simp add: certificateExtension_def carries_def)
  next
    case (Cons e rest)
    obtain i der where e: "e = (i, der)" by (cases e)
    with own Cons have "i = oid" by force
    with Cons e show ?thesis
      by (cases rest) (auto simp: certificateExtension_def carries_def split: option.splits)
  qed
qed

lemma check_claims_None:
  "check_claims cert cs = None \<longleftrightarrow> list_all (\<lambda>(oid, v, _). carries cert oid v) cs"
proof (induction cert cs rule: check_claims.induct)
  case (2 cert oid wanted category field cs)
  show ?case
  proof (cases "certificateExtension cert oid = Inr (Some wanted)")
    case True
    with 2 show ?thesis using certificateExtension_carries [of cert oid wanted] by simp
  next
    case False
    then have "\<not> carries cert oid wanted" using certificateExtension_carries by blast
    with False show ?thesis by (auto split: sum.splits option.splits)
  qed
qed simp

text \<open>The expected identity is canonical in itself.\<close>

definition canonical_expectation :: "IdentityExpectation \<Rightarrow> bool" where
  "canonical_expectation e \<longleftrightarrow>
     ValidateCanonicalRepositoryURI (ie_SourceRepositoryURI e) = None \<and>
     ValidateFullSHA (ie_WorkflowSHA e) = None \<and> ValidateFullSHA (ie_SourceDigest e) = None \<and>
     is_ok (ParseRunInvocationURI (ie_RunInvocationURI e) (ie_SourceRepositoryURI e))"

text \<open>
  C22: A certificate is accepted for an identity exactly when its only URI name is the signer workflow, every one
  of the ten claims is carried by one extension that holds the expected value and nothing else, and the expected
  values are canonical: a repository URI, full SHAs, and a run invocation of that repository.
\<close>

theorem certificate_identity_exact:
  "verifyIdentity cert expected = None \<longleftrightarrow>
     ct_URIs cert = [ie_SignerURI expected] \<and>
     carries cert (fulcio_oid 8) (ie_Issuer expected) \<and>
     carries cert (fulcio_oid 9) (ie_SignerURI expected) \<and>
     carries cert (fulcio_oid 10) (ie_WorkflowSHA expected) \<and>
     carries cert (fulcio_oid 11) (ie_RunnerEnvironment expected) \<and>
     carries cert (fulcio_oid 12) (ie_SourceRepositoryURI expected) \<and>
     carries cert (fulcio_oid 13) (ie_SourceDigest expected) \<and>
     carries cert (fulcio_oid 14) (ie_SourceRef expected) \<and>
     carries cert (fulcio_oid 15) (ie_SourceRepositoryID expected) \<and>
     carries cert (fulcio_oid 17) (ie_SourceRepositoryOwnerID expected) \<and>
     carries cert (fulcio_oid 21) (ie_RunInvocationURI expected) \<and>
     canonical_expectation expected"
  by (simp add: verifyIdentity_def check_claims_None identity_claims_def canonical_expectation_def is_ok_iff
      del: check_claims.simps)

lemma acquirePinnedRoot_Inr:
  assumes "acquirePinnedRoot sg request now = Inr material"
  shows "\<exists>revalidated refresh revalidatedAt refreshBefore.
    tr_Mode (rq_TrustRoot request) = ''pinned'' \<and> tr_Instance (rq_TrustRoot request) = sigstorePublicGoodInstance \<and>
    tr_SHA256 (rq_TrustRoot request) = Some (sha256Hex (rq_PinnedRoot request)) \<and>
    tr_TUFRepository (rq_TrustRoot request) = Some sigstoreTUFRepository \<and>
    tr_RevalidatedAt (rq_TrustRoot request) = Some revalidated \<and> parse_zulu revalidated = Some revalidatedAt \<and>
    tr_RefreshBefore (rq_TrustRoot request) = Some refresh \<and> parse_zulu refresh = Some refreshBefore \<and>
    revalidatedAt < refreshBefore \<and> now \<le> refreshBefore \<and>
    Validate (rq_PinnedRoot request) = None \<and> sg_NewTrustedRootFromJSON sg (rq_PinnedRoot request) = Some material"
  using assms
  by (auto simp: acquirePinnedRoot_def Let_def split: option.splits if_splits)

text \<open>Material is governed: online it is what TUF authenticated for the public-good instance, offline it is loaded
  from bytes with the pinned digest, of the public-good repository, not past their refresh time.\<close>

definition governed :: "('b, 'm) sigstore \<Rightarrow> Request \<Rightarrow> int \<Rightarrow> 'm \<Rightarrow> bool" where
  "governed sg request now material \<longleftrightarrow>
     tr_Instance (rq_TrustRoot request) = sigstorePublicGoodInstance \<and>
     (if rq_Mode request = ModeOnline then
        tr_Mode (rq_TrustRoot request) = ''tuf'' \<and> tr_SHA256 (rq_TrustRoot request) = None \<and>
        sg_FetchTrustedRoot sg = Some material
      else
        rq_Mode request = ModeOffline \<and> tr_Mode (rq_TrustRoot request) = ''pinned'' \<and>
        tr_SHA256 (rq_TrustRoot request) = Some (sha256Hex (rq_PinnedRoot request)) \<and>
        tr_TUFRepository (rq_TrustRoot request) = Some sigstoreTUFRepository \<and>
        Validate (rq_PinnedRoot request) = None \<and>
        sg_NewTrustedRootFromJSON sg (rq_PinnedRoot request) = Some material \<and>
        (\<exists>refreshBefore. Option.bind (tr_RefreshBefore (rq_TrustRoot request)) parse_zulu = Some refreshBefore \<and>
           now \<le> refreshBefore))"

lemma acquireTrustedMaterial_governed:
  assumes "acquireTrustedMaterial sg request now = Inr material"
  shows "governed sg request now material"
proof (cases "rq_Mode request = ModeOnline")
  case True
  with assms have "validateOnlineRoot (rq_TrustRoot request) = None" "sg_FetchTrustedRoot sg = Some material"
    by (auto simp: acquireTrustedMaterial_def split: option.splits)
  with True show ?thesis
    by (auto simp: governed_def validateOnlineRoot_def split: if_splits)
next
  case False
  with assms have "rq_Mode request = ModeOffline" "acquirePinnedRoot sg request now = Inr material"
    by (auto simp: acquireTrustedMaterial_def split: if_splits)
  with False acquirePinnedRoot_Inr show ?thesis by (force simp: governed_def)
qed

text \<open>The bundle binds the result: strict JSON, log evidence, a signature and a timestamp verified under the
  material, the certificate of the signer, and a signed Statement equal to the expected one.\<close>

definition expected_equal :: "(string \<Rightarrow> string result) \<Rightarrow> Request \<Rightarrow> string \<Rightarrow> bool" where
  "expected_equal transform request statement \<longleftrightarrow>
     (case rq_ExpectedStatement request of
        Some expected \<Rightarrow> is_ok (DecodeStatement statement) \<and>
          (\<exists>json. Statement_CanonicalJSON transform expected = Inr json \<and> Equal statement json = Inr True)
      | None \<Rightarrow> rq_ExpectedStatementJSON request \<noteq> [] \<and> Equal statement (rq_ExpectedStatementJSON request) = Inr True)"

definition authenticated ::
  "('b, 'm) sigstore \<Rightarrow> (string \<Rightarrow> string result) \<Rightarrow> Request \<Rightarrow> 'm \<Rightarrow> VerificationResult \<Rightarrow> bool" where
  "authenticated sg transform request material result \<longleftrightarrow>
     vr_bundle result = rq_Bundle request \<and> Validate (rq_Bundle request) = None \<and>
     (\<exists>bundle timestamps.
        sg_UnmarshalJSON sg (rq_Bundle request) = Some bundle \<and>
        sg_Envelope sg bundle = Some (Some (vr_statement result), IntotoMediaType) \<and>
        Validate (vr_statement result) = None \<and>
        sg_TlogEntries sg bundle \<notin> {None, Some 0} \<and>
        sg_Verify sg material bundle (ie_Issuer (rq_Identity request)) (ie_SignerURI (rq_Identity request)) = Inr timestamps \<and>
        sg_Certificate sg bundle = Some (vr_Certificate result) \<and>
        (''Tlog'', vr_SigningTime result) \<in> set timestamps) \<and>
     ct_NotBefore (vr_Certificate result) \<le> vr_SigningTime result \<and>
     vr_SigningTime result \<le> ct_NotAfter (vr_Certificate result) \<and>
     verifyIdentity (vr_Certificate result) (rq_Identity request) = None \<and>
     expected_equal transform request (vr_statement result)"

lemma ParseBundle_Inr:
  "ParseBundle sg raw = Inr p \<longleftrightarrow>
     raw \<noteq> [] \<and> Validate raw = None \<and> sg_UnmarshalJSON sg raw = Some (pb_sigstore p) \<and>
     sg_Envelope sg (pb_sigstore p) = Some (Some (pb_statement p), IntotoMediaType) \<and>
     Validate (pb_statement p) = None \<and> pb_raw p = raw"
  by (cases p) (auto simp: ParseBundle_def split: option.splits if_splits)

lemma verifiedSigningTime_Inr:
  assumes "verifiedSigningTime timestamps cert = Inr t"
  shows "(''Tlog'', t) \<in> set timestamps \<and> ct_NotBefore cert \<le> t \<and> t \<le> ct_NotAfter cert"
proof (cases "filter (\<lambda>(kind, _). kind = ''Tlog'') timestamps")
  case (Cons e rest)
  obtain kind time where e: "e = (kind, time)" by (cases e)
  from Cons have "e \<in> set (filter (\<lambda>(kind, _). kind = ''Tlog'') timestamps)" by simp
  with e have "(''Tlog'', time) \<in> set timestamps" by auto
  with assms Cons e show ?thesis
    by (auto simp: verifiedSigningTime_def validateSigningTime_def split: if_splits)
qed (use assms in \<open>simp add: verifiedSigningTime_def\<close>)

lemma compare_expected_None:
  assumes "compare_expected transform request statement = None" and "request_error False request = None"
  shows "expected_equal transform request statement"
  using assms
  by (auto simp: compare_expected_def expected_equal_def CompareStatement_def request_error_def Let_def is_ok_iff
      split: option.splits sum.splits if_splits)

lemma verifyParsed_authenticated:
  assumes run: "verifyParsedWithTrustedMaterial sg transform request p material = Inr result"
    and parse: "ParseBundle sg (rq_Bundle request) = Inr p" and ok: "request_error False request = None"
  shows "authenticated sg transform request material result"
proof -
  from run obtain timestamps cert time where
    entries: "sg_TlogEntries sg (pb_sigstore p) \<notin> {None, Some 0}"
    and verified: "sg_Verify sg material (pb_sigstore p) (ie_Issuer (rq_Identity request))
      (ie_SignerURI (rq_Identity request)) = Inr timestamps"
    and cert: "sg_Certificate sg (pb_sigstore p) = Some cert" "verifyIdentity cert (rq_Identity request) = None"
    and time: "verifiedSigningTime timestamps cert = Inr time"
    and same: "compare_expected transform request (pb_statement p) = None"
    and result: "result = \<lparr>vr_bundle = pb_raw p, vr_statement = pb_statement p, vr_Certificate = cert, vr_SigningTime = time\<rparr>"
    by (auto simp: verifyParsedWithTrustedMaterial_def Let_def split: if_splits sum.splits option.splits)
  show ?thesis
    using parse [unfolded ParseBundle_Inr] entries verified cert verifiedSigningTime_Inr [OF time]
      compare_expected_None [OF same ok]
    by (auto simp: authenticated_def result)
qed

lemma verifyAt_authenticated:
  assumes run: "verifyAt sg transform env_has ctx_done request now = Inr result"
  shows "\<exists>material. governed sg request now material \<and> authenticated sg transform request material result"
    and "validateIdentityExpectation (rq_Identity request) = None" and "\<not> ctx_done"
    and "list_all (\<lambda>name. \<not> env_has name) forbiddenTrustRootOverrides"
proof -
  from run obtain p material where ok: "request_error ctx_done request = None"
    and identity: "validateIdentityExpectation (rq_Identity request) = None"
    and p: "ParseBundle sg (rq_Bundle request) = Inr p" and env: "rejectLegacyOverrides env_has = None"
    and m: "acquireTrustedMaterial sg request now = Inr material"
    and run: "verifyParsedWithTrustedMaterial sg transform request p material = Inr result"
    by (auto simp: verifyAt_def split: sum.splits)
  from ok show ctx: "\<not> ctx_done" by (auto simp: request_error_def Let_def)
  from env show "list_all (\<lambda>name. \<not> env_has name) forbiddenTrustRootOverrides"
    by (auto simp: rejectLegacyOverrides_def filter_empty_conv list_all_iff split: list.splits)
  have "authenticated sg transform request material result"
    using verifyParsed_authenticated [OF run p] ok ctx by simp
  with acquireTrustedMaterial_governed [OF m]
  show "\<exists>material. governed sg request now material \<and> authenticated sg transform request material result" by blast
  from identity show "validateIdentityExpectation (rq_Identity request) = None" .
qed

text \<open>
  C15: A verification that succeeds has authenticated the bundle.  The Statement it returns is the strict-JSON
  payload signed in the very bytes given; log evidence is present; sigstore verified them under governed trust
  material for the expected signer; the certificate carries exactly the expected workflow identity and was valid
  at the logged signing time; the Statement equals the expected one; and no legacy override of the trust root is
  set in the environment.
\<close>

theorem verify_authenticates:
  "case verifyAt sg transform env_has ctx_done request now of
     Inl _ \<Rightarrow> True
   | Inr result \<Rightarrow>
       (\<exists>material. governed sg request now material \<and> authenticated sg transform request material result) \<and>
       validateIdentityExpectation (rq_Identity request) = None \<and>
       \<not> ctx_done \<and> list_all (\<lambda>name. \<not> env_has name) forbiddenTrustRootOverrides"
proof (cases "verifyAt sg transform env_has ctx_done request now")
  case (Inr result)
  from verifyAt_authenticated [OF this] Inr show ?thesis by simp
qed simp

text \<open>
  A pinned trusted root never outlives its refresh time and is never another file: offline material comes
  only from bytes whose SHA-256 is the pinned one, strict JSON of the public-good TUF repository, revalidated
  before a refresh time that the verification has not passed.
\<close>

theorem pinned_root_fresh:
  "case acquirePinnedRoot sg request now of
     Inl _ \<Rightarrow> True
   | Inr material \<Rightarrow>
       tr_SHA256 (rq_TrustRoot request) = Some (sha256Hex (rq_PinnedRoot request)) \<and>
       tr_TUFRepository (rq_TrustRoot request) = Some sigstoreTUFRepository \<and>
       Validate (rq_PinnedRoot request) = None \<and>
       sg_NewTrustedRootFromJSON sg (rq_PinnedRoot request) = Some material \<and>
       (\<exists>revalidatedAt refreshBefore.
          Option.bind (tr_RevalidatedAt (rq_TrustRoot request)) parse_zulu = Some revalidatedAt \<and>
          Option.bind (tr_RefreshBefore (rq_TrustRoot request)) parse_zulu = Some refreshBefore \<and>
          revalidatedAt < refreshBefore \<and> now \<le> refreshBefore)"
proof (cases "acquirePinnedRoot sg request now")
  case (Inr material)
  from acquirePinnedRoot_Inr [OF this] Inr show ?thesis by auto
qed simp

end
