(* ===== verification/ShellText.thy ===== *)
theory ShellText
  imports Unicode
begin

text \<open>
  internal/workflowcheck/shell_invocation.go and the text functions and patterns of toolchain.go and
  node_provision.go: how the step scripts of a workflow are scanned for runtimes, lexically and without running
  a shell.  The text is scanned byte by byte; every character the code looks for is ASCII, so a longer
  rune behaves like its bytes.
\<close>

section \<open>Quotes and escapes\<close>

text \<open>What a backslash escapes inside double quotes.\<close>

definition double_escapable :: "char \<Rightarrow> bool" where
  "double_escapable c \<longleftrightarrow> c \<in> {CHR ''$'', CHR 0x60, CHR 0x22, CHR 0x5C, CHR 0x0A}"

definition is_quote :: "char \<Rightarrow> bool" where
  "is_quote c \<longleftrightarrow> c = CHR 0x27 \<or> c = CHR 0x22"

text \<open>toolchainInvocationText with the open quote, if any.\<close>

fun invocation_from :: "char option \<Rightarrow> string \<Rightarrow> string" where
  "invocation_from quote [] = []"
| "invocation_from quote [c] =
     (if quote \<noteq> None then (if Some c = quote then [] else [c]) else if is_quote c then [] else [c])"
| "invocation_from quote (c # d # cs) =
     (if c = CHR 0x5C \<and> quote \<noteq> Some (CHR 0x27) \<and> (quote = None \<or> double_escapable d) then
        (if d \<noteq> CHR 0x0A then d # invocation_from quote cs else invocation_from quote cs)
      else if quote \<noteq> None then
        (if Some c = quote then invocation_from None (d # cs) else c # invocation_from quote (d # cs))
      else if is_quote c then invocation_from (Some c) (d # cs)
      else c # invocation_from None (d # cs))"

definition toolchainInvocationText :: "string \<Rightarrow> string" where
  "toolchainInvocationText run = invocation_from None run"

definition exactToolchainCommand :: "string \<Rightarrow> string" where
  "exactToolchainCommand run = TrimSpace (TrimSuffix (TrimSpace run) '';'')"

section \<open>Comments and continuations\<close>

text \<open>The scanner of one line: the open quote, the depth of parameter expansions, whether the byte is escaped and
  whether a word may start here.  A line is what is kept of it, with the state that goes on to the next.\<close>

definition word_separators :: "char set" where
  "word_separators = {CHR '' '', CHR 0x09, CHR 0x0D, CHR 0x0B, CHR 0x0C, CHR '';'', CHR ''|'', CHR ''&'',
     CHR ''('', CHR '')'', CHR ''<'', CHR ''>''}"

fun strip_line :: "char option \<Rightarrow> nat \<Rightarrow> bool \<Rightarrow> bool \<Rightarrow> string \<Rightarrow> string \<times> char option \<times> nat" where
  "strip_line quote expansion escaped wordStart [] = ([], quote, expansion)"
| "strip_line quote expansion escaped wordStart (c # cs) =
     (let opens = (c = CHR ''$'' \<and> cs \<noteq> [] \<and> hd cs = CHR ''{'');
          keep = (\<lambda>(s, q, e). (c # s, q, e))
      in if escaped then keep (strip_line quote expansion False False cs)
         else if c = CHR 0x5C \<and> quote \<noteq> Some (CHR 0x27) then keep (strip_line quote expansion True False cs)
         else if quote \<noteq> None then
           keep (strip_line (if Some c = quote then None else quote) expansion False False cs)
         else if expansion > 0 then
           keep (strip_line None (if opens then expansion + 1 else if c = CHR ''}'' then expansion - 1 else expansion)
             False False cs)
         else if opens then keep (strip_line None (expansion + 1) False False cs)
         else if is_quote c then keep (strip_line (Some c) expansion False False cs)
         else if c = CHR ''#'' \<and> wordStart then ([], quote, expansion)
         else keep (strip_line None expansion False (c \<in> word_separators) cs))"

fun strip_lines :: "char option \<Rightarrow> nat \<Rightarrow> string list \<Rightarrow> string list" where
  "strip_lines quote expansion [] = []"
| "strip_lines quote expansion (line # lines) =
     (let (kept, quote', expansion') = strip_line quote expansion False True line
      in kept # strip_lines quote' expansion' lines)"

text \<open>strings.ReplaceAll and the multi-pattern Replacer, for patterns that are not empty.\<close>

function replace_with :: "(string \<times> string) list \<Rightarrow> string \<Rightarrow> string" where
  "replace_with pairs [] = []"
| "replace_with pairs (c # cs) =
     (case find (\<lambda>(old, new). old \<noteq> [] \<and> HasPrefix (c # cs) old) pairs of
        None \<Rightarrow> c # replace_with pairs cs
      | Some (old, new) \<Rightarrow> new @ replace_with pairs (drop (length old) (c # cs)))"
  by pat_completeness auto
termination
proof (relation "measure (\<lambda>(pairs, s). length s)", goal_cases)
  case (3 pairs c cs p old new)
  then have "old \<noteq> []" by (auto simp: find_Some_iff)
  then show ?case by (cases old) simp_all
qed simp_all

definition ReplaceAll :: "string \<Rightarrow> string \<Rightarrow> string \<Rightarrow> string" where
  "ReplaceAll s old new = replace_with [(old, new)] s"

definition toolchainShellText :: "string \<Rightarrow> string" where
  "toolchainShellText run =
     ReplaceAll (join_with [CHR 0x0A] (strip_lines None 0 (split_on (CHR 0x0A) run))) [CHR 0x5C, CHR 0x0A] '' ''"

section \<open>Patterns\<close>

text \<open>A regular expression of a word between characters outside two classes (or the ends of the text): the text
  prior a position is given by its last character.\<close>

definition bounded_by :: "(char \<Rightarrow> bool) \<Rightarrow> char option \<Rightarrow> bool" where
  "bounded_by word c \<longleftrightarrow> (case c of None \<Rightarrow> True | Some x \<Rightarrow> \<not> word x)"

definition first_char :: "string \<Rightarrow> char option" where
  "first_char s = (case s of [] \<Rightarrow> None | c # _ \<Rightarrow> Some c)"

definition word_here :: "(char \<Rightarrow> bool) \<Rightarrow> string list \<Rightarrow> string \<Rightarrow> bool" where
  "word_here right words s \<longleftrightarrow>
     list_ex (\<lambda>w. HasPrefix s w \<and> bounded_by right (first_char (drop (length w) s))) words"

fun word_after :: "(char \<Rightarrow> bool) \<Rightarrow> (char \<Rightarrow> bool) \<Rightarrow> string list \<Rightarrow> char option \<Rightarrow> string \<Rightarrow> bool" where
  "word_after left right words prior [] = (bounded_by left prior \<and> word_here right words [])"
| "word_after left right words prior (c # cs) =
     (bounded_by left prior \<and> word_here right words (c # cs) \<or> word_after left right words (Some c) cs)"

definition name_char :: "char \<Rightarrow> bool" where
  "name_char c \<longleftrightarrow> is_alnum c \<or> c \<in> set ''_.-''"

definition name_or_colon :: "char \<Rightarrow> bool" where
  "name_or_colon c \<longleftrightarrow> name_char c \<or> c = CHR '':''"

definition npmReference :: "string \<Rightarrow> bool" where
  "npmReference s = word_after name_char name_or_colon [''npm''] None s"

definition runtime_names :: "string list" where
  "runtime_names = [''node'', ''npm'', ''npx'', ''corepack'']"

definition runtimeReference :: "string \<Rightarrow> bool" where
  "runtimeReference s = word_after name_char name_or_colon runtime_names None s"

text \<open>The blank characters of a regular expression.\<close>

definition re_space :: "char \<Rightarrow> bool" where
  "re_space c \<longleftrightarrow> c \<in> {CHR '' '', CHR 0x09, CHR 0x0A, CHR 0x0C, CHR 0x0D}"

text \<open>An assignment to PATH, after white space with or without a plus sign, at the front of a text.\<close>

definition path_assignment :: "string \<Rightarrow> bool" where
  "path_assignment s \<longleftrightarrow>
     HasPrefix s ''PATH'' \<and>
     (let rest = dropWhile re_space (drop 4 s) in HasPrefix rest ''='' \<or> HasPrefix rest ''+='')"

definition path_char :: "char \<Rightarrow> bool" where
  "path_char c \<longleftrightarrow> is_alnum c \<or> c = CHR ''_''"

definition not_runtime_end :: "char \<Rightarrow> bool" where
  "not_runtime_end c \<longleftrightarrow> \<not> (re_space c \<or> is_quote c \<or> c \<in> set '';|&)'')"

fun path_override_after :: "char option \<Rightarrow> string \<Rightarrow> bool" where
  "path_override_after prior [] = False"
| "path_override_after prior (c # cs) =
     (bounded_by path_char prior \<and> path_assignment (c # cs)
      \<or> c = CHR ''/'' \<and> word_here not_runtime_end runtime_names cs
      \<or> path_override_after (Some c) cs)"

definition runtimePathOverride :: "string \<Rightarrow> bool" where
  "runtimePathOverride s = path_override_after None s"

text \<open>pinnedActionPattern.\<close>

definition pinnedAction :: "string \<Rightarrow> bool" where
  "pinnedAction uses =
     (case Cut uses [CHR ''@''] of
        None \<Rightarrow> False
      | Some (name, sha) \<Rightarrow> re_plus (\<lambda>c. \<not> re_space c) name \<and> re_exactly 40 is_lower_hex sha)"

text \<open>The shell word of npmExecutableArgumentPattern: quoted pieces without line ends and unquoted characters,
  as many as follow each other; and what is left of the text.\<close>

definition word_byte :: "char \<Rightarrow> bool" where
  "word_byte c \<longleftrightarrow> \<not> (re_space c \<or> is_quote c \<or> c \<in> set '';|&'')"

definition quoted_byte :: "char \<Rightarrow> char \<Rightarrow> bool" where
  "quoted_byte q c \<longleftrightarrow> c \<noteq> q \<and> c \<noteq> CHR 0x0D \<and> c \<noteq> CHR 0x0A"

definition quoted_piece :: "char \<Rightarrow> string \<Rightarrow> string option" where
  "quoted_piece q s =
     (let body = takeWhile (quoted_byte q) s in
      if first_char (drop (length body) s) = Some q then Some (body @ [q]) else None)"

function shell_word :: "string \<Rightarrow> string" where
  "shell_word [] = []"
| "shell_word (c # cs) =
     (if is_quote c then
        (case quoted_piece c cs of
           None \<Rightarrow> []
         | Some piece \<Rightarrow> c # piece @ shell_word (drop (length piece) cs))
      else if word_byte c then c # shell_word cs
      else [])"
  by pat_completeness auto
termination by (relation "measure length") (auto simp: less_Suc_eq_le)

definition executable_flag :: string where "executable_flag = ''--npm-executable''"

definition executable_argument :: "string \<Rightarrow> string option" where
  "executable_argument s =
     (if \<not> HasPrefix s executable_flag then None
      else
        (let rest = drop (length executable_flag) s;
             blank = (\<lambda>c. c = CHR '' '' \<or> c = CHR 0x09);
             word = (if HasPrefix rest ''='' then shell_word (tl rest)
               else if rest \<noteq> [] \<and> blank (hd rest) then shell_word (dropWhile blank rest) else [])
         in if word = [] then None else Some word))"

text \<open>All matches, from left to right.  The separator before a match belongs to it; scanning goes on behind the
  word, where the next separator must be another one.\<close>

definition separator :: "char \<Rightarrow> bool" where
  "separator c \<longleftrightarrow> re_space c \<or> c \<in> set '';|&''"

definition after_argument :: "string \<Rightarrow> string \<Rightarrow> string" where
  "after_argument s word =
     (let rest = drop (length executable_flag) s;
          start = (if HasPrefix rest ''='' then tl rest else dropWhile (\<lambda>c. c = CHR '' '' \<or> c = CHR 0x09) rest)
      in drop (length word) start)"

lemma after_argument_shorter:
  assumes "executable_argument s = Some word"
  shows "length (after_argument s word) < length s"
proof -
  from assms have flag: "HasPrefix s executable_flag"
    by (auto simp: executable_argument_def Let_def split: if_splits)
  have "0 < length executable_flag" by (simp add: executable_flag_def)
  moreover from flag have "length executable_flag \<le> length s" by (auto simp: HasPrefix_iff)
  moreover have "length (after_argument s word) \<le> length s - length executable_flag"
    using length_dropWhile_le [of "\<lambda>c. c = CHR '' '' \<or> c = CHR 0x09" "drop (length executable_flag) s"]
    by (auto simp: after_argument_def Let_def)
  ultimately show ?thesis by linarith
qed

function arguments_from :: "bool \<Rightarrow> string \<Rightarrow> string list" where
  "arguments_from start [] = []"
| "arguments_from start (c # cs) =
     (case (if start then executable_argument (c # cs) else None) of
        Some word \<Rightarrow> word # arguments_from False (after_argument (c # cs) word)
      | None \<Rightarrow>
          (case (if separator c then executable_argument cs else None) of
             Some word \<Rightarrow> word # arguments_from False (after_argument cs word)
           | None \<Rightarrow> arguments_from False cs))"
  by pat_completeness auto
termination
  by (relation "measure (\<lambda>(start, s). length s)")
    (auto split: if_splits dest!: after_argument_shorter)

definition npmExecutableArguments :: "string \<Rightarrow> string list" where
  "npmExecutableArguments s = arguments_from True s"

text \<open>strings.Count of a text that is not empty: matches that do not overlap.\<close>

function Count :: "string \<Rightarrow> string \<Rightarrow> nat" where
  "Count s sub =
     (if sub = [] then 0
      else (case Cut s sub of None \<Rightarrow> 0 | Some (_, rest) \<Rightarrow> Suc (Count rest sub)))"
  by pat_completeness auto
termination
proof (relation "measure (\<lambda>(s, sub). length s)", goal_cases)
  case (2 s sub p a rest)
  then have "s = a @ sub @ rest" by (auto dest: Cut_Some)
  with 2 show ?case by simp
qed simp

definition runnerToolcacheReference :: "string \<Rightarrow> bool" where
  "runnerToolcacheReference value \<longleftrightarrow>
     Contains value ''RUNNER_TOOL_CACHE'' \<or> Contains value ''runner.tool_cache'' \<or>
     Contains value ''/opt/hostedtoolcache''"

section \<open>What quoting means\<close>

text \<open>The ways a POSIX shell lets a word be written: bare characters, escaped ones, single and double quotes, and
  inside double quotes plain characters, escapes, and backslashes that stay.  Each has its text and its meaning.\<close>

datatype double_item = PlainItem char | EscapedItem char | BackslashItem char

datatype fragment = Bare char | Escaped char | SingleQuoted string | DoubleQuoted "double_item list"

fun item_text :: "double_item \<Rightarrow> string" where
  "item_text (PlainItem c) = [c]"
| "item_text (EscapedItem c) = [CHR 0x5C, c]"
| "item_text (BackslashItem c) = [CHR 0x5C, c]"

definition escape_meaning :: "char \<Rightarrow> string" where
  "escape_meaning c = (if c = CHR 0x0A then [] else [c])"

fun item_meaning :: "double_item \<Rightarrow> string" where
  "item_meaning (PlainItem c) = [c]"
| "item_meaning (EscapedItem c) = escape_meaning c"
| "item_meaning (BackslashItem c) = [CHR 0x5C, c]"

fun item_ok :: "double_item \<Rightarrow> bool" where
  "item_ok (PlainItem c) = (c \<noteq> CHR 0x22 \<and> c \<noteq> CHR 0x5C)"
| "item_ok (EscapedItem c) = double_escapable c"
| "item_ok (BackslashItem c) = (\<not> double_escapable c)"

fun fragment_text :: "fragment \<Rightarrow> string" where
  "fragment_text (Bare c) = [c]"
| "fragment_text (Escaped c) = [CHR 0x5C, c]"
| "fragment_text (SingleQuoted w) = CHR 0x27 # w @ [CHR 0x27]"
| "fragment_text (DoubleQuoted ds) = CHR 0x22 # concat (map item_text ds) @ [CHR 0x22]"

fun fragment_meaning :: "fragment \<Rightarrow> string" where
  "fragment_meaning (Bare c) = [c]"
| "fragment_meaning (Escaped c) = escape_meaning c"
| "fragment_meaning (SingleQuoted w) = w"
| "fragment_meaning (DoubleQuoted ds) = concat (map item_meaning ds)"

fun fragment_ok :: "fragment \<Rightarrow> bool" where
  "fragment_ok (Bare c) = (\<not> is_quote c \<and> c \<noteq> CHR 0x5C)"
| "fragment_ok (Escaped c) = True"
| "fragment_ok (SingleQuoted w) = (CHR 0x27 \<notin> set w)"
| "fragment_ok (DoubleQuoted ds) = list_all item_ok ds"

definition written :: "fragment list \<Rightarrow> string" where
  "written fs = concat (map fragment_text fs)"

definition meaning :: "fragment list \<Rightarrow> string" where
  "meaning fs = concat (map fragment_meaning fs)"

lemma invocation_bare: "\<not> is_quote c \<Longrightarrow> c \<noteq> CHR 0x5C \<Longrightarrow> invocation_from None (c # s) = c # invocation_from None s"
  by (cases s) simp_all

lemma invocation_escaped: "invocation_from None (CHR 0x5C # c # s) = escape_meaning c @ invocation_from None s"
  by (simp add: escape_meaning_def)

lemma invocation_open: "is_quote q \<Longrightarrow> s \<noteq> [] \<Longrightarrow> invocation_from None (q # s) = invocation_from (Some q) s"
  by (cases s) (auto simp: is_quote_def)

lemma invocation_close: "is_quote q \<Longrightarrow> invocation_from (Some q) (q # s) = invocation_from None s"
  by (cases s) (auto simp: is_quote_def)

lemma invocation_single:
  "CHR 0x27 \<notin> set w \<Longrightarrow>
     invocation_from (Some (CHR 0x27)) (w @ CHR 0x27 # s) = w @ invocation_from None s"
proof (induction w)
  case (Cons c w)
  then have "invocation_from (Some (CHR 0x27)) (c # w @ CHR 0x27 # s) =
      c # invocation_from (Some (CHR 0x27)) (w @ CHR 0x27 # s)"
    by (cases "w @ CHR 0x27 # s") auto
  with Cons show ?case by simp
qed (simp add: invocation_close is_quote_def)

lemma invocation_item:
  assumes "item_ok d" and "s \<noteq> []"
  shows "invocation_from (Some (CHR 0x22)) (item_text d @ s) = item_meaning d @ invocation_from (Some (CHR 0x22)) s"
proof (cases d)
  case (PlainItem c)
  with assms show ?thesis by (cases s) auto
next
  case (EscapedItem c)
  with assms show ?thesis by (auto simp: escape_meaning_def)
next
  case (BackslashItem c)
  with assms show ?thesis by (cases s) (auto simp: double_escapable_def)
qed

lemma invocation_double:
  "list_all item_ok ds \<Longrightarrow>
     invocation_from (Some (CHR 0x22)) (concat (map item_text ds) @ CHR 0x22 # s) =
       concat (map item_meaning ds) @ invocation_from None s"
  by (induction ds) (simp_all add: invocation_item invocation_close is_quote_def)

lemma invocation_written:
  "list_all fragment_ok fs \<Longrightarrow> toolchainInvocationText (written fs) = meaning fs"
  unfolding toolchainInvocationText_def written_def meaning_def
proof (induction fs)
  case (Cons f fs)
  then show ?case
    by (cases f)
      (simp_all add: invocation_bare invocation_escaped invocation_open invocation_single invocation_double is_quote_def
        escape_meaning_def)
qed simp

section \<open>What a scan finds\<close>

definition ends_outside :: "(char \<Rightarrow> bool) \<Rightarrow> string \<Rightarrow> bool" where
  "ends_outside word s \<longleftrightarrow> (if s = [] then True else \<not> word (last s))"

definition starts_outside :: "(char \<Rightarrow> bool) \<Rightarrow> string \<Rightarrow> bool" where
  "starts_outside word s \<longleftrightarrow> bounded_by word (first_char s)"

definition stands_alone :: "(char \<Rightarrow> bool) \<Rightarrow> (char \<Rightarrow> bool) \<Rightarrow> string list \<Rightarrow> string \<Rightarrow> bool" where
  "stands_alone left right words s \<longleftrightarrow>
     (\<exists>a w b. s = a @ w @ b \<and> w \<in> set words \<and> ends_outside left a \<and> starts_outside right b)"

lemma word_here_iff: "word_here right words s \<longleftrightarrow> (\<exists>w b. s = w @ b \<and> w \<in> set words \<and> starts_outside right b)"
proof -
  have "HasPrefix s w \<and> bounded_by right (first_char (drop (length w) s)) \<longleftrightarrow> (\<exists>b. s = w @ b \<and> starts_outside right b)" for w
    by (auto simp: HasPrefix_iff starts_outside_def)
  then show ?thesis unfolding word_here_def list_ex_iff by blast
qed

lemma word_after_iff:
  "word_after left right words prior s \<longleftrightarrow>
     (\<exists>a w b. s = a @ w @ b \<and> w \<in> set words \<and> starts_outside right b \<and>
        (if a = [] then bounded_by left prior else \<not> left (last a)))"
proof (induction s arbitrary: prior)
  case Nil
  show ?case by (auto simp: word_here_iff)
next
  case (Cons c cs)
  have "(\<exists>a w b. c # cs = a @ w @ b \<and> w \<in> set words \<and> starts_outside right b \<and>
        (if a = [] then bounded_by left prior else \<not> left (last a))) \<longleftrightarrow>
      (\<exists>w b. c # cs = w @ b \<and> w \<in> set words \<and> starts_outside right b \<and> bounded_by left prior) \<or>
      (\<exists>a w b. cs = a @ w @ b \<and> w \<in> set words \<and> starts_outside right b \<and>
        (if a = [] then bounded_by left (Some c) else \<not> left (last a)))" (is "?L \<longleftrightarrow> ?A \<or> ?B")
  proof
    assume ?L
    then obtain a w b where found: "c # cs = a @ w @ b" "w \<in> set words" "starts_outside right b"
      "if a = [] then bounded_by left prior else \<not> left (last a)" by blast
    show "?A \<or> ?B"
    proof (cases a)
      case Nil
      with found have ?A by (simp, blast)
      then show ?thesis ..
    next
      case (Cons x a')
      with found have "cs = a' @ w @ b" "if a' = [] then bounded_by left (Some c) else \<not> left (last a')"
        by (simp_all add: bounded_by_def split: if_splits)
      with found(2,3) have ?B by blast
      then show ?thesis ..
    qed
  next
    assume "?A \<or> ?B"
    then show ?L
    proof
      assume ?A
      then obtain w b where "c # cs = w @ b" "w \<in> set words" "starts_outside right b" "bounded_by left prior" by blast
      then show ?L by (intro exI [of _ "[]"] exI [of _ w] exI [of _ b]) simp
    next
      assume ?B
      then obtain a w b where "cs = a @ w @ b" "w \<in> set words" "starts_outside right b"
        "if a = [] then bounded_by left (Some c) else \<not> left (last a)" by blast
      then show ?L by (intro exI [of _ "c # a"] exI [of _ w] exI [of _ b]) (auto simp: bounded_by_def)
    qed
  qed
  with Cons show ?case by (auto simp: word_here_iff)
qed

lemma word_after_alone: "word_after left right words None s \<longleftrightarrow> stands_alone left right words s"
  unfolding word_after_iff stands_alone_def ends_outside_def bounded_by_def by auto

text \<open>
  C24: Quoting cannot hide a runtime from the scan, nor make one up.  However a script word is written, with bare
  and escaped characters and single and double quotes in any order, the scan of its text finds node, npm, npx
  or corepack exactly when the word the shell would see has one of them standing alone.
\<close>

theorem quoting_hides_nothing:
  "list_all fragment_ok fs \<Longrightarrow>
     runtimeReference (toolchainInvocationText (written fs)) \<longleftrightarrow>
       stands_alone name_char name_or_colon runtime_names (meaning fs)"
  by (simp add: invocation_written runtimeReference_def word_after_alone)

lemma quoting_hides_nothing_witness:
  "runtimeReference (toolchainInvocationText (written
     [Bare (CHR ''n''), DoubleQuoted [PlainItem (CHR ''p'')], Escaped (CHR ''m''), SingleQuoted '' -v'']))"
proof -
  let ?fs = "[Bare (CHR ''n''), DoubleQuoted [PlainItem (CHR ''p'')], Escaped (CHR ''m''), SingleQuoted '' -v'']"
  have "meaning ?fs = [] @ ''npm'' @ '' -v''" by (simp add: meaning_def escape_meaning_def)
  moreover have "starts_outside name_or_colon '' -v''" by code_simp
  ultimately have "stands_alone name_char name_or_colon runtime_names (meaning ?fs)"
    unfolding stands_alone_def by (metis ends_outside_def list.set_intros runtime_names_def)
  moreover have "list_all fragment_ok ?fs" by (simp add: is_quote_def)
  ultimately show ?thesis using quoting_hides_nothing [of ?fs] by blast
qed

end
