(* ===== verification/WorkflowCheck.thy ===== *)
theory WorkflowCheck
  imports ShellText "HOL-Library.List_Lexorder" "HOL-Library.Char_ord"
begin

text \<open>
  internal/workflowcheck: check.go, toolchain.go and node_provision.go, the static conformance checks of the
  reusable workflow.  A workflow document is what the third-party YAML decoder makes of the file; decoding
  it is an argument.  A Go map is a list of entries with distinct keys, \<^const>\<open>None\<close> the nil map where
  the code tells it from an empty one.  The arguments of messages are left out.
\<close>

section \<open>Documents\<close>

text \<open>A YAML value of type any; \<open>OtherValue\<close> carries the text fmt.Sprint prints for it.\<close>

datatype yaml_any = NilValue | StringValue string | BoolValue bool | ListValue "yaml_any list" | OtherValue string

fun scalar :: "yaml_any \<Rightarrow> string" where
  "scalar NilValue = ''<nil>''"
| "scalar (StringValue s) = s"
| "scalar (BoolValue b) = (if b then ''true'' else ''false'')"
| "scalar (ListValue vs) = ''['' @ join_with '' '' (map scalar vs) @ '']''"
| "scalar (OtherValue s) = s"

type_synonym string_map = "(string \<times> string) list"

definition at_key :: "string_map \<Rightarrow> string \<Rightarrow> string" where
  "at_key m key = (case map_of m key of None \<Rightarrow> [] | Some v \<Rightarrow> v)"

record concurrency =
  cc_Group :: string
  cc_CancelInProgress :: bool
  cc_Queue :: string

record workflowStep =
  ws_ID :: string
  ws_If :: string
  ws_Uses :: string
  ws_Run :: string
  ws_WorkingDirectory :: string
  ws_Env :: string_map
  ws_With :: "(string \<times> yaml_any) list"

definition with_scalar :: "workflowStep \<Rightarrow> string \<Rightarrow> string" where
  "with_scalar step key = scalar (case map_of (ws_With step) key of None \<Rightarrow> NilValue | Some v \<Rightarrow> v)"

record workflowJob =
  wj_Env :: string_map
  wj_If :: string
  wj_Needs :: yaml_any
  wj_RunsOn :: string
  wj_Permissions :: string_map
  wj_Concurrency :: concurrency
  wj_Outputs :: string_map
  wj_Steps :: "workflowStep list"

record workflowInput =
  wi_Required :: bool
  wi_Type :: string
  wi_Default :: yaml_any

record workflowCall =
  wl_Inputs :: "(string \<times> workflowInput) list"
  wl_Outputs :: string_map

record workflowDocument =
  wd_Env :: string_map
  wd_Permissions :: "string_map option"
  wd_On :: workflowCall
  wd_Jobs :: "(string \<times> workflowJob) list"

definition zero_job :: workflowJob where
  "zero_job = \<lparr>wj_Env = [], wj_If = [], wj_Needs = NilValue, wj_RunsOn = [], wj_Permissions = [],
     wj_Concurrency = \<lparr>cc_Group = [], cc_CancelInProgress = False, cc_Queue = []\<rparr>, wj_Outputs = [], wj_Steps = []\<rparr>"

definition job_named :: "workflowDocument \<Rightarrow> string \<Rightarrow> workflowJob" where
  "job_named document name = (case map_of (wd_Jobs document) name of None \<Rightarrow> zero_job | Some job \<Rightarrow> job)"

section \<open>Constants\<close>

definition run_suffix :: string where "run_suffix = ''-${{ github.run_id }}-${{ github.run_attempt }}''"

definition tarballArtifactName :: string where "tarballArtifactName = ''js-ts-npm-package-tarball'' @ run_suffix"
definition metadataArtifactName :: string where "metadataArtifactName = ''js-ts-npm-build-metadata'' @ run_suffix"
definition provenanceBundleArtifactName :: string where
  "provenanceBundleArtifactName = ''js-ts-npm-provenance-bundle'' @ run_suffix"
definition outcomeReportArtifactName :: string where
  "outcomeReportArtifactName = ''js-ts-npm-outcome-report'' @ run_suffix"
definition builtSourceExpression :: string where "builtSourceExpression = ''${{ inputs.source-ref || github.ref }}''"
definition buildConcurrencyGroup :: string where
  "buildConcurrencyGroup = ''npm-build-${{ github.repository }}-'' @ builtSourceExpression"
definition signConcurrencyGroup :: string where
  "signConcurrencyGroup = ''npm-provenance-sign-${{ github.repository }}-'' @ builtSourceExpression"
definition publishConcurrencyGroup :: string where
  "publishConcurrencyGroup = ''release-mutation-${{ github.repository }}-'' @ builtSourceExpression"

definition toolchainAssertCommand :: string where
  "toolchainAssertCommand = ''go run ./cmd/slsa-builder-internal npm-profile-toolchain-assert''"
definition provisionNPMCommand :: string where
  "provisionNPMCommand = ''go run ./cmd/slsa-builder-internal npm-profile-provision-npm''"
definition outcomeReportPath :: string where
  "outcomeReportPath = ''${{ runner.temp }}/windlass-npm-outcome-report.json''"
definition publishToolchainGate :: string where
  "publishToolchainGate = ''needs.build.result == 'success' && needs.provenance-sign.result == 'success'' @ [CHR 0x27]"

definition in_double_quotes :: "string \<Rightarrow> string" where
  "in_double_quotes s = CHR 0x22 # s @ [CHR 0x22]"

definition provisionNodeCommand :: string where
  "provisionNodeCommand = ''go run ./cmd/slsa-builder-internal npm-profile-provision-node --output-directory ''
     @ in_double_quotes ''${{ runner.temp }}/windlass-node-runtime'' @ '' --github-output '' @ in_double_quotes ''$GITHUB_OUTPUT''"

definition report_path_argument :: string where
  "report_path_argument = ''--report-path '' @ in_double_quotes ''$REPORT_PATH''"

section \<open>Small checks\<close>

definition wf_error :: "string \<Rightarrow> go_error" where
  "wf_error message = ErrText message []"

definition containsAll :: "string \<Rightarrow> string list \<Rightarrow> bool" where
  "containsAll value required = list_all (Contains value) required"

definition hasWritePermission :: "string_map \<Rightarrow> string list \<Rightarrow> bool" where
  "hasWritePermission permissions names = list_ex (\<lambda>name. at_key permissions name = ''write'') names"

definition normalizeExpression :: "string \<Rightarrow> string" where
  "normalizeExpression value = TrimSpace (TrimSuffix (TrimPrefix (TrimSpace value) ''${{'') ''}}'')"

definition joined_fields :: "string \<Rightarrow> string" where
  "joined_fields s = join_with '' '' (Fields s)"

definition sortedNeeds :: "yaml_any \<Rightarrow> string list" where
  "sortedNeeds value = sort (case value of StringValue s \<Rightarrow> [s] | ListValue vs \<Rightarrow> map scalar vs | _ \<Rightarrow> [])"

definition checkNodeEnvironment :: "string_map \<Rightarrow> go_error option" where
  "checkNodeEnvironment environment =
     (if list_ex (\<lambda>(key, value). key = ''PATH'' \<or> key = ''RUNNER_TOOL_CACHE'' \<or> runnerToolcacheReference value) environment
      then Some (wf_error ''runtime environment must preserve the provisioned PATH, not a runner toolcache binding'')
      else None)"

definition readWorkflow :: "(string \<Rightarrow> workflowDocument option) \<Rightarrow> string option \<Rightarrow> workflowDocument result" where
  "readWorkflow yaml contents =
     (case contents of
        None \<Rightarrow> Inl (wf_error ''read workflow: %w'')
      | Some encoded \<Rightarrow>
          (case yaml encoded of
             None \<Rightarrow> Inl (wf_error ''decode workflow: %w'')
           | Some document \<Rightarrow>
               (case checkNodeEnvironment (wd_Env document) of
                  Some err \<Rightarrow> Inl (ErrWrap ''workflow environment: %w'' [] [err])
                | None \<Rightarrow> Inr document)))"

section \<open>The toolchain\<close>

text \<open>The scanned text of a step.\<close>

definition scan_of :: "workflowStep \<Rightarrow> string" where
  "scan_of step = toolchainInvocationText (toolchainShellText (ws_Run step))"

text \<open>What makes a step one of the toolchain: the builder's subcommands, PATH and the npm executable.\<close>

definition toolchain_markers :: "string list" where
  "toolchain_markers =
     [''npm-profile-provision-node'', ''GITHUB_PATH'', ''npm-profile-toolchain-assert'', ''npm-profile-provision-npm'',
      ''npm-profile-build'', ''npm-profile-sign'', ''npm-profile-publish'', ''npm-executable'', ''NPM_EXECUTABLE'']"

definition toolchain_step :: "workflowStep \<Rightarrow> bool" where
  "toolchain_step step \<longleftrightarrow>
     runtimeReference (scan_of step) \<or> list_ex (Contains (scan_of step)) toolchain_markers"

definition condition_of :: "workflowStep \<Rightarrow> string" where
  "condition_of step = joined_fields (normalizeExpression (ws_If step))"

text \<open>The loop of checkToolchainConditions with the gate seen so far.\<close>

fun check_conditions :: "string option \<Rightarrow> workflowStep list \<Rightarrow> go_error option" where
  "check_conditions gate [] = None"
| "check_conditions gate (step # steps) =
     (if \<not> toolchain_step step then check_conditions gate steps
      else if normalizeExpression (condition_of step) = ''false'' \<or> (gate \<noteq> None \<and> gate \<noteq> Some (condition_of step)) then
        Some (wf_error ''toolchain step conditions must be identical and not constant false'')
      else check_conditions (Some (condition_of step)) steps)"

definition checkToolchainConditions :: "workflowStep list \<Rightarrow> go_error option" where
  "checkToolchainConditions steps = check_conditions None steps"

definition nodeBindingCommand :: "string \<Rightarrow> string" where
  "nodeBindingCommand ident =
     ''echo '' @ in_double_quotes (''${{ steps.'' @ ident @ ''.outputs.node-bin }}'') @ '' >> '' @ in_double_quotes ''$GITHUB_PATH''"

record toolchainPolicy =
  tp_job :: string
  tp_publish :: bool

text \<open>An index that has not been found is \<^const>\<open>None\<close>.\<close>

record toolchainSpine =
  sp_provisionIndex :: "nat option"
  sp_bindIndex :: "nat option"

definition no_spine :: toolchainSpine where
  "no_spine = \<lparr>sp_provisionIndex = None, sp_bindIndex = None\<rparr>"

text \<open>What must not run before PATH is bound.\<close>

definition runtime_use :: "string \<Rightarrow> bool" where
  "runtime_use scan \<longleftrightarrow>
     runtimeReference scan \<or>
     list_ex (Contains scan) [''npm-profile-toolchain-assert'', ''npm-profile-provision-npm'', ''npm-profile-build'',
       ''npm-profile-sign'', ''npm-profile-publish'']"

definition provisioning_ok :: "toolchainPolicy \<Rightarrow> toolchainSpine \<Rightarrow> workflowStep \<Rightarrow> string \<Rightarrow> bool" where
  "provisioning_ok policy spine step run \<longleftrightarrow>
     \<not> (sp_provisionIndex spine \<noteq> None \<or> ws_ID step = [] \<or> ws_WorkingDirectory step \<noteq> ''.slsa-builder'' \<or>
        joined_fields run \<noteq> provisionNodeCommand @ (if tp_publish policy then '' '' @ report_path_argument else []) \<or>
        (\<not> tp_publish policy \<and> TrimSpace (ws_If step) \<noteq> []))"

fun check_provisioning ::
  "workflowStep list \<Rightarrow> toolchainPolicy \<Rightarrow> toolchainSpine \<Rightarrow> nat \<Rightarrow> workflowStep list \<Rightarrow> toolchainSpine result" where
  "check_provisioning all policy spine i [] = Inr spine"
| "check_provisioning all policy spine i (step # steps) =
     (let run = exactToolchainCommand (toolchainShellText (ws_Run step)); scan = toolchainInvocationText run in
      if Contains (ToLower (ws_Uses step)) ''setup-node@'' \<or> runnerToolcacheReference scan then
        Inl (wf_error ''%s job must not obtain Node.js from a setup action or runner toolcache'')
      else if runtimePathOverride scan then Inl (wf_error ''%s runtime use must resolve through the provisioned PATH'')
      else
        (case checkNodeEnvironment (ws_Env step) of
           Some err \<Rightarrow> Inl err
         | None \<Rightarrow>
             if Contains scan ''npm-profile-provision-node'' then
               (if tp_publish policy \<and> at_key (ws_Env step) ''REPORT_PATH'' \<noteq> outcomeReportPath then
                  Inl (wf_error ''publish Node.js provisioning must persist the outcome report'')
                else if \<not> provisioning_ok policy spine step run then
                  Inl (wf_error ''%s job must provision Node.js unconditionally from the trusted checkout with an id, output directory, and GitHub output'')
                else check_provisioning all policy (spine\<lparr>sp_provisionIndex := Some i\<rparr>) (i + 1) steps)
             else if Contains scan ''GITHUB_PATH'' \<or> Contains scan ''.outputs.node-bin'' then
               (case sp_provisionIndex spine of
                  None \<Rightarrow> Inl (wf_error ''%s job must bind PATH exactly to the Node.js provisioning output'')
                | Some p \<Rightarrow>
                    if sp_bindIndex spine \<noteq> None \<or> run \<noteq> nodeBindingCommand (ws_ID (all ! p)) then
                      Inl (wf_error ''%s job must bind PATH exactly to the Node.js provisioning output'')
                    else check_provisioning all policy (spine\<lparr>sp_bindIndex := Some i\<rparr>) (i + 1) steps)
             else if sp_bindIndex spine = None \<and> runtime_use scan then
               Inl (wf_error ''%s job must provision and bind Node.js before runtime use'')
             else check_provisioning all policy spine (i + 1) steps))"

definition checkNodeProvisioning :: "workflowJob \<Rightarrow> toolchainPolicy \<Rightarrow> toolchainSpine result" where
  "checkNodeProvisioning job policy =
     guarded (checkToolchainConditions (wj_Steps job))
     (guarded (checkNodeEnvironment (wj_Env job))
     (case check_provisioning (wj_Steps job) policy no_spine 0 (wj_Steps job) of
        Inl err \<Rightarrow> Inl err
      | Inr spine \<Rightarrow>
          if sp_bindIndex spine = None then Inl (wf_error ''%s job must provision and bind Node.js'') else Inr spine))"

text \<open>The loop of checkPairAssertion; \<^const>\<open>None\<close> for no assertion yet.\<close>

definition pair_runtime :: "string \<Rightarrow> bool" where
  "pair_runtime scan \<longleftrightarrow> npmReference scan \<or> Contains scan ''npm-profile-build'' \<or> Contains scan ''npm-profile-sign''"

definition not_after :: "nat \<Rightarrow> nat option \<Rightarrow> bool" where
  "not_after i bound \<longleftrightarrow> (case bound of None \<Rightarrow> True | Some b \<Rightarrow> i \<le> b)"

fun check_pair :: "toolchainSpine \<Rightarrow> nat option \<Rightarrow> nat \<Rightarrow> workflowStep list \<Rightarrow> nat option result" where
  "check_pair spine firstAssert i [] = Inr firstAssert"
| "check_pair spine firstAssert i (step # steps) =
     (let run = toolchainShellText (ws_Run step); scan = toolchainInvocationText run in
      if pair_runtime scan \<and> not_after i firstAssert then
        Inl (wf_error ''%s toolchain pair assertion must precede every npm invocation'')
      else if Contains scan ''npm-profile-toolchain-assert'' then
        (if not_after i (sp_bindIndex spine) \<or> ws_WorkingDirectory step \<noteq> ''.slsa-builder''
            \<or> exactToolchainCommand run \<noteq> toolchainAssertCommand then
           Inl (wf_error ''%s job must invoke npm-profile-toolchain-assert from the trusted checkout after Node.js setup'')
         else check_pair spine (case firstAssert of None \<Rightarrow> Some i | Some a \<Rightarrow> Some (min a i)) (i + 1) steps)
      else check_pair spine firstAssert (i + 1) steps)"

definition checkPairAssertion :: "workflowStep list \<Rightarrow> toolchainSpine \<Rightarrow> go_error option" where
  "checkPairAssertion steps spine =
     (case check_pair spine None 0 steps of
        Inl err \<Rightarrow> Some err
      | Inr None \<Rightarrow> Some (wf_error ''%s job must invoke npm-profile-toolchain-assert before npm'')
      | Inr (Some _) \<Rightarrow> None)"

section \<open>The publish toolchain\<close>

definition executable_output :: "string \<Rightarrow> string" where
  "executable_output ident = ''${{ steps.'' @ ident @ ''.outputs.npm-executable }}''"

definition in_single_quotes :: "string \<Rightarrow> string" where
  "in_single_quotes s = CHR 0x27 # s @ [CHR 0x27]"

text \<open>The texts an executable argument may have.\<close>

definition allowed_arguments :: "string \<Rightarrow> string list" where
  "allowed_arguments result =
     [in_double_quotes result, in_single_quotes result, in_double_quotes ''${{ env.NPM_EXECUTABLE }}'',
      in_single_quotes ''${{ env.NPM_EXECUTABLE }}'', in_double_quotes ''$NPM_EXECUTABLE'',
      in_double_quotes ''${NPM_EXECUTABLE}'']"

text \<open>One use of the npm executable: its binding, the references in the script and, for the publication, the one argument.\<close>

definition executable_use_error :: "workflowJob \<Rightarrow> string \<Rightarrow> workflowStep \<Rightarrow> string \<Rightarrow> string \<Rightarrow> go_error option" where
  "executable_use_error job provisionID step run scan =
     (let result = executable_output provisionID;
          bound = Contains scan ''NPM_EXECUTABLE'';
          binding = (case map_of (ws_Env step) ''NPM_EXECUTABLE'' of
                       None \<Rightarrow> at_key (wj_Env job) ''NPM_EXECUTABLE'' | Some b \<Rightarrow> b);
          replaced = (if bound then replace_with [(''${{ env.NPM_EXECUTABLE }}'', result), (''$NPM_EXECUTABLE'', result),
                        (''${NPM_EXECUTABLE}'', result)] run else run)
      in if bound \<and> binding \<noteq> result then Some (wf_error ''NPM_EXECUTABLE must bind to %s'')
         else if \<not> Contains replaced result \<or> Contains (ReplaceAll replaced result []) ''.outputs.npm-executable'' then
           Some (wf_error ''publish npm references must use %s'')
         else if Contains scan ''npm-profile-publish'' \<and>
             (length (npmExecutableArguments run) \<noteq> 1 \<or> Count run ''--npm-executable'' \<noteq> 1 \<or>
              hd (npmExecutableArguments run) \<notin> set (allowed_arguments result)) then
           Some (wf_error ''npm-profile-publish --npm-executable must use exactly one pinned output argument: %s'')
         else None)"

definition publish_assert_ok :: "toolchainSpine \<Rightarrow> nat \<Rightarrow> workflowStep \<Rightarrow> string \<Rightarrow> bool" where
  "publish_assert_ok spine i step run \<longleftrightarrow>
     \<not> (not_after i (sp_bindIndex spine) \<or> ws_WorkingDirectory step \<noteq> ''.slsa-builder'' \<or>
        exactToolchainCommand run \<noteq> toolchainAssertCommand @ '' --node-only '' @ report_path_argument \<or>
        at_key (ws_Env step) ''REPORT_PATH'' \<noteq> outcomeReportPath)"

definition publish_provision_ok :: "nat option \<Rightarrow> nat \<Rightarrow> workflowStep \<Rightarrow> string \<Rightarrow> bool" where
  "publish_provision_ok firstAssert i step run \<longleftrightarrow>
     \<not> ((case firstAssert of None \<Rightarrow> True | Some a \<Rightarrow> i < a) \<or> ws_ID step = [] \<or> ws_WorkingDirectory step \<noteq> ''.slsa-builder'' \<or>
        \<not> HasPrefix (TrimSpace run) (provisionNPMCommand @ '' '') \<or>
        \<not> containsAll run [''--output-directory '' @ in_double_quotes ''${{ runner.temp }}/windlass-npm-cli'',
             ''--github-output '' @ in_double_quotes ''$GITHUB_OUTPUT'', report_path_argument] \<or>
        at_key (ws_Env step) ''REPORT_PATH'' \<noteq> outcomeReportPath)"

text \<open>The second loop of checkPublishToolchain: the first assertion and the provisioning step, its ID with it.\<close>

fun check_publish ::
  "workflowJob \<Rightarrow> toolchainSpine \<Rightarrow> nat option \<Rightarrow> (nat \<times> string) option \<Rightarrow> nat \<Rightarrow> workflowStep list
    \<Rightarrow> (nat option \<times> (nat \<times> string) option) result" where
  "check_publish job spine firstAssert provision i [] = Inr (firstAssert, provision)"
| "check_publish job spine firstAssert provision i (step # steps) =
     (let run = toolchainShellText (ws_Run step); scan = toolchainInvocationText run;
          asserts = Contains scan ''npm-profile-toolchain-assert'';
          provisions = Contains scan ''npm-profile-provision-npm'';
          uses = (Contains scan ''npm-executable'' \<or> Contains scan ''npm-profile-publish'' \<or> Contains scan ''NPM_EXECUTABLE'');
          firstAssert' = (if asserts then (case firstAssert of None \<Rightarrow> Some i | Some a \<Rightarrow> Some (min a i)) else firstAssert);
          provision' = (if provisions then Some (i, ws_ID step) else provision)
      in if npmReference scan then
           Inl (wf_error ''publish job must use the provisioning output instead of ambient npm'')
         else if asserts \<and> \<not> publish_assert_ok spine i step run then
           Inl (wf_error ''publish job must invoke npm-profile-toolchain-assert --node-only --report-path after Node.js setup'')
         else if provisions \<and> provision \<noteq> None then
           Inl (wf_error ''publish job must contain exactly one npm-profile-provision-npm step'')
         else if provisions \<and> \<not> publish_provision_ok firstAssert' i step run then
           Inl (wf_error ''publish npm provisioning must have an id, emit GitHub outputs, and persist a failure report after the node-only assertion'')
         else if uses then
           (case provision' of
              None \<Rightarrow> Inl (wf_error ''npm provisioning must precede publish diagnostics and npm-profile-publish'')
            | Some (_, ident) \<Rightarrow>
                (case executable_use_error job ident step run scan of
                   Some err \<Rightarrow> Inl err
                 | None \<Rightarrow> check_publish job spine firstAssert' provision' (i + 1) steps))
         else check_publish job spine firstAssert' provision' (i + 1) steps)"

definition checkPublishToolchain :: "workflowJob \<Rightarrow> toolchainSpine \<Rightarrow> go_error option" where
  "checkPublishToolchain job spine =
     (if list_ex (\<lambda>step. toolchain_step step \<and> normalizeExpression (condition_of step) \<noteq> publishToolchainGate) (wj_Steps job)
      then Some (wf_error ''publish toolchain step conditions must use the upstream-success gate'')
      else
        (case check_publish job spine None None 0 (wj_Steps job) of
           Inl err \<Rightarrow> Some err
         | Inr (firstAssert, provision) \<Rightarrow>
             if firstAssert = None \<or> provision = None then
               Some (wf_error ''publish job must invoke npm-profile-toolchain-assert --node-only and npm-profile-provision-npm'')
             else None))"

section \<open>The build job\<close>

definition hardened_first :: "workflowStep list \<Rightarrow> bool" where
  "hardened_first steps \<longleftrightarrow>
     (case steps of
        [] \<Rightarrow> False
      | first # _ \<Rightarrow> HasPrefix (ws_Uses first) ''step-security/harden-runner@'' \<and> with_scalar first ''egress-policy'' = ''audit'')"

definition unpinned :: "workflowStep \<Rightarrow> bool" where
  "unpinned step \<longleftrightarrow> ws_Uses step \<noteq> [] \<and> \<not> pinnedAction (ws_Uses step)"

definition trusted_checkout :: "workflowStep \<Rightarrow> bool" where
  "trusted_checkout step \<longleftrightarrow>
     with_scalar step ''repository'' = ''${{ job.workflow_repository }}'' \<and>
     with_scalar step ''ref'' = ''${{ job.workflow_sha }}'' \<and> with_scalar step ''persist-credentials'' = ''false''"

record build_facts =
  bf_trustedCheckout :: bool
  bf_resolverIndex :: "nat option"
  bf_packageCheckoutIndex :: "nat option"
  bf_corepack :: bool
  bf_build :: bool
  bf_artifacts :: "string list"

definition no_build_facts :: build_facts where
  "no_build_facts = \<lparr>bf_trustedCheckout = False, bf_resolverIndex = None, bf_packageCheckoutIndex = None,
     bf_corepack = False, bf_build = False, bf_artifacts = []\<rparr>"

text \<open>The switch over the action a build step uses.\<close>

definition build_uses :: "nat \<Rightarrow> workflowStep \<Rightarrow> build_facts \<Rightarrow> build_facts result" where
  "build_uses i step facts =
     (if HasPrefix (ws_Uses step) ''actions/checkout@'' then
        (let path = with_scalar step ''path'' in
         if path = ''.slsa-builder'' then Inr (facts\<lparr>bf_trustedCheckout := trusted_checkout step\<rparr>)
         else if path = ''source'' then
           (if with_scalar step ''ref'' \<noteq> ''${{ steps.source-ref.outputs.built-revision }}''
               \<or> with_scalar step ''persist-credentials'' \<noteq> ''false'' then
              Inl (wf_error ''package source checkout must use the resolved built revision without persisted credentials'')
            else Inr (facts\<lparr>bf_packageCheckoutIndex := Some i\<rparr>))
         else Inr facts)
      else if HasPrefix (ws_Uses step) ''actions/upload-artifact@'' then
        Inr (facts\<lparr>bf_artifacts := bf_artifacts facts @ [with_scalar step ''name'']\<rparr>)
      else Inr facts)"

definition build_run :: "nat \<Rightarrow> workflowStep \<Rightarrow> build_facts \<Rightarrow> build_facts result" where
  "build_run i step facts =
     (let run = ws_Run step;
          facts1 = (if Contains run ''corepack enable'' then facts\<lparr>bf_corepack := True\<rparr> else facts);
          facts2 = (if Contains run ''npm-profile-build'' then facts1\<lparr>bf_build := containsAll run
              [''--source-ref'', ''--invocation-ref'', ''--invocation-revision'', ''--ref'', ''--revision'']\<rparr> else facts1)
      in if Contains run ''npm-profile-source-ref'' then
           (if ws_ID step \<noteq> ''source-ref'' \<or> ws_WorkingDirectory step \<noteq> ''.slsa-builder'' \<or> \<not> containsAll run
                [''--source-ref'', ''--ref'', ''--ref-type'', ''--revision'', ''--observed-repository'', ''--github-output''] then
              Inl (wf_error ''source-ref resolver must expose trusted built-source outputs from invocation observations'')
            else Inr (facts2\<lparr>bf_resolverIndex := Some i\<rparr>))
         else Inr facts2)"

fun scan_build_steps :: "nat \<Rightarrow> build_facts \<Rightarrow> workflowStep list \<Rightarrow> build_facts result" where
  "scan_build_steps i facts [] = Inr facts"
| "scan_build_steps i facts (step # steps) =
     (if unpinned step then Inl (wf_error ''action reference %q is not pinned to a full SHA'')
      else
        (case bind_result (build_uses i step facts) (build_run i step) of
           Inl err \<Rightarrow> Inl err
         | Inr facts' \<Rightarrow> scan_build_steps (i + 1) facts' steps))"

definition checkSteps :: "workflowStep list \<Rightarrow> string list result" where
  "checkSteps steps =
     (if steps = [] \<or> \<not> HasPrefix (ws_Uses (hd steps)) ''step-security/harden-runner@'' then
        Inl (wf_error ''harden-runner must be the first build step'')
      else if \<not> hardened_first steps then Inl (wf_error ''harden-runner must use egress-policy audit'')
      else
        (case scan_build_steps 0 no_build_facts steps of
           Inl err \<Rightarrow> Inl err
         | Inr facts \<Rightarrow>
             if \<not> bf_trustedCheckout facts then
               Inl (wf_error ''build job must checkout the trusted builder at job.workflow_sha without credentials'')
             else if (case (bf_resolverIndex facts, bf_packageCheckoutIndex facts) of
                        (Some r, Some p) \<Rightarrow> r \<ge> p | _ \<Rightarrow> True) then
               Inl (wf_error ''source-ref resolver must precede the package source checkout'')
             else
               (let policy = \<lparr>tp_job = ''build'', tp_publish = False\<rparr> in
                case checkNodeProvisioning (zero_job\<lparr>wj_Steps := steps\<rparr>) policy of
                  Inl err \<Rightarrow> Inl err
                | Inr spine \<Rightarrow>
                    if \<not> bf_corepack facts then Inl (wf_error ''build job must enable Corepack'')
                    else if \<not> bf_build facts then Inl (wf_error ''build job must invoke npm-profile-build'')
                    else guarded (checkPairAssertion steps spine) (Inr (bf_artifacts facts)))))"

record BuildJobResult =
  br_Result :: string
  br_SigningPermission :: bool
  br_MutationPermission :: bool
  br_ArtifactNames :: "string list"

definition explicit_empty :: "workflowDocument \<Rightarrow> bool" where
  "explicit_empty document \<longleftrightarrow> wd_Permissions document = Some []"

definition empty_permissions_error :: go_error where
  "empty_permissions_error = wf_error ''top-level permissions must be an explicit empty mapping''"

definition check_build_document :: "workflowDocument \<Rightarrow> BuildJobResult result" where
  "check_build_document document =
     (if \<not> explicit_empty document then Inl empty_permissions_error
      else
     (case map_of (wd_Jobs document) ''build'' of
        None \<Rightarrow> Inl (wf_error ''workflow has no build job'')
      | Some build \<Rightarrow>
          (let permissions = wj_Permissions build; cc = wj_Concurrency build in
           if hasWritePermission permissions [''id-token'', ''attestations''] then
             Inl (wf_error ''build job must not have signing permission'')
           else if hasWritePermission permissions [''contents'', ''packages'', ''artifact-metadata''] then
             Inl (wf_error ''build job must not have mutation permission'')
           else if length permissions \<noteq> 1 \<or> at_key permissions ''contents'' \<noteq> ''read'' then
             Inl (wf_error ''build job permissions must be exactly contents: read'')
           else if wj_RunsOn build \<noteq> ''ubuntu-24.04'' then Inl (wf_error ''build job runs-on must be ubuntu-24.04'')
           else if cc_Group cc \<noteq> buildConcurrencyGroup \<or> \<not> cc_CancelInProgress cc \<or> cc_Queue cc \<noteq> [] then
             Inl (wf_error ''build job must use the pre-mutation concurrency contract'')
           else
             guarded (checkNodeEnvironment (wj_Env build))
             (case checkSteps (wj_Steps build) of
                Inl err \<Rightarrow> Inl err
              | Inr artifacts \<Rightarrow>
                  if sort artifacts \<noteq> [metadataArtifactName, tarballArtifactName] then
                    Inl (wf_error ''build job artifact names are %q, want %q'')
                  else Inr \<lparr>br_Result = ''pass'', br_SigningPermission = False, br_MutationPermission = False,
                         br_ArtifactNames = sort artifacts\<rparr>))))"

definition CheckBuildJob :: "(string \<Rightarrow> workflowDocument option) \<Rightarrow> string option \<Rightarrow> BuildJobResult result" where
  "CheckBuildJob yaml contents = bind_result (readWorkflow yaml contents) check_build_document"

section \<open>The signing job\<close>

record ProvenanceSignJobResult =
  pr_Result :: string
  pr_OIDCPermission :: bool
  pr_AttestationStoragePermission :: bool
  pr_MutationPermission :: bool
  pr_BundleArtifactName :: string

record sign_facts =
  sf_downloads :: "string list"
  sf_trustedCheckout :: bool
  sf_signer :: bool
  sf_bundle :: string

fun scan_sign_steps :: "sign_facts \<Rightarrow> workflowStep list \<Rightarrow> sign_facts result" where
  "scan_sign_steps facts [] = Inr facts"
| "scan_sign_steps facts (step # steps) =
     (let uses = ws_Uses step;
          facts1 =
            (if HasPrefix uses ''actions/checkout@'' then Inr (facts\<lparr>sf_trustedCheckout := trusted_checkout step\<rparr>)
             else if HasPrefix uses ''actions/download-artifact@'' then
               Inr (facts\<lparr>sf_downloads := sf_downloads facts @ [with_scalar step ''name'']\<rparr>)
             else if HasPrefix uses ''actions/upload-artifact@'' then
               (if \<not> HasSuffix (with_scalar step ''path'') ''/*.intoto.jsonl'' then
                  Inl (wf_error ''provenance bundle upload must select only the deterministic bundle file'')
                else Inr (facts\<lparr>sf_bundle := with_scalar step ''name''\<rparr>))
             else Inr facts)
      in if unpinned step then Inl (wf_error ''action reference %q is not pinned to a full SHA'')
         else if HasPrefix uses ''actions/attest@'' then Inl (wf_error ''actions/attest is forbidden in provenance-sign'')
         else
           (case facts1 of
              Inl err \<Rightarrow> Inl err
            | Inr f \<Rightarrow>
                scan_sign_steps
                  (if Contains (ws_Run step) ''npm-profile-sign'' then
                     f\<lparr>sf_signer :=
                       containsAll (ws_Run step) [''--built-ref '' @ in_double_quotes ''$BUILT_REF'',
                         ''--built-revision '' @ in_double_quotes ''$BUILT_REVISION''] \<and>
                       at_key (ws_Env step) ''BUILT_REF'' = ''${{ needs.build.outputs.built-ref }}'' \<and>
                       at_key (ws_Env step) ''BUILT_REVISION'' = ''${{ needs.build.outputs.built-revision }}''\<rparr>
                   else f) steps))"

definition checkProvenanceSignSteps :: "workflowStep list \<Rightarrow> string result" where
  "checkProvenanceSignSteps steps =
     (if \<not> hardened_first steps then
        Inl (wf_error ''harden-runner with audit egress must be the first provenance-sign step'')
      else
        (case scan_sign_steps \<lparr>sf_downloads = [], sf_trustedCheckout = False, sf_signer = False, sf_bundle = []\<rparr> steps of
           Inl err \<Rightarrow> Inl err
         | Inr facts \<Rightarrow>
             if sort (sf_downloads facts) \<noteq> [metadataArtifactName, tarballArtifactName] then
               Inl (wf_error ''provenance-sign handoff downloads are %q, want %q'')
             else if \<not> sf_trustedCheckout facts then
               Inl (wf_error ''provenance-sign must checkout the trusted builder at job.workflow_sha without credentials'')
             else if \<not> sf_signer facts then
               Inl (wf_error ''provenance-sign must invoke npm-profile-sign with resolver built-source outputs'')
             else if sf_bundle facts \<noteq> provenanceBundleArtifactName then
               Inl (wf_error ''provenance bundle artifact name is %q, want %q'')
             else
               (let policy = \<lparr>tp_job = ''provenance-sign'', tp_publish = False\<rparr> in
                case checkNodeProvisioning (zero_job\<lparr>wj_Steps := steps\<rparr>) policy of
                  Inl err \<Rightarrow> Inl err
                | Inr spine \<Rightarrow> guarded (checkPairAssertion steps spine) (Inr (sf_bundle facts)))))"

definition check_sign_document :: "workflowDocument \<Rightarrow> ProvenanceSignJobResult result" where
  "check_sign_document document =
     (if \<not> explicit_empty document then Inl empty_permissions_error
      else
     (case map_of (wd_Jobs document) ''provenance-sign'' of
        None \<Rightarrow> Inl (wf_error ''workflow has no provenance-sign job'')
      | Some job \<Rightarrow>
          (let permissions = wj_Permissions job;
               oidc = (at_key permissions ''id-token'' = ''write'');
               storage = (at_key permissions ''attestations'' = ''write'');
               mutation = hasWritePermission permissions [''contents'', ''packages'', ''artifact-metadata''];
               outputs = wj_Outputs (job_named document ''build'')
           in if length permissions \<noteq> 2 \<or> at_key permissions ''contents'' \<noteq> ''read'' \<or> \<not> oidc then
                Inl (wf_error ''provenance-sign permissions must be exactly contents: read and id-token: write'')
              else if storage \<or> mutation then
                Inl (wf_error ''provenance-sign must not have storage or mutation permission'')
              else if wj_RunsOn job \<noteq> ''ubuntu-24.04'' then Inl (wf_error ''provenance-sign runs-on must be ubuntu-24.04'')
              else if scalar (wj_Needs job) \<noteq> ''build'' then Inl (wf_error ''provenance-sign must depend only on build'')
              else if at_key outputs ''built-ref'' \<noteq> ''${{ steps.source-ref.outputs.built-ref }}''
                  \<or> at_key outputs ''built-revision'' \<noteq> ''${{ steps.source-ref.outputs.built-revision }}'' then
                Inl (wf_error ''build job must expose resolver built-source outputs to provenance-sign'')
              else
                guarded (checkNodeEnvironment (wj_Env job))
                (case checkProvenanceSignSteps (wj_Steps job) of
                   Inl err \<Rightarrow> Inl err
                 | Inr bundle \<Rightarrow> Inr \<lparr>pr_Result = ''pass'', pr_OIDCPermission = oidc, pr_AttestationStoragePermission = storage,
                     pr_MutationPermission = mutation, pr_BundleArtifactName = bundle\<rparr>))))"

definition CheckProvenanceSignJob :: "(string \<Rightarrow> workflowDocument option) \<Rightarrow> string option \<Rightarrow> ProvenanceSignJobResult result" where
  "CheckProvenanceSignJob yaml contents = bind_result (readWorkflow yaml contents) check_sign_document"

section \<open>The publish job\<close>

record PublishJobResult =
  pj_Result :: string
  pj_OIDCPermission :: bool
  pj_MutationPermission :: bool
  pj_MutationKey :: string
  pj_CancelInProgress :: bool
  pj_Queue :: string
  pj_AlwaysRunReport :: bool

definition always_runs :: "string \<Rightarrow> bool" where
  "always_runs condition \<longleftrightarrow> normalizeExpression condition = ''always()''"

fun scan_publish_steps :: "string list \<Rightarrow> workflowStep list \<Rightarrow> string list result" where
  "scan_publish_steps downloads [] = Inr downloads"
| "scan_publish_steps downloads (step # steps) =
     (if unpinned step then Inl (wf_error ''action reference %q is not pinned to a full SHA'')
      else if HasPrefix (ws_Uses step) ''actions/attest@'' then Inl (wf_error ''actions/attest is forbidden in publish'')
      else scan_publish_steps
        (if HasPrefix (ws_Uses step) ''actions/download-artifact@'' then downloads @ [with_scalar step ''name''] else downloads)
        steps)"

definition publishes :: "workflowStep \<Rightarrow> bool" where
  "publishes step \<longleftrightarrow> Contains (ws_Run step) ''npm-profile-publish''"

definition reports :: "workflowStep \<Rightarrow> bool" where
  "reports step \<longleftrightarrow> Contains (ws_Run step) ''npm-profile-report'' \<and> always_runs (ws_If step)"

definition uploads_report :: "workflowStep \<Rightarrow> bool" where
  "uploads_report step \<longleftrightarrow> HasPrefix (ws_Uses step) ''actions/upload-artifact@'' \<and> always_runs (ws_If step) \<and>
     with_scalar step ''name'' = outcomeReportArtifactName"

definition checkPublishSteps :: "workflowJob \<Rightarrow> go_error option" where
  "checkPublishSteps job =
     (let steps = wj_Steps job in
      if \<not> hardened_first steps then Some (wf_error ''harden-runner with audit egress must be the first publish step'')
      else
        (case scan_publish_steps [] steps of
           Inl err \<Rightarrow> Some err
         | Inr downloads \<Rightarrow>
             if sort downloads \<noteq> [tarballArtifactName, provenanceBundleArtifactName] then
               Some (wf_error ''publish handoff downloads are %q'')
             else if \<not> list_ex publishes steps then Some (wf_error ''publish job must invoke npm-profile-publish'')
             else if \<not> (list_ex reports steps \<and> list_ex uploads_report steps) then
               Some (wf_error ''publish job must always generate and upload the outcome report'')
             else
               (case checkNodeProvisioning job \<lparr>tp_job = ''publish'', tp_publish = True\<rparr> of
                  Inl err \<Rightarrow> Some err
                | Inr spine \<Rightarrow> checkPublishToolchain job spine)))"

definition check_publish_document :: "workflowDocument \<Rightarrow> PublishJobResult result" where
  "check_publish_document document =
     (if \<not> explicit_empty document then Inl empty_permissions_error
      else
     (case map_of (wd_Jobs document) ''publish'' of
        None \<Rightarrow> Inl (wf_error ''workflow has no publish job'')
      | Some job \<Rightarrow>
          (let permissions = wj_Permissions job; cc = wj_Concurrency job;
               oidc = (at_key permissions ''id-token'' = ''write'');
               mutation = hasWritePermission permissions [''contents'', ''packages'', ''attestations'', ''artifact-metadata'']
           in if length permissions \<noteq> 2 \<or> at_key permissions ''contents'' \<noteq> ''read'' \<or> \<not> oidc then
                Inl (wf_error ''publish permissions must be exactly contents: read and id-token: write'')
              else if mutation then
                Inl (wf_error ''publish must not have GitHub storage or repository mutation permission'')
              else if wj_RunsOn job \<noteq> ''ubuntu-24.04'' then Inl (wf_error ''publish job runs-on must be ubuntu-24.04'')
              else if sortedNeeds (wj_Needs job) \<noteq> [''build'', ''provenance-sign''] then
                Inl (wf_error ''publish must depend exactly on build and provenance-sign'')
              else if \<not> always_runs (wj_If job) then
                Inl (wf_error ''publish job must run always so it can emit the outcome report'')
              else if cc_Group cc \<noteq> publishConcurrencyGroup \<or> cc_CancelInProgress cc \<or> cc_Queue cc \<noteq> ''max'' then
                Inl (wf_error ''publish job must use the exact queued mutation concurrency contract'')
              else
                guarded (checkPublishSteps job)
                  (Inr \<lparr>pj_Result = ''pass'', pj_OIDCPermission = oidc, pj_MutationPermission = mutation,
                     pj_MutationKey = cc_Group cc, pj_CancelInProgress = cc_CancelInProgress cc, pj_Queue = cc_Queue cc,
                     pj_AlwaysRunReport = True\<rparr>))))"

definition CheckPublishJob :: "(string \<Rightarrow> workflowDocument option) \<Rightarrow> string option \<Rightarrow> PublishJobResult result" where
  "CheckPublishJob yaml contents = bind_result (readWorkflow yaml contents) check_publish_document"

section \<open>The whole workflow\<close>

text \<open>The public inputs: name, type, required.\<close>

definition wantInputs :: "(string \<times> string \<times> bool) list" where
  "wantInputs =
     [(''package-directory'', ''string'', True), (''source-ref'', ''string'', False), (''registry-url'', ''string'', False),
      (''dist-tag'', ''string'', False), (''access'', ''string'', False), (''release-asset-mode'', ''boolean'', False),
      (''release-tag'', ''string'', False), (''provenance-sidecar'', ''string'', False),
      (''linked-artifact-metadata'', ''boolean'', False)]"

definition wantOutputs :: "string list" where
  "wantOutputs = [''package-name'', ''package-registry-url'', ''package-tarball-name'', ''package-tarball-sha256'',
     ''package-tarball-sha512'', ''package-url'', ''package-version'']"

definition input_error :: "workflowCall \<Rightarrow> string \<times> string \<times> bool \<Rightarrow> go_error option" where
  "input_error call want =
     (case want of (name, typeName, required) \<Rightarrow>
        (case map_of (wl_Inputs call) name of
           None \<Rightarrow> Some (wf_error ''workflow_call input %q has the wrong type or required state'')
         | Some input \<Rightarrow>
             if wi_Type input \<noteq> typeName \<or> wi_Required input \<noteq> required then
               Some (wf_error ''workflow_call input %q has the wrong type or required state'')
             else if typeName = ''boolean'' then
               (if wi_Default input \<noteq> BoolValue False then Some (wf_error ''boolean input %q must default to false'') else None)
             else if wi_Default input \<noteq> NilValue then
               Some (wf_error ''string input %q must not define a workflow_call default'')
             else None))"

fun first_error :: "go_error option list \<Rightarrow> go_error option" where
  "first_error [] = None"
| "first_error (e # es) = and_then e (first_error es)"

definition checkNPMWorkflowCall :: "workflowCall \<Rightarrow> go_error option" where
  "checkNPMWorkflowCall call =
     (if length (wl_Inputs call) \<noteq> length wantInputs then
        Some (wf_error ''workflow_call inputs must contain exactly the nine public inputs'')
      else
        and_then (first_error (map (input_error call) wantInputs))
        (if list_ex (\<lambda>(name, value). value \<noteq> ''${{ jobs.publish.outputs.'' @ name @ '' }}'') (wl_Outputs call) then
           Some (wf_error ''workflow_call output %q must map to the publish job'')
         else if sort (map fst (wl_Outputs call)) \<noteq> wantOutputs then
           Some (wf_error ''npm-only public outputs are %q, want %q'')
         else None))"

record NPMOnlyProfileResult =
  np_Result :: string
  np_Profile :: string
  np_Graph :: "string list"
  np_MutationKey :: string
  np_CancelInProgress :: bool
  np_Queue :: string
  np_Permissions :: "(string \<times> string_map) list"
  np_AlwaysRunReport :: bool

definition wantGraph :: "string list" where
  "wantGraph = [''build'', ''provenance-sign'', ''publish'']"

text \<open>The file is read four times; its contents at each reading are the argument.\<close>

definition CheckNPMOnlyProfile ::
  "(string \<Rightarrow> workflowDocument option) \<Rightarrow> (nat \<Rightarrow> string option) \<Rightarrow> NPMOnlyProfileResult result" where
  "CheckNPMOnlyProfile yaml reads =
     (case readWorkflow yaml (reads 0) of
        Inl err \<Rightarrow> Inl err
      | Inr document \<Rightarrow>
          guarded (checkNPMWorkflowCall (wd_On document))
     (if sort (map fst (wd_Jobs document)) \<noteq> wantGraph then Inl (wf_error ''npm-only graph is %q, want %q'')
      else
     (case CheckBuildJob yaml (reads 1) of
        Inl err \<Rightarrow> Inl (ErrWrap ''build contract: %w'' [] [err])
      | Inr _ \<Rightarrow>
     (case CheckProvenanceSignJob yaml (reads 2) of
        Inl err \<Rightarrow> Inl (ErrWrap ''provenance-sign contract: %w'' [] [err])
      | Inr _ \<Rightarrow>
          (let cc = wj_Concurrency (job_named document ''provenance-sign'') in
           if cc_Group cc \<noteq> signConcurrencyGroup \<or> \<not> cc_CancelInProgress cc \<or> cc_Queue cc \<noteq> [] then
             Inl (wf_error ''provenance-sign must use the pre-mutation concurrency contract'')
           else
     (case CheckPublishJob yaml (reads 3) of
        Inl err \<Rightarrow> Inl (ErrWrap ''publish contract: %w'' [] [err])
      | Inr publish \<Rightarrow>
          Inr \<lparr>np_Result = ''pass'', np_Profile = ''npm-only'', np_Graph = wantGraph, np_MutationKey = pj_MutationKey publish,
               np_CancelInProgress = pj_CancelInProgress publish, np_Queue = pj_Queue publish,
               np_Permissions = map (\<lambda>name. (name, wj_Permissions (job_named document name))) wantGraph,
               np_AlwaysRunReport = pj_AlwaysRunReport publish\<rparr>))))))"

section \<open>The shape of a provisioned job\<close>

text \<open>What the provisioning loop reads of a step.\<close>

definition run_of :: "workflowStep \<Rightarrow> string" where
  "run_of step = exactToolchainCommand (toolchainShellText (ws_Run step))"

definition scanned :: "workflowStep \<Rightarrow> string" where
  "scanned step = toolchainInvocationText (run_of step)"

definition provisions_node :: "workflowStep \<Rightarrow> bool" where
  "provisions_node step \<longleftrightarrow> Contains (scanned step) ''npm-profile-provision-node''"

definition touches_path :: "workflowStep \<Rightarrow> bool" where
  "touches_path step \<longleftrightarrow> Contains (scanned step) ''GITHUB_PATH'' \<or> Contains (scanned step) ''.outputs.node-bin''"

text \<open>No foreign Node.js and no other PATH.\<close>

definition base_ok :: "workflowStep \<Rightarrow> bool" where
  "base_ok step \<longleftrightarrow>
     \<not> Contains (ToLower (ws_Uses step)) ''setup-node@'' \<and> \<not> runnerToolcacheReference (scanned step) \<and>
     \<not> runtimePathOverride (scanned step) \<and> checkNodeEnvironment (ws_Env step) = None"

definition late_step :: "workflowStep \<Rightarrow> bool" where
  "late_step step \<longleftrightarrow> base_ok step \<and> \<not> provisions_node step \<and> \<not> touches_path step"

definition early_step :: "workflowStep \<Rightarrow> bool" where
  "early_step step \<longleftrightarrow> late_step step \<and> \<not> runtime_use (scanned step)"

definition provision_step :: "toolchainPolicy \<Rightarrow> workflowStep \<Rightarrow> bool" where
  "provision_step policy step \<longleftrightarrow>
     base_ok step \<and> provisions_node step \<and> provisioning_ok policy no_spine step (run_of step) \<and>
     (if tp_publish policy then at_key (ws_Env step) ''REPORT_PATH'' = outcomeReportPath else True)"

definition binding_step :: "string \<Rightarrow> workflowStep \<Rightarrow> bool" where
  "binding_step ident step \<longleftrightarrow>
     base_ok step \<and> \<not> provisions_node step \<and> touches_path step \<and> run_of step = nodeBindingCommand ident"

text \<open>One round of the loop in these terms.\<close>

lemma check_provisioning_step:
  "check_provisioning all policy spine i (step # steps) = Inr s \<longleftrightarrow>
     base_ok step \<and>
     (if provisions_node step then
        sp_provisionIndex spine = None \<and> provision_step policy step \<and>
        check_provisioning all policy (spine\<lparr>sp_provisionIndex := Some i\<rparr>) (i + 1) steps = Inr s
      else if touches_path step then
        sp_bindIndex spine = None \<and>
        (\<exists>p. sp_provisionIndex spine = Some p \<and> run_of step = nodeBindingCommand (ws_ID (all ! p))) \<and>
        check_provisioning all policy (spine\<lparr>sp_bindIndex := Some i\<rparr>) (i + 1) steps = Inr s
      else
        (if sp_bindIndex spine = None then early_step step else True) \<and>
        check_provisioning all policy spine (i + 1) steps = Inr s)"
  unfolding check_provisioning.simps Let_def run_of_def [symmetric] scanned_def [symmetric]
    provisions_node_def [symmetric] touches_path_def [symmetric]
  by (auto simp: base_ok_def early_step_def late_step_def provision_step_def provisioning_ok_def no_spine_def
      split: option.splits)

lemma provisioning_late:
  "check_provisioning all policy \<lparr>sp_provisionIndex = Some p, sp_bindIndex = Some b\<rparr> i steps = Inr s \<longleftrightarrow>
     list_all late_step steps \<and> s = \<lparr>sp_provisionIndex = Some p, sp_bindIndex = Some b\<rparr>"
proof (induction steps arbitrary: i)
  case (Cons step steps)
  show ?case unfolding check_provisioning_step using Cons by (auto simp: late_step_def)
qed auto

lemma provisioning_bound:
  "check_provisioning all policy \<lparr>sp_provisionIndex = Some p, sp_bindIndex = None\<rparr> i steps = Inr s \<and>
     sp_bindIndex s \<noteq> None \<longleftrightarrow>
   (\<exists>mid B post. steps = mid @ B # post \<and> list_all early_step mid \<and> binding_step (ws_ID (all ! p)) B \<and>
     list_all late_step post \<and> s = \<lparr>sp_provisionIndex = Some p, sp_bindIndex = Some (i + length mid)\<rparr>)"
  (is "?L i steps \<longleftrightarrow> ?R i steps")
proof (induction steps arbitrary: i)
  case (Cons step steps)
  show ?case
  proof (cases "touches_path step \<and> \<not> provisions_node step")
    case True
    have "?L i (step # steps) \<longleftrightarrow> binding_step (ws_ID (all ! p)) step \<and> list_all late_step steps \<and>
        s = \<lparr>sp_provisionIndex = Some p, sp_bindIndex = Some i\<rparr>"
      unfolding check_provisioning_step using True by (auto simp: provisioning_late binding_step_def)
    also have "\<dots> \<longleftrightarrow> ?R i (step # steps)"
    proof
      assume "?R i (step # steps)"
      then obtain mid B post where split: "step # steps = mid @ B # post" "list_all early_step mid"
        "binding_step (ws_ID (all ! p)) B" "list_all late_step post"
        "s = \<lparr>sp_provisionIndex = Some p, sp_bindIndex = Some (i + length mid)\<rparr>" by blast
      moreover from split True have "mid = []" by (cases mid) (auto simp: early_step_def late_step_def)
      ultimately show "binding_step (ws_ID (all ! p)) step \<and> list_all late_step steps \<and>
        s = \<lparr>sp_provisionIndex = Some p, sp_bindIndex = Some i\<rparr>" by simp
    qed (force intro: exI [of _ "[]"])
    finally show ?thesis .
  next
    case False
    have "?L i (step # steps) \<longleftrightarrow> early_step step \<and> ?L (i + 1) steps"
      unfolding check_provisioning_step using False
      by (auto simp: early_step_def late_step_def)
    also have "\<dots> \<longleftrightarrow> early_step step \<and> ?R (i + 1) steps" by (simp only: Cons.IH)
    also have "\<dots> \<longleftrightarrow> ?R i (step # steps)"
    proof
      assume "early_step step \<and> ?R (i + 1) steps"
      then obtain mid B post where "early_step step" "steps = mid @ B # post" "list_all early_step mid"
        "binding_step (ws_ID (all ! p)) B" "list_all late_step post"
        "s = \<lparr>sp_provisionIndex = Some p, sp_bindIndex = Some (i + 1 + length mid)\<rparr>" by blast
      then show "?R i (step # steps)"
        by (intro exI [of _ "step # mid"] exI [of _ B] exI [of _ post]) simp
    next
      assume "?R i (step # steps)"
      then obtain mid B post where split: "step # steps = mid @ B # post" "list_all early_step mid"
        "binding_step (ws_ID (all ! p)) B" "list_all late_step post"
        "s = \<lparr>sp_provisionIndex = Some p, sp_bindIndex = Some (i + length mid)\<rparr>" by blast
      with False obtain mid' where mid: "mid = step # mid'" by (cases mid) (auto simp: binding_step_def)
      with split have "?R (i + 1) steps"
        by (intro exI [of _ mid'] exI [of _ B] exI [of _ post]) simp
      with mid split(2) show "early_step step \<and> ?R (i + 1) steps" by simp
    qed
    finally show ?thesis .
  qed
qed auto

lemma provisioning_free:
  assumes "all = done_steps @ steps"
  shows "check_provisioning all policy no_spine (length done_steps) steps = Inr s \<and> sp_bindIndex s \<noteq> None \<longleftrightarrow>
   (\<exists>pre P mid B post. steps = pre @ P # mid @ B # post \<and> list_all early_step pre \<and> provision_step policy P \<and>
     list_all early_step mid \<and> binding_step (ws_ID P) B \<and> list_all late_step post \<and>
     s = \<lparr>sp_provisionIndex = Some (length done_steps + length pre),
          sp_bindIndex = Some (length done_steps + length pre + 1 + length mid)\<rparr>)"
  (is "?L done_steps steps \<longleftrightarrow> ?R (length done_steps) steps")
  using assms
proof (induction steps arbitrary: done_steps)
  case (Cons step steps)
  let ?i = "length done_steps"
  show ?case
  proof (cases "provisions_node step")
    case True
    have own: "all ! ?i = step" using Cons.prems by simp
    have "?L done_steps (step # steps) \<longleftrightarrow> provision_step policy step \<and>
        (check_provisioning all policy \<lparr>sp_provisionIndex = Some ?i, sp_bindIndex = None\<rparr> (?i + 1) steps = Inr s \<and>
         sp_bindIndex s \<noteq> None)"
      unfolding check_provisioning_step using True by (auto simp: no_spine_def provision_step_def)
    also have "\<dots> \<longleftrightarrow> ?R ?i (step # steps)" (is "?A \<longleftrightarrow> _")
    proof
      assume ?A
      then obtain mid B post where "provision_step policy step" "steps = mid @ B # post" "list_all early_step mid"
        "binding_step (ws_ID step) B" "list_all late_step post"
        "s = \<lparr>sp_provisionIndex = Some ?i, sp_bindIndex = Some (?i + 1 + length mid)\<rparr>"
        unfolding provisioning_bound own by blast
      then show "?R ?i (step # steps)"
        by (intro exI [of _ "[]"] exI [of _ step] exI [of _ mid] exI [of _ B] exI [of _ post]) simp
    next
      assume "?R ?i (step # steps)"
      then obtain pre P mid B post where split: "step # steps = pre @ P # mid @ B # post" "list_all early_step pre"
        "provision_step policy P" "list_all early_step mid" "binding_step (ws_ID P) B" "list_all late_step post"
        "s = \<lparr>sp_provisionIndex = Some (?i + length pre), sp_bindIndex = Some (?i + length pre + 1 + length mid)\<rparr>"
        by blast
      moreover from split True have "pre = []" by (cases pre) (auto simp: early_step_def late_step_def)
      ultimately show ?A unfolding provisioning_bound own by auto
    qed
    finally show ?thesis .
  next
    case False
    have "?L done_steps (step # steps) \<longleftrightarrow> early_step step \<and> ?L (done_steps @ [step]) steps"
      unfolding check_provisioning_step using False
      by (auto simp: early_step_def late_step_def no_spine_def)
    also have "\<dots> \<longleftrightarrow> early_step step \<and> ?R (?i + 1) steps"
      using Cons.IH [of "done_steps @ [step]"] Cons.prems by simp
    also have "\<dots> \<longleftrightarrow> ?R ?i (step # steps)"
    proof
      assume "early_step step \<and> ?R (?i + 1) steps"
      then obtain pre P mid B post where "early_step step" "steps = pre @ P # mid @ B # post" "list_all early_step pre"
        "provision_step policy P" "list_all early_step mid" "binding_step (ws_ID P) B" "list_all late_step post"
        "s = \<lparr>sp_provisionIndex = Some (?i + 1 + length pre), sp_bindIndex = Some (?i + 1 + length pre + 1 + length mid)\<rparr>"
        by blast
      then show "?R ?i (step # steps)"
        by (intro exI [of _ "step # pre"] exI [of _ P] exI [of _ mid] exI [of _ B] exI [of _ post]) simp
    next
      assume "?R ?i (step # steps)"
      then obtain pre P mid B post where split: "step # steps = pre @ P # mid @ B # post" "list_all early_step pre"
        "provision_step policy P" "list_all early_step mid" "binding_step (ws_ID P) B" "list_all late_step post"
        "s = \<lparr>sp_provisionIndex = Some (?i + length pre), sp_bindIndex = Some (?i + length pre + 1 + length mid)\<rparr>"
        by blast
      with False obtain pre' where pre: "pre = step # pre'" by (cases pre) (auto simp: provision_step_def)
      with split have "?R (?i + 1) steps"
        by (intro exI [of _ pre'] exI [of _ P] exI [of _ mid] exI [of _ B] exI [of _ post]) simp
      with pre split(2) show "early_step step \<and> ?R (?i + 1) steps" by simp
    qed
    finally show ?thesis .
  qed
qed (auto simp: no_spine_def)

text \<open>All steps of the toolchain are guarded by one condition, which is not constant false.\<close>

definition one_gate :: "workflowStep list \<Rightarrow> bool" where
  "one_gate steps \<longleftrightarrow>
     (\<exists>gate. list_all (\<lambda>step. condition_of step = gate \<and> normalizeExpression gate \<noteq> ''false'') (filter toolchain_step steps))"

lemma check_conditions_Some:
  "check_conditions (Some gate) steps = None \<longleftrightarrow>
     list_all (\<lambda>step. condition_of step = gate \<and> normalizeExpression (condition_of step) \<noteq> ''false'') (filter toolchain_step steps)"
  by (induction steps) auto

lemma checkToolchainConditions_None: "checkToolchainConditions steps = None \<longleftrightarrow> one_gate steps"
  unfolding checkToolchainConditions_def one_gate_def
proof (induction steps)
  case (Cons step steps)
  then show ?case by (auto simp: check_conditions_Some list_all_iff)
qed simp

text \<open>
  A job's Node.js is provisioned exactly when its steps have this shape: quiet steps that use no runtime and
  leave PATH alone; one step that runs the provisioning command from the trusted checkout; more quiet steps;
  one step that binds PATH to that step's own output; and only then steps that may use a runtime, none of which
  provisions or touches PATH again.  No step brings a foreign Node.js, and one condition guards them all.
\<close>

theorem node_provisioning_exact:
  "checkNodeProvisioning job policy = Inr spine \<longleftrightarrow>
     one_gate (wj_Steps job) \<and> checkNodeEnvironment (wj_Env job) = None \<and>
     (\<exists>pre P mid B post. wj_Steps job = pre @ P # mid @ B # post \<and> list_all early_step pre \<and>
        provision_step policy P \<and> list_all early_step mid \<and> binding_step (ws_ID P) B \<and> list_all late_step post \<and>
        spine = \<lparr>sp_provisionIndex = Some (length pre), sp_bindIndex = Some (length pre + 1 + length mid)\<rparr>)"
proof -
  have "checkNodeProvisioning job policy = Inr spine \<longleftrightarrow>
      checkToolchainConditions (wj_Steps job) = None \<and> checkNodeEnvironment (wj_Env job) = None \<and>
      (check_provisioning (wj_Steps job) policy no_spine 0 (wj_Steps job) = Inr spine \<and> sp_bindIndex spine \<noteq> None)"
    by (auto simp: checkNodeProvisioning_def split: sum.splits)
  also have "check_provisioning (wj_Steps job) policy no_spine 0 (wj_Steps job) = Inr spine \<and> sp_bindIndex spine \<noteq> None \<longleftrightarrow>
      (\<exists>pre P mid B post. wj_Steps job = pre @ P # mid @ B # post \<and> list_all early_step pre \<and>
        provision_step policy P \<and> list_all early_step mid \<and> binding_step (ws_ID P) B \<and> list_all late_step post \<and>
        spine = \<lparr>sp_provisionIndex = Some (length pre), sp_bindIndex = Some (length pre + 1 + length mid)\<rparr>)"
    using provisioning_free [of "wj_Steps job" "[]" "wj_Steps job" policy spine] by simp
  finally show ?thesis by (simp only: checkToolchainConditions_None)
qed

section \<open>The authority of a conforming workflow\<close>

lemma at_key_in: "at_key m key = v \<Longrightarrow> v \<noteq> [] \<Longrightarrow> (key, v) \<in> set m"
  by (auto simp: at_key_def dest: map_of_SomeD split: option.splits)

lemma one_permission: "length m = 1 \<Longrightarrow> at_key m k = v \<Longrightarrow> v \<noteq> [] \<Longrightarrow> set m = {(k, v)}"
  using at_key_in [of m k v] by (cases m) auto

lemma two_permissions:
  assumes "length m = 2" "at_key m k = v" "at_key m l = w" "v \<noteq> []" "w \<noteq> []" "k \<noteq> l"
  shows "set m = {(k, v), (l, w)}"
proof -
  from assms(1) obtain a b where m: "m = [a, b]" by (auto simp: length_Suc_conv numeral_2_eq_2)
  with at_key_in [OF assms(2,4)] at_key_in [OF assms(3,5)] assms(6) show ?thesis by auto
qed

definition pinned_steps :: "workflowJob \<Rightarrow> bool" where
  "pinned_steps job \<longleftrightarrow> list_all (\<lambda>step. ws_Uses step = [] \<or> pinnedAction (ws_Uses step)) (wj_Steps job)"

lemma pinned_steps_iff: "pinned_steps job \<longleftrightarrow> list_all (\<lambda>step. \<not> unpinned step) (wj_Steps job)"
  by (simp add: pinned_steps_def unpinned_def list_all_iff)

lemma scan_build_pinned: "scan_build_steps i facts steps = Inr facts' \<Longrightarrow> list_all (\<lambda>step. \<not> unpinned step) steps"
  by (induction steps arbitrary: i facts) (auto split: if_splits sum.splits)

lemma scan_sign_pinned: "scan_sign_steps facts steps = Inr facts' \<Longrightarrow> list_all (\<lambda>step. \<not> unpinned step) steps"
  by (induction steps arbitrary: facts) (auto simp: Let_def split: if_splits sum.splits)

lemma scan_publish_pinned: "scan_publish_steps ds steps = Inr ds' \<Longrightarrow> list_all (\<lambda>step. \<not> unpinned step) steps"
  by (induction steps arbitrary: ds) (auto split: if_splits)

text \<open>A job that provisions its own Node.js, by the policy of its name.\<close>

definition provisioned :: "bool \<Rightarrow> workflowJob \<Rightarrow> bool" where
  "provisioned publishing job \<longleftrightarrow>
     (\<exists>name. is_ok (checkNodeProvisioning (zero_job\<lparr>wj_Steps := wj_Steps job\<rparr>)
        \<lparr>tp_job = name, tp_publish = publishing\<rparr>)) \<and>
     checkNodeEnvironment (wj_Env job) = None"

lemma checkNodeProvisioning_env:
  "checkNodeProvisioning job policy = Inr spine \<longleftrightarrow>
     checkNodeProvisioning (zero_job\<lparr>wj_Steps := wj_Steps job\<rparr>) policy = Inr spine \<and> checkNodeEnvironment (wj_Env job) = None"
proof -
  have "checkNodeEnvironment [] = None" by (simp add: checkNodeEnvironment_def)
  then show ?thesis by (auto simp: checkNodeProvisioning_def zero_job_def)
qed

definition reads_contents :: "string_map \<Rightarrow> bool" where
  "reads_contents permissions \<longleftrightarrow> set permissions = {(''contents'', ''read'')}"

definition reads_contents_writes_token :: "string_map \<Rightarrow> bool" where
  "reads_contents_writes_token permissions \<longleftrightarrow>
     set permissions = {(''contents'', ''read''), (''id-token'', ''write'')}"

lemma check_build_sound:
  assumes "check_build_document document = Inr result"
  shows "\<exists>build. map_of (wd_Jobs document) ''build'' = Some build \<and> wd_Permissions document = Some [] \<and>
    reads_contents (wj_Permissions build) \<and> pinned_steps build \<and> provisioned False build"
proof -
  from assms obtain build artifacts where
    b: "map_of (wd_Jobs document) ''build'' = Some build" "wd_Permissions document = Some []"
    and perms: "length (wj_Permissions build) = 1" "at_key (wj_Permissions build) ''contents'' = ''read''"
    and env: "checkNodeEnvironment (wj_Env build) = None" and steps: "checkSteps (wj_Steps build) = Inr artifacts"
    unfolding check_build_document_def explicit_empty_def
    by (auto simp: Let_def split: if_splits option.splits sum.splits)
  from steps obtain facts spine where "scan_build_steps 0 no_build_facts (wj_Steps build) = Inr facts"
    "checkNodeProvisioning (zero_job\<lparr>wj_Steps := wj_Steps build\<rparr>) \<lparr>tp_job = ''build'', tp_publish = False\<rparr> = Inr spine"
    unfolding checkSteps_def by (auto simp: Let_def split: if_splits sum.splits)
  with scan_build_pinned env have "pinned_steps build" "provisioned False build"
    by (auto simp: pinned_steps_iff provisioned_def is_ok_iff)
  with b one_permission [OF perms] show ?thesis by (simp add: reads_contents_def)
qed

lemma check_sign_sound:
  assumes "check_sign_document document = Inr result"
  shows "\<exists>job. map_of (wd_Jobs document) ''provenance-sign'' = Some job \<and>
    reads_contents_writes_token (wj_Permissions job) \<and> pinned_steps job \<and> provisioned False job"
proof -
  from assms obtain job artifact where
    j: "map_of (wd_Jobs document) ''provenance-sign'' = Some job"
    and perms: "length (wj_Permissions job) = 2" "at_key (wj_Permissions job) ''contents'' = ''read''"
      "at_key (wj_Permissions job) ''id-token'' = ''write''"
    and env: "checkNodeEnvironment (wj_Env job) = None" and steps: "checkProvenanceSignSteps (wj_Steps job) = Inr artifact"
    unfolding check_sign_document_def
    by (auto simp: Let_def split: if_splits option.splits sum.splits)
  from steps obtain f facts spine where "scan_sign_steps f (wj_Steps job) = Inr facts"
    "checkNodeProvisioning (zero_job\<lparr>wj_Steps := wj_Steps job\<rparr>) \<lparr>tp_job = ''provenance-sign'', tp_publish = False\<rparr> = Inr spine"
    unfolding checkProvenanceSignSteps_def by (auto simp: Let_def split: if_splits sum.splits)
  with scan_sign_pinned env have "pinned_steps job" "provisioned False job"
    by (auto simp: pinned_steps_iff provisioned_def is_ok_iff)
  with j two_permissions [OF perms] show ?thesis by (simp add: reads_contents_writes_token_def)
qed

lemma check_publish_sound:
  assumes "check_publish_document document = Inr result"
  shows "\<exists>job. map_of (wd_Jobs document) ''publish'' = Some job \<and>
    reads_contents_writes_token (wj_Permissions job) \<and> pinned_steps job \<and> provisioned True job \<and>
    wj_Concurrency job = \<lparr>cc_Group = publishConcurrencyGroup, cc_CancelInProgress = False, cc_Queue = ''max''\<rparr>"
proof -
  from assms obtain job where j: "map_of (wd_Jobs document) ''publish'' = Some job"
    unfolding check_publish_document_def by (cases "map_of (wd_Jobs document) ''publish''") (simp_all split: if_split_asm)
  note body = assms [unfolded check_publish_document_def j option.case Let_def]
  from body have perms: "length (wj_Permissions job) = 2" "at_key (wj_Permissions job) ''contents'' = ''read''"
      "at_key (wj_Permissions job) ''id-token'' = ''write''"
    by (simp_all only: sum.distinct if_False if_True de_Morgan_disj not_not not_False_eq_True TrueI split: if_split_asm)
  from body have cc: "cc_Group (wj_Concurrency job) = publishConcurrencyGroup" "\<not> cc_CancelInProgress (wj_Concurrency job)"
      "cc_Queue (wj_Concurrency job) = ''max''"
    by (simp_all only: sum.distinct if_False if_True de_Morgan_disj not_not not_False_eq_True TrueI split: if_split_asm)
  from body have steps: "checkPublishSteps job = None"
    by (simp only: sum.distinct if_False if_True guarded_Inr split: if_split_asm)
  from steps obtain ds spine where scan: "scan_publish_steps [] (wj_Steps job) = Inr ds"
    and node: "checkNodeProvisioning job \<lparr>tp_job = ''publish'', tp_publish = True\<rparr> = Inr spine"
    unfolding checkPublishSteps_def by (auto simp: Let_def split: if_splits sum.splits)
  have "pinned_steps job" using scan_publish_pinned [OF scan] by (simp add: pinned_steps_iff)
  moreover have "provisioned True job"
    using iffD1 [OF checkNodeProvisioning_env node] unfolding provisioned_def is_ok_iff by blast
  moreover have "reads_contents_writes_token (wj_Permissions job)"
    unfolding reads_contents_writes_token_def by (rule two_permissions [OF perms]) simp_all
  moreover have "wj_Concurrency job = \<lparr>cc_Group = publishConcurrencyGroup, cc_CancelInProgress = False, cc_Queue = ''max''\<rparr>"
    by (rule concurrency.equality) (simp_all only: cc concurrency.select_convs simp_thms unit_eq)
  ultimately show ?thesis using j by blast
qed

text \<open>
  C23: A workflow that conforms, read while its file does not change, has exactly the jobs build, provenance-sign
  and publish and gives away nothing by default.  The build job may only read the repository; signing and
  publishing may also obtain an identity token and nothing else; every action any of them uses is pinned to a full
  commit SHA; every job runs only the Node.js it provisioned; and publications queue behind each other.
\<close>

theorem npm_profile_authority:
  "case CheckNPMOnlyProfile yaml (\<lambda>_. contents) of
     Inl _ \<Rightarrow> True
   | Inr result \<Rightarrow>
       (\<exists>document build sign publish.
          Option.bind contents yaml = Some document \<and> wd_Permissions document = Some [] \<and>
          sort (map fst (wd_Jobs document)) = wantGraph \<and>
          map (map_of (wd_Jobs document)) wantGraph = [Some build, Some sign, Some publish] \<and>
          reads_contents (wj_Permissions build) \<and> reads_contents_writes_token (wj_Permissions sign) \<and>
          reads_contents_writes_token (wj_Permissions publish) \<and>
          list_all pinned_steps [build, sign, publish] \<and>
          provisioned False build \<and> provisioned False sign \<and> provisioned True publish \<and>
          wj_Concurrency publish = \<lparr>cc_Group = publishConcurrencyGroup, cc_CancelInProgress = False, cc_Queue = ''max''\<rparr>)"
proof (cases "CheckNPMOnlyProfile yaml (\<lambda>_. contents)")
  case (Inr result)
  from Inr obtain document b sg pb where doc: "readWorkflow yaml contents = Inr document"
    and graph: "sort (map fst (wd_Jobs document)) = wantGraph"
    and jobs: "CheckBuildJob yaml contents = Inr b" "CheckProvenanceSignJob yaml contents = Inr sg"
      "CheckPublishJob yaml contents = Inr pb"
    unfolding CheckNPMOnlyProfile_def by (auto simp: Let_def split: sum.splits if_splits)
  from doc have yaml: "Option.bind contents yaml = Some document"
    by (auto simp: readWorkflow_def split: option.splits)
  from jobs doc have "check_build_document document = Inr b" "check_sign_document document = Inr sg"
    "check_publish_document document = Inr pb"
    by (simp_all add: CheckBuildJob_def CheckProvenanceSignJob_def CheckPublishJob_def)
  from check_build_sound [OF this(1)] check_sign_sound [OF this(2)] check_publish_sound [OF this(3)]
  show ?thesis using Inr yaml graph by (fastforce simp: wantGraph_def)
qed simp

section \<open>Comments as evidence\<close>

text \<open>
  A comment counts as evidence that a job publishes: a step whose script is only a comment satisfies the check
  for npm-profile-publish, although no command is left of the script once its comments are stripped.
\<close>

theorem comment_publishes:
  "\<exists>step. publishes step \<and> toolchainShellText (ws_Run step) = []"
proof -
  let ?step = "\<lparr>ws_ID = [], ws_If = [], ws_Uses = [], ws_Run = ''#npm-profile-publish'', ws_WorkingDirectory = [],
    ws_Env = [], ws_With = []\<rparr>"
  have "publishes ?step" by (simp add: publishes_def)
  moreover have "toolchainShellText ''#npm-profile-publish'' = []"
    by (simp add: toolchainShellText_def ReplaceAll_def Let_def is_quote_def)
  ultimately show ?thesis by (intro exI [of _ ?step]) simp
qed

end
