(* ===== verification/LooseJson.thy ===== *)
theory LooseJson
  imports StatementJson Base64
begin

text \<open>
  What the code decodes without validating it first: the claims of a JSON Web Token and the answer of GitHub's
  token service.  encoding/json is permissive there: a repeated member overwrites, bytes that are no UTF-8 are
  replaced, a number may be out of range as long as nobody reads it.  Here too base64.RawURLEncoding.
\<close>

section \<open>Skipping values\<close>

text \<open>The rest of a value in which a number of brackets is open.\<close>

definition opens :: "token \<Rightarrow> bool" where
  "opens t \<longleftrightarrow> t = TDelim (CHR ''{'') \<or> t = TDelim (CHR ''['')"

definition closes :: "token \<Rightarrow> bool" where
  "closes t \<longleftrightarrow> t = TDelim (CHR ''}'') \<or> t = TDelim (CHR '']'')"

definition maxUnmarshalDepth :: nat where "maxUnmarshalDepth = 10000"

function skip_open :: "nat \<Rightarrow> nat \<Rightarrow> decoder \<Rightarrow> decoder option" where
  "skip_open outer depth d =
     (if depth = 0 then Some d
      else if outer + depth > maxUnmarshalDepth then None
      else
        (case Token d of
           Got (t, d') \<Rightarrow>
             skip_open outer (if opens t then depth + 1 else if closes t then depth - 1 else depth) d'
         | _ \<Rightarrow> None))"
  by pat_completeness auto
termination
  by (relation "measure (\<lambda>(outer, depth, d). length (d_rest d))") (auto dest: Token_length)

declare skip_open.simps [simp del]

lemma skip_open_length: "skip_open outer depth d = Some d' \<Longrightarrow> length (d_rest d') \<le> length (d_rest d)"
proof (induction outer depth d rule: skip_open.induct)
  case (1 outer depth d)
  show ?case
  proof (cases "Token d")
    case (Got p)
    obtain t d1 where p: "p = (t, d1)" by (cases p)
    from Got p have shorter: "length (d_rest d1) < length (d_rest d)" by (auto dest: Token_length)
    show ?thesis
    proof (cases "depth = 0 \<or> outer + depth > maxUnmarshalDepth")
      case False
      then have "skip_open outer (if opens t then depth + 1 else if closes t then depth - 1 else depth) d1 = Some d'"
        using 1(2) Got p by (simp add: skip_open.simps [of outer depth d])
      then have "length (d_rest d') \<le> length (d_rest d1)"
        using 1(1) [OF _ _ Got p [symmetric]] False by simp
      with shorter show ?thesis by simp
    qed (use 1(2) in \<open>auto simp: skip_open.simps [of outer depth d] split: if_splits\<close>)
  qed (use 1(2) in \<open>simp_all add: skip_open.simps split: if_splits\<close>)
qed

section \<open>Objects\<close>

text \<open>The members of an open object: each name, and the first token of its value, which is all of a scalar.\<close>

function loose_members :: "decoder \<Rightarrow> ((string \<times> token) list \<times> decoder) option" where
  "loose_members d =
     (case Token d of
        Got (TString name, d1) \<Rightarrow>
          (case Token d1 of
             Got (t, d2) \<Rightarrow>
               (case (if opens t then skip_open 1 1 d2 else Some d2) of
                  Some d3 \<Rightarrow>
                    map_option (\<lambda>(members, d'). ((sanitize name, t) # members, d')) (loose_members d3)
                | None \<Rightarrow> None)
           | _ \<Rightarrow> None)
      | Got (TDelim c, d1) \<Rightarrow> if c = CHR ''}'' then Some ([], d1) else None
      | _ \<Rightarrow> None)"
  by pat_completeness auto
termination
proof (relation "measure (\<lambda>d. length (d_rest d))", goal_cases)
  case (2 d p t d1 name q t' d2 d3)
  then have "length (d_rest d1) < length (d_rest d)" "length (d_rest d2) < length (d_rest d1)"
    by (auto dest: Token_length)
  moreover have "length (d_rest d3) \<le> length (d_rest d2)"
    using 2 by (auto dest: skip_open_length split: if_splits)
  ultimately show ?case by simp
qed simp

declare loose_members.simps [simp del]

text \<open>The first value of a text if it is an object, and what follows it.\<close>

definition loose_object :: "string \<Rightarrow> ((string \<times> token) list \<times> string) option" where
  "loose_object data =
     (case Token (NewDecoder data) of
        Got (TDelim c, d) \<Rightarrow>
          if c = CHR ''{'' then map_option (\<lambda>(members, d'). (members, d_rest d')) (loose_members d) else None
      | _ \<Rightarrow> None)"

section \<open>String fields\<close>

text \<open>A struct of string fields, by the names of the fields; a null leaves a field as it is, any other value that
  is no string is an error, which ends up in the result only after the rest has been decoded.\<close>

definition loose_field :: "string list \<Rightarrow> string \<Rightarrow> string option" where
  "loose_field names member =
     (if member \<in> set names then Some member else find (\<lambda>name. foldName name = foldName member) names)"

fun loose_strings :: "bool \<Rightarrow> string list \<Rightarrow> (string \<Rightarrow> string) \<Rightarrow> (string \<times> token) list \<Rightarrow> (string \<Rightarrow> string) option" where
  "loose_strings closed names r [] = Some r"
| "loose_strings closed names r ((member, t) # members) =
     (case loose_field names member of
        None \<Rightarrow> if closed then None else loose_strings closed names r members
      | Some name \<Rightarrow>
          (case t of
             TString s \<Rightarrow> loose_strings closed names (r(name := sanitize s)) members
           | TNull \<Rightarrow> loose_strings closed names r members
           | _ \<Rightarrow> None))"

text \<open>json.Unmarshal into such a struct: the text is one value, an object or null.\<close>

definition unmarshal_strings :: "string list \<Rightarrow> string \<Rightarrow> (string \<Rightarrow> string) option" where
  "unmarshal_strings names data =
     (case Token (NewDecoder data) of
        Got (TNull, d) \<Rightarrow> if skip_space (d_rest d) = [] then Some (\<lambda>_. []) else None
      | _ \<Rightarrow>
          (case loose_object data of
             None \<Rightarrow> None
           | Some (members, rest) \<Rightarrow>
               if skip_space rest = [] then loose_strings False names (\<lambda>_. []) members else None))"

section \<open>Raw URL encoding\<close>

definition url_val :: "char \<Rightarrow> nat option" where
  "url_val c =
     (if c = CHR ''-'' then Some 62 else if c = CHR ''_'' then Some 63
      else if c = CHR ''+'' \<or> c = CHR ''/'' then None else b64_val c)"

fun url_quads :: "nat list \<Rightarrow> string option" where
  "url_quads [] = Some []"
| "url_quads [x] = None"
| "url_quads [x, y] = Some [char_of (x * 4 + y div 16)]"
| "url_quads [x, y, z] = Some [char_of (x * 4 + y div 16), char_of (y mod 16 * 16 + z div 4)]"
| "url_quads (x # y # z # w # rest) =
     map_option (\<lambda>out. char_of (x * 4 + y div 16) # char_of (y mod 16 * 16 + z div 4)
       # char_of (z mod 4 * 64 + w) # out) (url_quads rest)"

definition RawURLDecode :: "string \<Rightarrow> string option" where
  "RawURLDecode s =
     Option.bind (all_some (map url_val (filter (\<lambda>c. c \<noteq> CHR 0x0A \<and> c \<noteq> CHR 0x0D) s))) url_quads"

end
