(* ===== verification/Query.thy ===== *)
theory Query
  imports Purl "HOL-Library.List_Lexorder" "HOL-Library.Char_ord"
begin

text \<open>
  The query of a URL (net/url's ParseQuery, Values.Set and Values.Encode), as the two OIDC clients use it to add
  the audience to the address GitHub hands out.  The values are a list of pairs in the order of the text; only
  their order below one name shows in what is encoded.
\<close>

text \<open>QueryUnescape.\<close>

fun query_unescape :: "string \<Rightarrow> string option" where
  "query_unescape [] = Some []"
| "query_unescape (c # cs) =
     (if c = CHR ''%'' then
        (case cs of
           a # b # rest \<Rightarrow>
             (case (hex_digit a, hex_digit b) of
                (Some x, Some y) \<Rightarrow> map_option ((#) (char_of (16 * x + y))) (query_unescape rest)
              | _ \<Rightarrow> None)
         | _ \<Rightarrow> None)
      else map_option ((#) (if c = CHR ''+'' then CHR '' '' else c)) (query_unescape cs))"

definition query_pair :: "string \<Rightarrow> (string \<times> string) option" where
  "query_pair part =
     (if CHR '';'' \<in> set part \<or> part = [] then None
      else
        (let (key, value) = (case Cut part ''='' of None \<Rightarrow> (part, []) | Some kv \<Rightarrow> kv)
         in case (query_unescape key, query_unescape value) of
              (Some k, Some v) \<Rightarrow> Some (k, v)
            | _ \<Rightarrow> None))"

definition parse_query :: "string \<Rightarrow> (string \<times> string) list" where
  "parse_query query = List.map_filter query_pair (split_on (CHR ''&'') query)"

definition set_value :: "string \<Rightarrow> string \<Rightarrow> (string \<times> string) list \<Rightarrow> (string \<times> string) list" where
  "set_value key value vs = filter (\<lambda>(k, _). k \<noteq> key) vs @ [(key, value)]"

definition query_escape :: "string \<Rightarrow> string" where
  "query_escape s = concat (map (\<lambda>c. if c = CHR '' '' then ''+'' else percentEncode [c]) s)"

definition encode_query :: "(string \<times> string) list \<Rightarrow> string" where
  "encode_query vs = join_with ''&'' (map (\<lambda>(k, v). query_escape k @ ''='' @ query_escape v) (sort_key fst vs))"

section \<open>What is sent is read back\<close>

lemma hex_digit_upper: "n < 16 \<Longrightarrow> hex_digit (upper_hex n) = Some n"
proof -
  assume n: "n < 16"
  have "list_all (\<lambda>n. hex_digit (upper_hex n) = Some n) [0..<16]" by code_simp
  with n show ?thesis by (simp add: list_all_iff)
qed

lemma query_escape_Cons:
  "query_escape (c # s) = (if c = CHR '' '' then ''+'' else percentEncode [c]) @ query_escape s"
  by (simp add: query_escape_def)

lemma query_escape_Nil [simp]: "query_escape [] = []"
  by (simp add: query_escape_def)

lemma unreserved_plain: "unreserved c \<Longrightarrow> c \<noteq> CHR ''%'' \<and> c \<noteq> CHR ''+'' \<and> c \<noteq> CHR ''&'' \<and> c \<noteq> CHR '';'' \<and> c \<noteq> CHR ''=''"
  by (auto simp: unreserved_def is_alnum_def is_digit_def is_lower_def is_upper_def byte_def)

lemma query_unescape_escape: "query_unescape (query_escape s) = Some s"
proof (induction s)
  case (Cons c s)
  have "byte c div 16 < 16" "byte c mod 16 < 16" using byte_less [of c] by auto
  with Cons show ?case
    using unreserved_plain [of c]
    by (auto simp: query_escape_Cons hex_digit_upper)
qed simp

lemma query_escape_chars:
  assumes "x \<in> set (query_escape s)"
  shows "unreserved x \<or> x = CHR ''%'' \<or> x = CHR ''+''"
  using assms unreserved_or_hex
  by (induction s) (auto simp: query_escape_Cons simp del: percentEncode_simps split: if_splits)

lemma query_escape_separators:
  "CHR ''&'' \<notin> set (query_escape s)" "CHR '';'' \<notin> set (query_escape s)" "CHR ''='' \<notin> set (query_escape s)"
  using query_escape_chars [of _ s] unreserved_plain by fastforce+

lemma query_pair_escape: "query_pair (query_escape k @ ''='' @ query_escape v) = Some (k, v)"
proof -
  have "Cut (query_escape k @ ''='' @ query_escape v) ''='' = Some (query_escape k, query_escape v)"
    using Cut_char_append [of "CHR ''=''" "query_escape k" "query_escape v"] query_escape_separators(3) by simp
  then show ?thesis
    using query_escape_separators by (simp add: query_pair_def query_unescape_escape)
qed

lemma split_on_join:
  "ws \<noteq> [] \<Longrightarrow> list_all (\<lambda>w. sep \<notin> set w) ws \<Longrightarrow> split_on sep (join_with [sep] ws) = ws"
proof (induction "[sep]" ws rule: join_with.induct)
  case (3 w v ws)
  then have "split_on sep (join_with [sep] (v # ws)) = v # ws" by simp
  with 3 show ?case by (simp add: split_on_append)
qed (auto simp: split_on_id)

lemma parse_encode_query: "parse_query (encode_query vs) = sort_key fst vs"
proof -
  let ?parts = "map (\<lambda>(k, v). query_escape k @ ''='' @ query_escape v) (sort_key fst vs)"
  have "List.map_filter query_pair (map (\<lambda>(k, v). query_escape k @ ''='' @ query_escape v) ps) = ps" for ps
    using query_pair_escape by (induction ps) (auto simp: map_filter_simps)
  then have "List.map_filter query_pair ?parts = sort_key fst vs" .
  moreover have "split_on (CHR ''&'') (join_with ''&'' ?parts) = ?parts" if "?parts \<noteq> []"
    using that query_escape_separators(1) by (intro split_on_join) (auto simp: list_all_iff)
  moreover have "sort_key fst vs = [] \<longleftrightarrow> vs = []" by (metis length_0_conv length_sort)
  ultimately show ?thesis
    by (cases "vs = []") (auto simp: parse_query_def encode_query_def map_filter_simps query_pair_def)
qed

lemma set_value_filter: "filter (\<lambda>(k, _). k = key) (sort_key fst (set_value key value vs)) = [(key, value)]"
  by (simp add: set_value_def case_prod_unfold filter_sort)

end
