(* ===== verification/GithubSigning.thy ===== *)
theory GithubSigning
  imports Attestation LooseJson Query
begin

text \<open>
  internal/signing: keyless signing in GitHub Actions.  The exact bytes of a Statement are signed under the identity
  token of the job, and the bundle that comes back is verified before it is handed on.  sigstore-go is the record
  of \<^theory_text>\<open>Attestation\<close> and a record for its signer; the token request and the environment are arguments.
\<close>

definition fulcioURL :: string where "fulcioURL = ''https://fulcio.sigstore.dev''"
definition rekorURL :: string where "rekorURL = ''https://rekor.sigstore.dev''"
definition oidcAudience :: string where "oidcAudience = ''sigstore''"

record signing_Request =
  sq_Statement :: string
  sq_Identity :: IdentityExpectation

record signing_Result =
  sr_Statement :: string
  sr_Bundle :: string

definition signing_error :: "string \<Rightarrow> go_error" where
  "signing_error message = ErrText message []"

section \<open>The payload\<close>

record DSSEData =
  ds_Data :: string
  ds_PayloadType :: string

definition PrepareDSSE :: "(string \<Rightarrow> string result) \<Rightarrow> string \<Rightarrow> DSSEData result" where
  "PrepareDSSE transform statement =
     (case DecodeStatement statement of
        Inl err \<Rightarrow> Inl (ErrWrap ''decode exact Statement: %w'' [] [err])
      | Inr decoded \<Rightarrow>
          (case Statement_CanonicalJSON transform decoded of
             Inl err \<Rightarrow> Inl (ErrWrap ''canonicalize exact Statement: %w'' [] [err])
           | Inr canonical \<Rightarrow>
               if statement \<noteq> canonical then Inl (signing_error ''statement must be exact RFC 8785 bytes'')
               else Inr \<lparr>ds_Data = statement, ds_PayloadType = IntotoMediaType\<rparr>))"

section \<open>The identity token\<close>

text \<open>What the GET of the token endpoint meets; the body is what can be read of it.\<close>

datatype token_answer = NotConstructed | NotAnswered | Answered nat string

definition maxTokenResponse :: nat where "maxTokenResponse = 2 ^ 20"

definition token_endpoint :: "string \<Rightarrow> url option" where
  "token_endpoint requestURL =
     (case url_Parse requestURL of
        None \<Rightarrow> None
      | Some parsed \<Rightarrow>
          if Scheme parsed \<noteq> ''https'' \<or> Host parsed = [] \<or> User parsed \<noteq> None then None
          else Some (parsed\<lparr>RawQuery := encode_query (set_value ''audience'' oidcAudience (parse_query (RawQuery parsed)))\<rparr>))"

text \<open>Decoder.Decode of the first value, with unknown members refused.\<close>

definition token_value :: "string \<Rightarrow> string option" where
  "token_value body =
     Option.bind (loose_object body) (\<lambda>(members, _).
       map_option (\<lambda>r. r ''value'') (loose_strings True [''value''] (\<lambda>_. []) members))"

definition githubActionsOIDCToken :: "(string \<Rightarrow> string) \<Rightarrow> (url \<Rightarrow> string \<Rightarrow> token_answer) \<Rightarrow> string result" where
  "githubActionsOIDCToken Getenv get =
     (let requestURL = Getenv ''ACTIONS_ID_TOKEN_REQUEST_URL''; requestToken = Getenv ''ACTIONS_ID_TOKEN_REQUEST_TOKEN'' in
      if requestURL = [] \<or> requestToken = [] then Inl (signing_error ''GitHub Actions OIDC capability is unavailable'')
      else
        (case token_endpoint requestURL of
           None \<Rightarrow> Inl (signing_error ''GitHub Actions OIDC request URL is invalid'')
         | Some parsed \<Rightarrow>
             (case get parsed (''Bearer '' @ requestToken) of
                NotConstructed \<Rightarrow> Inl (signing_error ''construct GitHub Actions OIDC request: %w'')
              | NotAnswered \<Rightarrow> Inl (signing_error ''request GitHub Actions OIDC token: %w'')
              | Answered status body \<Rightarrow>
                  if status \<noteq> 200 then
                    Inl (ErrText ''request GitHub Actions OIDC token: unexpected HTTP status %d'' [show_nat status])
                  else
                    (case token_value (take maxTokenResponse body) of
                       None \<Rightarrow> Inl (signing_error ''GitHub Actions OIDC response is invalid'')
                     | Some token \<Rightarrow>
                         if TrimSpace token = [] then Inl (signing_error ''GitHub Actions OIDC response is invalid'')
                         else Inr token))))"

section \<open>The signer\<close>

text \<open>The claims of the token: the called workflow, or where there is none the caller's, with its revision.\<close>

definition workflow_claims :: "string list" where
  "workflow_claims = [''job_workflow_ref'', ''job_workflow_sha'', ''workflow_ref'', ''workflow_sha'']"

definition token_claims :: "string \<Rightarrow> (string \<Rightarrow> string) result" where
  "token_claims token =
     (case split_on (CHR ''.'') token of
        [_, encoded, _] \<Rightarrow>
          (case RawURLDecode encoded of
             None \<Rightarrow> Inl (signing_error ''GitHub Actions OIDC claims are invalid'')
           | Some payload \<Rightarrow>
               (case unmarshal_strings workflow_claims payload of
                  None \<Rightarrow> Inl (signing_error ''GitHub Actions OIDC workflow claims are unavailable'')
                | Some claims \<Rightarrow> Inr claims))
      | _ \<Rightarrow> Inl (signing_error ''GitHub Actions OIDC token shape is invalid''))"

definition called :: "(string \<Rightarrow> string) \<Rightarrow> bool" where
  "called claims \<longleftrightarrow> claims ''job_workflow_ref'' \<noteq> [] \<or> claims ''job_workflow_sha'' \<noteq> []"

definition claimed_workflow :: "(string \<Rightarrow> string) \<Rightarrow> string \<times> string" where
  "claimed_workflow claims =
     (if called claims then (claims ''job_workflow_ref'', claims ''job_workflow_sha'')
      else (claims ''workflow_ref'', claims ''workflow_sha''))"

definition pinned_by :: "string \<Rightarrow> string \<Rightarrow> bool" where
  "pinned_by workflowRef workflowSHA \<longleftrightarrow>
     (case CutLast workflowRef (CHR ''@'') of
        None \<Rightarrow> False
      | Some (_, revision) \<Rightarrow> revision = workflowSHA \<and> ValidateFullSHA workflowSHA = None)"

definition bindOIDCSignerIdentity :: "string \<Rightarrow> IdentityExpectation \<Rightarrow> string \<Rightarrow> IdentityExpectation result" where
  "bindOIDCSignerIdentity statementBytes expectation token =
     (case token_claims token of
        Inl err \<Rightarrow> Inl err
      | Inr claims \<Rightarrow>
          (let (workflowRef, workflowSHA) = claimed_workflow claims in
           if workflowRef = [] \<or> workflowSHA = [] \<or> workflowSHA \<noteq> ie_WorkflowSHA expectation then
             Inl (signing_error ''GitHub Actions OIDC workflow revision differs from trusted runtime'')
           else if called claims \<and> \<not> pinned_by workflowRef workflowSHA then
             Inl (signing_error ''called workflow reference is not pinned by its full commit SHA'')
           else
             (case DecodeStatement statementBytes of
                Inl err \<Rightarrow> Inl (ErrWrap ''decode signed Statement identity: %w'' [] [err])
              | Inr statement \<Rightarrow>
                  (let signerURI = ''https://github.com/'' @ workflowRef in
                   case (Cut (b_ID (st_Builder statement)) ''@'', Cut signerURI ''@'') of
                     (Some (builderPath, _), Some (signerPath, _)) \<Rightarrow>
                       if builderPath \<noteq> signerPath then
                         Inl (signing_error ''OIDC signer workflow differs from the Statement builder identity'')
                       else Inr (expectation\<lparr>ie_SignerURI := signerURI\<rparr>)
                   | _ \<Rightarrow> Inl (signing_error ''OIDC signer workflow differs from the Statement builder identity'')))))"

section \<open>Signing\<close>

text \<open>sigstore-go's signer: an ephemeral key, the bundle it makes of a payload with a token under a trusted root,
  and the bundle's own loading and printing.\<close>

record ('p, 'b, 'm) signer =
  sn_EphemeralKeypair :: bool
  sn_Bundle :: "DSSEData \<Rightarrow> string \<Rightarrow> string \<Rightarrow> string \<Rightarrow> 'm \<Rightarrow> 'p option"
  sn_NewBundle :: "'p \<Rightarrow> 'b option"
  sn_MarshalJSON :: "'b \<Rightarrow> string option"

definition no_trust_root :: TrustRoot where
  "no_trust_root = \<lparr>tr_Mode = [], tr_Instance = [], tr_Path = None, tr_SHA256 = None, tr_TUFRepository = None,
     tr_RevalidatedAt = None, tr_RefreshBefore = None\<rparr>"

definition verification_request :: "string \<Rightarrow> IdentityExpectation \<Rightarrow> string \<Rightarrow> Request" where
  "verification_request serialized ident statement =
     \<lparr>rq_Mode = [], rq_Bundle = serialized, rq_TrustRoot = no_trust_root, rq_PinnedRoot = [], rq_Identity = ident,
      rq_ExpectedStatement = None, rq_ExpectedStatementJSON = statement\<rparr>"

definition sign_bundle :: "('p, 'b, 'm) signer \<Rightarrow> DSSEData \<Rightarrow> string \<Rightarrow> 'm \<Rightarrow> string result" where
  "sign_bundle sn content token trustedRoot =
     (if \<not> sn_EphemeralKeypair sn then Inl (signing_error ''create ephemeral signing key: %w'')
      else
     (case sn_Bundle sn content fulcioURL rekorURL token trustedRoot of
        None \<Rightarrow> Inl (signing_error ''create Sigstore DSSE bundle: %w'')
      | Some signed' \<Rightarrow>
     (case sn_NewBundle sn signed' of
        None \<Rightarrow> Inl (signing_error ''load generated Sigstore DSSE bundle: %w'')
      | Some parsedBundle \<Rightarrow>
     (case sn_MarshalJSON sn parsedBundle of
        None \<Rightarrow> Inl (signing_error ''serialize Sigstore DSSE bundle: %w'')
      | Some serialized \<Rightarrow> Inr serialized))))"

text \<open>The context is \<^const>\<open>None\<close> for nil, or whether it is done when the verification asks.\<close>

definition SignGitHubActions ::
  "('b, 'm) sigstore \<Rightarrow> ('p, 'b, 'm) signer \<Rightarrow> (string \<Rightarrow> string result) \<Rightarrow> (string \<Rightarrow> string option)
    \<Rightarrow> (url \<Rightarrow> string \<Rightarrow> token_answer) \<Rightarrow> bool option \<Rightarrow> signing_Request \<Rightarrow> signing_Result result" where
  "SignGitHubActions sg sn transform env get ctx request =
     (case ctx of
        None \<Rightarrow> Inl (signing_error ''signing context is required'')
      | Some ctx_done \<Rightarrow>
     (case PrepareDSSE transform (sq_Statement request) of
        Inl err \<Rightarrow> Inl err
      | Inr content \<Rightarrow>
     (case sg_FetchTrustedRoot sg of
        None \<Rightarrow> Inl (signing_error ''fetch Sigstore trusted root: %w'')
      | Some trustedRoot \<Rightarrow>
     (case githubActionsOIDCToken (\<lambda>name. case env name of None \<Rightarrow> [] | Some v \<Rightarrow> v) get of
        Inl err \<Rightarrow> Inl err
      | Inr token \<Rightarrow>
     (case bindOIDCSignerIdentity (ds_Data content) (sq_Identity request) token of
        Inl err \<Rightarrow> Inl err
      | Inr ident \<Rightarrow>
     (case sign_bundle sn content token trustedRoot of
        Inl err \<Rightarrow> Inl err
      | Inr serialized \<Rightarrow>
     (case verifyWithTrustedMaterial sg transform (\<lambda>name. env name \<noteq> None) ctx_done
             (verification_request serialized ident (ds_Data content)) (Some trustedRoot) of
        Inl err \<Rightarrow> Inl (ErrWrap ''post-sign offline verification: %w'' [] [err])
      | Inr verified \<Rightarrow>
          if vr_bundle verified \<noteq> serialized \<or> vr_statement verified \<noteq> ds_Data content then
            Inl (signing_error ''post-sign verification did not preserve exact bundle and Statement bytes'')
          else Inr \<lparr>sr_Statement = ds_Data content, sr_Bundle = serialized\<rparr>)))))))"

section \<open>What a signature says\<close>

lemma PrepareDSSE_Inr:
  "PrepareDSSE transform statement = Inr content \<longleftrightarrow>
     content = \<lparr>ds_Data = statement, ds_PayloadType = IntotoMediaType\<rparr> \<and>
     (\<exists>decoded. DecodeStatement statement = Inr decoded \<and> Statement_CanonicalJSON transform decoded = Inr statement)"
  by (auto simp: PrepareDSSE_def split: sum.splits if_splits)

text \<open>The token of the job: what the token endpoint handed to the job answered with 200, over https, to the request with the
  job's own request token whose only audience is sigstore.\<close>

definition job_token :: "(string \<Rightarrow> string option) \<Rightarrow> (url \<Rightarrow> string \<Rightarrow> token_answer) \<Rightarrow> string \<Rightarrow> bool" where
  "job_token env get token \<longleftrightarrow>
     (\<exists>requestURL requestToken parsed query body members rest answer.
        env ''ACTIONS_ID_TOKEN_REQUEST_URL'' = Some requestURL \<and> env ''ACTIONS_ID_TOKEN_REQUEST_TOKEN'' = Some requestToken \<and>
        requestToken \<noteq> [] \<and> url_Parse requestURL = Some parsed \<and>
        Scheme parsed = ''https'' \<and> Host parsed \<noteq> [] \<and> User parsed = None \<and>
        filter (\<lambda>(k, _). k = ''audience'') (parse_query query) = [(''audience'', ''sigstore'')] \<and>
        get (parsed\<lparr>RawQuery := query\<rparr>) (''Bearer '' @ requestToken) = Answered 200 body \<and>
        loose_object (take (2 ^ 20) body) = Some (members, rest) \<and>
        loose_strings True [''value''] (\<lambda>_. []) members = Some answer \<and>
        token = answer ''value'' \<and> TrimSpace token \<noteq> [])"

text \<open>The signer a token names in its claims: the called workflow, pinned by the full SHA it has to run at, or where none was
  called the workflow itself; and by its path it is the builder the Statement names.\<close>

definition token_signer :: "string \<Rightarrow> string \<Rightarrow> Statement \<Rightarrow> string \<Rightarrow> bool" where
  "token_signer token revision statement signerURI \<longleftrightarrow>
     (\<exists>header encoded signature payload claims ref path x y.
        split_on (CHR ''.'') token = [header, encoded, signature] \<and> RawURLDecode encoded = Some payload \<and>
        unmarshal_strings [''job_workflow_ref'', ''job_workflow_sha'', ''workflow_ref'', ''workflow_sha''] payload = Some claims \<and>
        (if claims ''job_workflow_ref'' \<noteq> [] \<or> claims ''job_workflow_sha'' \<noteq> [] then
           ref = claims ''job_workflow_ref'' \<and> revision = claims ''job_workflow_sha'' \<and>
           (\<exists>workflow. ref = workflow @ ''@'' @ revision) \<and> length revision = 40 \<and> list_all is_lower_hex revision
         else ref = claims ''workflow_ref'' \<and> revision = claims ''workflow_sha'') \<and>
        ref \<noteq> [] \<and> revision \<noteq> [] \<and> signerURI = ''https://github.com/'' @ ref \<and>
        Cut (b_ID (st_Builder statement)) ''@'' = Some (path, x) \<and> Cut signerURI ''@'' = Some (path, y))"

lemma githubActionsOIDCToken_Inr:
  assumes "githubActionsOIDCToken (\<lambda>name. case env name of None \<Rightarrow> [] | Some v \<Rightarrow> v) get = Inr token"
  shows "job_token env get token"
proof -
  let ?get = "\<lambda>name. case env name of None \<Rightarrow> [] | Some v \<Rightarrow> v"
  from assms obtain endpoint body where some: "?get ''ACTIONS_ID_TOKEN_REQUEST_URL'' \<noteq> []" "?get ''ACTIONS_ID_TOKEN_REQUEST_TOKEN'' \<noteq> []"
    and endpoint: "token_endpoint (?get ''ACTIONS_ID_TOKEN_REQUEST_URL'') = Some endpoint"
    and got: "get endpoint (''Bearer '' @ ?get ''ACTIONS_ID_TOKEN_REQUEST_TOKEN'') = Answered 200 body"
    and read: "token_value (take maxTokenResponse body) = Some token" "TrimSpace token \<noteq> []"
    by (auto simp: githubActionsOIDCToken_def Let_def split: if_splits option.splits token_answer.splits)
  from some obtain requestURL requestToken where
    env: "env ''ACTIONS_ID_TOKEN_REQUEST_URL'' = Some requestURL" "env ''ACTIONS_ID_TOKEN_REQUEST_TOKEN'' = Some requestToken"
    by (auto split: option.splits)
  from endpoint env obtain parsed where parsed: "url_Parse requestURL = Some parsed" "Scheme parsed = ''https''" "Host parsed \<noteq> []"
    "User parsed = None"
    "endpoint = parsed\<lparr>RawQuery := encode_query (set_value ''audience'' ''sigstore'' (parse_query (RawQuery parsed)))\<rparr>"
    by (auto simp: token_endpoint_def oidcAudience_def simp del: not_None_eq split: option.splits if_splits)
  let ?query = "encode_query (set_value ''audience'' ''sigstore'' (parse_query (RawQuery parsed)))"
  have query: "filter (\<lambda>(k, _). k = ''audience'') (parse_query ?query) = [(''audience'', ''sigstore'')]"
    by (simp only: parse_encode_query set_value_filter)
  from read(1) obtain members rest answer where "loose_object (take maxTokenResponse body) = Some (members, rest)"
    "loose_strings True [''value''] (\<lambda>_. []) members = Some answer" "token = answer ''value''"
    by (auto simp: token_value_def bind_eq_Some_conv)
  with env some parsed query got read(2) show ?thesis
    unfolding job_token_def maxTokenResponse_def by auto
qed

lemma CutLast_Some: "CutLast s c = Some (b, a) \<Longrightarrow> s = b @ c # a \<and> c \<notin> set a"
proof -
  assume "CutLast s c = Some (b, a)"
  then obtain x y where cut: "Cut (rev s) [c] = Some (x, y)" and ba: "b = rev y" "a = rev x"
    by (auto simp: CutLast_def)
  from cut have "rev s = x @ c # y" "c \<notin> set x" by (auto simp: Cut_char_Some)
  then have "s = rev (x @ c # y)" by (metis rev_rev_ident)
  with ba \<open>c \<notin> set x\<close> show ?thesis by simp
qed

lemma token_claims_Inr:
  "token_claims token = Inr claims \<Longrightarrow>
     \<exists>header encoded signature payload. split_on (CHR ''.'') token = [header, encoded, signature] \<and>
       RawURLDecode encoded = Some payload \<and>
       unmarshal_strings [''job_workflow_ref'', ''job_workflow_sha'', ''workflow_ref'', ''workflow_sha''] payload = Some claims"
  by (auto simp: token_claims_def workflow_claims_def split: list.splits option.splits)

lemma bindOIDCSignerIdentity_Inr:
  assumes "bindOIDCSignerIdentity statementBytes expectation token = Inr ident"
  shows "\<exists>statement. DecodeStatement statementBytes = Inr statement \<and>
    ident = expectation\<lparr>ie_SignerURI := ie_SignerURI ident\<rparr> \<and>
    token_signer token (ie_WorkflowSHA expectation) statement (ie_SignerURI ident)"
proof -
  from assms obtain claims where claims: "token_claims token = Inr claims"
    by (auto simp: bindOIDCSignerIdentity_def split: sum.splits)
  obtain ref sha where workflow: "claimed_workflow claims = (ref, sha)" by (cases "claimed_workflow claims")
  from assms claims workflow have sha: "ref \<noteq> []" "sha \<noteq> []" "sha = ie_WorkflowSHA expectation"
    and pinned: "\<not> (called claims \<and> \<not> pinned_by ref sha)"
    by (auto simp: bindOIDCSignerIdentity_def split: if_splits)
  with assms claims workflow obtain statement where st: "DecodeStatement statementBytes = Inr statement"
    by (cases "DecodeStatement statementBytes") (auto simp: bindOIDCSignerIdentity_def split: if_splits)
  from assms claims workflow sha pinned st obtain path x y where
    paths: "Cut (b_ID (st_Builder statement)) ''@'' = Some (path, x)" "Cut (''https://github.com/'' @ ref) ''@'' = Some (path, y)"
    and ident: "ident = expectation\<lparr>ie_SignerURI := ''https://github.com/'' @ ref\<rparr>"
    by (auto simp: bindOIDCSignerIdentity_def Let_def split: option.splits prod.splits if_splits)
  have "\<exists>workflow. ref = workflow @ ''@'' @ sha" "length sha = 40 \<and> list_all is_lower_hex sha" if "called claims"
    using that pinned
    by (auto simp: pinned_by_def ValidateFullSHA_def validFullSHA_def re_exactly_def dest: CutLast_Some
        split: option.splits if_splits)
  then have "if claims ''job_workflow_ref'' \<noteq> [] \<or> claims ''job_workflow_sha'' \<noteq> [] then
      ref = claims ''job_workflow_ref'' \<and> sha = claims ''job_workflow_sha'' \<and>
      (\<exists>workflow. ref = workflow @ ''@'' @ sha) \<and> length sha = 40 \<and> list_all is_lower_hex sha
    else ref = claims ''workflow_ref'' \<and> sha = claims ''workflow_sha''"
    using workflow by (auto simp: claimed_workflow_def called_def split: if_splits)
  moreover obtain header encoded signature payload where
    "split_on (CHR ''.'') token = [header, encoded, signature]" "RawURLDecode encoded = Some payload"
    "unmarshal_strings [''job_workflow_ref'', ''job_workflow_sha'', ''workflow_ref'', ''workflow_sha''] payload = Some claims"
    using token_claims_Inr [OF claims] by blast
  ultimately have "token_signer token sha statement (''https://github.com/'' @ ref)"
    using sha(1,2) paths unfolding token_signer_def
    by - (rule exI [of _ header], rule exI [of _ encoded], rule exI [of _ signature], rule exI [of _ payload],
        rule exI [of _ claims], rule exI [of _ ref], rule exI [of _ path], rule exI [of _ x], rule exI [of _ y],
        intro conjI, (assumption | rule refl)+)
  with st sha(3) ident show ?thesis by simp
qed

lemma verifyWithTrustedMaterial_authenticated:
  assumes "verifyWithTrustedMaterial sg transform env_has ctx_done request (Some m) = Inr result"
  shows "authenticated sg transform request m result \<and> validateIdentityExpectation (rq_Identity request) = None \<and>
    \<not> ctx_done \<and> rejectLegacyOverrides env_has = None"
proof -
  from assms obtain p where ok: "request_error ctx_done request = None"
    and ident: "validateIdentityExpectation (rq_Identity request) = None"
    and p: "ParseBundle sg (rq_Bundle request) = Inr p" and env: "rejectLegacyOverrides env_has = None"
    and run: "verifyParsedWithTrustedMaterial sg transform request p m = Inr result"
    by (auto simp: verifyWithTrustedMaterial_def split: sum.splits)
  from ok have ctx: "\<not> ctx_done" by (auto simp: request_error_def Let_def)
  with verifyParsed_authenticated [OF run p] ok ident env show ?thesis by simp
qed

text \<open>What is handed on, by the text that was to be signed and the identity that was expected: the bundle sigstore made of these
  bytes with the token of this job, verified for the signer which that same token names.\<close>

definition signed_for ::
  "('b, 'm) sigstore \<Rightarrow> ('p, 'b, 'm) signer \<Rightarrow> (string \<Rightarrow> string result) \<Rightarrow> (string \<Rightarrow> string option)
    \<Rightarrow> (url \<Rightarrow> string \<Rightarrow> token_answer) \<Rightarrow> signing_Request \<Rightarrow> signing_Result \<Rightarrow> bool" where
  "signed_for sg sn transform env get request result \<longleftrightarrow>
     sr_Statement result = sq_Statement request \<and>
     (\<exists>statement token ident root made loaded verified.
        DecodeStatement (sr_Statement result) = Inr statement \<and>
        Statement_CanonicalJSON transform statement = Inr (sr_Statement result) \<and>
        job_token env get token \<and>
        ident = (sq_Identity request)\<lparr>ie_SignerURI := ie_SignerURI ident\<rparr> \<and>
        token_signer token (ie_WorkflowSHA (sq_Identity request)) statement (ie_SignerURI ident) \<and>
        sg_FetchTrustedRoot sg = Some root \<and>
        sn_Bundle sn \<lparr>ds_Data = sr_Statement result, ds_PayloadType = ''application/vnd.in-toto+json''\<rparr>
          ''https://fulcio.sigstore.dev'' ''https://rekor.sigstore.dev'' token root = Some made \<and>
        sn_NewBundle sn made = Some loaded \<and> sn_MarshalJSON sn loaded = Some (sr_Bundle result) \<and>
        validateIdentityExpectation ident = None \<and> rejectLegacyOverrides (\<lambda>name. env name \<noteq> None) = None \<and>
        authenticated sg transform (verification_request (sr_Bundle result) ident (sr_Statement result)) root verified \<and>
        vr_bundle verified = sr_Bundle result \<and> vr_statement verified = sr_Statement result)"

lemma sign_bundle_Inr:
  "sign_bundle sn content token root = Inr serialized \<Longrightarrow>
     \<exists>made loaded. sn_Bundle sn content ''https://fulcio.sigstore.dev'' ''https://rekor.sigstore.dev'' token root = Some made \<and>
       sn_NewBundle sn made = Some loaded \<and> sn_MarshalJSON sn loaded = Some serialized"
  by (auto simp: sign_bundle_def fulcioURL_def rekorURL_def split: if_splits option.splits)

lemma SignGitHubActions_signed:
  assumes "SignGitHubActions sg sn transform env get ctx request = Inr result"
  shows "signed_for sg sn transform env get request result"
proof -
  from assms obtain ctx_done content root token ident serialized verified where
    content: "PrepareDSSE transform (sq_Statement request) = Inr content"
    and root: "sg_FetchTrustedRoot sg = Some root"
    and token: "githubActionsOIDCToken (\<lambda>name. case env name of None \<Rightarrow> [] | Some v \<Rightarrow> v) get = Inr token"
    and ident: "bindOIDCSignerIdentity (ds_Data content) (sq_Identity request) token = Inr ident"
    and made: "sign_bundle sn content token root = Inr serialized"
    and verified: "verifyWithTrustedMaterial sg transform (\<lambda>name. env name \<noteq> None) ctx_done
      (verification_request serialized ident (ds_Data content)) (Some root) = Inr verified"
    and same: "vr_bundle verified = serialized" "vr_statement verified = ds_Data content"
    and result: "result = \<lparr>sr_Statement = ds_Data content, sr_Bundle = serialized\<rparr>"
    by (auto simp: SignGitHubActions_def split: option.splits sum.splits if_splits)
  from content have data: "content = \<lparr>ds_Data = sq_Statement request, ds_PayloadType = ''application/vnd.in-toto+json''\<rparr>"
    by (auto simp: PrepareDSSE_Inr IntotoMediaType_def)
  from content obtain statement where st: "DecodeStatement (sq_Statement request) = Inr statement"
    "Statement_CanonicalJSON transform statement = Inr (sq_Statement request)" by (auto simp: PrepareDSSE_Inr)
  from bindOIDCSignerIdentity_Inr [OF ident] data st(1)
  have signer: "ident = (sq_Identity request)\<lparr>ie_SignerURI := ie_SignerURI ident\<rparr>"
    "token_signer token (ie_WorkflowSHA (sq_Identity request)) statement (ie_SignerURI ident)" by auto
  from verifyWithTrustedMaterial_authenticated [OF verified]
  have auth: "authenticated sg transform (verification_request serialized ident (sq_Statement request)) root verified"
    "validateIdentityExpectation ident = None" "rejectLegacyOverrides (\<lambda>name. env name \<noteq> None) = None"
    by (simp_all add: data verification_request_def)
  from sign_bundle_Inr [OF made] obtain signed' loaded where
    "sn_Bundle sn \<lparr>ds_Data = sq_Statement request, ds_PayloadType = ''application/vnd.in-toto+json''\<rparr>
       ''https://fulcio.sigstore.dev'' ''https://rekor.sigstore.dev'' token root = Some signed'"
    "sn_NewBundle sn signed' = Some loaded" "sn_MarshalJSON sn loaded = Some serialized" unfolding data by blast
  moreover have text': "sr_Statement result = sq_Statement request" and bytes: "sr_Bundle result = serialized"
    and kept: "vr_statement verified = sq_Statement request" using result same data by simp_all
  ultimately show ?thesis
    using githubActionsOIDCToken_Inr [OF token] st signer auth root same(1)
    unfolding signed_for_def text' bytes
    by - (rule conjI [OF refl], rule exI [of _ statement], rule exI [of _ token], rule exI [of _ ident], rule exI [of _ root],
        rule exI [of _ signed'], rule exI [of _ loaded], rule exI [of _ verified], intro conjI, (assumption | rule refl)+)
qed

text \<open>
  C17: Whatever the network and sigstore answer, a signature that is handed on says what was asked for.  The Statement
  is the very text given, canonical and decodable.  The token is the one the job's token endpoint answered, with 200 and over
  https, to the job's own request for the audience sigstore; the bundle is the one sigstore made of exactly these bytes with
  this token, and it was verified, with log evidence, under the root TUF authenticated, for a certificate that carries the
  expected identity; the signer is the workflow this same token names, at the expected revision: the called one,
  pinned by that full SHA, or where none was called the job's own; and its path is that of the builder in the Statement.
\<close>

theorem signature_sound:
  "case SignGitHubActions sg sn transform env get ctx request of
     Inl _ \<Rightarrow> True
   | Inr result \<Rightarrow> signed_for sg sn transform env get request result"
  by (cases "SignGitHubActions sg sn transform env get ctx request") (simp_all add: SignGitHubActions_signed)

end
