(* ===== verification/OidcClient.thy ===== *)
theory OidcClient
  imports Publish Selection LooseJson Query GoTime "HOL-Library.Word"
begin

text \<open>
  internal/npmprofile/oidc_client.go: how the publish job obtains its identity.  GitHub issues an identity token for
  npm's audience, npm exchanges it for a short-lived publish token.  Requests go through the bounded requests of
  \<^theory_text>\<open>RegistryClient\<close>; what a request meets is an argument, as are the clock and the sort.  A panic is
  \<^const>\<open>None\<close>; \<open>oidc_reports\<close> shows that there is none.  The first section is the hardened client of
  http_client.go.
\<close>

section \<open>The HTTP client\<close>

definition VersionTLS12 :: nat where "VersionTLS12 = 0x0303"

record tls_config =
  tc_InsecureSkipVerify :: bool
  tc_MinVersion :: nat

record http_transport =
  ht_DialTLS :: bool
  ht_TLS :: "tls_config option"

text \<open>What an injected client brings: no transport of its own, an http.Transport, or one of another type; the
  default transport may be replaced too.\<close>

datatype transport = NoTransport | HTTPTransport http_transport | OtherTransport

definition default_transport :: "http_transport option \<Rightarrow> http_transport result" where
  "default_transport shared =
     (case shared of
        None \<Rightarrow> Inl (http_error ''default HTTP transport has an unsupported type'') | Some t \<Rightarrow> Inr t)"

text \<open>The transport of the hardened client; it also refuses every redirect.\<close>

definition hardenedHTTPClient :: "http_transport option \<Rightarrow> transport option \<Rightarrow> http_transport result" where
  "hardenedHTTPClient shared injected =
     (case (case injected of
              None \<Rightarrow> default_transport shared
            | Some NoTransport \<Rightarrow> default_transport shared
            | Some (HTTPTransport t) \<Rightarrow> Inr t
            | Some OtherTransport \<Rightarrow> Inl (http_error ''custom HTTP transport has an unsupported type'')) of
        Inl err \<Rightarrow> Inl err
      | Inr t \<Rightarrow>
          if ht_DialTLS t then Inl (http_error ''custom TLS dialers are prohibited'')
          else
            (case ht_TLS t of
               None \<Rightarrow> Inr (t\<lparr>ht_TLS := Some \<lparr>tc_InsecureSkipVerify = False, tc_MinVersion = VersionTLS12\<rparr>\<rparr>)
             | Some c \<Rightarrow>
                 if tc_InsecureSkipVerify c then Inl (http_error ''TLS certificate verification cannot be disabled'')
                 else Inr (t\<lparr>ht_TLS := Some (c\<lparr>tc_MinVersion := max VersionTLS12 (tc_MinVersion c)\<rparr>)\<rparr>)))"

section \<open>The OIDC client\<close>

definition IDNPMOIDCExchangeIndeterminate :: string where
  "IDNPMOIDCExchangeIndeterminate = npm_error_id ''npm-oidc-exchange-indeterminate''"
definition IDOIDCCapabilityUnavailable :: string where
  "IDOIDCCapabilityUnavailable = npm_error_id ''oidc-capability-unavailable''"
definition maxOIDCResponse :: nat where "maxOIDCResponse = 64 * 2 ^ 10"

record OIDCClient =
  oc_transport :: http_transport
  oc_registryURL :: registry_url
  oc_idTokenRequestURL :: string
  oc_idTokenRequestToken :: string
  oc_githubWorkflowRef :: string
  oc_audience :: string

record OIDCIdentity =
  oi_Token :: string
  oi_WorkflowFilename :: string

definition NewOIDCClient ::
  "(nat \<Rightarrow> nat) \<Rightarrow> http_transport option \<Rightarrow> transport option \<Rightarrow> string \<Rightarrow> string \<Rightarrow> string \<Rightarrow> string \<Rightarrow> OIDCClient result" where
  "NewOIDCClient lc shared injected registryURL requestURL requestToken workflowRef =
     (case normalizeRegistryURL lc registryURL of
        Inl err \<Rightarrow> Inl err
      | Inr normalized \<Rightarrow>
          (case hardenedHTTPClient shared injected of
             Inl err \<Rightarrow> Inl err
           | Inr client \<Rightarrow>
               Inr \<lparr>oc_transport = client, oc_registryURL = normalized, oc_idTokenRequestURL = requestURL,
                 oc_idTokenRequestToken = requestToken, oc_githubWorkflowRef = workflowRef,
                 oc_audience = ''npm:'' @ ru_Host normalized\<rparr>))"

text \<open>Where a request goes: the address GitHub handed out, or an escaped path of the registry.\<close>

datatype oidc_target = TokenURL url | RegistryPath registry_url string

type_synonym headers = "(string \<times> string) list"

record oidc_world =
  ow_http :: "string \<Rightarrow> oidc_target \<Rightarrow> headers \<Rightarrow> http_env"
  ow_now :: int

definition oidc_request :: "oidc_world \<Rightarrow> string \<Rightarrow> oidc_target \<Rightarrow> headers \<Rightarrow> boundedResponse result" where
  "oidc_request world method target headers = snd (performBoundedRequest (ow_http world method target headers) maxOIDCResponse)"

section \<open>Reports\<close>

definition oidcPassReport :: "(string \<Rightarrow> string result) \<Rightarrow> report_sorter \<Rightarrow> Report option" where
  "oidcPassReport transform sorter = (case Build transform sorter None [] None of Inl _ \<Rightarrow> None | Inr report \<Rightarrow> Some report)"

definition oidcFailureReport ::
  "(string \<Rightarrow> string result) \<Rightarrow> report_sorter \<Rightarrow> string \<Rightarrow> string \<Rightarrow> string \<Rightarrow> Report option" where
  "oidcFailureReport transform sorter ident check message =
     (case New transform ident check message of
        Inl _ \<Rightarrow> None
      | Inr entry \<Rightarrow> (case Build transform sorter None [entry] None of Inl _ \<Rightarrow> None | Inr report \<Rightarrow> Some report))"

section \<open>GitHub's answer\<close>

definition no_response :: go_error where "no_response = ErrText ''invalid GitHub OIDC response'' []"

definition response_value :: "string \<Rightarrow> string result" where
  "response_value encoded =
     (case parseStrict encoded of
        Inl err \<Rightarrow> Inl err
      | Inr v \<Rightarrow>
          (case decode_struct [(''value'', store_string (\<lambda>x _. x))] [] v of
             None \<Rightarrow> Inl no_response
           | Some token \<Rightarrow> if token = [] then Inl no_response else Inr token))"

definition claimed_ref :: "string \<Rightarrow> string option" where
  "claimed_ref payload =
     (case parseStrict payload of
        Inl _ \<Rightarrow> None
      | Inr v \<Rightarrow> decode_open [(''workflow_ref'', store_string (\<lambda>x _. x))] [] v)"

definition decodeGitHubOIDCResponse :: "string \<Rightarrow> string \<Rightarrow> (string \<times> string) result" where
  "decodeGitHubOIDCResponse encoded githubWorkflowRef =
     (case response_value encoded of
        Inl err \<Rightarrow> Inl err
      | Inr token \<Rightarrow>
     (case split_on (CHR ''.'') token of
        [_, claims_part, _] \<Rightarrow>
          (case RawURLDecode claims_part of
             None \<Rightarrow> Inl (ErrText ''invalid GitHub OIDC claims'' [])
           | Some payload \<Rightarrow>
               if Validate payload \<noteq> None then Inl (ErrText ''invalid GitHub OIDC claims'' [])
               else
                 (case claimed_ref payload of
                    None \<Rightarrow> Inl (ErrText ''caller workflow claim mismatch'' [])
                  | Some workflowRef \<Rightarrow>
                      if workflowRef = [] \<or> workflowRef \<noteq> githubWorkflowRef then
                        Inl (ErrText ''caller workflow claim mismatch'' [])
                      else
                        (case Cut workflowRef ''@'' of
                           None \<Rightarrow> Inl (ErrText ''caller workflow claim has no ref'' [])
                         | Some (workflowPath, _) \<Rightarrow>
                             (let filename = Base workflowPath in
                              if filename = ''.'' \<or> filename = ''/'' \<or> \<not> Contains workflowPath ''/.github/workflows/'' then
                                Inl (ErrText ''caller workflow path is invalid'' [])
                              else Inr (token, filename)))))
      | _ \<Rightarrow> Inl (ErrText ''invalid GitHub OIDC token'' [])))"

section \<open>npm's answer\<close>

text \<open>time.Unix: the seconds since the year 1 are a 64-bit integer, which wraps around.\<close>

definition unix_instant :: "int \<Rightarrow> int" where
  "unix_instant seconds = (sint (word_of_int (seconds + 62135596800) :: 64 word) - 62135596800) * 10 ^ 9"

definition parseExchangeTimestamp :: "string \<Rightarrow> int option" where
  "parseExchangeTimestamp raw =
     (case Token (NewDecoder raw) of
        Got (TString s, _) \<Rightarrow> parse_rfc3339 s
      | Got (TNumber number, _) \<Rightarrow>
          (case Atoi number of
             None \<Rightarrow> None | Some seconds \<Rightarrow> if seconds \<le> 0 then None else Some (unix_instant seconds))
      | _ \<Rightarrow> None)"

record exchange_doc =
  xd_TokenType :: string
  xd_Token :: string
  xd_Created :: string
  xd_Expires :: string

definition exchange_fields :: "exchange_doc raw_field list" where
  "exchange_fields =
     [(''token_type'', text_field (\<lambda>x. xd_TokenType_update (\<lambda>_. x))),
      (''token'', text_field (\<lambda>x. xd_Token_update (\<lambda>_. x))),
      (''created'', raw_text (\<lambda>x. xd_Created_update (\<lambda>_. x))),
      (''expires'', raw_text (\<lambda>x. xd_Expires_update (\<lambda>_. x)))]"

text \<open>A member of no field is refused.\<close>

definition exchange_decode :: "string \<Rightarrow> exchange_doc option" where
  "exchange_decode encoded =
     Option.bind (raw_members encoded) (\<lambda>members.
       if list_ex (\<lambda>(member, _). find_raw_field exchange_fields member = None) members then None
       else store_members exchange_fields \<lparr>xd_TokenType = [], xd_Token = [], xd_Created = [], xd_Expires = []\<rparr> members)"

definition decodeNPMExchangeResponse :: "string \<Rightarrow> int \<Rightarrow> (string \<times> int \<times> int) result" where
  "decodeNPMExchangeResponse encoded now =
     guarded (Validate encoded)
     (case exchange_decode encoded of
        None \<Rightarrow> Inl (ErrText ''json'' [])
      | Some response \<Rightarrow>
          (case (parseExchangeTimestamp (xd_Created response), parseExchangeTimestamp (xd_Expires response)) of
             (Some createdAt, Some expiresAt) \<Rightarrow>
               if xd_TokenType response \<noteq> ''oidc'' \<or> xd_Token response = []
                  \<or> ContainsAny (xd_Token response) [CHR 0x0D, CHR 0x0A, CHR 0x00]
                  \<or> \<not> expiresAt > createdAt \<or> \<not> expiresAt > now then
                 Inl (ErrText ''invalid npm OIDC exchange response'' [])
               else Inr (xd_Token response, createdAt, expiresAt)
           | _ \<Rightarrow> Inl (ErrText ''invalid npm OIDC exchange response'' [])))"

section \<open>The operations\<close>

definition no_identity :: OIDCIdentity where
  "no_identity = \<lparr>oi_Token = [], oi_WorkflowFilename = []\<rparr>"

definition identity_headers :: "OIDCClient \<Rightarrow> headers" where
  "identity_headers client =
     [(''Accept'', ''application/json; api-version=2.0''), (''Authorization'', ''Bearer '' @ oc_idTokenRequestToken client),
      (''Content-Type'', ''application/json''), (''User-Agent'', ''windlass-slsa-builder'')]"

definition identity_endpoint :: "OIDCClient \<Rightarrow> url option" where
  "identity_endpoint client =
     (case url_Parse (oc_idTokenRequestURL client) of
        None \<Rightarrow> None
      | Some endpoint \<Rightarrow>
          if Scheme endpoint \<noteq> ''https'' \<or> Host endpoint = [] \<or> User endpoint \<noteq> None \<or> Fragment endpoint \<noteq> [] then None
          else Some (endpoint\<lparr>RawQuery := encode_query (set_value ''audience'' (oc_audience client) (parse_query (RawQuery endpoint)))\<rparr>))"

definition identity_failure ::
  "(string \<Rightarrow> string result) \<Rightarrow> report_sorter \<Rightarrow> string \<Rightarrow> string \<Rightarrow> string \<Rightarrow> (OIDCIdentity \<times> Report) option" where
  "identity_failure transform sorter ident check message =
     map_option (Pair no_identity) (oidcFailureReport transform sorter ident check message)"

definition AcquireIdentity ::
  "(string \<Rightarrow> string result) \<Rightarrow> report_sorter \<Rightarrow> oidc_world \<Rightarrow> OIDCClient \<Rightarrow> (OIDCIdentity \<times> Report) option" where
  "AcquireIdentity transform sorter world client =
     (if oc_idTokenRequestURL client = [] \<or> oc_idTokenRequestToken client = [] then
        identity_failure transform sorter IDOIDCCapabilityUnavailable ''oidc.capability''
          ''GitHub Actions OIDC capability is unavailable''
      else
     (case identity_endpoint client of
        None \<Rightarrow>
          identity_failure transform sorter IDOIDCCapabilityUnavailable ''oidc.capability''
            ''GitHub Actions OIDC request endpoint is unusable''
      | Some endpoint \<Rightarrow>
     (case oidc_request world ''GET'' (TokenURL endpoint) (identity_headers client) of
        Inl _ \<Rightarrow>
          identity_failure transform sorter IDOIDCCapabilityUnavailable ''oidc.capability''
            ''GitHub Actions could not issue an OIDC identity token''
      | Inr response \<Rightarrow>
          if br_status response \<noteq> 200 then
            identity_failure transform sorter IDOIDCCapabilityUnavailable ''oidc.capability''
              ''GitHub Actions could not issue an OIDC identity token''
          else
     (case decodeGitHubOIDCResponse (br_body response) (oc_githubWorkflowRef client) of
        Inl _ \<Rightarrow>
          identity_failure transform sorter IDTrustedPublisherMismatch ''oidc.caller-workflow''
            ''caller workflow identity is unavailable or conflicts with GitHub context''
      | Inr (identityToken, workflowFilename) \<Rightarrow>
          map_option (Pair \<lparr>oi_Token = identityToken, oi_WorkflowFilename = workflowFilename\<rparr>)
            (oidcPassReport transform sorter)))))"

text \<open>An exchange result comes with its whole report.\<close>

definition only_report :: "Report \<Rightarrow> OIDCExchangeResult \<times> Report" where
  "only_report report =
     (\<lparr>oe_GitHubIdentityToken = [], oe_Token = [], oe_CreatedAt = zero_time, oe_ExpiresAt = zero_time,
       oe_WorkflowFilename = [], oe_PrimaryID = rp_PrimaryID report\<rparr>, report)"

definition exchange_failure ::
  "(string \<Rightarrow> string result) \<Rightarrow> report_sorter \<Rightarrow> string \<Rightarrow> string \<Rightarrow> (OIDCExchangeResult \<times> Report) option" where
  "exchange_failure transform sorter ident message =
     map_option only_report (oidcFailureReport transform sorter ident ''npm.oidc-exchange'' message)"

definition exchange_path :: "string \<Rightarrow> string" where
  "exchange_path packageName = ''/-/npm/v1/oidc/token/exchange/package/'' @ percentEncode packageName"

definition exchange_headers :: "string \<Rightarrow> headers" where
  "exchange_headers identityToken =
     [(''Accept'', ''application/json''), (''Authorization'', ''Bearer '' @ identityToken),
      (''User-Agent'', ''windlass-slsa-builder'')]"

definition Exchange ::
  "(string \<Rightarrow> string result) \<Rightarrow> report_sorter \<Rightarrow> oidc_world \<Rightarrow> OIDCClient \<Rightarrow> string \<Rightarrow> string
    \<Rightarrow> (OIDCExchangeResult \<times> Report) option" where
  "Exchange transform sorter world client packageName identityToken =
     (if \<not> validRegistryPackageName packageName \<or> identityToken = [] then
        exchange_failure transform sorter IDNPMOIDCExchangeIndeterminate ''npm OIDC exchange inputs are unusable''
      else
     (case oidc_request world ''POST'' (RegistryPath (oc_registryURL client) (exchange_path packageName))
             (exchange_headers identityToken) of
        Inl _ \<Rightarrow>
          exchange_failure transform sorter IDNPMOIDCExchangeIndeterminate
            ''npm OIDC exchange could not establish trusted-publisher state''
      | Inr response \<Rightarrow>
          if br_status response = 401 \<or> br_status response = 404 then
            exchange_failure transform sorter IDTrustedPublisherMismatch
              ''npm trusted-publisher configuration does not authorize this caller workflow''
          else if br_status response \<noteq> 201 then
            exchange_failure transform sorter IDNPMOIDCExchangeIndeterminate
              ''npm OIDC exchange returned an unclassifiable response''
          else
     (case decodeNPMExchangeResponse (br_body response) (ow_now world) of
        Inl _ \<Rightarrow>
          exchange_failure transform sorter IDNPMOIDCExchangeIndeterminate
            ''npm OIDC exchange returned a malformed response''
      | Inr (publishToken, createdAt, expiresAt) \<Rightarrow>
          map_option (\<lambda>report.
              (\<lparr>oe_GitHubIdentityToken = identityToken, oe_Token = publishToken, oe_CreatedAt = createdAt,
                oe_ExpiresAt = expiresAt, oe_WorkflowFilename = [], oe_PrimaryID = rp_PrimaryID report\<rparr>, report))
            (oidcPassReport transform sorter))))"

definition oidc_Preflight ::
  "(string \<Rightarrow> string result) \<Rightarrow> report_sorter \<Rightarrow> oidc_world \<Rightarrow> OIDCClient \<Rightarrow> string
    \<Rightarrow> (OIDCExchangeResult \<times> Report) option" where
  "oidc_Preflight transform sorter world client packageName =
     Option.bind (AcquireIdentity transform sorter world client) (\<lambda>(ident, report).
       if rp_PrimaryID report \<noteq> None then Some (only_report report)
       else
         map_option (\<lambda>(result, report').
             (result\<lparr>oe_GitHubIdentityToken := oi_Token ident, oe_WorkflowFilename := oi_WorkflowFilename ident\<rparr>, report'))
           (Exchange transform sorter world client packageName (oi_Token ident)))"

section \<open>Reports are always made\<close>

definition oidc_failures :: "string set" where
  "oidc_failures = {IDOIDCCapabilityUnavailable, IDTrustedPublisherMismatch, IDNPMOIDCExchangeIndeterminate}"

lemma oidc_registered:
  assumes "ident \<in> oidc_failures"
  shows "\<exists>d. Lookup ident = Some d \<and> def_ID d = ident \<and> def_Severity d = SeverityError"
proof -
  have "''oidc-capability-unavailable'' \<in> set errorCategories" "''trusted-publisher-mismatch'' \<in> set errorCategories"
    "''npm-oidc-exchange-indeterminate'' \<in> set errorCategories"
    unfolding errorCategories_def by (intro list.set_intros)+
  with assms obtain c where "c \<in> set errorCategories" "ident = npm_error_id c"
    by (auto simp: oidc_failures_def IDOIDCCapabilityUnavailable_def IDTrustedPublisherMismatch_def
        IDNPMOIDCExchangeIndeterminate_def)
  then have "Lookup ident = Some (error_entry c)"
    unfolding Lookup_closed by (auto simp: npm_error_id_def error_id_def)
  moreover have "npm_error ident" using \<open>ident = npm_error_id c\<close> by simp
  ultimately show ?thesis using Lookup_Some npm_error_severity by blast
qed

lemma failure_reported:
  assumes "slice_sort sorter" and "ident \<in> oidc_failures"
    and "check \<noteq> []" "utf8_valid check" "message \<noteq> []" "utf8_valid message"
  shows "\<exists>r. oidcFailureReport T sorter ident check message = Some r \<and> rp_PrimaryID r = Some ident"
proof -
  from oidc_registered [OF assms(2)] obtain d where
    d: "Lookup ident = Some d" "def_ID d = ident" "def_Severity d = SeverityError" by blast
  then obtain entry where entry: "New T ident check message = Inr entry" "dg_ID entry = ident"
    and valid: "validateDiagnostic T entry = None"
    using assms(3-) by (simp add: New_def validateDiagnostic_def validateOptionalJSON_def Let_def)
  have "Build T sorter None [entry] None = Inr (built T None [entry] None)"
    using Build_valid [OF assms(1), of T "[entry]" None None] valid
    by (simp add: validate_all_None sorted_singleton assms(1) validateMetadata_def)
  with entry d show ?thesis by (simp add: oidcFailureReport_def registry_at_def)
qed

lemma pass_reported: "slice_sort sorter \<Longrightarrow> \<exists>r. oidcPassReport T sorter = Some r \<and> rp_PrimaryID r = None"
proof -
  assume sorter: "slice_sort sorter"
  have "ordered_by T sorter [] = []"
    using slice_sort.permutes [OF sorter, of "diagnosticLess T" "[]"] by (simp add: ordered_by_def)
  with Build_valid [OF sorter, of T "[]" None None] show ?thesis
    by (simp add: oidcPassReport_def validateMetadata_def)
qed

lemma oidc_texts:
  "utf8_valid ''oidc.capability''" "utf8_valid ''oidc.caller-workflow''" "utf8_valid ''npm.oidc-exchange''"
  "utf8_valid ''GitHub Actions OIDC capability is unavailable''"
  "utf8_valid ''GitHub Actions OIDC request endpoint is unusable''"
  "utf8_valid ''GitHub Actions could not issue an OIDC identity token''"
  "utf8_valid ''caller workflow identity is unavailable or conflicts with GitHub context''"
  "utf8_valid ''npm OIDC exchange inputs are unusable''"
  "utf8_valid ''npm OIDC exchange could not establish trusted-publisher state''"
  "utf8_valid ''npm trusted-publisher configuration does not authorize this caller workflow''"
  "utf8_valid ''npm OIDC exchange returned an unclassifiable response''"
  "utf8_valid ''npm OIDC exchange returned a malformed response''"
  by (rule utf8_valid_ascii, code_simp)+

section \<open>What a token stands for\<close>

text \<open>A JSON object that holds a text under a name, with no regard to case as encoding/json has it.\<close>

definition carries :: "string \<Rightarrow> string \<Rightarrow> string \<Rightarrow> bool" where
  "carries document name content \<longleftrightarrow>
     (\<exists>members member. parseStrict document = Inr (JObj members) \<and> (member, JString content) \<in> set members \<and>
        foldName member = foldName name)"

lemma find_only_field: "find_field [(name, store)] member = Some st \<Longrightarrow> st = store \<and> foldName member = foldName name"
  by (auto simp: find_field_def split: if_splits)

lemma decode_members_text:
  "decode_members [(name, store_string (\<lambda>x _. x))] init members = Some content
   \<Longrightarrow> content = init \<or> (\<exists>member. (member, JString content) \<in> set members \<and> foldName member = foldName name)"
proof (induction members arbitrary: init)
  case (Cons m members)
  obtain member v where m: "m = (member, v)" by (cases m)
  with Cons.prems obtain init' where step: "foldName member = foldName name" "store_string (\<lambda>x _. x) init v = Some init'"
      "decode_members [(name, store_string (\<lambda>x _. x))] init' members = Some content"
    by (auto split: option.splits dest!: find_only_field)
  from Cons.IH [OF step(3)] step(1,2) m show ?case by (auto simp: store_string_def split: jval.splits)
qed simp

lemma decode_open_members_text:
  "decode_open_members [(name, store_string (\<lambda>x _. x))] init members = Some content
   \<Longrightarrow> content = init \<or> (\<exists>member. (member, JString content) \<in> set members \<and> foldName member = foldName name)"
proof (induction members arbitrary: init)
  case (Cons m members)
  obtain member v where m: "m = (member, v)" by (cases m)
  show ?case
  proof (cases "find_field [(name, store_string (\<lambda>x _. x))] member")
    case None
    with Cons m show ?thesis by auto
  next
    case (Some st)
    with Cons.prems m obtain init' where step: "foldName member = foldName name" "store_string (\<lambda>x _. x) init v = Some init'"
        "decode_open_members [(name, store_string (\<lambda>x _. x))] init' members = Some content"
      by (auto split: option.splits dest!: find_only_field)
    from Cons.IH [OF step(3)] step(1,2) m show ?thesis by (auto simp: store_string_def split: jval.splits)
  qed
qed simp

lemma response_value_carries:
  assumes "response_value encoded = Inr token"
  shows "carries encoded ''value'' token"
proof -
  from assms obtain v where v: "parseStrict encoded = Inr v" "decode_struct [(''value'', store_string (\<lambda>x _. x))] [] v = Some token"
    "token \<noteq> []" by (auto simp: response_value_def split: sum.splits option.splits if_splits)
  then obtain members where m: "v = JObj members" by (cases v) (auto simp: decode_struct_def)
  with v decode_members_text show ?thesis by (fastforce simp: carries_def decode_struct_def)
qed

lemma claimed_ref_carries:
  assumes "claimed_ref payload = Some ref" "ref \<noteq> []"
  shows "carries payload ''workflow_ref'' ref"
proof -
  from assms obtain v where v: "parseStrict payload = Inr v" "decode_open [(''workflow_ref'', store_string (\<lambda>x _. x))] [] v = Some ref"
    by (auto simp: claimed_ref_def split: sum.splits)
  with assms(2) obtain members where m: "v = JObj members" by (cases v) (auto simp: decode_open_def)
  with v assms(2) decode_open_members_text show ?thesis by (fastforce simp: carries_def decode_open_def)
qed

text \<open>
  An identity is what GitHub answered, over https, to a request with the job's own token whose only audience is the client's; its
  claims name exactly the observed workflow.
\<close>

definition identity_granted :: "oidc_world \<Rightarrow> OIDCClient \<Rightarrow> OIDCIdentity \<Rightarrow> bool" where
  "identity_granted world client ident \<longleftrightarrow>
     (\<exists>parsed query endpoint response header encoded signature payload path ref.
        url_Parse (oc_idTokenRequestURL client) = Some parsed \<and> endpoint = parsed\<lparr>RawQuery := query\<rparr> \<and>
        Scheme parsed = ''https'' \<and> Host parsed \<noteq> [] \<and> User parsed = None \<and> Fragment parsed = [] \<and>
        filter (\<lambda>(k, _). k = ''audience'') (parse_query query) = [(''audience'', oc_audience client)] \<and>
        filter (\<lambda>(k, _). k = ''Authorization'') (identity_headers client) =
          [(''Authorization'', ''Bearer '' @ oc_idTokenRequestToken client)] \<and>
        oidc_request world ''GET'' (TokenURL endpoint) (identity_headers client) = Inr response \<and> br_status response = 200 \<and>
        carries (br_body response) ''value'' (oi_Token ident) \<and>
        split_on (CHR ''.'') (oi_Token ident) = [header, encoded, signature] \<and>
        RawURLDecode encoded = Some payload \<and> carries payload ''workflow_ref'' (oc_githubWorkflowRef client) \<and>
        oc_githubWorkflowRef client = path @ ''@'' @ ref \<and> CHR ''@'' \<notin> set path \<and>
        Contains path ''/.github/workflows/'' \<and> oi_WorkflowFilename ident = Base path)"

text \<open>A publish token answers the exchange of that identity for the package, and has not expired.\<close>

definition token_exchanged :: "oidc_world \<Rightarrow> OIDCClient \<Rightarrow> string \<Rightarrow> OIDCExchangeResult \<Rightarrow> bool" where
  "token_exchanged world client packageName result \<longleftrightarrow>
     validRegistryPackageName packageName \<and>
     (\<exists>response.
        oidc_request world ''POST'' (RegistryPath (oc_registryURL client) (exchange_path packageName))
          (exchange_headers (oe_GitHubIdentityToken result)) = Inr response \<and>
        br_status response = 201 \<and>
        filter (\<lambda>(k, _). k = ''Authorization'') (exchange_headers (oe_GitHubIdentityToken result)) =
          [(''Authorization'', ''Bearer '' @ oe_GitHubIdentityToken result)] \<and>
        (\<exists>answer. exchange_decode (br_body response) = Some answer \<and> xd_TokenType answer = ''oidc'' \<and>
           xd_Token answer = oe_Token result \<and> parseExchangeTimestamp (xd_Created answer) = Some (oe_CreatedAt result) \<and>
           parseExchangeTimestamp (xd_Expires answer) = Some (oe_ExpiresAt result))) \<and>
     oe_Token result \<noteq> [] \<and> list_all (\<lambda>c. c \<notin> {CHR 0x0D, CHR 0x0A, CHR 0x00}) (oe_Token result) \<and>
     oe_CreatedAt result < oe_ExpiresAt result \<and> ow_now world < oe_ExpiresAt result"

lemma identity_endpoint_Some:
  assumes "identity_endpoint client = Some endpoint"
  shows "\<exists>parsed query. url_Parse (oc_idTokenRequestURL client) = Some parsed \<and> endpoint = parsed\<lparr>RawQuery := query\<rparr> \<and>
    Scheme parsed = ''https'' \<and> Host parsed \<noteq> [] \<and> User parsed = None \<and> Fragment parsed = [] \<and>
    filter (\<lambda>(k, _). k = ''audience'') (parse_query query) = [(''audience'', oc_audience client)]"
proof -
  from assms obtain parsed where "url_Parse (oc_idTokenRequestURL client) = Some parsed" "Scheme parsed = ''https''"
      "Host parsed \<noteq> []" "User parsed = None" "Fragment parsed = []"
    and "endpoint = parsed\<lparr>RawQuery := encode_query (set_value ''audience'' (oc_audience client) (parse_query (RawQuery parsed)))\<rparr>"
    by (auto simp: identity_endpoint_def simp del: not_None_eq split: option.splits if_splits)
  then show ?thesis by (intro exI conjI) (assumption, assumption, assumption, assumption, assumption, assumption, simp only: parse_encode_query set_value_filter)
qed

lemma decodeGitHubOIDCResponse_Inr:
  assumes "decodeGitHubOIDCResponse encoded workflowRef = Inr (token, filename)"
  shows "carries encoded ''value'' token \<and> (\<exists>header claims_part signature payload path ref.
    split_on (CHR ''.'') token = [header, claims_part, signature] \<and> RawURLDecode claims_part = Some payload \<and>
    carries payload ''workflow_ref'' workflowRef \<and> workflowRef = path @ ''@'' @ ref \<and> CHR ''@'' \<notin> set path \<and>
    Contains path ''/.github/workflows/'' \<and> filename = Base path)"
proof -
  from assms obtain token' where token': "response_value encoded = Inr token'"
    by (auto simp: decodeGitHubOIDCResponse_def split: sum.splits)
  with assms obtain header claims_part signature where parts: "split_on (CHR ''.'') token' = [header, claims_part, signature]"
    by (auto simp: decodeGitHubOIDCResponse_def split: list.splits)
  with assms token' obtain payload where payload: "RawURLDecode claims_part = Some payload" "Validate payload = None"
    by (auto simp: decodeGitHubOIDCResponse_def split: option.splits if_splits)
  with assms token' parts have ref: "claimed_ref payload = Some workflowRef" "workflowRef \<noteq> []"
    by (auto simp: decodeGitHubOIDCResponse_def split: option.splits if_splits)
  with assms token' parts payload obtain path rest where cut: "Cut workflowRef ''@'' = Some (path, rest)"
    by (auto simp: decodeGitHubOIDCResponse_def split: option.splits if_splits)
  with assms token' parts payload ref have "Contains path ''/.github/workflows/''" "filename = Base path" "token = token'"
    by (auto simp: decodeGitHubOIDCResponse_def Let_def split: if_splits)
  with parts payload cut claimed_ref_carries [OF ref] response_value_carries [OF token'] show ?thesis by (auto simp: Cut_char_Some)
qed

lemma decodeNPMExchangeResponse_Inr:
  assumes "decodeNPMExchangeResponse encoded now = Inr (token, created, expires)"
  shows "(\<exists>answer. exchange_decode encoded = Some answer \<and> xd_TokenType answer = ''oidc'' \<and> xd_Token answer = token \<and>
      parseExchangeTimestamp (xd_Created answer) = Some created \<and> parseExchangeTimestamp (xd_Expires answer) = Some expires) \<and>
    token \<noteq> [] \<and> list_all (\<lambda>c. c \<notin> {CHR 0x0D, CHR 0x0A, CHR 0x00}) token \<and> created < expires \<and> now < expires"
  using assms
  by (auto simp: decodeNPMExchangeResponse_def ContainsAny_iff list_all_iff split: option.splits if_splits)

lemma AcquireIdentity_sound:
  assumes "slice_sort sorter"
  shows "(\<exists>r ident. AcquireIdentity T sorter world client = Some (no_identity, r) \<and> rp_PrimaryID r = Some ident \<and>
      ident \<in> oidc_failures) \<or>
    (\<exists>r ident. AcquireIdentity T sorter world client = Some (ident, r) \<and> rp_PrimaryID r = None \<and>
      identity_granted world client ident)"
proof -
  have fail: "\<exists>r ident'. identity_failure T sorter ident check message = Some (no_identity, r) \<and>
      rp_PrimaryID r = Some ident' \<and> ident' \<in> oidc_failures"
    if "ident \<in> oidc_failures" "check \<noteq> []" "utf8_valid check" "message \<noteq> []" "utf8_valid message" for ident check message
    using failure_reported [OF assms that, of T] that(1) by (auto simp: identity_failure_def)
  note known = oidc_failures_def oidc_texts
  consider (none) "oc_idTokenRequestURL client = [] \<or> oc_idTokenRequestToken client = []"
    | (unusable) "\<not> (oc_idTokenRequestURL client = [] \<or> oc_idTokenRequestToken client = [])" "identity_endpoint client = None"
    | (asked) endpoint where "\<not> (oc_idTokenRequestURL client = [] \<or> oc_idTokenRequestToken client = [])"
        "identity_endpoint client = Some endpoint" by fastforce
  then show ?thesis
  proof cases
    case none
    then have "AcquireIdentity T sorter world client = identity_failure T sorter IDOIDCCapabilityUnavailable ''oidc.capability''
        ''GitHub Actions OIDC capability is unavailable''" by (simp only: AcquireIdentity_def if_True)
    with fail [of IDOIDCCapabilityUnavailable "''oidc.capability''" "''GitHub Actions OIDC capability is unavailable''"]
    show ?thesis by (simp add: known)
  next
    case unusable
    then have "AcquireIdentity T sorter world client = identity_failure T sorter IDOIDCCapabilityUnavailable ''oidc.capability''
        ''GitHub Actions OIDC request endpoint is unusable''" by (simp only: AcquireIdentity_def if_False option.case)
    with fail [of IDOIDCCapabilityUnavailable "''oidc.capability''" "''GitHub Actions OIDC request endpoint is unusable''"]
    show ?thesis by (simp add: known)
  next
    case asked
    let ?request = "oidc_request world ''GET'' (TokenURL endpoint) (identity_headers client)"
    let ?no_token = "identity_failure T sorter IDOIDCCapabilityUnavailable ''oidc.capability''
      ''GitHub Actions could not issue an OIDC identity token''"
    have no_token: ?thesis if "AcquireIdentity T sorter world client = ?no_token"
      using fail [of IDOIDCCapabilityUnavailable "''oidc.capability''" "''GitHub Actions could not issue an OIDC identity token''"]
      by (simp add: known that)
    show ?thesis
    proof (cases ?request)
      case (Inl e)
      with asked show ?thesis by (intro no_token) (simp only: AcquireIdentity_def if_False option.case sum.case)
    next
      case (Inr response)
      show ?thesis
      proof (cases "br_status response = 200")
        case False
        with Inr asked show ?thesis
          by (intro no_token) (simp only: AcquireIdentity_def if_False option.case sum.case if_True not_False_eq_True)
      next
        case True
        note run = AcquireIdentity_def asked Inr True if_False if_True option.case sum.case simp_thms
        show ?thesis
        proof (cases "decodeGitHubOIDCResponse (br_body response) (oc_githubWorkflowRef client)")
          case (Inl e)
          then have "AcquireIdentity T sorter world client = identity_failure T sorter IDTrustedPublisherMismatch
              ''oidc.caller-workflow'' ''caller workflow identity is unavailable or conflicts with GitHub context''"
            by (simp only: run)
          with fail [of IDTrustedPublisherMismatch "''oidc.caller-workflow''"
              "''caller workflow identity is unavailable or conflicts with GitHub context''"]
          show ?thesis by (simp add: known)
        next
          case (Inr p)
          obtain token filename where p: "p = (token, filename)" by (cases p)
          obtain r where r: "oidcPassReport T sorter = Some r" "rp_PrimaryID r = None"
            using pass_reported [OF assms] by blast
          let ?ident = "\<lparr>oi_Token = token, oi_WorkflowFilename = filename\<rparr>"
          have "AcquireIdentity T sorter world client = Some (?ident, r)"
            by (simp only: run Inr p prod.case r option.map)
          moreover have "identity_granted world client ?ident"
          proof -
            have "filter (\<lambda>(k, _). k = ''Authorization'') (identity_headers client) =
                [(''Authorization'', ''Bearer '' @ oc_idTokenRequestToken client)]" by (simp add: identity_headers_def)
            with decodeGitHubOIDCResponse_Inr [OF Inr [unfolded p]] identity_endpoint_Some [OF asked(2)]
              \<open>?request = Inr response\<close> True
            show ?thesis unfolding identity_granted_def by (elim exE conjE) (rule exI, rule exI, rule exI, rule exI, auto)
          qed
          ultimately show ?thesis using r(2) by blast
        qed
      qed
    qed
  qed
qed

lemma Exchange_sound:
  assumes "slice_sort sorter"
  shows "\<exists>result r. Exchange T sorter world client packageName identityToken = Some (result, r) \<and>
    oe_PrimaryID result = rp_PrimaryID r \<and>
    (case rp_PrimaryID r of
       Some ident \<Rightarrow> ident \<in> oidc_failures \<and> oe_Token result = []
     | None \<Rightarrow> token_exchanged world client packageName result \<and> oe_GitHubIdentityToken result = identityToken)"
    (is "?P (Exchange T sorter world client packageName identityToken)")
proof -
  have fail: "?P (exchange_failure T sorter ident message)"
    if "ident \<in> oidc_failures" "message \<noteq> []" "utf8_valid message" for ident message
    using failure_reported [OF assms that(1), of "''npm.oidc-exchange''" message T] that oidc_texts(3)
    by (auto simp: exchange_failure_def only_report_def)
  have known: "IDNPMOIDCExchangeIndeterminate \<in> oidc_failures" "IDTrustedPublisherMismatch \<in> oidc_failures"
    by (simp_all add: oidc_failures_def)
  let ?request = "oidc_request world ''POST'' (RegistryPath (oc_registryURL client) (exchange_path packageName))
    (exchange_headers identityToken)"
  note cut = if_True if_False sum.case not_True_eq_False not_False_eq_True
  show ?thesis
  proof (cases "\<not> validRegistryPackageName packageName \<or> identityToken = []")
    case True
    then show ?thesis by (simp only: Exchange_def cut) (rule fail, simp_all add: known oidc_texts)
  next
    case usable: False
    show ?thesis
    proof (cases ?request)
      case (Inl e)
      with usable show ?thesis by (simp only: Exchange_def cut) (rule fail, simp_all add: known oidc_texts)
    next
      case (Inr response)
      note request = Inr
      consider "br_status response = 401 \<or> br_status response = 404"
        | "\<not> (br_status response = 401 \<or> br_status response = 404)" "br_status response \<noteq> 201"
        | "br_status response = 201" "\<not> (br_status response = 401 \<or> br_status response = 404)" by fastforce
      then show ?thesis
      proof cases
        case 1
        with usable Inr show ?thesis by (simp only: Exchange_def cut) (rule fail, simp_all add: known oidc_texts)
      next
        case 2
        with usable Inr show ?thesis by (simp only: Exchange_def cut) (rule fail, simp_all add: known oidc_texts)
      next
        case 3
        show ?thesis
        proof (cases "decodeNPMExchangeResponse (br_body response) (ow_now world)")
          case (Inl e)
          have "Exchange T sorter world client packageName identityToken =
              exchange_failure T sorter IDNPMOIDCExchangeIndeterminate ''npm OIDC exchange returned a malformed response''"
            using usable 3 by (simp add: Exchange_def request Inl)
          then show ?thesis by (simp only:) (rule fail, simp_all add: known oidc_texts)
        next
          case (Inr p)
          obtain token created expires where p: "p = (token, created, expires)" by (cases p)
          obtain r where r: "oidcPassReport T sorter = Some r" "rp_PrimaryID r = None"
            using pass_reported [OF assms] by blast
          let ?result = "\<lparr>oe_GitHubIdentityToken = identityToken, oe_Token = token, oe_CreatedAt = created,
                oe_ExpiresAt = expires, oe_WorkflowFilename = [], oe_PrimaryID = rp_PrimaryID r\<rparr>"
          have "Exchange T sorter world client packageName identityToken = Some (?result, r)"
            using usable 3 by (simp add: Exchange_def request Inr p r)
          then show ?thesis
            using usable 3 request Inr p r decodeNPMExchangeResponse_Inr [OF Inr [unfolded p]]
            by (auto simp: token_exchanged_def exchange_headers_def)
        qed
      qed
    qed
  qed
qed

lemma NewOIDCClient_Inr:
  assumes "NewOIDCClient lc shared injected registryURL requestURL requestToken workflowRef = Inr client"
  shows "oc_idTokenRequestURL client = requestURL \<and> oc_idTokenRequestToken client = requestToken \<and>
    oc_githubWorkflowRef client = workflowRef \<and>
    (\<exists>registry. normalizeRegistryURL lc registryURL = Inr registry \<and> oc_registryURL client = registry \<and>
       oc_audience client = ''npm:'' @ ru_Host registry)"
  using assms by (auto simp: NewOIDCClient_def split: sum.splits)

lemma oidc_Preflight_sound:
  assumes sorter: "slice_sort sorter"
  shows "case oidc_Preflight transform sorter world client packageName of
    None \<Rightarrow> False
  | Some (result, report) \<Rightarrow>
      oe_PrimaryID result = rp_PrimaryID report \<and>
      (case rp_PrimaryID report of
         Some ident \<Rightarrow> ident \<in> oidc_failures \<and> oe_Token result = []
       | None \<Rightarrow>
           identity_granted world client
             \<lparr>oi_Token = oe_GitHubIdentityToken result, oi_WorkflowFilename = oe_WorkflowFilename result\<rparr> \<and>
           token_exchanged world client packageName result)"
  using AcquireIdentity_sound [OF sorter, of transform world client]
proof
  assume "\<exists>r ident. AcquireIdentity transform sorter world client = Some (no_identity, r) \<and>
    rp_PrimaryID r = Some ident \<and> ident \<in> oidc_failures"
  then show ?thesis by (auto simp: oidc_Preflight_def only_report_def)
next
  assume "\<exists>r ident. AcquireIdentity transform sorter world client = Some (ident, r) \<and> rp_PrimaryID r = None \<and>
    identity_granted world client ident"
  then obtain r ident where acquired: "AcquireIdentity transform sorter world client = Some (ident, r)"
    "rp_PrimaryID r = None" "identity_granted world client ident" by blast
  from Exchange_sound [OF sorter, of transform world client packageName "oi_Token ident"]
  show ?thesis
    using acquired sorter
    by (cases ident) (auto simp: oidc_Preflight_def token_exchanged_def split: option.splits)
qed

text \<open>
  C5: The early exchange never panics and never leaves a token behind a failure.  Take a client made for a registry, a request
  address, a request token and an observed workflow; and a sort that meets the documentation of sort.Slice.  Preflight always
  returns: with one of three registered error IDs and no publish token; or passing, and then the token is the one in GitHub's
  answer to a request, authorised by the request token at the https address handed out, whose only audience is npm's for the
  host of that registry; its claims name exactly the observed workflow; and that registry answered 201 to the exchange of
  this very token, for the package, with the publish token, which is fit for a header line and expires later than it was made and
  later than now.
\<close>

theorem preflight_sound:
  "case NewOIDCClient lc shared injected registryURL requestURL requestToken workflowRef of
     Inl _ \<Rightarrow> True
   | Inr client \<Rightarrow>
       oc_idTokenRequestURL client = requestURL \<and> oc_idTokenRequestToken client = requestToken \<and>
       oc_githubWorkflowRef client = workflowRef \<and>
       (\<exists>registry. normalizeRegistryURL lc registryURL = Inr registry \<and> oc_registryURL client = registry \<and>
          oc_audience client = ''npm:'' @ ru_Host registry) \<and>
       (if slice_sort sorter then
          (case oidc_Preflight transform sorter world client packageName of
             None \<Rightarrow> False
           | Some (result, report) \<Rightarrow>
               oe_PrimaryID result = rp_PrimaryID report \<and>
               (case rp_PrimaryID report of
                  Some ident \<Rightarrow> ident \<in> oidc_failures \<and> oe_Token result = []
                | None \<Rightarrow>
                    identity_granted world client
                      \<lparr>oi_Token = oe_GitHubIdentityToken result, oi_WorkflowFilename = oe_WorkflowFilename result\<rparr> \<and>
                    token_exchanged world client packageName result))
        else True)"
proof (cases "NewOIDCClient lc shared injected registryURL requestURL requestToken workflowRef")
  case (Inr client)
  with NewOIDCClient_Inr [OF Inr] oidc_Preflight_sound [of sorter] show ?thesis by simp
qed simp

text \<open>
  An instant far in the future is read as one in the past.  The largest number of seconds passes the checks of
  parseExchangeTimestamp, and time.Unix wraps around: the instant lies before the year 1.
\<close>

theorem epoch_wraps:
  "\<exists>created. parseExchangeTimestamp ''9223372036854775807'' = Some created \<and> created < zero_time"
proof -
  have "(case Token (NewDecoder ''9223372036854775807'') of Got (t, _) \<Rightarrow> Some t | _ \<Rightarrow> None) =
      Some (TNumber ''9223372036854775807'')" by code_simp
  then obtain d where "Token (NewDecoder ''9223372036854775807'') = Got (TNumber ''9223372036854775807'', d)"
    by (auto split: stream.splits)
  then have "parseExchangeTimestamp ''9223372036854775807'' =
      (case Atoi ''9223372036854775807'' of
         None \<Rightarrow> None | Some seconds \<Rightarrow> if seconds \<le> 0 then None else Some (unix_instant seconds))"
    by (simp only: parseExchangeTimestamp_def stream.case prod.case token.case)
  moreover have "Atoi ''9223372036854775807'' = Some 9223372036854775807" by code_simp
  moreover have "unix_instant 9223372036854775807 < zero_time"
    by (simp add: unix_instant_def zero_time_def second_def)
  ultimately show ?thesis by simp
qed

end
