(* ===== verification/PublishVerifier.thy ===== *)
theory PublishVerifier
  imports Attestation SigningSpec Publish
begin

text \<open>
  internal/npmprofile/publish_verifier.go: the verifier publishing uses for its own bundle and for those the
  registry already carries.  It fixes the trust root and every identity claim but the run, reads the run from the
  signed Statement, has \<^theory_text>\<open>Attestation\<close> authenticate the bundle and checks the Statement as an npm one.
\<close>

record SigstorePublishVerifierConfig =
  sv_Mode :: string
  sv_TrustRoot :: TrustRoot
  sv_PinnedRoot :: string
  sv_Identity :: IdentityExpectation

definition verifier_error :: "string \<Rightarrow> go_error" where
  "verifier_error message = ErrText message []"

text \<open>The ref and the revision of the invocation: recorded of their own when the built source is another.  Where
  the recorded ref has no revision beside it the code would dereference nil; decoding excludes that
  (\<open>invocation_complete\<close>).\<close>

definition invocation_source :: "SourceParameters \<Rightarrow> (string \<times> string) option" where
  "invocation_source source =
     (case sp_InvocationRef source of
        None \<Rightarrow> Some (SourceParameters.sp_Ref source, sp_Revision source)
      | Some ref \<Rightarrow> map_option (Pair ref) (sp_InvocationRevision source))"

definition identityForStatement ::
  "libraries \<Rightarrow> SigstorePublishVerifierConfig \<Rightarrow> Statement \<Rightarrow> IdentityExpectation result option" where
  "identityForStatement libs config statement =
     (case DecodeExternalParameters libs (bd_ExternalParameters (st_BuildDefinition statement)) of
        Inl err \<Rightarrow> Some (Inl err)
      | Inr parameters \<Rightarrow>
          (let expected = sv_Identity config; source = ExternalParameters.ep_Source parameters in
           if sp_Repository source \<noteq> ie_SourceRepositoryURI expected then
             Some (Inl (npmValidationError (npm_error_id ''source-identity-mismatch'') ''externalParameters.source.repository''
               ''signed npm source repository differs from the verified repository identity''))
           else
             (case invocation_source source of
                None \<Rightarrow> None
              | Some (invocationRef, invocationRevision) \<Rightarrow>
                  Some (if ie_SourceRef expected \<noteq> invocationRef then
                      Inl (npmValidationError (npm_error_id ''source-ref-mismatch'') ''externalParameters.source.invocation_ref''
                        ''signed npm invocation ref differs from the verified invocation identity'')
                    else if ie_SourceDigest expected \<noteq> invocationRevision then
                      Inl (npmValidationError (npm_error_id ''source-digest-mismatch'') ''externalParameters.source.invocation_revision''
                        ''signed npm invocation revision differs from the verified invocation identity'')
                    else Inr (expected\<lparr>ie_SourceRef := invocationRef, ie_SourceDigest := invocationRevision\<rparr>)))))"

text \<open>The input a signed Statement would have been made of.\<close>

definition digest_of :: "Subject \<Rightarrow> string \<Rightarrow> string" where
  "digest_of subject algorithm = (case map_of (sj_Digest subject) algorithm of None \<Rightarrow> [] | Some d \<Rightarrow> d)"

definition statement_input :: "Statement \<Rightarrow> ExternalParameters \<Rightarrow> string option \<Rightarrow> NPMProvenanceInput" where
  "statement_input statement parameters corepackVersion =
     \<lparr>pi_BuildMetadata =
        \<lparr>bm_SchemaVersion = ''1'', bm_StartedOn = [], bm_FinishedOn = [],
         bm_PrimaryArtifact =
           \<lparr>pa_ArtifactName = ''registry-published-attestation'',
            pa_PayloadFileName = pk_TarballName (ep_Package parameters),
            pa_SHA256 = digest_of (hd (st_Subject statement)) ''sha256'',
            pa_SHA512 = digest_of (hd (st_Subject statement)) ''sha512''\<rparr>,
         bm_ExternalParameters = bd_ExternalParameters (st_BuildDefinition statement),
         bm_ResolvedDependencies = bd_ResolvedDependencies (st_BuildDefinition statement)\<rparr>,
      pi_BuilderID = b_ID (st_Builder statement),
      pi_NodeJSVersion = ''v'' @ rt_NodeVersion (ep_Runtime parameters),
      pi_CorepackVersion = corepackVersion,
      pi_InvocationID = m_InvocationID (st_Metadata statement),
      pi_StartedOn = m_StartedOn (st_Metadata statement),
      pi_FinishedOn = m_FinishedOn (st_Metadata statement),
      pi_RuntimeReleaseRef = SourceParameters.sp_Ref (ExternalParameters.ep_Source parameters),
      pi_PeeledReleaseRevision = sp_Revision (ExternalParameters.ep_Source parameters)\<rparr>"

definition builder_is_signer :: "Statement \<Rightarrow> IdentityExpectation \<Rightarrow> bool" where
  "builder_is_signer statement ident \<longleftrightarrow>
     (case (Cut (b_ID (st_Builder statement)) ''@'', Cut (ie_SignerURI ident) ''@'') of
        (Some (builderPath, builderSHA), Some (signerPath, _)) \<Rightarrow>
          builderPath = signerPath \<and> builderSHA = ie_WorkflowSHA ident
      | _ \<Rightarrow> False)"

definition validate_published :: "libraries \<Rightarrow> SigstorePublishVerifierConfig \<Rightarrow> Statement \<Rightarrow> go_error option" where
  "validate_published libs config statement =
     (case DecodeExternalParameters libs (bd_ExternalParameters (st_BuildDefinition statement)) of
        Inl err \<Rightarrow> Some err
      | Inr parameters \<Rightarrow>
          (let ident = sv_Identity config; corepack = map_of (b_Version (st_Builder statement)) ''corepack'' in
           if sp_Repository (ExternalParameters.ep_Source parameters) \<noteq> ie_SourceRepositoryURI ident then
             Some (verifier_error ''signed npm source repository differs from verified Fulcio identity'')
           else if \<not> builder_is_signer statement ident then
             Some (verifier_error ''signed npm builder identity differs from verified Fulcio signer'')
           else if length (st_Subject statement) \<noteq> 1 then
             Some (verifier_error ''signed npm provenance must contain exactly one subject'')
           else if pm_Name (ExternalParameters.ep_PackageManager parameters) \<noteq> ManagerNPM \<and> corepack = None then
             Some (verifier_error ''signed npm builder is missing required Corepack version'')
           else
             ValidateNPMStatement libs statement
               (statement_input statement parameters
                 (if pm_Name (ExternalParameters.ep_PackageManager parameters) \<noteq> ManagerNPM then corepack else None))))"

definition published_request :: "SigstorePublishVerifierConfig \<Rightarrow> IdentityExpectation \<Rightarrow> string \<Rightarrow> string \<Rightarrow> Request" where
  "published_request config ident bundleBytes statementBytes =
     \<lparr>rq_Mode = sv_Mode config, rq_Bundle = bundleBytes, rq_TrustRoot = sv_TrustRoot config,
      rq_PinnedRoot = sv_PinnedRoot config, rq_Identity = ident, rq_ExpectedStatement = None,
      rq_ExpectedStatementJSON = statementBytes\<rparr>"

text \<open>The verifier of a configuration; without one there is an error.  \<^const>\<open>None\<close> would be the nil dereference.\<close>

definition publish_Verify ::
  "libraries \<Rightarrow> ('b, 'm) sigstore \<Rightarrow> (string \<Rightarrow> bool) \<Rightarrow> bool \<Rightarrow> int \<Rightarrow> SigstorePublishVerifierConfig option \<Rightarrow> string
    \<Rightarrow> VerifiedPublishBundle result option" where
  "publish_Verify libs sg env_has ctx_done now verifier bundleBytes =
     (case verifier of
        None \<Rightarrow> Some (Inl (verifier_error ''sigstore publish verifier is required''))
      | Some config \<Rightarrow>
     (case ParseBundle sg bundleBytes of
        Inl err \<Rightarrow> Some (Inl err)
      | Inr parsed \<Rightarrow>
     (case DecodeStatement (pb_statement parsed) of
        Inl err \<Rightarrow> Some (Inl err)
      | Inr statement \<Rightarrow>
     (case identityForStatement libs config statement of
        None \<Rightarrow> None
      | Some (Inl err) \<Rightarrow> Some (Inl err)
      | Some (Inr expectedIdentity) \<Rightarrow>
          (let runInvocation = m_InvocationID (st_Metadata statement) in
           Some
             (case ParseRunInvocationURI runInvocation (ie_SourceRepositoryURI (sv_Identity config)) of
                Inl err \<Rightarrow> Inl err
              | Inr _ \<Rightarrow>
             (case verifyAt sg (lib_transform libs) env_has ctx_done
                     (published_request config (expectedIdentity\<lparr>ie_RunInvocationURI := runInvocation\<rparr>) bundleBytes
                       (pb_statement parsed)) now of
                Inl err \<Rightarrow> Inl err
              | Inr _ \<Rightarrow>
                  guarded (validate_published libs config statement)
                    (Inr \<lparr>vb_Statement = statement, vb_RunInvocationURI = runInvocation\<rparr>))))))))"

section \<open>What a verified bundle is\<close>

lemma invocation_complete:
  assumes "DecodeExternalParameters libs encoded = Inr p"
  shows "invocation_source (ExternalParameters.ep_Source p) \<noteq> None"
proof -
  have "validateSourceParameters (ExternalParameters.ep_Source p) (pk_Version (ep_Package p)) = None"
    using decode_parameters_valid(1) [OF assms]
    by (auto simp: validateExternalParameters_def validateIdentityGroups_def Let_def split: if_splits)
  then show ?thesis
    by (auto simp: validateSourceParameters_def invocation_source_def Let_def boolCount_def split: option.splits if_splits)
qed

lemma identityForStatement_Inr:
  assumes "identityForStatement libs config statement = Some (Inr ident)"
  shows "ident = sv_Identity config \<and>
    (\<exists>parameters. DecodeExternalParameters libs (bd_ExternalParameters (st_BuildDefinition statement)) = Inr parameters \<and>
      sp_Repository (ExternalParameters.ep_Source parameters) = ie_SourceRepositoryURI ident \<and>
      invocation_source (ExternalParameters.ep_Source parameters) = Some (ie_SourceRef ident, ie_SourceDigest ident))"
  using assms
  by (auto simp: identityForStatement_def Let_def split: sum.splits if_splits option.splits)

text \<open>The run of a verified bundle is one of the expected repository, signed and certified.\<close>

definition published_evidence ::
  "libraries \<Rightarrow> ('b, 'm) sigstore \<Rightarrow> SigstorePublishVerifierConfig \<Rightarrow> int \<Rightarrow> string \<Rightarrow> VerifiedPublishBundle \<Rightarrow> bool" where
  "published_evidence libs sg config now bundleBytes verified \<longleftrightarrow>
     (\<exists>request material result parameters.
        request = published_request config ((sv_Identity config)\<lparr>ie_RunInvocationURI := vb_RunInvocationURI verified\<rparr>)
          bundleBytes (vr_statement result) \<and>
        governed sg request now material \<and> authenticated sg (lib_transform libs) request material result \<and>
        DecodeStatement (vr_statement result) = Inr (vb_Statement verified) \<and>
        DecodeExternalParameters libs (bd_ExternalParameters (st_BuildDefinition (vb_Statement verified))) = Inr parameters \<and>
        sp_Repository (ExternalParameters.ep_Source parameters) = ie_SourceRepositoryURI (sv_Identity config) \<and>
        invocation_source (ExternalParameters.ep_Source parameters) =
          Some (ie_SourceRef (sv_Identity config), ie_SourceDigest (sv_Identity config)))"

text \<open>The Statement is one for npm, by its own parameters, of one subject, built by the signer.\<close>

definition npm_statement :: "libraries \<Rightarrow> SigstorePublishVerifierConfig \<Rightarrow> Statement \<Rightarrow> bool" where
  "npm_statement libs config statement \<longleftrightarrow>
     builder_is_signer statement (sv_Identity config) \<and> length (st_Subject statement) = 1 \<and>
     (\<exists>parameters corepack.
        DecodeExternalParameters libs (bd_ExternalParameters (st_BuildDefinition statement)) = Inr parameters \<and>
        ValidateNPMStatement libs statement (statement_input statement parameters corepack) = None)"

lemma validate_published_None:
  "validate_published libs config statement = None \<Longrightarrow> npm_statement libs config statement"
  by (auto simp: validate_published_def npm_statement_def Let_def split: sum.splits if_splits)

text \<open>Verify always returns: the nil revision is never dereferenced.\<close>

lemma publish_Verify_accepts:
  "case publish_Verify libs sg env_has ctx_done now verifier bundleBytes of
     None \<Rightarrow> False
   | Some (Inl _) \<Rightarrow> True
   | Some (Inr verified) \<Rightarrow>
       (\<exists>config. verifier = Some config \<and> published_evidence libs sg config now bundleBytes verified \<and>
          is_ok (ParseRunInvocationURI (vb_RunInvocationURI verified) (ie_SourceRepositoryURI (sv_Identity config))) \<and>
          vb_RunInvocationURI verified = m_InvocationID (st_Metadata (vb_Statement verified)) \<and>
          npm_statement libs config (vb_Statement verified))"
proof -
  have total: "identityForStatement libs config statement = None \<longleftrightarrow> False" for config statement
    by (auto simp: identityForStatement_def Let_def dest: invocation_complete split: sum.splits option.splits)
  have "publish_Verify libs sg env_has ctx_done now verifier bundleBytes \<noteq> None"
    by (auto simp: publish_Verify_def Let_def total split: option.splits sum.splits)
  then consider (rejected) err where "publish_Verify libs sg env_has ctx_done now verifier bundleBytes = Some (Inl err)"
    | (accepted) verified where "publish_Verify libs sg env_has ctx_done now verifier bundleBytes = Some (Inr verified)"
    by (metis not_Some_eq sum.exhaust)
  then show ?thesis
  proof cases
    case accepted
    then obtain config parsed statement ident result where config: "verifier = Some config"
      and parsed: "ParseBundle sg bundleBytes = Inr parsed" and st: "DecodeStatement (pb_statement parsed) = Inr statement"
      and ident: "identityForStatement libs config statement = Some (Inr ident)"
      and uri: "is_ok (ParseRunInvocationURI (m_InvocationID (st_Metadata statement)) (ie_SourceRepositoryURI (sv_Identity config)))"
      and run: "verifyAt sg (lib_transform libs) env_has ctx_done
        (published_request config (ident\<lparr>ie_RunInvocationURI := m_InvocationID (st_Metadata statement)\<rparr>) bundleBytes
          (pb_statement parsed)) now = Inr result"
      and valid: "validate_published libs config statement = None"
      and verified: "verified = \<lparr>vb_Statement = statement, vb_RunInvocationURI = m_InvocationID (st_Metadata statement)\<rparr>"
      by (auto simp: publish_Verify_def Let_def split: option.splits sum.splits)
    let ?request = "published_request config (ident\<lparr>ie_RunInvocationURI := m_InvocationID (st_Metadata statement)\<rparr>)
      bundleBytes (pb_statement parsed)"
    from run obtain material where material: "acquireTrustedMaterial sg ?request now = Inr material"
      and inner: "verifyParsedWithTrustedMaterial sg (lib_transform libs) ?request parsed material = Inr result"
      and ok: "request_error ctx_done ?request = None"
      using parsed by (auto simp: verifyAt_def published_request_def split: sum.splits)
    from ok have "request_error False ?request = None" by (auto simp: request_error_def Let_def split: if_splits)
    with inner parsed have auth: "authenticated sg (lib_transform libs) ?request material result"
      by (intro verifyParsed_authenticated) (simp_all add: published_request_def)
    have "vr_statement result = pb_statement parsed"
      using inner by (auto simp: verifyParsedWithTrustedMaterial_def Let_def split: if_splits sum.splits option.splits)
    moreover from identityForStatement_Inr [OF ident] obtain parameters where "ident = sv_Identity config"
      "DecodeExternalParameters libs (bd_ExternalParameters (st_BuildDefinition statement)) = Inr parameters"
      "sp_Repository (ExternalParameters.ep_Source parameters) = ie_SourceRepositoryURI ident"
      "invocation_source (ExternalParameters.ep_Source parameters) = Some (ie_SourceRef ident, ie_SourceDigest ident)"
      by blast
    ultimately have "published_evidence libs sg config now bundleBytes verified"
      using auth acquireTrustedMaterial_governed [OF material] st
      unfolding published_evidence_def verified
      by (intro exI [of _ ?request] exI [of _ material] exI [of _ result] exI [of _ parameters]) simp
    with config uri verified validate_published_None [OF valid] accepted show ?thesis by simp
  qed simp
qed

text \<open>
  C16: A bundle that the publish verifier accepts is npm provenance of the expected workflow.  Verify always
  returns: the nil revision is never dereferenced.  When it accepts, the Statement it returns is decoded
  from the payload that sigstore authenticated under the governed root, for a certificate of the configured
  repository, ref, revision and of the very run the Statement names; the Statement has one subject, its builder is
  the signer at the expected commit, and it passes the npm validation of its own parameters.
\<close>

theorem published_bundle_sound:
  "case publish_Verify libs sg env_has ctx_done now verifier bundleBytes of
     None \<Rightarrow> False
   | Some (Inl _) \<Rightarrow> True
   | Some (Inr verified) \<Rightarrow>
       (\<exists>config. verifier = Some config \<and> published_evidence libs sg config now bundleBytes verified \<and>
          is_ok (ParseRunInvocationURI (vb_RunInvocationURI verified) (ie_SourceRepositoryURI (sv_Identity config))) \<and>
          vb_RunInvocationURI verified = m_InvocationID (st_Metadata (vb_Statement verified)) \<and>
          npm_statement libs config (vb_Statement verified))"
  by (rule publish_Verify_accepts)

end
