(* ===== verification/Packed.thy ===== *)
theory Packed
  imports WorkflowMeta Publish
begin

text \<open>
  internal/npmprofile/packed.go: what the builder reads from the tarball a package manager wrote.  compress/gzip
  and archive/tar are parameters; the loop over the headers, its limits and the packed manifest are the code's.
\<close>

section \<open>Files\<close>

definition IDPackagePackFailed :: string where "IDPackagePackFailed = npm_error_id ''package-pack-failed''"
definition IDPackedCorepackEnvironmentProhibited :: string where
  "IDPackedCorepackEnvironmentProhibited = npm_error_id ''packed-corepack-env-prohibited''"

definition maxUnpackedSize :: int where "maxUnpackedSize = 2 ^ 30"
definition maxPackedFileCount :: nat where "maxPackedFileCount = 100000"

definition pack_error :: "string \<Rightarrow> string list \<Rightarrow> go_error" where
  "pack_error message args = ErrText message (IDPackagePackFailed # args)"

text \<open>The entry of the directory is seen by its own Lstat; a large size is refused unread.\<close>

definition oneTarball :: "file_tree \<Rightarrow> string \<Rightarrow> string result" where
  "oneTarball ft directory =
     (case ft_ReadDir ft directory of
        Inl err \<Rightarrow> Inl (ErrWrap ''%s: read pack output: %w'' [IDPackagePackFailed] [err])
      | Inr [entry] \<Rightarrow>
          if ValidateSafeBasename entry \<noteq> None \<or> \<not> HasSuffix entry ''.tgz'' then
            Inl (pack_error ''%s: unsafe package tarball basename %q'' [entry])
          else
            (case ft_Lstat ft (Join [directory, entry]) of
               LstatEntry RegularFile len \<Rightarrow>
                 if len > maxTarballSize then Inl (pack_error ''%s: package tarball is not a bounded regular file'' [])
                 else Inr (Join [directory, entry])
             | _ \<Rightarrow> Inl (pack_error ''%s: package tarball is not a bounded regular file'' []))
      | Inr entries \<Rightarrow>
          Inl (pack_error ''%s: pack output contains %d entries, want exactly one'' [show_nat (length entries)]))"

definition readBoundedRegularFile :: "file_tree \<Rightarrow> string \<Rightarrow> nat \<Rightarrow> string result" where
  "readBoundedRegularFile ft filePath maximum =
     (case ft_Lstat ft filePath of
        LstatEntry RegularFile len \<Rightarrow>
          if len > maximum then Inl (ErrText ''path is not a bounded regular file'' [])
          else
            (case ft_Open ft filePath of
               OpenedFile bytes readable \<Rightarrow>
                 (let encoded = take (maximum + 1) bytes in
                  if \<not> readable then Inl (ErrText ''read'' [])
                  else if length encoded > maximum then Inl (ErrText ''file exceeds size limit'' [])
                  else Inr encoded)
             | OpenedAnother \<Rightarrow> Inl (ErrText ''file changed while opening'' [])
             | _ \<Rightarrow> Inl (ErrText ''open'' []))
      | _ \<Rightarrow> Inl (ErrText ''path is not a bounded regular file'' []))"

section \<open>Entries\<close>

text \<open>The kinds of entries; a symbolic link with its target.\<close>

datatype tar_type = TypeReg | TypeDir | TypeSymlink string | TypeOther

text \<open>A header, how much of the stream has been read when it is returned, and what reading its entry gives: the bytes,
  and whether they end without an error.\<close>

record tar_header =
  th_Name :: string
  th_Typeflag :: tar_type
  th_Size :: int
  th_Data :: string
  th_Readable :: bool
  th_Mode :: nat
  th_Consumed :: nat

text \<open>gzip.NewReader of the bytes with all that can be decompressed, and whether that ends well; tar on such a
  stream: the headers up to the end or up to an error.\<close>

type_synonym byte_stream = "string \<times> bool"

record archives =
  ar_gunzip :: "string \<Rightarrow> byte_stream option"
  ar_untar :: "byte_stream \<Rightarrow> tar_header list \<times> bool"

definition LimitReader :: "byte_stream \<Rightarrow> nat \<Rightarrow> byte_stream" where
  "LimitReader stream limit = (if length (fst stream) \<ge> limit then (take limit (fst stream), True) else stream)"

definition validateArchivePath :: "string \<Rightarrow> go_error option" where
  "validateArchivePath name =
     (if name = [] \<or> CHR 0x5C \<in> set name \<or> PathIsAbs name \<or> Clean name \<noteq> name \<or> name = ''..'' \<or> HasPrefix name ''../''
         \<or> \<not> HasPrefix name ''package/'' then
        Some (ErrText ''unsafe package archive path %q'' [name])
      else None)"

record packedManifest =
  pmf_Name :: string
  pmf_Version :: string
  pmf_ConsumerSurface :: "(string \<times> jval) list"

definition consumer_surface_keys :: "string list" where
  "consumer_surface_keys = [''exports'', ''main'', ''type'', ''bin'', ''types'', ''typings'', ''typesVersions'', ''files'']"

definition decodePackedManifest :: "string \<Rightarrow> packedManifest result" where
  "decodePackedManifest encoded =
     (case parseStrict encoded of
        Inl err \<Rightarrow> Inl (ErrWrap ''%s: validate packed manifest: %w'' [IDPackagePackFailed] [err])
      | Inr v \<Rightarrow>
          (case raw_object v of
             None \<Rightarrow> Inl (pack_error ''%s: decode packed manifest: %w'' [])
           | Some members \<Rightarrow>
               (case (raw_string (map_of members ''name''), raw_string (map_of members ''version'')) of
                  (Some name, Some version) \<Rightarrow>
                    Inr \<lparr>pmf_Name = name, pmf_Version = version,
                      pmf_ConsumerSurface =
                        List.map_filter (\<lambda>key. map_option (Pair key) (map_of members key)) consumer_surface_keys\<rparr>
                | _ \<Rightarrow> Inl (pack_error ''%s: packed manifest identity is invalid'' []))))"

section \<open>The archive\<close>

record tar_scan =
  ts_Files :: "string list"
  ts_Unpacked :: int
  ts_Manifest :: "packedManifest option"  \<comment> \<open>once it has been found\<close>

definition manifest_path :: string where "manifest_path = ''package/package.json''"

definition read_manifest_entry :: "tar_scan \<Rightarrow> tar_header \<Rightarrow> packedManifest result" where
  "read_manifest_entry s header =
     (if ts_Manifest s \<noteq> None \<or> th_Size header > int maxManifestSize then
        Inl (pack_error ''%s: packed manifest is duplicate or oversized'' [])
      else if \<not> th_Readable header \<or> length (th_Data header) > maxManifestSize then
        Inl (pack_error ''%s: read packed manifest'' [])
      else decodePackedManifest (th_Data header))"

definition archive_step :: "tar_scan \<Rightarrow> tar_header \<Rightarrow> tar_scan result" where
  "archive_step s header =
     (case validateArchivePath (th_Name header) of
        Some err \<Rightarrow> Inl (ErrWrap ''%s: %w'' [IDPackagePackFailed] [err])
      | None \<Rightarrow>
          (case th_Typeflag header of
             TypeDir \<Rightarrow> Inr s
           | TypeReg \<Rightarrow>
               if th_Size header < 0 \<or> th_Size header > maxUnpackedSize - ts_Unpacked s
                  \<or> length (ts_Files s) \<ge> maxPackedFileCount then
                 Inl (pack_error ''%s: package archive exceeds resource limits'' [])
               else
                 (let s' = s\<lparr>ts_Unpacked := ts_Unpacked s + th_Size header, ts_Files := ts_Files s @ [th_Name header]\<rparr> in
                  if th_Name header \<noteq> manifest_path then Inr s'
                  else map_result (\<lambda>decoded. s'\<lparr>ts_Manifest := Some decoded\<rparr>) (read_manifest_entry s header))
           | _ \<Rightarrow> Inl (pack_error ''%s: archive entry %q has unsupported type'' [th_Name header])))"

fun archive_loop :: "tar_header list \<times> bool \<Rightarrow> tar_scan \<Rightarrow> tar_scan result" where
  "archive_loop ([], clean_end) s =
     (if clean_end then Inr s else Inl (pack_error ''%s: read tar stream: %w'' []))"
| "archive_loop (header # headers, clean_end) s =
     bind_result (archive_step s header) (archive_loop (headers, clean_end))"

definition no_scan :: tar_scan where
  "no_scan = \<lparr>ts_Files = [], ts_Unpacked = 0, ts_Manifest = None\<rparr>"

definition packed_of :: "tar_scan \<Rightarrow> PackedMetadata result" where
  "packed_of s =
     (case ts_Manifest s of
        None \<Rightarrow> Inl (pack_error ''%s: package/package.json is missing or lacks identity'' [])
      | Some decoded \<Rightarrow>
          if pmf_Name decoded = [] \<or> pmf_Version decoded = [] then
            Inl (pack_error ''%s: package/package.json is missing or lacks identity'' [])
          else
            Inr \<lparr>pk_meta_Name = pmf_Name decoded, pk_meta_Version = pmf_Version decoded,
              pk_meta_Files = ts_Files s, pk_meta_ConsumerSurface = pmf_ConsumerSurface decoded\<rparr>)"

definition packed_stream :: "archives \<Rightarrow> byte_stream \<Rightarrow> tar_header list \<times> bool" where
  "packed_stream ar stream = ar_untar ar (LimitReader stream (nat maxUnpackedSize + 1))"

definition inspectTarball :: "archives \<Rightarrow> file_tree \<Rightarrow> string \<Rightarrow> (PackedMetadata \<times> SHA256 \<times> SHA512) result" where
  "inspectTarball ar ft tarballPath =
     (case readBoundedRegularFile ft tarballPath maxTarballSize of
        Inl err \<Rightarrow> Inl (ErrWrap ''%s: %w'' [IDPackagePackFailed] [err])
      | Inr encoded \<Rightarrow>
          (case ar_gunzip ar encoded of
             None \<Rightarrow> Inl (pack_error ''%s: open gzip stream: %w'' [])
           | Some stream \<Rightarrow>
               map_result (\<lambda>packed. (packed, SumSHA256 encoded, SumSHA512 encoded))
                 (bind_result (archive_loop (packed_stream ar stream) no_scan) packed_of)))"

definition rejectPackedCorepackEnvironment :: "string list \<Rightarrow> go_error option" where
  "rejectPackedCorepackEnvironment names =
     (case find (\<lambda>name. name = ''.corepack.env'' \<or> HasSuffix name ''/.corepack.env'') names of
        None \<Rightarrow> None
      | Some name \<Rightarrow>
          Some (ErrText ''%s: packed tarball entry %q ships a project .corepack.env; declare a files allowlist that excludes the file or remove it before publishing''
            [IDPackedCorepackEnvironmentProhibited, name]))"

section \<open>What an accepted tarball holds\<close>

text \<open>A clean relative path is parent steps, then ordinary elements.\<close>

lemma clean_elements_shape:
  assumes "\<not> PathIsAbs p"
  shows "\<exists>k ps. clean_elements p = replicate k ''..'' @ ps \<and> list_all plain_element ps"
proof -
  have "\<exists>k ps. foldl (clean_step False) out ws = replicate k ''..'' @ ps \<and> list_all plain_element ps"
    if "out = replicate k0 ''..'' @ ps0" "list_all plain_element ps0" "list_all (\<lambda>w. CHR ''/'' \<notin> set w) ws"
    for out k0 ps0 ws
    using that
  proof (induction ws arbitrary: out k0 ps0)
    case (Cons w ws)
    consider "w = [] \<or> w = ''.''" | "w = ''..''" "ps0 = []" | "w = ''..''" "ps0 \<noteq> []"
      | "plain_element w" using Cons.prems(3) by (auto simp: plain_element_def clean_element_def)
    then show ?case
    proof cases
      case 1
      with Cons.prems Cons.IH [of out k0 ps0] show ?thesis by (auto simp: clean_step_def)
    next
      case 2
      with Cons.prems have "clean_step False out w = replicate (Suc k0) ''..'' @ []"
        by (cases k0) (auto simp: clean_step_def replicate_append_same)
      with Cons.prems Cons.IH [of _ "Suc k0" "[]"] show ?thesis by simp
    next
      case 3
      with Cons.prems have "last ps0 \<noteq> ''..''"
        by (auto simp: list_all_iff plain_element_def)
      with 3 Cons.prems have "clean_step False out w = replicate k0 ''..'' @ butlast ps0"
        by (auto simp: clean_step_def butlast_append)
      moreover have "list_all plain_element (butlast ps0)"
        using Cons.prems(2) by (auto simp: list_all_iff dest: in_set_butlastD)
      ultimately show ?thesis using Cons.prems(3) Cons.IH [of _ k0 "butlast ps0"] by simp
    next
      case 4
      with Cons.prems have "clean_step False out w = replicate k0 ''..'' @ (ps0 @ [w])"
        by (auto simp: clean_step_def plain_element_def clean_element_def)
      moreover have "list_all plain_element (ps0 @ [w])" using 4 Cons.prems(2) by simp
      ultimately show ?thesis using Cons.prems(3) Cons.IH [of _ k0 "ps0 @ [w]"] by simp
    qed
  qed auto
  from this [of "[]" 0 "[]" "split_on (CHR ''/'') p"] show ?thesis
    using assms by (simp add: clean_elements_def PathIsAbs_def split_on_elements)
qed

text \<open>An entry below the directory package, step by step.\<close>

definition package_path :: "string \<Rightarrow> bool" where
  "package_path name \<longleftrightarrow>
     (\<exists>es. name = ''package/'' @ join_with ''/'' es \<and> es \<noteq> [] \<and> list_all plain_element es) \<and> CHR 0x5C \<notin> set name"

lemma join_with_Cons: "es \<noteq> [] \<Longrightarrow> join_with sep (e # es) = e @ sep @ join_with sep es"
  by (cases es) auto

lemma validateArchivePath_None: "validateArchivePath name = None \<longleftrightarrow> package_path name"
proof
  assume "validateArchivePath name = None"
  then have name: "name \<noteq> []" "CHR 0x5C \<notin> set name" "\<not> PathIsAbs name" "Clean name = name" "HasPrefix name ''package/''"
    by (auto simp: validateArchivePath_def split: if_splits)
  from clean_elements_shape [OF name(3)] obtain k ps where
    shape: "clean_elements name = replicate k ''..'' @ ps" "list_all plain_element ps" by blast
  from name(5) obtain rest where rest: "name = ''package/'' @ rest" by (auto simp: HasPrefix_iff)
  have clean: "name = (if clean_elements name = [] then ''.'' else join_with ''/'' (clean_elements name))"
    using name Clean_relative [of name] by simp
  then have nonempty: "clean_elements name \<noteq> []" using rest by auto
  with clean have joined: "name = join_with ''/'' (clean_elements name)" by simp
  have k: "k = 0"
  proof (rule ccontr)
    assume "k \<noteq> 0"
    then obtain j where "k = Suc j" by (cases k) auto
    with joined shape(1) obtain t where "name = ''..'' @ t"
      by (cases "replicate j ''..'' @ ps") auto
    with rest show False by simp
  qed
  with shape nonempty obtain p ps' where ps: "ps = p # ps'" by (cases ps) auto
  have split: "split_on (CHR ''/'') name = ps"
    using joined k shape split_join [of ps] ps by (simp add: list_all_iff plain_element_def clean_element_def)
  have "split_on (CHR ''/'') (''package'' @ CHR ''/'' # rest) = ''package'' # split_on (CHR ''/'') rest"
    by (rule split_on_append) simp
  with split ps rest have p: "p = ''package''" and ps': "ps' = split_on (CHR ''/'') rest" by auto
  then have "ps' \<noteq> []" by simp
  with joined k shape ps p have "name = ''package/'' @ join_with ''/'' ps'" by (simp add: join_with_Cons)
  with \<open>ps' \<noteq> []\<close> shape(2) ps name(2) show "package_path name" by (auto simp: package_path_def)
next
  assume "package_path name"
  then obtain es where es: "name = ''package/'' @ join_with ''/'' es" "es \<noteq> []" "list_all plain_element es"
    and slash: "CHR 0x5C \<notin> set name" by (auto simp: package_path_def)
  have all: "list_all plain_element (''package'' # es)" using es(3) by (simp add: plain_element_def clean_element_def)
  have joined: "name = join_with ''/'' (''package'' # es)" using es by (simp add: join_with_Cons)
  have "split_on (CHR ''/'') name = ''package'' # es"
    unfolding joined by (rule split_join) (use all in \<open>auto simp: list_all_iff plain_element_def clean_element_def\<close>)
  then have "clean_elements name = ''package'' # es"
    using clean_steps_plain [OF all, of _ "[]"] by (simp add: clean_elements_def)
  then have "Clean name = name"
    using Clean_relative [of name] es(1) joined by (simp add: PathIsAbs_def HasPrefix_iff)
  with slash es show "validateArchivePath name = None"
    by (auto simp: validateArchivePath_def PathIsAbs_def HasPrefix_iff)
qed

lemma archive_step_Inr:
  "archive_step s header = Inr s' \<longleftrightarrow>
     package_path (th_Name header) \<and>
     (th_Typeflag header = TypeDir \<and> s' = s \<or>
      th_Typeflag header = TypeReg \<and> 0 \<le> th_Size header \<and> ts_Unpacked s + th_Size header \<le> maxUnpackedSize \<and>
      length (ts_Files s) < maxPackedFileCount \<and> ts_Unpacked s' = ts_Unpacked s + th_Size header \<and>
      ts_Files s' = ts_Files s @ [th_Name header] \<and>
      (if th_Name header = manifest_path then
         \<exists>decoded. read_manifest_entry s header = Inr decoded \<and> ts_Manifest s' = Some decoded
       else ts_Manifest s' = ts_Manifest s))"
proof -
  have less: "\<not> length (ts_Files s) \<ge> maxPackedFileCount \<longleftrightarrow> length (ts_Files s) < maxPackedFileCount" by auto
  show ?thesis
    by (cases "th_Typeflag header"; cases s; cases s')
      (auto simp: archive_step_def Let_def validateArchivePath_None [symmetric] split: option.splits)
qed

text \<open>The regular entries, and among them the manifest.\<close>

definition regular_entries :: "tar_header list \<Rightarrow> tar_header list" where
  "regular_entries headers = filter (\<lambda>h. th_Typeflag h = TypeReg) headers"

definition manifest_entries :: "tar_header list \<Rightarrow> tar_header list" where
  "manifest_entries headers = filter (\<lambda>h. th_Name h = manifest_path) (regular_entries headers)"

definition safe_entry :: "tar_header \<Rightarrow> bool" where
  "safe_entry h \<longleftrightarrow> package_path (th_Name h) \<and> th_Typeflag h \<in> {TypeReg, TypeDir} \<and> (th_Typeflag h = TypeReg \<longrightarrow> 0 \<le> th_Size h)"

definition readable_manifest :: "tar_header \<Rightarrow> packedManifest \<Rightarrow> bool" where
  "readable_manifest h decoded \<longleftrightarrow>
     th_Size h \<le> int maxManifestSize \<and> th_Readable h \<and> length (th_Data h) \<le> maxManifestSize \<and>
     decodePackedManifest (th_Data h) = Inr decoded"

definition found_manifest :: "packedManifest option \<Rightarrow> tar_header list \<Rightarrow> packedManifest option \<Rightarrow> bool" where
  "found_manifest before entries found \<longleftrightarrow>
     (case entries of
        [] \<Rightarrow> found = before
      | [h] \<Rightarrow> before = None \<and> (\<exists>decoded. found = Some decoded \<and> readable_manifest h decoded)
      | _ \<Rightarrow> False)"

lemma read_manifest_entry_Inr:
  "read_manifest_entry s header = Inr decoded \<longleftrightarrow> ts_Manifest s = None \<and> readable_manifest header decoded"
  by (auto simp: read_manifest_entry_def readable_manifest_def)

lemma found_manifest_Cons:
  "found_manifest before (h # entries) found \<longleftrightarrow>
     before = None \<and> (\<exists>decoded. readable_manifest h decoded \<and> found_manifest (Some decoded) entries found)"
  by (cases entries) (auto simp: found_manifest_def split: list.splits)

lemma regular_sizes: "list_all safe_entry hs \<Longrightarrow> 0 \<le> (\<Sum>h\<leftarrow>regular_entries hs. th_Size h)"
  by (induction hs) (auto simp: regular_entries_def safe_entry_def)

lemma archive_loop_Inr:
  assumes "ts_Unpacked s \<le> maxUnpackedSize" and "length (ts_Files s) \<le> maxPackedFileCount"
  shows "archive_loop (headers, clean_end) s = Inr s' \<longleftrightarrow>
     clean_end \<and> list_all safe_entry headers \<and>
     ts_Files s' = ts_Files s @ map th_Name (regular_entries headers) \<and> length (ts_Files s') \<le> maxPackedFileCount \<and>
     ts_Unpacked s' = ts_Unpacked s + (\<Sum>h\<leftarrow>regular_entries headers. th_Size h) \<and> ts_Unpacked s' \<le> maxUnpackedSize \<and>
     found_manifest (ts_Manifest s) (manifest_entries headers) (ts_Manifest s')"
  using assms
proof (induction headers arbitrary: s)
  case Nil
  then show ?case by (cases s; cases s') (auto simp: regular_entries_def manifest_entries_def found_manifest_def)
next
  case (Cons h headers)
  note simps = regular_entries_def manifest_entries_def safe_entry_def
  show ?case
  proof (cases "th_Typeflag h")
    case TypeReg
    show ?thesis
    proof (cases "\<exists>t. archive_step s h = Inr t")
      case True
      then obtain t where t: "archive_step s h = Inr t" by blast
      then have step: "package_path (th_Name h)" "0 \<le> th_Size h" "ts_Unpacked s + th_Size h \<le> maxUnpackedSize"
        "length (ts_Files s) < maxPackedFileCount" "ts_Unpacked t = ts_Unpacked s + th_Size h"
        "ts_Files t = ts_Files s @ [th_Name h]"
        and found: "if th_Name h = manifest_path then
          \<exists>decoded. read_manifest_entry s h = Inr decoded \<and> ts_Manifest t = Some decoded else ts_Manifest t = ts_Manifest s"
        using TypeReg by (simp_all add: archive_step_Inr)
      have "found_manifest (ts_Manifest s) (manifest_entries (h # headers)) m \<longleftrightarrow>
          found_manifest (ts_Manifest t) (manifest_entries headers) m" for m
        using found TypeReg
        by (auto simp: simps found_manifest_Cons read_manifest_entry_Inr readable_manifest_def split: if_splits)
      with t step TypeReg Cons.IH [of t] show ?thesis by (auto simp: simps)
    next
      case False
      then have no: "archive_loop (h # headers, clean_end) s \<noteq> Inr s'"
        by (cases "archive_step s h") auto
      have "\<not> (package_path (th_Name h) \<and> 0 \<le> th_Size h \<and> ts_Unpacked s + th_Size h \<le> maxUnpackedSize \<and>
          length (ts_Files s) < maxPackedFileCount \<and>
          (th_Name h = manifest_path \<longrightarrow> (\<exists>decoded. read_manifest_entry s h = Inr decoded)))"
      proof
        assume ok: "package_path (th_Name h) \<and> 0 \<le> th_Size h \<and> ts_Unpacked s + th_Size h \<le> maxUnpackedSize \<and>
          length (ts_Files s) < maxPackedFileCount \<and>
          (th_Name h = manifest_path \<longrightarrow> (\<exists>decoded. read_manifest_entry s h = Inr decoded))"
        show False
        proof (cases "th_Name h = manifest_path")
          case True
          with ok obtain decoded where "read_manifest_entry s h = Inr decoded" by blast
          with ok True TypeReg have "archive_step s h = Inr
            (s\<lparr>ts_Unpacked := ts_Unpacked s + th_Size h, ts_Files := ts_Files s @ [th_Name h], ts_Manifest := Some decoded\<rparr>)"
            by (simp add: archive_step_Inr)
          with False show False by blast
        next
          case False
          with ok TypeReg have "archive_step s h = Inr
            (s\<lparr>ts_Unpacked := ts_Unpacked s + th_Size h, ts_Files := ts_Files s @ [th_Name h]\<rparr>)"
            by (simp add: archive_step_Inr)
          with \<open>\<not> (\<exists>t. archive_step s h = Inr t)\<close> show False by blast
        qed
      qed
      then have "\<not> (list_all safe_entry (h # headers) \<and>
          ts_Files s' = ts_Files s @ map th_Name (regular_entries (h # headers)) \<and> length (ts_Files s') \<le> maxPackedFileCount \<and>
          ts_Unpacked s' = ts_Unpacked s + (\<Sum>h\<leftarrow>regular_entries (h # headers). th_Size h) \<and> ts_Unpacked s' \<le> maxUnpackedSize \<and>
          found_manifest (ts_Manifest s) (manifest_entries (h # headers)) (ts_Manifest s'))"
        using TypeReg regular_sizes [of headers]
        by (auto simp: simps found_manifest_Cons read_manifest_entry_Inr readable_manifest_def)
      with no show ?thesis by blast
    qed
  qed (use Cons in \<open>auto simp: archive_step_def simps validateArchivePath_None [symmetric] split: option.splits\<close>)
qed

text \<open>The loop from nothing, with what is made of its end.\<close>

lemma archive_start:
  "archive_loop (headers, clean_end) no_scan = Inr s \<longleftrightarrow>
      clean_end \<and> list_all safe_entry headers \<and> ts_Files s = map th_Name (regular_entries headers) \<and>
      length (regular_entries headers) \<le> maxPackedFileCount \<and>
      ts_Unpacked s = (\<Sum>h\<leftarrow>regular_entries headers. th_Size h) \<and> ts_Unpacked s \<le> maxUnpackedSize \<and>
      found_manifest None (manifest_entries headers) (ts_Manifest s)"
  using archive_loop_Inr [of no_scan headers clean_end s] by (auto simp: no_scan_def maxUnpackedSize_def)

lemma packed_of_Inr:
  "packed_of s = Inr packed \<longleftrightarrow>
      (\<exists>decoded. ts_Manifest s = Some decoded \<and> pmf_Name decoded \<noteq> [] \<and> pmf_Version decoded \<noteq> [] \<and>
        packed = \<lparr>pk_meta_Name = pmf_Name decoded, pk_meta_Version = pmf_Version decoded,
          pk_meta_Files = ts_Files s, pk_meta_ConsumerSurface = pmf_ConsumerSurface decoded\<rparr>)"
  by (auto simp: packed_of_def split: option.splits)

lemma found_one:
  "found_manifest None entries (Some decoded) \<longleftrightarrow> (\<exists>h. entries = [h] \<and> readable_manifest h decoded)"
  by (auto simp: found_manifest_def split: list.splits)

lemma archive_accepted:
  "(\<exists>s. archive_loop (headers, clean_end) no_scan = Inr s \<and> packed_of s = Inr packed) \<longleftrightarrow>
      clean_end \<and> list_all safe_entry headers \<and> length (regular_entries headers) \<le> maxPackedFileCount \<and>
      (\<Sum>h\<leftarrow>regular_entries headers. th_Size h) \<le> maxUnpackedSize \<and>
      (\<exists>h decoded. manifest_entries headers = [h] \<and> readable_manifest h decoded \<and>
        pmf_Name decoded \<noteq> [] \<and> pmf_Version decoded \<noteq> [] \<and>
        packed = \<lparr>pk_meta_Name = pmf_Name decoded, pk_meta_Version = pmf_Version decoded,
          pk_meta_Files = map th_Name (regular_entries headers), pk_meta_ConsumerSurface = pmf_ConsumerSurface decoded\<rparr>)"
  (is "?L \<longleftrightarrow> ?R")
proof
  assume ?L
  then obtain s where s: "archive_loop (headers, clean_end) no_scan = Inr s" "packed_of s = Inr packed" by blast
  from s(2) obtain decoded where decoded: "ts_Manifest s = Some decoded" "pmf_Name decoded \<noteq> []" "pmf_Version decoded \<noteq> []"
    "packed = \<lparr>pk_meta_Name = pmf_Name decoded, pk_meta_Version = pmf_Version decoded,
        pk_meta_Files = ts_Files s, pk_meta_ConsumerSurface = pmf_ConsumerSurface decoded\<rparr>"
    unfolding packed_of_Inr by blast
  with s(1) obtain h where "manifest_entries headers = [h]" "readable_manifest h decoded"
    unfolding archive_start by (auto simp: found_one)
  with decoded s(1) show ?R unfolding archive_start by (auto intro!: exI [of _ decoded])
next
  assume R: ?R
  then obtain h decoded where "manifest_entries headers = [h]" "readable_manifest h decoded" by blast
  with R show ?L
    by (intro exI [of _ "\<lparr>ts_Files = map th_Name (regular_entries headers),
        ts_Unpacked = (\<Sum>h\<leftarrow>regular_entries headers. th_Size h), ts_Manifest = Some decoded\<rparr>"])
      (auto simp: archive_start packed_of_def found_one readable_manifest_def)
qed

text \<open>
  C9: Exactly these tarballs are accepted.  The file is a regular one of at most 512 MiB; of what it unpacks to, read up
  to a byte beyond 1 GiB, every entry is a file or a directory below package/, reached by ordinary path elements; the
  files are at most 100000 and declare no more than 1 GiB together; precisely one of them is package/package.json, it is
  at most 16 MiB, is strict JSON and gives a name and a version.  What is reported is that manifest, the files in their
  order, and the digests of the very bytes that were inspected.
\<close>

theorem inspected_tarball_exact:
  "inspectTarball ar ft tarballPath = Inr (packed, sha256, sha512) \<longleftrightarrow>
     (\<exists>encoded stream headers h decoded.
        readBoundedRegularFile ft tarballPath maxTarballSize = Inr encoded \<and>
        ar_gunzip ar encoded = Some stream \<and> packed_stream ar stream = (headers, True) \<and>
        list_all safe_entry headers \<and> length (regular_entries headers) \<le> maxPackedFileCount \<and>
        (\<Sum>h\<leftarrow>regular_entries headers. th_Size h) \<le> maxUnpackedSize \<and>
        manifest_entries headers = [h] \<and> readable_manifest h decoded \<and>
        pmf_Name decoded \<noteq> [] \<and> pmf_Version decoded \<noteq> [] \<and>
        packed = \<lparr>pk_meta_Name = pmf_Name decoded, pk_meta_Version = pmf_Version decoded,
          pk_meta_Files = map th_Name (regular_entries headers), pk_meta_ConsumerSurface = pmf_ConsumerSurface decoded\<rparr> \<and>
        sha256 = SumSHA256 encoded \<and> sha512 = SumSHA512 encoded)"
    (is "_ \<longleftrightarrow> ?thesis_rhs")
proof (cases "readBoundedRegularFile ft tarballPath maxTarballSize")
  case (Inr encoded)
  show ?thesis
  proof (cases "ar_gunzip ar encoded")
    case (Some stream)
    obtain headers clean_end where ps: "packed_stream ar stream = (headers, clean_end)" by (cases "packed_stream ar stream")
    have "inspectTarball ar ft tarballPath = Inr (packed, sha256, sha512) \<longleftrightarrow>
        (\<exists>s. archive_loop (headers, clean_end) no_scan = Inr s \<and> packed_of s = Inr packed) \<and>
        sha256 = SumSHA256 encoded \<and> sha512 = SumSHA512 encoded"
      by (auto simp: inspectTarball_def Inr Some ps simp del: archive_loop.simps)
    also have "\<dots> \<longleftrightarrow> ?thesis_rhs"
      unfolding archive_accepted
    proof (rule iffI, goal_cases)
      case 1
      then obtain h decoded where "manifest_entries headers = [h]" "readable_manifest h decoded" "pmf_Name decoded \<noteq> []"
        "pmf_Version decoded \<noteq> []" "packed = \<lparr>pk_meta_Name = pmf_Name decoded, pk_meta_Version = pmf_Version decoded,
          pk_meta_Files = map th_Name (regular_entries headers), pk_meta_ConsumerSurface = pmf_ConsumerSurface decoded\<rparr>"
        by blast
      with 1 show ?case
        by (intro exI [of _ encoded] exI [of _ stream] exI [of _ headers] exI [of _ h] exI [of _ decoded])
          (simp add: Inr Some ps)
    next
      case 2
      then show ?case using Inr Some ps by (elim exE conjE) (simp, blast)
    qed
    finally show ?thesis .
  qed (simp add: inspectTarball_def Inr)
qed (simp add: inspectTarball_def)

text \<open>The usual name of a directory in an archive ends in a slash.\<close>

lemma package_path_end: "package_path name \<Longrightarrow> \<not> HasSuffix name ''/''"
proof
  assume "package_path name" and "HasSuffix name ''/''"
  then obtain es where es: "name = ''package/'' @ join_with ''/'' es" "es \<noteq> []" "list_all plain_element es"
    by (auto simp: package_path_def)
  obtain b where b: "name = b @ ''/''" using \<open>HasSuffix name ''/''\<close> by (auto simp: HasSuffix_iff)
  have "join_with ''/'' es \<noteq> [] \<and> last (join_with ''/'' es) \<noteq> CHR ''/''"
    using es(2,3)
  proof (induction "''/''" es rule: join_with.induct)
    case (2 w)
    then show ?case by (auto simp: plain_element_def clean_element_def dest: last_in_set)
  qed auto
  with b es(1) show False by (metis last_append last_snoc)
qed

text \<open>
  A directory entry as tar writes it is refused: its name ends in a slash, which the comparison with
  the clean name rejects before the branch that would skip directories is reached, so one such
  entry makes a whole tarball unacceptable.
\<close>

theorem directory_entries_refused:
  "if HasSuffix name ''/'' then
     (\<exists>err. archive_loop (\<lparr>th_Name = name, th_Typeflag = TypeDir, th_Size = 0, th_Data = [], th_Readable = True,
          th_Mode = mode, th_Consumed = consumed\<rparr> # headers,
        clean_end) no_scan = Inl err)
   else True"
proof (cases "HasSuffix name ''/''")
  case True
  then have "validateArchivePath name \<noteq> None" using package_path_end validateArchivePath_None by blast
  with True show ?thesis by (auto simp: archive_step_def)
qed simp

end
