(* ===== verification/Boundary.thy ===== *)
theory Boundary
  imports StderrRelay NpmFailure Workspace ParamsCheck
begin

text \<open>
  internal/npmprofile/exec_boundary.go and publish_provision_boundary.go: which executables may be run, and what is
  kept of a run.  The child process is a function of the command: the pieces it writes in the order in which the lock
  lets them through, and how it ends.  Process groups, signals and timers are part of that function.
\<close>

section \<open>Trusted executables\<close>

definition idTrustedCoreBoundaryViolation :: string where
  "idTrustedCoreBoundaryViolation = ''windlass.verify.error.trusted-core-boundary-violation''"

definition maxCommandOutput :: nat where "maxCommandOutput = 2 ^ 20"

definition allowedExecutableBasenames :: "string list" where
  "allowedExecutableBasenames = [''node'', ''npm'', ''npx'', ''corepack'', ''pnpm'', ''yarn'']"

text \<open>A commandBoundaryError: the ID in front of its cause.\<close>

definition boundary_error :: "string \<Rightarrow> string list \<Rightarrow> go_error" where
  "boundary_error message args = ErrWrap ''%s: %w'' [idTrustedCoreBoundaryViolation] [ErrText message args]"

record boundary_env =
  bn_tree :: file_tree
  bn_Getenv :: "string \<Rightarrow> string"
  bn_UserHomeDir :: "string option"
  bn_LookPath :: "string \<Rightarrow> string option"

text \<open>node-v, three numbers and two lower-case words.\<close>

definition platform_word :: "string \<Rightarrow> bool" where
  "platform_word w \<longleftrightarrow> w \<noteq> [] \<and> list_all (\<lambda>c. is_lower c \<or> is_digit c) w"

definition nodeRuntimeRootPattern :: "string \<Rightarrow> bool" where
  "nodeRuntimeRootPattern name =
     (case CutPrefix name ''node-v'' of
        None \<Rightarrow> False
      | Some rest \<Rightarrow>
          (case split_on (CHR ''-'') rest of
             [version, system, machine] \<Rightarrow>
               length (split_on (CHR ''.'') version) = 3 \<and> list_all re_numeric (split_on (CHR ''.'') version) \<and>
               platform_word system \<and> platform_word machine
           | _ \<Rightarrow> False))"

definition mise_root :: "boundary_env \<Rightarrow> string" where
  "mise_root env =
     (if bn_Getenv env ''MISE_DATA_DIR'' \<noteq> [] then bn_Getenv env ''MISE_DATA_DIR''
      else
        (case bn_UserHomeDir env of
           None \<Rightarrow> []
         | Some home \<Rightarrow> if home = [] then [] else Join [home, ''.local'', ''share'', ''mise'']))"

definition node_roots :: "boundary_env \<Rightarrow> string list" where
  "node_roots env =
     (case bn_LookPath env ''node'' of
        None \<Rightarrow> []
      | Some nodePath \<Rightarrow>
          (case ft_EvalSymlinks (bn_tree env) nodePath of
             Inl _ \<Rightarrow> []
           | Inr resolvedNode \<Rightarrow>
               (let binDir = Dir resolvedNode; runtimeRoot = Dir binDir in
                binDir # (if Base binDir = ''bin'' \<and> nodeRuntimeRootPattern (Base runtimeRoot) then [runtimeRoot] else []))))"

definition toolchain_candidates :: "boundary_env \<Rightarrow> string \<Rightarrow> string list" where
  "toolchain_candidates env shimDirectory =
     [shimDirectory, bn_Getenv env ''RUNNER_TOOL_CACHE'', mise_root env] @ node_roots env"

definition trustedToolchainRoots :: "boundary_env \<Rightarrow> string \<Rightarrow> string list" where
  "trustedToolchainRoots env shimDirectory =
     List.map_filter (\<lambda>candidate.
         if candidate = [] \<or> \<not> PathIsAbs candidate \<or> \<not> ft_IsDir (bn_tree env) candidate then None
         else (case ft_EvalSymlinks (bn_tree env) candidate of Inl _ \<Rightarrow> None | Inr resolved \<Rightarrow> Some resolved))
       (toolchain_candidates env shimDirectory)"

definition pathWithinRoot :: "string \<Rightarrow> string \<Rightarrow> bool" where
  "pathWithinRoot path root =
     (case Rel root path of
        Inl _ \<Rightarrow> False
      | Inr relative \<Rightarrow> relative \<noteq> ''..'' \<and> \<not> HasPrefix relative ''../'' \<and> \<not> PathIsAbs relative)"

definition validateExecutableContainment :: "boundary_env \<Rightarrow> string \<Rightarrow> string \<Rightarrow> string result" where
  "validateExecutableContainment env executable shimDirectory =
     (if \<not> PathIsAbs executable \<or> Clean executable \<noteq> executable then
        Inl (boundary_error ''executable path must be absolute and canonical: %q'' [executable])
      else if Base executable \<notin> set allowedExecutableBasenames then
        Inl (boundary_error ''executable is not in the toolchain allowlist: %q'' [Base executable])
      else
     (case ft_EvalSymlinks (bn_tree env) executable of
        Inl _ \<Rightarrow> Inl (boundary_error ''resolve executable symlinks: %w'' [])
      | Inr real \<Rightarrow>
     (case ft_Abs (bn_tree env) real of
        Inl _ \<Rightarrow> Inl (boundary_error ''resolve executable path: %w'' [])
      | Inr resolvedExecutable \<Rightarrow>
          if list_ex (pathWithinRoot resolvedExecutable) (trustedToolchainRoots env shimDirectory) then
            Inr resolvedExecutable
          else Inl (boundary_error ''executable %q resolves outside all trusted toolchain roots'' [executable]))))"

text \<open>The private directory of a provisioned npm, or nothing.\<close>

record permissions =
  pm_Lstat :: "string \<Rightarrow> (nat \<times> bool \<times> bool) option"  \<comment> \<open>permission bits, directory, regular file\<close>

definition publishProvisionedShimRoot :: "boundary_env \<Rightarrow> permissions \<Rightarrow> string \<Rightarrow> string" where
  "publishProvisionedShimRoot env perms executable =
     (let runnerTemp = bn_Getenv env ''RUNNER_TEMP''; private = Dir executable in
      if \<not> PathIsAbs runnerTemp \<or> \<not> PathIsAbs executable \<or> Clean executable \<noteq> executable \<or> Base executable \<noteq> ''npm''
      then []
      else
     (case ft_EvalSymlinks (bn_tree env) runnerTemp of
        Inl _ \<Rightarrow> []
      | Inr realTemp \<Rightarrow>
     (case CutPrefix (Base private) ''npm-provision-'' of
        None \<Rightarrow> []
      | Some rest \<Rightarrow>
          if rest = [] \<or> Dir private \<noteq> Join [realTemp, ''windlass-npm-cli''] then []
          else if ft_EvalSymlinks (bn_tree env) executable \<noteq> Inr executable then []
          else
     (case (pm_Lstat perms private, pm_Lstat perms executable) of
        (Some (mode, dir, _), Some (mode', _, regular)) \<Rightarrow>
          if mode = 448 \<and> dir \<and> mode' = 448 \<and> regular then private else []
      | _ \<Rightarrow> []))))"

section \<open>What is kept of the output\<close>

record limitedBuffer =
  lb_buffer :: string
  lb_total :: nat
  lb_maximum :: nat

definition limited_Write :: "string \<Rightarrow> limitedBuffer \<Rightarrow> limitedBuffer" where
  "limited_Write data b =
     b\<lparr>lb_total := lb_total b + length data,
       lb_buffer :=
         (if length (lb_buffer b) < lb_maximum b then
            lb_buffer b @ take (min (length data) (lb_maximum b - length (lb_buffer b))) data
          else lb_buffer b)\<rparr>"

definition limited_Writes :: "string list \<Rightarrow> nat \<Rightarrow> limitedBuffer" where
  "limited_Writes pieces maximum = fold limited_Write pieces \<lparr>lb_buffer = [], lb_total = 0, lb_maximum = maximum\<rparr>"

section \<open>Running a command\<close>

record command =
  cd_Dir :: string
  cd_Path :: string
  cd_Env :: "string list"
  cd_Args :: "string list"

datatype context_state = ContextActive | ContextTimeout | ContextCanceled

datatype process_state = NoProcessState | Signaled string | ExitedWith int

text \<open>A child: whether it started, its writes (\<^const>\<open>True\<close> for standard error), the error of Start or Wait, that of the
  last kill other than a vanished group, and what is seen afterwards.\<close>

record child =
  ch_started :: bool
  ch_writes :: "(bool \<times> string) list"
  ch_waitErr :: "go_error option"
  ch_cleanupErr :: "go_error option"
  ch_context :: context_state
  ch_state :: process_state
  ch_elapsed :: string

record commandBoundaryOptions =
  cb_additionalRedactionValues :: "string list"
  cb_shimDirectory :: string
  cb_maximumOutput :: int
  cb_rejectOutputOverflow :: bool

definition maximum_output :: "commandBoundaryOptions \<Rightarrow> nat" where
  "maximum_output options = (if cb_maximumOutput options \<le> 0 then maxCommandOutput else nat (cb_maximumOutput options))"

text \<open>Environ keeps the last entry of a name.\<close>

definition token_values :: "string list \<Rightarrow> string list" where
  "token_values environment =
     take 1 (List.map_filter (\<lambda>entry. CutPrefix entry ''ACTIONS_ID_TOKEN_REQUEST_TOKEN='')
       (rev (filter (\<lambda>entry. CHR 0x00 \<notin> set entry) environment)))"

definition run_error :: "child \<Rightarrow> go_error option" where
  "run_error c =
     (case ch_waitErr c of
        Some err \<Rightarrow> Some err
      | None \<Rightarrow> map_option (\<lambda>err. ErrWrap ''terminate command descendants: %w'' [] [err]) (ch_cleanupErr c))"

definition outcome_details :: "child \<Rightarrow> string \<times> string" where
  "outcome_details c =
     (if \<not> ch_started c then (''start-failed'', [])
      else if run_error c \<noteq> None \<and> ch_context c = ContextTimeout then (''timeout'', [])
      else if run_error c \<noteq> None \<and> ch_context c = ContextCanceled then (''canceled'', [])
      else
        (case ch_state c of
           NoProcessState \<Rightarrow> (''exit'', [])
         | Signaled signal \<Rightarrow> (''signal'', if signal \<noteq> [] then '' signal='' @ signal else [])
         | ExitedWith code \<Rightarrow> (''exit'', if code \<ge> 0 then '' exit='' @ show_nat (nat code) else [])))"

definition bool_text :: "bool \<Rightarrow> string" where "bool_text b = (if b then ''true'' else ''false'')"

text \<open>The lines written when the child has ended; \<open>summary\<close> is that of the recogniser of npm publish.\<close>

definition complete_lines ::
  "string \<Rightarrow> child \<Rightarrow> operationalStderrRelay \<Rightarrow> bool \<Rightarrow> string option \<Rightarrow> bool \<Rightarrow> string list" where
  "complete_lines operation c relay truncated summary success =
     emit operation relay
     @ [operational_line (''operation='' @ operation @ '' started='' @ bool_text (ch_started c) @ '' outcome=''
          @ fst (outcome_details c) @ snd (outcome_details c) @ '' elapsed='' @ ch_elapsed c
          @ '' output_truncated='' @ bool_text truncated @ '' success='' @ bool_text success)]
     @ (case summary of
          None \<Rightarrow> []
        | Some s \<Rightarrow> if success \<or> s = [] then [] else [operational_line (TrimPrefix s ''windlass operational: '')])"

record command_run =
  cr_executed :: "command option"
  cr_log :: "string list"
  cr_output :: string
  cr_error :: "go_error option"

definition finish_command :: "string \<Rightarrow> string list \<Rightarrow> commandBoundaryOptions \<Rightarrow> command \<Rightarrow> child \<Rightarrow> command_run" where
  "finish_command executable arguments options cmd c =
     (let pieces = map snd (ch_writes c);
          operation = Base executable;
          output = limited_Writes pieces (maximum_output options);
          relay = relay_Writes (map snd (filter fst (ch_writes c)))
            (newOperationalStderrRelay (cb_additionalRedactionValues options @ token_values (cd_Env cmd)));
          summary = (if operation = ''npm'' \<and> arguments \<noteq> [] \<and> hd arguments = ''publish''
            then Some (failure_Summary (failure_Writes pieces newNPMFailureRecognizer)) else None);
          overflow = (lb_total output > maximum_output options);
          log = (\<lambda>success. operational_line (''operation='' @ operation @ '' start'')
            # complete_lines operation c relay overflow summary success);
          trimmed = TrimSpace (lb_buffer output)
      in case run_error c of
           Some err \<Rightarrow>
             \<lparr>cr_executed = Some cmd, cr_log = log False, cr_output = trimmed,
              cr_error = Some (if ch_context c = ContextTimeout then ErrText ''command timed out: %w'' []
                else ErrWrap ''%s %v failed: %w: %s'' (operation # arguments @ [trimmed]) [err])\<rparr>
         | None \<Rightarrow>
             if cb_rejectOutputOverflow options \<and> overflow then
               \<lparr>cr_executed = Some cmd, cr_log = log False, cr_output = [],
                cr_error = Some (ErrText ''command output exceeds %d bytes'' [show_nat (maximum_output options)])\<rparr>
             else \<lparr>cr_executed = Some cmd, cr_log = log True, cr_output = trimmed, cr_error = None\<rparr>)"

definition runCommandAtBoundary ::
  "boundary_env \<Rightarrow> (command \<Rightarrow> child) \<Rightarrow> string \<Rightarrow> string \<Rightarrow> string list \<Rightarrow> string list \<Rightarrow> commandBoundaryOptions \<Rightarrow> command_run" where
  "runCommandAtBoundary env run directory executable environment arguments options =
     (case validateExecutableContainment env executable (cb_shimDirectory options) of
        Inl err \<Rightarrow> \<lparr>cr_executed = None, cr_log = [], cr_output = [], cr_error = Some err\<rparr>
      | Inr resolvedExecutable \<Rightarrow>
          (let cmd = \<lparr>cd_Dir = directory, cd_Path = resolvedExecutable, cd_Env = environment, cd_Args = arguments\<rparr>
           in finish_command executable arguments options cmd (run cmd)))"

definition runCommandWithShimRoot ::
  "boundary_env \<Rightarrow> (command \<Rightarrow> child) \<Rightarrow> string \<Rightarrow> string \<Rightarrow> string list \<Rightarrow> string list \<Rightarrow> string \<Rightarrow> command_run" where
  "runCommandWithShimRoot env run directory executable environment arguments shimDirectory =
     runCommandAtBoundary env run directory executable environment arguments
       \<lparr>cb_additionalRedactionValues = [], cb_shimDirectory = shimDirectory, cb_maximumOutput = int maxCommandOutput,
        cb_rejectOutputOverflow = True\<rparr>"

definition runCommand ::
  "boundary_env \<Rightarrow> (command \<Rightarrow> child) \<Rightarrow> string \<Rightarrow> string \<Rightarrow> string list \<Rightarrow> string list \<Rightarrow> command_run" where
  "runCommand env run directory executable environment arguments =
     runCommandWithShimRoot env run directory executable environment arguments []"

definition runPublishCommand ::
  "boundary_env \<Rightarrow> permissions \<Rightarrow> (command \<Rightarrow> child) \<Rightarrow> nat \<Rightarrow> string \<Rightarrow> string \<Rightarrow> string list \<Rightarrow> string list \<Rightarrow> string list
    \<Rightarrow> command_run" where
  "runPublishCommand env perms run maxNPMOutputSize directory executable environment arguments additionalRedactionValues =
     runCommandAtBoundary env run directory executable environment arguments
       \<lparr>cb_additionalRedactionValues = additionalRedactionValues,
        cb_shimDirectory = publishProvisionedShimRoot env perms executable,
        cb_maximumOutput = int maxNPMOutputSize, cb_rejectOutputOverflow = False\<rparr>"

section \<open>Containment\<close>

lemma pathWithinRoot_below:
  "pathWithinRoot path root \<Longrightarrow> \<exists>ts. clean_elements path = clean_elements root @ ts"
  using Rel_below by (fastforce simp: pathWithinRoot_def split: sum.splits)

lemma map_filter_member: "y \<in> set (List.map_filter f xs) \<longleftrightarrow> (\<exists>x \<in> set xs. f x = Some y)"
  by (induction xs) (auto simp: map_filter_simps split: option.splits)

lemma trusted_root:
  "root \<in> set (trustedToolchainRoots env shim) \<longleftrightarrow>
     (\<exists>candidate \<in> set (toolchain_candidates env shim). candidate \<noteq> [] \<and> PathIsAbs candidate \<and>
        ft_IsDir (bn_tree env) candidate \<and> ft_EvalSymlinks (bn_tree env) candidate = Inr root)"
  unfolding trustedToolchainRoots_def map_filter_member
  by (intro bex_cong refl) (auto split: sum.splits if_splits)

lemma contained_executable:
  assumes "validateExecutableContainment env executable shim = Inr resolved"
  shows "PathIsAbs executable \<and> Clean executable = executable \<and> Base executable \<in> set allowedExecutableBasenames \<and>
    bind_result (ft_EvalSymlinks (bn_tree env) executable) (ft_Abs (bn_tree env)) = Inr resolved \<and>
    (\<exists>candidate root ts. candidate \<in> set (toolchain_candidates env shim) \<and> PathIsAbs candidate \<and>
       ft_IsDir (bn_tree env) candidate \<and> ft_EvalSymlinks (bn_tree env) candidate = Inr root \<and>
       clean_elements resolved = clean_elements root @ ts)"
proof -
  from assms obtain real root where
    form: "PathIsAbs executable" "Clean executable = executable" "Base executable \<in> set allowedExecutableBasenames"
    and real: "ft_EvalSymlinks (bn_tree env) executable = Inr real" "ft_Abs (bn_tree env) real = Inr resolved"
    and root: "root \<in> set (trustedToolchainRoots env shim)" "pathWithinRoot resolved root"
    unfolding validateExecutableContainment_def
    by (simp only: list_ex_iff split: if_split_asm sum.split_asm) auto
  from root(1) obtain candidate where "candidate \<in> set (toolchain_candidates env shim)" "PathIsAbs candidate"
    "ft_IsDir (bn_tree env) candidate" "ft_EvalSymlinks (bn_tree env) candidate = Inr root"
    unfolding trusted_root by blast
  with form real pathWithinRoot_below [OF root(2)] show ?thesis by auto
qed

section \<open>Bounds\<close>

lemma limited_Writes_buffer:
  "limited_Writes pieces maximum =
     \<lparr>lb_buffer = take maximum (concat pieces), lb_total = length (concat pieces), lb_maximum = maximum\<rparr>"
proof -
  have "fold limited_Write pieces \<lparr>lb_buffer = take maximum s, lb_total = length s, lb_maximum = maximum\<rparr> =
      \<lparr>lb_buffer = take maximum (s @ concat pieces), lb_total = length (s @ concat pieces), lb_maximum = maximum\<rparr>" for s
  proof (induction pieces arbitrary: s)
    case (Cons p pieces)
    have "limited_Write p \<lparr>lb_buffer = take maximum s, lb_total = length s, lb_maximum = maximum\<rparr> =
        \<lparr>lb_buffer = take maximum (s @ p), lb_total = length (s @ p), lb_maximum = maximum\<rparr>"
      by (auto simp: limited_Write_def min_def)
    with Cons.IH [of "s @ p"] show ?case by simp
  qed simp
  from this [of "[]"] show ?thesis by (simp add: limited_Writes_def)
qed

lemma emit_stream:
  "concat ps = concat qs \<Longrightarrow>
     emit operation (relay_Writes ps (newOperationalStderrRelay vals)) =
     emit operation (relay_Writes qs (newOperationalStderrRelay vals))"
  by (simp add: relay_Writes_concat)

text \<open>What a child amounts to: the bytes of both streams together, those of standard error, and its end.\<close>

definition same_child :: "child \<Rightarrow> child \<Rightarrow> bool" where
  "same_child c d \<longleftrightarrow>
     concat (map snd (ch_writes c)) = concat (map snd (ch_writes d)) \<and>
     concat (map snd (filter fst (ch_writes c))) = concat (map snd (filter fst (ch_writes d))) \<and>
     ch_started c = ch_started d \<and> ch_waitErr c = ch_waitErr d \<and> ch_cleanupErr c = ch_cleanupErr d \<and>
     ch_context c = ch_context d \<and> ch_state c = ch_state d \<and> ch_elapsed c = ch_elapsed d"

lemma finish_same:
  assumes "same_child c d"
  shows "finish_command executable arguments options cmd c = finish_command executable arguments options cmd d"
proof -
  have pieces: "concat (map snd (ch_writes c)) = concat (map snd (ch_writes d))"
    "concat (map snd (filter fst (ch_writes c))) = concat (map snd (filter fst (ch_writes d)))"
    using assms by (simp_all add: same_child_def)
  have err: "run_error c = run_error d"
    using assms by (simp add: same_child_def run_error_def split: option.split)
  then have "outcome_details c = outcome_details d"
    using assms by (simp add: same_child_def outcome_details_def)
  then have "complete_lines operation c = complete_lines operation d" for operation
    using assms by (intro ext) (simp add: complete_lines_def same_child_def)
  with err show ?thesis
    using assms pieces
    by (cases "run_error d")
      (simp_all add: finish_command_def Let_def limited_Writes_buffer relay_Writes_concat failure_Writes_concat
        same_child_def)
qed

text \<open>
  C14: Nothing runs outside the toolchain, and a run is what its bytes are.  If a command is executed at all, the
  executable was named by an absolute clean path with one of six names, and what it resolves to through
  every symbolic link lies, element by element, below a trusted root that is itself resolved; the child is given
  precisely the directory, environment and arguments of the call.  A call without an error returns the trimmed
  output of a child that ended well, and where overflow is an error, all of it; what is returned and logged depends on
  the bytes of the streams, not on how the child cuts them into writes.
\<close>

theorem boundary_sound:
  "(case cr_executed (runCommandAtBoundary env run directory executable environment arguments options) of
      None \<Rightarrow> cr_error (runCommandAtBoundary env run directory executable environment arguments options) \<noteq> None
    | Some cmd \<Rightarrow>
        cd_Dir cmd = directory \<and> cd_Env cmd = environment \<and> cd_Args cmd = arguments \<and>
        PathIsAbs executable \<and> Clean executable = executable \<and> Base executable \<in> set allowedExecutableBasenames \<and>
        bind_result (ft_EvalSymlinks (bn_tree env) executable) (ft_Abs (bn_tree env)) = Inr (cd_Path cmd) \<and>
        (\<exists>candidate root ts. candidate \<in> set (toolchain_candidates env (cb_shimDirectory options)) \<and>
           PathIsAbs candidate \<and> ft_IsDir (bn_tree env) candidate \<and>
           ft_EvalSymlinks (bn_tree env) candidate = Inr root \<and>
           clean_elements (cd_Path cmd) = clean_elements root @ ts) \<and>
        (let written = concat (map snd (ch_writes (run cmd)));
             r = runCommandAtBoundary env run directory executable environment arguments options
         in if cr_error r = None then
              ch_waitErr (run cmd) = None \<and> ch_cleanupErr (run cmd) = None \<and>
              cr_output r = TrimSpace (take (maximum_output options) written) \<and>
              (if cb_rejectOutputOverflow options then length written \<le> maximum_output options else True)
            else True) \<and>
        (if same_child (run cmd) (run' cmd) then
           runCommandAtBoundary env run' directory executable environment arguments options =
             runCommandAtBoundary env run directory executable environment arguments options
         else True))"
proof (cases "validateExecutableContainment env executable (cb_shimDirectory options)")
  case (Inl err)
  then show ?thesis by (simp add: runCommandAtBoundary_def)
next
  case (Inr resolved)
  define cmd where "cmd = \<lparr>cd_Dir = directory, cd_Path = resolved, cd_Env = environment, cd_Args = arguments\<rparr>"
  let ?run = "\<lambda>r. runCommandAtBoundary env r directory executable environment arguments options"
  have run: "?run r = finish_command executable arguments options cmd (r cmd)" for r
    by (simp add: runCommandAtBoundary_def Inr Let_def cmd_def)
  have executed: "cr_executed (finish_command executable arguments options cmd c) = Some cmd" for c
    by (simp add: finish_command_def Let_def split: option.split)
  have result: "ch_waitErr c = None \<and> ch_cleanupErr c = None \<and>
      cr_output (finish_command executable arguments options cmd c) =
        TrimSpace (take (maximum_output options) (concat (map snd (ch_writes c)))) \<and>
      (if cb_rejectOutputOverflow options then length (concat (map snd (ch_writes c))) \<le> maximum_output options else True)"
    if "cr_error (finish_command executable arguments options cmd c) = None" for c
    using that
    by (auto simp: finish_command_def Let_def limited_Writes_buffer run_error_def split: option.splits if_splits)
  have same: "if same_child (run cmd) (run' cmd) then ?run run' = ?run run else True"
    using finish_same [of "run cmd" "run' cmd"] by (simp add: run)
  have cmd: "cd_Dir cmd = directory" "cd_Env cmd = environment" "cd_Args cmd = arguments" "cd_Path cmd = resolved"
    by (simp_all add: cmd_def)
  have ended: "let written = concat (map snd (ch_writes (run cmd))) in
      if cr_error (?run run) = None then
        ch_waitErr (run cmd) = None \<and> ch_cleanupErr (run cmd) = None \<and>
        cr_output (?run run) = TrimSpace (take (maximum_output options) written) \<and>
        (if cb_rejectOutputOverflow options then length written \<le> maximum_output options else True)
      else True"
    using result [of "run cmd"] by (simp add: run Let_def)
  have "cr_executed (?run run) = Some cmd" by (simp add: run executed)
  with contained_executable [OF Inr] same ended cmd show ?thesis
    unfolding Let_def by (simp only: option.case simp_thms)
qed

end
