(* ===== verification/Steps.thy ===== *)
theory Steps
  imports Prelude
begin

text \<open>
  Steps: code that changes the outside world, as a function from the history of what was done so far to a result and
  the longer history.  The build, the provisioning and the commands each have their own events.
\<close>

type_synonym ('h, 'a) run = "'h \<Rightarrow> 'a result \<times> 'h"

definition return_step :: "'a result \<Rightarrow> ('h, 'a) run" where
  "return_step r h = (r, h)"

definition bind_step :: "('h, 'a) run \<Rightarrow> ('a \<Rightarrow> ('h, 'b) run) \<Rightarrow> ('h, 'b) run" where
  "bind_step m f h = (case m h of (Inl err, h') \<Rightarrow> (Inl err, h') | (Inr x, h') \<Rightarrow> f x h')"

definition wrap_step :: "string \<Rightarrow> ('h, 'a) run \<Rightarrow> ('h, 'a) run" where
  "wrap_step message m h = (case m h of (Inl err, h') \<Rightarrow> (Inl (ErrWrap message [] [err]), h') | (Inr x, h') \<Rightarrow> (Inr x, h'))"

lemma bind_step_Inr [simp]:
  "bind_step m f h = (Inr y, h'') \<longleftrightarrow> (\<exists>x h'. m h = (Inr x, h') \<and> f x h' = (Inr y, h''))"
  by (auto simp: bind_step_def split: prod.splits sum.splits)

lemma return_step_Inr [simp]: "return_step r h = (Inr y, h') \<longleftrightarrow> r = Inr y \<and> h' = h"
  by (auto simp: return_step_def)

lemma wrap_step_Inr [simp]: "wrap_step message m h = (Inr y, h') \<longleftrightarrow> m h = (Inr y, h')"
  by (auto simp: wrap_step_def split: prod.splits sum.splits)

section \<open>Histories that only grow\<close>

text \<open>A step may add to the history and never rewrites it; or it adds nothing but events of a kind.\<close>

definition extends :: "('e list, 'a) run \<Rightarrow> bool" where
  "extends m \<longleftrightarrow> (\<forall>h. \<exists>es. snd (m h) = h @ es)"

lemma extends_run: "extends m \<Longrightarrow> m h = (r, h') \<Longrightarrow> \<exists>es. h' = h @ es"
  by (metis extends_def snd_conv)

lemma extends_bind: "extends m \<Longrightarrow> (\<And>x. extends (f x)) \<Longrightarrow> extends (bind_step m f)"
  unfolding extends_def
proof (intro allI)
  fix h
  assume m: "\<forall>h. \<exists>es. snd (m h) = h @ es" and f: "\<And>x. \<forall>h. \<exists>es. snd (f x h) = h @ es"
  obtain r h1 where run: "m h = (r, h1)" by (cases "m h")
  with m obtain es where es: "h1 = h @ es" by (metis snd_conv)
  show "\<exists>es. snd (bind_step m f h) = h @ es"
  proof (cases r)
    case (Inr x)
    with run have "bind_step m f h = f x h1" by (simp add: bind_step_def)
    moreover obtain fs where "snd (f x h1) = h1 @ fs" using f by blast
    ultimately show ?thesis using es by simp
  qed (use run es in \<open>auto simp: bind_step_def\<close>)
qed

definition keeps :: "('e \<Rightarrow> bool) \<Rightarrow> ('e list, 'a) run \<Rightarrow> bool" where
  "keeps P m \<longleftrightarrow> (\<forall>h. \<exists>es. snd (m h) = h @ es \<and> list_all P es)"

lemma keeps_run: "keeps P m \<Longrightarrow> m h = (r, h') \<Longrightarrow> \<exists>es. h' = h @ es \<and> list_all P es"
  by (metis keeps_def snd_conv)

lemma keeps_bind: "keeps P m \<Longrightarrow> (\<And>x h h'. m h = (Inr x, h') \<Longrightarrow> keeps P (f x)) \<Longrightarrow> keeps P (bind_step m f)"
  unfolding keeps_def
proof (intro allI)
  fix h
  assume m: "\<forall>h. \<exists>es. snd (m h) = h @ es \<and> list_all P es"
    and f: "\<And>x h h'. m h = (Inr x, h') \<Longrightarrow> \<forall>h. \<exists>es. snd (f x h) = h @ es \<and> list_all P es"
  obtain r h1 where run: "m h = (r, h1)" by (cases "m h")
  with m obtain es where es: "h1 = h @ es" "list_all P es" by (metis snd_conv)
  show "\<exists>es. snd (bind_step m f h) = h @ es \<and> list_all P es"
  proof (cases r)
    case (Inr x)
    with run have whole: "bind_step m f h = f x h1" by (simp add: bind_step_def)
    obtain fs where "snd (f x h1) = h1 @ fs" "list_all P fs" using f run Inr by blast
    with es whole show ?thesis by (intro exI [of _ "es @ fs"]) simp
  qed (use run es in \<open>auto simp: bind_step_def\<close>)
qed

lemma extends_return: "extends (return_step r)"
  by (auto simp: extends_def return_step_def)

lemma extends_wrap: "extends m \<Longrightarrow> extends (wrap_step message m)"
proof -
  have "snd (wrap_step message m h) = snd (m h)" for h
    by (simp add: wrap_step_def split: prod.split sum.split)
  then show "extends m \<Longrightarrow> extends (wrap_step message m)" by (simp add: extends_def)
qed

lemma keeps_return: "keeps P (return_step r)"
  by (auto simp: keeps_def return_step_def)

lemma keeps_wrap: "keeps P m \<Longrightarrow> keeps P (wrap_step message m)"
proof -
  have "snd (wrap_step message m h) = snd (m h)" for h
    by (simp add: wrap_step_def split: prod.split sum.split)
  then show "keeps P m \<Longrightarrow> keeps P (wrap_step message m)" by (simp add: keeps_def)
qed

lemma keeps_extends: "keeps P m \<Longrightarrow> extends m"
  by (auto simp: keeps_def extends_def)

end
