(* ===== verification/Toolchain.thy ===== *)
theory Toolchain
  imports Packed Boundary NpmRange LooseJson Steps
begin

text \<open>
  internal/npmprofile/toolchain.go and npm_version_warning.go: which Node.js, npm, pnpm or yarn a build runs, and the
  evidence it keeps of them.  Commands change the machine, so the world is a record of functions of the history:
  what can be seen of the files, of a child, of the network after everything done so far.
\<close>

section \<open>The world of a build\<close>

text \<open>What has been done: a command run, a directory or a file made, with its mode where that differs, a link from a
  path to a target made, a directory removed; and what has been looked at, since files and servers may change
  in between.\<close>

datatype build_event = Ran command | MadeDirectory string | Wrote string string | Placed string nat string
  | Linked string string | Removed string | Consulted string

type_synonym build_history = "build_event list"

record build_world =
  bw_boundary :: "build_history \<Rightarrow> boundary_env"
  bw_run :: "build_history \<Rightarrow> command \<Rightarrow> child"
  bw_Mkdir :: "build_history \<Rightarrow> string \<Rightarrow> bool"
  bw_MkdirTemp :: "build_history \<Rightarrow> string option"
  bw_Write :: "build_history \<Rightarrow> string \<Rightarrow> string \<Rightarrow> bool"
  bw_transport :: bool  \<comment> \<open>http.DefaultTransport is an http.Transport\<close>
  bw_http :: "build_history \<Rightarrow> string \<Rightarrow> string \<Rightarrow> http_env"

type_synonym 'a step = "(build_history, 'a) run"

text \<open>Looking, then going on with what was seen.\<close>

definition look_step :: "build_world \<Rightarrow> string \<Rightarrow> (boundary_env \<Rightarrow> 'a result) \<Rightarrow> 'a step" where
  "look_step w what see h = (see (bw_boundary w h), h @ [Consulted what])"

definition mkdir_step :: "build_world \<Rightarrow> string \<Rightarrow> go_error \<Rightarrow> unit step" where
  "mkdir_step w path err h =
     (if bw_Mkdir w h path then (Inr (), h @ [MadeDirectory path]) else (Inl err, h @ [Consulted path]))"

definition command_step :: "build_world \<Rightarrow> string \<Rightarrow> string \<Rightarrow> string list \<Rightarrow> string list \<Rightarrow> string \<Rightarrow> string step" where
  "command_step w directory executable environment arguments shimDirectory h =
     (let r = runCommandWithShimRoot (bw_boundary w h) (bw_run w h) directory executable environment arguments shimDirectory in
      (case cr_error r of None \<Rightarrow> Inr (cr_output r) | Some err \<Rightarrow> Inl err,
       h @ (case cr_executed r of None \<Rightarrow> [Consulted executable] | Some cmd \<Rightarrow> [Ran cmd])))"

lemma look_step_Inr [simp]:
  "look_step w what see h = (Inr y, h') \<longleftrightarrow> see (bw_boundary w h) = Inr y \<and> h' = h @ [Consulted what]"
  by (auto simp: look_step_def)

section \<open>Downloads\<close>

text \<open>One attempt, as in the registry client; here every answer but a readable 200 is tried again.\<close>

definition fetch_attempt :: "http_env \<Rightarrow> nat \<Rightarrow> nat \<Rightarrow> go_error + string result" where
  "fetch_attempt env maximum attempt =
     (if \<not> he_constructs env attempt then Inr (Inl (http_error ''construct request''))
      else
        (case he_proxy env attempt of
           ProxyUnresolved \<Rightarrow> Inr (Inl (http_error ''resolve HTTPS proxy: %w''))
         | Proxy True \<Rightarrow> Inr (Inl (http_error ''credential-bearing HTTPS proxies are prohibited''))
         | _ \<Rightarrow>
             (case he_Do env attempt of
                RequestFailed \<Rightarrow> Inl (http_error ''request failed'')
              | Responded status sent readable \<Rightarrow>
                  (let encoded = take (maximum + 1) sent in
                   if status \<noteq> 200 then Inl (ErrText ''distribution endpoint returned HTTP %d'' [show_nat status])
                   else if \<not> readable then Inl (http_error ''read'')
                   else if length encoded > maximum then Inr (Inl (http_error ''distribution response exceeds size limit''))
                   else Inr (Inr encoded)))))"

fun fetch_from :: "http_env \<Rightarrow> nat \<Rightarrow> nat \<Rightarrow> nat list \<Rightarrow> string result" where
  "fetch_from env maximum attempt [] = Inl (http_error [])"
| "fetch_from env maximum attempt (_ # others) =
     (case fetch_attempt env maximum attempt of
        Inr answer \<Rightarrow> answer
      | Inl err \<Rightarrow>
          if others = [] then Inl err
          else if \<not> he_delay_ends env attempt then Inl (ErrWrap ''joined'' [] [err])
          else fetch_from env maximum (attempt + 1) others)"

text \<open>Three attempts: the list counts them.\<close>

definition fetchHTTPS :: "bool \<Rightarrow> http_env \<Rightarrow> nat \<Rightarrow> string result" where
  "fetchHTTPS supported env maximum =
     (if \<not> supported then Inl (http_error ''default HTTP transport has an unsupported type'')
      else fetch_from env maximum 0 [0, 1, 2])"

definition fetch_step :: "build_world \<Rightarrow> string \<Rightarrow> nat \<Rightarrow> string \<Rightarrow> string step" where
  "fetch_step w rawURL maximum accept h =
     (fetchHTTPS (bw_transport w) (bw_http w h rawURL accept) maximum, h @ [Consulted rawURL])"

section \<open>The distribution of a package manager\<close>

definition maxCorepackMetadata :: nat where "maxCorepackMetadata = 64 * 2 ^ 10"
definition maxRegistryMetadata :: nat where "maxRegistryMetadata = 2 ^ 20"
definition maxYarnDistribution :: nat where "maxYarnDistribution = 128 * 2 ^ 20"
definition maxRunnerMetadata :: nat where "maxRunnerMetadata = 2 ^ 20"

definition distributionEvidenceError :: "string \<Rightarrow> go_error" where
  "distributionEvidenceError message =
     npmValidationError (npm_error_id ''input-unavailable'') ''resolvedDependencies.package-manager-distribution'' message"

definition distributionDisagreementError :: "string \<Rightarrow> go_error" where
  "distributionDisagreementError message =
     npmValidationError IDResolvedDependenciesDistribution ''resolvedDependencies.package-manager-distribution'' message"

text \<open>Where a text occurs first: what follows it.\<close>

fun after_first :: "string \<Rightarrow> string \<Rightarrow> string option" where
  "after_first sub [] = (if sub = [] then Some [] else None)"
| "after_first sub (c # cs) =
     (if HasPrefix (c # cs) sub then Some (drop (length sub) (c # cs)) else after_first sub cs)"

definition reported_url :: "string \<Rightarrow> string option" where
  "reported_url rest =
     (let value = TrimSpace rest in
      case url_Parse value of
        None \<Rightarrow> None
      | Some parsed \<Rightarrow>
          if Scheme parsed \<noteq> ''https'' \<or> User parsed \<noteq> None \<or> RawQuery parsed \<noteq> [] \<or> Fragment parsed \<noteq> [] then None
          else Some value)"

definition corepack_marker :: "Manager \<Rightarrow> string \<Rightarrow> string" where
  "corepack_marker manager version = '' corepack Installing '' @ manager @ ''@'' @ version @ '' from ''"

text \<open>The first line that reports the installation decides.\<close>

definition corepackDistributionURL :: "string \<Rightarrow> Manager \<Rightarrow> string \<Rightarrow> string option" where
  "corepackDistributionURL output manager version =
     (case List.map_filter (after_first (corepack_marker manager version)) (split_on (CHR 0x0A) output) of
        [] \<Rightarrow> None
      | rest # _ \<Rightarrow> reported_url rest)"

definition expectedDistributionURL :: "Manager \<Rightarrow> string \<Rightarrow> string" where
  "expectedDistributionURL manager version =
     (if manager = ManagerYarn then ''https://repo.yarnpkg.com/'' @ version @ ''/packages/yarnpkg-cli/bin/yarn.js''
      else ''https://registry.npmjs.org/pnpm/-/pnpm-'' @ version @ ''.tgz'')"

record corepack_metadata =
  cm_Name :: string
  cm_Reference :: string
  cm_Hash :: string

definition locator_fields :: "corepack_metadata field list" where
  "locator_fields = [(''name'', store_string (\<lambda>x. cm_Name_update (\<lambda>_. x))),
     (''reference'', store_string (\<lambda>x. cm_Reference_update (\<lambda>_. x)))]"

definition corepack_fields :: "corepack_metadata field list" where
  "corepack_fields = [(''locator'', decode_open locator_fields), (''hash'', store_string (\<lambda>x. cm_Hash_update (\<lambda>_. x)))]"

definition corepack_metadata_of :: "string \<Rightarrow> corepack_metadata option" where
  "corepack_metadata_of encoded =
     (case parseStrict encoded of
        Inl _ \<Rightarrow> None
      | Inr v \<Rightarrow> decode_open corepack_fields \<lparr>cm_Name = [], cm_Reference = [], cm_Hash = []\<rparr> v)"

text \<open>The hexadecimal part of a recorded hash: 64 bytes in lower case after the name of the algorithm.\<close>

definition canonical_hash :: "string \<Rightarrow> string option" where
  "canonical_hash recorded =
     (let corepackHash = TrimPrefix recorded ''sha512.'' in
      if length corepackHash \<noteq> 128 \<or> \<not> list_all is_lower_hex corepackHash \<or> recorded \<noteq> ''sha512.'' @ corepackHash then None
      else Some corepackHash)"

record packument_dist =
  pd_Integrity :: string
  pd_Tarball :: string

definition dist_fields :: "packument_dist field list" where
  "dist_fields = [(''integrity'', store_string (\<lambda>x. pd_Integrity_update (\<lambda>_. x))),
     (''tarball'', store_string (\<lambda>x. pd_Tarball_update (\<lambda>_. x)))]"

definition packument_fields :: "packument_dist field list" where
  "packument_fields = [(''dist'', decode_open dist_fields)]"

text \<open>DecodeString of StdEncoding, which is not strict about the last bits.\<close>

definition b64_decode :: "string \<Rightarrow> string option" where
  "b64_decode s =
     (let t = filter (\<lambda>c. c \<noteq> CHR 0x0A \<and> c \<noteq> CHR 0x0D) s in
      if length t mod 4 \<noteq> 0 then None
      else Option.bind (all_some (map b64_val (TrimSuffix (TrimSuffix t ''='') ''=''))) url_quads)"

definition integrity_hash :: "string \<Rightarrow> string result" where
  "integrity_hash integrity =
     (case CutPrefix integrity ''sha512-'' of
        None \<Rightarrow> Inl (ErrText ''pnpm registry metadata lacks one SHA-512 integrity value'' [])
      | Some encodedDigest \<Rightarrow>
          if ContainsAny encodedDigest [CHR '' '', CHR 0x09, CHR 0x0D, CHR 0x0A] then
            Inl (ErrText ''pnpm registry metadata lacks one SHA-512 integrity value'' [])
          else
            (case b64_decode encodedDigest of
               None \<Rightarrow> Inl (ErrText ''pnpm registry SHA-512 integrity value is malformed'' [])
             | Some bytes \<Rightarrow>
                 if length bytes \<noteq> 64 then Inl (ErrText ''pnpm registry SHA-512 integrity value is malformed'' [])
                 else Inr (hex_encode bytes)))"

definition pnpm_integrity_of :: "string \<Rightarrow> string \<Rightarrow> string result" where
  "pnpm_integrity_of encoded distributionURL =
     (case parseStrict encoded of
        Inl err \<Rightarrow> Inl (ErrWrap ''validate pnpm registry metadata: %w'' [] [err])
      | Inr v \<Rightarrow>
          (case decode_open packument_fields \<lparr>pd_Integrity = [], pd_Tarball = []\<rparr> v of
             None \<Rightarrow> Inl (ErrText ''pnpm registry metadata disagrees with the Corepack distribution URL'' [])
           | Some dist \<Rightarrow>
               if pd_Tarball dist \<noteq> distributionURL then
                 Inl (ErrText ''pnpm registry metadata disagrees with the Corepack distribution URL'' [])
               else integrity_hash (pd_Integrity dist)))"

definition pnpmRegistryIntegrity :: "build_world \<Rightarrow> string \<Rightarrow> string \<Rightarrow> string step" where
  "pnpmRegistryIntegrity w version distributionURL =
     bind_step (wrap_step ''fetch pnpm registry metadata: %w''
         (fetch_step w (''https://registry.npmjs.org/pnpm/'' @ PathEscape version) maxRegistryMetadata ''application/json''))
       (\<lambda>encoded. return_step (pnpm_integrity_of encoded distributionURL))"

definition downloadYarnDistribution :: "build_world \<Rightarrow> string \<Rightarrow> string step" where
  "downloadYarnDistribution w distributionURL =
     wrap_step ''download Yarn distribution evidence: %w''
       (fetch_step w distributionURL maxYarnDistribution ''application/octet-stream'')"

text \<open>The authority of the hash, the hash and for yarn the bytes.\<close>

definition authoritative_hash :: "build_world \<Rightarrow> Manager \<Rightarrow> string \<Rightarrow> string \<Rightarrow> (string \<times> string \<times> string) step" where
  "authoritative_hash w manager version distributionURL =
     (if manager = ManagerPNPM then
        bind_step (pnpmRegistryIntegrity w version distributionURL)
          (\<lambda>hash. return_step (Inr (''registry-integrity'', hash, [])))
      else if manager = ManagerYarn then
        bind_step (downloadYarnDistribution w distributionURL)
          (\<lambda>bytes. return_step (Inr (''download-hash'', SHA512_String (SumSHA512 bytes), bytes)))
      else return_step (Inl (ErrText ''unsupported Corepack package manager'' [])))"

definition as_evidence :: "'a step \<Rightarrow> 'a step" where
  "as_evidence m h = (case m h of (Inl err, h') \<Rightarrow> (Inl (distributionEvidenceError ''%v''), h') | (Inr x, h') \<Rightarrow> (Inr x, h'))"

lemma as_evidence_Inr [simp]: "as_evidence m h = (Inr y, h') \<longleftrightarrow> m h = (Inr y, h')"
  by (auto simp: as_evidence_def split: prod.splits sum.splits)

text \<open>The metadata file Corepack leaves beside the distribution.\<close>

definition corepack_path :: "string \<Rightarrow> Manager \<Rightarrow> string \<Rightarrow> string" where
  "corepack_path corepackHome manager version = Join [corepackHome, ''v1'', manager, version, ''.corepack'']"

definition corepack_recorded :: "string \<Rightarrow> ManagerSelection \<Rightarrow> boundary_env \<Rightarrow> string result" where
  "corepack_recorded corepackHome selection env =
     (case readBoundedRegularFile (bn_tree env) (corepack_path corepackHome (ms_Name selection) (ms_Version selection))
             maxCorepackMetadata of
        Inl _ \<Rightarrow> Inl (distributionEvidenceError ''read Corepack distribution metadata: %v'')
      | Inr encoded \<Rightarrow>
          (case corepack_metadata_of encoded of
             None \<Rightarrow> Inl (distributionEvidenceError ''decode Corepack distribution metadata: %v'')
           | Some metadata \<Rightarrow>
               if cm_Name metadata \<noteq> ms_Name selection \<or> cm_Reference metadata \<noteq> selection_Descriptor selection then
                 Inl (distributionDisagreementError ''corepack distribution metadata disagrees with the executed manager'')
               else
                 (case canonical_hash (cm_Hash metadata) of
                    None \<Rightarrow> Inl (distributionEvidenceError ''corepack distribution metadata lacks a canonical SHA-512 hash'')
                  | Some hash \<Rightarrow> Inr hash)))"

definition acquired_url :: "ManagerSelection \<Rightarrow> string \<Rightarrow> string result" where
  "acquired_url selection commandOutput =
     (case corepackDistributionURL commandOutput (ms_Name selection) (ms_Version selection) of
        None \<Rightarrow> Inl (distributionEvidenceError ''corepack did not report a valid distribution URL'')
      | Some distributionURL \<Rightarrow>
          if distributionURL \<noteq> expectedDistributionURL (ms_Name selection) (ms_Version selection) then
            Inl (distributionDisagreementError ''corepack acquired %s@%s from unexpected URL %q'')
          else Inr distributionURL)"

definition reconcile_step :: "build_world \<Rightarrow> ManagerSelection \<Rightarrow> string \<Rightarrow> string \<Rightarrow> string \<Rightarrow> unit step" where
  "reconcile_step w selection distributionURL hash bytes h =
     (guarded (reconcileDeclaredDigest selection distributionURL hash bytes
         (\<lambda>rawURL maximum accept. fetchHTTPS (bw_transport w) (bw_http w h rawURL accept) maximum)) (Inr ()),
      h @ [Consulted distributionURL])"

definition captureDistribution :: "build_world \<Rightarrow> string \<Rightarrow> ManagerSelection \<Rightarrow> string \<Rightarrow> DistributionCapture step" where
  "captureDistribution w corepackHome selection commandOutput =
     bind_step (return_step (acquired_url selection commandOutput)) (\<lambda>distributionURL.
     bind_step (look_step w ''corepack metadata'' (corepack_recorded corepackHome selection)) (\<lambda>corepackHash.
     bind_step (as_evidence (authoritative_hash w (ms_Name selection) (ms_Version selection) distributionURL))
       (\<lambda>(authority, authoritativeHash, bytes).
     if authoritativeHash \<noteq> corepackHash then
       return_step (Inl (distributionEvidenceError ''corepack distribution hash disagrees with acquisition evidence''))
     else
     bind_step (reconcile_step w selection distributionURL authoritativeHash bytes) (\<lambda>_.
     return_step (Inr \<lparr>dc_URL = distributionURL, dc_SHA512 = corepackHash, dc_DigestAuthority = authority,
       dc_PackageManager = ms_Name selection, dc_PackageManagerVer = selection_Descriptor selection,
       dc_AcquisitionSource = ''corepack''\<rparr>)))))"

section \<open>The runner\<close>

definition runnerCaptureError :: "string \<Rightarrow> string \<Rightarrow> string \<Rightarrow> go_error" where
  "runnerCaptureError message imageOS deploymentVersion =
     npmValidationError (npm_error_id ''input-unavailable'') ''resolvedDependencies.runner-image''
       (message @ '' (ImageOS='' @ imageOS @ '', ImageVersion='' @ deploymentVersion @ '')'')"

definition group_fields :: "(string \<times> string) field list" where
  "group_fields = [(''group'', store_string (\<lambda>x (g, d). (x, d))), (''detail'', store_string (\<lambda>x (g, d). (g, x)))]"

definition runner_groups :: "string \<Rightarrow> (string \<times> string) list option" where
  "runner_groups encoded =
     (case parseStrict encoded of
        Inr (JArr items) \<Rightarrow> all_some (map (decode_open group_fields ([], [])) items)
      | Inr JNull \<Rightarrow> Some []
      | _ \<Rightarrow> None)"

text \<open>A detail line sets its field once.\<close>

definition detail_step :: "RunnerCapture \<Rightarrow> string \<Rightarrow> RunnerCapture option" where
  "detail_step capture raw =
     (let line = TrimSpace raw in
      case CutPrefix line ''Image: '' of
        Some v \<Rightarrow> if rc_ImageLabel capture \<noteq> [] then None else Some (capture\<lparr>rc_ImageLabel := TrimSpace v\<rparr>)
      | None \<Rightarrow>
     (case CutPrefix line ''Version: '' of
        Some v \<Rightarrow> if rc_ImageVersion capture \<noteq> [] then None else Some (capture\<lparr>rc_ImageVersion := TrimSpace v\<rparr>)
      | None \<Rightarrow>
     (case CutPrefix line ''Included Software: '' of
        Some v \<Rightarrow>
          if rc_IncludedSoftwareURL capture \<noteq> [] then None else Some (capture\<lparr>rc_IncludedSoftwareURL := TrimSpace v\<rparr>)
      | None \<Rightarrow>
     (case CutPrefix line ''Image Release: '' of
        Some v \<Rightarrow> if rc_ImageReleaseURL capture \<noteq> [] then None else Some (capture\<lparr>rc_ImageReleaseURL := TrimSpace v\<rparr>)
      | None \<Rightarrow> Some capture))))"

fun detail_lines :: "RunnerCapture \<Rightarrow> string list \<Rightarrow> RunnerCapture option" where
  "detail_lines capture [] = Some capture"
| "detail_lines capture (line # lines) =
     (case detail_step capture line of None \<Rightarrow> None | Some capture' \<Rightarrow> detail_lines capture' lines)"

definition complete_runner :: "RunnerCapture \<Rightarrow> bool" where
  "complete_runner c \<longleftrightarrow>
     rc_ImageLabel c \<noteq> [] \<and> rc_ImageVersion c \<noteq> [] \<and> rc_IncludedSoftwareURL c \<noteq> [] \<and> rc_ImageReleaseURL c \<noteq> []"

fun scan_groups :: "RunnerCapture \<Rightarrow> bool \<Rightarrow> (string \<times> string) list \<Rightarrow> (RunnerCapture \<times> bool) option" where
  "scan_groups capture seen [] = Some (capture, seen)"
| "scan_groups capture seen ((heading, detail) # groups) =
     (if heading \<noteq> ''Runner Image'' then scan_groups capture seen groups
      else if seen then None
      else
        (case detail_lines capture (split_on (CHR 0x0A) detail) of
           None \<Rightarrow> None
         | Some capture' \<Rightarrow> if \<not> complete_runner capture' then None else scan_groups capture' True groups))"

definition no_runner :: "string \<Rightarrow> string \<Rightarrow> RunnerCapture" where
  "no_runner imageOS deploymentVersion =
     \<lparr>rc_ImageLabel = [], rc_ImageOS = imageOS, rc_ImageVersion = [], rc_DeploymentVersion = deploymentVersion,
      rc_IncludedSoftwareURL = [], rc_ImageReleaseURL = []\<rparr>"

text \<open>Every failure is the same error with another message; the message is left out.\<close>

definition parseRunnerMetadata :: "string \<Rightarrow> string \<Rightarrow> string \<Rightarrow> RunnerCapture result" where
  "parseRunnerMetadata encoded imageOS deploymentVersion =
     (case Option.bind (runner_groups encoded) (scan_groups (no_runner imageOS deploymentVersion) False) of
        Some (capture, True) \<Rightarrow> Inr capture
      | _ \<Rightarrow> Inl (runnerCaptureError ''runner image metadata'' imageOS deploymentVersion))"

definition runnerMetadataPath :: string where "runnerMetadataPath = ''/imagegeneration/imagedata.json''"

definition captureRunner :: "boundary_env \<Rightarrow> RunnerCapture result" where
  "captureRunner env =
     (let imageOS = bn_Getenv env ''ImageOS''; deploymentVersion = bn_Getenv env ''ImageVersion'' in
      if imageOS = [] \<and> deploymentVersion = [] then Inr (no_runner [] [])
      else if imageOS = [] then
        Inl (runnerCaptureError ''runner image observations from GitHub are incomplete'' imageOS deploymentVersion)
      else
        (case readBoundedRegularFile (bn_tree env) runnerMetadataPath maxRunnerMetadata of
           Inl _ \<Rightarrow> Inl (runnerCaptureError ''read GitHub runner image metadata: %v'' imageOS deploymentVersion)
         | Inr encoded \<Rightarrow> parseRunnerMetadata encoded imageOS deploymentVersion))"

section \<open>The toolchain\<close>

definition IDNPMVersionMismatch :: string where
  "IDNPMVersionMismatch = ''windlass.verify.warning.npm-version-mismatch''"

definition lastOutputLine :: "string \<Rightarrow> string" where
  "lastOutputLine output = TrimSpace (last (split_on (CHR 0x0A) (TrimSpace output)))"

definition lookup_step :: "build_world \<Rightarrow> string \<Rightarrow> string \<Rightarrow> string step" where
  "lookup_step w name message =
     look_step w name (\<lambda>env. case bn_LookPath env name of None \<Rightarrow> Inl (ErrText message []) | Some path \<Rightarrow> Inr path)"

definition runtime_versions_ok :: "semver_pkg \<Rightarrow> string \<Rightarrow> string \<Rightarrow> go_error option" where
  "runtime_versions_ok sv nodeVersion npmVersion =
     (if \<not> sv_IsValid sv nodeVersion \<or> sv_Major sv nodeVersion \<noteq> ''v24'' then
        Some (ErrText ''required Node.js major is 24; executed %q'' [nodeVersion])
      else if \<not> sv_IsValid sv (''v'' @ npmVersion) \<or> sv_Compare sv (''v'' @ npmVersion) ''v11.5.1'' < 0 then
        Some (ErrText ''npm 11.5.1 or newer is required, executed %q'' [npmVersion])
      else None)"

definition npm_capture :: "string \<Rightarrow> string \<Rightarrow> RunnerCapture \<Rightarrow> ToolchainCapture" where
  "npm_capture nodeVersion npmVersion runner =
     \<lparr>tc_NodeVersion = nodeVersion, tc_NPMVersion = npmVersion, tc_CorepackVersion = [],
      tc_PackageManagerVersion = npmVersion, tc_Distribution = None, tc_Runner = runner\<rparr>"

text \<open>The part for pnpm and yarn: Corepack puts a shim into a private directory and runs the selected version from
  it.\<close>

definition corepack_toolchain ::
  "build_world \<Rightarrow> Result \<Rightarrow> string \<Rightarrow> string list \<Rightarrow> ToolchainCapture \<Rightarrow> (ToolchainCapture \<times> string) step" where
  "corepack_toolchain w selection root environment capture =
     (let manager = re_Manager selection; directory = pg_RealManagerRoot (re_Package selection);
          shimDirectory = Join [root, ''shims''];
          managerPath = Join [shimDirectory, ms_Name manager] in
      bind_step (lookup_step w ''corepack'' ''corepack executable is unavailable'') (\<lambda>corepackPath.
      bind_step (command_step w directory corepackPath environment [''--version''] []) (\<lambda>corepackVersion.
      bind_step (mkdir_step w shimDirectory (ErrText ''create Corepack shim directory: %w'' [])) (\<lambda>_.
      bind_step (wrap_step ''enable Corepack: %w''
          (command_step w directory corepackPath environment [''enable'', ''--install-directory'', shimDirectory] [])) (\<lambda>_.
      bind_step (command_step w directory managerPath (environment @ [''DEBUG=corepack'']) [''--version''] shimDirectory)
        (\<lambda>managerOutput.
      if lastOutputLine managerOutput \<noteq> ms_Version manager then
        return_step (Inl (ErrText ''selected %s@%s but Corepack executed %s''
          [ms_Name manager, ms_Version manager, lastOutputLine managerOutput]))
      else
      bind_step (captureDistribution w (Join [root, ''corepack'']) manager managerOutput) (\<lambda>distribution.
      return_step (Inr
        (capture\<lparr>tc_CorepackVersion := corepackVersion, tc_PackageManagerVersion := lastOutputLine managerOutput,
           tc_Distribution := Some distribution\<rparr>, managerPath)))))))))"

definition prepareToolchain ::
  "semver_pkg \<Rightarrow> build_world \<Rightarrow> Result \<Rightarrow> string \<Rightarrow> string list \<Rightarrow> (ToolchainCapture \<times> string) step" where
  "prepareToolchain sv w selection root environment =
     (let directory = pg_RealManagerRoot (re_Package selection) in
      bind_step (lookup_step w ''node'' ''node executable is unavailable'') (\<lambda>nodePath.
      bind_step (lookup_step w ''npm'' ''npm executable is unavailable'') (\<lambda>npmPath.
      bind_step (command_step w directory nodePath environment [''--version''] []) (\<lambda>nodeVersion.
      bind_step (command_step w directory npmPath environment [''--version''] []) (\<lambda>npmVersion.
      bind_step (return_step (guarded (runtime_versions_ok sv nodeVersion npmVersion) (Inr ()))) (\<lambda>_.
      bind_step (look_step w ''runner'' captureRunner) (\<lambda>runner.
      if ms_Name (re_Manager selection) = ManagerNPM then
        return_step (Inr (npm_capture nodeVersion npmVersion runner, npmPath))
      else corepack_toolchain w selection root environment (npm_capture nodeVersion npmVersion runner))))))))"

definition npmDeclaredVersionWarning ::
  "semver_pkg \<Rightarrow> (string \<Rightarrow> string result) \<Rightarrow> ManagerSelection \<Rightarrow> string \<Rightarrow> Diagnostic list result" where
  "npmDeclaredVersionWarning sv transform manager observedNPMVersion =
     (if ms_Name manager \<noteq> ManagerNPM \<or> \<not> ms_DeclaredVersionSet manager
         \<or> npmDeclaredMatchesActual sv (ms_DeclaredVersion manager) observedNPMVersion then Inr []
      else
        map_result (\<lambda>warning. [warning\<lparr>dg_Field := ''package_manager.version''\<rparr>])
          (New transform IDNPMVersionMismatch ''package_manager.version''
             ''The declared npm version does not match the toolchain npm; the toolchain npm remains authoritative.''))"

section \<open>The commands of a history\<close>

definition commands_of :: "build_history \<Rightarrow> command list" where
  "commands_of = List.map_filter (\<lambda>e. case e of Ran cmd \<Rightarrow> Some cmd | _ \<Rightarrow> None)"

lemma commands_of_simps [simp]:
  "commands_of [] = []" "commands_of (Ran cmd # es) = cmd # commands_of es"
  "commands_of (MadeDirectory path # es) = commands_of es" "commands_of (Wrote path text # es) = commands_of es"
  "commands_of (Placed path mode text # es) = commands_of es" "commands_of (Linked path target # es) = commands_of es"
  "commands_of (Removed path # es) = commands_of es" "commands_of (Consulted what # es) = commands_of es"
  "commands_of (es @ fs) = commands_of es @ commands_of fs"
  by (simp_all add: commands_of_def map_filter_simps) (simp add: map_filter_def)

text \<open>Steps that run nothing only add to the history.\<close>

definition quiet :: "'a step \<Rightarrow> bool" where
  "quiet m \<longleftrightarrow> (\<forall>h. \<exists>es. snd (m h) = h @ es \<and> commands_of es = [])"

lemma quiet_bind: "quiet m \<Longrightarrow> (\<And>x. quiet (f x)) \<Longrightarrow> quiet (bind_step m f)"
  unfolding quiet_def
proof (intro allI)
  fix h
  assume m: "\<forall>h. \<exists>es. snd (m h) = h @ es \<and> commands_of es = []"
    and f: "\<And>x. \<forall>h. \<exists>es. snd (f x h) = h @ es \<and> commands_of es = []"
  obtain r h1 where run: "m h = (r, h1)" by (cases "m h")
  with m obtain es where es: "h1 = h @ es" "commands_of es = []" by (metis snd_conv)
  show "\<exists>es. snd (bind_step m f h) = h @ es \<and> commands_of es = []"
  proof (cases r)
    case (Inr x)
    obtain fs where "snd (f x h1) = h1 @ fs" "commands_of fs = []" using f by blast
    with Inr run es show ?thesis by (auto simp: bind_step_def)
  qed (use run es in \<open>auto simp: bind_step_def\<close>)
qed

lemma quiet_steps:
  "quiet (return_step r)" "quiet (look_step w what see)" "quiet (mkdir_step w path err)"
  "quiet (fetch_step w rawURL maximum accept)" "quiet (reconcile_step w selection url hash bytes)"
  by (auto simp: quiet_def return_step_def look_step_def mkdir_step_def fetch_step_def reconcile_step_def)

lemma quiet_wrap: "quiet m \<Longrightarrow> quiet (wrap_step message m)" "quiet m \<Longrightarrow> quiet (as_evidence m)"
proof -
  have "snd (wrap_step message m h) = snd (m h)" "snd (as_evidence m h) = snd (m h)" for h
    by (simp_all add: wrap_step_def as_evidence_def split: prod.split sum.split)
  then show "quiet m \<Longrightarrow> quiet (wrap_step message m)" "quiet m \<Longrightarrow> quiet (as_evidence m)"
    by (simp_all add: quiet_def)
qed

lemma quiet_capture: "quiet (captureDistribution w home selection output)"
proof -
  have "quiet (authoritative_hash w manager version url)" for manager version url
    by (auto simp: authoritative_hash_def pnpmRegistryIntegrity_def downloadYarnDistribution_def
        intro!: quiet_bind quiet_steps quiet_wrap)
  then show ?thesis
    unfolding captureDistribution_def
    by (intro quiet_bind quiet_steps quiet_wrap) (auto intro!: quiet_bind quiet_steps split: prod.split)
qed

lemma quiet_Inr: "quiet m \<Longrightarrow> m h = (r, h') \<Longrightarrow> \<exists>es. h' = h @ es \<and> commands_of es = []"
  by (metis quiet_def snd_conv)

text \<open>A command that succeeds, after a history: the executable asked for resolved then, through every symbolic link, to the
  path that was run, which has one of the six names and lies below a root trusted then; it was run as asked, ended well,
  and its whole output is what is returned.\<close>

definition ran_as ::
  "build_world \<Rightarrow> build_history \<Rightarrow> string \<Rightarrow> string \<Rightarrow> string list \<Rightarrow> string list \<Rightarrow> string \<Rightarrow> command \<Rightarrow> string \<Rightarrow> bool" where
  "ran_as w h directory executable environment arguments shim cmd out \<longleftrightarrow>
     PathIsAbs executable \<and> Base executable \<in> {''node'', ''npm'', ''npx'', ''corepack'', ''pnpm'', ''yarn''} \<and>
     (\<exists>real. ft_EvalSymlinks (bn_tree (bw_boundary w h)) executable = Inr real \<and>
        ft_Abs (bn_tree (bw_boundary w h)) real = Inr (cd_Path cmd)) \<and>
     (\<exists>trusted \<in> set (trustedToolchainRoots (bw_boundary w h) shim). pathWithinRoot (cd_Path cmd) trusted) \<and>
     cd_Dir cmd = directory \<and> cd_Env cmd = environment \<and> cd_Args cmd = arguments \<and>
     ch_waitErr (bw_run w h cmd) = None \<and> out = TrimSpace (concat (map snd (ch_writes (bw_run w h cmd))))"

definition printed :: "build_world \<Rightarrow> command \<Rightarrow> string \<Rightarrow> bool" where
  "printed w cmd out \<longleftrightarrow>
     (\<exists>h. ch_waitErr (bw_run w h cmd) = None \<and> out = TrimSpace (concat (map snd (ch_writes (bw_run w h cmd)))))"

lemma ran_as_printed: "ran_as w h directory executable environment arguments shim cmd out \<Longrightarrow> printed w cmd out"
  by (auto simp: ran_as_def printed_def)

lemma command_step_ran_as:
  assumes "command_step w directory executable environment arguments shim h = (Inr out, h')"
  shows "\<exists>cmd. h' = h @ [Ran cmd] \<and> ran_as w h directory executable environment arguments shim cmd out"
proof -
  let ?env = "bw_boundary w h"
  let ?r = "runCommandWithShimRoot ?env (bw_run w h) directory executable environment arguments shim"
  from assms have ok: "cr_error ?r = None" and out: "out = cr_output ?r"
    by (auto simp: command_step_def Let_def split: option.splits)
  from ok obtain resolved where resolved: "validateExecutableContainment ?env executable shim = Inr resolved"
    by (cases "validateExecutableContainment ?env executable shim")
      (auto simp: runCommandWithShimRoot_def runCommandAtBoundary_def)
  define cmd where "cmd = \<lparr>cd_Dir = directory, cd_Path = resolved, cd_Env = environment, cd_Args = arguments\<rparr>"
  define options where "options = \<lparr>cb_additionalRedactionValues = [], cb_shimDirectory = shim,
    cb_maximumOutput = int maxCommandOutput, cb_rejectOutputOverflow = True\<rparr>"
  have r: "?r = finish_command executable arguments options cmd (bw_run w h cmd)"
    by (simp add: runCommandWithShimRoot_def runCommandAtBoundary_def resolved cmd_def options_def Let_def)
  have executed: "cr_executed ?r = Some cmd" by (simp add: r finish_command_def Let_def split: option.split)
  have ended: "ch_waitErr (bw_run w h cmd) = None" and
    "cr_output ?r = TrimSpace (concat (map snd (ch_writes (bw_run w h cmd))))"
    using ok unfolding r
    by (auto simp: finish_command_def Let_def limited_Writes_buffer run_error_def options_def split: option.splits if_splits)
  moreover have "PathIsAbs executable" "Base executable \<in> set allowedExecutableBasenames"
    "\<exists>real. ft_EvalSymlinks (bn_tree ?env) executable = Inr real \<and> ft_Abs (bn_tree ?env) real = Inr resolved"
    "\<exists>trusted \<in> set (trustedToolchainRoots ?env shim). pathWithinRoot resolved trusted"
    using resolved unfolding validateExecutableContainment_def list_ex_iff
    by (auto split: if_split_asm sum.split_asm)
  ultimately have "ran_as w h directory executable environment arguments shim cmd out"
    using out by (simp add: ran_as_def cmd_def allowedExecutableBasenames_def)
  moreover have "h' = h @ [Ran cmd]" using assms executed by (simp add: command_step_def Let_def)
  ultimately show ?thesis by blast
qed

lemma command_step_ran:
  assumes "command_step w directory executable environment arguments shim h = (Inr out, h')"
  shows "\<exists>cmd. h' = h @ [Ran cmd] \<and> cd_Dir cmd = directory \<and> cd_Env cmd = environment \<and> cd_Args cmd = arguments \<and>
    printed w cmd out"
  using command_step_ran_as [OF assms] ran_as_printed by (fastforce simp: ran_as_def)

section \<open>What the captured evidence says\<close>

definition fetched :: "build_world \<Rightarrow> string \<Rightarrow> nat \<Rightarrow> string \<Rightarrow> string \<Rightarrow> bool" where
  "fetched w rawURL maximum accept body \<longleftrightarrow>
     (\<exists>h. fetchHTTPS (bw_transport w) (bw_http w h rawURL accept) maximum = Inr body)"

text \<open>The declared digest, where there is one, is that of bytes with the captured hash.\<close>

definition declared_digest_holds :: "build_world \<Rightarrow> ManagerSelection \<Rightarrow> string \<Rightarrow> string \<Rightarrow> bool" where
  "declared_digest_holds w selection url hash \<longleftrightarrow>
     (case ms_Digest selection of
        None \<Rightarrow> True
      | Some declared \<Rightarrow>
          if ms_Name selection = ManagerPNPM \<and> dd_Algorithm declared = ''sha512'' then dd_Hex declared = hash
          else
            (\<exists>bytes maximum. fetched w url maximum ''application/octet-stream'' bytes \<and>
               SHA512_String (SumSHA512 bytes) = hash \<and>
               computeDeclaredDigest (dd_Algorithm declared) bytes = dd_Hex declared))"

text \<open>The evidence of the distribution a manager came from, with what the manager printed and Corepack's record of the
  moment after the history: the one address it may come from, and a SHA-512 on which Corepack and the registry, or
  a second download, agree.\<close>

definition distribution_evidence ::
  "build_world \<Rightarrow> build_history \<Rightarrow> string \<Rightarrow> ManagerSelection \<Rightarrow> string \<Rightarrow> DistributionCapture \<Rightarrow> bool" where
  "distribution_evidence w h home selection out d \<longleftrightarrow>
     corepackDistributionURL out (ms_Name selection) (ms_Version selection) = Some (dc_URL d) \<and>
     dc_URL d = (if ms_Name selection = ManagerYarn
       then ''https://repo.yarnpkg.com/'' @ ms_Version selection @ ''/packages/yarnpkg-cli/bin/yarn.js''
       else ''https://registry.npmjs.org/pnpm/-/pnpm-'' @ ms_Version selection @ ''.tgz'') \<and>
     dc_PackageManager d = ms_Name selection \<and> dc_PackageManagerVer d = selection_Descriptor selection \<and>
     dc_AcquisitionSource d = ''corepack'' \<and>
     (\<exists>encoded metadata.
        readBoundedRegularFile (bn_tree (bw_boundary w h))
          (Join [home, ''v1'', ms_Name selection, ms_Version selection, ''.corepack'']) maxCorepackMetadata = Inr encoded \<and>
        corepack_metadata_of encoded = Some metadata \<and> cm_Name metadata = ms_Name selection \<and>
        cm_Reference metadata = selection_Descriptor selection \<and> cm_Hash metadata = ''sha512.'' @ dc_SHA512 d) \<and>
     length (dc_SHA512 d) = 128 \<and> list_all is_lower_hex (dc_SHA512 d) \<and>
     (if ms_Name selection = ManagerPNPM then
        dc_DigestAuthority d = ''registry-integrity'' \<and>
        (\<exists>body v dist encodedDigest bytes.
           fetched w (''https://registry.npmjs.org/pnpm/'' @ PathEscape (ms_Version selection)) maxRegistryMetadata
             ''application/json'' body \<and> parseStrict body = Inr v \<and>
           decode_open packument_fields \<lparr>pd_Integrity = [], pd_Tarball = []\<rparr> v = Some dist \<and>
           pd_Tarball dist = dc_URL d \<and> pd_Integrity dist = ''sha512-'' @ encodedDigest \<and>
           b64_decode encodedDigest = Some bytes \<and> length bytes = 64 \<and> dc_SHA512 d = hex_encode bytes)
      else
        ms_Name selection = ManagerYarn \<and> dc_DigestAuthority d = ''download-hash'' \<and>
        (\<exists>bytes. fetched w (dc_URL d) maxYarnDistribution ''application/octet-stream'' bytes \<and>
           SHA512_String (SumSHA512 bytes) = dc_SHA512 d)) \<and>
     declared_digest_holds w selection (dc_URL d) (dc_SHA512 d)"

lemma fetch_step_Inr: "fetch_step w rawURL maximum accept h = (Inr body, h') \<Longrightarrow> fetched w rawURL maximum accept body"
  by (auto simp: fetch_step_def fetched_def)

lemma authoritative_hash_Inr:
  assumes "authoritative_hash w manager version url h = (Inr (authority, hash, bytes), h')"
  shows "if manager = ManagerPNPM then authority = ''registry-integrity'' \<and>
      (\<exists>body. fetched w (''https://registry.npmjs.org/pnpm/'' @ PathEscape version) maxRegistryMetadata ''application/json'' body \<and>
         pnpm_integrity_of body url = Inr hash)
    else manager = ManagerYarn \<and> authority = ''download-hash'' \<and> hash = SHA512_String (SumSHA512 bytes) \<and>
      fetched w url maxYarnDistribution ''application/octet-stream'' bytes"
  using assms
  by (auto simp: authoritative_hash_def pnpmRegistryIntegrity_def downloadYarnDistribution_def manager_defs
      split: if_splits dest!: fetch_step_Inr)

lemma reconcile_step_Inr:
  assumes "reconcile_step w selection url hash bytes h = (Inr u, h')"
    and "ms_Name selection = ManagerPNPM \<or>
      SHA512_String (SumSHA512 bytes) = hash \<and> fetched w url maxYarnDistribution ''application/octet-stream'' bytes"
  shows "declared_digest_holds w selection url hash"
proof (cases "ms_Digest selection")
  case (Some declared)
  from assms(1) have "reconcileDeclaredDigest selection url hash bytes
      (\<lambda>rawURL maximum accept. fetchHTTPS (bw_transport w) (bw_http w h rawURL accept) maximum) = None"
    by (simp add: reconcile_step_def)
  with Some assms(2) show ?thesis
    by (auto simp: reconcileDeclaredDigest_def declared_digest_holds_def fetched_def split: if_splits sum.splits)
qed (simp add: declared_digest_holds_def)

lemma corepack_recorded_Inr:
  assumes "corepack_recorded home selection env = Inr hash"
  shows "length hash = 128 \<and> list_all is_lower_hex hash \<and>
    (\<exists>encoded metadata.
       readBoundedRegularFile (bn_tree env) (corepack_path home (ms_Name selection) (ms_Version selection))
         maxCorepackMetadata = Inr encoded \<and>
       corepack_metadata_of encoded = Some metadata \<and> cm_Name metadata = ms_Name selection \<and>
       cm_Reference metadata = selection_Descriptor selection \<and> cm_Hash metadata = ''sha512.'' @ hash)"
  using assms
  by (auto simp: corepack_recorded_def canonical_hash_def Let_def split: sum.splits option.splits if_splits)

lemma pnpm_integrity_of_Inr:
  assumes "pnpm_integrity_of body url = Inr hash"
  shows "\<exists>v dist encodedDigest bytes. parseStrict body = Inr v \<and>
    decode_open packument_fields \<lparr>pd_Integrity = [], pd_Tarball = []\<rparr> v = Some dist \<and> pd_Tarball dist = url \<and>
    pd_Integrity dist = ''sha512-'' @ encodedDigest \<and> b64_decode encodedDigest = Some bytes \<and> length bytes = 64 \<and>
    hash = hex_encode bytes"
  using assms
  by (auto simp: pnpm_integrity_of_def integrity_hash_def CutPrefix_Some split: sum.splits option.splits if_splits)

lemma captureDistribution_sound:
  assumes "captureDistribution w home selection output h = (Inr d, h')"
  shows "distribution_evidence w h home selection output d"
proof -
  from assms obtain url hash authority bytes h1 h2 h3 where
    url: "acquired_url selection output = Inr url"
    and recorded: "corepack_recorded home selection (bw_boundary w h) = Inr hash"
    and authority: "authoritative_hash w (ms_Name selection) (ms_Version selection) url h1 = (Inr (authority, hash, bytes), h2)"
    and reconciled: "reconcile_step w selection url hash bytes h2 = (Inr (), h3)"
    and d: "d = \<lparr>dc_URL = url, dc_SHA512 = hash, dc_DigestAuthority = authority, dc_PackageManager = ms_Name selection,
       dc_PackageManagerVer = selection_Descriptor selection, dc_AcquisitionSource = ''corepack''\<rparr>"
    by (auto simp: captureDistribution_def split: if_splits)
  have "corepackDistributionURL output (ms_Name selection) (ms_Version selection) = Some url"
    "url = expectedDistributionURL (ms_Name selection) (ms_Version selection)"
    using url by (auto simp: acquired_url_def split: option.splits if_splits)
  moreover have "declared_digest_holds w selection url hash"
    by (rule reconcile_step_Inr [OF reconciled]) (use authoritative_hash_Inr [OF authority] in \<open>auto split: if_splits\<close>)
  moreover have "if ms_Name selection = ManagerPNPM then authority = ''registry-integrity'' \<and>
      (\<exists>body v dist encodedDigest bytes.
         fetched w (''https://registry.npmjs.org/pnpm/'' @ PathEscape (ms_Version selection)) maxRegistryMetadata
           ''application/json'' body \<and> parseStrict body = Inr v \<and>
         decode_open packument_fields \<lparr>pd_Integrity = [], pd_Tarball = []\<rparr> v = Some dist \<and> pd_Tarball dist = url \<and>
         pd_Integrity dist = ''sha512-'' @ encodedDigest \<and> b64_decode encodedDigest = Some bytes \<and>
         length bytes = 64 \<and> hash = hex_encode bytes)
    else ms_Name selection = ManagerYarn \<and> authority = ''download-hash'' \<and>
      (\<exists>bytes. fetched w url maxYarnDistribution ''application/octet-stream'' bytes \<and>
         SHA512_String (SumSHA512 bytes) = hash)"
  proof (cases "ms_Name selection = ManagerPNPM")
    case True
    with authoritative_hash_Inr [OF authority] obtain body where body: "authority = ''registry-integrity''"
      "fetched w (''https://registry.npmjs.org/pnpm/'' @ PathEscape (ms_Version selection)) maxRegistryMetadata
         ''application/json'' body" "pnpm_integrity_of body url = Inr hash" by auto
    from pnpm_integrity_of_Inr [OF body(3)] body(1,2) True show ?thesis by (simp only: if_True simp_thms refl) blast
  next
    case False
    with authoritative_hash_Inr [OF authority] show ?thesis by auto
  qed
  ultimately show ?thesis
    using corepack_recorded_Inr [OF recorded]
    unfolding distribution_evidence_def d DistributionCapture.select_convs expectedDistributionURL_def corepack_path_def
    by (intro conjI) (rule refl | assumption | blast)+
qed

text \<open>What the toolchain of a build is known by: everything done from the history \<open>h\<close> on, in order.\<close>

definition runtimes_run ::
  "semver_pkg \<Rightarrow> build_world \<Rightarrow> string \<Rightarrow> string list \<Rightarrow> build_history \<Rightarrow> ToolchainCapture \<Rightarrow> string \<Rightarrow> build_history \<Rightarrow> bool" where
  "runtimes_run sv w directory environment h capture npmPath h' \<longleftrightarrow>
     (\<exists>nodePath node npm.
        h' = h @ [Consulted ''node'', Consulted ''npm'', Ran node, Ran npm, Consulted ''runner''] \<and>
        bn_LookPath (bw_boundary w h) ''node'' = Some nodePath \<and>
        bn_LookPath (bw_boundary w (h @ [Consulted ''node''])) ''npm'' = Some npmPath \<and>
        ran_as w (h @ [Consulted ''node'', Consulted ''npm'']) directory nodePath environment [''--version''] [] node
          (tc_NodeVersion capture) \<and>
        ran_as w (h @ [Consulted ''node'', Consulted ''npm'', Ran node]) directory npmPath environment [''--version''] [] npm
          (tc_NPMVersion capture) \<and>
        captureRunner (bw_boundary w (h @ [Consulted ''node'', Consulted ''npm'', Ran node, Ran npm])) =
          Inr (tc_Runner capture)) \<and>
     sv_IsValid sv (tc_NodeVersion capture) \<and> sv_Major sv (tc_NodeVersion capture) = ''v24'' \<and>
     sv_IsValid sv (''v'' @ tc_NPMVersion capture) \<and> sv_Compare sv (''v'' @ tc_NPMVersion capture) ''v11.5.1'' \<ge> 0"

definition corepack_run ::
  "build_world \<Rightarrow> Result \<Rightarrow> string \<Rightarrow> string list \<Rightarrow> build_history \<Rightarrow> ToolchainCapture \<Rightarrow> string \<Rightarrow> build_history \<Rightarrow> bool" where
  "corepack_run w selection root environment h capture managerPath h' \<longleftrightarrow>
     (\<exists>corepackPath corepack enable manager enabled out d es.
        let directory = pg_RealManagerRoot (re_Package selection); shims = Join [root, ''shims''];
            h1 = h @ [Consulted ''corepack'']; h2 = h1 @ [Ran corepack, MadeDirectory shims];
            h3 = h2 @ [Ran enable]; h4 = h3 @ [Ran manager]
        in bn_LookPath (bw_boundary w h) ''corepack'' = Some corepackPath \<and>
          ran_as w h1 directory corepackPath environment [''--version''] [] corepack (tc_CorepackVersion capture) \<and>
          ran_as w h2 directory corepackPath environment [''enable'', ''--install-directory'', shims] [] enable enabled \<and>
          managerPath = Join [shims, ms_Name (re_Manager selection)] \<and>
          ran_as w h3 directory managerPath (environment @ [''DEBUG=corepack'']) [''--version''] shims manager out \<and>
          lastOutputLine out = ms_Version (re_Manager selection) \<and>
          tc_PackageManagerVersion capture = ms_Version (re_Manager selection) \<and>
          tc_Distribution capture = Some d \<and>
          distribution_evidence w h4 (Join [root, ''corepack'']) (re_Manager selection) out d \<and>
          h' = h4 @ es \<and> commands_of es = [])"

definition toolchain_evidence ::
  "semver_pkg \<Rightarrow> build_world \<Rightarrow> Result \<Rightarrow> string \<Rightarrow> string list \<Rightarrow> build_history \<Rightarrow> ToolchainCapture \<Rightarrow> string \<Rightarrow> build_history
    \<Rightarrow> bool" where
  "toolchain_evidence sv w selection root environment h capture path h' \<longleftrightarrow>
     (\<exists>npmPath h1.
        runtimes_run sv w (pg_RealManagerRoot (re_Package selection)) environment h capture npmPath h1 \<and>
        (if ms_Name (re_Manager selection) = ManagerNPM then
           h' = h1 \<and> path = npmPath \<and> tc_PackageManagerVersion capture = tc_NPMVersion capture \<and>
           tc_CorepackVersion capture = [] \<and> tc_Distribution capture = None
         else corepack_run w selection root environment h1 capture path h'))"

lemma mkdir_step_Inr: "mkdir_step w path err h = (Inr u, h') \<longleftrightarrow> bw_Mkdir w h path \<and> h' = h @ [MadeDirectory path]"
  by (auto simp: mkdir_step_def)

lemma lookup_step_Inr:
  "lookup_step w name message h = (Inr path, h') \<longleftrightarrow>
     bn_LookPath (bw_boundary w h) name = Some path \<and> h' = h @ [Consulted name]"
  by (auto simp: lookup_step_def split: option.splits)

lemma corepack_toolchain_sound:
  assumes "corepack_toolchain w selection root environment capture h = (Inr (capture', path), h')"
  shows "corepack_run w selection root environment h capture' path h' \<and>
    tc_NodeVersion capture' = tc_NodeVersion capture \<and> tc_NPMVersion capture' = tc_NPMVersion capture \<and>
    tc_Runner capture' = tc_Runner capture"
proof -
  let ?dir = "pg_RealManagerRoot (re_Package selection)" and ?shims = "Join [root, ''shims'']"
  let ?manager = "Join [?shims, ms_Name (re_Manager selection)]"
  from assms obtain corepackPath version enabled out d h1 h2 h3 h4 h5 x where
    h1: "lookup_step w ''corepack'' ''corepack executable is unavailable'' h = (Inr corepackPath, h1)"
    and h2: "command_step w ?dir corepackPath environment [''--version''] [] h1 = (Inr version, h2)"
    and h3: "mkdir_step w ?shims (ErrText ''create Corepack shim directory: %w'' []) h2 = (Inr x, h3)"
    and h4: "command_step w ?dir corepackPath environment [''enable'', ''--install-directory'', ?shims] [] h3 = (Inr enabled, h4)"
    and h5: "command_step w ?dir ?manager (environment @ [''DEBUG=corepack'']) [''--version''] ?shims h4 = (Inr out, h5)"
    and same: "lastOutputLine out = ms_Version (re_Manager selection)"
    and h6: "captureDistribution w (Join [root, ''corepack'']) (re_Manager selection) out h5 = (Inr d, h')"
    and capture: "capture' = capture\<lparr>tc_CorepackVersion := version, tc_PackageManagerVersion := lastOutputLine out,
      tc_Distribution := Some d\<rparr>" and path: "path = ?manager"
    unfolding corepack_toolchain_def Let_def by (auto split: if_splits)
  obtain c2 where c2: "h2 = h1 @ [Ran c2]" "ran_as w h1 ?dir corepackPath environment [''--version''] [] c2 version"
    using command_step_ran_as [OF h2] by blast
  obtain c4 where c4: "h4 = h3 @ [Ran c4]"
    "ran_as w h3 ?dir corepackPath environment [''enable'', ''--install-directory'', ?shims] [] c4 enabled"
    using command_step_ran_as [OF h4] by blast
  obtain c5 where c5: "h5 = h4 @ [Ran c5]"
    "ran_as w h4 ?dir ?manager (environment @ [''DEBUG=corepack'']) [''--version''] ?shims c5 out"
    using command_step_ran_as [OF h5] by blast
  obtain es where es: "h' = h5 @ es" "commands_of es = []" using quiet_Inr [OF quiet_capture h6] by blast
  have looked: "bn_LookPath (bw_boundary w h) ''corepack'' = Some corepackPath" "h1 = h @ [Consulted ''corepack'']"
    "h3 = h2 @ [MadeDirectory ?shims]"
    using h1 h3 by (simp_all add: lookup_step_Inr mkdir_step_Inr)
  have "corepack_run w selection root environment h capture' path h'"
    unfolding corepack_run_def Let_def
    by (rule exI [of _ corepackPath], rule exI [of _ c2], rule exI [of _ c4], rule exI [of _ c5],
        rule exI [of _ enabled], rule exI [of _ out], rule exI [of _ d], rule exI [of _ es])
      (use looked c2 c4 c5 es same captureDistribution_sound [OF h6] in \<open>simp add: capture path\<close>)
  then show ?thesis by (simp add: capture)
qed

lemma prepareToolchain_sound:
  assumes "prepareToolchain sv w selection root environment h = (Inr (capture, path), h')"
  shows "toolchain_evidence sv w selection root environment h capture path h'"
proof -
  let ?dir = "pg_RealManagerRoot (re_Package selection)"
  from assms obtain nodePath npmPath node npm runner h1 h2 h3 h4 h5 where
    h1: "lookup_step w ''node'' ''node executable is unavailable'' h = (Inr nodePath, h1)"
    and h2: "lookup_step w ''npm'' ''npm executable is unavailable'' h1 = (Inr npmPath, h2)"
    and h3: "command_step w ?dir nodePath environment [''--version''] [] h2 = (Inr node, h3)"
    and h4: "command_step w ?dir npmPath environment [''--version''] [] h3 = (Inr npm, h4)"
    and ok: "runtime_versions_ok sv node npm = None"
    and h5: "look_step w ''runner'' captureRunner h4 = (Inr runner, h5)"
    and final: "(if ms_Name (re_Manager selection) = ManagerNPM then
        return_step (Inr (npm_capture node npm runner, npmPath))
      else corepack_toolchain w selection root environment (npm_capture node npm runner)) h5 = (Inr (capture, path), h')"
    unfolding prepareToolchain_def Let_def by auto
  obtain c3 where c3: "h3 = h2 @ [Ran c3]" "ran_as w h2 ?dir nodePath environment [''--version''] [] c3 node"
    using command_step_ran_as [OF h3] by blast
  obtain c4 where c4: "h4 = h3 @ [Ran c4]" "ran_as w h3 ?dir npmPath environment [''--version''] [] c4 npm"
    using command_step_ran_as [OF h4] by blast
  have looked: "bn_LookPath (bw_boundary w h) ''node'' = Some nodePath" "h1 = h @ [Consulted ''node'']"
    "bn_LookPath (bw_boundary w h1) ''npm'' = Some npmPath" "h2 = h1 @ [Consulted ''npm'']"
    "captureRunner (bw_boundary w h4) = Inr runner" "h5 = h4 @ [Consulted ''runner'']"
    using h1 h2 h5 by (simp_all add: lookup_step_Inr)
  have versions: "sv_IsValid sv node" "sv_Major sv node = ''v24''" "sv_IsValid sv (''v'' @ npm)"
    "sv_Compare sv (''v'' @ npm) ''v11.5.1'' \<ge> 0"
    using ok by (auto simp: runtime_versions_ok_def split: if_splits)
  have runtimes: "runtimes_run sv w ?dir environment h capture npmPath h5"
    if "tc_NodeVersion capture = node" "tc_NPMVersion capture = npm" "tc_Runner capture = runner"
    unfolding runtimes_run_def that
    by (intro conjI exI [of _ nodePath] exI [of _ c3] exI [of _ c4]) (use versions looked c3 c4 in simp_all)
  show ?thesis
  proof (cases "ms_Name (re_Manager selection) = ManagerNPM")
    case True
    with final have "capture = npm_capture node npm runner" "path = npmPath" "h' = h5" by simp_all
    with True runtimes show ?thesis by (simp add: toolchain_evidence_def npm_capture_def)
  next
    case False
    with final have "corepack_toolchain w selection root environment (npm_capture node npm runner) h5 =
      (Inr (capture, path), h')" by simp
    from corepack_toolchain_sound [OF this] False runtimes show ?thesis
      by (simp add: toolchain_evidence_def npm_capture_def) blast
  qed
qed

text \<open>
  C11: The toolchain a build records is the one it ran.  Node.js 24 and npm of at least 11.5.1 said their versions
  themselves: each was found on the search path, resolved through its symbolic links below a trusted root, and that
  path was run in the root of the package manager with the controlled environment; for npm nothing else runs, and the
  npm measured is the one returned.  For pnpm and yarn three more commands run, in order, and the shim that is returned
  is the one that said the selected version; its distribution came from the one expected address, Corepack's record of
  it names the declared descriptor, the recorded SHA-512 is the registry's integrity or that of a second download, and a
  digest declared in the manifest is that of bytes with this very hash.  Nothing else was run.
\<close>

theorem toolchain_sound:
  "case prepareToolchain sv w selection root environment h of
     (Inl _, _) \<Rightarrow> True
   | (Inr (capture, path), h') \<Rightarrow> toolchain_evidence sv w selection root environment h capture path h'"
  using prepareToolchain_sound by (fastforce split: prod.split sum.split)

end
