(* ===== verification/BuildPack.thy ===== *)
theory BuildPack
  imports Toolchain ShellText WorkflowMeta
begin

text \<open>
  internal/npmprofile/build_pack.go: BuildPack installs, builds and packs the selected package with the real package
  manager and writes the tarball's metadata.  The context is never nil here and the fetcher is fetchHTTPS, which is what
  BuildPack takes when a caller outside the package leaves that private field unset.
\<close>

section \<open>Configuration\<close>

definition IDPackedPackageMetadataMismatch :: string where
  "IDPackedPackageMetadataMismatch = npm_error_id ''packed-package-metadata-mismatch''"
definition IDProjectCorepackEnvIgnored :: string where
  "IDProjectCorepackEnvIgnored = ''windlass.verify.warning.project-corepack-env-ignored''"

record BuildPackConfig =
  bc_Selection :: Result
  bc_OutputDirectory :: string
  bc_ArtifactName :: string
  bc_ExternalParameters :: string
  bc_ResolvedDependencies :: "ResourceDescriptor list"

definition npmTarballName :: "string \<Rightarrow> string \<Rightarrow> string" where
  "npmTarballName name version = ReplaceAll (TrimPrefix name ''@'') ''/'' ''-'' @ ''-'' @ version @ ''.tgz''"

definition validateBuildPackConfig :: "BuildPackConfig \<Rightarrow> go_error option" where
  "validateBuildPackConfig config =
     (let selection = bc_Selection config; pkg = re_Package selection in
      if rp_Result (re_Report selection) \<noteq> ResultPass then Some (ErrText ''package selection did not pass'' [])
      else if pg_RealDirectory pkg = [] \<or> pg_RealManagerRoot pkg = [] then
        Some (ErrText ''package selection lacks resolved real directories'' [])
      else
     (case ValidateSafeBasename (bc_ArtifactName config) of
        Some err \<Rightarrow> Some (ErrWrap ''invalid artifact name: %w'' [] [err])
      | None \<Rightarrow>
          if bc_ExternalParameters config = [] then Some (ErrText ''external parameters are required'' [])
          else
     (case parseStrict (bc_ExternalParameters config) of
        Inl err \<Rightarrow> Some (ErrWrap ''validate external parameters: %w'' [] [err])
      | Inr (JObj _) \<Rightarrow>
          if ms_Name (re_Manager selection) = ManagerYarn then
            map_option (\<lambda>err. ErrWrap ''invalid Yarn pack output name: %w'' [] [err])
              (ValidateSafeBasename (npmTarballName (pg_Name pkg) (pg_Version pkg)))
          else None
      | Inr _ \<Rightarrow> Some (ErrText ''external parameters must be a JSON object'' []))))"

section \<open>What is checked again before every command\<close>

definition validateExecutionRoots :: "file_tree \<Rightarrow> Result \<Rightarrow> go_error option" where
  "validateExecutionRoots ft selection =
     (let managerRoot = pg_RealManagerRoot (re_Package selection); packageDirectory = pg_RealDirectory (re_Package selection) in
      if ft_EvalSymlinks ft managerRoot \<noteq> Inr managerRoot then
        Some (ErrText ''package manager root changed after package selection'' [])
      else if ft_EvalSymlinks ft packageDirectory \<noteq> Inr packageDirectory then
        Some (ErrText ''package directory changed after package selection'' [])
      else if \<not> pathWithinRoot packageDirectory managerRoot then
        Some (ErrText ''package directory is outside the package manager root'' [])
      else if \<not> ft_IsDir ft managerRoot then Some (ErrText ''package manager root is not a directory'' [])
      else if \<not> ft_IsDir ft packageDirectory then Some (ErrText ''package directory is not a directory'' [])
      else None)"

text \<open>The key of a line; a colon counts first where a space, a tab or the end follows it.\<close>

definition plain_key :: "string \<Rightarrow> string" where
  "plain_key line =
     (case Cut line ''='' of
        Some (key, _) \<Rightarrow> key
      | None \<Rightarrow> (case Cut line '':'' of Some (key, _) \<Rightarrow> key | None \<Rightarrow> line))"

definition line_key :: "string \<Rightarrow> string" where
  "line_key line =
     (case Cut line '':'' of
        None \<Rightarrow> plain_key line
      | Some (key, rest) \<Rightarrow>
          if rest = [] \<or> hd rest = CHR '' '' \<or> hd rest = CHR 0x09 then key else plain_key line)"

definition unquoted :: "string \<Rightarrow> string" where
  "unquoted key =
     (if length key \<ge> 2 \<and> (hd key = CHR 0x22 \<and> last key = CHR 0x22 \<or> hd key = CHR 0x27 \<and> last key = CHR 0x27)
      then butlast (tl key) else key)"

definition credential_key :: "string \<Rightarrow> bool" where
  "credential_key key \<longleftrightarrow>
     Contains key ''_auth'' \<or> Contains key ''authtoken'' \<or> Contains key ''authident'' \<or> HasSuffix key ''username''
     \<or> HasSuffix key ''_password'' \<or> HasSuffix key ''httpskey'' \<or> HasSuffix key ''httpscert''"

definition credential_line :: "(nat \<Rightarrow> nat) \<Rightarrow> string \<Rightarrow> bool" where
  "credential_line lc raw =
     (let line = TrimSpace raw in
      if line = [] \<or> HasPrefix line ''#'' \<or> HasPrefix line '';'' then False
      else credential_key (unquoted (lower_with lc (TrimSpace (TrimSuffix (line_key line) '':'')))))"

definition credential_material :: "(nat \<Rightarrow> nat) \<Rightarrow> string \<Rightarrow> bool" where
  "credential_material lc encoded = list_ex (credential_line lc) (split_on (CHR 0x0A) encoded)"

definition check_configuration :: "(nat \<Rightarrow> nat) \<Rightarrow> file_tree \<Rightarrow> string \<Rightarrow> go_error option" where
  "check_configuration lc ft configPath =
     (case ft_Lstat ft configPath of
        LstatMissing \<Rightarrow> None
      | LstatFails \<Rightarrow> Some (ErrText ''inspect package-manager configuration %q: %w'' [Base configPath])
      | LstatEntry kind _ \<Rightarrow>
          if kind \<noteq> RegularFile then
            Some (ErrText ''package-manager configuration %q must be a regular non-symlink file'' [Base configPath])
          else
            (case readBoundedRegularFile ft configPath maxManifestSize of
               Inl err \<Rightarrow> Some (ErrWrap ''read package-manager configuration %q: %w'' [Base configPath] [err])
             | Inr encoded \<Rightarrow>
                 if credential_material lc encoded then
                   Some (ErrText ''package-manager configuration %q contains credential material'' [Base configPath])
                 else None))"

fun check_configurations :: "(nat \<Rightarrow> nat) \<Rightarrow> file_tree \<Rightarrow> string list \<Rightarrow> go_error option" where
  "check_configurations lc ft [] = None"
| "check_configurations lc ft (configPath # paths) =
     and_then (check_configuration lc ft configPath) (check_configurations lc ft paths)"

definition configuration_paths :: "Result \<Rightarrow> string list" where
  "configuration_paths selection =
     (let managerRoot = pg_RealManagerRoot (re_Package selection); packageDirectory = pg_RealDirectory (re_Package selection) in
      rev (remdups (rev [Join [managerRoot, ''.npmrc''], Join [packageDirectory, ''.npmrc''],
        Join [managerRoot, ''.yarnrc.yml''], Join [packageDirectory, ''.yarnrc.yml'']])))"

definition validateCredentialConfiguration :: "(nat \<Rightarrow> nat) \<Rightarrow> file_tree \<Rightarrow> Result \<Rightarrow> go_error option" where
  "validateCredentialConfiguration lc ft selection = check_configurations lc ft (configuration_paths selection)"

definition corepackEnvironmentWarning ::
  "(string \<Rightarrow> string result) \<Rightarrow> file_tree \<Rightarrow> Result \<Rightarrow> Diagnostic list result" where
  "corepackEnvironmentWarning transform ft selection =
     (if ft_Lstat ft (Join [pg_RealManagerRoot (re_Package selection), ''.corepack.env'']) = LstatMissing then Inr []
      else
        map_result (\<lambda>warning. [warning])
          (New transform IDProjectCorepackEnvIgnored ''npm_profile.build_pack''
             ''A project .corepack.env file at the package-manager root is ignored in release builds; Corepack runs with COREPACK_ENV_FILE=0.''))"

text \<open>Two ways past the scan: in a flow mapping of YAML the first key hides the others, and npm also ends a
  line of its configuration at a bare carriage return.\<close>

lemma credentials_hidden:
  "credential_material lc ''npmAuthToken: x''"
  "\<not> credential_material lc ''npmRegistries: {r: {npmAuthToken: x}}''"
  "credential_material lc (''a=b'' @ [CHR 0x0A] @ ''_auth=x'')"
  "\<not> credential_material lc (''a=b'' @ [CHR 0x0D] @ ''_auth=x'')"
  by code_simp+

section \<open>Directories and environment\<close>

definition tempdir_step :: "build_world \<Rightarrow> string step" where
  "tempdir_step w h =
     (case bw_MkdirTemp w h of
        None \<Rightarrow> (Inl (ErrText ''create isolated package-manager environment: %w'' []), h @ [Consulted ''windlass-npm-build-''])
      | Some path \<Rightarrow> (Inr path, h @ [MadeDirectory path]))"

definition write_step :: "build_world \<Rightarrow> string \<Rightarrow> string \<Rightarrow> string \<Rightarrow> unit step" where
  "write_step w path contents message h =
     (if bw_Write w h path contents then (Inr (), h @ [Wrote path contents])
      else (Inl (ErrText message []), h @ [Consulted path]))"

text \<open>A deferred removal, which sees how the step ended.\<close>

definition deferred :: "('a result \<Rightarrow> string list) \<Rightarrow> 'a step \<Rightarrow> 'a step" where
  "deferred paths m h = (case m h of (r, h') \<Rightarrow> (r, h' @ map Removed (paths r)))"

definition unless_ok :: "string list \<Rightarrow> 'a result \<Rightarrow> string list" where
  "unless_ok paths r = (case r of Inl _ \<Rightarrow> paths | Inr _ \<Rightarrow> [])"

definition empty_directory :: "string \<Rightarrow> boundary_env \<Rightarrow> string result" where
  "empty_directory path env =
     (let ft = bn_tree env in
      case ft_Lstat ft path of
        LstatEntry OtherEntry _ \<Rightarrow>
          if \<not> ft_IsDir ft path then Inl (ErrText ''output directory must be an existing non-symlink directory'' [])
          else if ft_ReadDir ft path \<noteq> Inr [] then
            Inl (ErrText ''output directory must be readable and empty'' [])
          else
            (case ft_EvalSymlinks ft path of
               Inl err \<Rightarrow> Inl (ErrWrap ''resolve output directory: %w'' [] [err])
             | Inr realOutput \<Rightarrow> Inr realOutput)
      | _ \<Rightarrow> Inl (ErrText ''output directory must be an existing non-symlink directory'' []))"

definition prepareOutput :: "build_world \<Rightarrow> string \<Rightarrow> (string \<times> string) step" where
  "prepareOutput w path =
     bind_step (look_step w path (empty_directory path)) (\<lambda>realOutput.
     let packageOutput = Join [realOutput, ''package'']; metadataOutput = Join [realOutput, ''metadata''] in
     bind_step (mkdir_step w packageOutput (ErrText ''create package output: %w'' [])) (\<lambda>_.
     bind_step (deferred (unless_ok [packageOutput])
         (mkdir_step w metadataOutput (ErrText ''create metadata output: %w'' []))) (\<lambda>_.
     return_step (Inr (packageOutput, metadataOutput)))))"

fun each_step :: "('b \<Rightarrow> unit step) \<Rightarrow> 'b list \<Rightarrow> unit step" where
  "each_step f [] = return_step (Inr ())"
| "each_step f (x # xs) = bind_step (f x) (\<lambda>_. each_step f xs)"

definition controlled_entries :: "string \<Rightarrow> string \<Rightarrow> string list" where
  "controlled_entries pathValue root =
     (let npmrc = Join [root, ''empty-npmrc'']; globalNPMRC = Join [root, ''empty-global-npmrc''] in
      [''PATH='' @ pathValue, ''HOME='' @ Join [root, ''home''], ''TMPDIR='' @ Join [root, ''tmp''],
       ''XDG_CACHE_HOME='' @ Join [root, ''cache''], ''COREPACK_HOME='' @ Join [root, ''corepack''],
       ''COREPACK_ENABLE_STRICT=1'', ''COREPACK_ENABLE_PROJECT_SPEC=1'', ''COREPACK_DEFAULT_TO_LATEST=0'',
       ''COREPACK_ENABLE_DOWNLOAD_PROMPT=0'', ''COREPACK_ENV_FILE=0'', ''NPM_CONFIG_USERCONFIG='' @ npmrc,
       ''npm_config_userconfig='' @ npmrc, ''NPM_CONFIG_GLOBALCONFIG='' @ globalNPMRC,
       ''npm_config_globalconfig='' @ globalNPMRC, ''npm_config_audit=false'', ''npm_config_fund=false'', ''CI=true'',
       ''NO_UPDATE_NOTIFIER=1''])"

definition controlledEnvironment :: "build_world \<Rightarrow> string \<Rightarrow> string list step" where
  "controlledEnvironment w root =
     bind_step (look_step w ''PATH'' (\<lambda>env. Inr (bn_Getenv env ''PATH''))) (\<lambda>pathValue.
     bind_step (each_step (\<lambda>directory. mkdir_step w (Join [root, directory])
         (ErrText ''create isolated environment directory: %w'' [])) [''home'', ''tmp'', ''cache'', ''corepack'']) (\<lambda>_.
     bind_step (each_step (\<lambda>name. write_step w (Join [root, name]) [] ''create isolated npm configuration: %w'')
         [''empty-npmrc'', ''empty-global-npmrc'']) (\<lambda>_.
     return_step (Inr (controlled_entries pathValue root)))))"

section \<open>The commands\<close>

definition installArguments :: "Manager \<Rightarrow> string list" where
  "installArguments manager =
     (if manager = ManagerNPM then [''ci'']
      else if manager = ManagerPNPM then [''install'', ''--frozen-lockfile'']
      else if manager = ManagerYarn then [''install'', ''--immutable'']
      else [])"

definition buildArguments :: "Result \<Rightarrow> string list" where
  "buildArguments selection =
     (let relative = pg_ManagerRootRelativeDirectory (re_Package selection); manager = ms_Name (re_Manager selection) in
      if manager = ManagerNPM then
        if relative = ''.'' then [''run'', ''build''] else [''--workspace'', relative, ''run'', ''build'']
      else if manager = ManagerPNPM then
        if relative = ''.'' then [''run'', ''build''] else [''--filter'', ''{./'' @ relative @ ''}'', ''run'', ''build'']
      else if manager = ManagerYarn then
        if relative = ''.'' then [''run'', ''build'']
        else [''workspace'', pg_Name (re_Package selection), ''run'', ''build'']
      else [])"

definition packArguments :: "Result \<Rightarrow> string \<Rightarrow> string list" where
  "packArguments selection packageOutput =
     (let pkg = re_Package selection; relative = pg_ManagerRootRelativeDirectory pkg; manager = ms_Name (re_Manager selection) in
      if manager = ManagerNPM then
        if relative = ''.'' then [''pack'', ''--pack-destination'', packageOutput]
        else [''pack'', ''--workspace'', relative, ''--pack-destination'', packageOutput]
      else if manager = ManagerPNPM then
        if relative = ''.'' then [''pack'', ''--pack-destination'', packageOutput]
        else [''--filter'', ''{./'' @ relative @ ''}'', ''pack'', ''--pack-destination'', packageOutput]
      else if manager = ManagerYarn then
        (let tarball = Join [packageOutput, npmTarballName (pg_Name pkg) (pg_Version pkg)] in
         if relative = ''.'' then [''pack'', ''--out'', tarball]
         else [''workspace'', pg_Name pkg, ''pack'', ''--out'', tarball])
      else [])"

definition shim_root :: "Result \<Rightarrow> string \<Rightarrow> string" where
  "shim_root selection executable = (if ms_Name (re_Manager selection) \<noteq> ManagerNPM then Dir executable else [])"

definition runManagerCommand ::
  "(nat \<Rightarrow> nat) \<Rightarrow> build_world \<Rightarrow> Result \<Rightarrow> string \<Rightarrow> string list \<Rightarrow> string list \<Rightarrow> string step" where
  "runManagerCommand lc w selection executable environment arguments =
     (if arguments = [] then return_step (Inl (ErrText ''unsupported package manager'' []))
      else
        bind_step (look_step w ''roots'' (\<lambda>env. guarded (validateExecutionRoots (bn_tree env) selection) (Inr ()))) (\<lambda>_.
        bind_step (look_step w ''configuration''
            (\<lambda>env. guarded (validateCredentialConfiguration lc (bn_tree env) selection) (Inr ()))) (\<lambda>_.
        command_step w (pg_RealManagerRoot (re_Package selection)) executable environment arguments
          (shim_root selection executable))))"

section \<open>The metadata\<close>

text \<open>A copy of no dependencies is a nil slice, which json.Marshal prints as null.\<close>

definition marshal_dependencies :: "ResourceDescriptor list \<Rightarrow> string option" where
  "marshal_dependencies dependencies =
     (if dependencies = [] then Some ''null'' else marshal_list marshal_descriptor dependencies)"

definition marshal_build_metadata :: "BuildMetadata \<Rightarrow> string option" where
  "marshal_build_metadata m =
     (case (marshal_raw (bm_ExternalParameters m), marshal_dependencies (bm_ResolvedDependencies m)) of
        (Some external, Some dependencies) \<Rightarrow>
          Some (json_object [(''schema_version'', quote (bm_SchemaVersion m)), (''started_on'', quote (bm_StartedOn m)),
            (''finished_on'', quote (bm_FinishedOn m)),
            (''primary_artifact'', json_object [
               (''artifact_name'', quote (pa_ArtifactName (bm_PrimaryArtifact m))),
               (''payload_file_name'', quote (pa_PayloadFileName (bm_PrimaryArtifact m))),
               (''sha256'', quote (pa_SHA256 (bm_PrimaryArtifact m))),
               (''sha512'', quote (pa_SHA512 (bm_PrimaryArtifact m)))]),
            (''external_parameters'', external), (''resolved_dependencies'', dependencies)])
      | _ \<Rightarrow> None)"

definition metadata_text :: "(string \<Rightarrow> string result) \<Rightarrow> BuildMetadata \<Rightarrow> string result" where
  "metadata_text transform m =
     (case marshal_build_metadata m of
        None \<Rightarrow> Inl (ErrText ''encode build metadata: %w'' [])
      | Some encoded \<Rightarrow>
          (case Canonicalize transform encoded of
             Inl err \<Rightarrow> Inl (ErrWrap ''canonicalize build metadata: %w'' [] [err])
           | Inr encoded' \<Rightarrow> Inr encoded'))"

definition writeBuildMetadata :: "(string \<Rightarrow> string result) \<Rightarrow> build_world \<Rightarrow> string \<Rightarrow> BuildMetadata \<Rightarrow> unit step" where
  "writeBuildMetadata transform w path m =
     bind_step (return_step (metadata_text transform m)) (\<lambda>encoded.
       write_step w path encoded ''create build metadata: %w'')"

definition npmPURL :: "string \<Rightarrow> string \<Rightarrow> string" where
  "npmPURL name version = (case NPMPackagePURL name version of Inl _ \<Rightarrow> [] | Inr purl \<Rightarrow> purl)"

section \<open>BuildPack\<close>

text \<open>The parameters of a build that are third-party code or tables: semver, the canonical transform, the case table and
  the archive readers.\<close>

record build_libraries =
  bl_semver :: semver_pkg
  bl_transform :: "string \<Rightarrow> string result"
  bl_lower :: "nat \<Rightarrow> nat"
  bl_archives :: archives

definition declares_build :: "manifest \<Rightarrow> bool" where
  "declares_build m = (case map_of (mf_Scripts m) ''build'' of None \<Rightarrow> False | Some script \<Rightarrow> script \<noteq> [])"

definition read_selected :: "Result \<Rightarrow> boundary_env \<Rightarrow> manifest result" where
  "read_selected selection env =
     (case readManifest (bn_tree env) (Join [pg_RealDirectory (re_Package selection), ''package.json'']) of
        Inl _ \<Rightarrow> Inl (ErrText ''re-read selected package manifest: %w'' [])
      | Inr m \<Rightarrow> Inr m)"

text \<open>Install, build where the manifest has a script for it, and pack.\<close>

definition run_build ::
  "(nat \<Rightarrow> nat) \<Rightarrow> build_world \<Rightarrow> Result \<Rightarrow> string \<Rightarrow> string list \<Rightarrow> string \<Rightarrow> bool \<Rightarrow> unit step" where
  "run_build lc w selection managerPath environment packageOutput declared =
     (let run = runManagerCommand lc w selection managerPath environment in
      bind_step (wrap_step ''install dependencies: %w'' (run (installArguments (ms_Name (re_Manager selection))))) (\<lambda>_.
      bind_step (if declared then wrap_step ''run declared build script: %w'' (run (buildArguments selection))
        else return_step (Inr [])) (\<lambda>_.
      bind_step (wrap_step ''pack selected package: %w'' (run (packArguments selection packageOutput))) (\<lambda>_.
      return_step (Inr ())))))"

definition packed_checked :: "Package \<Rightarrow> PackedMetadata \<Rightarrow> go_error option" where
  "packed_checked pkg packed =
     (if pk_meta_Name packed \<noteq> pg_Name pkg \<or> pk_meta_Version packed \<noteq> pg_Version pkg then
        Some (ErrText ''%s: packed identity %s@%s differs from source %s@%s''
          [IDPackedPackageMetadataMismatch, pk_meta_Name packed, pk_meta_Version packed, pg_Name pkg, pg_Version pkg])
      else rejectPackedCorepackEnvironment (pk_meta_Files packed))"

definition build_metadata_of :: "BuildPackConfig \<Rightarrow> string \<Rightarrow> SHA256 \<Rightarrow> SHA512 \<Rightarrow> BuildMetadata" where
  "build_metadata_of config tarballPath sha256Value sha512Value =
     \<lparr>bm_SchemaVersion = ''1'', bm_StartedOn = [], bm_FinishedOn = [],
      bm_PrimaryArtifact = \<lparr>pa_ArtifactName = bc_ArtifactName config, pa_PayloadFileName = Base tarballPath,
        pa_SHA256 = SHA256_String sha256Value, pa_SHA512 = SHA512_String sha512Value\<rparr>,
      bm_ExternalParameters = bc_ExternalParameters config, bm_ResolvedDependencies = bc_ResolvedDependencies config\<rparr>"

text \<open>From the prepared toolchain on.\<close>

definition pack_and_record ::
  "build_libraries \<Rightarrow> build_world \<Rightarrow> BuildPackConfig \<Rightarrow> string \<Rightarrow> string \<Rightarrow> string list \<Rightarrow> Diagnostic list
    \<Rightarrow> ToolchainCapture \<Rightarrow> string \<Rightarrow> BuildPackResult step" where
  "pack_and_record libs w config packageOutput metadataOutput environment warnings toolchain managerPath =
     (let selection = bc_Selection config; pkg = re_Package selection; metadataPath = Join [metadataOutput, ''build-metadata.json''] in
      bind_step (return_step (npmDeclaredVersionWarning (bl_semver libs) (bl_transform libs) (re_Manager selection)
          (tc_NPMVersion toolchain))) (\<lambda>mismatch.
      bind_step (look_step w ''package.json'' (read_selected selection)) (\<lambda>m.
      bind_step (run_build (bl_lower libs) w selection managerPath environment packageOutput (declares_build m)) (\<lambda>_.
      bind_step (look_step w packageOutput (\<lambda>env. oneTarball (bn_tree env) packageOutput)) (\<lambda>tarballPath.
      bind_step (look_step w tarballPath (\<lambda>env. inspectTarball (bl_archives libs) (bn_tree env) tarballPath))
        (\<lambda>(packed, sha256Value, sha512Value).
      bind_step (return_step (guarded (packed_checked pkg packed) (Inr ()))) (\<lambda>_.
      bind_step (writeBuildMetadata (bl_transform libs) w metadataPath
          (build_metadata_of config tarballPath sha256Value sha512Value)) (\<lambda>_.
      return_step (Inr
        \<lparr>bp_res_Manager = ms_Name (re_Manager selection), bp_res_PackageName = pg_Name pkg,
         bp_res_PackageVersion = pg_Version pkg, bp_res_PackagePURL = npmPURL (pg_Name pkg) (pg_Version pkg),
         bp_res_TarballPath = tarballPath, bp_res_MetadataPath = metadataPath, bp_res_SHA256 = sha256Value,
         bp_res_SHA512 = sha512Value, bp_res_Packed = packed,
         bp_res_BuildScript = \<lparr>bs_Present = declares_build m,
           bs_Result = if declares_build m then BuildScriptExecuted else BuildScriptSkippedAbsent\<rparr>,
         bp_res_Toolchain = toolchain, bp_res_Diagnostics = warnings @ mismatch\<rparr>)))))))))"

definition build_inside ::
  "build_libraries \<Rightarrow> build_world \<Rightarrow> BuildPackConfig \<Rightarrow> string \<Rightarrow> string \<Rightarrow> Diagnostic list \<Rightarrow> string \<Rightarrow> BuildPackResult step" where
  "build_inside libs w config packageOutput metadataOutput corepackWarning environmentRoot =
     bind_step (controlledEnvironment w environmentRoot) (\<lambda>environment.
     bind_step (prepareToolchain (bl_semver libs) w (bc_Selection config) environmentRoot environment) (\<lambda>(toolchain, managerPath).
     pack_and_record libs w config packageOutput metadataOutput environment corepackWarning toolchain managerPath))"

definition build_outputs ::
  "build_libraries \<Rightarrow> build_world \<Rightarrow> BuildPackConfig \<Rightarrow> Diagnostic list \<Rightarrow> string \<times> string \<Rightarrow> BuildPackResult step" where
  "build_outputs libs w config corepackWarning outputs =
     deferred (unless_ok [fst outputs, snd outputs])
       (bind_step (tempdir_step w) (\<lambda>environmentRoot.
          deferred (\<lambda>_. [environmentRoot])
            (build_inside libs w config (fst outputs) (snd outputs) corepackWarning environmentRoot)))"

text \<open>All that comes before the outputs exist.\<close>

definition prepare_build ::
  "build_libraries \<Rightarrow> build_world \<Rightarrow> BuildPackConfig \<Rightarrow> (Diagnostic list \<times> string \<times> string) step" where
  "prepare_build libs w config =
     (let selection = bc_Selection config in
      bind_step (return_step (guarded (validateBuildPackConfig config) (Inr ()))) (\<lambda>_.
      bind_step (look_step w ''roots'' (\<lambda>env. guarded (validateExecutionRoots (bn_tree env) selection) (Inr ()))) (\<lambda>_.
      bind_step (look_step w ''configuration''
          (\<lambda>env. guarded (validateCredentialConfiguration (bl_lower libs) (bn_tree env) selection) (Inr ()))) (\<lambda>_.
      bind_step (look_step w ''.corepack.env''
          (\<lambda>env. corepackEnvironmentWarning (bl_transform libs) (bn_tree env) selection)) (\<lambda>corepackWarning.
      bind_step (prepareOutput w (bc_OutputDirectory config)) (\<lambda>outputs.
      return_step (Inr (corepackWarning, outputs))))))))"

definition BuildPack :: "build_libraries \<Rightarrow> build_world \<Rightarrow> BuildPackConfig \<Rightarrow> BuildPackResult step" where
  "BuildPack libs w config =
     bind_step (prepare_build libs w config) (\<lambda>(corepackWarning, outputs). build_outputs libs w config corepackWarning outputs)"

section \<open>Histories\<close>

lemma extends_quiet: "quiet m \<Longrightarrow> extends m"
  by (auto simp: extends_def quiet_def)

lemma extends_steps:
  "extends (return_step r)" "extends (look_step w what see)" "extends (mkdir_step w path err)"
  "extends (write_step w path contents message)" "extends (tempdir_step w)"
  "extends (command_step w directory executable environment arguments shim)"
  by (auto simp: extends_def return_step_def look_step_def mkdir_step_def write_step_def tempdir_step_def
      command_step_def Let_def split: option.split)

lemma extends_deferred: "extends m \<Longrightarrow> extends (deferred paths m)"
proof -
  assume m: "extends m"
  have "\<exists>es. snd (deferred paths m h) = snd (m h) @ es" for h
    by (simp add: deferred_def split: prod.split)
  with m show "extends (deferred paths m)"
    by (auto simp: extends_def) (metis append.assoc)
qed

lemma quiet_write: "quiet (write_step w path contents message)"
  by (simp add: quiet_def write_step_def)

lemma commands_of_removed [simp]: "commands_of (map Removed paths) = []"
  by (induction paths) simp_all

lemma quiet_deferred: "quiet m \<Longrightarrow> quiet (deferred paths m)"
proof -
  have "snd (deferred paths m h) = snd (m h) @ map Removed (paths (fst (m h)))" for h
    by (simp add: deferred_def split: prod.split)
  then show "quiet m \<Longrightarrow> quiet (deferred paths m)"
    by (auto simp: quiet_def) (metis append.assoc append_Nil commands_of_removed commands_of_simps(9))
qed

lemma quiet_each: "(\<And>x. quiet (f x)) \<Longrightarrow> quiet (each_step f xs)"
  by (induction xs) (auto intro: quiet_bind quiet_steps)

lemma quiet_environment: "quiet (controlledEnvironment w root)"
  unfolding controlledEnvironment_def by (intro quiet_bind quiet_steps quiet_each quiet_write)

lemma quiet_prepare: "quiet (prepare_build libs w config)"
  unfolding prepare_build_def prepareOutput_def Let_def by (intro quiet_bind quiet_steps quiet_deferred)

lemma extends_toolchain: "extends (prepareToolchain sv w selection root environment)"
  unfolding prepareToolchain_def corepack_toolchain_def lookup_step_def Let_def
  by (auto intro!: extends_bind extends_steps extends_wrap extends_quiet [OF quiet_capture] split: prod.split)

lemma extends_manager: "extends (runManagerCommand lc w selection executable environment arguments)"
  unfolding runManagerCommand_def by (auto intro!: extends_bind extends_steps)

lemma extends_inside: "extends (build_inside libs w config packageOutput metadataOutput warnings root)"
  unfolding build_inside_def pack_and_record_def run_build_def writeBuildMetadata_def Let_def
  by (auto intro!: extends_bind extends_steps extends_wrap extends_manager extends_toolchain
      extends_quiet [OF quiet_environment] split: prod.split)

section \<open>What a build leaves\<close>

text \<open>The roots are what was selected: resolved, directories, one inside the other.\<close>

definition roots_unchanged :: "file_tree \<Rightarrow> Result \<Rightarrow> bool" where
  "roots_unchanged ft selection \<longleftrightarrow>
     (let managerRoot = pg_RealManagerRoot (re_Package selection); packageDirectory = pg_RealDirectory (re_Package selection) in
      ft_EvalSymlinks ft managerRoot = Inr managerRoot \<and> ft_EvalSymlinks ft packageDirectory = Inr packageDirectory \<and>
      pathWithinRoot packageDirectory managerRoot \<and> ft_IsDir ft managerRoot \<and> ft_IsDir ft packageDirectory)"

text \<open>None of the four configuration files holds a line with a credential: each is absent, or regular and read.\<close>

definition no_credentials :: "(nat \<Rightarrow> nat) \<Rightarrow> file_tree \<Rightarrow> Result \<Rightarrow> bool" where
  "no_credentials lc ft selection \<longleftrightarrow>
     (let managerRoot = pg_RealManagerRoot (re_Package selection); packageDirectory = pg_RealDirectory (re_Package selection) in
      \<forall>path \<in> {Join [managerRoot, ''.npmrc''], Join [packageDirectory, ''.npmrc''], Join [managerRoot, ''.yarnrc.yml''],
          Join [packageDirectory, ''.yarnrc.yml'']}.
        ft_Lstat ft path = LstatMissing \<or>
        (\<exists>len encoded. ft_Lstat ft path = LstatEntry RegularFile len \<and>
           readBoundedRegularFile ft path maxManifestSize = Inr encoded \<and>
           (\<forall>line \<in> set (split_on (CHR 0x0A) encoded). \<not> credential_line lc line)))"

lemma validateExecutionRoots_None: "validateExecutionRoots ft selection = None \<Longrightarrow> roots_unchanged ft selection"
  by (simp add: validateExecutionRoots_def roots_unchanged_def Let_def split: if_splits)

lemma check_configurations_None:
  "check_configurations lc ft paths = None \<Longrightarrow> path \<in> set paths \<Longrightarrow> check_configuration lc ft path = None"
  by (induction paths) auto

lemma validateCredentialConfiguration_None:
  assumes "validateCredentialConfiguration lc ft selection = None"
  shows "no_credentials lc ft selection"
  unfolding no_credentials_def Let_def
proof (intro ballI)
  fix path
  assume "path \<in> {Join [pg_RealManagerRoot (re_Package selection), ''.npmrc''], Join [pg_RealDirectory (re_Package selection), ''.npmrc''],
    Join [pg_RealManagerRoot (re_Package selection), ''.yarnrc.yml''], Join [pg_RealDirectory (re_Package selection), ''.yarnrc.yml'']}"
  then have "path \<in> set (configuration_paths selection)" by (auto simp: configuration_paths_def Let_def)
  with assms have "check_configuration lc ft path = None"
    unfolding validateCredentialConfiguration_def by (rule check_configurations_None)
  then show "ft_Lstat ft path = LstatMissing \<or>
    (\<exists>len encoded. ft_Lstat ft path = LstatEntry RegularFile len \<and>
       readBoundedRegularFile ft path maxManifestSize = Inr encoded \<and>
       (\<forall>line \<in> set (split_on (CHR 0x0A) encoded). \<not> credential_line lc line))"
    by (simp add: check_configuration_def credential_material_def list_ex_iff split: lstat.splits if_splits sum.splits)
qed

text \<open>One command of the package manager: both checks passed right before it, on what was there then, and it was the
  given manager, resolved inside the trusted roots, that ran.\<close>

definition manager_run ::
  "(nat \<Rightarrow> nat) \<Rightarrow> build_world \<Rightarrow> Result \<Rightarrow> string \<Rightarrow> string list \<Rightarrow> build_history \<Rightarrow> string list \<Rightarrow> build_history \<Rightarrow> bool" where
  "manager_run lc w selection managerPath environment h arguments h' \<longleftrightarrow>
     roots_unchanged (bn_tree (bw_boundary w h)) selection \<and>
     no_credentials lc (bn_tree (bw_boundary w (h @ [Consulted ''roots'']))) selection \<and>
     (\<exists>cmd out.
        ran_as w (h @ [Consulted ''roots'', Consulted ''configuration'']) (pg_RealManagerRoot (re_Package selection))
          managerPath environment arguments
          (if ms_Name (re_Manager selection) = ManagerNPM then [] else Dir managerPath) cmd out \<and>
        h' = h @ [Consulted ''roots'', Consulted ''configuration'', Ran cmd])"

fun manager_runs ::
  "(nat \<Rightarrow> nat) \<Rightarrow> build_world \<Rightarrow> Result \<Rightarrow> string \<Rightarrow> string list \<Rightarrow> build_history \<Rightarrow> string list list \<Rightarrow> build_history \<Rightarrow> bool" where
  "manager_runs lc w selection managerPath environment h [] h' \<longleftrightarrow> h' = h"
| "manager_runs lc w selection managerPath environment h (arguments # others) h' \<longleftrightarrow>
     (\<exists>h1. manager_run lc w selection managerPath environment h arguments h1 \<and>
        manager_runs lc w selection managerPath environment h1 others h')"

lemma runManagerCommand_Inr:
  assumes "runManagerCommand lc w selection executable environment arguments h = (Inr out, h')"
  shows "manager_run lc w selection executable environment h arguments h' \<and> arguments \<noteq> []"
proof -
  let ?h = "h @ [Consulted ''roots'', Consulted ''configuration'']"
  from assms have roots: "validateExecutionRoots (bn_tree (bw_boundary w h)) selection = None"
    and credentials: "validateCredentialConfiguration lc (bn_tree (bw_boundary w (h @ [Consulted ''roots'']))) selection = None"
    and run: "command_step w (pg_RealManagerRoot (re_Package selection)) executable environment arguments
      (shim_root selection executable) ?h = (Inr out, h')" and some: "arguments \<noteq> []"
    by (auto simp: runManagerCommand_def guarded_Inr split: if_splits)
  from command_step_ran_as [OF run] obtain cmd where "h' = ?h @ [Ran cmd]"
    "ran_as w ?h (pg_RealManagerRoot (re_Package selection)) executable environment arguments
       (if ms_Name (re_Manager selection) = ManagerNPM then [] else Dir executable) cmd out"
    by (cases "ms_Name (re_Manager selection) = ManagerNPM") (auto simp: shim_root_def)
  with validateExecutionRoots_None [OF roots] validateCredentialConfiguration_None [OF credentials] some show ?thesis
    unfolding manager_run_def by auto
qed

text \<open>The commands a build consists of.  A package below the root of its manager is named to the manager.\<close>

definition build_commands :: "Manager \<Rightarrow> Package \<Rightarrow> bool \<Rightarrow> string \<Rightarrow> string list list" where
  "build_commands manager pkg declared packageOutput =
     (let relative = pg_ManagerRootRelativeDirectory pkg;
          selected = (if relative = ''.'' then []
            else if manager = ManagerNPM then [''--workspace'', relative]
            else if manager = ManagerPNPM then [''--filter'', ''{./'' @ relative @ ''}'']
            else [''workspace'', pg_Name pkg]);
          tarball = Join [packageOutput, ReplaceAll (TrimPrefix (pg_Name pkg) ''@'') ''/'' ''-'' @ ''-'' @ pg_Version pkg @ ''.tgz''] in
      [if manager = ManagerNPM then [''ci'']
       else if manager = ManagerPNPM then [''install'', ''--frozen-lockfile'']
       else [''install'', ''--immutable'']]
      @ (if declared then [selected @ [''run'', ''build'']] else [])
      @ [if manager = ManagerNPM then [''pack''] @ selected @ [''--pack-destination'', packageOutput]
         else if manager = ManagerPNPM then selected @ [''pack'', ''--pack-destination'', packageOutput]
         else selected @ [''pack'', ''--out'', tarball]])"

lemma build_commands_of:
  assumes "installArguments (ms_Name (re_Manager selection)) \<noteq> []"
  shows "build_commands (ms_Name (re_Manager selection)) (re_Package selection) declared packageOutput =
    [installArguments (ms_Name (re_Manager selection))] @ (if declared then [buildArguments selection] else [])
    @ [packArguments selection packageOutput]"
  using assms
  by (simp add: build_commands_def installArguments_def buildArguments_def packArguments_def npmTarballName_def Let_def
      manager_defs split: if_splits)

lemma run_build_Inr:
  assumes "run_build lc w selection managerPath environment packageOutput declared h = (Inr u, h')"
  shows "manager_runs lc w selection managerPath environment h
    (build_commands (ms_Name (re_Manager selection)) (re_Package selection) declared packageOutput) h'"
proof -
  let ?run = "runManagerCommand lc w selection managerPath environment"
  from assms obtain a b c h1 h2 where
    install: "?run (installArguments (ms_Name (re_Manager selection))) h = (Inr a, h1)"
    and build: "(if declared then wrap_step ''run declared build script: %w'' (?run (buildArguments selection))
      else return_step (Inr [])) h1 = (Inr b, h2)"
    and pack: "?run (packArguments selection packageOutput) h2 = (Inr c, h')"
    unfolding run_build_def Let_def by auto
  have "installArguments (ms_Name (re_Manager selection)) \<noteq> []" using runManagerCommand_Inr [OF install] by simp
  note commands = build_commands_of [OF this, of declared packageOutput]
  show ?thesis
  proof (cases declared)
    case True
    with build have "?run (buildArguments selection) h1 = (Inr b, h2)" by simp
    from runManagerCommand_Inr [OF this] runManagerCommand_Inr [OF install] runManagerCommand_Inr [OF pack] True
    show ?thesis unfolding commands by auto
  next
    case False
    with build runManagerCommand_Inr [OF install] runManagerCommand_Inr [OF pack] show ?thesis
      unfolding commands by auto
  qed
qed

text \<open>The environment every command gets, and what is made for it in the private directory: PATH as it was found, homes and
  caches of its own, Corepack that reads no project file, npm configurations that are empty.\<close>

definition environment_made :: "build_world \<Rightarrow> string \<Rightarrow> build_history \<Rightarrow> string list \<Rightarrow> build_history \<Rightarrow> bool" where
  "environment_made w root h environment h' \<longleftrightarrow>
     environment =
       [''PATH='' @ bn_Getenv (bw_boundary w h) ''PATH'', ''HOME='' @ Join [root, ''home''], ''TMPDIR='' @ Join [root, ''tmp''],
        ''XDG_CACHE_HOME='' @ Join [root, ''cache''], ''COREPACK_HOME='' @ Join [root, ''corepack''],
        ''COREPACK_ENABLE_STRICT=1'', ''COREPACK_ENABLE_PROJECT_SPEC=1'', ''COREPACK_DEFAULT_TO_LATEST=0'',
        ''COREPACK_ENABLE_DOWNLOAD_PROMPT=0'', ''COREPACK_ENV_FILE=0'',
        ''NPM_CONFIG_USERCONFIG='' @ Join [root, ''empty-npmrc''], ''npm_config_userconfig='' @ Join [root, ''empty-npmrc''],
        ''NPM_CONFIG_GLOBALCONFIG='' @ Join [root, ''empty-global-npmrc''],
        ''npm_config_globalconfig='' @ Join [root, ''empty-global-npmrc''], ''npm_config_audit=false'',
        ''npm_config_fund=false'', ''CI=true'', ''NO_UPDATE_NOTIFIER=1''] \<and>
     h' = h @ [Consulted ''PATH'', MadeDirectory (Join [root, ''home'']), MadeDirectory (Join [root, ''tmp'']),
       MadeDirectory (Join [root, ''cache'']), MadeDirectory (Join [root, ''corepack'']),
       Wrote (Join [root, ''empty-npmrc'']) [], Wrote (Join [root, ''empty-global-npmrc'']) []]"

lemma write_step_Inr:
  "write_step w path contents message h = (Inr u, h') \<longleftrightarrow> bw_Write w h path contents \<and> h' = h @ [Wrote path contents]"
  by (auto simp: write_step_def)

lemma controlledEnvironment_Inr:
  "controlledEnvironment w root h = (Inr environment, h') \<Longrightarrow> environment_made w root h environment h'"
  by (auto simp: controlledEnvironment_def environment_made_def controlled_entries_def Let_def mkdir_step_Inr write_step_Inr)

text \<open>What a successful build shows of itself, from the private directory on: the environment and the toolchain; the commands,
  where the build script is run exactly when the manifest read just before has one that is not empty; the one tarball that is
  there after them; and the metadata, written last.\<close>

definition packed_result :: "build_libraries \<Rightarrow> build_world \<Rightarrow> Package \<Rightarrow> string \<Rightarrow> build_history \<Rightarrow> BuildPackResult \<Rightarrow> bool" where
  "packed_result libs w pkg packageOutput h result \<longleftrightarrow>
     (\<exists>entry len. ft_ReadDir (bn_tree (bw_boundary w h)) packageOutput = Inr [entry] \<and>
        ValidateSafeBasename entry = None \<and> HasSuffix entry ''.tgz'' \<and>
        bp_res_TarballPath result = Join [packageOutput, entry] \<and>
        ft_Lstat (bn_tree (bw_boundary w h)) (bp_res_TarballPath result) = LstatEntry RegularFile len) \<and>
     inspectTarball (bl_archives libs) (bn_tree (bw_boundary w (h @ [Consulted packageOutput])))
       (bp_res_TarballPath result) = Inr (bp_res_Packed result, bp_res_SHA256 result, bp_res_SHA512 result) \<and>
     pk_meta_Name (bp_res_Packed result) = pg_Name pkg \<and> pk_meta_Version (bp_res_Packed result) = pg_Version pkg \<and>
     (\<forall>name \<in> set (pk_meta_Files (bp_res_Packed result)). name \<noteq> ''.corepack.env'' \<and> \<not> HasSuffix name ''/.corepack.env'')"

definition recorded_metadata :: "build_libraries \<Rightarrow> BuildPackConfig \<Rightarrow> BuildPackResult \<Rightarrow> string \<Rightarrow> bool" where
  "recorded_metadata libs config result contents \<longleftrightarrow>
     (\<exists>external dependencies.
        marshal_raw (bc_ExternalParameters config) = Some external \<and>
        (if bc_ResolvedDependencies config = [] then dependencies = ''null''
         else marshal_list marshal_descriptor (bc_ResolvedDependencies config) = Some dependencies) \<and>
        Canonicalize (bl_transform libs)
          (json_object [(''schema_version'', quote ''1''), (''started_on'', quote []), (''finished_on'', quote []),
             (''primary_artifact'', json_object [(''artifact_name'', quote (bc_ArtifactName config)),
                (''payload_file_name'', quote (Base (bp_res_TarballPath result))),
                (''sha256'', quote (SHA256_String (bp_res_SHA256 result))),
                (''sha512'', quote (SHA512_String (bp_res_SHA512 result)))]),
             (''external_parameters'', external), (''resolved_dependencies'', dependencies)]) = Inr contents)"

definition built ::
  "build_libraries \<Rightarrow> build_world \<Rightarrow> BuildPackConfig \<Rightarrow> string \<Rightarrow> string \<Rightarrow> build_history \<Rightarrow> string \<Rightarrow> BuildPackResult
    \<Rightarrow> build_history \<Rightarrow> bool" where
  "built libs w config packageOutput metadataOutput h root result h' \<longleftrightarrow>
     (let selection = bc_Selection config; pkg = re_Package selection; manager = ms_Name (re_Manager selection) in
      \<exists>environment managerPath h1 h2 h3 m declared contents.
        environment_made w root h environment h1 \<and>
        toolchain_evidence (bl_semver libs) w selection root environment h1 (bp_res_Toolchain result) managerPath h2 \<and>
        readManifest (bn_tree (bw_boundary w h2)) (Join [pg_RealDirectory pkg, ''package.json'']) = Inr m \<and>
        (declared \<longleftrightarrow> (\<exists>script. map_of (mf_Scripts m) ''build'' = Some script \<and> script \<noteq> [])) \<and>
        bp_res_BuildScript result = \<lparr>bs_Present = declared,
          bs_Result = (if declared then BuildScriptExecuted else BuildScriptSkippedAbsent)\<rparr> \<and>
        manager_runs (bl_lower libs) w selection managerPath environment (h2 @ [Consulted ''package.json''])
          (build_commands manager pkg declared packageOutput) h3 \<and>
        packed_result libs w pkg packageOutput h3 result \<and> recorded_metadata libs config result contents \<and>
        bp_res_Manager result = manager \<and> bp_res_PackageName result = pg_Name pkg \<and>
        bp_res_PackageVersion result = pg_Version pkg \<and>
        bp_res_PackagePURL result = (case NPMPackagePURL (pg_Name pkg) (pg_Version pkg) of Inl _ \<Rightarrow> [] | Inr purl \<Rightarrow> purl) \<and>
        bp_res_MetadataPath result = Join [metadataOutput, ''build-metadata.json''] \<and>
        h' = h3 @ [Consulted packageOutput, Consulted (bp_res_TarballPath result),
          Wrote (bp_res_MetadataPath result) contents])"

lemma oneTarball_Inr:
  "oneTarball ft directory = Inr path \<Longrightarrow>
     \<exists>entry len. ft_ReadDir ft directory = Inr [entry] \<and> ValidateSafeBasename entry = None \<and> HasSuffix entry ''.tgz'' \<and>
       path = Join [directory, entry] \<and> ft_Lstat ft path = LstatEntry RegularFile len"
  by (auto simp: oneTarball_def simp del: not_None_eq split: sum.splits list.splits if_splits lstat.splits entry_kind.splits)

lemma packed_checked_None:
  assumes "packed_checked pkg packed = None"
  shows "pk_meta_Name packed = pg_Name pkg \<and> pk_meta_Version packed = pg_Version pkg \<and>
    (\<forall>name \<in> set (pk_meta_Files packed). name \<noteq> ''.corepack.env'' \<and> \<not> HasSuffix name ''/.corepack.env'')"
  using assms
  by (auto simp: packed_checked_def rejectPackedCorepackEnvironment_def find_None_iff split: if_splits option.splits)

lemma metadata_text_Inr:
  "metadata_text (bl_transform libs) (build_metadata_of config (bp_res_TarballPath result) (bp_res_SHA256 result)
     (bp_res_SHA512 result)) = Inr contents \<Longrightarrow> recorded_metadata libs config result contents"
  by (auto simp: metadata_text_def recorded_metadata_def marshal_build_metadata_def build_metadata_of_def
      marshal_dependencies_def split: option.splits sum.splits if_splits)

lemma pack_and_record_Inr:
  assumes "pack_and_record libs w config packageOutput metadataOutput environment warnings toolchain managerPath h =
      (Inr result, h')"
  shows "\<exists>m h1 contents.
    readManifest (bn_tree (bw_boundary w h)) (Join [pg_RealDirectory (re_Package (bc_Selection config)), ''package.json'']) = Inr m \<and>
    bp_res_BuildScript result = \<lparr>bs_Present = declares_build m,
      bs_Result = (if declares_build m then BuildScriptExecuted else BuildScriptSkippedAbsent)\<rparr> \<and>
    run_build (bl_lower libs) w (bc_Selection config) managerPath environment packageOutput (declares_build m)
      (h @ [Consulted ''package.json'']) = (Inr (), h1) \<and>
    packed_result libs w (re_Package (bc_Selection config)) packageOutput h1 result \<and>
    recorded_metadata libs config result contents \<and> bp_res_Toolchain result = toolchain \<and>
    h' = h1 @ [Consulted packageOutput, Consulted (bp_res_TarballPath result), Wrote (bp_res_MetadataPath result) contents]"
proof -
  let ?selection = "bc_Selection config"
  from assms obtain m h3 tarball packed d256 d512 contents where
    m: "readManifest (bn_tree (bw_boundary w h)) (Join [pg_RealDirectory (re_Package ?selection), ''package.json'']) = Inr m"
    and run: "run_build (bl_lower libs) w ?selection managerPath environment packageOutput (declares_build m)
      (h @ [Consulted ''package.json'']) = (Inr (), h3)"
    and tarball: "oneTarball (bn_tree (bw_boundary w h3)) packageOutput = Inr tarball"
    and packed: "inspectTarball (bl_archives libs) (bn_tree (bw_boundary w (h3 @ [Consulted packageOutput]))) tarball =
      Inr (packed, d256, d512)"
    and checked: "packed_checked (re_Package ?selection) packed = None"
    and contents: "metadata_text (bl_transform libs) (build_metadata_of config tarball d256 d512) = Inr contents"
    and written: "write_step w (Join [metadataOutput, ''build-metadata.json'']) contents ''create build metadata: %w''
      (h3 @ [Consulted packageOutput, Consulted tarball]) = (Inr (), h')"
    and result: "bp_res_Toolchain result = toolchain" "bp_res_BuildScript result = \<lparr>bs_Present = declares_build m,
        bs_Result = (if declares_build m then BuildScriptExecuted else BuildScriptSkippedAbsent)\<rparr>"
      "bp_res_TarballPath result = tarball" "bp_res_Packed result = packed" "bp_res_SHA256 result = d256"
      "bp_res_SHA512 result = d512" "bp_res_MetadataPath result = Join [metadataOutput, ''build-metadata.json'']"
    unfolding pack_and_record_def writeBuildMetadata_def read_selected_def Let_def
    by (auto simp: guarded_Inr split: sum.splits)
  have "packed_result libs w (re_Package ?selection) packageOutput h3 result"
    using oneTarball_Inr [OF tarball] packed packed_checked_None [OF checked] by (simp add: packed_result_def result)
  moreover have "recorded_metadata libs config result contents"
    by (rule metadata_text_Inr) (use contents in \<open>simp add: result\<close>)
  ultimately show ?thesis using m run written result by (auto simp: write_step_Inr)
qed

lemma pack_and_record_names:
  "pack_and_record libs w config packageOutput metadataOutput environment warnings toolchain managerPath h =
     (Inr result, h') \<Longrightarrow>
   bp_res_Manager result = ms_Name (re_Manager (bc_Selection config)) \<and>
   bp_res_PackageName result = pg_Name (re_Package (bc_Selection config)) \<and>
   bp_res_PackageVersion result = pg_Version (re_Package (bc_Selection config)) \<and>
   bp_res_PackagePURL result = npmPURL (pg_Name (re_Package (bc_Selection config))) (pg_Version (re_Package (bc_Selection config))) \<and>
   bp_res_MetadataPath result = Join [metadataOutput, ''build-metadata.json'']"
  unfolding pack_and_record_def Let_def by auto

lemma build_inside_Inr:
  assumes "build_inside libs w config packageOutput metadataOutput warnings root h = (Inr result, h')"
  shows "built libs w config packageOutput metadataOutput h root result h'"
proof -
  let ?selection = "bc_Selection config"
  from assms obtain environment toolchain managerPath h1 h2 where
    environment: "controlledEnvironment w root h = (Inr environment, h1)"
    and toolchain: "prepareToolchain (bl_semver libs) w ?selection root environment h1 = (Inr (toolchain, managerPath), h2)"
    and pack: "pack_and_record libs w config packageOutput metadataOutput environment warnings toolchain managerPath h2 =
      (Inr result, h')"
    unfolding build_inside_def by auto
  from pack_and_record_Inr [OF pack] obtain m h3 contents where
    recorded: "readManifest (bn_tree (bw_boundary w h2)) (Join [pg_RealDirectory (re_Package ?selection), ''package.json'']) = Inr m"
    "bp_res_BuildScript result = \<lparr>bs_Present = declares_build m,
       bs_Result = (if declares_build m then BuildScriptExecuted else BuildScriptSkippedAbsent)\<rparr>"
    "packed_result libs w (re_Package ?selection) packageOutput h3 result" "recorded_metadata libs config result contents"
    "bp_res_Toolchain result = toolchain"
    "h' = h3 @ [Consulted packageOutput, Consulted (bp_res_TarballPath result), Wrote (bp_res_MetadataPath result) contents]"
    and run: "run_build (bl_lower libs) w ?selection managerPath environment packageOutput (declares_build m)
      (h2 @ [Consulted ''package.json'']) = (Inr (), h3)"
    by blast
  have declared: "declares_build m \<longleftrightarrow> (\<exists>script. map_of (mf_Scripts m) ''build'' = Some script \<and> script \<noteq> [])"
    by (auto simp: declares_build_def split: option.splits)
  show ?thesis
    unfolding built_def Let_def
    by (rule exI [of _ environment], rule exI [of _ managerPath], rule exI [of _ h1], rule exI [of _ h2], rule exI [of _ h3],
        rule exI [of _ m], rule exI [of _ "declares_build m"], rule exI [of _ contents], intro conjI)
      (use recorded declared pack_and_record_names [OF pack] controlledEnvironment_Inr [OF environment]
        prepareToolchain_sound [OF toolchain] run_build_Inr [OF run] in \<open>simp_all add: npmPURL_def\<close>)
qed

text \<open>What has to hold of a configuration.\<close>

definition config_accepted :: "BuildPackConfig \<Rightarrow> bool" where
  "config_accepted config \<longleftrightarrow>
     (let selection = bc_Selection config; pkg = re_Package selection in
      rp_Result (re_Report selection) = ResultPass \<and> pg_RealDirectory pkg \<noteq> [] \<and> pg_RealManagerRoot pkg \<noteq> [] \<and>
      ValidateSafeBasename (bc_ArtifactName config) = None \<and>
      (\<exists>members. parseStrict (bc_ExternalParameters config) = Inr (JObj members)) \<and>
      (if ms_Name (re_Manager selection) = ManagerYarn
       then ValidateSafeBasename (npmTarballName (pg_Name pkg) (pg_Version pkg)) = None else True))"

lemma validateBuildPackConfig_None: "validateBuildPackConfig config = None \<Longrightarrow> config_accepted config"
  by (auto simp: validateBuildPackConfig_def config_accepted_def Let_def simp del: not_None_eq
      split: if_splits option.splits sum.splits jval.splits)

text \<open>Before anything is made: both checks passed, and the output directory was a directory, no link, and empty; then the two
  outputs were made in what it resolved to.\<close>

definition outputs_made ::
  "(nat \<Rightarrow> nat) \<Rightarrow> build_world \<Rightarrow> BuildPackConfig \<Rightarrow> build_history \<Rightarrow> string \<Rightarrow> string \<Rightarrow> build_history \<Rightarrow> bool" where
  "outputs_made lc w config h packageOutput metadataOutput es \<longleftrightarrow>
     (let path = bc_OutputDirectory config;
          seen = h @ [Consulted ''roots'', Consulted ''configuration'', Consulted ''.corepack.env''];
          ft = bn_tree (bw_boundary w seen) in
      roots_unchanged (bn_tree (bw_boundary w h)) (bc_Selection config) \<and>
      no_credentials lc (bn_tree (bw_boundary w (h @ [Consulted ''roots'']))) (bc_Selection config) \<and>
      (\<exists>realOutput len.
         ft_Lstat ft path = LstatEntry OtherEntry len \<and> ft_IsDir ft path \<and> ft_ReadDir ft path = Inr [] \<and>
         ft_EvalSymlinks ft path = Inr realOutput \<and> packageOutput = Join [realOutput, ''package''] \<and>
         metadataOutput = Join [realOutput, ''metadata''] \<and>
         h @ es = seen @ [Consulted path, MadeDirectory packageOutput, MadeDirectory metadataOutput]))"

text \<open>What a failed build leaves once commands have run: the environment and both outputs are gone, last.\<close>

definition leaves_nothing :: "(nat \<Rightarrow> nat) \<Rightarrow> build_world \<Rightarrow> BuildPackConfig \<Rightarrow> build_history \<Rightarrow> build_history \<Rightarrow> bool" where
  "leaves_nothing lc w config h es \<longleftrightarrow>
     (\<exists>made others packageOutput metadataOutput root.
        outputs_made lc w config h packageOutput metadataOutput made \<and> bw_MkdirTemp w (h @ made) = Some root \<and>
        es = made @ [MadeDirectory root] @ others @ [Removed root, Removed packageOutput, Removed metadataOutput])"

lemma empty_directory_Inr:
  "empty_directory path env = Inr realOutput \<Longrightarrow>
     (\<exists>len. ft_Lstat (bn_tree env) path = LstatEntry OtherEntry len) \<and> ft_IsDir (bn_tree env) path \<and>
     ft_ReadDir (bn_tree env) path = Inr [] \<and> ft_EvalSymlinks (bn_tree env) path = Inr realOutput"
  by (auto simp: empty_directory_def Let_def split: lstat.splits entry_kind.splits if_splits sum.splits)

lemma prepare_build_Inr:
  assumes "prepare_build libs w config h = (Inr (warnings, packageOutput, metadataOutput), h')"
  shows "config_accepted config \<and>
    (\<exists>es. h' = h @ es \<and> commands_of es = [] \<and> outputs_made (bl_lower libs) w config h packageOutput metadataOutput es)"
proof -
  let ?seen = "h @ [Consulted ''roots'', Consulted ''configuration'', Consulted ''.corepack.env'']"
  from assms obtain realOutput where
    checked: "validateBuildPackConfig config = None"
    "validateExecutionRoots (bn_tree (bw_boundary w h)) (bc_Selection config) = None"
    "validateCredentialConfiguration (bl_lower libs) (bn_tree (bw_boundary w (h @ [Consulted ''roots'']))) (bc_Selection config) = None"
    and seen: "empty_directory (bc_OutputDirectory config) (bw_boundary w ?seen) = Inr realOutput"
    and made: "packageOutput = Join [realOutput, ''package'']" "metadataOutput = Join [realOutput, ''metadata'']"
      "h' = ?seen @ [Consulted (bc_OutputDirectory config), MadeDirectory packageOutput, MadeDirectory metadataOutput]"
    by (auto simp: prepare_build_def prepareOutput_def Let_def guarded_Inr mkdir_step_def deferred_def unless_ok_def
        split: if_splits)
  have "h' = h @ [Consulted ''roots'', Consulted ''configuration'', Consulted ''.corepack.env'',
      Consulted (bc_OutputDirectory config), MadeDirectory packageOutput, MadeDirectory metadataOutput]"
    using made(3) by simp
  moreover have "outputs_made (bl_lower libs) w config h packageOutput metadataOutput
      [Consulted ''roots'', Consulted ''configuration'', Consulted ''.corepack.env'',
       Consulted (bc_OutputDirectory config), MadeDirectory packageOutput, MadeDirectory metadataOutput]"
    unfolding outputs_made_def Let_def
    using validateExecutionRoots_None [OF checked(2)] validateCredentialConfiguration_None [OF checked(3)]
      empty_directory_Inr [OF seen] made(1,2) by auto
  ultimately show ?thesis using validateBuildPackConfig_None [OF checked(1)] by auto
qed

lemma deferred_run: "deferred paths m h = (r, h') \<longleftrightarrow> (\<exists>h1. m h = (r, h1) \<and> h' = h1 @ map Removed (paths r))"
  by (auto simp: deferred_def split: prod.splits)

lemma tempdir_step_Inr: "tempdir_step w h = (Inr p, h') \<longleftrightarrow> bw_MkdirTemp w h = Some p \<and> h' = h @ [MadeDirectory p]"
  by (auto simp: tempdir_step_def split: option.splits)

lemma build_outputs_Inr:
  assumes "build_outputs libs w config warnings (packageOutput, metadataOutput) h = (Inr result, h')"
  shows "\<exists>root h1. bw_MkdirTemp w h = Some root \<and>
    built libs w config packageOutput metadataOutput (h @ [MadeDirectory root]) root result h1 \<and> h' = h1 @ [Removed root]"
  using assms
  by (auto simp: build_outputs_def deferred_run unless_ok_def tempdir_step_Inr dest!: build_inside_Inr)

lemma build_outputs_Inl:
  assumes "build_outputs libs w config warnings (packageOutput, metadataOutput) h = (Inl err, h')"
  shows "\<exists>es. h' = h @ es \<and>
    (commands_of es = [] \<or>
     (\<exists>root others. bw_MkdirTemp w h = Some root \<and>
        es = [MadeDirectory root] @ others @ [Removed root, Removed packageOutput, Removed metadataOutput]))"
proof (cases "bw_MkdirTemp w h")
  case None
  with assms have "h' = h @ [Consulted ''windlass-npm-build-'', Removed packageOutput, Removed metadataOutput]"
    by (simp add: build_outputs_def deferred_def unless_ok_def tempdir_step_def bind_step_def)
  then show ?thesis
    by (intro exI [of _ "[Consulted ''windlass-npm-build-'', Removed packageOutput, Removed metadataOutput]"]) simp
next
  case (Some root)
  obtain r h1 where run: "build_inside libs w config packageOutput metadataOutput warnings root (h @ [MadeDirectory root]) = (r, h1)"
    by (cases "build_inside libs w config packageOutput metadataOutput warnings root (h @ [MadeDirectory root])")
  from extends_run [OF extends_inside run] obtain others where "h1 = (h @ [MadeDirectory root]) @ others" by blast
  with assms Some run show ?thesis
    by (cases r) (auto simp: build_outputs_def deferred_def unless_ok_def tempdir_step_def bind_step_def)
qed

text \<open>
  C10: A build leaves a checked tarball with its metadata or nothing.  Before the first command the configuration passed,
  the roots were what was selected, and both outputs were made in an empty directory.  When BuildPack succeeds, the
  recorded toolchain is the one that answered; then exactly the install command, the build script when the manifest read
  right before has one, and the pack command of the selected manager ran: each is the manager's path the toolchain
  returned, resolved below a trusted root, run in the root of the package manager with the controlled environment and
  nothing else in it, and right before each the roots were unchanged and no configuration held credentials.  The
  one tarball there afterwards is the inspected one, names the selected package and ships no .corepack.env, and the metadata
  with its digests is the last file written.  When it fails, either no command ran at all or the last things done remove
  the private environment and both outputs.
\<close>

theorem build_pack_sound:
  "case BuildPack libs w config h of
     (Inl _, h') \<Rightarrow>
       \<exists>es. h' = h @ es \<and> (if commands_of es = [] then True else leaves_nothing (bl_lower libs) w config h es)
   | (Inr result, h') \<Rightarrow>
       config_accepted config \<and>
       (\<exists>made packageOutput metadataOutput root h1.
          outputs_made (bl_lower libs) w config h packageOutput metadataOutput made \<and>
          bw_MkdirTemp w (h @ made) = Some root \<and>
          built libs w config packageOutput metadataOutput (h @ made @ [MadeDirectory root]) root result h1 \<and>
          h' = h1 @ [Removed root])"
proof -
  let ?lc = "bl_lower libs"
  obtain r h1 where prepared: "prepare_build libs w config h = (r, h1)" by (cases "prepare_build libs w config h")
  show ?thesis
  proof (cases r)
    case (Inl err)
    with prepared have "BuildPack libs w config h = (Inl err, h1)" by (simp add: BuildPack_def bind_step_def)
    with quiet_Inr [OF quiet_prepare prepared] show ?thesis by auto
  next
    case (Inr outputs)
    obtain warnings packageOutput metadataOutput where r: "r = Inr (warnings, packageOutput, metadataOutput)"
      using Inr by (cases outputs) auto
    from prepare_build_Inr [OF prepared [unfolded r]] obtain made where made: "config_accepted config" "h1 = h @ made"
      "commands_of made = []" "outputs_made ?lc w config h packageOutput metadataOutput made" by blast
    obtain s h' where run: "build_outputs libs w config warnings (packageOutput, metadataOutput) h1 = (s, h')"
      by (cases "build_outputs libs w config warnings (packageOutput, metadataOutput) h1")
    then have whole: "BuildPack libs w config h = (s, h')" using prepared r by (simp add: BuildPack_def bind_step_def)
    show ?thesis
    proof (cases s)
      case (Inl err)
      from build_outputs_Inl [OF run [unfolded Inl]] obtain es where es: "h' = h @ (made @ es)"
        "commands_of es = [] \<or>
          (\<exists>root others. bw_MkdirTemp w h1 = Some root \<and>
             es = [MadeDirectory root] @ others @ [Removed root, Removed packageOutput, Removed metadataOutput])"
        using made(2) by auto
      have "if commands_of (made @ es) = [] then True else leaves_nothing ?lc w config h (made @ es)"
      proof (cases "commands_of es = []")
        case True
        with made(3) show ?thesis by simp
      next
        case False
        with es(2) made(2,4) have "leaves_nothing ?lc w config h (made @ es)" unfolding leaves_nothing_def by blast
        then show ?thesis by simp
      qed
      with whole Inl es(1) show ?thesis by auto
    next
      case (Inr result)
      from build_outputs_Inr [OF run [unfolded Inr]] obtain root h2 where "bw_MkdirTemp w (h @ made) = Some root"
        "built libs w config packageOutput metadataOutput (h @ made @ [MadeDirectory root]) root result h2"
        "h' = h2 @ [Removed root]" using made(2) by auto
      with made whole Inr show ?thesis by (simp only: prod.case sum.case) blast
    qed
  qed
qed

end
