(* ===== verification/Provision.thy ===== *)
theory Provision
  imports BuildPack Pins
begin

text \<open>
  internal/npmprofile/provision_node.go, provision_node_archive.go, provision_npm.go, provision_npm_archive.go and
  toolchain_assert.go: how the pinned Node.js and npm come onto a runner, and how the executing pair is compared with the pins.
  The embedded pin file is an argument.  What os.Root and the walk of a directory do is part of the world.
\<close>

section \<open>The world\<close>

record dir_entry =
  de_Name :: string
  de_IsDir :: bool
  de_Info :: "(bool \<times> bool \<times> nat) option"  \<comment> \<open>symbolic link, regular file, permission bits\<close>

text \<open>What WalkDir calls its function with; a symbolic link with what Readlink gives.\<close>

datatype walked = WalkFails | WalkSymlink "string option" | WalkDirectory | WalkRegular | WalkOther

record provision_world =
  pw_build :: build_world
  pw_cancelled :: "build_history \<Rightarrow> bool"
  pw_MkdirAll :: "build_history \<Rightarrow> string \<Rightarrow> bool"
  pw_MkdirTemp :: "build_history \<Rightarrow> string \<Rightarrow> string \<Rightarrow> string option"
  pw_RemoveAll :: "build_history \<Rightarrow> string \<Rightarrow> bool"
  pw_OpenRoot :: "build_history \<Rightarrow> string \<Rightarrow> bool"
  pw_Create :: "build_history \<Rightarrow> string \<Rightarrow> nat \<Rightarrow> bool"
  pw_Symlink :: "build_history \<Rightarrow> string \<Rightarrow> string \<Rightarrow> bool"
  pw_ReadDir :: "build_history \<Rightarrow> string \<Rightarrow> dir_entry list option"
  pw_WalkDir :: "build_history \<Rightarrow> string \<Rightarrow> (string \<times> walked) list"

definition mkdirall_step :: "provision_world \<Rightarrow> string \<Rightarrow> go_error \<Rightarrow> unit step" where
  "mkdirall_step w path err h =
     (if pw_MkdirAll w h path then (Inr (), h @ [MadeDirectory path]) else (Inl err, h @ [Consulted path]))"

text \<open>Creating a file and copying the declared number of bytes into it; what was copied before a failure stays.\<close>

definition copy_step :: "provision_world \<Rightarrow> string \<Rightarrow> nat \<Rightarrow> tar_header \<Rightarrow> go_error \<Rightarrow> unit step" where
  "copy_step w path mode header err h =
     (let wanted = nat (th_Size header) in
      if \<not> pw_Create w h path mode then (Inl err, h @ [Consulted path])
      else
        (if length (th_Data header) < wanted \<or> \<not> th_Readable header then Inl err else Inr (),
         h @ [Placed path mode (take wanted (th_Data header))]))"

definition symlink_step :: "provision_world \<Rightarrow> string \<Rightarrow> string \<Rightarrow> go_error \<Rightarrow> unit step" where
  "symlink_step w path target err h =
     (if pw_Symlink w h path target then (Inr (), h @ [Linked path target]) else (Inl err, h @ [Consulted path]))"

definition active_step :: "provision_world \<Rightarrow> go_error \<Rightarrow> unit step" where
  "active_step w err h = (if pw_cancelled w h then Inl err else Inr (), h)"

text \<open>The deferred removal of a private directory joins its own failure.\<close>

definition removing :: "provision_world \<Rightarrow> string \<Rightarrow> string \<Rightarrow> 'a step \<Rightarrow> 'a step" where
  "removing w path message m h =
     (case m h of
        (Inr x, h') \<Rightarrow> (Inr x, h')
      | (Inl err, h') \<Rightarrow>
          if pw_RemoveAll w h' path then (Inl err, h' @ [Removed path])
          else (Inl (ErrWrap ''joined'' [] [err, ErrText message []]), h' @ [Consulted path]))"

section \<open>Failures\<close>

definition nodeProvisionFailure :: "string \<Rightarrow> go_error" where
  "nodeProvisionFailure kind = ErrText (npm_error_id (''node-runtime-provision-'' @ kind)) []"
definition npmProvisionFailure :: "string \<Rightarrow> go_error" where
  "npmProvisionFailure kind = ErrText (npm_error_id (''npm-provision-'' @ kind)) []"

definition idToolchainPairMismatch :: string where
  "idToolchainPairMismatch = npm_error_id ''toolchain-pair-mismatch''"

definition as_failure :: "go_error \<Rightarrow> 'a step \<Rightarrow> 'a step" where
  "as_failure err m h = (case m h of (Inl _, h') \<Rightarrow> (Inl err, h') | (Inr x, h') \<Rightarrow> (Inr x, h'))"

section \<open>The Node.js archive\<close>

definition nodeArchiveRootPattern :: "string \<Rightarrow> bool" where
  "nodeArchiveRootPattern name =
     (case Option.bind (CutPrefix name ''node-v'') (\<lambda>rest. CutSuffix rest ''-linux-x64'') of
        None \<Rightarrow> False
      | Some version \<Rightarrow> re_three_part version)"

definition errNodeLayout :: go_error where
  "errNodeLayout = ErrText ''node runtime symlink layout violation'' []"

definition nodeRuntimeLink :: "string \<Rightarrow> string" where
  "nodeRuntimeLink name =
     (if name = ''bin/npm'' then ''../lib/node_modules/npm/bin/npm-cli.js''
      else if name = ''bin/npx'' then ''../lib/node_modules/npm/bin/npx-cli.js''
      else if name = ''bin/corepack'' then ''../lib/node_modules/corepack/dist/corepack.js''
      else [])"

datatype placement = PlaceDirectory | PlaceFile nat | PlaceLink string

definition private_file :: nat where "private_file = 384"  \<comment> \<open>0600\<close>
definition private_program :: nat where "private_program = 448"  \<comment> \<open>0700\<close>

definition entry_name :: "tar_header \<Rightarrow> string" where
  "entry_name header = (if th_Typeflag header = TypeDir then TrimSuffix (th_Name header) ''/'' else th_Name header)"

text \<open>More bytes than the bound leaves after what has been read.\<close>

definition beyond_limit :: "tar_header \<Rightarrow> bool" where
  "beyond_limit header \<longleftrightarrow>
     th_Size header < 0 \<or> th_Size header > maxUnpackedSize + 1 - int (th_Consumed header)"

definition node_entry :: "string \<Rightarrow> string list \<Rightarrow> tar_header \<Rightarrow> placement result" where
  "node_entry rootName seen header =
     (let name = entry_name header; parts = split_on (CHR ''/'') name; unsafe = nodeProvisionFailure ''archive-unsafe'' in
      if name = [] \<or> CHR 0x5C \<in> set name then Inl unsafe
      else if list_ex (\<lambda>part. part = [] \<or> part = ''.'' \<or> part = ''..'') parts then Inl unsafe
      else if \<not> nodeArchiveRootPattern (hd parts) \<or> rootName \<noteq> [] \<and> rootName \<noteq> hd parts then Inl unsafe
      else if length parts = 1 \<and> th_Typeflag header \<noteq> TypeDir then Inl unsafe
      else if name \<in> set seen \<or> length seen \<ge> maxPackedFileCount then Inl unsafe
      else
        (case th_Typeflag header of
           TypeDir \<Rightarrow> Inr PlaceDirectory
         | TypeReg \<Rightarrow>
             if beyond_limit header then Inl unsafe
             else Inr (PlaceFile (if th_Mode header div 64 mod 2 = 1 then private_program else private_file))
         | TypeSymlink linkname \<Rightarrow>
             (let target = nodeRuntimeLink (TrimPrefix name (hd parts @ ''/'')) in
              if target = [] \<or> linkname \<noteq> target then Inl errNodeLayout else Inr (PlaceLink target))
         | TypeOther \<Rightarrow> Inl unsafe))"

text \<open>Below the opened root a name is a relative path.\<close>

definition below :: "string \<Rightarrow> string \<Rightarrow> string" where "below directory name = directory @ ''/'' @ name"

definition place_step :: "provision_world \<Rightarrow> string \<Rightarrow> tar_header \<Rightarrow> placement \<Rightarrow> go_error \<Rightarrow> unit step" where
  "place_step w directory header placement err =
     (let name = entry_name header; parent = mkdirall_step w (below directory (Dir name)) err in
      case placement of
        PlaceDirectory \<Rightarrow> mkdirall_step w (below directory name) err
      | PlaceFile mode \<Rightarrow> bind_step parent (\<lambda>_. copy_step w (below directory name) mode header err)
      | PlaceLink target \<Rightarrow> bind_step parent (\<lambda>_. symlink_step w (below directory name) target err))"

fun node_entries :: "provision_world \<Rightarrow> string \<Rightarrow> string \<Rightarrow> string list \<Rightarrow> tar_header list \<times> bool \<Rightarrow> (string \<times> string list) step" where
  "node_entries w directory rootName seen ([], clean_end) =
     bind_step (active_step w (ErrText ''context'' [])) (\<lambda>_.
     return_step (if clean_end then Inr (rootName, seen) else Inl (ErrText ''tar'' [])))"
| "node_entries w directory rootName seen (header # headers, clean_end) =
     bind_step (active_step w (ErrText ''context'' [])) (\<lambda>_.
     bind_step (return_step (node_entry rootName seen header)) (\<lambda>placement.
     bind_step (place_step w directory header placement (ErrText ''place'' [])) (\<lambda>_.
     node_entries w directory (hd (split_on (CHR ''/'') (entry_name header))) (entry_name header # seen) (headers, clean_end))))"

text \<open>Opening, reading the entries with \<open>entries\<close>, and draining what follows the archive.\<close>

definition extract_archive ::
  "provision_world \<Rightarrow> archives \<Rightarrow> string \<Rightarrow> string \<Rightarrow> (tar_header list \<times> bool \<Rightarrow> ('a \<times> string list) step) \<Rightarrow> 'a step" where
  "extract_archive w ar encoded directory entries =
     (case ar_gunzip ar encoded of
        None \<Rightarrow> return_step (Inl (ErrText ''gzip'' []))
      | Some stream \<Rightarrow>
          (\<lambda>h. if \<not> pw_OpenRoot w h directory then (Inl (ErrText ''open root'' []), h)
             else
               bind_step (entries (packed_stream ar stream)) (\<lambda>(x, seen).
                 return_step
                   (if length (fst stream) \<ge> nat maxUnpackedSize + 1 then Inl (ErrText ''oversized'' [])
                    else if \<not> snd stream then Inl (ErrText ''drain'' [])
                    else if seen = [] then Inl (ErrText ''empty'' [])
                    else Inr x)) h))"

definition extractNodeRuntime :: "provision_world \<Rightarrow> archives \<Rightarrow> string \<Rightarrow> string \<Rightarrow> string step" where
  "extractNodeRuntime w ar encoded directory = extract_archive w ar encoded directory (node_entries w directory [] [])"

section \<open>The layout of the runtime\<close>

definition expected_layout :: "(string \<times> (string \<times> bool) list) list" where
  "expected_layout =
     [([], [(''bin'', True), (''include'', True), (''lib'', True), (''share'', True), (''CHANGELOG.md'', False),
        (''LICENSE'', False), (''README.md'', False)]),
      (''bin'', [(''node'', False), (''npm'', False), (''npx'', False), (''corepack'', False)])]"

definition entry_expected :: "string \<Rightarrow> (string \<times> bool) list \<Rightarrow> dir_entry \<Rightarrow> bool" where
  "entry_expected subdir expected e =
     (case (map_of expected (de_Name e), de_Info e) of
        (Some isDir, Some (symlink, regular, permissions)) \<Rightarrow>
          de_IsDir e = isDir \<and>
          (if subdir = ''bin'' \<and> de_Name e \<noteq> ''node'' then symlink else isDir \<or> regular) \<and>
          (subdir = ''bin'' \<and> de_Name e = ''node'' \<longrightarrow> permissions div 64 mod 2 = 1)
      | _ \<Rightarrow> False)"

definition listed_as_expected :: "(string \<Rightarrow> dir_entry list option) \<Rightarrow> string \<Rightarrow> string \<times> (string \<times> bool) list \<Rightarrow> bool" where
  "listed_as_expected read_dir directory = (\<lambda>(subdir, expected).
     case read_dir (Join [directory, subdir]) of
       None \<Rightarrow> False
     | Some entries \<Rightarrow> length entries = length expected \<and> list_all (entry_expected subdir expected) entries)"

definition walked_as_expected :: "file_tree \<Rightarrow> string \<Rightarrow> string \<times> walked \<Rightarrow> bool" where
  "walked_as_expected ft directory = (\<lambda>(name, kind).
     case kind of
       WalkSymlink target \<Rightarrow>
         (case Rel directory name of
            Inl _ \<Rightarrow> False
          | Inr relative \<Rightarrow>
              nodeRuntimeLink relative \<noteq> [] \<and> target = Some (nodeRuntimeLink relative) \<and>
              (case ft_EvalSymlinks ft name of
                 Inl _ \<Rightarrow> False
               | Inr resolved \<Rightarrow>
                   (case Rel directory resolved of Inl _ \<Rightarrow> False | Inr within \<Rightarrow> within \<noteq> ''..'' \<and> \<not> HasPrefix within ''../'') \<and>
                   (case ft_Lstat ft resolved of LstatEntry kind' _ \<Rightarrow> kind' = RegularFile | _ \<Rightarrow> False)))
     | WalkDirectory \<Rightarrow> True
     | WalkRegular \<Rightarrow> True
     | _ \<Rightarrow> False)"

definition runtime_layout :: "provision_world \<Rightarrow> build_history \<Rightarrow> string \<Rightarrow> bool" where
  "runtime_layout w h directory \<longleftrightarrow>
     list_all (listed_as_expected (pw_ReadDir w h) directory) expected_layout \<and>
     list_all (walked_as_expected (bn_tree (bw_boundary (pw_build w) h)) directory) (pw_WalkDir w h directory)"

definition verifyNodeRuntimeLayout :: "provision_world \<Rightarrow> string \<Rightarrow> unit step" where
  "verifyNodeRuntimeLayout w directory h =
     (if runtime_layout w h directory then Inr () else Inl (nodeProvisionFailure ''layout-violation''), h @ [Consulted directory])"

section \<open>Provisioning Node.js\<close>

definition maxNodeDistribution :: nat where "maxNodeDistribution = 128 * 2 ^ 20"
definition maxNPMDistribution :: nat where "maxNPMDistribution = 64 * 2 ^ 20"

definition download_step :: "provision_world \<Rightarrow> string \<Rightarrow> nat \<Rightarrow> go_error \<Rightarrow> string step" where
  "download_step w rawURL maximum err =
     bind_step (active_step w err) (\<lambda>_.
     bind_step (as_failure err (fetch_step (pw_build w) rawURL maximum ''application/octet-stream'')) (\<lambda>encoded.
     return_step (if length encoded > maximum then Inl err else Inr encoded)))"

text \<open>A private directory below the resolved output directory.\<close>

definition private_step :: "provision_world \<Rightarrow> string \<Rightarrow> string \<Rightarrow> go_error \<Rightarrow> string step" where
  "private_step w outputDirectory pattern err =
     (if outputDirectory = [] then return_step (Inl err)
      else
        bind_step (mkdirall_step w outputDirectory err) (\<lambda>_.
        bind_step (look_step (pw_build w) outputDirectory (\<lambda>env.
            case bind_result (ft_Abs (bn_tree env) outputDirectory) (ft_EvalSymlinks (bn_tree env)) of
              Inl _ \<Rightarrow> Inl err | Inr root \<Rightarrow> Inr root)) (\<lambda>root h.
        case pw_MkdirTemp w h root pattern of
          None \<Rightarrow> (Inl err, h @ [Consulted root])
        | Some private \<Rightarrow> (Inr private, h @ [MadeDirectory private]))))"

definition manifest_version :: "string \<Rightarrow> string option" where
  "manifest_version encoded =
     (case parseStrict encoded of
        Inr (JObj members) \<Rightarrow>
          (case map_of members ''version'' of Some (JString version) \<Rightarrow> Some version | Some JNull \<Rightarrow> Some [] | _ \<Rightarrow> None)
      | _ \<Rightarrow> None)"

definition version_at :: "string \<Rightarrow> string \<Rightarrow> go_error \<Rightarrow> boundary_env \<Rightarrow> unit result" where
  "version_at path version err env =
     (case readBoundedRegularFile (bn_tree env) path maxManifestSize of
        Inl _ \<Rightarrow> Inl err
      | Inr encoded \<Rightarrow> if manifest_version encoded = Some version then Inr () else Inl err)"

definition node_failure :: "'a step \<Rightarrow> 'a step" where
  "node_failure m h =
     (case m h of
        (Inr x, h') \<Rightarrow> (Inr x, h')
      | (Inl err, h') \<Rightarrow>
          (Inl (nodeProvisionFailure (if err = errNodeLayout then ''layout-violation'' else ''archive-unsafe'')), h'))"

definition node_inside :: "provision_world \<Rightarrow> archives \<Rightarrow> NodeRuntime \<Rightarrow> string \<Rightarrow> string \<Rightarrow> string step" where
  "node_inside w ar pin encoded private =
     bind_step (node_failure (extractNodeRuntime w ar encoded private)) (\<lambda>name.
     let runtimeRoot = Join [private, name]; mismatch = nodeProvisionFailure ''version-mismatch'' in
     bind_step (verifyNodeRuntimeLayout w runtimeRoot) (\<lambda>_.
     if name \<noteq> ''node-v'' @ nr_NodeVersion pin @ ''-linux-x64'' then return_step (Inl mismatch)
     else
       bind_step (look_step (pw_build w) runtimeRoot
           (version_at (Join [runtimeRoot, ''lib/node_modules/npm/package.json'']) (nr_NPMVersion pin) mismatch)) (\<lambda>_.
       return_step (Inr (Join [private, name, ''bin''])))))"

definition linux_artifact :: "NodeRuntime \<Rightarrow> NodeArtifact" where
  "linux_artifact pin =
     (case map_of (nr_Artifacts pin) ''linux-x64'' of None \<Rightarrow> \<lparr>na_URL = [], na_SHA256 = []\<rparr> | Some artifact \<Rightarrow> artifact)"

definition provisionNode :: "provision_world \<Rightarrow> archives \<Rightarrow> string \<Rightarrow> NodeRuntime \<Rightarrow> string step" where
  "provisionNode w ar outputDirectory pin =
     bind_step (download_step w (na_URL (linux_artifact pin)) maxNodeDistribution (nodeProvisionFailure ''download'')) (\<lambda>encoded.
     if SHA256_String (SumSHA256 encoded) \<noteq> na_SHA256 (linux_artifact pin) then
       return_step (Inl (nodeProvisionFailure ''digest-mismatch''))
     else
       bind_step (private_step w outputDirectory ''node-provision-'' (nodeProvisionFailure ''archive-unsafe'')) (\<lambda>private.
       removing w private ''remove partial Node.js provisioning directory failed'' (node_inside w ar pin encoded private)))"

definition ProvisionNode :: "provision_world \<Rightarrow> archives \<Rightarrow> string \<Rightarrow> string \<Rightarrow> string step" where
  "ProvisionNode w ar runtimeData outputDirectory =
     (case decodeNodeRuntimePair runtimeData of
        Inl _ \<Rightarrow> return_step (Inl (nodeProvisionFailure ''download''))
      | Inr pin \<Rightarrow> provisionNode w ar outputDirectory pin)"

section \<open>Provisioning npm\<close>

definition npm_entry :: "string list \<Rightarrow> tar_header \<Rightarrow> placement result" where
  "npm_entry seen header =
     (let name = entry_name header in
      if (name \<noteq> ''package'' \<or> th_Typeflag header \<noteq> TypeDir) \<and> validateArchivePath name \<noteq> None then
        Inl (ErrText ''path'' [name])
      else if name \<in> set seen \<or> length seen \<ge> maxPackedFileCount then
        Inl (ErrText ''duplicate archive entry or entry limit exceeded'' [])
      else
        (case th_Typeflag header of
           TypeDir \<Rightarrow> Inr PlaceDirectory
         | TypeReg \<Rightarrow>
             if beyond_limit header then Inl (ErrText ''archive exceeds extraction size limit'' []) else Inr (PlaceFile private_file)
         | _ \<Rightarrow> Inl (ErrText ''unsupported archive entry type'' [])))"

fun npm_entries :: "provision_world \<Rightarrow> string \<Rightarrow> string list \<Rightarrow> tar_header list \<times> bool \<Rightarrow> (unit \<times> string list) step" where
  "npm_entries w directory seen ([], clean_end) =
     bind_step (active_step w (ErrText ''context'' [])) (\<lambda>_.
     return_step (if clean_end then Inr ((), seen) else Inl (ErrText ''tar'' [])))"
| "npm_entries w directory seen (header # headers, clean_end) =
     bind_step (active_step w (ErrText ''context'' [])) (\<lambda>_.
     bind_step (return_step (npm_entry seen header)) (\<lambda>placement.
     bind_step (place_step w directory header placement (ErrText ''place'' [])) (\<lambda>_.
     npm_entries w directory (entry_name header # seen) (headers, clean_end))))"

definition extractNPMDistribution :: "provision_world \<Rightarrow> archives \<Rightarrow> string \<Rightarrow> string \<Rightarrow> unit step" where
  "extractNPMDistribution w ar encoded directory = extract_archive w ar encoded directory (npm_entries w directory [])"

text \<open>A POSIX single-quoted word; a quote inside is closed, written in double quotes and opened again.\<close>

definition single_quoted :: "string \<Rightarrow> string" where
  "single_quoted text' = [CHR 0x27] @ ReplaceAll text' [CHR 0x27] [CHR 0x27, CHR 0x22, CHR 0x27, CHR 0x22, CHR 0x27] @ [CHR 0x27]"

definition launcher_script :: "string \<Rightarrow> string \<Rightarrow> string" where
  "launcher_script node cli =
     ''#!/bin/sh'' @ [CHR 0x0A] @ ''exec '' @ single_quoted node @ '' '' @ single_quoted cli @ '' '' @ [CHR 0x22] @ ''$@'' @ [CHR 0x22, CHR 0x0A]"

definition node_at :: "go_error \<Rightarrow> boundary_env \<Rightarrow> string result" where
  "node_at err env =
     (case bn_LookPath env ''node'' of
        None \<Rightarrow> Inl err
      | Some node \<Rightarrow>
          (case bind_result (ft_Abs (bn_tree env) node) (ft_EvalSymlinks (bn_tree env)) of Inl _ \<Rightarrow> Inl err | Inr real \<Rightarrow> Inr real))"

definition launcher_step :: "provision_world \<Rightarrow> string \<Rightarrow> string \<Rightarrow> go_error \<Rightarrow> unit step" where
  "launcher_step w path script err h =
     (if pw_Create w h path private_program then (Inr (), h @ [Placed path private_program script])
      else (Inl err, h @ [Consulted path]))"

definition npm_inside :: "provision_world \<Rightarrow> archives \<Rightarrow> PublishNPM \<Rightarrow> string \<Rightarrow> string \<Rightarrow> string step" where
  "npm_inside w ar pin encoded private =
     (let unsafe = npmProvisionFailure ''archive-unsafe''; mismatch = npmProvisionFailure ''version-mismatch'';
          cli = Join [private, ''package'', ''bin'', ''npm-cli.js'']; launcher = Join [private, ''npm''] in
      bind_step (as_failure unsafe (extractNPMDistribution w ar encoded private)) (\<lambda>_.
      bind_step (look_step (pw_build w) private
          (version_at (Join [private, ''package'', ''package.json'']) (pn_Version pin) mismatch)) (\<lambda>_.
      bind_step (look_step (pw_build w) cli (\<lambda>env.
          case ft_Lstat (bn_tree env) cli of LstatEntry RegularFile _ \<Rightarrow> Inr () | _ \<Rightarrow> Inl mismatch)) (\<lambda>_.
      bind_step (look_step (pw_build w) ''node'' (node_at mismatch)) (\<lambda>node.
      bind_step (launcher_step w launcher (launcher_script node cli) unsafe) (\<lambda>_.
      return_step (Inr launcher)))))))"

definition pinned_sha512 :: "PublishNPM \<Rightarrow> string option" where
  "pinned_sha512 pin =
     (case b64_decode_strict (TrimPrefix (pn_Integrity pin) ''sha512-'') of
        None \<Rightarrow> None
      | Some decoded \<Rightarrow> if length decoded \<noteq> 64 then None else Some (hex_encode decoded))"

definition provisionNPM :: "provision_world \<Rightarrow> archives \<Rightarrow> string \<Rightarrow> PublishNPM \<Rightarrow> string step" where
  "provisionNPM w ar outputDirectory pin =
     bind_step (download_step w (pn_TarballURL pin) maxNPMDistribution (npmProvisionFailure ''download'')) (\<lambda>encoded.
     if pinned_sha512 pin \<noteq> Some (SHA512_String (SumSHA512 encoded)) then
       return_step (Inl (npmProvisionFailure ''digest-mismatch''))
     else
       bind_step (private_step w outputDirectory ''npm-provision-'' (npmProvisionFailure ''archive-unsafe'')) (\<lambda>private.
       removing w private ''remove partial npm provisioning directory failed'' (npm_inside w ar pin encoded private)))"

definition ProvisionNPM :: "provision_world \<Rightarrow> archives \<Rightarrow> string \<Rightarrow> string \<Rightarrow> string step" where
  "ProvisionNPM w ar publishData outputDirectory =
     (case decodePublishPin publishData of
        Inl _ \<Rightarrow> return_step (Inl (npmProvisionFailure ''download''))
      | Inr pin \<Rightarrow> provisionNPM w ar outputDirectory pin)"

section \<open>The executing pair\<close>

definition observed_step :: "provision_world \<Rightarrow> string \<Rightarrow> string list \<Rightarrow> string \<Rightarrow> string step" where
  "observed_step w root environment name =
     bind_step (lookup_step (pw_build w) name name) (\<lambda>path.
       command_step (pw_build w) root path environment [''--version''] [])"

definition AssertToolchainPair :: "provision_world \<Rightarrow> string \<Rightarrow> bool \<Rightarrow> unit step" where
  "AssertToolchainPair w runtimeData nodeOnly =
     (let mismatch = ErrText idToolchainPairMismatch [] in
      case decodeNodeRuntimePair runtimeData of
        Inl _ \<Rightarrow> return_step (Inl mismatch)
      | Inr pair \<Rightarrow>
          as_failure mismatch (bind_step (tempdir_step (pw_build w)) (\<lambda>root.
            deferred (\<lambda>_. [root])
              (bind_step (controlledEnvironment (pw_build w) root) (\<lambda>environment.
               bind_step (observed_step w root environment ''node'') (\<lambda>observedNode.
               if TrimPrefix observedNode ''v'' \<noteq> nr_NodeVersion pair then return_step (Inl mismatch)
               else if nodeOnly then return_step (Inr ())
               else
                 bind_step (observed_step w root environment ''npm'') (\<lambda>observedNPM.
                 return_step (if observedNPM \<noteq> nr_NPMVersion pair then Inl mismatch else Inr ()))))))))"

section \<open>What a step may add to the history\<close>

text \<open>Nothing but looking and making directories.\<close>

definition made_only :: "build_event \<Rightarrow> bool" where
  "made_only e = (case e of MadeDirectory _ \<Rightarrow> True | Consulted _ \<Rightarrow> True | _ \<Rightarrow> False)"

text \<open>What provisioning may do once the bytes are authentic.  Files for the owner alone are reached by ordinary elements below
  the private directory; for npm there is its launcher and no link, for Node.js there are the links of its three
  launchers; no command is run.\<close>

definition ordinary_path :: "string \<Rightarrow> bool" where
  "ordinary_path name \<longleftrightarrow> (\<exists>parts. parts \<noteq> [] \<and> list_all plain_element parts \<and> name = join_with ''/'' parts)"

definition runtime_links :: "(string \<times> string) set" where
  "runtime_links =
     {(''bin/npm'', ''../lib/node_modules/npm/bin/npm-cli.js''), (''bin/npx'', ''../lib/node_modules/npm/bin/npx-cli.js''),
      (''bin/corepack'', ''../lib/node_modules/corepack/dist/corepack.js'')}"

definition runtime_link :: "string \<Rightarrow> string \<Rightarrow> bool" where
  "runtime_link name target \<longleftrightarrow> (\<exists>root link. plain_element root \<and> name = root @ ''/'' @ link \<and> (link, target) \<in> runtime_links)"

lemma nodeRuntimeLink_iff: "target \<noteq> [] \<Longrightarrow> nodeRuntimeLink link = target \<longleftrightarrow> (link, target) \<in> runtime_links"
  by (auto simp: nodeRuntimeLink_def runtime_links_def)

definition place_ok :: "bool \<Rightarrow> string \<Rightarrow> build_event \<Rightarrow> bool" where
  "place_ok for_npm directory e =
     (case e of
        Ran _ \<Rightarrow> False
      | Wrote _ _ \<Rightarrow> False
      | Placed path mode _ \<Rightarrow>
          mode \<in> {384, 448} \<and>
          (for_npm \<and> path = Join [directory, ''npm''] \<or> (\<exists>name. path = directory @ ''/'' @ name \<and> ordinary_path name))
      | Linked path target \<Rightarrow> \<not> for_npm \<and> (\<exists>name. path = directory @ ''/'' @ name \<and> runtime_link name target)
      | Removed path \<Rightarrow> path = directory
      | _ \<Rightarrow> True)"

text \<open>What changes files or runs something, in order.\<close>

definition effects :: "build_history \<Rightarrow> build_event list" where
  "effects = filter (\<lambda>e. case e of Ran _ \<Rightarrow> True | Wrote _ _ \<Rightarrow> True | Placed _ _ _ \<Rightarrow> True | Linked _ _ \<Rightarrow> True | _ \<Rightarrow> False)"

lemma effects_simps [simp]:
  "effects [] = []" "effects (Ran cmd # es) = Ran cmd # effects es" "effects (Wrote path d # es) = Wrote path d # effects es"
  "effects (Placed path mode d # es) = Placed path mode d # effects es"
  "effects (Linked path target # es) = Linked path target # effects es"
  "effects (MadeDirectory path # es) = effects es" "effects (Removed path # es) = effects es"
  "effects (Consulted what # es) = effects es" "effects (es @ fs) = effects es @ effects fs"
  by (simp_all add: effects_def)

lemma effects_made: "list_all made_only es \<Longrightarrow> effects es = []"
  by (induction es) (auto simp: made_only_def split: build_event.splits)

text \<open>A step that unpacks a list of files: when it fails, some first part of them, and when it does not, one of the given
  lists.\<close>

definition unpacks :: "build_event list \<Rightarrow> build_event list set \<Rightarrow> 'a step \<Rightarrow> bool" where
  "unpacks files ends m \<longleftrightarrow>
     (\<forall>h. \<exists>fs. snd (m h) = h @ fs \<and>
        (case fst (m h) of Inl _ \<Rightarrow> \<exists>rest. effects fs @ rest = files | Inr _ \<Rightarrow> effects fs \<in> ends))"

lemma unpacks_made: "keeps made_only m \<Longrightarrow> unpacks [] {[]} m"
  unfolding unpacks_def
proof (intro allI)
  fix h
  assume "keeps made_only m"
  then obtain es where "snd (m h) = h @ es" "list_all made_only es" unfolding keeps_def by blast
  with effects_made [of es] show "\<exists>fs. snd (m h) = h @ fs \<and>
      (case fst (m h) of Inl _ \<Rightarrow> \<exists>rest. effects fs @ rest = [] | Inr _ \<Rightarrow> effects fs \<in> {[]})"
    by (intro exI [of _ es]) (simp split: sum.split)
qed

lemma unpacks_fails:
  assumes "unpacks files ends m" "m h = (Inl err, h')"
  shows "\<exists>fs rest. h' = h @ fs \<and> effects fs @ rest = files"
proof -
  from assms(1) obtain fs where fs: "snd (m h) = h @ fs"
    "case fst (m h) of Inl _ \<Rightarrow> \<exists>rest. effects fs @ rest = files | Inr _ \<Rightarrow> effects fs \<in> ends"
    unfolding unpacks_def by blast
  with assms(2) show ?thesis by auto
qed

lemma unpacks_succeeds:
  assumes "unpacks files ends m" "m h = (Inr x, h')"
  shows "\<exists>fs. h' = h @ fs \<and> effects fs \<in> ends"
proof -
  from assms(1) obtain fs where fs: "snd (m h) = h @ fs"
    "case fst (m h) of Inl _ \<Rightarrow> \<exists>rest. effects fs @ rest = files | Inr _ \<Rightarrow> effects fs \<in> ends"
    unfolding unpacks_def by blast
  with assms(2) show ?thesis by auto
qed

lemma unpacks_bind:
  assumes m: "unpacks files {files} m" and f: "\<And>x h h'. m h = (Inr x, h') \<Longrightarrow> unpacks others ends (f x)"
  shows "unpacks (files @ others) ((@) files ` ends) (bind_step m f)"
  unfolding unpacks_def
proof (intro allI)
  fix h
  obtain r h1 where run: "m h = (r, h1)" by (cases "m h")
  show "\<exists>fs. snd (bind_step m f h) = h @ fs \<and>
    (case fst (bind_step m f h) of Inl _ \<Rightarrow> \<exists>rest. effects fs @ rest = files @ others | Inr _ \<Rightarrow> effects fs \<in> (@) files ` ends)"
  proof (cases r)
    case (Inl err)
    with unpacks_fails [OF m, of h] run obtain fs rest where "h1 = h @ fs" "effects fs @ rest = files" by blast
    with Inl run show ?thesis by (intro exI [of _ fs]) (auto simp: bind_step_def)
  next
    case (Inr x)
    with unpacks_succeeds [OF m, of h] run obtain fs where fs: "h1 = h @ fs" "effects fs = files" by blast
    from Inr run have whole: "bind_step m f h = f x h1" by (simp add: bind_step_def)
    from f [of h x h1] Inr run have "unpacks others ends (f x)" by simp
    then obtain gs where "snd (f x h1) = h1 @ gs"
      "case fst (f x h1) of Inl _ \<Rightarrow> \<exists>rest. effects gs @ rest = others | Inr _ \<Rightarrow> effects gs \<in> ends"
      unfolding unpacks_def by blast
    with fs whole show ?thesis
      by (intro exI [of _ "fs @ gs"]) (auto split: sum.splits)
  qed
qed

lemma unpacks_after:
  "keeps made_only m \<Longrightarrow> (\<And>x h h'. m h = (Inr x, h') \<Longrightarrow> unpacks files ends (f x)) \<Longrightarrow> unpacks files ends (bind_step m f)"
  using unpacks_bind [of "[]" m files ends f] unpacks_made [of m] by simp

lemma unpacks_then: "unpacks files {files} m \<Longrightarrow> (\<And>x. keeps made_only (f x)) \<Longrightarrow> unpacks files {files} (bind_step m f)"
  using unpacks_bind [of files m "[]" "{[]}" f] unpacks_made [of "f _"] by simp

lemma keeps_made: "(\<And>e. made_only e \<Longrightarrow> P e) \<Longrightarrow> keeps made_only m \<Longrightarrow> keeps P m"
  by (fastforce simp: keeps_def list_all_iff)

lemma made_place: "made_only e \<Longrightarrow> place_ok for_npm directory e"
  by (cases e) (simp_all add: made_only_def place_ok_def)

lemma keeps_place: "keeps made_only m \<Longrightarrow> keeps (place_ok for_npm directory) m"
  by (rule keeps_made [OF made_place])

lemma keeps_made_steps:
  "keeps made_only (return_step r)" "keeps made_only (look_step v what see)" "keeps made_only (mkdirall_step w path err)"
  "keeps made_only (active_step w err)" "keeps made_only (fetch_step v rawURL maximum accept)"
  "keeps made_only (verifyNodeRuntimeLayout w path)"
  by (simp_all add: keeps_def made_only_def return_step_def look_step_def mkdirall_step_def active_step_def fetch_step_def
      verifyNodeRuntimeLayout_def)

lemma unpacks_failure:
  "unpacks files ends m \<Longrightarrow> unpacks files ends (as_failure err m)" "unpacks files ends m \<Longrightarrow> unpacks files ends (node_failure m)"
proof -
  assume m: "unpacks files ends m"
  have same: "snd (m' h) = snd (m h) \<and> isl (fst (m' h)) = isl (fst (m h))" if "m' \<in> {as_failure err m, node_failure m}" for h m'
    using that by (auto simp: as_failure_def node_failure_def split: prod.splits sum.splits)
  show "unpacks files ends (as_failure err m)" "unpacks files ends (node_failure m)"
    using m same [of "as_failure err m"] same [of "node_failure m"]
    unfolding unpacks_def by (auto simp: sum.case_eq_if)
qed

lemma keeps_failure: "keeps P m \<Longrightarrow> keeps P (as_failure err m)" "keeps P m \<Longrightarrow> keeps P (node_failure m)"
proof -
  have "snd (as_failure err m h) = snd (m h)" "snd (node_failure m h) = snd (m h)" for h
    by (simp_all add: as_failure_def node_failure_def split: prod.split sum.split)
  then show "keeps P m \<Longrightarrow> keeps P (as_failure err m)" "keeps P m \<Longrightarrow> keeps P (node_failure m)"
    by (simp_all add: keeps_def)
qed

lemma keeps_files:
  "(\<And>d. P (Placed path mode d)) \<Longrightarrow> P (Consulted path) \<Longrightarrow> keeps P (copy_step w path mode header err)"
  "(\<And>d. P (Placed path private_program d)) \<Longrightarrow> P (Consulted path) \<Longrightarrow> keeps P (launcher_step w path script err)"
  "P (Linked path target) \<Longrightarrow> P (Consulted path) \<Longrightarrow> keeps P (symlink_step w path target err)"
  by (simp_all add: keeps_def copy_step_def launcher_step_def symlink_step_def Let_def)

text \<open>Where an accepted entry goes.\<close>

definition placement_ok :: "bool \<Rightarrow> string \<Rightarrow> placement \<Rightarrow> bool" where
  "placement_ok for_npm name placement \<longleftrightarrow>
     (case placement of
        PlaceDirectory \<Rightarrow> True
      | PlaceFile mode \<Rightarrow> mode \<in> {384, 448} \<and> ordinary_path name
      | PlaceLink target \<Rightarrow> \<not> for_npm \<and> runtime_link name target)"

lemma place_step_keeps:
  assumes "placement_ok for_npm (entry_name header) placement"
  shows "keeps (place_ok for_npm directory) (place_step w directory header placement err)"
  using assms
  by (auto simp: place_step_def Let_def placement_ok_def place_ok_def below_def split: placement.splits
      intro!: keeps_bind keeps_files keeps_place [OF keeps_made_steps(3)])

text \<open>What an entry of the archive becomes, for Node.js and for npm: a regular file has exactly its bytes and may be executed
  by its owner, or not; for npm nothing may.\<close>

definition node_file :: "string \<Rightarrow> tar_header \<Rightarrow> build_event list" where
  "node_file directory header =
     (case th_Typeflag header of
        TypeReg \<Rightarrow> [Placed (directory @ ''/'' @ th_Name header) (if th_Mode header div 64 mod 2 = 1 then 448 else 384)
          (take (nat (th_Size header)) (th_Data header))]
      | TypeSymlink target \<Rightarrow> [Linked (directory @ ''/'' @ th_Name header) target]
      | _ \<Rightarrow> [])"

definition npm_file :: "string \<Rightarrow> tar_header \<Rightarrow> build_event list" where
  "npm_file directory header =
     (if th_Typeflag header = TypeReg
      then [Placed (directory @ ''/'' @ th_Name header) 384 (take (nat (th_Size header)) (th_Data header))] else [])"

definition placed_file :: "string \<Rightarrow> tar_header \<Rightarrow> placement \<Rightarrow> build_event list" where
  "placed_file directory header placement =
     (case placement of
        PlaceDirectory \<Rightarrow> []
      | PlaceFile mode \<Rightarrow> [Placed (below directory (entry_name header)) mode (take (nat (th_Size header)) (th_Data header))]
      | PlaceLink target \<Rightarrow> [Linked (below directory (entry_name header)) target])"

lemma place_step_unpacks:
  "unpacks (placed_file directory header placement) {placed_file directory header placement}
     (place_step w directory header placement err)"
proof -
  have "unpacks [Placed path mode (take (nat (th_Size header)) (th_Data header))]
      {[Placed path mode (take (nat (th_Size header)) (th_Data header))]} (copy_step w path mode header err)" for path mode
    by (simp add: unpacks_def copy_step_def Let_def)
  moreover have "unpacks [Linked path target] {[Linked path target]} (symlink_step w path target err)" for path target
    by (simp add: unpacks_def symlink_step_def)
  ultimately show ?thesis
    by (auto simp: place_step_def Let_def placed_file_def split: placement.split
        intro!: unpacks_made keeps_made_steps unpacks_after)
qed

lemma node_entry_file: "node_entry rootName seen header = Inr placement \<Longrightarrow> placed_file directory header placement = node_file directory header"
  by (auto simp: node_entry_def Let_def placed_file_def node_file_def below_def entry_name_def private_file_def private_program_def
      split: if_splits tar_type.splits)

lemma npm_entry_file: "npm_entry seen header = Inr placement \<Longrightarrow> placed_file directory header placement = npm_file directory header"
  by (auto simp: npm_entry_def Let_def placed_file_def npm_file_def below_def entry_name_def private_file_def
      split: if_splits tar_type.splits)

lemma node_entry_ok:
  assumes "node_entry rootName seen header = Inr placement"
  shows "placement_ok False (entry_name header) placement"
proof -
  let ?name = "entry_name header"
  let ?parts = "split_on (CHR ''/'') ?name"
  have name: "?name = join_with ''/'' ?parts" by (simp add: join_split_on)
  have none: "\<not> list_ex (\<lambda>part. part = [] \<or> part = ''.'' \<or> part = ''..'') ?parts"
    and other: "length ?parts = 1 \<Longrightarrow> th_Typeflag header = TypeDir"
    using assms by (auto simp: node_entry_def Let_def split: if_splits)
  have plain: "list_all plain_element ?parts"
    using none split_on_elements [of "CHR ''/''" ?name]
    by (auto simp: list_all_iff list_ex_iff plain_element_def clean_element_def)
  show ?thesis
  proof (cases "th_Typeflag header")
    case TypeReg
    have "ordinary_path ?name" using plain name split_on_nonempty unfolding ordinary_path_def by blast
    with assms TypeReg show ?thesis
      by (auto simp: node_entry_def Let_def placement_ok_def private_file_def private_program_def split: if_splits)
  next
    case (TypeSymlink linkname)
    obtain root rest where parts: "?parts = root # rest" using split_on_nonempty by (metis list.exhaust)
    with other TypeSymlink have "rest \<noteq> []" by auto
    with name parts have whole: "?name = root @ ''/'' @ join_with ''/'' rest" by (simp add: join_with_Cons)
    then have "TrimPrefix ?name (root @ ''/'') = join_with ''/'' rest"
      using TrimPrefix_append [of "root @ ''/''" "join_with ''/'' rest"] by simp
    with assms TypeSymlink parts obtain target where target: "placement = PlaceLink target" "target \<noteq> []"
      "nodeRuntimeLink (join_with ''/'' rest) = target"
      by (auto simp: node_entry_def Let_def split: if_splits)
    moreover have "plain_element root" using plain parts by simp
    ultimately show ?thesis
      using whole nodeRuntimeLink_iff [OF target(2)] by (auto simp: placement_ok_def runtime_link_def)
  qed (use assms in \<open>auto simp: node_entry_def Let_def placement_ok_def split: if_splits\<close>)
qed

lemma npm_entry_ok:
  assumes "npm_entry seen header = Inr placement"
  shows "placement_ok True (entry_name header) placement"
proof (cases "th_Typeflag header = TypeReg")
  case True
  with assms have "package_path (entry_name header)" and placement: "placement = PlaceFile private_file"
    by (auto simp: npm_entry_def Let_def validateArchivePath_None [symmetric] split: if_splits)
  then obtain es where "entry_name header = ''package/'' @ join_with ''/'' es" "es \<noteq> []" "list_all plain_element es"
    by (auto simp: package_path_def)
  then have "entry_name header = join_with ''/'' (''package'' # es)" "list_all plain_element (''package'' # es)"
    by (simp_all add: join_with_Cons plain_element_def clean_element_def)
  then have "ordinary_path (entry_name header)" unfolding ordinary_path_def by blast
  with placement show ?thesis by (simp add: placement_ok_def private_file_def)
next
  case False
  with assms have "placement = PlaceDirectory"
    by (cases "th_Typeflag header") (auto simp: npm_entry_def Let_def split: if_splits)
  then show ?thesis by (simp add: placement_ok_def)
qed

lemma node_entries_keeps: "keeps (place_ok False directory) (node_entries w directory rootName seen (headers, clean_end))"
proof (induction headers arbitrary: rootName seen)
  case (Cons header headers)
  show ?case
    unfolding node_entries.simps
    by (intro keeps_bind keeps_place [OF keeps_made_steps(4)] keeps_place [OF keeps_made_steps(1)] Cons.IH place_step_keeps)
      (auto dest: node_entry_ok)
qed (simp add: keeps_bind keeps_place keeps_made_steps)

lemma npm_entries_keeps: "keeps (place_ok True directory) (npm_entries w directory seen (headers, clean_end))"
proof (induction headers arbitrary: seen)
  case (Cons header headers)
  show ?case
    unfolding npm_entries.simps
    by (intro keeps_bind keeps_place [OF keeps_made_steps(4)] keeps_place [OF keeps_made_steps(1)] Cons.IH place_step_keeps)
      (auto dest: npm_entry_ok)
qed (simp add: keeps_bind keeps_place keeps_made_steps)

lemma node_entries_unpacks:
  "unpacks (concat (map (node_file directory) headers)) {concat (map (node_file directory) headers)}
     (node_entries w directory rootName seen (headers, clean_end))"
proof (induction headers arbitrary: rootName seen)
  case (Cons header headers)
  let ?name = "entry_name header"
  have place: "unpacks (node_file directory header) {node_file directory header}
      (place_step w directory header placement (ErrText ''place'' []))"
    if "node_entry rootName seen header = Inr placement" for placement
    using place_step_unpacks [of directory header placement w] node_entry_file [OF that] by simp
  have step: "unpacks (node_file directory header @ concat (map (node_file directory) headers))
      {node_file directory header @ concat (map (node_file directory) headers)}
      (bind_step (place_step w directory header placement (ErrText ''place'' [])) (\<lambda>_.
         node_entries w directory (hd (split_on (CHR ''/'') ?name)) (?name # seen) (headers, clean_end)))"
    if "node_entry rootName seen header = Inr placement" for placement
    using unpacks_bind [OF place [OF that] Cons.IH] by simp
  show ?case
    unfolding node_entries.simps list.map concat.simps
    by (intro unpacks_after keeps_made_steps step) simp
qed (simp add: unpacks_made keeps_bind keeps_made_steps)

lemma npm_entries_unpacks:
  "unpacks (concat (map (npm_file directory) headers)) {concat (map (npm_file directory) headers)}
     (npm_entries w directory seen (headers, clean_end))"
proof (induction headers arbitrary: seen)
  case (Cons header headers)
  have place: "unpacks (npm_file directory header) {npm_file directory header}
      (place_step w directory header placement (ErrText ''place'' []))"
    if "npm_entry seen header = Inr placement" for placement
    using place_step_unpacks [of directory header placement w] npm_entry_file [OF that] by simp
  have step: "unpacks (npm_file directory header @ concat (map (npm_file directory) headers))
      {npm_file directory header @ concat (map (npm_file directory) headers)}
      (bind_step (place_step w directory header placement (ErrText ''place'' [])) (\<lambda>_.
         npm_entries w directory (entry_name header # seen) (headers, clean_end)))"
    if "npm_entry seen header = Inr placement" for placement
    using unpacks_bind [OF place [OF that] Cons.IH] by simp
  show ?case
    unfolding npm_entries.simps list.map concat.simps
    by (intro unpacks_after keeps_made_steps step) simp
qed (simp add: unpacks_made keeps_bind keeps_made_steps)

text \<open>The files of an archive: one after the other, those of the entries of these very bytes.\<close>

definition archive_files :: "archives \<Rightarrow> string \<Rightarrow> (tar_header \<Rightarrow> build_event list) \<Rightarrow> build_event list" where
  "archive_files ar encoded files =
     (case ar_gunzip ar encoded of
        None \<Rightarrow> []
      | Some stream \<Rightarrow> concat (map files (fst (ar_untar ar (LimitReader stream (nat maxUnpackedSize + 1))))))"

definition drained :: "byte_stream \<Rightarrow> 'a \<times> string list \<Rightarrow> 'a step" where
  "drained stream = (\<lambda>(x, seen). return_step
     (if length (fst stream) \<ge> nat maxUnpackedSize + 1 then Inl (ErrText ''oversized'' [])
      else if \<not> snd stream then Inl (ErrText ''drain'' []) else if seen = [] then Inl (ErrText ''empty'' []) else Inr x))"

lemma extract_archive_run:
  "extract_archive w ar encoded directory entries h =
     (case ar_gunzip ar encoded of
        None \<Rightarrow> (Inl (ErrText ''gzip'' []), h)
      | Some stream \<Rightarrow>
          if \<not> pw_OpenRoot w h directory then (Inl (ErrText ''open root'' []), h)
          else bind_step (entries (packed_stream ar stream)) (drained stream) h)"
  by (simp add: extract_archive_def drained_def return_step_def split: option.split)

lemma keeps_drained: "keeps made_only (drained stream x)"
  by (simp add: drained_def split_beta keeps_made_steps)

lemma extract_keeps:
  assumes "\<And>archive. keeps (place_ok for_npm directory) (entries archive)"
  shows "keeps (place_ok for_npm directory) (extract_archive w ar encoded directory entries)"
proof -
  have "keeps (place_ok for_npm directory) (bind_step (entries archive) (drained stream))" for archive stream
    by (intro keeps_bind assms keeps_place [OF keeps_drained])
  then show ?thesis by (auto simp: keeps_def extract_archive_run split: option.split)
qed

lemma extract_unpacks:
  assumes "\<And>headers clean_end. unpacks (concat (map file headers)) {concat (map file headers)} (entries (headers, clean_end))"
  shows "unpacks (archive_files ar encoded file) {archive_files ar encoded file} (extract_archive w ar encoded directory entries)"
proof (cases "ar_gunzip ar encoded")
  case (Some stream)
  obtain headers clean_end where archive: "packed_stream ar stream = (headers, clean_end)" by (cases "packed_stream ar stream")
  have "unpacks (concat (map file headers)) {concat (map file headers)} (bind_step (entries (headers, clean_end)) (drained stream))"
    by (intro unpacks_then assms keeps_drained)
  moreover have "archive_files ar encoded file = concat (map file headers)"
    using archive Some by (simp add: archive_files_def packed_stream_def)
  ultimately show ?thesis using Some archive by (auto simp: unpacks_def extract_archive_run)
qed (simp add: unpacks_def extract_archive_run)

lemma extractNode_steps:
  "keeps (place_ok False directory) (extractNodeRuntime w ar encoded directory)"
  "unpacks (archive_files ar encoded (node_file directory)) {archive_files ar encoded (node_file directory)}
     (extractNodeRuntime w ar encoded directory)"
  unfolding extractNodeRuntime_def
  by (rule extract_keeps, simp add: split_paired_all node_entries_keeps) (rule extract_unpacks [OF node_entries_unpacks])

lemma extractNPM_steps:
  "keeps (place_ok True directory) (extractNPMDistribution w ar encoded directory)"
  "unpacks (archive_files ar encoded (npm_file directory)) {archive_files ar encoded (npm_file directory)}
     (extractNPMDistribution w ar encoded directory)"
  unfolding extractNPMDistribution_def
  by (rule extract_keeps, simp add: split_paired_all npm_entries_keeps) (rule extract_unpacks [OF npm_entries_unpacks])

lemma node_inside_steps:
  "keeps (place_ok False private) (node_inside w ar pin encoded private)"
  "unpacks (archive_files ar encoded (node_file private)) {archive_files ar encoded (node_file private)}
     (node_inside w ar pin encoded private)"
  unfolding node_inside_def Let_def
  by (intro keeps_bind keeps_failure extractNode_steps)
    (auto intro!: keeps_bind keeps_place keeps_made_steps unpacks_then unpacks_failure extractNode_steps)

lemma keeps_launcher: "keeps (place_ok True private) (launcher_step w (Join [private, ''npm'']) script err)"
  by (rule keeps_files(2)) (simp_all add: place_ok_def private_program_def)

lemma launcher_unpacks: "unpacks [] (range (\<lambda>s. [Placed path 448 s])) (launcher_step w path script err)"
  by (simp add: unpacks_def launcher_step_def private_program_def)

lemma npm_inside_steps:
  "keeps (place_ok True private) (npm_inside w ar pin encoded private)"
  "unpacks (archive_files ar encoded (npm_file private))
     ((@) (archive_files ar encoded (npm_file private)) ` range (\<lambda>s. [Placed (Join [private, ''npm'']) 448 s]))
     (npm_inside w ar pin encoded private)"
proof -
  let ?launcher = "Join [private, ''npm'']"
  have finish: "unpacks [] (range (\<lambda>s. [Placed ?launcher 448 s]))
      (bind_step (launcher_step w ?launcher script err) (\<lambda>_. return_step (Inr launcher)))" for script err launcher
    by (simp add: unpacks_def launcher_step_def private_program_def bind_step_def return_step_def)
  show "keeps (place_ok True private) (npm_inside w ar pin encoded private)"
    unfolding npm_inside_def Let_def
    by (intro keeps_bind keeps_failure extractNPM_steps keeps_launcher keeps_place [OF keeps_made_steps(1)]
        keeps_place [OF keeps_made_steps(2)])
  have rest: "unpacks [] (range (\<lambda>s. [Placed ?launcher 448 s])) (f u)"
    if "f = (\<lambda>_. bind_step (look_step (pw_build w) a a') (\<lambda>_. bind_step (look_step (pw_build w) b b') (\<lambda>_.
      bind_step (look_step (pw_build w) c c') (\<lambda>node. bind_step (launcher_step w ?launcher (script node) err) (\<lambda>_.
      return_step (Inr launcher))))))" for f a a' b b' c c' script err launcher u
    unfolding that by (intro unpacks_after keeps_made_steps finish)
  show "unpacks (archive_files ar encoded (npm_file private))
     ((@) (archive_files ar encoded (npm_file private)) ` range (\<lambda>s. [Placed (Join [private, ''npm'']) 448 s]))
     (npm_inside w ar pin encoded private)"
    unfolding npm_inside_def Let_def
    using unpacks_bind [OF unpacks_failure(1) [OF extractNPM_steps(2)] rest [OF refl]] by simp
qed

section \<open>What an accepted archive holds\<close>

text \<open>The bytes were decompressed and read to their end within the bound, and every file is all there.\<close>

definition complete_entry :: "tar_header \<Rightarrow> bool" where
  "complete_entry header \<longleftrightarrow>
     (if th_Typeflag header = TypeReg then 0 \<le> th_Size header \<and> th_Size header \<le> int (length (th_Data header)) \<and> th_Readable header
      else True)"

definition archive_read :: "archives \<Rightarrow> string \<Rightarrow> tar_header list \<Rightarrow> bool" where
  "archive_read ar encoded headers \<longleftrightarrow>
     (\<exists>stream. ar_gunzip ar encoded = Some stream \<and> snd stream \<and> length (fst stream) \<le> 2 ^ 30 \<and>
        ar_untar ar (LimitReader stream (2 ^ 30 + 1)) = (headers, True)) \<and>
     headers \<noteq> [] \<and> distinct (map entry_name headers) \<and> list_all complete_entry headers"

text \<open>An entry of the Node.js archive: below the one root, a directory, a file or one of the three links.\<close>

definition node_header :: "string \<Rightarrow> tar_header \<Rightarrow> bool" where
  "node_header rootName header \<longleftrightarrow>
     (\<exists>parts. list_all plain_element (rootName # parts) \<and> entry_name header = join_with ''/'' (rootName # parts) \<and>
        CHR 0x5C \<notin> set (entry_name header) \<and>
        (case th_Typeflag header of
           TypeDir \<Rightarrow> True
         | TypeReg \<Rightarrow> parts \<noteq> []
         | TypeSymlink target \<Rightarrow> (join_with ''/'' parts, target) \<in> runtime_links
         | TypeOther \<Rightarrow> False))"

definition npm_header :: "tar_header \<Rightarrow> bool" where
  "npm_header header \<longleftrightarrow>
     (case th_Typeflag header of
        TypeDir \<Rightarrow> entry_name header = ''package'' \<or> package_path (entry_name header)
      | TypeReg \<Rightarrow> package_path (entry_name header)
      | _ \<Rightarrow> False)"

lemma place_step_complete:
  assumes "place_step w directory header placement err h = (Inr u, h')"
    and "th_Typeflag header = TypeReg \<Longrightarrow> 0 \<le> th_Size header \<and> (\<exists>mode. placement = PlaceFile mode)"
  shows "complete_entry header"
proof (cases "th_Typeflag header = TypeReg")
  case True
  with assms(2) obtain mode where "placement = PlaceFile mode" "0 \<le> th_Size header" by blast
  with assms(1) True show ?thesis
    by (auto simp: place_step_def Let_def copy_step_def complete_entry_def split: if_splits)
qed (simp add: complete_entry_def)

lemma node_entry_header:
  assumes "node_entry rootName seen header = Inr placement"
  shows "node_header (hd (split_on (CHR ''/'') (entry_name header))) header \<and>
    (rootName = [] \<or> rootName = hd (split_on (CHR ''/'') (entry_name header))) \<and> entry_name header \<notin> set seen \<and>
    (th_Typeflag header = TypeReg \<longrightarrow> 0 \<le> th_Size header \<and> (\<exists>mode. placement = PlaceFile mode))"
proof -
  let ?name = "entry_name header"
  let ?parts = "split_on (CHR ''/'') ?name"
  have name: "?name = join_with ''/'' ?parts" by (simp add: join_split_on)
  have none: "\<not> list_ex (\<lambda>part. part = [] \<or> part = ''.'' \<or> part = ''..'') ?parts"
    and other: "length ?parts = 1 \<Longrightarrow> th_Typeflag header = TypeDir"
    and facts: "CHR 0x5C \<notin> set ?name" "rootName = [] \<or> rootName = hd ?parts" "?name \<notin> set seen"
    using assms by (auto simp: node_entry_def Let_def split: if_splits)
  have plain: "list_all plain_element ?parts"
    using none split_on_elements [of "CHR ''/''" ?name]
    by (auto simp: list_all_iff list_ex_iff plain_element_def clean_element_def)
  obtain root parts where parts: "?parts = root # parts" using split_on_nonempty by (metis list.exhaust)
  have kind: "case th_Typeflag header of TypeDir \<Rightarrow> True | TypeReg \<Rightarrow> parts \<noteq> []
    | TypeSymlink target \<Rightarrow> (join_with ''/'' parts, target) \<in> runtime_links | TypeOther \<Rightarrow> False"
  proof (cases "th_Typeflag header")
    case (TypeSymlink target)
    with other parts have "parts \<noteq> []" by auto
    with name parts have "?name = root @ ''/'' @ join_with ''/'' parts" by (simp add: join_with_Cons)
    then have "TrimPrefix ?name (root @ ''/'') = join_with ''/'' parts"
      using TrimPrefix_append [of "root @ ''/''" "join_with ''/'' parts"] by simp
    with assms TypeSymlink parts have "target \<noteq> []" "nodeRuntimeLink (join_with ''/'' parts) = target"
      by (auto simp: node_entry_def Let_def split: if_splits)
    with TypeSymlink nodeRuntimeLink_iff show ?thesis by simp
  qed (use assms other parts in \<open>auto simp: node_entry_def Let_def split: if_splits\<close>)
  have reg: "th_Typeflag header = TypeReg \<longrightarrow> 0 \<le> th_Size header \<and> (\<exists>mode. placement = PlaceFile mode)"
    using assms by (auto simp: node_entry_def Let_def beyond_limit_def split: if_splits)
  have "node_header root header"
    unfolding node_header_def using plain parts name facts(1) kind by (metis list.pred_inject(2))
  with parts facts reg show ?thesis by simp
qed

lemma npm_entry_header:
  assumes "npm_entry seen header = Inr placement"
  shows "npm_header header \<and> entry_name header \<notin> set seen \<and>
    (th_Typeflag header = TypeReg \<longrightarrow> 0 \<le> th_Size header \<and> (\<exists>mode. placement = PlaceFile mode))"
  using assms
  by (auto simp: npm_entry_def Let_def npm_header_def validateArchivePath_None [symmetric] beyond_limit_def
      split: if_splits tar_type.splits)

lemma node_header_root: "node_header rootName header \<Longrightarrow> rootName \<noteq> []"
  by (auto simp: node_header_def plain_element_def clean_element_def)

lemma node_entries_Inr:
  assumes "node_entries w directory rootName seen (headers, clean_end) h = (Inr (name, seen'), h')" "distinct seen"
  shows "clean_end \<and> seen' = rev (map entry_name headers) @ seen \<and> distinct seen' \<and> list_all complete_entry headers \<and>
    list_all (node_header name) headers \<and> (rootName \<noteq> [] \<or> headers = [] \<longrightarrow> name = rootName)"
  using assms
proof (induction headers arbitrary: rootName seen h)
  case (Cons header headers)
  let ?root = "hd (split_on (CHR ''/'') (entry_name header))"
  from Cons.prems(1) obtain placement u h1 h2 where
    entry: "node_entry rootName seen header = Inr placement"
    and place: "place_step w directory header placement (ErrText ''place'' []) h1 = (Inr u, h2)"
    and others: "node_entries w directory ?root (entry_name header # seen) (headers, clean_end) h2 = (Inr (name, seen'), h')"
    by auto
  note header = node_entry_header [OF entry]
  have root: "?root \<noteq> []" using header node_header_root by blast
  have fresh: "distinct (entry_name header # seen)" using Cons.prems(2) header by simp
  have "name = ?root" using Cons.IH [OF others fresh] root by blast
  moreover note Cons.IH [OF others fresh]
  moreover have "complete_entry header" by (rule place_step_complete [OF place]) (use header in blast)
  ultimately show ?case using header by (intro conjI impI) (blast | simp)+
qed (auto simp: active_step_def split: if_splits)

lemma npm_entries_Inr:
  assumes "npm_entries w directory seen (headers, clean_end) h = (Inr (u, seen'), h')" "distinct seen"
  shows "clean_end \<and> seen' = rev (map entry_name headers) @ seen \<and> distinct seen' \<and> list_all complete_entry headers \<and>
    list_all npm_header headers"
  using assms
proof (induction headers arbitrary: seen h)
  case (Cons header headers)
  from Cons.prems(1) obtain placement v h1 h2 where
    entry: "npm_entry seen header = Inr placement"
    and place: "place_step w directory header placement (ErrText ''place'' []) h1 = (Inr v, h2)"
    and others: "npm_entries w directory (entry_name header # seen) (headers, clean_end) h2 = (Inr (u, seen'), h')"
    by auto
  note header = npm_entry_header [OF entry]
  have fresh: "distinct (entry_name header # seen)" using Cons.prems(2) header by simp
  note Cons.IH [OF others fresh]
  moreover have "complete_entry header" by (rule place_step_complete [OF place]) (use header in blast)
  ultimately show ?case using header by (intro conjI impI) (blast | simp)+
qed (auto simp: active_step_def split: if_splits)

lemma extract_archive_Inr:
  assumes "extract_archive w ar encoded directory entries h = (Inr x, h')"
    and "\<And>headers clean_end seen h1. entries (headers, clean_end) h = (Inr (x, seen), h1) \<Longrightarrow>
      clean_end \<and> seen = rev (map entry_name headers) \<and> distinct seen \<and> list_all complete_entry headers \<and> ok headers"
  shows "\<exists>headers. archive_read ar encoded headers \<and> ok headers \<and> (\<forall>f. archive_files ar encoded f = concat (map f headers))"
proof -
  from assms(1) obtain stream seen headers clean_end h1 where
    stream: "ar_gunzip ar encoded = Some stream" "packed_stream ar stream = (headers, clean_end)"
    and entries: "entries (headers, clean_end) h = (Inr (x, seen), h1)"
    and bounds: "length (fst stream) < nat maxUnpackedSize + 1" "snd stream" "seen \<noteq> []"
    by (cases "ar_gunzip ar encoded", simp add: extract_archive_run)
      (auto simp: extract_archive_run drained_def split: if_splits, metis surj_pair)
  from assms(2) [OF entries] have all: "clean_end" "seen = rev (map entry_name headers)" "distinct seen"
    "list_all complete_entry headers" "ok headers" by auto
  have limit: "nat maxUnpackedSize = 2 ^ 30" by (simp add: maxUnpackedSize_def)
  have untar: "ar_untar ar (LimitReader stream (2 ^ 30 + 1)) = (headers, True)"
    using stream(2) all(1) unfolding packed_stream_def limit by simp
  have "archive_read ar encoded headers"
    unfolding archive_read_def using stream(1) bounds all untar unfolding limit
    by (intro conjI exI [of _ stream]) auto
  moreover have "archive_files ar encoded f = concat (map f headers)" for f
    using stream(1) untar by (simp add: archive_files_def limit)
  ultimately show ?thesis using all(5) by blast
qed

section \<open>Provisioning\<close>

text \<open>The archive was downloaded from the pinned address, then a new private directory was made in what the output directory
  resolves to.\<close>

definition opened ::
  "provision_world \<Rightarrow> string \<Rightarrow> nat \<Rightarrow> string \<Rightarrow> string \<Rightarrow> build_history \<Rightarrow> string \<Rightarrow> string \<Rightarrow> build_history \<Rightarrow> bool" where
  "opened w rawURL maximum outputDirectory pattern h encoded private h' \<longleftrightarrow>
     (let b = pw_build w; seen = h @ [Consulted rawURL, MadeDirectory outputDirectory]; ft = bn_tree (bw_boundary b seen) in
      fetchHTTPS (bw_transport b) (bw_http b h rawURL ''application/octet-stream'') maximum = Inr encoded \<and>
      (\<exists>absolute root. ft_Abs ft outputDirectory = Inr absolute \<and> ft_EvalSymlinks ft absolute = Inr root \<and>
         pw_MkdirTemp w (seen @ [Consulted outputDirectory]) root pattern = Some private) \<and>
      h' = seen @ [Consulted outputDirectory, MadeDirectory private])"

text \<open>A failure: nothing but directories was made; or the bytes were authentic, no more than a first part of their files was
  placed, all in the private directory, and this is removed last, unless that failed and the error says so.\<close>

definition abandoned ::
  "provision_world \<Rightarrow> string \<Rightarrow> nat \<Rightarrow> string \<Rightarrow> string \<Rightarrow> bool \<Rightarrow> (string \<Rightarrow> bool) \<Rightarrow> (string \<Rightarrow> string \<Rightarrow> build_event list)
    \<Rightarrow> go_error \<Rightarrow> build_history \<Rightarrow> build_history \<Rightarrow> bool" where
  "abandoned w rawURL maximum outputDirectory pattern for_npm authentic files err h h' \<longleftrightarrow>
     (\<exists>es. h' = h @ es \<and> list_all made_only es) \<or>
     (\<exists>encoded private h1 fs rest final.
        opened w rawURL maximum outputDirectory pattern h encoded private h1 \<and> authentic encoded \<and>
        h' = h1 @ fs @ [final] \<and> list_all (place_ok for_npm private) fs \<and> effects fs @ rest = files encoded private \<and>
        (final = Removed private \<or>
         final = Consulted private \<and> (\<exists>err' message. err = ErrWrap ''joined'' [] [err', ErrText message []])))"

text \<open>The common shape of provisionNode and provisionNPM.\<close>

definition provisioning ::
  "provision_world \<Rightarrow> string \<Rightarrow> nat \<Rightarrow> (string \<Rightarrow> bool) \<Rightarrow> (string \<Rightarrow> go_error) \<Rightarrow> string \<Rightarrow> string \<Rightarrow> string
    \<Rightarrow> (string \<Rightarrow> string \<Rightarrow> string step) \<Rightarrow> string step" where
  "provisioning w rawURL maximum authentic fault outputDirectory pattern message inside =
     bind_step (download_step w rawURL maximum (fault ''download'')) (\<lambda>encoded.
     if \<not> authentic encoded then return_step (Inl (fault ''digest-mismatch''))
     else
       bind_step (private_step w outputDirectory pattern (fault ''archive-unsafe'')) (\<lambda>private.
       removing w private message (inside encoded private)))"

lemma download_step_Inr:
  "download_step w rawURL maximum err h = (Inr encoded, h') \<Longrightarrow>
     fetchHTTPS (bw_transport (pw_build w)) (bw_http (pw_build w) h rawURL ''application/octet-stream'') maximum = Inr encoded \<and>
     h' = h @ [Consulted rawURL]"
  by (auto simp: download_step_def as_failure_def active_step_def fetch_step_def split: if_splits prod.splits sum.splits)

lemma download_keeps: "keeps made_only (download_step w rawURL maximum err)"
  unfolding download_step_def by (intro keeps_bind keeps_failure keeps_made_steps)

lemma temp_keeps:
  "keeps made_only (\<lambda>h. case pw_MkdirTemp w h root pattern of
     None \<Rightarrow> (Inl err, h @ [Consulted root]) | Some private \<Rightarrow> (Inr private, h @ [MadeDirectory private]))"
  by (simp add: keeps_def made_only_def split: option.split)

lemma private_keeps: "keeps made_only (private_step w outputDirectory pattern err)"
  unfolding private_step_def by (auto intro!: keeps_bind keeps_made_steps temp_keeps)

lemma private_step_Inr:
  assumes "private_step w outputDirectory pattern err h = (Inr private, h')"
  shows "let seen = h @ [MadeDirectory outputDirectory]; ft = bn_tree (bw_boundary (pw_build w) seen) in
    (\<exists>absolute root. ft_Abs ft outputDirectory = Inr absolute \<and> ft_EvalSymlinks ft absolute = Inr root \<and>
       pw_MkdirTemp w (seen @ [Consulted outputDirectory]) root pattern = Some private) \<and>
    h' = seen @ [Consulted outputDirectory, MadeDirectory private]"
  using assms
  by (auto simp: private_step_def mkdirall_step_def Let_def split: if_splits option.splits sum.splits)

lemma provisioning_run:
  assumes run: "provisioning w rawURL maximum authentic fault outputDirectory pattern message inside h = (r, h')"
    and keeps: "\<And>encoded private. keeps (place_ok for_npm private) (inside encoded private)"
    and unpacks: "\<And>encoded private. unpacks (files encoded private) (ends encoded private) (inside encoded private)"
  shows "case r of
     Inl err \<Rightarrow> abandoned w rawURL maximum outputDirectory pattern for_npm authentic files err h h'
   | Inr x \<Rightarrow> \<exists>encoded private h1. opened w rawURL maximum outputDirectory pattern h encoded private h1 \<and>
       authentic encoded \<and> inside encoded private h1 = (Inr x, h')"
proof -
  let ?download = "download_step w rawURL maximum (fault ''download'')"
  let ?private = "private_step w outputDirectory pattern (fault ''archive-unsafe'')"
  obtain d h1 where download: "?download h = (d, h1)" by (cases "?download h")
  obtain es where es: "h1 = h @ es" "list_all made_only es" using keeps_run [OF download_keeps download] by blast
  show ?thesis
  proof (cases d)
    case (Inl err)
    with run download es show ?thesis by (auto simp: provisioning_def bind_step_def abandoned_def)
  next
    case (Inr encoded)
    note got = download_step_Inr [OF download [unfolded Inr]]
    obtain p h2 where p: "?private h1 = (p, h2)" by (cases "?private h1")
    obtain fs where fs: "h2 = h1 @ fs" "list_all made_only fs" using keeps_run [OF private_keeps p] by blast
    show ?thesis
    proof (cases "authentic encoded")
      case False
      with run download Inr es show ?thesis by (auto simp: provisioning_def bind_step_def return_step_def abandoned_def)
    next
      case authentic: True
      show ?thesis
      proof (cases p)
        case (Inl err)
        with run download Inr p es fs authentic show ?thesis by (auto simp: provisioning_def bind_step_def abandoned_def)
      next
        case p': (Inr dir)
        have opened: "opened w rawURL maximum outputDirectory pattern h encoded dir h2"
          using got private_step_Inr [OF p [unfolded p']] by (simp add: opened_def Let_def)
        have whole: "removing w dir message (inside encoded dir) h2 = (r, h')"
          using run download Inr authentic p p' by (simp add: provisioning_def bind_step_def)
        obtain s h3 where s: "inside encoded dir h2 = (s, h3)" by (cases "inside encoded dir h2")
        show ?thesis
        proof (cases s)
          case (Inl err)
          obtain gs where gs: "h3 = h2 @ gs" "list_all (place_ok for_npm dir) gs" using keeps_run [OF keeps s] by blast
          obtain gs' rest where rest: "h3 = h2 @ gs'" "effects gs' @ rest = files encoded dir"
            using unpacks_fails [OF unpacks s [unfolded Inl]] by blast
          have left: "abandoned w rawURL maximum outputDirectory pattern for_npm authentic files err' h (h3 @ [final])"
            if "final = Removed dir \<or> final = Consulted dir \<and> (\<exists>e message. err' = ErrWrap ''joined'' [] [e, ErrText message []])"
            for final err'
            unfolding abandoned_def
            by (rule disjI2, rule exI [of _ encoded], rule exI [of _ dir], rule exI [of _ h2], rule exI [of _ gs],
                rule exI [of _ rest], rule exI [of _ final]) (use opened authentic gs rest that in auto)
          show ?thesis
          proof (cases "pw_RemoveAll w h3 dir")
            case True
            with whole s Inl have "r = Inl err" "h' = h3 @ [Removed dir]" by (simp_all add: removing_def)
            with left [of "Removed dir" err] show ?thesis by simp
          next
            case False
            with whole s Inl have "r = Inl (ErrWrap ''joined'' [] [err, ErrText message []])" "h' = h3 @ [Consulted dir]"
              by (simp_all add: removing_def)
            with left [of "Consulted dir"] show ?thesis by simp
          qed
        next
          case (Inr x)
          with whole s have "r = Inr x" "h3 = h'" by (simp_all add: removing_def)
          with Inr s opened authentic show ?thesis by auto
        qed
      qed
    qed
  qed
qed

text \<open>How a shell reads a word of single- and double-quoted parts.\<close>

fun read_word :: "char option \<Rightarrow> string \<Rightarrow> string option" where
  "read_word None [] = Some []"
| "read_word (Some q) [] = None"
| "read_word None (c # cs) =
     (if c = CHR 0x27 \<or> c = CHR 0x22 then read_word (Some c) cs
      else if c \<in> set [CHR '' '', CHR 0x09, CHR 0x0A, CHR 0x5C, CHR ''$'', CHR ''`'', CHR '';'', CHR ''&'', CHR ''|''] then None
      else map_option ((#) c) (read_word None cs))"
| "read_word (Some q) (c # cs) =
     (if c = q then read_word None cs
      else if q = CHR 0x22 \<and> c \<in> set [CHR ''$'', CHR ''`'', CHR 0x5C, CHR ''!''] then None
      else map_option ((#) c) (read_word (Some q) cs))"

lemma read_word_quoted: "read_word None (single_quoted v) = Some v"
proof -
  have "read_word (Some (CHR 0x27))
      (ReplaceAll v [CHR 0x27] [CHR 0x27, CHR 0x22, CHR 0x27, CHR 0x22, CHR 0x27] @ [CHR 0x27]) = Some v"
    unfolding ReplaceAll_def by (induction v) (auto simp: HasPrefix_iff)
  then show ?thesis by (simp add: single_quoted_def)
qed

text \<open>The manifest at a path gives this version, as it is after a history.\<close>

definition manifest_says :: "provision_world \<Rightarrow> build_history \<Rightarrow> string \<Rightarrow> string \<Rightarrow> bool" where
  "manifest_says w h path version \<longleftrightarrow>
     (\<exists>encoded members.
        readBoundedRegularFile (bn_tree (bw_boundary (pw_build w) h)) path maxManifestSize = Inr encoded \<and>
        parseStrict encoded = Inr (JObj members) \<and>
        (map_of members ''version'' = Some (JString version) \<or> version = [] \<and> map_of members ''version'' = Some JNull))"

lemma version_at_Inr:
  "version_at path version err (bw_boundary (pw_build w) h) = Inr u \<Longrightarrow> manifest_says w h path version"
  by (auto simp: version_at_def manifest_says_def manifest_version_def
      split: sum.splits if_splits jval.splits option.splits)

text \<open>What a runtime has to look like: seven entries at the top, four programs in bin of which three are links and one may be
  executed by its owner, and nowhere anything but directories, files and the known links, which lead to files inside.\<close>

definition laid_out :: "provision_world \<Rightarrow> build_history \<Rightarrow> string \<Rightarrow> bool" where
  "laid_out w h root \<longleftrightarrow>
     (\<exists>entries. pw_ReadDir w h (Join [root, []]) = Some entries \<and> length entries = 7 \<and>
        (\<forall>e \<in> set entries.
           de_Name e \<in> {''bin'', ''include'', ''lib'', ''share''} \<and> de_IsDir e \<or>
           de_Name e \<in> {''CHANGELOG.md'', ''LICENSE'', ''README.md''} \<and> \<not> de_IsDir e \<and>
             (\<exists>symlink permissions. de_Info e = Some (symlink, True, permissions)))) \<and>
     (\<exists>entries. pw_ReadDir w h (Join [root, ''bin'']) = Some entries \<and> length entries = 4 \<and>
        (\<forall>e \<in> set entries. \<not> de_IsDir e \<and>
           (\<exists>symlink regular permissions. de_Info e = Some (symlink, regular, permissions) \<and>
              (if de_Name e = ''node'' then regular \<and> permissions div 64 mod 2 = 1
               else de_Name e \<in> {''npm'', ''npx'', ''corepack''} \<and> symlink)))) \<and>
     (\<forall>(name, kind) \<in> set (pw_WalkDir w h root).
        kind = WalkDirectory \<or> kind = WalkRegular \<or>
        (\<exists>relative target resolved within len.
           kind = WalkSymlink (Some target) \<and> Rel root name = Inr relative \<and> (relative, target) \<in> runtime_links \<and>
           ft_EvalSymlinks (bn_tree (bw_boundary (pw_build w) h)) name = Inr resolved \<and>
           Rel root resolved = Inr within \<and> within \<noteq> ''..'' \<and> \<not> HasPrefix within ''../'' \<and>
           ft_Lstat (bn_tree (bw_boundary (pw_build w) h)) resolved = LstatEntry RegularFile len))"

lemma walked_Some:
  assumes "walked_as_expected ft root (name, kind)"
  shows "kind = WalkDirectory \<or> kind = WalkRegular \<or>
    (\<exists>relative target resolved within len.
       kind = WalkSymlink (Some target) \<and> Rel root name = Inr relative \<and> (relative, target) \<in> runtime_links \<and>
       ft_EvalSymlinks ft name = Inr resolved \<and> Rel root resolved = Inr within \<and> within \<noteq> ''..'' \<and>
       \<not> HasPrefix within ''../'' \<and> ft_Lstat ft resolved = LstatEntry RegularFile len)"
proof (cases kind)
  case (WalkSymlink target)
  with assms obtain relative resolved within len where
    "Rel root name = Inr relative" "nodeRuntimeLink relative \<noteq> []" "target = Some (nodeRuntimeLink relative)"
    "ft_EvalSymlinks ft name = Inr resolved" "Rel root resolved = Inr within" "within \<noteq> ''..''" "\<not> HasPrefix within ''../''"
    "ft_Lstat ft resolved = LstatEntry RegularFile len"
    by (auto simp: walked_as_expected_def split: sum.splits lstat.splits)
  with WalkSymlink nodeRuntimeLink_iff [OF \<open>nodeRuntimeLink relative \<noteq> []\<close>, of relative] show ?thesis by blast
qed (use assms in \<open>auto simp: walked_as_expected_def\<close>)

lemma entry_expected_top:
  assumes "entry_expected [] [(''bin'', True), (''include'', True), (''lib'', True), (''share'', True),
    (''CHANGELOG.md'', False), (''LICENSE'', False), (''README.md'', False)] e"
  shows "de_Name e \<in> {''bin'', ''include'', ''lib'', ''share''} \<and> de_IsDir e \<or>
    de_Name e \<in> {''CHANGELOG.md'', ''LICENSE'', ''README.md''} \<and> \<not> de_IsDir e \<and>
      (\<exists>symlink permissions. de_Info e = Some (symlink, True, permissions))"
proof -
  from assms obtain isDir symlink regular permissions where
    found: "map_of [(''bin'', True), (''include'', True), (''lib'', True), (''share'', True),
      (''CHANGELOG.md'', False), (''LICENSE'', False), (''README.md'', False)] (de_Name e) = Some isDir"
    and info: "de_Info e = Some (symlink, regular, permissions)" "de_IsDir e = isDir" "isDir \<or> regular"
    by (auto simp: entry_expected_def simp del: map_of.simps split: option.splits)
  from map_of_SomeD [OF found] info show ?thesis by auto
qed

lemma entry_expected_bin:
  assumes "entry_expected ''bin'' [(''node'', False), (''npm'', False), (''npx'', False), (''corepack'', False)] e"
  shows "\<not> de_IsDir e \<and> (\<exists>symlink regular permissions. de_Info e = Some (symlink, regular, permissions) \<and>
    (if de_Name e = ''node'' then regular \<and> permissions div 64 mod 2 = 1
     else de_Name e \<in> {''npm'', ''npx'', ''corepack''} \<and> symlink))"
proof -
  from assms obtain isDir symlink regular permissions where
    found: "map_of [(''node'', False), (''npm'', False), (''npx'', False), (''corepack'', False)] (de_Name e) = Some isDir"
    and info: "de_Info e = Some (symlink, regular, permissions)" "de_IsDir e = isDir"
      "if de_Name e = ''node'' then regular \<and> permissions div 64 mod 2 = 1 \<or> isDir else symlink"
      "de_Name e = ''node'' \<Longrightarrow> permissions div 64 mod 2 = 1"
    by (auto simp: entry_expected_def simp del: map_of.simps split: option.splits)
  from map_of_SomeD [OF found] info show ?thesis by (auto split: if_splits)
qed

lemma runtime_layout_laid_out:
  assumes "runtime_layout w h root"
  shows "laid_out w h root"
proof -
  from assms obtain top bin where
    top: "pw_ReadDir w h (Join [root, []]) = Some top" "length top = 7"
      "list_all (entry_expected [] [(''bin'', True), (''include'', True), (''lib'', True), (''share'', True),
         (''CHANGELOG.md'', False), (''LICENSE'', False), (''README.md'', False)]) top"
    and bin: "pw_ReadDir w h (Join [root, ''bin'']) = Some bin" "length bin = 4"
      "list_all (entry_expected ''bin'' [(''node'', False), (''npm'', False), (''npx'', False), (''corepack'', False)]) bin"
    and walk: "list_all (walked_as_expected (bn_tree (bw_boundary (pw_build w) h)) root) (pw_WalkDir w h root)"
    by (auto simp: runtime_layout_def expected_layout_def listed_as_expected_def split: option.splits)
  have "de_Name e \<in> {''bin'', ''include'', ''lib'', ''share''} \<and> de_IsDir e \<or>
      de_Name e \<in> {''CHANGELOG.md'', ''LICENSE'', ''README.md''} \<and> \<not> de_IsDir e \<and>
        (\<exists>symlink permissions. de_Info e = Some (symlink, True, permissions))" if "e \<in> set top" for e
    by (rule entry_expected_top) (use top(3) that in \<open>simp add: list_all_iff\<close>)
  moreover have "\<not> de_IsDir e \<and> (\<exists>symlink regular permissions. de_Info e = Some (symlink, regular, permissions) \<and>
      (if de_Name e = ''node'' then regular \<and> permissions div 64 mod 2 = 1
       else de_Name e \<in> {''npm'', ''npx'', ''corepack''} \<and> symlink))" if "e \<in> set bin" for e
    by (rule entry_expected_bin) (use bin(3) that in \<open>simp add: list_all_iff\<close>)
  moreover note top(1,2) bin(1,2)
  moreover have "case x of (name, kind) \<Rightarrow> kind = WalkDirectory \<or> kind = WalkRegular \<or>
      (\<exists>relative target resolved within len.
         kind = WalkSymlink (Some target) \<and> Rel root name = Inr relative \<and> (relative, target) \<in> runtime_links \<and>
         ft_EvalSymlinks (bn_tree (bw_boundary (pw_build w) h)) name = Inr resolved \<and>
         Rel root resolved = Inr within \<and> within \<noteq> ''..'' \<and> \<not> HasPrefix within ''../'' \<and>
         ft_Lstat (bn_tree (bw_boundary (pw_build w) h)) resolved = LstatEntry RegularFile len)"
    if "x \<in> set (pw_WalkDir w h root)" for x
  proof -
    have "walked_as_expected (bn_tree (bw_boundary (pw_build w) h)) root (fst x, snd x)"
      using walk that by (simp add: list_all_iff)
    from walked_Some [OF this] show ?thesis by (simp only: split_beta)
  qed
  ultimately show ?thesis unfolding laid_out_def by blast
qed


text \<open>The pinned archive of Node.js for Linux: its address and its SHA-256.\<close>

definition pinned_archive :: "NodeRuntime \<Rightarrow> string \<times> string" where
  "pinned_archive pin =
     (case map_of (nr_Artifacts pin) ''linux-x64'' of None \<Rightarrow> ([], []) | Some artifact \<Rightarrow> (na_URL artifact, na_SHA256 artifact))"

definition node_provisioned ::
  "provision_world \<Rightarrow> archives \<Rightarrow> NodeRuntime \<Rightarrow> string \<Rightarrow> build_history \<Rightarrow> string \<Rightarrow> build_history \<Rightarrow> bool" where
  "node_provisioned w ar pin outputDirectory h bin h' \<longleftrightarrow>
     (\<exists>encoded private h1 fs headers.
        let rootName = ''node-v'' @ nr_NodeVersion pin @ ''-linux-x64''; runtimeRoot = Join [private, rootName] in
        opened w (fst (pinned_archive pin)) maxNodeDistribution outputDirectory ''node-provision-'' h encoded private h1 \<and>
        SHA256_String (SumSHA256 encoded) = snd (pinned_archive pin) \<and>
        archive_read ar encoded headers \<and> list_all (node_header rootName) headers \<and>
        list_all (place_ok False private) fs \<and> effects fs = concat (map (node_file private) headers) \<and>
        laid_out w (h1 @ fs) runtimeRoot \<and>
        manifest_says w (h1 @ fs @ [Consulted runtimeRoot]) (Join [runtimeRoot, ''lib/node_modules/npm/package.json''])
          (nr_NPMVersion pin) \<and>
        bin = Join [private, rootName, ''bin''] \<and>
        h' = h1 @ fs @ [Consulted runtimeRoot, Consulted runtimeRoot])"

lemma failures_Inr:
  "as_failure err m h = (Inr x, h') \<longleftrightarrow> m h = (Inr x, h')" "node_failure m h = (Inr x, h') \<longleftrightarrow> m h = (Inr x, h')"
  by (auto simp: as_failure_def node_failure_def split: prod.splits sum.splits)

lemma node_inside_Inr:
  assumes "node_inside w ar pin encoded private h = (Inr bin, h')"
  shows "\<exists>fs headers. let rootName = ''node-v'' @ nr_NodeVersion pin @ ''-linux-x64''; runtimeRoot = Join [private, rootName] in
    archive_read ar encoded headers \<and> list_all (node_header rootName) headers \<and>
    list_all (place_ok False private) fs \<and> effects fs = concat (map (node_file private) headers) \<and>
    laid_out w (h @ fs) runtimeRoot \<and>
    manifest_says w (h @ fs @ [Consulted runtimeRoot]) (Join [runtimeRoot, ''lib/node_modules/npm/package.json''])
      (nr_NPMVersion pin) \<and>
    bin = Join [private, rootName, ''bin''] \<and> h' = h @ fs @ [Consulted runtimeRoot, Consulted runtimeRoot]"
proof -
  let ?name = "''node-v'' @ nr_NodeVersion pin @ ''-linux-x64''"
  from assms obtain name h1 h2 u v where
    unpacked': "node_failure (extractNodeRuntime w ar encoded private) h = (Inr name, h1)"
    and checked: "verifyNodeRuntimeLayout w (Join [private, name]) h1 = (Inr u, h2)" and name: "name = ?name"
    and read: "look_step (pw_build w) (Join [private, name])
      (version_at (Join [Join [private, name], ''lib/node_modules/npm/package.json'']) (nr_NPMVersion pin)
        (nodeProvisionFailure ''version-mismatch'')) h2 = (Inr v, h')"
    and bin: "bin = Join [private, name, ''bin'']"
    unfolding node_inside_def Let_def bind_step_Inr return_step_Inr
    by (auto simp del: look_step_Inr split: if_split_asm)
  note unpacked = unpacked' [unfolded failures_Inr name]
  have layout: "runtime_layout w h1 (Join [private, ?name])" and h2: "h2 = h1 @ [Consulted (Join [private, ?name])]"
    using checked by (simp_all add: verifyNodeRuntimeLayout_def name split: if_splits)
  have version: "version_at (Join [Join [private, ?name], ''lib/node_modules/npm/package.json'']) (nr_NPMVersion pin)
      (nodeProvisionFailure ''version-mismatch'') (bw_boundary (pw_build w) h2) = Inr v"
    and h': "h' = h2 @ [Consulted (Join [private, ?name])]"
    using read unfolding name look_step_Inr by blast+
  from extract_archive_Inr [OF unpacked [unfolded extractNodeRuntime_def], where ok = "list_all (node_header ?name)"]
  obtain headers where headers: "archive_read ar encoded headers" "list_all (node_header ?name) headers"
    "archive_files ar encoded (node_file private) = concat (map (node_file private) headers)"
    using node_entries_Inr [where seen = "[]"] by (metis append_Nil2 distinct.simps(1))
  obtain fs where fs: "h1 = h @ fs" "list_all (place_ok False private) fs"
    using keeps_run [OF extractNode_steps(1) unpacked] by blast
  moreover have "effects fs = concat (map (node_file private) headers)"
    using unpacks_succeeds [OF extractNode_steps(2) unpacked] headers(3) fs(1) by auto
  ultimately show ?thesis
    using headers(1,2) runtime_layout_laid_out [OF layout] version_at_Inr [OF version] bin h' h2 unfolding Let_def name
    by (intro exI [of _ fs] exI [of _ headers]) simp
qed

lemma provisionNode_shape:
  "provisionNode w ar outputDirectory pin =
     provisioning w (fst (pinned_archive pin)) maxNodeDistribution
       (\<lambda>encoded. SHA256_String (SumSHA256 encoded) = snd (pinned_archive pin)) nodeProvisionFailure outputDirectory
       ''node-provision-'' ''remove partial Node.js provisioning directory failed'' (node_inside w ar pin)"
proof -
  have "na_URL (linux_artifact pin) = fst (pinned_archive pin)" "na_SHA256 (linux_artifact pin) = snd (pinned_archive pin)"
    by (simp_all add: linux_artifact_def pinned_archive_def split: option.split)
  then show ?thesis by (simp add: provisionNode_def provisioning_def)
qed

text \<open>
  C12: Only authentic runtimes are unpacked, only into their private directory, and nothing is run.  When ProvisionNode
  succeeds, the bytes it downloaded from the pinned address have the pinned SHA-256; they were decompressed and read to
  their end; what was placed is, entry by entry and in order, what these bytes hold: every regular file with its very
  bytes, below the new private directory at a path of ordinary elements under the one root, with mode 0700 where its owner
  may execute it and 0600 elsewhere, and otherwise only the three launchers' links; the layout then seen is the expected one,
  the manifest there gives the pinned npm, and the result is the bin directory.  When it fails, nothing but
  directories was made, or the bytes were authentic, at most a first part of their files was placed, and the private directory
  is removed last unless the error reports that this failed too.
\<close>

theorem node_provision_sound:
  "case decodeNodeRuntimePair runtimeData of
     Inl _ \<Rightarrow> ProvisionNode w ar runtimeData outputDirectory h = (Inl (nodeProvisionFailure ''download''), h)
   | Inr pin \<Rightarrow>
       (case ProvisionNode w ar runtimeData outputDirectory h of
          (Inl err, h') \<Rightarrow>
            abandoned w (fst (pinned_archive pin)) maxNodeDistribution outputDirectory ''node-provision-'' False
              (\<lambda>encoded. SHA256_String (SumSHA256 encoded) = snd (pinned_archive pin))
              (\<lambda>encoded private. archive_files ar encoded (node_file private)) err h h'
        | (Inr bin, h') \<Rightarrow> node_provisioned w ar pin outputDirectory h bin h')"
proof (cases "decodeNodeRuntimePair runtimeData")
  case (Inr pin)
  obtain r h' where run: "provisionNode w ar outputDirectory pin h = (r, h')" by (cases "provisionNode w ar outputDirectory pin h")
  note outcome = provisioning_run [OF run [unfolded provisionNode_shape] node_inside_steps]
  show ?thesis
  proof (cases r)
    case (Inl err)
    with outcome Inr run show ?thesis by (simp add: ProvisionNode_def)
  next
    case (Inr bin)
    with outcome obtain encoded dir h1 where
      opened: "opened w (fst (pinned_archive pin)) maxNodeDistribution outputDirectory ''node-provision-'' h encoded dir h1"
      "SHA256_String (SumSHA256 encoded) = snd (pinned_archive pin)"
      and inside: "node_inside w ar pin encoded dir h1 = (Inr bin, h')" by auto
    from node_inside_Inr [OF inside] opened have "node_provisioned w ar pin outputDirectory h bin h'"
      unfolding node_provisioned_def Let_def by blast
    with \<open>decodeNodeRuntimePair runtimeData = Inr pin\<close> run Inr show ?thesis by (simp add: ProvisionNode_def)
  qed
qed (simp add: ProvisionNode_def return_step_def)

text \<open>The pinned integrity: the SHA-512 in base64 after the name of the algorithm.\<close>

definition pinned_integrity :: "PublishNPM \<Rightarrow> string \<Rightarrow> bool" where
  "pinned_integrity pin encoded \<longleftrightarrow>
     (\<exists>digest. b64_decode_strict (TrimPrefix (pn_Integrity pin) ''sha512-'') = Some digest \<and> length digest = 64 \<and>
        SHA512_String (SumSHA512 encoded) = hex_encode digest)"

definition npm_provisioned ::
  "provision_world \<Rightarrow> archives \<Rightarrow> PublishNPM \<Rightarrow> string \<Rightarrow> build_history \<Rightarrow> string \<Rightarrow> build_history \<Rightarrow> bool" where
  "npm_provisioned w ar pin outputDirectory h launcher h' \<longleftrightarrow>
     (\<exists>encoded private h1 fs headers found absolute node cliWord nodeWord len.
        let b = pw_build w; cli = Join [private, ''package'', ''bin'', ''npm-cli.js''];
            h2 = h1 @ fs; h3 = h2 @ [Consulted private]; h4 = h3 @ [Consulted cli] in
        opened w (pn_TarballURL pin) maxNPMDistribution outputDirectory ''npm-provision-'' h encoded private h1 \<and>
        pinned_integrity pin encoded \<and> archive_read ar encoded headers \<and> list_all npm_header headers \<and>
        list_all (place_ok True private) fs \<and> effects fs = concat (map (npm_file private) headers) \<and>
        manifest_says w h2 (Join [private, ''package'', ''package.json'']) (pn_Version pin) \<and>
        ft_Lstat (bn_tree (bw_boundary b h3)) cli = LstatEntry RegularFile len \<and>
        bn_LookPath (bw_boundary b h4) ''node'' = Some found \<and> ft_Abs (bn_tree (bw_boundary b h4)) found = Inr absolute \<and>
        ft_EvalSymlinks (bn_tree (bw_boundary b h4)) absolute = Inr node \<and>
        read_word None nodeWord = Some node \<and> read_word None cliWord = Some cli \<and>
        launcher = Join [private, ''npm''] \<and>
        h' = h4 @ [Consulted ''node'', Placed launcher 448
          (''#!/bin/sh'' @ [CHR 0x0A] @ ''exec '' @ nodeWord @ '' '' @ cliWord @ '' '' @ [CHR 0x22] @ ''$@'' @ [CHR 0x22, CHR 0x0A])])"

lemma npm_inside_Inr:
  assumes "npm_inside w ar pin encoded private h1 = (Inr launcher, h')"
    and "opened w (pn_TarballURL pin) maxNPMDistribution outputDirectory ''npm-provision-'' h encoded private h1"
    and "pinned_integrity pin encoded"
  shows "npm_provisioned w ar pin outputDirectory h launcher h'"
proof -
  let ?b = "pw_build w" and ?cli = "Join [private, ''package'', ''bin'', ''npm-cli.js'']"
  let ?unsafe = "npmProvisionFailure ''archive-unsafe''" and ?mismatch = "npmProvisionFailure ''version-mismatch''"
  from assms(1) obtain h2 h3 h4 h5 node u v x z where
    unpacked': "as_failure ?unsafe (extractNPMDistribution w ar encoded private) h1 = (Inr u, h2)"
    and read: "look_step ?b private (version_at (Join [private, ''package'', ''package.json'']) (pn_Version pin) ?mismatch) h2 =
      (Inr v, h3)"
    and seen: "look_step ?b ?cli (\<lambda>env. case ft_Lstat (bn_tree env) ?cli of
      LstatEntry RegularFile _ \<Rightarrow> Inr () | _ \<Rightarrow> Inl ?mismatch) h3 = (Inr x, h4)"
    and looked: "look_step ?b ''node'' (node_at ?mismatch) h4 = (Inr node, h5)"
    and written: "launcher_step w (Join [private, ''npm'']) (launcher_script node ?cli) ?unsafe h5 = (Inr z, h')"
    and launcher: "Join [private, ''npm''] = launcher"
    unfolding npm_inside_def Let_def bind_step_Inr return_step_Inr sum.inject by blast
  have unpacked: "extractNPMDistribution w ar encoded private h1 = (Inr (), h2)" using unpacked' unfolding failures_Inr by simp
  have h345: "h3 = h2 @ [Consulted private]" "h4 = h2 @ [Consulted private, Consulted ?cli]"
    "h5 = h2 @ [Consulted private, Consulted ?cli, Consulted ''node'']"
    using read seen looked unfolding look_step_Inr by simp_all
  have version: "version_at (Join [private, ''package'', ''package.json'']) (pn_Version pin) ?mismatch (bw_boundary ?b h2) = Inr v"
    and cli: "(case ft_Lstat (bn_tree (bw_boundary ?b (h2 @ [Consulted private]))) ?cli of
      LstatEntry RegularFile _ \<Rightarrow> Inr () | _ \<Rightarrow> Inl ?mismatch) = Inr x"
    and node: "node_at ?mismatch (bw_boundary ?b (h2 @ [Consulted private, Consulted ?cli])) = Inr node"
    using read seen looked h345 unfolding look_step_Inr by simp_all
  have ends: "launcher = Join [private, ''npm'']"
    "h' = h2 @ [Consulted private, Consulted ?cli, Consulted ''node'', Placed launcher 448 (launcher_script node ?cli)]"
    using written launcher h345 by (simp_all add: launcher_step_def private_program_def split: if_splits)
  from cli obtain len where regular:
    "ft_Lstat (bn_tree (bw_boundary ?b (h2 @ [Consulted private]))) ?cli = LstatEntry RegularFile len"
    by (auto split: lstat.splits entry_kind.splits)
  from node obtain found absolute where found:
    "bn_LookPath (bw_boundary ?b (h2 @ [Consulted private, Consulted ?cli])) ''node'' = Some found"
    "ft_Abs (bn_tree (bw_boundary ?b (h2 @ [Consulted private, Consulted ?cli]))) found = Inr absolute"
    "ft_EvalSymlinks (bn_tree (bw_boundary ?b (h2 @ [Consulted private, Consulted ?cli]))) absolute = Inr node"
    by (auto simp: node_at_def split: option.splits sum.splits)
  from extract_archive_Inr [OF unpacked [unfolded extractNPMDistribution_def], where ok = "list_all npm_header"]
  obtain headers where headers: "archive_read ar encoded headers" "list_all npm_header headers"
    "archive_files ar encoded (npm_file private) = concat (map (npm_file private) headers)"
    using npm_entries_Inr [where seen = "[]"] by (metis append_Nil2 distinct.simps(1))
  obtain fs where fs: "h2 = h1 @ fs" "list_all (place_ok True private) fs"
    using keeps_run [OF extractNPM_steps(1) unpacked] by blast
  have files: "effects fs = concat (map (npm_file private) headers)"
    using unpacks_succeeds [OF extractNPM_steps(2) unpacked] headers(3) fs(1) by auto
  show ?thesis
    unfolding npm_provisioned_def Let_def
    by (rule exI [of _ encoded], rule exI [of _ "private"], rule exI [of _ h1], rule exI [of _ fs], rule exI [of _ headers],
        rule exI [of _ found], rule exI [of _ absolute], rule exI [of _ node], rule exI [of _ "single_quoted ?cli"],
        rule exI [of _ "single_quoted node"], rule exI [of _ len])
      (use assms(2,3) headers fs files version_at_Inr [OF version] regular found ends read_word_quoted
        in \<open>simp add: launcher_script_def\<close>)
qed

lemma provisionNPM_shape:
  "provisionNPM w ar outputDirectory pin =
     provisioning w (pn_TarballURL pin) maxNPMDistribution (pinned_integrity pin) npmProvisionFailure outputDirectory
       ''npm-provision-'' ''remove partial npm provisioning directory failed'' (npm_inside w ar pin)"
proof -
  have "pinned_sha512 pin = Some (SHA512_String (SumSHA512 encoded)) \<longleftrightarrow> pinned_integrity pin encoded" for encoded
    by (auto simp: pinned_sha512_def pinned_integrity_def split: option.splits)
  then show ?thesis by (simp add: provisionNPM_def provisioning_def)
qed

text \<open>
  C13: The npm that publishes is the pinned one.  When ProvisionNPM succeeds, the tarball downloaded from the pinned address
  has the pinned SHA-512 and was decompressed and read to its end; what was placed is, entry by entry and in order, what
  these bytes hold: regular files with their very bytes and mode 0600, below the new private directory at paths of
  ordinary elements, and no link.  Nothing was run; the manifest then gives the pinned version, the command line is
  a regular file, and the last thing written is the launcher: a shell reads from it exactly the path to which the
  node of the search path resolved at that moment and that of the unpacked command line, whatever characters the
  directory names have.  When it fails, nothing but directories was made, or the bytes were authentic, at most a first part of
  their files was placed, and the private directory is removed last unless the error reports that this failed too.
\<close>

theorem npm_provision_sound:
  "case decodePublishPin publishData of
     Inl _ \<Rightarrow> ProvisionNPM w ar publishData outputDirectory h = (Inl (npmProvisionFailure ''download''), h)
   | Inr pin \<Rightarrow>
       (case ProvisionNPM w ar publishData outputDirectory h of
          (Inl err, h') \<Rightarrow>
            abandoned w (pn_TarballURL pin) maxNPMDistribution outputDirectory ''npm-provision-'' True (pinned_integrity pin)
              (\<lambda>encoded private. archive_files ar encoded (npm_file private)) err h h'
        | (Inr launcher, h') \<Rightarrow> npm_provisioned w ar pin outputDirectory h launcher h')"
proof (cases "decodePublishPin publishData")
  case (Inr pin)
  obtain r h' where run: "provisionNPM w ar outputDirectory pin h = (r, h')" by (cases "provisionNPM w ar outputDirectory pin h")
  note outcome = provisioning_run [OF run [unfolded provisionNPM_shape] npm_inside_steps]
  show ?thesis
  proof (cases r)
    case (Inl err)
    with outcome Inr run show ?thesis by (simp add: ProvisionNPM_def)
  next
    case ok: (Inr launcher)
    with outcome npm_inside_Inr have "npm_provisioned w ar pin outputDirectory h launcher h'" by auto
    with Inr run ok show ?thesis by (simp add: ProvisionNPM_def)
  qed
qed (simp add: ProvisionNPM_def return_step_def)

text \<open>The assertion of the executing pair: both versions were printed by the programs themselves.\<close>

lemma observed_step_ran:
  assumes "observed_step w root environment name h = (Inr out, h')"
  shows "\<exists>cmd es. h' = h @ es \<and> commands_of es = [cmd] \<and> cd_Args cmd = [''--version''] \<and> cd_Env cmd = environment \<and>
    printed (pw_build w) cmd out"
proof -
  from assms obtain path h1 where
    h1: "lookup_step (pw_build w) name name h = (Inr path, h1)"
    and run: "command_step (pw_build w) root path environment [''--version''] [] h1 = (Inr out, h')"
    by (auto simp: observed_step_def)
  obtain es where "h1 = h @ es" "commands_of es = []" using quiet_Inr [OF quiet_steps(2) h1 [unfolded lookup_step_def]] by blast
  with command_step_ran [OF run] show ?thesis by fastforce
qed

theorem asserted_pair_sound:
  "case AssertToolchainPair w runtimeData nodeOnly h of
     (Inl err, _) \<Rightarrow> err = ErrText idToolchainPairMismatch []
   | (Inr _, h') \<Rightarrow>
       \<exists>pair es node others observed.
         decodeNodeRuntimePair runtimeData = Inr pair \<and> h' = h @ es \<and> commands_of es = node # others \<and>
         printed (pw_build w) node observed \<and> TrimPrefix observed ''v'' = nr_NodeVersion pair \<and>
         (if nodeOnly then others = []
          else \<exists>npm. others = [npm] \<and> printed (pw_build w) npm (nr_NPMVersion pair))"
proof (cases "decodeNodeRuntimePair runtimeData")
  case (Inr pair)
  obtain r h' where run: "AssertToolchainPair w runtimeData nodeOnly h = (r, h')"
    by (cases "AssertToolchainPair w runtimeData nodeOnly h")
  show ?thesis
  proof (cases r)
    case (Inl err)
    with run \<open>decodeNodeRuntimePair runtimeData = Inr pair\<close> show ?thesis
      by (auto simp: AssertToolchainPair_def Let_def as_failure_def split: prod.splits sum.splits)
  next
    case ok: (Inr u)
    let ?b = "pw_build w"
    from run ok Inr obtain root h1 h2 h3 h4 environment observed where
      h1: "tempdir_step ?b h = (Inr root, h1)"
      and h2: "controlledEnvironment ?b root h1 = (Inr environment, h2)"
      and h3: "observed_step w root environment ''node'' h2 = (Inr observed, h3)"
      and node: "TrimPrefix observed ''v'' = nr_NodeVersion pair"
      and rest: "(if nodeOnly then return_step (Inr ())
         else bind_step (observed_step w root environment ''npm'') (\<lambda>observedNPM.
           return_step (if observedNPM \<noteq> nr_NPMVersion pair then Inl (ErrText idToolchainPairMismatch []) else Inr ()))) h3 =
        (Inr (), h4)"
      and h': "h' = h4 @ [Removed root]"
      by (auto simp: AssertToolchainPair_def Let_def as_failure_def deferred_run split: prod.splits sum.splits if_splits)
    obtain e1 where e1: "h1 = h @ e1" "commands_of e1 = []" using h1 by (auto simp: tempdir_step_Inr)
    obtain e2 where e2: "h2 = h1 @ e2" "commands_of e2 = []" using quiet_Inr [OF quiet_environment h2] by blast
    obtain c e3 where c: "h3 = h2 @ e3" "commands_of e3 = [c]" "printed ?b c observed"
      using observed_step_ran [OF h3] by blast
    show ?thesis
    proof (cases nodeOnly)
      case True
      with rest have "h' = h @ (e1 @ e2 @ e3 @ [Removed root])" using h' e1 e2 c by simp
      with run ok Inr True node c e1 e2 show ?thesis by auto
    next
      case False
      with rest obtain out where out: "observed_step w root environment ''npm'' h3 = (Inr out, h4)" "out = nr_NPMVersion pair"
        by (auto split: if_splits)
      obtain d e4 where d: "h4 = h3 @ e4" "commands_of e4 = [d]" "printed ?b d out"
        using observed_step_ran [OF out(1)] by blast
      have "h' = h @ (e1 @ e2 @ e3 @ e4 @ [Removed root])" using h' e1 e2 c d by simp
      with run ok Inr False node c d e1 e2 out show ?thesis by auto
    qed
  qed
qed (simp add: AssertToolchainPair_def Let_def return_step_def)

end
