(* ===== verification/Redaction.thy ===== *)
theory Redaction
  imports Strings Url
begin

text \<open>
  internal/command/io.go, the secrets: RedactSecrets and containsSecret.  Three regular expressions are compared without
  regard to case, in which Go lets the long s stand for an s and the Kelvin sign for a k; at a given place each of them has
  at most one match, so they are written as functions that give the length of the match.
\<close>

section \<open>Matching without regard to case\<close>

definition RedactedValue :: string where "RedactedValue = ''[REDACTED]''"

text \<open>One letter, given in lower case: the rest of the text after it.\<close>

definition eat_letter :: "char \<Rightarrow> string \<Rightarrow> string option" where
  "eat_letter l s =
     (if s \<noteq> [] \<and> lower_char (hd s) = l then Some (tl s)
      else if l = CHR ''s'' \<and> HasPrefix s [CHR 0xC5, CHR 0xBF] then Some (drop 2 s)
      else if l = CHR ''k'' \<and> HasPrefix s [CHR 0xE2, CHR 0x84, CHR 0xAA] then Some (drop 3 s)
      else None)"

fun eat_word :: "string \<Rightarrow> string \<Rightarrow> string option" where
  "eat_word [] s = Some s"
| "eat_word (l # ls) s = Option.bind (eat_letter l s) (eat_word ls)"

fun eat_one_of :: "string list \<Rightarrow> string \<Rightarrow> string option" where
  "eat_one_of [] s = None"
| "eat_one_of (w # ws) s = (case eat_word w s of Some r \<Rightarrow> Some r | None \<Rightarrow> eat_one_of ws s)"

text \<open>\<open>\s\<close> and the characters of a word.\<close>

definition re_space :: "char \<Rightarrow> bool" where
  "re_space c \<longleftrightarrow> c \<in> {CHR 0x09, CHR 0x0A, CHR 0x0C, CHR 0x0D, CHR '' ''}"

definition re_word :: "char \<Rightarrow> bool" where
  "re_word c \<longleftrightarrow> is_alnum c \<or> c = CHR ''_''"

text \<open>\<open>[A-Za-z0-9_=-]\<close>, as many as there are.\<close>

definition token_char :: "char \<Rightarrow> bool" where
  "token_char c \<longleftrightarrow> is_alnum c \<or> c \<in> set ''_=-''"

definition eat_token_char :: "string \<Rightarrow> string option" where
  "eat_token_char s =
     (if s \<noteq> [] \<and> token_char (hd s) then Some (tl s)
      else if HasPrefix s [CHR 0xC5, CHR 0xBF] then Some (drop 2 s)
      else if HasPrefix s [CHR 0xE2, CHR 0x84, CHR 0xAA] then Some (drop 3 s)
      else None)"

lemma eat_token_char_shorter: "eat_token_char s = Some r \<Longrightarrow> length r < length s"
  by (cases s) (auto simp: eat_token_char_def HasPrefix_iff split: if_splits)

function eat_token_chars :: "string \<Rightarrow> string" where
  "eat_token_chars s = (case eat_token_char s of None \<Rightarrow> s | Some r \<Rightarrow> eat_token_chars r)"
  by auto
termination
  by (relation "measure length") (auto dest: eat_token_char_shorter)

declare eat_token_chars.simps [simp del]

section \<open>The expressions\<close>

text \<open>authorizationValue: the length of the match and its replacement, the scheme and its credentials.\<close>

definition authorization_at :: "char option \<Rightarrow> string \<Rightarrow> (nat \<times> string) option" where
  "authorization_at previous s =
     (case eat_word ''authorization'' s of
        None \<Rightarrow> None
      | Some r1 \<Rightarrow>
          (case dropWhile re_space r1 of
             [] \<Rightarrow> None
           | colon # r2 \<Rightarrow>
               if colon \<noteq> CHR '':'' then None
               else
                 (let r3 = dropWhile re_space r2; head_len = length s - length r3 in
                  case eat_one_of [''bearer'', ''basic''] r3 of
                    None \<Rightarrow> None
                  | Some r4 \<Rightarrow>
                      (let r5 = dropWhile re_space r4; r6 = dropWhile (\<lambda>c. \<not> re_space c \<and> c \<notin> set '',;'') r5 in
                       if length r5 = length r4 \<or> length r6 = length r5 then None
                       else Some (length s - length r6, take head_len s @ RedactedValue)))))"

text \<open>tokenValue: at the start of a word one of the prefixes and at least one character more.\<close>

definition token_prefixes :: "string list" where
  "token_prefixes = [''github_pat_'', ''gho_'', ''ghp_'', ''ghr_'', ''ghs_'', ''ghu_'', ''npm_'']"

definition in_word :: "char option \<Rightarrow> bool" where
  "in_word previous \<longleftrightarrow> (case previous of None \<Rightarrow> False | Some c \<Rightarrow> re_word c)"

definition secret_token_at :: "char option \<Rightarrow> string \<Rightarrow> (nat \<times> string) option" where
  "secret_token_at previous s =
     (if in_word previous then None
      else
        (case Option.bind (eat_one_of token_prefixes s) eat_token_char of
           None \<Rightarrow> None
         | Some r \<Rightarrow> Some (length s - length (eat_token_chars r), RedactedValue)))"

text \<open>privateKeyValue.  A marker's label has no dash, so it ends where the next dash is; the body ends at the first
  marker that closes.\<close>

definition labelled :: "string \<Rightarrow> bool" where
  "labelled run \<longleftrightarrow>
     list_ex (\<lambda>n. eat_word ''private key'' (drop (length run - n) run) = Some []) [11, 13]"

definition eat_marker :: "string \<Rightarrow> string \<Rightarrow> string option" where
  "eat_marker opening s =
     (case eat_word opening s of
        None \<Rightarrow> None
      | Some r \<Rightarrow> if labelled (takeWhile (\<lambda>c. c \<noteq> CHR ''-'') r) then eat_word ''-----'' (dropWhile (\<lambda>c. c \<noteq> CHR ''-'') r)
                  else None)"

fun after_marker :: "string \<Rightarrow> string \<Rightarrow> string option" where
  "after_marker opening [] = None"
| "after_marker opening (c # cs) =
     (case eat_marker opening (c # cs) of Some r \<Rightarrow> Some r | None \<Rightarrow> after_marker opening cs)"

definition private_key_at :: "char option \<Rightarrow> string \<Rightarrow> (nat \<times> string) option" where
  "private_key_at previous s =
     (case Option.bind (eat_marker ''-----begin '' s) (after_marker ''-----end '') of
        None \<Rightarrow> None
      | Some r \<Rightarrow> Some (length s - length r, RedactedValue))"

section \<open>Replacing\<close>

text \<open>ReplaceAllString: from the left, each match replaced and the search continued after it, with the byte in front
  of the place searched.\<close>

type_synonym matcher = "char option \<Rightarrow> string \<Rightarrow> (nat \<times> string) option"

function replace_matches :: "matcher \<Rightarrow> char option \<Rightarrow> string \<Rightarrow> string" where
  "replace_matches m previous [] = []"
| "replace_matches m previous (c # cs) =
     (case m previous (c # cs) of
        None \<Rightarrow> c # replace_matches m (Some c) cs
      | Some (n, replacement) \<Rightarrow>
          replacement @ replace_matches m (Some ((c # cs) ! (n - 1))) (drop (n - 1) cs))"
  by pat_completeness auto
termination
  by (relation "measure (\<lambda>(_, _, s). length s)") auto

text \<open>strings.ReplaceAll for a text that is not empty.\<close>

definition ReplaceAll :: "string \<Rightarrow> string \<Rightarrow> string \<Rightarrow> string" where
  "ReplaceAll s old new = replace_matches (\<lambda>_ t. if HasPrefix t old then Some (length old, new) else None) None s"

text \<open>The explicit secrets, in the order sort.Slice put them.\<close>

definition RedactSecrets :: "string list \<Rightarrow> string \<Rightarrow> string" where
  "RedactSecrets ordered message =
     (let explicit = foldl (\<lambda>t secret. if secret = [] then t else ReplaceAll t secret RedactedValue) message ordered in
      replace_matches private_key_at None
        (replace_matches secret_token_at None (replace_matches authorization_at None explicit)))"

definition holds_secret :: "string \<Rightarrow> bool" where
  "holds_secret text =
     (RedactSecrets [] text \<noteq> text
      \<or> (case url_Parse text of None \<Rightarrow> False | Some u \<Rightarrow> IsAbs u \<and> User u \<noteq> None))"

section \<open>What is eaten\<close>

lemma eat_letter_suffix: "eat_letter l s = Some r \<Longrightarrow> \<exists>u. u \<noteq> [] \<and> s = u @ r"
  unfolding eat_letter_def
  by (cases s) (fastforce simp: HasPrefix_iff split: if_splits)+

lemma eat_word_suffix: "eat_word w s = Some r \<Longrightarrow> \<exists>u. s = u @ r \<and> (w \<noteq> [] \<longrightarrow> u \<noteq> [])"
proof (induction w arbitrary: s)
  case Nil
  then show ?case by simp
next
  case (Cons l ls)
  from Cons.prems obtain t where t: "eat_letter l s = Some t" "eat_word ls t = Some r"
    by (cases "eat_letter l s") auto
  from eat_letter_suffix [OF t(1)] Cons.IH [OF t(2)] show ?case by fastforce
qed

lemma eat_one_of_Some: "eat_one_of ws s = Some r \<Longrightarrow> \<exists>w\<in>set ws. eat_word w s = Some r"
  by (induction ws) (auto split: option.splits)

lemma eat_token_char_suffix: "eat_token_char s = Some r \<Longrightarrow> \<exists>u. u \<noteq> [] \<and> s = u @ r"
  unfolding eat_token_char_def
  by (cases s) (fastforce simp: HasPrefix_iff split: if_splits)+

lemma eat_token_chars_suffix: "\<exists>u. s = u @ eat_token_chars s"
proof (induction s rule: eat_token_chars.induct)
  case (1 s)
  show ?case
  proof (cases "eat_token_char s")
    case None
    then show ?thesis by (simp add: eat_token_chars.simps [of s])
  next
    case (Some r)
    with 1 eat_token_char_suffix [OF Some] show ?thesis
      by (simp add: eat_token_chars.simps [of s]) (metis append.assoc)
  qed
qed

lemma eat_token_chars_stops: "eat_token_char (eat_token_chars s) = None"
proof (induction s rule: eat_token_chars.induct)
  case (1 s)
  then show ?case by (cases "eat_token_char s") (simp_all add: eat_token_chars.simps [of s])
qed

text \<open>A letter decides what can be eaten, so of words none of which begins another at most one is there.\<close>

definition ascii :: "char \<Rightarrow> bool" where "ascii c \<longleftrightarrow> byte c < 128"

lemma eat_letter_determined:
  assumes "eat_letter l s \<noteq> None" "eat_letter l' s \<noteq> None" "ascii l" "ascii l'"
  shows "l = l'"
proof -
  have "lower_char (CHR 0xC5) = CHR 0xC5" "lower_char (CHR 0xE2) = CHR 0xE2" by code_simp+
  moreover have "\<not> ascii (CHR 0xC5)" "\<not> ascii (CHR 0xE2)" by code_simp+
  ultimately show ?thesis
    using assms by (cases s) (auto simp: eat_letter_def HasPrefix_iff split: if_splits)
qed

lemma eat_word_comparable:
  "eat_word w s = Some r \<Longrightarrow> eat_word w' s = Some r' \<Longrightarrow> list_all ascii w \<Longrightarrow> list_all ascii w'
   \<Longrightarrow> prefix w w' \<or> prefix w' w"
proof (induction w arbitrary: w' s)
  case Nil
  then show ?case by simp
next
  case (Cons l ls)
  show ?case
  proof (cases w')
    case Nil
    then show ?thesis by simp
  next
    case (Cons l' ls')
    with Cons.prems obtain t t' where t: "eat_letter l s = Some t" "eat_word ls t = Some r"
        "eat_letter l' s = Some t'" "eat_word ls' t' = Some r'"
      by (cases "eat_letter l s"; cases "eat_letter l' s") auto
    with eat_letter_determined [of l s l'] Cons.prems Cons have "l = l'" by auto
    with t Cons.IH [of t ls'] Cons.prems Cons show ?thesis by auto
  qed
qed

lemma token_prefixes_exclusive:
  assumes "w \<in> set token_prefixes" "eat_word w s = Some r"
  shows "eat_one_of token_prefixes s = Some r"
proof -
  have letters: "\<forall>v\<in>set token_prefixes. list_all ascii v" by code_simp
  have apart: "\<forall>v\<in>set token_prefixes. \<forall>v'\<in>set token_prefixes. prefix v v' \<longrightarrow> v = v'" by code_simp
  have only: "v = w" if v: "v \<in> set token_prefixes" "eat_word v s = Some q" for v q
    using eat_word_comparable [OF assms(2) v(2)] letters apart assms(1) v(1) by metis
  show ?thesis
  proof (cases "eat_one_of token_prefixes s")
    case None
    have "eat_one_of ws s \<noteq> None" if "w \<in> set ws" for ws
      using that assms(2) by (induction ws) (auto split: option.splits)
    with None assms(1) show ?thesis by blast
  next
    case (Some q)
    from eat_one_of_Some [OF this] only assms(2) Some show ?thesis by auto
  qed
qed

section \<open>A bracket ends every match\<close>

text \<open>What is eaten in front of an opening bracket does not depend on what follows.\<close>

definition cut_by_bracket :: "(string \<Rightarrow> string option) \<Rightarrow> bool" where
  "cut_by_bracket eat \<longleftrightarrow>
     (\<forall>u v r. eat (u @ CHR ''['' # v) = Some r \<longrightarrow> (\<exists>u'. r = u' @ CHR ''['' # v \<and> (\<forall>w. eat (u @ w) = Some (u' @ w))))"

lemma cut_by_bracketD:
  "cut_by_bracket eat \<Longrightarrow> eat (u @ CHR ''['' # v) = Some r
   \<Longrightarrow> \<exists>u'. r = u' @ CHR ''['' # v \<and> (\<forall>w. eat (u @ w) = Some (u' @ w))"
  unfolding cut_by_bracket_def by blast

lemma lower_char_bracket: "lower_char (CHR ''['') = CHR ''[''" by code_simp

lemma front_cases:
  obtains "u = []" | a where "u = [a]" | a b where "u = [a, b]" | a b c u' where "u = a # b # c # u'"
  by (cases u; cases "tl u"; cases "tl (tl u)") auto

lemma eat_letter_cut: "l \<noteq> CHR ''['' \<Longrightarrow> cut_by_bracket (eat_letter l)"
  unfolding cut_by_bracket_def
proof (intro allI impI)
  fix u v r
  assume "l \<noteq> CHR ''[''" "eat_letter l (u @ CHR ''['' # v) = Some r"
  then show "\<exists>u'. r = u' @ CHR ''['' # v \<and> (\<forall>w. eat_letter l (u @ w) = Some (u' @ w))"
    by (cases u rule: front_cases) (auto simp: eat_letter_def lower_char_bracket split: if_splits)
qed

lemma eat_token_char_cut: "cut_by_bracket eat_token_char"
  unfolding cut_by_bracket_def
proof (intro allI impI)
  fix u v r
  have "\<not> token_char (CHR ''['')" by code_simp
  moreover assume "eat_token_char (u @ CHR ''['' # v) = Some r"
  ultimately show "\<exists>u'. r = u' @ CHR ''['' # v \<and> (\<forall>w. eat_token_char (u @ w) = Some (u' @ w))"
    by (cases u rule: front_cases) (auto simp: eat_token_char_def split: if_splits)
qed

lemma bind_cut:
  assumes f: "cut_by_bracket f" and g: "cut_by_bracket g"
  shows "cut_by_bracket (\<lambda>s. Option.bind (f s) g)"
  unfolding cut_by_bracket_def
proof (intro allI impI)
  fix u v r
  assume "Option.bind (f (u @ CHR ''['' # v)) g = Some r"
  then obtain t where t: "f (u @ CHR ''['' # v) = Some t" "g t = Some r" by (cases "f (u @ CHR ''['' # v)") auto
  from cut_by_bracketD [OF f t(1)] obtain u1 where u1: "t = u1 @ CHR ''['' # v" "\<forall>w. f (u @ w) = Some (u1 @ w)" by blast
  from cut_by_bracketD [OF g t(2) [unfolded u1(1)]] u1(2)
  show "\<exists>u'. r = u' @ CHR ''['' # v \<and> (\<forall>w. Option.bind (f (u @ w)) g = Some (u' @ w))" by auto
qed

lemma eat_word_cut: "CHR ''['' \<notin> set w \<Longrightarrow> cut_by_bracket (eat_word w)"
proof (induction w)
  case Nil
  then show ?case by (auto simp: cut_by_bracket_def)
next
  case (Cons l ls)
  then have "cut_by_bracket (\<lambda>s. Option.bind (eat_letter l s) (eat_word ls))"
    by (intro bind_cut eat_letter_cut) auto
  moreover have "(\<lambda>s. Option.bind (eat_letter l s) (eat_word ls)) = eat_word (l # ls)" by (rule ext) simp
  ultimately show ?case by simp
qed

lemma token_at_found:
  "secret_token_at p s \<noteq> None \<longleftrightarrow>
   \<not> in_word p \<and> (\<exists>w\<in>set token_prefixes. Option.bind (eat_word w s) eat_token_char \<noteq> None)"
proof -
  have "Option.bind (eat_one_of token_prefixes s) eat_token_char \<noteq> None
    \<longleftrightarrow> (\<exists>w\<in>set token_prefixes. Option.bind (eat_word w s) eat_token_char \<noteq> None)"
  proof
    assume "Option.bind (eat_one_of token_prefixes s) eat_token_char \<noteq> None"
    then obtain q where q: "eat_one_of token_prefixes s = Some q" "eat_token_char q \<noteq> None"
      by (cases "eat_one_of token_prefixes s") auto
    from eat_one_of_Some [OF q(1)] q(2) show "\<exists>w\<in>set token_prefixes. Option.bind (eat_word w s) eat_token_char \<noteq> None"
      by force
  next
    assume "\<exists>w\<in>set token_prefixes. Option.bind (eat_word w s) eat_token_char \<noteq> None"
    then obtain w q where w: "w \<in> set token_prefixes" "eat_word w s = Some q" "eat_token_char q \<noteq> None"
      by (metis bind_eq_None_conv option.exhaust_sel)
    from token_prefixes_exclusive [OF w(1,2)] w(3) show "Option.bind (eat_one_of token_prefixes s) eat_token_char \<noteq> None"
      by simp
  qed
  then show ?thesis
    by (auto simp: secret_token_at_def split: option.splits)
qed

lemma token_at_cut:
  assumes "secret_token_at p (u @ CHR ''['' # v) \<noteq> None"
  shows "u \<noteq> []" "secret_token_at p (u @ w) \<noteq> None"
proof -
  from assms token_at_found obtain pre where pre: "\<not> in_word p" "pre \<in> set token_prefixes"
      "Option.bind (eat_word pre (u @ CHR ''['' # v)) eat_token_char \<noteq> None" by blast
  then obtain r where r: "Option.bind (eat_word pre (u @ CHR ''['' # v)) eat_token_char = Some r" by blast
  have "\<forall>x\<in>set token_prefixes. CHR ''['' \<notin> set x" by code_simp
  with pre(2) have cut: "cut_by_bracket (\<lambda>s. Option.bind (eat_word pre s) eat_token_char)"
    by (intro bind_cut eat_word_cut eat_token_char_cut) auto
  from cut_by_bracketD [OF cut r] have some: "\<And>x. Option.bind (eat_word pre (u @ x)) eat_token_char \<noteq> None" by auto
  with pre(1,2) show "secret_token_at p (u @ w) \<noteq> None" by (subst token_at_found) blast
  have "\<forall>x\<in>set token_prefixes. eat_word x [] = None" by code_simp
  with some [of "[]"] pre(2) show "u \<noteq> []" by auto
qed

section \<open>No token is left\<close>

text \<open>Nowhere in the text does the expression match.\<close>

fun free_of :: "matcher \<Rightarrow> char option \<Rightarrow> string \<Rightarrow> bool" where
  "free_of m previous [] = True"
| "free_of m previous (c # cs) \<longleftrightarrow> m previous (c # cs) = None \<and> free_of m (Some c) cs"

definition brackets :: "matcher \<Rightarrow> bool" where
  "brackets m \<longleftrightarrow> (\<forall>p s n r. m p s = Some (n, r) \<longrightarrow> r = RedactedValue)"

lemma replaced_front:
  "brackets m \<Longrightarrow> replace_matches m p s = s
   \<or> (\<exists>u w v. s = u @ w \<and> replace_matches m p s = u @ CHR ''['' # v)"
proof (induction m p s rule: replace_matches.induct)
  case (1 m p)
  then show ?case by simp
next
  case (2 m p c cs)
  show ?case
  proof (cases "m p (c # cs)")
    case None
    with 2 consider "replace_matches m (Some c) cs = cs"
      | u w v where "cs = u @ w" "replace_matches m (Some c) cs = u @ CHR ''['' # v" by blast
    then show ?thesis
    proof cases
      case 1
      with None show ?thesis by simp
    next
      case 2
      then have "c # cs = (c # u) @ w" "replace_matches m p (c # cs) = (c # u) @ CHR ''['' # v" using None by simp_all
      then show ?thesis by blast
    qed
  next
    case (Some nr)
    with "2.prems" have "snd nr = RedactedValue" by (cases nr) (auto simp: brackets_def)
    then have "snd nr = CHR ''['' # ''REDACTED]''" by (simp add: RedactedValue_def)
    with Some have "\<exists>v. replace_matches m p (c # cs) = [] @ CHR ''['' # v" by (cases nr) simp
    then show ?thesis by (metis append_Nil)
  qed
qed

lemma token_at_replaced:
  assumes "brackets m" "secret_token_at p (c # replace_matches m q cs) \<noteq> None"
  shows "secret_token_at p (c # cs) \<noteq> None"
proof -
  from replaced_front [OF assms(1), of q cs] consider "replace_matches m q cs = cs"
    | u w v where "cs = u @ w" "replace_matches m q cs = u @ CHR ''['' # v" by blast
  then show ?thesis
  proof cases
    case 1
    with assms(2) show ?thesis by simp
  next
    case 2
    with assms(2) token_at_cut(2) [of p "c # u" v w] show ?thesis by simp
  qed
qed

lemma brackets_token: "brackets secret_token_at"
  by (auto simp: brackets_def secret_token_at_def split: if_splits option.splits)

lemma brackets_private_key: "brackets private_key_at"
  by (auto simp: brackets_def private_key_at_def split: if_splits option.splits)

text \<open>The replacement itself begins no token.\<close>

lemma token_at_first:
  assumes "secret_token_at p (c # s) \<noteq> None"
  shows "lower_char c \<in> {CHR ''g'', CHR ''n''}"
proof -
  from assms token_at_found obtain w where w: "w \<in> set token_prefixes" "eat_word w (c # s) \<noteq> None"
    by (metis bind_eq_None_conv)
  have "lower_char (CHR 0xC5) = CHR 0xC5" "lower_char (CHR 0xE2) = CHR 0xE2" by code_simp+
  with w show ?thesis
    by (auto simp: token_prefixes_def eat_letter_def bind_eq_None_conv split: if_splits)
qed

lemma free_of_previous: "in_word p = in_word q \<Longrightarrow> free_of secret_token_at p s = free_of secret_token_at q s"
  by (cases s) (simp_all add: secret_token_at_def)

lemma free_of_redacted: "free_of secret_token_at (Some CHR '']'') s \<Longrightarrow> free_of secret_token_at p (RedactedValue @ s)"
proof -
  have none: "\<And>q t c. lower_char c \<notin> {CHR ''g'', CHR ''n''} \<Longrightarrow> secret_token_at q (c # t) = None"
    using token_at_first by blast
  have "\<forall>c\<in>set RedactedValue. lower_char c \<notin> {CHR ''g'', CHR ''n''}" by code_simp
  then show "free_of secret_token_at (Some CHR '']'') s \<Longrightarrow> free_of secret_token_at p (RedactedValue @ s)"
    by (simp add: RedactedValue_def none)
qed

lemma free_of_later: "free_of m p (u @ c # t) \<Longrightarrow> free_of m (Some c) t"
  by (induction u arbitrary: p) auto

lemma in_word_bracket: "\<not> in_word (Some CHR '']'')" by code_simp

text \<open>What follows a match: the last byte matched, and the rest of the text.\<close>

lemma matched_split:
  assumes "c # cs = u @ r" "u \<noteq> []" "n = length (c # cs) - length r"
  shows "drop (n - 1) cs = r" "(c # cs) ! (n - 1) = last u"
proof -
  from assms(1,3) have n: "n = length u" by (metis add_diff_cancel_right' length_append)
  from assms(1,2) obtain u' where u: "u = c # u'" "cs = u' @ r" by (cases u) auto
  with n show "drop (n - 1) cs = r" by simp
  from u n show "(c # cs) ! (n - 1) = last u"
    by (metis assms(1,2) last_conv_nth length_greater_0_conv nth_append diff_less less_one)
qed

lemma token_match_end:
  assumes "secret_token_at p (c # cs) = Some (n, r)"
  shows "r = RedactedValue" "eat_token_char (drop (n - 1) cs) = None"
proof -
  from assms obtain q t where q: "eat_one_of token_prefixes (c # cs) = Some q" "eat_token_char q = Some t"
      "n = length (c # cs) - length (eat_token_chars t)" "r = RedactedValue"
    by (cases "eat_one_of token_prefixes (c # cs)") (auto simp: secret_token_at_def split: if_splits option.splits)
  from eat_one_of_Some [OF q(1)] obtain w where "eat_word w (c # cs) = Some q" by blast
  from eat_word_suffix [OF this] eat_token_char_suffix [OF q(2)] eat_token_chars_suffix [of t]
  obtain u where u: "c # cs = u @ eat_token_chars t" "u \<noteq> []"
    by (metis append.assoc append_is_Nil_conv)
  from matched_split(1) [OF this q(3)] eat_token_chars_stops show "eat_token_char (drop (n - 1) cs) = None" by simp
  show "r = RedactedValue" by (fact q(4))
qed

lemma token_char_first: "lower_char c \<in> {CHR ''g'', CHR ''n''} \<Longrightarrow> token_char c"
proof (cases "is_upper c")
  case True
  then show ?thesis by (simp add: token_char_def is_alnum_def)
next
  case False
  moreover have "token_char (CHR ''g'')" "token_char (CHR ''n'')" by code_simp+
  moreover assume "lower_char c \<in> {CHR ''g'', CHR ''n''}"
  ultimately show ?thesis by (auto simp: lower_char_def)
qed

lemma tokens_replaced: "free_of secret_token_at p (replace_matches secret_token_at p s)"
proof (induction secret_token_at p s rule: replace_matches.induct)
  case (1 p)
  then show ?case by simp
next
  case (2 p c cs)
  show ?case
  proof (cases "secret_token_at p (c # cs)")
    case None
    with token_at_replaced [OF brackets_token] have "secret_token_at p (c # replace_matches secret_token_at (Some c) cs) = None" by blast
    with None 2 show ?thesis by simp
  next
    case (Some nr)
    obtain n r where nr: "nr = (n, r)" by (cases nr)
    define rest where "rest = drop (n - 1) cs"
    define q where "q = Some ((c # cs) ! (n - 1))"
    from token_match_end [OF Some [unfolded nr]] have r: "r = RedactedValue" and stop: "eat_token_char rest = None"
      by (simp_all add: rest_def)
    from 2 Some nr have IH: "free_of secret_token_at q (replace_matches secret_token_at q rest)" by (simp add: rest_def q_def)
    have "free_of secret_token_at (Some CHR '']'') (replace_matches secret_token_at q rest)"
    proof (cases rest)
      case Nil
      then show ?thesis by simp
    next
      case (Cons d ds)
      with stop have "\<not> token_char d" by (auto simp: eat_token_char_def split: if_splits)
      with token_char_first have d: "lower_char d \<notin> {CHR ''g'', CHR ''n''}" by blast
      with token_at_first have none: "\<And>q t. secret_token_at q (d # t) = None" by blast
      with IH Cons show ?thesis by simp
    qed
    with free_of_redacted Some nr r show ?thesis by (simp add: rest_def q_def)
  qed
qed

lemma eat_dashes_last:
  "eat_word ''-----'' s = Some r \<Longrightarrow> \<exists>u. s = u @ CHR ''-'' # r"
proof -
  have letter: "\<And>s r. eat_letter (CHR ''-'') s = Some r \<Longrightarrow> s = CHR ''-'' # r"
  proof -
    fix s r
    assume e: "eat_letter (CHR ''-'') s = Some r"
    then obtain c where c: "s = c # r" "lower_char c = CHR ''-''"
      by (cases s) (auto simp: eat_letter_def split: if_splits)
    have "c = CHR ''-''"
    proof (rule ccontr)
      assume "c \<noteq> CHR ''-''"
      with c(2) have "is_upper c" by (auto simp: lower_char_def split: if_splits)
      with c(2) have "byte c + 32 = byte (CHR ''-'')" by (metis byte_lower_char)
      with \<open>is_upper c\<close> show False by (simp add: is_upper_def byte_def)
    qed
    with c show "s = CHR ''-'' # r" by simp
  qed
  assume "eat_word ''-----'' s = Some r"
  then have "s = ''-----'' @ r" by (auto simp: bind_eq_Some_conv dest!: letter)
  then have "s = ''----'' @ CHR ''-'' # r" by simp
  then show ?thesis by blast
qed

lemma eat_marker_end: "eat_marker opening s = Some r \<Longrightarrow> \<exists>u. s = u @ CHR ''-'' # r"
proof -
  assume "eat_marker opening s = Some r"
  then obtain q where q: "eat_word opening s = Some q" "eat_word ''-----'' (dropWhile (\<lambda>c. c \<noteq> CHR ''-'') q) = Some r"
    by (auto simp: eat_marker_def split: option.splits if_splits)
  from eat_dashes_last [OF q(2)] obtain u where "dropWhile (\<lambda>c. c \<noteq> CHR ''-'') q = u @ CHR ''-'' # r" by blast
  with takeWhile_dropWhile_id [of "\<lambda>c. c \<noteq> CHR ''-''" q] eat_word_suffix [OF q(1)] show ?thesis
    by (metis append.assoc)
qed

lemma after_marker_end: "after_marker opening s = Some r \<Longrightarrow> \<exists>u. s = u @ CHR ''-'' # r"
proof (induction s)
  case Nil
  then show ?case by simp
next
  case (Cons c cs)
  show ?case
  proof (cases "eat_marker opening (c # cs)")
    case None
    with Cons obtain u where "cs = u @ CHR ''-'' # r" by auto
    then have "c # cs = (c # u) @ CHR ''-'' # r" by simp
    then show ?thesis by blast
  next
    case (Some q)
    with Cons.prems eat_marker_end [OF Some] show ?thesis by simp
  qed
qed

lemma private_key_match_end:
  assumes "private_key_at p (c # cs) = Some (n, r)"
  shows "r = RedactedValue" "(c # cs) ! (n - 1) = CHR ''-''" "\<exists>u. c # cs = u @ CHR ''-'' # drop (n - 1) cs"
proof -
  from assms obtain q t where q: "eat_marker ''-----begin '' (c # cs) = Some q" "after_marker ''-----end '' q = Some t"
      "n = length (c # cs) - length t" "r = RedactedValue"
    by (cases "eat_marker ''-----begin '' (c # cs)") (auto simp: private_key_at_def split: option.splits)
  from eat_marker_end [OF q(1)] after_marker_end [OF q(2)] obtain u where u: "c # cs = (u @ ''-'') @ t"
    by (metis append.assoc append_Cons append_Nil)
  from matched_split [OF u _ q(3)] show "(c # cs) ! (n - 1) = CHR ''-''" by simp
  from matched_split(1) [OF u _ q(3)] u show "\<exists>u. c # cs = u @ CHR ''-'' # drop (n - 1) cs" by auto
  show "r = RedactedValue" by (fact q(4))
qed

lemma keys_replaced: "free_of secret_token_at p s \<Longrightarrow> free_of secret_token_at p (replace_matches private_key_at p s)"
proof (induction private_key_at p s rule: replace_matches.induct)
  case (1 p)
  then show ?case by simp
next
  case (2 p c cs)
  show ?case
  proof (cases "private_key_at p (c # cs)")
    case None
    have "secret_token_at p (c # replace_matches private_key_at (Some c) cs) = None"
    proof -
      from "2.prems" have "secret_token_at p (c # cs) = None" by simp
      with token_at_replaced [OF brackets_private_key, of p c "Some c" cs] show ?thesis by blast
    qed
    with None 2 show ?thesis by simp
  next
    case (Some nr)
    obtain n r where nr: "nr = (n, r)" by (cases nr)
    define rest where "rest = drop (n - 1) cs"
    from private_key_match_end [OF Some [unfolded nr]] obtain u where r: "r = RedactedValue"
        "(c # cs) ! (n - 1) = CHR ''-''" and u: "c # cs = u @ CHR ''-'' # rest" by (auto simp: rest_def)
    from "2.prems" u have "free_of secret_token_at (Some CHR ''-'') rest" by (metis free_of_later)
    with 2(2) [OF Some nr [symmetric]] r(2) have
      "free_of secret_token_at (Some CHR ''-'') (replace_matches private_key_at (Some CHR ''-'') rest)" by (simp add: rest_def)
    moreover have "\<not> in_word (Some CHR ''-'')" by code_simp
    ultimately have "free_of secret_token_at (Some CHR '']'') (replace_matches private_key_at (Some CHR ''-'') rest)"
      using in_word_bracket free_of_previous by blast
    with free_of_redacted Some nr r show ?thesis by (simp add: rest_def)
  qed
qed

lemma redacted_tokens: "free_of secret_token_at None (RedactSecrets ordered message)"
  by (simp add: RedactSecrets_def keys_replaced tokens_replaced)

lemma no_secret_no_token: "\<not> holds_secret text \<Longrightarrow> free_of secret_token_at None text"
  by (metis holds_secret_def redacted_tokens)

end
