(* ===== verification/FlagSet.thy ===== *)
theory FlagSet
  imports Strings
begin

text \<open>
  Go's package flag as the commands use it: a FlagSet with flags that take a text, or a truth value, parsed from the arguments
  until the first that is no flag.  The answer is the value of each flag and the arguments left.
\<close>

datatype flag_kind = TextFlag | SwitchFlag

datatype flag_outcome =
    FlagsParsed "string \<Rightarrow> string" "string list"
  | FlagHelp
  | FlagsRejected go_error

text \<open>The name of a flag without its dashes, or why the argument is none.\<close>

datatype flag_argument = NotAFlag | EndOfFlags | BadSyntax | FlagNamed string "string option"

definition name_and_text :: "string \<Rightarrow> string \<times> string option" where
  "name_and_text name =
     (case name of
        [] \<Rightarrow> ([], None)
      | c # cs \<Rightarrow> (case Cut cs ''='' of None \<Rightarrow> (name, None) | Some (front, text) \<Rightarrow> (c # front, Some text)))"

definition flag_argument_of :: "string \<Rightarrow> flag_argument" where
  "flag_argument_of s =
     (if length s < 2 \<or> s ! 0 \<noteq> CHR ''-'' then NotAFlag
      else if s = ''--'' then EndOfFlags
      else
        (let name = (if s ! 1 = CHR ''-'' then drop 2 s else drop 1 s) in
         if name = [] \<or> hd name \<in> {CHR ''-'', CHR ''=''} then BadSyntax
         else (case name_and_text name of (n, t) \<Rightarrow> FlagNamed n t)))"

text \<open>strconv.ParseBool, and how a switch keeps its value.\<close>

definition ParseBool :: "string \<Rightarrow> bool option" where
  "ParseBool s =
     (if s \<in> {''1'', ''t'', ''T'', ''TRUE'', ''true'', ''True''} then Some True
      else if s \<in> {''0'', ''f'', ''F'', ''FALSE'', ''false'', ''False''} then Some False
      else None)"

definition FormatBool :: "bool \<Rightarrow> string" where
  "FormatBool b = (if b then ''true'' else ''false'')"

fun parse_flags :: "(string \<Rightarrow> flag_kind option) \<Rightarrow> (string \<Rightarrow> string) \<Rightarrow> string list \<Rightarrow> flag_outcome" where
  "parse_flags formal given_so_far [] = FlagsParsed given_so_far []"
| "parse_flags formal given_so_far (s # args) =
     (case flag_argument_of s of
        NotAFlag \<Rightarrow> FlagsParsed given_so_far (s # args)
      | EndOfFlags \<Rightarrow> FlagsParsed given_so_far args
      | BadSyntax \<Rightarrow> FlagsRejected (ErrText ''bad flag syntax: %s'' [s])
      | FlagNamed name text \<Rightarrow>
          (case formal name of
             None \<Rightarrow>
               if name = ''help'' \<or> name = ''h'' then FlagHelp
               else FlagsRejected (ErrText ''flag provided but not defined: -%s'' [name])
           | Some SwitchFlag \<Rightarrow>
               (case ParseBool (case text of None \<Rightarrow> ''true'' | Some t \<Rightarrow> t) of
                  None \<Rightarrow> FlagsRejected (ErrText ''invalid boolean value %q for -%s: %v'' [name])
                | Some b \<Rightarrow> parse_flags formal (given_so_far(name := FormatBool b)) args)
           | Some TextFlag \<Rightarrow>
               (case text of
                  Some t \<Rightarrow> parse_flags formal (given_so_far(name := t)) args
                | None \<Rightarrow>
                    (case args of
                       [] \<Rightarrow> FlagsRejected (ErrText ''flag needs an argument: -%s'' [name])
                     | t # others \<Rightarrow> parse_flags formal (given_so_far(name := t)) others))))"

text \<open>A set of text flags, all empty at first, apart from those with a default.\<close>

definition text_flags :: "string list \<Rightarrow> string \<Rightarrow> flag_kind option" where
  "text_flags names name = (if name \<in> set names then Some TextFlag else None)"

definition no_text :: "string \<Rightarrow> string" where
  "no_text name = []"

text \<open>Pairs of a name with two dashes and a text are read back, in this order, whatever the texts are.\<close>

definition spelled :: "string \<Rightarrow> bool" where
  "spelled name \<longleftrightarrow> name \<noteq> [] \<and> hd name \<noteq> CHR ''-'' \<and> CHR ''='' \<notin> set name"

lemma flag_argument_of_spelled: "spelled name \<Longrightarrow> flag_argument_of (''--'' @ name) = FlagNamed name None"
  by (cases name) (auto simp: spelled_def flag_argument_of_def name_and_text_def)

lemma parse_flags_pairs:
  assumes "list_all (\<lambda>(name, text). spelled name \<and> formal name = Some TextFlag) pairs"
  shows "parse_flags formal start (concat (map (\<lambda>(name, text). [''--'' @ name, text]) pairs))
    = FlagsParsed (foldl (\<lambda>f (name, text). f(name := text)) start pairs) []"
  using assms
proof (induction pairs arbitrary: start)
  case Nil
  then show ?case by simp
next
  case (Cons p pairs)
  obtain name x where p: "p = (name, x)" by (cases p)
  with Cons.prems have "spelled name" "formal name = Some TextFlag" by simp_all
  with Cons p flag_argument_of_spelled [of name] show ?case by (simp add: fun_upd_def)
qed

end
