(* ===== verification/CommandIo.thy ===== *)
theory CommandIo
  imports Steps Redaction Diagnostic Workspace Selection Handoff FlagSet
begin

text \<open>
  internal/command/io.go, command.go and the report writers of fixture_check.go and verify_handoff.go: how a command
  reads its inputs, replaces a file, appends outputs for the runner, prints a report and ends the process.
\<close>

section \<open>The world of a command\<close>

text \<open>The calls that change something, and those that only look.  A call that failed may have done its work in part.\<close>

datatype file_call =
    CreateTemp string string  \<comment> \<open>directory, path\<close>
  | CreateFile string
  | ChmodFile string nat
  | WriteTo string string
  | SyncTo string
  | CloseFile string
  | RenameFile string string
  | RemoveFile string
  | OpenDirectory string
  | PrintText string

datatype command_event = Did file_call | Failed file_call | Looked string

type_synonym command_history = "command_event list"

type_synonym 'a act = "(command_history, 'a) run"

text \<open>os.OpenFile with O_EXCL, and os.Remove.\<close>

datatype creation = Created | AlreadyThere | CreateFails

datatype removal = RemovalDone | NothingThere | RemovalFails

record command_world =
  cw_LookupEnv :: "string \<Rightarrow> string option"
  cw_now :: "command_history \<Rightarrow> int"
  cw_cancelled :: "command_history \<Rightarrow> bool"
  cw_tree :: "command_history \<Rightarrow> file_tree"
  cw_accepts :: "command_history \<Rightarrow> file_call \<Rightarrow> bool"
  cw_CreateTemp :: "command_history \<Rightarrow> string \<Rightarrow> string option"
  cw_Create :: "command_history \<Rightarrow> string \<Rightarrow> creation"
  cw_Remove :: "command_history \<Rightarrow> string \<Rightarrow> removal"
  cw_artifact :: "command_history \<Rightarrow> string \<Rightarrow> artifact_fs"  \<comment> \<open>a directory downloaded\<close>

definition Getenv :: "command_world \<Rightarrow> string \<Rightarrow> string" where
  "Getenv w name = (case cw_LookupEnv w name of None \<Rightarrow> [] | Some v \<Rightarrow> v)"

text \<open>What the reports need: the JCS transformer, sort.Slice and the text of an error.\<close>

record report_tools =
  rt_transform :: "string \<Rightarrow> string result"
  rt_sorter :: report_sorter
  rt_Error :: "go_error \<Rightarrow> string"

definition call_step :: "command_world \<Rightarrow> file_call \<Rightarrow> go_error \<Rightarrow> unit act" where
  "call_step w c err h = (if cw_accepts w h c then (Inr (), h @ [Did c]) else (Inl err, h @ [Failed c]))"

definition view_step :: "command_world \<Rightarrow> string \<Rightarrow> (file_tree \<Rightarrow> 'a result) \<Rightarrow> 'a act" where
  "view_step w what see h = (see (cw_tree w h), h @ [Looked what])"

definition active_command :: "command_world \<Rightarrow> unit act" where
  "active_command w h = (if cw_cancelled w h then Inl (ErrText ''context canceled'' []) else Inr (), h)"

lemma call_step_Inr [simp]: "call_step w c err h = (Inr u, h') \<longleftrightarrow> cw_accepts w h c \<and> h' = h @ [Did c]"
  by (auto simp: call_step_def)

lemma view_step_Inr [simp]: "view_step w what see h = (Inr x, h') \<longleftrightarrow> see (cw_tree w h) = Inr x \<and> h' = h @ [Looked what]"
  by (auto simp: view_step_def)

lemma active_command_Inr [simp]: "active_command w h = (Inr u, h') \<longleftrightarrow> \<not> cw_cancelled w h \<and> h' = h"
  by (auto simp: active_command_def)

section \<open>Reading\<close>

definition maxTypedInputSize :: nat where "maxTypedInputSize = 16 * 2 ^ 20"

definition readRegularFile :: "file_tree \<Rightarrow> string \<Rightarrow> string result" where
  "readRegularFile ft path =
     (case ft_Lstat ft path of
        LstatEntry RegularFile len \<Rightarrow>
          if len > maxTypedInputSize then Inl (ErrText ''typed input %q exceeds %d bytes'' [path])
          else
            (case ft_Open ft path of
               OpenedFile bytes readable \<Rightarrow>
                 (let data = take (maxTypedInputSize + 1) bytes in
                  if \<not> readable then Inl (ErrText ''read'' [])
                  else if length data > maxTypedInputSize then Inl (ErrText ''typed input %q exceeds %d bytes'' [path])
                  else Inr data)
             | OpenedAnother \<Rightarrow> Inl (ErrText ''typed input %q changed while opening'' [path])
             | _ \<Rightarrow> Inl (ErrText ''open typed input %q: %w'' [path]))
      | LstatEntry _ _ \<Rightarrow> Inl (ErrText ''typed input %q must be a regular non-symlink file'' [path])
      | _ \<Rightarrow> Inl (ErrText ''inspect typed input %q: %w'' [path]))"

definition read_input :: "command_world \<Rightarrow> string \<Rightarrow> string act" where
  "read_input w path = view_step w path (\<lambda>ft. readRegularFile ft path)"

text \<open>A closed schema.  After canonicaljson.Validate there is exactly one document, so nothing can follow it.\<close>

definition decodeTypedJSON :: "(jval \<Rightarrow> 'a result) \<Rightarrow> ('a \<Rightarrow> go_error option) \<Rightarrow> string \<Rightarrow> 'a result" where
  "decodeTypedJSON decode validate data =
     (case parseStrict data of
        Inl err \<Rightarrow> Inl (ErrWrap ''validate JSON: %w'' [] [err])
      | Inr v \<Rightarrow>
          (case decode v of
             Inl err \<Rightarrow> Inl (ErrWrap ''decode closed JSON schema: %w'' [] [err])
           | Inr x \<Rightarrow> guarded (validate x) (Inr x)))"

section \<open>Replacing a file\<close>

text \<open>The deferred close and removal of the temporary file; a removal that finds nothing is ignored, one that works adds no
  error.\<close>

definition cleaned_up :: "command_world \<Rightarrow> string \<Rightarrow> unit act \<Rightarrow> unit act" where
  "cleaned_up w temporary m h =
     (case m h of
        (r, h') \<Rightarrow>
          (let left = (case r of Inl err \<Rightarrow> Inl (ErrWrap ''joined'' [] [err]) | Inr u \<Rightarrow> Inr u) in
           case cw_Remove w h' temporary of
             RemovalDone \<Rightarrow> (left, h' @ [Did (RemoveFile temporary)])
           | NothingThere \<Rightarrow> (left, h' @ [Looked temporary])
           | RemovalFails \<Rightarrow>
               (Inl (ErrWrap ''joined'' [] ((case r of Inl err \<Rightarrow> [err] | Inr _ \<Rightarrow> []) @ [ErrText ''remove'' []])),
                h' @ [Failed (RemoveFile temporary)])))"

text \<open>After the rename the directory itself is made durable; its handle is closed whatever Sync says.\<close>

definition sync_directory :: "command_world \<Rightarrow> string \<Rightarrow> unit act" where
  "sync_directory w directory =
     bind_step (call_step w (OpenDirectory directory) (ErrText ''open atomic output directory: %w'' [])) (\<lambda>_ h.
       case call_step w (SyncTo directory) (ErrText ''sync'' []) h of
         (synced, h') \<Rightarrow>
           (case call_step w (CloseFile directory) (ErrText ''close'' []) h' of
              (closed, h'') \<Rightarrow>
                (if isl synced \<or> isl closed then Inl (ErrWrap ''joined'' [] []) else Inr (), h'')))"

text \<open>Calls one after the other, each with the error it makes when it fails.\<close>

fun calls_step :: "command_world \<Rightarrow> (file_call \<times> go_error) list \<Rightarrow> unit act" where
  "calls_step w [] = return_step (Inr ())"
| "calls_step w ((c, err) # cs) = bind_step (call_step w c err) (\<lambda>_. calls_step w cs)"

definition replacing_calls :: "string \<Rightarrow> string \<Rightarrow> nat \<Rightarrow> string \<Rightarrow> (file_call \<times> go_error) list" where
  "replacing_calls path data permission temporary =
     [(ChmodFile temporary permission, ErrText ''set atomic output permissions: %w'' []),
      (WriteTo temporary data, ErrText ''write atomic output: %w'' []),
      (SyncTo temporary, ErrText ''sync atomic output: %w'' []),
      (CloseFile temporary, ErrText ''close atomic output: %w'' []),
      (RenameFile temporary path, ErrText ''replace atomic output %q: %w'' [path])]"

definition replace_by :: "command_world \<Rightarrow> string \<Rightarrow> string \<Rightarrow> nat \<Rightarrow> string \<Rightarrow> unit act" where
  "replace_by w path data permission temporary =
     bind_step (calls_step w (replacing_calls path data permission temporary)) (\<lambda>_. sync_directory w (Dir path))"

definition target_usable :: "string \<Rightarrow> file_tree \<Rightarrow> unit result" where
  "target_usable path ft =
     (case ft_Lstat ft path of
        LstatEntry RegularFile _ \<Rightarrow> Inr ()
      | LstatEntry _ _ \<Rightarrow> Inl (ErrText ''atomic output %q must be a regular non-symlink file'' [path])
      | LstatMissing \<Rightarrow> Inr ()
      | LstatFails \<Rightarrow> Inl (ErrText ''inspect atomic output %q: %w'' [path]))"

definition temporary_step :: "command_world \<Rightarrow> string \<Rightarrow> string act" where
  "temporary_step w directory h =
     (case cw_CreateTemp w h directory of
        None \<Rightarrow> (Inl (ErrText ''create atomic output in %q: %w'' [directory]), h @ [Looked directory])
      | Some temporary \<Rightarrow> (Inr temporary, h @ [Did (CreateTemp directory temporary)]))"

definition WriteFileAtomic :: "command_world \<Rightarrow> string \<Rightarrow> string \<Rightarrow> nat \<Rightarrow> unit act" where
  "WriteFileAtomic w path data permission =
     (if permission mod 512 \<noteq> permission \<or> permission mod 64 \<noteq> 0 then
        return_step (Inl (ErrText ''atomic output permission must not grant group or other access'' []))
      else
        bind_step (view_step w path (target_usable path)) (\<lambda>_.
        bind_step (temporary_step w (Dir path)) (\<lambda>temporary.
        cleaned_up w temporary (replace_by w path data permission temporary))))"

section \<open>Outputs for the runner\<close>

definition outputNamePattern :: "string \<Rightarrow> bool" where
  "outputNamePattern name =
     (case name of
        [] \<Rightarrow> False
      | c # cs \<Rightarrow> (is_upper c \<or> is_lower c \<or> c = CHR ''_'') \<and> list_all (\<lambda>d. is_alnum d \<or> d \<in> set ''_-'') cs)"

text \<open>NewOutputAllowlist panics on a name that is none.\<close>

definition NewOutputAllowlist :: "string list \<Rightarrow> string list option" where
  "NewOutputAllowlist names = (if list_all outputNamePattern names then Some names else None)"

definition output_error :: "string list \<Rightarrow> string \<times> string \<Rightarrow> go_error option" where
  "output_error allowlist =
     (\<lambda>(name, v).
        if name \<notin> set allowlist then Some (ErrText ''GitHub output %q is not allowlisted'' [name])
        else if \<not> outputNamePattern name then Some (ErrText ''GitHub output name is invalid'' [])
        else if ContainsAny v [CHR 0x0D, CHR 0x0A, CHR 0x00] then
          Some (ErrText ''GitHub output %q contains a file-command delimiter'' [name])
        else if holds_secret v then Some (ErrText ''GitHub output %q contains secret-like material'' [name])
        else None)"

fun output_errors :: "string list \<Rightarrow> (string \<times> string) list \<Rightarrow> go_error option" where
  "output_errors allowlist [] = None"
| "output_errors allowlist (p # ps) = and_then (output_error allowlist p) (output_errors allowlist ps)"

definition encoded_outputs :: "(string \<times> string) list \<Rightarrow> string" where
  "encoded_outputs outputs = concat (map (\<lambda>(name, v). name @ ''='' @ v @ [CHR 0x0A]) (sort_key fst outputs))"

text \<open>Two attempts to open the file for appending: it may appear between looking and creating.\<close>

fun openAppendRegular :: "command_world \<Rightarrow> string \<Rightarrow> nat \<Rightarrow> unit act" where
  "openAppendRegular w path 0 h = (Inl (ErrText ''file changed while creating'' []), h)"
| "openAppendRegular w path (Suc attempts) h =
     (case ft_Lstat (cw_tree w h) path of
        LstatMissing \<Rightarrow>
          (case cw_Create w h path of
             Created \<Rightarrow> (Inr (), h @ [Did (CreateFile path)])
           | AlreadyThere \<Rightarrow> openAppendRegular w path attempts (h @ [Failed (CreateFile path)])
           | CreateFails \<Rightarrow> (Inl (ErrText ''create'' []), h @ [Failed (CreateFile path)]))
      | LstatFails \<Rightarrow> (Inl (ErrText ''lstat'' []), h @ [Looked path])
      | LstatEntry RegularFile _ \<Rightarrow>
          (case ft_Open (cw_tree w h) path of
             OpenedFile _ _ \<Rightarrow> (Inr (), h @ [Looked path])
           | OpenedAnother \<Rightarrow> (Inl (ErrText ''file changed while opening'' []), h @ [Looked path])
           | _ \<Rightarrow> (Inl (ErrText ''open'' []), h @ [Looked path]))
      | LstatEntry _ _ \<Rightarrow> (Inl (ErrText ''file must be a regular non-symlink file'' []), h @ [Looked path]))"

definition append_step :: "command_world \<Rightarrow> string \<Rightarrow> string \<Rightarrow> unit act" where
  "append_step w path text h =
     (case call_step w (WriteTo path text) (ErrText ''write'' []) h of
        (written, h') \<Rightarrow>
          (case call_step w (CloseFile path) (ErrText ''close'' []) h' of
             (closed, h'') \<Rightarrow> (if isl written \<or> isl closed then Inl (ErrWrap ''joined'' [] []) else Inr (), h'')))"

definition WriteGitHubOutputs :: "command_world \<Rightarrow> string \<Rightarrow> string list \<Rightarrow> (string \<times> string) list \<Rightarrow> unit act" where
  "WriteGitHubOutputs w path allowlist outputs =
     (if path = [] then return_step (Inl (ErrText ''GITHUB_OUTPUT path is required'' []))
      else if outputs = [] then return_step (Inr ())
      else
        bind_step (return_step (guarded (output_errors allowlist outputs) (Inr ()))) (\<lambda>_.
        bind_step (wrap_step ''open GITHUB_OUTPUT: %w'' (openAppendRegular w path 2)) (\<lambda>_.
        append_step w path (encoded_outputs outputs))))"

section \<open>Reports\<close>

definition print_step :: "command_world \<Rightarrow> string \<Rightarrow> unit act" where
  "print_step w text = call_step w (PrintText text) (ErrText ''write'' [])"

definition Fprintln :: "command_world \<Rightarrow> string \<Rightarrow> unit act" where
  "Fprintln w text = print_step w (text @ [CHR 0x0A])"

definition WriteReport :: "report_tools \<Rightarrow> command_world \<Rightarrow> Report \<Rightarrow> unit act" where
  "WriteReport tools w report =
     bind_step (return_step (CanonicalJSON (rt_transform tools) report)) (\<lambda>encoded.
     bind_step (print_step w encoded) (\<lambda>_. Fprintln w []))"

definition tools_New :: "report_tools \<Rightarrow> string \<Rightarrow> string \<Rightarrow> string \<Rightarrow> Diagnostic result" where
  "tools_New tools = New (rt_transform tools)"

definition tools_Build :: "report_tools \<Rightarrow> string option \<Rightarrow> Diagnostic list \<Rightarrow> Report result" where
  "tools_Build tools runInvocation entries = Build (rt_transform tools) (rt_sorter tools) runInvocation entries None"

definition IDVerifierExecutionFailure :: string where
  "IDVerifierExecutionFailure = ''windlass.verify.error.verifier-execution-failure''"

definition IDInputUnavailable :: string where
  "IDInputUnavailable = ''windlass.verify.error.input-unavailable''"

definition single_report :: "report_tools \<Rightarrow> string \<Rightarrow> string \<Rightarrow> string \<Rightarrow> Report result" where
  "single_report tools ident check message =
     bind_result (tools_New tools ident check message) (\<lambda>entry. tools_Build tools None [entry])"

definition writeInvocationReport :: "report_tools \<Rightarrow> command_world \<Rightarrow> string \<Rightarrow> unit act" where
  "writeInvocationReport tools w message =
     bind_step (return_step (single_report tools IDVerifierExecutionFailure ''command.dispatch'' (RedactSecrets [] message)))
       (WriteReport tools w)"

definition writeDiagnostics :: "report_tools \<Rightarrow> command_world \<Rightarrow> string option \<Rightarrow> Diagnostic list \<Rightarrow> unit act" where
  "writeDiagnostics tools w runInvocation entries =
     bind_step (return_step (tools_Build tools runInvocation entries)) (WriteReport tools w)"

definition writeDiagnosticError :: "report_tools \<Rightarrow> command_world \<Rightarrow> string \<Rightarrow> string \<Rightarrow> string \<Rightarrow> unit act" where
  "writeDiagnosticError tools w ident check message =
     bind_step (return_step (tools_New tools ident check (RedactSecrets [] message))) (\<lambda>entry.
       writeDiagnostics tools w None [entry])"

definition ErrVerificationFailure :: go_error where
  "ErrVerificationFailure = ErrText ''verification failure reported'' []"

definition ErrInvocationFailure :: go_error where
  "ErrInvocationFailure = ErrText ''invocation failure reported'' []"

definition emitFailure ::
  "report_tools \<Rightarrow> command_world \<Rightarrow> string \<Rightarrow> string \<Rightarrow> string \<Rightarrow> go_error \<Rightarrow> 'a act" where
  "emitFailure tools w ident check message sentinel =
     bind_step (writeDiagnosticError tools w ident check (RedactSecrets [] message)) (\<lambda>_. return_step (Inl sentinel))"

text \<open>A failure of a step becomes a report; a command returns the sentinel, or what went wrong in reporting.\<close>

definition or_emit ::
  "report_tools \<Rightarrow> command_world \<Rightarrow> 'a act \<Rightarrow> (go_error \<Rightarrow> string \<times> string \<times> string \<times> go_error) \<Rightarrow> 'a act" where
  "or_emit tools w m failing h =
     (case m h of
        (Inr x, h') \<Rightarrow> (Inr x, h')
      | (Inl err, h') \<Rightarrow> (case failing err of (ident, check, message, sentinel) \<Rightarrow> emitFailure tools w ident check message sentinel h'))"

lemma emitFailure_never [simp]: "\<not> (emitFailure tools w ident check message sentinel h = (Inr x, h'))"
  by (simp add: emitFailure_def)

lemma or_emit_Inr [simp]: "or_emit tools w m failing h = (Inr x, h') \<longleftrightarrow> m h = (Inr x, h')"
  by (auto simp: or_emit_def split: prod.splits sum.splits)

section \<open>Arguments\<close>

text \<open>Another part of the program, or of the machine, whose answer is given.\<close>

definition part_step :: "string \<Rightarrow> 'a result \<Rightarrow> 'a act" where
  "part_step what r h = (r, h @ [Looked what])"

lemma part_step_Inr [simp]: "part_step what r h = (Inr x, h') \<longleftrightarrow> r = Inr x \<and> h' = h @ [Looked what]"
  by (auto simp: part_step_def)

text \<open>The flags in front of every command; asked for help it prints its line and is content, where it has one.\<close>

definition with_flags ::
  "command_world \<Rightarrow> string option \<Rightarrow> (string \<Rightarrow> flag_kind option) \<Rightarrow> (string \<Rightarrow> string) \<Rightarrow> string list
    \<Rightarrow> ((string \<Rightarrow> string) \<Rightarrow> string list \<Rightarrow> unit act) \<Rightarrow> unit act" where
  "with_flags w usage formal start args body =
     (case parse_flags formal start args of
        FlagsRejected err \<Rightarrow> return_step (Inl err)
      | FlagHelp \<Rightarrow>
          (case usage of None \<Rightarrow> return_step (Inl (ErrText ''flag: help requested'' [])) | Some line \<Rightarrow> Fprintln w line)
      | FlagsParsed texts others \<Rightarrow> body texts others)"

definition github_output_default :: "command_world \<Rightarrow> string \<Rightarrow> string" where
  "github_output_default w = no_text(''github-output'' := Getenv w ''GITHUB_OUTPUT'')"

lemma with_flags_Inr:
  "with_flags w usage formal start args body h = (Inr u, h') \<longleftrightarrow>
     (parse_flags formal start args = FlagHelp \<and> (\<exists>line. usage = Some line \<and> Fprintln w line h = (Inr u, h')))
     \<or> (\<exists>texts others. parse_flags formal start args = FlagsParsed texts others \<and> body texts others h = (Inr u, h'))"
  by (auto simp: with_flags_def return_step_def split: flag_outcome.splits option.splits)

section \<open>The dispatcher\<close>

definition ExitCodeSuccess :: nat where "ExitCodeSuccess = 0"
definition ExitCodeVerificationFailure :: nat where "ExitCodeVerificationFailure = 1"
definition ExitCodeInvocationFailure :: nat where "ExitCodeInvocationFailure = 2"

fun errors_Is :: "go_error \<Rightarrow> go_error \<Rightarrow> bool" where
  "errors_Is (ErrWrap f args causes) target \<longleftrightarrow> ErrWrap f args causes = target \<or> list_ex (\<lambda>e. errors_Is e target) causes"
| "errors_Is (ErrDiag k i f m s causes) target \<longleftrightarrow>
     ErrDiag k i f m s causes = target \<or> list_ex (\<lambda>e. errors_Is e target) causes"
| "errors_Is e target \<longleftrightarrow> e = target"

text \<open>A command: its name, and what it does with its arguments.\<close>

record subcommand =
  sc_Name :: string
  sc_Execute :: "string list \<Rightarrow> unit act"

text \<open>The dispatcher's map: of two commands of one name the later is kept.\<close>

definition NewDispatcher :: "subcommand list \<Rightarrow> string \<Rightarrow> subcommand option" where
  "NewDispatcher commands = map_of (rev (map (\<lambda>c. (sc_Name c, c)) commands))"

fun each_line :: "command_world \<Rightarrow> string list \<Rightarrow> unit act" where
  "each_line w [] = return_step (Inr ())"
| "each_line w (line # lines) = bind_step (Fprintln w line) (\<lambda>_. each_line w lines)"

definition writeUsage :: "command_world \<Rightarrow> string list \<Rightarrow> unit act" where
  "writeUsage w names =
     each_line w (''Usage: slsa-builder-internal [subcommand] [args...]'' #
       (if names = [] then [''No subcommands registered.'']
        else ''Registered subcommands:'' # map (\<lambda>name. ''  '' @ name) (sort names)))"

text \<open>The exit code and the history.\<close>

definition Dispatch ::
  "report_tools \<Rightarrow> command_world \<Rightarrow> subcommand list \<Rightarrow> string list \<Rightarrow> command_history \<Rightarrow> nat \<times> command_history" where
  "Dispatch tools w commands args h =
     (case args of
        [] \<Rightarrow>
          (case writeUsage w (remdups (map sc_Name commands)) h of
             (Inl _, h') \<Rightarrow> (ExitCodeInvocationFailure, h') | (Inr _, h') \<Rightarrow> (ExitCodeSuccess, h'))
      | first # others \<Rightarrow>
          if first = ''--help'' \<or> first = ''-h'' then
            (case writeUsage w (remdups (map sc_Name commands)) h of
               (Inl _, h') \<Rightarrow> (ExitCodeInvocationFailure, h') | (Inr _, h') \<Rightarrow> (ExitCodeSuccess, h'))
          else
            (case NewDispatcher commands first of
               None \<Rightarrow>
                 (ExitCodeInvocationFailure, snd (writeInvocationReport tools w (rt_Error tools (ErrText ''unknown subcommand %q'' [first])) h))
             | Some selected \<Rightarrow>
                 (case sc_Execute selected others h of
                    (Inr _, h') \<Rightarrow> (ExitCodeSuccess, h')
                  | (Inl err, h') \<Rightarrow>
                      if errors_Is err ErrVerificationFailure then (ExitCodeVerificationFailure, h')
                      else if errors_Is err ErrInvocationFailure then (ExitCodeInvocationFailure, h')
                      else
                        (ExitCodeInvocationFailure,
                         snd (writeInvocationReport tools w
                           (RedactSecrets [] (rt_Error tools (ErrWrap ''subcommand %q failed: %v'' [sc_Name selected] [err]))) h')))))"

section \<open>What a file holds\<close>

text \<open>What a path names after some calls: nothing, a file with these bytes, durable or not, or a file that was written in
  part.  A rename is atomic and keeps what was durable.\<close>

datatype stored = Absent | Holding string bool | InPart

fun made_durable :: "stored \<Rightarrow> stored" where
  "made_durable (Holding bytes _) = Holding bytes True"
| "made_durable s = s"

fun extended_by :: "string \<Rightarrow> stored \<Rightarrow> stored" where
  "extended_by data (Holding bytes _) = Holding (bytes @ data) False"
| "extended_by data s = InPart"

fun call_effect :: "command_event \<Rightarrow> (string \<Rightarrow> stored) \<Rightarrow> string \<Rightarrow> stored" where
  "call_effect (Did (CreateTemp directory path)) f = f(path := Holding [] False)"
| "call_effect (Did (CreateFile path)) f = f(path := Holding [] False)"
| "call_effect (Did (WriteTo path data)) f = f(path := extended_by data (f path))"
| "call_effect (Failed (WriteTo path data)) f = f(path := InPart)"
| "call_effect (Did (SyncTo path)) f = f(path := made_durable (f path))"
| "call_effect (Did (RenameFile source target)) f = f(target := f source, source := Absent)"
| "call_effect (Did (RemoveFile path)) f = f(path := Absent)"
| "call_effect _ f = f"

definition disk_after :: "command_event list \<Rightarrow> (string \<Rightarrow> stored) \<Rightarrow> string \<Rightarrow> stored" where
  "disk_after es f = fold call_effect es f"

text \<open>A condition that holds before, after and between the calls: at whichever of these moments the machine stops.\<close>

fun at_every_moment :: "((string \<Rightarrow> stored) \<Rightarrow> bool) \<Rightarrow> (string \<Rightarrow> stored) \<Rightarrow> command_event list \<Rightarrow> bool" where
  "at_every_moment P f [] \<longleftrightarrow> P f"
| "at_every_moment P f (e # es) \<longleftrightarrow> P f \<and> at_every_moment P (call_effect e f) es"

lemma at_every_moment_append:
  "at_every_moment P f (es @ es') \<longleftrightarrow> at_every_moment P f es \<and> at_every_moment P (disk_after es f) es'"
  by (induction es arbitrary: f) (auto simp: disk_after_def elim: at_every_moment.elims)

lemma at_every_moment_last: "at_every_moment P f es \<Longrightarrow> P (disk_after es f)"
  by (induction es arbitrary: f) (auto simp: disk_after_def)

lemma disk_after_append [simp]: "disk_after (es @ es') f = disk_after es' (disk_after es f)"
  by (simp add: disk_after_def)

lemma disk_after_simps [simp]: "disk_after [] f = f" "disk_after (e # es) f = disk_after es (call_effect e f)"
  by (simp_all add: disk_after_def)

section \<open>A replaced file is whole\<close>

lemma calls_step_trace:
  "calls_step w cs h = (r, h') \<Longrightarrow>
   (if is_ok r then h' = h @ map (Did \<circ> fst) cs
    else \<exists>before c after err. map fst cs = before @ c # after \<and> h' = h @ map Did before @ [Failed c] \<and> r = Inl err)"
proof (induction cs arbitrary: h)
  case Nil
  then show ?case by (auto simp: return_step_def)
next
  case (Cons p cs)
  obtain c err where p: "p = (c, err)" by (cases p)
  show ?case
  proof (cases "cw_accepts w h c")
    case True
    with Cons.prems p have run: "calls_step w cs (h @ [Did c]) = (r, h')" by (simp add: bind_step_def call_step_def)
    show ?thesis
    proof (cases "is_ok r")
      case True
      with Cons.IH [OF run] p show ?thesis by simp
    next
      case False
      with Cons.IH [OF run] obtain before d after e where
        "map fst cs = before @ d # after" "h' = (h @ [Did c]) @ map Did before @ [Failed d]" "r = Inl e" by auto
      with p False have "map fst (p # cs) = (c # before) @ d # after \<and> h' = h @ map Did (c # before) @ [Failed d] \<and> r = Inl e"
        by simp
      with False show ?thesis by (simp del: append.simps list.map) blast
    qed
  next
    case False
    with Cons.prems p have "r = Inl err" "h' = h @ [Failed c]" by (simp_all add: bind_step_def call_step_def)
    with p have "map fst (p # cs) = [] @ c # map fst cs \<and> h' = h @ map Did [] @ [Failed c] \<and> r = Inl err" by simp
    with \<open>r = Inl err\<close> show ?thesis by (simp del: append.simps) blast
  qed
qed

text \<open>The target is either what it was or the whole output, durable; when the calls succeed it is the output.\<close>

definition old_or_whole :: "string \<Rightarrow> string \<Rightarrow> stored \<Rightarrow> (string \<Rightarrow> stored) \<Rightarrow> bool" where
  "old_or_whole path data old f \<longleftrightarrow> f path \<in> {old, Holding data True}"

definition harmless :: "string \<Rightarrow> string \<Rightarrow> stored \<Rightarrow> 'a result \<Rightarrow> command_event list \<Rightarrow> (string \<Rightarrow> stored) \<Rightarrow> bool" where
  "harmless path data old r es f \<longleftrightarrow>
     at_every_moment (old_or_whole path data old) f es \<and> (is_ok r \<longrightarrow> disk_after es f path = Holding data True)"

lemma sync_directory_harmless:
  assumes "sync_directory w directory h = (r, h')" "f path = Holding data True"
  shows "\<exists>es. h' = h @ es \<and> harmless path data old r es f"
proof -
  have event: "call_step w c err h = (Inr (), h @ [Did c]) \<or> call_step w c err h = (Inl err, h @ [Failed c])" for c err h
    by (simp add: call_step_def)
  from assms show ?thesis
    by (auto simp: sync_directory_def bind_step_def call_step_def harmless_def old_or_whole_def split: if_splits)
qed

lemma calls_harmless:
  assumes run: "calls_step w (replacing_calls path data permission temporary) h = (r, h')"
    and f: "f temporary = Holding [] False" "temporary \<noteq> path"
  shows "\<exists>es. h' = h @ es \<and> harmless path data (f path) r es f"
proof (cases "is_ok r")
  case True
  with calls_step_trace [OF run] have "h' = h @ map (Did \<circ> fst) (replacing_calls path data permission temporary)" by simp
  with f show ?thesis by (auto simp: replacing_calls_def harmless_def old_or_whole_def)
next
  case False
  with calls_step_trace [OF run] obtain before c after where
    calls: "map fst (replacing_calls path data permission temporary) = before @ c # after"
    and h': "h' = h @ (map Did before @ [Failed c])" by auto
  from calls f False have "harmless path data (f path) r (map Did before @ [Failed c]) f"
    by (auto simp: replacing_calls_def harmless_def old_or_whole_def Cons_eq_append_conv append_eq_Cons_conv)
  with h' show ?thesis by blast
qed

lemma harmless_append:
  assumes "harmless path data old r es f" "harmless path data old r' es' (disk_after es f)"
  shows "harmless path data old r' (es @ es') f"
  using assms by (simp add: harmless_def at_every_moment_append)

lemma replace_by_harmless:
  assumes run: "replace_by w path data permission temporary h = (r, h')"
    and f: "f temporary = Holding [] False" "temporary \<noteq> path"
  shows "\<exists>es. h' = h @ es \<and> harmless path data (f path) r es f"
proof -
  obtain r1 h1 where calls: "calls_step w (replacing_calls path data permission temporary) h = (r1, h1)"
    by (cases "calls_step w (replacing_calls path data permission temporary) h")
  from calls_harmless [where f = f, OF calls f] obtain es where es: "h1 = h @ es" "harmless path data (f path) r1 es f" by blast
  show ?thesis
  proof (cases r1)
    case (Inl e)
    with run calls have "h' = h1" "isl r" by (auto simp: replace_by_def bind_step_def)
    with es Inl show ?thesis by (auto simp: harmless_def)
  next
    case (Inr u)
    with run calls have dir: "sync_directory w (Dir path) h1 = (r, h')" by (simp add: replace_by_def bind_step_def)
    from es(2) Inr have "disk_after es f path = Holding data True" by (simp add: harmless_def)
    from sync_directory_harmless [where f = "disk_after es f" and old = "f path", OF dir this] obtain es' where
      "h' = h1 @ es'" "harmless path data (f path) r es' (disk_after es f)" by blast
    with harmless_append [OF es(2)] es(1) show ?thesis by auto
  qed
qed

lemma removal_harmless:
  assumes "harmless path data old r es f" "temporary \<noteq> path" "is_ok r' \<longrightarrow> is_ok r"
    "e \<in> {Did (RemoveFile temporary), Looked temporary, Failed (RemoveFile temporary)}"
  shows "harmless path data old r' (es @ [e]) f"
  using assms at_every_moment_last [of "old_or_whole path data old" f es]
  by (auto simp: harmless_def at_every_moment_append old_or_whole_def)

lemma cleaned_up_harmless:
  assumes run: "cleaned_up w temporary (replace_by w path data permission temporary) h = (r, h')"
    and f: "f temporary = Holding [] False" "temporary \<noteq> path"
  shows "\<exists>es. h' = h @ es \<and> harmless path data (f path) r es f"
proof -
  obtain r1 h1 where m: "replace_by w path data permission temporary h = (r1, h1)"
    by (cases "replace_by w path data permission temporary h")
  from replace_by_harmless [where f = f, OF m f] obtain es where es: "h1 = h @ es" "harmless path data (f path) r1 es f" by blast
  from run m obtain e where "h' = h1 @ [e]" "is_ok r \<longrightarrow> is_ok r1"
      "e \<in> {Did (RemoveFile temporary), Looked temporary, Failed (RemoveFile temporary)}"
    by (auto simp: cleaned_up_def Let_def split: removal.splits sum.splits)
  with removal_harmless [OF es(2) f(2)] es(1) show ?thesis by auto
qed

text \<open>os.CreateTemp makes a new file, so not the target.\<close>

definition fresh_names :: "command_world \<Rightarrow> string \<Rightarrow> bool" where
  "fresh_names w path \<longleftrightarrow> (\<forall>h directory. cw_CreateTemp w h directory \<noteq> Some path)"

lemma WriteFileAtomic_harmless:
  assumes fresh: "fresh_names w path" and run: "WriteFileAtomic w path data permission h = (r, h')"
  shows "\<exists>es. h' = h @ es \<and> harmless path data (initially path) r es initially"
proof (cases "permission mod 512 \<noteq> permission \<or> permission mod 64 \<noteq> 0 \<or> isl (target_usable path (cw_tree w h))")
  case True
  with run obtain es where "h' = h @ es" "isl r" "es \<in> {[], [Looked path]}"
    by (cases "target_usable path (cw_tree w h)")
      (auto simp: WriteFileAtomic_def return_step_def bind_step_def view_step_def dest: sym split: if_splits)
  then show ?thesis by (auto simp: harmless_def old_or_whole_def)
next
  case usable: False
  show ?thesis
  proof (cases "cw_CreateTemp w (h @ [Looked path]) (Dir path)")
    case None
    with run usable show ?thesis
      by (auto simp: WriteFileAtomic_def bind_step_def view_step_def temporary_step_def harmless_def old_or_whole_def
          split: sum.splits)
  next
    case (Some temporary)
    define f where "f = initially(temporary := Holding [] False)"
    from fresh Some have other: "temporary \<noteq> path" by (auto simp: fresh_names_def)
    from run usable Some have "cleaned_up w temporary (replace_by w path data permission temporary)
        (h @ [Looked path, Did (CreateTemp (Dir path) temporary)]) = (r, h')"
      by (auto simp: WriteFileAtomic_def bind_step_def view_step_def temporary_step_def split: sum.splits)
    from cleaned_up_harmless [OF this, of f] other obtain es where
      "h' = (h @ [Looked path, Did (CreateTemp (Dir path) temporary)]) @ es" "harmless path data (f path) r es f"
      by (auto simp: f_def)
    with other have "h' = h @ ([Looked path, Did (CreateTemp (Dir path) temporary)] @ es)
        \<and> harmless path data (initially path) r ([Looked path, Did (CreateTemp (Dir path) temporary)] @ es) initially"
      by (simp add: harmless_def old_or_whole_def f_def)
    then show ?thesis by blast
  qed
qed

lemma WriteFileAtomic_extends: "extends (WriteFileAtomic w path data permission)"
proof -
  have call: "extends (call_step w c err)" for w c err by (auto simp: extends_def call_step_def)
  have calls: "extends (calls_step w cs)" for cs
    by (induction w cs rule: calls_step.induct) (auto intro: extends_return extends_bind call)
  have sync: "extends (sync_directory w directory)" for directory
    by (auto simp: extends_def sync_directory_def bind_step_def call_step_def)
  have replace: "extends (replace_by w path data permission temporary)" for temporary
    unfolding replace_by_def by (intro extends_bind calls sync)
  have "extends (cleaned_up w temporary m)" if "extends m" for temporary and m :: "unit act"
    unfolding extends_def
  proof
    fix h
    obtain r h1 where run: "m h = (r, h1)" by (cases "m h")
    from extends_run [OF that run] obtain es where "h1 = h @ es" by blast
    with run show "\<exists>es. snd (cleaned_up w temporary m h) = h @ es"
      by (auto simp: cleaned_up_def Let_def split: removal.split)
  qed
  moreover have "extends (view_step w path (target_usable path))" "extends (temporary_step w directory)" for directory
    by (auto simp: extends_def view_step_def temporary_step_def split: option.split)
  ultimately show ?thesis
    unfolding WriteFileAtomic_def by (auto intro!: extends_bind extends_return replace)
qed

text \<open>
  C20: An output file is never half written.  Whatever fails, and at whichever moment the machine stops, the target holds
  either what it held before or exactly the new bytes, already durable; and when the code reports success it holds the new
  bytes.  This needs that os.CreateTemp gives a new file, so not the target.
\<close>

theorem atomic_write:
  assumes "fresh_names w path"
  shows "case WriteFileAtomic w path data permission h of
     (r, h') \<Rightarrow> \<exists>es. h' = h @ es
       \<and> at_every_moment (\<lambda>disk. disk path \<in> {initially path, Holding data True}) initially es
       \<and> (if is_ok r then disk_after es initially path = Holding data True else True)"
proof -
  obtain r h' where run: "WriteFileAtomic w path data permission h = (r, h')"
    by (cases "WriteFileAtomic w path data permission h")
  from WriteFileAtomic_harmless [OF assms run, of initially] run show ?thesis
    by (auto simp: harmless_def old_or_whole_def [abs_def])
qed

definition example_command_tree :: file_tree where
  "example_command_tree = \<lparr>ft_Abs = Inr, ft_EvalSymlinks = Inr, ft_IsDir = (\<lambda>_. True), ft_ReadDir = (\<lambda>_. Inr []),
     ft_Lstat = (\<lambda>_. LstatMissing), ft_Open = (\<lambda>_. OpenMissing)\<rparr>"

definition example_command_world :: command_world where
  "example_command_world = \<lparr>cw_LookupEnv = (\<lambda>_. None), cw_now = (\<lambda>_. 0), cw_cancelled = (\<lambda>_. False), cw_tree = (\<lambda>_. example_command_tree),
     cw_accepts = (\<lambda>_ _. True), cw_CreateTemp = (\<lambda>_ directory. Some ''/out/.slsa-builder-1''), cw_Create = (\<lambda>_ _. Created),
     cw_Remove = (\<lambda>_ _. NothingThere), cw_artifact = (\<lambda>_ _. example_fs)\<rparr>"

theorem atomic_write_witness:
  "is_ok (fst (WriteFileAtomic example_command_world ''/out/report'' ''{}'' 384 [])) \<and>
   (\<exists>es. snd (WriteFileAtomic example_command_world ''/out/report'' ''{}'' 384 []) = [] @ es \<and>
      disk_after es (\<lambda>_. Absent) ''/out/report'' = Holding ''{}'' True)"
proof -
  have fresh: "fresh_names example_command_world ''/out/report''"
    by (simp add: fresh_names_def example_command_world_def)
  have ok: "is_ok (fst (WriteFileAtomic example_command_world ''/out/report'' ''{}'' 384 []))" by code_simp
  with atomic_write [where w = example_command_world and path = "''/out/report''" and data = "''{}''" and permission = 384
      and h = "[]" and initially = "\<lambda>_. Absent", OF fresh]
  show ?thesis by (auto split: prod.splits)
qed

section \<open>Outputs are read back\<close>

text \<open>How the runner reads a line of the file: the name and the value around the first equals sign, unless two less-than signs
  come before it, which begin a value of several lines; an empty line is nothing.\<close>

definition runner_line :: "string \<Rightarrow> (string \<times> string) option" where
  "runner_line line =
     (case Cut line ''='' of
        None \<Rightarrow> None
      | Some (name, v) \<Rightarrow> if Contains name ''<<'' \<or> name = [] then None else Some (name, v))"

definition runner_outputs :: "string \<Rightarrow> (string \<times> string) list option" where
  "runner_outputs text = all_some (map runner_line (filter (\<lambda>line. line \<noteq> []) (split_on (CHR 0x0A) text)))"

definition good_output :: "string list \<Rightarrow> string \<times> string \<Rightarrow> bool" where
  "good_output allowlist = (\<lambda>(name, v).
     name \<in> set allowlist \<and> outputNamePattern name \<and> set v \<inter> {CHR 0x0D, CHR 0x0A, CHR 0x00} = {}
     \<and> free_of secret_token_at None v \<and> \<not> holds_secret v)"

lemma output_error_None: "output_error allowlist p = None \<longleftrightarrow> good_output allowlist p"
  by (auto simp: output_error_def good_output_def ContainsAny_iff dest: no_secret_no_token split: prod.splits)

lemma output_errors_None: "output_errors allowlist ps = None \<longleftrightarrow> list_all (good_output allowlist) ps"
  by (induction ps) (simp_all add: output_error_None)

lemma outputNamePattern_chars:
  assumes "outputNamePattern name" "c \<in> set name"
  shows "c \<notin> {CHR ''='', CHR ''<'', CHR 0x0A}"
proof -
  from assms have "is_alnum c \<or> c \<in> set ''_-''"
    by (cases name) (auto simp: outputNamePattern_def is_alnum_def list_all_iff)
  moreover have "\<forall>d\<in>{CHR ''='', CHR ''<'', CHR 0x0A}. \<not> is_alnum d \<and> d \<notin> set ''_-''" by code_simp
  ultimately show ?thesis by blast
qed

lemma runner_line_output:
  assumes "good_output allowlist (name, v)"
  shows "runner_line (name @ CHR ''='' # v) = Some (name, v)"
proof -
  from assms have name: "outputNamePattern name" by (simp add: good_output_def)
  with outputNamePattern_chars have chars: "CHR ''='' \<notin> set name" "CHR ''<'' \<notin> set name" by blast+
  from chars(2) have "\<not> Contains name ''<<''" by (auto simp: Contains_iff)
  moreover from name have "name \<noteq> []" by (auto simp: outputNamePattern_def)
  ultimately show ?thesis using chars(1) by (simp add: runner_line_def)
qed

lemma runner_outputs_encoded:
  assumes "list_all (good_output allowlist) ps"
  shows "runner_outputs (concat (map (\<lambda>(name, v). name @ ''='' @ v @ [CHR 0x0A]) ps)) = Some ps"
  using assms
proof (induction ps)
  case Nil
  then show ?case by (simp add: runner_outputs_def)
next
  case (Cons p ps)
  obtain name v where p: "p = (name, v)" by (cases p)
  with Cons.prems have good: "good_output allowlist (name, v)" by simp
  then have "outputNamePattern name" "CHR 0x0A \<notin> set v" by (auto simp: good_output_def)
  with outputNamePattern_chars have "CHR 0x0A \<notin> set (name @ CHR ''='' # v)" by fastforce
  from split_on_append [OF this] have
    "split_on (CHR 0x0A) (concat (map (\<lambda>(name, v). name @ ''='' @ v @ [CHR 0x0A]) (p # ps)))
      = (name @ CHR ''='' # v) # split_on (CHR 0x0A) (concat (map (\<lambda>(name, v). name @ ''='' @ v @ [CHR 0x0A]) ps))"
    by (simp add: p)
  with Cons runner_line_output [OF good] p show ?case by (simp add: runner_outputs_def)
qed

lemma encoded_outputs_read:
  assumes "list_all (good_output allowlist) outputs"
  shows "runner_outputs (encoded_outputs outputs) = Some (sort_key fst outputs)"
proof -
  from assms have "list_all (good_output allowlist) (sort_key fst outputs)" by (simp add: list_all_iff)
  then show ?thesis unfolding encoded_outputs_def by (rule runner_outputs_encoded)
qed

text \<open>Looking and creating write nothing.\<close>

definition writes_nothing :: "command_event list \<Rightarrow> bool" where
  "writes_nothing es \<longleftrightarrow> (\<forall>p t. Did (WriteTo p t) \<notin> set es \<and> Failed (WriteTo p t) \<notin> set es)"

lemma openAppendRegular_trace:
  "openAppendRegular w path n h = (r, h') \<Longrightarrow> \<exists>es. h' = h @ es \<and> writes_nothing es"
proof (induction w path n h rule: openAppendRegular.induct)
  case (1 w path h)
  then show ?case by (auto simp: writes_nothing_def)
next
  case (2 w path n h)
  show ?case
  proof (cases "ft_Lstat (cw_tree w h) path = LstatMissing \<and> cw_Create w h path = AlreadyThere")
    case True
    with 2 obtain es where "h' = (h @ [Failed (CreateFile path)]) @ es" "writes_nothing es" by auto
    then have "h' = h @ (Failed (CreateFile path) # es) \<and> writes_nothing (Failed (CreateFile path) # es)"
      by (simp add: writes_nothing_def)
    then show ?thesis by blast
  next
    case False
    with "2.prems" show ?thesis
      by (auto simp: writes_nothing_def split: lstat.splits entry_kind.splits opened.splits creation.splits)
  qed
qed

lemma append_step_trace:
  "append_step w path text h = (r, h') \<Longrightarrow>
   \<exists>e e'. h' = h @ [e, e'] \<and> e \<in> {Did (WriteTo path text), Failed (WriteTo path text)}
     \<and> e' \<in> {Did (CloseFile path), Failed (CloseFile path)}
     \<and> (is_ok r \<longrightarrow> e = Did (WriteTo path text) \<and> e' = Did (CloseFile path))"
  by (auto simp: append_step_def call_step_def split: if_splits)

text \<open>
  C21: The runner reads exactly the outputs.  When the outputs are written, the runner gets from the appended text each output
  once, in the order of their names, with the value it was given; every name is allowed, every value is one line without a
  token of GitHub or npm.  If one output is refused nothing at all is written, and in any case no more than this one text.
\<close>

theorem github_outputs_exact:
  "case WriteGitHubOutputs w path allowlist outputs h of
     (r, h') \<Rightarrow>
       (if list_all (good_output allowlist) outputs \<and> path \<noteq> [] then True else outputs = [] \<or> (isl r \<and> h' = h)) \<and>
       (\<exists>es. h' = h @ es \<and>
         (if is_ok r \<and> outputs \<noteq> [] then
            list_all (good_output allowlist) outputs \<and>
            (\<exists>looks text. es = looks @ [Did (WriteTo path text), Did (CloseFile path)] \<and> writes_nothing looks \<and>
               runner_outputs text = Some (sort_key fst outputs))
          else
            writes_nothing es \<or> (\<exists>looks e e'. es = looks @ [e, e'] \<and> writes_nothing looks \<and>
              e \<in> {Did (WriteTo path (encoded_outputs outputs)), Failed (WriteTo path (encoded_outputs outputs))} \<and>
              e' \<in> {Did (CloseFile path), Failed (CloseFile path)})))"
proof (cases "path = [] \<or> outputs = [] \<or> \<not> list_all (good_output allowlist) outputs")
  case True
  then show ?thesis
    by (auto simp: WriteGitHubOutputs_def return_step_def bind_step_def writes_nothing_def output_errors_None [symmetric]
        split: prod.splits sum.splits)
next
  case False
  then have good: "list_all (good_output allowlist) outputs" and none: "output_errors allowlist outputs = None"
    by (simp_all add: output_errors_None)
  obtain r1 h1 where opened: "openAppendRegular w path 2 h = (r1, h1)" by (cases "openAppendRegular w path 2 h")
  from openAppendRegular_trace [OF opened] obtain looks where o: "h1 = h @ looks" "writes_nothing looks" by blast
  show ?thesis
  proof (cases r1)
    case (Inl err)
    with False none opened o show ?thesis
      by (auto simp: WriteGitHubOutputs_def return_step_def bind_step_def wrap_step_def split: prod.splits)
  next
    case (Inr u)
    obtain r2 h2 where a: "append_step w path (encoded_outputs outputs) h1 = (r2, h2)"
      by (cases "append_step w path (encoded_outputs outputs) h1")
    from append_step_trace [OF this] obtain e e' where e: "h2 = h1 @ [e, e']"
        "e \<in> {Did (WriteTo path (encoded_outputs outputs)), Failed (WriteTo path (encoded_outputs outputs))}"
        "e' \<in> {Did (CloseFile path), Failed (CloseFile path)}"
        "is_ok r2 \<longrightarrow> e = Did (WriteTo path (encoded_outputs outputs)) \<and> e' = Did (CloseFile path)" by blast
    note exact = encoded_outputs_read [OF good]
    have run: "WriteGitHubOutputs w path allowlist outputs h = (r2, h2)"
      using False none opened Inr a by (simp add: WriteGitHubOutputs_def return_step_def bind_step_def wrap_step_def)
    show ?thesis
    proof (cases r2)
      case (Inl err)
      with run e o False good show ?thesis by fastforce
    next
      case (Inr u)
      with run e(1,4) o False good exact show ?thesis by auto
    qed
  qed
qed

lemma WriteGitHubOutputs_Inr:
  assumes "WriteGitHubOutputs w path allowlist outputs h = (Inr u, h')" "outputs \<noteq> []"
  shows "list_all (good_output allowlist) outputs"
    and "\<exists>looks. h' = h @ looks @ [Did (WriteTo path (encoded_outputs outputs)), Did (CloseFile path)]"
proof -
  from assms obtain h1 where run: "output_errors allowlist outputs = None" "openAppendRegular w path 2 h = (Inr (), h1)"
      "append_step w path (encoded_outputs outputs) h1 = (Inr u, h')"
    by (auto simp: WriteGitHubOutputs_def return_step_def split: if_splits)
  from run(1) show "list_all (good_output allowlist) outputs" by (simp add: output_errors_None)
  from openAppendRegular_trace [OF run(2)] append_step_trace [OF run(3)]
  show "\<exists>looks. h' = h @ looks @ [Did (WriteTo path (encoded_outputs outputs)), Did (CloseFile path)]" by auto
qed

section \<open>What commands may do\<close>

text \<open>Looking and printing.\<close>

definition reporting :: "command_event \<Rightarrow> bool" where
  "reporting e = (case e of Looked _ \<Rightarrow> True | Did (PrintText _) \<Rightarrow> True | Failed (PrintText _) \<Rightarrow> True | _ \<Rightarrow> False)"

text \<open>Besides, appending one text to one file.\<close>

definition reporting_or_appending :: "string \<Rightarrow> string \<Rightarrow> command_event \<Rightarrow> bool" where
  "reporting_or_appending path text e \<longleftrightarrow> reporting e \<or>
     e \<in> {Did (WriteTo path text), Failed (WriteTo path text), Did (CreateFile path), Failed (CreateFile path),
       Did (CloseFile path), Failed (CloseFile path)}"

lemma keeps_call: "P (Did c) \<Longrightarrow> P (Failed c) \<Longrightarrow> keeps P (call_step w c err)"
  by (auto simp: keeps_def call_step_def)

lemma keeps_view: "P (Looked what) \<Longrightarrow> keeps P (view_step w what see)"
  by (auto simp: keeps_def view_step_def)

lemma keeps_part: "P (Looked what) \<Longrightarrow> keeps P (part_step what r)"
  by (auto simp: keeps_def part_step_def)

lemma keeps_active: "keeps P (active_command w)"
  by (auto simp: keeps_def active_command_def)

lemma reporting_simps [simp]: "reporting (Looked what)" "reporting (Did (PrintText t))" "reporting (Failed (PrintText t))"
  by (simp_all add: reporting_def)

lemma keeps_report: "keeps reporting (WriteReport tools w report)"
  unfolding WriteReport_def Fprintln_def print_step_def by (intro keeps_bind keeps_return keeps_call) simp_all

lemma keeps_diagnostics: "keeps reporting (writeDiagnostics tools w runInvocation entries)"
  unfolding writeDiagnostics_def by (intro keeps_bind keeps_return keeps_report)

lemma keeps_emit: "keeps reporting (emitFailure tools w ident check message sentinel)"
  unfolding emitFailure_def writeDiagnosticError_def by (intro keeps_bind keeps_return keeps_diagnostics)

lemma keeps_weaken: "keeps P m \<Longrightarrow> (\<And>e. P e \<Longrightarrow> Q e) \<Longrightarrow> keeps Q m"
  by (force simp: keeps_def list_all_iff)

lemma keeps_or_emit:
  assumes m: "keeps P m" and reports: "\<And>e. reporting e \<Longrightarrow> P e"
  shows "keeps P (or_emit tools w m failing)"
  unfolding keeps_def
proof (intro allI)
  fix h
  obtain r h1 where run: "m h = (r, h1)" by (cases "m h")
  from keeps_run [OF m run] obtain es where es: "h1 = h @ es" "list_all P es" by blast
  show "\<exists>es. snd (or_emit tools w m failing h) = h @ es \<and> list_all P es"
  proof (cases r)
    case (Inl err)
    obtain ident check message sentinel where f: "failing err = (ident, check, message, sentinel)" by (cases "failing err")
    obtain r2 h2 where e: "emitFailure tools w ident check message sentinel h1 = (r2 :: 'a result, h2)"
      by (cases "emitFailure tools w ident check message sentinel h1 :: 'a result \<times> command_history")
    have "keeps P (emitFailure tools w ident check message sentinel :: 'a act)"
      by (rule keeps_weaken [OF keeps_emit reports])
    from keeps_run [OF this e] obtain es' where "h2 = h1 @ es'" "list_all P es'" by blast
    with es run Inl f e show ?thesis by (simp add: or_emit_def)
  next
    case (Inr x)
    with es run show ?thesis by (simp add: or_emit_def)
  qed
qed

lemma keeps_open: "keeps (reporting_or_appending path text) (openAppendRegular w path n)"
  unfolding keeps_def
proof (intro allI)
  fix h
  show "\<exists>es. snd (openAppendRegular w path n h) = h @ es \<and> list_all (reporting_or_appending path text) es"
  proof (induction w path n h rule: openAppendRegular.induct)
    case (1 w path h)
    then show ?case by simp
  next
    case (2 w path n h)
    show ?case
    proof (cases "ft_Lstat (cw_tree w h) path = LstatMissing \<and> cw_Create w h path = AlreadyThere")
      case True
      with 2 obtain es where "snd (openAppendRegular w path n (h @ [Failed (CreateFile path)])) = (h @ [Failed (CreateFile path)]) @ es"
          "list_all (reporting_or_appending path text) es" by auto
      moreover have "reporting_or_appending path text (Failed (CreateFile path))" by (simp add: reporting_or_appending_def)
      ultimately show ?thesis using True by simp
    next
      case False
      then show ?thesis
        by (auto simp: reporting_or_appending_def split: lstat.splits entry_kind.splits opened.splits creation.splits)
    qed
  qed
qed

lemma keeps_append: "keeps (reporting_or_appending path text) (append_step w path text)"
  by (auto simp: keeps_def append_step_def call_step_def reporting_or_appending_def)

lemma keeps_outputs:
  "keeps (reporting_or_appending path (encoded_outputs outputs)) (WriteGitHubOutputs w path allowlist outputs)"
  unfolding WriteGitHubOutputs_def
  by (auto intro!: keeps_bind keeps_return keeps_wrap keeps_open keeps_append)

text \<open>A package may be named npm_lazy, which looks like a token of npm, so its name is refused as an output.\<close>

lemma npm_names_refused:
  "\<not> good_output [''package-name''] (''package-name'', ''npm_lazy'')"
  "\<not> good_output [''package-name''] (''package-name'', ''@scope/npm_lazy'')"
  by code_simp+

end
