(* ===== verification/MetadataJson.thy ===== *)
theory MetadataJson
  imports StatementJson Signing BuildPack
begin

text \<open>
  internal/npmprofile/build_metadata_json.go: reading the metadata of a build back.  The envelope has exactly six members; the
  two timestamps have to be there, and no recorded dependency may have a member of its own.
\<close>

section \<open>The envelope\<close>

definition zero_artifact :: PrimaryArtifact where
  "zero_artifact = \<lparr>pa_ArtifactName = [], pa_PayloadFileName = [], pa_SHA256 = [], pa_SHA512 = []\<rparr>"

definition artifact_fields :: "PrimaryArtifact field list" where
  "artifact_fields =
     [(''artifact_name'', store_string (\<lambda>x. pa_ArtifactName_update (\<lambda>_. x))),
      (''payload_file_name'', store_string (\<lambda>x. pa_PayloadFileName_update (\<lambda>_. x))),
      (''sha256'', store_string (\<lambda>x. pa_SHA256_update (\<lambda>_. x))),
      (''sha512'', store_string (\<lambda>x. pa_SHA512_update (\<lambda>_. x)))]"

text \<open>The decoded struct: the metadata, and the two pointers that shadow its timestamps.\<close>

record decoded_metadata =
  dm_Metadata :: BuildMetadata
  dm_StartedOn :: "string option"
  dm_FinishedOn :: "string option"

definition zero_metadata :: BuildMetadata where
  "zero_metadata = \<lparr>bm_SchemaVersion = [], bm_StartedOn = [], bm_FinishedOn = [], bm_PrimaryArtifact = zero_artifact,
     bm_ExternalParameters = [], bm_ResolvedDependencies = []\<rparr>"

definition set_metadata :: "(BuildMetadata \<Rightarrow> BuildMetadata) \<Rightarrow> decoded_metadata \<Rightarrow> decoded_metadata" where
  "set_metadata f = dm_Metadata_update f"

definition metadata_raw_fields :: "decoded_metadata raw_field list" where
  "metadata_raw_fields =
     [(''schema_version'', text_field (\<lambda>x. set_metadata (bm_SchemaVersion_update (\<lambda>_. x)))),
      (''primary_artifact'', from_parsed (store_struct (bm_PrimaryArtifact \<circ> dm_Metadata)
         (\<lambda>x. set_metadata (bm_PrimaryArtifact_update (\<lambda>_. x))) artifact_fields)),
      (''external_parameters'', raw_text (\<lambda>x. set_metadata (bm_ExternalParameters_update (\<lambda>_. x)))),
      (''resolved_dependencies'', raw_part (bm_ResolvedDependencies \<circ> dm_Metadata)
         (\<lambda>x. set_metadata (bm_ResolvedDependencies_update (\<lambda>_. x)))
         (raw_slice zero_descriptor (\<lambda>_. ResourceDescriptor_UnmarshalJSON))),
      (''started_on'', from_parsed (store_pointer (\<lambda>x. dm_StartedOn_update (\<lambda>_. x)))),
      (''finished_on'', from_parsed (store_pointer (\<lambda>x. dm_FinishedOn_update (\<lambda>_. x))))]"

definition metadata_members :: "string list" where
  "metadata_members = [''schema_version'', ''started_on'', ''finished_on'', ''primary_artifact'', ''external_parameters'',
     ''resolved_dependencies'']"

definition metadata_error :: "string \<Rightarrow> string list \<Rightarrow> go_error" where
  "metadata_error message args = ErrText (''decode build metadata JSON: '' @ message) args"

text \<open>The first descriptor with members of its own.  They are decoded once more without UnmarshalJSON, which fails unless each
  such member has the name of a field up to case; either way the document is refused.\<close>

definition closed_members :: "'r raw_field list \<Rightarrow> string \<Rightarrow> bool" where
  "closed_members fs raw =
     (case raw_members raw of None \<Rightarrow> False | Some members \<Rightarrow> list_all (\<lambda>(name, _). find_raw_field fs name \<noteq> None) members)"

definition closed_dependencies :: "(string \<times> string) list \<Rightarrow> bool" where
  "closed_dependencies members =
     (case map_of members ''resolved_dependencies'' of
        None \<Rightarrow> True
      | Some raw \<Rightarrow>
          (case raw_items raw of None \<Rightarrow> False | Some items \<Rightarrow> list_all (closed_members descriptor_raw_fields) items))"

definition unexpected_error :: "(string \<times> string) list \<Rightarrow> ResourceDescriptor list \<Rightarrow> go_error option" where
  "unexpected_error members descriptors =
     (case filter (\<lambda>(_, d). rd_hasUnexpectedFields d) (enumerate 0 descriptors) of
        [] \<Rightarrow> None
      | (index, _) # _ \<Rightarrow>
          Some (if \<not> closed_dependencies members then metadata_error ''%w'' []
                else metadata_error ''resolved_dependencies[%d] contains unrecognized members'' [show_nat index]))"

definition timestamped :: "decoded_metadata \<Rightarrow> BuildMetadata result" where
  "timestamped d =
     (case dm_StartedOn d of
        None \<Rightarrow> Inl (ErrText ''build metadata requires started_on'' [])
      | Some started \<Rightarrow>
          (case dm_FinishedOn d of
             None \<Rightarrow> Inl (ErrText ''build metadata requires finished_on'' [])
           | Some finished \<Rightarrow> Inr ((dm_Metadata d)\<lparr>bm_StartedOn := started, bm_FinishedOn := finished\<rparr>)))"

definition BuildMetadata_UnmarshalJSON :: "string \<Rightarrow> BuildMetadata result" where
  "BuildMetadata_UnmarshalJSON encoded =
     (case Validate encoded of
        Some err \<Rightarrow> Inl (ErrWrap ''validate build metadata JSON: %w'' [] [err])
      | None \<Rightarrow>
     (case raw_members encoded of
        None \<Rightarrow> Inl (metadata_error ''%w'' [])
      | Some members \<Rightarrow>
     (case find (\<lambda>(name, _). name \<notin> set metadata_members) members of
        Some (name, _) \<Rightarrow> Inl (metadata_error ''json: unknown field %q'' [name])
      | None \<Rightarrow>
     (case raw_struct metadata_raw_fields \<lparr>dm_Metadata = zero_metadata, dm_StartedOn = None, dm_FinishedOn = None\<rparr> encoded of
        None \<Rightarrow> Inl (metadata_error ''%w'' [])
      | Some decoded \<Rightarrow>
          guarded (unexpected_error members (bm_ResolvedDependencies (dm_Metadata decoded))) (timestamped decoded)))))"

section \<open>What was read\<close>

text \<open>Metadata that is accepted is one JSON document without duplicate members, which names nothing but the six members; both
  timestamps are its own texts, and every dependency it records has only the members of a descriptor.\<close>

lemma metadata_closed:
  assumes "BuildMetadata_UnmarshalJSON encoded = Inr metadata"
  shows "Validate encoded = None"
    and "\<exists>members. raw_members encoded = Some members \<and> (\<forall>(name, raw)\<in>set members. name \<in> set metadata_members)"
    and "list_all (\<lambda>d. \<not> rd_hasUnexpectedFields d) (bm_ResolvedDependencies metadata)"
proof -
  from assms obtain members decoded where m: "Validate encoded = None" "raw_members encoded = Some members"
      "find (\<lambda>(name, _). name \<notin> set metadata_members) members = None"
      "unexpected_error members (bm_ResolvedDependencies (dm_Metadata decoded)) = None"
      "timestamped decoded = Inr metadata"
    by (auto simp: BuildMetadata_UnmarshalJSON_def split: option.splits)
  from m(1) show "Validate encoded = None" .
  from m(2,3) show "\<exists>members. raw_members encoded = Some members \<and> (\<forall>(name, raw)\<in>set members. name \<in> set metadata_members)"
    by (auto simp: find_None_iff)
  from m(4) have "filter (\<lambda>(_, d). rd_hasUnexpectedFields d) (enumerate 0 (bm_ResolvedDependencies (dm_Metadata decoded))) = []"
    by (auto simp: unexpected_error_def split: list.splits)
  moreover have "\<exists>i. (i, d) \<in> set (enumerate 0 ds)" if "d \<in> set ds" for d and ds :: "ResourceDescriptor list"
  proof -
    from that have "d \<in> snd ` set (enumerate 0 ds)" by (metis map_snd_enumerate set_map)
    then show ?thesis by auto
  qed
  ultimately have "list_all (\<lambda>d. \<not> rd_hasUnexpectedFields d) (bm_ResolvedDependencies (dm_Metadata decoded))"
    by (fastforce simp: filter_empty_conv list_all_iff)
  with m(5) show "list_all (\<lambda>d. \<not> rd_hasUnexpectedFields d) (bm_ResolvedDependencies metadata)"
    by (auto simp: timestamped_def split: option.splits)
qed

lemma metadata_example:
  "map_result bm_FinishedOn (BuildMetadata_UnmarshalJSON
     ''{\"schema_version\":\"1\",\"started_on\":\"a\",\"finished_on\":\"b\",\"primary_artifact\":{},\"resolved_dependencies\":[]}'')
   = Inr ''b''"
  "isl (BuildMetadata_UnmarshalJSON ''{\"started_on\":\"a\",\"finished_on\":null}'')"
  "isl (BuildMetadata_UnmarshalJSON ''{\"started_on\":\"a\",\"finished_on\":\"b\",\"resolved_dependencies\":[{\"x\":1}]}'')"
  by code_simp+

end
