(* ===== verification/VerifyCommands.thy ===== *)
theory VerifyCommands
  imports CommandIo MetadataJson Attestation SourceRef Pins Provision
begin

text \<open>
  internal/command/verify_attestation.go: a bundle is verified under a policy that binds the expected identity and the
  signed source.  The reporting of typed errors is shared with the other commands.
\<close>

section \<open>Errors and reports\<close>

text \<open>errors.As for an error type that carries a Diagnostic: the first such error of the chain.\<close>

fun errors_As :: "err_kind \<Rightarrow> go_error \<Rightarrow> go_error option"
and errors_As_list :: "err_kind \<Rightarrow> go_error list \<Rightarrow> go_error option" where
  "errors_As kind (ErrText _ _) = None"
| "errors_As kind (ErrDuplicateMember _ _) = None"
| "errors_As kind (ErrWrap _ _ causes) = errors_As_list kind causes"
| "errors_As kind (ErrDiag k ident check message sources causes) =
     (if k = kind then Some (ErrDiag k ident check message sources causes) else errors_As_list kind causes)"
| "errors_As_list kind [] = None"
| "errors_As_list kind (e # es) = (case errors_As kind e of Some x \<Rightarrow> Some x | None \<Rightarrow> errors_As_list kind es)"

text \<open>The Diagnostic of such an error, as it was made from the registry.\<close>

definition error_diagnostic :: "go_error \<Rightarrow> Diagnostic option" where
  "error_diagnostic err =
     (case err of
        ErrDiag kind ident check message sources causes \<Rightarrow>
          map_option (\<lambda>d. \<lparr>dg_ID = ident, dg_Severity = def_Severity d, dg_Category = def_Category d, dg_Check = check,
            dg_Message = message, dg_Field = check, dg_Expected = None, dg_Actual = None, dg_PolicySources = sources,
            dg_Evidence = []\<rparr>) (Lookup ident)
      | _ \<Rightarrow> None)"

definition emit_diagnostic :: "report_tools \<Rightarrow> command_world \<Rightarrow> Diagnostic \<Rightarrow> go_error \<Rightarrow> 'a act" where
  "emit_diagnostic tools w entry sentinel =
     bind_step (writeDiagnostics tools w None [entry]) (\<lambda>_. return_step (Inl sentinel))"

definition emitTypedVerificationFailure :: "report_tools \<Rightarrow> command_world \<Rightarrow> go_error \<Rightarrow> 'a act" where
  "emitTypedVerificationFailure tools w err =
     (case Option.bind (errors_As KAttestation err) error_diagnostic of
        Some entry \<Rightarrow>
          emit_diagnostic tools w entry
            (case Lookup (dg_ID entry) of
               None \<Rightarrow> ErrVerificationFailure
             | Some d \<Rightarrow> if def_ExitCode d = ExitCodeInvocationFailure then ErrInvocationFailure else ErrVerificationFailure)
      | None \<Rightarrow>
          (case Option.bind (errors_As KPolicy err) error_diagnostic of
             Some entry \<Rightarrow> emit_diagnostic tools w entry ErrVerificationFailure
           | None \<Rightarrow> emitFailure tools w IDVerifierExecutionFailure ''verify-attestation''
               ''attestation verification could not be completed'' ErrInvocationFailure))"

definition diagnosticIDOf :: "go_error \<Rightarrow> string" where
  "diagnosticIDOf err = diagnosticID err"

definition emitPolicyFailure :: "report_tools \<Rightarrow> command_world \<Rightarrow> go_error \<Rightarrow> 'a act" where
  "emitPolicyFailure tools w err =
     (if errors_As KPolicy err \<noteq> None then emitTypedVerificationFailure tools w err
      else if diagnosticIDOf err \<noteq> [] then
        emitFailure tools w (diagnosticIDOf err) ''policy'' ''verifier policy contains ambiguous JSON'' ErrVerificationFailure
      else
        emitFailure tools w ''windlass.verify.error.policy-schema-invalid'' ''policy''
          ''verifier policy violates the closed schema'' ErrVerificationFailure)"

text \<open>A result, or what is done about its error; that never ends well.\<close>

definition or_else :: "'a result \<Rightarrow> (go_error \<Rightarrow> 'a act) \<Rightarrow> 'a act" where
  "or_else r handle = (case r of Inr x \<Rightarrow> return_step (Inr x) | Inl err \<Rightarrow> handle err)"

definition never_succeeds :: "'a act \<Rightarrow> bool" where
  "never_succeeds m \<longleftrightarrow> (\<forall>h x h'. m h \<noteq> (Inr x, h'))"

lemma or_else_Inr: "(\<And>err. never_succeeds (handle err)) \<Longrightarrow> or_else r handle h = (Inr x, h') \<longleftrightarrow> r = Inr x \<and> h' = h"
  by (cases r) (auto simp: or_else_def return_step_def never_succeeds_def)

lemma never_emitFailure: "never_succeeds (emitFailure tools w ident check message sentinel)"
  by (simp add: never_succeeds_def)

lemma never_emit_diagnostic: "never_succeeds (emit_diagnostic tools w entry sentinel)"
  by (simp add: never_succeeds_def emit_diagnostic_def)

lemma never_emitTyped: "never_succeeds (emitTypedVerificationFailure tools w err)"
  by (simp add: emitTypedVerificationFailure_def never_emitFailure never_emit_diagnostic split: option.splits)

lemma never_emitPolicy: "never_succeeds (emitPolicyFailure tools w err)"
  by (simp add: emitPolicyFailure_def never_emitFailure never_emitTyped)

section \<open>The policy binds the identity\<close>

text \<open>An identityPolicyBindingError with its ID, or another error.\<close>

datatype binding_error = BindingError string string | OtherError go_error

definition binding_id :: "binding_error \<Rightarrow> string" where
  "binding_id err = (case err of BindingError ident _ \<Rightarrow> ident | OtherError e \<Rightarrow> diagnosticIDOf e)"

definition binding_text :: "report_tools \<Rightarrow> binding_error \<Rightarrow> string" where
  "binding_text tools err = (case err of BindingError _ message \<Rightarrow> message | OtherError e \<Rightarrow> rt_Error tools e)"

definition source_mismatch :: "string \<Rightarrow> string \<Rightarrow> binding_error" where
  "source_mismatch what message = BindingError (''windlass.verify.error.source-'' @ what @ ''-mismatch'') message"

text \<open>The invocation record of the signed parameters; decoded parameters have both of its members or neither.\<close>

definition invocation_of :: "SourceParameters \<Rightarrow> string \<times> string" where
  "invocation_of source =
     (case sp_InvocationRef source of
        None \<Rightarrow> (SourceParameters.sp_Ref source, sp_Revision source)
      | Some invocationRef \<Rightarrow> (invocationRef, case sp_InvocationRevision source of None \<Rightarrow> [] | Some r \<Rightarrow> r))"

definition bindIdentityPolicy ::
  "libraries \<Rightarrow> IdentityExpectation \<Rightarrow> ExplicitPolicy \<Rightarrow> Statement \<Rightarrow> binding_error + IdentityExpectation" where
  "bindIdentityPolicy libs ident explicit statement =
     (case DecodeExternalParameters libs (bd_ExternalParameters (st_BuildDefinition statement)) of
        Inl err \<Rightarrow> Inl (OtherError err)
      | Inr parameters \<Rightarrow>
          (let source = ExternalParameters.ep_Source parameters;
               wanted = ExplicitPolicy.ep_Source explicit;
               producer = ep_Producer explicit;
               wantWorkflow = ''/'' @ TrimPrefix (pp_WorkflowPath producer) ''/'' @ ''@'';
               (invocationRef, invocationRevision) = invocation_of source
           in
           if sp_Repository source \<noteq> sp_RepositoryURI wanted then
             Inl (source_mismatch ''identity'' ''signed built-source repository conflicts with verifier policy'')
           else if SourceParameters.sp_Ref source \<noteq> SourcePolicy.sp_Ref wanted then
             Inl (source_mismatch ''ref'' ''signed built-source ref conflicts with verifier policy'')
           else if sp_Revision source \<noteq> sp_Digest wanted then
             Inl (source_mismatch ''digest'' ''signed built-source revision conflicts with verifier policy'')
           else if ie_SourceRepositoryURI ident \<noteq> sp_RepositoryURI wanted \<or> ie_WorkflowSHA ident \<noteq> pp_WorkflowSHA producer
               \<or> ie_RunnerEnvironment ident \<noteq> pp_RunnerEnvironment producer then
             Inl (OtherError (ErrText ''identity expectation conflicts with verifier policy'' []))
           else if ie_SourceRepositoryID ident \<noteq> sp_RepositoryID wanted
               \<or> ie_SourceRepositoryOwnerID ident \<noteq> sp_RepositoryOwnerID wanted then
             Inl (source_mismatch ''numeric-id'' ''certificate source numeric IDs conflict with verifier policy'')
           else if \<not> Contains (ie_SignerURI ident) wantWorkflow then
             Inl (OtherError (ErrText ''signer URI conflicts with verifier policy workflow path'' []))
           else if ie_SourceRef ident \<noteq> invocationRef then
             Inl (source_mismatch ''ref'' ''certificate source ref conflicts with the signed invocation record'')
           else if ie_SourceDigest ident \<noteq> invocationRevision then
             Inl (source_mismatch ''digest'' ''certificate source digest conflicts with the signed invocation record'')
           else Inr (ident\<lparr>ie_SourceRef := invocationRef, ie_SourceDigest := invocationRevision\<rparr>)))"

text \<open>What a bound identity, the policy and the signed parameters have in common.\<close>

definition bound_identity :: "libraries \<Rightarrow> IdentityExpectation \<Rightarrow> ExplicitPolicy \<Rightarrow> Statement \<Rightarrow> bool" where
  "bound_identity libs ident explicit statement \<longleftrightarrow>
     (\<exists>parameters. DecodeExternalParameters libs (bd_ExternalParameters (st_BuildDefinition statement)) = Inr parameters \<and>
        (let source = ExternalParameters.ep_Source parameters; wanted = ExplicitPolicy.ep_Source explicit;
             producer = ep_Producer explicit in
         sp_Repository source = sp_RepositoryURI wanted \<and> SourceParameters.sp_Ref source = SourcePolicy.sp_Ref wanted \<and>
         sp_Revision source = sp_Digest wanted \<and>
         ie_SourceRepositoryURI ident = sp_RepositoryURI wanted \<and> ie_SourceRepositoryID ident = sp_RepositoryID wanted \<and>
         ie_SourceRepositoryOwnerID ident = sp_RepositoryOwnerID wanted \<and>
         ie_WorkflowSHA ident = pp_WorkflowSHA producer \<and> ie_RunnerEnvironment ident = pp_RunnerEnvironment producer \<and>
         Contains (ie_SignerURI ident) (''/'' @ TrimPrefix (pp_WorkflowPath producer) ''/'' @ ''@'') \<and>
         (ie_SourceRef ident, ie_SourceDigest ident) = invocation_of source))"

lemma bindIdentityPolicy_Inr:
  "bindIdentityPolicy libs ident explicit statement = Inr ident' \<longleftrightarrow> ident' = ident \<and> bound_identity libs ident explicit statement"
proof (cases "DecodeExternalParameters libs (bd_ExternalParameters (st_BuildDefinition statement))")
  case (Inl err)
  then show ?thesis by (simp add: bindIdentityPolicy_def bound_identity_def)
next
  case (Inr parameters)
  obtain r v where i: "invocation_of (ExternalParameters.ep_Source parameters) = (r, v)" by fastforce
  have same: "ident\<lparr>ie_SourceRef := ie_SourceRef ident, ie_SourceDigest := ie_SourceDigest ident\<rparr> = ident" by simp
  show ?thesis
    using Inr i same by (auto simp: bindIdentityPolicy_def bound_identity_def Let_def)
qed

section \<open>verify-attestation\<close>

definition identity_fields :: "IdentityExpectation field list" where
  "identity_fields =
     [(''issuer'', store_string (\<lambda>x. ie_Issuer_update (\<lambda>_. x))),
      (''signer_uri'', store_string (\<lambda>x. ie_SignerURI_update (\<lambda>_. x))),
      (''workflow_sha'', store_string (\<lambda>x. ie_WorkflowSHA_update (\<lambda>_. x))),
      (''source_repository_uri'', store_string (\<lambda>x. ie_SourceRepositoryURI_update (\<lambda>_. x))),
      (''source_repository_id'', store_string (\<lambda>x. ie_SourceRepositoryID_update (\<lambda>_. x))),
      (''source_repository_owner_id'', store_string (\<lambda>x. ie_SourceRepositoryOwnerID_update (\<lambda>_. x))),
      (''source_digest'', store_string (\<lambda>x. ie_SourceDigest_update (\<lambda>_. x))),
      (''source_ref'', store_string (\<lambda>x. ie_SourceRef_update (\<lambda>_. x))),
      (''runner_environment'', store_string (\<lambda>x. ie_RunnerEnvironment_update (\<lambda>_. x))),
      (''run_invocation_uri'', store_string (\<lambda>x. ie_RunInvocationURI_update (\<lambda>_. x)))]"

definition no_expectation :: IdentityExpectation where
  "no_expectation = \<lparr>ie_Issuer = [], ie_SignerURI = [], ie_WorkflowSHA = [], ie_SourceRepositoryURI = [],
     ie_SourceRepositoryID = [], ie_SourceRepositoryOwnerID = [], ie_SourceDigest = [], ie_SourceRef = [],
     ie_RunnerEnvironment = [], ie_RunInvocationURI = []\<rparr>"

definition closed_struct :: "'a field list \<Rightarrow> 'a \<Rightarrow> jval \<Rightarrow> 'a result" where
  "closed_struct fs zero v = (case decode_struct fs zero v of None \<Rightarrow> Inl (ErrText ''json'' []) | Some x \<Rightarrow> Inr x)"

definition decode_identity :: "string \<Rightarrow> IdentityExpectation result" where
  "decode_identity = decodeTypedJSON (closed_struct identity_fields no_expectation) (\<lambda>_. None)"

definition attestationOutputAllowlist :: "string list" where
  "attestationOutputAllowlist = [''bundle-sha256'', ''result'', ''run-invocation'', ''statement-sha256'']"

definition attestation_flags :: "string list" where
  "attestation_flags = [''bundle'', ''policy'', ''identity'', ''statement'', ''pinned-root'', ''github-output'']"

definition attestation_usage :: string where
  "attestation_usage = ''Internal workflow command. Usage: slsa-builder-internal verify-attestation --bundle <json> --policy <json> --identity <json> --statement <json> [--pinned-root <json>] [--github-output <path>]''"

definition required_input :: "report_tools \<Rightarrow> command_world \<Rightarrow> string \<Rightarrow> string \<Rightarrow> string \<Rightarrow> string act" where
  "required_input tools w path check message =
     or_emit tools w (read_input w path) (\<lambda>_. (IDInputUnavailable, check, message, ErrInvocationFailure))"

definition identity_input :: "report_tools \<Rightarrow> command_world \<Rightarrow> string \<Rightarrow> IdentityExpectation act" where
  "identity_input tools w encoded =
     or_else (decode_identity encoded) (\<lambda>err.
       if diagnosticIDOf err \<noteq> [] then
         emitFailure tools w (diagnosticIDOf err) ''identity'' ''identity expectation contains ambiguous JSON''
           ErrVerificationFailure
       else
         emitFailure tools w ''windlass.verify.error.policy-schema-invalid'' ''identity''
           ''identity expectation violates the closed schema'' ErrVerificationFailure)"

definition bound_input ::
  "report_tools \<Rightarrow> command_world \<Rightarrow> libraries \<Rightarrow> IdentityExpectation \<Rightarrow> ExplicitPolicy \<Rightarrow> Statement
    \<Rightarrow> IdentityExpectation act" where
  "bound_input tools w libs ident explicit statement =
     (case bindIdentityPolicy libs ident explicit statement of
        Inr bound \<Rightarrow> return_step (Inr bound)
      | Inl err \<Rightarrow>
          emitFailure tools w (if binding_id err = [] then ''windlass.verify.error.policy-schema-invalid'' else binding_id err)
            ''identity'' (binding_text tools err) ErrVerificationFailure)"

text \<open>The mode of the request, and the pinned root it brings.\<close>

definition root_input :: "report_tools \<Rightarrow> command_world \<Rightarrow> ExplicitPolicy \<Rightarrow> string \<Rightarrow> (string \<times> string) act" where
  "root_input tools w explicit pinnedRootPath =
     (if tr_Mode (ep_TrustRoot explicit) = ''pinned'' then
        if pinnedRootPath = [] then
          emitFailure tools w IDInputUnavailable ''pinned-root'' ''offline policy requires --pinned-root'' ErrInvocationFailure
        else
          bind_step (required_input tools w pinnedRootPath ''pinned-root'' ''pinned trusted root is unavailable'')
            (\<lambda>pinned. return_step (Inr (ModeOffline, pinned)))
      else if pinnedRootPath \<noteq> [] then
        emitFailure tools w ''windlass.verify.error.verification-mode-invalid'' ''pinned-root''
          ''online policy forbids --pinned-root'' ErrInvocationFailure
      else return_step (Inr (ModeOnline, [])))"

definition attestation_request :: "string \<Rightarrow> ExplicitPolicy \<Rightarrow> IdentityExpectation \<Rightarrow> string \<Rightarrow> string \<times> string \<Rightarrow> Request" where
  "attestation_request bundle explicit ident expectedStatement root =
     \<lparr>rq_Mode = fst root, rq_Bundle = bundle, rq_TrustRoot = ep_TrustRoot explicit, rq_PinnedRoot = snd root,
      rq_Identity = ident, rq_ExpectedStatement = None, rq_ExpectedStatementJSON = expectedStatement\<rparr>"

definition verify_step ::
  "report_tools \<Rightarrow> command_world \<Rightarrow> ('b, 'm) sigstore \<Rightarrow> Request \<Rightarrow> VerificationResult act" where
  "verify_step tools w sg request h =
     or_else (verifyAt sg (rt_transform tools) (\<lambda>name. cw_LookupEnv w name \<noteq> None) (cw_cancelled w h) request (cw_now w h))
       (emitTypedVerificationFailure tools w) (h @ [Looked ''attestation''])"

definition attestation_outputs :: "VerificationResult \<Rightarrow> IdentityExpectation \<Rightarrow> (string \<times> string) list" where
  "attestation_outputs result ident =
     [(''bundle-sha256'', SHA256_String (SumSHA256 (vr_bundle result))), (''result'', ''pass''),
      (''run-invocation'', ie_RunInvocationURI ident),
      (''statement-sha256'', SHA256_String (SumSHA256 (vr_statement result)))]"

definition optional_outputs ::
  "report_tools \<Rightarrow> command_world \<Rightarrow> string \<Rightarrow> string list \<Rightarrow> (string \<times> string) list \<Rightarrow> unit act" where
  "optional_outputs tools w path allowlist outputs =
     (if path = [] then return_step (Inr ())
      else
        or_emit tools w (WriteGitHubOutputs w path allowlist outputs)
          (\<lambda>err. (IDVerifierExecutionFailure, ''github-output'', RedactSecrets [] (rt_Error tools err), ErrInvocationFailure)))"

text \<open>Everything up to the verification: the identity that was bound and what was verified.\<close>

definition verified_attestation ::
  "report_tools \<Rightarrow> command_world \<Rightarrow> libraries \<Rightarrow> ('b, 'm) sigstore \<Rightarrow> (string \<Rightarrow> string)
    \<Rightarrow> (IdentityExpectation \<times> VerificationResult) act" where
  "verified_attestation tools w libs sg texts =
     bind_step (required_input tools w (texts ''bundle'') ''bundle'' ''attestation bundle is unavailable'') (\<lambda>bundle.
     bind_step (required_input tools w (texts ''policy'') ''policy'' ''verifier policy is unavailable'') (\<lambda>policyBytes.
     bind_step (or_else (DecodeExplicitPolicy policyBytes) (emitPolicyFailure tools w)) (\<lambda>explicit.
     bind_step (required_input tools w (texts ''identity'') ''identity'' ''identity expectation is unavailable'') (\<lambda>identityBytes.
     bind_step (identity_input tools w identityBytes) (\<lambda>expected.
     bind_step (required_input tools w (texts ''statement'') ''statement'' ''expected Statement is unavailable'')
       (\<lambda>expectedStatement.
     bind_step (or_else (DecodeStatement expectedStatement) (\<lambda>_.
         emitFailure tools w ''windlass.verify.error.statement-assembly-mismatch'' ''statement''
           ''expected Statement does not satisfy the closed schema'' ErrVerificationFailure)) (\<lambda>statement.
     bind_step (bound_input tools w libs expected explicit statement) (\<lambda>ident.
     bind_step (root_input tools w explicit (texts ''pinned-root'')) (\<lambda>root.
     bind_step (verify_step tools w sg (attestation_request bundle explicit ident expectedStatement root)) (\<lambda>result.
     return_step (Inr (ident, result))))))))))))"

definition verify_attestation_body ::
  "report_tools \<Rightarrow> command_world \<Rightarrow> libraries \<Rightarrow> ('b, 'm) sigstore \<Rightarrow> (string \<Rightarrow> string) \<Rightarrow> string list \<Rightarrow> unit act" where
  "verify_attestation_body tools w libs sg texts others =
     (if others \<noteq> [] \<or> list_ex (\<lambda>name. texts name = []) [''bundle'', ''policy'', ''identity'', ''statement''] then
        return_step (Inl (ErrText ''--bundle, --policy, --identity, and --statement are required with no positional arguments'' []))
      else
        bind_step (verified_attestation tools w libs sg texts) (\<lambda>(ident, result).
        bind_step (optional_outputs tools w (texts ''github-output'') attestationOutputAllowlist
          (attestation_outputs result ident)) (\<lambda>_.
        writeDiagnostics tools w (Some (ie_RunInvocationURI ident)) [])))"

definition verify_attestation ::
  "report_tools \<Rightarrow> command_world \<Rightarrow> libraries \<Rightarrow> ('b, 'm) sigstore \<Rightarrow> string list \<Rightarrow> unit act" where
  "verify_attestation tools w libs sg args =
     bind_step (active_command w) (\<lambda>_.
       with_flags w (Some attestation_usage) (text_flags attestation_flags) (github_output_default w) args
         (verify_attestation_body tools w libs sg))"

section \<open>What verify-attestation accepts\<close>

text \<open>A file that was read at some moment.\<close>

definition was_read :: "command_world \<Rightarrow> string \<Rightarrow> string \<Rightarrow> bool" where
  "was_read w path data \<longleftrightarrow> (\<exists>h. readRegularFile (cw_tree w h) path = Inr data)"

definition attested ::
  "report_tools \<Rightarrow> command_world \<Rightarrow> libraries \<Rightarrow> ('b, 'm) sigstore \<Rightarrow> (string \<Rightarrow> string)
    \<Rightarrow> IdentityExpectation \<Rightarrow> VerificationResult \<Rightarrow> bool" where
  "attested tools w libs sg texts ident result \<longleftrightarrow>
     (\<exists>bundle policyBytes explicit identityBytes expectedStatement statement root now material.
        was_read w (texts ''bundle'') bundle \<and>
        was_read w (texts ''policy'') policyBytes \<and> DecodeExplicitPolicy policyBytes = Inr explicit \<and>
        was_read w (texts ''identity'') identityBytes \<and> decode_identity identityBytes = Inr ident \<and>
        was_read w (texts ''statement'') expectedStatement \<and> DecodeStatement expectedStatement = Inr statement \<and>
        bound_identity libs ident explicit statement \<and>
        (if tr_Mode (ep_TrustRoot explicit) = ''pinned''
         then fst root = ModeOffline \<and> was_read w (texts ''pinned-root'') (snd root)
         else root = (ModeOnline, []) \<and> texts ''pinned-root'' = []) \<and>
        governed sg (attestation_request bundle explicit ident expectedStatement root) now material \<and>
        authenticated sg (rt_transform tools) (attestation_request bundle explicit ident expectedStatement root) material result)"

lemma required_input_Inr:
  "required_input tools w path check message h = (Inr data, h') \<Longrightarrow> was_read w path data"
  by (auto simp: required_input_def read_input_def was_read_def)

lemma identity_input_Inr: "identity_input tools w encoded h = (Inr x, h') \<Longrightarrow> decode_identity encoded = Inr x"
  by (simp add: identity_input_def or_else_Inr never_emitFailure)

lemma bound_input_Inr:
  "bound_input tools w libs expected explicit statement h = (Inr x, h') \<Longrightarrow>
   x = expected \<and> bound_identity libs expected explicit statement"
  by (auto simp: bound_input_def return_step_def bindIdentityPolicy_Inr split: sum.splits)

lemma root_input_Inr:
  "root_input tools w explicit path h = (Inr root, h') \<Longrightarrow>
   (if tr_Mode (ep_TrustRoot explicit) = ''pinned'' then fst root = ModeOffline \<and> was_read w path (snd root)
    else root = (ModeOnline, []) \<and> path = [])"
  by (auto simp: root_input_def dest: required_input_Inr split: if_splits)

lemma verify_step_Inr:
  assumes "verify_step tools w sg request h = (Inr result, h')"
  shows "\<exists>now material. governed sg request now material \<and> authenticated sg (rt_transform tools) request material result"
proof -
  from assms have "verifyAt sg (rt_transform tools) (\<lambda>name. cw_LookupEnv w name \<noteq> None) (cw_cancelled w h) request (cw_now w h)
      = Inr result"
    by (simp add: verify_step_def or_else_Inr never_emitTyped)
  from verifyAt_authenticated(1) [OF this] show ?thesis by blast
qed

lemma verified_attestation_Inr:
  assumes "verified_attestation tools w libs sg texts h = (Inr (ident, result), h')"
  shows "attested tools w libs sg texts ident result"
proof -
  from assms obtain bytes policyBytes explicit identityBytes expected expectedStatement statement root
      h1 h2 h3 h4 h5 h6 h7 h8 h9 where
    b: "required_input tools w (texts ''bundle'') ''bundle'' ''attestation bundle is unavailable'' h = (Inr bytes, h1)"
    and p: "required_input tools w (texts ''policy'') ''policy'' ''verifier policy is unavailable'' h1 = (Inr policyBytes, h2)"
    and e: "DecodeExplicitPolicy policyBytes = Inr explicit" "h3 = h2"
    and i: "required_input tools w (texts ''identity'') ''identity'' ''identity expectation is unavailable'' h3
      = (Inr identityBytes, h4)" "identity_input tools w identityBytes h4 = (Inr expected, h5)"
    and s: "required_input tools w (texts ''statement'') ''statement'' ''expected Statement is unavailable'' h5
      = (Inr expectedStatement, h6)" "DecodeStatement expectedStatement = Inr statement"
    and d: "bound_input tools w libs expected explicit statement h6 = (Inr ident, h7)"
    and r: "root_input tools w explicit (texts ''pinned-root'') h7 = (Inr root, h8)"
    and v: "verify_step tools w sg (attestation_request bytes explicit ident expectedStatement root) h8 = (Inr result, h9)"
    by (auto simp: verified_attestation_def or_else_Inr never_emitPolicy never_emitFailure)
  from bound_input_Inr [OF d] have same: "ident = expected" "bound_identity libs ident explicit statement" by simp_all
  from verify_step_Inr [OF v] obtain now material where
    "governed sg (attestation_request bytes explicit ident expectedStatement root) now material"
    "authenticated sg (rt_transform tools) (attestation_request bytes explicit ident expectedStatement root) material result"
    by blast
  with required_input_Inr [OF b] required_input_Inr [OF p] e(1) required_input_Inr [OF i(1)] identity_input_Inr [OF i(2)]
    required_input_Inr [OF s(1)] s(2) same root_input_Inr [OF r]
  show ?thesis unfolding attested_def by blast
qed

lemma keeps_or_else:
  "(\<And>err. keeps P (handle err)) \<Longrightarrow> keeps P (or_else r handle)"
  by (cases r) (simp_all add: or_else_def keeps_return)

lemma keeps_emit_diagnostic: "keeps reporting (emit_diagnostic tools w entry sentinel)"
  unfolding emit_diagnostic_def by (intro keeps_bind keeps_return keeps_diagnostics)

lemma keeps_emitTyped: "keeps reporting (emitTypedVerificationFailure tools w err)"
  by (simp add: emitTypedVerificationFailure_def keeps_emit keeps_emit_diagnostic split: option.splits)

lemma keeps_emitPolicy: "keeps reporting (emitPolicyFailure tools w err)"
  by (simp add: emitPolicyFailure_def keeps_emit keeps_emitTyped)

lemma keeps_required: "keeps reporting (required_input tools w path check message)"
  unfolding required_input_def read_input_def by (intro keeps_or_emit keeps_view) simp_all

lemma keeps_verify: "keeps reporting (verify_step tools w sg request)"
  unfolding keeps_def
proof (intro allI)
  fix h
  obtain r h' where run: "or_else (verifyAt sg (rt_transform tools) (\<lambda>name. cw_LookupEnv w name \<noteq> None) (cw_cancelled w h)
      request (cw_now w h)) (emitTypedVerificationFailure tools w) (h @ [Looked ''attestation'']) = (r, h')"
    by fastforce
  from keeps_run [OF keeps_or_else [OF keeps_emitTyped] run] obtain es where
    "h' = (h @ [Looked ''attestation'']) @ es" "list_all reporting es" by blast
  with run show "\<exists>es. snd (verify_step tools w sg request h) = h @ es \<and> list_all reporting es"
    by (intro exI [of _ "Looked ''attestation'' # es"]) (simp add: verify_step_def)
qed

lemma keeps_verified: "keeps reporting (verified_attestation tools w libs sg texts)"
  unfolding verified_attestation_def identity_input_def bound_input_def root_input_def
  by (auto intro!: keeps_bind keeps_return keeps_required keeps_or_else keeps_emit keeps_emitPolicy keeps_verify
      split: sum.split)

lemma keeps_optional:
  "keeps (reporting_or_appending path (encoded_outputs outputs)) (optional_outputs tools w path allowlist outputs)"
proof -
  have "keeps (reporting_or_appending path (encoded_outputs outputs)) (or_emit tools w (WriteGitHubOutputs w path allowlist outputs) f)"
    for f
    by (rule keeps_or_emit [OF keeps_outputs]) (simp add: reporting_or_appending_def)
  then show ?thesis by (simp add: optional_outputs_def keeps_return)
qed

lemma optional_outputs_Inr:
  assumes "optional_outputs tools w path allowlist outputs h = (Inr u, h')" "path \<noteq> []" "outputs \<noteq> []"
  shows "\<exists>looks. h' = h @ looks @ [Did (WriteTo path (encoded_outputs outputs)), Did (CloseFile path)]"
    and "runner_outputs (encoded_outputs outputs) = Some (sort_key fst outputs)"
proof -
  from assms have run: "WriteGitHubOutputs w path allowlist outputs h = (Inr u, h')" by (simp add: optional_outputs_def)
  from WriteGitHubOutputs_Inr [OF this assms(3)] encoded_outputs_read
  show "\<exists>looks. h' = h @ looks @ [Did (WriteTo path (encoded_outputs outputs)), Did (CloseFile path)]"
    and "runner_outputs (encoded_outputs outputs) = Some (sort_key fst outputs)" by blast+
qed

text \<open>The outcome of a body: nothing but reports, or what was established before the outputs.\<close>

definition published_after ::
  "((string \<times> string) list \<Rightarrow> bool) \<Rightarrow> string \<Rightarrow> 'a result \<Rightarrow> command_event list \<Rightarrow> bool" where
  "published_after established path r es \<longleftrightarrow>
     (if isl r \<and> list_all reporting es then True
      else \<exists>outputs. established outputs \<and>
        list_all (reporting_or_appending path (encoded_outputs outputs)) es \<and>
        (if is_ok r \<and> path \<noteq> [] \<and> outputs \<noteq> [] then
           Did (WriteTo path (encoded_outputs outputs)) \<in> set es \<and>
           runner_outputs (encoded_outputs outputs) = Some (sort_key fst outputs)
         else True))"

lemma published_then_reported:
  assumes est: "established outputs"
    and run: "bind_step (optional_outputs tools w path allowlist outputs) (\<lambda>_. writeDiagnostics tools w ri entries) h = (r, h')"
  shows "\<exists>es. h' = h @ es \<and> published_after established path r es"
proof -
  obtain r1 h1 where o: "optional_outputs tools w path allowlist outputs h = (r1, h1)"
    by (cases "optional_outputs tools w path allowlist outputs h")
  from keeps_run [OF keeps_optional o] obtain es1 where es1: "h1 = h @ es1"
      "list_all (reporting_or_appending path (encoded_outputs outputs)) es1" by blast
  show ?thesis
  proof (cases r1)
    case (Inl err)
    with run o have "r = Inl err" "h' = h1" by (simp_all add: bind_step_def)
    with es1 est show ?thesis by (auto simp: published_after_def)
  next
    case (Inr u)
    with run o have d: "writeDiagnostics tools w ri entries h1 = (r, h')" by (simp add: bind_step_def)
    from keeps_run [OF keeps_diagnostics d] obtain es2 where es2: "h' = h1 @ es2" "list_all reporting es2" by blast
    from es2(2) have "list_all (reporting_or_appending path (encoded_outputs outputs)) es2"
      by (simp add: list_all_iff reporting_or_appending_def)
    with es1(2) have all: "list_all (reporting_or_appending path (encoded_outputs outputs)) (es1 @ es2)" by simp
    have "path \<noteq> [] \<and> outputs \<noteq> [] \<longrightarrow> Did (WriteTo path (encoded_outputs outputs)) \<in> set (es1 @ es2) \<and>
        runner_outputs (encoded_outputs outputs) = Some (sort_key fst outputs)"
    proof
      assume ne: "path \<noteq> [] \<and> outputs \<noteq> []"
      from optional_outputs_Inr [OF o [unfolded Inr]] ne obtain looks where
        "h1 = h @ looks @ [Did (WriteTo path (encoded_outputs outputs)), Did (CloseFile path)]"
        and read: "runner_outputs (encoded_outputs outputs) = Some (sort_key fst outputs)" by blast
      with es1(1) have "es1 = looks @ [Did (WriteTo path (encoded_outputs outputs)), Did (CloseFile path)]" by simp
      with read show "Did (WriteTo path (encoded_outputs outputs)) \<in> set (es1 @ es2) \<and>
        runner_outputs (encoded_outputs outputs) = Some (sort_key fst outputs)" by simp
    qed
    with es1(1) es2(1) all est show ?thesis
      by (intro exI [of _ "es1 @ es2"]) (auto simp: published_after_def)
  qed
qed

lemma verify_attestation_body_published:
  assumes run: "verify_attestation_body tools w libs sg texts others h = (r, h')"
  shows "\<exists>es. h' = h @ es \<and>
    published_after (\<lambda>outputs. others = [] \<and> (\<exists>ident result. attested tools w libs sg texts ident result \<and>
      outputs = attestation_outputs result ident)) (texts ''github-output'') r es"
proof (cases "others \<noteq> [] \<or> list_ex (\<lambda>name. texts name = []) [''bundle'', ''policy'', ''identity'', ''statement'']")
  case True
  with run have "isl r" "h' = h" by (auto simp: verify_attestation_body_def return_step_def)
  then show ?thesis by (simp add: published_after_def)
next
  case False
  obtain r1 h1 where v: "verified_attestation tools w libs sg texts h = (r1, h1)"
    by (cases "verified_attestation tools w libs sg texts h")
  from keeps_run [OF keeps_verified v] obtain es1 where es1: "h1 = h @ es1" "list_all reporting es1" by blast
  show ?thesis
  proof (cases r1)
    case (Inl err)
    with run v False have "r = Inl err" "h' = h1" by (auto simp: verify_attestation_body_def bind_step_def)
    with es1 show ?thesis by (simp add: published_after_def)
  next
    case (Inr p)
    obtain ident result where p: "p = (ident, result)" by (cases p)
    from v Inr p have att: "attested tools w libs sg texts ident result" by (blast intro: verified_attestation_Inr)
    define established where "established = (\<lambda>outputs. others = [] \<and> (\<exists>ident result.
      attested tools w libs sg texts ident result \<and> outputs = attestation_outputs result ident))"
    from att False have est: "established (attestation_outputs result ident)" by (auto simp: established_def)
    have "bind_step (optional_outputs tools w (texts ''github-output'') attestationOutputAllowlist (attestation_outputs result ident))
        (\<lambda>_. writeDiagnostics tools w (Some (ie_RunInvocationURI ident)) []) h1 = (r, h')"
      using run v False Inr p by (simp add: verify_attestation_body_def bind_step_def [of "verified_attestation tools w libs sg texts"])
    from published_then_reported [where established = established, OF est this] obtain es2 where es2: "h' = h1 @ es2"
        "published_after established (texts ''github-output'') r es2" by blast
    from es1(2) have "list_all (reporting_or_appending path t) es1" for path t
      by (simp add: list_all_iff reporting_or_appending_def)
    with es1(2) es2(2) have "published_after established (texts ''github-output'') r (es1 @ es2)"
      by (auto simp: published_after_def split: if_splits)
    with es1(1) es2(1) show ?thesis unfolding established_def by auto
  qed
qed

lemma keeps_usage: "keeps reporting (Fprintln w line)"
  unfolding Fprintln_def print_step_def by (intro keeps_call) simp_all

text \<open>
  C19: verify-attestation accepts only what the policy, the expected identity and the expected Statement say together.
  Whatever files, clock, environment and sigstore answer: unless it was asked for help, it succeeds, or appends anything for the
  runner, only after the bundle that was read was authenticated, under trust material the policy governs, for exactly the
  identity that was read, with a Statement equal to the one that was read; and repository, ref, revision, numeric IDs,
  workflow revision and invocation record agree between policy, identity and the signed parameters.  What it appends, in one
  write, is read by the runner as the digests of the verified bundle and Statement; and it changes nothing else.
\<close>

theorem verify_attestation_sound:
  "case verify_attestation tools w libs sg args h of
     (r, h') \<Rightarrow> \<exists>es. h' = h @ es \<and>
       (case parse_flags (text_flags attestation_flags) (github_output_default w) args of
          FlagsParsed texts others \<Rightarrow>
            published_after (\<lambda>outputs. others = [] \<and> (\<exists>ident result. attested tools w libs sg texts ident result \<and>
              outputs = attestation_outputs result ident)) (texts ''github-output'') r es
        | FlagHelp \<Rightarrow> list_all reporting es
        | FlagsRejected _ \<Rightarrow> isl r \<and> es = [])"
proof (cases "cw_cancelled w h")
  case True
  then show ?thesis
    by (auto simp: verify_attestation_def bind_step_def active_command_def published_after_def split: flag_outcome.split)
next
  case False
  then have run: "verify_attestation tools w libs sg args h =
      with_flags w (Some attestation_usage) (text_flags attestation_flags) (github_output_default w) args
        (verify_attestation_body tools w libs sg) h"
    by (simp add: verify_attestation_def bind_step_def active_command_def)
  show ?thesis
  proof (cases "parse_flags (text_flags attestation_flags) (github_output_default w) args")
    case (FlagsParsed texts others)
    obtain r h' where body: "verify_attestation_body tools w libs sg texts others h = (r, h')"
      by (cases "verify_attestation_body tools w libs sg texts others h")
    from verify_attestation_body_published [OF body] run FlagsParsed body show ?thesis by (simp add: with_flags_def)
  next
    case FlagHelp
    with run show ?thesis using keeps_usage [of w attestation_usage] by (simp add: with_flags_def keeps_def split_beta)
  next
    case (FlagsRejected err)
    with run show ?thesis by (simp add: with_flags_def return_step_def)
  qed
qed

end
