(* ===== verification/CheckCommands.thy ===== *)
theory CheckCommands
  imports VerifyCommands
begin

text \<open>
  The smaller commands of internal/command: verify_handoff.go, npm_profile_source_ref.go, npm_profile_select.go, pin_check.go,
  npm_profile_toolchain_assert.go, npm_profile_provision_node.go and npm_profile_provision_npm.go.  Each is its flags and one
  part of the program; what that part answers is computed by its own model.
\<close>

section \<open>verify-handoff\<close>

definition handoffOutputAllowlist :: "string list" where
  "handoffOutputAllowlist = [''output-path'', ''payload-sha256'', ''result'']"

definition handoff_usage :: string where
  "handoff_usage = ''Usage: slsa-builder-internal verify-handoff --handoff <json> --artifact-dir <dir> --output <path> [--github-output <path>]''"

definition zero_handoff :: Handoff where
  "zero_handoff = \<lparr>ho_Transport = [], ho_ArtifactName = [], ho_PayloadFileName = [], ho_PayloadKind = [],
     ho_Digest = \<lparr>hd_Algorithm = [], hd_Value = SHA256 (replicate 32 (CHR 0x00))\<rparr>\<rparr>"

definition decode_handoff :: "(nat \<Rightarrow> bool) \<Rightarrow> string \<Rightarrow> Handoff result" where
  "decode_handoff nd =
     decodeTypedJSON
       (\<lambda>v. case Handoff_UnmarshalJSON nd zero_handoff v of (Some err, _) \<Rightarrow> Inl err | (None, contract) \<Rightarrow> Inr contract)
       (Handoff_Validate nd)"

definition artifact_step :: "(nat \<Rightarrow> bool) \<Rightarrow> command_world \<Rightarrow> string \<Rightarrow> Handoff \<Rightarrow> string act" where
  "artifact_step nd w directory contract h = (VerifyOneFile nd (cw_artifact w h directory) contract, h @ [Looked directory])"

definition private_mode :: nat where "private_mode = 384"  \<comment> \<open>0600\<close>

definition verified_payload ::
  "report_tools \<Rightarrow> command_world \<Rightarrow> (nat \<Rightarrow> bool) \<Rightarrow> (string \<Rightarrow> string) \<Rightarrow> string act" where
  "verified_payload tools w nd texts =
     bind_step (required_input tools w (texts ''handoff'') ''handoff.input'' ''typed handoff input is unavailable'')
       (\<lambda>contractBytes.
     bind_step (or_else (decode_handoff nd contractBytes) (\<lambda>_.
         emitFailure tools w HandoffSchemaMismatchID ''handoff.input'' ''typed handoff input violates the closed schema''
           ErrVerificationFailure)) (\<lambda>contract.
     or_emit tools w (artifact_step nd w (texts ''artifact-dir'') contract) (\<lambda>err.
       if ErrorIDOf err = [] then
         (IDInputUnavailable, ''handoff.verify'', ''handoff artifact is unavailable'', ErrInvocationFailure)
       else (ErrorIDOf err, ''handoff.verify'', RedactSecrets [] (rt_Error tools err), ErrVerificationFailure))))"

definition verify_handoff_body ::
  "report_tools \<Rightarrow> command_world \<Rightarrow> (nat \<Rightarrow> bool) \<Rightarrow> (string \<Rightarrow> string) \<Rightarrow> string list \<Rightarrow> unit act" where
  "verify_handoff_body tools w nd texts others =
     (if others \<noteq> [] \<or> list_ex (\<lambda>name. texts name = []) [''handoff'', ''artifact-dir'', ''output''] then
        return_step (Inl (ErrText ''--handoff, --artifact-dir, and --output are required with no positional arguments'' []))
      else
        bind_step (verified_payload tools w nd texts) (\<lambda>payload.
        bind_step (or_emit tools w (WriteFileAtomic w (texts ''output'') payload private_mode) (\<lambda>_.
            (IDVerifierExecutionFailure, ''handoff.output'', ''verified payload output could not be committed'',
             ErrInvocationFailure))) (\<lambda>_.
        bind_step (optional_outputs tools w (texts ''github-output'') handoffOutputAllowlist
          [(''output-path'', texts ''output''), (''payload-sha256'', SHA256_String (SumSHA256 payload)), (''result'', ''pass'')])
          (\<lambda>_. writeDiagnostics tools w None []))))"

definition verify_handoff :: "report_tools \<Rightarrow> command_world \<Rightarrow> (nat \<Rightarrow> bool) \<Rightarrow> string list \<Rightarrow> unit act" where
  "verify_handoff tools w nd args =
     bind_step (active_command w) (\<lambda>_.
       with_flags w (Some handoff_usage) (text_flags [''handoff'', ''artifact-dir'', ''output'', ''github-output''])
         (github_output_default w) args (verify_handoff_body tools w nd))"

text \<open>A payload that is handed on was the one file of the artifact and has the digest of the contract.\<close>

lemma verified_payload_Inr:
  assumes "verified_payload tools w nd texts h = (Inr payload, h')"
  shows "\<exists>contractBytes contract. was_read w (texts ''handoff'') contractBytes \<and> decode_handoff nd contractBytes = Inr contract \<and>
    SumSHA256 payload = hd_Value (ho_Digest contract) \<and>
    (\<exists>seen. VerifyOneFile nd (cw_artifact w seen (texts ''artifact-dir'')) contract = Inr payload)"
proof -
  from assms obtain contractBytes contract h1 h2 where
    read: "required_input tools w (texts ''handoff'') ''handoff.input'' ''typed handoff input is unavailable'' h
      = (Inr contractBytes, h1)"
    and contract: "decode_handoff nd contractBytes = Inr contract"
    and payload: "VerifyOneFile nd (cw_artifact w h2 (texts ''artifact-dir'')) contract = Inr payload"
    by (auto simp: verified_payload_def or_else_Inr never_emitFailure artifact_step_def)
  have "SumSHA256 payload = hd_Value (ho_Digest contract)"
    using payload by (auto simp: VerifyOneFile_def sha256.equal_iff split: option.splits sum.splits list.splits if_splits)
  with required_input_Inr [OF read] contract payload show ?thesis by blast
qed

section \<open>npm-profile-source-ref\<close>

definition npmSourceRefOutputs :: "string list" where "npmSourceRefOutputs = [''built-ref'', ''built-revision'']"

definition source_ref_usage :: string where
  "source_ref_usage = ''Usage: slsa-builder-internal npm-profile-source-ref --source-ref <ref> --ref <ref> --ref-type <type> --revision <sha> --observed-repository <owner/repository> --github-output <path>''"

definition repository_char :: "char \<Rightarrow> bool" where
  "repository_char c \<longleftrightarrow> is_alnum c \<or> c \<in> set ''_.-''"

definition githubRepository :: "string \<Rightarrow> bool" where
  "githubRepository s =
     (case split_on (CHR ''/'') s of [owner, name] \<Rightarrow> re_plus repository_char owner \<and> re_plus repository_char name | _ \<Rightarrow> False)"

definition validSourceObservation :: "string \<Rightarrow> string \<Rightarrow> string \<Rightarrow> string \<Rightarrow> bool" where
  "validSourceObservation ref refType revision repository \<longleftrightarrow>
     HasPrefix ref ''refs/'' \<and> \<not> ContainsAny ref [CHR 0x0D, CHR 0x0A, CHR 0x00] \<and>
     refType \<in> {''branch'', ''tag''} \<and>
     length revision = 40 \<and> TrimSet is_lower_hex revision = [] \<and>
     githubRepository repository \<and> \<not> Contains repository ''..''"

text \<open>The type assertion looks at the error itself, not at what it wraps.\<close>

definition own_id :: "go_error \<Rightarrow> string option" where
  "own_id err =
     (case err of ErrDiag _ ident _ _ _ _ \<Rightarrow> Some ident
      | ErrDuplicateMember _ _ \<Rightarrow> Some (npm_error_id ''duplicate-json-member'') | _ \<Rightarrow> None)"

definition writeSourceRefFailure :: "report_tools \<Rightarrow> command_world \<Rightarrow> go_error \<Rightarrow> 'a act" where
  "writeSourceRefFailure tools w cause =
     (if own_id cause \<noteq> Some IDSourceRefInvalid then return_step (Inl cause)
      else
        bind_step (return_step (tools_New tools IDSourceRefInvalid ''source-ref.resolve'' (rt_Error tools cause))) (\<lambda>entry.
        bind_step (return_step (tools_Build tools None [entry\<lparr>dg_Field := ''source-ref''\<rparr>])) (\<lambda>report.
        bind_step (WriteReport tools w report) (\<lambda>_. return_step (Inl ErrVerificationFailure)))))"

text \<open>The ref and the revision a build starts from.\<close>

definition built_source ::
  "report_tools \<Rightarrow> command_world \<Rightarrow> git_env \<Rightarrow> (string \<Rightarrow> string) \<Rightarrow> (string \<times> string) act" where
  "built_source tools w env texts =
     (let sourceRef = NormalizeSourceRefInput (texts ''source-ref'') in
      if sourceRef = [] then return_step (Inr (texts ''ref'', texts ''revision''))
      else
        case ValidateSourceRefInput sourceRef (texts ''ref'') [] of
          Some err \<Rightarrow> writeSourceRefFailure tools w err
        | None \<Rightarrow>
            bind_step (part_step ''resolve'' (Inr (snd (ResolveSourceRefTag env sourceRef (texts ''ref'')
              (''https://github.com/'' @ texts ''observed-repository'' @ ''.git''))))) (\<lambda>resolved.
            case resolved of
              Inl err \<Rightarrow> writeSourceRefFailure tools w err
            | Inr commit \<Rightarrow> return_step (Inr (sourceRef, commit))))"

definition source_ref_body ::
  "report_tools \<Rightarrow> command_world \<Rightarrow> git_env \<Rightarrow> (string \<Rightarrow> string) \<Rightarrow> string list \<Rightarrow> unit act" where
  "source_ref_body tools w env texts others =
     (if others \<noteq> [] then return_step (Inl (ErrText ''unexpected positional arguments: %v'' others))
      else if list_ex (\<lambda>name. texts name = []) [''ref'', ''ref-type'', ''revision'', ''observed-repository'', ''github-output''] then
        return_step (Inl (ErrText
          ''--ref, --ref-type, --revision, --observed-repository, and --github-output are required'' []))
      else if \<not> validSourceObservation (texts ''ref'') (texts ''ref-type'') (texts ''revision'') (texts ''observed-repository'') then
        return_step (Inl (ErrText
          ''source observations must be canonical GitHub ref, type, revision, and repository values'' []))
      else
        bind_step (built_source tools w env texts) (\<lambda>(builtRef, builtRevision).
          WriteGitHubOutputs w (texts ''github-output'') npmSourceRefOutputs
            [(''built-ref'', builtRef), (''built-revision'', builtRevision)]))"

definition npm_profile_source_ref :: "report_tools \<Rightarrow> command_world \<Rightarrow> git_env \<Rightarrow> string list \<Rightarrow> unit act" where
  "npm_profile_source_ref tools w env args =
     bind_step (active_command w) (\<lambda>_.
       with_flags w (Some source_ref_usage)
         (text_flags [''source-ref'', ''ref'', ''ref-type'', ''revision'', ''observed-repository'', ''github-output''])
         (github_output_default w) args (source_ref_body tools w env))"

lemma never_sourceRefFailure: "\<not> (writeSourceRefFailure tools w cause h = (Inr x, h'))"
  by (simp add: writeSourceRefFailure_def)

text \<open>Without a source ref the build starts from the observed commit; with one from the commit git gave for that very tag.\<close>

lemma built_source_Inr:
  assumes "built_source tools w env texts h = (Inr (builtRef, builtRevision), h')"
  shows "if texts ''source-ref'' = [] then builtRef = texts ''ref'' \<and> builtRevision = texts ''revision''
    else builtRef = texts ''source-ref'' \<and> snd (ResolveSourceRefTag env builtRef (texts ''ref'')
      (''https://github.com/'' @ texts ''observed-repository'' @ ''.git'')) = Inr builtRevision"
  using assms
  by (auto simp: built_source_def NormalizeSourceRefInput_def Let_def never_sourceRefFailure split: option.splits sum.splits if_splits)

section \<open>npm-profile-select\<close>

definition select_usage :: string where
  "select_usage = ''Usage: slsa-builder-internal npm-profile-select --repository-root <path> --package-directory <path> --observed-repository <owner/repository>''"

definition config_of :: "(string \<Rightarrow> string) \<Rightarrow> Config" where
  "config_of texts = \<lparr>cf_RepositoryRoot = texts ''repository-root'', cf_PackageDirectory = texts ''package-directory'',
     cf_ObservedRepository = texts ''observed-repository''\<rparr>"

definition analyze_step :: "report_tools \<Rightarrow> command_world \<Rightarrow> semver_pkg \<Rightarrow> yaml_decoder \<Rightarrow> Config \<Rightarrow> Result act" where
  "analyze_step tools w sv yaml config h =
     (case Analyze sv (rt_transform tools) (rt_sorter tools) yaml (cw_tree w h) config of
        (_, Some err) \<Rightarrow> (Inl err, h @ [Looked ''analyze'']) | (result, None) \<Rightarrow> (Inr result, h @ [Looked ''analyze'']))"

definition select_body ::
  "report_tools \<Rightarrow> command_world \<Rightarrow> semver_pkg \<Rightarrow> yaml_decoder \<Rightarrow> (string \<Rightarrow> string) \<Rightarrow> string list \<Rightarrow> unit act" where
  "select_body tools w sv yaml texts others =
     (if list_ex (\<lambda>name. texts name = []) [''repository-root'', ''package-directory'', ''observed-repository''] then
        return_step (Inl (ErrText ''--repository-root, --package-directory, and --observed-repository are required'' []))
      else if others \<noteq> [] then return_step (Inl (ErrText ''unexpected positional arguments: %v'' others))
      else
        bind_step (analyze_step tools w sv yaml (config_of texts)) (\<lambda>result.
        bind_step (WriteReport tools w (re_Report result)) (\<lambda>_.
        return_step (if rp_ExitCode (re_Report result) = ExitCodePolicyFailure then Inl ErrVerificationFailure else Inr ()))))"

definition npm_profile_select ::
  "report_tools \<Rightarrow> command_world \<Rightarrow> semver_pkg \<Rightarrow> yaml_decoder \<Rightarrow> string list \<Rightarrow> unit act" where
  "npm_profile_select tools w sv yaml args =
     bind_step (active_command w) (\<lambda>_.
       with_flags w (Some select_usage) (text_flags [''repository-root'', ''package-directory'', ''observed-repository''])
         no_text args (select_body tools w sv yaml))"

text \<open>The exit code is the report's: the command succeeds exactly when the report could be printed and is no policy failure.\<close>

lemma select_exit:
  assumes "select_body tools w sv yaml texts others h = (Inr u, h')"
  shows "\<exists>seen result. Analyze sv (rt_transform tools) (rt_sorter tools) yaml (cw_tree w seen) (config_of texts) = (result, None) \<and>
    rp_ExitCode (re_Report result) \<noteq> ExitCodePolicyFailure"
  using assms by (auto simp: select_body_def analyze_step_def split: if_splits prod.splits option.splits)

section \<open>pin-check\<close>

definition pin_check_usage :: string where
  "pin_check_usage = ''Usage: slsa-builder-internal pin-check --publish-pin <path> --pair-record <path> --publish-spec <path> --build-spec <path>''"

text \<open>A report, and the sentinel.\<close>

definition report_failure :: "report_tools \<Rightarrow> command_world \<Rightarrow> string \<Rightarrow> string \<Rightarrow> string \<Rightarrow> 'a act" where
  "report_failure tools w ident check message =
     bind_step (return_step (single_report tools ident check message)) (\<lambda>report.
     bind_step (WriteReport tools w report) (\<lambda>_. return_step (Inl ErrVerificationFailure)))"

definition pin_check_body ::
  "report_tools \<Rightarrow> command_world \<Rightarrow> (string \<Rightarrow> string option) \<Rightarrow> (string \<Rightarrow> string) \<Rightarrow> string list \<Rightarrow> unit act" where
  "pin_check_body tools w read texts others =
     (if others \<noteq> [] \<or> list_ex (\<lambda>name. texts name = []) [''publish-pin'', ''pair-record'', ''publish-spec'', ''build-spec''] then
        return_step (Inl (ErrText
          ''--publish-pin, --pair-record, --publish-spec, and --build-spec are required with no positional arguments'' []))
      else
        (case CheckDrift read \<lparr>di_PublishPin = texts ''publish-pin'', di_PairRecord = texts ''pair-record'',
             di_PublishSpec = texts ''publish-spec'', di_BuildSpec = texts ''build-spec''\<rparr> of
           None \<Rightarrow> Fprintln w ''Toolchain pin records match specification tables.''
         | Some err \<Rightarrow>
             (case errors_As KDrift err of
                Some (ErrDiag _ ident _ _ _ _) \<Rightarrow>
                  report_failure tools w ident ''toolchain.pins.drift'' (RedactSecrets [] (rt_Error tools err))
              | _ \<Rightarrow> return_step (Inl err))))"

definition pin_check :: "report_tools \<Rightarrow> command_world \<Rightarrow> (string \<Rightarrow> string option) \<Rightarrow> string list \<Rightarrow> unit act" where
  "pin_check tools w read args =
     bind_step (active_command w) (\<lambda>_.
       with_flags w (Some pin_check_usage) (text_flags [''publish-pin'', ''pair-record'', ''publish-spec'', ''build-spec''])
         no_text args (pin_check_body tools w read))"

lemma pin_check_agrees:
  assumes "pin_check_body tools w read texts others h = (Inr u, h')"
  shows "CheckDrift read \<lparr>di_PublishPin = texts ''publish-pin'', di_PairRecord = texts ''pair-record'',
    di_PublishSpec = texts ''publish-spec'', di_BuildSpec = texts ''build-spec''\<rparr> = None"
  using assms
  by (auto simp: pin_check_body_def report_failure_def split: if_splits option.splits go_error.splits)

section \<open>The toolchain\<close>

text \<open>The ID a failure of the provisioning or the assertion carries: its model keeps it as the text of the error.\<close>

fun failure_id :: "string \<Rightarrow> go_error \<Rightarrow> string option" and failure_ids :: "string \<Rightarrow> go_error list \<Rightarrow> string option" where
  "failure_id family (ErrText message _) = (if HasPrefix message family then Some message else None)"
| "failure_id family (ErrWrap _ _ causes) = failure_ids family causes"
| "failure_id family (ErrDiag _ _ _ _ _ causes) = failure_ids family causes"
| "failure_id family (ErrDuplicateMember _ _) = None"
| "failure_ids family [] = None"
| "failure_ids family (e # es) = (case failure_id family e of Some i \<Rightarrow> Some i | None \<Rightarrow> failure_ids family es)"

text \<open>The report of a failure, kept in a file where one is asked for, and printed.\<close>

definition persisted_failure ::
  "report_tools \<Rightarrow> command_world \<Rightarrow> string \<Rightarrow> string \<Rightarrow> string \<Rightarrow> string \<Rightarrow> 'a act" where
  "persisted_failure tools w ident check message reportPath =
     bind_step (return_step (single_report tools ident check message)) (\<lambda>report.
     bind_step
       (if reportPath = [] then return_step (Inr ())
        else bind_step (return_step (CanonicalJSON (rt_transform tools) report)) (\<lambda>encoded.
          WriteFileAtomic w reportPath encoded private_mode)) (\<lambda>_.
     bind_step (WriteReport tools w report) (\<lambda>_. return_step (Inl ErrVerificationFailure))))"

definition toolchain_part ::
  "report_tools \<Rightarrow> command_world \<Rightarrow> string \<Rightarrow> string \<Rightarrow> (string \<Rightarrow> go_error \<Rightarrow> string) \<Rightarrow> string \<Rightarrow> 'a result \<Rightarrow> 'a act" where
  "toolchain_part tools w family check message reportPath answer =
     bind_step (part_step check (Inr answer)) (\<lambda>r.
     case r of
       Inr x \<Rightarrow> return_step (Inr x)
     | Inl err \<Rightarrow>
         (case failure_id family err of
            None \<Rightarrow> return_step (Inl err)
          | Some ident \<Rightarrow> persisted_failure tools w ident check (message ident err) reportPath))"

definition assert_usage :: string where
  "assert_usage = ''Usage: slsa-builder-internal npm-profile-toolchain-assert [--node-only] [--report-path <path>]''"

definition assert_flags :: "string \<Rightarrow> flag_kind option" where
  "assert_flags name = (if name = ''node-only'' then Some SwitchFlag else text_flags [''report-path''] name)"

definition toolchain_assert_body ::
  "report_tools \<Rightarrow> command_world \<Rightarrow> provision_world \<Rightarrow> string \<Rightarrow> (string \<Rightarrow> string) \<Rightarrow> string list \<Rightarrow> unit act" where
  "toolchain_assert_body tools w pw runtimeData texts others =
     (if others \<noteq> [] then return_step (Inl (ErrText ''no positional arguments are accepted'' []))
      else
        bind_step
          (toolchain_part tools w idToolchainPairMismatch ''npm.build.toolchain''
            (\<lambda>_ _. ''executed toolchain differs from the embedded Node.js/npm pair'') (texts ''report-path'')
            (fst (AssertToolchainPair pw runtimeData (texts ''node-only'' = ''true'') []))) (\<lambda>_.
        Fprintln w ''toolchain pair assertion passed''))"

definition npm_profile_toolchain_assert ::
  "report_tools \<Rightarrow> command_world \<Rightarrow> provision_world \<Rightarrow> string \<Rightarrow> string list \<Rightarrow> unit act" where
  "npm_profile_toolchain_assert tools w pw runtimeData args =
     bind_step (active_command w) (\<lambda>_.
       with_flags w (Some assert_usage) assert_flags (no_text(''node-only'' := ''false'')) args
         (toolchain_assert_body tools w pw runtimeData))"

text \<open>Both provisioning commands, with the output they name.\<close>

definition provision_body ::
  "report_tools \<Rightarrow> command_world \<Rightarrow> string \<Rightarrow> string \<Rightarrow> string \<Rightarrow> (string \<Rightarrow> string result) \<Rightarrow> (string \<Rightarrow> string)
    \<Rightarrow> string list \<Rightarrow> unit act" where
  "provision_body tools w family check out_name provision texts others =
     (if others \<noteq> [] \<or> texts ''output-directory'' = [] then
        return_step (Inl (ErrText ''--output-directory is required with no positional arguments'' []))
      else
        bind_step (toolchain_part tools w family check (\<lambda>_ err. rt_Error tools err) (texts ''report-path'')
          (provision (texts ''output-directory''))) (\<lambda>path.
        bind_step
          (if texts ''github-output'' = [] then return_step (Inr ())
           else WriteGitHubOutputs w (texts ''github-output'') [out_name] [(out_name, path)]) (\<lambda>_.
        Fprintln w path)))"

definition provision_flags :: "string list" where
  "provision_flags = [''output-directory'', ''github-output'', ''report-path'']"

definition npm_profile_provision_node ::
  "report_tools \<Rightarrow> command_world \<Rightarrow> provision_world \<Rightarrow> archives \<Rightarrow> string \<Rightarrow> string list \<Rightarrow> unit act" where
  "npm_profile_provision_node tools w pw ar runtimeData args =
     bind_step (active_command w) (\<lambda>_.
       with_flags w (Some ''Usage: slsa-builder-internal npm-profile-provision-node --output-directory <dir> [--github-output <path>] [--report-path <path>]'')
         (text_flags provision_flags) no_text args
         (provision_body tools w (npm_error_id ''node-runtime-provision-'') ''npm.toolchain.provision'' ''node-bin''
           (\<lambda>directory. fst (ProvisionNode pw ar runtimeData directory []))))"

definition npm_profile_provision_npm ::
  "report_tools \<Rightarrow> command_world \<Rightarrow> provision_world \<Rightarrow> archives \<Rightarrow> string \<Rightarrow> string list \<Rightarrow> unit act" where
  "npm_profile_provision_npm tools w pw ar publishData args =
     bind_step (active_command w) (\<lambda>_.
       with_flags w (Some ''Usage: slsa-builder-internal npm-profile-provision-npm --output-directory <dir> [--github-output <path>] [--report-path <path>]'')
         (text_flags provision_flags) no_text args
         (provision_body tools w (npm_error_id ''npm-provision-'') ''npm.publish.provision'' ''npm-executable''
           (\<lambda>directory. fst (ProvisionNPM pw ar publishData directory []))))"

lemma toolchain_part_Inr:
  "toolchain_part tools w family check message reportPath answer h = (Inr x, h') \<Longrightarrow> answer = Inr x"
  by (auto simp: toolchain_part_def persisted_failure_def split: sum.splits option.splits)

text \<open>A path is handed on only when the provisioning gave it; the runner, where one listens, reads that path.\<close>

lemma provision_handed_on:
  assumes "provision_body tools w family check out_name provision texts others h = (Inr u, h')"
  shows "\<exists>path. provision (texts ''output-directory'') = Inr path \<and>
    (texts ''github-output'' = [] \<or> good_output [out_name] (out_name, path))"
proof -
  from assms obtain path h1 h2 where
    part: "toolchain_part tools w family check (\<lambda>_ err. rt_Error tools err) (texts ''report-path'')
      (provision (texts ''output-directory'')) h = (Inr path, h1)"
    and written: "(if texts ''github-output'' = [] then return_step (Inr ())
      else WriteGitHubOutputs w (texts ''github-output'') [out_name] [(out_name, path)]) h1 = (Inr (), h2)"
    by (cases "others \<noteq> [] \<or> texts ''output-directory'' = []") (auto simp: provision_body_def)
  from toolchain_part_Inr [OF part] written WriteGitHubOutputs_Inr(1) [of w "texts ''github-output''" "[out_name]"
      "[(out_name, path)]" h1 "()" h2] show ?thesis by (auto split: if_splits)
qed

end
