(* ===== verification/SignCommand.thy ===== *)
theory SignCommand
  imports CheckCommands GithubSigning OidcClient SigningSpec
begin

text \<open>
  internal/command/npm_profile_sign.go: the sign job.  It takes the two artifacts of the build job by their digests, asks the
  registry beforehand whether the workflow may publish, makes the Statement, has it signed, and leaves one bundle and the
  outputs for the publish job.
\<close>

section \<open>The job\<close>

definition npmProfileSignOutputs :: "string list" where
  "npmProfileSignOutputs = [''bundle-path'', ''bundle-sha256'', ''result'', ''statement-sha256'']"

definition sign_usage :: string where
  "sign_usage = ''Usage: slsa-builder-internal npm-profile-sign --metadata-artifact-dir <dir> --metadata-sha256 <hex> --metadata-artifact-name <name> --tarball-artifact-dir <dir> --tarball-sha256 <hex> --tarball-artifact-name <name> --node-version <version> [--corepack-version <version>] --output-directory <dir>''"

definition sign_required :: "string list" where
  "sign_required = [''metadata-artifact-dir'', ''metadata-sha256'', ''metadata-artifact-name'', ''tarball-artifact-dir'',
     ''tarball-sha256'', ''tarball-artifact-name'', ''node-version'', ''registry-url'', ''package-name'', ''output-directory'',
     ''github-output'']"

definition sign_flags :: "string list" where
  "sign_flags = sign_required @ [''corepack-version'', ''built-ref'', ''built-revision'']"

text \<open>The other parts of the program and the outside they reach: the digit class of Unicode for artifact names, the libraries of
  the npm profile, the default transport, the servers of GitHub and of the registry, sigstore-go and the token request.\<close>

record ('p, 'b, 'm) sign_parts =
  jp_digits :: "nat \<Rightarrow> bool"
  jp_libraries :: libraries
  jp_transport :: "http_transport option"
  jp_oidc :: oidc_world
  jp_sigstore :: "('b, 'm) sigstore"
  jp_signer :: "('p, 'b, 'm) signer"
  jp_get :: "url \<Rightarrow> string \<Rightarrow> token_answer"

definition githubRunInvocationURI :: "command_world \<Rightarrow> string" where
  "githubRunInvocationURI w = Getenv w ''GITHUB_SERVER_URL'' @ ''/'' @ Getenv w ''GITHUB_REPOSITORY'' @ ''/actions/runs/''
     @ Getenv w ''GITHUB_RUN_ID'' @ ''/attempts/'' @ Getenv w ''GITHUB_RUN_ATTEMPT''"

definition required_runtime :: "string list" where
  "required_runtime = [''GITHUB_SERVER_URL'', ''GITHUB_REPOSITORY'', ''GITHUB_REPOSITORY_ID'', ''GITHUB_REPOSITORY_OWNER_ID'',
     ''GITHUB_SHA'', ''GITHUB_REF'', ''WINDLASS_WORKFLOW_SHA'']"

definition githubSigningIdentity :: "command_world \<Rightarrow> string \<Rightarrow> IdentityExpectation result" where
  "githubSigningIdentity w runInvocation =
     (case find (\<lambda>name. Getenv w name = []) required_runtime of
        Some name \<Rightarrow> Inl (ErrText ''required trusted runtime value %s is unavailable'' [name])
      | None \<Rightarrow> Inr \<lparr>ie_Issuer = ''https://token.actions.githubusercontent.com'', ie_SignerURI = [],
          ie_WorkflowSHA = Getenv w ''WINDLASS_WORKFLOW_SHA'',
          ie_SourceRepositoryURI = Getenv w ''GITHUB_SERVER_URL'' @ ''/'' @ Getenv w ''GITHUB_REPOSITORY'',
          ie_SourceRepositoryID = Getenv w ''GITHUB_REPOSITORY_ID'',
          ie_SourceRepositoryOwnerID = Getenv w ''GITHUB_REPOSITORY_OWNER_ID'',
          ie_SourceDigest = Getenv w ''GITHUB_SHA'', ie_SourceRef = Getenv w ''GITHUB_REF'',
          ie_RunnerEnvironment = ''github-hosted'', ie_RunInvocationURI = runInvocation\<rparr>)"

definition handed_off :: "string \<Rightarrow> string \<Rightarrow> string \<Rightarrow> SHA256 \<Rightarrow> Handoff" where
  "handed_off artifactName payloadName payloadKind hash =
     \<lparr>ho_Transport = TransportGitHubActionsArtifact, ho_ArtifactName = artifactName, ho_PayloadFileName = payloadName,
      ho_PayloadKind = payloadKind, ho_Digest = \<lparr>hd_Algorithm = AlgorithmSHA256, hd_Value = hash\<rparr>\<rparr>"

definition tarball_kind :: string where "tarball_kind = ''application/vnd.npm.package-tar+gzip''"

definition decode_build_metadata :: "string \<Rightarrow> BuildMetadata result" where
  "decode_build_metadata data =
     (case Validate data of
        Some err \<Rightarrow> Inl (ErrWrap ''validate JSON: %w'' [] [err])
      | None \<Rightarrow>
          (case BuildMetadata_UnmarshalJSON data of
             Inl err \<Rightarrow> Inl (ErrWrap ''decode closed JSON schema: %w'' [] [err])
           | Inr metadata \<Rightarrow> Inr metadata))"

definition replaced_error :: "'a result \<Rightarrow> string \<Rightarrow> 'a result" where
  "replaced_error r message = (case r of Inl _ \<Rightarrow> Inl (ErrText message []) | Inr x \<Rightarrow> Inr x)"

definition wrapped_error :: "string \<Rightarrow> 'a result \<Rightarrow> 'a result" where
  "wrapped_error message r = (case r of Inl err \<Rightarrow> Inl (ErrWrap message [] [err]) | Inr x \<Rightarrow> Inr x)"

lemma replaced_error_Inr [simp]: "replaced_error r message = Inr x \<longleftrightarrow> r = Inr x"
  by (auto simp: replaced_error_def split: sum.splits)

lemma wrapped_error_Inr [simp]: "wrapped_error message r = Inr x \<longleftrightarrow> r = Inr x"
  by (auto simp: wrapped_error_def split: sum.splits)

text \<open>Both artifacts: the metadata, and the tarball it describes.\<close>

definition job_inputs ::
  "command_world \<Rightarrow> ('p, 'b, 'm) sign_parts \<Rightarrow> (string \<Rightarrow> string) \<Rightarrow> BuildMetadata act" where
  "job_inputs w jp texts =
     bind_step (return_step (replaced_error (ParseSHA256 (texts ''metadata-sha256'')) ''metadata SHA-256 is invalid''))
       (\<lambda>metadataSum.
     bind_step (return_step (replaced_error (ParseSHA256 (texts ''tarball-sha256'')) ''tarball SHA-256 is invalid'')) (\<lambda>tarballSum.
     bind_step (wrap_step ''verify build metadata handoff: %w''
         (artifact_step (jp_digits jp) w (texts ''metadata-artifact-dir'')
           (handed_off (texts ''metadata-artifact-name'') ''build-metadata.json''
             ''application/vnd.windlass.npm-build-metadata.v1+json'' metadataSum))) (\<lambda>metadataBytes.
     bind_step (return_step (wrapped_error ''decode build metadata: %w'' (decode_build_metadata metadataBytes))) (\<lambda>metadata.
     bind_step (wrap_step ''verify tarball handoff: %w''
         (artifact_step (jp_digits jp) w (texts ''tarball-artifact-dir'')
           (handed_off (texts ''tarball-artifact-name'') (pa_PayloadFileName (bm_PrimaryArtifact metadata)) tarball_kind
             tarballSum))) (\<lambda>tarballBytes.
     return_step
       (if pa_ArtifactName (bm_PrimaryArtifact metadata) \<noteq> texts ''tarball-artifact-name''
           \<or> pa_SHA256 (bm_PrimaryArtifact metadata) \<noteq> SHA256_String tarballSum
           \<or> pa_SHA512 (bm_PrimaryArtifact metadata) \<noteq> SHA512_String (SumSHA512 tarballBytes) then
          Inl (ErrText ''verified tarball differs from build metadata'' [])
        else Inr metadata))))))"

text \<open>The ref and the revision that was built: both from flags, or both from the runner.\<close>

definition built_pair :: "command_world \<Rightarrow> (string \<Rightarrow> string) \<Rightarrow> (string \<times> string) result" where
  "built_pair w texts =
     (let ref = NormalizeSourceRefInput (texts ''built-ref''); revision = texts ''built-revision'' in
      if (ref = []) \<noteq> (revision = []) then
        Inl (ErrText ''built-ref and built-revision must be supplied together'' [])
      else if ref = [] then Inr (Getenv w ''GITHUB_REF'', Getenv w ''GITHUB_SHA'')
      else Inr (ref, revision))"

text \<open>The early exchange.  A panic of the reporting inside it is an error here; it cannot happen
  (\<open>oidc_Preflight_sound\<close>).\<close>

definition preflight_step ::
  "report_tools \<Rightarrow> command_world \<Rightarrow> ('p, 'b, 'm) sign_parts \<Rightarrow> string \<Rightarrow> string \<Rightarrow> OIDCExchangeResult act" where
  "preflight_step tools w jp registryURL packageName =
     bind_step (return_step (NewOIDCClient (lib_lower (jp_libraries jp)) (jp_transport jp) None registryURL
         (Getenv w ''ACTIONS_ID_TOKEN_REQUEST_URL'') (Getenv w ''ACTIONS_ID_TOKEN_REQUEST_TOKEN'')
         (Getenv w ''GITHUB_WORKFLOW_REF''))) (\<lambda>client.
     bind_step (part_step ''preflight'' (case oidc_Preflight (rt_transform tools) (rt_sorter tools) (jp_oidc jp) client packageName of
         None \<Rightarrow> Inl (ErrText ''panic'' []) | Some answer \<Rightarrow> Inr answer)) (\<lambda>(exchange, report).
     if rp_PrimaryID report \<noteq> None then
       bind_step (WriteReport tools w report) (\<lambda>_. return_step (Inl ErrVerificationFailure))
     else return_step (Inr exchange)))"

definition observed_corepack :: "ExternalParameters \<Rightarrow> string \<Rightarrow> string option result" where
  "observed_corepack parameters corepackVersion =
     (if pm_Name (ep_PackageManager parameters) = ManagerNPM then Inr None
      else if corepackVersion = [] then Inl (ErrText ''corepack version is required for pnpm and Yarn'' [])
      else Inr (Some corepackVersion))"

definition writeNPMProfileSignPolicyError :: "report_tools \<Rightarrow> command_world \<Rightarrow> go_error \<Rightarrow> 'a act" where
  "writeNPMProfileSignPolicyError tools w err =
     (case find_identified err of
        None \<Rightarrow> return_step (Inl err)
      | Some ident \<Rightarrow> report_failure tools w ident ''provenance.signing-input'' (rt_Error tools err))"

definition sign_input ::
  "command_world \<Rightarrow> (string \<Rightarrow> string) \<Rightarrow> BuildMetadata \<Rightarrow> ExternalParameters \<Rightarrow> string option \<Rightarrow> string \<times> string
    \<Rightarrow> NPMProvenanceInput" where
  "sign_input w texts metadata parameters corepack pair =
     \<lparr>pi_BuildMetadata = metadata, pi_BuilderID = wp_BuilderID (ep_Workflow parameters), pi_NodeJSVersion = texts ''node-version'',
      pi_CorepackVersion = corepack, pi_InvocationID = githubRunInvocationURI w, pi_StartedOn = bm_StartedOn metadata,
      pi_FinishedOn = bm_FinishedOn metadata, pi_RuntimeReleaseRef = fst pair, pi_PeeledReleaseRevision = snd pair\<rparr>"

text \<open>Up to the Statement.\<close>

definition statement_to_sign ::
  "report_tools \<Rightarrow> command_world \<Rightarrow> ('p, 'b, 'm) sign_parts \<Rightarrow> (string \<Rightarrow> string)
    \<Rightarrow> (BuildMetadata \<times> ProvenanceSigningInput) act" where
  "statement_to_sign tools w jp texts =
     bind_step (job_inputs w jp texts) (\<lambda>metadata.
     bind_step (return_step (DecodeExternalParameters (jp_libraries jp) (bm_ExternalParameters metadata))) (\<lambda>parameters.
     bind_step (return_step
       (if pk_Name (ep_Package parameters) \<noteq> texts ''package-name''
           \<or> pb_ResolvedRegistryURL (ep_Publish parameters) \<noteq> texts ''registry-url'' then
          Inl (ErrText ''signing preflight inputs differ from signed build metadata'' [])
        else built_pair w texts)) (\<lambda>pair.
     bind_step (preflight_step tools w jp (texts ''registry-url'') (texts ''package-name'')) (\<lambda>exchange.
     bind_step (return_step
       (if oe_WorkflowFilename exchange \<noteq> cp_WorkflowFilename (ep_Caller parameters) then
          Inl (ErrText ''OIDC caller workflow differs from signed build metadata'' [])
        else observed_corepack parameters (texts ''corepack-version''))) (\<lambda>corepack.
     bind_step (or_else (NewProvenanceSigningInput (jp_libraries jp) (sign_input w texts metadata parameters corepack pair))
       (writeNPMProfileSignPolicyError tools w)) (\<lambda>signingInput.
     return_step (Inr (metadata, signingInput))))))))"

text \<open>The signature.\<close>

definition record_statement_hash :: "string \<Rightarrow> 'a act \<Rightarrow> 'a act" where
  "record_statement_hash statement m h =
     (case m h of
        (Inl err, h') \<Rightarrow>
          (Inl (ErrWrap ''%w (statement-sha256=%s)'' [SHA256_String (SumSHA256 statement)] [err]), h')
      | (Inr x, h') \<Rightarrow> (Inr x, h'))"

definition sign_step ::
  "report_tools \<Rightarrow> command_world \<Rightarrow> ('p, 'b, 'm) sign_parts \<Rightarrow> signing_Request \<Rightarrow> signing_Result act" where
  "sign_step tools w jp request h =
     (SignGitHubActions (jp_sigstore jp) (jp_signer jp) (rt_transform tools) (cw_LookupEnv w) (jp_get jp)
        (Some (cw_cancelled w h)) request, h @ [Looked ''sign''])"

definition signed_statement ::
  "report_tools \<Rightarrow> command_world \<Rightarrow> ('p, 'b, 'm) sign_parts \<Rightarrow> (string \<Rightarrow> string) \<Rightarrow> (string \<times> string \<times> signing_Result) act" where
  "signed_statement tools w jp texts =
     bind_step (statement_to_sign tools w jp texts) (\<lambda>(metadata, signingInput).
     bind_step (return_step (githubSigningIdentity w (githubRunInvocationURI w))) (\<lambda>ident.
     bind_step (record_statement_hash (si_StatementJSON signingInput)
       (sign_step tools w jp \<lparr>sq_Statement = si_StatementJSON signingInput, sq_Identity = ident\<rparr>)) (\<lambda>result.
     return_step (Inr (pa_PayloadFileName (bm_PrimaryArtifact metadata), si_StatementJSON signingInput, result)))))"

text \<open>The bundle, in a directory that is empty.\<close>

definition ensureEmptyDirectory :: "string \<Rightarrow> file_tree \<Rightarrow> unit result" where
  "ensureEmptyDirectory path ft =
     (case ft_Lstat ft path of
        LstatEntry OtherEntry _ \<Rightarrow>
          if \<not> ft_IsDir ft path then
            Inl (ErrText ''provenance output directory must be an existing non-symlink directory'' [])
          else if ft_ReadDir ft path \<noteq> Inr [] then
            Inl (ErrText ''provenance output directory must be readable and empty'' [])
          else Inr ()
      | _ \<Rightarrow> Inl (ErrText ''provenance output directory must be an existing non-symlink directory'' []))"

definition bundle_path :: "(string \<Rightarrow> string) \<Rightarrow> string \<Rightarrow> string" where
  "bundle_path texts payload = Join [texts ''output-directory'', payload @ ''.intoto.jsonl'']"

definition sign_outputs :: "string \<Rightarrow> signing_Result \<Rightarrow> (string \<times> string) list" where
  "sign_outputs path result =
     [(''bundle-path'', path), (''bundle-sha256'', SHA256_String (SumSHA256 (sr_Bundle result))), (''result'', ''pass''),
      (''statement-sha256'', SHA256_String (SumSHA256 (sr_Statement result)))]"

definition bundle_written :: "command_world \<Rightarrow> (string \<Rightarrow> string) \<Rightarrow> string \<Rightarrow> string \<Rightarrow> signing_Result \<Rightarrow> unit act" where
  "bundle_written w texts path statement result =
     record_statement_hash statement
       (bind_step (view_step w (texts ''output-directory'') (ensureEmptyDirectory (texts ''output-directory''))) (\<lambda>_.
        wrap_step ''write verified provenance bundle: %w'' (WriteFileAtomic w path (sr_Bundle result) private_mode)))"

definition sign_body ::
  "report_tools \<Rightarrow> command_world \<Rightarrow> ('p, 'b, 'm) sign_parts \<Rightarrow> (string \<Rightarrow> string) \<Rightarrow> string list \<Rightarrow> unit act" where
  "sign_body tools w jp texts others =
     (if others \<noteq> [] \<or> list_ex (\<lambda>name. texts name = []) sign_required then
        return_step (Inl (ErrText ''all required npm-profile-sign flags must be supplied with no positional arguments'' []))
      else
        bind_step (signed_statement tools w jp texts) (\<lambda>(payload, statement, result).
        bind_step (bundle_written w texts (bundle_path texts payload) statement result) (\<lambda>_.
        bind_step (WriteGitHubOutputs w (texts ''github-output'') npmProfileSignOutputs
          (sign_outputs (bundle_path texts payload) result)) (\<lambda>_.
        writeDiagnostics tools w (Some (githubRunInvocationURI w)) []))))"

definition npm_profile_sign ::
  "report_tools \<Rightarrow> command_world \<Rightarrow> ('p, 'b, 'm) sign_parts \<Rightarrow> string list \<Rightarrow> unit act" where
  "npm_profile_sign tools w jp args =
     bind_step (active_command w) (\<lambda>_.
       with_flags w (Some sign_usage) (text_flags sign_flags) (github_output_default w) args (sign_body tools w jp))"

section \<open>What was signed\<close>

definition inputs_verified ::
  "command_world \<Rightarrow> ('p, 'b, 'm) sign_parts \<Rightarrow> (string \<Rightarrow> string) \<Rightarrow> BuildMetadata \<Rightarrow> bool" where
  "inputs_verified w jp texts metadata \<longleftrightarrow>
     (\<exists>metadataBytes tarballBytes h1 h2.
        ParseSHA256 (texts ''metadata-sha256'') = Inr (SumSHA256 metadataBytes) \<and>
        VerifyOneFile (jp_digits jp) (cw_artifact w h1 (texts ''metadata-artifact-dir''))
          (handed_off (texts ''metadata-artifact-name'') ''build-metadata.json''
            ''application/vnd.windlass.npm-build-metadata.v1+json'' (SumSHA256 metadataBytes)) = Inr metadataBytes \<and>
        BuildMetadata_UnmarshalJSON metadataBytes = Inr metadata \<and>
        ParseSHA256 (texts ''tarball-sha256'') = Inr (SumSHA256 tarballBytes) \<and>
        VerifyOneFile (jp_digits jp) (cw_artifact w h2 (texts ''tarball-artifact-dir''))
          (handed_off (texts ''tarball-artifact-name'') (pa_PayloadFileName (bm_PrimaryArtifact metadata)) tarball_kind
            (SumSHA256 tarballBytes)) = Inr tarballBytes \<and>
        pa_SHA256 (bm_PrimaryArtifact metadata) = SHA256_String (SumSHA256 tarballBytes) \<and>
        pa_SHA512 (bm_PrimaryArtifact metadata) = SHA512_String (SumSHA512 tarballBytes))"

definition may_publish ::
  "report_tools \<Rightarrow> command_world \<Rightarrow> ('p, 'b, 'm) sign_parts \<Rightarrow> string \<Rightarrow> string \<Rightarrow> OIDCExchangeResult \<Rightarrow> bool" where
  "may_publish tools w jp registryURL packageName exchange \<longleftrightarrow>
     (\<exists>client report.
        NewOIDCClient (lib_lower (jp_libraries jp)) (jp_transport jp) None registryURL
          (Getenv w ''ACTIONS_ID_TOKEN_REQUEST_URL'') (Getenv w ''ACTIONS_ID_TOKEN_REQUEST_TOKEN'')
          (Getenv w ''GITHUB_WORKFLOW_REF'') = Inr client \<and>
        oidc_Preflight (rt_transform tools) (rt_sorter tools) (jp_oidc jp) client packageName = Some (exchange, report) \<and>
        rp_PrimaryID report = None \<and>
        (if slice_sort (rt_sorter tools) then
           identity_granted (jp_oidc jp) client
             \<lparr>oi_Token = oe_GitHubIdentityToken exchange, oi_WorkflowFilename = oe_WorkflowFilename exchange\<rparr> \<and>
           token_exchanged (jp_oidc jp) client packageName exchange
         else True))"

text \<open>The Statement of the metadata, and the signature over it.\<close>

definition provenance_signed ::
  "report_tools \<Rightarrow> command_world \<Rightarrow> ('p, 'b, 'm) sign_parts \<Rightarrow> (string \<Rightarrow> string) \<Rightarrow> string \<Rightarrow> signing_Result \<Rightarrow> bool" where
  "provenance_signed tools w jp texts payload result \<longleftrightarrow>
     (\<exists>metadata parameters pair exchange corepack si ident.
        inputs_verified w jp texts metadata \<and> payload = pa_PayloadFileName (bm_PrimaryArtifact metadata) \<and>
        DecodeExternalParameters (jp_libraries jp) (bm_ExternalParameters metadata) = Inr parameters \<and>
        pk_Name (ep_Package parameters) = texts ''package-name'' \<and>
        pb_ResolvedRegistryURL (ep_Publish parameters) = texts ''registry-url'' \<and>
        built_pair w texts = Inr pair \<and>
        may_publish tools w jp (texts ''registry-url'') (texts ''package-name'') exchange \<and>
        oe_WorkflowFilename exchange = cp_WorkflowFilename (ep_Caller parameters) \<and>
        NewProvenanceSigningInput (jp_libraries jp) (sign_input w texts metadata parameters corepack pair) = Inr si \<and>
        githubSigningIdentity w (githubRunInvocationURI w) = Inr ident \<and>
        signed_for (jp_sigstore jp) (jp_signer jp) (rt_transform tools) (cw_LookupEnv w) (jp_get jp)
          \<lparr>sq_Statement = si_StatementJSON si, sq_Identity = ident\<rparr> result)"

lemma artifact_step_Inr:
  "artifact_step nd w directory contract h = (Inr payload, h') \<Longrightarrow>
   VerifyOneFile nd (cw_artifact w h directory) contract = Inr payload \<and> SumSHA256 payload = hd_Value (ho_Digest contract)"
  by (auto simp: artifact_step_def VerifyOneFile_def sha256.equal_iff split: option.splits sum.splits list.splits if_splits)

lemma job_inputs_Inr:
  assumes "job_inputs w jp texts h = (Inr metadata, h')"
  shows "inputs_verified w jp texts metadata"
proof -
  from assms obtain metadataSum tarballSum metadataBytes tarballBytes h1 h2 where
    sums: "ParseSHA256 (texts ''metadata-sha256'') = Inr metadataSum" "ParseSHA256 (texts ''tarball-sha256'') = Inr tarballSum"
    and m: "artifact_step (jp_digits jp) w (texts ''metadata-artifact-dir'')
      (handed_off (texts ''metadata-artifact-name'') ''build-metadata.json''
        ''application/vnd.windlass.npm-build-metadata.v1+json'' metadataSum) h = (Inr metadataBytes, h1)"
    and decoded: "decode_build_metadata metadataBytes = Inr metadata"
    and t: "artifact_step (jp_digits jp) w (texts ''tarball-artifact-dir'')
      (handed_off (texts ''tarball-artifact-name'') (pa_PayloadFileName (bm_PrimaryArtifact metadata)) tarball_kind tarballSum) h1
      = (Inr tarballBytes, h2)"
    and same: "pa_SHA256 (bm_PrimaryArtifact metadata) = SHA256_String tarballSum"
      "pa_SHA512 (bm_PrimaryArtifact metadata) = SHA512_String (SumSHA512 tarballBytes)"
    by (auto simp: job_inputs_def split: if_splits)
  from decoded have "BuildMetadata_UnmarshalJSON metadataBytes = Inr metadata"
    by (auto simp: decode_build_metadata_def split: option.splits sum.splits)
  moreover from artifact_step_Inr [OF m] have "SumSHA256 metadataBytes = metadataSum" by (simp add: handed_off_def)
  moreover from artifact_step_Inr [OF t] have "SumSHA256 tarballBytes = tarballSum" by (simp add: handed_off_def)
  ultimately show ?thesis
    unfolding inputs_verified_def using sums same artifact_step_Inr [OF m] artifact_step_Inr [OF t] by blast
qed

lemma preflight_step_Inr:
  assumes "preflight_step tools w jp registryURL packageName h = (Inr exchange, h')"
  shows "may_publish tools w jp registryURL packageName exchange"
proof -
  define made where "made = NewOIDCClient (lib_lower (jp_libraries jp)) (jp_transport jp) None registryURL
      (Getenv w ''ACTIONS_ID_TOKEN_REQUEST_URL'') (Getenv w ''ACTIONS_ID_TOKEN_REQUEST_TOKEN'')
      (Getenv w ''GITHUB_WORKFLOW_REF'')"
  from assms obtain client where c: "made = Inr client" by (auto simp: preflight_step_def made_def)
  define answer where "answer = oidc_Preflight (rt_transform tools) (rt_sorter tools) (jp_oidc jp) client packageName"
  from assms c have answered: "bind_step (part_step ''preflight'' (case answer of None \<Rightarrow> Inl (ErrText ''panic'' []) | Some a \<Rightarrow> Inr a))
      (\<lambda>(e, report). if rp_PrimaryID report \<noteq> None then
         bind_step (WriteReport tools w report) (\<lambda>_. return_step (Inl ErrVerificationFailure))
       else return_step (Inr e)) h = (Inr exchange, h')"
    by (simp add: preflight_step_def made_def [symmetric] answer_def bind_step_def [of "return_step (Inr client)"] return_step_def)
  then obtain e report where p: "answer = Some (e, report)" by (cases answer) (auto simp: part_step_def bind_step_def)
  with answered have none: "rp_PrimaryID report = None" and "e = exchange" by (auto split: if_splits)
  with p have p: "oidc_Preflight (rt_transform tools) (rt_sorter tools) (jp_oidc jp) client packageName = Some (exchange, report)"
    by (simp add: answer_def)
  have "identity_granted (jp_oidc jp) client
      \<lparr>oi_Token = oe_GitHubIdentityToken exchange, oi_WorkflowFilename = oe_WorkflowFilename exchange\<rparr> \<and>
    token_exchanged (jp_oidc jp) client packageName exchange" if "slice_sort (rt_sorter tools)"
    using oidc_Preflight_sound [where transform = "rt_transform tools" and world = "jp_oidc jp" and client = client
      and packageName = packageName, OF that] p none by simp
  with c [unfolded made_def] p none show ?thesis unfolding may_publish_def by auto
qed

lemma never_sign_policy: "never_succeeds (writeNPMProfileSignPolicyError tools w err)"
  by (auto simp: never_succeeds_def writeNPMProfileSignPolicyError_def report_failure_def split: option.splits)

lemma record_statement_hash_Inr [simp]: "record_statement_hash statement m h = (Inr x, h') \<longleftrightarrow> m h = (Inr x, h')"
  by (auto simp: record_statement_hash_def split: prod.splits sum.splits)

lemma statement_to_sign_Inr:
  assumes "statement_to_sign tools w jp texts h = (Inr (metadata, si), h')"
  shows "\<exists>parameters pair exchange corepack. inputs_verified w jp texts metadata \<and>
    DecodeExternalParameters (jp_libraries jp) (bm_ExternalParameters metadata) = Inr parameters \<and>
    pk_Name (ep_Package parameters) = texts ''package-name'' \<and>
    pb_ResolvedRegistryURL (ep_Publish parameters) = texts ''registry-url'' \<and>
    built_pair w texts = Inr pair \<and> may_publish tools w jp (texts ''registry-url'') (texts ''package-name'') exchange \<and>
    oe_WorkflowFilename exchange = cp_WorkflowFilename (ep_Caller parameters) \<and>
    NewProvenanceSigningInput (jp_libraries jp) (sign_input w texts metadata parameters corepack pair) = Inr si"
proof -
  from assms obtain parameters pair exchange corepack h1 h2 where
    j: "job_inputs w jp texts h = (Inr metadata, h1)"
    and d: "DecodeExternalParameters (jp_libraries jp) (bm_ExternalParameters metadata) = Inr parameters"
    and n: "(if pk_Name (ep_Package parameters) \<noteq> texts ''package-name''
        \<or> pb_ResolvedRegistryURL (ep_Publish parameters) \<noteq> texts ''registry-url'' then
        Inl (ErrText ''signing preflight inputs differ from signed build metadata'' []) else built_pair w texts) = Inr pair"
    and e: "preflight_step tools w jp (texts ''registry-url'') (texts ''package-name'') h1 = (Inr exchange, h2)"
    and f: "(if oe_WorkflowFilename exchange \<noteq> cp_WorkflowFilename (ep_Caller parameters) then
        Inl (ErrText ''OIDC caller workflow differs from signed build metadata'' [])
      else observed_corepack parameters (texts ''corepack-version'')) = Inr corepack"
    and s: "NewProvenanceSigningInput (jp_libraries jp) (sign_input w texts metadata parameters corepack pair) = Inr si"
    by (auto simp: statement_to_sign_def or_else_Inr never_sign_policy simp del: if_split_asm)
  from n have named: "pk_Name (ep_Package parameters) = texts ''package-name''"
    "pb_ResolvedRegistryURL (ep_Publish parameters) = texts ''registry-url''" "built_pair w texts = Inr pair"
    by (auto split: if_splits)
  from f have "oe_WorkflowFilename exchange = cp_WorkflowFilename (ep_Caller parameters)" by (auto split: if_splits)
  with named job_inputs_Inr [OF j] d preflight_step_Inr [OF e] s show ?thesis by blast
qed

lemma signed_statement_Inr:
  assumes "signed_statement tools w jp texts h = (Inr (payload, statement, result), h')"
  shows "provenance_signed tools w jp texts payload result"
proof -
  from assms obtain metadata si ident h1 h2 where
    st: "statement_to_sign tools w jp texts h = (Inr (metadata, si), h1)"
    and ident: "githubSigningIdentity w (githubRunInvocationURI w) = Inr ident"
    and sign: "sign_step tools w jp \<lparr>sq_Statement = si_StatementJSON si, sq_Identity = ident\<rparr> h1 = (Inr result, h2)"
    and payload: "payload = pa_PayloadFileName (bm_PrimaryArtifact metadata)"
    by (auto simp: signed_statement_def)
  from sign have "SignGitHubActions (jp_sigstore jp) (jp_signer jp) (rt_transform tools) (cw_LookupEnv w) (jp_get jp)
      (Some (cw_cancelled w h1)) \<lparr>sq_Statement = si_StatementJSON si, sq_Identity = ident\<rparr> = Inr result"
    by (simp add: sign_step_def)
  from SignGitHubActions_signed [OF this] statement_to_sign_Inr [OF st] ident payload
  show ?thesis unfolding provenance_signed_def by blast
qed

section \<open>What the job leaves\<close>

lemma keeps_report_failure: "keeps reporting (report_failure tools w ident check message)"
  unfolding report_failure_def by (intro keeps_bind keeps_return keeps_report)

lemma keeps_artifact: "keeps reporting (artifact_step nd w directory contract)"
  by (auto simp: keeps_def artifact_step_def)

lemma keeps_sign: "keeps reporting (sign_step tools w jp request)"
  by (auto simp: keeps_def sign_step_def)

lemma keeps_record: "keeps P m \<Longrightarrow> keeps P (record_statement_hash statement m)"
proof -
  have "snd (record_statement_hash statement m h) = snd (m h)" for h
    by (simp add: record_statement_hash_def split: prod.split sum.split)
  then show "keeps P m \<Longrightarrow> keeps P (record_statement_hash statement m)" by (simp add: keeps_def)
qed

lemma keeps_job_inputs: "keeps reporting (job_inputs w jp texts)"
  unfolding job_inputs_def by (intro keeps_bind keeps_return keeps_wrap keeps_artifact)

lemma keeps_preflight: "keeps reporting (preflight_step tools w jp registryURL packageName)"
  unfolding preflight_step_def
  by (auto intro!: keeps_bind keeps_return keeps_part keeps_report split: prod.split)

lemma keeps_sign_policy: "keeps reporting (writeNPMProfileSignPolicyError tools w err)"
  by (simp add: writeNPMProfileSignPolicyError_def keeps_return keeps_report_failure split: option.split)

lemma keeps_signed: "keeps reporting (signed_statement tools w jp texts)"
  unfolding signed_statement_def statement_to_sign_def
  by (auto intro!: keeps_bind keeps_return keeps_record keeps_sign keeps_job_inputs keeps_preflight keeps_or_else keeps_sign_policy
      split: prod.split)

text \<open>The bundle: an empty directory is seen, then the file is replaced.\<close>

lemma bundle_written_harmless:
  assumes fresh: "fresh_names w path" and run: "bundle_written w texts path statement result h = (r, h')"
  shows "\<exists>es. h' = h @ es \<and> harmless path (sr_Bundle result) (initially path) r es initially"
proof (cases "ensureEmptyDirectory (texts ''output-directory'') (cw_tree w h)")
  case (Inl err)
  with run have "h' = h @ [Looked (texts ''output-directory'')]" "isl r"
    by (auto simp: bundle_written_def record_statement_hash_def bind_step_def view_step_def)
  then show ?thesis by (auto simp: harmless_def old_or_whole_def)
next
  case (Inr u)
  obtain s h1 where w: "WriteFileAtomic w path (sr_Bundle result) private_mode (h @ [Looked (texts ''output-directory'')]) = (s, h1)"
    by (cases "WriteFileAtomic w path (sr_Bundle result) private_mode (h @ [Looked (texts ''output-directory'')])")
  with run Inr have same: "h' = h1" "is_ok r = is_ok s"
    by (auto simp: bundle_written_def record_statement_hash_def bind_step_def view_step_def wrap_step_def split: sum.splits)
  from WriteFileAtomic_harmless [OF fresh w, of initially] obtain es where
    "h1 = (h @ [Looked (texts ''output-directory'')]) @ es" "harmless path (sr_Bundle result) (initially path) s es initially" by blast
  with same have "h' = h @ (Looked (texts ''output-directory'') # es)
      \<and> harmless path (sr_Bundle result) (initially path) r (Looked (texts ''output-directory'') # es) initially"
    by (auto simp: harmless_def old_or_whole_def)
  then show ?thesis by blast
qed

lemma bundle_written_extends: "extends (bundle_written w texts path statement result)"
proof -
  have "extends (bind_step (view_step w (texts ''output-directory'') (ensureEmptyDirectory (texts ''output-directory''))) (\<lambda>_.
      wrap_step ''write verified provenance bundle: %w'' (WriteFileAtomic w path (sr_Bundle result) private_mode)))"
    by (intro extends_bind extends_wrap WriteFileAtomic_extends) (auto simp: extends_def view_step_def)
  moreover have "snd (record_statement_hash statement m h) = snd (m h)" for m :: "unit act" and h
    by (simp add: record_statement_hash_def split: prod.split sum.split)
  ultimately show ?thesis by (simp add: bundle_written_def extends_def)
qed

text \<open>
  What a job that signed may do afterwards: replace the file of the bundle, whole or not at all, and once it is there append one
  text for the runner and report.
\<close>

definition bundle_handed_on ::
  "command_world \<Rightarrow> string \<Rightarrow> (string \<times> string) list \<Rightarrow> string \<Rightarrow> string \<Rightarrow> 'a result \<Rightarrow> command_event list
    \<Rightarrow> (string \<Rightarrow> stored) \<Rightarrow> bool" where
  "bundle_handed_on w path outputs out_path bytes r es initially \<longleftrightarrow>
     (\<exists>looks replacing later. es = looks @ replacing @ later \<and> list_all reporting looks \<and>
        (if fresh_names w path then
           at_every_moment (\<lambda>disk. disk path \<in> {initially path, Holding bytes True}) initially replacing \<and>
           (if is_ok r \<or> later \<noteq> [] then disk_after replacing initially path = Holding bytes True else True)
         else True) \<and>
        list_all (reporting_or_appending out_path (encoded_outputs outputs)) later \<and>
        (if is_ok r then
           Did (WriteTo out_path (encoded_outputs outputs)) \<in> set later \<and>
           runner_outputs (encoded_outputs outputs) = Some (sort_key fst outputs)
         else True))"

lemma handed_on_steps:
  assumes run: "bind_step m (\<lambda>_. bind_step (WriteGitHubOutputs w out_path allowlist outputs) (\<lambda>_. ending)) h = (r, h')"
    and m: "extends m"
    and harm: "\<And>r1 h1. fresh_names w path \<Longrightarrow> m h = (r1, h1) \<Longrightarrow>
      \<exists>es. h1 = h @ es \<and> harmless path bytes (initially path) r1 es initially"
    and ending: "keeps reporting ending"
    and outputs: "outputs \<noteq> []" and looks: "list_all reporting looks"
  shows "\<exists>es. h' = h @ es \<and> bundle_handed_on w path outputs out_path bytes r (looks @ es) initially"
proof -
  obtain r1 h1 where b: "m h = (r1, h1)" by (cases "m h")
  from extends_run [OF m b] obtain es1 where es1: "h1 = h @ es1" by blast
  have harm: "harmless path bytes (initially path) r1 es1 initially" if "fresh_names w path"
    using harm [OF that b] es1 by auto
  show ?thesis
  proof (cases r1)
    case (Inl err)
    with run b have "r = Inl err" "h' = h1" by (simp_all add: bind_step_def)
    have "bundle_handed_on w path outputs out_path bytes r (looks @ es1) initially"
      unfolding bundle_handed_on_def
      using harm Inl looks \<open>r = Inl err\<close>
      by (intro exI [of _ looks] exI [of _ es1] exI [of _ "[]"]) (auto simp: harmless_def old_or_whole_def [abs_def])
    with es1 \<open>h' = h1\<close> show ?thesis by blast
  next
    case (Inr u)
    obtain r2 h2 where o: "WriteGitHubOutputs w out_path allowlist outputs h1 = (r2, h2)"
      by (cases "WriteGitHubOutputs w out_path allowlist outputs h1")
    from keeps_run [OF keeps_outputs o] obtain es2 where es2: "h2 = h1 @ es2"
        "list_all (reporting_or_appending out_path (encoded_outputs outputs)) es2" by blast
    have "\<exists>es3. h' = h2 @ es3 \<and> list_all reporting es3 \<and> (is_ok r \<longrightarrow> is_ok r2)"
    proof (cases r2)
      case (Inl err)
      with run b Inr o show ?thesis by (auto simp: bind_step_def)
    next
      case ok: (Inr v)
      with run b Inr o have "ending h2 = (r, h')" by (simp add: bind_step_def)
      from keeps_run [OF ending this] ok show ?thesis by auto
    qed
    then obtain es3 where es3: "h' = h2 @ es3" "list_all reporting es3" "is_ok r \<longrightarrow> is_ok r2" by blast
    have later: "list_all (reporting_or_appending out_path (encoded_outputs outputs)) (es2 @ es3)"
      using es2(2) es3(2) by (auto simp: list_all_iff reporting_or_appending_def)
    have said: "Did (WriteTo out_path (encoded_outputs outputs)) \<in> set (es2 @ es3) \<and>
        runner_outputs (encoded_outputs outputs) = Some (sort_key fst outputs)" if "is_ok r"
    proof -
      from that es3(3) obtain v where "r2 = Inr v" by (auto simp: is_ok_iff)
      with o have o': "WriteGitHubOutputs w out_path allowlist outputs h1 = (Inr v, h2)" by simp
      from WriteGitHubOutputs_Inr(2) [OF o' outputs] obtain seen where
        "h2 = h1 @ seen @ [Did (WriteTo out_path (encoded_outputs outputs)), Did (CloseFile out_path)]" by blast
      with es2(1) have "es2 = seen @ [Did (WriteTo out_path (encoded_outputs outputs)), Did (CloseFile out_path)]" by simp
      with encoded_outputs_read [OF WriteGitHubOutputs_Inr(1) [OF o' outputs]] show ?thesis by simp
    qed
    have "h' = h @ (es1 @ es2 @ es3)" using es1 es2(1) es3(1) by simp
    moreover have "bundle_handed_on w path outputs out_path bytes r (looks @ es1 @ es2 @ es3) initially"
      unfolding bundle_handed_on_def
      using harm Inr looks later said
      by (intro exI [of _ looks] exI [of _ es1] exI [of _ "es2 @ es3"])
        (auto simp: harmless_def old_or_whole_def [abs_def])
    ultimately show ?thesis by blast
  qed
qed

lemma sign_body_handed_on:
  assumes run: "sign_body tools w jp texts others h = (r, h')"
  shows "\<exists>es. h' = h @ es \<and>
    (if isl r \<and> list_all reporting es then True
     else others = [] \<and> (\<exists>payload result. provenance_signed tools w jp texts payload result \<and>
       bundle_handed_on w (bundle_path texts payload) (sign_outputs (bundle_path texts payload) result) (texts ''github-output'')
         (sr_Bundle result) r es initially))"
proof (cases "others \<noteq> [] \<or> list_ex (\<lambda>name. texts name = []) sign_required")
  case True
  with run have "isl r" "h' = h" by (auto simp: sign_body_def return_step_def)
  then show ?thesis by simp
next
  case False
  obtain r1 h1 where v: "signed_statement tools w jp texts h = (r1, h1)" by (cases "signed_statement tools w jp texts h")
  from keeps_run [OF keeps_signed v] obtain es1 where es1: "h1 = h @ es1" "list_all reporting es1" by blast
  show ?thesis
  proof (cases r1)
    case (Inl err)
    with run v False have "r = Inl err" "h' = h1" by (auto simp: sign_body_def bind_step_def)
    with es1 show ?thesis by simp
  next
    case (Inr p)
    obtain payload statement result where p: "p = (payload, statement, result)" by (cases p) auto
    from v Inr p have signed: "provenance_signed tools w jp texts payload result" by (blast intro: signed_statement_Inr)
    have "bind_step (bundle_written w texts (bundle_path texts payload) statement result) (\<lambda>_.
        bind_step (WriteGitHubOutputs w (texts ''github-output'') npmProfileSignOutputs
          (sign_outputs (bundle_path texts payload) result)) (\<lambda>_.
        writeDiagnostics tools w (Some (githubRunInvocationURI w)) [])) h1 = (r, h')"
      using run v False Inr p by (simp add: sign_body_def bind_step_def [of "signed_statement tools w jp texts"])
    note steps = this
    have harm: "\<exists>es. h2 = h1 @ es \<and> harmless (bundle_path texts payload) (sr_Bundle result) (initially (bundle_path texts payload)) r2 es initially"
      if "fresh_names w (bundle_path texts payload)" "bundle_written w texts (bundle_path texts payload) statement result h1 = (r2, h2)"
      for r2 h2 using bundle_written_harmless [OF that] .
    have "sign_outputs (bundle_path texts payload) result \<noteq> []" by (simp add: sign_outputs_def)
    from handed_on_steps [where initially = initially, OF steps bundle_written_extends harm keeps_diagnostics this es1(2)]
    obtain es2 where es2: "h' = h1 @ es2"
        "bundle_handed_on w (bundle_path texts payload) (sign_outputs (bundle_path texts payload) result) (texts ''github-output'')
          (sr_Bundle result) r (es1 @ es2) initially" by blast
    from es1(1) es2(1) have "h' = h @ (es1 @ es2)" by simp
    with es2(2) signed False show ?thesis by auto
  qed
qed

text \<open>
  C18: The sign job signs what was built, and leaves a bundle only for that.  Whatever the artifacts, the servers, the environment and
  sigstore are: unless it was asked for help, it succeeds, or changes any file, only after a signature over the very Statement of the
  metadata whose bytes have the digest it was given, for the tarball with both digests the metadata records, bound to the ref and
  revision that were built, for the package and registry that the registry's early exchange granted to this workflow, and under
  the identity of this run.  The bundle then appears whole and durable under the payload's name or not at all; only after
  that the outputs are appended, and the runner reads from them the digests of this bundle and Statement.
\<close>

theorem sign_job_sound:
  "case npm_profile_sign tools w jp args h of
     (r, h') \<Rightarrow> \<exists>es. h' = h @ es \<and>
       (case parse_flags (text_flags sign_flags) (github_output_default w) args of
          FlagsParsed texts others \<Rightarrow>
            (if isl r \<and> list_all reporting es then True
             else others = [] \<and> (\<exists>payload result. provenance_signed tools w jp texts payload result \<and>
               bundle_handed_on w (bundle_path texts payload) (sign_outputs (bundle_path texts payload) result)
                 (texts ''github-output'') (sr_Bundle result) r es initially))
        | FlagHelp \<Rightarrow> list_all reporting es
        | FlagsRejected _ \<Rightarrow> isl r \<and> es = [])"
proof (cases "cw_cancelled w h")
  case True
  then show ?thesis by (auto simp: npm_profile_sign_def bind_step_def active_command_def split: flag_outcome.split)
next
  case False
  then have run: "npm_profile_sign tools w jp args h =
      with_flags w (Some sign_usage) (text_flags sign_flags) (github_output_default w) args (sign_body tools w jp) h"
    by (simp add: npm_profile_sign_def bind_step_def active_command_def)
  show ?thesis
  proof (cases "parse_flags (text_flags sign_flags) (github_output_default w) args")
    case (FlagsParsed texts others)
    obtain r h' where body: "sign_body tools w jp texts others h = (r, h')" by (cases "sign_body tools w jp texts others h")
    from sign_body_handed_on [OF body, of initially] run FlagsParsed body show ?thesis by (simp add: with_flags_def)
  next
    case FlagHelp
    with run show ?thesis using keeps_usage [of w sign_usage] by (simp add: with_flags_def keeps_def split_beta)
  next
    case (FlagsRejected err)
    with run show ?thesis by (simp add: with_flags_def return_step_def)
  qed
qed

end
