(* ===== verification/PublishCommand.thy ===== *)
theory PublishCommand
  imports SignCommand PublishSpec PublishVerifier
begin

text \<open>
  internal/command/npm_profile_publish.go: the publish job.  It takes the tarball and its bundle by their digests, makes the
  early exchange once more, has the publication done with the sigstore verifier of this run, and keeps the outcome in a report
  and in outputs for the runner.
\<close>

section \<open>The job\<close>







section \<open>The publication\<close>









section \<open>The outcome\<close>










section \<open>What the job leaves\<close>








section \<open>From the artifacts to the outputs\<close>










end
